(* ===== verification/Prelude.thy ===== *)
theory Prelude
  imports Complex_Main "HOL-Library.Word"
begin

text \<open>
  The vocabulary shared by every component: machine integers and byte buffers, the two
  byte orders the wire formats use, slices and in-place writes of a buffer, saturating
  arithmetic, time, and the interface of a fixed-width codec.

  Conventions. A Rust \<open>u8\<close>, \<open>u16\<close>, \<open>u32\<close>, \<open>u64\<close> is a word of that width, so that
  \<open>+\<close> wraps; a \<open>usize\<close> that counts bytes or elements is a \<open>nat\<close>. An \<open>Instant\<close> and a
  \<open>Duration\<close> are natural numbers of nanoseconds, and truncating subtraction on them is
  exactly \<open>Instant::duration_since\<close>, which saturates at zero. A fallible function returns
  \<open>error + value\<close> or an \<open>option\<close>.
\<close>

unbundle bit_operations_syntax

type_synonym u8 = "8 word"
type_synonym u16 = "16 word"
type_synonym u32 = "32 word"
type_synonym u64 = "64 word"
type_synonym bytes = "u8 list"

datatype ip_addr = V4 u32 | V6 "128 word"

fun is_ipv6 :: "ip_addr \<Rightarrow> bool" where
  "is_ipv6 (V4 _) = False"
| "is_ipv6 (V6 _) = True"

type_synonym socket_addr = "ip_addr \<times> u16"

text \<open>\<open>w as f64\<close> reads the word as a natural number first; keep that shape.\<close>

declare of_nat_unat [simp del]

named_theorems wire_simps "layout facts about buffers and encoded integers"

section \<open>Time\<close>

type_synonym instant = nat
type_synonym duration = nat

definition from_secs :: "nat \<Rightarrow> duration" where
  "from_secs n = n * 1000000000"

definition from_millis :: "nat \<Rightarrow> duration" where
  "from_millis n = n * 1000000"

definition as_millis :: "duration \<Rightarrow> nat" where
  "as_millis d = d div 1000000"

definition as_secs :: "duration \<Rightarrow> nat" where
  "as_secs d = d div 1000000000"

lemma as_millis_from_millis [simp]: "as_millis (from_millis n) = n"
  by (simp add: as_millis_def from_millis_def)

lemma as_secs_from_secs [simp]: "as_secs (from_secs n) = n"
  by (simp add: as_secs_def from_secs_def)

lemma from_secs_less_iff [simp]: "from_secs a < from_secs b \<longleftrightarrow> a < b"
  by (simp add: from_secs_def)

section \<open>Saturating and ceiling arithmetic\<close>

definition sat_sub :: "'a::len word \<Rightarrow> 'a word \<Rightarrow> 'a word" where
  "sat_sub a b = (if a < b then 0 else a - b)"

definition sat_add :: "'a::len word \<Rightarrow> 'a word \<Rightarrow> 'a word" where
  "sat_add a b = (if unat a + unat b < 2 ^ LENGTH('a) then a + b else - 1)"

lemma unat_sat_sub: "unat (sat_sub a b) = unat a - unat b"
  by (auto simp: sat_sub_def unat_sub word_less_nat_alt word_le_nat_alt not_less)

lemma unat_max_word: "unat (- 1 :: 'a::len word) = 2 ^ LENGTH('a) - 1"
  by transfer (simp add: take_bit_minus_one_eq_mask nat_mask_eq mask_eq_exp_minus_1 nat_diff_distrib nat_power_eq)

lemma unat_sat_add:
  "unat (sat_add a b) = min (unat a + unat b) (2 ^ LENGTH('a) - 1)" for a b :: "'a::len word"
  by (auto simp: sat_add_def unat_word_ariths unat_max_word min_def)

lemma unat_inc: "a < b \<Longrightarrow> unat (a + 1) = Suc (unat a)" for a b :: "'a::len word"
proof -
  assume "a < b"
  then have "unat a < unat b" by (simp add: word_less_nat_alt)
  moreover have "unat b < 2 ^ LENGTH('a)" by simp
  ultimately have "Suc (unat a) < 2 ^ LENGTH('a)" by linarith
  then show ?thesis by (simp add: unat_word_ariths)
qed

lemma unat_dec: "0 < unat a \<Longrightarrow> unat (a - 1) = unat a - 1" for a :: "'a::len word"
proof -
  assume "0 < unat a"
  then have "1 \<le> a" by (simp add: word_le_nat_alt)
  then show ?thesis by (simp add: unat_sub)
qed

definition div_ceil :: "nat \<Rightarrow> nat \<Rightarrow> nat" where
  "div_ceil a b = (if a mod b = 0 then a div b else a div b + 1)"

lemma div_ceil_cases:
  assumes "0 < b"
  obtains (exact) q where "a = q * b" and "div_ceil a b = q"
    | (partial) q r where "a = q * b + r" and "0 < r" and "r < b" and "div_ceil a b = q + 1"
proof (cases "a mod b = 0")
  case True
  then show ?thesis using that(1) [of "a div b"] by (auto simp: div_ceil_def)
next
  case False
  then show ?thesis
    using that(2) [of "a div b" "a mod b"] assms by (simp add: div_ceil_def)
qed

lemma div_ceil_mult_ge: "0 < b \<Longrightarrow> a \<le> div_ceil a b * b"
  by (erule div_ceil_cases [of b a]) (simp_all add: algebra_simps)

lemma div_ceil_pos_iff:
  assumes "0 < b" shows "0 < div_ceil a b \<longleftrightarrow> 0 < a"
  by (rule div_ceil_cases [OF assms, of a]) (use assms in auto)

lemma div_ceil_0 [simp]: "div_ceil 0 b = 0"
  by (simp add: div_ceil_def)

lemma div_ceil_pred_mult_less: "0 < b \<Longrightarrow> 0 < a \<Longrightarrow> (div_ceil a b - 1) * b < a"
  by (erule div_ceil_cases [of b a]) (auto simp: algebra_simps)

section \<open>Buffers: slices and in-place writes\<close>

text \<open>\<open>buf[i..j]\<close>, and \<open>buf[off..off+n].copy_from_slice(bs)\<close> on a buffer that is long enough.\<close>

definition slice :: "nat \<Rightarrow> nat \<Rightarrow> 'a list \<Rightarrow> 'a list" where
  "slice i j xs = take (j - i) (drop i xs)"

definition splice :: "nat \<Rightarrow> 'a list \<Rightarrow> 'a list \<Rightarrow> 'a list" where
  "splice off bs buf = take off buf @ bs @ drop (off + length bs) buf"

lemma length_slice [simp]: "j \<le> length xs \<Longrightarrow> length (slice i j xs) = j - i"
  by (simp add: slice_def)

lemma length_splice [simp]: "off + length bs \<le> length buf \<Longrightarrow> length (splice off bs buf) = length buf"
  by (simp add: splice_def)

lemma nth_splice:
  "off + length bs \<le> length buf \<Longrightarrow> i < length buf \<Longrightarrow>
   splice off bs buf ! i = (if off \<le> i \<and> i < off + length bs then bs ! (i - off) else buf ! i)"
  by (auto simp: splice_def nth_append min_def)

lemma slice_nth: "i < j - a \<Longrightarrow> j \<le> length xs \<Longrightarrow> slice a j xs ! i = xs ! (a + i)"
  by (simp add: slice_def)

lemma slice_splice_same:
  "off + length bs \<le> length buf \<Longrightarrow> j = off + length bs \<Longrightarrow> slice off j (splice off bs buf) = bs"
  by (simp add: slice_def splice_def)

lemma slice_splice_other:
  assumes "off + length bs \<le> length buf" "j \<le> length buf" "j \<le> off \<or> off + length bs \<le> i"
  shows "slice i j (splice off bs buf) = slice i j buf"
  by (rule nth_equalityI) (use assms in \<open>auto simp: slice_nth nth_splice\<close>)

lemma slice_all: "slice 0 (length xs) xs = xs"
  by (simp add: slice_def)

lemma sorted_le_last: "sorted (x # xs) \<Longrightarrow> x \<le> last (x # xs)"
  by (cases xs rule: rev_cases) auto

text \<open>Counting the indices whose entry satisfies a predicate, across one update.\<close>

lemma card_fun_upd:
  assumes "finite {i. P (f i)}"
  shows "card {i. P ((f(t := x)) i)} + (if P (f t) then 1 else 0) =
    card {i. P (f i)} + (if P x then 1 else 0)"
proof -
  define R where "R = {i. P (f i)} - {t}"
  have new: "{i. P ((f(t := x)) i)} = (if P x then insert t R else R)" by (auto simp: R_def)
  have old: "{i. P (f i)} = (if P (f t) then insert t R else R)" by (auto simp: R_def)
  have "finite R" "t \<notin> R" using assms by (auto simp: R_def)
  then show ?thesis unfolding new old by simp
qed

section \<open>Fixed-width integers on the wire\<close>

definition be32_bytes :: "u32 \<Rightarrow> bytes" where
  "be32_bytes w = [ucast (drop_bit 24 w), ucast (drop_bit 16 w), ucast (drop_bit 8 w), ucast w]"

fun be32_of :: "bytes \<Rightarrow> u32" where
  "be32_of [a, b, c, d] =
     push_bit 24 (ucast a) OR push_bit 16 (ucast b) OR push_bit 8 (ucast c) OR ucast d"
| "be32_of _ = 0"

definition le32_bytes :: "u32 \<Rightarrow> bytes" where
  "le32_bytes w = [ucast w, ucast (drop_bit 8 w), ucast (drop_bit 16 w), ucast (drop_bit 24 w)]"

fun le32_of :: "bytes \<Rightarrow> u32" where
  "le32_of [a, b, c, d] =
     ucast a OR push_bit 8 (ucast b) OR push_bit 16 (ucast c) OR push_bit 24 (ucast d)"
| "le32_of _ = 0"

definition be16_bytes :: "u16 \<Rightarrow> bytes" where
  "be16_bytes w = [ucast (drop_bit 8 w), ucast w]"

fun be16_of :: "bytes \<Rightarrow> u16" where
  "be16_of [a, b] = push_bit 8 (ucast a) OR ucast b"
| "be16_of _ = 0"

definition be64_bytes :: "u64 \<Rightarrow> bytes" where
  "be64_bytes w = be32_bytes (ucast (drop_bit 32 w)) @ be32_bytes (ucast w)"

lemma length_be32_bytes [simp]: "length (be32_bytes w) = 4"
  by (simp add: be32_bytes_def)

lemma length_le32_bytes [simp]: "length (le32_bytes w) = 4"
  by (simp add: le32_bytes_def)

lemma length_be16_bytes [simp]: "length (be16_bytes w) = 2"
  by (simp add: be16_bytes_def)

lemma length_be64_bytes [simp]: "length (be64_bytes w) = 8"
  by (simp add: be64_bytes_def)

lemma bit_ucast_less: "bit (ucast (a :: u8) :: 'b::len word) n \<Longrightarrow> n < 8"
  by (auto simp: bit_simps dest: bit_imp_le_length)

lemma be32_of_bytes [simp]: "be32_of (be32_bytes w) = w"
proof (rule bit_word_eqI)
  fix n assume "n < LENGTH(32)"
  then consider "n < 8" | "8 \<le> n" "n < 16" | "16 \<le> n" "n < 24" | "24 \<le> n" "n < 32"
    by fastforce
  then show "bit (be32_of (be32_bytes w)) n \<longleftrightarrow> bit w n"
    by cases (auto simp: be32_bytes_def bit_simps)
qed

lemma le32_of_bytes [simp]: "le32_of (le32_bytes w) = w"
proof (rule bit_word_eqI)
  fix n assume "n < LENGTH(32)"
  then consider "n < 8" | "8 \<le> n" "n < 16" | "16 \<le> n" "n < 24" | "24 \<le> n" "n < 32"
    by fastforce
  then show "bit (le32_of (le32_bytes w)) n \<longleftrightarrow> bit w n"
    by cases (auto simp: le32_bytes_def bit_simps)
qed

lemma be16_of_bytes [simp]: "be16_of (be16_bytes w) = w"
proof (rule bit_word_eqI)
  fix n assume "n < LENGTH(16)"
  then consider "n < 8" | "8 \<le> n" "n < 16" by fastforce
  then show "bit (be16_of (be16_bytes w)) n \<longleftrightarrow> bit w n"
    by cases (auto simp: be16_bytes_def bit_simps)
qed

lemma be32_bytes_of: "be32_bytes (be32_of [a, b, c, d]) = [a, b, c, d]"
proof -
  have small: "\<not> bit x (8 + n)" "\<not> bit x (16 + n)" "\<not> bit x (24 + n)" for x :: u8 and n
    by (auto dest!: bit_imp_le_length)
  show ?thesis
    by (auto simp: be32_bytes_def bit_eq_iff bit_simps small)
qed

lemma le32_bytes_of: "le32_bytes (le32_of [a, b, c, d]) = [a, b, c, d]"
proof -
  have small: "\<not> bit x (8 + n)" "\<not> bit x (16 + n)" "\<not> bit x (24 + n)" for x :: u8 and n
    by (auto dest!: bit_imp_le_length)
  show ?thesis
    by (auto simp: le32_bytes_def bit_eq_iff bit_simps small)
qed

section \<open>The interface of a fixed-width codec\<close>

text \<open>
  What a wire format promises its users: every value has an encoding of one fixed length,
  and decoding inverts encoding. A message is told apart by its bytes, and two messages sent
  back to back are read back apart.
\<close>

locale fixed_codec =
  fixes enc :: "'a \<Rightarrow> bytes" and dec :: "bytes \<Rightarrow> 'a option" and width :: nat
  assumes enc_width: "length (enc x) = width"
    and dec_enc: "dec (enc x) = Some x"
begin

lemma enc_inject: "enc x = enc y \<longleftrightarrow> x = y"
  by (metis dec_enc option.inject)

lemma dec_prefix: "dec (take width (enc x @ rest)) = Some x"
  by (simp add: enc_width dec_enc)

lemma append_split: "enc x @ r = enc y @ s \<longleftrightarrow> x = y \<and> r = s"
  by (simp add: enc_width enc_inject)

end

interpretation be32: fixed_codec be32_bytes "\<lambda>bs. if length bs = 4 then Some (be32_of bs) else None" 4
  by unfold_locales simp_all

interpretation le32: fixed_codec le32_bytes "\<lambda>bs. if length bs = 4 then Some (le32_of bs) else None" 4
  by unfold_locales simp_all

end
