(* ===== verification/Text.thy ===== *)
theory Text
  imports Prelude "HOL-Library.Sublist" "HOL-Library.Char_ord"
begin

text \<open>
  Rust's \<open>str\<close> as a list of bytes, and the string operations the source uses: prefixes and
  suffixes, splitting at a separator, ASCII case and white space, the decimal printing of
  an unsigned integer and \<open>str::parse::<u64>\<close>. A \<open>char\<close> here is one byte, and \<open>length\<close> is
  the byte length that \<open>str::len\<close> returns.
\<close>

named_theorems text_simps "unfolding of the string operations"

text \<open>The dash of the program's messages, three bytes in UTF-8.\<close>

definition em_dash :: string where
  "em_dash = map char_of [0xE2, 0x80, 0x94 :: nat]"

section \<open>Prefixes and suffixes\<close>

definition starts_with :: "'a list \<Rightarrow> 'a list \<Rightarrow> bool" where
  [text_simps]: "starts_with p s \<longleftrightarrow> take (length p) s = p"

definition strip_prefix :: "'a list \<Rightarrow> 'a list \<Rightarrow> 'a list option" where
  [text_simps]: "strip_prefix p s = (if starts_with p s then Some (drop (length p) s) else None)"

definition ends_with :: "'a list \<Rightarrow> 'a list \<Rightarrow> bool" where
  [text_simps]: "ends_with p s \<longleftrightarrow> length p \<le> length s \<and> drop (length s - length p) s = p"

lemma starts_with_iff: "starts_with p s \<longleftrightarrow> (\<exists>r. s = p @ r)"
  by (metis append_eq_conv_conj append_take_drop_id starts_with_def)

lemma strip_prefix_Some_iff: "strip_prefix p s = Some r \<longleftrightarrow> s = p @ r"
  by (auto simp: strip_prefix_def starts_with_iff)

lemma strip_prefix_append [simp]: "strip_prefix p (p @ r) = Some r"
  by (simp add: strip_prefix_Some_iff)

lemma strip_prefix_None_iff: "strip_prefix p s = None \<longleftrightarrow> \<not> starts_with p s"
  by (simp add: strip_prefix_def)

lemma ends_with_iff: "ends_with p s \<longleftrightarrow> (\<exists>r. s = r @ p)"
  by (metis append_eq_conv_conj append_take_drop_id diff_add_inverse2 drop_eq_Nil2
      ends_with_def le_add2 length_append)

lemma ends_with_single: "ends_with [c] s \<longleftrightarrow> s \<noteq> [] \<and> last s = c"
  by (cases s rule: rev_cases) (auto simp: ends_with_iff)

section \<open>Splitting\<close>

text \<open>\<open>s.split(c)\<close>: at least one piece, the empty string for an empty input.\<close>

fun split_on :: "'a \<Rightarrow> 'a list \<Rightarrow> 'a list list" where
  "split_on c [] = [[]]"
| "split_on c (x # xs) =
     (if x = c then [] # split_on c xs
      else (case split_on c xs of [] \<Rightarrow> [[x]] | y # ys \<Rightarrow> (x # y) # ys))"

fun join_with :: "'a list \<Rightarrow> 'a list list \<Rightarrow> 'a list" where
  "join_with sep [] = []"
| "join_with sep [x] = x"
| "join_with sep (x # y # ys) = x @ sep @ join_with sep (y # ys)"

lemma split_on_nonempty [simp]: "split_on c s \<noteq> []"
  by (induction s) (auto split: list.splits)

lemma join_split_on: "join_with [c] (split_on c s) = s"
proof (induction s)
  case (Cons x s)
  obtain y ys where y: "split_on c s = y # ys" by (cases "split_on c s") auto
  with Cons show ?case by (cases ys) auto
qed simp

lemma split_on_no_sep: "p \<in> set (split_on c s) \<Longrightarrow> c \<notin> set p"
proof (induction s arbitrary: p)
  case (Cons x s)
  obtain y ys where y: "split_on c s = y # ys" by (cases "split_on c s") auto
  with Cons show ?case by (auto split: if_splits)
qed simp

lemma split_on_free: "c \<notin> set s \<Longrightarrow> split_on c s = [s]"
  by (induction s) auto

lemma split_on_append: "c \<notin> set p \<Longrightarrow> split_on c (p @ c # s) = p # split_on c s"
  by (induction p) auto

text \<open>\<open>s.splitn(2, c)\<close>: the part before the first separator, and what follows it.\<close>

fun split_once :: "'a \<Rightarrow> 'a list \<Rightarrow> 'a list \<times> 'a list option" where
  "split_once c [] = ([], None)"
| "split_once c (x # xs) =
     (if x = c then ([], Some xs)
      else (case split_once c xs of (k, v) \<Rightarrow> (x # k, v)))"

lemma split_once_append: "c \<notin> set k \<Longrightarrow> split_once c (k @ c # v) = (k, Some v)"
  by (induction k) auto

lemma split_once_free: "c \<notin> set k \<Longrightarrow> split_once c k = (k, None)"
  by (induction k) auto

lemma split_once_eq:
  "split_once c s = (k, v) \<Longrightarrow> s = (case v of None \<Rightarrow> k | Some w \<Rightarrow> k @ c # w) \<and> c \<notin> set k"
  by (induction s arbitrary: k) (auto split: if_splits prod.splits option.splits)

section \<open>ASCII characters\<close>

definition code :: "char \<Rightarrow> nat" where
  [text_simps]: "code c = of_char c"

definition is_ascii_lower :: "char \<Rightarrow> bool" where
  [text_simps]: "is_ascii_lower c \<longleftrightarrow> 97 \<le> code c \<and> code c \<le> 122"

definition is_ascii_upper :: "char \<Rightarrow> bool" where
  [text_simps]: "is_ascii_upper c \<longleftrightarrow> 65 \<le> code c \<and> code c \<le> 90"

definition is_ascii_digit :: "char \<Rightarrow> bool" where
  [text_simps]: "is_ascii_digit c \<longleftrightarrow> 48 \<le> code c \<and> code c \<le> 57"

definition is_ascii_alphanumeric :: "char \<Rightarrow> bool" where
  [text_simps]: "is_ascii_alphanumeric c \<longleftrightarrow> is_ascii_lower c \<or> is_ascii_upper c \<or> is_ascii_digit c"

definition is_ascii_space :: "char \<Rightarrow> bool" where
  [text_simps]: "is_ascii_space c \<longleftrightarrow> code c = 32 \<or> (9 \<le> code c \<and> code c \<le> 13)"

definition lower_char :: "char \<Rightarrow> char" where
  [text_simps]: "lower_char c = (if is_ascii_upper c then char_of (code c + 32) else c)"

definition upper_char :: "char \<Rightarrow> char" where
  [text_simps]: "upper_char c = (if is_ascii_lower c then char_of (code c - 32) else c)"

definition to_ascii_lowercase :: "string \<Rightarrow> string" where
  [text_simps]: "to_ascii_lowercase s = map lower_char s"

definition to_ascii_uppercase :: "string \<Rightarrow> string" where
  [text_simps]: "to_ascii_uppercase s = map upper_char s"

definition eq_ignore_ascii_case :: "string \<Rightarrow> string \<Rightarrow> bool" where
  [text_simps]: "eq_ignore_ascii_case a b \<longleftrightarrow> to_ascii_lowercase a = to_ascii_lowercase b"

text \<open>
  \<open>str::trim\<close> removes the characters with Unicode's property \<open>White_Space\<close> at both ends. In
  UTF-8 each of them is one of these byte sequences, and a valid string begins or ends with
  such a character exactly when it begins or ends with its bytes.
\<close>

definition white_space :: "string list" where
  "white_space = map (map (char_of :: nat \<Rightarrow> char))
     ([[32], [9], [10], [11], [12], [13], [0xC2, 0x85], [0xC2, 0xA0], [0xE1, 0x9A, 0x80]] @
      map (\<lambda>c. [0xE2, 0x80, 0x80 + c]) [0 ..< 11] @
      [[0xE2, 0x80, 0xA8], [0xE2, 0x80, 0xA9], [0xE2, 0x80, 0xAF], [0xE2, 0x81, 0x9F],
       [0xE3, 0x80, 0x80]])"

function strip_leading :: "string list \<Rightarrow> string \<Rightarrow> string" where
  "strip_leading ws s =
     (case find (\<lambda>w. w \<noteq> [] \<and> starts_with w s) ws of None \<Rightarrow> s
      | Some w \<Rightarrow> strip_leading ws (drop (length w) s))"
  by pat_completeness auto
termination
  by (relation "measure (\<lambda>(ws, s). length s)") (auto simp: find_Some_iff starts_with_iff)

declare strip_leading.simps [simp del]

definition trim :: "string \<Rightarrow> string" where
  [text_simps]: "trim s = rev (strip_leading (map rev white_space) (rev (strip_leading white_space s)))"

lemma strip_leading_id:
  assumes "\<And>w. w \<in> set ws \<Longrightarrow> w = [] \<or> s = [] \<or> hd w \<noteq> hd s"
  shows "strip_leading ws s = s"
proof -
  have "hd w = hd s" if "w \<noteq> []" "starts_with w s" for w
    using that by (auto simp: starts_with_iff)
  moreover have "s \<noteq> []" if "w \<noteq> []" "starts_with w s" for w
    using that by (auto simp: starts_with_iff)
  ultimately have "find (\<lambda>w. w \<noteq> [] \<and> starts_with w s) ws = None"
    using assms unfolding find_None_iff by blast
  then show ?thesis by (subst strip_leading.simps) simp
qed

lemma white_space_ends:
  assumes "w \<in> set white_space"
  shows "w \<noteq> [] \<and> (is_ascii_space (hd w) \<or> 128 \<le> code (hd w)) \<and>
    (is_ascii_space (last w) \<or> 128 \<le> code (last w))"
  using assms
  by (auto simp: white_space_def code_def is_ascii_space_def upt_rec)

lemma trim_id:
  assumes "\<forall>c \<in> set s. \<not> is_ascii_space c \<and> code c < 128" shows "trim s = s"
proof -
  have a: "strip_leading white_space s = s"
  proof (rule strip_leading_id)
    fix w assume "w \<in> set white_space"
    then show "w = [] \<or> s = [] \<or> hd w \<noteq> hd s"
      using white_space_ends [of w] assms by (cases s) auto
  qed
  have b: "strip_leading (map rev white_space) (rev s) = rev s"
  proof (rule strip_leading_id)
    fix w assume "w \<in> set (map rev white_space)"
    then obtain v where "v \<in> set white_space" "w = rev v" by auto
    then show "w = [] \<or> rev s = [] \<or> hd w \<noteq> hd (rev s)"
      using white_space_ends [of v] assms by (cases s rule: rev_cases) (auto simp: hd_rev)
  qed
  show ?thesis by (simp add: trim_def a b)
qed

text \<open>\<open>str::split_whitespace\<close>, with the piece read so far, and \<open>str::lines\<close>.\<close>

function split_space :: "string \<Rightarrow> string \<Rightarrow> string list" where
  "split_space piece [] = (if piece = [] then [] else [piece])"
| "split_space piece (c # s) =
     (case find (\<lambda>w. w \<noteq> [] \<and> starts_with w (c # s)) white_space of
        Some w \<Rightarrow> (if piece = [] then [] else [piece]) @ split_space [] (drop (length w) (c # s))
      | None \<Rightarrow> split_space (piece @ [c]) s)"
  by pat_completeness auto
termination
  by (relation "measure (\<lambda>(piece, s). length s)") (auto simp: find_Some_iff starts_with_iff)

definition split_whitespace :: "string \<Rightarrow> string list" where
  "split_whitespace s = split_space [] s"

definition CR :: char where "CR = CHR 0x0D"
definition LF :: char where "LF = CHR 0x0A"

definition strip_cr :: "string \<Rightarrow> string" where
  "strip_cr s = (if ends_with [CR] s then butlast s else s)"

fun lines_of :: "string list \<Rightarrow> string list" where
  "lines_of [] = []"
| "lines_of [rest] = (if rest = [] then [] else [rest])"
| "lines_of (l # ls) = strip_cr l # lines_of ls"

definition str_lines :: "string \<Rightarrow> string list" where
  "str_lines s = lines_of (split_on LF s)"

definition space_free :: "string \<Rightarrow> bool" where
  "space_free s \<longleftrightarrow> (\<forall>c \<in> set s. \<not> is_ascii_space c \<and> code c < 128)"

lemma find_white_space_None:
  assumes "\<not> is_ascii_space c" "code c < 128"
  shows "find (\<lambda>w. w \<noteq> [] \<and> starts_with w (c # s)) white_space = None"
proof -
  have "\<not> starts_with w (c # s)" if "w \<in> set white_space" for w
    using white_space_ends [OF that] assms by (cases w) (auto simp: starts_with_def)
  then show ?thesis by (auto simp: find_None_iff)
qed

lemma find_white_space_blank:
  "find (\<lambda>w. w \<noteq> [] \<and> starts_with w (CHR '' '' # s)) white_space = Some '' ''"
proof -
  have "char_of (32 :: nat) = CHR '' ''" by code_simp
  then show ?thesis by (simp add: white_space_def starts_with_def)
qed

lemma split_space_word: "space_free w \<Longrightarrow> split_space piece (w @ s) = split_space (piece @ w) s"
proof (induction w arbitrary: piece)
  case (Cons c w)
  then show ?case
    using find_white_space_None [of c "w @ s"] by (simp add: space_free_def)
qed simp

lemma split_space_blank:
  "split_space piece (CHR '' '' # s) = (if piece = [] then [] else [piece]) @ split_space [] s"
  by (simp add: find_white_space_blank)

lemma split_whitespace_join:
  assumes "\<forall>w \<in> set ws. space_free w \<and> w \<noteq> []"
  shows "split_whitespace (join_with '' '' ws) = ws"
  using assms unfolding split_whitespace_def
proof (induction "'' ''" ws rule: join_with.induct)
  case (2 x)
  then show ?case using split_space_word [of x "[]" "[]"] by simp
next
  case (3 x y ys)
  then show ?case by (simp add: split_space_word split_space_blank del: split_space.simps(2))
qed simp

section \<open>Decimal numbers\<close>

definition digit_char :: "nat \<Rightarrow> char" where
  "digit_char d = char_of (48 + d)"

fun decimal :: "nat \<Rightarrow> string" where
  "decimal n = (if n < 10 then [digit_char n] else decimal (n div 10) @ [digit_char (n mod 10)])"

declare decimal.simps [simp del]

definition digit_value :: "char \<Rightarrow> nat option" where
  "digit_value c = (if is_ascii_digit c then Some (code c - 48) else None)"

text \<open>The digits of a numeral, most significant first; \<open>None\<close> on a character that is none.\<close>

fun digits_value :: "nat \<Rightarrow> string \<Rightarrow> nat option" where
  "digits_value acc [] = Some acc"
| "digits_value acc (c # cs) =
     (case digit_value c of None \<Rightarrow> None | Some d \<Rightarrow> digits_value (10 * acc + d) cs)"

text \<open>
  \<open>str::parse::<u64>\<close>: one leading plus sign is allowed, the rest is one or more digits,
  and the value fits.
\<close>

definition parse_u64 :: "string \<Rightarrow> u64 option" where
  "parse_u64 s =
     (let ds = (case s of c # cs \<Rightarrow> if c = CHR ''+'' then cs else s | [] \<Rightarrow> [])
      in if ds = [] then None
         else (case digits_value 0 ds of None \<Rightarrow> None
               | Some n \<Rightarrow> if n < 2 ^ 64 then Some (of_nat n) else None))"

lemma code_digit_char: "d < 10 \<Longrightarrow> code (digit_char d) = 48 + d"
  by (simp add: digit_char_def code_def)

lemma digit_value_digit_char: "d < 10 \<Longrightarrow> digit_value (digit_char d) = Some d"
  by (simp add: digit_value_def is_ascii_digit_def code_digit_char)

lemma decimal_nonempty [simp]: "decimal n \<noteq> []"
  by (subst decimal.simps) simp

lemma decimal_digits: "c \<in> set (decimal n) \<Longrightarrow> is_ascii_digit c"
proof (induction n rule: decimal.induct)
  case (1 n)
  then show ?case
    by (subst (asm) (2) decimal.simps)
      (auto simp: is_ascii_digit_def code_digit_char split: if_splits)
qed

lemma digits_value_append:
  "digits_value acc (xs @ ys) =
     (case digits_value acc xs of None \<Rightarrow> None | Some m \<Rightarrow> digits_value m ys)"
  by (induction xs arbitrary: acc) (auto split: option.splits)

lemma digits_value_decimal: "digits_value 0 (decimal n) = Some n"
proof (induction n rule: decimal.induct)
  case (1 n)
  show ?case
  proof (cases "n < 10")
    case True
    then show ?thesis by (subst decimal.simps) (simp add: digit_value_digit_char)
  next
    case False
    with 1 have "digits_value 0 (decimal (n div 10)) = Some (n div 10)" by simp
    with False show ?thesis
      by (subst decimal.simps) (simp add: digits_value_append digit_value_digit_char)
  qed
qed

lemma parse_u64_decimal:
  assumes "n < 2 ^ 64" shows "parse_u64 (decimal n) = Some (of_nat n)"
proof -
  obtain c cs where d: "decimal n = c # cs" by (cases "decimal n") simp_all
  then have "is_ascii_digit c" using decimal_digits [of c n] by simp
  then have "c \<noteq> CHR ''+''" by (auto simp: is_ascii_digit_def code_def)
  then show ?thesis using assms digits_value_decimal [of n]
    by (simp add: parse_u64_def d del: digits_value.simps)
qed

lemma decimal_inject: "decimal m = decimal n \<longleftrightarrow> m = n"
  by (metis digits_value_decimal option.inject)

lemma length_decimal_less: "n < 10 ^ k \<Longrightarrow> 0 < k \<Longrightarrow> length (decimal n) \<le> k"
proof (induction k arbitrary: n)
  case (Suc k)
  show ?case
  proof (cases "n < 10")
    case True
    then show ?thesis by (subst decimal.simps) simp
  next
    case False
    with Suc.prems have "n div 10 < 10 ^ k" by (simp add: less_mult_imp_div_less mult.commute)
    moreover have "0 < k" using False Suc.prems(1) by (cases k) simp_all
    ultimately have "length (decimal (n div 10)) \<le> k" by (rule Suc.IH)
    with False show ?thesis by (subst decimal.simps) simp
  qed
qed simp

end
