(* ===== verification/Sdk_Config.thy ===== *)
theory Sdk_Config
  imports Text
begin

text \<open>
  The configuration of the embeddable endpoint, \<open>sdk/rust/src/config.rs\<close>: the contract's
  constants, the configuration record with its builder methods, and the fail-closed
  validation \<open>Config::build\<close>. Method names that are field names in the source carry the
  prefix \<open>set_\<close>. The lemmas say which configurations \<open>build\<close> accepts, what it
  guarantees of an accepted one and what it leaves alone.
\<close>

section \<open>Constants and data\<close>

definition ABSOLUTE_MAX_BYTES :: u64 where "ABSOLUTE_MAX_BYTES = 33554432"
definition DEFAULT_CAP_BYTES :: u64 where "DEFAULT_CAP_BYTES = 4194304"
definition ECHO_REQUEST_BODY_MAX_BYTES :: u64 where "ECHO_REQUEST_BODY_MAX_BYTES = 65536"
definition DOWNLOAD_CHUNK_BYTES :: nat where "DOWNLOAD_CHUNK_BYTES = 65536"
definition DOWNLOAD_FILL :: u8 where "DOWNLOAD_FILL = 0x42"
definition TOKEN_MIN_BYTES :: nat where "TOKEN_MIN_BYTES = 16"

record rate_limit =
  rl_rps :: u32
  rl_burst :: u32

record byte_budget =
  bb_bytes :: u64
  bb_window_s :: u64

record route_toggles =
  rt_echo :: bool
  rt_download :: bool
  rt_upload :: bool
  rt_info :: bool

definition route_toggles_default :: route_toggles where
  "route_toggles_default = \<lparr>rt_echo = True, rt_download = True, rt_upload = True, rt_info = True\<rparr>"

record sdk_config =
  cfg_prefix :: string
  cfg_tokens :: "string list"
  cfg_download_cap_bytes :: u64
  cfg_upload_cap_bytes :: u64
  cfg_rate_per_ip :: rate_limit
  cfg_rate_global :: rate_limit
  cfg_max_concurrent :: u32
  cfg_max_concurrent_transfers :: u32
  cfg_per_ip_table_max_entries :: nat
  cfg_byte_budget :: "byte_budget option"
  cfg_app_name :: "string option"
  cfg_routes :: route_toggles

datatype config_error = MissingToken | TokenTooShort | TooManyTokens | InvalidPrefix

definition config_error_message :: "config_error \<Rightarrow> string" where
  "config_error_message e = (case e of
     MissingToken \<Rightarrow> ''laghound: no token supplied (refusing to mount open routes)''
   | TokenTooShort \<Rightarrow> ''laghound: token shorter than 16 bytes''
   | TooManyTokens \<Rightarrow> ''laghound: at most 2 tokens (current + previous) allowed''
   | InvalidPrefix \<Rightarrow> ''laghound: prefix must start with '' @ [CHR 0x27] @ ''/'' @ [CHR 0x27] @
       '' and have no trailing slash'')"

section \<open>The builder\<close>

definition config_new :: "string \<Rightarrow> sdk_config" where
  "config_new token = \<lparr>
     cfg_prefix = ''/laghound'',
     cfg_tokens = [token],
     cfg_download_cap_bytes = DEFAULT_CAP_BYTES,
     cfg_upload_cap_bytes = DEFAULT_CAP_BYTES,
     cfg_rate_per_ip = \<lparr>rl_rps = 10, rl_burst = 20\<rparr>,
     cfg_rate_global = \<lparr>rl_rps = 50, rl_burst = 100\<rparr>,
     cfg_max_concurrent = 8,
     cfg_max_concurrent_transfers = 2,
     cfg_per_ip_table_max_entries = 10000,
     cfg_byte_budget = None,
     cfg_app_name = None,
     cfg_routes = route_toggles_default\<rparr>"

text \<open>The argument is the value of the token variable, \<open>None\<close> where reading it fails.\<close>

definition config_from_env :: "string option \<Rightarrow> config_error + sdk_config" where
  "config_from_env var = (case var of
     Some t \<Rightarrow> if t \<noteq> [] then Inr (config_new t) else Inl MissingToken
   | None \<Rightarrow> Inl MissingToken)"

definition set_prefix :: "string \<Rightarrow> sdk_config \<Rightarrow> sdk_config" where
  "set_prefix p c = c\<lparr>cfg_prefix := p\<rparr>"

definition add_token :: "string \<Rightarrow> sdk_config \<Rightarrow> sdk_config" where
  "add_token t c = c\<lparr>cfg_tokens := cfg_tokens c @ [t]\<rparr>"

definition set_download_cap :: "u64 \<Rightarrow> sdk_config \<Rightarrow> sdk_config" where
  "set_download_cap n c = c\<lparr>cfg_download_cap_bytes := n\<rparr>"

definition set_upload_cap :: "u64 \<Rightarrow> sdk_config \<Rightarrow> sdk_config" where
  "set_upload_cap n c = c\<lparr>cfg_upload_cap_bytes := n\<rparr>"

definition set_rate_per_ip :: "u32 \<Rightarrow> u32 \<Rightarrow> sdk_config \<Rightarrow> sdk_config" where
  "set_rate_per_ip rps burst c = c\<lparr>cfg_rate_per_ip := \<lparr>rl_rps = rps, rl_burst = burst\<rparr>\<rparr>"

definition set_rate_global :: "u32 \<Rightarrow> u32 \<Rightarrow> sdk_config \<Rightarrow> sdk_config" where
  "set_rate_global rps burst c = c\<lparr>cfg_rate_global := \<lparr>rl_rps = rps, rl_burst = burst\<rparr>\<rparr>"

definition set_max_concurrent :: "u32 \<Rightarrow> sdk_config \<Rightarrow> sdk_config" where
  "set_max_concurrent n c = c\<lparr>cfg_max_concurrent := n\<rparr>"

definition set_max_concurrent_transfers :: "u32 \<Rightarrow> sdk_config \<Rightarrow> sdk_config" where
  "set_max_concurrent_transfers n c = c\<lparr>cfg_max_concurrent_transfers := n\<rparr>"

definition set_byte_budget :: "u64 \<Rightarrow> u64 \<Rightarrow> sdk_config \<Rightarrow> sdk_config" where
  "set_byte_budget n w c = c\<lparr>cfg_byte_budget := Some \<lparr>bb_bytes = n, bb_window_s = w\<rparr>\<rparr>"

definition set_app_name :: "string \<Rightarrow> sdk_config \<Rightarrow> sdk_config" where
  "set_app_name s c = c\<lparr>cfg_app_name := Some s\<rparr>"

definition set_routes :: "route_toggles \<Rightarrow> sdk_config \<Rightarrow> sdk_config" where
  "set_routes r c = c\<lparr>cfg_routes := r\<rparr>"

definition build :: "sdk_config \<Rightarrow> config_error + sdk_config" where
  "build c =
     (if cfg_tokens c = [] then Inl MissingToken
      else if length (cfg_tokens c) > 2 then Inl TooManyTokens
      else if (\<exists>t \<in> set (cfg_tokens c). length t < TOKEN_MIN_BYTES) then Inl TokenTooShort
      else if \<not> starts_with ''/'' (cfg_prefix c)
              \<or> (length (cfg_prefix c) > 1 \<and> ends_with ''/'' (cfg_prefix c))
        then Inl InvalidPrefix
      else Inr (c\<lparr>cfg_download_cap_bytes := min (cfg_download_cap_bytes c) ABSOLUTE_MAX_BYTES,
                  cfg_upload_cap_bytes := min (cfg_upload_cap_bytes c) ABSOLUTE_MAX_BYTES\<rparr>))"

section \<open>What validation guarantees\<close>

text \<open>The contract's conditions on a mountable configuration (contract section 2).\<close>

definition tokens_ok :: "string list \<Rightarrow> bool" where
  "tokens_ok ts \<longleftrightarrow> ts \<noteq> [] \<and> length ts \<le> 2 \<and> (\<forall>t \<in> set ts. TOKEN_MIN_BYTES \<le> length t)"

definition prefix_ok :: "string \<Rightarrow> bool" where
  "prefix_ok p \<longleftrightarrow> (\<exists>r. p = CHR ''/'' # r) \<and> (p = ''/'' \<or> last p \<noteq> CHR ''/'')"

definition mountable :: "sdk_config \<Rightarrow> bool" where
  "mountable c \<longleftrightarrow> tokens_ok (cfg_tokens c) \<and> prefix_ok (cfg_prefix c) \<and>
     cfg_download_cap_bytes c \<le> ABSOLUTE_MAX_BYTES \<and> cfg_upload_cap_bytes c \<le> ABSOLUTE_MAX_BYTES"

lemma prefix_guard_iff:
  "(\<not> starts_with ''/'' p \<or> (length p > 1 \<and> ends_with ''/'' p)) \<longleftrightarrow> \<not> prefix_ok p"
proof (cases p)
  case Nil
  then show ?thesis by (simp add: prefix_ok_def starts_with_def)
next
  case (Cons c r)
  then show ?thesis by (cases r) (auto simp: prefix_ok_def starts_with_def ends_with_single)
qed

lemma build_Inr_iff:
  "build c = Inr c' \<longleftrightarrow> tokens_ok (cfg_tokens c) \<and> prefix_ok (cfg_prefix c) \<and>
     c' = c\<lparr>cfg_download_cap_bytes := min (cfg_download_cap_bytes c) ABSOLUTE_MAX_BYTES,
            cfg_upload_cap_bytes := min (cfg_upload_cap_bytes c) ABSOLUTE_MAX_BYTES\<rparr>"
  unfolding build_def prefix_guard_iff
  by (auto simp: tokens_ok_def not_less dest: leD)

lemma build_mountable: "build c = Inr c' \<Longrightarrow> mountable c'"
  by (auto simp: build_Inr_iff mountable_def)

lemma build_accepts: "mountable c \<Longrightarrow> build c = Inr c"
  by (simp add: build_Inr_iff mountable_def min_absorb1)

end
