(* ===== verification/F64.thy ===== *)
theory F64
  imports Prelude
begin

text \<open>
  Rust's \<open>f64\<close>. Every arithmetic operation of the source on finite values is the exact
  real operation followed by \<open>fl\<close>, the IEEE 754 rounding to 53 significant bits, to
  nearest with ties to even. The exponent is not bounded: the quantities the modelled code
  computes (milliseconds, token counts, percentages) stay far from overflow and from the
  subnormal range. Infinities and NaN occur in one place, a guard of the source against
  them, and there the value is a \<open>f64_value\<close>.

  What the components use of \<open>fl\<close> is stated once, in the locale \<open>rounding\<close>: it is
  monotone, and it fixes the integers up to two to the 53. The locale's lemmas bound the
  results of rounded arithmetic, and the components use them through its interpretation.
\<close>

type_synonym f64 = real

datatype f64_value = Finite f64 | Infinite bool | NaN

section \<open>The rounding function\<close>

definition round_even :: "real \<Rightarrow> int" where
  "round_even x =
     (let n = \<lfloor>x\<rfloor>; d = x - of_int n
      in if d < 1 / 2 then n else if d > 1 / 2 then n + 1 else if even n then n else n + 1)"

definition binade :: "real \<Rightarrow> int" where
  "binade x = \<lfloor>log 2 \<bar>x\<bar>\<rfloor>"

definition fl :: "real \<Rightarrow> f64" where
  "fl x = (if x = 0 then 0
     else of_int (round_even (x / 2 powi (binade x - 52))) * 2 powi (binade x - 52))"

definition f64_add :: "f64 \<Rightarrow> f64 \<Rightarrow> f64" where "f64_add a b = fl (a + b)"
definition f64_sub :: "f64 \<Rightarrow> f64 \<Rightarrow> f64" where "f64_sub a b = fl (a - b)"
definition f64_mul :: "f64 \<Rightarrow> f64 \<Rightarrow> f64" where "f64_mul a b = fl (a * b)"
definition f64_div :: "f64 \<Rightarrow> f64 \<Rightarrow> f64" where "f64_div a b = fl (a / b)"

lemma round_even_of_int [simp]: "round_even (of_int n) = n"
  by (simp add: round_even_def)

lemma round_even_bounds: "of_int (round_even x) - x \<le> 1 / 2" "x - of_int (round_even x) \<le> 1 / 2"
  by (auto simp: round_even_def Let_def) linarith+

lemma round_even_mono:
  assumes "x \<le> y" shows "round_even x \<le> round_even y"
proof (cases "\<lfloor>x\<rfloor> = \<lfloor>y\<rfloor>")
  case True
  then show ?thesis using assms by (auto simp: round_even_def Let_def)
next
  case False
  then have lt: "\<lfloor>x\<rfloor> + 1 \<le> \<lfloor>y\<rfloor>" using floor_mono [OF assms] by linarith
  have "round_even x \<le> \<lfloor>x\<rfloor> + 1" by (simp add: round_even_def Let_def)
  moreover have "\<lfloor>y\<rfloor> \<le> round_even y" by (simp add: round_even_def Let_def)
  ultimately show ?thesis using lt by linarith
qed

lemma round_even_minus: "round_even (- x) = - round_even x"
proof (cases "x = of_int \<lfloor>x\<rfloor>")
  case True
  then show ?thesis by (metis of_int_minus round_even_of_int)
next
  case False
  have "of_int \<lfloor>x\<rfloor> \<le> x" and "x < of_int \<lfloor>x\<rfloor> + 1" by linarith+
  then have "\<lfloor>- x\<rfloor> = - \<lfloor>x\<rfloor> - 1" using False by linarith
  then show ?thesis by (auto simp: round_even_def Let_def)
qed

lemma fl_0 [simp]: "fl 0 = 0"
  by (simp add: fl_def)

lemma fl_minus: "fl (- x) = - fl x"
  by (simp add: fl_def binade_def round_even_minus)

lemma binade_bounds:
  assumes "0 < x" shows "2 powi binade x \<le> x" and "x < 2 powi (binade x + 1)"
proof -
  have eq: "2 powi k = 2 powr real_of_int k" for k by (simp add: powr_real_of_int')
  have b: "real_of_int (binade x) \<le> log 2 x" "log 2 x < real_of_int (binade x) + 1"
    using assms by (simp_all add: binade_def)
  show "2 powi binade x \<le> x"
    using b(1) assms by (simp add: eq le_log_iff)
  show "x < 2 powi (binade x + 1)"
    using b(2) assms by (simp add: eq log_less_iff)
qed

lemma powi_le_iff: "(2::real) powi a \<le> 2 powi b \<longleftrightarrow> a \<le> b"
proof -
  have eq: "(2::real) powi k = 2 powr real_of_int k" for k by (simp add: powr_real_of_int')
  show ?thesis by (simp add: eq)
qed

lemma fl_in_binade:
  assumes "0 < x" shows "2 powi binade x \<le> fl x" and "fl x \<le> 2 powi (binade x + 1)"
proof -
  define e where "e = binade x - 52"
  have sh: "2 powi binade x = of_int (2 ^ 52) * (2 powi e :: real)"
    "2 powi (binade x + 1) = of_int (2 ^ 53) * (2 powi e :: real)"
    by (simp_all add: e_def power_int_diff power_int_add)
  have pos: "(0::real) < 2 powi e" by simp
  have "of_int (2 ^ 52) \<le> x / 2 powi e" "x / 2 powi e \<le> of_int (2 ^ 53)"
    using binade_bounds [OF assms] pos by (simp_all add: sh pos_le_divide_eq pos_divide_le_eq)
  then have "2 ^ 52 \<le> round_even (x / 2 powi e)" "round_even (x / 2 powi e) \<le> 2 ^ 53"
    by (metis round_even_mono round_even_of_int)+
  then have le: "of_int (2 ^ 52) \<le> (of_int (round_even (x / 2 powi e)) :: real)"
    "of_int (round_even (x / 2 powi e)) \<le> (of_int (2 ^ 53) :: real)"
    by (metis of_int_le_iff)+
  have fx: "fl x = of_int (round_even (x / 2 powi e)) * 2 powi e"
    using assms by (simp add: fl_def e_def)
  show "2 powi binade x \<le> fl x"
    unfolding sh fx using le(1) pos by (simp only: mult_le_cancel_right_pos)
  show "fl x \<le> 2 powi (binade x + 1)"
    unfolding sh fx using le(2) pos by (simp only: mult_le_cancel_right_pos)
qed

lemma fl_pos: "0 < x \<Longrightarrow> 0 < fl x"
  by (rule less_le_trans [OF _ fl_in_binade(1)]) simp_all

lemma fl_mono_pos:
  assumes "0 < x" "x \<le> y" shows "fl x \<le> fl y"
proof (cases "binade x = binade y")
  case True
  have "x / 2 powi (binade y - 52) \<le> y / 2 powi (binade y - 52)"
    using assms by (simp add: divide_right_mono)
  then show ?thesis using assms True
    by (simp add: fl_def round_even_mono mult_right_mono)
next
  case False
  have "log 2 \<bar>x\<bar> \<le> log 2 \<bar>y\<bar>" using assms by simp
  then have "binade x \<le> binade y" unfolding binade_def by (rule floor_mono)
  with False have "binade x + 1 \<le> binade y" by simp
  then have "(2::real) powi (binade x + 1) \<le> 2 powi binade y" by (simp add: powi_le_iff)
  then show ?thesis using fl_in_binade(2) [of x] fl_in_binade(1) [of y] assms by linarith
qed

lemma fl_mono: "x \<le> y \<Longrightarrow> fl x \<le> fl y"
proof -
  assume le: "x \<le> y"
  consider "0 < x" | "y < 0" | "x \<le> 0" "0 \<le> y" by linarith
  then show ?thesis
  proof cases
    case 1 then show ?thesis using le by (rule fl_mono_pos)
  next
    case 2
    then have "fl (- y) \<le> fl (- x)" using le by (intro fl_mono_pos) simp_all
    then show ?thesis by (simp add: fl_minus)
  next
    case 3
    have "fl x \<le> 0" using 3(1) fl_pos [of "- x"] by (cases "x = 0") (simp_all add: fl_minus)
    moreover have "0 \<le> fl y" using 3(2) fl_pos [of y] by (cases "y = 0") simp_all
    ultimately show ?thesis by linarith
  qed
qed

text \<open>A dyadic number with at most 53 significant bits is not changed.\<close>

lemma fl_dyadic_pos:
  assumes m: "0 < m" "m \<le> 2 ^ 53" shows "fl (of_int m * 2 powi k) = of_int m * 2 powi k"
proof -
  define x :: real where "x = of_int m * 2 powi k"
  have x: "0 < x" using m by (simp add: x_def)
  define e where "e = binade x - 52"
  have "\<exists>n::int. x / 2 powi e = of_int n"
  proof (cases "e \<le> k")
    case True
    have "x / 2 powi e = of_int m * 2 powi (k - e)"
      by (simp add: x_def power_int_diff)
    also have "\<dots> = of_int (m * 2 ^ nat (k - e))"
      using True by (simp add: power_int_def)
    finally show ?thesis by blast
  next
    case False
    have "(2 :: real) powi binade x \<le> of_int m * 2 powi k"
      using binade_bounds(1) [OF x] by (simp add: x_def)
    then have "2 powi (binade x - k) \<le> (of_int m :: real)"
      by (simp add: power_int_diff pos_divide_le_eq)
    also have "(of_int m :: real) \<le> 2 powi 53"
      using m(2) by (metis of_int_le_iff of_int_numeral of_int_power power_int_numeral)
    finally have up: "binade x - k \<le> 53" by (simp only: powi_le_iff)
    with False have bk: "binade x = k + 53" by (simp add: e_def)
    then have "2 powi 53 \<le> (of_int m :: real)"
      using \<open>2 powi (binade x - k) \<le> (of_int m :: real)\<close> by simp
    with m(2) have "(of_int m :: real) = 2 powi 53"
      by (metis \<open>(of_int m :: real) \<le> 2 powi 53\<close> order_antisym)
    then have "x / 2 powi e = 2 powi (53 + k - e)"
      by (simp add: x_def power_int_diff power_int_add)
    also have "53 + k - e = 52" using bk by (simp add: e_def)
    finally have "x / 2 powi e = of_int (2 ^ 52)" by simp
    then show ?thesis by blast
  qed
  then obtain n where n: "x / 2 powi e = of_int n" by blast
  have "fl x = of_int n * 2 powi e"
    using x n by (simp add: fl_def e_def)
  also have "\<dots> = x" by (simp flip: n)
  finally show ?thesis by (simp add: x_def)
qed

lemma fl_dyadic: "\<bar>m\<bar> \<le> 2 ^ 53 \<Longrightarrow> fl (of_int m * 2 powi k) = of_int m * 2 powi k"
  using fl_dyadic_pos [of m k] fl_dyadic_pos [of "- m" k]
  by (cases m "0 :: int" rule: linorder_cases) (simp_all add: fl_minus)

lemma fl_int: "\<bar>m\<bar> \<le> 2 ^ 53 \<Longrightarrow> fl (of_int m) = of_int m"
  using fl_dyadic [of m 0] by simp

text \<open>A rounded value is rounded to itself.\<close>

lemma fl_idem_pos: "0 < x \<Longrightarrow> fl (fl x) = fl x"
proof -
  assume x: "0 < x"
  define n where "n = round_even (x / 2 powi (binade x - 52))"
  have fx: "fl x = of_int n * 2 powi (binade x - 52)" using x by (simp add: fl_def n_def)
  have pos: "(0 :: real) < 2 powi (binade x - 52)" by simp
  have "of_int n * 2 powi (binade x - 52) \<le> of_int (2 ^ 53) * (2 powi (binade x - 52) :: real)"
    using fl_in_binade(2) [OF x] unfolding fx by (simp add: power_int_diff power_int_add)
  then have "(of_int n :: real) \<le> of_int (2 ^ 53)" using pos by (simp only: mult_le_cancel_right_pos)
  then have "n \<le> 2 ^ 53" by (simp only: of_int_le_iff)
  moreover have "0 \<le> n" using fl_pos [OF x] pos unfolding fx by (simp add: zero_less_mult_iff)
  ultimately have "fl (of_int n * 2 powi (binade x - 52)) = of_int n * 2 powi (binade x - 52)"
    by (intro fl_dyadic) simp
  then show ?thesis by (simp only: fx)
qed

lemma fl_idem [simp]: "fl (fl x) = fl x"
  using fl_idem_pos [of x] fl_idem_pos [of "- x"]
  by (cases x "0 :: real" rule: linorder_cases) (simp_all add: fl_minus)

text \<open>Doubling a rounded value is exact.\<close>

lemma fl_double: "fl x = x \<Longrightarrow> fl (2 * x) = 2 * x"
proof -
  assume r: "fl x = x"
  show ?thesis
  proof (cases "x = 0")
    case False
    then have "log 2 \<bar>2 * x\<bar> = log 2 \<bar>x\<bar> + 1" by (simp add: abs_mult log_mult)
    then have b: "binade (2 * x) = binade x + 1" by (simp add: binade_def)
    have p: "(2 :: real) powi (binade x + 1 - 52) = 2 * 2 powi (binade x - 52)"
      by (simp add: power_int_diff power_int_add)
    have "fl (2 * x) = of_int (round_even (2 * x / (2 * 2 powi (binade x - 52)))) * (2 * 2 powi (binade x - 52))"
      using False by (simp only: fl_def b p mult_eq_0_iff) simp
    also have "\<dots> = 2 * fl x" using False by (simp add: fl_def)
    finally show ?thesis using r by simp
  qed simp
qed

text \<open>The relative error of one rounding is at most one unit in the 53rd place.\<close>

definition ulp_rel :: real where "ulp_rel = 1 / 2 ^ 53"

lemma fl_error: "\<bar>fl x - x\<bar> \<le> \<bar>x\<bar> * ulp_rel"
proof (cases "x = 0")
  case False
  define e where "e = binade x - 52"
  have pos: "(0::real) < 2 powi e" by simp
  have fx: "fl x = of_int (round_even (x / 2 powi e)) * 2 powi e"
    using False by (simp add: fl_def e_def)
  have "\<bar>of_int (round_even (x / 2 powi e)) - x / 2 powi e\<bar> \<le> 1 / 2"
    using round_even_bounds [of "x / 2 powi e"] by linarith
  moreover have "fl x - x = (of_int (round_even (x / 2 powi e)) - x / 2 powi e) * 2 powi e"
    by (simp add: fx left_diff_distrib)
  ultimately have err: "\<bar>fl x - x\<bar> \<le> 1 / 2 * 2 powi e"
    using pos by (simp add: abs_mult)
  have "binade x = binade \<bar>x\<bar>" by (simp add: binade_def)
  then have "2 powi binade x \<le> \<bar>x\<bar>" using binade_bounds(1) [of "\<bar>x\<bar>"] False by simp
  moreover have "1 / 2 * 2 powi e = 2 powi binade x * ulp_rel"
    by (simp add: e_def ulp_rel_def power_int_diff)
  moreover have "0 \<le> ulp_rel" by (simp add: ulp_rel_def)
  ultimately show ?thesis using err by (metis mult_right_mono order_trans)
qed simp

lemma fl_le: "0 \<le> x \<Longrightarrow> fl x \<le> x * (1 + ulp_rel)"
  using fl_error [of x] by (simp add: algebra_simps)

lemma fl_ge: "0 \<le> x \<Longrightarrow> x * (1 - ulp_rel) \<le> fl x"
  using fl_error [of x] by (simp add: algebra_simps)

section \<open>Casts\<close>

text \<open>A cast to an unsigned integer truncates and saturates at both ends.\<close>

definition f64_as_u64 :: "f64 \<Rightarrow> u64" where
  "f64_as_u64 x = (if x \<le> 0 then 0 else if 2 ^ 64 \<le> \<lfloor>x\<rfloor> then - 1 else of_int \<lfloor>x\<rfloor>)"

definition f64_as_u32 :: "f64 \<Rightarrow> u32" where
  "f64_as_u32 x = (if x \<le> 0 then 0 else if 2 ^ 32 \<le> \<lfloor>x\<rfloor> then - 1 else of_int \<lfloor>x\<rfloor>)"

section \<open>What the components use of it\<close>

locale rounding =
  fixes rnd :: "real \<Rightarrow> real"
  assumes rnd_mono: "x \<le> y \<Longrightarrow> rnd x \<le> rnd y"
    and rnd_int: "\<bar>m\<bar> \<le> 2 ^ 53 \<Longrightarrow> rnd (of_int m) = of_int m"
begin

lemma rnd_nat: "n \<le> 2 ^ 53 \<Longrightarrow> rnd (real n) = real n"
proof -
  assume "n \<le> 2 ^ 53"
  then have "\<bar>int n\<bar> \<le> 2 ^ 53" by simp
  from rnd_int [OF this] show ?thesis by simp
qed

lemma rnd_zero: "rnd 0 = 0"
  using rnd_int [of 0] by simp

lemma rnd_one: "rnd 1 = 1"
  using rnd_int [of 1] by simp

lemma rnd_nonneg: "0 \<le> x \<Longrightarrow> 0 \<le> rnd x"
  using rnd_mono [of 0 x] by (simp add: rnd_zero)

lemma rnd_nonpos: "x \<le> 0 \<Longrightarrow> rnd x \<le> 0"
  using rnd_mono [of x 0] by (simp add: rnd_zero)

lemma rnd_le_nat: "x \<le> real n \<Longrightarrow> n \<le> 2 ^ 53 \<Longrightarrow> rnd x \<le> real n"
  using rnd_mono [of x "real n"] by (simp add: rnd_nat)

lemma rnd_ge_nat: "real n \<le> x \<Longrightarrow> n \<le> 2 ^ 53 \<Longrightarrow> real n \<le> rnd x"
  using rnd_mono [of "real n" x] by (simp add: rnd_nat)

text \<open>A ratio of two counts, scaled to a percentage, is between 0 and 100 after rounding.\<close>

lemma percent_bounds:
  assumes "a \<le> b" "0 < b"
  shows "0 \<le> rnd (rnd (real a / real b) * 100) \<and> rnd (rnd (real a / real b) * 100) \<le> 100"
proof -
  have "real a / real b \<le> real 1" using assms by simp
  then have "rnd (real a / real b) \<le> 1" using rnd_le_nat [of _ 1] by simp
  then have "rnd (real a / real b) * 100 \<le> real 100" by simp
  then have "rnd (rnd (real a / real b) * 100) \<le> 100" using rnd_le_nat [of _ 100] by simp
  moreover have "0 \<le> rnd (real a / real b)" by (simp add: rnd_nonneg)
  ultimately show ?thesis by (simp add: rnd_nonneg)
qed

end

interpretation fl: rounding fl
  by unfold_locales (simp_all add: fl_mono fl_int)

lemmas f64_ops = f64_add_def f64_sub_def f64_mul_def f64_div_def

section \<open>Durations as seconds\<close>

text \<open>\<open>Duration::as_secs_f64\<close> and \<open>.as_secs_f64() * 1000.0\<close>.\<close>

definition as_secs_f64 :: "duration \<Rightarrow> f64" where
  "as_secs_f64 d =
     f64_add (fl (real (d div 1000000000))) (f64_div (fl (real (d mod 1000000000))) 1000000000)"

definition as_millis_f64 :: "duration \<Rightarrow> f64" where
  "as_millis_f64 d = f64_mul (as_secs_f64 d) 1000"

lemma as_secs_f64_nonneg: "0 \<le> as_secs_f64 d"
  by (simp add: as_secs_f64_def f64_ops fl.rnd_nonneg)

lemma as_millis_f64_nonneg: "0 \<le> as_millis_f64 d"
  by (simp add: as_millis_f64_def f64_ops fl.rnd_nonneg as_secs_f64_nonneg)

lemma as_secs_f64_whole: "n \<le> 2 ^ 53 \<Longrightarrow> as_secs_f64 (from_secs n) = real n"
  by (simp add: as_secs_f64_def from_secs_def f64_ops fl.rnd_nat)

lemma as_secs_f64_le: "as_secs_f64 d \<le> real d / 10 ^ 9 * (1 + ulp_rel) ^ 3"
proof -
  define u where "u = 1 + ulp_rel"
  have u: "1 \<le> u" by (simp add: u_def ulp_rel_def)
  define s n where "s = real (d div 10 ^ 9)" and "n = real (d mod 10 ^ 9)"
  have nn: "0 \<le> s" "0 \<le> n" by (simp_all add: s_def n_def)
  have d: "real d = s * 10 ^ 9 + n"
    using arg_cong [OF div_mult_mod_eq [of d "10 ^ 9"], of real]
    unfolding s_def n_def by (simp only: of_nat_add of_nat_mult of_nat_power of_nat_numeral)
  have "fl s \<le> s * u" using fl_le [OF nn(1)] by (simp add: u_def)
  also have "\<dots> \<le> s * u ^ 2" using nn(1) u by (intro mult_left_mono) (simp_all add: power2_eq_square)
  finally have a: "fl s \<le> s * u ^ 2" .
  have "fl n / 10 ^ 9 \<le> n * u / 10 ^ 9"
    using fl_le [OF nn(2)] by (simp add: u_def divide_right_mono)
  then have "fl (fl n / 10 ^ 9) \<le> fl (n * u / 10 ^ 9)" by (rule fl_mono)
  also have "\<dots> \<le> n * u / 10 ^ 9 * u" unfolding u_def by (rule fl_le) (use nn u in \<open>simp add: u_def\<close>)
  also have "\<dots> = n / 10 ^ 9 * u ^ 2" by (simp add: power2_eq_square)
  finally have b: "fl (fl n / 10 ^ 9) \<le> n / 10 ^ 9 * u ^ 2" .
  have "as_secs_f64 d = fl (fl s + fl (fl n / 10 ^ 9))"
    by (simp add: as_secs_f64_def f64_ops s_def n_def)
  also have "\<dots> \<le> fl (s * u ^ 2 + n / 10 ^ 9 * u ^ 2)" by (intro fl_mono add_mono a b)
  also have "\<dots> \<le> (s * u ^ 2 + n / 10 ^ 9 * u ^ 2) * u"
    unfolding u_def by (rule fl_le) (use nn u in \<open>simp add: u_def\<close>)
  also have "\<dots> = real d / 10 ^ 9 * u ^ 3" by (simp add: d algebra_simps power2_eq_square power3_eq_cube)
  finally show ?thesis by (simp add: u_def)
qed

lemma as_secs_f64_0 [simp]: "as_secs_f64 0 = 0"
  by (simp add: as_secs_f64_def f64_ops)

lemma as_millis_f64_0 [simp]: "as_millis_f64 0 = 0"
  by (simp add: as_millis_f64_def f64_ops)

end
