(* ===== verification/Sdk_Rate.thy ===== *)
theory Sdk_Rate
  imports Sdk_Config F64 "HOL-Library.AList"
begin

text \<open>
  The rate limiter and the byte budget of \<open>sdk/rust/src/limits.rs\<close>: the token bucket over
  rounded \<open>f64\<close> arithmetic, the limiter with its global bucket and its bounded table of
  per-address buckets, and the windowed byte budget. The mutexes make each operation
  atomic, so an operation is a function on the guarded state; the clock reading of
  \<open>Instant::now()\<close> is an argument. The table is an association list with distinct keys,
  whose order stands for the hash table's iteration order.

  The lemmas bound the bucket, bound what it admits over any run, bound the table, and
  describe the budget's windows.
\<close>

section \<open>The token bucket\<close>

record bucket =
  bk_tokens :: f64
  bk_last :: instant
  bk_last_touched :: instant

definition bucket_new :: "f64 \<Rightarrow> instant \<Rightarrow> bucket" where
  "bucket_new burst now = \<lparr>bk_tokens = burst, bk_last = now, bk_last_touched = now\<rparr>"

text \<open>\<open>Duration::from_secs_f64\<close>: the nearest nanosecond.\<close>

definition from_secs_f64 :: "f64 \<Rightarrow> duration" where
  "from_secs_f64 s = nat (round_even (s * 1000000000))"

text \<open>The token count after the refill at \<open>now\<close>.\<close>

definition refill :: "rate_limit \<Rightarrow> instant \<Rightarrow> bucket \<Rightarrow> f64" where
  "refill limit now b =
     (let burst = fl (real (unat (rl_burst limit)));
          rps = fl (real (max (unat (rl_rps limit)) 1));
          elapsed = as_secs_f64 (now - bk_last b)
      in min (f64_add (bk_tokens b) (f64_mul elapsed rps)) burst)"

definition bucket_take :: "rate_limit \<Rightarrow> instant \<Rightarrow> bucket \<Rightarrow> (unit + duration) \<times> bucket" where
  "bucket_take limit now b =
     (let rps = fl (real (max (unat (rl_rps limit)) 1));
          tokens = refill limit now b;
          b = b\<lparr>bk_tokens := tokens, bk_last := now, bk_last_touched := now\<rparr>
      in if 1 \<le> tokens then (Inl (), b\<lparr>bk_tokens := f64_sub tokens 1\<rparr>)
         else let deficit = f64_sub 1 tokens;
                  secs = max (f64_div deficit rps) (fl (1 / 1000))
              in (Inr (from_secs_f64 secs), b))"

definition bucket_ok :: "rate_limit \<Rightarrow> bucket \<Rightarrow> bool" where
  "bucket_ok limit b \<longleftrightarrow> 0 \<le> bk_tokens b \<and> bk_tokens b \<le> real (unat (rl_burst limit))"

lemma unat_u32_le: "unat (w :: u32) \<le> 2 ^ 53"
proof -
  have "unat w < 2 ^ 32" using unsigned_less [of w, where ?'a = nat] by simp
  then show ?thesis by simp
qed

lemma fl_u32 [simp]: "fl (real (unat (w :: u32))) = real (unat w)"
  by (rule fl.rnd_nat [OF unat_u32_le])

lemma fl_max_u32 [simp]: "fl (real (max (unat (w :: u32)) (Suc 0))) = real (max (unat w) (Suc 0))"
  by (rule fl.rnd_nat) (use unat_u32_le [of w] in simp)

lemma refill_bounds:
  "0 \<le> bk_tokens b \<Longrightarrow> 0 \<le> refill limit now b \<and> refill limit now b \<le> real (unat (rl_burst limit))"
  by (simp add: refill_def f64_ops fl.rnd_nonneg as_secs_f64_nonneg Let_def)

lemma bucket_new_ok: "bucket_ok limit (bucket_new (fl (real (unat (rl_burst limit)))) now)"
  by (simp add: bucket_ok_def bucket_new_def)

lemma bucket_take_ok: "bucket_ok limit b \<Longrightarrow> bucket_ok limit (snd (bucket_take limit now b))"
proof -
  assume "bucket_ok limit b"
  then have r: "0 \<le> refill limit now b" "refill limit now b \<le> real (unat (rl_burst limit))"
    using refill_bounds [of b limit now] by (simp_all add: bucket_ok_def)
  moreover have "fl (refill limit now b - 1) \<le> real (unat (rl_burst limit))"
    by (rule fl.rnd_le_nat [OF _ unat_u32_le]) (use r(2) in simp)
  ultimately show ?thesis
    by (simp add: bucket_ok_def bucket_take_def f64_ops fl.rnd_nonneg Let_def)
qed

lemma bucket_take_times [simp]:
  "bk_last (snd (bucket_take limit now b)) = now"
  "bk_last_touched (snd (bucket_take limit now b)) = now"
  by (simp_all add: bucket_take_def Let_def)

lemma bucket_take_Inl_iff: "(\<exists>u. fst (bucket_take limit now b) = Inl u) \<longleftrightarrow> 1 \<le> refill limit now b"
  by (simp add: bucket_take_def Let_def)

lemma from_secs_f64_mono: "x \<le> y \<Longrightarrow> from_secs_f64 x \<le> from_secs_f64 y"
  by (simp add: from_secs_f64_def nat_mono round_even_mono)

text \<open>A refusal always names a wait of at least one millisecond.\<close>

lemma fl_milli: "from_secs_f64 (fl (1 / 1000)) = 1000000"
proof -
  have "\<bar>fl (1 / 1000) - 1 / 1000\<bar> \<le> 1 / 1000 * ulp_rel"
    using fl_error [of "1 / 1000"] by simp
  then have "\<bar>fl (1 / 1000) * 1000000000 - 1000000\<bar> < 1 / 2"
    by (simp add: ulp_rel_def abs_if split: if_splits)
  then have "\<bar>fl (1 / 1000) * 1000000000 - of_int 1000000\<bar> < 1 / 2" by simp
  then have "\<bar>real_of_int (round_even (fl (1 / 1000) * 1000000000)) - 1000000\<bar> < 1"
    using round_even_bounds [of "fl (1 / 1000) * 1000000000"] unfolding abs_less_iff by linarith
  then have "round_even (fl (1 / 1000) * 1000000000) = 1000000" by linarith
  then show ?thesis by (simp add: from_secs_f64_def)
qed

lemma bucket_take_retry: "fst (bucket_take limit now b) = Inr retry \<Longrightarrow> 1 \<le> as_millis retry"
proof -
  assume "fst (bucket_take limit now b) = Inr retry"
  then obtain s where "retry = from_secs_f64 (max s (fl (1 / 1000)))"
    by (auto simp: bucket_take_def Let_def split: if_splits)
  then have "1000000 \<le> retry"
    using from_secs_f64_mono [of "fl (1 / 1000)" "max s (fl (1 / 1000))"] by (simp add: fl_milli)
  then show ?thesis by (simp add: as_millis_def)
qed

section \<open>What a bucket admits\<close>

text \<open>A run of takes at the given instants: how many are admitted.\<close>

fun admitted :: "rate_limit \<Rightarrow> bucket \<Rightarrow> instant list \<Rightarrow> nat" where
  "admitted limit b [] = 0"
| "admitted limit b (t # ts) =
     (case bucket_take limit t b of
        (Inl _, b') \<Rightarrow> Suc (admitted limit b' ts)
      | (Inr _, b') \<Rightarrow> admitted limit b' ts)"

definition rps_of :: "rate_limit \<Rightarrow> real" where
  "rps_of limit = real (max (unat (rl_rps limit)) 1)"

text \<open>One refill adds at most the elapsed time's worth of tokens, up to rounding.\<close>

lemma refill_le:
  assumes "bucket_ok limit b"
  shows "refill limit now b \<le> bk_tokens b +
    rps_of limit * (real (now - bk_last b) / 10 ^ 9) * (1 + ulp_rel) ^ 5 +
    real (unat (rl_burst limit)) * ulp_rel"
proof -
  define u where "u = 1 + ulp_rel"
  define B where "B = real (unat (rl_burst limit))"
  define e where "e = real (now - bk_last b) / 10 ^ 9"
  define x where "x = fl (as_secs_f64 (now - bk_last b) * rps_of limit)"
  have u: "1 \<le> u" "0 \<le> ulp_rel" by (simp_all add: u_def ulp_rel_def)
  have t: "0 \<le> bk_tokens b" "bk_tokens b \<le> B" using assms by (simp_all add: bucket_ok_def B_def)
  have r: "0 \<le> rps_of limit" by (simp add: rps_of_def)
  have B0: "0 \<le> B * ulp_rel" using u(2) by (simp add: B_def)
  have x0: "0 \<le> x" using r by (simp add: x_def fl.rnd_nonneg as_secs_f64_nonneg)
  have "as_secs_f64 (now - bk_last b) * rps_of limit \<le> e * u ^ 3 * rps_of limit"
    using as_secs_f64_le [of "now - bk_last b"] r by (intro mult_right_mono) (simp_all add: e_def u_def)
  then have "x \<le> fl (e * u ^ 3 * rps_of limit)" unfolding x_def by (rule fl_mono)
  also have "\<dots> \<le> e * u ^ 3 * rps_of limit * u"
    unfolding u_def by (rule fl_le) (use r u in \<open>simp add: e_def u_def\<close>)
  finally have x: "x \<le> rps_of limit * e * u ^ 4"
    by (simp add: power_numeral_reduce algebra_simps)
  have ref: "refill limit now b = min (fl (bk_tokens b + x)) B"
    by (simp add: refill_def f64_ops x_def B_def rps_of_def Let_def)
  have "min (fl (bk_tokens b + x)) B \<le> bk_tokens b + x * u + B * ulp_rel"
  proof (cases "bk_tokens b + x \<le> B")
    case True
    have "fl (bk_tokens b + x) \<le> bk_tokens b + x + (bk_tokens b + x) * ulp_rel"
      using fl_le [of "bk_tokens b + x"] t(1) x0 by (simp add: algebra_simps)
    also have "(bk_tokens b + x) * ulp_rel \<le> B * ulp_rel"
      using True u(2) by (rule mult_right_mono)
    finally have "fl (bk_tokens b + x) \<le> bk_tokens b + x + B * ulp_rel" by simp
    moreover have "x \<le> x * u" using x0 u(1) by (simp add: mult_le_cancel_left1)
    ultimately show ?thesis by linarith
  next
    case False
    moreover have "x \<le> x * u" using x0 u(1) by (simp add: mult_le_cancel_left1)
    ultimately show ?thesis using B0 by linarith
  qed
  also have "x * u \<le> rps_of limit * e * u ^ 4 * u" using x u(1) by (intro mult_right_mono) simp_all
  also have "rps_of limit * e * u ^ 4 * u = rps_of limit * e * u ^ 5" by (simp add: power_numeral_reduce)
  finally show ?thesis by (simp add: ref u_def B_def e_def)
qed

lemma take_spends:
  assumes "bucket_ok limit b" "bucket_take limit now b = (Inl u, b')"
  shows "bk_tokens b' + 1 \<le> refill limit now b + real (unat (rl_burst limit)) * ulp_rel"
proof -
  define r where "r = refill limit now b"
  have r: "1 \<le> r" "r \<le> real (unat (rl_burst limit))"
    using assms refill_bounds [of b limit now]
    by (auto simp: bucket_take_def bucket_ok_def Let_def r_def split: if_splits)
  have "bk_tokens b' = fl (r - 1)"
    using assms(2) by (auto simp: bucket_take_def f64_ops Let_def r_def split: if_splits)
  also have "\<dots> \<le> r - 1 + (r - 1) * ulp_rel"
    using fl_le [of "r - 1"] r(1) by (simp add: algebra_simps)
  also have "(r - 1) * ulp_rel \<le> real (unat (rl_burst limit)) * ulp_rel"
    using r(2) by (intro mult_right_mono) (simp_all add: ulp_rel_def)
  finally show ?thesis by (simp add: r_def)
qed

lemma admitted_le:
  assumes "bucket_ok limit b" "sorted (bk_last b # ts)"
  shows "real (admitted limit b ts) \<le> bk_tokens b +
     rps_of limit * (real (last (bk_last b # ts) - bk_last b) / 10 ^ 9) * (1 + ulp_rel) ^ 5 +
     2 * real (length ts) * real (unat (rl_burst limit)) * ulp_rel"
  using assms
proof (induction ts arbitrary: b)
  case Nil
  then show ?case by (simp add: bucket_ok_def)
next
  case (Cons t ts)
  define B where "B = real (unat (rl_burst limit))"
  define k where "k = rps_of limit * (1 + ulp_rel) ^ 5 / 10 ^ 9"
  define b' where "b' = snd (bucket_take limit t b)"
  have B: "0 \<le> B * ulp_rel" by (simp add: B_def ulp_rel_def)
  have ok': "bucket_ok limit b'" using bucket_take_ok [OF Cons.prems(1)] by (simp add: b'_def)
  have last': "bk_last b' = t" by (simp add: b'_def)
  have ord: "bk_last b \<le> t" "t \<le> last (t # ts)" "sorted (bk_last b' # ts)"
    using Cons.prems(2) last' by (auto simp: last_in_set)
  have split: "real (last (bk_last b # t # ts) - bk_last b) =
      real (last (t # ts) - t) + real (t - bk_last b)"
    using ord by simp
  have IH: "real (admitted limit b' ts) \<le> bk_tokens b' + k * real (last (t # ts) - t) +
      2 * real (length ts) * (B * ulp_rel)"
    using Cons.IH [OF ok' ord(3)] by (simp add: last' k_def B_def algebra_simps)
  have ref: "refill limit t b \<le> bk_tokens b + k * real (t - bk_last b) + B * ulp_rel"
    using refill_le [OF Cons.prems(1), of t] by (simp add: k_def B_def algebra_simps)
  have one: "(if fst (bucket_take limit t b) = Inl () then 1 else 0) + bk_tokens b'
      \<le> refill limit t b + B * ulp_rel"
  proof (cases "fst (bucket_take limit t b)")
    case (Inl u)
    then have eq: "bucket_take limit t b = (Inl u, b')" by (simp add: b'_def prod_eq_iff)
    from take_spends [OF Cons.prems(1) eq] Inl show ?thesis by (simp add: B_def)
  next
    case (Inr d)
    then have "bk_tokens b' = refill limit t b"
      by (auto simp: b'_def bucket_take_def Let_def split: if_splits)
    with Inr B show ?thesis by simp
  qed
  have "real (admitted limit b (t # ts)) =
      (if fst (bucket_take limit t b) = Inl () then 1 else 0) + real (admitted limit b' ts)"
    by (auto simp: b'_def split: prod.splits sum.splits)
  then have "real (admitted limit b (t # ts)) \<le> bk_tokens b + k * real (t - bk_last b) +
      k * real (last (t # ts) - t) + 2 * real (length (t # ts)) * (B * ulp_rel)"
    using IH ref one by (simp add: algebra_simps)
  also have "\<dots> = bk_tokens b + k * real (last (bk_last b # t # ts) - bk_last b) +
      2 * real (length (t # ts)) * (B * ulp_rel)"
    unfolding split by (simp add: algebra_simps)
  finally have bound: "real (admitted limit b (t # ts)) \<le> \<dots>" .
  have kx: "k * x = rps_of limit * (x / 10 ^ 9) * (1 + ulp_rel) ^ 5" for x by (simp add: k_def)
  from bound show ?case unfolding kx B_def by (simp only: mult.assoc)
qed

section \<open>The limiter\<close>

datatype rate_outcome = Allowed | Limited duration

record rate_limiter =
  lim_per_ip :: rate_limit
  lim_global :: rate_limit
  lim_max_entries :: nat
  lim_ips :: "(ip_addr \<times> bucket) list"
  lim_global_bucket :: bucket

definition rate_limiter_new :: "rate_limit \<Rightarrow> rate_limit \<Rightarrow> nat \<Rightarrow> instant \<Rightarrow> rate_limiter" where
  "rate_limiter_new per_ip global max_entries now = \<lparr>
     lim_per_ip = per_ip,
     lim_global = global,
     lim_max_entries = max max_entries 1,
     lim_ips = [],
     lim_global_bucket = bucket_new (fl (real (unat (rl_burst global)))) now\<rparr>"

text \<open>\<open>iter().min_by_key(|(_, b)| b.last_touched)\<close>: the first of the entries touched earliest.\<close>

fun oldest :: "(ip_addr \<times> bucket) list \<Rightarrow> (ip_addr \<times> bucket) option" where
  "oldest [] = None"
| "oldest (x # xs) =
     (case oldest xs of
        None \<Rightarrow> Some x
      | Some y \<Rightarrow> if bk_last_touched (snd x) \<le> bk_last_touched (snd y) then Some x else Some y)"

definition evict_for :: "ip_addr \<Rightarrow> nat \<Rightarrow> (ip_addr \<times> bucket) list \<Rightarrow> (ip_addr \<times> bucket) list" where
  "evict_for ip max_entries ips =
     (if map_of ips ip = None \<and> max_entries \<le> length ips
      then (case oldest ips of Some (k, _) \<Rightarrow> AList.delete k ips | None \<Rightarrow> ips)
      else ips)"

definition rate_check :: "ip_addr \<Rightarrow> instant \<Rightarrow> rate_limiter \<Rightarrow> rate_outcome \<times> rate_limiter" where
  "rate_check ip now rl =
     (case bucket_take (lim_global rl) now (lim_global_bucket rl) of
        (Inr retry, g) \<Rightarrow> (Limited retry, rl\<lparr>lim_global_bucket := g\<rparr>)
      | (Inl _, g) \<Rightarrow>
          (let ips = evict_for ip (lim_max_entries rl) (lim_ips rl);
               b = (case map_of ips ip of
                      Some b \<Rightarrow> b
                    | None \<Rightarrow> bucket_new (fl (real (unat (rl_burst (lim_per_ip rl))))) now)
           in case bucket_take (lim_per_ip rl) now b of
                (r, b') \<Rightarrow>
                  ((case r of Inl _ \<Rightarrow> Allowed | Inr retry \<Rightarrow> Limited retry),
                   rl\<lparr>lim_global_bucket := g, lim_ips := AList.update ip b' ips\<rparr>)))"

definition limiter_ok :: "rate_limiter \<Rightarrow> bool" where
  "limiter_ok rl \<longleftrightarrow>
     distinct (map fst (lim_ips rl)) \<and> 0 < lim_max_entries rl \<and>
     length (lim_ips rl) \<le> lim_max_entries rl \<and>
     bucket_ok (lim_global rl) (lim_global_bucket rl) \<and>
     (\<forall>(k, b) \<in> set (lim_ips rl). bucket_ok (lim_per_ip rl) b)"

lemma limiter_new_ok: "limiter_ok (rate_limiter_new p g n now)"
  by (simp add: limiter_ok_def rate_limiter_new_def bucket_new_ok del: fl_u32)

lemma oldest_None [simp]: "oldest xs = None \<longleftrightarrow> xs = []"
  by (cases xs) (auto split: option.splits)

lemma oldest_Some: "oldest xs = Some x \<Longrightarrow>
  x \<in> set xs \<and> (\<forall>y \<in> set xs. bk_last_touched (snd x) \<le> bk_last_touched (snd y))"
proof (induction xs arbitrary: x)
  case (Cons a xs)
  show ?case
  proof (cases "oldest xs")
    case None
    with Cons.prems show ?thesis by simp
  next
    case (Some y)
    with Cons.IH [OF Some] Cons.prems show ?thesis by (auto split: if_splits)
  qed
qed simp

lemma length_delete_less: "k \<in> fst ` set xs \<Longrightarrow> length (AList.delete k xs) < length xs"
proof -
  assume "k \<in> fst ` set xs"
  then obtain b where "(k, b) \<in> set xs" by force
  then show ?thesis unfolding AList.delete_eq by (rule length_filter_less) simp
qed

lemma set_update_subset: "set (AList.update k v xs) \<subseteq> insert (k, v) (set xs)"
  by (induction xs) auto

lemma evict_for_props:
  assumes "distinct (map fst ips)" "length ips \<le> n" "0 < n"
  shows "distinct (map fst (evict_for ip n ips))"
    and "set (evict_for ip n ips) \<subseteq> set ips"
    and "length (evict_for ip n ips) \<le> n"
    and "map_of ips ip = None \<Longrightarrow> length (evict_for ip n ips) < n"
    and "map_of (evict_for ip n ips) ip = map_of ips ip"
proof -
  have sub: "set (AList.delete k ips) \<subseteq> set ips" for k by (auto simp: AList.delete_eq)
  have del: "length (AList.delete k ips) < length ips" if "oldest ips = Some (k, b)" for k b
    by (rule length_delete_less) (use oldest_Some [OF that] in force)
  show "distinct (map fst (evict_for ip n ips))"
    using assms(1) by (auto simp: evict_for_def distinct_delete split: option.splits)
  show "set (evict_for ip n ips) \<subseteq> set ips"
    using sub by (auto simp: evict_for_def split: option.splits)
  show "length (evict_for ip n ips) \<le> n"
    using assms(2) del by (fastforce simp: evict_for_def split: option.splits)
  show "length (evict_for ip n ips) < n" if "map_of ips ip = None"
    using assms(2,3) del that by (fastforce simp: evict_for_def split: option.splits)
  show "map_of (evict_for ip n ips) ip = map_of ips ip"
    by (auto simp: evict_for_def delete_conv' split: option.splits)
qed

lemma length_update_le:
  "length (AList.update k v xs) = (if map_of xs k = None then Suc (length xs) else length xs)"
proof -
  have "length (map fst (AList.update k v xs))
      = (if k \<in> set (map fst xs) then length xs else Suc (length xs))"
    unfolding update_keys by simp
  then show ?thesis by (simp add: map_of_eq_None_iff)
qed

lemma rate_check_ok:
  assumes "limiter_ok rl" shows "limiter_ok (snd (rate_check ip now rl))"
proof (cases "bucket_take (lim_global rl) now (lim_global_bucket rl)")
  case (Pair r g)
  have g: "bucket_ok (lim_global rl) g"
    using assms bucket_take_ok [of "lim_global rl" "lim_global_bucket rl" now] Pair
    by (simp add: limiter_ok_def)
  show ?thesis
  proof (cases r)
    case (Inr d)
    with assms Pair g show ?thesis by (simp add: rate_check_def limiter_ok_def)
  next
    case (Inl u)
    define ips where "ips = evict_for ip (lim_max_entries rl) (lim_ips rl)"
    define b where "b = (case map_of ips ip of Some b \<Rightarrow> b
      | None \<Rightarrow> bucket_new (fl (real (unat (rl_burst (lim_per_ip rl))))) now)"
    define b' where "b' = snd (bucket_take (lim_per_ip rl) now b)"
    have old: "distinct (map fst (lim_ips rl))" "length (lim_ips rl) \<le> lim_max_entries rl"
        "0 < lim_max_entries rl" "\<forall>(k, b) \<in> set (lim_ips rl). bucket_ok (lim_per_ip rl) b"
      using assms by (simp_all add: limiter_ok_def)
    note ev = evict_for_props [OF old(1-3), of ip, folded ips_def]
    have "bucket_ok (lim_per_ip rl) b"
      using old(4) ev(2) by (auto simp: b_def bucket_new_ok simp del: fl_u32
          split: option.splits dest!: map_of_SomeD)
    then have b': "bucket_ok (lim_per_ip rl) b'" unfolding b'_def by (rule bucket_take_ok)
    have "length (AList.update ip b' ips) \<le> lim_max_entries rl"
      using ev(3,4,5) by (auto simp: length_update_le)
    moreover have "distinct (map fst (AList.update ip b' ips))" by (simp add: distinct_update ev(1))
    moreover have "\<forall>(k, b) \<in> set (AList.update ip b' ips). bucket_ok (lim_per_ip rl) b"
      using b' old(4) ev(2) set_update_subset [of ip b' ips] by fastforce
    moreover obtain r2 where "bucket_take (lim_per_ip rl) now b = (r2, b')"
      unfolding b'_def by (metis prod.collapse)
    ultimately show ?thesis using Pair Inl g old(3)
      by (simp add: rate_check_def limiter_ok_def Let_def flip: ips_def b_def)
  qed
qed

lemma bucket_take_retry': "bucket_take limit now b = (Inr retry, b') \<Longrightarrow> 1 \<le> as_millis retry"
  by (rule bucket_take_retry [of limit now b]) simp

lemma rate_check_retry:
  "fst (rate_check ip now rl) = Limited retry \<Longrightarrow> 1 \<le> as_millis retry"
  by (auto simp: rate_check_def Let_def split: prod.splits sum.splits dest: bucket_take_retry')

section \<open>The byte budget\<close>

record budget_tracker =
  bt_budget :: byte_budget
  bt_window_start :: instant
  bt_used :: u64

definition budget_new :: "byte_budget \<Rightarrow> instant \<Rightarrow> budget_tracker" where
  "budget_new budget now = \<lparr>bt_budget = budget, bt_window_start = now, bt_used = 0\<rparr>"

definition budget_window :: "budget_tracker \<Rightarrow> duration" where
  "budget_window t = from_secs (max (unat (bb_window_s (bt_budget t))) 1)"

definition reserve :: "u64 \<Rightarrow> instant \<Rightarrow> budget_tracker \<Rightarrow> (unit + duration) \<times> budget_tracker" where
  "reserve n now t =
     (let window = budget_window t;
          t = (if window \<le> now - bt_window_start t
               then t\<lparr>bt_window_start := now, bt_used := 0\<rparr> else t)
      in if bb_bytes (bt_budget t) < sat_add (bt_used t) n
         then (Inr (window - (now - bt_window_start t)), t)
         else (Inl (), t\<lparr>bt_used := sat_add (bt_used t) n\<rparr>))"

text \<open>The bytes granted by a sequence of reservations.\<close>

fun granted :: "budget_tracker \<Rightarrow> (instant \<times> u64) list \<Rightarrow> nat" where
  "granted t [] = 0"
| "granted t ((now, n) # rs) =
     (case reserve n now t of
        (Inl _, t') \<Rightarrow> unat n + granted t' rs
      | (Inr _, t') \<Rightarrow> granted t' rs)"

definition budget_ok :: "budget_tracker \<Rightarrow> bool" where
  "budget_ok t \<longleftrightarrow> bt_used t \<le> bb_bytes (bt_budget t)"

lemma budget_window_pos: "0 < budget_window t"
  by (simp add: budget_window_def from_secs_def)

lemma reserve_frame:
  "bt_budget (snd (reserve n now t)) = bt_budget t"
  "budget_window (snd (reserve n now t)) = budget_window t"
  by (simp_all add: reserve_def Let_def budget_window_def)

lemma reserve_ok: "budget_ok t \<Longrightarrow> budget_ok (snd (reserve n now t))"
  by (auto simp: reserve_def budget_ok_def Let_def)

lemma reserve_retry:
  assumes "reserve n now t = (Inr retry, t')"
  shows "0 < retry" "retry \<le> budget_window t" "bt_window_start t' + budget_window t = now + retry
    \<or> now < bt_window_start t'"
  using assms budget_window_pos [of t]
  by (auto simp: reserve_def Let_def split: if_splits)

text \<open>Over a run, the grants fit one budget per window begun.\<close>

lemma sat_add_no_overflow:
  "sat_add a b \<le> c \<Longrightarrow> unat c < 2 ^ 64 - 1 \<Longrightarrow> unat (sat_add a b) = unat a + unat b" for a :: u64
  unfolding word_le_nat_alt by (simp add: unat_sat_add min_def split: if_splits)

lemma granted_le:
  assumes "budget_ok t" "unat (bb_bytes (bt_budget t)) < 2 ^ 64 - 1"
    "sorted (bt_window_start t # map fst rs)"
  shows "unat (bt_used t) + granted t rs \<le>
    unat (bb_bytes (bt_budget t)) *
      (1 + (last (bt_window_start t # map fst rs) - bt_window_start t) div budget_window t)"
  using assms
proof (induction rs arbitrary: t)
  case Nil
  then show ?case by (simp add: budget_ok_def word_le_nat_alt)
next
  case (Cons r rs)
  obtain now n where r: "r = (now, n)" by (cases r)
  define B w where "B = unat (bb_bytes (bt_budget t))" and "w = budget_window t"
  define T where "T = last (bt_window_start t # map fst (r # rs))"
  define t0 where "t0 = (if w \<le> now - bt_window_start t
    then t\<lparr>bt_window_start := now, bt_used := 0\<rparr> else t)"
  define t' where "t' = snd (reserve n now t)"
  have w: "0 < w" by (simp add: w_def budget_window_pos)
  have "sorted (now # map fst rs)" using Cons.prems(3) by (simp add: r)
  moreover from this have "now \<le> T"
    using sorted_le_last [of now "map fst rs"] by (simp add: T_def r)
  ultimately have ord: "bt_window_start t \<le> now" "now \<le> T" "sorted (now # map fst rs)"
    using Cons.prems(3) by (simp_all add: r)
  have t': "bt_window_start t' = bt_window_start t0" "bt_budget t' = bt_budget t" "budget_window t' = w"
    using reserve_frame [of n now t] by (auto simp: t'_def t0_def reserve_def Let_def w_def)
  have sorted': "sorted (bt_window_start t' # map fst rs)"
    using ord by (auto simp: t' t0_def)
  have last': "last (bt_window_start t' # map fst rs) \<le> T"
    using ord by (auto simp: t' t0_def T_def r)
  have ok': "budget_ok t'" unfolding t'_def by (rule reserve_ok [OF Cons.prems(1)])
  have IH: "unat (bt_used t') + granted t' rs \<le>
      B * (1 + (last (bt_window_start t' # map fst rs) - bt_window_start t') div w)"
    using Cons.IH [OF ok' _ sorted'] Cons.prems(2) by (simp add: t' B_def)
  also have "\<dots> \<le> B * (1 + (T - bt_window_start t0) div w)"
    using last' by (intro mult_le_mono2 add_le_mono div_le_mono) (simp_all add: t')
  finally have IH: "unat (bt_used t') + granted t' rs \<le> B * (1 + (T - bt_window_start t0) div w)" .
  have rdef: "reserve n now t = (if bb_bytes (bt_budget t0) < sat_add (bt_used t0) n
      then (Inr (w - (now - bt_window_start t0)), t0)
      else (Inl (), t0\<lparr>bt_used := sat_add (bt_used t0) n\<rparr>))"
    by (simp only: reserve_def Let_def t0_def w_def)
  have step: "unat (bt_used t0) + granted t (r # rs) = unat (bt_used t') + granted t' rs"
  proof (cases "bb_bytes (bt_budget t0) < sat_add (bt_used t0) n")
    case True
    then show ?thesis by (simp add: r t'_def rdef)
  next
    case False
    have "unat (bb_bytes (bt_budget t0)) < 2 ^ 64 - 1"
      using Cons.prems(2) by (simp add: t0_def)
    from sat_add_no_overflow [OF _ this]
    have "unat (sat_add (bt_used t0) n) = unat (bt_used t0) + unat n"
      using False by (simp add: not_less)
    with False show ?thesis by (simp add: r t'_def rdef)
  qed
  have "unat (bt_used t) + granted t (r # rs) \<le> B * (1 + (T - bt_window_start t) div w)"
  proof (cases "w \<le> now - bt_window_start t")
    case False
    then show ?thesis using IH step by (simp add: t0_def)
  next
    case True
    have "granted t (r # rs) \<le> B * (1 + (T - now) div w)"
      using IH step True by (simp add: t0_def)
    moreover have "1 + (T - now) div w \<le> (T - bt_window_start t) div w"
    proof -
      have "(T - now + w) div w \<le> (T - bt_window_start t) div w"
        using True ord by (intro div_le_mono) simp
      then show ?thesis using w by simp
    qed
    moreover have "unat (bt_used t) \<le> B"
      using Cons.prems(1) by (simp add: budget_ok_def B_def word_le_nat_alt)
    ultimately have "granted t (r # rs) \<le> B * ((T - bt_window_start t) div w)"
        "unat (bt_used t) \<le> B"
      by (meson le_trans mult_le_mono2)+
    then show ?thesis by (simp only: distrib_left mult_1_right)
  qed
  then show ?case by (simp add: B_def w_def T_def)
qed

end
