(* ===== verification/Sdk_Concurrency.thy ===== *)
theory Sdk_Concurrency
  imports Sdk_Config
begin

text \<open>
  The concurrency caps of \<open>sdk/rust/src/limits.rs\<close>: the two shared atomic counters, the
  permit that owns a slot and gives it back when dropped, and \<open>Concurrency::acquire\<close>.

  The code is modelled twice. The first model is what one call computes when no other
  thread interferes: \<open>acquire\<close> and \<open>drop_permit\<close> on the two counters; it is what the
  request pipeline of \<open>Sdk_Service\<close> is composed of. The second is the code as threads run
  it, one atomic operation at a time: each load, compare-exchange and fetch-sub is a step of
  the relation \<open>conc_step\<close>, and any thread may move next. The invariant of its reachable
  states is that the counters count the threads that hold slots, so the caps hold in every
  interleaving and nothing leaks.
\<close>

section \<open>One call, undisturbed\<close>

record concurrency =
  cc_max :: u32
  cc_max_transfers :: u32
  cc_in_flight :: u32
  cc_transfers :: u32

datatype permit = Permit (permit_transfer: bool)

definition concurrency_new :: "u32 \<Rightarrow> u32 \<Rightarrow> concurrency" where
  "concurrency_new m mt =
     \<lparr>cc_max = m, cc_max_transfers = mt, cc_in_flight = 0, cc_transfers = 0\<rparr>"

definition acquire :: "bool \<Rightarrow> concurrency \<Rightarrow> permit option \<times> concurrency" where
  "acquire is_transfer c =
     (if cc_max c \<le> cc_in_flight c then (None, c)
      else let c1 = c\<lparr>cc_in_flight := cc_in_flight c + 1\<rparr>
           in if \<not> is_transfer then (Some (Permit False), c1)
              else if cc_max_transfers c1 \<le> cc_transfers c1
                   then (None, c1\<lparr>cc_in_flight := cc_in_flight c1 - 1\<rparr>)
                   else (Some (Permit True), c1\<lparr>cc_transfers := cc_transfers c1 + 1\<rparr>))"

definition drop_permit :: "permit \<Rightarrow> concurrency \<Rightarrow> concurrency" where
  "drop_permit p c =
     (let c1 = c\<lparr>cc_in_flight := cc_in_flight c - 1\<rparr>
      in if permit_transfer p then c1\<lparr>cc_transfers := cc_transfers c1 - 1\<rparr> else c1)"

text \<open>The permits that are out, as the counters record them.\<close>

definition counts_permits :: "permit list \<Rightarrow> concurrency \<Rightarrow> bool" where
  "counts_permits ps c \<longleftrightarrow>
     unat (cc_in_flight c) = length ps \<and>
     unat (cc_transfers c) = length (filter permit_transfer ps) \<and>
     cc_in_flight c \<le> cc_max c \<and> cc_transfers c \<le> cc_max_transfers c"

section \<open>The interface a pool of permits promises\<close>

text \<open>
  A client takes a permit, keeps it for a while, and gives it back. The pool promises that
  the permits out never exceed the caps, and that a permit given back leaves the pool as if
  it had never been taken.
\<close>

locale permit_pool =
  fixes take_permit :: "'k \<Rightarrow> 's \<Rightarrow> 'p option \<times> 's"
    and give_back :: "'p \<Rightarrow> 's \<Rightarrow> 's"
    and holds :: "'p list \<Rightarrow> 's \<Rightarrow> bool"
  assumes take_Some: "holds ps s \<Longrightarrow> take_permit k s = (Some p, s') \<Longrightarrow> holds (p # ps) s'"
    and take_None: "take_permit k s = (None, s') \<Longrightarrow> s' = s"
    and give_back: "holds (p # ps) s \<Longrightarrow> holds ps (give_back p s)"
    and give_back_take: "take_permit k s = (Some p, s') \<Longrightarrow> give_back p s' = s"
begin

lemma holds_after_give_back: "holds ps s \<Longrightarrow> take_permit k s = (Some p, s') \<Longrightarrow> holds ps (give_back p s')"
  by (simp add: give_back_take)

end

lemma acquire_Some:
  assumes "counts_permits ps c" "acquire k c = (Some p, c')"
  shows "counts_permits (p # ps) c'"
  using assms unat_inc [of "cc_in_flight c" "cc_max c"] unat_inc [of "cc_transfers c" "cc_max_transfers c"]
  by (auto simp: acquire_def counts_permits_def Let_def not_le order_less_le
      intro!: inc_le split: if_splits)

lemma acquire_None: "acquire k c = (None, c') \<Longrightarrow> c' = c"
  by (auto simp: acquire_def Let_def split: if_splits)

lemma drop_acquire: "acquire k c = (Some p, c') \<Longrightarrow> drop_permit p c' = c"
  by (auto simp: acquire_def drop_permit_def Let_def split: if_splits)

lemma drop_permit_counts: "counts_permits (p # ps) c \<Longrightarrow> counts_permits ps (drop_permit p c)"
  by (auto simp: counts_permits_def drop_permit_def Let_def unat_dec word_le_nat_alt split: if_splits)

interpretation caps: permit_pool acquire drop_permit counts_permits
  by unfold_locales (simp_all add: acquire_Some acquire_None drop_acquire drop_permit_counts)

lemma acquire_refuses_iff:
  "fst (acquire k c) = None \<longleftrightarrow>
     cc_max c \<le> cc_in_flight c \<or> (k \<and> cc_max_transfers c \<le> cc_transfers c)"
  by (simp add: acquire_def Let_def)

section \<open>Threads, one atomic operation at a time\<close>

text \<open>Where a thread is inside \<open>acquire\<close> and \<open>Permit::drop\<close>. \<open>CasInFlight k cur\<close> has loaded
  \<open>cur\<close> and is about to compare-exchange; \<open>Holding k\<close> owns a permit.\<close>

datatype pc =
    Idle
  | LoadInFlight bool
  | CasInFlight bool u32
  | LoadTransfers
  | CasTransfers u32
  | Rollback
  | Holding bool
  | DropTransfer

fun pc_step :: "concurrency \<Rightarrow> pc \<Rightarrow> concurrency \<times> pc" where
  "pc_step c Idle = (c, Idle)"
| "pc_step c (LoadInFlight k) =
     (if cc_max c \<le> cc_in_flight c then (c, Idle) else (c, CasInFlight k (cc_in_flight c)))"
| "pc_step c (CasInFlight k cur) =
     (if cc_in_flight c = cur
      then (c\<lparr>cc_in_flight := cur + 1\<rparr>, if k then LoadTransfers else Holding False)
      else (c, LoadInFlight k))"
| "pc_step c LoadTransfers =
     (if cc_max_transfers c \<le> cc_transfers c then (c, Rollback)
      else (c, CasTransfers (cc_transfers c)))"
| "pc_step c (CasTransfers cur) =
     (if cc_transfers c = cur then (c\<lparr>cc_transfers := cur + 1\<rparr>, Holding True)
      else (c, LoadTransfers))"
| "pc_step c Rollback = (c\<lparr>cc_in_flight := cc_in_flight c - 1\<rparr>, Idle)"
| "pc_step c (Holding k) =
     (c\<lparr>cc_in_flight := cc_in_flight c - 1\<rparr>, if k then DropTransfer else Idle)"
| "pc_step c DropTransfer = (c\<lparr>cc_transfers := cc_transfers c - 1\<rparr>, Idle)"

record conc_state =
  cs_conc :: concurrency
  cs_pcs :: "nat \<Rightarrow> pc"

inductive conc_step :: "conc_state \<Rightarrow> conc_state \<Rightarrow> bool" where
  call: "cs_pcs s t = Idle \<Longrightarrow> conc_step s (s\<lparr>cs_pcs := (cs_pcs s)(t := LoadInFlight k)\<rparr>)"
| run: "cs_pcs s t \<noteq> Idle \<Longrightarrow> pc_step (cs_conc s) (cs_pcs s t) = (c', p') \<Longrightarrow>
     conc_step s (s\<lparr>cs_conc := c', cs_pcs := (cs_pcs s)(t := p')\<rparr>)"

inductive_cases conc_stepE: "conc_step s s'"

inductive conc_reachable :: "u32 \<Rightarrow> u32 \<Rightarrow> conc_state \<Rightarrow> bool" for m mt where
  init: "conc_reachable m mt \<lparr>cs_conc = concurrency_new m mt, cs_pcs = (\<lambda>_. Idle)\<rparr>"
| step: "conc_reachable m mt s \<Longrightarrow> conc_step s s' \<Longrightarrow> conc_reachable m mt s'"

fun holds_slot :: "pc \<Rightarrow> bool" where
  "holds_slot LoadTransfers = True"
| "holds_slot (CasTransfers _) = True"
| "holds_slot Rollback = True"
| "holds_slot (Holding _) = True"
| "holds_slot _ = False"

fun holds_transfer :: "pc \<Rightarrow> bool" where
  "holds_transfer (Holding k) = k"
| "holds_transfer DropTransfer = True"
| "holds_transfer _ = False"

definition conc_inv :: "conc_state \<Rightarrow> bool" where
  "conc_inv s \<longleftrightarrow> finite {t. cs_pcs s t \<noteq> Idle} \<and>
     unat (cc_in_flight (cs_conc s)) = card {t. holds_slot (cs_pcs s t)} \<and>
     unat (cc_transfers (cs_conc s)) = card {t. holds_transfer (cs_pcs s t)} \<and>
     cc_in_flight (cs_conc s) \<le> cc_max (cs_conc s) \<and>
     cc_transfers (cs_conc s) \<le> cc_max_transfers (cs_conc s)"

text \<open>One step changes a counter exactly as it changes the moving thread's claim on it.\<close>

lemma pc_step_counts:
  assumes "pc_step c p = (c', p')"
    and "holds_slot p \<Longrightarrow> 0 < unat (cc_in_flight c)"
    and "holds_transfer p \<Longrightarrow> 0 < unat (cc_transfers c)"
    and "cc_in_flight c \<le> cc_max c" "cc_transfers c \<le> cc_max_transfers c"
    and "\<And>k cur. p = CasInFlight k cur \<Longrightarrow> cur < cc_max c"
    and "\<And>cur. p = CasTransfers cur \<Longrightarrow> cur < cc_max_transfers c"
  shows "unat (cc_in_flight c') + (if holds_slot p then 1 else 0) =
      unat (cc_in_flight c) + (if holds_slot p' then 1 else 0) \<and>
    unat (cc_transfers c') + (if holds_transfer p then 1 else 0) =
      unat (cc_transfers c) + (if holds_transfer p' then 1 else 0) \<and>
    cc_in_flight c' \<le> cc_max c \<and> cc_transfers c' \<le> cc_max_transfers c \<and>
    cc_max c' = cc_max c \<and> cc_max_transfers c' = cc_max_transfers c"
  using assms unat_inc [of "cc_in_flight c" "cc_max c"] unat_inc [of "cc_transfers c" "cc_max_transfers c"]
  by (cases p) (auto simp: unat_dec word_le_nat_alt word_less_nat_alt split: if_splits)

text \<open>A loaded value is below the cap: nothing writes the caps, so it stays so.\<close>

definition pcs_sane :: "conc_state \<Rightarrow> bool" where
  "pcs_sane s \<longleftrightarrow> (\<forall>t k cur. cs_pcs s t = CasInFlight k cur \<longrightarrow> cur < cc_max (cs_conc s)) \<and>
     (\<forall>t cur. cs_pcs s t = CasTransfers cur \<longrightarrow> cur < cc_max_transfers (cs_conc s))"

lemma pc_step_caps:
  "pc_step c p = (c', p') \<Longrightarrow> cc_max c' = cc_max c \<and> cc_max_transfers c' = cc_max_transfers c"
  by (cases p) (auto split: if_splits)

lemma conc_step_sane: "conc_step s s' \<Longrightarrow> pcs_sane s \<Longrightarrow> pcs_sane s'"
proof (elim conc_stepE)
  fix t k assume "pcs_sane s" "s' = s\<lparr>cs_pcs := (cs_pcs s)(t := LoadInFlight k)\<rparr>"
  then show ?thesis by (simp add: pcs_sane_def)
next
  fix t c' p'
  assume sane: "pcs_sane s" and st: "pc_step (cs_conc s) (cs_pcs s t) = (c', p')"
    and s': "s' = s\<lparr>cs_conc := c', cs_pcs := (cs_pcs s)(t := p')\<rparr>"
  have "cur < cc_max c'" if "p' = CasInFlight k cur" for k cur
    using st that by (cases "cs_pcs s t") (auto split: if_splits)
  moreover have "cur < cc_max_transfers c'" if "p' = CasTransfers cur" for cur
    using st that by (cases "cs_pcs s t") (auto split: if_splits)
  ultimately show ?thesis using sane pc_step_caps [OF st] by (simp add: pcs_sane_def s')
qed

lemma finite_pcs:
  assumes "finite {t. pcs t \<noteq> Idle}"
  shows "finite {t. holds_slot (pcs t)}" "finite {t. holds_transfer (pcs t)}"
  by (rule finite_subset [OF _ assms], force)+

lemma conc_step_inv: "conc_step s s' \<Longrightarrow> pcs_sane s \<Longrightarrow> conc_inv s \<Longrightarrow> conc_inv s'"
proof (elim conc_stepE)
  fix t k assume idle: "cs_pcs s t = Idle" and inv: "conc_inv s"
    and s': "s' = s\<lparr>cs_pcs := (cs_pcs s)(t := LoadInFlight k)\<rparr>"
  have fin: "finite {t. cs_pcs s t \<noteq> Idle}" using inv by (simp add: conc_inv_def)
  have "finite {i. cs_pcs s' i \<noteq> Idle}"
    by (rule finite_subset [of _ "insert t {t. cs_pcs s t \<noteq> Idle}"]) (auto simp: s' fin)
  then show ?thesis using inv idle finite_pcs [OF fin]
      card_fun_upd [of holds_slot "cs_pcs s" t "LoadInFlight k"]
      card_fun_upd [of holds_transfer "cs_pcs s" t "LoadInFlight k"]
    by (simp add: conc_inv_def s')
next
  fix t c' p'
  assume inv: "conc_inv s" and sane: "pcs_sane s"
    and st: "pc_step (cs_conc s) (cs_pcs s t) = (c', p')"
    and s': "s' = s\<lparr>cs_conc := c', cs_pcs := (cs_pcs s)(t := p')\<rparr>"
  have fin: "finite {t. cs_pcs s t \<noteq> Idle}" using inv by (simp add: conc_inv_def)
  note fins = finite_pcs [OF fin]
  have "finite {i. cs_pcs s' i \<noteq> Idle}"
    by (rule finite_subset [of _ "insert t {t. cs_pcs s t \<noteq> Idle}"]) (auto simp: s' fin)
  moreover have "0 < unat (cc_in_flight (cs_conc s))" if "holds_slot (cs_pcs s t)"
    using inv fins(1) that by (auto simp: conc_inv_def card_gt_0_iff)
  moreover have "0 < unat (cc_transfers (cs_conc s))" if "holds_transfer (cs_pcs s t)"
    using inv fins(2) that by (auto simp: conc_inv_def card_gt_0_iff)
  moreover note pc_step_counts [OF st]
  ultimately show ?thesis using inv sane
      card_fun_upd [where P = holds_slot, OF fins(1), of t p']
      card_fun_upd [where P = holds_transfer, OF fins(2), of t p']
    by (simp add: conc_inv_def pcs_sane_def s')
qed

lemma conc_reachable_inv: "conc_reachable m mt s \<Longrightarrow>
  conc_inv s \<and> pcs_sane s \<and> cc_max (cs_conc s) = m \<and> cc_max_transfers (cs_conc s) = mt"
proof (induction rule: conc_reachable.induct)
  case init
  show ?case by (simp add: conc_inv_def pcs_sane_def concurrency_new_def)
next
  case (step s s')
  have "cc_max (cs_conc s') = cc_max (cs_conc s) \<and>
      cc_max_transfers (cs_conc s') = cc_max_transfers (cs_conc s)"
    using step.hyps(2) by (elim conc_stepE) (auto dest: pc_step_caps)
  with step show ?case by (simp add: conc_step_inv conc_step_sane)
qed

text \<open>A thread that no other thread disturbs computes \<open>acquire\<close>, in at most four steps.\<close>

fun pc_steps :: "nat \<Rightarrow> concurrency \<times> pc \<Rightarrow> concurrency \<times> pc" where
  "pc_steps 0 cp = cp"
| "pc_steps (Suc n) (c, p) = pc_steps n (pc_step c p)"

lemma pc_steps_acquire:
  "acquire k c = (r, c') \<Longrightarrow>
   \<exists>n \<le> 5. pc_steps n (c, LoadInFlight k) =
     (c', case r of None \<Rightarrow> Idle | Some p \<Rightarrow> Holding (permit_transfer p))"
proof -
  assume a: "acquire k c = (r, c')"
  show ?thesis
  proof (cases "cc_max c \<le> cc_in_flight c")
    case True
    with a show ?thesis by (intro exI [of _ 1]) (auto simp: acquire_def)
  next
    case nofull: False
    show ?thesis
    proof (cases k)
      case False
      with a nofull show ?thesis
        by (intro exI [of _ 2]) (auto simp: acquire_def Let_def numeral_2_eq_2)
    next
      case True
      show ?thesis
      proof (cases "cc_max_transfers c \<le> cc_transfers c")
        case True
        with a nofull \<open>k\<close> show ?thesis
          by (intro exI [of _ 4]) (auto simp: acquire_def Let_def eval_nat_numeral)
      next
        case False
        with a nofull \<open>k\<close> show ?thesis
          by (intro exI [of _ 4]) (auto simp: acquire_def Let_def eval_nat_numeral)
      qed
    qed
  qed
qed

end
