(* ===== verification/Sdk_Response.thy ===== *)
theory Sdk_Response
  imports Sdk_Timing Sdk_Concurrency
begin

text \<open>
  Responses of the embeddable endpoint: the enveloped errors of \<open>sdk/rust/src/error.rs\<close> and
  the response body and builders of \<open>sdk/rust/src/resp.rs\<close>.

  Code outside the repository is a parameter, the record \<open>ext\<close>: serialising a JSON value
  (\<open>serde_json::to_vec\<close>), the validity of a header value (\<open>HeaderValue::from_str\<close>), reading
  a header value as text (\<open>HeaderValue::to_str\<close>) and the constant-time comparison
  (\<open>subtle::ConstantTimeEq\<close>). A JSON object is an association list that \<open>json_set\<close> updates
  by key; a response's headers are the list the builder appends to.
\<close>

datatype json =
    JNull
  | JBool bool
  | JNum nat
  | JStr string
  | JObj "(string \<times> json) list"

fun json_set :: "string \<Rightarrow> json \<Rightarrow> json \<Rightarrow> json" where
  "json_set k v (JObj kvs) = JObj (if k \<in> set (map fst kvs)
     then map (\<lambda>(a, b). if a = k then (a, v) else (a, b)) kvs else kvs @ [(k, v)])"
| "json_set k v j = j"

fun json_get :: "string \<Rightarrow> json \<Rightarrow> json option" where
  "json_get k (JObj kvs) = map_of kvs k"
| "json_get k _ = None"

record ext =
  ext_to_vec :: "json \<Rightarrow> bytes option"
  ext_header_ok :: "string \<Rightarrow> bool"
  ext_to_str :: "string \<Rightarrow> string option"
  ext_ct_eq :: "string \<Rightarrow> string \<Rightarrow> u8"

section \<open>The body and the response\<close>

datatype lag_body_kind = FullBody "bytes option" | DownloadStream download_body

record lag_body =
  lb_kind :: lag_body_kind
  lb_permit :: "permit option"

definition lag_full :: "bytes \<Rightarrow> lag_body" where
  "lag_full bs = \<lparr>lb_kind = FullBody (Some bs), lb_permit = None\<rparr>"

definition lag_empty :: lag_body where
  "lag_empty = \<lparr>lb_kind = FullBody None, lb_permit = None\<rparr>"

definition with_permit :: "permit option \<Rightarrow> lag_body \<Rightarrow> lag_body" where
  "with_permit p b = b\<lparr>lb_permit := p\<rparr>"

definition lag_poll_frame :: "lag_body \<Rightarrow> bytes option \<times> lag_body" where
  "lag_poll_frame b = (case lb_kind b of
     FullBody opt \<Rightarrow>
       ((case opt of Some bs \<Rightarrow> if bs \<noteq> [] then Some bs else None | None \<Rightarrow> None),
        b\<lparr>lb_kind := FullBody None\<rparr>)
   | DownloadStream d \<Rightarrow>
       (case download_poll_frame d of (f, d') \<Rightarrow> (f, b\<lparr>lb_kind := DownloadStream d'\<rparr>)))"

definition lag_is_end_stream :: "lag_body \<Rightarrow> bool" where
  "lag_is_end_stream b = (case lb_kind b of
     FullBody opt \<Rightarrow> opt = None
   | DownloadStream d \<Rightarrow> download_is_end_stream d)"

definition lag_size_hint :: "lag_body \<Rightarrow> nat" where
  "lag_size_hint b = (case lb_kind b of
     FullBody (Some bs) \<Rightarrow> length bs
   | FullBody None \<Rightarrow> 0
   | DownloadStream d \<Rightarrow> download_size_hint d)"

record response =
  rs_status :: nat
  rs_headers :: "(string \<times> string) list"
  rs_body :: lag_body

definition bare_404 :: response where
  "bare_404 = \<lparr>rs_status = 404, rs_headers = [], rs_body = lag_empty\<rparr>"

definition CACHE_CONTROL :: string where
  "CACHE_CONTROL = ''no-store, no-cache, must-revalidate''"

definition common_headers :: "ext \<Rightarrow> metric list \<Rightarrow> (string \<times> string) list" where
  "common_headers x timing =
     [(''cache-control'', CACHE_CONTROL), (''timing-allow-origin'', ''*'')] @
     (let header = build_header timing
      in if ext_header_ok x header then [(''server-timing'', header)] else [])"

definition json_response ::
  "ext \<Rightarrow> nat \<Rightarrow> json \<Rightarrow> metric list \<Rightarrow> (string \<times> string) list \<Rightarrow> response" where
  "json_response x status v timing extra =
     (let body = (case ext_to_vec x v of Some bs \<Rightarrow> bs | None \<Rightarrow> [0x7B, 0x7D])
      in \<lparr>rs_status = status,
          rs_headers = common_headers x timing @ [(''content-type'', ''application/json'')] @
            filter (\<lambda>(k, val). ext_header_ok x val) extra @
            [(''content-length'', decimal (length body))],
          rs_body = lag_full body\<rparr>)"

definition download_response ::
  "ext \<Rightarrow> download_body \<Rightarrow> u64 \<Rightarrow> metric list \<Rightarrow> permit option \<Rightarrow> response" where
  "download_response x body actual timing p =
     \<lparr>rs_status = 200,
      rs_headers = common_headers x timing @
        [(''content-type'', ''application/octet-stream''),
         (''content-length'', decimal (unat actual)),
         (''x-laghound-bytes'', decimal (unat actual))],
      rs_body = \<lparr>lb_kind = DownloadStream body, lb_permit = p\<rparr>\<rparr>"

section \<open>Enveloped errors\<close>

datatype error_code = InvalidParam | MethodNotAllowed | PayloadTooLarge | RateLimited | Internal

definition error_status :: "error_code \<Rightarrow> nat" where
  "error_status e = (case e of
     InvalidParam \<Rightarrow> 400 | MethodNotAllowed \<Rightarrow> 405 | PayloadTooLarge \<Rightarrow> 413
   | RateLimited \<Rightarrow> 429 | Internal \<Rightarrow> 500)"

definition error_code_str :: "error_code \<Rightarrow> string" where
  "error_code_str e = (case e of
     InvalidParam \<Rightarrow> ''invalid_param'' | MethodNotAllowed \<Rightarrow> ''method_not_allowed''
   | PayloadTooLarge \<Rightarrow> ''payload_too_large'' | RateLimited \<Rightarrow> ''rate_limited''
   | Internal \<Rightarrow> ''internal'')"

definition error_message :: "error_code \<Rightarrow> string" where
  "error_message e = (case e of
     InvalidParam \<Rightarrow> ''invalid parameter'' | MethodNotAllowed \<Rightarrow> ''method not allowed''
   | PayloadTooLarge \<Rightarrow> ''payload too large'' | RateLimited \<Rightarrow> ''rate limit exceeded''
   | Internal \<Rightarrow> ''internal error'')"

definition envelope :: "ext \<Rightarrow> error_code \<Rightarrow> nat option \<Rightarrow> metric list \<Rightarrow> response" where
  "envelope x ec retry_after_ms timing =
     (let err = JObj [(''code'', JStr (error_code_str ec)), (''message'', JStr (error_message ec))];
          err = (case retry_after_ms of Some ms \<Rightarrow> json_set ''retry_after_ms'' (JNum ms) err | None \<Rightarrow> err);
          extra = (case retry_after_ms of
                     Some ms \<Rightarrow> [(''retry-after'', decimal (max (div_ceil ms 1000) 1))] | None \<Rightarrow> [])
      in json_response x (error_status ec)
           (JObj [(''contract'', JStr ''v1''), (''error'', err)]) timing extra)"

text \<open>Polling a body to its end, as the connection does.\<close>

function collect_frames :: "lag_body \<Rightarrow> bytes list" where
  "collect_frames b =
     (case lag_poll_frame b of
        (None, _) \<Rightarrow> []
      | (Some f, b') \<Rightarrow> if f = [] then [] else f # collect_frames b')"
  by pat_completeness auto
termination
  by (relation "measure lag_size_hint")
    (auto simp: lag_poll_frame_def download_poll_frame_def lag_size_hint_def
       download_size_hint_def slice_def Let_def
     split: if_splits lag_body_kind.splits option.splits)

declare collect_frames.simps [simp del]

lemma collect_full: "concat (collect_frames (lag_full bs)) = bs"
proof -
  have e: "collect_frames \<lparr>lb_kind = FullBody None, lb_permit = p\<rparr> = []" for p
    by (subst collect_frames.simps) (simp add: lag_poll_frame_def)
  show ?thesis
    by (subst collect_frames.simps) (simp add: lag_poll_frame_def lag_full_def e)
qed

lemma collect_empty [simp]: "collect_frames lag_empty = []"
  by (subst collect_frames.simps) (simp add: lag_poll_frame_def lag_empty_def)

lemma collect_download:
  "collect_frames \<lparr>lb_kind = DownloadStream d, lb_permit = p\<rparr> = drain_frames d"
proof (induction d rule: drain_frames.induct)
  case (1 d)
  obtain f d' where poll: "download_poll_frame d = (f, d')" by fastforce
  show ?case
  proof (cases f)
    case None
    with poll show ?thesis
      by (subst collect_frames.simps, subst drain_frames.simps) (simp add: lag_poll_frame_def)
  next
    case (Some bs)
    with poll have "bs \<noteq> [] \<Longrightarrow>
        collect_frames \<lparr>lb_kind = DownloadStream d', lb_permit = p\<rparr> = drain_frames d'"
      by (intro "1.IH") auto
    with poll Some show ?thesis
      by (subst collect_frames.simps, subst drain_frames.simps) (simp add: lag_poll_frame_def)
  qed
qed

lemma collect_fill:
  "concat (collect_frames \<lparr>lb_kind = DownloadStream (fill_body n), lb_permit = p\<rparr>)
     = replicate (unat n) DOWNLOAD_FILL"
  using drain_frames_spec [of "fill_body n"] by (simp add: collect_download fill_body_def)

lemma envelope_body_permit [simp]: "lb_permit (rs_body (envelope x c r t)) = None"
  by (simp add: envelope_def json_response_def lag_full_def Let_def)

lemma json_response_permit [simp]: "lb_permit (rs_body (json_response x s v t e)) = None"
  by (simp add: json_response_def lag_full_def Let_def)

lemma bare_404_permit [simp]: "lb_permit (rs_body bare_404) = None"
  by (simp add: bare_404_def lag_empty_def)

lemma envelope_status [simp]: "rs_status (envelope x c r t) = error_status c"
  by (simp add: envelope_def json_response_def Let_def)

lemma json_response_status [simp]: "rs_status (json_response x s v t e) = s"
  by (simp add: json_response_def Let_def)

end
