(* ===== verification/Sdk_Service.thy ===== *)
theory Sdk_Service
  imports Sdk_Rate Sdk_Response
begin

text \<open>
  The embeddable endpoint's request pipeline: \<open>sdk/rust/src/state.rs\<close> (the state built once
  from the configuration) and \<open>sdk/rust/src/service.rs\<close> (the kill switch, the check order and
  the routes).

  \<open>sdk_state\<close> is \<open>Inner\<close>: its limiter, concurrency counters and budget are the shared mutable
  parts, so an operation returns them updated. A request is a record of what the handlers
  read of it; header names are the lower-case names that \<open>http\<close> canonicalises to, and a header
  value is the string of its bytes. The body is the list of frames that polling it yields.
  Every clock reading on a request's path (\<open>Instant::now()\<close>, \<open>elapsed()\<close>) and the environment
  read is a field of \<open>readings\<close>. A permit is dropped (\<open>release\<close>) where its scope ends. The
  functions are total, so the branch of \<open>call\<close> that turns a panic into a 500 is not modelled.
\<close>

section \<open>The state\<close>

definition SDK_LANG :: string where "SDK_LANG = ''rust''"
definition SDK_VERSION :: string where "SDK_VERSION = ''1.0.0''"

record sdk_state =
  st_prefix :: string
  st_tokens :: "string list"
  st_download_cap_bytes :: u64
  st_upload_cap_bytes :: u64
  st_routes :: route_toggles
  st_started :: instant
  st_rate :: rate_limiter
  st_concurrency :: concurrency
  st_budget :: "budget_tracker option"
  st_health_template :: json
  st_info_template :: json

definition sdk_json :: json where
  "sdk_json = JObj [(''lang'', JStr SDK_LANG), (''version'', JStr SDK_VERSION)]"

definition routes_json :: "route_toggles \<Rightarrow> json" where
  "routes_json r = JObj
     [(''health'', JBool True), (''echo'', JBool (rt_echo r)), (''download'', JBool (rt_download r)),
      (''upload'', JBool (rt_upload r)), (''info'', JBool (rt_info r))]"

definition rate_json :: "rate_limit \<Rightarrow> json" where
  "rate_json l = JObj [(''rps'', JNum (unat (rl_rps l))), (''burst'', JNum (unat (rl_burst l)))]"

definition set_app :: "string option \<Rightarrow> json \<Rightarrow> json" where
  "set_app app j = (case app of Some a \<Rightarrow> json_set ''app'' (JStr a) j | None \<Rightarrow> j)"

definition health_json :: "sdk_config \<Rightarrow> json" where
  "health_json cfg = set_app (cfg_app_name cfg) (JObj
     [(''contract'', JStr ''v1''), (''status'', JStr ''ok''), (''sdk'', sdk_json),
      (''routes'', routes_json (cfg_routes cfg))])"

definition info_json :: "sdk_config \<Rightarrow> json" where
  "info_json cfg = set_app (cfg_app_name cfg) (JObj
     [(''contract'', JStr ''v1''), (''sdk'', sdk_json), (''prefix'', JStr (cfg_prefix cfg)),
      (''token_set'', JBool (cfg_tokens cfg \<noteq> [])),
      (''caps'', JObj
        [(''download_bytes'', JNum (unat (cfg_download_cap_bytes cfg))),
         (''upload_bytes'', JNum (unat (cfg_upload_cap_bytes cfg))),
         (''absolute_max_bytes'', JNum (unat ABSOLUTE_MAX_BYTES))]),
      (''limits'', JObj
        [(''rate_per_ip'', rate_json (cfg_rate_per_ip cfg)),
         (''rate_global'', rate_json (cfg_rate_global cfg)),
         (''max_concurrent'', JNum (unat (cfg_max_concurrent cfg))),
         (''max_concurrent_transfers'', JNum (unat (cfg_max_concurrent_transfers cfg))),
         (''byte_budget'', (case cfg_byte_budget cfg of
            Some b \<Rightarrow> JObj [(''bytes'', JNum (unat (bb_bytes b))), (''window_s'', JNum (unat (bb_window_s b)))]
          | None \<Rightarrow> JNull))]),
      (''routes'', routes_json (cfg_routes cfg))])"

definition from_config :: "sdk_config \<Rightarrow> instant \<Rightarrow> sdk_state" where
  "from_config cfg now = \<lparr>
     st_prefix = cfg_prefix cfg,
     st_tokens = cfg_tokens cfg,
     st_download_cap_bytes = cfg_download_cap_bytes cfg,
     st_upload_cap_bytes = cfg_upload_cap_bytes cfg,
     st_routes = cfg_routes cfg,
     st_started = now,
     st_rate = rate_limiter_new (cfg_rate_per_ip cfg) (cfg_rate_global cfg)
       (cfg_per_ip_table_max_entries cfg) now,
     st_concurrency = concurrency_new (cfg_max_concurrent cfg) (cfg_max_concurrent_transfers cfg),
     st_budget = map_option (\<lambda>b. budget_new b now) (cfg_byte_budget cfg),
     st_health_template = health_json cfg,
     st_info_template = info_json cfg\<rparr>"

definition uptime_s :: "instant \<Rightarrow> sdk_state \<Rightarrow> nat" where
  "uptime_s now st = as_secs (now - st_started st)"

definition effective_download_cap :: "sdk_state \<Rightarrow> u64" where
  "effective_download_cap st = min (st_download_cap_bytes st) ABSOLUTE_MAX_BYTES"

definition effective_upload_cap :: "sdk_state \<Rightarrow> u64" where
  "effective_upload_cap st = min (st_upload_cap_bytes st) ABSOLUTE_MAX_BYTES"

definition token_matches :: "ext \<Rightarrow> sdk_state \<Rightarrow> string \<Rightarrow> bool" where
  "token_matches x st candidate =
     (let matched = foldl (\<lambda>m tok. or m
            (if length tok = length candidate then ext_ct_eq x tok candidate else 0)) 0 (st_tokens st)
      in matched = 1 \<and> TOKEN_MIN_BYTES \<le> length candidate)"

section \<open>The kill switch\<close>

record disabled_cache =
  dc_checked_at :: u64
  dc_value :: bool
  dc_origin :: instant

definition read_disabled_env :: "string option \<Rightarrow> bool" where
  "read_disabled_env env = (case env of Some v \<Rightarrow> v = ''1'' | None \<Rightarrow> False)"

definition disabled_cache_new :: "string option \<Rightarrow> instant \<Rightarrow> disabled_cache" where
  "disabled_cache_new env now =
     \<lparr>dc_checked_at = 0, dc_value = read_disabled_env env, dc_origin = now\<rparr>"

definition is_disabled :: "instant \<Rightarrow> string option \<Rightarrow> disabled_cache \<Rightarrow> bool \<times> disabled_cache" where
  "is_disabled now env dc =
     (let now_ms = of_nat (as_millis (now - dc_origin dc)) :: u64;
          last_ms = dc_checked_at dc
      in if 1000 \<le> sat_sub now_ms last_ms \<or> last_ms = 0
         then (let v = read_disabled_env env
               in (v, dc\<lparr>dc_value := v, dc_checked_at := max now_ms 1\<rparr>))
         else (dc_value dc, dc))"

section \<open>Requests\<close>

datatype http_method = GET | POST | OtherMethod string

datatype body_frame = DataFrame bytes | OtherFrame | FrameError

record request =
  rq_method :: http_method
  rq_path :: string
  rq_query :: "string option"
  rq_headers :: "(string \<times> string) list"
  rq_client_ip :: "ip_addr option"
  rq_body :: "body_frame list"

record readings =
  rd_kill :: instant
  rd_env :: "string option"
  rd_rate :: instant
  rd_uptime :: instant
  rd_budget :: instant
  rd_start :: instant
  rd_end :: instant
  rd_recv_start :: instant
  rd_recv_end :: instant
  rd_app_start :: instant
  rd_app_end :: instant

definition header_get :: "string \<Rightarrow> request \<Rightarrow> string option" where
  "header_get k req = map_of (rq_headers req) k"

definition path_under_prefix :: "string \<Rightarrow> string \<Rightarrow> bool" where
  "path_under_prefix path pre \<longleftrightarrow> path = pre \<or>
     (case strip_prefix pre path of Some r \<Rightarrow> starts_with ''/'' r | None \<Rightarrow> False)"

definition client_ip :: "request \<Rightarrow> ip_addr" where
  "client_ip req = (case rq_client_ip req of Some ip \<Rightarrow> ip | None \<Rightarrow> V4 0)"

definition is_authed :: "ext \<Rightarrow> sdk_state \<Rightarrow> request \<Rightarrow> bool" where
  "is_authed x st req = (case header_get ''x-laghound-token'' req of
     Some v \<Rightarrow> token_matches x st v
   | None \<Rightarrow> (case header_get ''authorization'' req of
       Some v \<Rightarrow> (case ext_to_str x v of
         Some s \<Rightarrow> (case strip_prefix ''Bearer '' s of
           Some tok \<Rightarrow> token_matches x st tok
         | None \<Rightarrow> False)
       | None \<Rightarrow> False)
     | None \<Rightarrow> False))"

definition elapsed_ms :: "instant \<Rightarrow> instant \<Rightarrow> f64" where
  "elapsed_ms start now = f64_mul (as_secs_f64 (now - start)) 1000"

definition push_metric :: "string \<Rightarrow> f64 \<Rightarrow> metric list \<Rightarrow> metric list" where
  "push_metric n d v = (case metric_new n (Finite d) of Some m \<Rightarrow> v @ [m] | None \<Rightarrow> v)"

definition app_timing :: "f64 \<Rightarrow> metric list" where
  "app_timing dur_ms = push_metric ''total'' dur_ms (push_metric ''app'' dur_ms [])"

definition recv_app_timing :: "f64 \<Rightarrow> f64 \<Rightarrow> metric list" where
  "recv_app_timing recv_ms app_ms =
     push_metric ''total'' (f64_add recv_ms app_ms)
       (push_metric ''app'' app_ms (push_metric ''recv'' recv_ms []))"

definition content_length :: "ext \<Rightarrow> request \<Rightarrow> u64 option" where
  "content_length x req = (case header_get ''content-length'' req of
     Some v \<Rightarrow> (case ext_to_str x v of Some s \<Rightarrow> parse_u64 (trim s) | None \<Rightarrow> None)
   | None \<Rightarrow> None)"

fun find_bytes :: "string list \<Rightarrow> unit + u64 option" where
  "find_bytes [] = Inr None"
| "find_bytes (pair # pairs) =
     (case split_once CHR ''='' pair of
        (k, v) \<Rightarrow>
          if k = ''bytes''
          then (case parse_u64 (case v of Some s \<Rightarrow> s | None \<Rightarrow> '''') of
                  Some n \<Rightarrow> Inr (Some n) | None \<Rightarrow> Inl ())
          else find_bytes pairs)"

definition parse_bytes_param :: "string option \<Rightarrow> unit + u64 option" where
  "parse_bytes_param query = (case query of
     None \<Rightarrow> Inr None | Some q \<Rightarrow> find_bytes (split_on CHR ''&'' q))"

datatype drain_result = DrainOk u64 | OverCap | DrainError

fun drain_loop :: "body_frame list \<Rightarrow> u64 \<Rightarrow> u64 \<Rightarrow> drain_result" where
  "drain_loop [] cap n = DrainOk n"
| "drain_loop (DataFrame bs # fs) cap n =
     (let n' = sat_add n (of_nat (length bs))
      in if cap < n' then OverCap else drain_loop fs cap n')"
| "drain_loop (OtherFrame # fs) cap n = drain_loop fs cap n"
| "drain_loop (FrameError # fs) cap n = DrainError"

definition drain_capped :: "body_frame list \<Rightarrow> u64 \<Rightarrow> drain_result" where
  "drain_capped body cap = drain_loop body cap 0"

section \<open>Routes\<close>

definition retry_ms :: "duration \<Rightarrow> nat" where
  "retry_ms d = unat (max (of_nat (as_millis d) :: u64) 1)"

definition route_health :: "ext \<Rightarrow> readings \<Rightarrow> sdk_state \<Rightarrow> http_method \<Rightarrow> response" where
  "route_health x rd st meth =
     (if meth \<noteq> GET then envelope x MethodNotAllowed None (app_timing 0)
      else json_response x 200
        (json_set ''uptime_s'' (JNum (uptime_s (rd_uptime rd) st)) (st_health_template st))
        (app_timing (elapsed_ms (rd_start rd) (rd_end rd))) [])"

definition route_info :: "ext \<Rightarrow> readings \<Rightarrow> sdk_state \<Rightarrow> http_method \<Rightarrow> response" where
  "route_info x rd st meth =
     (if meth \<noteq> GET then envelope x MethodNotAllowed None (app_timing 0)
      else json_response x 200
        (json_set ''uptime_s'' (JNum (uptime_s (rd_uptime rd) st)) (st_info_template st))
        (app_timing (elapsed_ms (rd_start rd) (rd_end rd))) [])"

definition route_echo :: "ext \<Rightarrow> readings \<Rightarrow> request \<Rightarrow> response" where
  "route_echo x rd req =
     (if rq_method req \<noteq> GET then envelope x MethodNotAllowed None (app_timing 0)
      else if (case content_length x req of
                 Some len \<Rightarrow> ECHO_REQUEST_BODY_MAX_BYTES < len | None \<Rightarrow> False)
        then envelope x PayloadTooLarge None (app_timing 0)
      else (case drain_capped (rq_body req) ECHO_REQUEST_BODY_MAX_BYTES of
          OverCap \<Rightarrow> envelope x PayloadTooLarge None (app_timing 0)
        | DrainError \<Rightarrow> envelope x Internal None (app_timing 0)
        | DrainOk _ \<Rightarrow> json_response x 200 (JObj [(''contract'', JStr ''v1''), (''ok'', JBool True)])
            (app_timing (elapsed_ms (rd_start rd) (rd_end rd))) []))"

definition release :: "permit \<Rightarrow> sdk_state \<Rightarrow> sdk_state" where
  "release p st = st\<lparr>st_concurrency := drop_permit p (st_concurrency st)\<rparr>"

text \<open>\<open>if let Some(budget) = &state.0.budget { budget.reserve(n) }\<close>.\<close>

definition budget_reserve :: "u64 \<Rightarrow> instant \<Rightarrow> sdk_state \<Rightarrow> (unit + duration) \<times> sdk_state" where
  "budget_reserve n now st = (case st_budget st of
     None \<Rightarrow> (Inl (), st)
   | Some b \<Rightarrow> (case reserve n now b of (r, b') \<Rightarrow> (r, st\<lparr>st_budget := Some b'\<rparr>)))"

definition route_download ::
  "ext \<Rightarrow> readings \<Rightarrow> sdk_state \<Rightarrow> request \<Rightarrow> permit \<Rightarrow> response \<times> sdk_state" where
  "route_download x rd st req p =
     (if rq_method req \<noteq> GET
      then (envelope x MethodNotAllowed None (app_timing 0), release p st)
      else (case parse_bytes_param (rq_query req) of
          Inl _ \<Rightarrow> (envelope x InvalidParam None (app_timing 0), release p st)
        | Inr opt \<Rightarrow>
            (let requested = (case opt of Some v \<Rightarrow> v | None \<Rightarrow> DEFAULT_CAP_BYTES);
                 actual = min requested (effective_download_cap st)
             in case budget_reserve actual (rd_budget rd) st of
                  (Inr retry, st') \<Rightarrow>
                    (envelope x RateLimited (Some (retry_ms retry)) (app_timing 0), release p st')
                | (Inl _, st') \<Rightarrow>
                    (download_response x (fill_body actual) actual
                       (app_timing (elapsed_ms (rd_start rd) (rd_end rd))) (Some p), st'))))"

definition route_upload ::
  "ext \<Rightarrow> readings \<Rightarrow> sdk_state \<Rightarrow> request \<Rightarrow> response \<times> sdk_state" where
  "route_upload x rd st req =
     (if rq_method req \<noteq> POST then (envelope x MethodNotAllowed None (app_timing 0), st)
      else let cap = effective_upload_cap st in
        if (case content_length x req of Some len \<Rightarrow> cap < len | None \<Rightarrow> False)
        then (envelope x PayloadTooLarge None (recv_app_timing 0 0), st)
        else
          (case budget_reserve (case content_length x req of Some l \<Rightarrow> min l cap | None \<Rightarrow> cap)
                  (rd_budget rd) st of
             (Inr retry, st') \<Rightarrow>
               (envelope x RateLimited (Some (retry_ms retry)) (recv_app_timing 0 0), st')
           | (Inl _, st') \<Rightarrow>
               ((case drain_capped (rq_body req) cap of
                   OverCap \<Rightarrow> envelope x PayloadTooLarge None (recv_app_timing 0 0)
                 | DrainError \<Rightarrow> envelope x Internal None (recv_app_timing 0 0)
                 | DrainOk received \<Rightarrow>
                     json_response x 200
                       (JObj [(''contract'', JStr ''v1''), (''received_bytes'', JNum (unat received))])
                       (recv_app_timing (elapsed_ms (rd_recv_start rd) (rd_recv_end rd))
                          (elapsed_ms (rd_app_start rd) (rd_app_end rd)))
                       [(''x-laghound-bytes'', decimal (unat received))]), st')))"

definition route_of :: "sdk_state \<Rightarrow> request \<Rightarrow> string" where
  "route_of st req =
     (let sub = (case strip_prefix (st_prefix st) (rq_path req) of Some r \<Rightarrow> r | None \<Rightarrow> '''')
      in hd (split_on CHR ''?'' sub))"

section \<open>The pipeline\<close>

definition dispatch_route ::
  "ext \<Rightarrow> readings \<Rightarrow> sdk_state \<Rightarrow> request \<Rightarrow> permit \<Rightarrow> response \<times> sdk_state" where
  "dispatch_route x rd st req p =
     (let route = route_of st req in
      if route = ''/health'' then (route_health x rd st (rq_method req), release p st)
      else if route = ''/echo'' \<and> rt_echo (st_routes st) then (route_echo x rd req, release p st)
      else if route = ''/download'' \<and> rt_download (st_routes st) then route_download x rd st req p
      else if route = ''/upload'' \<and> rt_upload (st_routes st)
        then (case route_upload x rd st req of (resp, st') \<Rightarrow> (resp, release p st'))
      else if route = ''/info'' \<and> rt_info (st_routes st)
        then (route_info x rd st (rq_method req), release p st)
      else (bare_404, release p st))"

definition handle ::
  "ext \<Rightarrow> readings \<Rightarrow> request \<Rightarrow> sdk_state \<times> disabled_cache \<Rightarrow>
   response \<times> sdk_state \<times> disabled_cache" where
  "handle x rd req s =
     (let (st, dc) = s; (off, dc) = is_disabled (rd_kill rd) (rd_env rd) dc
      in if off then (bare_404, st, dc)
         else
           (let ip = client_ip req; authed = is_authed x st req;
                (outcome, rate) = rate_check ip (rd_rate rd) (st_rate st);
                st = st\<lparr>st_rate := rate\<rparr>
            in case outcome of
                 Limited retry_after \<Rightarrow>
                   (if authed then envelope x RateLimited (Some (retry_ms retry_after)) []
                    else bare_404, st, dc)
               | Allowed \<Rightarrow>
                   (if \<not> authed then (bare_404, st, dc)
                    else
                      (let is_transfer = route_of st req \<in> {''/download'', ''/upload''}
                       in case acquire is_transfer (st_concurrency st) of
                            (None, conc) \<Rightarrow>
                              (envelope x RateLimited (Some 1000) [], st\<lparr>st_concurrency := conc\<rparr>, dc)
                          | (Some p, conc) \<Rightarrow>
                              (case dispatch_route x rd (st\<lparr>st_concurrency := conc\<rparr>) req p of
                                 (resp, st') \<Rightarrow> (resp, st', dc))))))"

definition layer_new ::
  "sdk_config \<Rightarrow> instant \<Rightarrow> string option \<Rightarrow> config_error + (sdk_state \<times> disabled_cache)" where
  "layer_new cfg now env = (case build cfg of
     Inl e \<Rightarrow> Inl e
   | Inr cfg' \<Rightarrow> Inr (from_config cfg' now, disabled_cache_new env now))"

datatype call_result = ToInner request | Handled response

definition call ::
  "ext \<Rightarrow> readings \<Rightarrow> request \<Rightarrow> sdk_state \<times> disabled_cache \<Rightarrow>
   call_result \<times> sdk_state \<times> disabled_cache" where
  "call x rd req s =
     (if \<not> path_under_prefix (rq_path req) (st_prefix (fst s)) then (ToInner req, s)
      else case handle x rd req s of (resp, s') \<Rightarrow> (Handled resp, s'))"

text \<open>The body of the combined service: the inner service's, polled by its own functions, or
  the endpoint's.\<close>

datatype 'b either_body = EitherInner 'b | EitherLag lag_body

definition either_poll_frame ::
  "('b \<Rightarrow> 'f \<times> 'b) \<Rightarrow> (bytes option \<Rightarrow> 'f) \<Rightarrow> 'b either_body \<Rightarrow> 'f \<times> 'b either_body" where
  "either_poll_frame inner wrap b = (case b of
     EitherInner i \<Rightarrow> (case inner i of (f, i') \<Rightarrow> (f, EitherInner i'))
   | EitherLag l \<Rightarrow> (case lag_poll_frame l of (f, l') \<Rightarrow> (wrap f, EitherLag l')))"

definition either_is_end_stream :: "('b \<Rightarrow> bool) \<Rightarrow> 'b either_body \<Rightarrow> bool" where
  "either_is_end_stream inner b = (case b of
     EitherInner i \<Rightarrow> inner i | EitherLag l \<Rightarrow> lag_is_end_stream l)"

definition either_size_hint :: "('b \<Rightarrow> nat) \<Rightarrow> 'b either_body \<Rightarrow> nat" where
  "either_size_hint inner b = (case b of
     EitherInner i \<Rightarrow> inner i | EitherLag l \<Rightarrow> lag_size_hint l)"

section \<open>Authentication\<close>

text \<open>What \<open>subtle\<close> documents of comparing slices of equal length.\<close>

definition ct_eq_sound :: "ext \<Rightarrow> bool" where
  "ct_eq_sound x \<longleftrightarrow> (\<forall>a b. length a = length b \<longrightarrow> ext_ct_eq x a b = (if a = b then 1 else 0))"

text \<open>The token a request presents: the dedicated header hides the other one.\<close>

definition presented :: "ext \<Rightarrow> request \<Rightarrow> string option" where
  "presented x req = (case header_get ''x-laghound-token'' req of
     Some v \<Rightarrow> Some v
   | None \<Rightarrow> Option.bind (Option.bind (header_get ''authorization'' req) (ext_to_str x))
       (strip_prefix ''Bearer ''))"

lemma fold_or_one:
  assumes "m = 0 \<or> m = (1 :: u8)" "\<And>t. t \<in> set ts \<Longrightarrow> f t = 0 \<or> f t = (1 :: u8)"
  shows "foldl (\<lambda>m t. or m (f t)) m ts = (if m = 1 \<or> (\<exists>t \<in> set ts. f t = 1) then 1 else 0)"
  using assms
proof (induction ts arbitrary: m)
  case (Cons a ts)
  have a: "f a = 0 \<or> f a = 1" by (simp add: Cons.prems(2))
  then have m: "or m (f a) = (if m = 1 \<or> f a = 1 then 1 else 0)" using Cons.prems(1) by auto
  have "foldl (\<lambda>m t. or m (f t)) (or m (f a)) ts =
      (if or m (f a) = 1 \<or> (\<exists>t \<in> set ts. f t = 1) then 1 else 0)"
    by (rule Cons.IH) (simp_all add: m Cons.prems(2))
  then show ?case by (simp add: m)
qed auto

lemma token_matches_iff:
  assumes "ct_eq_sound x"
  shows "token_matches x st c \<longleftrightarrow> c \<in> set (st_tokens st) \<and> TOKEN_MIN_BYTES \<le> length c"
proof -
  let ?f = "\<lambda>tok. if length tok = length c then ext_ct_eq x tok c else 0"
  have f: "?f tok = (if tok = c then 1 else 0)" for tok
    using assms by (auto simp: ct_eq_sound_def)
  show ?thesis unfolding token_matches_def f Let_def
    by (subst fold_or_one) auto
qed

lemma is_authed_iff:
  assumes "ct_eq_sound x"
  shows "is_authed x st req \<longleftrightarrow>
    (\<exists>c. presented x req = Some c \<and> c \<in> set (st_tokens st) \<and> TOKEN_MIN_BYTES \<le> length c)"
  by (auto simp: is_authed_def presented_def token_matches_iff [OF assms] split: option.splits)

section \<open>The invariant\<close>

text \<open>The state is sound while the permits \<open>ps\<close> are out in response bodies.\<close>

definition sdk_ok :: "permit list \<Rightarrow> sdk_state \<Rightarrow> bool" where
  "sdk_ok ps st \<longleftrightarrow> tokens_ok (st_tokens st) \<and> limiter_ok (st_rate st) \<and>
     counts_permits ps (st_concurrency st) \<and>
     (case st_budget st of None \<Rightarrow> True | Some b \<Rightarrow> budget_ok b)"

text \<open>Dropping a response drops the permit its body owns.\<close>

definition drop_response :: "response \<Rightarrow> sdk_state \<Rightarrow> sdk_state" where
  "drop_response r st = (case lb_permit (rs_body r) of None \<Rightarrow> st | Some p \<Rightarrow> release p st)"

abbreviation permits_of :: "response \<Rightarrow> permit list" where
  "permits_of r \<equiv> (case lb_permit (rs_body r) of None \<Rightarrow> [] | Some p \<Rightarrow> [p])"

lemma release_ok: "sdk_ok (p # ps) st \<Longrightarrow> sdk_ok ps (release p st)"
  by (simp add: sdk_ok_def release_def caps.give_back)

lemma reserve_ok': "reserve n now b = (r, b') \<Longrightarrow> budget_ok b \<Longrightarrow> budget_ok b'"
  using reserve_ok [of b n now] by simp

lemma budget_reserve_frame:
  "st_concurrency (snd (budget_reserve n now st)) = st_concurrency st"
  "st_rate (snd (budget_reserve n now st)) = st_rate st"
  "st_tokens (snd (budget_reserve n now st)) = st_tokens st"
  "sdk_ok ps st \<Longrightarrow> sdk_ok ps (snd (budget_reserve n now st))"
  by (auto simp: budget_reserve_def sdk_ok_def split: option.splits prod.splits
      dest: reserve_ok')

lemma budget_reserve_ok:
  "budget_reserve n now st = (r, st') \<Longrightarrow> sdk_ok ps st \<Longrightarrow> sdk_ok ps st'"
  "budget_reserve n now st = (r, st') \<Longrightarrow> st_concurrency st' = st_concurrency st"
  using budget_reserve_frame [where n = n and now = now and st = st] by auto

lemma json_permits [simp]:
  "permits_of (route_health x rd st m) = []" "permits_of (route_info x rd st m) = []"
  "permits_of (route_echo x rd req) = []"
  by (auto simp: route_health_def route_info_def route_echo_def split: drain_result.splits)

lemma route_upload_frame:
  assumes "route_upload x rd st req = (r, st')"
  shows "permits_of r = []" "st_concurrency st' = st_concurrency st" "sdk_ok ps st \<Longrightarrow> sdk_ok ps st'"
  using assms by (auto simp: route_upload_def Let_def budget_reserve_ok
      split: if_splits prod.splits sum.splits option.splits drain_result.splits)

text \<open>What the download route does: the permit leaves in the body, or is dropped.\<close>

lemma route_download_frame:
  assumes "route_download x rd st req p = (r, st')"
  shows "sdk_ok (p # ps) st \<Longrightarrow> sdk_ok (permits_of r @ ps) st'"
    and "st_concurrency (drop_response r st') = drop_permit p (st_concurrency st)"
  using assms
  by (auto simp: route_download_def Let_def download_response_def drop_response_def
      budget_reserve_ok intro!: release_ok split: if_splits prod.splits sum.splits)
    (auto simp: release_def budget_reserve_ok)

lemma drop_response_empty: "permits_of r = [] \<Longrightarrow> drop_response r st = st"
  by (simp add: drop_response_def split: option.splits)

lemma dispatch_route_frame:
  assumes "dispatch_route x rd st req p = (r, st')"
  shows "sdk_ok (p # ps) st \<Longrightarrow> sdk_ok (permits_of r @ ps) st'"
    and "st_concurrency (drop_response r st') = drop_permit p (st_concurrency st)"
proof -
  have up: "sdk_ok (permits_of r1 @ ps) (release p st1)"
    if "route_upload x rd st req = (r1, st1)" "sdk_ok (p # ps) st" for r1 st1
    using route_upload_frame [OF that(1)] that(2) by (simp add: release_ok)
  have up2: "st_concurrency (drop_response r1 (release p st1)) = drop_permit p (st_concurrency st)"
    if "route_upload x rd st req = (r1, st1)" for r1 st1
    using route_upload_frame [OF that] by (simp add: release_def drop_response_empty)
  show "sdk_ok (p # ps) st \<Longrightarrow> sdk_ok (permits_of r @ ps) st'"
    using assms up route_download_frame(1)
    by (auto simp: dispatch_route_def Let_def release_ok split: if_splits prod.splits)
  show "st_concurrency (drop_response r st') = drop_permit p (st_concurrency st)"
    using assms up2 route_download_frame(2)
    by (auto simp: dispatch_route_def Let_def release_def drop_response_empty
        split: if_splits prod.splits)
qed

lemma from_config_ok: "build cfg = Inr cfg' \<Longrightarrow> sdk_ok [] (from_config cfg' now)"
  by (auto simp: sdk_ok_def from_config_def build_Inr_iff limiter_new_ok concurrency_new_def
      counts_permits_def budget_new_def budget_ok_def split: option.splits)

text \<open>The pipeline, one case per stage that answers.\<close>

lemma handle_cases:
  assumes "handle x rd req (st, dc) = (r, st', dc')"
  obtains
    (Killed) "is_disabled (rd_kill rd) (rd_env rd) dc = (True, dc')" "r = bare_404" "st' = st"
  | (Limited) retry rl where "is_disabled (rd_kill rd) (rd_env rd) dc = (False, dc')"
      "rate_check (client_ip req) (rd_rate rd) (st_rate st) = (Limited retry, rl)"
      "st' = st\<lparr>st_rate := rl\<rparr>"
      "r = (if is_authed x st req then envelope x RateLimited (Some (retry_ms retry)) [] else bare_404)"
  | (Unauthed) rl where "is_disabled (rd_kill rd) (rd_env rd) dc = (False, dc')"
      "rate_check (client_ip req) (rd_rate rd) (st_rate st) = (Allowed, rl)"
      "\<not> is_authed x st req" "r = bare_404" "st' = st\<lparr>st_rate := rl\<rparr>"
  | (Full) rl where "is_disabled (rd_kill rd) (rd_env rd) dc = (False, dc')"
      "rate_check (client_ip req) (rd_rate rd) (st_rate st) = (Allowed, rl)"
      "is_authed x st req"
      "acquire (route_of st req \<in> {''/download'', ''/upload''}) (st_concurrency st)
         = (None, st_concurrency st)"
      "r = envelope x RateLimited (Some 1000) []" "st' = st\<lparr>st_rate := rl\<rparr>"
  | (Routed) rl p conc where "is_disabled (rd_kill rd) (rd_env rd) dc = (False, dc')"
      "rate_check (client_ip req) (rd_rate rd) (st_rate st) = (Allowed, rl)"
      "is_authed x st req"
      "acquire (route_of st req \<in> {''/download'', ''/upload''}) (st_concurrency st) = (Some p, conc)"
      "dispatch_route x rd (st\<lparr>st_rate := rl, st_concurrency := conc\<rparr>) req p = (r, st')"
proof -
  obtain off dc1 where dis: "is_disabled (rd_kill rd) (rd_env rd) dc = (off, dc1)" by fastforce
  obtain oc rl where rate: "rate_check (client_ip req) (rd_rate rd) (st_rate st) = (oc, rl)" by fastforce
  obtain po conc where acq: "acquire (route_of st req \<in> {''/download'', ''/upload''})
      (st_concurrency st) = (po, conc)" by fastforce
  have route: "route_of (st\<lparr>st_rate := rl\<rparr>) req = route_of st req" by (simp add: route_of_def)
  have conc: "st_concurrency (st\<lparr>st_rate := rl\<rparr>) = st_concurrency st" by simp
  have h: "handle x rd req (st, dc) =
    (if off then (bare_404, st, dc1)
     else case oc of
       Limited d \<Rightarrow> (if is_authed x st req then envelope x RateLimited (Some (retry_ms d)) []
          else bare_404, st\<lparr>st_rate := rl\<rparr>, dc1)
     | Allowed \<Rightarrow> if \<not> is_authed x st req then (bare_404, st\<lparr>st_rate := rl\<rparr>, dc1)
         else case po of
           None \<Rightarrow> (envelope x RateLimited (Some 1000) [], st\<lparr>st_rate := rl, st_concurrency := conc\<rparr>, dc1)
         | Some p \<Rightarrow> (case dispatch_route x rd (st\<lparr>st_rate := rl, st_concurrency := conc\<rparr>) req p of
             (r, st') \<Rightarrow> (r, st', dc1)))"
    by (simp only: handle_def Let_def dis rate route prod.case conc acq)
  have none: "po = None \<Longrightarrow> conc = st_concurrency st \<and>
      st\<lparr>st_rate := rl, st_concurrency := conc\<rparr> = st\<lparr>st_rate := rl\<rparr>"
    using caps.take_None [of _ "st_concurrency st" conc] acq by simp
  note eq = assms [unfolded h]
  show thesis
  proof (cases off)
    case True
    show ?thesis by (rule Killed) (use eq True dis in simp_all)
  next
    case off: False
    show ?thesis
    proof (cases oc)
      case (Limited d)
      show ?thesis by (rule that(2)) (use eq off Limited dis rate in auto)
    next
      case Allowed
      show ?thesis
      proof (cases "is_authed x st req")
        case False
        show ?thesis by (rule Unauthed) (use eq off Allowed False dis rate in auto)
      next
        case authed: True
        show ?thesis
        proof (cases po)
          case None
          show ?thesis by (rule Full) (use eq off Allowed authed None none dis rate acq in auto)
        next
          case (Some p)
          show ?thesis
            by (rule Routed) (use eq off Allowed authed Some dis rate acq in \<open>auto split: prod.splits\<close>)
        qed
      qed
    qed
  qed
qed

end
