(* ===== verification/Sdk_Contract.thy ===== *)
theory Sdk_Contract
  imports Sdk_Service
begin

text \<open>
  The contract of the embeddable endpoint: what a caller of \<open>Sdk_Service\<close> may rely on. The
  lemmas lift the stages of the pipeline to whole requests; the server is then the
  relation \<open>server_step\<close>, in which requests are answered and responses dropped in any order,
  and its invariant holds in every reachable state.
\<close>

section \<open>Whole requests\<close>

lemma sdk_ok_rate: "sdk_ok ps st \<Longrightarrow> rate_check ip now (st_rate st) = (oc, rl) \<Longrightarrow>
  sdk_ok ps (st\<lparr>st_rate := rl\<rparr>)"
  using rate_check_ok [of "st_rate st" ip now] by (simp add: sdk_ok_def)

lemma sdk_ok_acquire: "sdk_ok ps (st\<lparr>st_rate := rl\<rparr>) \<Longrightarrow>
  acquire k (st_concurrency st) = (Some p, conc) \<Longrightarrow>
  sdk_ok (p # ps) (st\<lparr>st_rate := rl, st_concurrency := conc\<rparr>)"
  by (auto simp: sdk_ok_def intro: caps.take_Some)

lemma handle_ok:
  assumes "handle x rd req (st, dc) = (r, st', dc')" "sdk_ok ps st"
  shows "sdk_ok (permits_of r @ ps) st'"
  using assms(1)
proof (cases rule: handle_cases)
  case (Limited retry rl)
  then show ?thesis using sdk_ok_rate [OF assms(2)] by simp
next
  case (Unauthed rl)
  then show ?thesis using sdk_ok_rate [OF assms(2)] by simp
next
  case (Full rl)
  then show ?thesis using sdk_ok_rate [OF assms(2)] by simp
next
  case (Routed rl p conc)
  then have "sdk_ok (p # ps) (st\<lparr>st_rate := rl, st_concurrency := conc\<rparr>)"
    using sdk_ok_acquire sdk_ok_rate [OF assms(2)] by blast
  then show ?thesis by (rule dispatch_route_frame(1) [OF Routed(5)])
qed (use assms(2) in simp)

lemma handle_no_leak:
  assumes "handle x rd req (st, dc) = (r, st', dc')"
  shows "st_concurrency (drop_response r st') = st_concurrency st"
  using assms
proof (cases rule: handle_cases)
  case (Routed rl p conc)
  have "st_concurrency (drop_response r st') = drop_permit p conc"
    using dispatch_route_frame(2) [OF Routed(5)] by simp
  also have "\<dots> = st_concurrency st" by (rule caps.give_back_take [OF Routed(4)])
  finally show ?thesis .
qed (simp_all add: drop_response_empty)

text \<open>Only a request that passes every check reaches a route.\<close>

lemma handle_not_404:
  assumes "handle x rd req (st, dc) = (r, st', dc')" "r \<noteq> bare_404"
  shows "fst (is_disabled (rd_kill rd) (rd_env rd) dc) = False \<and> is_authed x st req"
  using assms by (cases rule: handle_cases) (auto split: if_splits)

lemma handle_unauthed:
  assumes "handle x rd req (st, dc) = (r, st', dc')" "\<not> is_authed x st req"
  shows "r = bare_404 \<and> st'\<lparr>st_rate := st_rate st\<rparr> = st"
  using assms by (cases rule: handle_cases) auto

lemma dispatch_tokens: "dispatch_route x rd st req p = (r, st') \<Longrightarrow> st_tokens st' = st_tokens st \<and>
   st_prefix st' = st_prefix st \<and> st_routes st' = st_routes st"
  by (auto simp: dispatch_route_def route_download_def route_upload_def budget_reserve_def
      release_def Let_def split: if_splits prod.splits sum.splits option.splits)

section \<open>Drained bodies\<close>

fun frame_len :: "body_frame \<Rightarrow> nat" where
  "frame_len (DataFrame bs) = length bs"
| "frame_len _ = 0"

definition body_len :: "body_frame list \<Rightarrow> nat" where
  "body_len fs = sum_list (map frame_len fs)"

lemma body_len_simps [simp]:
  "body_len [] = 0" "body_len (f # fs) = frame_len f + body_len fs"
  by (simp_all add: body_len_def)

text \<open>A frame is in memory, so its length fits a \<open>u64\<close>.\<close>

definition frames_fit :: "body_frame list \<Rightarrow> bool" where
  "frames_fit fs \<longleftrightarrow> (\<forall>f \<in> set fs. frame_len f < 2 ^ 64)"

lemma sat_add_len: "l < 2 ^ 64 \<Longrightarrow> unat (sat_add n (of_nat l)) = min (unat n + l) (2 ^ 64 - 1)" for n :: u64
  by (simp add: unat_sat_add unsigned_of_nat take_bit_nat_eq_self)

lemma drain_loop_Ok_iff:
  assumes "frames_fit fs" "unat cap < 2 ^ 64 - 1" "n \<le> cap"
  shows "drain_loop fs cap n = DrainOk m \<longleftrightarrow>
    FrameError \<notin> set fs \<and> unat n + body_len fs \<le> unat cap \<and> unat m = unat n + body_len fs"
  using assms
proof (induction fs cap n rule: drain_loop.induct)
  case (1 cap n)
  then show ?case by (auto simp: word_le_nat_alt word_unat_eq_iff)
next
  case (2 bs fs cap n)
  have len: "length bs < 2 ^ 64" "frames_fit fs" using "2.prems"(1) by (simp_all add: frames_fit_def)
  show ?case
  proof (cases "unat n + length bs \<le> unat cap")
    case True
    then have n': "unat (sat_add n (of_nat (length bs))) = unat n + length bs"
      using "2.prems"(2) by (simp add: sat_add_len len)
    with True have le: "sat_add n (of_nat (length bs)) \<le> cap" by (simp add: word_le_nat_alt)
    then have "\<not> cap < sat_add n (of_nat (length bs))" by simp
    then show ?thesis using "2.IH" [OF refl _ len(2) "2.prems"(2) le] True
      by (simp add: Let_def n' add.assoc)
  next
    case False
    then have "cap < sat_add n (of_nat (length bs))"
      using "2.prems"(2) unfolding word_less_nat_alt sat_add_len [OF len(1)] by simp
    with False show ?thesis by simp
  qed
qed (simp_all add: frames_fit_def)

lemma drain_capped_Ok_iff:
  "frames_fit fs \<Longrightarrow> unat cap < 2 ^ 64 - 1 \<Longrightarrow>
   drain_capped fs cap = DrainOk m \<longleftrightarrow>
     FrameError \<notin> set fs \<and> body_len fs \<le> unat cap \<and> unat m = body_len fs"
  by (simp add: drain_capped_def drain_loop_Ok_iff)

text \<open>The abort is prompt: what has been read before it is the frames up to the cap and one more.\<close>

lemma drain_loop_OverCap_iff:
  assumes "frames_fit fs" "unat cap < 2 ^ 64 - 1" "n \<le> cap"
  shows "drain_loop fs cap n = OverCap \<longleftrightarrow>
    (\<exists>pre post. fs = pre @ post \<and> FrameError \<notin> set pre \<and> unat cap < unat n + body_len pre)"
  using assms
proof (induction fs cap n rule: drain_loop.induct)
  case (1 cap n)
  then show ?case by (auto simp: word_le_nat_alt)
next
  case (2 bs fs cap n)
  have len: "length bs < 2 ^ 64" "frames_fit fs" using "2.prems"(1) by (simp_all add: frames_fit_def)
  have cons: "(\<exists>pre post. DataFrame bs # fs = pre @ post \<and> FrameError \<notin> set pre \<and>
      unat cap < unat n + body_len pre) \<longleftrightarrow>
    (\<exists>pre post. fs = pre @ post \<and> FrameError \<notin> set pre \<and> unat cap < unat n + length bs + body_len pre)"
    (is "?L \<longleftrightarrow> ?R")
  proof
    assume ?L
    then obtain pre post where *: "DataFrame bs # fs = pre @ post" "FrameError \<notin> set pre"
        "unat cap < unat n + body_len pre" by blast
    with "2.prems"(3) show ?R by (cases pre) (auto simp: word_le_nat_alt add.assoc)
  next
    assume ?R
    then obtain pre post where "fs = pre @ post" "FrameError \<notin> set pre"
        "unat cap < unat n + length bs + body_len pre" by blast
    then show ?L by (intro exI [of _ "DataFrame bs # pre"] exI [of _ post]) simp
  qed
  show ?case
  proof (cases "unat n + length bs \<le> unat cap")
    case True
    then have n': "unat (sat_add n (of_nat (length bs))) = unat n + length bs"
      using "2.prems"(2) by (simp add: sat_add_len len)
    with True have le: "sat_add n (of_nat (length bs)) \<le> cap" by (simp add: word_le_nat_alt)
    then have "\<not> cap < sat_add n (of_nat (length bs))" by simp
    then show ?thesis using "2.IH" [OF refl _ len(2) "2.prems"(2) le] unfolding cons
      by (simp add: Let_def n')
  next
    case False
    then have "cap < sat_add n (of_nat (length bs))"
      using "2.prems"(2) unfolding word_less_nat_alt sat_add_len [OF len(1)] by simp
    moreover have "\<exists>pre post. fs = pre @ post \<and> FrameError \<notin> set pre \<and>
        unat cap < unat n + length bs + body_len pre"
      by (intro exI [of _ "[]"] exI [of _ fs]) (use False in simp)
    ultimately show ?thesis unfolding cons by (simp add: Let_def)
  qed
next
  case (3 fs cap n)
  have "(\<exists>pre post. OtherFrame # fs = pre @ post \<and> FrameError \<notin> set pre \<and>
      unat cap < unat n + body_len pre) \<longleftrightarrow>
    (\<exists>pre post. fs = pre @ post \<and> FrameError \<notin> set pre \<and> unat cap < unat n + body_len pre)"
  proof (safe, goal_cases)
    case (1 pre post)
    with "3.prems"(3) show ?case by (cases pre) (auto simp: word_le_nat_alt)
  next
    case (2 pre post)
    then show ?case by (intro exI [of _ "OtherFrame # pre"] exI [of _ post]) simp
  qed
  with 3 show ?case by (simp add: frames_fit_def)
next
  case (4 fs cap n)
  then show ?case by (auto simp: Cons_eq_append_conv word_le_nat_alt)
qed

section \<open>Numbers in text\<close>

lemma digit_not: "is_ascii_digit c \<Longrightarrow> c \<noteq> CHR ''&'' \<and> c \<noteq> CHR ''='' \<and> c \<noteq> CHR '' ''"
  by (auto simp: is_ascii_digit_def code_def)

lemma parse_bytes_decimal:
  assumes "n < 2 ^ 64"
  shows "parse_bytes_param (Some (''bytes='' @ decimal n)) = Inr (Some (of_nat n))"
proof -
  have "CHR ''&'' \<notin> set (''bytes='' @ decimal n)"
    using decimal_digits [of "CHR ''&''" n] by (auto simp: is_ascii_digit_def code_def)
  then have "split_on CHR ''&'' (''bytes='' @ decimal n) = [''bytes='' @ decimal n]"
    by (rule split_on_free)
  moreover have "split_once CHR ''='' (''bytes='' @ decimal n) = (''bytes'', Some (decimal n))"
    using split_once_append [of "CHR ''=''" "''bytes''" "decimal n"] by simp
  ultimately show ?thesis
    by (simp add: parse_bytes_param_def parse_u64_decimal [OF assms] del: append_Cons)
qed

section \<open>Server runs\<close>

text \<open>
  Requests are answered and response bodies dropped in any order; \<open>sv_out\<close> are the responses
  whose bodies are still being sent.
\<close>

record server =
  sv_state :: sdk_state
  sv_cache :: disabled_cache
  sv_out :: "response list"

inductive server_step :: "ext \<Rightarrow> server \<Rightarrow> server \<Rightarrow> bool" for x where
  answer: "handle x rd req (sv_state s, sv_cache s) = (r, st', dc') \<Longrightarrow>
     server_step x s \<lparr>sv_state = st', sv_cache = dc', sv_out = r # sv_out s\<rparr>"
| finish: "sv_out s = rs @ r # rs' \<Longrightarrow>
     server_step x s (s\<lparr>sv_state := drop_response r (sv_state s), sv_out := rs @ rs'\<rparr>)"

inductive_cases server_stepE: "server_step x s s'"

inductive server_reachable :: "ext \<Rightarrow> sdk_config \<Rightarrow> server \<Rightarrow> bool" for x cfg where
  start: "layer_new cfg now env = Inr (st, dc) \<Longrightarrow>
     server_reachable x cfg \<lparr>sv_state = st, sv_cache = dc, sv_out = []\<rparr>"
| step: "server_reachable x cfg s \<Longrightarrow> server_step x s s' \<Longrightarrow> server_reachable x cfg s'"

definition out_permits :: "response list \<Rightarrow> permit list" where
  "out_permits rs = concat (map (\<lambda>r. permits_of r) rs)"

lemma out_permits_simps [simp]:
  "out_permits [] = []" "out_permits (r # rs) = permits_of r @ out_permits rs"
  "out_permits (rs @ rs') = out_permits rs @ out_permits rs'"
  by (simp_all add: out_permits_def)

lemma counts_permits_perm: "counts_permits (ps @ p # ps') c \<longleftrightarrow> counts_permits (p # ps @ ps') c"
  by (simp add: counts_permits_def)

lemma sdk_ok_perm: "sdk_ok (ps @ p # ps') st \<longleftrightarrow> sdk_ok (p # ps @ ps') st"
  by (simp add: sdk_ok_def counts_permits_perm)

lemma drop_response_ok:
  "sdk_ok (out_permits (rs @ r # rs')) st \<Longrightarrow> sdk_ok (out_permits (rs @ rs')) (drop_response r st)"
  by (auto simp: drop_response_def sdk_ok_perm intro: release_ok split: option.splits)

lemma handle_caps:
  assumes "handle x rd req (st, dc) = (r, st', dc')"
  shows "cc_max (st_concurrency st') = cc_max (st_concurrency st)"
    and "cc_max_transfers (st_concurrency st') = cc_max_transfers (st_concurrency st)"
proof -
  have "drop_response r st' = st' \<or>
      (\<exists>p. st_concurrency (drop_response r st') = drop_permit p (st_concurrency st'))"
    by (auto simp: drop_response_def release_def split: option.splits)
  then show "cc_max (st_concurrency st') = cc_max (st_concurrency st)"
      "cc_max_transfers (st_concurrency st') = cc_max_transfers (st_concurrency st)"
    using arg_cong [OF handle_no_leak [OF assms], of cc_max]
      arg_cong [OF handle_no_leak [OF assms], of cc_max_transfers]
    by (auto simp: drop_permit_def Let_def split: if_splits)
qed

lemma drop_response_caps:
  "cc_max (st_concurrency (drop_response r st)) = cc_max (st_concurrency st)"
  "cc_max_transfers (st_concurrency (drop_response r st)) = cc_max_transfers (st_concurrency st)"
  by (simp_all add: drop_response_def release_def drop_permit_def Let_def split: option.splits)

lemma layer_new_props:
  assumes "layer_new cfg now env = Inr (st, dc)"
  shows "sdk_ok [] st" "cc_max (st_concurrency st) = cfg_max_concurrent cfg"
    "cc_max_transfers (st_concurrency st) = cfg_max_concurrent_transfers cfg"
proof -
  obtain cfg' where b: "build cfg = Inr cfg'" and st: "st = from_config cfg' now"
    using assms by (auto simp: layer_new_def split: sum.splits)
  show "sdk_ok [] st" using from_config_ok [OF b] by (simp add: st)
  show "cc_max (st_concurrency st) = cfg_max_concurrent cfg"
    "cc_max_transfers (st_concurrency st) = cfg_max_concurrent_transfers cfg"
    using b by (simp_all add: st from_config_def concurrency_new_def build_Inr_iff)
qed

lemma server_inv: "server_reachable x cfg s \<Longrightarrow>
  sdk_ok (out_permits (sv_out s)) (sv_state s) \<and>
  cc_max (st_concurrency (sv_state s)) = cfg_max_concurrent cfg \<and>
  cc_max_transfers (st_concurrency (sv_state s)) = cfg_max_concurrent_transfers cfg"
proof (induction rule: server_reachable.induct)
  case (start now env st dc)
  then show ?case by (simp add: layer_new_props)
next
  case (step s s')
  from step.hyps(2) show ?case
  proof (elim server_stepE)
    fix rd req r st' dc'
    assume h: "handle x rd req (sv_state s, sv_cache s) = (r, st', dc')"
      and s': "s' = \<lparr>sv_state = st', sv_cache = dc', sv_out = r # sv_out s\<rparr>"
    show ?thesis using step.IH handle_ok [OF h] handle_caps [OF h] by (simp add: s')
  next
    fix rs r rs'
    assume out: "sv_out s = rs @ r # rs'"
      and s': "s' = s\<lparr>sv_state := drop_response r (sv_state s), sv_out := rs @ rs'\<rparr>"
    show ?thesis using step.IH drop_response_ok [of rs r rs'] by (simp add: s' out drop_response_caps)
  qed
qed

section \<open>Readings of the kill switch\<close>

fun kill_run :: "(instant \<Rightarrow> string option) \<Rightarrow> disabled_cache \<Rightarrow> instant list \<Rightarrow> bool list" where
  "kill_run env dc [] = []"
| "kill_run env dc (t # ts) =
     (case is_disabled t (env t) dc of (v, dc') \<Rightarrow> v # kill_run env dc' ts)"

text \<open>The cached value was read at some past instant, which \<open>checked_at\<close> names to the millisecond.\<close>

definition cache_ok :: "(instant \<Rightarrow> string option) \<Rightarrow> disabled_cache \<Rightarrow> instant \<Rightarrow> bool" where
  "cache_ok env dc t \<longleftrightarrow> dc_checked_at dc = 0 \<or>
     (\<exists>t0 \<le> t. dc_origin dc \<le> t0 \<and> dc_value dc = read_disabled_env (env t0) \<and>
        unat (dc_checked_at dc) = max (as_millis (t0 - dc_origin dc)) 1)"

lemma is_disabled_step:
  assumes "is_disabled t (env t) dc = (v, dc')" "cache_ok env dc t" "dc_origin dc \<le> t"
    "as_millis (t - dc_origin dc) < 2 ^ 64"
  shows "cache_ok env dc' t \<and> dc_origin dc' = dc_origin dc \<and>
    (\<exists>t0 \<le> t. v = read_disabled_env (env t0) \<and> t < t0 + from_millis 1001)"
proof -
  define now_ms where "now_ms = (of_nat (as_millis (t - dc_origin dc)) :: u64)"
  have now: "unat now_ms = as_millis (t - dc_origin dc)"
    using assms(4) by (simp add: now_ms_def unsigned_of_nat take_bit_nat_eq_self)
  have d: "is_disabled t (env t) dc =
    (if 1000 \<le> sat_sub now_ms (dc_checked_at dc) \<or> dc_checked_at dc = 0
     then (read_disabled_env (env t),
       dc\<lparr>dc_value := read_disabled_env (env t), dc_checked_at := max now_ms 1\<rparr>)
     else (dc_value dc, dc))"
    by (simp add: is_disabled_def now_ms_def Let_def)
  show ?thesis
  proof (cases "1000 \<le> sat_sub now_ms (dc_checked_at dc) \<or> dc_checked_at dc = 0")
    case True
    have "unat (max now_ms 1) = max (unat now_ms) 1"
      by (simp add: max_def word_le_nat_alt)
    then have "cache_ok env dc' t" "v = read_disabled_env (env t)" "dc_origin dc' = dc_origin dc"
      using assms(1,3) True by (auto simp: d cache_ok_def now intro!: exI [of _ t])
    then show ?thesis by (auto simp: from_millis_def intro!: exI [of _ t])
  next
    case False
    then obtain t0 where t0: "t0 \<le> t" "dc_origin dc \<le> t0" "dc_value dc = read_disabled_env (env t0)"
        "unat (dc_checked_at dc) = max (as_millis (t0 - dc_origin dc)) 1"
      using assms(2) by (auto simp: cache_ok_def)
    define a m where "a = as_millis (t - dc_origin dc)" and "m = as_millis (t0 - dc_origin dc)"
    have "\<not> 1000 \<le> a - max m 1"
      using False by (simp add: word_le_nat_alt unat_sat_sub now t0(4) a_def m_def)
    then have "as_millis (t - dc_origin dc) \<le> 1000 + as_millis (t0 - dc_origin dc)"
      unfolding a_def [symmetric] m_def [symmetric] max_def by (simp split: if_splits)
    then have "t < t0 + from_millis 1001"
      using t0(1,2) by (simp add: as_millis_def from_millis_def)
    with t0 False assms(1,2) show ?thesis by (auto simp: d intro!: exI [of _ t0])
  qed
qed

lemma cache_ok_mono: "cache_ok env dc t \<Longrightarrow> t \<le> t' \<Longrightarrow> cache_ok env dc t'"
  by (auto simp: cache_ok_def intro: le_trans)

lemma kill_run_fresh:
  assumes "cache_ok env dc t" "dc_origin dc \<le> t" "sorted (t # ts)"
    "\<forall>t \<in> set ts. as_millis (t - dc_origin dc) < 2 ^ 64"
  shows "list_all2 (\<lambda>t v. \<exists>t0 \<le> t. v = read_disabled_env (env t0) \<and> t < t0 + from_millis 1001)
    ts (kill_run env dc ts)"
  using assms
proof (induction ts arbitrary: t dc)
  case (Cons u ts)
  obtain v dc' where d: "is_disabled u (env u) dc = (v, dc')" by fastforce
  have "cache_ok env dc u" using Cons.prems(1,3) cache_ok_mono by simp
  note step = is_disabled_step [where env = env, OF d this]
  then have *: "cache_ok env dc' u" "dc_origin dc' = dc_origin dc"
      "\<exists>t0 \<le> u. v = read_disabled_env (env t0) \<and> u < t0 + from_millis 1001"
    using Cons.prems(2-4) by simp_all
  have "list_all2 (\<lambda>t v. \<exists>t0 \<le> t. v = read_disabled_env (env t0) \<and> t < t0 + from_millis 1001)
      ts (kill_run env dc' ts)"
    by (rule Cons.IH [OF *(1)]) (use * Cons.prems in auto)
  with * d show ?case by simp
qed simp

end
