(* ===== verification/Sdk_Properties.thy ===== *)
theory Sdk_Properties
  imports Sdk_Contract
begin

text \<open>
  The properties of the embeddable endpoint (\<open>sdk/rust/src\<close>), each stated over the
  operations of \<open>Sdk_Config\<close>, \<open>Sdk_Rate\<close>, \<open>Sdk_Concurrency\<close>, \<open>Sdk_Timing\<close> and \<open>Sdk_Service\<close>
  and applied to a concrete input by the theorem that follows it. The instances use one
  small configuration, \<open>demo_config\<close>, and external functions that satisfy the documented
  behaviour, \<open>demo_ext\<close>.
\<close>

section \<open>A concrete endpoint\<close>

definition demo_token :: string where "demo_token = replicate 16 CHR ''t''"

definition demo_config :: sdk_config where
  "demo_config = set_byte_budget 1000 60 (config_new demo_token)"

definition demo_ext :: ext where
  "demo_ext = \<lparr>ext_to_vec = (\<lambda>_. Some [0x7B, 0x7D]), ext_header_ok = (\<lambda>_. True),
     ext_to_str = Some, ext_ct_eq = (\<lambda>a b. if a = b then 1 else 0)\<rparr>"

definition demo_readings :: readings where
  "demo_readings = \<lparr>rd_kill = 0, rd_env = None, rd_rate = 0, rd_uptime = 0, rd_budget = 0,
     rd_start = 0, rd_end = 0, rd_recv_start = 0, rd_recv_end = 0, rd_app_start = 0, rd_app_end = 0\<rparr>"

definition demo_request :: "http_method \<Rightarrow> string \<Rightarrow> string option \<Rightarrow> body_frame list \<Rightarrow> request" where
  "demo_request m path q body = \<lparr>rq_method = m, rq_path = ''/laghound'' @ path, rq_query = q,
     rq_headers = [(''x-laghound-token'', demo_token)], rq_client_ip = None, rq_body = body\<rparr>"

definition demo_state :: sdk_state where
  "demo_state = from_config demo_config 0"

definition demo_cache :: disabled_cache where
  "demo_cache = disabled_cache_new None 0"

lemma demo_new: "layer_new demo_config 0 None = Inr (demo_state, demo_cache)"
proof -
  have "build demo_config = Inr demo_config"
    by (rule build_accepts) (simp add: mountable_def tokens_ok_def prefix_ok_def demo_config_def
        config_new_def set_byte_budget_def demo_token_def TOKEN_MIN_BYTES_def
        DEFAULT_CAP_BYTES_def ABSOLUTE_MAX_BYTES_def)
  then show ?thesis by (simp add: layer_new_def demo_state_def demo_cache_def)
qed

lemma demo_ct_eq: "ct_eq_sound demo_ext"
  by (simp add: ct_eq_sound_def demo_ext_def)

lemma fl_numeral: "numeral w \<le> (2 ^ 53 :: nat) \<Longrightarrow> fl (numeral w) = numeral w"
  using fl.rnd_nat [of "numeral w"] by simp

lemma demo_authed: "st_tokens st = [demo_token] \<Longrightarrow>
   is_authed demo_ext st (demo_request m path q body)"
  by (subst is_authed_iff [OF demo_ct_eq])
    (simp add: presented_def header_get_def demo_request_def demo_token_def TOKEN_MIN_BYTES_def)

lemma demo_rate: "fst (rate_check (V4 0) 0 (st_rate demo_state)) = Allowed"
  by (simp add: demo_state_def from_config_def demo_config_def config_new_def set_byte_budget_def
      rate_check_def rate_limiter_new_def bucket_take_def refill_def bucket_new_def Let_def
      as_secs_f64_0 f64_ops fl_numeral evict_for_def)

lemma demo_handle:
  assumes "st_tokens st = [demo_token]" "st_rate st = st_rate demo_state"
  shows "fst (handle demo_ext demo_readings (demo_request m path q body) (st, demo_cache)) =
   (case acquire (route_of st (demo_request m path q body) \<in> {''/download'', ''/upload''})
           (st_concurrency st) of
      (None, _) \<Rightarrow> envelope demo_ext RateLimited (Some 1000) []
    | (Some p, conc) \<Rightarrow> fst (dispatch_route demo_ext demo_readings
        (st\<lparr>st_rate := snd (rate_check (V4 0) 0 (st_rate demo_state)),
           st_concurrency := conc\<rparr>) (demo_request m path q body) p))"
proof -
  let ?req = "demo_request m path q body"
  obtain rl where rl: "rate_check (V4 0) 0 (st_rate demo_state) = (Allowed, rl)"
    using demo_rate by (metis prod.collapse)
  have kill: "is_disabled 0 None demo_cache = (False, demo_cache\<lparr>dc_checked_at := 1\<rparr>)"
    by (simp add: is_disabled_def demo_cache_def disabled_cache_new_def read_disabled_env_def
        as_millis_def Let_def)
  have ip: "client_ip ?req = V4 0" by (simp add: client_ip_def demo_request_def)
  have route: "route_of (st\<lparr>st_rate := rl\<rparr>) ?req = route_of st ?req"
    by (simp add: route_of_def)
  have rd: "rd_kill demo_readings = 0" "rd_env demo_readings = None" "rd_rate demo_readings = 0"
    by (simp_all add: demo_readings_def)
  have conc: "st_concurrency (st\<lparr>st_rate := rl\<rparr>) = st_concurrency st" by simp
  show ?thesis
    unfolding handle_def Let_def prod.case rd kill ip assms(2) rl route conc
    by (simp add: demo_authed assms(1) split: prod.splits option.splits)
qed

lemma demo_acquire: "acquire k (st_concurrency demo_state) =
  (Some (Permit k), (st_concurrency demo_state)\<lparr>cc_in_flight := 1, cc_transfers := if k then 1 else 0\<rparr>)"
  by (simp add: acquire_def demo_state_def from_config_def demo_config_def config_new_def
      set_byte_budget_def concurrency_new_def Let_def)

lemma demo_fields [simp]:
  "st_prefix demo_state = ''/laghound''" "st_tokens demo_state = [demo_token]"
  "st_routes demo_state = \<lparr>rt_echo = True, rt_download = True, rt_upload = True, rt_info = True\<rparr>"
  "st_download_cap_bytes demo_state = 4194304" "st_upload_cap_bytes demo_state = 4194304"
  "st_budget demo_state = Some (budget_new \<lparr>bb_bytes = 1000, bb_window_s = 60\<rparr> 0)"
  by (simp_all add: demo_state_def from_config_def demo_config_def config_new_def
      set_byte_budget_def DEFAULT_CAP_BYTES_def route_toggles_default_def)

lemma demo_request_fields [simp]:
  "rq_method (demo_request m path q body) = m" "rq_query (demo_request m path q body) = q"
  "rq_path (demo_request m path q body) = ''/laghound'' @ path"
  "rq_body (demo_request m path q body) = body"
  "rq_headers (demo_request m path q body) = [(''x-laghound-token'', demo_token)]"
  by (simp_all add: demo_request_def)

lemma demo_route: "CHR ''?'' \<notin> set path \<Longrightarrow>
   st_prefix st = ''/laghound'' \<Longrightarrow> route_of st (demo_request m path q body) = path"
  by (simp add: route_of_def split_on_free del: append_Cons)

lemma demo_reserve: "n \<le> 1000 \<Longrightarrow>
   st_budget st = Some (budget_new \<lparr>bb_bytes = 1000, bb_window_s = 60\<rparr> 0) \<Longrightarrow>
   fst (budget_reserve n 0 st) = Inl ()"
  by (simp add: budget_reserve_def reserve_def budget_new_def budget_window_def from_secs_def
      word_le_nat_alt unat_sat_add Let_def not_less split: prod.splits)

lemma decimal_3: "decimal 3 = ''3''"
  by code_simp

lemma demo_download_status: "rs_status (fst (handle demo_ext demo_readings
    (demo_request GET ''/download'' (Some ''bytes=3'') []) (demo_state, demo_cache))) = 200"
proof -
  have p: "parse_bytes_param (Some ''bytes=3'') = Inr (Some 3)"
    using parse_bytes_decimal [of 3] by (simp add: decimal_3)
  define st where "st = demo_state\<lparr>st_rate := snd (rate_check (V4 0) 0 (st_rate demo_state)),
    st_concurrency := (st_concurrency demo_state)\<lparr>cc_in_flight := 1, cc_transfers := 1\<rparr>\<rparr>"
  let ?req = "demo_request GET ''/download'' (Some ''bytes=3'') []"
  have pre: "st_prefix st = ''/laghound''" by (simp add: st_def)
  have cap: "min 3 (effective_download_cap st) = 3"
    by (simp add: st_def effective_download_cap_def ABSOLUTE_MAX_BYTES_def)
  have rd: "rd_budget demo_readings = 0" by (simp add: demo_readings_def)
  have res: "fst (budget_reserve 3 0 st) = Inl ()" by (rule demo_reserve) (simp_all add: st_def)
  then obtain st2 where res: "budget_reserve 3 0 st = (Inl (), st2)" by (metis prod.collapse)
  have "route_download demo_ext demo_readings st ?req (Permit True) =
      (download_response demo_ext (fill_body 3) 3
         (app_timing (elapsed_ms (rd_start demo_readings) (rd_end demo_readings)))
         (Some (Permit True)), st2)"
    by (simp add: route_download_def p cap rd res Let_def)
  moreover have "route_of st ?req = ''/download''" by (rule demo_route) (simp_all add: pre)
  moreover have "rt_download (st_routes st)" by (simp add: st_def)
  moreover have "route_of demo_state ?req = ''/download''" by (rule demo_route) simp_all
  moreover have "fst (handle demo_ext demo_readings ?req (demo_state, demo_cache))
      = fst (dispatch_route demo_ext demo_readings st ?req (Permit True))"
    by (subst demo_handle) (simp_all add: demo_acquire calculation(4) st_def)
  ultimately show ?thesis by (simp only:) (simp add: dispatch_route_def download_response_def)
qed

section \<open>The server\<close>

text \<open>Fail closed. A layer is built exactly from a configuration with one or two tokens of
  at least 16 bytes and a well-formed prefix; what it builds has the caps clamped to the
  absolute maximum, no permit out, full buckets and an unused budget.\<close>

theorem layer_new_fail_closed:
  "(\<exists>s. layer_new cfg now env = Inr s) = (tokens_ok (cfg_tokens cfg) \<and> prefix_ok (cfg_prefix cfg)) \<and>
   (case layer_new cfg now env of
      Inl e \<Rightarrow> (e = MissingToken) = (cfg_tokens cfg = [])
    | Inr (st, dc) \<Rightarrow> sdk_ok [] st \<and> st_tokens st = cfg_tokens cfg \<and>
        effective_download_cap st \<le> ABSOLUTE_MAX_BYTES \<and>
        effective_upload_cap st \<le> ABSOLUTE_MAX_BYTES)"
proof (cases "build cfg")
  case (Inl e)
  have "\<not> (tokens_ok (cfg_tokens cfg) \<and> prefix_ok (cfg_prefix cfg))"
    using build_Inr_iff [of cfg] Inl by auto
  moreover have "(e = MissingToken) = (cfg_tokens cfg = [])"
    using Inl by (auto simp: build_def split: if_splits)
  ultimately show ?thesis using Inl by (auto simp: layer_new_def)
next
  case (Inr cfg')
  then have "layer_new cfg now env = Inr (from_config cfg' now, disabled_cache_new env now)"
    by (simp add: layer_new_def)
  moreover have "st_tokens (from_config cfg' now) = cfg_tokens cfg"
    using Inr by (simp add: from_config_def build_Inr_iff)
  ultimately show ?thesis using Inr from_config_ok [OF Inr]
    by (auto simp: build_Inr_iff effective_download_cap_def effective_upload_cap_def)
qed



text \<open>No leak. Whatever a request does and whichever branch answers it, once its response
  body is dropped the concurrency counters are what they were before the request.\<close>

theorem no_permit_leak:
  "case handle x rd req (st, dc) of
     (r, st', dc') \<Rightarrow> st_concurrency (drop_response r st') = st_concurrency st"
  using handle_no_leak [of x rd req st dc] by (auto split: prod.splits)

text \<open>C31: Invisible to strangers. Any answer but the bare 404 is given only while the kill
  switch is off and to a request that presents a configured token; a request that presents
  none gets exactly the bare 404 and changes nothing but the rate limiter and the kill
  switch's cache.\<close>

theorem invisible_without_token:
  assumes "ct_eq_sound x"
  shows "case handle x rd req (st, dc) of (r, st', dc') \<Rightarrow>
    (r \<noteq> bare_404 \<longrightarrow> \<not> fst (is_disabled (rd_kill rd) (rd_env rd) dc) \<and>
       (\<exists>tok. presented x req = Some tok \<and> tok \<in> set (st_tokens st) \<and> TOKEN_MIN_BYTES \<le> length tok)) \<and>
    ((\<forall>tok. presented x req = Some tok \<longrightarrow> tok \<notin> set (st_tokens st)) \<longrightarrow>
       r = bare_404 \<and> st'\<lparr>st_rate := st_rate st\<rparr> = st)"
  using handle_not_404 [of x rd req st dc] handle_unauthed [of x rd req st dc]
  unfolding is_authed_iff [OF assms] by (clarsimp split: prod.splits) blast

theorem invisible_without_token_witness:
  "fst (handle demo_ext demo_readings
     ((demo_request GET ''/health'' None [])\<lparr>rq_headers := []\<rparr>) (demo_state, demo_cache)) = bare_404"
  using invisible_without_token [OF demo_ct_eq, where rd = demo_readings and st = demo_state
      and dc = demo_cache and req = "(demo_request GET ''/health'' None [])\<lparr>rq_headers := []\<rparr>"]
  by (simp add: presented_def header_get_def split: prod.splits)

text \<open>The kill switch is fresh. In a run of requests at any sorted instants, each answer of
  the cached switch is a value that the environment variable had less than 1001 milliseconds
  before, from the first request on.\<close>

theorem kill_switch_fresh:
  assumes "sorted (origin # ts)" "\<forall>t \<in> set ts. as_millis (t - origin) < 2 ^ 64"
  shows "list_all2 (\<lambda>t v. \<exists>t0 \<le> t. v = read_disabled_env (env t0) \<and> t < t0 + from_millis 1001)
    ts (kill_run env (disabled_cache_new e0 origin) ts)"
  by (rule kill_run_fresh [of _ _ origin]) (use assms in \<open>simp_all add: cache_ok_def disabled_cache_new_def\<close>)

theorem kill_switch_fresh_witness:
  "length (kill_run (\<lambda>t. if t < 5 then None else Some ''1'') (disabled_cache_new None 0)
     [1, from_millis 1001]) = 2"
  using list_all2_lengthD [OF kill_switch_fresh [of 0 "[1, from_millis 1001]"
        "\<lambda>t. if t < 5 then None else Some ''1''" None]]
  by (simp add: from_millis_def as_millis_def)

section \<open>Transfers\<close>

lemma common_headers_get: "k \<notin> {''cache-control'', ''timing-allow-origin'', ''server-timing''} \<Longrightarrow>
  map_of (common_headers x t) k = None"
  by (simp add: common_headers_def Let_def)

lemma dispatch_download:
  assumes "dispatch_route x rd st req p = (r, st')" "route_of st req = ''/download''" "rs_status r = 200"
  shows "route_download x rd st req p = (r, st')"
  using assms by (auto simp: dispatch_route_def bare_404_def Let_def split: if_splits)

lemma dispatch_upload:
  assumes "dispatch_route x rd st req p = (r, st')" "route_of st req = ''/upload''" "rs_status r = 200"
  shows "\<exists>st1. route_upload x rd st req = (r, st1)"
  using assms by (auto simp: dispatch_route_def bare_404_def split: if_splits prod.splits)

lemma route_of_cong [simp]:
  "route_of (st\<lparr>st_rate := rl, st_concurrency := c\<rparr>) req = route_of st req"
  by (simp add: route_of_def)

lemma handle_200:
  assumes "handle x rd req (st, dc) = (r, st', dc')" "rs_status r = 200"
  shows "\<exists>rl p conc. acquire (route_of st req \<in> {''/download'', ''/upload''})
      (st_concurrency st) = (Some p, conc) \<and>
    dispatch_route x rd (st\<lparr>st_rate := rl, st_concurrency := conc\<rparr>) req p = (r, st')"
  using assms(1)
proof (cases rule: handle_cases)
  case (Routed rl p conc)
  then show ?thesis by blast
qed (use assms(2) in \<open>auto simp: bare_404_def error_status_def split: if_splits\<close>)

lemma acquire_transfer: "acquire True c = (Some p, c') \<Longrightarrow> p = Permit True"
  by (auto simp: acquire_def Let_def split: if_splits)

text \<open>Downloads are exact. A successful download sends the requested number of bytes (the
  default where the query names none), clamped to the configured and the absolute cap: the
  frames of its body are that many fill bytes, the length header says so, and the body owns
  the transfer permit.\<close>

theorem download_exact:
  assumes "handle x rd req (st, dc) = (r, st', dc')"
    "route_of st req = ''/download''" "rs_status r = 200"
  shows "\<exists>n k. (parse_bytes_param (rq_query req) = Inr (Some n) \<or>
        parse_bytes_param (rq_query req) = Inr None \<and> n = DEFAULT_CAP_BYTES) \<and>
      k = min (unat n) (min (unat (st_download_cap_bytes st)) 33554432) \<and>
      concat (collect_frames (rs_body r)) = replicate k DOWNLOAD_FILL \<and>
      map_of (rs_headers r) ''content-length'' = Some (decimal k) \<and>
      map_of (rs_headers r) ''x-laghound-bytes'' = Some (decimal k) \<and>
      lb_permit (rs_body r) = Some (Permit True)"
proof -
  obtain rl p conc where acq: "acquire True (st_concurrency st) = (Some p, conc)"
    and disp: "dispatch_route x rd (st\<lparr>st_rate := rl, st_concurrency := conc\<rparr>) req p = (r, st')"
    using handle_200 [OF assms(1,3)] assms(2) by auto
  note p = acquire_transfer [OF acq]
  define st1 where "st1 = st\<lparr>st_rate := rl, st_concurrency := conc\<rparr>"
  have "route_download x rd st1 req p = (r, st')"
    by (rule dispatch_download) (use disp assms in \<open>simp_all add: st1_def\<close>)
  then obtain opt act where opt: "parse_bytes_param (rq_query req) = Inr opt"
    and act: "act = min (case opt of Some v \<Rightarrow> v | None \<Rightarrow> DEFAULT_CAP_BYTES) (effective_download_cap st1)"
    and r: "r = download_response x (fill_body act) act
      (app_timing (elapsed_ms (rd_start rd) (rd_end rd))) (Some p)"
    using assms(3) by (auto simp: route_download_def error_status_def Let_def
        split: if_splits sum.splits prod.splits)
  have "unat (min a b) = min (unat a) (unat b)" for a b :: u64
    by (simp add: min_def word_le_nat_alt)
  then have "unat act = min (unat (case opt of Some v \<Rightarrow> v | None \<Rightarrow> DEFAULT_CAP_BYTES))
      (min (unat (st_download_cap_bytes st)) 33554432)"
    by (simp add: act st1_def effective_download_cap_def ABSOLUTE_MAX_BYTES_def)
  moreover have "concat (collect_frames (rs_body r)) = replicate (unat act) DOWNLOAD_FILL"
    by (simp add: r download_response_def collect_fill)
  moreover have "map_of (rs_headers r) ''content-length'' = Some (decimal (unat act))"
      "map_of (rs_headers r) ''x-laghound-bytes'' = Some (decimal (unat act))"
      "lb_permit (rs_body r) = Some (Permit True)"
    by (simp_all add: r download_response_def common_headers_get map_add_def p del: decimal.simps)
  moreover have "parse_bytes_param (rq_query req) = Inr (Some (case opt of Some v \<Rightarrow> v | None \<Rightarrow> DEFAULT_CAP_BYTES)) \<or>
      parse_bytes_param (rq_query req) = Inr None \<and>
      (case opt of Some v \<Rightarrow> v | None \<Rightarrow> DEFAULT_CAP_BYTES) = DEFAULT_CAP_BYTES"
    using opt by (cases opt) simp_all
  ultimately show ?thesis by metis
qed

theorem download_exact_witness:
  "\<exists>k. concat (collect_frames (rs_body (fst (handle demo_ext demo_readings
     (demo_request GET ''/download'' (Some ''bytes=3'') []) (demo_state, demo_cache)))))
     = replicate k DOWNLOAD_FILL"
proof -
  obtain r st' dc' where h: "handle demo_ext demo_readings
      (demo_request GET ''/download'' (Some ''bytes=3'') []) (demo_state, demo_cache) = (r, st', dc')"
    by (metis prod_cases3)
  have "rs_status r = 200" using demo_download_status by (simp only: h fst_conv)
  from download_exact [OF h demo_route this] show ?thesis by (auto simp: h)
qed

text \<open>Uploads are counted exactly. A successful upload had no body error, its data bytes are
  at most the cap, and the answer reports exactly their number; a declared length over the cap
  gives the same refusal whatever the body holds.\<close>

theorem upload_exact:
  assumes "route_of st req = ''/upload''" "frames_fit (rq_body req)"
  shows "(case handle x rd req (st, dc) of (r, st', dc') \<Rightarrow>
      rs_status r = 200 \<longrightarrow>
        FrameError \<notin> set (rq_body req) \<and>
        body_len (rq_body req) \<le> min (unat (st_upload_cap_bytes st)) 33554432 \<and>
        (\<exists>t. r = json_response x 200
           (JObj [(''contract'', JStr ''v1''), (''received_bytes'', JNum (body_len (rq_body req)))])
           t [(''x-laghound-bytes'', decimal (body_len (rq_body req)))])) \<and>
    (\<forall>len body'. content_length x req = Some len \<longrightarrow> effective_upload_cap st < len \<longrightarrow>
       handle x rd (req\<lparr>rq_body := body'\<rparr>) (st, dc) = handle x rd req (st, dc))"
proof (intro conjI allI impI)
  obtain r st' dc' where h: "handle x rd req (st, dc) = (r, st', dc')" by (metis prod_cases3)
  have "FrameError \<notin> set (rq_body req) \<and>
        body_len (rq_body req) \<le> min (unat (st_upload_cap_bytes st)) 33554432 \<and>
        (\<exists>t. r = json_response x 200
           (JObj [(''contract'', JStr ''v1''), (''received_bytes'', JNum (body_len (rq_body req)))])
           t [(''x-laghound-bytes'', decimal (body_len (rq_body req)))])" if s: "rs_status r = 200"
  proof -
    obtain rl p conc where
      disp: "dispatch_route x rd (st\<lparr>st_rate := rl, st_concurrency := conc\<rparr>) req p = (r, st')"
      using handle_200 [OF h s] by auto
    define st1 where "st1 = st\<lparr>st_rate := rl, st_concurrency := conc\<rparr>"
    have "\<exists>st2. route_upload x rd st1 req = (r, st2)"
      by (rule dispatch_upload) (use disp assms s in \<open>simp_all add: st1_def\<close>)
    then obtain n where drain: "drain_capped (rq_body req) (effective_upload_cap st1) = DrainOk n"
      and r: "\<exists>t. r = json_response x 200
           (JObj [(''contract'', JStr ''v1''), (''received_bytes'', JNum (unat n))])
           t [(''x-laghound-bytes'', decimal (unat n))]"
      using s by (auto simp: route_upload_def error_status_def Let_def
          split: if_splits sum.splits prod.splits drain_result.splits)
    have cap: "unat (effective_upload_cap st1) = min (unat (st_upload_cap_bytes st)) 33554432"
      by (simp add: st1_def effective_upload_cap_def ABSOLUTE_MAX_BYTES_def min_def word_le_nat_alt)
    with drain drain_capped_Ok_iff [OF assms(2), of "effective_upload_cap st1" n] r
    show ?thesis by simp
  qed
  then show "case handle x rd req (st, dc) of (r, st', dc') \<Rightarrow>
      rs_status r = 200 \<longrightarrow>
        FrameError \<notin> set (rq_body req) \<and>
        body_len (rq_body req) \<le> min (unat (st_upload_cap_bytes st)) 33554432 \<and>
        (\<exists>t. r = json_response x 200
           (JObj [(''contract'', JStr ''v1''), (''received_bytes'', JNum (body_len (rq_body req)))])
           t [(''x-laghound-bytes'', decimal (body_len (rq_body req)))])"
    by (simp add: h)
next
  fix len body'
  assume len: "content_length x req = Some len" "effective_upload_cap st < len"
  let ?req = "req\<lparr>rq_body := body'\<rparr>"
  have hdr: "header_get k ?req = header_get k req" for k by (simp add: header_get_def)
  have cl: "content_length x ?req = Some len" using len(1) by (simp add: content_length_def hdr)
  have same: "is_authed x st ?req = is_authed x st req" "client_ip ?req = client_ip req"
      "route_of s ?req = route_of s req" for s
    unfolding is_authed_def hdr by (simp_all add: client_ip_def route_of_def)
  have up: "route_upload x rd (st\<lparr>st_rate := rl, st_concurrency := c\<rparr>) ?req
      = route_upload x rd (st\<lparr>st_rate := rl, st_concurrency := c\<rparr>) req" for rl c
    using len by (simp add: route_upload_def cl effective_upload_cap_def Let_def)
  have disp: "dispatch_route x rd (st\<lparr>st_rate := rl, st_concurrency := c\<rparr>) ?req p
      = dispatch_route x rd (st\<lparr>st_rate := rl, st_concurrency := c\<rparr>) req p" for rl c p
    using assms(1) by (simp add: dispatch_route_def same up)
  show "handle x rd ?req (st, dc) = handle x rd req (st, dc)"
  proof -
    obtain off dc1 where d: "is_disabled (rd_kill rd) (rd_env rd) dc = (off, dc1)" by fastforce
    obtain oc rl where r: "rate_check (client_ip req) (rd_rate rd) (st_rate st) = (oc, rl)" by fastforce
    have a: "is_authed x st ?req = is_authed x st req" by (rule same)
    show ?thesis unfolding handle_def Let_def prod.case d same(2) r a same(3)
      by (simp add: disp split: rate_outcome.split prod.split option.split)
  qed
qed

theorem upload_exact_witness:
  "(\<forall>body'. handle demo_ext demo_readings
     ((demo_request POST ''/upload'' None [])\<lparr>rq_headers := [(''content-length'', decimal 5000000)],
        rq_body := body'\<rparr>) (demo_state, demo_cache) =
   handle demo_ext demo_readings
     ((demo_request POST ''/upload'' None [])\<lparr>rq_headers := [(''content-length'', decimal 5000000)]\<rparr>)
     (demo_state, demo_cache))"
proof
  fix body'
  let ?req = "(demo_request POST ''/upload'' None [])\<lparr>rq_headers := [(''content-length'', decimal 5000000)]\<rparr>"
  have "\<forall>c \<in> set (decimal 5000000). \<not> is_ascii_space c \<and> code c < 128"
    using decimal_digits [of _ 5000000] by (fastforce simp: is_ascii_digit_def is_ascii_space_def)
  then have "trim (decimal 5000000) = decimal 5000000" by (rule trim_id)
  then have "content_length demo_ext ?req = Some 5000000"
    using parse_u64_decimal [of 5000000]
    by (simp add: content_length_def header_get_def demo_ext_def del: decimal.simps)
  moreover have "effective_upload_cap demo_state < 5000000"
    by (simp add: effective_upload_cap_def ABSOLUTE_MAX_BYTES_def)
  moreover have "route_of demo_state ?req = ''/upload''"
    using demo_route [of "''/upload''" demo_state POST None "[]"] by (simp add: route_of_def)
  ultimately show "handle demo_ext demo_readings (?req\<lparr>rq_body := body'\<rparr>) (demo_state, demo_cache)
      = handle demo_ext demo_readings ?req (demo_state, demo_cache)"
    using upload_exact [where x = demo_ext and rd = demo_readings and st = demo_state
        and dc = demo_cache and req = ?req]
    by (simp add: frames_fit_def)
qed

text \<open>Zero reflection. The only successful answer of the echo route is the fixed object:
  nothing of the request, neither its query nor its headers nor its body, reaches it, and the
  body it drained was at most 64 KiB.\<close>

theorem echo_zero_reflection:
  assumes "route_of st req = ''/echo''" "frames_fit (rq_body req)"
  shows "case handle x rd req (st, dc) of (r, st', dc') \<Rightarrow> rs_status r = 200 \<longrightarrow>
    r = json_response x 200 (JObj [(''contract'', JStr ''v1''), (''ok'', JBool True)])
          (app_timing (elapsed_ms (rd_start rd) (rd_end rd))) [] \<and>
    body_len (rq_body req) \<le> 65536"
proof -
  obtain r st' dc' where h: "handle x rd req (st, dc) = (r, st', dc')" by (metis prod_cases3)
  have "r = json_response x 200 (JObj [(''contract'', JStr ''v1''), (''ok'', JBool True)])
          (app_timing (elapsed_ms (rd_start rd) (rd_end rd))) [] \<and>
    body_len (rq_body req) \<le> 65536" if s: "rs_status r = 200"
  proof -
    obtain rl p conc where
      "dispatch_route x rd (st\<lparr>st_rate := rl, st_concurrency := conc\<rparr>) req p = (r, st')"
      using handle_200 [OF h s] by auto
    then have r: "r = route_echo x rd req"
      using assms(1) s by (auto simp: dispatch_route_def bare_404_def Let_def split: if_splits)
    obtain n where "drain_capped (rq_body req) ECHO_REQUEST_BODY_MAX_BYTES = DrainOk n"
      using s unfolding r by (auto simp: route_echo_def error_status_def
          split: if_splits drain_result.splits)
    with s show ?thesis
      using drain_capped_Ok_iff [OF assms(2), of ECHO_REQUEST_BODY_MAX_BYTES n]
      unfolding r by (auto simp: route_echo_def error_status_def ECHO_REQUEST_BODY_MAX_BYTES_def
          split: if_splits)
  qed
  then show ?thesis by (simp add: h)
qed

lemma demo_echo_status: "rs_status (fst (handle demo_ext demo_readings
    (demo_request GET ''/echo'' None [DataFrame [1, 2]]) (demo_state, demo_cache))) = 200"
proof -
  have fit: "frames_fit [DataFrame [1, 2]]" by (simp add: frames_fit_def)
  have drain: "drain_capped [DataFrame [1, 2]] ECHO_REQUEST_BODY_MAX_BYTES = DrainOk 2"
    by (subst drain_capped_Ok_iff [OF fit]) (simp_all add: ECHO_REQUEST_BODY_MAX_BYTES_def)
  have "content_length demo_ext (demo_request GET ''/echo'' None [DataFrame [1, 2]]) = None"
    by (simp add: content_length_def header_get_def)
  then have "rs_status (route_echo demo_ext demo_readings
      (demo_request GET ''/echo'' None [DataFrame [1, 2]])) = 200"
    by (simp add: route_echo_def drain)
  then show ?thesis
    by (subst demo_handle) (simp_all add: demo_route demo_acquire dispatch_route_def Let_def)
qed

theorem echo_zero_reflection_witness:
  "fst (handle demo_ext demo_readings
      (demo_request GET ''/echo'' None [DataFrame [1, 2]]) (demo_state, demo_cache)) =
   json_response demo_ext 200 (JObj [(''contract'', JStr ''v1''), (''ok'', JBool True)])
     (app_timing (elapsed_ms 0 0)) []"
  using echo_zero_reflection [of demo_state "demo_request GET ''/echo'' None [DataFrame [1, 2]]"
      demo_ext demo_readings demo_cache] demo_echo_status
  by (auto simp: demo_route frames_fit_def demo_readings_def split: prod.splits)

text \<open>Every refusal for load says when to come back. An answer with status 429 carries a
  wait of at least one millisecond, and a \<open>retry-after\<close> header of at least one second that
  covers it.\<close>

theorem rate_limited_retry:
  assumes "\<And>v. ext_header_ok x v"
  shows "case handle x rd req (st, dc) of (r, st', dc') \<Rightarrow> rs_status r = 429 \<longrightarrow>
    (\<exists>ms secs t. 1 \<le> ms \<and> r = envelope x RateLimited (Some ms) t \<and> 1 \<le> secs \<and> ms \<le> 1000 * secs \<and>
       map_of (rs_headers r) ''retry-after'' = Some (decimal secs))"
proof -
  obtain r st' dc' where h: "handle x rd req (st, dc) = (r, st', dc')" by (metis prod_cases3)
  have retry: "1 \<le> retry_ms d" for d
    by (simp add: retry_ms_def max_def word_le_nat_alt word_less_nat_alt not_le split: if_splits)
  have route: "\<exists>ms t. 1 \<le> ms \<and> r = envelope x RateLimited (Some ms) t"
    if "dispatch_route x rd s req p = (r, s')" "rs_status r = 429" for s p s'
    using that retry
    by (auto simp: dispatch_route_def route_health_def route_info_def route_echo_def
        route_download_def route_upload_def error_status_def bare_404_def download_response_def Let_def
        split: if_splits sum.splits prod.splits drain_result.splits)
  have "\<exists>ms t. 1 \<le> ms \<and> r = envelope x RateLimited (Some ms) t" if s: "rs_status r = 429"
    using h
  proof (cases rule: handle_cases)
    case (Limited d rl)
    with s retry show ?thesis by (auto simp: bare_404_def split: if_splits)
  next
    case (Full rl)
    then show ?thesis by (intro exI [of _ 1000]) auto
  next
    case (Routed rl p conc)
    from route [OF this(5) s] show ?thesis .
  qed (use s in \<open>simp_all add: bare_404_def\<close>)
  moreover have "map_of (rs_headers (envelope x RateLimited (Some ms) t)) ''retry-after''
      = Some (decimal (max (div_ceil ms 1000) 1))" for ms t
    by (simp add: envelope_def json_response_def common_headers_get map_add_def Let_def assms del: decimal.simps)
  moreover have "ms \<le> 1000 * max (div_ceil ms 1000) 1" for ms
    using div_ceil_mult_ge [of 1000 ms] by (simp add: max_def mult.commute)
  ultimately show ?thesis unfolding h prod.case by (metis max.cobounded2)
qed

theorem rate_limited_retry_witness:
  "\<exists>secs. 1 \<le> secs \<and> map_of (rs_headers (fst (handle demo_ext demo_readings
      (demo_request GET ''/health'' None []) (demo_state\<lparr>st_concurrency := concurrency_new 0 0\<rparr>, demo_cache))))
        ''retry-after'' = Some (decimal secs)"
proof -
  let ?st = "demo_state\<lparr>st_concurrency := concurrency_new 0 0\<rparr>"
  have "rs_status (fst (handle demo_ext demo_readings (demo_request GET ''/health'' None [])
      (?st, demo_cache))) = 429"
    by (subst demo_handle) (simp_all add: acquire_def concurrency_new_def error_status_def)
  then show ?thesis
    using rate_limited_retry [of demo_ext demo_readings "demo_request GET ''/health'' None []"
        ?st demo_cache]
    by (auto simp: demo_ext_def split: prod.splits)
qed

section \<open>Limits\<close>

text \<open>C32: The rate limit. Over any run of requests at sorted instants, a fresh token bucket
  admits at most its burst plus its rate times the elapsed time, up to the rounding of the
  floating-point arithmetic the code runs.\<close>

theorem rate_bound:
  assumes "sorted (t0 # ts)"
  shows "real (admitted limit (bucket_new (fl (real (unat (rl_burst limit)))) t0) ts) \<le>
    real (unat (rl_burst limit)) +
    real (max (unat (rl_rps limit)) 1) * (real (last (t0 # ts) - t0) / 10 ^ 9) * (1 + ulp_rel) ^ 5 +
    2 * real (length ts) * real (unat (rl_burst limit)) * ulp_rel"
  using admitted_le [OF bucket_new_ok [of limit t0], of ts] assms
  by (simp add: bucket_new_def rps_of_def)

theorem rate_bound_witness:
  "real (admitted \<lparr>rl_rps = 1, rl_burst = 2\<rparr> (bucket_new (fl 2) 0) [0, 0, 0, from_secs 1]) \<le>
    2 + 1 * (real (from_secs 1) / 10 ^ 9) * (1 + ulp_rel) ^ 5 + 2 * 4 * 2 * ulp_rel"
  using rate_bound [of 0 "[0, 0, 0, from_secs 1]" "\<lparr>rl_rps = 1, rl_burst = 2\<rparr>"] by simp

text \<open>The byte budget. The bytes granted by any sequence of reservations are at most one
  budget for each window begun.\<close>

theorem budget_bound:
  assumes "unat (bb_bytes b) < 2 ^ 64 - 1" "sorted (t0 # map fst rs)"
  shows "granted (budget_new b t0) rs \<le>
    unat (bb_bytes b) * (1 + (last (t0 # map fst rs) - t0) div from_secs (max (unat (bb_window_s b)) 1))"
  using granted_le [of "budget_new b t0" rs] assms
  by (simp add: budget_new_def budget_ok_def budget_window_def)

theorem budget_bound_witness:
  "granted (budget_new \<lparr>bb_bytes = 1000, bb_window_s = 60\<rparr> 0) [(5, 700), (6, 300), (7, 1)] \<le> 1000"
  using budget_bound [of "\<lparr>bb_bytes = 1000, bb_window_s = 60\<rparr>" 0 "[(5, 700), (6, 300), (7, 1)]"]
  by (simp add: from_secs_def)

text \<open>The budget's window does not slide. Twice the budget is granted within one second when
  the window is a minute long, one half just before and one at the reset.\<close>

theorem budget_window_tumbles:
  "granted (budget_new \<lparr>bb_bytes = 1000, bb_window_s = 60\<rparr> 0)
     [(from_secs 59, 1000), (from_secs 60, 1000)] = 2000"
proof -
  have s: "sat_add 0 (1000 :: u64) = 1000"
    unfolding word_unat_eq_iff unat_sat_add by simp
  show ?thesis
    by (simp add: budget_new_def reserve_def budget_window_def from_secs_def Let_def s)
qed

text \<open>C30: The caps hold under any interleaving. When threads run the loads, compare-exchanges
  and decrements of acquiring and dropping permits in any order, the permits held never exceed
  the caps, and a thread holds no slot once it is idle: when all are, both counters are zero.\<close>

theorem caps_interleaved:
  assumes "conc_reachable m mt s"
  shows "card {t. \<exists>k. cs_pcs s t = Holding k} \<le> unat m \<and>
    card {t. cs_pcs s t = Holding True} \<le> unat mt \<and>
    ((\<forall>t. cs_pcs s t = Idle) \<longrightarrow> cc_in_flight (cs_conc s) = 0 \<and> cc_transfers (cs_conc s) = 0)"
proof -
  have inv: "finite {t. cs_pcs s t \<noteq> Idle}"
      "unat (cc_in_flight (cs_conc s)) = card {t. holds_slot (cs_pcs s t)}"
      "unat (cc_transfers (cs_conc s)) = card {t. holds_transfer (cs_pcs s t)}"
      "cc_in_flight (cs_conc s) \<le> m" "cc_transfers (cs_conc s) \<le> mt"
    using conc_reachable_inv [OF assms] by (auto simp: conc_inv_def)
  have "card {t. \<exists>k. cs_pcs s t = Holding k} \<le> card {t. holds_slot (cs_pcs s t)}"
    by (rule card_mono [OF finite_pcs(1) [OF inv(1)]]) auto
  moreover have "card {t. cs_pcs s t = Holding True} \<le> card {t. holds_transfer (cs_pcs s t)}"
    by (rule card_mono [OF finite_pcs(2) [OF inv(1)]]) auto
  moreover have "cc_in_flight (cs_conc s) = 0 \<and> cc_transfers (cs_conc s) = 0" if "\<forall>t. cs_pcs s t = Idle"
    using inv(2,3) that by (simp add: unat_eq_0)
  ultimately show ?thesis using inv(2-5) by (simp add: word_le_nat_alt)
qed

theorem caps_interleaved_witness:
  "card {t. \<exists>k. cs_pcs \<lparr>cs_conc = concurrency_new 1 1, cs_pcs = (\<lambda>_. Idle)\<rparr> t = Holding k} \<le> 1"
  using caps_interleaved [OF conc_reachable.init [of 1 1]] by simp

text \<open>The atomic steps implement the call. A thread that runs alone from the start of
  \<open>acquire\<close> reaches, in at most five steps, the counters and the outcome that the sequential
  model computes.\<close>

theorem acquire_refinement:
  "\<exists>n \<le> 5. pc_steps n (c, LoadInFlight k) =
     (snd (acquire k c), case fst (acquire k c) of None \<Rightarrow> Idle | Some p \<Rightarrow> Holding (permit_transfer p))"
  by (rule pc_steps_acquire) simp

section \<open>Headers and paths\<close>

text \<open>The \<open>Server-Timing\<close> header is bounded and never cuts an entry: it is the comma-separated
  list of the rendered entries of an initial run of at most eight metrics, within 512 bytes.\<close>

theorem server_timing_bounded:
  "length (build_header ms) \<le> 512 \<and>
   (\<exists>k \<le> 8. build_header ms = join_with '', '' (map metric_piece (take k ms)))"
proof -
  have "length (build_header ms) \<le> 512"
    using header_loop_length [of "[]"] by (simp add: build_header_def MAX_HEADER_BYTES_def)
  moreover obtain k where k: "k \<le> length (take MAX_METRICS ms)"
    "build_header ms = join_with '', '' (map metric_piece (take k (take MAX_METRICS ms)))"
    using header_loop_prefix [of "take MAX_METRICS ms" "[]"] by (auto simp: build_header_def)
  moreover have "k \<le> 8" using k(1) by (simp add: MAX_METRICS_def)
  moreover from this have "take k (take MAX_METRICS ms) = take k ms"
    by (simp add: MAX_METRICS_def min_absorb1)
  ultimately show ?thesis by auto
qed

text \<open>Only the prefix is intercepted. A request reaches the inner service untouched, with no
  state changed, exactly when its path is neither the prefix nor the prefix followed by a
  slash.\<close>

theorem passthrough_iff:
  "(call x rd req (st, dc) = (ToInner req, st, dc)) =
     (\<not> (rq_path req = st_prefix st \<or> (\<exists>r. rq_path req = st_prefix st @ CHR ''/'' # r)))"
proof -
  have "path_under_prefix (rq_path req) (st_prefix st) =
      (rq_path req = st_prefix st \<or> (\<exists>r. rq_path req = st_prefix st @ CHR ''/'' # r))"
    by (auto simp: path_under_prefix_def starts_with_iff strip_prefix_Some_iff split: option.splits)
  then show ?thesis by (auto simp: call_def split: prod.splits)
qed

text \<open>A root prefix hides the routes. Validation accepts the prefix of a single slash, but an
  endpoint mounted there passes its own health path on to the inner service.\<close>

theorem root_prefix_unreachable:
  "(\<exists>st dc. layer_new (set_prefix ''/'' (config_new demo_token)) 0 None = Inr (st, dc) \<and>
     (\<forall>x rd req. call x rd (req\<lparr>rq_path := ''/health''\<rparr>) (st, dc)
        = (ToInner (req\<lparr>rq_path := ''/health''\<rparr>), st, dc)))"
proof -
  let ?c = "set_prefix ''/'' (config_new demo_token)"
  have "build ?c = Inr ?c"
    by (rule build_accepts) (simp add: mountable_def tokens_ok_def prefix_ok_def config_new_def
        set_prefix_def demo_token_def TOKEN_MIN_BYTES_def DEFAULT_CAP_BYTES_def ABSOLUTE_MAX_BYTES_def)
  then have "layer_new ?c 0 None = Inr (from_config ?c 0, disabled_cache_new None 0)"
    by (simp add: layer_new_def)
  moreover have "st_prefix (from_config ?c 0) = ''/''"
    by (simp add: from_config_def set_prefix_def)
  then have "call x rd (req\<lparr>rq_path := ''/health''\<rparr>) (from_config ?c 0, disabled_cache_new None 0)
      = (ToInner (req\<lparr>rq_path := ''/health''\<rparr>), from_config ?c 0, disabled_cache_new None 0)" for x rd req
    using strip_prefix_append [of "''/''" "''health''"]
    by (simp add: call_def path_under_prefix_def starts_with_iff)
  ultimately show ?thesis by blast
qed

end
