(* ===== verification/Stats.thy ===== *)
theory Stats
  imports F64
begin

text \<open>
  The statistics of the probe engine (\<open>crates/networker-tester/src/metrics.rs\<close>):
  interpolated percentiles, descriptive statistics, the aggregate over a probe timeline and
  the RFC 3357 loss pattern. A timeline is a list of optional readings indexed by sequence
  number, \<open>None\<close> for a lost probe. Sums run left to right over rounded arithmetic, as
  \<open>iter().sum()\<close> does, and sorting with \<open>partial_cmp\<close> on finite values is \<open>sort\<close>.

  The lemmas show that every index a percentile reads is in range, that it is at least the
  smallest sample, that loss is a percentage, and that the loss runs are exactly the maximal
  runs of lost probes.
\<close>

definition MIN_SAMPLES_P95 :: nat where "MIN_SAMPLES_P95 = 20"
definition MIN_SAMPLES_P99 :: nat where "MIN_SAMPLES_P99 = 100"
definition MIN_LOSS_PATTERN_PROBES :: nat where "MIN_LOSS_PATTERN_PROBES = 20"

definition f64_sum :: "f64 list \<Rightarrow> f64" where
  "f64_sum xs = foldl f64_add 0 xs"

text \<open>\<open>windows(2).map(|w| w[1] - w[0])\<close>.\<close>

fun diffs :: "f64 list \<Rightarrow> f64 list" where
  "diffs (x # y # xs) = f64_sub y x # diffs (y # xs)"
| "diffs _ = []"

definition percentile_rank :: "nat \<Rightarrow> f64 \<Rightarrow> f64" where
  "percentile_rank n p = f64_mul (f64_div p 100) (fl (real (n - 1)))"

definition percentile_from_sorted :: "f64 list \<Rightarrow> f64 \<Rightarrow> f64" where
  "percentile_from_sorted xs p =
     (let n = length xs
      in if n = 1 then xs ! 0
         else let rank = percentile_rank n p;
                  lo = nat \<lfloor>rank\<rfloor>;
                  hi = nat \<lceil>rank\<rceil>;
                  frac = f64_sub rank (fl (real lo))
              in f64_add (xs ! lo) (f64_mul frac (f64_sub (xs ! hi) (xs ! lo))))"

section \<open>Descriptive statistics\<close>

record stats =
  s_count :: nat
  s_min :: f64
  s_mean :: f64
  s_p50 :: f64
  s_p95 :: "f64 option"
  s_p99 :: "f64 option"
  s_max :: f64
  s_stddev :: f64

definition compute_stats :: "f64 list \<Rightarrow> stats option" where
  "compute_stats values =
     (if values = [] then None
      else let xs = sort values;
               count = length xs;
               mean = f64_div (f64_sum xs) (fl (real count));
               variance = (if count > 1
                 then f64_div (f64_sum (map (\<lambda>v. f64_mul (f64_sub v mean) (f64_sub v mean)) xs))
                        (f64_sub (fl (real count)) 1)
                 else 0)
           in Some \<lparr>s_count = count, s_min = xs ! 0, s_mean = mean,
                s_p50 = percentile_from_sorted xs 50,
                s_p95 = (if MIN_SAMPLES_P95 \<le> count then Some (percentile_from_sorted xs 95) else None),
                s_p99 = (if MIN_SAMPLES_P99 \<le> count then Some (percentile_from_sorted xs 99) else None),
                s_max = xs ! (count - 1), s_stddev = fl (sqrt variance)\<rparr>)"

section \<open>The aggregate over a timeline\<close>

record rtt_stats =
  rtt_min :: f64
  rtt_avg :: f64
  rtt_p95 :: f64
  rtt_jitter :: f64
  rtt_ipdv_p95 :: "f64 option"
  rtt_ipdv_p99 :: "f64 option"
  rtt_loss_percent :: f64

definition received_of :: "'a option list \<Rightarrow> 'a list" where
  "received_of samples = map the (filter (\<lambda>v. v \<noteq> None) samples)"

definition loss_of :: "nat \<Rightarrow> nat \<Rightarrow> f64" where
  "loss_of sent received =
     (let t = fl (real sent); r = fl (real received)
      in if 0 < t then f64_mul (f64_div (f64_sub t r) t) 100 else 100)"

definition aggregate_udp_rtts :: "f64 option list \<Rightarrow> rtt_stats" where
  "aggregate_udp_rtts samples =
     (let rtts = received_of samples;
          loss = loss_of (length samples) (length rtts)
      in if rtts = []
         then \<lparr>rtt_min = 0, rtt_avg = 0, rtt_p95 = 0, rtt_jitter = 0, rtt_ipdv_p95 = None,
               rtt_ipdv_p99 = None, rtt_loss_percent = loss\<rparr>
         else let ipdv = map abs (diffs rtts);
                  jitter = (if ipdv = [] then 0 else f64_div (f64_sum ipdv) (fl (real (length ipdv))));
                  ipdv = sort ipdv;
                  rtts = sort rtts
              in \<lparr>rtt_min = rtts ! 0,
                  rtt_avg = f64_div (f64_sum rtts) (fl (real (length rtts))),
                  rtt_p95 = percentile_from_sorted rtts 95,
                  rtt_jitter = jitter,
                  rtt_ipdv_p95 = (if MIN_SAMPLES_P95 \<le> length ipdv
                    then Some (percentile_from_sorted ipdv 95) else None),
                  rtt_ipdv_p99 = (if MIN_SAMPLES_P99 \<le> length ipdv
                    then Some (percentile_from_sorted ipdv 99) else None),
                  rtt_loss_percent = loss\<rparr>)"

section \<open>Loss patterns\<close>

record loss_pattern =
  lp_lost_count :: u32
  lp_burst_count :: u32
  lp_max_burst :: u32
  lp_mean_distance :: "f64 option"
  lp_classification :: string

text \<open>The walk over the timeline: the start and the length of each maximal run of losses.\<close>

function loss_runs :: "nat \<Rightarrow> 'a option list \<Rightarrow> (nat \<times> nat) list" where
  "loss_runs i [] = []"
| "loss_runs i (Some _ # xs) = loss_runs (Suc i) xs"
| "loss_runs i (None # xs) =
     (let len = Suc (length (takeWhile (\<lambda>v. v = None) xs))
      in (i, len) # loss_runs (i + len) (dropWhile (\<lambda>v. v = None) xs))"
  by pat_completeness auto
termination
  by (relation "measure (\<lambda>(i, xs). length xs)") (auto simp: le_imp_less_Suc length_dropWhile_le)

fun gaps :: "nat list \<Rightarrow> nat list" where
  "gaps (a # b # xs) = (b - a) # gaps (b # xs)"
| "gaps _ = []"

definition compute_loss_pattern :: "f64 option list \<Rightarrow> loss_pattern option" where
  "compute_loss_pattern rtts =
     (if length rtts < MIN_LOSS_PATTERN_PROBES then None
      else let runs = loss_runs 0 rtts;
               burst_lengths = map snd runs;
               loss_starts = map fst runs;
               lost_count = sum_list burst_lengths;
               burst_count = length burst_lengths;
               max_burst = (if burst_lengths = [] then 0 else Max (set burst_lengths));
               distance = (if 2 \<le> length loss_starts
                 then Some (f64_div (fl (real (sum_list (gaps loss_starts))))
                        (fl (real (length (gaps loss_starts))))) else None);
               classification = (if lost_count = 0 then ''no-loss''
                 else if 3 \<le> max_burst then ''bursty''
                 else if burst_count = 1 \<and> 2 \<le> max_burst then ''single-burst''
                 else ''random-like'')
           in Some \<lparr>lp_lost_count = of_nat lost_count, lp_burst_count = of_nat burst_count,
                lp_max_burst = of_nat max_burst, lp_mean_distance = distance,
                lp_classification = classification\<rparr>)"

section \<open>Lemmas\<close>

lemma received_length: "length (received_of xs) \<le> length xs"
  by (simp add: received_of_def)

lemma received_set: "v \<in> set (received_of xs) \<longleftrightarrow> Some v \<in> set xs"
  by (force simp: received_of_def image_iff)

lemma received_empty_iff: "received_of xs = [] \<longleftrightarrow> (\<forall>v \<in> set xs. v = None)"
  by (auto simp: received_of_def filter_empty_conv)

lemma loss_of_bounds:
  assumes "r \<le> t" "t \<le> 2 ^ 53"
  shows "0 \<le> loss_of t r \<and> loss_of t r \<le> 100"
proof (cases "t = 0")
  case False
  have e: "fl (real t) = real t" "fl (real r) = real r" using assms by (simp_all add: fl.rnd_nat)
  have "fl (real (t - r)) = real (t - r)" by (rule fl.rnd_nat) (use assms in simp)
  then have d: "fl (real t - real r) = real (t - r)" using assms(1) by (simp only: of_nat_diff)
  have "0 < real t" using False by simp
  then have "loss_of t r = fl (fl (real (t - r) / real t) * 100)"
    by (simp only: loss_of_def f64_ops e d Let_def if_True)
  then show ?thesis using fl.percent_bounds [of "t - r" t] False by (simp only:)
qed (simp add: loss_of_def)

lemma percentile_rank_bounds:
  assumes "0 \<le> p" "p \<le> 100" "n \<le> 2 ^ 53"
  shows "0 \<le> percentile_rank n p \<and> percentile_rank n p \<le> real (n - 1)"
proof -
  have m: "n - 1 \<le> 2 ^ 53" using assms(3) by simp
  have e: "fl (real (n - 1)) = real (n - 1)" by (rule fl.rnd_nat [OF m])
  have q: "0 \<le> fl (p / 100)" "fl (p / 100) \<le> 1"
    using assms(1,2) fl.rnd_le_nat [of "p / 100" 1] by (simp_all add: fl.rnd_nonneg)
  have "fl (p / 100) * real (n - 1) \<le> 1 * real (n - 1)" by (rule mult_right_mono) (use q in simp_all)
  then have "fl (fl (p / 100) * real (n - 1)) \<le> real (n - 1)"
    by (intro fl.rnd_le_nat m) simp
  moreover have "percentile_rank n p = fl (fl (p / 100) * real (n - 1))"
    by (simp only: percentile_rank_def f64_ops e)
  ultimately show ?thesis using q(1) by (simp only:) (simp add: fl.rnd_nonneg)
qed

text \<open>The two indices of an interpolated percentile are in range and ordered.\<close>

lemma percentile_indices:
  assumes "0 \<le> p" "p \<le> 100" "1 \<le> n" "n \<le> 2 ^ 53"
  shows "nat \<lfloor>percentile_rank n p\<rfloor> \<le> nat \<lceil>percentile_rank n p\<rceil> \<and> nat \<lceil>percentile_rank n p\<rceil> < n"
proof -
  have b: "0 \<le> percentile_rank n p" "percentile_rank n p \<le> real (n - 1)"
    using percentile_rank_bounds [OF assms(1,2,4)] by simp_all
  have "\<lceil>percentile_rank n p\<rceil> \<le> int (n - 1)" using b(2) by (simp add: ceiling_le_iff)
  then have "nat \<lceil>percentile_rank n p\<rceil> < n" using assms(3) by linarith
  moreover have "\<lfloor>percentile_rank n p\<rfloor> \<le> \<lceil>percentile_rank n p\<rceil>" by (rule floor_le_ceiling)
  ultimately show ?thesis by (simp add: nat_mono)
qed

lemma percentile_ge_min:
  assumes "sorted xs" "xs \<noteq> []" "\<forall>x \<in> set xs. fl x = x" "0 \<le> p" "p \<le> 100" "length xs \<le> 2 ^ 53"
  shows "xs ! 0 \<le> percentile_from_sorted xs p"
proof (cases "length xs = 1")
  case False
  define rank where "rank = percentile_rank (length xs) p"
  define lo hi where "lo = nat \<lfloor>rank\<rfloor>" and "hi = nat \<lceil>rank\<rceil>"
  have n: "1 \<le> length xs" using assms(2) by (cases xs) simp_all
  have idx: "lo \<le> hi" "hi < length xs"
    using percentile_indices [OF assms(4,5) n assms(6)] by (simp_all add: lo_def hi_def rank_def)
  have "0 \<le> rank" using percentile_rank_bounds [OF assms(4-6)] by (simp add: rank_def)
  then have "real lo \<le> rank" by (simp add: lo_def)
  moreover have "fl (real lo) = real lo" by (rule fl.rnd_nat) (use idx assms(6) in simp)
  ultimately have frac: "0 \<le> f64_sub rank (fl (real lo))" by (simp add: f64_ops fl.rnd_nonneg)
  have ord: "xs ! 0 \<le> xs ! lo" "xs ! lo \<le> xs ! hi"
    using assms(1) idx by (auto intro: sorted_nth_mono)
  then have "0 \<le> f64_mul (f64_sub rank (fl (real lo))) (f64_sub (xs ! hi) (xs ! lo))"
    using frac by (simp add: f64_ops fl.rnd_nonneg)
  then have "fl (xs ! lo) \<le> f64_add (xs ! lo)
      (f64_mul (f64_sub rank (fl (real lo))) (f64_sub (xs ! hi) (xs ! lo)))"
    unfolding f64_add_def by (intro fl_mono) simp
  then show ?thesis using ord(1) assms(3) idx False
    by (simp add: percentile_from_sorted_def rank_def lo_def hi_def Let_def)
qed (simp add: percentile_from_sorted_def)

lemma f64_sum_nonneg: "\<forall>x \<in> set xs. 0 \<le> x \<Longrightarrow> 0 \<le> f64_sum xs"
proof -
  have "0 \<le> a \<Longrightarrow> \<forall>x \<in> set xs. 0 \<le> x \<Longrightarrow> 0 \<le> foldl f64_add a xs" for a
    by (induction xs arbitrary: a) (simp_all add: f64_ops fl.rnd_nonneg)
  then show "\<forall>x \<in> set xs. 0 \<le> x \<Longrightarrow> 0 \<le> f64_sum xs" by (simp add: f64_sum_def)
qed

text \<open>The loss runs partition the lost probes into maximal runs.\<close>

definition lost_at :: "'a option list \<Rightarrow> nat set" where
  "lost_at xs = {j. j < length xs \<and> xs ! j = None}"

definition run_set :: "nat \<times> nat \<Rightarrow> nat set" where
  "run_set r = {fst r..<fst r + snd r}"

lemma takeWhile_drop_None:
  "xs = replicate (length (takeWhile (\<lambda>v. v = None) xs)) None @ dropWhile (\<lambda>v. v = None) xs"
proof -
  have "takeWhile (\<lambda>v. v = None) xs = replicate (length (takeWhile (\<lambda>v. v = None) xs)) None"
    by (intro replicate_eqI) (auto dest: set_takeWhileD)
  then show ?thesis by (metis takeWhile_dropWhile_id)
qed

lemma dropWhile_None_cases:
  "dropWhile (\<lambda>v. v = None) xs = [] \<or> (\<exists>v ys. dropWhile (\<lambda>v. v = None) xs = Some v # ys)"
proof (cases "dropWhile (\<lambda>v. v = None) xs")
  case (Cons y ys)
  then have "y \<noteq> None" using hd_dropWhile [of "\<lambda>v. v = None" xs] by (auto simp: dropWhile_eq_Nil_conv)
  with Cons show ?thesis by auto
qed simp

lemma loss_runs_sum: "sum_list (map snd (loss_runs i xs)) = length (filter (\<lambda>v. v = None) xs)"
proof (induction i xs rule: loss_runs.induct)
  case (3 i xs)
  let ?k = "length (takeWhile (\<lambda>v. v = None) xs)"
  have "length (filter (\<lambda>v. v = None) xs) =
      length (filter (\<lambda>v. v = None) (replicate ?k None @ dropWhile (\<lambda>v. v = None) xs))"
    by (simp only: takeWhile_drop_None [symmetric])
  then have "length (filter (\<lambda>v. v = None) xs) =
      ?k + length (filter (\<lambda>v. v = None) (dropWhile (\<lambda>v. v = None) xs))" by simp
  then show ?case using "3.IH" [OF refl] by (simp add: Let_def)
qed simp_all

lemma loss_runs_bounds: "r \<in> set (loss_runs i xs) \<Longrightarrow>
   i \<le> fst r \<and> 0 < snd r \<and> fst r + snd r \<le> i + length xs"
proof (induction i xs rule: loss_runs.induct)
  case (3 i xs)
  let ?k = "length (takeWhile (\<lambda>v. v = None) xs)"
  have len: "?k + length (dropWhile (\<lambda>v. v = None) xs) = length xs"
    by (metis length_append takeWhile_dropWhile_id)
  show ?case
  proof (cases "r = (i, Suc ?k)")
    case True
    with len show ?thesis by simp
  next
    case False
    then have "r \<in> set (loss_runs (i + Suc ?k) (dropWhile (\<lambda>v. v = None) xs))"
      using "3.prems" by (simp add: Let_def)
    from "3.IH" [OF refl this] len show ?thesis by simp
  qed
qed fastforce+

lemma lost_at_append:
  "m \<in> lost_at (replicate n None @ ys) \<longleftrightarrow> m < n \<or> (n \<le> m \<and> m - n \<in> lost_at ys)"
  by (auto simp: lost_at_def nth_append)

lemma loss_runs_cover:
  "(\<exists>r \<in> set (loss_runs i xs). j \<in> run_set r) \<longleftrightarrow> i \<le> j \<and> j - i \<in> lost_at xs"
proof (induction i xs rule: loss_runs.induct)
  case (1 i)
  then show ?case by (simp add: lost_at_def)
next
  case (2 i v xs)
  have "Suc i \<le> j \<and> j - Suc i \<in> lost_at xs \<longleftrightarrow> i \<le> j \<and> j - i \<in> lost_at (Some v # xs)"
  proof (cases "j - i")
    case (Suc m)
    then have "j - Suc i = m" "i \<le> j" "Suc i \<le> j" by simp_all
    with Suc show ?thesis by (simp add: lost_at_def)
  qed (auto simp: lost_at_def)
  with 2 show ?case by simp
next
  case (3 i xs)
  let ?k = "length (takeWhile (\<lambda>v. v = None) xs)"
  let ?d = "dropWhile (\<lambda>v. v = None) xs"
  have xs: "None # xs = replicate (Suc ?k) None @ ?d"
    using takeWhile_drop_None [of xs] by simp
  have mem: "m \<in> lost_at (None # xs) \<longleftrightarrow> m < Suc ?k \<or> (Suc ?k \<le> m \<and> m - Suc ?k \<in> lost_at ?d)" for m
    unfolding xs by (rule lost_at_append)
  have "(\<exists>r \<in> set (loss_runs i (None # xs)). j \<in> run_set r) \<longleftrightarrow>
      (i \<le> j \<and> j < i + Suc ?k) \<or> (i + Suc ?k \<le> j \<and> j - (i + Suc ?k) \<in> lost_at ?d)"
    using "3.IH" [OF refl] by (simp add: Let_def run_set_def)
  also have "\<dots> \<longleftrightarrow> i \<le> j \<and> j - i \<in> lost_at (None # xs)"
    unfolding mem by (auto simp: diff_diff_left)
  finally show ?case .
qed

lemma loss_runs_maximal: "sorted_wrt (\<lambda>r r'. fst r + snd r < fst r') (loss_runs i xs)"
proof (induction i xs rule: loss_runs.induct)
  case (3 i xs)
  let ?k = "length (takeWhile (\<lambda>v. v = None) xs)"
  let ?d = "dropWhile (\<lambda>v. v = None) xs"
  have "i + Suc ?k < fst r" if "r \<in> set (loss_runs (i + Suc ?k) ?d)" for r
    using dropWhile_None_cases [of xs]
  proof
    assume "?d = []"
    with that show ?thesis by simp
  next
    assume "\<exists>v ys. ?d = Some v # ys"
    then obtain v ys where "?d = Some v # ys" by blast
    with that have "r \<in> set (loss_runs (Suc (i + Suc ?k)) ys)" by simp
    from loss_runs_bounds [OF this] show ?thesis by simp
  qed
  then show ?case using "3.IH" [OF refl] by (auto simp: Let_def)
qed simp_all

lemma loss_pattern_Some:
  assumes "compute_loss_pattern xs = Some p" "length xs < 2 ^ 32"
  shows "unat (lp_lost_count p) = card (lost_at xs)"
    and "(lp_classification p = ''no-loss'') = (lost_at xs = {})"
    and "(lp_classification p = ''bursty'') = (\<exists>j. {j, j + 1, j + 2} \<subseteq> lost_at xs)"
proof -
  let ?runs = "loss_runs 0 xs"
  define m where "m = (if map snd ?runs = [] then 0 else Max (set (map snd ?runs)))"
  have n: "(length xs < MIN_LOSS_PATTERN_PROBES) = False"
    using assms(1) by (auto simp: compute_loss_pattern_def)
  have p: "p = the (compute_loss_pattern xs)" by (simp add: assms(1))
  have cl: "lp_classification p = (if sum_list (map snd ?runs) = 0 then ''no-loss''
      else if 3 \<le> m then ''bursty''
      else if length (map snd ?runs) = 1 \<and> 2 \<le> m then ''single-burst'' else ''random-like'')"
    and lc: "lp_lost_count p = of_nat (sum_list (map snd ?runs))"
    by (simp_all only: p compute_loss_pattern_def Let_def n if_False option.sel loss_pattern.simps m_def)
  have sum: "sum_list (map snd ?runs) = card (lost_at xs)"
    by (simp only: loss_runs_sum length_filter_conv_card lost_at_def)
  have "card (lost_at xs) \<le> card {..<length xs}" by (rule card_mono) (auto simp: lost_at_def)
  then have "card (lost_at xs) < 2 ^ 32" using assms(2) by simp
  then show "unat (lp_lost_count p) = card (lost_at xs)"
    by (simp add: lc sum unsigned_of_nat take_bit_nat_eq_self)
  have fin: "finite (lost_at xs)" by (simp add: lost_at_def)
  show "(lp_classification p = ''no-loss'') = (lost_at xs = {})"
    using fin by (simp add: cl sum)
  have cov: "(\<exists>r \<in> set ?runs. j \<in> run_set r) \<longleftrightarrow> j \<in> lost_at xs" for j
    using loss_runs_cover [of 0 xs j] by simp
  have m_ge: "snd r \<le> m" if "r \<in> set ?runs" for r
    unfolding m_def using that by (auto intro!: Max_ge)
  have "(\<exists>r \<in> set ?runs. 3 \<le> snd r) \<longleftrightarrow> (\<exists>j. {j, j + 1, j + 2} \<subseteq> lost_at xs)"
  proof
    assume "\<exists>r \<in> set ?runs. 3 \<le> snd r"
    then obtain r where r: "r \<in> set ?runs" "3 \<le> snd r" by blast
    then have "fst r + k \<in> lost_at xs" if "k < 3" for k
      using cov [of "fst r + k"] that by (force simp: run_set_def)
    from this [of 0] this [of 1] this [of 2]
    show "\<exists>j. {j, j + 1, j + 2} \<subseteq> lost_at xs" by (intro exI [of _ "fst r"]) simp
  next
    assume "\<exists>j. {j, j + 1, j + 2} \<subseteq> lost_at xs"
    then obtain j where j: "j \<in> lost_at xs" "j + 1 \<in> lost_at xs" "j + 2 \<in> lost_at xs" by auto
    then obtain r0 r1 r2 where r: "r0 \<in> set ?runs" "j \<in> run_set r0" "r1 \<in> set ?runs"
        "j + 1 \<in> run_set r1" "r2 \<in> set ?runs" "j + 2 \<in> run_set r2"
      using cov by metis
    have same: "r = r'" if "r \<in> set ?runs" "r' \<in> set ?runs" "k \<in> run_set r" "k + 1 \<in> run_set r'" for r r' k
    proof -
      obtain a b where ab: "a < length ?runs" "?runs ! a = r" "b < length ?runs" "?runs ! b = r'"
        using \<open>r \<in> set ?runs\<close> \<open>r' \<in> set ?runs\<close> by (meson in_set_conv_nth)
      note w = loss_runs_maximal [of 0 xs, unfolded sorted_wrt_iff_nth_less]
      show ?thesis
      proof (rule linorder_cases [of a b])
        assume "a < b"
        with w ab have "fst r + snd r < fst r'" by blast
        with that(3,4) show ?thesis by (simp add: run_set_def)
      next
        assume "b < a"
        with w ab have "fst r' + snd r' < fst r" by blast
        with that(3,4) show ?thesis by (simp add: run_set_def)
      qed (use ab in simp)
    qed
    have "r0 = r1" using same [OF r(1) r(3) r(2) r(4)] .
    moreover have "r1 = r2" using same [of r1 r2 "j + 1"] r by (simp add: add.assoc)
    ultimately have "3 \<le> snd r0" using r by (auto simp: run_set_def)
    then show "\<exists>r \<in> set ?runs. 3 \<le> snd r" using r(1) by blast
  qed
  moreover have "3 \<le> m \<longleftrightarrow> (\<exists>r \<in> set ?runs. 3 \<le> snd r)"
  proof
    assume m3: "3 \<le> m"
    then have ne: "map snd ?runs \<noteq> []" by (auto simp: m_def)
    then have "m \<in> set (map snd ?runs)"
      unfolding m_def by (simp only: if_False) (rule Max_in, simp_all)
    then show "\<exists>r \<in> set ?runs. 3 \<le> snd r" using m3 by auto
  qed (use m_ge le_trans in blast)
  ultimately have three: "3 \<le> m \<longleftrightarrow> (\<exists>j. {j, j + 1, j + 2} \<subseteq> lost_at xs)" by simp
  have "sum_list (map snd ?runs) \<noteq> 0" if "3 \<le> m"
    using three that fin sum by (auto simp: card_eq_0_iff)
  then show "(lp_classification p = ''bursty'') = (\<exists>j. {j, j + 1, j + 2} \<subseteq> lost_at xs)"
    unfolding cl three [symmetric] by auto
qed

end
