(* ===== verification/Probe.thy ===== *)
theory Probe
  imports Text Stats
begin

text \<open>
  The vocabulary of a probe's outcome (\<open>crates/networker-tester/src/metrics.rs\<close>): the
  protocols and their names, the error categories, and the attempt record that every runner
  returns. \<open>RequestAttempt\<close> has one optional field for each kind of result; \<open>attempt\<close> holds the
  fields all runners set, and each runner's theory extends it by the one result field that
  runner can fill, the others being \<open>None\<close> in everything it returns. Identifiers and
  time stamps are natural numbers.
\<close>

section \<open>Protocols\<close>

datatype protocol =
    Tcp | Http1 | Http2 | Http3 | Udp | Download | Download1 | Download2
  | Download3 | Upload | Upload1 | Upload2 | Upload3 | WebDownload | WebUpload | UdpDownload
  | UdpUpload | Mthroughput | Rpm | Responsiveness | Stamp | Ping | Path | DualStack
  | WebSocket | Pmtud | Dns | Tls | TlsResume | Native | Curl | PageLoad
  | PageLoad2 | PageLoad3 | Browser | Browser1 | Browser2 | Browser3 | SdkProbe

definition protocol_name :: "protocol \<Rightarrow> string" where
  "protocol_name p = (case p of
     Tcp \<Rightarrow> ''tcp''
   | Http1 \<Rightarrow> ''http1''
   | Http2 \<Rightarrow> ''http2''
   | Http3 \<Rightarrow> ''http3''
   | Udp \<Rightarrow> ''udp''
   | Download \<Rightarrow> ''download''
   | Download1 \<Rightarrow> ''download1''
   | Download2 \<Rightarrow> ''download2''
   | Download3 \<Rightarrow> ''download3''
   | Upload \<Rightarrow> ''upload''
   | Upload1 \<Rightarrow> ''upload1''
   | Upload2 \<Rightarrow> ''upload2''
   | Upload3 \<Rightarrow> ''upload3''
   | WebDownload \<Rightarrow> ''webdownload''
   | WebUpload \<Rightarrow> ''webupload''
   | UdpDownload \<Rightarrow> ''udpdownload''
   | UdpUpload \<Rightarrow> ''udpupload''
   | Mthroughput \<Rightarrow> ''mthroughput''
   | Rpm \<Rightarrow> ''rpm''
   | Responsiveness \<Rightarrow> ''responsiveness''
   | Stamp \<Rightarrow> ''stamp''
   | Ping \<Rightarrow> ''ping''
   | Path \<Rightarrow> ''path''
   | DualStack \<Rightarrow> ''dualstack''
   | WebSocket \<Rightarrow> ''websocket''
   | Pmtud \<Rightarrow> ''pmtud''
   | Dns \<Rightarrow> ''dns''
   | Tls \<Rightarrow> ''tls''
   | TlsResume \<Rightarrow> ''tlsresume''
   | Native \<Rightarrow> ''native''
   | Curl \<Rightarrow> ''curl''
   | PageLoad \<Rightarrow> ''pageload''
   | PageLoad2 \<Rightarrow> ''pageload2''
   | PageLoad3 \<Rightarrow> ''pageload3''
   | Browser \<Rightarrow> ''browser''
   | Browser1 \<Rightarrow> ''browser1''
   | Browser2 \<Rightarrow> ''browser2''
   | Browser3 \<Rightarrow> ''browser3''
   | SdkProbe \<Rightarrow> ''sdkprobe'')"

text \<open>The match arms of \<open>Protocol::from_str\<close>, in order.\<close>

definition protocol_table :: "(string \<times> protocol) list" where
  "protocol_table =
    [(''tcp'', Tcp),
     (''http1'', Http1),
     (''http2'', Http2),
     (''http3'', Http3),
     (''udp'', Udp),
     (''download'', Download),
     (''download1'', Download1),
     (''download2'', Download2),
     (''download3'', Download3),
     (''upload'', Upload),
     (''upload1'', Upload1),
     (''upload2'', Upload2),
     (''upload3'', Upload3),
     (''webdownload'', WebDownload),
     (''webupload'', WebUpload),
     (''udpdownload'', UdpDownload),
     (''udpupload'', UdpUpload),
     (''mthroughput'', Mthroughput),
     (''rpm'', Rpm),
     (''responsiveness'', Responsiveness),
     (''stamp'', Stamp),
     (''ping'', Ping),
     (''path'', Path),
     (''dualstack'', DualStack),
     (''websocket'', WebSocket),
     (''pmtud'', Pmtud),
     (''dns'', Dns),
     (''tls'', Tls),
     (''tlsresume'', TlsResume),
     (''tls-resume'', TlsResume),
     (''native'', Native),
     (''curl'', Curl),
     (''pageload'', PageLoad),
     (''pageload2'', PageLoad2),
     (''pageload3'', PageLoad3),
     (''browser'', Browser),
     (''browser1'', Browser1),
     (''browser2'', Browser2),
     (''browser3'', Browser3),
     (''sdkprobe'', SdkProbe)]"

definition protocol_from_str :: "string \<Rightarrow> string + protocol" where
  "protocol_from_str s = (case map_of protocol_table (to_ascii_lowercase s) of
     Some p \<Rightarrow> Inr p
   | None \<Rightarrow> Inl (''Unknown protocol: '' @ to_ascii_lowercase s))"

section \<open>Errors and attempts\<close>

datatype error_category =
    DnsError | TcpError | TlsError | HttpError | UdpError | TimeoutError | ConfigError
  | UnsupportedError | OtherError

definition error_category_name :: "error_category \<Rightarrow> string" where
  "error_category_name c = (case c of
     DnsError \<Rightarrow> ''dns'' | TcpError \<Rightarrow> ''tcp'' | TlsError \<Rightarrow> ''tls'' | HttpError \<Rightarrow> ''http''
   | UdpError \<Rightarrow> ''udp'' | TimeoutError \<Rightarrow> ''timeout'' | ConfigError \<Rightarrow> ''config''
   | UnsupportedError \<Rightarrow> ''unsupported'' | OtherError \<Rightarrow> ''other'')"

record error_record =
  er_category :: error_category
  er_message :: string
  er_detail :: "string option"
  er_occurred_at :: nat

record attempt =
  at_attempt_id :: nat
  at_run_id :: nat
  at_protocol :: protocol
  at_sequence_num :: u32
  at_started_at :: nat
  at_finished_at :: "nat option"
  at_success :: bool
  at_error :: "error_record option"
  at_retry_count :: u32
  at_sample_index :: u32

text \<open>The fields a runner starts from: its identifiers and its clock readings.\<close>

record attempt_ids =
  ai_run_id :: nat
  ai_attempt_id :: nat
  ai_sequence_num :: u32
  ai_started_at :: nat
  ai_finished_at :: nat
  ai_error_at :: nat

definition error_of :: "attempt_ids \<Rightarrow> error_category \<Rightarrow> string \<Rightarrow> error_record" where
  "error_of ids c msg = \<lparr>er_category = c, er_message = msg, er_detail = None,
     er_occurred_at = ai_error_at ids\<rparr>"

definition attempt_new :: "attempt_ids \<Rightarrow> protocol \<Rightarrow> bool \<Rightarrow> error_record option \<Rightarrow> attempt" where
  "attempt_new ids p ok err = \<lparr>at_attempt_id = ai_attempt_id ids, at_run_id = ai_run_id ids,
     at_protocol = p, at_sequence_num = ai_sequence_num ids, at_started_at = ai_started_at ids,
     at_finished_at = Some (ai_finished_at ids), at_success = ok, at_error = err,
     at_retry_count = 0, at_sample_index = 0\<rparr>"

lemma attempt_new_sel [simp]:
  "at_success (attempt_new ids p ok err) = ok" "at_error (attempt_new ids p ok err) = err"
  "at_protocol (attempt_new ids p ok err) = p"
  by (simp_all add: attempt_new_def)

section \<open>Names\<close>

lemma protocol_name_lower: "to_ascii_lowercase (protocol_name p) = protocol_name p"
  by (cases p) (simp_all add: protocol_name_def to_ascii_lowercase_def lower_char_def
      is_ascii_upper_def code_def)

lemma protocol_from_name: "protocol_from_str (protocol_name p) = Inr p"
  unfolding protocol_from_str_def protocol_name_lower
  by (cases p) (simp_all add: protocol_name_def protocol_table_def)

end
