(* ===== verification/Stamp_Reflector.thy ===== *)
theory Stamp_Reflector
  imports Prelude
begin

text \<open>
  The STAMP session reflector (RFC 8762) of \<open>crates/networker-endpoint/src/stamp.rs\<close>: the
  reflected packet's layout, the per-sender sequence counters with their idle expiry, and one
  step of the reflector's loop. The sessions are a map from socket addresses. A datagram is
  what \<open>recv_from\<close> delivers (at most the 2048 bytes of the buffer) and the clock readings of
  one iteration are fields of \<open>rx_input\<close>; the wall clock is the time since the Unix epoch.

  The lemmas show that the reply is 44 bytes from which every field is read back, and that a
  sender whose packets are less than the expiry apart is answered with consecutive numbers
  from zero, whatever other senders do.
\<close>

definition STAMP_PACKET_LEN :: nat where "STAMP_PACKET_LEN = 44"
definition NTP_UNIX_OFFSET_SECS :: nat where "NTP_UNIX_OFFSET_SECS = 2208988800"
definition SESSION_IDLE_EXPIRY :: duration where "SESSION_IDLE_EXPIRY = from_secs 60"
definition ERROR_ESTIMATE :: bytes where "ERROR_ESTIMATE = [0, 1]"

type_synonym ntp = "u32 \<times> u32"

definition ntp_frac :: "u32 \<Rightarrow> u32" where
  "ntp_frac nanos = ucast (push_bit 32 (ucast nanos :: u64) div 1000000000)"

definition ntp_of :: "duration \<Rightarrow> ntp" where
  "ntp_of wall = (of_nat (as_secs wall + NTP_UNIX_OFFSET_SECS), ntp_frac (of_nat (wall mod 1000000000)))"

definition build_reflected_packet :: "bytes \<Rightarrow> u32 \<Rightarrow> ntp \<Rightarrow> ntp \<Rightarrow> bytes" where
  "build_reflected_packet request reflector_seq t2 t3 =
     (let out = replicate STAMP_PACKET_LEN 0;
          out = splice 0 (be32_bytes reflector_seq) out;
          out = splice 4 (be32_bytes (fst t3)) out;
          out = splice 8 (be32_bytes (snd t3)) out;
          out = splice 12 ERROR_ESTIMATE out;
          out = splice 16 (be32_bytes (fst t2)) out;
          out = splice 20 (be32_bytes (snd t2)) out;
          out = splice 24 (slice 0 4 request) out;
          out = splice 28 (slice 4 12 request) out;
          out = splice 36 (slice 12 14 request) out
      in out[40 := 255])"

section \<open>Sessions\<close>

record session =
  ss_next_seq :: u32
  ss_last_seen :: instant

type_synonym sessions = "socket_addr \<rightharpoonup> session"

definition sweep_idle_sessions :: "instant \<Rightarrow> sessions \<times> instant \<Rightarrow> sessions \<times> instant" where
  "sweep_idle_sessions now s =
     (let (sessions, last_sweep) = s
      in if SESSION_IDLE_EXPIRY < now - last_sweep
         then (\<lambda>a. case sessions a of
                 Some se \<Rightarrow> if now - ss_last_seen se < SESSION_IDLE_EXPIRY then Some se else None
               | None \<Rightarrow> None, now)
         else (sessions, last_sweep))"

section \<open>The loop\<close>

record reflector =
  rf_sessions :: sessions
  rf_last_sweep :: instant

definition reflector_new :: "instant \<Rightarrow> reflector" where
  "reflector_new now = \<lparr>rf_sessions = Map.empty, rf_last_sweep = now\<rparr>"

record rx_input =
  rx_data :: "bytes option"
  rx_from :: socket_addr
  rx_dst_ip :: "ip_addr option"
  rx_t2 :: duration
  rx_sweep :: instant
  rx_entry :: instant
  rx_seen :: instant
  rx_t3 :: duration

record reflected =
  re_packet :: bytes
  re_to :: socket_addr
  re_src_ip :: "ip_addr option"

text \<open>One iteration: \<open>rx_data = None\<close> is a receive error, after which the loop sleeps.\<close>

definition reflect_step :: "rx_input \<Rightarrow> reflector \<Rightarrow> reflected option \<times> reflector" where
  "reflect_step i rf = (case rx_data i of
     None \<Rightarrow> (None, rf)
   | Some pkt \<Rightarrow>
       (if length pkt < STAMP_PACKET_LEN then (None, rf)
        else
          let (sessions, last_sweep) = sweep_idle_sessions (rx_sweep i) (rf_sessions rf, rf_last_sweep rf);
              se = (case sessions (rx_from i) of
                      Some se \<Rightarrow> se | None \<Rightarrow> \<lparr>ss_next_seq = 0, ss_last_seen = rx_entry i\<rparr>);
              reflector_seq = ss_next_seq se;
              se = se\<lparr>ss_next_seq := ss_next_seq se + 1, ss_last_seen := rx_seen i\<rparr>
          in (Some \<lparr>re_packet = build_reflected_packet pkt reflector_seq (ntp_of (rx_t2 i)) (ntp_of (rx_t3 i)),
                    re_to = rx_from i, re_src_ip = rx_dst_ip i\<rparr>,
              \<lparr>rf_sessions = sessions(rx_from i \<mapsto> se), rf_last_sweep = last_sweep\<rparr>)))"

fun reflect_run :: "reflector \<Rightarrow> rx_input list \<Rightarrow> reflected list" where
  "reflect_run rf [] = []"
| "reflect_run rf (i # is) =
     (case reflect_step i rf of
        (Some r, rf') \<Rightarrow> r # reflect_run rf' is
      | (None, rf') \<Rightarrow> reflect_run rf' is)"

section \<open>The reflected packet\<close>

lemma length_reflected:
  assumes "STAMP_PACKET_LEN \<le> length pkt"
  shows "length (build_reflected_packet pkt s t2 t3) = STAMP_PACKET_LEN"
  using assms by (simp add: build_reflected_packet_def Let_def STAMP_PACKET_LEN_def ERROR_ESTIMATE_def)

lemma slice_update_above: "j \<le> i \<Longrightarrow> slice l j (xs[i := v]) = slice l j xs"
  by (cases "l \<le> i") (simp_all add: slice_def drop_update_swap)

text \<open>Every field is read back from where RFC 8762 puts it.\<close>

lemma reflected_fields:
  fixes s :: u32 and t2 t3 :: ntp
  assumes "STAMP_PACKET_LEN \<le> length pkt"
  defines "r \<equiv> build_reflected_packet pkt s t2 t3"
  shows "be32_of (slice 0 4 r) = s"
    and "be32_of (slice 4 8 r) = fst t3" "be32_of (slice 8 12 r) = snd t3"
    and "be32_of (slice 16 20 r) = fst t2" "be32_of (slice 20 24 r) = snd t2"
    and "slice 24 28 r = slice 0 4 pkt" "slice 28 36 r = slice 4 12 pkt" "slice 36 38 r = slice 12 14 pkt"
    and "slice 12 14 r = ERROR_ESTIMATE" "r ! 40 = 255"
proof -
  have len: "44 \<le> length pkt" using assms(1) by (simp add: STAMP_PACKET_LEN_def)
  have ls: "length (slice 0 4 pkt) = 4" "length (slice 4 12 pkt) = 8" "length (slice 12 14 pkt) = 2"
    using len by simp_all
  note simps = r_def build_reflected_packet_def Let_def STAMP_PACKET_LEN_def ERROR_ESTIMATE_def
    slice_update_above slice_splice_same slice_splice_other ls
  show "be32_of (slice 0 4 r) = s" using len by (simp add: simps)
  show "be32_of (slice 4 8 r) = fst t3" using len by (simp add: simps)
  show "be32_of (slice 8 12 r) = snd t3" using len by (simp add: simps)
  show "be32_of (slice 16 20 r) = fst t2" using len by (simp add: simps)
  show "be32_of (slice 20 24 r) = snd t2" using len by (simp add: simps)
  show "slice 24 28 r = slice 0 4 pkt" using len by (simp add: simps)
  show "slice 28 36 r = slice 4 12 pkt" using len by (simp add: simps)
  show "slice 36 38 r = slice 12 14 pkt" using len by (simp add: simps)
  show "slice 12 14 r = ERROR_ESTIMATE" using len by (simp add: simps)
  show "r ! 40 = 255" using len by (simp add: simps)
qed

section \<open>Sequence numbers\<close>

text \<open>The test packets of one sender that the loop accepts.\<close>

definition accepted :: "socket_addr \<Rightarrow> rx_input \<Rightarrow> bool" where
  "accepted a i \<longleftrightarrow> rx_from i = a \<and> (\<exists>pkt. rx_data i = Some pkt \<and> STAMP_PACKET_LEN \<le> length pkt)"

text \<open>Each packet arrives before the session left by the one before it expires.\<close>

fun paced :: "instant \<Rightarrow> rx_input list \<Rightarrow> bool" where
  "paced seen [] = True"
| "paced seen (i # is) \<longleftrightarrow> rx_sweep i < seen + SESSION_IDLE_EXPIRY \<and> paced (rx_seen i) is"

lemma sweep_keeps:
  assumes "fst s a = Some se" "now < ss_last_seen se + SESSION_IDLE_EXPIRY"
  shows "fst (sweep_idle_sessions now s) a = Some se"
  using assms by (auto simp: sweep_idle_sessions_def SESSION_IDLE_EXPIRY_def from_secs_def split: prod.splits)

lemma sweep_none: "fst s a = None \<Longrightarrow> fst (sweep_idle_sessions now s) a = None"
  by (auto simp: sweep_idle_sessions_def split: prod.splits)

lemma reflect_step_reply:
  assumes "accepted a i"
    and "rf_sessions rf a = Some se \<and> rx_sweep i < ss_last_seen se + SESSION_IDLE_EXPIRY \<and> n = ss_next_seq se
      \<or> rf_sessions rf a = None \<and> n = 0"
  shows "\<exists>r rf'. reflect_step i rf = (Some r, rf') \<and> re_to r = a \<and>
    be32_of (slice 0 4 (re_packet r)) = n \<and>
    rf_sessions rf' a = Some \<lparr>ss_next_seq = n + 1, ss_last_seen = rx_seen i\<rparr>"
proof -
  obtain pkt where pkt: "rx_data i = Some pkt" "STAMP_PACKET_LEN \<le> length pkt" "rx_from i = a"
    using assms(1) by (auto simp: accepted_def)
  obtain ss ls where sw: "sweep_idle_sessions (rx_sweep i) (rf_sessions rf, rf_last_sweep rf) = (ss, ls)"
    by fastforce
  have "ss a = rf_sessions rf a"
    using assms(2) sweep_keeps [of "(rf_sessions rf, rf_last_sweep rf)" a se "rx_sweep i"]
      sweep_none [of "(rf_sessions rf, rf_last_sweep rf)" a "rx_sweep i"] by (auto simp: sw)
  then have "ss_next_seq (case ss a of Some se \<Rightarrow> se
      | None \<Rightarrow> \<lparr>ss_next_seq = 0, ss_last_seen = rx_entry i\<rparr>) = n"
    using assms(2) by auto
  then show ?thesis using pkt
    by (auto simp: reflect_step_def sw Let_def reflected_fields(1) split: option.splits)
qed

lemma reflect_step_other:
  assumes "\<not> accepted a i"
  shows "(\<forall>r. fst (reflect_step i rf) = Some r \<longrightarrow> re_to r \<noteq> a)"
    and "rf_sessions (snd (reflect_step i rf)) a = rf_sessions rf a \<or>
      rf_sessions (snd (reflect_step i rf)) a =
        fst (sweep_idle_sessions (rx_sweep i) (rf_sessions rf, rf_last_sweep rf)) a"
  using assms by (auto simp: reflect_step_def accepted_def Let_def split: option.splits prod.splits)

abbreviation replies_to :: "socket_addr \<Rightarrow> reflected list \<Rightarrow> reflected list" where
  "replies_to a rs \<equiv> filter (\<lambda>r. re_to r = a) rs"

definition seq_of :: "reflected \<Rightarrow> u32" where
  "seq_of r = be32_of (slice 0 4 (re_packet r))"

lemma reflect_run_seq:
  assumes "sorted (map rx_sweep is)"
    and "rf_sessions rf a = Some se \<and> ss_next_seq se = of_nat n \<and>
        paced (ss_last_seen se) (filter (accepted a) is)
      \<or> rf_sessions rf a = None \<and> n = 0 \<and>
        (case filter (accepted a) is of [] \<Rightarrow> True | i # js \<Rightarrow> paced (rx_seen i) js)"
  shows "map seq_of (replies_to a (reflect_run rf is)) =
    map of_nat [n..<n + length (filter (accepted a) is)]"
  using assms
proof (induction "is" arbitrary: rf se n)
  case (Cons i js)
  obtain r rf' where st: "reflect_step i rf = (r, rf')" by fastforce
  show ?case
  proof (cases "accepted a i")
    case True
    have "rf_sessions rf a = Some se \<and> rx_sweep i < ss_last_seen se + SESSION_IDLE_EXPIRY \<and>
        (of_nat n :: u32) = ss_next_seq se \<or> rf_sessions rf a = None \<and> (of_nat n :: u32) = 0"
      using Cons.prems(2) True by auto
    from reflect_step_reply [OF True this] obtain q where q: "r = Some q" "re_to q = a"
        "seq_of q = of_nat n" "rf_sessions rf' a = Some \<lparr>ss_next_seq = of_nat n + 1, ss_last_seen = rx_seen i\<rparr>"
      by (auto simp: st seq_of_def)
    have "paced (rx_seen i) (filter (accepted a) js)" using Cons.prems(2) True by auto
    then have IH: "map seq_of (replies_to a (reflect_run rf' js)) =
        map of_nat [Suc n..<Suc n + length (filter (accepted a) js)]"
      using Cons.IH [of rf' "\<lparr>ss_next_seq = of_nat n + 1, ss_last_seen = rx_seen i\<rparr>" "Suc n"]
        Cons.prems(1) q(4) by (simp add: add.commute)
    have "[n..<n + Suc (length (filter (accepted a) js))] =
        n # [Suc n..<Suc n + length (filter (accepted a) js)]"
      using upt_conv_Cons [of n "n + Suc (length (filter (accepted a) js))"] by simp
    then show ?thesis using True q IH by (simp add: st)
  next
    case False
    note other = reflect_step_other [OF False, of rf, unfolded st, simplified]
    have same: "map seq_of (replies_to a (reflect_run rf (i # js))) =
        map seq_of (replies_to a (reflect_run rf' js))"
      using other(1) by (simp add: st split: option.splits)
    have filt: "filter (accepted a) (i # js) = filter (accepted a) js" using False by simp
    show ?thesis
    proof (cases "filter (accepted a) js")
      case Nil
      have "replies_to a (reflect_run rf js) = []" if "filter (accepted a) js = []" for rf js
        using that
      proof (induction js arbitrary: rf)
        case (Cons j js)
        then show ?case using reflect_step_other(1) [of a j rf]
          by (auto split: prod.splits option.splits if_splits)
      qed simp
      from this [OF Nil, of rf'] show ?thesis unfolding same filt Nil by simp
    next
      case (Cons k ks)
      then have k: "k \<in> set js" by (metis filter_is_subset list.set_intros(1) subsetD)
      then have le: "rx_sweep i \<le> rx_sweep k" using Cons.prems(1) by simp
      have "rf_sessions rf' a = Some se \<and> ss_next_seq se = of_nat n \<and>
          paced (ss_last_seen se) (filter (accepted a) js)
        \<or> rf_sessions rf' a = None \<and> n = 0 \<and>
          (case filter (accepted a) js of [] \<Rightarrow> True | i # js \<Rightarrow> paced (rx_seen i) js)"
        using Cons.prems(2)
      proof (elim disjE)
        assume se: "rf_sessions rf a = Some se \<and> ss_next_seq se = of_nat n \<and>
          paced (ss_last_seen se) (filter (accepted a) (i # js))"
        then have "rx_sweep i < ss_last_seen se + SESSION_IDLE_EXPIRY" using le Cons filt by auto
        with se have "rf_sessions rf' a = Some se"
          using other(2) sweep_keeps [of "(rf_sessions rf, rf_last_sweep rf)" a se "rx_sweep i"] by auto
        with se filt show ?thesis by simp
      next
        assume none: "rf_sessions rf a = None \<and> n = 0 \<and>
          (case filter (accepted a) (i # js) of [] \<Rightarrow> True | i # js \<Rightarrow> paced (rx_seen i) js)"
        then have "rf_sessions rf' a = None"
          using other(2) sweep_none [of "(rf_sessions rf, rf_last_sweep rf)" a "rx_sweep i"] by auto
        with none filt show ?thesis by simp
      qed
      then show ?thesis unfolding same filt using Cons.IH Cons.prems(1) by simp
    qed
  qed
qed simp

end
