(* ===== verification/Stamp_Sender.thy ===== *)
theory Stamp_Sender
  imports Probe Stamp_Reflector
begin

text \<open>
  The STAMP session sender (\<open>crates/networker-tester/src/runner/stamp.rs\<close>): the probe train,
  the crediting of replies to the probes that sent them, and the derived readings. The train
  is a function of what the socket and the clocks did: for each probe \<open>train_input\<close> says
  whether the send succeeded and what the receive loop saw, an event being what the timed
  receive returned at the instant the loop read at its head. Name resolution is its result.
\<close>

definition DEFAULT_STAMP_PORT :: u16 where "DEFAULT_STAMP_PORT = 9997"
definition DEFAULT_STAMP_PROBES :: u32 where "DEFAULT_STAMP_PROBES = 50"
definition DEFAULT_STAMP_INTERVAL_MS :: nat where "DEFAULT_STAMP_INTERVAL_MS = 50"
definition MIN_IPDV_P95_SAMPLES :: nat where "MIN_IPDV_P95_SAMPLES = 20"

record stamp_config =
  sc_target_host :: string
  sc_target_port :: u16
  sc_probe_count :: u32
  sc_interval_ms :: u64
  sc_timeout_ms :: u64

definition stamp_config_default :: stamp_config where
  "stamp_config_default = \<lparr>sc_target_host = ''127.0.0.1'', sc_target_port = DEFAULT_STAMP_PORT,
     sc_probe_count = DEFAULT_STAMP_PROBES, sc_interval_ms = of_nat DEFAULT_STAMP_INTERVAL_MS,
     sc_timeout_ms = 5000\<rparr>"

definition ntp_to_secs :: "ntp \<Rightarrow> f64" where
  "ntp_to_secs t = f64_add (fl (real (unat (fst t)))) (f64_div (fl (real (unat (snd t)))) 4294967296)"

definition read_ntp :: "bytes \<Rightarrow> nat \<Rightarrow> f64" where
  "read_ntp buf off = ntp_to_secs (be32_of (slice off (off + 4) buf), be32_of (slice (off + 4) (off + 8) buf))"

record reply =
  rp_rtt_corrected_ms :: f64
  rp_processing_ms :: f64
  rp_fwd_raw_ms :: f64
  rp_rev_raw_ms :: f64
  rp_reflector_seq :: u32

section \<open>Receiving\<close>

datatype recv_event = Datagram bytes instant ntp | RecvFailed | TimedOut

type_synonym recv_input = "instant \<times> recv_event"

text \<open>The readings of one reply to the probe sent at \<open>sent\<close> with wall clock \<open>t1\<close>.\<close>

definition make_reply :: "bytes \<Rightarrow> instant \<Rightarrow> ntp \<Rightarrow> instant \<Rightarrow> f64 \<Rightarrow> reply" where
  "make_reply pkt t4_mono t4_ntp sent t1 =
     (let t4_wall = ntp_to_secs t4_ntp;
          t3 = read_ntp pkt 4;
          t2 = read_ntp pkt 16;
          rtt_mono_ms = f64_mul (as_secs_f64 (t4_mono - sent)) 1000;
          processing_ms = max (f64_mul (f64_sub t3 t2) 1000) 0
      in \<lparr>rp_rtt_corrected_ms = max (f64_sub rtt_mono_ms processing_ms) 0,
          rp_processing_ms = processing_ms,
          rp_fwd_raw_ms = f64_mul (f64_sub t2 t1) 1000,
          rp_rev_raw_ms = f64_mul (f64_sub t4_wall t3) 1000,
          rp_reflector_seq = be32_of (slice 0 4 pkt)\<rparr>)"

definition sender_seq_of :: "bytes \<Rightarrow> nat" where
  "sender_seq_of pkt = unat (be32_of (slice 24 28 pkt))"

definition credit ::
  "bytes \<Rightarrow> instant \<Rightarrow> ntp \<Rightarrow> instant option list \<Rightarrow> f64 option list \<Rightarrow> reply option list \<Rightarrow>
   reply option list" where
  "credit pkt t4_mono t4_ntp send_mono send_t1 replies =
     (let sender_seq = sender_seq_of pkt
      in if length replies \<le> sender_seq then replies
         else case (send_mono ! sender_seq, send_t1 ! sender_seq, replies ! sender_seq) of
             (Some sent, Some t1, None) \<Rightarrow>
               replies[sender_seq := Some (make_reply pkt t4_mono t4_ntp sent t1)]
           | _ \<Rightarrow> replies)"

fun recv_replies ::
  "instant \<Rightarrow> instant option list \<Rightarrow> f64 option list \<Rightarrow> recv_input list \<Rightarrow> reply option list \<Rightarrow>
   reply option list" where
  "recv_replies deadline send_mono send_t1 [] replies = replies"
| "recv_replies deadline send_mono send_t1 ((now, ev) # evs) replies =
     (if (\<forall>r \<in> set replies. r \<noteq> None) then replies
      else if deadline \<le> now then replies
      else case ev of
        Datagram pkt t4_mono t4_ntp \<Rightarrow>
          (if STAMP_PACKET_LEN \<le> length pkt
           then recv_replies deadline send_mono send_t1 evs
                  (credit pkt t4_mono t4_ntp send_mono send_t1 replies)
           else recv_replies deadline send_mono send_t1 evs replies)
      | RecvFailed \<Rightarrow> replies
      | TimedOut \<Rightarrow> replies)"

section \<open>The train\<close>

record train_input =
  ti_ntp :: ntp
  ti_sent_at :: instant
  ti_send_ok :: bool
  ti_events :: "recv_input list"

definition sender_packet :: "nat \<Rightarrow> ntp \<Rightarrow> bytes" where
  "sender_packet n t =
     (let buf = replicate STAMP_PACKET_LEN 0;
          buf = splice 0 (be32_bytes (of_nat n)) buf;
          buf = splice 4 (be32_bytes (fst t)) buf;
          buf = splice 8 (be32_bytes (snd t)) buf
      in splice 12 [0, 1] buf)"

record train =
  tr_send_mono :: "instant option list"
  tr_send_t1 :: "f64 option list"
  tr_replies :: "reply option list"

definition send_probe :: "duration \<Rightarrow> nat \<Rightarrow> train_input \<Rightarrow> train \<Rightarrow> train" where
  "send_probe interval n i t =
     (let t = (if ti_send_ok i
               then t\<lparr>tr_send_mono := (tr_send_mono t)[n := Some (ti_sent_at i)],
                      tr_send_t1 := (tr_send_t1 t)[n := Some (ntp_to_secs (ti_ntp i))]\<rparr>
               else t)
      in t\<lparr>tr_replies := recv_replies (ti_sent_at i + interval) (tr_send_mono t) (tr_send_t1 t)
             (ti_events i) (tr_replies t)\<rparr>)"

definition train_count :: "stamp_config \<Rightarrow> nat" where
  "train_count cfg = max (unat (sc_probe_count cfg)) 1"

definition send_all :: "stamp_config \<Rightarrow> (nat \<Rightarrow> train_input) \<Rightarrow> train" where
  "send_all cfg inputs =
     (let count = train_count cfg;
          interval = from_millis (max (unat (sc_interval_ms cfg)) 1)
      in foldl (\<lambda>t n. send_probe interval n (inputs n) t)
           \<lparr>tr_send_mono = replicate count None, tr_send_t1 = replicate count None,
            tr_replies = replicate count None\<rparr> [0..<count])"

definition probe_train ::
  "stamp_config \<Rightarrow> string + unit \<Rightarrow> (nat \<Rightarrow> train_input) \<Rightarrow> recv_input list \<Rightarrow>
   string + reply option list" where
  "probe_train cfg conn inputs tail = (case conn of
     Inl msg \<Rightarrow> Inl msg
   | Inr _ \<Rightarrow>
       (let t = send_all cfg inputs;
            tmax = from_millis (max (unat (sc_timeout_ms cfg)) 1);
            sends = received_of (tr_send_mono t)
        in Inr (if (\<exists>r \<in> set (tr_replies t). r = None) \<and> sends \<noteq> []
                then recv_replies (Max (set sends) + tmax) (tr_send_mono t) (tr_send_t1 t) tail (tr_replies t)
                else tr_replies t)))"

section \<open>The result\<close>

definition ipdv_stats :: "f64 list \<Rightarrow> f64 option \<times> f64 option" where
  "ipdv_stats readings =
     (if length readings < 2 then (None, None)
      else let deltas = map abs (diffs readings);
               mean = f64_div (f64_sum deltas) (fl (real (length deltas)));
               p95 = (if MIN_IPDV_P95_SAMPLES \<le> length deltas
                 then let deltas = sort deltas;
                          idx = nat \<lceil>f64_mul (fl (real (length deltas))) (fl (95 / 100))\<rceil> - 1
                      in Some (deltas ! min idx (length deltas - 1))
                 else None)
           in (Some mean, p95))"

definition mean_of :: "f64 list \<Rightarrow> f64 option" where
  "mean_of v = (if v \<noteq> [] then Some (f64_div (f64_sum v) (fl (real (length v)))) else None)"

record stamp_result =
  sr_remote_addr :: socket_addr
  sr_probes_sent :: u32
  sr_replies_received :: u32
  sr_loss_percent :: f64
  sr_loss_sent_percent :: "f64 option"
  sr_loss_return_percent :: "f64 option"
  sr_rtt_min_ms :: f64
  sr_rtt_avg_ms :: f64
  sr_rtt_p95_ms :: f64
  sr_jitter_ms :: f64
  sr_near_ipdv_mean_ms :: "f64 option"
  sr_near_ipdv_p95_ms :: "f64 option"
  sr_far_ipdv_mean_ms :: "f64 option"
  sr_far_ipdv_p95_ms :: "f64 option"
  sr_reflector_processing_avg_us :: "f64 option"
  sr_reflector_seq_max :: "u32 option"
  sr_near_owd_raw_avg_ms :: "f64 option"
  sr_far_owd_raw_avg_ms :: "f64 option"
  sr_owd_forward_est_ms :: "f64 option"
  sr_owd_return_est_ms :: "f64 option"
  sr_owd_uncertainty_ms :: "f64 option"
  sr_probe_rtts_ms :: "f64 option list"
  sr_interval_ms :: u64
  sr_started_at :: nat

record stamp_attempt = attempt +
  at_stamp :: "stamp_result option"

definition stamp_attempt_of :: "attempt \<Rightarrow> stamp_result option \<Rightarrow> stamp_attempt" where
  "stamp_attempt_of a r = attempt.extend a \<lparr>at_stamp = r\<rparr>"

definition stamp_failed :: "attempt_ids \<Rightarrow> string \<Rightarrow> stamp_attempt" where
  "stamp_failed ids msg =
     stamp_attempt_of (attempt_new ids Stamp False (Some (error_of ids UdpError msg))) None"

text \<open>The losses of the two directions: probes that reached the reflector, lost before and after.\<close>

definition directional_loss :: "u32 \<Rightarrow> u32 \<Rightarrow> u32 \<Rightarrow> u32 \<times> u32 \<times> u32" where
  "directional_loss probes_sent replies_received max_seq =
     (let reached = ucast (min (ucast max_seq + 1 :: u64) (ucast probes_sent)) :: u32
      in (reached, sat_sub probes_sent reached, sat_sub reached replies_received))"

definition percent_of :: "u32 \<Rightarrow> u32 \<Rightarrow> f64" where
  "percent_of a b = f64_mul (f64_div (fl (real (unat a))) (fl (real (unat b)))) 100"

definition stamp_result_of ::
  "stamp_config \<Rightarrow> socket_addr \<Rightarrow> nat \<Rightarrow> reply option list \<Rightarrow> stamp_result" where
  "stamp_result_of cfg target started_at replies =
     (let probes_sent = sc_probe_count cfg;
          received = received_of replies;
          replies_received = of_nat (length received) :: u32;
          probe_rtts_ms = map (map_option rp_rtt_corrected_ms) replies;
          rtts = aggregate_udp_rtts probe_rtts_ms;
          max_reflector_seq = (if received = [] then None
            else Some (Max (set (map rp_reflector_seq received))));
          (loss_sent, loss_return) = (case max_reflector_seq of
             Some m \<Rightarrow>
               (case directional_loss probes_sent replies_received m of
                  (reached, fwd_lost, rev_lost) \<Rightarrow>
                    (Some (percent_of fwd_lost probes_sent), Some (percent_of rev_lost (max reached 1))))
           | None \<Rightarrow> (None, None));
          fwd_readings = map rp_fwd_raw_ms received;
          rev_readings = map rp_rev_raw_ms received;
          (near_mean, near_p95) = ipdv_stats fwd_readings;
          (far_mean, far_p95) = ipdv_stats rev_readings;
          processing = map rp_processing_ms received
      in \<lparr>sr_remote_addr = target, sr_probes_sent = probes_sent,
          sr_replies_received = replies_received, sr_loss_percent = rtt_loss_percent rtts,
          sr_loss_sent_percent = loss_sent, sr_loss_return_percent = loss_return,
          sr_rtt_min_ms = rtt_min rtts, sr_rtt_avg_ms = rtt_avg rtts, sr_rtt_p95_ms = rtt_p95 rtts,
          sr_jitter_ms = rtt_jitter rtts,
          sr_near_ipdv_mean_ms = near_mean, sr_near_ipdv_p95_ms = near_p95,
          sr_far_ipdv_mean_ms = far_mean, sr_far_ipdv_p95_ms = far_p95,
          sr_reflector_processing_avg_us = map_option (\<lambda>ms. f64_mul ms 1000) (mean_of processing),
          sr_reflector_seq_max = max_reflector_seq,
          sr_near_owd_raw_avg_ms = mean_of fwd_readings, sr_far_owd_raw_avg_ms = mean_of rev_readings,
          sr_owd_forward_est_ms = None, sr_owd_return_est_ms = None, sr_owd_uncertainty_ms = None,
          sr_probe_rtts_ms = probe_rtts_ms, sr_interval_ms = sc_interval_ms cfg,
          sr_started_at = started_at\<rparr>)"

definition all_lost_message :: "stamp_config \<Rightarrow> string" where
  "all_lost_message cfg = ''All '' @ decimal (unat (sc_probe_count cfg)) @
     '' STAMP probes lost (is the endpoint's Session-Reflector on '' @ sc_target_host cfg @ '':'' @
     decimal (unat (sc_target_port cfg)) @ '' reachable? It listens on UDP port 9997 by default)''"

definition run_stamp_probe ::
  "stamp_config \<Rightarrow> attempt_ids \<Rightarrow> string + socket_addr \<Rightarrow> string + unit \<Rightarrow> (nat \<Rightarrow> train_input) \<Rightarrow>
   recv_input list \<Rightarrow> stamp_attempt" where
  "run_stamp_probe cfg ids resolved conn inputs tail = (case resolved of
     Inl msg \<Rightarrow> stamp_failed ids msg
   | Inr target \<Rightarrow>
       (case probe_train cfg conn inputs tail of
          Inl msg \<Rightarrow> stamp_failed ids msg
        | Inr replies \<Rightarrow>
            (if (of_nat (length (received_of replies)) :: u32) = 0
             then stamp_failed ids (all_lost_message cfg)
             else stamp_attempt_of (attempt_new ids Stamp True None)
                    (Some (stamp_result_of cfg target (ai_started_at ids) replies)))))"

section \<open>Crediting\<close>

text \<open>A credited reading comes from a packet that names the probe, which was sent.\<close>

definition credited :: "instant option list \<Rightarrow> f64 option list \<Rightarrow> nat \<Rightarrow> reply \<Rightarrow> bool" where
  "credited send_mono send_t1 n r \<longleftrightarrow> (\<exists>pkt t4 t4n sent t1.
     sender_seq_of pkt = n \<and> STAMP_PACKET_LEN \<le> length pkt \<and>
     send_mono ! n = Some sent \<and> send_t1 ! n = Some t1 \<and> r = make_reply pkt t4 t4n sent t1)"

definition replies_ok :: "instant option list \<Rightarrow> f64 option list \<Rightarrow> reply option list \<Rightarrow> bool" where
  "replies_ok send_mono send_t1 replies \<longleftrightarrow>
     (\<forall>n r. n < length replies \<longrightarrow> replies ! n = Some r \<longrightarrow> credited send_mono send_t1 n r)"

lemma credit_cases:
  "credit pkt t4 t4n sm st1 replies = replies \<or>
   (\<exists>sent t1. sender_seq_of pkt < length replies \<and> sm ! sender_seq_of pkt = Some sent \<and>
      st1 ! sender_seq_of pkt = Some t1 \<and> replies ! sender_seq_of pkt = None \<and>
      credit pkt t4 t4n sm st1 replies = replies[sender_seq_of pkt := Some (make_reply pkt t4 t4n sent t1)])"
  by (auto simp: credit_def Let_def split: option.splits)

lemma length_credit [simp]: "length (credit pkt t4 t4n sm st1 replies) = length replies"
  using credit_cases [of pkt t4 t4n sm st1 replies] by auto

lemma credit_ok:
  assumes "STAMP_PACKET_LEN \<le> length pkt" "replies_ok sm st1 replies"
  shows "replies_ok sm st1 (credit pkt t4 t4n sm st1 replies)"
proof -
  let ?k = "sender_seq_of pkt"
  have "credited sm st1 n r" if new: "sm ! ?k = Some sent" "st1 ! ?k = Some t1"
      "n < length replies" "replies[?k := Some (make_reply pkt t4 t4n sent t1)] ! n = Some r" for sent t1 n r
  proof (cases "n = ?k")
    case True
    with new have "r = make_reply pkt t4 t4n sent t1" by simp
    with True new assms(1) show ?thesis unfolding credited_def by blast
  next
    case False
    with new assms(2) show ?thesis by (simp add: replies_ok_def)
  qed
  then show ?thesis using credit_cases [of pkt t4 t4n sm st1 replies] assms(2)
    unfolding replies_ok_def by (metis length_list_update)
qed

lemma credit_keeps: "n < length replies \<Longrightarrow> replies ! n = Some r \<Longrightarrow>
   credit pkt t4 t4n sm st1 replies ! n = Some r"
  using credit_cases [of pkt t4 t4n sm st1 replies] by (auto simp: nth_list_update)

lemma length_recv_replies [simp]: "length (recv_replies d sm st1 evs replies) = length replies"
  by (induction d sm st1 evs replies rule: recv_replies.induct) (auto split: recv_event.splits)

lemma recv_replies_ok:
  "replies_ok sm st1 replies \<Longrightarrow> replies_ok sm st1 (recv_replies d sm st1 evs replies)"
  by (induction d sm st1 evs replies rule: recv_replies.induct)
    (auto simp: credit_ok split: recv_event.splits)

lemma recv_replies_keeps: "n < length replies \<Longrightarrow> replies ! n = Some r \<Longrightarrow>
   recv_replies d sm st1 evs replies ! n = Some r"
  by (induction d sm st1 evs replies rule: recv_replies.induct)
    (auto simp: credit_keeps split: recv_event.splits)

text \<open>The train before its \<open>n\<close>th probe: nothing is sent or credited from \<open>n\<close> on.\<close>

definition train_inv :: "nat \<Rightarrow> nat \<Rightarrow> train \<Rightarrow> bool" where
  "train_inv count n t \<longleftrightarrow> length (tr_send_mono t) = count \<and> length (tr_send_t1 t) = count \<and>
     length (tr_replies t) = count \<and> replies_ok (tr_send_mono t) (tr_send_t1 t) (tr_replies t) \<and>
     (\<forall>m < count. n \<le> m \<longrightarrow> tr_send_mono t ! m = None)"

lemma send_probe_inv:
  assumes "train_inv count n t" "n < count"
  shows "train_inv count (Suc n) (send_probe interval n i t)"
proof -
  have inv: "length (tr_send_mono t) = count" "length (tr_send_t1 t) = count"
      "length (tr_replies t) = count" "replies_ok (tr_send_mono t) (tr_send_t1 t) (tr_replies t)"
      "\<And>m. m < count \<Longrightarrow> n \<le> m \<Longrightarrow> tr_send_mono t ! m = None"
    using assms(1) by (simp_all add: train_inv_def)
  have "tr_replies t ! n = None"
  proof (cases "tr_replies t ! n")
    case (Some r)
    then show ?thesis using inv(3,4) inv(5) [OF assms(2)] assms(2)
      by (auto simp: replies_ok_def credited_def)
  qed
  then have ok: "replies_ok ((tr_send_mono t)[n := x]) ((tr_send_t1 t)[n := y]) (tr_replies t)" for x y
  proof -
    have "credited ((tr_send_mono t)[n := x]) ((tr_send_t1 t)[n := y]) m r"
      if "m < length (tr_replies t)" "tr_replies t ! m = Some r" for m r
    proof -
      have "m \<noteq> n" using that(2) \<open>tr_replies t ! n = None\<close> by auto
      then show ?thesis using inv(4) that unfolding replies_ok_def credited_def by simp
    qed
    then show ?thesis by (simp add: replies_ok_def)
  qed
  show ?thesis
    using inv ok by (auto simp: train_inv_def send_probe_def Let_def recv_replies_ok nth_list_update)
qed

lemma send_all_inv: "train_inv (train_count cfg) (train_count cfg) (send_all cfg inputs)"
proof -
  let ?c = "train_count cfg"
  let ?int = "from_millis (max (unat (sc_interval_ms cfg)) 1)"
  let ?t0 = "\<lparr>tr_send_mono = replicate ?c None, tr_send_t1 = replicate ?c None,
    tr_replies = replicate ?c None\<rparr>"
  have "n \<le> ?c \<Longrightarrow> train_inv ?c n (foldl (\<lambda>t n. send_probe ?int n (inputs n) t) ?t0 [0..<n])" for n
  proof (induction n)
    case 0
    show ?case by (simp add: train_inv_def replies_ok_def)
  next
    case (Suc n)
    then show ?case by (simp add: send_probe_inv)
  qed
  from this [of ?c] show ?thesis by (simp add: send_all_def Let_def)
qed

lemma probe_train_ok:
  assumes "probe_train cfg conn inputs tail = Inr replies"
  defines "t \<equiv> send_all cfg inputs"
  shows "length replies = train_count cfg" "replies_ok (tr_send_mono t) (tr_send_t1 t) replies"
proof -
  have inv: "length (tr_replies t) = train_count cfg"
      "replies_ok (tr_send_mono t) (tr_send_t1 t) (tr_replies t)"
    using send_all_inv [of cfg inputs] by (simp_all add: train_inv_def t_def)
  then show "length replies = train_count cfg" "replies_ok (tr_send_mono t) (tr_send_t1 t) replies"
    using assms(1) by (auto simp: probe_train_def Let_def recv_replies_ok t_def
        split: sum.splits if_splits)
qed

section \<open>Packets end to end\<close>

lemma length_sender_packet: "length (sender_packet n t) = STAMP_PACKET_LEN"
  by (simp add: sender_packet_def STAMP_PACKET_LEN_def Let_def)

lemma sender_packet_seq: "slice 0 4 (sender_packet n t) = be32_bytes (of_nat n)"
  by (simp add: sender_packet_def STAMP_PACKET_LEN_def Let_def slice_splice_same slice_splice_other)

lemma reflected_sender_seq:
  assumes "n < 2 ^ 32"
  shows "sender_seq_of (build_reflected_packet (sender_packet n t) s t2 t3) = n"
  using assms by (simp add: sender_seq_of_def reflected_fields(6) length_sender_packet
      sender_packet_seq unsigned_of_nat take_bit_nat_eq_self)

lemma read_reflected:
  assumes "STAMP_PACKET_LEN \<le> length pkt"
  shows "read_ntp (build_reflected_packet pkt s t2 t3) 4 = ntp_to_secs t3"
    and "read_ntp (build_reflected_packet pkt s t2 t3) 16 = ntp_to_secs t2"
  using reflected_fields [OF assms, of s t2 t3] by (simp_all add: read_ntp_def)

section \<open>Losses\<close>

lemma unat_u32_lt: "unat (w :: u32) < 2 ^ 32"
  using unsigned_less [of w, where ?'a = nat] by simp

lemma directional_loss_reached:
  assumes "directional_loss sent got m = (reached, fl0, rl0)"
  shows "unat reached = min (unat m + 1) (unat sent)"
    and "unat fl0 = unat sent - unat reached" and "unat rl0 = unat reached - unat got"
proof -
  have m: "unat (ucast m + 1 :: u64) = unat m + 1"
    using unat_u32_lt [of m] by (simp add: unat_word_ariths unsigned_ucast_eq take_bit_nat_eq_self)
  have s: "unat (ucast sent :: u64) = unat sent"
    using unat_u32_lt [of sent] by (simp add: unsigned_ucast_eq take_bit_nat_eq_self)
  have "unat (min (ucast m + 1 :: u64) (ucast sent)) = min (unat m + 1) (unat sent)"
    using m s by (simp add: min_def word_le_nat_alt)
  moreover have "unat (ucast (x :: u64) :: u32) = unat x" if "unat x < 2 ^ 32" for x
    using that by (simp add: unsigned_ucast_eq take_bit_nat_eq_self)
  ultimately have r: "unat (ucast (min (ucast m + 1 :: u64) (ucast sent)) :: u32)
      = min (unat m + 1) (unat sent)"
    using unat_u32_lt [of sent] by simp
  show "unat reached = min (unat m + 1) (unat sent)" "unat fl0 = unat sent - unat reached"
    "unat rl0 = unat reached - unat got"
    using assms r by (auto simp: directional_loss_def Let_def unat_sat_sub)
qed

text \<open>Distinct reflector numbers are at most as many as the greatest of them and one.\<close>

lemma distinct_le_Max:
  assumes "distinct (ws :: u32 list)" "ws \<noteq> []"
  shows "length ws \<le> unat (Max (set ws)) + 1"
proof -
  let ?m = "unat (Max (set ws))"
  have "unat ` set ws \<subseteq> {..?m}"
    using Max_ge [of "set ws"] by (auto simp: word_le_nat_alt)
  then have "card (unat ` set ws) \<le> card {..?m}" by (intro card_mono) simp_all
  moreover have "card (unat ` set ws) = length ws"
    using assms(1) by (subst card_image) (auto simp: inj_on_def word_unat_eq_iff distinct_card)
  ultimately show ?thesis by simp
qed

lemma fl_u32_nat: "fl (real (unat (w :: u32))) = real (unat w)"
  by (rule fl.rnd_nat) (use unat_u32_lt [of w] in simp)

lemma percent_of_bounds:
  assumes "unat a \<le> unat b" "0 < unat b"
  shows "0 \<le> percent_of a b \<and> percent_of a b \<le> 100"
  using fl.percent_bounds [OF assms] by (simp only: percent_of_def f64_ops fl_u32_nat)

end
