(* ===== verification/Stamp_Properties.thy ===== *)
theory Stamp_Properties
  imports Stamp_Sender
begin

text \<open>
  The properties of the STAMP probe: the reflector of \<open>Stamp_Reflector\<close> and the sender of
  \<open>Stamp_Sender\<close>, and the two together.
\<close>

section \<open>The reflector\<close>

text \<open>The reflected packet is what RFC 8762 prescribes. A test packet that is long enough is
  answered by 44 bytes from which the reflector's number, its two time stamps and the sender's
  own number, time stamp and error estimate are read back.\<close>

theorem reflected_packet_roundtrip:
  assumes "STAMP_PACKET_LEN \<le> length pkt"
  shows "let r = build_reflected_packet pkt s t2 t3
    in length r = STAMP_PACKET_LEN \<and> be32_of (slice 0 4 r) = s \<and>
       (be32_of (slice 4 8 r), be32_of (slice 8 12 r)) = t3 \<and>
       (be32_of (slice 16 20 r), be32_of (slice 20 24 r)) = t2 \<and>
       slice 24 28 r = slice 0 4 pkt \<and> slice 28 36 r = slice 4 12 pkt \<and> slice 36 38 r = slice 12 14 pkt"
  using reflected_fields [OF assms, where s = s and ?t2.0 = t2 and ?t3.0 = t3]
    length_reflected [OF assms, of s t2 t3]
  by (simp add: Let_def prod_eq_iff)

theorem reflected_packet_roundtrip_witness:
  "be32_of (slice 0 4 (build_reflected_packet (sender_packet 7 (1, 2)) 9 (3, 4) (5, 6))) = 9"
  using reflected_packet_roundtrip [of "sender_packet 7 (1, 2)" 9 "(3, 4)" "(5, 6)"]
  by (simp add: length_sender_packet Let_def)

text \<open>The reflector numbers each sender on its own. Whatever else arrives, a sender whose
  packets follow each other within the idle expiry is answered with the numbers 0, 1, 2 and
  so on, one for each packet that is long enough.\<close>

theorem reflector_counts_per_sender:
  assumes "sorted (map rx_sweep is)"
    "case filter (accepted a) is of [] \<Rightarrow> True | i # js \<Rightarrow> paced (rx_seen i) js"
  shows "map seq_of (replies_to a (reflect_run (reflector_new t0) is)) =
    map of_nat [0..<length (filter (accepted a) is)]"
  using reflect_run_seq [OF assms(1), where rf = "reflector_new t0" and n = 0] assms(2)
  by (simp add: reflector_new_def)

definition demo_rx :: "socket_addr \<Rightarrow> instant \<Rightarrow> rx_input" where
  "demo_rx a t = \<lparr>rx_data = Some (sender_packet 0 (0, 0)), rx_from = a, rx_dst_ip = None, rx_t2 = 0,
     rx_sweep = t, rx_entry = t, rx_seen = t, rx_t3 = 0\<rparr>"

theorem reflector_counts_per_sender_witness:
  "map seq_of (replies_to (V4 1, 1) (reflect_run (reflector_new 0)
     [demo_rx (V4 1, 1) 5, demo_rx (V4 2, 2) 6, demo_rx (V4 1, 1) 7])) = [0, 1]"
  using reflector_counts_per_sender [of "[demo_rx (V4 1, 1) 5, demo_rx (V4 2, 2) 6, demo_rx (V4 1, 1) 7]"
      "(V4 1, 1)" 0]
  by (simp add: demo_rx_def accepted_def length_sender_packet SESSION_IDLE_EXPIRY_def from_secs_def)

section \<open>The sender\<close>


definition demo_stamp_config :: stamp_config where
  "demo_stamp_config = stamp_config_default\<lparr>sc_probe_count := 1\<rparr>"

definition demo_stamp_packet :: bytes where
  "demo_stamp_packet = build_reflected_packet (sender_packet 0 (0, 0)) 0 (0, 0) (0, 0)"

definition demo_train :: "nat \<Rightarrow> train_input" where
  "demo_train n = \<lparr>ti_ntp = (0, 0), ti_sent_at = 0, ti_send_ok = True,
     ti_events = [(1, Datagram demo_stamp_packet 2 (0, 0))]\<rparr>"

lemma demo_stamp_packet_props:
  "length demo_stamp_packet = STAMP_PACKET_LEN" "sender_seq_of demo_stamp_packet = 0"
  using reflected_sender_seq [of 0 "(0, 0)" 0 "(0, 0)" "(0, 0)"]
  by (simp_all add: demo_stamp_packet_def length_reflected length_sender_packet)

lemma demo_train_result:
  "probe_train demo_stamp_config (Inr ()) demo_train [] =
     Inr [Some (make_reply demo_stamp_packet 2 (0, 0) 0 (ntp_to_secs (0, 0)))]"
  by (simp add: probe_train_def send_all_def train_count_def demo_stamp_config_def
      stamp_config_default_def send_probe_def demo_train_def credit_def demo_stamp_packet_props
      from_millis_def Let_def)


text \<open>Directional losses reconcile. When the reflector numbers of the replies differ, as a
  running reflector makes them, the probes lost on the way there, those lost on the way back
  and the replies add up to the probes sent, and both percentages are between 0 and 100.\<close>

theorem directional_loss_reconciles:
  assumes "received_of replies \<noteq> []" "distinct (map rp_reflector_seq (received_of replies))"
    "length replies = unat (sc_probe_count cfg)"
  defines "got \<equiv> of_nat (length (received_of replies)) :: u32"
  shows "(case directional_loss (sc_probe_count cfg) got
       (Max (set (map rp_reflector_seq (received_of replies)))) of
     (reached, sent_lost, return_lost) \<Rightarrow>
       unat sent_lost + unat return_lost + length (received_of replies) = unat (sc_probe_count cfg)) \<and>
    (\<exists>p q. sr_loss_sent_percent (stamp_result_of cfg target t0 replies) = Some p \<and> 0 \<le> p \<and> p \<le> 100 \<and>
       sr_loss_return_percent (stamp_result_of cfg target t0 replies) = Some q \<and> 0 \<le> q \<and> q \<le> 100)"
proof -
  let ?seqs = "map rp_reflector_seq (received_of replies)"
  define m where "m = Max (set ?seqs)"
  obtain reached f b where d: "directional_loss (sc_probe_count cfg) got m = (reached, f, b)"
    by (metis prod_cases3)
  have len: "length (received_of replies) \<le> unat (sc_probe_count cfg)"
    using received_length [of replies] assms(3) by simp
  then have got: "unat got = length (received_of replies)"
    using unat_u32_lt [of "sc_probe_count cfg"]
    by (simp add: got_def unsigned_of_nat take_bit_nat_eq_self)
  note r = directional_loss_reached [OF d]
  have "length (received_of replies) \<le> unat m + 1"
    using distinct_le_Max [OF assms(2)] assms(1) by (simp add: m_def)
  then have le: "unat got \<le> unat reached" using r(1) len got by simp
  have pos: "0 < unat (sc_probe_count cfg)" "0 < unat reached"
    using r(1) len assms(1) by (cases "received_of replies"; simp)+
  have "max reached 1 = reached" using pos(2) by (auto simp: max_def word_le_nat_alt word_unat_eq_iff)
  moreover have "0 \<le> percent_of f (sc_probe_count cfg) \<and> percent_of f (sc_probe_count cfg) \<le> 100"
    by (rule percent_of_bounds) (use r pos in simp_all)
  moreover have "0 \<le> percent_of b reached \<and> percent_of b reached \<le> 100"
    by (rule percent_of_bounds) (use r(3) pos(2) in linarith)+
  moreover have "sr_loss_sent_percent (stamp_result_of cfg target t0 replies)
        = Some (percent_of f (sc_probe_count cfg))"
      "sr_loss_return_percent (stamp_result_of cfg target t0 replies)
        = Some (percent_of b (max reached 1))"
    using assms(1) d by (simp_all add: stamp_result_of_def Let_def got_def m_def split: prod.splits)
  moreover have "unat f + unat b + length (received_of replies) = unat (sc_probe_count cfg)"
    using r le got by simp
  ultimately show ?thesis using d by (simp add: m_def)
qed

theorem directional_loss_reconciles_witness:
  "\<exists>p. sr_loss_sent_percent (stamp_result_of demo_stamp_config (V4 0, 9997) 0
      [Some (make_reply demo_stamp_packet 2 (0, 0) 0 (ntp_to_secs (0, 0)))]) = Some p \<and> p \<le> 100"
  using directional_loss_reconciles [of "[Some (make_reply demo_stamp_packet 2 (0, 0) 0 (ntp_to_secs (0, 0)))]"
      demo_stamp_config "(V4 0, 9997)" 0]
  by (auto simp: received_of_def demo_stamp_config_def)

text \<open>A restarted reflector breaks the reconciliation. When the reflector numbers repeat, as
  they do after its session expires or it restarts, the three counts can exceed the probes
  sent: of four probes three are answered, and yet three count as lost on the way there.\<close>

theorem directional_loss_restart:
  "directional_loss 4 3 0 = (1, 3, 0)"
  by (simp add: directional_loss_def sat_sub_def Let_def)

text \<open>A STAMP attempt is consistent. It succeeds exactly when it carries a result and no
  error, and then at least one probe was answered, no reported time is negative and the loss is
  a percentage.\<close>

theorem stamp_attempt_consistent:
  "let a = run_stamp_probe cfg ids resolved conn inputs tail in
     at_protocol a = Stamp \<and> at_success a = (at_error a = None) \<and>
     (case at_stamp a of
        None \<Rightarrow> \<not> at_success a
      | Some r \<Rightarrow> at_success a \<and> sr_replies_received r \<noteq> 0 \<and> 0 \<le> sr_rtt_min_ms r \<and> 0 \<le> sr_rtt_avg_ms r \<and>
          0 \<le> sr_loss_percent r \<and> sr_loss_percent r \<le> 100)"
proof -
  have nonneg: "0 \<le> rp_rtt_corrected_ms r" if "replies_ok sm st1 replies" "Some r \<in> set replies" for sm st1 replies r
  proof -
    have "0 \<le> rp_rtt_corrected_ms (make_reply pkt t4 t4n sent t1)" for pkt t4 t4n sent t1
      by (simp add: make_reply_def Let_def)
    then show ?thesis using that unfolding replies_ok_def credited_def in_set_conv_nth by metis
  qed
  show ?thesis
  proof (cases resolved)
    case (Inl msg)
    then show ?thesis by (simp add: run_stamp_probe_def stamp_failed_def stamp_attempt_of_def attempt.defs attempt_new_def Let_def)
  next
    case (Inr target)
    show ?thesis
    proof (cases "probe_train cfg conn inputs tail")
      case (Inl msg)
      with Inr show ?thesis by (simp add: run_stamp_probe_def stamp_failed_def stamp_attempt_of_def attempt.defs attempt_new_def Let_def)
    next
      case train: (Inr replies)
      show ?thesis
      proof (cases "(of_nat (length (received_of replies)) :: u32) = 0")
        case True
        with Inr train show ?thesis by (simp add: run_stamp_probe_def stamp_failed_def stamp_attempt_of_def attempt.defs attempt_new_def Let_def)
      next
        case got: False
        let ?rtts = "map (map_option rp_rtt_corrected_ms) replies"
        let ?agg = "aggregate_udp_rtts ?rtts"
        have ne: "received_of replies \<noteq> []" using got by auto
        have "length replies = train_count cfg" by (rule probe_train_ok(1) [OF train])
        then have big: "length ?rtts \<le> 2 ^ 53"
          using unat_u32_lt [of "sc_probe_count cfg"] by (simp add: train_count_def)
        have rec: "received_of ?rtts = map rp_rtt_corrected_ms (received_of replies)"
          by (induction replies) (auto simp: received_of_def)
        have vals: "0 \<le> v" if "v \<in> set (received_of ?rtts)" for v
          using that nonneg [OF probe_train_ok(2) [OF train]] by (auto simp: rec received_set)
        have "rtt_min ?agg = sort (received_of ?rtts) ! 0" "0 \<le> rtt_avg ?agg"
          using ne vals f64_sum_nonneg [of "sort (received_of ?rtts)"]
          by (simp_all add: aggregate_udp_rtts_def rec Let_def f64_ops fl.rnd_nonneg)
        moreover have "sort (received_of ?rtts) ! 0 \<in> set (received_of ?rtts)"
          using ne by (metis length_greater_0_conv length_map length_sort nth_mem rec set_sort)
        moreover have "rtt_loss_percent ?agg = loss_of (length ?rtts) (length (received_of ?rtts))"
          by (simp add: aggregate_udp_rtts_def Let_def)
        moreover note loss_of_bounds [OF received_length big]
        ultimately show ?thesis using Inr train got vals ne
          by (simp add: run_stamp_probe_def stamp_attempt_of_def attempt.defs attempt_new_def
              stamp_result_of_def Let_def split: prod.splits)
      qed
    qed
  qed
qed

text \<open>Sender and reflector agree. The reflection of a probe's packet names that probe, and the
  reading the sender derives from it has the reflector's number and a processing time of the
  difference of its two time stamps, never negative.\<close>

theorem reflected_probe_read_back:
  assumes "n < 2 ^ 32"
  shows "let pkt = build_reflected_packet (sender_packet n t1) s t2 t3; r = make_reply pkt t4 t4n sent w
    in sender_seq_of pkt = n \<and> rp_reflector_seq r = s \<and>
       rp_processing_ms r = max (f64_mul (f64_sub (ntp_to_secs t3) (ntp_to_secs t2)) 1000) 0 \<and>
       0 \<le> rp_rtt_corrected_ms r"
  using reflected_sender_seq [OF assms, of t1 s t2 t3]
    read_reflected [of "sender_packet n t1" s t2 t3] reflected_fields(1) [of "sender_packet n t1" s t2 t3]
  by (simp add: make_reply_def length_sender_packet Let_def)

theorem reflected_probe_read_back_witness:
  "sender_seq_of (build_reflected_packet (sender_packet 7 (1, 2)) 9 (3, 4) (5, 6)) = 7"
  using reflected_probe_read_back [of 7 "(1, 2)" 9 "(3, 4)" "(5, 6)" 0 "(0, 0)" 0 0]
  by (simp add: Let_def)

end
