(* ===== verification/Udp_Server.thy ===== *)
theory Udp_Server
  imports Prelude
begin

text \<open>
  The UDP bulk-throughput server of \<open>crates/networker-endpoint/src/udp_throughput.rs\<close>: its
  wire format, the stream of data packets it sends for a download, and the step of its receive
  loop with the per-client upload accounting and the reaping of stale states.

  A datagram is what \<open>recv_from\<close> delivers. A step returns the datagrams it sends and the
  download it spawns; the spawned task is \<open>send_download\<close>, a function of which of its sends
  succeed. The lemmas show that control packets are read back, that the data packets of a
  stream carry exactly the requested bytes under distinct numbers and are never control
  packets, and that the report counts each number once.
\<close>

section \<open>The wire\<close>

definition MAGIC :: bytes where "MAGIC = [0x4E, 0x57, 0x4B, 0x54]"
definition CMD_DOWNLOAD :: u8 where "CMD_DOWNLOAD = 0x01"
definition CMD_UPLOAD :: u8 where "CMD_UPLOAD = 0x02"
definition CMD_DONE :: u8 where "CMD_DONE = 0x04"
definition CMD_ACK :: u8 where "CMD_ACK = 0x10"
definition CMD_REPORT :: u8 where "CMD_REPORT = 0x11"
definition CTRL_LEN :: nat where "CTRL_LEN = 12"
definition DATA_HDR_LEN :: nat where "DATA_HDR_LEN = 8"
definition CHUNK_SIZE :: nat where "CHUNK_SIZE = 1400"
definition UPLOAD_STATE_TTL :: duration where "UPLOAD_STATE_TTL = from_secs 60"

lemmas tp_consts = MAGIC_def CMD_DOWNLOAD_def CMD_UPLOAD_def CMD_DONE_def CMD_ACK_def
  CMD_REPORT_def CTRL_LEN_def DATA_HDR_LEN_def CHUNK_SIZE_def

definition make_ctrl :: "u8 \<Rightarrow> u32 \<Rightarrow> bytes" where
  "make_ctrl cmd v =
     (let pkt = replicate CTRL_LEN 0;
          pkt = splice 0 MAGIC pkt;
          pkt = pkt[4 := cmd]
      in splice 8 (le32_bytes v) pkt)"

text \<open>The guard \<open>n == CTRL_LEN && pkt[..4] == *MAGIC\<close> and the fields read behind it.\<close>

definition is_ctrl :: "bytes \<Rightarrow> bool" where
  "is_ctrl pkt \<longleftrightarrow> length pkt = CTRL_LEN \<and> slice 0 4 pkt = MAGIC"

definition ctrl_cmd :: "bytes \<Rightarrow> u8" where "ctrl_cmd pkt = pkt ! 4"
definition ctrl_value :: "bytes \<Rightarrow> u32" where "ctrl_value pkt = le32_of (slice 8 12 pkt)"

definition data_packet :: "u32 \<Rightarrow> u32 \<Rightarrow> nat \<Rightarrow> bytes" where
  "data_packet n seqs payload_size =
     (let pkt = replicate (DATA_HDR_LEN + payload_size) 0;
          pkt = splice 0 (le32_bytes n) pkt
      in splice 4 (le32_bytes seqs) pkt)"

definition data_seq :: "bytes \<Rightarrow> u32" where "data_seq pkt = le32_of (slice 0 4 pkt)"

section \<open>Sending a download\<close>

text \<open>The loop over the numbers still to send; it breaks at the first failed send.\<close>

fun data_loop :: "(nat \<Rightarrow> bool) \<Rightarrow> u32 \<Rightarrow> nat \<Rightarrow> nat list \<Rightarrow> nat \<Rightarrow> bytes list" where
  "data_loop ok seqs amount [] sent = []"
| "data_loop ok seqs amount (n # ns) sent =
     (let payload_size = min (amount - sent) CHUNK_SIZE
      in if \<not> ok n then []
         else data_packet (of_nat n) seqs payload_size # data_loop ok seqs amount ns (sent + payload_size))"

definition total_seqs_of :: "nat \<Rightarrow> u32" where
  "total_seqs_of amount = of_nat (div_ceil amount CHUNK_SIZE)"

definition send_download :: "(nat \<Rightarrow> bool) \<Rightarrow> nat \<Rightarrow> bytes list" where
  "send_download ok amount =
     (if amount = 0 then [make_ctrl CMD_DONE 0]
      else let seqs = total_seqs_of amount
           in data_loop ok seqs amount [0..<unat seqs] 0 @ [make_ctrl CMD_DONE (of_nat amount)])"

section \<open>The loop\<close>

record upload_state =
  us_expected_bytes :: nat
  us_received_seqs :: "u32 set"
  us_received_bytes :: nat
  us_created_at :: instant

record tp_server =
  tp_uploads :: "socket_addr \<rightharpoonup> upload_state"
  tp_counter :: nat

definition tp_server_new :: tp_server where
  "tp_server_new = \<lparr>tp_uploads = Map.empty, tp_counter = 0\<rparr>"

definition reap_stale_uploads ::
  "instant \<Rightarrow> (socket_addr \<rightharpoonup> upload_state) \<Rightarrow> (socket_addr \<rightharpoonup> upload_state)" where
  "reap_stale_uploads now ups = (\<lambda>a. case ups a of
     Some st \<Rightarrow> if now - us_created_at st < UPLOAD_STATE_TTL then Some st else None
   | None \<Rightarrow> None)"

record tp_input =
  in_pkt :: "bytes option"
  in_src :: socket_addr
  in_local_ip :: "ip_addr option"
  in_created :: instant
  in_reap :: instant

record tp_output =
  out_sends :: "(bytes \<times> socket_addr \<times> ip_addr option) list"
  out_download :: "(socket_addr \<times> ip_addr option \<times> nat) option"

definition no_output :: tp_output where
  "no_output = \<lparr>out_sends = [], out_download = None\<rparr>"

definition tp_control :: "tp_input \<Rightarrow> bytes \<Rightarrow> (socket_addr \<rightharpoonup> upload_state) \<Rightarrow>
   tp_output \<times> (socket_addr \<rightharpoonup> upload_state)" where
  "tp_control i pkt ups =
     (let cmd = ctrl_cmd pkt; v = unat (ctrl_value pkt); src = in_src i; lip = in_local_ip i
      in if cmd = CMD_DOWNLOAD then
           (\<lparr>out_sends = [(make_ctrl CMD_ACK 0, src, lip)], out_download = Some (src, lip, v)\<rparr>, ups)
         else if cmd = CMD_UPLOAD then
           (no_output\<lparr>out_sends := [(make_ctrl CMD_ACK 0, src, lip)]\<rparr>,
            ups(src \<mapsto> \<lparr>us_expected_bytes = v, us_received_seqs = {}, us_received_bytes = 0,
                        us_created_at = in_created i\<rparr>))
         else if cmd = CMD_DONE then
           (case ups src of
              Some st \<Rightarrow>
                (no_output\<lparr>out_sends := [(make_ctrl CMD_REPORT (of_nat (us_received_bytes st)), src, lip)]\<rparr>,
                 ups(src := None))
            | None \<Rightarrow> (no_output, ups))
         else (no_output, ups))"

definition tp_data :: "tp_input \<Rightarrow> bytes \<Rightarrow> (socket_addr \<rightharpoonup> upload_state) \<Rightarrow>
   (socket_addr \<rightharpoonup> upload_state)" where
  "tp_data i pkt ups = (case ups (in_src i) of
     None \<Rightarrow> ups
   | Some st \<Rightarrow>
       (let n = data_seq pkt; data_len = length pkt - DATA_HDR_LEN
        in if n \<notin> us_received_seqs st
           then ups(in_src i \<mapsto> st\<lparr>us_received_seqs := insert n (us_received_seqs st),
                                    us_received_bytes := us_received_bytes st + data_len\<rparr>)
           else ups))"

definition tp_step :: "tp_input \<Rightarrow> tp_server \<Rightarrow> tp_output \<times> tp_server" where
  "tp_step i s = (case in_pkt i of
     None \<Rightarrow> (no_output, s)
   | Some pkt \<Rightarrow>
       (let (out, ups) =
              (if is_ctrl pkt then tp_control i pkt (tp_uploads s)
               else if DATA_HDR_LEN < length pkt then (no_output, tp_data i pkt (tp_uploads s))
               else (no_output, tp_uploads s));
            counter = tp_counter s + 1
        in (out, \<lparr>tp_uploads = (if counter mod 100 = 0 then reap_stale_uploads (in_reap i) ups else ups),
                  tp_counter = counter\<rparr>)))"

fun tp_run :: "tp_server \<Rightarrow> tp_input list \<Rightarrow> tp_server" where
  "tp_run s [] = s"
| "tp_run s (i # is) = tp_run (snd (tp_step i s)) is"

section \<open>Control packets\<close>

lemma make_ctrl_eq: "make_ctrl cmd v = MAGIC @ [cmd, 0, 0, 0] @ le32_bytes v"
  by (simp add: make_ctrl_def tp_consts splice_def Let_def numeral_eq_Suc)

lemma make_ctrl_read [simp]:
  "is_ctrl (make_ctrl cmd v)" "ctrl_cmd (make_ctrl cmd v) = cmd" "ctrl_value (make_ctrl cmd v) = v"
  by (simp_all add: make_ctrl_eq is_ctrl_def ctrl_cmd_def ctrl_value_def slice_def MAGIC_def
      CTRL_LEN_def numeral_eq_Suc)

lemma length_make_ctrl [simp]: "length (make_ctrl cmd v) = 12"
  by (simp add: make_ctrl_eq MAGIC_def)

text \<open>The control packets are a fixed-width codec.\<close>

definition ctrl_dec :: "bytes \<Rightarrow> (u8 \<times> u32) option" where
  "ctrl_dec pkt = (if is_ctrl pkt then Some (ctrl_cmd pkt, ctrl_value pkt) else None)"

interpretation ctrl: fixed_codec "\<lambda>(cmd, v). make_ctrl cmd v" ctrl_dec 12
  by unfold_locales (auto simp: ctrl_dec_def)

section \<open>Data packets\<close>

lemma data_packet_eq:
  "data_packet n seqs k = le32_bytes n @ le32_bytes seqs @ replicate k 0"
  by (simp add: data_packet_def DATA_HDR_LEN_def splice_def Let_def)

lemma data_packet_read [simp]:
  "length (data_packet n seqs k) = DATA_HDR_LEN + k" "data_seq (data_packet n seqs k) = n"
  by (simp_all add: data_packet_eq DATA_HDR_LEN_def data_seq_def slice_def)

text \<open>A data packet is a control packet only under the number that the magic spells.\<close>

definition MAGIC_SEQ :: u32 where "MAGIC_SEQ = 1414223694"

lemma data_not_ctrl: "n \<noteq> MAGIC_SEQ \<Longrightarrow> \<not> is_ctrl (data_packet n seqs k)"
proof
  assume n: "n \<noteq> MAGIC_SEQ" and c: "is_ctrl (data_packet n seqs k)"
  have "le32_bytes n = MAGIC"
    using c by (simp add: is_ctrl_def data_packet_eq slice_def)
  then have "le32_of (le32_bytes n) = le32_of MAGIC" by simp
  then have "n = le32_of MAGIC" by simp
  moreover have "le32_of MAGIC = MAGIC_SEQ"
    by (simp add: MAGIC_def MAGIC_SEQ_def)
  ultimately show False using n by simp
qed

section \<open>The stream\<close>

definition payload_len :: "nat \<Rightarrow> nat \<Rightarrow> nat" where
  "payload_len amount n = min (amount - n * CHUNK_SIZE) CHUNK_SIZE"

lemma chunk_pos: "0 < CHUNK_SIZE"
  by (simp add: CHUNK_SIZE_def)

lemma payload_sent:
  assumes "Suc n < div_ceil amount CHUNK_SIZE"
  shows "payload_len amount n = CHUNK_SIZE"
proof -
  have "0 < amount" using assms by (cases amount) simp_all
  then have "(div_ceil amount CHUNK_SIZE - 1) * CHUNK_SIZE < amount"
    by (rule div_ceil_pred_mult_less [OF chunk_pos])
  moreover have "Suc n * CHUNK_SIZE \<le> (div_ceil amount CHUNK_SIZE - 1) * CHUNK_SIZE"
    using assms by (intro mult_le_mono1) simp
  ultimately have "n * CHUNK_SIZE + CHUNK_SIZE < amount" by simp
  then show ?thesis by (simp add: payload_len_def)
qed

text \<open>The stream is a packet for each number up to the first failed send.\<close>

lemma data_loop_eq:
  assumes "k \<le> div_ceil amount CHUNK_SIZE"
  shows "data_loop ok seqs amount [m..<k] (m * CHUNK_SIZE) =
    map (\<lambda>n. data_packet (of_nat n) seqs (payload_len amount n)) (takeWhile ok [m..<k])"
proof (cases "m < k")
  case True
  then show ?thesis
  proof (induction "k - m" arbitrary: m)
    case (Suc d)
    have ups: "[m..<k] = m # [Suc m..<k]" using Suc.prems by (rule upt_conv_Cons)
    have rest: "data_loop ok seqs amount [Suc m..<k] (m * CHUNK_SIZE + payload_len amount m) =
        map (\<lambda>n. data_packet (of_nat n) seqs (payload_len amount n)) (takeWhile ok [Suc m..<k])"
    proof (cases "Suc m < k")
      case True
      then have "payload_len amount m = CHUNK_SIZE" using payload_sent [of m amount] assms by simp
      then have "m * CHUNK_SIZE + payload_len amount m = Suc m * CHUNK_SIZE" by simp
      then show ?thesis using Suc.hyps(1) [of "Suc m"] Suc.hyps(2) True by (simp only:)
    qed simp
    show ?case unfolding ups using rest by (simp add: payload_len_def Let_def)
  qed simp
qed simp

lemma payload_sum: "k \<le> div_ceil amount CHUNK_SIZE \<Longrightarrow>
   (\<Sum>n<k. payload_len amount n) = min amount (k * CHUNK_SIZE)"
proof (induction k)
  case (Suc k)
  then show ?case
  proof (cases "Suc k < div_ceil amount CHUNK_SIZE")
    case True
    have "k * CHUNK_SIZE + CHUNK_SIZE \<le> amount"
      using payload_sent [OF True] chunk_pos by (simp add: payload_len_def)
    with Suc True payload_sent [OF True] show ?thesis by simp
  next
    case False
    then have "Suc k = div_ceil amount CHUNK_SIZE" using Suc.prems by simp
    moreover have "0 < amount" using Suc.prems by (cases amount) simp_all
    ultimately have "k * CHUNK_SIZE < amount" "amount \<le> Suc k * CHUNK_SIZE"
      using div_ceil_pred_mult_less [OF chunk_pos, of amount] div_ceil_mult_ge [OF chunk_pos, of amount]
      by (metis diff_Suc_1, metis)
    with Suc show ?thesis by (simp add: payload_len_def)
  qed
qed simp

lemma payload_total: "(\<Sum>n<div_ceil amount CHUNK_SIZE. payload_len amount n) = amount"
  using payload_sum [of "div_ceil amount CHUNK_SIZE" amount] div_ceil_mult_ge [OF chunk_pos, of amount]
  by simp

lemma payload_len_pos: "n < div_ceil amount CHUNK_SIZE \<Longrightarrow> 0 < payload_len amount n"
proof -
  assume n: "n < div_ceil amount CHUNK_SIZE"
  then have "0 < amount" by (cases amount) simp_all
  then have "(div_ceil amount CHUNK_SIZE - 1) * CHUNK_SIZE < amount"
    by (rule div_ceil_pred_mult_less [OF chunk_pos])
  moreover have "n * CHUNK_SIZE \<le> (div_ceil amount CHUNK_SIZE - 1) * CHUNK_SIZE"
    using n by (intro mult_le_mono1) simp
  ultimately have "n * CHUNK_SIZE < amount" by linarith
  then show ?thesis using chunk_pos by (simp add: payload_len_def)
qed

lemma unat_of_nat_u32: "n < 2 ^ 32 \<Longrightarrow> unat (of_nat n :: u32) = n"
  by (simp add: unsigned_of_nat take_bit_nat_eq_self)

lemma div_ceil_chunk_less: "amount < 2 ^ 32 \<Longrightarrow> div_ceil amount CHUNK_SIZE < MAGIC_BOUND"
  if "MAGIC_BOUND = 1414223694" for MAGIC_BOUND
proof -
  assume "amount < 2 ^ 32"
  then have "amount div 1400 \<le> 2 ^ 32 div 1400" by (intro div_le_mono) simp
  then show ?thesis using that by (simp add: div_ceil_def CHUNK_SIZE_def)
qed

lemma total_seqs_of_eq: "amount < 2 ^ 32 \<Longrightarrow> unat (total_seqs_of amount) = div_ceil amount CHUNK_SIZE"
  using div_ceil_chunk_less [OF refl, of amount] by (simp add: total_seqs_of_def unat_of_nat_u32)

lemma send_download_eq:
  assumes "amount < 2 ^ 32"
  shows "send_download ok amount =
    map (\<lambda>n. data_packet (of_nat n) (total_seqs_of amount) (payload_len amount n))
      (takeWhile ok [0..<div_ceil amount CHUNK_SIZE]) @ [make_ctrl CMD_DONE (of_nat amount)]"
  using data_loop_eq [OF le_refl, of ok "total_seqs_of amount" amount 0]
  by (simp add: send_download_def total_seqs_of_eq [OF assms] Let_def)

lemma stream_not_ctrl:
  assumes "amount < 2 ^ 32" "n < div_ceil amount CHUNK_SIZE"
  shows "\<not> is_ctrl (data_packet (of_nat n) s (payload_len amount n))"
proof (rule data_not_ctrl)
  have n: "n < 1414223694" using div_ceil_chunk_less [OF refl assms(1)] assms(2) by simp
  then have "unat (of_nat n :: u32) = n" by (simp add: unat_of_nat_u32)
  moreover have "unat MAGIC_SEQ = 1414223694" by (simp add: MAGIC_SEQ_def)
  ultimately show "of_nat n \<noteq> MAGIC_SEQ" using n by (metis less_irrefl)
qed

section \<open>Counting an upload\<close>

text \<open>The datagrams of one client between its upload request and its end marker: data only.\<close>

definition upload_data :: "(u32 \<Rightarrow> nat) \<Rightarrow> socket_addr \<Rightarrow> tp_input \<Rightarrow> bool" where
  "upload_data L a i \<longleftrightarrow> (in_src i = a \<longrightarrow> (case in_pkt i of None \<Rightarrow> True
     | Some pkt \<Rightarrow> \<not> is_ctrl pkt \<and> (DATA_HDR_LEN < length pkt \<longrightarrow>
         length pkt = DATA_HDR_LEN + L (data_seq pkt))))"

definition fresh_at :: "instant \<Rightarrow> tp_input \<Rightarrow> bool" where
  "fresh_at t i \<longleftrightarrow> in_reap i < t + UPLOAD_STATE_TTL"

text \<open>The numbers of one client's data packets.\<close>

definition seqs_from :: "socket_addr \<Rightarrow> tp_input list \<Rightarrow> u32 set" where
  "seqs_from a is = {data_seq pkt | i pkt. i \<in> set is \<and> in_src i = a \<and> in_pkt i = Some pkt \<and>
     DATA_HDR_LEN < length pkt}"

definition upload_counts :: "(u32 \<Rightarrow> nat) \<Rightarrow> u32 set \<Rightarrow> instant \<Rightarrow> upload_state \<Rightarrow> bool" where
  "upload_counts L S t st \<longleftrightarrow> finite S \<and> us_received_seqs st = S \<and>
     us_received_bytes st = sum L S \<and> us_created_at st = t"

lemma reap_keeps: "ups a = Some st \<Longrightarrow> now < us_created_at st + UPLOAD_STATE_TTL \<Longrightarrow>
   reap_stale_uploads now ups a = Some st"
  by (auto simp: reap_stale_uploads_def UPLOAD_STATE_TTL_def from_secs_def)

lemma tp_control_other: "in_src i \<noteq> a \<Longrightarrow> snd (tp_control i pkt ups) a = ups a"
  by (auto simp: tp_control_def Let_def split: option.splits)

lemma tp_data_other: "in_src i \<noteq> a \<Longrightarrow> tp_data i pkt ups a = ups a"
  by (auto simp: tp_data_def Let_def split: option.splits)

lemma tp_step_upload:
  assumes "tp_uploads s a = Some st" "upload_counts L S t st" "upload_data L a i" "fresh_at t i"
  shows "\<exists>st'. tp_uploads (snd (tp_step i s)) a = Some st' \<and> upload_counts L (S \<union> seqs_from a [i]) t st'"
proof (cases "in_pkt i")
  case None
  with assms show ?thesis by (auto simp: tp_step_def seqs_from_def)
next
  case (Some pkt)
  define ups where "ups = snd (if is_ctrl pkt then tp_control i pkt (tp_uploads s)
    else if DATA_HDR_LEN < length pkt then (no_output, tp_data i pkt (tp_uploads s))
    else (no_output, tp_uploads s))"
  have "\<exists>st'. ups a = Some st' \<and> upload_counts L (S \<union> seqs_from a [i]) t st'"
  proof (cases "in_src i = a")
    case False
    then have "ups a = Some st" "seqs_from a [i] = {}"
      using assms(1) by (simp_all add: ups_def tp_control_other tp_data_other seqs_from_def)
    with assms(2) show ?thesis by simp
  next
    case True
    have nc: "\<not> is_ctrl pkt" and L: "DATA_HDR_LEN < length pkt \<Longrightarrow> length pkt - DATA_HDR_LEN = L (data_seq pkt)"
      using assms(3) True Some by (auto simp: upload_data_def)
    have new: "seqs_from a [i] = (if DATA_HDR_LEN < length pkt then {data_seq pkt} else {})"
      using True Some by (auto simp: seqs_from_def)
    show ?thesis
    proof (cases "DATA_HDR_LEN < length pkt")
      case short: False
      with nc have "ups a = Some st" using assms(1) by (simp add: ups_def)
      with short assms(2) new show ?thesis by simp
    next
      case long: True
      show ?thesis
      proof (cases "data_seq pkt \<in> S")
        case True
        then have "ups a = Some st"
          using long nc assms(1,2) \<open>in_src i = a\<close>
          by (simp add: ups_def tp_data_def upload_counts_def Let_def)
        moreover have "S \<union> seqs_from a [i] = S" using True new long by auto
        ultimately show ?thesis using assms(2) by simp
      next
        case False
        have "ups a = Some (st\<lparr>us_received_seqs := insert (data_seq pkt) S,
            us_received_bytes := us_received_bytes st + L (data_seq pkt)\<rparr>)"
          using False long nc assms(1,2) L \<open>in_src i = a\<close>
          by (auto simp: ups_def tp_data_def upload_counts_def Let_def)
        then show ?thesis using False assms(2) new long
          by (auto simp: upload_counts_def add.commute)
      qed
    qed
  qed
  then obtain st' where st': "ups a = Some st'" "upload_counts L (S \<union> seqs_from a [i]) t st'" by blast
  have "reap_stale_uploads (in_reap i) ups a = Some st'"
    by (rule reap_keeps [of ups a st']) (use st' assms(4) in \<open>simp_all add: upload_counts_def fresh_at_def\<close>)
  moreover have "tp_uploads (snd (tp_step i s)) =
      (if (tp_counter s + 1) mod 100 = 0 then reap_stale_uploads (in_reap i) ups else ups)"
    by (simp add: tp_step_def Some ups_def Let_def split: prod.splits)
  ultimately show ?thesis using st' by auto
qed

lemma seqs_from_Cons: "seqs_from a (i # is) = seqs_from a [i] \<union> seqs_from a is"
  by (auto simp: seqs_from_def)

lemma tp_run_upload:
  assumes "tp_uploads s a = Some st" "upload_counts L S t st"
    "\<forall>i \<in> set is. upload_data L a i" "\<forall>i \<in> set is. fresh_at t i"
  shows "\<exists>st'. tp_uploads (tp_run s is) a = Some st' \<and> upload_counts L (S \<union> seqs_from a is) t st'"
  using assms
proof (induction "is" arbitrary: s st S)
  case Nil
  then show ?case by (simp add: seqs_from_def)
next
  case (Cons i js)
  have "upload_data L a i" "fresh_at t i" using Cons.prems(3,4) by simp_all
  from tp_step_upload [OF Cons.prems(1,2) this] obtain st' where
    "tp_uploads (snd (tp_step i s)) a = Some st'" "upload_counts L (S \<union> seqs_from a [i]) t st'" by blast
  from Cons.IH [OF this] Cons.prems(3,4) show ?case
    by (simp add: seqs_from_Cons [of a i js] Un_assoc)
qed

end
