(* ===== verification/Udp_Client.thy ===== *)
theory Udp_Client
  imports Udp_Server Probe
begin

text \<open>
  The UDP bulk-throughput probes (\<open>crates/networker-tester/src/runner/udp_throughput.rs\<close>):
  waiting for the acknowledgement on a path that reorders, receiving a download, sending an
  upload and waiting for the report, and the two runners. The client's constants are the
  server's, and its own copy of \<open>make_ctrl\<close> is the same function.

  A receive is a function of the events its loop saw: the instant read at the loop's head and
  what the timed receive returned. A datagram is cut to the receive buffer's length. Name
  resolution and connecting are their result.
\<close>

definition DONE_DRAIN :: duration where "DONE_DRAIN = from_millis 150"
definition RECV_BUF :: nat where "RECV_BUF = CTRL_LEN + CHUNK_SIZE + 64"

record udp_throughput_config =
  uc_target_host :: string
  uc_target_port :: u16
  uc_timeout_ms :: nat

definition udp_throughput_config_default :: udp_throughput_config where
  "udp_throughput_config_default =
     \<lparr>uc_target_host = ''127.0.0.1'', uc_target_port = 9998, uc_timeout_ms = 30000\<rparr>"

definition client_make_ctrl :: "u8 \<Rightarrow> u32 \<Rightarrow> bytes" where
  "client_make_ctrl cmd v =
     splice 8 (le32_bytes v) ((splice 0 MAGIC (replicate CTRL_LEN 0))[4 := cmd])"

text \<open>The requests the two probes open with; the size is cut to the field's 32 bits.\<close>

definition download_request :: "nat \<Rightarrow> bytes" where
  "download_request payload_bytes = client_make_ctrl CMD_DOWNLOAD (of_nat payload_bytes)"

definition upload_request :: "nat \<Rightarrow> bytes" where
  "upload_request payload_bytes = client_make_ctrl CMD_UPLOAD (of_nat payload_bytes)"

datatype tp_event = TpPacket bytes instant | TpError string | TpTimeout

type_synonym tp_events = "(instant \<times> tp_event) list"

section \<open>The acknowledgement\<close>

datatype ack_outcome = Ack | EarlyData u32 nat instant | AckDone

definition timed_out_waiting_for_ack :: "nat \<Rightarrow> string" where
  "timed_out_waiting_for_ack ignored =
     (if ignored = 0 then ''Timed out waiting for CMD_ACK''
      else ''Timed out waiting for CMD_ACK ('' @ decimal ignored @ '' unrelated datagram(s) arrived)'')"

fun wait_for_ack :: "instant \<Rightarrow> nat \<Rightarrow> tp_events \<Rightarrow> string + ack_outcome" where
  "wait_for_ack deadline ignored [] = Inl (timed_out_waiting_for_ack ignored)"
| "wait_for_ack deadline ignored ((now, ev) # evs) =
     (if deadline \<le> now then Inl (timed_out_waiting_for_ack ignored)
      else case ev of
        TpPacket raw tm \<Rightarrow>
          (let pkt = take RECV_BUF raw
           in if is_ctrl pkt \<and> ctrl_cmd pkt = CMD_ACK then Inr Ack
              else if is_ctrl pkt \<and> ctrl_cmd pkt = CMD_DONE then Inr AckDone
              else if DATA_HDR_LEN < length pkt
                then Inr (EarlyData (data_seq pkt) (length pkt - DATA_HDR_LEN) tm)
              else wait_for_ack deadline (ignored + 1) evs)
      | TpError e \<Rightarrow> Inl (''recv error: '' @ e)
      | TpTimeout \<Rightarrow> Inl (timed_out_waiting_for_ack ignored))"

section \<open>Receiving a download\<close>

record download =
  dl_seqs :: "u32 set"
  dl_bytes :: nat
  dl_first :: "instant option"
  dl_last :: instant
  dl_drain_until :: "instant option"

definition download_data :: "u32 \<Rightarrow> nat \<Rightarrow> instant \<Rightarrow> download \<Rightarrow> download" where
  "download_data n data_len tm d =
     (let d = (if n \<notin> dl_seqs d
               then d\<lparr>dl_seqs := insert n (dl_seqs d), dl_bytes := dl_bytes d + data_len\<rparr> else d);
          d = (if dl_first d = None then d\<lparr>dl_first := Some tm\<rparr> else d)
      in d\<lparr>dl_last := tm\<rparr>)"

definition download_done :: "instant \<Rightarrow> download \<Rightarrow> download" where
  "download_done tm d =
     (let d = (if dl_first d = None then d\<lparr>dl_last := tm\<rparr> else d)
      in d\<lparr>dl_drain_until := Some (tm + DONE_DRAIN)\<rparr>)"

fun download_loop :: "instant \<Rightarrow> tp_events \<Rightarrow> download \<Rightarrow> download" where
  "download_loop deadline [] d = d"
| "download_loop deadline ((now, ev) # evs) d =
     (if deadline \<le> now \<or> (case dl_drain_until d of Some until \<Rightarrow> until \<le> now | None \<Rightarrow> False) then d
      else case ev of
        TpPacket raw tm \<Rightarrow>
          (let pkt = take RECV_BUF raw
           in if is_ctrl pkt \<and> ctrl_cmd pkt = CMD_DONE then download_loop deadline evs (download_done tm d)
              else if is_ctrl pkt then download_loop deadline evs d
              else if DATA_HDR_LEN < length pkt
                then download_loop deadline evs
                       (download_data (data_seq pkt) (length pkt - DATA_HDR_LEN) tm d)
              else download_loop deadline evs d)
      | TpError e \<Rightarrow> d
      | TpTimeout \<Rightarrow> d)"

definition recv_download ::
  "instant \<Rightarrow> instant \<Rightarrow> (u32 \<times> nat \<times> instant) option \<Rightarrow> tp_events \<Rightarrow> download" where
  "recv_download start deadline early evs =
     (let d = \<lparr>dl_seqs = {}, dl_bytes = 0, dl_first = None, dl_last = start, dl_drain_until = None\<rparr>;
          d = (case early of
                 Some (n, data_len, tm) \<Rightarrow>
                   d\<lparr>dl_seqs := insert n (dl_seqs d), dl_bytes := dl_bytes d + data_len,
                     dl_first := Some tm, dl_last := tm\<rparr>
               | None \<Rightarrow> d)
      in download_loop deadline evs d)"

definition transfer_ms :: "download \<Rightarrow> f64" where
  "transfer_ms d = (case dl_first d of
     Some t0 \<Rightarrow> f64_mul (as_secs_f64 (dl_last d - t0)) 1000 | None \<Rightarrow> 0)"

section \<open>Sending an upload\<close>

fun wait_for_report :: "instant \<Rightarrow> tp_events \<Rightarrow> nat option" where
  "wait_for_report deadline [] = None"
| "wait_for_report deadline ((now, ev) # evs) =
     (if deadline \<le> now then None
      else case ev of
        TpPacket raw tm \<Rightarrow>
          (let pkt = take RECV_BUF raw
           in if is_ctrl pkt \<and> ctrl_cmd pkt = CMD_REPORT then Some (unat (ctrl_value pkt))
              else wait_for_report deadline evs)
      | TpError e \<Rightarrow> None
      | TpTimeout \<Rightarrow> None)"

record upload =
  ul_packets :: "bytes list"
  ul_sent :: u32
  ul_transfer_ms :: f64
  ul_bytes_acked :: "nat option"

text \<open>\<open>ok\<close> says which sends succeed; the two instants delimit the send window and the deadline
  is the report's.\<close>

definition send_upload ::
  "(nat \<Rightarrow> bool) \<Rightarrow> nat \<Rightarrow> instant \<Rightarrow> instant \<Rightarrow> instant \<Rightarrow> tp_events \<Rightarrow> upload" where
  "send_upload ok amount t0 t1 deadline evs =
     (if amount = 0
      then \<lparr>ul_packets = [client_make_ctrl CMD_DONE 0], ul_sent = 0, ul_transfer_ms = 0,
            ul_bytes_acked = Some 0\<rparr>
      else let seqs = total_seqs_of amount;
               data = data_loop ok seqs amount [0..<unat seqs] 0
           in \<lparr>ul_packets = data @ [client_make_ctrl CMD_DONE (of_nat amount)],
               ul_sent = of_nat (length data),
               ul_transfer_ms = f64_mul (as_secs_f64 (t1 - t0)) 1000,
               ul_bytes_acked = wait_for_report deadline evs\<rparr>)"

section \<open>Results\<close>

definition loss_percent :: "u32 \<Rightarrow> u32 \<Rightarrow> f64" where
  "loss_percent sent received =
     (if sent = 0 then 0
      else let lost = sat_sub sent received
           in f64_mul (f64_div (fl (real (unat lost))) (fl (real (unat sent)))) 100)"

definition mbps :: "nat \<Rightarrow> f64 \<Rightarrow> f64 option" where
  "mbps payload_bytes ms =
     (if 0 < ms
      then Some (f64_div (f64_mul (f64_div (fl (real payload_bytes)) ms) 1000) 1048576)
      else None)"

record udp_throughput_result =
  ur_remote_addr :: socket_addr
  ur_payload_bytes :: nat
  ur_datagrams_sent :: u32
  ur_datagrams_received :: "u32 option"
  ur_bytes_acked :: "nat option"
  ur_loss_percent :: f64
  ur_transfer_ms :: f64
  ur_throughput_mbps :: "f64 option"
  ur_started_at :: nat
  ur_local_drops :: "u64 option"
  ur_so_rcvbuf_bytes :: "u32 option"

record udp_throughput_attempt = attempt +
  at_udp_throughput :: "udp_throughput_result option"

definition udp_tp_failed :: "attempt_ids \<Rightarrow> protocol \<Rightarrow> string \<Rightarrow> udp_throughput_attempt" where
  "udp_tp_failed ids p msg =
     attempt.extend (attempt_new ids p False (Some (error_of ids UdpError msg))) \<lparr>at_udp_throughput = None\<rparr>"

definition udp_tp_done :: "attempt_ids \<Rightarrow> protocol \<Rightarrow> bool \<Rightarrow> udp_throughput_result \<Rightarrow> udp_throughput_attempt" where
  "udp_tp_done ids p ok r = attempt.extend (attempt_new ids p ok None) \<lparr>at_udp_throughput = Some r\<rparr>"

text \<open>What the socket and the clocks did during one probe.\<close>

record udp_tp_io =
  io_connect :: "string + socket_addr"
  io_send_error :: "string option"
  io_ack_start :: instant
  io_ack_events :: tp_events
  io_start :: instant
  io_recv_start :: instant
  io_end :: instant
  io_report_start :: instant
  io_events :: tp_events
  io_send_ok :: "nat \<Rightarrow> bool"
  io_local_drops :: "u64 option"
  io_so_rcvbuf :: "u32 option"

definition run_udpdownload_probe ::
  "nat \<Rightarrow> udp_throughput_config \<Rightarrow> attempt_ids \<Rightarrow> udp_tp_io \<Rightarrow> udp_throughput_attempt" where
  "run_udpdownload_probe payload_bytes cfg ids io = (case io_connect io of
     Inl msg \<Rightarrow> udp_tp_failed ids UdpDownload msg
   | Inr remote \<Rightarrow> (case io_send_error io of
       Some e \<Rightarrow> udp_tp_failed ids UdpDownload (''send CMD_DOWNLOAD: '' @ e)
     | None \<Rightarrow>
         (let timeout = from_millis (uc_timeout_ms cfg)
          in case wait_for_ack (io_ack_start io + timeout) 0 (io_ack_events io) of
            Inl msg \<Rightarrow> udp_tp_failed ids UdpDownload msg
          | Inr ack \<Rightarrow>
              (let total_seqs_hint = total_seqs_of payload_bytes;
                   deadline = io_recv_start io + timeout;
                   (seqs, received_bytes, ms) = (case ack of
                       AckDone \<Rightarrow> ({}, 0, 0)
                     | Ack \<Rightarrow>
                         (let d = recv_download (io_start io) deadline None (io_events io)
                          in (dl_seqs d, dl_bytes d, transfer_ms d))
                     | EarlyData n data_len tm \<Rightarrow>
                         (let d = recv_download (io_start io) deadline (Some (n, data_len, tm)) (io_events io)
                          in (dl_seqs d, dl_bytes d, transfer_ms d)));
                   datagrams_received = of_nat (card seqs) :: u32
               in udp_tp_done ids UdpDownload (0 < datagrams_received)
                    \<lparr>ur_remote_addr = remote, ur_payload_bytes = payload_bytes,
                     ur_datagrams_sent = total_seqs_hint,
                     ur_datagrams_received = Some datagrams_received, ur_bytes_acked = None,
                     ur_loss_percent = loss_percent total_seqs_hint datagrams_received,
                     ur_transfer_ms = ms, ur_throughput_mbps = mbps received_bytes ms,
                     ur_started_at = ai_started_at ids, ur_local_drops = io_local_drops io,
                     ur_so_rcvbuf_bytes = io_so_rcvbuf io\<rparr>))))"

definition run_udpupload_probe ::
  "nat \<Rightarrow> udp_throughput_config \<Rightarrow> attempt_ids \<Rightarrow> udp_tp_io \<Rightarrow> udp_throughput_attempt" where
  "run_udpupload_probe payload_bytes cfg ids io = (case io_connect io of
     Inl msg \<Rightarrow> udp_tp_failed ids UdpUpload msg
   | Inr remote \<Rightarrow> (case io_send_error io of
       Some e \<Rightarrow> udp_tp_failed ids UdpUpload (''send CMD_UPLOAD: '' @ e)
     | None \<Rightarrow>
         (let timeout = from_millis (uc_timeout_ms cfg)
          in case wait_for_ack (io_ack_start io + timeout) 0 (io_ack_events io) of
            Inl msg \<Rightarrow> udp_tp_failed ids UdpUpload msg
          | Inr _ \<Rightarrow>
              (let u = send_upload (io_send_ok io) payload_bytes (io_start io) (io_end io)
                         (io_report_start io + timeout) (io_events io)
               in case ul_bytes_acked u of
                 None \<Rightarrow> udp_tp_failed ids UdpUpload
                   (''No CMD_REPORT from server within '' @ decimal (uc_timeout_ms cfg) @
                    ''ms '' @ em_dash @ '' bytes received by the server are unknown, loss cannot be determined'')
               | Some acked \<Rightarrow>
                   udp_tp_done ids UdpUpload (payload_bytes = 0 \<or> 0 < acked)
                     \<lparr>ur_remote_addr = remote, ur_payload_bytes = payload_bytes,
                      ur_datagrams_sent = ul_sent u, ur_datagrams_received = None,
                      ur_bytes_acked = Some acked,
                      ur_loss_percent = (if 0 < payload_bytes
                        then f64_mul (f64_div (fl (real (payload_bytes - acked))) (fl (real payload_bytes))) 100
                        else 0),
                      ur_transfer_ms = ul_transfer_ms u,
                      ur_throughput_mbps = mbps acked (ul_transfer_ms u),
                      ur_started_at = ai_started_at ids, ur_local_drops = io_local_drops io,
                      ur_so_rcvbuf_bytes = io_so_rcvbuf io\<rparr>))))"

end
