(* ===== verification/Udp_Properties.thy ===== *)
theory Udp_Properties
  imports Udp_Client
begin

text \<open>
  The properties of the UDP bulk-throughput probe: the server of \<open>Udp_Server\<close>, the client of
  \<open>Udp_Client\<close>, and a transfer between them over a path that may lose, repeat and reorder
  datagrams.
\<close>

section \<open>Lemmas on streams\<close>

abbreviation chunks :: "nat \<Rightarrow> nat" where
  "chunks amount \<equiv> div_ceil amount CHUNK_SIZE"

definition stream_packet :: "nat \<Rightarrow> nat \<Rightarrow> bytes" where
  "stream_packet amount n = data_packet (of_nat n) (total_seqs_of amount) (payload_len amount n)"

text \<open>What the server may send a client during a download.\<close>

definition server_sends :: "nat \<Rightarrow> bytes set" where
  "server_sends amount = {make_ctrl CMD_ACK 0, make_ctrl CMD_DONE (of_nat amount)} \<union>
     stream_packet amount ` {..<chunks amount}"

lemma chunks_less: "amount < 2 ^ 32 \<Longrightarrow> chunks amount < 2 ^ 32"
  using div_ceil_chunk_less [OF refl, of amount] by simp

lemma seq_unat: "amount < 2 ^ 32 \<Longrightarrow> n < chunks amount \<Longrightarrow> unat (of_nat n :: u32) = n"
  using chunks_less [of amount] by (simp add: unat_of_nat_u32)

lemma seq_inj: "amount < 2 ^ 32 \<Longrightarrow> inj_on (of_nat :: nat \<Rightarrow> u32) {..<chunks amount}"
  by (rule inj_onI) (metis lessThan_iff seq_unat)

lemma stream_packet_facts:
  assumes "amount < 2 ^ 32" "n < chunks amount"
  shows "take RECV_BUF (stream_packet amount n) = stream_packet amount n"
    and "\<not> is_ctrl (stream_packet amount n)" and "DATA_HDR_LEN < length (stream_packet amount n)"
    and "length (stream_packet amount n) = DATA_HDR_LEN + payload_len amount n"
    and "data_seq (stream_packet amount n) = of_nat n"
  using stream_not_ctrl [OF assms] payload_len_pos [OF assms(2)]
  by (simp_all add: stream_packet_def RECV_BUF_def payload_len_def CTRL_LEN_def DATA_HDR_LEN_def CHUNK_SIZE_def)

lemma take_ctrl: "take RECV_BUF (make_ctrl c v) = make_ctrl c v"
  by (simp add: RECV_BUF_def CTRL_LEN_def)

definition events_from :: "nat \<Rightarrow> tp_events \<Rightarrow> bool" where
  "events_from amount evs \<longleftrightarrow> (\<forall>e \<in> set evs. \<forall>raw tm. snd e = TpPacket raw tm \<longrightarrow> raw \<in> server_sends amount)"

text \<open>What has been counted is the payload of a set of the stream's numbers.\<close>

definition counted :: "nat \<Rightarrow> nat set \<Rightarrow> u32 set \<Rightarrow> nat \<Rightarrow> bool" where
  "counted amount N seqs total_bytes \<longleftrightarrow> N \<subseteq> {..<chunks amount} \<and> seqs = of_nat ` N \<and>
     total_bytes = sum (payload_len amount) N"

lemma counted_insert:
  assumes "amount < 2 ^ 32" "counted amount N seqs b" "n < chunks amount"
  shows "\<exists>M. counted amount M (insert (of_nat n) seqs)
    (if of_nat n \<notin> seqs then b + payload_len amount n else b)"
proof (cases "n \<in> N")
  case True
  with assms(2) show ?thesis by (intro exI [of _ N]) (auto simp: counted_def)
next
  case False
  have "of_nat n \<notin> seqs"
    using False assms seq_inj [OF assms(1)] by (auto simp: counted_def inj_on_def)
  moreover have "finite N" using assms(2) finite_subset by (auto simp: counted_def)
  ultimately show ?thesis using False assms(2,3)
    by (intro exI [of _ "insert n N"]) (auto simp: counted_def add.commute)
qed

lemma server_sends_cases:
  assumes "raw \<in> server_sends amount"
  obtains "raw = make_ctrl CMD_ACK 0" | "raw = make_ctrl CMD_DONE (of_nat amount)"
    | n where "n < chunks amount" "raw = stream_packet amount n"
  using assms by (auto simp: server_sends_def)

lemma download_loop_counted:
  assumes "amount < 2 ^ 32" "events_from amount evs" "counted amount N (dl_seqs d) (dl_bytes d)"
  shows "\<exists>M. counted amount M (dl_seqs (download_loop deadline evs d)) (dl_bytes (download_loop deadline evs d))"
  using assms(2,3)
proof (induction evs arbitrary: d N)
  case Nil
  then show ?case by auto
next
  case (Cons e evs)
  obtain now ev where e: "e = (now, ev)" by (cases e)
  have evs: "events_from amount evs" using Cons.prems(1) by (simp add: events_from_def)
  have other: "\<exists>M. counted amount M (dl_seqs (download_loop deadline evs d')) (dl_bytes (download_loop deadline evs d'))"
    if "dl_seqs d' = dl_seqs d" "dl_bytes d' = dl_bytes d" for d'
    using Cons.IH [OF evs, of N d'] Cons.prems(2) that by simp
  show ?case
  proof (cases "deadline \<le> now \<or> (case dl_drain_until d of Some until \<Rightarrow> until \<le> now | None \<Rightarrow> False)")
    case True
    then show ?thesis using Cons.prems(2) by (auto simp: e)
  next
    case go: False
    show ?thesis
    proof (cases ev)
      case (TpPacket raw tm)
      then have "raw \<in> server_sends amount" using Cons.prems(1) by (simp add: e events_from_def)
      then show ?thesis
      proof (cases rule: server_sends_cases)
        case 1
        then show ?thesis using other [of d] go
          by (simp add: e TpPacket take_ctrl CMD_ACK_def CMD_DONE_def Let_def)
      next
        case 2
        then show ?thesis using other [of "download_done tm d"] go
          by (simp add: e TpPacket take_ctrl download_done_def Let_def)
      next
        case (3 n)
        note f = stream_packet_facts [OF assms(1) 3(1)]
        have st: "dl_seqs (download_data (of_nat n) (payload_len amount n) tm d) = insert (of_nat n) (dl_seqs d)"
            "dl_bytes (download_data (of_nat n) (payload_len amount n) tm d) =
              (if of_nat n \<notin> dl_seqs d then dl_bytes d + payload_len amount n else dl_bytes d)"
          by (auto simp: download_data_def Let_def)
        obtain M where "counted amount M (dl_seqs (download_data (of_nat n) (payload_len amount n) tm d))
            (dl_bytes (download_data (of_nat n) (payload_len amount n) tm d))"
          using counted_insert [OF assms(1) Cons.prems(2) 3(1)] unfolding st by blast
        from Cons.IH [OF evs this] show ?thesis using go
          by (simp add: e TpPacket 3(2) f payload_len_pos [OF 3(1)] Let_def)
      qed
    qed (use go Cons.prems(2) in \<open>auto simp: e\<close>)
  qed
qed

lemma wait_for_ack_early:
  assumes "amount < 2 ^ 32" "events_from amount evs"
    "wait_for_ack deadline k evs = Inr (EarlyData s len tm)"
  shows "\<exists>n. n < chunks amount \<and> s = of_nat n \<and> len = payload_len amount n"
  using assms(2,3)
proof (induction deadline k evs rule: wait_for_ack.induct)
  case (2 deadline ignored now ev evs)
  show ?case
  proof (cases ev)
    case (TpPacket raw t)
    then have "raw \<in> server_sends amount" using "2.prems"(1) by (simp add: events_from_def)
    then show ?thesis
    proof (cases rule: server_sends_cases)
      case (3 n)
      then show ?thesis using "2.prems"(2) stream_packet_facts [OF assms(1) 3(1)]
        by (auto simp: TpPacket Let_def split: if_splits)
    qed (use "2.prems"(2) TpPacket in \<open>auto simp: take_ctrl Let_def split: if_splits\<close>)
  qed (use "2.prems"(2) in \<open>auto split: if_splits\<close>)
qed simp

lemma loss_percent_facts:
  assumes "r \<le> s" "0 < s" "s < 2 ^ 32"
  shows "0 \<le> loss_percent (of_nat s) (of_nat r) \<and> loss_percent (of_nat s) (of_nat r) \<le> 100 \<and>
    (loss_percent (of_nat s) (of_nat r) = 0) = (r = s)"
proof -
  have u: "unat (of_nat s :: u32) = s" "unat (of_nat r :: u32) = r"
    using assms by (simp_all add: unat_of_nat_u32)
  have e: "fl (real s) = real s" "fl (real (s - r)) = real (s - r)"
    using assms(3) by (intro fl.rnd_nat; simp)+
  have nz: "(of_nat s :: u32) \<noteq> 0" using u(1) assms(2) by (metis unat_0 less_irrefl)
  have l: "loss_percent (of_nat s) (of_nat r) = fl (fl (real (s - r) / real s) * 100)"
    using nz by (simp only: loss_percent_def if_False Let_def unat_sat_sub u e f64_ops)
  have "0 < fl (fl (real (s - r) / real s) * 100)" if "r < s"
    using that assms(2) by (intro fl_pos mult_pos_pos) simp_all
  moreover have "fl (fl (real (s - r) / real s) * 100) = 0" if "r = s" using that by simp
  ultimately show ?thesis unfolding l using fl.percent_bounds [of "s - r" s] assms(1,2) by fastforce
qed

section \<open>The wire\<close>

text \<open>Control packets are read back, and a stream is never taken for one. Every command and
  value survives its twelve bytes, the client's and the server's encoders agree, and no data
  packet of a transfer below four gibibytes passes the control-packet test.\<close>

theorem ctrl_roundtrip:
  "ctrl_dec (make_ctrl cmd v) = Some (cmd, v) \<and> client_make_ctrl cmd v = make_ctrl cmd v \<and>
   (\<nexists>n. amount < 2 ^ 32 \<and> n < chunks amount \<and>
      is_ctrl (data_packet (of_nat n) (total_seqs_of amount) (payload_len amount n)))"
  using ctrl.dec_enc [of "(cmd, v)"] stream_not_ctrl
  by (auto simp: client_make_ctrl_def make_ctrl_def Let_def)

lemma client_ctrl: "client_make_ctrl cmd v = make_ctrl cmd v"
  by (simp add: client_make_ctrl_def make_ctrl_def Let_def)

section \<open>Downloads\<close>

text \<open>A download is sent exactly. When every send succeeds, the stream for a request below
  four gibibytes numbers its packets from zero without a gap, their payloads add up to the
  request, none is empty or longer than a chunk, and the end marker follows.\<close>

theorem download_stream_exact:
  assumes "amount < 2 ^ 32"
  shows "send_download (\<lambda>_. True) amount =
      map (stream_packet amount) [0..<chunks amount] @ [make_ctrl CMD_DONE (of_nat amount)] \<and>
    map data_seq (map (stream_packet amount) [0..<chunks amount]) = map of_nat [0..<chunks amount] \<and>
    (\<Sum>n<chunks amount. length (stream_packet amount n) - DATA_HDR_LEN) = amount \<and>
    card {n. n < chunks amount \<and> length (stream_packet amount n) - DATA_HDR_LEN \<notin> {1..CHUNK_SIZE}} = 0"
proof -
  have all: "takeWhile (\<lambda>_. True) ns = ns" for ns :: "nat list" by (induction ns) simp_all
  have "send_download (\<lambda>_. True) amount =
      map (stream_packet amount) [0..<chunks amount] @ [make_ctrl CMD_DONE (of_nat amount)]"
    unfolding send_download_eq [OF assms, of "\<lambda>_. True"] all by (simp add: stream_packet_def [abs_def])
  moreover have "data_seq (stream_packet amount n) = of_nat n"
      "length (stream_packet amount n) - DATA_HDR_LEN = payload_len amount n" for n
    by (simp_all add: stream_packet_def)
  moreover have "payload_len amount n \<in> {1..CHUNK_SIZE}" if "n < chunks amount" for n
    using payload_len_pos [OF that] by (auto simp: payload_len_def)
  then have none: "{n. n < chunks amount \<and> payload_len amount n \<notin> {1..CHUNK_SIZE}} = {}" by blast
  ultimately show ?thesis using payload_total [of amount] by (simp only: none map_map comp_def card.empty simp_thms)
qed

theorem download_stream_exact_witness:
  "send_download (\<lambda>_. True) 3000 =
     map (stream_packet 3000) [0..<3] @ [make_ctrl CMD_DONE 3000]"
  using download_stream_exact [of 3000] by (simp add: div_ceil_def CHUNK_SIZE_def)

lemma recv_download_counted:
  assumes "amount < 2 ^ 32" "events_from amount evs"
    "\<forall>n len tm. early = Some (n, len, tm) \<longrightarrow> (\<exists>k < chunks amount. n = of_nat k \<and> len = payload_len amount k)"
  shows "\<exists>N. counted amount N (dl_seqs (recv_download t0 deadline early evs))
    (dl_bytes (recv_download t0 deadline early evs))"
proof (cases early)
  case None
  then show ?thesis using assms(1,2) unfolding recv_download_def Let_def
    by (intro download_loop_counted [where N = "{}"]) (simp_all add: counted_def)
next
  case (Some e)
  obtain n len tm where e: "e = (n, len, tm)" by (cases e)
  obtain k where "k < chunks amount" "n = of_nat k" "len = payload_len amount k"
    using assms(3) Some e by blast
  then show ?thesis using assms(1,2) Some e unfolding recv_download_def Let_def
    by (intro download_loop_counted [where N = "{k}"]) (simp_all add: counted_def)
qed

lemma received_count:
  assumes "amount < 2 ^ 32" "counted amount N seqs b"
  shows "card seqs = card N" "card N \<le> chunks amount" "card N = chunks amount \<longleftrightarrow> N = {..<chunks amount}"
proof -
  have N: "N \<subseteq> {..<chunks amount}" "seqs = of_nat ` N" using assms(2) by (simp_all add: counted_def)
  show "card seqs = card N"
    unfolding N(2) by (rule card_image) (rule inj_on_subset [OF seq_inj [OF assms(1)] N(1)])
  show "card N \<le> chunks amount" using card_mono [OF _ N(1)] by simp
  show "card N = chunks amount \<longleftrightarrow> N = {..<chunks amount}"
    using card_subset_eq [OF _ N(1)] by auto
qed

text \<open>A download reports what arrived. Whatever the path loses, repeats or reorders of the
  server's stream, a completed download of at least one byte counts a set of the stream's
  numbers, each once: its throughput is taken over exactly their payload, it succeeds when the
  set is not empty, and its loss is a percentage that is zero exactly when all have arrived.\<close>

theorem download_honest:
  assumes "0 < amount" "amount < 2 ^ 32"
    "events_from amount (io_ack_events io)" "events_from amount (io_events io)"
    "at_udp_throughput (run_udpdownload_probe amount cfg ids io) = Some r"
  shows "\<exists>N \<subseteq> {..<chunks amount}.
    ur_datagrams_received r = Some (of_nat (card N)) \<and>
    ur_throughput_mbps r = mbps (sum (payload_len amount) N) (ur_transfer_ms r) \<and>
    at_success (run_udpdownload_probe amount cfg ids io) = (N \<noteq> {}) \<and>
    0 \<le> ur_loss_percent r \<and> ur_loss_percent r \<le> 100 \<and>
    (ur_loss_percent r = 0) = (N = {..<chunks amount})"
proof -
  define timeout where "timeout = from_millis (uc_timeout_ms cfg)"
  define deadline where "deadline = io_recv_start io + timeout"
  obtain remote where c: "io_connect io = Inr remote"
    using assms(5) by (cases "io_connect io") (simp_all add: run_udpdownload_probe_def udp_tp_failed_def attempt.defs)
  have sd: "io_send_error io = None"
    using assms(5) c by (cases "io_send_error io") (simp_all add: run_udpdownload_probe_def udp_tp_failed_def attempt.defs)
  obtain ack where ack: "wait_for_ack (io_ack_start io + timeout) 0 (io_ack_events io) = Inr ack"
    using assms(5) c sd
    by (cases "wait_for_ack (io_ack_start io + timeout) 0 (io_ack_events io)")
      (simp_all add: run_udpdownload_probe_def timeout_def udp_tp_failed_def attempt.defs)
  define d where "d = (case ack of
      AckDone \<Rightarrow> ({}, 0, 0)
    | Ack \<Rightarrow> (let d = recv_download (io_start io) deadline None (io_events io)
             in (dl_seqs d, dl_bytes d, transfer_ms d))
    | EarlyData n len tm \<Rightarrow> (let d = recv_download (io_start io) deadline (Some (n, len, tm)) (io_events io)
             in (dl_seqs d, dl_bytes d, transfer_ms d)))"
  obtain seqs b ms where dd: "d = (seqs, b, ms)" by (cases d)
  have "\<exists>N. counted amount N seqs b"
  proof (cases ack)
    case Ack
    then show ?thesis
      using recv_download_counted [OF assms(2,4), of None] dd by (auto simp: d_def Let_def)
  next
    case (EarlyData n len tm)
    then obtain k where "k < chunks amount" "n = of_nat k" "len = payload_len amount k"
      using wait_for_ack_early [OF assms(2,3)] ack by blast
    then show ?thesis
      using recv_download_counted [OF assms(2,4), of "Some (n, len, tm)"] dd EarlyData by (auto simp: d_def Let_def)
  next
    case AckDone
    then show ?thesis using dd by (auto simp: d_def counted_def intro: exI [of _ "{}"])
  qed
  then obtain N where N: "counted amount N seqs b" by blast
  note rc = received_count [OF assms(2) N]
  have r: "run_udpdownload_probe amount cfg ids io = udp_tp_done ids UdpDownload (0 < (of_nat (card seqs) :: u32))
      \<lparr>ur_remote_addr = remote, ur_payload_bytes = amount,
       ur_datagrams_sent = total_seqs_of amount,
       ur_datagrams_received = Some (of_nat (card seqs)), ur_bytes_acked = None,
       ur_loss_percent = loss_percent (total_seqs_of amount) (of_nat (card seqs)),
       ur_transfer_ms = ms, ur_throughput_mbps = mbps b ms,
       ur_started_at = ai_started_at ids, ur_local_drops = io_local_drops io,
       ur_so_rcvbuf_bytes = io_so_rcvbuf io\<rparr>"
    using c sd ack dd
    by (simp add: run_udpdownload_probe_def timeout_def deadline_def d_def Let_def split: ack_outcome.splits)
  have pos: "0 < chunks amount"
    using payload_total [of amount] assms(1) by (cases "chunks amount") simp_all
  have lt: "chunks amount < 2 ^ 32" by (rule chunks_less [OF assms(2)])
  have succ: "(0 < (of_nat (card N) :: u32)) = (N \<noteq> {})"
  proof -
    have "unat (of_nat (card N) :: u32) = card N" using rc(2) lt by (simp add: unat_of_nat_u32)
    moreover have "finite N" using N finite_subset by (auto simp: counted_def)
    ultimately show ?thesis by (simp add: word_less_nat_alt card_gt_0_iff)
  qed
  have "total_seqs_of amount = of_nat (chunks amount)" by (simp add: total_seqs_of_def)
  with loss_percent_facts [OF rc(2) pos lt] rc r succ N assms(5) show ?thesis
    by (intro exI [of _ N]) (auto simp: udp_tp_done_def attempt_new_def attempt_new_sel attempt.defs counted_def)
qed

definition demo_ids :: attempt_ids where
  "demo_ids = \<lparr>ai_run_id = 1, ai_attempt_id = 2, ai_sequence_num = 0, ai_started_at = 0, ai_finished_at = 5,
     ai_error_at = 5\<rparr>"

definition demo_tp_io :: udp_tp_io where
  "demo_tp_io = \<lparr>io_connect = Inr (V4 0, 9998), io_send_error = None, io_ack_start = 0,
     io_ack_events = [(0, TpPacket (make_ctrl CMD_ACK 0) 1)], io_start = 1, io_recv_start = 1, io_end = 5,
     io_report_start = 5, io_events = [], io_send_ok = (\<lambda>_. True), io_local_drops = None, io_so_rcvbuf = None\<rparr>"

theorem download_honest_witness:
  "\<exists>r. at_udp_throughput (run_udpdownload_probe 3000 udp_throughput_config_default demo_ids demo_tp_io) = Some r \<and>
     ur_loss_percent r \<le> 100"
proof -
  have ev: "events_from 3000 (io_ack_events demo_tp_io)" "events_from 3000 (io_events demo_tp_io)"
    by (simp_all add: events_from_def demo_tp_io_def server_sends_def)
  have "wait_for_ack (from_millis 30000) 0 [(0, TpPacket (make_ctrl CMD_ACK 0) 1)] = Inr Ack"
    by (simp add: take_ctrl from_millis_def)
  then obtain r where "at_udp_throughput (run_udpdownload_probe 3000 udp_throughput_config_default demo_ids
      demo_tp_io) = Some r"
    by (simp add: run_udpdownload_probe_def demo_tp_io_def udp_throughput_config_default_def Let_def
        udp_tp_done_def attempt.defs)
  from download_honest [OF _ _ ev this] this show ?thesis by auto
qed

section \<open>Uploads\<close>

text \<open>An upload is reported exactly. After an upload request from an address, and until its
  end marker, let any datagrams arrive: from that address data packets of a stream in any
  order, repeated or missing, all within the state's lifetime; from other addresses anything.
  Then the report holds the payload of the numbers that arrived, each once. It does not
  matter what the server knew of the address before: a repeated request starts from zero.\<close>

theorem upload_report_exact:
  assumes "in_pkt i0 = Some (make_ctrl CMD_UPLOAD v)" "in_src i0 = a"
    "fresh_at (in_created i0) i0"
    "\<forall>i \<in> set is. upload_data L a i \<and> fresh_at (in_created i0) i"
    "in_pkt i1 = Some (make_ctrl CMD_DONE w)" "in_src i1 = a"
  shows "out_sends (fst (tp_step i1 (tp_run s (i0 # is)))) =
    [(make_ctrl CMD_REPORT (of_nat (sum L (seqs_from a is))), a, in_local_ip i1)]"
proof -
  define st where "st = \<lparr>us_expected_bytes = unat v, us_received_seqs = {}, us_received_bytes = 0,
    us_created_at = in_created i0\<rparr>"
  have ne: "CMD_UPLOAD \<noteq> CMD_DOWNLOAD" "CMD_DONE \<noteq> CMD_DOWNLOAD" "CMD_DONE \<noteq> CMD_UPLOAD"
    by (simp_all add: tp_consts)
  have "((tp_uploads s)(a \<mapsto> st)) a = Some st" by simp
  moreover have "in_reap i0 < us_created_at st + UPLOAD_STATE_TTL"
    using assms(3) by (simp add: st_def fresh_at_def)
  ultimately have "reap_stale_uploads (in_reap i0) ((tp_uploads s)(a \<mapsto> st)) a = Some st"
    by (rule reap_keeps)
  then have "tp_uploads (snd (tp_step i0 s)) a = Some st"
    using assms(1,2) ne by (simp add: tp_step_def tp_control_def Let_def st_def)
  moreover have "upload_counts L {} (in_created i0) st" by (simp add: upload_counts_def st_def)
  ultimately obtain st' where "tp_uploads (tp_run (snd (tp_step i0 s)) is) a = Some st'"
      "upload_counts L (seqs_from a is) (in_created i0) st'"
    using tp_run_upload [of "snd (tp_step i0 s)" a st L "{}" "in_created i0" "is"] assms(4) by auto
  then show ?thesis using assms(5,6) ne
    by (simp add: tp_step_def tp_control_def Let_def no_output_def upload_counts_def)
qed

definition demo_input :: "bytes \<Rightarrow> tp_input" where
  "demo_input pkt = \<lparr>in_pkt = Some pkt, in_src = (V4 1, 5000), in_local_ip = None, in_created = 0, in_reap = 1\<rparr>"

theorem upload_report_exact_witness:
  "out_sends (fst (tp_step (demo_input (make_ctrl CMD_DONE 9))
     (tp_run tp_server_new (map demo_input
       [make_ctrl CMD_UPLOAD 9, data_packet 1 2 4, data_packet 0 2 4, data_packet 1 2 4])))) =
   [(make_ctrl CMD_REPORT 8, (V4 1, 5000), None)]"
proof -
  have "(0::u32) \<noteq> MAGIC_SEQ" "(1::u32) \<noteq> MAGIC_SEQ" by (simp_all add: MAGIC_SEQ_def)
  then have nc: "\<not> is_ctrl (data_packet 0 2 4)" "\<not> is_ctrl (data_packet 1 2 4)"
    by (simp_all add: data_not_ctrl)
  let ?is = "map demo_input [data_packet 1 2 4, data_packet 0 2 4, data_packet 1 2 4]"
  have "seqs_from (V4 1, 5000) [demo_input (data_packet n 2 4)] = {n}" for n
    by (auto simp: seqs_from_def demo_input_def)
  then have "seqs_from (V4 1, 5000) ?is = {0, 1}"
    using seqs_from_Cons [of "(V4 1, 5000)" "demo_input (data_packet 1 2 4)"
        "[demo_input (data_packet 0 2 4), demo_input (data_packet 1 2 4)]"]
      seqs_from_Cons [of "(V4 1, 5000)" "demo_input (data_packet 0 2 4)" "[demo_input (data_packet 1 2 4)]"]
    by auto
  moreover have "sum (\<lambda>_. 4) {0, 1 :: u32} = (8 :: nat)" by simp
  ultimately show ?thesis
    using upload_report_exact [where ?i0.0 = "demo_input (make_ctrl CMD_UPLOAD 9)" and v = 9 and
        ?is = ?is and L = "\<lambda>_. 4" and ?i1.0 = "demo_input (make_ctrl CMD_DONE 9)" and w = 9 and
        a = "(V4 1, 5000)" and s = tp_server_new] nc
    by (simp add: demo_input_def fresh_at_def upload_data_def UPLOAD_STATE_TTL_def from_secs_def)
qed

lemma send_upload_packets:
  assumes "0 < amount" "amount < 2 ^ 32"
  shows "ul_packets (send_upload (\<lambda>_. True) amount t0 t1 deadline evs) =
    map (stream_packet amount) [0..<chunks amount] @ [make_ctrl CMD_DONE (of_nat amount)]"
proof -
  have all: "takeWhile (\<lambda>_. True) ns = ns" for ns :: "nat list" by (induction ns) simp_all
  show ?thesis
    using data_loop_eq [OF le_refl, of "\<lambda>_. True" "total_seqs_of amount" amount 0] assms
    by (simp add: send_upload_def total_seqs_of_eq Let_def client_ctrl all stream_packet_def [abs_def])
qed

lemma send_upload_acked:
  "0 < amount \<Longrightarrow> ul_bytes_acked (send_upload ok amount t0 t1 deadline evs) = wait_for_report deadline evs"
  by (simp add: send_upload_def Let_def)

text \<open>An upload on a path that loses nothing arrives whole. When the client's packets reach
  the server in any order, with any repetitions and between datagrams of other clients, the
  server's report is the upload's size, and the client counts a loss of zero.\<close>

theorem upload_end_to_end:
  assumes "0 < amount" "amount < 2 ^ 32"
    "u = send_upload (\<lambda>_. True) amount t0 t1 deadline
           [(now, TpPacket (fst (hd (out_sends (fst (tp_step i1 (tp_run s (i0 # is))))))) tm)]"
    "in_pkt i0 = Some (upload_request amount)" "in_src i0 = a"
    "in_pkt i1 = Some (last (ul_packets u))" "in_src i1 = a"
    "{pkt. \<exists>i \<in> set is. in_src i = a \<and> in_pkt i = Some pkt} = set (butlast (ul_packets u))"
    "\<forall>i \<in> insert i0 (set is). fresh_at (in_created i0) i" "now < deadline"
  shows "ul_bytes_acked u = Some amount"
proof -
  have pk: "ul_packets u = map (stream_packet amount) [0..<chunks amount] @ [make_ctrl CMD_DONE (of_nat amount)]"
    unfolding assms(3) by (rule send_upload_packets [OF assms(1,2)])
  define L :: "u32 \<Rightarrow> nat" where "L n = payload_len amount (unat n)" for n
  have sent: "\<exists>n < chunks amount. pkt = stream_packet amount n"
    if "i \<in> set is" "in_src i = a" "in_pkt i = Some pkt" for i pkt
  proof -
    have "pkt \<in> set (butlast (ul_packets u))" using that assms(8) by blast
    then show ?thesis by (auto simp: pk)
  qed
  have "upload_data L a i" if "i \<in> set is" for i
    using sent [OF that] stream_packet_facts [OF assms(2)] seq_unat [OF assms(2)]
    by (auto simp: upload_data_def L_def split: option.split)
  then have ud: "\<forall>i \<in> set is. upload_data L a i \<and> fresh_at (in_created i0) i" using assms(9) by simp
  have seqs: "seqs_from a is = of_nat ` {..<chunks amount}"
  proof
    show "seqs_from a is \<subseteq> of_nat ` {..<chunks amount}"
    proof
      fix n assume "n \<in> seqs_from a is"
      then obtain i pkt where i: "i \<in> set is" "in_src i = a" "in_pkt i = Some pkt" "n = data_seq pkt"
        by (auto simp: seqs_from_def)
      with sent obtain k where "k < chunks amount" "pkt = stream_packet amount k" by blast
      then show "n \<in> of_nat ` {..<chunks amount}"
        using i(4) stream_packet_facts(5) [OF assms(2)] by auto
    qed
    show "of_nat ` {..<chunks amount} \<subseteq> seqs_from a is"
    proof clarsimp
      fix n assume n: "n < chunks amount"
      then have "stream_packet amount n \<in> set (butlast (ul_packets u))" by (simp add: pk)
      then obtain i where "i \<in> set is" "in_src i = a" "in_pkt i = Some (stream_packet amount n)"
        using assms(8) by blast
      with stream_packet_facts [OF assms(2) n] show "word_of_nat n \<in> seqs_from a is"
        unfolding seqs_from_def by force
    qed
  qed
  have "sum L (seqs_from a is) = (\<Sum>n<chunks amount. L (of_nat n))"
    unfolding seqs using sum.reindex [OF seq_inj [OF assms(2)]] by simp
  also have "\<dots> = amount"
    using payload_total [of amount] seq_unat [OF assms(2)] by (simp add: L_def)
  finally have rep: "out_sends (fst (tp_step i1 (tp_run s (i0 # is)))) =
      [(make_ctrl CMD_REPORT (of_nat amount), a, in_local_ip i1)]"
    using upload_report_exact [OF _ assms(5) _ ud _ assms(7)] assms(4,6,9)
    by (simp add: upload_request_def client_ctrl pk)
  show ?thesis using assms(1,2,10) unfolding assms(3) rep
    by (simp add: send_upload_def Let_def take_ctrl unat_of_nat_u32)
qed

theorem upload_end_to_end_witness:
  "\<exists>u :: upload. ul_bytes_acked u = Some 1 \<and> ul_packets u = [stream_packet 1 0, make_ctrl CMD_DONE 1]"
proof -
  define i0 where "i0 = demo_input (upload_request 1)"
  define i1 where "i1 = demo_input (make_ctrl CMD_DONE 1)"
  define js where "js = map demo_input [stream_packet 1 0, stream_packet 1 0]"
  define evs where "evs = [(5 :: instant, TpPacket (fst (hd (out_sends (fst (tp_step i1 (tp_run tp_server_new (i0 # js))))))) 6)]"
  define u where "u = send_upload (\<lambda>_. True) 1 2 3 9 evs"
  have "chunks 1 = 1" by (simp add: div_ceil_def CHUNK_SIZE_def)
  then have pk: "ul_packets u = [stream_packet 1 0, make_ctrl CMD_DONE 1]"
    using send_upload_packets [of 1 2 3 9 evs] by (simp add: u_def)
  have "ul_bytes_acked u = Some 1"
  proof (rule upload_end_to_end [where ?i0.0 = i0 and ?i1.0 = i1 and ?is = js and a = "(V4 1, 5000)" and s = tp_server_new])
    show "u = send_upload (\<lambda>_. True) 1 2 3 9
        [(5, TpPacket (fst (hd (out_sends (fst (tp_step i1 (tp_run tp_server_new (i0 # js))))))) 6)]"
      by (simp only: u_def evs_def)
    show "\<forall>i \<in> insert i0 (set js). fresh_at (in_created i0) i"
      by (simp add: i0_def js_def demo_input_def fresh_at_def UPLOAD_STATE_TTL_def from_secs_def)
  qed (auto simp: pk i0_def i1_def js_def demo_input_def)
  then show ?thesis using pk by (intro exI [of _ u] conjI)
qed

text \<open>An upload never reports a loss it cannot know. Without a report from the server the
  probe fails with an error and carries no result; with one, its loss is a percentage that is
  zero exactly when the server received at least what was sent.\<close>

theorem upload_honest:
  assumes "0 < amount" "amount \<le> 2 ^ 53"
  shows "case at_udp_throughput (run_udpupload_probe amount cfg ids io) of
      None \<Rightarrow> \<not> at_success (run_udpupload_probe amount cfg ids io) \<and>
        at_error (run_udpupload_probe amount cfg ids io) \<noteq> None
    | Some r \<Rightarrow> \<exists>acked. ur_bytes_acked r = Some acked \<and>
        wait_for_report (io_report_start io + from_millis (uc_timeout_ms cfg)) (io_events io) = Some acked \<and>
        at_success (run_udpupload_probe amount cfg ids io) = (0 < acked) \<and>
        0 \<le> ur_loss_percent r \<and> ur_loss_percent r \<le> 100 \<and> (ur_loss_percent r = 0) = (amount \<le> acked)"
proof -
  have loss: "0 \<le> p \<and> p \<le> 100 \<and> (p = 0) = (amount \<le> acked)"
    if "p = f64_mul (f64_div (fl (real (amount - acked))) (fl (real amount))) 100" for p acked
  proof -
    have e: "fl (real amount) = real amount" "fl (real (amount - acked)) = real (amount - acked)"
      using assms(2) by (intro fl.rnd_nat; simp)+
    have p: "p = fl (fl (real (amount - acked) / real amount) * 100)"
      using that by (simp only: e f64_ops)
    have "0 < p" if "acked < amount" using that assms(1) unfolding p
      by (intro fl_pos mult_pos_pos) simp_all
    moreover have "p = 0" if "amount \<le> acked" using that unfolding p by simp
    ultimately show ?thesis using fl.percent_bounds [of "amount - acked" amount] assms(1)
      unfolding p by fastforce
  qed
  define timeout where "timeout = from_millis (uc_timeout_ms cfg)"
  define run where "run = run_udpupload_probe amount cfg ids io"
  have failed: ?thesis if "run = udp_tp_failed ids UdpUpload msg" for msg
    using that by (simp add: run_def udp_tp_failed_def attempt.defs attempt_new_def)
  show ?thesis
  proof (cases "io_connect io")
    case (Inl msg)
    then show ?thesis by (intro failed) (simp add: run_def run_udpupload_probe_def)
  next
    case c: (Inr remote)
    show ?thesis
    proof (cases "io_send_error io")
      case (Some e)
      with c show ?thesis by (intro failed) (simp add: run_def run_udpupload_probe_def)
    next
      case sd: None
      show ?thesis
      proof (cases "wait_for_ack (io_ack_start io + timeout) 0 (io_ack_events io)")
        case (Inl msg)
        with c sd show ?thesis
          by (intro failed) (simp add: run_def run_udpupload_probe_def timeout_def Let_def)
      next
        case ack: (Inr ack)
        have u: "ul_bytes_acked (send_upload (io_send_ok io) amount (io_start io) (io_end io)
            (io_report_start io + timeout) (io_events io)) =
            wait_for_report (io_report_start io + timeout) (io_events io)"
          using assms(1) by (rule send_upload_acked)
        show ?thesis
        proof (cases "wait_for_report (io_report_start io + timeout) (io_events io)")
          case None
          with c sd ack u show ?thesis
            by (intro failed) (simp add: run_def run_udpupload_probe_def timeout_def Let_def)
        next
          case (Some acked)
          show ?thesis
            using c sd ack u Some assms(1) loss [OF refl, of acked]
            by (simp add: run_udpupload_probe_def timeout_def Let_def udp_tp_done_def attempt.defs
                attempt_new_def)
        qed
      qed
    qed
  qed
qed

theorem upload_honest_witness:
  "at_success (run_udpupload_probe 3000 udp_throughput_config_default demo_ids
     (demo_tp_io\<lparr>io_events := [(6, TpPacket (make_ctrl CMD_REPORT 1400) 7)]\<rparr>))"
proof -
  let ?io = "demo_tp_io\<lparr>io_events := [(6, TpPacket (make_ctrl CMD_REPORT 1400) 7)]\<rparr>"
  let ?run = "run_udpupload_probe 3000 udp_throughput_config_default demo_ids ?io"
  have report: "wait_for_report (io_report_start ?io + from_millis (uc_timeout_ms udp_throughput_config_default))
      (io_events ?io) = Some 1400"
    by (simp add: take_ctrl from_millis_def demo_tp_io_def udp_throughput_config_default_def)
  have ack: "wait_for_ack (io_ack_start ?io + from_millis (uc_timeout_ms udp_throughput_config_default)) 0
      (io_ack_events ?io) = Inr Ack"
    by (simp add: take_ctrl from_millis_def demo_tp_io_def udp_throughput_config_default_def)
  have io: "io_connect ?io = Inr (V4 0, 9998)" "io_send_error ?io = None" by (simp_all add: demo_tp_io_def)
  have pos: "0 < (3000 :: nat)" by simp
  have "at_udp_throughput ?run \<noteq> None"
    unfolding run_udpupload_probe_def io sum.case option.case Let_def ack send_upload_acked [OF pos] report
    by (simp add: udp_tp_done_def attempt.defs)
  then obtain r where r: "at_udp_throughput ?run = Some r" by blast
  have le: "3000 \<le> (2 ^ 53 :: nat)" by simp
  from upload_honest [OF pos le, of udp_throughput_config_default demo_ids ?io]
  obtain acked where "Some (1400 :: nat) = Some acked" "at_success ?run = (0 < acked)"
    unfolding r option.case report by (elim exE conjE) (rule that)
  then show ?thesis by simp
qed

text \<open>A request of four gibibytes or more is asked for modulo the field's width: the probe
  asks the server for the remainder, and still counts every chunk of the whole as sent.\<close>

theorem request_truncated:
  "download_request (2 ^ 32 + amount) = download_request amount \<and>
   upload_request (2 ^ 32 + amount) = upload_request amount \<and>
   download_request amount = make_ctrl CMD_DOWNLOAD (of_nat amount)"
proof -
  have "(of_nat (2 ^ 32) :: u32) = 0"
    by (simp add: word_of_nat_eq_0_iff)
  then have "(of_nat (2 ^ 32 + amount) :: u32) = of_nat amount"
    by (simp only: of_nat_add add_0_left)
  then show ?thesis by (simp only: download_request_def upload_request_def client_ctrl simp_thms)
qed

end
