(* ===== verification/Pmtud.thy ===== *)
theory Pmtud
  imports Probe "HOL-Library.Log_Nat"
begin

text \<open>
  Path-MTU discovery (\<open>crates/networker-tester/src/runner/pmtud.rs\<close>): the binary search both
  platform modules share, the Linux module over the socket's error queue, the portable module
  over the errors of \<open>recv\<close>, the verdict and the runner.

  A payload size and an MTU are at most 65535 and are natural numbers, with the source's
  saturating subtractions as \<open>-\<close>. The search takes its classifier as a state transformer, as
  the source takes a closure. A platform is a \<open>prober\<close>: what one send and its wait say, as a
  function of the probe's number, its size and the wait. The libc constants are a parameter.
\<close>

section \<open>Configuration\<close>

definition DEFAULT_PMTUD_TIMEOUT_MS :: nat where "DEFAULT_PMTUD_TIMEOUT_MS = 1000"
definition DEFAULT_PMTUD_RETRIES :: u32 where "DEFAULT_PMTUD_RETRIES = 2"
definition DEFAULT_PMTUD_MAX_MTU :: nat where "DEFAULT_PMTUD_MAX_MTU = 9216"
definition PMTUD_ICMP_WAIT_CAP_MS :: nat where "PMTUD_ICMP_WAIT_CAP_MS = 300"

record pmtud_probe_config =
  pc_target_host :: string
  pc_target_port :: u16
  pc_probe_timeout_ms :: nat
  pc_retries_per_size :: u32
  pc_max_mtu :: nat

definition pmtud_probe_config_default :: pmtud_probe_config where
  "pmtud_probe_config_default =
     \<lparr>pc_target_host = ''127.0.0.1'', pc_target_port = 9999,
      pc_probe_timeout_ms = DEFAULT_PMTUD_TIMEOUT_MS, pc_retries_per_size = DEFAULT_PMTUD_RETRIES,
      pc_max_mtu = DEFAULT_PMTUD_MAX_MTU\<rparr>"

section \<open>The search\<close>

datatype size_class = Fit | Silent | TooBig "nat option" bool

record evidence =
  ev_confirmed_seen :: bool
  ev_wire_icmp_seen :: bool
  ev_bound_found :: bool
  ev_icmp_mtu :: "nat option"

definition no_evidence :: evidence where
  "no_evidence = \<lparr>ev_confirmed_seen = False, ev_wire_icmp_seen = False, ev_bound_found = False,
     ev_icmp_mtu = None\<rparr>"

definition note_class :: "size_class \<Rightarrow> evidence \<Rightarrow> evidence" where
  "note_class c e = (case c of
     Fit \<Rightarrow> e\<lparr>ev_confirmed_seen := True\<rparr>
   | TooBig mtu wire_icmp \<Rightarrow>
       (let e = e\<lparr>ev_bound_found := True\<rparr>
        in if wire_icmp
           then (let e = e\<lparr>ev_wire_icmp_seen := True\<rparr>
                 in case mtu of
                      Some m \<Rightarrow> e\<lparr>ev_icmp_mtu :=
                        Some (case ev_icmp_mtu e of None \<Rightarrow> m | Some cur \<Rightarrow> min cur m)\<rparr>
                    | None \<Rightarrow> e)
           else e)
   | Silent \<Rightarrow> e)"

type_synonym 's classifier = "'s \<Rightarrow> nat \<Rightarrow> (string + size_class) \<times> 's"

text \<open>The bound that a rejected size leaves.\<close>

definition bound_mtu :: "nat \<Rightarrow> nat option \<Rightarrow> nat \<Rightarrow> nat" where
  "bound_mtu header mtu hi = (case mtu of Some m \<Rightarrow> min hi (m - header) | None \<Rightarrow> hi)"

fun working_floor ::
  "'s classifier \<Rightarrow> nat \<Rightarrow> nat list \<Rightarrow> nat \<Rightarrow> evidence \<Rightarrow> 's \<Rightarrow>
   (string + nat option \<times> nat \<times> evidence) \<times> 's" where
  "working_floor classify header [] hi e s = (Inr (None, hi, e), s)"
| "working_floor classify header (candidate # cs) hi e s =
     (case classify s candidate of
        (Inl msg, s) \<Rightarrow> (Inl msg, s)
      | (Inr c, s) \<Rightarrow>
          (let e = note_class c e
           in case c of
                TooBig mtu _ \<Rightarrow>
                  working_floor classify header cs (bound_mtu header mtu (min hi (candidate - 1))) e s
              | _ \<Rightarrow> (Inr (Some candidate, hi, e), s)))"

definition search_mid :: "nat \<Rightarrow> nat \<Rightarrow> nat" where
  "search_mid lo hi = lo + (hi - lo + 1) div 2"

function search_loop ::
  "'s classifier \<Rightarrow> nat \<Rightarrow> nat \<Rightarrow> nat \<Rightarrow> evidence \<Rightarrow> 's \<Rightarrow> (string + nat \<times> evidence) \<times> 's" where
  "search_loop classify header lo hi e s =
     (if \<not> lo < hi then (Inr (lo, e), s)
      else let mid = search_mid lo hi
           in case classify s mid of
                (Inl msg, s) \<Rightarrow> (Inl msg, s)
              | (Inr c, s) \<Rightarrow>
                  (let e = note_class c e
                   in case c of
                        TooBig mtu _ \<Rightarrow> search_loop classify header lo (bound_mtu header mtu (mid - 1)) e s
                      | _ \<Rightarrow> search_loop classify header mid hi e s))"
  by pat_completeness auto
termination
  by (relation "measure (\<lambda>(classify, header, lo, hi, e, s). hi - lo)")
    (auto simp: search_mid_def bound_mtu_def split: option.splits)

declare search_loop.simps [simp del]

record search_outcome =
  so_largest_fit :: "nat option"
  so_evidence :: evidence

definition search_largest_fit ::
  "nat \<Rightarrow> nat \<Rightarrow> nat \<Rightarrow> 's classifier \<Rightarrow> 's \<Rightarrow> (string + search_outcome) \<times> 's" where
  "search_largest_fit base ceil header classify s =
     (case working_floor classify header [base, 32] ceil no_evidence s of
        (Inl msg, s) \<Rightarrow> (Inl msg, s)
      | (Inr (None, hi, e), s) \<Rightarrow> (Inr \<lparr>so_largest_fit = None, so_evidence = e\<rparr>, s)
      | (Inr (Some lo, hi, e), s) \<Rightarrow>
          (case search_loop classify header lo hi e s of
             (Inl msg, s) \<Rightarrow> (Inl msg, s)
           | (Inr (fit, e), s) \<Rightarrow> (Inr \<lparr>so_largest_fit = Some fit, so_evidence = e\<rparr>, s)))"

section \<open>Discovery over a prober\<close>

datatype confirm_kind = UdpEcho | PortUnreach

definition confirm_label :: "confirm_kind \<Rightarrow> string" where
  "confirm_label k = (case k of UdpEcho \<Rightarrow> ''udp-echo'' | PortUnreach \<Rightarrow> ''port-unreach'')"

datatype try_result = TrySilent | TryFit confirm_kind | TryTooBig "nat option" bool | TryFatal string

type_synonym prober = "nat \<Rightarrow> nat \<Rightarrow> nat \<Rightarrow> try_result"

text \<open>The stamp at the head of a probe.\<close>

definition stamp_probe :: "bytes \<Rightarrow> u32 \<Rightarrow> u64 \<Rightarrow> bytes" where
  "stamp_probe buf n now_us =
     (if 12 \<le> length buf then splice 4 (be64_bytes now_us) (splice 0 (be32_bytes n) buf) else buf)"

text \<open>The closure's state: the counters and the confirmation, with the stamps and sizes sent.\<close>

record pm_state =
  pm_probes_sent :: nat
  pm_seq :: u32
  pm_confirm :: "confirm_kind option"
  pm_wire :: "(u32 \<times> nat) list"

fun try_sends :: "prober \<Rightarrow> nat \<Rightarrow> nat \<Rightarrow> nat \<Rightarrow> pm_state \<Rightarrow> try_result \<times> pm_state" where
  "try_sends probe wait_ms 0 payload s = (TrySilent, s)"
| "try_sends probe wait_ms (Suc tries) payload s =
     (let s' = s\<lparr>pm_seq := pm_seq s + 1, pm_probes_sent := pm_probes_sent s + 1,
                 pm_wire := (pm_seq s + 1, payload) # pm_wire s\<rparr>
      in case probe (pm_probes_sent s) payload wait_ms of
           TrySilent \<Rightarrow> try_sends probe wait_ms tries payload s'
         | r \<Rightarrow> (r, s'))"

definition get_or_insert :: "'a option \<Rightarrow> 'a \<Rightarrow> 'a option" where
  "get_or_insert m x = (case m of None \<Rightarrow> Some x | Some y \<Rightarrow> Some y)"

definition classify_size :: "prober \<Rightarrow> nat \<Rightarrow> u32 \<Rightarrow> pm_state classifier" where
  "classify_size probe probe_timeout_ms retries s payload =
     (let confirmed_mode = (pm_confirm s \<noteq> None);
          wait_ms = (if confirmed_mode then probe_timeout_ms
                     else min probe_timeout_ms PMTUD_ICMP_WAIT_CAP_MS);
          tries = (if confirmed_mode then unat (retries + 1) else 1)
      in case try_sends probe wait_ms tries payload s of
           (TryFit k, s) \<Rightarrow> (Inr Fit, s\<lparr>pm_confirm := get_or_insert (pm_confirm s) k\<rparr>)
         | (TryTooBig mtu wire_icmp, s) \<Rightarrow> (Inr (TooBig mtu wire_icmp), s)
         | (TryFatal msg, s) \<Rightarrow> (Inl msg, s)
         | (TrySilent, s) \<Rightarrow> (Inr (if confirmed_mode then TooBig None False else Silent), s))"

definition header_of :: "ip_addr \<Rightarrow> nat" where
  "header_of addr = (if is_ipv6 addr then 48 else 28)"

definition floor_of :: "ip_addr \<Rightarrow> nat" where
  "floor_of addr = (if is_ipv6 addr then 1280 else 576) - header_of addr"

definition ceil_of :: "ip_addr \<Rightarrow> nat \<Rightarrow> nat" where
  "ceil_of addr max_mtu = max (max_mtu - header_of addr) (floor_of addr)"

record discover_outcome =
  do_path_mtu :: "nat option"
  do_probes_sent :: nat
  do_method :: string
  do_icmp_mtu :: "nat option"
  do_lower_bound_only :: bool

text \<open>The part of \<open>discover_blocking\<close> after the socket's set-up, which the platform modules
  repeat: \<open>capability\<close> is what the probe at the floor size said, and the method is named by the
  platform.\<close>

definition discover ::
  "(confirm_kind \<Rightarrow> string) \<Rightarrow> string \<Rightarrow> prober \<Rightarrow> confirm_kind option \<Rightarrow>
   ip_addr \<Rightarrow> nat \<Rightarrow> u32 \<Rightarrow> nat \<Rightarrow> string + discover_outcome" where
  "discover confirmed_method icmp_method probe capability addr probe_timeout_ms retries max_mtu =
     (let header = header_of addr;
          base = floor_of addr;
          ceil = ceil_of addr max_mtu;
          s = \<lparr>pm_probes_sent = 1, pm_seq = 0, pm_confirm = capability, pm_wire = [(0, base)]\<rparr>
      in case search_largest_fit base ceil header (classify_size probe probe_timeout_ms retries) s of
           (Inl msg, s) \<Rightarrow> Inl msg
         | (Inr out, s) \<Rightarrow>
             (let (path_mtu, method, lower_bound_only) = (case pm_confirm s of
                    Some kind \<Rightarrow> (map_option (\<lambda>p. p + header) (so_largest_fit out),
                       confirmed_method kind,
                       so_largest_fit out = Some ceil \<and> \<not> ev_bound_found (so_evidence out) \<and>
                         ev_confirmed_seen (so_evidence out))
                  | None \<Rightarrow>
                      if ev_wire_icmp_seen (so_evidence out)
                      then (map_option (\<lambda>p. p + header) (so_largest_fit out), icmp_method, False)
                      else (None, ''df-no-feedback'', False))
              in Inr \<lparr>do_path_mtu = path_mtu, do_probes_sent = pm_probes_sent s, do_method = method,
                      do_icmp_mtu = ev_icmp_mtu (so_evidence out),
                      do_lower_bound_only = lower_bound_only\<rparr>))"

section \<open>Linux\<close>

text \<open>The constants of the libc crate.\<close>

record libc =
  EMSGSIZE :: int
  ECONNREFUSED :: int
  SO_EE_ORIGIN_ICMP :: int
  SO_EE_ORIGIN_ICMP6 :: int
  IPPROTO_IP :: int
  IPPROTO_IPV6 :: int
  IP_RECVERR :: int
  IPV6_RECVERR :: int

record sock_extended_err =
  ee_errno :: u32
  ee_origin :: u8
  ee_type :: u8
  ee_code :: u8
  ee_info :: u32

datatype send_result = SendOk | SendErr "int option" string

datatype send_outcome = Sent | Emsgsize | Fatal string

text \<open>\<open>results n\<close> is the n-th call's. Draining the error queue between calls discards errors only.\<close>

fun send_draining :: "libc \<Rightarrow> nat list \<Rightarrow> (nat \<Rightarrow> send_result) \<Rightarrow> send_outcome" where
  "send_draining lc [] results = Fatal ''UDP send kept failing with pending async errors''"
| "send_draining lc (n # ns) results = (case results n of
     SendOk \<Rightarrow> Sent
   | SendErr raw msg \<Rightarrow>
       (if raw = Some (EMSGSIZE lc) then Emsgsize
        else if raw = Some (ECONNREFUSED lc) then send_draining lc ns results
        else Fatal (''UDP send failed: '' @ msg)))"

datatype feedback = Echo | FbPortUnreach | FragNeeded "nat option" bool | NoFeedback

datatype err_entry = ErrFrag "nat option" bool | ErrPortUnreach | ErrOther | ErrEmpty

definition ICMP_DEST_UNREACH :: u8 where "ICMP_DEST_UNREACH = 3"
definition ICMP_FRAG_NEEDED_CODE :: u8 where "ICMP_FRAG_NEEDED_CODE = 4"
definition ICMP_PORT_UNREACH_CODE :: u8 where "ICMP_PORT_UNREACH_CODE = 3"
definition ICMPV6_DEST_UNREACH :: u8 where "ICMPV6_DEST_UNREACH = 1"
definition ICMPV6_PORT_UNREACH_CODE :: u8 where "ICMPV6_PORT_UNREACH_CODE = 4"
definition ICMPV6_PACKET_TOO_BIG :: u8 where "ICMPV6_PACKET_TOO_BIG = 2"

definition classify_err :: "libc \<Rightarrow> sock_extended_err \<Rightarrow> err_entry" where
  "classify_err lc ee =
     (let origin = uint (ee_origin ee);
          mtu = (if 0 < ee_info ee then Some (unat (ee_info ee)) else None)
      in if origin = SO_EE_ORIGIN_ICMP lc then
           (if ee_type ee = ICMP_DEST_UNREACH \<and> ee_code ee = ICMP_FRAG_NEEDED_CODE then ErrFrag mtu True
            else if ee_type ee = ICMP_DEST_UNREACH \<and> ee_code ee = ICMP_PORT_UNREACH_CODE then ErrPortUnreach
            else ErrOther)
         else if origin = SO_EE_ORIGIN_ICMP6 lc then
           (if ee_type ee = ICMPV6_PACKET_TOO_BIG then ErrFrag mtu True
            else if ee_type ee = ICMPV6_DEST_UNREACH \<and> ee_code ee = ICMPV6_PORT_UNREACH_CODE then ErrPortUnreach
            else ErrOther)
         else if uint (ee_errno ee) = ECONNREFUSED lc then ErrPortUnreach
         else if uint (ee_errno ee) = EMSGSIZE lc then ErrFrag mtu False
         else ErrOther)"

text \<open>One call of \<open>recvmsg\<close> on the error queue: nothing, or the control messages it filled in.\<close>

type_synonym errqueue = "(int \<times> int \<times> sock_extended_err) list option"

definition is_recverr :: "libc \<Rightarrow> int \<times> int \<times> sock_extended_err \<Rightarrow> bool" where
  "is_recverr lc c = (case c of (level, ty, ee) \<Rightarrow>
     (level = IPPROTO_IP lc \<and> ty = IP_RECVERR lc) \<or> (level = IPPROTO_IPV6 lc \<and> ty = IPV6_RECVERR lc))"

definition read_errqueue :: "libc \<Rightarrow> errqueue \<Rightarrow> err_entry" where
  "read_errqueue lc q = (case q of
     None \<Rightarrow> ErrEmpty
   | Some cmsgs \<Rightarrow> (case find (is_recverr lc) cmsgs of
       Some (_, _, ee) \<Rightarrow> classify_err lc ee
     | None \<Rightarrow> ErrOther))"

text \<open>One round of the wait: \<open>poll\<close> fails, or the error queue is read and, where \<open>POLLIN\<close> is
  set, the datagram received.\<close>

datatype poll_round = PollFailed | Polled errqueue "bytes option"

fun wait_feedback :: "libc \<Rightarrow> instant \<Rightarrow> (instant \<times> poll_round) list \<Rightarrow> feedback" where
  "wait_feedback lc deadline [] = NoFeedback"
| "wait_feedback lc deadline ((now, r) # rs) =
     (if deadline \<le> now then NoFeedback
      else case r of
        PollFailed \<Rightarrow> NoFeedback
      | Polled q rx \<Rightarrow> (case read_errqueue lc q of
          ErrFrag mtu wire_icmp \<Rightarrow> FragNeeded mtu wire_icmp
        | ErrPortUnreach \<Rightarrow> FbPortUnreach
        | ErrOther \<Rightarrow> wait_feedback lc deadline rs
        | ErrEmpty \<Rightarrow> (case rx of
            Some pkt \<Rightarrow> if 0 < length pkt then Echo else wait_feedback lc deadline rs
          | None \<Rightarrow> wait_feedback lc deadline rs)))"

text \<open>What the socket did for one probe.\<close>

record linux_io =
  li_send :: "nat \<Rightarrow> send_result"
  li_kernel_mtu :: "int option"
  li_wait_start :: instant
  li_rounds :: "(instant \<times> poll_round) list"

definition current_kernel_mtu :: "linux_io \<Rightarrow> nat option" where
  "current_kernel_mtu io = (case li_kernel_mtu io of
     Some mtu \<Rightarrow> if 0 < mtu then Some (nat mtu) else None | None \<Rightarrow> None)"

definition linux_feedback :: "libc \<Rightarrow> linux_io \<Rightarrow> nat \<Rightarrow> feedback" where
  "linux_feedback lc io timeout_ms =
     wait_feedback lc (li_wait_start io + from_millis (max timeout_ms 1)) (li_rounds io)"

definition linux_probe :: "libc \<Rightarrow> (nat \<Rightarrow> nat \<Rightarrow> linux_io) \<Rightarrow> prober" where
  "linux_probe lc env n payload wait_ms =
     (let io = env n payload
      in case send_draining lc [0..<4] (li_send io) of
           Emsgsize \<Rightarrow> TryTooBig (current_kernel_mtu io) False
         | Fatal msg \<Rightarrow> TryFatal msg
         | Sent \<Rightarrow> (case linux_feedback lc io wait_ms of
             Echo \<Rightarrow> TryFit UdpEcho
           | FbPortUnreach \<Rightarrow> TryFit PortUnreach
           | FragNeeded mtu wire_icmp \<Rightarrow> TryTooBig mtu wire_icmp
           | NoFeedback \<Rightarrow> TrySilent))"

definition linux_capability :: "libc \<Rightarrow> linux_io \<Rightarrow> nat \<Rightarrow> confirm_kind option" where
  "linux_capability lc io probe_timeout_ms = (case linux_feedback lc io probe_timeout_ms of
     Echo \<Rightarrow> Some UdpEcho | FbPortUnreach \<Rightarrow> Some PortUnreach | _ \<Rightarrow> None)"

definition linux_discover_blocking ::
  "libc \<Rightarrow> string + unit \<Rightarrow> (nat \<Rightarrow> nat \<Rightarrow> linux_io) \<Rightarrow>
   ip_addr \<Rightarrow> nat \<Rightarrow> u32 \<Rightarrow> nat \<Rightarrow> string + discover_outcome" where
  "linux_discover_blocking lc setup env addr probe_timeout_ms retries max_mtu = (case setup of
     Inl msg \<Rightarrow> Inl msg
   | Inr _ \<Rightarrow> discover (\<lambda>k. ''df-'' @ confirm_label k @ ''/ip-recverr'') ''df-icmp/ip-recverr''
       (linux_probe lc env) (linux_capability lc (env 0 (floor_of addr)) probe_timeout_ms)
       addr probe_timeout_ms retries max_mtu)"

section \<open>Other Unix systems\<close>

fun send_clearing :: "libc \<Rightarrow> nat list \<Rightarrow> (nat \<Rightarrow> send_result) \<Rightarrow> send_outcome" where
  "send_clearing lc [] results = Fatal ''UDP send kept failing with pending async errors''"
| "send_clearing lc (n # ns) results = (case results n of
     SendOk \<Rightarrow> Sent
   | SendErr raw msg \<Rightarrow>
       (if raw = Some (EMSGSIZE lc) then Emsgsize
        else if raw = Some (ECONNREFUSED lc) then send_clearing lc ns results
        else Fatal (''UDP send failed: '' @ msg)))"

datatype recv_outcome = RecvData | RecvEmsgsize | RecvConnRefused | RecvTimeout

text \<open>One round: the read timeout could not be set, a datagram, an error with its number, or a
  timeout (\<open>WouldBlock\<close> and \<open>TimedOut\<close>).\<close>

datatype recv_round = NoReadTimeout | Received bytes | RecvError "int option" | RecvWouldBlock

fun recv_within :: "libc \<Rightarrow> instant \<Rightarrow> (instant \<times> recv_round) list \<Rightarrow> recv_outcome" where
  "recv_within lc deadline [] = RecvTimeout"
| "recv_within lc deadline ((now, r) # rs) =
     (if deadline \<le> now then RecvTimeout
      else case r of
        NoReadTimeout \<Rightarrow> RecvTimeout
      | Received pkt \<Rightarrow> RecvData
      | RecvError raw \<Rightarrow>
          (if raw = Some (EMSGSIZE lc) then RecvEmsgsize
           else if raw = Some (ECONNREFUSED lc) then RecvConnRefused
           else recv_within lc deadline rs)
      | RecvWouldBlock \<Rightarrow> RecvTimeout)"

record portable_io =
  po_send :: "nat \<Rightarrow> send_result"
  po_wait_start :: instant
  po_rounds :: "(instant \<times> recv_round) list"

definition portable_recv :: "libc \<Rightarrow> portable_io \<Rightarrow> nat \<Rightarrow> recv_outcome" where
  "portable_recv lc io timeout_ms =
     recv_within lc (po_wait_start io + from_millis (max timeout_ms 1)) (po_rounds io)"

definition portable_probe :: "libc \<Rightarrow> (nat \<Rightarrow> nat \<Rightarrow> portable_io) \<Rightarrow> prober" where
  "portable_probe lc env n payload wait_ms =
     (let io = env n payload
      in case send_clearing lc [0..<4] (po_send io) of
           Emsgsize \<Rightarrow> TryTooBig None False
         | Fatal msg \<Rightarrow> TryFatal msg
         | Sent \<Rightarrow> (case portable_recv lc io wait_ms of
             RecvData \<Rightarrow> TryFit UdpEcho
           | RecvConnRefused \<Rightarrow> TryFit PortUnreach
           | RecvEmsgsize \<Rightarrow> TryTooBig None True
           | RecvTimeout \<Rightarrow> TrySilent))"

definition portable_capability :: "libc \<Rightarrow> portable_io \<Rightarrow> nat \<Rightarrow> confirm_kind option" where
  "portable_capability lc io probe_timeout_ms = (case portable_recv lc io probe_timeout_ms of
     RecvData \<Rightarrow> Some UdpEcho | RecvConnRefused \<Rightarrow> Some PortUnreach | _ \<Rightarrow> None)"

definition portable_discover_blocking ::
  "libc \<Rightarrow> string + unit \<Rightarrow> (nat \<Rightarrow> nat \<Rightarrow> portable_io) \<Rightarrow>
   ip_addr \<Rightarrow> nat \<Rightarrow> u32 \<Rightarrow> nat \<Rightarrow> string + discover_outcome" where
  "portable_discover_blocking lc setup env addr probe_timeout_ms retries max_mtu = (case setup of
     Inl msg \<Rightarrow> Inl msg
   | Inr _ \<Rightarrow> discover (\<lambda>k. ''df-dontfrag/'' @ confirm_label k) ''df-dontfrag/emsgsize''
       (portable_probe lc env) (portable_capability lc (env 0 (floor_of addr)) probe_timeout_ms)
       addr probe_timeout_ms retries max_mtu)"

section \<open>The runner\<close>

record pmtud_result =
  pr_remote_addr :: ip_addr
  pr_path_mtu :: "nat option"
  pr_max_unfragmented_payload :: "nat option"
  pr_probes_sent :: nat
  pr_method :: string
  pr_icmp_mtu :: "nat option"
  pr_local_mtu :: "u32 option"
  pr_header_bytes :: nat
  pr_lower_bound_only :: bool
  pr_started_at :: nat

record pmtud_attempt = attempt +
  at_pmtud :: "pmtud_result option"

definition pmtud_failed :: "attempt_ids \<Rightarrow> error_category \<Rightarrow> string \<Rightarrow> pmtud_attempt" where
  "pmtud_failed ids c msg =
     attempt.extend (attempt_new ids Pmtud False (Some (error_of ids c msg))) \<lparr>at_pmtud = None\<rparr>"

definition clamp_mtu :: "nat \<Rightarrow> nat" where
  "clamp_mtu m = (if m < 576 then 576 else if 65535 < m then 65535 else m)"

definition no_path_evidence :: "pmtud_result \<Rightarrow> string" where
  "no_path_evidence r = ''No path evidence: no echo replies and no wire ICMP across '' @
     decimal (pr_probes_sent r) @
     '' DF probes (local send limits alone are not path evidence) '' @ em_dash @
     '' silent path or ICMP black hole ('' @ pr_method r @ '')''"

text \<open>The runner over a platform's \<open>discover_blocking\<close>; the task that runs it may fail.\<close>

definition run_pmtud_probe ::
  "(ip_addr \<Rightarrow> nat \<Rightarrow> u32 \<Rightarrow> nat \<Rightarrow> string + discover_outcome) \<Rightarrow> string option \<Rightarrow>
   pmtud_probe_config \<Rightarrow> attempt_ids \<Rightarrow> string + ip_addr \<Rightarrow> u32 option \<Rightarrow> pmtud_attempt" where
  "run_pmtud_probe discover_blocking task_error cfg ids resolved local_mtu = (case resolved of
     Inl msg \<Rightarrow> pmtud_failed ids DnsError msg
   | Inr addr \<Rightarrow> (case task_error of
       Some e \<Rightarrow> pmtud_failed ids OtherError (''pmtud worker task failed: '' @ e)
     | None \<Rightarrow>
         (case discover_blocking addr (max (pc_probe_timeout_ms cfg) 1) (pc_retries_per_size cfg)
                 (clamp_mtu (pc_max_mtu cfg)) of
            Inl msg \<Rightarrow> pmtud_failed ids OtherError msg
          | Inr d \<Rightarrow>
              (let header_bytes = (if is_ipv6 addr then 48 else 28);
                   r = \<lparr>pr_remote_addr = addr, pr_path_mtu = do_path_mtu d,
                        pr_max_unfragmented_payload = map_option (\<lambda>m. m - header_bytes) (do_path_mtu d),
                        pr_probes_sent = do_probes_sent d, pr_method = do_method d,
                        pr_icmp_mtu = do_icmp_mtu d, pr_local_mtu = local_mtu,
                        pr_header_bytes = header_bytes,
                        pr_lower_bound_only = do_lower_bound_only d,
                        pr_started_at = ai_started_at ids\<rparr>;
                   success = (pr_path_mtu r \<noteq> None);
                   err = (if success then None else Some (error_of ids UdpError (no_path_evidence r)))
               in attempt.extend (attempt_new ids Pmtud success err) \<lparr>at_pmtud = Some r\<rparr>))))"

end
