(* ===== verification/Pmtud_Search.thy ===== *)
theory Pmtud_Search
  imports Pmtud
begin

text \<open>
  The contracts of the path-MTU search, each a locale over the classifier it takes, and their
  interpretations on \<open>classify_size\<close>, the classifier both platforms pass. \<open>search_cost\<close> bounds
  what a search adds to a counter, \<open>search_evidence\<close> ties its result to what was observed, and
  \<open>search_exact\<close> is the exactness of the search over a classifier that answers truthfully for a
  monotone path.
\<close>

lemma search_mid_bounds: "lo < hi \<Longrightarrow> lo < search_mid lo hi \<and> search_mid lo hi \<le> hi"
  unfolding search_mid_def by linarith

lemma search_mid_halves:
  assumes "lo < hi"
  shows "hi - search_mid lo hi \<le> (hi - lo) div 2" "search_mid lo hi - 1 - lo \<le> (hi - lo) div 2"
  using assms unfolding search_mid_def by linarith+

lemma bound_mtu_le: "bound_mtu header mtu hi \<le> hi"
  by (simp add: bound_mtu_def split: option.split)

lemma search_loop_stop: "\<not> lo < hi \<Longrightarrow> search_loop classify header lo hi e s = (Inr (lo, e), s)"
  by (simp add: search_loop.simps)

lemma search_loop_error:
  "lo < hi \<Longrightarrow> classify s (search_mid lo hi) = (Inl msg, s') \<Longrightarrow>
   search_loop classify header lo hi e s = (Inl msg, s')"
  by (simp add: search_loop.simps [of _ _ lo])

lemma search_loop_fits:
  "lo < hi \<Longrightarrow> classify s (search_mid lo hi) = (Inr c, s') \<Longrightarrow> c = Fit \<or> c = Silent \<Longrightarrow>
   search_loop classify header lo hi e s =
     search_loop classify header (search_mid lo hi) hi (note_class c e) s'"
  by (auto simp: search_loop.simps [of _ _ lo] Let_def)

lemma search_loop_too_big:
  "lo < hi \<Longrightarrow> classify s (search_mid lo hi) = (Inr (TooBig mtu w), s') \<Longrightarrow>
   search_loop classify header lo hi e s =
     search_loop classify header lo (bound_mtu header mtu (search_mid lo hi - 1)) (note_class (TooBig mtu w) e) s'"
  by (simp add: search_loop.simps [of _ _ lo] Let_def)

text \<open>The cases of one round, in the form the inductions use.\<close>

lemma search_loop_cases:
  assumes "lo < hi"
  obtains msg s' where "classify s (search_mid lo hi) = (Inl msg, s')"
  | c s' where "classify s (search_mid lo hi) = (Inr c, s')" "c = Fit \<or> c = Silent"
  | mtu w s' where "classify s (search_mid lo hi) = (Inr (TooBig mtu w), s')"
proof -
  obtain r s' where r: "classify s (search_mid lo hi) = (r, s')" by (cases "classify s (search_mid lo hi)")
  show thesis
  proof (cases r)
    case (Inl msg)
    with r that(1) show thesis by simp
  next
    case (Inr c)
    with r that(2) [of c] that(3) show thesis by (cases c) simp_all
  qed
qed

section \<open>The cost of a search\<close>

locale search_cost =
  fixes classify :: "'s classifier" and cost :: "'s \<Rightarrow> nat" and B :: nat
  assumes classify_cost: "classify s n = (r, s') \<Longrightarrow> cost s' \<le> cost s + B"
begin

lemma loop_cost:
  "search_loop classify header lo hi e s = (r, s') \<Longrightarrow> cost s' \<le> cost s + B * floorlog 2 (hi - lo)"
proof (induction "hi - lo" arbitrary: lo hi e s rule: less_induct)
  case less
  show ?case
  proof (cases "lo < hi")
    case False
    with less.prems show ?thesis by (simp add: search_loop_stop)
  next
    case True
    have fl: "floorlog 2 (hi - lo) = Suc (floorlog 2 ((hi - lo) div 2))"
      using True compute_floorlog [of 2 "hi - lo"] by simp
    have rec: ?thesis
      if "search_loop classify header lo' hi' e' s1 = (r, s')" "hi' - lo' \<le> (hi - lo) div 2"
        "cost s1 \<le> cost s + B" for lo' hi' e' s1
    proof -
      have "hi' - lo' < hi - lo" using that(2) True by simp
      from less.hyps [OF this that(1)] have "cost s' \<le> cost s1 + B * floorlog 2 (hi' - lo')" .
      moreover have "floorlog 2 (hi' - lo') \<le> floorlog 2 ((hi - lo) div 2)"
        by (rule floorlog_mono [OF that(2)])
      then have "B * floorlog 2 (hi' - lo') \<le> B * floorlog 2 ((hi - lo) div 2)" by (rule mult_le_mono2)
      ultimately show ?thesis using that(3) unfolding fl mult_Suc_right by linarith
    qed
    note half = search_mid_halves [OF True]
    show ?thesis
    proof (rule search_loop_cases [OF True, of classify s])
      fix msg s1 assume c: "classify s (search_mid lo hi) = (Inl msg, s1)"
      with less.prems True have "s' = s1" by (simp add: search_loop_error)
      with classify_cost [OF c] fl show ?thesis by simp
    next
      fix c s1 assume c: "classify s (search_mid lo hi) = (Inr c, s1)" "c = Fit \<or> c = Silent"
      with less.prems True classify_cost [OF c(1)] half(1) show ?thesis
        by (intro rec [of "search_mid lo hi" hi "note_class c e" s1]) (simp_all add: search_loop_fits)
    next
      fix mtu w s1 assume c: "classify s (search_mid lo hi) = (Inr (TooBig mtu w), s1)"
      have "bound_mtu header mtu (search_mid lo hi - 1) - lo \<le> (hi - lo) div 2"
        using half(2) bound_mtu_le [of header mtu "search_mid lo hi - 1"] by linarith
      with less.prems True classify_cost [OF c] c show ?thesis
        by (intro rec [of lo "bound_mtu header mtu (search_mid lo hi - 1)" "note_class (TooBig mtu w) e" s1])
          (simp_all add: search_loop_too_big)
    qed
  qed
qed

lemma floor_cost:
  "working_floor classify header cs hi e s = (r, s') \<Longrightarrow> cost s' \<le> cost s + B * length cs \<and>
     (\<forall>lo hi' e'. r = Inr (Some lo, hi', e') \<longrightarrow> hi' \<le> hi \<and> lo \<in> set cs)"
proof (induction cs arbitrary: hi e s)
  case (Cons c cs)
  obtain r1 s1 where c: "classify s c = (r1, s1)" by (cases "classify s c")
  note cost1 = classify_cost [OF c]
  show ?case
  proof (cases r1)
    case (Inl msg)
    with Cons.prems c cost1 show ?thesis by auto
  next
    case (Inr k)
    show ?thesis
    proof (cases k)
      case (TooBig mtu w)
      let ?hi = "bound_mtu header mtu (min hi (c - 1))"
      have "?hi \<le> hi" using bound_mtu_le [of header mtu "min hi (c - 1)"] by linarith
      moreover have "working_floor classify header cs ?hi (note_class k e) s1 = (r, s')"
        using Cons.prems c Inr TooBig by (simp add: Let_def)
      from Cons.IH [OF this] have "cost s' \<le> cost s1 + B * length cs"
          "\<forall>lo hi' e'. r = Inr (Some lo, hi', e') \<longrightarrow> hi' \<le> ?hi \<and> lo \<in> set cs" by blast+
      with calculation cost1 show ?thesis by (auto dest: le_trans)
    qed (use Cons.prems c cost1 Inr in auto)
  qed
qed auto

lemma search_costs:
  assumes "search_largest_fit base ceil header classify s = (r, s')" "base \<le> ceil"
  shows "cost s' \<le> cost s + B * (2 + floorlog 2 ceil)"
proof -
  obtain r1 s1 where f: "working_floor classify header [base, 32] ceil no_evidence s = (r1, s1)"
    by (cases "working_floor classify header [base, 32] ceil no_evidence s")
  note fc = floor_cost [OF f]
  show ?thesis
  proof (cases r1)
    case (Inl msg)
    with assms f fc show ?thesis by (simp add: search_largest_fit_def algebra_simps)
  next
    case (Inr t)
    obtain lo hi e where t: "t = (lo, hi, e)" by (cases t)
    show ?thesis
    proof (cases lo)
      case None
      with assms f fc Inr t show ?thesis by (simp add: search_largest_fit_def algebra_simps)
    next
      case (Some l)
      obtain r2 s2 where l: "search_loop classify header l hi e s1 = (r2, s2)"
        by (cases "search_loop classify header l hi e s1")
      have "s' = s2" using assms(1) f Inr t Some l by (auto simp: search_largest_fit_def split: sum.splits)
      have "floorlog 2 (hi - l) \<le> floorlog 2 ceil"
        using fc Inr t Some by (intro floorlog_mono) auto
      then have "B * floorlog 2 (hi - l) \<le> B * floorlog 2 ceil" by (rule mult_le_mono2)
      moreover have "cost s1 \<le> cost s + (B + B)" using fc [THEN conjunct1] by simp
      ultimately have "cost s2 \<le> cost s + (B + B) + B * floorlog 2 ceil"
        using loop_cost [OF l] by linarith
      with \<open>s' = s2\<close> show ?thesis by (simp add: algebra_simps)
    qed
  qed
qed

end

section \<open>The evidence of a search\<close>

text \<open>\<open>conf\<close> says that delivery has been confirmed, \<open>acc n\<close> that a probe of size \<open>n\<close> was, and
  \<open>wire\<close> that an ICMP error came off the wire.\<close>

locale search_evidence =
  fixes classify :: "'s classifier" and conf :: "'s \<Rightarrow> bool" and acc :: "nat \<Rightarrow> 's \<Rightarrow> bool"
    and wire :: "'s \<Rightarrow> bool"
  assumes fit_acc: "classify s n = (Inr Fit, s') \<Longrightarrow> acc n s'"
    and silent_conf: "classify s n = (Inr Silent, s') \<Longrightarrow> \<not> conf s'"
    and big_conf: "classify s n = (Inr (TooBig mtu w), s') \<Longrightarrow> conf s' = conf s"
    and big_wire: "classify s n = (Inr (TooBig mtu True), s') \<Longrightarrow> wire s'"
    and acc_kept: "classify s n = (r, s') \<Longrightarrow> acc m s \<Longrightarrow> acc m s'"
    and wire_kept: "classify s n = (r, s') \<Longrightarrow> wire s \<Longrightarrow> wire s'"
begin

definition sound :: "evidence \<Rightarrow> 's \<Rightarrow> bool" where
  "sound e s \<longleftrightarrow> (ev_wire_icmp_seen e \<longrightarrow> wire s)"

lemma sound_note: "classify s n = (Inr c, s') \<Longrightarrow> sound e s \<Longrightarrow> sound (note_class c e) s'"
  using big_wire [of s n _ s'] wire_kept [of s n _ s']
  by (auto simp: sound_def note_class_def Let_def split: size_class.splits option.splits)

lemma accepted: "classify s n = (Inr c, s') \<Longrightarrow> c = Fit \<or> c = Silent \<Longrightarrow> conf s' \<Longrightarrow> acc n s'"
  using fit_acc silent_conf by blast

lemma loop_evidence:
  assumes "search_loop classify header lo hi e s = (Inr (fit, e'), s')" "conf s \<Longrightarrow> acc lo s" "sound e s"
    "lo \<le> ceil" "hi \<le> ceil"
  shows "(conf s' \<longrightarrow> acc fit s') \<and> sound e' s' \<and> lo \<le> fit \<and> fit \<le> ceil"
  using assms
proof (induction "hi - lo" arbitrary: lo hi e s rule: less_induct)
  case less
  show ?case
  proof (cases "lo < hi")
    case False
    with less.prems show ?thesis by (simp add: search_loop_stop)
  next
    case True
    note mid = search_mid_bounds [OF True]
    show ?thesis
    proof (rule search_loop_cases [OF True, of classify s])
      fix msg s1 assume "classify s (search_mid lo hi) = (Inl msg, s1)"
      with less.prems(1) True show ?thesis by (simp add: search_loop_error)
    next
      fix c s1 assume c: "classify s (search_mid lo hi) = (Inr c, s1)" "c = Fit \<or> c = Silent"
      have "hi - search_mid lo hi < hi - lo" using mid by linarith
      from less.hyps [OF this, of "note_class c e" s1] less.prems c True mid accepted [OF c]
        sound_note [OF c(1)]
      show ?thesis by (simp add: search_loop_fits)
    next
      fix mtu w s1 assume c: "classify s (search_mid lo hi) = (Inr (TooBig mtu w), s1)"
      let ?hi = "bound_mtu header mtu (search_mid lo hi - 1)"
      have hi: "?hi - lo < hi - lo" "?hi \<le> ceil"
        using mid less.prems(5) bound_mtu_le [of header mtu "search_mid lo hi - 1"] by linarith+
      have "acc lo s1" if "conf s1"
        using that big_conf [OF c] acc_kept [OF c] less.prems(2) by simp
      from less.hyps [OF hi(1), of "note_class (TooBig mtu w) e" s1] this less.prems c True hi
        sound_note [OF c]
      show ?thesis by (simp add: search_loop_too_big)
    qed
  qed
qed

lemma floor_evidence:
  assumes "working_floor classify header cs hi e s = (Inr (lo, hi', e'), s')" "sound e s"
  shows "sound e' s' \<and> hi' \<le> hi \<and> (\<forall>l. lo = Some l \<longrightarrow> l \<in> set cs \<and> (conf s' \<longrightarrow> acc l s'))"
  using assms
proof (induction cs arbitrary: hi e s)
  case (Cons c cs)
  obtain r1 s1 where c: "classify s c = (r1, s1)" by (cases "classify s c")
  obtain k where k: "r1 = Inr k" using Cons.prems(1) c by (cases r1) simp_all
  show ?case
  proof (cases k)
    case (TooBig mtu w)
    let ?hi = "bound_mtu header mtu (min hi (c - 1))"
    have "working_floor classify header cs ?hi (note_class k e) s1 = (Inr (lo, hi', e'), s')"
      using Cons.prems c k TooBig by (simp add: Let_def)
    from Cons.IH [OF this] sound_note [of s c k s1 e] c k Cons.prems(2)
      bound_mtu_le [of header mtu "min hi (c - 1)"]
    show ?thesis by auto
  qed (use Cons.prems c k accepted [of s c k s1] sound_note [of s c k s1 e] in auto)
qed auto

lemma search_evidence:
  assumes "search_largest_fit base ceil header classify s = (Inr out, s')" "base \<le> ceil" "32 \<le> base"
  shows "(ev_wire_icmp_seen (so_evidence out) \<longrightarrow> wire s') \<and>
    (\<forall>fit. so_largest_fit out = Some fit \<longrightarrow> 32 \<le> fit \<and> fit \<le> ceil \<and> (conf s' \<longrightarrow> acc fit s'))"
proof -
  obtain r1 s1 where f: "working_floor classify header [base, 32] ceil no_evidence s = (r1, s1)"
    by (cases "working_floor classify header [base, 32] ceil no_evidence s")
  obtain lo hi e where r1: "r1 = Inr (lo, hi, e)"
    using assms(1) f by (cases r1) (auto simp: search_largest_fit_def)
  have fe: "sound e s1" "hi \<le> ceil" "\<And>l. lo = Some l \<Longrightarrow> l \<in> {base, 32} \<and> (conf s1 \<longrightarrow> acc l s1)"
    using floor_evidence [OF f [unfolded r1]] by (auto simp: sound_def no_evidence_def)
  show ?thesis
  proof (cases lo)
    case None
    with assms(1) f r1 fe(1) show ?thesis by (auto simp: search_largest_fit_def sound_def)
  next
    case (Some l)
    obtain r2 s2 where l: "search_loop classify header l hi e s1 = (r2, s2)"
      by (cases "search_loop classify header l hi e s1")
    then obtain fit e2 where r2: "r2 = Inr (fit, e2)"
      using assms(1) f r1 Some by (cases r2) (auto simp: search_largest_fit_def)
    have out: "out = \<lparr>so_largest_fit = Some fit, so_evidence = e2\<rparr>" "s' = s2"
      using assms(1) f r1 Some l r2 by (simp_all add: search_largest_fit_def)
    have "32 \<le> l" "l \<le> ceil" "conf s1 \<Longrightarrow> acc l s1" using fe(3) [OF Some] assms(2,3) by auto
    with loop_evidence [OF l [unfolded r2] this(3) fe(1) this(2) fe(2)] out
    show ?thesis by (auto simp: sound_def)
  qed
qed

end

section \<open>Exactness\<close>

text \<open>A truthful classifier: while \<open>inv\<close> holds, a size is confirmed when it fits and rejected
  when not, and an MTU that a rejection names is no smaller than what fits.\<close>

locale search_exact =
  fixes classify :: "'s classifier" and inv :: "'s \<Rightarrow> bool" and fits :: "nat \<Rightarrow> bool" and header :: nat
  assumes truthful: "inv s \<Longrightarrow> \<exists>c s'. classify s n = (Inr c, s') \<and> inv s' \<and>
      (if fits n then c = Fit
       else \<exists>mtu w. c = TooBig mtu w \<and> (\<forall>m p. mtu = Some m \<longrightarrow> fits p \<longrightarrow> p \<le> m - header))"
    and monotone: "fits n \<Longrightarrow> m \<le> n \<Longrightarrow> fits m"
begin

lemma big_bound:
  assumes "inv s" "classify s n = (Inr (TooBig mtu w), s')" "fits p" "p \<le> ceil" "p \<le> hi"
  shows "p \<le> bound_mtu header mtu (min hi (n - 1))"
proof -
  have n: "\<not> fits n" "\<And>m. mtu = Some m \<Longrightarrow> p \<le> m - header"
    using truthful [OF assms(1), of n] assms(2,3) by (auto split: if_splits)
  have "p < n" using n(1) assms(3) monotone [of p n] by (meson not_le)
  with n(2) assms(5) show ?thesis by (auto simp: bound_mtu_def split: option.split)
qed

lemma loop_exact:
  assumes "inv s" "fits lo" "lo \<le> hi" "hi \<le> ceil" "\<And>p. fits p \<Longrightarrow> p \<le> ceil \<Longrightarrow> p \<le> hi"
  shows "\<exists>fit e' s'. search_loop classify header lo hi e s = (Inr (fit, e'), s') \<and> inv s' \<and>
    fits fit \<and> fit \<le> ceil \<and> (\<forall>p. fits p \<and> p \<le> ceil \<longrightarrow> p \<le> fit) \<and>
    (ev_confirmed_seen e \<longrightarrow> ev_confirmed_seen e') \<and>
    (fits ceil \<longrightarrow> ev_bound_found e' = ev_bound_found e)"
  using assms
proof (induction "hi - lo" arbitrary: lo hi e s rule: less_induct)
  case less
  show ?case
  proof (cases "lo < hi")
    case False
    with less.prems show ?thesis by (auto simp: search_loop_stop)
  next
    case True
    let ?mid = "search_mid lo hi"
    note mid = search_mid_bounds [OF True]
    obtain c s1 where c: "classify s ?mid = (Inr c, s1)" "inv s1" and
      t: "if fits ?mid then c = Fit else \<exists>mtu w. c = TooBig mtu w"
      using truthful [OF less.prems(1), of ?mid] by (auto split: if_splits)
    show ?thesis
    proof (cases "fits ?mid")
      case fit: True
      have "hi - ?mid < hi - lo" using mid by linarith
      from less.hyps [OF this c(2) fit _ less.prems(4,5), of "note_class c e"] fit t mid c(1) True
      show ?thesis by (auto simp: search_loop_fits note_class_def)
    next
      case False
      then obtain mtu w where k: "c = TooBig mtu w" using t by auto
      let ?hi = "bound_mtu header mtu (?mid - 1)"
      have min: "min hi (?mid - 1) = ?mid - 1" using mid by linarith
      have up: "p \<le> ?hi" if "fits p" "p \<le> ceil" for p
        using big_bound [OF less.prems(1) c(1) [unfolded k] that less.prems(5) [OF that]] unfolding min .
      have hi: "?hi - lo < hi - lo" "?hi \<le> ceil"
        using mid less.prems(4) bound_mtu_le [of header mtu "?mid - 1"] by linarith+
      have "lo \<le> ceil" using less.prems(3,4) by simp
      then have "lo \<le> ?hi" using up less.prems(2) by blast
      moreover have "\<not> fits ceil" using False monotone [of ceil ?mid] mid less.prems(4) by auto
      ultimately show ?thesis
        using less.hyps [OF hi(1) c(2) less.prems(2) _ hi(2) up, of "note_class c e"] k c(1) True
        by (auto simp: search_loop_too_big note_class_def Let_def split: option.splits)
    qed
  qed
qed

lemma search_exact:
  assumes "inv s" "fits 32" "32 \<le> base" "base \<le> ceil"
  shows "\<exists>fit e s'. search_largest_fit base ceil header classify s =
      (Inr \<lparr>so_largest_fit = Some fit, so_evidence = e\<rparr>, s') \<and> inv s' \<and>
    fits fit \<and> fit \<le> ceil \<and> (\<forall>p. fits p \<and> p \<le> ceil \<longrightarrow> p \<le> fit) \<and> ev_confirmed_seen e \<and>
    (fits ceil \<longrightarrow> \<not> ev_bound_found e)"
proof (cases "fits base")
  case True
  obtain s1 where c: "classify s base = (Inr Fit, s1)" "inv s1"
    using truthful [OF assms(1), of base] True by auto
  have "working_floor classify header [base, 32] ceil no_evidence s =
      (Inr (Some base, ceil, note_class Fit no_evidence), s1)"
    using c by (simp add: Let_def)
  moreover obtain fit e' s' where
      "search_loop classify header base ceil (note_class Fit no_evidence) s1 = (Inr (fit, e'), s')" "inv s'"
      "fits fit" "fit \<le> ceil" "\<forall>p. fits p \<and> p \<le> ceil \<longrightarrow> p \<le> fit" "ev_confirmed_seen e'"
      "fits ceil \<longrightarrow> \<not> ev_bound_found e'"
    using loop_exact [OF c(2) True assms(4) order_refl, of "note_class Fit no_evidence"]
    by (auto simp: note_class_def no_evidence_def)
  ultimately show ?thesis by (auto simp: search_largest_fit_def)
next
  case False
  obtain mtu w s1 where c: "classify s base = (Inr (TooBig mtu w), s1)" "inv s1"
    using truthful [OF assms(1), of base] False by auto
  obtain s2 where d: "classify s1 32 = (Inr Fit, s2)" "inv s2"
    using truthful [OF c(2), of 32] assms(2) by auto
  let ?hi = "bound_mtu header mtu (min ceil (base - 1))"
  let ?e = "note_class Fit (note_class (TooBig mtu w) no_evidence)"
  have up: "p \<le> ?hi" if "fits p" "p \<le> ceil" for p
    using big_bound [OF assms(1) c(1) that(1) that(2), of ceil] that(2) by simp
  have "32 \<le> ?hi" using up [OF assms(2)] assms(3,4) by simp
  moreover have "?hi \<le> ceil" using bound_mtu_le [of header mtu "min ceil (base - 1)"] by linarith
  moreover have "\<not> fits ceil" using False monotone [of ceil base] assms(4) by auto
  moreover have "working_floor classify header [base, 32] ceil no_evidence s = (Inr (Some 32, ?hi, ?e), s2)"
    using c d by (simp add: Let_def)
  moreover have "ev_confirmed_seen ?e" by (simp add: note_class_def)
  moreover obtain fit e' s' where "search_loop classify header 32 ?hi ?e s2 = (Inr (fit, e'), s')" "inv s'"
      "fits fit" "fit \<le> ceil" "\<forall>p. fits p \<and> p \<le> ceil \<longrightarrow> p \<le> fit" "ev_confirmed_seen e'"
    using loop_exact [OF d(2) assms(2) calculation(1,2) up, of ?e] calculation(5) by blast
  ultimately show ?thesis by (simp add: search_largest_fit_def)
qed

end

end
