(* ===== verification/Pmtud_Properties.thy ===== *)
theory Pmtud_Properties
  imports Pmtud_Search
begin

text \<open>
  The properties of path-MTU discovery: the number of probes, the evidence behind a verdict,
  exactness on a truthful path, and what the wait takes for a confirmation.
\<close>

section \<open>The classifier meets the contracts\<close>

lemma try_sends_facts:
  assumes "try_sends probe w k p s = (r, s')"
  shows "pm_probes_sent s \<le> pm_probes_sent s' \<and> pm_probes_sent s' \<le> pm_probes_sent s + k \<and>
    pm_confirm s' = pm_confirm s \<and>
    (r \<noteq> TrySilent \<longrightarrow> (\<exists>n. pm_probes_sent s \<le> n \<and> n < pm_probes_sent s' \<and> probe n p w = r))"
  using assms
proof (induction k arbitrary: s)
  case (Suc k)
  let ?s = "s\<lparr>pm_seq := pm_seq s + 1, pm_probes_sent := pm_probes_sent s + 1,
    pm_wire := (pm_seq s + 1, p) # pm_wire s\<rparr>"
  show ?case
  proof (cases "probe (pm_probes_sent s) p w = TrySilent")
    case True
    then have "try_sends probe w k p ?s = (r, s')" using Suc.prems by (simp add: Let_def)
    from Suc.IH [OF this] show ?thesis
      by simp (metis Suc_le_lessD less_imp_le_nat)
  next
    case False
    then have "r = probe (pm_probes_sent s) p w \<and> s' = ?s"
      using Suc.prems by (cases "probe (pm_probes_sent s) p w") (simp_all add: Let_def)
    then show ?thesis by simp (metis lessI order_refl)
  qed
qed simp

lemma get_or_insert_Some [simp]: "\<exists>y. get_or_insert m x = Some y" "get_or_insert m x \<noteq> None" "get_or_insert (Some y) x = Some y"
  by (simp_all add: get_or_insert_def split: option.split)

definition tries_of :: "u32 \<Rightarrow> nat" where
  "tries_of retries = max 1 (unat (retries + 1))"

text \<open>One classification, by what its sends said.\<close>

lemma classify_size_facts:
  assumes "classify_size probe t retries s p = (r, s')"
  shows "pm_probes_sent s \<le> pm_probes_sent s' \<and> pm_probes_sent s' \<le> pm_probes_sent s + tries_of retries"
    and "r = Inr Fit \<Longrightarrow> \<exists>n w k. pm_probes_sent s \<le> n \<and> n < pm_probes_sent s' \<and> probe n p w = TryFit k"
    and "r = Inr Silent \<Longrightarrow> pm_confirm s' = None"
    and "r = Inr (TooBig mtu w) \<Longrightarrow> pm_confirm s' = pm_confirm s"
    and "r = Inr (TooBig mtu True) \<Longrightarrow>
      \<exists>n w. pm_probes_sent s \<le> n \<and> n < pm_probes_sent s' \<and> probe n p w = TryTooBig mtu True"
proof -
  define wait where "wait = (if pm_confirm s \<noteq> None then t else min t PMTUD_ICMP_WAIT_CAP_MS)"
  define tries where "tries = (if pm_confirm s \<noteq> None then unat (retries + 1) else 1)"
  obtain r1 s1 where ts: "try_sends probe wait tries p s = (r1, s1)"
    by (cases "try_sends probe wait tries p s")
  note f = try_sends_facts [OF ts]
  have e: "classify_size probe t retries s p =
      (case r1 of TryFit k \<Rightarrow> (Inr Fit, s1\<lparr>pm_confirm := get_or_insert (pm_confirm s1) k\<rparr>)
       | TryTooBig mtu wire_icmp \<Rightarrow> (Inr (TooBig mtu wire_icmp), s1)
       | TryFatal msg \<Rightarrow> (Inl msg, s1)
       | TrySilent \<Rightarrow> (Inr (if pm_confirm s \<noteq> None then TooBig None False else Silent), s1))"
    using ts by (simp add: classify_size_def wait_def tries_def Let_def split: try_result.split)
  have "tries \<le> tries_of retries" by (simp add: tries_def tries_of_def)
  then show "pm_probes_sent s \<le> pm_probes_sent s' \<and> pm_probes_sent s' \<le> pm_probes_sent s + tries_of retries"
    using assms f unfolding e by (cases r1) auto
  show "\<exists>n w k. pm_probes_sent s \<le> n \<and> n < pm_probes_sent s' \<and> probe n p w = TryFit k" if "r = Inr Fit"
  proof -
    have "\<exists>k. r1 = TryFit k \<and> pm_probes_sent s' = pm_probes_sent s1"
      using assms that unfolding e by (cases r1) (auto split: if_splits)
    with f show ?thesis by auto
  qed
  show "pm_confirm s' = None" if "r = Inr Silent"
    using assms that f unfolding e by (cases r1) (auto split: if_splits)
  show "pm_confirm s' = pm_confirm s" if "r = Inr (TooBig mtu w)"
    using assms that f unfolding e by (cases r1) (auto split: if_splits)
  show "\<exists>n w. pm_probes_sent s \<le> n \<and> n < pm_probes_sent s' \<and> probe n p w = TryTooBig mtu True"
    if "r = Inr (TooBig mtu True)"
  proof -
    have "r1 = TryTooBig mtu True" "s' = s1"
      using assms that unfolding e by (cases r1; auto split: if_splits)+
    with f show ?thesis by auto
  qed
qed

interpretation probes: search_cost "classify_size probe t retries" pm_probes_sent "tries_of retries"
  for probe t retries
  by unfold_locales (use classify_size_facts(1) in blast)

definition size_confirmed :: "prober \<Rightarrow> nat \<Rightarrow> pm_state \<Rightarrow> bool" where
  "size_confirmed probe p s \<longleftrightarrow> (\<exists>n w k. n < pm_probes_sent s \<and> probe n p w = TryFit k)"

definition wire_seen :: "prober \<Rightarrow> pm_state \<Rightarrow> bool" where
  "wire_seen probe s \<longleftrightarrow> (\<exists>n p w mtu. n < pm_probes_sent s \<and> probe n p w = TryTooBig mtu True)"

interpretation evidence: search_evidence "classify_size probe t retries" "\<lambda>s. pm_confirm s \<noteq> None"
    "size_confirmed probe" "wire_seen probe"
  for probe t retries
proof unfold_locales
  fix s n s' m r mtu w
  { assume c: "classify_size probe t retries s n = (Inr Fit, s')"
    show "size_confirmed probe n s'"
      using classify_size_facts(2) [OF c] by (auto simp: size_confirmed_def) }
  { assume c: "classify_size probe t retries s n = (Inr Silent, s')"
    show "\<not> pm_confirm s' \<noteq> None" using classify_size_facts(3) [OF c] by simp }
  { assume c: "classify_size probe t retries s n = (Inr (TooBig mtu w), s')"
    show "(pm_confirm s' \<noteq> None) = (pm_confirm s \<noteq> None)" using classify_size_facts(4) [OF c] by simp }
  { assume c: "classify_size probe t retries s n = (Inr (TooBig mtu True), s')"
    show "wire_seen probe s'" using classify_size_facts(5) [OF c] by (auto simp: wire_seen_def) }
  { assume c: "classify_size probe t retries s n = (r, s')" and a: "size_confirmed probe m s"
    show "size_confirmed probe m s'"
      using a classify_size_facts(1) [OF c] by (auto simp: size_confirmed_def intro: less_le_trans) }
  { assume c: "classify_size probe t retries s n = (r, s')" and a: "wire_seen probe s"
    show "wire_seen probe s'"
      using a classify_size_facts(1) [OF c] by (fastforce simp: wire_seen_def intro: less_le_trans) }
qed

section \<open>Discovery\<close>

lemma floor_ceil: "32 \<le> floor_of addr" "floor_of addr \<le> ceil_of addr m"
  by (simp_all add: floor_of_def ceil_of_def header_of_def)

definition pm_start :: "ip_addr \<Rightarrow> confirm_kind option \<Rightarrow> pm_state" where
  "pm_start addr capability =
     \<lparr>pm_probes_sent = 1, pm_seq = 0, pm_confirm = capability, pm_wire = [(0, floor_of addr)]\<rparr>"

text \<open>A discovery that returns has a search behind it.\<close>

lemma discover_search:
  assumes "discover cm im probe cap addr t retries max_mtu = Inr d"
  obtains out s' where
    "search_largest_fit (floor_of addr) (ceil_of addr max_mtu) (header_of addr)
       (classify_size probe t retries) (pm_start addr cap) = (Inr out, s')"
    "do_probes_sent d = pm_probes_sent s'"
    "do_path_mtu d = (if pm_confirm s' \<noteq> None \<or> ev_wire_icmp_seen (so_evidence out)
       then map_option (\<lambda>p. p + header_of addr) (so_largest_fit out) else None)"
    "do_method d = (case pm_confirm s' of Some k \<Rightarrow> cm k
       | None \<Rightarrow> if ev_wire_icmp_seen (so_evidence out) then im else ''df-no-feedback'')"
    "do_lower_bound_only d \<longleftrightarrow> pm_confirm s' \<noteq> None \<and> so_largest_fit out = Some (ceil_of addr max_mtu) \<and>
       \<not> ev_bound_found (so_evidence out) \<and> ev_confirmed_seen (so_evidence out)"
proof -
  obtain r s' where r: "search_largest_fit (floor_of addr) (ceil_of addr max_mtu) (header_of addr)
      (classify_size probe t retries) (pm_start addr cap) = (r, s')"
    by (cases "search_largest_fit (floor_of addr) (ceil_of addr max_mtu) (header_of addr)
      (classify_size probe t retries) (pm_start addr cap)")
  then obtain out where out: "r = Inr out"
    using assms by (cases r) (simp_all add: discover_def pm_start_def Let_def)
  show thesis
    by (rule that [of out s'])
      (use assms r out in \<open>auto simp: discover_def pm_start_def Let_def split: option.splits if_splits\<close>)
qed

lemma discover_verdict:
  assumes "discover cm im probe cap addr t retries max_mtu = Inr d" "do_path_mtu d = Some mtu"
  shows "header_of addr + 32 \<le> mtu \<and> mtu \<le> header_of addr + ceil_of addr max_mtu \<and>
    ((\<exists>kind. do_method d = cm kind \<and>
       (\<exists>n w k. n < do_probes_sent d \<and> probe n (mtu - header_of addr) w = TryFit k)) \<or>
     (do_method d = im \<and> \<not> do_lower_bound_only d \<and>
       (\<exists>n p w m. n < do_probes_sent d \<and> probe n p w = TryTooBig m True)))"
proof -
  obtain out s' where s: "search_largest_fit (floor_of addr) (ceil_of addr max_mtu) (header_of addr)
       (classify_size probe t retries) (pm_start addr cap) = (Inr out, s')"
    and d: "do_probes_sent d = pm_probes_sent s'"
      "do_path_mtu d = (if pm_confirm s' \<noteq> None \<or> ev_wire_icmp_seen (so_evidence out)
         then map_option (\<lambda>p. p + header_of addr) (so_largest_fit out) else None)"
      "do_method d = (case pm_confirm s' of Some k \<Rightarrow> cm k
         | None \<Rightarrow> if ev_wire_icmp_seen (so_evidence out) then im else ''df-no-feedback'')"
      "do_lower_bound_only d \<longleftrightarrow> pm_confirm s' \<noteq> None \<and> so_largest_fit out = Some (ceil_of addr max_mtu) \<and>
         \<not> ev_bound_found (so_evidence out) \<and> ev_confirmed_seen (so_evidence out)"
    by (rule discover_search [OF assms(1)])
  obtain fit where fit: "so_largest_fit out = Some fit" "mtu = fit + header_of addr"
    using assms(2) d(2) by (auto split: if_splits)
  note ev = evidence.search_evidence [OF s floor_ceil(2) floor_ceil(1)]
  show ?thesis
  proof (cases "pm_confirm s'")
    case (Some k)
    with ev fit d show ?thesis by (auto simp: size_confirmed_def)
  next
    case None
    with assms(2) d ev fit show ?thesis by (auto simp: wire_seen_def)
  qed
qed

lemma discover_probes:
  assumes "discover cm im probe cap addr t retries max_mtu = Inr d" "max_mtu \<le> 65535"
  shows "do_probes_sent d \<le> 1 + 18 * tries_of retries"
proof -
  obtain out s' where s: "search_largest_fit (floor_of addr) (ceil_of addr max_mtu) (header_of addr)
       (classify_size probe t retries) (pm_start addr cap) = (Inr out, s')"
    and d: "do_probes_sent d = pm_probes_sent s'"
    by (rule discover_search [OF assms(1)])
  have "ceil_of addr max_mtu \<le> 65535"
    using assms(2) by (auto simp: ceil_of_def floor_of_def header_of_def)
  then have "floorlog 2 (ceil_of addr max_mtu) \<le> floorlog 2 65535" by (rule floorlog_mono)
  also have "floorlog 2 (65535 :: nat) = 16" by (simp add: compute_floorlog)
  finally have "tries_of retries * (2 + floorlog 2 (ceil_of addr max_mtu)) \<le> tries_of retries * 18"
    by (intro mult_le_mono2) simp
  moreover have "do_probes_sent d \<le> 1 + tries_of retries * (2 + floorlog 2 (ceil_of addr max_mtu))"
    using probes.search_costs [OF s floor_ceil(2)] unfolding d by (simp add: pm_start_def)
  ultimately show ?thesis by linarith
qed

section \<open>Truthful paths\<close>

text \<open>A prober whose path carries exactly the datagrams up to an MTU, answers those, and names
  no smaller MTU when it rejects one.\<close>

definition truthful_path :: "prober \<Rightarrow> nat \<Rightarrow> nat \<Rightarrow> bool" where
  "truthful_path probe header M \<longleftrightarrow> (\<forall>n p w.
     if p + header \<le> M then \<exists>k. probe n p w = TryFit k
     else probe n p w = TrySilent \<or> (\<exists>mtu b. probe n p w = TryTooBig mtu b \<and> (\<forall>m. mtu = Some m \<longrightarrow> M \<le> m)))"

lemma try_sends_silent: "(\<And>n. probe n p w = TrySilent) \<Longrightarrow> fst (try_sends probe w k p s) = TrySilent"
  by (induction k arbitrary: s) (simp_all add: Let_def)

lemma truthful_exact:
  assumes "truthful_path probe header M" "retries + 1 \<noteq> 0"
  shows "search_exact (classify_size probe t retries) (\<lambda>s. pm_confirm s \<noteq> None)
    (\<lambda>p. p + header \<le> M) header"
proof
  fix s :: pm_state and p
  assume conf: "pm_confirm s \<noteq> None"
  have "unat (retries + 1) \<noteq> 0" using assms(2) by (simp add: unat_eq_zero)
  then obtain k where k: "unat (retries + 1) = Suc k" by (cases "unat (retries + 1)") simp_all
  obtain r s1 where ts: "try_sends probe t (Suc k) p s = (r, s1)" by (cases "try_sends probe t (Suc k) p s")
  note f = try_sends_facts [OF ts]
  have e: "classify_size probe t retries s p =
      (case r of TryFit k \<Rightarrow> (Inr Fit, s1\<lparr>pm_confirm := get_or_insert (pm_confirm s1) k\<rparr>)
       | TryTooBig mtu wire_icmp \<Rightarrow> (Inr (TooBig mtu wire_icmp), s1)
       | TryFatal msg \<Rightarrow> (Inl msg, s1)
       | TrySilent \<Rightarrow> (Inr (TooBig None False), s1))"
    using ts conf k by (simp add: classify_size_def Let_def del: try_sends.simps split: try_result.split)
  have first: "r = probe (pm_probes_sent s) p t" if "probe (pm_probes_sent s) p t \<noteq> TrySilent"
    using ts that by (auto simp: Let_def split: try_result.splits)
  show "\<exists>c s'. classify_size probe t retries s p = (Inr c, s') \<and> pm_confirm s' \<noteq> None \<and>
      (if p + header \<le> M then c = Fit
       else \<exists>mtu w. c = TooBig mtu w \<and> (\<forall>m q. mtu = Some m \<longrightarrow> q + header \<le> M \<longrightarrow> q \<le> m - header))"
  proof (cases "p + header \<le> M")
    case True
    then obtain k where "probe (pm_probes_sent s) p t = TryFit k"
      using assms(1) unfolding truthful_path_def by meson
    with first e f True show ?thesis by simp
  next
    case False
    have out: "probe n p t = TrySilent \<or> (\<exists>mtu b. probe n p t = TryTooBig mtu b \<and> (\<forall>m. mtu = Some m \<longrightarrow> M \<le> m))" for n
      using assms(1) False unfolding truthful_path_def by meson
    show ?thesis
    proof (cases "r = TrySilent")
      case True
      with e f conf False show ?thesis by auto
    next
      case r: False
      then obtain n where "probe n p t = r" using f by auto
      with out [of n] r obtain mtu b where "r = TryTooBig mtu b" "\<forall>m. mtu = Some m \<longrightarrow> M \<le> m" by auto
      with e f conf False show ?thesis by fastforce
    qed
  qed
qed simp

text \<open>A Linux path that answers each datagram it carries and reports the others by ICMP.\<close>

definition path_io :: "(nat \<Rightarrow> nat \<Rightarrow> bytes) \<Rightarrow> errqueue \<Rightarrow> nat \<Rightarrow> nat \<Rightarrow> nat \<Rightarrow> nat \<Rightarrow> linux_io" where
  "path_io reply rejection header M n p =
     \<lparr>li_send = (\<lambda>_. SendOk), li_kernel_mtu = None, li_wait_start = 0,
      li_rounds = [(0, if p + header \<le> M then Polled None (Some (7 # reply n p)) else Polled rejection None)]\<rparr>"

lemma path_feedback:
  "linux_feedback lc (path_io reply rejection header M n p) w =
     (if p + header \<le> M then Echo else case read_errqueue lc rejection of
        ErrFrag mtu b \<Rightarrow> FragNeeded mtu b | ErrPortUnreach \<Rightarrow> FbPortUnreach | _ \<Rightarrow> NoFeedback)"
  by (simp add: linux_feedback_def path_io_def from_millis_def read_errqueue_def split: err_entry.split)

lemma path_probe:
  "linux_probe lc (path_io reply None header M) n p w = (if p + header \<le> M then TryFit UdpEcho else TrySilent)"
proof -
  have "send_draining lc [0..<4] (li_send (path_io reply None header M n p)) = Sent"
    by (simp add: path_io_def upt_conv_Cons)
  then show ?thesis by (simp add: linux_probe_def path_feedback Let_def read_errqueue_def)
qed

lemma path_truthful: "truthful_path (linux_probe lc (path_io reply None header M)) header M"
  by (simp add: truthful_path_def path_probe)

interpretation path: search_exact
    "classify_size (linux_probe lc (path_io reply None header M)) t DEFAULT_PMTUD_RETRIES"
    "\<lambda>s. pm_confirm s \<noteq> None" "\<lambda>p. p + header \<le> M" header
  for lc reply header M t
  by (rule truthful_exact [OF path_truthful]) (simp add: DEFAULT_PMTUD_RETRIES_def)

definition demo_libc :: libc where
  "demo_libc = \<lparr>EMSGSIZE = 90, ECONNREFUSED = 111, SO_EE_ORIGIN_ICMP = 2, SO_EE_ORIGIN_ICMP6 = 3,
     IPPROTO_IP = 0, IPPROTO_IPV6 = 41, IP_RECVERR = 11, IPV6_RECVERR = 25\<rparr>"

lemma discover_exact:
  assumes "truthful_path probe (header_of addr) M" "cap \<noteq> None" "retries + 1 \<noteq> 0" "header_of addr + 32 \<le> M"
  shows "\<exists>d. discover cm im probe cap addr t retries max_mtu = Inr d \<and>
    do_path_mtu d = Some (min M (header_of addr + ceil_of addr max_mtu)) \<and>
    do_lower_bound_only d = (header_of addr + ceil_of addr max_mtu \<le> M)"
proof -
  have "pm_confirm (pm_start addr cap) \<noteq> None" using assms(2) by (simp add: pm_start_def)
  from search_exact.search_exact [OF truthful_exact [OF assms(1,3), where t = t] this _
      floor_ceil(1) [where addr = addr] floor_ceil(2) [where addr = addr and m = max_mtu]] assms(4)
  obtain fit e s' where s: "search_largest_fit (floor_of addr) (ceil_of addr max_mtu) (header_of addr)
      (classify_size probe t retries) (pm_start addr cap) =
      (Inr \<lparr>so_largest_fit = Some fit, so_evidence = e\<rparr>, s')" "pm_confirm s' \<noteq> None"
    and fit: "fit + header_of addr \<le> M" "fit \<le> ceil_of addr max_mtu"
      "\<forall>p. p + header_of addr \<le> M \<and> p \<le> ceil_of addr max_mtu \<longrightarrow> p \<le> fit" "ev_confirmed_seen e"
      "ceil_of addr max_mtu + header_of addr \<le> M \<longrightarrow> \<not> ev_bound_found e"
    by (auto simp: add.commute)
  have best: "fit = min (M - header_of addr) (ceil_of addr max_mtu)"
  proof (rule order_antisym)
    show "fit \<le> min (M - header_of addr) (ceil_of addr max_mtu)" using fit(1,2) by simp
    show "min (M - header_of addr) (ceil_of addr max_mtu) \<le> fit"
      using fit(3) [rule_format, of "min (M - header_of addr) (ceil_of addr max_mtu)"] assms(4) by linarith
  qed
  obtain k where "pm_confirm s' = Some k" using s(2) by auto
  then show ?thesis using s(1) fit best assms(4)
    by (auto simp: discover_def pm_start_def Let_def min_def)
qed

lemma linux_exact:
  assumes "truthful_path (linux_probe lc env) (header_of addr) M"
    "linux_capability lc (env 0 (floor_of addr)) t \<noteq> None" "retries + 1 \<noteq> 0" "header_of addr + 32 \<le> M"
  shows "\<exists>d. linux_discover_blocking lc (Inr ()) env addr t retries max_mtu = Inr d \<and>
    do_path_mtu d = Some (min M (header_of addr + ceil_of addr max_mtu)) \<and>
    do_lower_bound_only d = (header_of addr + ceil_of addr max_mtu \<le> M)"
  unfolding linux_discover_blocking_def sum.case by (rule discover_exact [OF assms])

lemma portable_exact:
  assumes "truthful_path (portable_probe lc env) (header_of addr) M"
    "portable_capability lc (env 0 (floor_of addr)) t \<noteq> None" "retries + 1 \<noteq> 0" "header_of addr + 32 \<le> M"
  shows "\<exists>d. portable_discover_blocking lc (Inr ()) env addr t retries max_mtu = Inr d \<and>
    do_path_mtu d = Some (min M (header_of addr + ceil_of addr max_mtu)) \<and>
    do_lower_bound_only d = (header_of addr + ceil_of addr max_mtu \<le> M)"
  unfolding portable_discover_blocking_def sum.case by (rule discover_exact [OF assms])

section \<open>The properties\<close>

text \<open>C34: On a truthful path the discovery is exact. When the destination answers the first
  probe and the path carries every datagram up to an MTU and no larger one, silently or with
  ICMP errors that name no smaller MTU, the result is that MTU, cut at the configured ceiling,
  and it is marked as a lower bound exactly when the path carries the ceiling.\<close>

theorem pmtud_exact:
  assumes "truthful_path (linux_probe lc env) (header_of addr) M"
    "linux_capability lc (env 0 (floor_of addr)) t \<noteq> None" "retries + 1 \<noteq> 0" "header_of addr + 32 \<le> M"
  shows "\<exists>d. linux_discover_blocking lc (Inr ()) env addr t retries max_mtu = Inr d \<and>
    do_path_mtu d = Some (min M (header_of addr + ceil_of addr max_mtu)) \<and>
    do_lower_bound_only d = (header_of addr + ceil_of addr max_mtu \<le> M)"
  by (rule linux_exact [OF assms])

theorem pmtud_exact_witness:
  "\<exists>d. linux_discover_blocking demo_libc (Inr ()) (path_io (\<lambda>_ _. []) None 28 1400) (V4 1) 1000 2 9216 = Inr d \<and>
     do_path_mtu d = Some 1400 \<and> \<not> do_lower_bound_only d"
  using pmtud_exact [of demo_libc "path_io (\<lambda>_ _. []) None 28 1400" "V4 1" 1400 1000 2 9216]
    path_truthful [of demo_libc "\<lambda>_ _. []" 28 1400]
  by (simp add: header_of_def ceil_of_def floor_of_def linux_capability_def path_feedback)

lemma linux_probe_fit:
  "linux_probe lc env n p w = TryFit k \<Longrightarrow> linux_feedback lc (env n p) w \<in> {Echo, FbPortUnreach}"
  by (auto simp: linux_probe_def Let_def split: send_outcome.splits feedback.splits)

lemma linux_probe_big:
  "linux_probe lc env n p w = TryTooBig m True \<Longrightarrow> linux_feedback lc (env n p) w = FragNeeded m True"
  by (auto simp: linux_probe_def Let_def split: send_outcome.splits feedback.splits)

text \<open>A Linux verdict rests on evidence. Whatever the socket does, a reported path MTU lies
  between the smallest probe and the ceiling, and either a probe of exactly that size was
  confirmed by an echo or a port-unreachable error, or no delivery was ever confirmed, the
  method says so, and an ICMP fragmentation error came off the wire for some probe.\<close>

theorem linux_verdict_honest:
  assumes "linux_discover_blocking lc setup env addr t retries max_mtu = Inr d" "do_path_mtu d = Some mtu"
  shows "header_of addr + 32 \<le> mtu \<and> mtu \<le> header_of addr + ceil_of addr max_mtu \<and>
    ((\<exists>n w kind. n < do_probes_sent d \<and> do_method d = ''df-'' @ confirm_label kind @ ''/ip-recverr'' \<and>
        linux_feedback lc (env n (mtu - header_of addr)) w \<in> {Echo, FbPortUnreach}) \<or>
     (do_method d = ''df-icmp/ip-recverr'' \<and> \<not> do_lower_bound_only d \<and>
        (\<exists>n p w m. n < do_probes_sent d \<and> linux_feedback lc (env n p) w = FragNeeded m True)))"
proof -
  have "discover (\<lambda>k. ''df-'' @ confirm_label k @ ''/ip-recverr'') ''df-icmp/ip-recverr''
      (linux_probe lc env) (linux_capability lc (env 0 (floor_of addr)) t) addr t retries max_mtu = Inr d"
    using assms(1) by (cases "setup") (simp_all add: linux_discover_blocking_def)
  from discover_verdict [OF this assms(2)] linux_probe_fit linux_probe_big show ?thesis by fast
qed

lemma demo_discovery:
  obtains d where "linux_discover_blocking demo_libc (Inr ()) (path_io (\<lambda>_ _. []) None 28 1400) (V4 1) 1000 2 9216 = Inr d"
    "do_path_mtu d = Some 1400"
  using linux_exact [of demo_libc "path_io (\<lambda>_ _. []) None 28 1400" "V4 1" 1400 1000 2 9216]
    path_truthful [of demo_libc "\<lambda>_ _. []" 28 1400] that
  by (auto simp: header_of_def ceil_of_def floor_of_def linux_capability_def path_feedback)

theorem linux_verdict_honest_witness:
  "\<exists>d n w. linux_discover_blocking demo_libc (Inr ()) (path_io (\<lambda>_ _. []) None 28 1400) (V4 1) 1000 2 9216 = Inr d \<and>
     n < do_probes_sent d"
proof -
  obtain d where d: "linux_discover_blocking demo_libc (Inr ()) (path_io (\<lambda>_ _. []) None 28 1400) (V4 1) 1000 2 9216 = Inr d"
      "do_path_mtu d = Some 1400"
    by (rule demo_discovery)
  from linux_verdict_honest [OF d] d(1) show ?thesis by blast
qed

text \<open>On the other Unix systems a verdict rests on evidence too: a probe of the reported size
  was confirmed, or an ICMP size error was delivered to the socket's receive; a refused send
  alone never yields a path MTU.\<close>

theorem portable_verdict_honest:
  assumes "portable_discover_blocking lc setup env addr t retries max_mtu = Inr d" "do_path_mtu d = Some mtu"
  shows "header_of addr + 32 \<le> mtu \<and> mtu \<le> header_of addr + ceil_of addr max_mtu \<and>
    ((\<exists>n w. n < do_probes_sent d \<and>
        portable_recv lc (env n (mtu - header_of addr)) w \<in> {RecvData, RecvConnRefused}) \<or>
     (do_method d = ''df-dontfrag/emsgsize'' \<and>
        (\<exists>n p w. n < do_probes_sent d \<and> portable_recv lc (env n p) w = RecvEmsgsize)))"
proof -
  have "discover (\<lambda>k. ''df-dontfrag/'' @ confirm_label k) ''df-dontfrag/emsgsize''
      (portable_probe lc env) (portable_capability lc (env 0 (floor_of addr)) t) addr t retries max_mtu = Inr d"
    using assms(1) by (cases "setup") (simp_all add: portable_discover_blocking_def)
  note v = discover_verdict [OF this assms(2)]
  have "portable_recv lc (env n p) w \<in> {RecvData, RecvConnRefused}"
    if "portable_probe lc env n p w = TryFit k" for n p w k
    using that by (auto simp: portable_probe_def Let_def split: send_outcome.splits recv_outcome.splits)
  moreover have "portable_recv lc (env n p) w = RecvEmsgsize"
    if "portable_probe lc env n p w = TryTooBig m True" for n p w m
    using that by (auto simp: portable_probe_def Let_def split: send_outcome.splits recv_outcome.splits)
  ultimately show ?thesis using v by fast
qed

definition portable_path :: "nat \<Rightarrow> nat \<Rightarrow> nat \<Rightarrow> nat \<Rightarrow> portable_io" where
  "portable_path header M n p = \<lparr>po_send = (\<lambda>_. SendOk), po_wait_start = 0,
     po_rounds = [(0, if p + header \<le> M then Received [7] else RecvWouldBlock)]\<rparr>"

lemma portable_path_recv:
  "portable_recv lc (portable_path header M n p) w = (if p + header \<le> M then RecvData else RecvTimeout)"
  by (simp add: portable_recv_def portable_path_def from_millis_def)

lemma portable_path_truthful: "truthful_path (portable_probe lc (portable_path header M)) header M"
proof -
  have "send_clearing lc [0..<4] (po_send (portable_path header M n p)) = Sent" for n p
    by (simp add: portable_path_def upt_conv_Cons)
  then show ?thesis by (simp add: truthful_path_def portable_probe_def portable_path_recv Let_def)
qed

theorem portable_verdict_honest_witness:
  "\<exists>d n. portable_discover_blocking demo_libc (Inr ()) (portable_path 28 1400) (V4 1) 1000 2 9216 = Inr d \<and>
     n < do_probes_sent d"
proof -
  obtain d where d: "portable_discover_blocking demo_libc (Inr ()) (portable_path 28 1400) (V4 1) 1000 2 9216 = Inr d"
      "do_path_mtu d = Some 1400"
    using portable_exact [of demo_libc "portable_path 28 1400" "V4 1" 1400 1000 2 9216]
      portable_path_truthful [of demo_libc 28 1400]
    by (auto simp: header_of_def ceil_of_def floor_of_def portable_capability_def portable_path_recv)
  from portable_verdict_honest [OF d] d(1) show ?thesis by blast
qed

text \<open>Discovery is bounded. Within the configured ceiling of 65535 a discovery sends at most
  one probe and then eighteen sizes of them, each as often as its retries allow: 55 with the
  defaults, whatever the path does.\<close>

theorem pmtud_probes_bounded:
  assumes "linux_discover_blocking lc setup env addr t retries (clamp_mtu m) = Inr d"
  shows "do_probes_sent d \<le> 1 + 18 * tries_of retries \<and>
    1 + 18 * tries_of DEFAULT_PMTUD_RETRIES = 55"
proof -
  have "discover (\<lambda>k. ''df-'' @ confirm_label k @ ''/ip-recverr'') ''df-icmp/ip-recverr''
      (linux_probe lc env) (linux_capability lc (env 0 (floor_of addr)) t) addr t retries (clamp_mtu m) = Inr d"
    using assms by (cases "setup") (simp_all add: linux_discover_blocking_def)
  from discover_probes [OF this] show ?thesis
    by (simp add: clamp_mtu_def tries_of_def DEFAULT_PMTUD_RETRIES_def)
qed

theorem pmtud_probes_bounded_witness:
  "\<exists>d. linux_discover_blocking demo_libc (Inr ()) (path_io (\<lambda>_ _. []) None 28 1400) (V4 1) 1000 2 9216 = Inr d \<and>
     do_probes_sent d \<le> 55"
proof -
  obtain d where d: "linux_discover_blocking demo_libc (Inr ()) (path_io (\<lambda>_ _. []) None 28 1400) (V4 1) 1000 2 9216 = Inr d"
    by (rule demo_discovery)
  moreover have "clamp_mtu 9216 = 9216" by (simp add: clamp_mtu_def)
  ultimately show ?thesis
    using pmtud_probes_bounded [of demo_libc "Inr ()" "path_io (\<lambda>_ _. []) None 28 1400" "V4 1" 1000 2 9216 d]
    by (simp add: tries_of_def)
qed

fun map_reply :: "(bytes \<Rightarrow> bytes) \<Rightarrow> poll_round \<Rightarrow> poll_round" where
  "map_reply f PollFailed = PollFailed"
| "map_reply f (Polled q rx) = Polled q (map_option f rx)"

definition map_replies :: "(bytes \<Rightarrow> bytes) \<Rightarrow> linux_io \<Rightarrow> linux_io" where
  "map_replies f io = io\<lparr>li_rounds := map (\<lambda>(now, r). (now, map_reply f r)) (li_rounds io)\<rparr>"

lemma map_replies_other [simp]:
  "li_send (map_replies f io) = li_send io" "current_kernel_mtu (map_replies f io) = current_kernel_mtu io"
  by (simp_all add: map_replies_def current_kernel_mtu_def)

lemma wait_feedback_map:
  assumes "\<And>pkt. length (f pkt) = 0 \<longleftrightarrow> length pkt = 0"
  shows "wait_feedback lc deadline (map (\<lambda>(now, r). (now, map_reply f r)) rs) = wait_feedback lc deadline rs"
proof (induction rs)
  case (Cons e rs)
  obtain now r where e: "e = (now, r)" by (cases e)
  have "(0 < length (f pkt)) = (0 < length pkt)" for pkt using assms [of pkt] by auto
  then show ?case using Cons
    by (cases r) (auto simp: e split: err_entry.split option.split)
qed simp

lemma linux_feedback_map:
  assumes "\<And>pkt. length (f pkt) = 0 \<longleftrightarrow> length pkt = 0"
  shows "linux_feedback lc (map_replies f io) w = linux_feedback lc io w"
  using wait_feedback_map [of f, OF assms] by (simp add: linux_feedback_def map_replies_def)

text \<open>The search never looks at a reply. Replace the contents of every datagram received by
  anything else that is not empty: the discovery is the same. So a reply is never matched with
  the probe it answers, and a late or repeated reply to a small probe confirms a larger one.\<close>

theorem pmtud_replies_unread:
  assumes "\<And>pkt. length (f pkt) = 0 \<longleftrightarrow> length pkt = 0"
  shows "linux_discover_blocking lc setup (\<lambda>n p. map_replies f (env n p)) addr t retries max_mtu =
    linux_discover_blocking lc setup env addr t retries max_mtu"
proof -
  note fb = linux_feedback_map [of f, OF assms]
  have "linux_probe lc (\<lambda>n p. map_replies f (env n p)) = linux_probe lc env"
    by (intro ext) (simp add: linux_probe_def fb Let_def split: send_outcome.split)
  then show ?thesis
    by (simp add: linux_discover_blocking_def linux_capability_def fb cong: sum.case_cong)
qed

theorem pmtud_replies_unread_witness:
  "linux_discover_blocking demo_libc (Inr ()) (\<lambda>n p. map_replies (map (\<lambda>_. 0)) (path_io (\<lambda>_ _. []) None 28 9216 n p))
     (V4 1) 1000 2 9216 =
   linux_discover_blocking demo_libc (Inr ()) (path_io (\<lambda>_ _. []) None 28 9216) (V4 1) 1000 2 9216"
  by (rule pmtud_replies_unread) simp

text \<open>A discovery attempt is consistent. It succeeds exactly when it reports a path MTU, has an
  error exactly when it does not succeed, and its largest payload with the headers is the path
  MTU it reports.\<close>

theorem pmtud_attempt_consistent:
  "let a = run_pmtud_probe (linux_discover_blocking lc setup env) task_error cfg ids resolved local_mtu in
     at_protocol a = Pmtud \<and> at_success a = (at_error a = None) \<and>
     (case at_pmtud a of
        None \<Rightarrow> \<not> at_success a
      | Some r \<Rightarrow> at_success a = (pr_path_mtu r \<noteq> None) \<and>
          map_option (\<lambda>p. p + pr_header_bytes r) (pr_max_unfragmented_payload r) = pr_path_mtu r)"
proof -
  have hd: "header_of addr \<le> m"
    if "linux_discover_blocking lc setup env addr t retries mm = Inr d" "do_path_mtu d = Some m" for addr t retries mm d m
  proof -
    have "discover (\<lambda>k. ''df-'' @ confirm_label k @ ''/ip-recverr'') ''df-icmp/ip-recverr''
        (linux_probe lc env) (linux_capability lc (env 0 (floor_of addr)) t) addr t retries mm = Inr d"
      using that(1) by (cases "setup") (simp_all add: linux_discover_blocking_def)
    from discover_verdict [OF this that(2)] show ?thesis by linarith
  qed
  show ?thesis
  proof (cases resolved)
    case (Inl msg)
    then show ?thesis by (simp add: run_pmtud_probe_def pmtud_failed_def attempt.defs attempt_new_def)
  next
    case r: (Inr addr)
    show ?thesis
    proof (cases task_error)
      case (Some e)
      with r show ?thesis by (simp add: run_pmtud_probe_def pmtud_failed_def attempt.defs attempt_new_def)
    next
      case te: None
      let ?out = "linux_discover_blocking lc setup env addr (max (pc_probe_timeout_ms cfg) 1)
        (pc_retries_per_size cfg) (clamp_mtu (pc_max_mtu cfg))"
      show ?thesis
      proof (cases ?out)
        case (Inl msg)
        with r te show ?thesis by (simp add: run_pmtud_probe_def pmtud_failed_def attempt.defs attempt_new_def)
      next
        case (Inr d)
        show ?thesis
        proof (cases "do_path_mtu d")
          case None
          with r te Inr show ?thesis
            by (simp add: run_pmtud_probe_def Let_def attempt.defs attempt_new_def)
        next
          case (Some m)
          from hd [OF Inr Some] r te Inr Some show ?thesis
            by (auto simp: run_pmtud_probe_def Let_def attempt.defs attempt_new_def header_of_def)
        qed
      qed
    qed
  qed
qed

end
