(* ===== verification/Probe_Properties.thy ===== *)
theory Probe_Properties
  imports Probe
begin

text \<open>
  The properties of the probe engine's shared vocabulary and statistics: the names of the
  protocols, the aggregate over a timeline of probes, the descriptive statistics and the loss
  pattern.
\<close>

lemma protocol_table_names:
  assumes "(n, p) \<in> set protocol_table"
  shows "n = protocol_name p \<or> (n = ''tls-resume'' \<and> p = TlsResume)"
proof -
  have "list_all (\<lambda>(n, p). n = protocol_name p \<or> (n = ''tls-resume'' \<and> p = TlsResume)) protocol_table"
    by (simp add: protocol_table_def protocol_name_def)
  with assms show ?thesis by (auto simp: list_all_iff)
qed

text \<open>Protocol names round-trip. Every protocol's name parses back to it; a text parses only
  when it is, up to ASCII case, the name of the protocol it parses to or the second spelling of
  TLS resumption, and any other text is reported as unknown.\<close>

theorem protocol_names_roundtrip:
  "protocol_from_str (protocol_name p) = Inr p \<and>
   (case protocol_from_str s of
      Inr q \<Rightarrow> to_ascii_lowercase s \<in> {protocol_name q} \<union> (if q = TlsResume then {''tls-resume''} else {})
    | Inl msg \<Rightarrow> msg = ''Unknown protocol: '' @ to_ascii_lowercase s \<and>
        to_ascii_lowercase s \<notin> range protocol_name)"
proof -
  have "case protocol_from_str s of
      Inr q \<Rightarrow> to_ascii_lowercase s \<in> {protocol_name q} \<union> (if q = TlsResume then {''tls-resume''} else {})
    | Inl msg \<Rightarrow> msg = ''Unknown protocol: '' @ to_ascii_lowercase s \<and> to_ascii_lowercase s \<notin> range protocol_name"
  proof (cases "map_of protocol_table (to_ascii_lowercase s)")
    case None
    have "to_ascii_lowercase s \<noteq> protocol_name q" for q
    proof
      assume s: "to_ascii_lowercase s = protocol_name q"
      have "protocol_from_str (protocol_name q) = Inr q" by (rule protocol_from_name)
      then show False using None unfolding protocol_from_str_def protocol_name_lower s by simp
    qed
    then show ?thesis using None by (auto simp: protocol_from_str_def)
  next
    case (Some q)
    then have "(to_ascii_lowercase s, q) \<in> set protocol_table" by (rule map_of_SomeD)
    from protocol_table_names [OF this] show ?thesis
      using Some by (auto simp: protocol_from_str_def)
  qed
  then show ?thesis using protocol_from_name by blast
qed

text \<open>The aggregate over a timeline is sound. For readings that are floating-point numbers
  and not negative, the loss is a percentage, the minimum is a reading that none undercuts, the
  95th percentile is not below it, the jitter is not negative, and with no reading at all every
  figure is zero. The delay-variation percentiles appear only with enough samples.\<close>

theorem aggregate_sound:
  assumes "\<forall>v. Some v \<in> set samples \<longrightarrow> 0 \<le> v \<and> fl v = v" "length samples \<le> 2 ^ 53"
  shows "let a = aggregate_udp_rtts samples; rs = received_of samples in
    0 \<le> rtt_loss_percent a \<and> rtt_loss_percent a \<le> 100 \<and> 0 \<le> rtt_jitter a \<and>
    (if rs = [] then rtt_min a = 0 \<and> rtt_avg a = 0 \<and> rtt_p95 a = 0
     else rtt_min a = Min (set rs) \<and> rtt_min a \<le> rtt_p95 a \<and> 0 \<le> rtt_avg a) \<and>
    (rtt_ipdv_p95 a = None) = (length rs - 1 < MIN_SAMPLES_P95) \<and>
    (rtt_ipdv_p99 a = None) = (length rs - 1 < MIN_SAMPLES_P99)"
proof -
  let ?rs = "received_of samples"
  have rs: "\<forall>v \<in> set ?rs. 0 \<le> v \<and> fl v = v" using assms(1) by (auto simp: received_set)
  have len: "length ?rs \<le> length samples" by (rule received_length)
  note loss = loss_of_bounds [OF len assms(2)]
  have dl: "length (diffs xs) = length xs - 1" for xs by (induction xs rule: diffs.induct) simp_all
  show ?thesis
  proof (cases "?rs = []")
    case True
    with loss show ?thesis
      by (simp add: aggregate_udp_rtts_def Let_def MIN_SAMPLES_P95_def MIN_SAMPLES_P99_def)
  next
    case False
    let ?ipdv = "map abs (diffs ?rs)"
    have ipdv: "0 \<le> f64_sum ?ipdv" by (intro f64_sum_nonneg) auto
    have jit: "0 \<le> (if ?ipdv = [] then 0 else f64_div (f64_sum ?ipdv) (fl (real (length ?ipdv))))"
      using ipdv by (simp add: f64_ops fl.rnd_nonneg)
    have avg: "0 \<le> f64_div (f64_sum (sort ?rs)) (fl (real (length (sort ?rs))))"
      using f64_sum_nonneg [of "sort ?rs"] rs by (simp add: f64_ops fl.rnd_nonneg)
    have ne: "sort ?rs \<noteq> []" using False by (metis length_0_conv length_sort)
    have p95: "sort ?rs ! 0 \<le> percentile_from_sorted (sort ?rs) 95"
      using rs len assms(2) ne by (intro percentile_ge_min) auto
    have "sort ?rs ! 0 = Min (set ?rs)"
    proof (rule Min_eqI [symmetric])
      show "sort ?rs ! 0 \<in> set ?rs" using ne by (metis length_greater_0_conv nth_mem set_sort)
      fix v assume "v \<in> set ?rs"
      then obtain i where "i < length (sort ?rs)" "sort ?rs ! i = v"
        by (metis in_set_conv_nth set_sort)
      then show "sort ?rs ! 0 \<le> v" by (metis le0 sorted_nth_mono sorted_sort)
    qed simp
    then show ?thesis using False loss jit avg p95
      by (simp add: aggregate_udp_rtts_def Let_def dl not_le)
  qed
qed

theorem aggregate_sound_witness:
  "rtt_loss_percent (aggregate_udp_rtts [Some 2, None, Some 1]) \<le> 100 \<and>
   rtt_min (aggregate_udp_rtts [Some 2, None, Some 1]) = 1"
proof -
  have "fl 2 = 2" "fl 1 = 1" using fl_int [of 2] fl_int [of 1] by simp_all
  then show ?thesis using aggregate_sound [of "[Some 2, None, Some 1]"] by (auto simp: received_of_def Let_def)
qed

text \<open>The loss pattern is what the timeline shows. The lost count is the number of lost
  probes; the pattern is loss-free exactly when none is lost, and bursty exactly when three
  consecutive probes are.\<close>

theorem loss_pattern_correct:
  assumes "MIN_LOSS_PATTERN_PROBES \<le> length rtts" "length rtts < 2 ^ 32"
  shows "\<exists>p. compute_loss_pattern rtts = Some p \<and>
    unat (lp_lost_count p) = card {i. i < length rtts \<and> rtts ! i = None} \<and>
    (lp_classification p = ''no-loss'') = (None \<notin> set rtts) \<and>
    (lp_classification p = ''bursty'') = (\<exists>j. j + 2 < length rtts \<and> rtts ! j = None \<and>
       rtts ! (j + 1) = None \<and> rtts ! (j + 2) = None)"
proof -
  obtain p where p: "compute_loss_pattern rtts = Some p"
    using assms(1) by (simp add: compute_loss_pattern_def Let_def)
  note f = loss_pattern_Some [OF p assms(2)]
  have "lost_at rtts = {} \<longleftrightarrow> None \<notin> set rtts" by (auto simp: lost_at_def in_set_conv_nth)
  moreover have "{j, j + 1, j + 2} \<subseteq> lost_at rtts \<longleftrightarrow> j + 2 < length rtts \<and> rtts ! j = None \<and>
       rtts ! (j + 1) = None \<and> rtts ! (j + 2) = None" for j
    by (auto simp: lost_at_def)
  ultimately show ?thesis using p f by (auto simp: lost_at_def)
qed

theorem loss_pattern_correct_witness:
  "\<exists>p. compute_loss_pattern (replicate 17 (Some 1) @ replicate 3 None) = Some p \<and>
     lp_classification p = ''bursty''"
  using loss_pattern_correct [of "replicate 17 (Some 1) @ replicate 3 None"]
  by (fastforce simp: MIN_LOSS_PATTERN_PROBES_def nth_append intro: exI [of _ 17])

text \<open>Descriptive statistics describe the sample. They exist exactly for a non-empty sample;
  the count is its size, the extremes are its smallest and largest values, the median is not
  below the smallest, and a high percentile is withheld until the sample can support it.\<close>

theorem stats_sound:
  assumes "\<forall>v \<in> set values. fl v = v" "length values \<le> 2 ^ 53"
  shows "case compute_stats values of
      None \<Rightarrow> values = []
    | Some s \<Rightarrow> s_count s = length values \<and> s_min s = Min (set values) \<and> s_max s = Max (set values) \<and>
        s_min s \<le> s_p50 s \<and> (s_p95 s = None) = (length values < MIN_SAMPLES_P95) \<and>
        (s_p99 s = None) = (length values < MIN_SAMPLES_P99)"
proof (cases "values = []")
  case False
  let ?xs = "sort values"
  have ne: "?xs \<noteq> []" using False by (metis length_0_conv length_sort)
  have mem: "?xs ! 0 \<in> set values" "?xs ! (length values - 1) \<in> set values"
    using False by (metis length_greater_0_conv length_sort nth_mem set_sort diff_less zero_less_one)+
  have ext: "?xs ! 0 \<le> v \<and> v \<le> ?xs ! (length values - 1)" if v: "v \<in> set values" for v
  proof -
    obtain i where i: "i < length ?xs" "?xs ! i = v" using v by (metis in_set_conv_nth set_sort)
    have "?xs ! 0 \<le> ?xs ! i" "?xs ! i \<le> ?xs ! (length values - 1)"
      using i(1) by (auto intro!: sorted_nth_mono)
    with i(2) show ?thesis by simp
  qed
  have "?xs ! 0 = Min (set values)" "?xs ! (length values - 1) = Max (set values)"
    using mem ext by (auto intro!: Min_eqI [symmetric] Max_eqI [symmetric])
  moreover have "?xs ! 0 \<le> percentile_from_sorted ?xs 50"
    using assms ne by (intro percentile_ge_min) auto
  ultimately show ?thesis using False by (simp add: compute_stats_def Let_def not_le)
qed (simp add: compute_stats_def)

theorem stats_sound_witness:
  "\<exists>s. compute_stats [3, 1] = Some s \<and> s_min s = 1 \<and> s_p95 s = None"
proof -
  have "fl 3 = 3" "fl 1 = 1" using fl_int [of 3] fl_int [of 1] by simp_all
  moreover have "compute_stats [3, 1] \<noteq> None" by (simp add: compute_stats_def Let_def)
  ultimately show ?thesis using stats_sound [of "[3, 1]"] by (auto simp: MIN_SAMPLES_P95_def)
qed

end
