(* ===== verification/Log_Types.thy ===== *)
theory Log_Types
  imports Text F64
begin

text \<open>
  The log pipeline's data, \<open>crates/networker-log/src/types.rs\<close> and \<open>metrics.rs\<close>: the severity
  levels with their database numbers, names and order, a log entry, and the pipeline's
  counters with the health status computed from them.

  A UUID is the 128-bit word behind \<open>uuid::Uuid\<close>, a database \<open>SMALLINT\<close> is an \<open>int\<close>. A
  structured field's value is the JSON scalar the visitor stores; \<open>fields\<close> is a JSON object,
  an association list without repeated keys.
\<close>

section \<open>Levels\<close>

datatype log_level = LError | LWarn | LInfo | LDebug | LTrace

definition severity_rank :: "log_level \<Rightarrow> nat" where
  "severity_rank l = (case l of LTrace \<Rightarrow> 0 | LDebug \<Rightarrow> 1 | LInfo \<Rightarrow> 2 | LWarn \<Rightarrow> 3 | LError \<Rightarrow> 4)"

lemma severity_rank_inject: "severity_rank a = severity_rank b \<longleftrightarrow> a = b"
  by (simp add: severity_rank_def split: log_level.splits)

text \<open>\<open>impl Ord for Level\<close> compares the ranks.\<close>

instantiation log_level :: linorder
begin

definition less_eq_log_level :: "log_level \<Rightarrow> log_level \<Rightarrow> bool" where
  "less_eq_log_level a b \<longleftrightarrow> severity_rank a \<le> severity_rank b"

definition less_log_level :: "log_level \<Rightarrow> log_level \<Rightarrow> bool" where
  "less_log_level a b \<longleftrightarrow> severity_rank a < severity_rank b"

instance
  by standard (auto simp: less_eq_log_level_def less_log_level_def severity_rank_inject)

end

definition level_from_db :: "int \<Rightarrow> log_level option" where
  "level_from_db v =
     (if v = 1 then Some LError else if v = 2 then Some LWarn else if v = 3 then Some LInfo
      else if v = 4 then Some LDebug else if v = 5 then Some LTrace else None)"

definition level_as_db :: "log_level \<Rightarrow> int" where
  "level_as_db l = (case l of LError \<Rightarrow> 1 | LWarn \<Rightarrow> 2 | LInfo \<Rightarrow> 3 | LDebug \<Rightarrow> 4 | LTrace \<Rightarrow> 5)"

text \<open>The five constants of \<open>tracing::Level\<close>.\<close>

datatype tracing_level = TRACE | DEBUG | INFO | WARN | ERROR

definition level_from_tracing :: "tracing_level \<Rightarrow> log_level" where
  "level_from_tracing t = (case t of
     TRACE \<Rightarrow> LTrace | DEBUG \<Rightarrow> LDebug | INFO \<Rightarrow> LInfo | WARN \<Rightarrow> LWarn | ERROR \<Rightarrow> LError)"

definition level_to_tracing :: "log_level \<Rightarrow> tracing_level" where
  "level_to_tracing l = (case l of
     LTrace \<Rightarrow> TRACE | LDebug \<Rightarrow> DEBUG | LInfo \<Rightarrow> INFO | LWarn \<Rightarrow> WARN | LError \<Rightarrow> ERROR)"

definition level_display :: "log_level \<Rightarrow> string" where
  "level_display l = (case l of
     LTrace \<Rightarrow> ''TRACE'' | LDebug \<Rightarrow> ''DEBUG'' | LInfo \<Rightarrow> ''INFO'' | LWarn \<Rightarrow> ''WARN'' | LError \<Rightarrow> ''ERROR'')"

text \<open>The error of \<open>from_str\<close> carries the text it could not read.\<close>

datatype level_error = UnknownLogLevel string

definition level_from_str :: "string \<Rightarrow> level_error + log_level" where
  "level_from_str s =
     (let t = to_ascii_uppercase (trim s)
      in if t \<in> {''ERROR'', ''ERR'', ''FATAL'', ''1''} then Inr LError
         else if t \<in> {''WARN'', ''WARNING'', ''2''} then Inr LWarn
         else if t \<in> {''INFO'', ''INF'', ''3'', ''INFORMATION''} then Inr LInfo
         else if t \<in> {''DEBUG'', ''DBG'', ''4''} then Inr LDebug
         else if t \<in> {''TRACE'', ''TRC'', ''5''} then Inr LTrace
         else Inl (UnknownLogLevel t))"

section \<open>Entries\<close>

type_synonym uuid = "128 word"

datatype field_json = FStr string | FInt int | FFloat f64 | FBool bool

type_synonym field_map = "(string \<times> field_json) list"

record log_entry =
  le_ts :: instant
  le_service :: string
  le_level :: log_level
  le_message :: string
  le_config_id :: "uuid option"
  le_project_id :: "string option"
  le_trace_id :: "uuid option"
  le_fields :: "field_map option"

definition log_entry_new :: "instant \<Rightarrow> string \<Rightarrow> log_level \<Rightarrow> string \<Rightarrow> log_entry" where
  "log_entry_new now service level message =
     \<lparr>le_ts = now, le_service = service, le_level = level, le_message = message,
      le_config_id = None, le_project_id = None, le_trace_id = None, le_fields = None\<rparr>"

section \<open>Counters and health\<close>

record log_metrics =
  lm_entries_written :: u64
  lm_entries_dropped :: u64
  lm_flush_count :: u64
  lm_flush_errors :: u64
  lm_last_flush_ms :: u64
  lm_queue_depth :: u32

definition log_metrics_default :: log_metrics where
  "log_metrics_default = \<lparr>lm_entries_written = 0, lm_entries_dropped = 0, lm_flush_count = 0,
     lm_flush_errors = 0, lm_last_flush_ms = 0, lm_queue_depth = 0\<rparr>"

text \<open>
  \<open>snapshot\<close> loads the six atomics; its result has the same six fields, so a snapshot taken
  while nothing runs is the metrics themselves.
\<close>

definition DEGRADED_DROP_RATIO :: f64 where "DEGRADED_DROP_RATIO = fl (1 / 100)"
definition FAILING_DROP_RATIO :: f64 where "FAILING_DROP_RATIO = fl (10 / 100)"
definition FAILING_ERROR_RATIO :: f64 where "FAILING_ERROR_RATIO = fl (5 / 100)"
definition FAILING_LATENCY_MS :: u64 where "FAILING_LATENCY_MS = 5000"
definition DEGRADED_LATENCY_MS :: u64 where "DEGRADED_LATENCY_MS = 1000"

text \<open>A ratio of two counters, zero when the denominator is.\<close>

definition count_ratio :: "u64 \<Rightarrow> u64 \<Rightarrow> f64" where
  "count_ratio a b = (if 0 < b then f64_div (fl (real (unat a))) (fl (real (unat b))) else 0)"

definition pipeline_status :: "log_metrics \<Rightarrow> string" where
  "pipeline_status m =
     (let drop_ratio = count_ratio (lm_entries_dropped m) (lm_entries_written m + lm_entries_dropped m);
          error_ratio = count_ratio (lm_flush_errors m) (lm_flush_count m)
      in if FAILING_DROP_RATIO \<le> drop_ratio \<or> FAILING_ERROR_RATIO \<le> error_ratio \<or>
            FAILING_LATENCY_MS \<le> lm_last_flush_ms m then ''failing''
         else if DEGRADED_DROP_RATIO \<le> drop_ratio \<or> DEGRADED_LATENCY_MS \<le> lm_last_flush_ms m
         then ''degraded''
         else ''healthy'')"

section \<open>Comparing a rounded ratio with a rounded threshold\<close>

text \<open>
  Below two to the fifty the distance between two different ratios is larger than the two
  rounding errors, so the comparison in floating point is the exact one.
\<close>

lemma fl_ratio_ge_iff:
  assumes "0 < q" "0 < t" "t * q \<le> 2 ^ 50" "p \<le> q"
  shows "fl (real p / real q) \<le> fl (real a / real t) \<longleftrightarrow> p * t \<le> a * q"
proof
  assume "p * t \<le> a * q"
  then have "real p * real t \<le> real a * real q" by (metis of_nat_le_iff of_nat_mult)
  then show "fl (real p / real q) \<le> fl (real a / real t)"
    using assms by (intro fl_mono) (simp add: divide_simps)
next
  assume le: "fl (real p / real q) \<le> fl (real a / real t)"
  show "p * t \<le> a * q"
  proof (rule ccontr)
    define P T where "P = real p / real q" and "T = real a / real t"
    define Q where "Q = real t * real q"
    have Q: "0 < Q" "Q \<le> 2 ^ 50"
      using assms(1,2) assms(3) [THEN of_nat_mono [where 'a = real]] by (simp_all add: Q_def)
    assume "\<not> p * t \<le> a * q"
    then have "a * q + 1 \<le> p * t" by simp
    then have "real a * real q + 1 \<le> real p * real t"
      by (metis of_nat_1 of_nat_add of_nat_le_iff of_nat_mult)
    then have "T + 1 / Q \<le> P"
      using assms(1,2) by (simp add: P_def T_def Q_def divide_simps)
    moreover have "P \<le> 1" "0 \<le> T" "0 \<le> P" using assms by (simp_all add: P_def T_def)
    moreover have "1 / 2 ^ 50 \<le> 1 / Q" using Q by (simp add: frac_le)
    moreover have "P * (1 - ulp_rel) \<le> fl P" "fl T \<le> T * (1 + ulp_rel)"
      using \<open>0 \<le> T\<close> \<open>0 \<le> P\<close> by (simp_all add: fl_le fl_ge)
    ultimately show False
      using le unfolding ulp_rel_def P_def [symmetric] T_def [symmetric]
      by (simp add: algebra_simps)
  qed
qed

end
