(* ===== verification/Log_Batch.thy ===== *)
theory Log_Batch
  imports Log_Types
begin

text \<open>
  The batch writer, \<open>crates/networker-log/src/batch.rs\<close>: the multi-row insert, one flush with
  its retry and its accounting, and the writer's reaction to each of the three things its
  \<open>select!\<close> waits for.

  The connection pool, the database and the clock are a parameter, the record \<open>log_world\<close>
  over a type of world states: acquiring a connection (\<open>pool.get\<close>), executing one statement
  with its parameters (\<open>client.execute\<close>), reading the clock and sleeping.
\<close>

definition BATCH_SIZE :: nat where "BATCH_SIZE = 100"
definition FLUSH_INTERVAL :: duration where "FLUSH_INTERVAL = from_millis 500"
definition CHANNEL_CAPACITY :: nat where "CHANNEL_CAPACITY = 10000"

section \<open>The insert statement\<close>

datatype sql_param =
    PTimestamp instant
  | PText string
  | PSmallint int
  | POptUuid "uuid option"
  | POptText "string option"
  | POptJson "field_map option"
  | PUuid uuid
  | PBigint int

definition COLS :: nat where "COLS = 8"

text \<open>The parenthesised placeholders of row \<open>i\<close>, and the rows separated by commas.\<close>

definition row_placeholders :: "nat \<Rightarrow> string" where
  "row_placeholders i =
     (let base = i * COLS + 1
      in ''('' @ concat (map (\<lambda>col. (if 0 < col then '','' else []) @ ''$'' @ decimal (base + col)) [0 ..< COLS])
         @ '')'')"

definition insert_sql :: "'a list \<Rightarrow> string" where
  "insert_sql batch =
     ''INSERT INTO service_log (ts, service, level, message, config_id, project_id, trace_id, fields) VALUES '' @
     concat (map (\<lambda>i. (if 0 < i then '', '' else []) @ row_placeholders i) [0 ..< length batch])"

definition entry_params :: "log_entry \<Rightarrow> sql_param list" where
  "entry_params e =
     [PTimestamp (le_ts e), PText (le_service e), PSmallint (level_as_db (le_level e)),
      PText (le_message e), POptUuid (le_config_id e), POptText (le_project_id e),
      POptUuid (le_trace_id e), POptJson (le_fields e)]"

definition insert_params :: "log_entry list \<Rightarrow> sql_param list" where
  "insert_params batch = concat (map entry_params batch)"

record 'w log_world =
  lw_get :: "'w \<Rightarrow> (string + unit) \<times> 'w"
  lw_execute :: "string \<Rightarrow> sql_param list \<Rightarrow> 'w \<Rightarrow> (string + unit) \<times> 'w"
  lw_now :: "'w \<Rightarrow> instant"
  lw_sleep :: "duration \<Rightarrow> 'w \<Rightarrow> 'w"

definition insert_batch :: "'w log_world \<Rightarrow> log_entry list \<Rightarrow> 'w \<Rightarrow> (string + unit) \<times> 'w" where
  "insert_batch W batch w =
     (if batch = [] then (Inr (), w)
      else lw_execute W (insert_sql batch) (insert_params batch) w)"

definition try_flush_once :: "'w log_world \<Rightarrow> log_entry list \<Rightarrow> 'w \<Rightarrow> (string + unit) \<times> 'w" where
  "try_flush_once W buffer w =
     (case lw_get W w of
        (Inl e, w1) \<Rightarrow> (Inl e, w1)
      | (Inr _, w1) \<Rightarrow> insert_batch W buffer w1)"

section \<open>One flush\<close>

record writer =
  wr_buffer :: "log_entry list"
  wr_metrics :: log_metrics

text \<open>
  What a flush did: nothing, or it wrote or gave up one batch. The code leaves it in the
  counters; here it is also a result, for the statements about order.
\<close>

datatype flush_outcome = NoFlush | Wrote "log_entry list" | GaveUp "log_entry list"

definition record_written :: "u64 \<Rightarrow> instant \<Rightarrow> instant \<Rightarrow> log_metrics \<Rightarrow> log_metrics" where
  "record_written n started now m =
     m\<lparr>lm_entries_written := lm_entries_written m + n,
       lm_last_flush_ms := of_nat (as_millis (now - started))\<rparr>"

definition record_dropped :: "u64 \<Rightarrow> log_metrics \<Rightarrow> log_metrics" where
  "record_dropped n m =
     m\<lparr>lm_entries_dropped := lm_entries_dropped m + n, lm_flush_errors := lm_flush_errors m + 1\<rparr>"

definition flush :: "'w log_world \<Rightarrow> writer \<Rightarrow> 'w \<Rightarrow> flush_outcome \<times> writer \<times> 'w" where
  "flush W s w =
     (if wr_buffer s = [] then (NoFlush, s, w)
      else
        let n = of_nat (length (wr_buffer s));
            start = lw_now W w;
            m = (wr_metrics s)\<lparr>lm_flush_count := lm_flush_count (wr_metrics s) + 1\<rparr>;
            finish = (\<lambda>m. \<lparr>wr_buffer = [], wr_metrics = m\<lparr>lm_queue_depth := 0\<rparr>\<rparr>)
        in (case try_flush_once W (wr_buffer s) w of
              (Inr _, w1) \<Rightarrow>
                (Wrote (wr_buffer s), finish (record_written n start (lw_now W w1) m), w1)
            | (Inl first_err, w1) \<Rightarrow>
                (case try_flush_once W (wr_buffer s) (lw_sleep W (from_millis 100) w1) of
                   (Inr _, w2) \<Rightarrow>
                     (Wrote (wr_buffer s), finish (record_written n start (lw_now W w2) m), w2)
                 | (Inl e, w2) \<Rightarrow>
                     (GaveUp (wr_buffer s), finish (record_dropped n m), w2))))"

section \<open>The writer loop\<close>

datatype writer_event = Received log_entry | ChannelClosed | IntervalTick

text \<open>
  One turn of the loop; the first component says whether the loop goes on. Receiving
  stores the queue depth before it flushes.
\<close>

fun writer_turn ::
  "'w log_world \<Rightarrow> writer_event \<Rightarrow> writer \<Rightarrow> 'w \<Rightarrow> bool \<times> flush_outcome \<times> writer \<times> 'w" where
  "writer_turn W (Received e) s w =
     (let s1 = s\<lparr>wr_buffer := wr_buffer s @ [e]\<rparr>;
          s2 = s1\<lparr>wr_metrics := (wr_metrics s1)\<lparr>lm_queue_depth := of_nat (length (wr_buffer s1))\<rparr>\<rparr>
      in if BATCH_SIZE \<le> length (wr_buffer s2) then (True, flush W s2 w) else (True, NoFlush, s2, w))"
| "writer_turn W ChannelClosed s w =
     (if wr_buffer s \<noteq> [] then (False, flush W s w) else (False, NoFlush, s, w))"
| "writer_turn W IntervalTick s w =
     (if wr_buffer s \<noteq> [] then (True, flush W s w) else (True, NoFlush, s, w))"

section \<open>The insert's placeholders and parameters\<close>

lemma length_entry_params [simp]: "length (entry_params e) = COLS"
  by (simp add: entry_params_def COLS_def)

lemma length_insert_params: "length (insert_params batch) = length batch * COLS"
  by (induction batch) (simp_all add: insert_params_def)

lemma insert_params_nth:
  "i < length batch \<Longrightarrow> c < COLS \<Longrightarrow>
   insert_params batch ! (i * COLS + c) = entry_params (batch ! i) ! c"
proof (induction batch arbitrary: i)
  case (Cons e batch)
  show ?case
  proof (cases i)
    case 0
    with Cons.prems show ?thesis by (simp add: insert_params_def nth_append)
  next
    case (Suc j)
    have "insert_params (e # batch) ! (i * COLS + c) = insert_params batch ! (j * COLS + c)"
      by (simp add: insert_params_def nth_append Suc)
    with Cons Suc show ?thesis by simp
  qed
qed simp

section \<open>What one flush does to the writer\<close>

definition outcome_entries :: "flush_outcome \<Rightarrow> log_entry list" where
  "outcome_entries r = (case r of NoFlush \<Rightarrow> [] | Wrote b \<Rightarrow> b | GaveUp b \<Rightarrow> b)"

text \<open>
  The counters after a flush, by its outcome. The last duration is left to the outcome's
  own time.
\<close>

definition account :: "flush_outcome \<Rightarrow> log_metrics \<Rightarrow> log_metrics" where
  "account r m = (case r of
     NoFlush \<Rightarrow> m
   | Wrote b \<Rightarrow> m\<lparr>lm_flush_count := lm_flush_count m + 1,
       lm_entries_written := lm_entries_written m + of_nat (length b), lm_queue_depth := 0\<rparr>
   | GaveUp b \<Rightarrow> m\<lparr>lm_flush_count := lm_flush_count m + 1,
       lm_entries_dropped := lm_entries_dropped m + of_nat (length b),
       lm_flush_errors := lm_flush_errors m + 1, lm_queue_depth := 0\<rparr>)"

lemma flush_cases:
  assumes "flush W s w = (r, s', w')"
  obtains (empty) "wr_buffer s = []" "r = NoFlush" "s' = s" "w' = w"
    | (wrote) ms where "wr_buffer s \<noteq> []" "r = Wrote (wr_buffer s)" "wr_buffer s' = []"
        "wr_metrics s' = (account r (wr_metrics s))\<lparr>lm_last_flush_ms := ms\<rparr>"
    | (gave_up) "wr_buffer s \<noteq> []" "r = GaveUp (wr_buffer s)" "wr_buffer s' = []"
        "wr_metrics s' = account r (wr_metrics s)"
proof (cases "wr_buffer s = []")
  case True
  then have "r = NoFlush" "s' = s" "w' = w" using assms by (simp_all add: flush_def)
  with True show ?thesis by (rule empty)
next
  case False
  obtain r1 w1 where a1: "try_flush_once W (wr_buffer s) w = (r1, w1)" by (rule prod.exhaust)
  obtain r2 w2 where a2: "try_flush_once W (wr_buffer s) (lw_sleep W (from_millis 100) w1) = (r2, w2)"
    by (rule prod.exhaust)
  let ?n = "of_nat (length (wr_buffer s)) :: u64"
  let ?m = "(wr_metrics s)\<lparr>lm_flush_count := lm_flush_count (wr_metrics s) + 1\<rparr>"
  let ?fin = "\<lambda>m. \<lparr>wr_buffer = [], wr_metrics = m\<lparr>lm_queue_depth := 0\<rparr>\<rparr>"
  have acc: "\<exists>ms. ?fin (record_written ?n t t' ?m) = \<lparr>wr_buffer = [],
      wr_metrics = (account (Wrote (wr_buffer s)) (wr_metrics s))\<lparr>lm_last_flush_ms := ms\<rparr>\<rparr>" for t t'
    by (rule exI [of _ "of_nat (as_millis (t' - t))"]) (simp add: record_written_def account_def)
  show ?thesis
  proof (cases "\<exists>e2. r1 = Inl e2 \<and> (\<exists>e3. r2 = Inl e3)")
    case True
    then have "r = GaveUp (wr_buffer s) \<and> s' = ?fin (record_dropped ?n ?m)"
      using assms False by (auto simp: flush_def a1 a2 Let_def)
    then show ?thesis
      by (intro gave_up) (simp_all add: False record_dropped_def account_def)
  next
    case retried: False
    have "\<exists>t t'. r = Wrote (wr_buffer s) \<and> s' = ?fin (record_written ?n t t' ?m)"
    proof (cases r1)
      case (Inr u)
      then show ?thesis using assms False unfolding flush_def Let_def a1 by auto
    next
      case (Inl e)
      with retried obtain u where "r2 = Inr u" by (cases r2) auto
      with Inl show ?thesis using assms False unfolding flush_def Let_def a1 by (auto simp: a2)
    qed
    then obtain ms where "r = Wrote (wr_buffer s)" "s' = \<lparr>wr_buffer = [],
        wr_metrics = (account (Wrote (wr_buffer s)) (wr_metrics s))\<lparr>lm_last_flush_ms := ms\<rparr>\<rparr>"
      using acc by metis
    then show ?thesis by (intro wrote) (simp_all add: False)
  qed
qed

lemma flush_empties: "flush W s w = (r, s', w') \<Longrightarrow> wr_buffer s' = [] \<and> outcome_entries r = wr_buffer s"
  by (erule flush_cases) (auto simp: outcome_entries_def)

end
