(* ===== verification/Log_Pipeline.thy ===== *)
theory Log_Pipeline
  imports Log_Batch "HOL-Library.AList"
begin

text \<open>
  The tracing layer of \<open>crates/networker-log/src/db_layer.rs\<close>, the channel between it and the
  batch writer, and the shutdown of \<open>builder.rs\<close>, as one state machine: an event becomes an
  entry and is offered to the bounded channel without waiting, the writer takes entries from
  it, and shutdown closes it and waits for the writer to finish.

  Parsing a UUID and serialising a JSON object are parameters. Rust's \<open>Debug\<close> rendering of a
  value and \<open>f64::to_string\<close> arrive with the recorded value. A JSON object is an association
  list; the map the code uses keeps its keys in order, which neither the length of its text
  nor a lookup shows.
\<close>

section \<open>From an event to an entry\<close>

record field_visitor =
  fv_message :: string
  fv_fields :: field_map

definition field_visitor_new :: field_visitor where
  "field_visitor_new = \<lparr>fv_message = [], fv_fields = []\<rparr>"

datatype recorded =
    RecDebug string
  | RecStr string
  | RecI64 int
  | RecU64 nat
  | RecBool bool
  | RecF64 f64_value string

definition insert_field :: "string \<Rightarrow> field_json \<Rightarrow> field_visitor \<Rightarrow> field_visitor" where
  "insert_field k v fv = fv\<lparr>fv_fields := AList.update k v (fv_fields fv)\<rparr>"

text \<open>The message of a \<open>Debug\<close> rendering loses a pair of surrounding double quotes.\<close>

definition strip_quotes :: "string \<Rightarrow> string" where
  "strip_quotes raw =
     (if starts_with [CHR 0x22] raw \<and> ends_with [CHR 0x22] raw \<and> 2 \<le> length raw
      then slice 1 (length raw - 1) raw else raw)"

fun record_field :: "field_visitor \<Rightarrow> string \<times> recorded \<Rightarrow> field_visitor" where
  "record_field fv (name, RecDebug raw) =
     (if name = ''message'' then fv\<lparr>fv_message := strip_quotes raw\<rparr>
      else insert_field name (FStr raw) fv)"
| "record_field fv (name, RecStr value) =
     (if name = ''message'' then fv\<lparr>fv_message := value\<rparr> else insert_field name (FStr value) fv)"
| "record_field fv (name, RecI64 value) = insert_field name (FInt value) fv"
| "record_field fv (name, RecU64 value) = insert_field name (FInt (int value)) fv"
| "record_field fv (name, RecBool value) = insert_field name (FBool value) fv"
| "record_field fv (name, RecF64 value text) =
     insert_field name (case value of Finite x \<Rightarrow> FFloat x | _ \<Rightarrow> FStr text) fv"

record layer_ext =
  lx_parse_uuid :: "string \<Rightarrow> uuid option"
  lx_to_string :: "field_map \<Rightarrow> string option"

record db_layer =
  dl_service :: string
  dl_context :: "string \<rightharpoonup> string"

definition field_as_str :: "field_json \<Rightarrow> string option" where
  "field_as_str v = (case v of FStr s \<Rightarrow> Some s | _ \<Rightarrow> None)"

text \<open>
  \<open>context.get(key).and_then(parse).or_else(|| fields.remove(key).and_then(as_str, parse))\<close>:
  the field is removed only where the context gave no value.
\<close>

definition resolve ::
  "(string \<Rightarrow> 'a option) \<Rightarrow> (string \<rightharpoonup> string) \<Rightarrow> string \<Rightarrow> field_map \<Rightarrow> 'a option \<times> field_map" where
  "resolve parse ctx key fs =
     (case Option.bind (ctx key) parse of
        Some v \<Rightarrow> (Some v, fs)
      | None \<Rightarrow> (Option.bind (Option.bind (map_of fs key) field_as_str) parse, AList.delete key fs))"

definition MAX_FIELDS_BYTES :: nat where "MAX_FIELDS_BYTES = 65536"

definition bounded_fields :: "layer_ext \<Rightarrow> field_map \<Rightarrow> field_map option" where
  "bounded_fields x fs =
     (if fs = [] then None
      else
        let serialized = (case lx_to_string x fs of Some t \<Rightarrow> t | None \<Rightarrow> [])
        in if MAX_FIELDS_BYTES < length serialized
           then Some [(''_truncated'', FBool True), (''_size'', FInt (int (length serialized)))]
           else Some fs)"

definition entry_of_event ::
  "layer_ext \<Rightarrow> db_layer \<Rightarrow> instant \<Rightarrow> tracing_level \<Rightarrow> (string \<times> recorded) list \<Rightarrow> log_entry" where
  "entry_of_event x layer now level recs =
     (let visitor = foldl record_field field_visitor_new recs;
          (config_id, f1) = resolve (lx_parse_uuid x) (dl_context layer) ''config_id'' (fv_fields visitor);
          (project_id, f2) = resolve Some (dl_context layer) ''project_id'' f1;
          (trace_id, f3) = resolve (lx_parse_uuid x) (dl_context layer) ''trace_id'' f2
      in \<lparr>le_ts = now, le_service = dl_service layer, le_level = level_from_tracing level,
          le_message = fv_message visitor, le_config_id = config_id, le_project_id = project_id,
          le_trace_id = trace_id, le_fields = bounded_fields x f3\<rparr>)"

section \<open>The pipeline\<close>

text \<open>
  The channel's queue, its two senders (the layer's shared slot and the handle), the
  writer and the world. Three fields keep the history: the entries the channel accepted, the
  number it refused because it was full, and the flushes in order.
\<close>

record 'w pipeline =
  pl_slot :: bool
  pl_handle :: bool
  pl_queue :: "log_entry list"
  pl_running :: bool
  pl_writer :: writer
  pl_world :: 'w
  pl_accepted :: "log_entry list"
  pl_refused :: nat
  pl_batches :: "flush_outcome list"

definition spawn_batch_writer :: "'w \<Rightarrow> 'w pipeline" where
  "spawn_batch_writer w =
     \<lparr>pl_slot = True, pl_handle = True, pl_queue = [], pl_running = True,
      pl_writer = \<lparr>wr_buffer = [], wr_metrics = log_metrics_default\<rparr>, pl_world = w,
      pl_accepted = [], pl_refused = 0, pl_batches = []\<rparr>"

text \<open>\<open>try_send\<close> on the sender in the slot, and the three ways it can end.\<close>

definition send_entry :: "log_entry \<Rightarrow> 'w pipeline \<Rightarrow> 'w pipeline" where
  "send_entry e p =
     (if \<not> pl_slot p then p
      else if \<not> pl_running p then p
      else if length (pl_queue p) < CHANNEL_CAPACITY
      then p\<lparr>pl_queue := pl_queue p @ [e], pl_accepted := pl_accepted p @ [e]\<rparr>
      else
        let s = pl_writer p; m = wr_metrics s
        in p\<lparr>pl_writer := s\<lparr>wr_metrics := m\<lparr>lm_entries_dropped := lm_entries_dropped m + 1\<rparr>\<rparr>,
             pl_refused := pl_refused p + 1\<rparr>)"

definition on_event ::
  "layer_ext \<Rightarrow> db_layer \<Rightarrow> instant \<Rightarrow> tracing_level \<Rightarrow> (string \<times> recorded) list \<Rightarrow>
   'w pipeline \<Rightarrow> 'w pipeline" where
  "on_event x layer now level recs p = send_entry (entry_of_event x layer now level recs) p"

text \<open>
  What the biased \<open>select!\<close> finds: an entry if the queue has one; the end of the stream if
  the queue is empty and no sender is left; otherwise it waits for the interval.
\<close>

definition next_event :: "'w pipeline \<Rightarrow> writer_event" where
  "next_event p = (case pl_queue p of
     e # _ \<Rightarrow> Received e
   | [] \<Rightarrow> if pl_slot p \<or> pl_handle p then IntervalTick else ChannelClosed)"

definition writer_step :: "'w log_world \<Rightarrow> 'w pipeline \<Rightarrow> 'w pipeline" where
  "writer_step W p =
     (case writer_turn W (next_event p) (pl_writer p) (pl_world p) of
        (goes_on, r, s, w) \<Rightarrow>
          p\<lparr>pl_queue := tl (pl_queue p), pl_running := goes_on, pl_writer := s, pl_world := w,
            pl_batches := (if r = NoFlush then pl_batches p else pl_batches p @ [r])\<rparr>)"

definition clear_slot :: "'w pipeline \<Rightarrow> 'w pipeline" where
  "clear_slot p = p\<lparr>pl_slot := False\<rparr>"

definition drop_handle :: "'w pipeline \<Rightarrow> 'w pipeline" where
  "drop_handle p = p\<lparr>pl_handle := False\<rparr>"

text \<open>
  The steps, in any order. The writer's turn is atomic: what the layer does while a flush
  waits for the database touches the queue's end and the counter of dropped entries, which a
  flush does not read.
\<close>

inductive pipeline_step :: "'w log_world \<Rightarrow> 'w pipeline \<Rightarrow> 'w pipeline \<Rightarrow> bool" for W where
  step_event: "pipeline_step W p (on_event x layer now level recs p)"
| step_writer: "pl_running p \<Longrightarrow> pipeline_step W p (writer_step W p)"
| step_clear: "pipeline_step W p (clear_slot p)"
| step_drop: "pipeline_step W p (drop_handle p)"

inductive pipeline_reach :: "'w log_world \<Rightarrow> 'w \<Rightarrow> 'w pipeline \<Rightarrow> bool" for W w where
  reach_start: "pipeline_reach W w (spawn_batch_writer w)"
| reach_step: "pipeline_reach W w p \<Longrightarrow> pipeline_step W p q \<Longrightarrow> pipeline_reach W w q"

text \<open>What a writer's turn does to the queue and the senders, whatever the flush does.\<close>

lemma writer_step_frame [simp]:
  "pl_queue (writer_step W p) = tl (pl_queue p)"
  "pl_slot (writer_step W p) = pl_slot p"
  "pl_handle (writer_step W p) = pl_handle p"
  "pl_accepted (writer_step W p) = pl_accepted p"
  "pl_refused (writer_step W p) = pl_refused p"
  by (simp_all add: writer_step_def split: prod.split)

lemma writer_step_running [simp]:
  "pl_running (writer_step W p) \<longleftrightarrow> pl_queue p \<noteq> [] \<or> pl_slot p \<or> pl_handle p"
  by (cases "pl_queue p") (auto simp: writer_step_def next_event_def Let_def split: prod.split)

section \<open>Shutdown\<close>

text \<open>
  With both senders gone the writer runs until it returns: every turn takes an entry from
  the queue, and the turn that finds none returns.
\<close>

function drain :: "'w log_world \<Rightarrow> 'w pipeline \<Rightarrow> 'w pipeline" where
  "drain W p =
     (if pl_running p \<and> \<not> pl_slot p \<and> \<not> pl_handle p then drain W (writer_step W p) else p)"
  by pat_completeness auto
termination
proof (relation "measure (\<lambda>(W, p). length (pl_queue p) + (if pl_running p then 1 else 0))")
  fix W :: "'w log_world" and p :: "'w pipeline"
  assume a: "pl_running p \<and> \<not> pl_slot p \<and> \<not> pl_handle p"
  show "((W, writer_step W p), (W, p))
    \<in> measure (\<lambda>(W, p). length (pl_queue p) + (if pl_running p then 1 else 0))"
    using a by (cases "pl_queue p") simp_all
qed simp

declare drain.simps [simp del]

definition shutdown :: "'w log_world \<Rightarrow> 'w pipeline \<Rightarrow> 'w pipeline" where
  "shutdown W p = drain W (drop_handle (clear_slot p))"

section \<open>The invariant\<close>

definition entries_of :: "flush_outcome list \<Rightarrow> log_entry list" where
  "entries_of bs = concat (map outcome_entries bs)"

fun written_count :: "flush_outcome list \<Rightarrow> nat" where
  "written_count [] = 0"
| "written_count (r # rs) = (case r of Wrote b \<Rightarrow> length b | _ \<Rightarrow> 0) + written_count rs"

fun given_up_count :: "flush_outcome list \<Rightarrow> nat" where
  "given_up_count [] = 0"
| "given_up_count (r # rs) = (case r of GaveUp b \<Rightarrow> length b | _ \<Rightarrow> 0) + given_up_count rs"

definition is_failure :: "flush_outcome \<Rightarrow> bool" where
  "is_failure r \<longleftrightarrow> (case r of GaveUp _ \<Rightarrow> True | _ \<Rightarrow> False)"

definition metrics_account :: "flush_outcome list \<Rightarrow> nat \<Rightarrow> nat \<Rightarrow> log_metrics \<Rightarrow> bool" where
  "metrics_account bs refused depth m \<longleftrightarrow>
     lm_entries_written m = of_nat (written_count bs) \<and>
     lm_entries_dropped m = of_nat (given_up_count bs + refused) \<and>
     lm_flush_count m = of_nat (length bs) \<and>
     lm_flush_errors m = of_nat (length (filter is_failure bs)) \<and>
     lm_queue_depth m = of_nat depth"

definition pipeline_inv :: "'w pipeline \<Rightarrow> bool" where
  "pipeline_inv p \<longleftrightarrow>
     pl_accepted p = entries_of (pl_batches p) @ wr_buffer (pl_writer p) @ pl_queue p \<and>
     (\<forall>r \<in> set (pl_batches p). r \<noteq> NoFlush \<and> 0 < length (outcome_entries r) \<and>
        length (outcome_entries r) \<le> BATCH_SIZE) \<and>
     length (wr_buffer (pl_writer p)) < BATCH_SIZE \<and>
     length (pl_queue p) \<le> CHANNEL_CAPACITY \<and>
     (\<not> pl_running p \<longrightarrow> pl_queue p = [] \<and> wr_buffer (pl_writer p) = [] \<and>
        \<not> pl_slot p \<and> \<not> pl_handle p) \<and>
     metrics_account (pl_batches p) (pl_refused p) (length (wr_buffer (pl_writer p)))
       (wr_metrics (pl_writer p))"

lemma counts_append [simp]:
  "written_count (as @ bs) = written_count as + written_count bs"
  "given_up_count (as @ bs) = given_up_count as + given_up_count bs"
  "entries_of (as @ bs) = entries_of as @ entries_of bs"
  by (induction as) (simp_all add: entries_of_def)

lemma written_given_up: "length (entries_of bs) = written_count bs + given_up_count bs"
  by (induction bs) (auto simp: entries_of_def outcome_entries_def split: flush_outcome.split)

lemma spawn_inv: "pipeline_inv (spawn_batch_writer w)"
  by (simp add: pipeline_inv_def spawn_batch_writer_def metrics_account_def entries_of_def
      log_metrics_default_def BATCH_SIZE_def)

text \<open>A flush of a buffer that is accounted for leaves an empty one accounted for.\<close>

lemma flush_account:
  assumes "flush W s w = (r, s', w')" "metrics_account bs refused d (wr_metrics s)" "wr_buffer s \<noteq> []"
  shows "r \<noteq> NoFlush \<and> outcome_entries r = wr_buffer s \<and> wr_buffer s' = [] \<and>
    metrics_account (bs @ [r]) refused 0 (wr_metrics s')"
  using assms(1)
proof (cases rule: flush_cases)
  case (wrote ms)
  then show ?thesis using assms(2)
    by (simp add: metrics_account_def account_def outcome_entries_def is_failure_def)
next
  case gave_up
  then show ?thesis using assms(2)
    by (simp add: metrics_account_def account_def outcome_entries_def is_failure_def)
qed (use assms(3) in simp)

end
