(* ===== verification/Log_Properties.thy ===== *)
theory Log_Properties
  imports Log_Pipeline
begin

text \<open>
  The properties of the log pipeline: every entry the channel accepts is accounted for and in
  order, batches and the queue are bounded, shutdown flushes what is left, a working database
  loses nothing, the insert's parameters line up with its placeholders, and the levels and
  the health status mean what they say.
\<close>

section \<open>The invariant of the pipeline\<close>

definition received_of_event :: "writer_event \<Rightarrow> log_entry list" where
  "received_of_event ev = (case ev of Received e \<Rightarrow> [e] | _ \<Rightarrow> [])"

lemma metrics_account_depth [simp]:
  "metrics_account bs refused d (m\<lparr>lm_queue_depth := of_nat d'\<rparr>) \<longleftrightarrow>
     metrics_account bs refused d' (m\<lparr>lm_queue_depth := of_nat d'\<rparr>) \<and> (of_nat d' :: u32) = of_nat d"
  by (auto simp: metrics_account_def)

lemma writer_turn_account:
  assumes t: "writer_turn W ev s w = (g, r, s', w')"
    and acc: "metrics_account bs refused (length (wr_buffer s)) (wr_metrics s)"
    and small: "length (wr_buffer s) < BATCH_SIZE"
  defines "all \<equiv> wr_buffer s @ received_of_event ev"
  shows "(r = NoFlush \<and> wr_buffer s' = all \<and> length all < BATCH_SIZE \<and> (\<not> g \<longrightarrow> all = []) \<and>
      metrics_account bs refused (length all) (wr_metrics s')) \<or>
    (r \<noteq> NoFlush \<and> outcome_entries r = all \<and> wr_buffer s' = [] \<and> all \<noteq> [] \<and>
      length all \<le> BATCH_SIZE \<and> metrics_account (bs @ [r]) refused 0 (wr_metrics s'))"
proof (cases ev)
  case (Received e)
  define s2 where "s2 = \<lparr>wr_buffer = wr_buffer s @ [e],
    wr_metrics = (wr_metrics s)\<lparr>lm_queue_depth := of_nat (length (wr_buffer s @ [e]))\<rparr>\<rparr>"
  have all: "all = wr_buffer s2" by (simp add: all_def received_of_event_def Received s2_def)
  have acc2: "metrics_account bs refused (length all) (wr_metrics s2)"
    using acc unfolding all by (simp add: s2_def metrics_account_def)
  have turn: "(if BATCH_SIZE \<le> length all then (True, flush W s2 w) else (True, NoFlush, s2, w)) = (g, r, s', w')"
    using t unfolding all by (cases s) (simp add: Received s2_def Let_def cong: if_cong)
  show ?thesis
  proof (cases "BATCH_SIZE \<le> length all")
    case True
    then have "flush W s2 w = (r, s', w')" using turn by simp
    from flush_account [OF this acc2] small show ?thesis
      unfolding all by (simp add: s2_def)
  next
    case False
    then show ?thesis using turn acc2 all by auto
  qed
next
  case ChannelClosed
  then have all: "all = wr_buffer s" by (simp add: all_def received_of_event_def)
  show ?thesis
  proof (cases "wr_buffer s = []")
    case True
    then show ?thesis using t acc small unfolding all by (simp add: ChannelClosed)
  next
    case False
    then have "flush W s w = (r, s', w')" using t by (simp add: ChannelClosed)
    from flush_account [OF this acc False] small False show ?thesis unfolding all by simp
  qed
next
  case IntervalTick
  then have all: "all = wr_buffer s" by (simp add: all_def received_of_event_def)
  show ?thesis
  proof (cases "wr_buffer s = []")
    case True
    then show ?thesis using t acc small unfolding all by (auto simp: IntervalTick)
  next
    case False
    then have "flush W s w = (r, s', w')" using t by (simp add: IntervalTick)
    from flush_account [OF this acc False] small False show ?thesis unfolding all by simp
  qed
qed

lemma next_event_received: "received_of_event (next_event p) @ tl (pl_queue p) = pl_queue p"
  by (cases "pl_queue p") (simp_all add: next_event_def received_of_event_def)

lemma writer_step_inv:
  assumes inv: "pipeline_inv p" shows "pipeline_inv (writer_step W p)"
proof -
  obtain g r s w where t: "writer_turn W (next_event p) (pl_writer p) (pl_world p) = (g, r, s, w)"
    by (metis prod_cases4)
  let ?all = "wr_buffer (pl_writer p) @ received_of_event (next_event p)"
  let ?q = "writer_step W p"
  have acc: "metrics_account (pl_batches p) (pl_refused p) (length (wr_buffer (pl_writer p))) (wr_metrics (pl_writer p))"
    and small: "length (wr_buffer (pl_writer p)) < BATCH_SIZE"
    using inv by (simp_all add: pipeline_inv_def)
  have q: "pl_writer ?q = s" "pl_running ?q = g"
    "pl_batches ?q = (if r = NoFlush then pl_batches p else pl_batches p @ [r])"
    by (simp_all add: writer_step_def t del: writer_step_running)
  have kept: "pl_accepted p = entries_of (pl_batches p) @ ?all @ tl (pl_queue p)"
    using inv by (simp add: pipeline_inv_def next_event_received)
  have closed: "tl (pl_queue p) = [] \<and> \<not> pl_slot p \<and> \<not> pl_handle p" if "\<not> g"
    using that q(2) by (cases "pl_queue p") auto
  have "length (tl (pl_queue p)) \<le> CHANNEL_CAPACITY"
    using inv by (auto simp: pipeline_inv_def)
  then show ?thesis
    using writer_turn_account [OF t acc small] inv kept closed
    by (elim disjE) (auto simp: pipeline_inv_def q entries_of_def simp del: writer_step_running)
qed

lemma send_entry_inv: "pipeline_inv p \<Longrightarrow> pipeline_inv (send_entry e p)"
  by (auto simp: pipeline_inv_def send_entry_def Let_def metrics_account_def)

lemma close_inv: "pipeline_inv p \<Longrightarrow> pipeline_inv (clear_slot p)" "pipeline_inv p \<Longrightarrow> pipeline_inv (drop_handle p)"
  by (auto simp: pipeline_inv_def clear_slot_def drop_handle_def)

lemma pipeline_step_inv: "pipeline_step W p q \<Longrightarrow> pipeline_inv p \<Longrightarrow> pipeline_inv q"
  by (erule pipeline_step.cases) (auto simp: on_event_def send_entry_inv writer_step_inv close_inv)

lemma pipeline_reach_inv: "pipeline_reach W w p \<Longrightarrow> pipeline_inv p"
  by (induction rule: pipeline_reach.induct) (auto simp: spawn_inv intro: pipeline_step_inv)

lemma drain_unfold:
  "pl_running p \<Longrightarrow> \<not> pl_slot p \<Longrightarrow> \<not> pl_handle p \<Longrightarrow> drain W p = drain W (writer_step W p)"
  "\<not> pl_running p \<Longrightarrow> drain W p = p"
  by (subst drain.simps, simp)+

lemma drain_facts:
  assumes "pipeline_inv p" "\<not> pl_slot p" "\<not> pl_handle p"
  shows "pipeline_inv (drain W p) \<and> \<not> pl_running (drain W p) \<and>
    pl_accepted (drain W p) = pl_accepted p \<and> pl_refused (drain W p) = pl_refused p"
  using assms
proof (induction W p rule: drain.induct)
  case (1 W p)
  show ?case
  proof (cases "pl_running p")
    case True
    with 1 show ?thesis by (simp add: drain_unfold writer_step_inv del: writer_step_running)
  next
    case False
    with 1 show ?thesis by (simp add: drain_unfold)
  qed
qed

lemma shutdown_facts:
  assumes "pipeline_inv p"
  shows "pipeline_inv (shutdown W p)" "\<not> pl_running (shutdown W p)"
    "pl_accepted (shutdown W p) = pl_accepted p" "pl_refused (shutdown W p) = pl_refused p"
proof -
  have "pipeline_inv (drop_handle (clear_slot p))" using assms by (simp add: close_inv)
  from drain_facts [OF this] show "pipeline_inv (shutdown W p)" "\<not> pl_running (shutdown W p)"
    "pl_accepted (shutdown W p) = pl_accepted p" "pl_refused (shutdown W p) = pl_refused p"
    by (simp_all add: shutdown_def clear_slot_def drop_handle_def)
qed

section \<open>A database that works\<close>

definition database_up :: "'w log_world \<Rightarrow> bool" where
  "database_up W \<longleftrightarrow> (\<forall>w. fst (lw_get W w) = Inr ()) \<and> (\<forall>q ps w. fst (lw_execute W q ps w) = Inr ())"

lemma flush_up:
  assumes "database_up W" shows "\<not> is_failure (fst (flush W s w))"
proof -
  obtain w1 where g: "lw_get W w = (Inr (), w1)"
    using assms by (metis database_up_def prod.collapse)
  obtain w2 where "lw_execute W (insert_sql (wr_buffer s)) (insert_params (wr_buffer s)) w1 = (Inr (), w2)"
    using assms by (metis database_up_def prod.collapse)
  then show ?thesis by (simp add: flush_def try_flush_once_def insert_batch_def g is_failure_def)
qed

lemma given_up_count_0_iff:
  "(\<forall>r \<in> set bs. \<not> is_failure r) \<Longrightarrow> given_up_count bs = 0 \<and> filter is_failure bs = []"
  by (induction bs) (auto simp: is_failure_def split: flush_outcome.splits)

lemma writer_step_up:
  assumes "database_up W" "\<forall>r \<in> set (pl_batches p). \<not> is_failure r"
  shows "\<forall>r \<in> set (pl_batches (writer_step W p)). \<not> is_failure r"
proof -
  obtain g r s w where t: "writer_turn W (next_event p) (pl_writer p) (pl_world p) = (g, r, s, w)"
    by (metis prod_cases4)
  have ok: "\<not> is_failure NoFlush" by (simp add: is_failure_def)
  have "\<not> is_failure r"
    using t flush_up [OF assms(1)] ok
    by (cases "next_event p") (auto simp: Let_def split: if_splits dest!: arg_cong [of "flush _ _ _" _ fst])
  then show ?thesis using assms(2) by (auto simp: writer_step_def t)
qed

lemma reach_up:
  assumes "database_up W" "pipeline_reach W w p"
  shows "\<forall>r \<in> set (pl_batches p). \<not> is_failure r"
  using assms(2)
proof (induction rule: pipeline_reach.induct)
  case reach_start
  show ?case by (simp add: spawn_batch_writer_def)
next
  case (reach_step p q)
  from reach_step.hyps(2) reach_step.IH show ?case
    by (cases rule: pipeline_step.cases)
      (auto simp: on_event_def send_entry_def Let_def clear_slot_def drop_handle_def
        dest: writer_step_up [OF assms(1)])
qed

lemma drain_up:
  "database_up W \<Longrightarrow> \<forall>r \<in> set (pl_batches p). \<not> is_failure r \<Longrightarrow>
   \<forall>r \<in> set (pl_batches (drain W p)). \<not> is_failure r"
proof (induction W p rule: drain.induct)
  case (1 W p)
  then show ?case by (subst drain.simps) (simp add: writer_step_up)
qed

section \<open>The properties of the pipeline\<close>

lemma pipeline_account:
  assumes "pipeline_reach W w p"
  shows "pl_accepted p = entries_of (pl_batches p) @ wr_buffer (pl_writer p) @ pl_queue p"
    and "r \<in> set (pl_batches p) \<Longrightarrow> 0 < length (outcome_entries r) \<and> length (outcome_entries r) \<le> BATCH_SIZE"
    and "length (wr_buffer (pl_writer p)) < BATCH_SIZE \<and> length (pl_queue p) \<le> CHANNEL_CAPACITY"
    and "lm_entries_written (wr_metrics (pl_writer p)) = of_nat (written_count (pl_batches p))"
    and "lm_entries_dropped (wr_metrics (pl_writer p)) = of_nat (given_up_count (pl_batches p) + pl_refused p)"
    and "lm_flush_count (wr_metrics (pl_writer p)) = of_nat (length (pl_batches p))"
    and "lm_flush_errors (wr_metrics (pl_writer p)) = of_nat (length (filter is_failure (pl_batches p)))"
    and "unat (lm_queue_depth (wr_metrics (pl_writer p))) = length (wr_buffer (pl_writer p))"
proof -
  have inv: "pipeline_inv p" by (rule pipeline_reach_inv [OF assms])
  then have "unat (of_nat (length (wr_buffer (pl_writer p))) :: u32) = length (wr_buffer (pl_writer p))"
    by (simp add: pipeline_inv_def BATCH_SIZE_def unsigned_of_nat take_bit_nat_eq_self)
  then show "unat (lm_queue_depth (wr_metrics (pl_writer p))) = length (wr_buffer (pl_writer p))"
    using inv by (simp add: pipeline_inv_def metrics_account_def)
qed (use pipeline_reach_inv [OF assms] in \<open>auto simp: pipeline_inv_def metrics_account_def\<close>)

text \<open>C35: In every state the pipeline can reach, the entries the channel accepted are, in
  their order, the batches flushed so far, then the writer's buffer, then the queue. A batch
  has between one and a hundred entries, the buffer fewer than a hundred, the queue at most
  its capacity. The counters are the truth modulo their width: entries written, entries
  given up by a flush or refused by a full channel, flushes, failed flushes.\<close>

theorem log_pipeline_accounts:
  assumes "pipeline_reach W w p"
  shows "pl_accepted p = entries_of (pl_batches p) @ wr_buffer (pl_writer p) @ pl_queue p \<and>
    (\<forall>r \<in> set (pl_batches p). 0 < length (outcome_entries r) \<and> length (outcome_entries r) \<le> BATCH_SIZE) \<and>
    length (wr_buffer (pl_writer p)) < BATCH_SIZE \<and> length (pl_queue p) \<le> CHANNEL_CAPACITY \<and>
    lm_entries_written (wr_metrics (pl_writer p)) = of_nat (written_count (pl_batches p)) \<and>
    lm_entries_dropped (wr_metrics (pl_writer p)) = of_nat (given_up_count (pl_batches p) + pl_refused p) \<and>
    lm_flush_count (wr_metrics (pl_writer p)) = of_nat (length (pl_batches p)) \<and>
    lm_flush_errors (wr_metrics (pl_writer p)) = of_nat (length (filter is_failure (pl_batches p))) \<and>
    unat (lm_queue_depth (wr_metrics (pl_writer p))) = length (wr_buffer (pl_writer p))"
  using pipeline_account [OF assms] by blast

lemma shutdown_account:
  assumes "pipeline_reach W w p"
  shows "\<not> pl_running (shutdown W p)"
    and "entries_of (pl_batches (shutdown W p)) = pl_accepted p"
    and "lm_entries_written (wr_metrics (pl_writer (shutdown W p))) +
         lm_entries_dropped (wr_metrics (pl_writer (shutdown W p))) =
         of_nat (length (pl_accepted p) + pl_refused p)"
    and "database_up W \<Longrightarrow>
         lm_entries_written (wr_metrics (pl_writer (shutdown W p))) = of_nat (length (pl_accepted p)) \<and>
         lm_entries_dropped (wr_metrics (pl_writer (shutdown W p))) = of_nat (pl_refused p)"
proof -
  note f = shutdown_facts [OF pipeline_reach_inv [OF assms], of W]
  show "\<not> pl_running (shutdown W p)" by (rule f)
  have e: "pl_accepted p = entries_of (pl_batches (shutdown W p))"
    and m: "metrics_account (pl_batches (shutdown W p)) (pl_refused p) 0 (wr_metrics (pl_writer (shutdown W p)))"
    using f by (auto simp: pipeline_inv_def)
  from e show "entries_of (pl_batches (shutdown W p)) = pl_accepted p" by simp
  show "lm_entries_written (wr_metrics (pl_writer (shutdown W p))) +
      lm_entries_dropped (wr_metrics (pl_writer (shutdown W p))) =
      of_nat (length (pl_accepted p) + pl_refused p)"
    using m by (simp add: metrics_account_def e written_given_up)
  show "lm_entries_written (wr_metrics (pl_writer (shutdown W p))) = of_nat (length (pl_accepted p)) \<and>
      lm_entries_dropped (wr_metrics (pl_writer (shutdown W p))) = of_nat (pl_refused p)"
    if "database_up W"
  proof -
    have "\<forall>r \<in> set (pl_batches (drop_handle (clear_slot p))). \<not> is_failure r"
      using reach_up [OF that assms] by (simp add: clear_slot_def drop_handle_def)
    from drain_up [OF that this] have "given_up_count (pl_batches (shutdown W p)) = 0"
      by (auto simp: shutdown_def dest: given_up_count_0_iff)
    then show ?thesis using m by (simp add: metrics_account_def e written_given_up)
  qed
qed

text \<open>C36: From every reachable state shutdown ends with the writer returned and everything
  the channel had accepted flushed, in order: written and dropped add up to what was accepted
  and refused. If the database works, every accepted entry is written and only refused ones
  are counted as dropped.\<close>

theorem log_shutdown_flushes:
  assumes "pipeline_reach W w p"
  shows "\<not> pl_running (shutdown W p) \<and>
    entries_of (pl_batches (shutdown W p)) = pl_accepted p \<and>
    lm_entries_written (wr_metrics (pl_writer (shutdown W p))) +
      lm_entries_dropped (wr_metrics (pl_writer (shutdown W p))) =
      of_nat (length (pl_accepted p) + pl_refused p) \<and>
    (database_up W \<longrightarrow>
      lm_entries_written (wr_metrics (pl_writer (shutdown W p))) = of_nat (length (pl_accepted p)) \<and>
      lm_entries_dropped (wr_metrics (pl_writer (shutdown W p))) = of_nat (pl_refused p))"
  using shutdown_account [OF assms] by blast

text \<open>A pipeline with one entry accepted, over a world that always works.\<close>

definition demo_world :: "unit log_world" where
  "demo_world = \<lparr>lw_get = (\<lambda>w. (Inr (), w)), lw_execute = (\<lambda>q ps w. (Inr (), w)),
     lw_now = (\<lambda>w. 0), lw_sleep = (\<lambda>d w. w)\<rparr>"

definition demo_layer_ext :: layer_ext where
  "demo_layer_ext = \<lparr>lx_parse_uuid = (\<lambda>s. None), lx_to_string = (\<lambda>fs. Some [])\<rparr>"

definition demo_pipeline :: "unit pipeline" where
  "demo_pipeline = on_event demo_layer_ext \<lparr>dl_service = ''svc'', dl_context = Map.empty\<rparr> 0 INFO
     [(''message'', RecStr ''hello'')] (spawn_batch_writer ())"

lemma demo_reach: "pipeline_reach demo_world () demo_pipeline"
  unfolding demo_pipeline_def by (rule reach_step [OF reach_start step_event])

lemma demo_accepted: "length (pl_accepted demo_pipeline) = 1 \<and> pl_refused demo_pipeline = 0"
  by (simp add: demo_pipeline_def on_event_def send_entry_def spawn_batch_writer_def CHANNEL_CAPACITY_def)

definition demo_flushed :: "unit pipeline" where
  "demo_flushed = writer_step demo_world (drop_handle (clear_slot (writer_step demo_world demo_pipeline)))"

lemma demo_flushed_reach: "pipeline_reach demo_world () demo_flushed"
  unfolding demo_flushed_def
  by (intro reach_step [OF _ step_writer] reach_step [OF _ step_drop] reach_step [OF _ step_clear] demo_reach)
    (simp_all add: demo_pipeline_def on_event_def send_entry_def spawn_batch_writer_def CHANNEL_CAPACITY_def
      drop_handle_def clear_slot_def)

lemma demo_flushed_batches: "\<exists>r. pl_batches demo_flushed = [r]"
  by (simp add: demo_flushed_def demo_pipeline_def on_event_def send_entry_def spawn_batch_writer_def
      CHANNEL_CAPACITY_def writer_step_def next_event_def clear_slot_def drop_handle_def flush_def
      try_flush_once_def insert_batch_def demo_world_def BATCH_SIZE_def Let_def)

theorem log_pipeline_accounts_witness:
  "pl_accepted demo_flushed = entries_of (pl_batches demo_flushed) @
     wr_buffer (pl_writer demo_flushed) @ pl_queue demo_flushed \<and>
   (\<exists>r. pl_batches demo_flushed = [r] \<and> 0 < length (outcome_entries r))"
proof -
  obtain r where "pl_batches demo_flushed = [r]" using demo_flushed_batches by blast
  then show ?thesis
    using log_pipeline_accounts [OF demo_flushed_reach] by simp
qed

theorem log_shutdown_flushes_witness:
  "entries_of (pl_batches (shutdown demo_world demo_pipeline)) = pl_accepted demo_pipeline \<and>
   length (pl_accepted demo_pipeline) = 1 \<and>
   lm_entries_written (wr_metrics (pl_writer (shutdown demo_world demo_pipeline))) = 1"
proof -
  have "database_up demo_world" by (simp add: database_up_def demo_world_def)
  with log_shutdown_flushes [OF demo_reach] show ?thesis by (simp add: demo_accepted)
qed

section \<open>Levels, health and events\<close>

text \<open>A level survives its database number, its \<open>tracing\<close> counterpart, its printed name
  and its digit; no other number is a level, and a level is above another exactly when its
  number is below.\<close>

theorem level_roundtrips:
  "level_from_db v = Some l \<longleftrightarrow> v = level_as_db l"
  "level_from_tracing (level_to_tracing l) = l" "level_to_tracing (level_from_tracing t) = t"
  "level_from_str (level_display l) = Inr l"
  "level_from_str (decimal (nat (level_as_db l))) = Inr l"
  "l \<le> l' \<longleftrightarrow> level_as_db l' \<le> level_as_db l"
proof -
  show "level_from_db v = Some l \<longleftrightarrow> v = level_as_db l"
    by (cases l) (auto simp: level_from_db_def level_as_db_def)
  show "level_from_tracing (level_to_tracing l) = l"
    by (cases l) (simp_all add: level_from_tracing_def level_to_tracing_def)
  show "level_to_tracing (level_from_tracing t) = t"
    by (cases t) (simp_all add: level_from_tracing_def level_to_tracing_def)
  show "level_from_str (level_display l) = Inr l"
    by (cases l) (simp_all add: level_from_str_def level_display_def trim_id to_ascii_uppercase_def
        upper_char_def is_ascii_lower_def is_ascii_space_def code_def)
  have dec: "decimal (nat (level_as_db l)) = (case l of LError \<Rightarrow> ''1'' | LWarn \<Rightarrow> ''2''
      | LInfo \<Rightarrow> ''3'' | LDebug \<Rightarrow> ''4'' | LTrace \<Rightarrow> ''5'')"
    by (cases l; hypsubst; code_simp)
  show "level_from_str (decimal (nat (level_as_db l))) = Inr l"
    unfolding dec
    by (cases l) (simp_all add: level_from_str_def trim_id to_ascii_uppercase_def
        upper_char_def is_ascii_lower_def is_ascii_space_def code_def)
  show "l \<le> l' \<longleftrightarrow> level_as_db l' \<le> level_as_db l"
    by (cases l; cases l') (simp_all add: less_eq_log_level_def severity_rank_def level_as_db_def)
qed

lemma count_ratio_ge_iff:
  assumes "0 < q" "p \<le> q" "0 < p" "unat a \<le> unat b" "unat b * q \<le> 2 ^ 50"
  shows "fl (real p / real q) \<le> count_ratio a b \<longleftrightarrow> 0 < unat b \<and> p * unat b \<le> unat a * q"
proof (cases "unat b = 0")
  case True
  have "0 < fl (real p / real q)" using assms(1,3) by (simp add: fl_pos)
  with True show ?thesis by (simp add: count_ratio_def unat_eq_zero)
next
  case False
  have "unat b \<le> unat b * q" using assms(1) by simp
  with assms(5) have "unat b \<le> 2 ^ 50" by (rule order_trans [rotated])
  then have le: "unat b \<le> 2 ^ 53" "unat a \<le> 2 ^ 53"
    using assms(4) by simp_all
  have "0 < b" using False by (simp add: word_less_nat_alt)
  then have "count_ratio a b = fl (real (unat a) / real (unat b))"
    using le by (simp add: count_ratio_def f64_ops fl.rnd_nat)
  then show ?thesis
    using fl_ratio_ge_iff [of q "unat b" p "unat a"] assms False by simp
qed

text \<open>While the counters are below two to the forty the rounding of the ratios decides
  nothing: the pipeline is failing exactly when a tenth of the entries was dropped or a
  twentieth of the flushes failed or the last flush took five seconds, and degraded exactly
  when it is not failing and a hundredth was dropped or the last flush took a second.\<close>

theorem status_exact:
  assumes "unat (lm_entries_written m) + unat (lm_entries_dropped m) \<le> 2 ^ 40"
    and "unat (lm_flush_errors m) \<le> unat (lm_flush_count m)" "unat (lm_flush_count m) \<le> 2 ^ 40"
  shows "pipeline_status m =
    (let w = unat (lm_entries_written m); d = unat (lm_entries_dropped m);
         e = unat (lm_flush_errors m); f = unat (lm_flush_count m); ms = unat (lm_last_flush_ms m)
     in if 0 < w + d \<and> w + d \<le> 10 * d \<or> 0 < f \<and> f \<le> 20 * e \<or> 5000 \<le> ms then ''failing''
        else if 0 < w + d \<and> w + d \<le> 100 * d \<or> 1000 \<le> ms then ''degraded'' else ''healthy'')"
proof -
  let ?t = "lm_entries_written m + lm_entries_dropped m"
  have t: "unat ?t = unat (lm_entries_written m) + unat (lm_entries_dropped m)"
    using assms(1) by (simp add: unat_word_ariths)
  have d: "FAILING_DROP_RATIO \<le> count_ratio (lm_entries_dropped m) ?t \<longleftrightarrow>
      0 < unat ?t \<and> unat ?t \<le> 10 * unat (lm_entries_dropped m)"
    using count_ratio_ge_iff [of 100 10 "lm_entries_dropped m" ?t] assms(1) t
    by (auto simp: FAILING_DROP_RATIO_def)
  have e: "FAILING_ERROR_RATIO \<le> count_ratio (lm_flush_errors m) (lm_flush_count m) \<longleftrightarrow>
      0 < unat (lm_flush_count m) \<and> unat (lm_flush_count m) \<le> 20 * unat (lm_flush_errors m)"
    using count_ratio_ge_iff [of 100 5 "lm_flush_errors m" "lm_flush_count m"] assms(2,3)
    by (auto simp: FAILING_ERROR_RATIO_def)
  have g: "DEGRADED_DROP_RATIO \<le> count_ratio (lm_entries_dropped m) ?t \<longleftrightarrow>
      0 < unat ?t \<and> unat ?t \<le> 100 * unat (lm_entries_dropped m)"
    using count_ratio_ge_iff [of 100 1 "lm_entries_dropped m" ?t] assms(1) t
    by (auto simp: DEGRADED_DROP_RATIO_def)
  have l: "FAILING_LATENCY_MS \<le> lm_last_flush_ms m \<longleftrightarrow> 5000 \<le> unat (lm_last_flush_ms m)"
    "DEGRADED_LATENCY_MS \<le> lm_last_flush_ms m \<longleftrightarrow> 1000 \<le> unat (lm_last_flush_ms m)"
    by (simp_all add: FAILING_LATENCY_MS_def DEGRADED_LATENCY_MS_def word_le_nat_alt)
  show ?thesis unfolding pipeline_status_def Let_def d e g l by (simp only: t)
qed

theorem status_exact_witness:
  "pipeline_status (log_metrics_default\<lparr>lm_entries_written := 9, lm_entries_dropped := 1\<rparr>) = ''failing''"
  by (subst status_exact) (simp_all add: log_metrics_default_def)

lemma resolve_context: "Option.bind (ctx key) parse = Some v \<Longrightarrow> resolve parse ctx key fs = (Some v, fs)"
  by (simp add: resolve_def)

text \<open>What the process's context says wins over the event's own fields: with a project in
  the context every entry carries it, and likewise a readable configuration or trace id. The
  structured fields stored are either the event's, at most 64 KiB once serialised, or a fixed
  marker with their size.\<close>

theorem event_entry:
  fixes x layer now level recs
  defines "e \<equiv> entry_of_event x layer now level recs"
  shows "dl_context layer ''project_id'' = Some p \<Longrightarrow> le_project_id e = Some p"
    and "Option.bind (dl_context layer ''config_id'') (lx_parse_uuid x) = Some u \<Longrightarrow> le_config_id e = Some u"
    and "Option.bind (dl_context layer ''trace_id'') (lx_parse_uuid x) = Some u \<Longrightarrow> le_trace_id e = Some u"
    and "le_fields e = Some fs \<Longrightarrow> fs \<noteq> [] \<and>
      ((\<exists>n. fs = [(''_truncated'', FBool True), (''_size'', FInt n)]) \<or>
       (\<forall>t. lx_to_string x fs = Some t \<longrightarrow> length t \<le> MAX_FIELDS_BYTES))"
    and "le_level e = level_from_tracing level \<and> le_service e = dl_service layer \<and> le_ts e = now"
proof -
  show "le_project_id e = Some p" if "dl_context layer ''project_id'' = Some p"
    using that by (simp add: e_def entry_of_event_def Let_def resolve_def split: prod.split option.split)
  show "le_config_id e = Some u" if "Option.bind (dl_context layer ''config_id'') (lx_parse_uuid x) = Some u"
    using that by (simp add: e_def entry_of_event_def Let_def resolve_context split: prod.split)
  show "le_trace_id e = Some u" if "Option.bind (dl_context layer ''trace_id'') (lx_parse_uuid x) = Some u"
    using that by (simp add: e_def entry_of_event_def Let_def resolve_context split: prod.split)
  show "fs \<noteq> [] \<and> ((\<exists>n. fs = [(''_truncated'', FBool True), (''_size'', FInt n)]) \<or>
      (\<forall>t. lx_to_string x fs = Some t \<longrightarrow> length t \<le> MAX_FIELDS_BYTES))" if "le_fields e = Some fs"
  proof -
    have "\<exists>f. le_fields e = bounded_fields x f"
      by (simp add: e_def entry_of_event_def Let_def split: prod.split) blast
    then obtain f where "bounded_fields x f = Some fs" using \<open>le_fields e = Some fs\<close> by auto
    then show ?thesis by (auto simp: bounded_fields_def Let_def split: if_splits)
  qed
  show "le_level e = level_from_tracing level \<and> le_service e = dl_service layer \<and> le_ts e = now"
    by (simp add: e_def entry_of_event_def Let_def split: prod.split)
qed

theorem event_entry_witness:
  "le_project_id (entry_of_event demo_layer_ext
     \<lparr>dl_service = ''svc'', dl_context = [''project_id'' \<mapsto> ''p1'']\<rparr> 0 INFO
     [(''project_id'', RecStr ''p2''), (''message'', RecStr ''hi'')]) = Some ''p1''"
  by (rule event_entry(1)) simp

end
