(* ===== verification/Log_Query.thy ===== *)
theory Log_Query
  imports Log_Batch
begin

text \<open>
  Reading the log back, \<open>crates/networker-log/src/query.rs\<close>: the filtered listing, whose SQL
  text is put together from the filters that are present while their values travel as
  parameters, and the per-service counts.

  The database client is a parameter, the record \<open>log_client\<close>: a query takes the statement
  and its parameters and returns an error or the rows with their columns in order. Counts are
  \<open>i64\<close> in the code and \<open>int\<close> here.
\<close>

section \<open>Replacing in strings\<close>

text \<open>\<open>s.replace(c, r)\<close> of one character, and \<open>s.replace("{}", r)\<close>.\<close>

definition replace_char :: "char \<Rightarrow> string \<Rightarrow> string \<Rightarrow> string" where
  "replace_char c r s = concat (map (\<lambda>x. if x = c then r else [x]) s)"

fun replace_braces :: "string \<Rightarrow> string \<Rightarrow> string" where
  "replace_braces r (x # y # s) =
     (if x = CHR ''{'' \<and> y = CHR ''}'' then r @ replace_braces r s else x # replace_braces r (y # s))"
| "replace_braces r s = s"

definition backslash :: char where "backslash = CHR 0x5C"

definition escape_search :: "string \<Rightarrow> string" where
  "escape_search s =
     replace_char (CHR ''_'') [backslash, CHR ''_'']
       (replace_char (CHR ''%'') [backslash, CHR ''%'']
         (replace_char backslash [backslash, backslash] s))"

section \<open>The listing\<close>

record log_query =
  lq_service :: "string option"
  lq_min_level :: "int option"
  lq_config_id :: "uuid option"
  lq_project_id :: "string option"
  lq_search :: "string option"
  lq_from :: instant
  lq_to :: instant
  lq_limit :: int
  lq_offset :: int

record log_row =
  row_ts :: instant
  row_service :: string
  row_level :: int
  row_message :: string
  row_config_id :: "uuid option"
  row_project_id :: "string option"
  row_trace_id :: "uuid option"
  row_fields :: "field_map option"

record log_query_response =
  lr_entries :: "log_row list"
  lr_total :: int
  lr_truncated :: bool

type_synonym row_columns =
  "instant \<times> string \<times> int \<times> string \<times> uuid option \<times> string option \<times> uuid option \<times> field_map option"

record 'w log_client =
  lc_query_one :: "string \<Rightarrow> sql_param list \<Rightarrow> 'w \<Rightarrow> (string + int) \<times> 'w"
  lc_query :: "string \<Rightarrow> sql_param list \<Rightarrow> 'w \<Rightarrow> (string + row_columns list) \<times> 'w"
  lc_query_stats :: "string \<Rightarrow> sql_param list \<Rightarrow> 'w \<Rightarrow> (string + (string \<times> int \<times> int) list) \<times> 'w"

text \<open>The clause under construction: conditions, parameters, and the next placeholder.\<close>

type_synonym where_state = "string list \<times> sql_param list \<times> nat"

definition placeholder :: "nat \<Rightarrow> string" where
  "placeholder n = ''$'' @ decimal n"

fun push_param :: "string \<Rightarrow> sql_param \<Rightarrow> where_state \<Rightarrow> where_state" where
  "push_param sql v (conditions, params, next_idx) =
     (conditions @ [replace_braces (placeholder next_idx) sql], params @ [v], next_idx + 1)"

definition push_if :: "'a option \<Rightarrow> string \<Rightarrow> ('a \<Rightarrow> sql_param) \<Rightarrow> where_state \<Rightarrow> where_state" where
  "push_if x sql f st = (case x of Some v \<Rightarrow> push_param sql (f v) st | None \<Rightarrow> st)"

definition search_pattern :: "string \<Rightarrow> string" where
  "search_pattern s = ''%'' @ escape_search s @ ''%''"

definition list_where :: "log_query \<Rightarrow> where_state" where
  "list_where q =
     (let s0 = ([''ts >= $1'', ''ts <= $2''], [PTimestamp (lq_from q), PTimestamp (lq_to q)], 3);
          s1 = push_if (lq_service q) ''service = {}'' PText s0;
          s2 = push_if (lq_min_level q) ''level <= {}'' PSmallint s1;
          s3 = push_if (lq_config_id q) ''config_id = {}'' PUuid s2;
          s4 = push_if (lq_project_id q) ''project_id = {}'' PText s3
      in push_if (lq_search q) ''message ILIKE {}'' (\<lambda>s. PText (search_pattern s)) s4)"

definition count_sql :: "string list \<Rightarrow> string" where
  "count_sql conditions = ''SELECT COUNT(*) FROM (SELECT 1 FROM service_log WHERE '' @
     join_with '' AND '' conditions @ '' LIMIT 10001) sub''"

definition select_sql :: "string list \<Rightarrow> nat \<Rightarrow> string" where
  "select_sql conditions next_idx =
     ''SELECT ts, service, level, message, config_id, project_id, trace_id, fields FROM service_log WHERE '' @
     join_with '' AND '' conditions @ '' ORDER BY ts DESC LIMIT $'' @ decimal next_idx @
     '' OFFSET $'' @ decimal (next_idx + 1)"

fun row_of_columns :: "row_columns \<Rightarrow> log_row" where
  "row_of_columns (ts, service, level, message, config_id, project_id, trace_id, fs) =
     \<lparr>row_ts = ts, row_service = service, row_level = level, row_message = message,
      row_config_id = config_id, row_project_id = project_id, row_trace_id = trace_id, row_fields = fs\<rparr>"

definition log_list :: "'w log_client \<Rightarrow> log_query \<Rightarrow> 'w \<Rightarrow> (string + log_query_response) \<times> 'w" where
  "log_list C q w =
     (let (conditions, params, next_idx) = list_where q
      in (case lc_query_one C (count_sql conditions) params w of
            (Inl e, w1) \<Rightarrow> (Inl (''count query failed: '' @ e), w1)
          | (Inr n, w1) \<Rightarrow>
              (case lc_query C (select_sql conditions next_idx)
                      (params @ [PBigint (lq_limit q), PBigint (lq_offset q)]) w1 of
                 (Inl e, w2) \<Rightarrow> (Inl (''list query failed: '' @ e), w2)
               | (Inr rows, w2) \<Rightarrow>
                   (Inr \<lparr>lr_entries = map row_of_columns rows, lr_total = n,
                         lr_truncated = (10000 < n)\<rparr>, w2))))"

section \<open>The counts per service and level\<close>

record service_stats =
  ss_error :: int
  ss_warn :: int
  ss_info :: int
  ss_debug :: int
  ss_trace :: int

definition service_stats_default :: service_stats where
  "service_stats_default = \<lparr>ss_error = 0, ss_warn = 0, ss_info = 0, ss_debug = 0, ss_trace = 0\<rparr>"

record log_stats =
  lst_by_service :: "string \<rightharpoonup> service_stats"
  lst_total :: int

definition stats_sql :: "string option \<Rightarrow> string" where
  "stats_sql project_id = (case project_id of
     Some _ \<Rightarrow> ''SELECT service, level, COUNT(*) FROM service_log WHERE ts >= $1 AND ts <= $2 AND project_id = $3 GROUP BY service, level''
   | None \<Rightarrow> ''SELECT service, level, COUNT(*) FROM service_log WHERE ts >= $1 AND ts <= $2 GROUP BY service, level'')"

definition stats_params :: "instant \<Rightarrow> instant \<Rightarrow> string option \<Rightarrow> sql_param list" where
  "stats_params from_ts to_ts project_id =
     [PTimestamp from_ts, PTimestamp to_ts] @ (case project_id of Some pid \<Rightarrow> [PText pid] | None \<Rightarrow> [])"

definition bump :: "int \<Rightarrow> int \<Rightarrow> service_stats \<Rightarrow> service_stats" where
  "bump level n s =
     (if level = 1 then s\<lparr>ss_error := ss_error s + n\<rparr>
      else if level = 2 then s\<lparr>ss_warn := ss_warn s + n\<rparr>
      else if level = 3 then s\<lparr>ss_info := ss_info s + n\<rparr>
      else if level = 4 then s\<lparr>ss_debug := ss_debug s + n\<rparr>
      else if level = 5 then s\<lparr>ss_trace := ss_trace s + n\<rparr>
      else s)"

fun stats_row :: "string \<times> int \<times> int \<Rightarrow> log_stats \<Rightarrow> log_stats" where
  "stats_row (service, level, n) acc =
     (let entry = (case lst_by_service acc service of Some s \<Rightarrow> s | None \<Rightarrow> service_stats_default)
      in \<lparr>lst_by_service = (lst_by_service acc)(service \<mapsto> bump level n entry),
          lst_total = lst_total acc + n\<rparr>)"

definition stats_of_rows :: "(string \<times> int \<times> int) list \<Rightarrow> log_stats" where
  "stats_of_rows rows = fold stats_row rows \<lparr>lst_by_service = Map.empty, lst_total = 0\<rparr>"

definition log_stats_query ::
  "'w log_client \<Rightarrow> instant \<Rightarrow> instant \<Rightarrow> string option \<Rightarrow> 'w \<Rightarrow> (string + log_stats) \<times> 'w" where
  "log_stats_query C from_ts to_ts project_id w =
     (case lc_query_stats C (stats_sql project_id) (stats_params from_ts to_ts project_id) w of
        (Inl e, w1) \<Rightarrow> (Inl (''stats query failed: '' @ e), w1)
      | (Inr rows, w1) \<Rightarrow> (Inr (stats_of_rows rows), w1))"

section \<open>The placeholders of a statement\<close>

text \<open>The parameter numbers a statement's text names, from left to right.\<close>

function dollar_numbers :: "string \<Rightarrow> nat list" where
  "dollar_numbers [] = []"
| "dollar_numbers (c # cs) =
     (if c = CHR ''$''
      then the (digits_value 0 (takeWhile is_ascii_digit cs)) # dollar_numbers (dropWhile is_ascii_digit cs)
      else dollar_numbers cs)"
  by pat_completeness auto
termination
  by (relation "measure length") (auto simp: le_imp_less_Suc length_dropWhile_le)

lemma dollar_numbers_free: "CHR ''$'' \<notin> set xs \<Longrightarrow> dollar_numbers (xs @ ys) = dollar_numbers ys"
  by (induction xs) auto

lemma dollar_numbers_free0 [simp]: "CHR ''$'' \<notin> set xs \<Longrightarrow> dollar_numbers xs = []"
  using dollar_numbers_free [of xs "[]"] by simp

lemma dollar_numbers_placeholder:
  assumes "ys = [] \<or> \<not> is_ascii_digit (hd ys)"
  shows "dollar_numbers (placeholder n @ ys) = n # dollar_numbers ys"
proof -
  have d: "\<forall>c \<in> set (decimal n). is_ascii_digit c" using decimal_digits by blast
  have t: "takeWhile is_ascii_digit (decimal n @ ys) = decimal n"
    using d assms by (cases ys) (simp_all add: takeWhile_append)
  have w: "dropWhile is_ascii_digit (decimal n @ ys) = ys"
    using d assms by (cases ys) (simp_all add: dropWhile_append)
  show ?thesis by (simp add: placeholder_def t w digits_value_decimal)
qed

end
