(* ===== verification/Log_Query_Properties.thy ===== *)
theory Log_Query_Properties
  imports Log_Query
begin

text \<open>
  The properties of the log's SQL: every placeholder of a statement names its own parameter,
  the statement's text does not depend on the values of the filters, a search is for the
  literal text, and the counts add up.
\<close>

section \<open>Placeholders and parameters\<close>

text \<open>The filters a query asks for, as a column test and the value it is compared with.\<close>

definition list_filters :: "log_query \<Rightarrow> (string \<times> sql_param) list" where
  "list_filters q =
     [(''ts >= '', PTimestamp (lq_from q)), (''ts <= '', PTimestamp (lq_to q))] @
     (case lq_service q of Some s \<Rightarrow> [(''service = '', PText s)] | None \<Rightarrow> []) @
     (case lq_min_level q of Some l \<Rightarrow> [(''level <= '', PSmallint l)] | None \<Rightarrow> []) @
     (case lq_config_id q of Some c \<Rightarrow> [(''config_id = '', PUuid c)] | None \<Rightarrow> []) @
     (case lq_project_id q of Some p \<Rightarrow> [(''project_id = '', PText p)] | None \<Rightarrow> []) @
     (case lq_search q of Some s \<Rightarrow> [(''message ILIKE '', PText (search_pattern s))] | None \<Rightarrow> [])"

definition condition_texts :: "nat \<Rightarrow> (string \<times> sql_param) list \<Rightarrow> string list" where
  "condition_texts n fs = map (\<lambda>(k, op, v). op @ placeholder k) (enumerate n fs)"

definition where_of :: "(string \<times> sql_param) list \<Rightarrow> where_state" where
  "where_of fs = (condition_texts 1 fs, map snd fs, Suc (length fs))"

lemma condition_texts_simps [simp]:
  "condition_texts n [] = []"
  "condition_texts n ((op, v) # fs) = (op @ placeholder n) # condition_texts (Suc n) fs"
  "condition_texts n (xs @ ys) = condition_texts n xs @ condition_texts (n + length xs) ys"
  by (simp_all add: condition_texts_def enumerate_append_eq)

lemma condition_texts_ops:
  "condition_texts n fs = map (\<lambda>(k, op). op @ placeholder k) (enumerate n (map fst fs))"
  by (induction fs arbitrary: n) (auto simp: condition_texts_def)

lemma replace_braces_end: "CHR ''{'' \<notin> set op \<Longrightarrow> replace_braces r (op @ ''{}'') = op @ r"
proof (induction op)
  case (Cons c op)
  then show ?case by (cases op) auto
qed simp

lemma push_param_where_of:
  "CHR ''{'' \<notin> set op \<Longrightarrow> push_param (op @ ''{}'') v (where_of fs) = where_of (fs @ [(op, v)])"
  by (simp add: where_of_def replace_braces_end)

lemma push_if_where_of:
  "CHR ''{'' \<notin> set op \<Longrightarrow> push_if x (op @ ''{}'') f (where_of fs) =
   where_of (fs @ (case x of Some v \<Rightarrow> [(op, f v)] | None \<Rightarrow> []))"
  by (simp add: push_if_def push_param_where_of split: option.split)

lemma list_where_eq: "list_where q = where_of (list_filters q)"
proof -
  have first: "placeholder 1 = ''$1''" "placeholder (Suc 0) = ''$1''" "placeholder 2 = ''$2''"
    "placeholder (Suc (Suc 0)) = ''$2''"
    by code_simp+
  have start: "([''ts >= $1'', ''ts <= $2''], [PTimestamp (lq_from q), PTimestamp (lq_to q)], 3) =
      where_of [(''ts >= '', PTimestamp (lq_from q)), (''ts <= '', PTimestamp (lq_to q))]"
    by (simp add: where_of_def first)
  show ?thesis
    unfolding list_where_def Let_def start list_filters_def
    by (simp add: push_if_where_of [of "''service = ''", simplified]
        push_if_where_of [of "''level <= ''", simplified]
        push_if_where_of [of "''config_id = ''", simplified]
        push_if_where_of [of "''project_id = ''", simplified]
        push_if_where_of [of "''message ILIKE ''", simplified])
qed

lemma dollar_numbers_conditions:
  assumes "\<forall>f \<in> set fs. CHR ''$'' \<notin> set (fst f)"
    and "rest = [] \<or> \<not> is_ascii_digit (hd rest)"
  shows "dollar_numbers (join_with '' AND '' (condition_texts n fs) @ rest) =
    [n ..< n + length fs] @ dollar_numbers rest"
  using assms(1)
proof (induction fs arbitrary: n)
  case (Cons f fs)
  obtain op v where f: "f = (op, v)" by (cases f)
  have op: "CHR ''$'' \<notin> set op" using Cons.prems by (simp add: f)
  have IH: "dollar_numbers (join_with '' AND '' (condition_texts (Suc n) fs) @ rest) =
      [Suc n ..< Suc n + length fs] @ dollar_numbers rest"
    using Cons by simp
  show ?case
  proof (cases fs)
    case Nil
    then show ?thesis
      using dollar_numbers_placeholder [OF assms(2), of n] op by (simp add: f dollar_numbers_free)
  next
    case (Cons g gs)
    have "join_with '' AND '' (condition_texts n (f # fs)) @ rest =
        op @ placeholder n @ '' AND '' @ join_with '' AND '' (condition_texts (Suc n) fs) @ rest"
      by (cases g) (simp add: f Cons)
    moreover have "dollar_numbers (placeholder n @ '' AND '' @
          join_with '' AND '' (condition_texts (Suc n) fs) @ rest) =
        n # dollar_numbers (join_with '' AND '' (condition_texts (Suc n) fs) @ rest)"
      by (subst dollar_numbers_placeholder) (simp_all add: is_ascii_digit_def code_def)
    ultimately show ?thesis
      using IH op by (simp add: dollar_numbers_free upt_rec [of n] Cons Suc_le_eq)
  qed
qed simp

lemma list_filters_clean: "\<forall>f \<in> set (list_filters q). CHR ''$'' \<notin> set (fst f)"
  by (auto simp: list_filters_def split: option.splits)

lemma list_where_numbering:
  shows "list_where q = (condition_texts 1 (list_filters q), map snd (list_filters q), length (list_filters q) + 1)"
    and "dollar_numbers (count_sql (fst (list_where q))) = [1 ..< Suc (length (fst (snd (list_where q))))]"
    and "dollar_numbers (select_sql (fst (list_where q)) (snd (snd (list_where q)))) =
      [1 ..< Suc (length (fst (snd (list_where q)) @ [PBigint (lq_limit q), PBigint (lq_offset q)]))]"
    and "map fst (list_filters q) = map fst (list_filters q') \<Longrightarrow>
      fst (list_where q) = fst (list_where q')"
proof -
  let ?fs = "list_filters q"
  note c = dollar_numbers_conditions [of ?fs _ 1, OF list_filters_clean]
  show "list_where q = (condition_texts 1 ?fs, map snd ?fs, length ?fs + 1)"
    by (simp add: list_where_eq where_of_def)
  show "dollar_numbers (count_sql (fst (list_where q))) = [1 ..< Suc (length (fst (snd (list_where q))))]"
    unfolding count_sql_def list_where_eq where_of_def fst_conv snd_conv
    by (subst dollar_numbers_free, simp, subst c) (simp_all add: is_ascii_digit_def code_def)
  have tail: "dollar_numbers ('' ORDER BY ts DESC LIMIT $'' @ decimal a @ '' OFFSET $'' @ decimal b) = [a, b]" for a b
  proof -
    have "'' ORDER BY ts DESC LIMIT $'' @ decimal a @ '' OFFSET $'' @ decimal b =
        '' ORDER BY ts DESC LIMIT '' @ placeholder a @ '' OFFSET '' @ placeholder b @ []"
      by (simp add: placeholder_def)
    moreover have "dollar_numbers ('' ORDER BY ts DESC LIMIT '' @ placeholder a @ '' OFFSET '' @ placeholder b @ []) = [a, b]"
      by (subst dollar_numbers_free, simp, subst dollar_numbers_placeholder, simp add: is_ascii_digit_def code_def,
          subst dollar_numbers_free, simp, subst dollar_numbers_placeholder) simp_all
    ultimately show ?thesis by (simp only:)
  qed
  show "dollar_numbers (select_sql (fst (list_where q)) (snd (snd (list_where q)))) =
      [1 ..< Suc (length (fst (snd (list_where q)) @ [PBigint (lq_limit q), PBigint (lq_offset q)]))]"
    unfolding select_sql_def list_where_eq where_of_def fst_conv snd_conv
    by (subst dollar_numbers_free, simp, subst c, simp add: is_ascii_digit_def code_def, simp only: tail, simp)
  show "fst (list_where q) = fst (list_where q')" if "map fst ?fs = map fst (list_filters q')"
    using that by (simp add: list_where_eq where_of_def condition_texts_ops [of _ ?fs]
        condition_texts_ops [of _ "list_filters q'"])
qed

text \<open>The listing's conditions are the filters asked for, in order, each comparing its
  column with its own placeholder; the placeholders of the counting and of the selecting
  statement are exactly the numbers of the parameters sent with it. Two queries with the same
  filters present send the same text, whatever the values.\<close>

theorem list_query_parameters:
  "list_where q = (condition_texts 1 (list_filters q), map snd (list_filters q), length (list_filters q) + 1) \<and>
   dollar_numbers (count_sql (fst (list_where q))) = [1 ..< Suc (length (fst (snd (list_where q))))] \<and>
   dollar_numbers (select_sql (fst (list_where q)) (snd (snd (list_where q)))) =
     [1 ..< Suc (length (fst (snd (list_where q)) @ [PBigint (lq_limit q), PBigint (lq_offset q)]))] \<and>
   (map fst (list_filters q) = map fst (list_filters q') \<longrightarrow> fst (list_where q) = fst (list_where q'))"
  using list_where_numbering by blast

lemma dollar_numbers_row:
  assumes "rest = [] \<or> \<not> is_ascii_digit (hd rest)"
  shows "dollar_numbers (concat (map (\<lambda>col. (if 0 < col then '','' else []) @ ''$'' @ decimal (base + col))
    [k ..< n]) @ rest) = map ((+) base) [k ..< n] @ dollar_numbers rest"
proof (cases "k \<le> n")
  case True
  then show ?thesis
  proof (induction rule: inc_induct)
    case (step m)
    let ?tl = "concat (map (\<lambda>col. (if 0 < col then '','' else []) @ ''$'' @ decimal (base + col)) [Suc m ..< n]) @ rest"
    have hd: "?tl = [] \<or> \<not> is_ascii_digit (hd ?tl)"
      using assms by (cases "Suc m < n") (simp_all add: upt_rec [of "Suc m"] is_ascii_digit_def code_def)
    have "dollar_numbers (placeholder (base + m) @ ?tl) = (base + m) # dollar_numbers ?tl"
      by (rule dollar_numbers_placeholder [OF hd])
    moreover have "dollar_numbers ((if 0 < m then '','' else []) @ placeholder (base + m) @ ?tl) =
        dollar_numbers (placeholder (base + m) @ ?tl)"
      by (rule dollar_numbers_free) simp
    moreover have "concat (map (\<lambda>col. (if 0 < col then '','' else []) @ ''$'' @ decimal (base + col)) [m ..< n]) @ rest =
        (if 0 < m then '','' else []) @ placeholder (base + m) @ ?tl"
      using step by (simp add: upt_rec [of m] placeholder_def)
    ultimately show ?case
      using step by (simp only: step.IH) (simp add: upt_rec [of m])
  qed simp
qed simp

lemma dollar_numbers_rows:
  "dollar_numbers (concat (map (\<lambda>i. (if 0 < i then '', '' else []) @ row_placeholders i) [k ..< n])) =
   [k * COLS + 1 ..< (if k < n then n else k) * COLS + 1]"
proof (cases "k \<le> n")
  case True
  then show ?thesis
  proof (induction rule: inc_induct)
    case (step m)
    let ?tl = "concat (map (\<lambda>i. (if 0 < i then '', '' else []) @ row_placeholders i) [Suc m ..< n])"
    have d: "dollar_numbers (row_placeholders m @ ?tl) =
        map ((+) (m * COLS + 1)) [0 ..< COLS] @ dollar_numbers ?tl"
      using dollar_numbers_row [of "'')'' @ ?tl" "m * COLS + 1" 0 COLS]
        dollar_numbers_free [of "''(''"] dollar_numbers_free [of "'')''" ?tl]
      by (simp add: row_placeholders_def Let_def is_ascii_digit_def code_def)
    have "(+) (m * COLS + 1) = (\<lambda>i. i + (m * COLS + 1))" by (simp add: fun_eq_iff)
    then have u: "map ((+) (m * COLS + 1)) [0 ..< COLS] = [m * COLS + 1 ..< Suc m * COLS + 1]"
      using map_add_upt [of "m * COLS + 1" COLS] by (simp only: mult_Suc add.assoc)
    have row: "dollar_numbers (row_placeholders m @ ?tl) =
        [m * COLS + 1 ..< Suc m * COLS + 1] @ [Suc m * COLS + 1 ..< n * COLS + 1]"
    proof (cases "Suc m < n")
      case True
      then show ?thesis using step.IH unfolding d u by (simp only: if_True)
    next
      case False
      with step have "n = Suc m" by simp
      then show ?thesis unfolding d u by simp
    qed
    have "[m * COLS + 1 ..< Suc m * COLS + 1] @ [Suc m * COLS + 1 ..< n * COLS + 1] = [m * COLS + 1 ..< n * COLS + 1]"
    proof -
      have "Suc m * COLS \<le> n * COLS" using step by (intro mult_right_mono) simp_all
      then obtain k where "n * COLS = Suc m * COLS + k" using le_Suc_ex by blast
      then show ?thesis
        using upt_add_eq_append [of "m * COLS + 1" "Suc m * COLS + 1" k] by (simp add: ac_simps)
    qed
    moreover have "dollar_numbers ((if 0 < m then '', '' else []) @ row_placeholders m @ ?tl) =
        dollar_numbers (row_placeholders m @ ?tl)"
      by (rule dollar_numbers_free) simp
    moreover have "concat (map (\<lambda>i. (if 0 < i then '', '' else []) @ row_placeholders i) [m ..< n]) =
        (if 0 < m then '', '' else []) @ row_placeholders m @ ?tl"
      using step by (simp add: upt_rec [of m])
    ultimately show ?case using step row by (simp only: if_True)
  qed simp
qed simp

lemma insert_numbering:
  shows "dollar_numbers (insert_sql batch) = [1 ..< Suc (length (insert_params batch))]"
    and "length batch \<le> BATCH_SIZE \<Longrightarrow> length (insert_params batch) \<le> 65535"
    and "i < length batch \<Longrightarrow> c < COLS \<Longrightarrow>
      insert_params batch ! (i * COLS + c) = entry_params (batch ! i) ! c"
proof -
  show "dollar_numbers (insert_sql batch) = [1 ..< Suc (length (insert_params batch))]"
    unfolding insert_sql_def
    by (subst dollar_numbers_free, simp, subst dollar_numbers_rows) (simp add: length_insert_params)
  show "length (insert_params batch) \<le> 65535" if "length batch \<le> BATCH_SIZE"
    using that by (simp add: length_insert_params BATCH_SIZE_def COLS_def)
qed (rule insert_params_nth)

text \<open>The insert of a batch names its parameters in order, each once, and a batch of at
  most a hundred entries stays below PostgreSQL's limit of 65535; the parameters of an entry
  are its eight columns.\<close>

theorem insert_parameters:
  "dollar_numbers (insert_sql batch) = [1 ..< Suc (length (insert_params batch))] \<and>
   (length batch \<le> BATCH_SIZE \<longrightarrow> length (insert_params batch) \<le> 65535) \<and>
   (\<forall>i < length batch. \<forall>c < COLS. insert_params batch ! (i * COLS + c) = entry_params (batch ! i) ! c)"
  using insert_numbering by blast

text \<open>Two queries that differ in the values of their filters only, and a batch of one entry.\<close>

definition demo_query :: "string \<Rightarrow> log_query" where
  "demo_query text = \<lparr>lq_service = None, lq_min_level = Some 2, lq_config_id = None,
     lq_project_id = Some text, lq_search = Some text, lq_from = 0, lq_to = 10, lq_limit = 50, lq_offset = 0\<rparr>"

theorem list_query_parameters_witness:
  "fst (list_where (demo_query ''a'')) = fst (list_where (demo_query ''$9 OR 1=1''))"
proof -
  have "map fst (list_filters (demo_query ''a'')) = map fst (list_filters (demo_query ''$9 OR 1=1''))"
    by (simp add: list_filters_def demo_query_def)
  with list_query_parameters [of "demo_query ''a''" "demo_query ''$9 OR 1=1''"] show ?thesis by blast
qed

theorem insert_parameters_witness:
  "length (insert_params [log_entry_new 7 ''svc'' LWarn ''slow'']) \<le> 65535 \<and>
   insert_params [log_entry_new 7 ''svc'' LWarn ''slow''] ! 2 = PSmallint 2"
  using insert_parameters [of "[log_entry_new 7 ''svc'' LWarn ''slow'']"]
  by (simp add: BATCH_SIZE_def COLS_def entry_params_def log_entry_new_def level_as_db_def numeral_2_eq_2)

section \<open>Searching for text\<close>

text \<open>
  PostgreSQL's \<open>LIKE\<close>: a percent sign matches any text, an underscore one character, a
  backslash takes the next character literally. \<open>low\<close> is the case folding of \<open>ILIKE\<close>.
\<close>

fun like_match :: "(char \<Rightarrow> char) \<Rightarrow> string \<Rightarrow> string \<Rightarrow> bool" where
  "like_match low [] s \<longleftrightarrow> s = []"
| "like_match low (p # ps) s \<longleftrightarrow>
     (if p = CHR ''%'' then like_match low ps s \<or> (case s of [] \<Rightarrow> False | _ # t \<Rightarrow> like_match low (p # ps) t)
      else if p = CHR ''_'' then (case s of [] \<Rightarrow> False | _ # t \<Rightarrow> like_match low ps t)
      else if p = backslash then
        (case ps of [] \<Rightarrow> False
         | c # qs \<Rightarrow> (case s of [] \<Rightarrow> False | x # t \<Rightarrow> low x = low c \<and> like_match low qs t))
      else (case s of [] \<Rightarrow> False | x # t \<Rightarrow> low x = low p \<and> like_match low ps t))"

declare like_match.simps(2) [simp del]

lemma escape_search_Cons:
  "escape_search (c # s) =
     (if c \<in> {backslash, CHR ''%'', CHR ''_''} then [backslash, c] else [c]) @ escape_search s"
  by (simp add: escape_search_def replace_char_def backslash_def)

lemma like_match_percent:
  "like_match low (CHR ''%'' # ps) s \<longleftrightarrow> (\<exists>a b. s = a @ b \<and> like_match low ps b)"
proof (induction s)
  case Nil
  then show ?case by (subst like_match.simps(2)) simp
next
  case (Cons x s)
  have "(\<exists>a b. x # s = a @ b \<and> like_match low ps b) \<longleftrightarrow>
      like_match low ps (x # s) \<or> (\<exists>a b. s = a @ b \<and> like_match low ps b)"
    by (metis append_Cons append_Nil append_eq_Cons_conv)
  with Cons show ?case by (subst like_match.simps(2)) simp
qed

lemma like_match_escaped:
  "like_match low (escape_search s @ ps) t \<longleftrightarrow>
   (\<exists>m b. t = m @ b \<and> map low m = map low s \<and> like_match low ps b)"
proof (induction s arbitrary: t)
  case Nil
  then show ?case by (simp add: escape_search_def replace_char_def)
next
  case (Cons c s)
  have "like_match low (escape_search (c # s) @ ps) t \<longleftrightarrow>
      (\<exists>x u. t = x # u \<and> low x = low c \<and> like_match low (escape_search s @ ps) u)"
    by (cases t; cases "c \<in> {backslash, CHR ''%'', CHR ''_''}")
      (auto simp: escape_search_Cons like_match.simps(2) backslash_def)
  also have "\<dots> \<longleftrightarrow> (\<exists>m b. t = m @ b \<and> map low m = map low (c # s) \<and> like_match low ps b)"
    unfolding Cons.IH
  proof (intro iffI; elim exE conjE)
    fix x u m b
    assume "t = x # u" "low x = low c" "u = m @ b" "map low m = map low s" "like_match low ps b"
    then show "\<exists>m b. t = m @ b \<and> map low m = map low (c # s) \<and> like_match low ps b"
      by (intro exI [of _ "x # m"] exI [of _ b]) simp
  next
    fix m b
    assume a: "t = m @ b" "map low m = map low (c # s)" "like_match low ps b"
    then obtain x m' where "m = x # m'" by (cases m) auto
    with a show "\<exists>x u. t = x # u \<and> low x = low c \<and>
        (\<exists>m b. u = m @ b \<and> map low m = map low s \<and> like_match low ps b)"
      by auto
  qed
  finally show ?case .
qed

text \<open>C37: Whatever text is searched for, percent signs, underscores and backslashes included,
  the pattern the listing sends matches exactly the messages that contain that text, up to
  case folding.\<close>

theorem search_is_literal:
  "like_match low (search_pattern s) msg \<longleftrightarrow> (\<exists>a m b. msg = a @ m @ b \<and> map low m = map low s)"
proof -
  have any: "like_match low ''%'' b" for b
    using like_match_percent [of low "[]" b] by simp
  have "search_pattern s = CHR ''%'' # escape_search s @ ''%''" by (simp add: search_pattern_def)
  then show ?thesis by (simp add: like_match_percent [of low "escape_search s @ ''%''"] like_match_escaped any) blast
qed

section \<open>Counts\<close>

definition rows_sum :: "int \<Rightarrow> string \<Rightarrow> (string \<times> int \<times> int) list \<Rightarrow> int" where
  "rows_sum level svc rows = sum_list (map (\<lambda>(s, l, n). if s = svc \<and> l = level then n else 0) rows)"

definition stats_view :: "log_stats \<Rightarrow> string \<Rightarrow> service_stats" where
  "stats_view st svc = (case lst_by_service st svc of Some s \<Rightarrow> s | None \<Rightarrow> service_stats_default)"

lemma stats_fold:
  "lst_total (fold stats_row rows acc) = lst_total acc + sum_list (map (\<lambda>(s, l, n). n) rows) \<and>
   dom (lst_by_service (fold stats_row rows acc)) = dom (lst_by_service acc) \<union> fst ` set rows \<and>
   ss_error (stats_view (fold stats_row rows acc) svc) = ss_error (stats_view acc svc) + rows_sum 1 svc rows \<and>
   ss_warn (stats_view (fold stats_row rows acc) svc) = ss_warn (stats_view acc svc) + rows_sum 2 svc rows \<and>
   ss_info (stats_view (fold stats_row rows acc) svc) = ss_info (stats_view acc svc) + rows_sum 3 svc rows \<and>
   ss_debug (stats_view (fold stats_row rows acc) svc) = ss_debug (stats_view acc svc) + rows_sum 4 svc rows \<and>
   ss_trace (stats_view (fold stats_row rows acc) svc) = ss_trace (stats_view acc svc) + rows_sum 5 svc rows"
proof (induction rows arbitrary: acc)
  case Nil
  then show ?case by (simp add: rows_sum_def)
next
  case (Cons r rows)
  obtain s l n where r: "r = (s, l, n)" by (cases r)
  define A where "A = stats_row r acc"
  have view: "stats_view A svc = (if svc = s then bump l n (stats_view acc svc) else stats_view acc svc)"
    by (simp add: stats_view_def A_def r Let_def)
  have sum: "rows_sum k svc (r # rows) = (if svc = s \<and> l = k then n else 0) + rows_sum k svc rows" for k
    by (auto simp: rows_sum_def r)
  have row: "lst_total A = lst_total acc + n" "dom (lst_by_service A) = insert s (dom (lst_by_service acc))"
    by (simp_all add: A_def r Let_def)
  have f: "fold stats_row (r # rows) acc = fold stats_row rows A" by (simp add: A_def)
  have rest: "sum_list (map (\<lambda>(s, l, n). n) (r # rows)) = n + sum_list (map (\<lambda>(s, l, n). n) rows)"
    "fst ` set (r # rows) = insert s (fst ` set rows)"
    by (simp_all add: r)
  show ?case
    using Cons.IH [of A] unfolding view sum row f rest by (simp add: bump_def)
qed

text \<open>The total is the sum of the counts of all rows, a service is listed exactly when it
  has a row, and each of its five numbers is the sum of its rows of that level; the statement
  names the project exactly when one is given.\<close>

theorem stats_add_up:
  shows "lst_total (stats_of_rows rows) = sum_list (map (\<lambda>(s, l, n). n) rows)"
    and "dom (lst_by_service (stats_of_rows rows)) = fst ` set rows"
    and "lst_by_service (stats_of_rows rows) svc = Some st \<Longrightarrow>
      st = \<lparr>ss_error = rows_sum 1 svc rows, ss_warn = rows_sum 2 svc rows,
        ss_info = rows_sum 3 svc rows, ss_debug = rows_sum 4 svc rows,
        ss_trace = rows_sum 5 svc rows\<rparr>"
    and "dollar_numbers (stats_sql project) = [1 ..< Suc (length (stats_params a b project))]"
proof -
  note f = stats_fold [of rows "\<lparr>lst_by_service = Map.empty, lst_total = 0\<rparr>" svc]
  show "lst_total (stats_of_rows rows) = sum_list (map (\<lambda>(s, l, n). n) rows)"
    "dom (lst_by_service (stats_of_rows rows)) = fst ` set rows"
    using f by (simp_all add: stats_of_rows_def)
  show "st = \<lparr>ss_error = rows_sum 1 svc rows, ss_warn = rows_sum 2 svc rows,
      ss_info = rows_sum 3 svc rows, ss_debug = rows_sum 4 svc rows,
      ss_trace = rows_sum 5 svc rows\<rparr>" if "lst_by_service (stats_of_rows rows) svc = Some st"
  proof -
    have "stats_view (stats_of_rows rows) svc = st" using that by (simp add: stats_view_def)
    then show ?thesis
      using f by (cases st) (simp add: stats_of_rows_def stats_view_def service_stats_default_def)
  qed
  show "dollar_numbers (stats_sql project) = [1 ..< Suc (length (stats_params a b project))]"
    by (cases project) (simp_all add: stats_sql_def stats_params_def upt_rec is_ascii_digit_def code_def digit_value_def)
qed

theorem stats_add_up_witness:
  "ss_warn (the (lst_by_service (stats_of_rows [(''a'', 2, 3), (''b'', 1, 1), (''a'', 2, 4)]) ''a'')) = 7"
proof -
  obtain st where "lst_by_service (stats_of_rows [(''a'', 2, 3), (''b'', 1, 1), (''a'', 2, 4)]) ''a'' = Some st"
    by (auto simp: stats_of_rows_def Let_def)
  from stats_add_up(3) [OF this] this show ?thesis by (simp add: rows_sum_def)
qed

end
