(* ===== verification/Metric.thy ===== *)
theory Metric
  imports Probe F64
begin

text \<open>
  The number an attempt contributes to a benchmark, \<open>crates/networker-tester/src/metrics.rs\<close>:
  the label and the value of a protocol's primary metric and the payload of a throughput
  attempt. A result record here holds the fields these functions read.
\<close>

record http_view =
  hv_total_duration_ms :: f64
  hv_throughput_mbps :: "f64 option"
  hv_payload_bytes :: nat

record rtt_view =
  rv_replies :: u32
  rv_rtt_avg_ms :: f64

record udp_throughput_view =
  uv_throughput_mbps :: "f64 option"
  uv_payload_bytes :: nat

record dualstack_view =
  dv_faster_family :: "string option"
  dv_ipv4_total_ms :: "f64 option"
  dv_ipv6_total_ms :: "f64 option"

record attempt_view =
  av_protocol :: protocol
  av_http :: "http_view option"
  av_tcp_connect_ms :: "f64 option"
  av_udp :: "rtt_view option"
  av_udp_throughput :: "udp_throughput_view option"
  av_rpm :: "f64 option option"
  av_rpm_download :: "f64 option option"
  av_capacity_down_mbps :: "f64 option option"
  av_stamp :: "rtt_view option"
  av_ping :: "rtt_view option"
  av_path_hop_count :: "u32 option option"
  av_dualstack :: "dualstack_view option"
  av_websocket :: "rtt_view option"
  av_path_mtu :: "u32 option option"
  av_dns_ms :: "f64 option"
  av_tls_handshake_ms :: "f64 option"
  av_page_load_ms :: "f64 option"
  av_browser_load_ms :: "f64 option"

definition primary_metric_label :: "protocol \<Rightarrow> string" where
  "primary_metric_label p =
     (if p \<in> {Http1, Http2, Http3, Native, Curl} then ''Total ms''
      else if p = Tcp then ''Connect ms''
      else if p = Udp then ''RTT avg ms''
      else if p \<in> {Download, Download1, Download2, Download3, Upload, Upload1, Upload2, Upload3,
                   WebDownload, WebUpload, UdpDownload, UdpUpload} then ''Throughput MB/s''
      else if p = Rpm then ''RPM''
      else if p = Responsiveness then ''RPM (draft)''
      else if p = Mthroughput then ''Capacity MB/s''
      else if p = Stamp then ''RTT avg ms''
      else if p = Ping then ''RTT avg ms''
      else if p = Path then ''Hops''
      else if p = DualStack then ''Total ms''
      else if p = WebSocket then ''Msg RTT avg ms''
      else if p = Pmtud then ''Path MTU''
      else if p = Dns then ''Resolve ms''
      else if p \<in> {Tls, TlsResume} then ''Handshake ms''
      else if p \<in> {PageLoad, PageLoad2, PageLoad3} then ''Total ms''
      else if p \<in> {Browser, Browser1, Browser2, Browser3} then ''Load ms''
      else ''Total ms'')"

definition positive_payload :: "nat \<Rightarrow> nat option" where
  "positive_payload b = (if 0 < b then Some b else None)"

definition attempt_payload_bytes :: "attempt_view \<Rightarrow> nat option" where
  "attempt_payload_bytes a =
     (case Option.bind (av_http a) (\<lambda>h. positive_payload (hv_payload_bytes h)) of
        Some b \<Rightarrow> Some b
      | None \<Rightarrow> Option.bind (av_udp_throughput a) (\<lambda>u. positive_payload (uv_payload_bytes u)))"

text \<open>\<open>.as_ref().filter(|u| u.count > 0).map(|u| u.rtt_avg_ms)\<close>.\<close>

definition answered_rtt :: "rtt_view option \<Rightarrow> f64 option" where
  "answered_rtt r = (case r of Some v \<Rightarrow> if 0 < rv_replies v then Some (rv_rtt_avg_ms v) else None
     | None \<Rightarrow> None)"

definition dualstack_metric :: "dualstack_view \<Rightarrow> f64 option" where
  "dualstack_metric d =
     (if dv_faster_family d = Some ''ipv4'' then dv_ipv4_total_ms d
      else if dv_faster_family d = Some ''ipv6'' then dv_ipv6_total_ms d
      else (case (dv_ipv4_total_ms d, dv_ipv6_total_ms d) of
              (Some v4, None) \<Rightarrow> Some v4
            | (None, Some v6) \<Rightarrow> Some v6
            | (Some v4, Some v6) \<Rightarrow> Some (min v4 v6)
            | (None, None) \<Rightarrow> None))"

definition join_option :: "'a option option \<Rightarrow> 'a option" where
  "join_option x = Option.bind x (\<lambda>y. y)"

definition primary_metric_value :: "attempt_view \<Rightarrow> f64 option" where
  "primary_metric_value a =
     (let p = av_protocol a
      in if p \<in> {Http1, Http2, Http3, Native, Curl} then map_option hv_total_duration_ms (av_http a)
         else if p = Tcp then av_tcp_connect_ms a
         else if p = Udp then answered_rtt (av_udp a)
         else if p \<in> {Download, Download1, Download2, Download3, Upload, Upload1, Upload2, Upload3,
                      WebDownload, WebUpload} then Option.bind (av_http a) hv_throughput_mbps
         else if p \<in> {UdpDownload, UdpUpload} then Option.bind (av_udp_throughput a) uv_throughput_mbps
         else if p = Rpm then join_option (av_rpm a)
         else if p = Responsiveness then join_option (av_rpm_download a)
         else if p = Mthroughput then join_option (av_capacity_down_mbps a)
         else if p = Stamp then answered_rtt (av_stamp a)
         else if p = Ping then answered_rtt (av_ping a)
         else if p = Path then map_option (\<lambda>h. fl (real (unat h))) (join_option (av_path_hop_count a))
         else if p = DualStack then Option.bind (av_dualstack a) dualstack_metric
         else if p = WebSocket then answered_rtt (av_websocket a)
         else if p = Pmtud then map_option (\<lambda>m. fl (real (unat m))) (join_option (av_path_mtu a))
         else if p = Dns then av_dns_ms a
         else if p \<in> {Tls, TlsResume} then av_tls_handshake_ms a
         else if p \<in> {PageLoad, PageLoad2, PageLoad3} then av_page_load_ms a
         else if p \<in> {Browser, Browser1, Browser2, Browser3} then av_browser_load_ms a
         else map_option hv_total_duration_ms (av_http a))"

end
