(* ===== verification/Benchmark.thy ===== *)
theory Benchmark
  imports Metric Stats "HOL-Library.AList"
begin

text \<open>
  Adaptive benchmarking, \<open>crates/networker-tester/src/stats_rng.rs\<close> and \<open>benchmark.rs\<close>: the
  deterministic generator behind the bootstrap, the interval of the median, the rule that
  ends the measured phase, and the plan derived from a pilot.

  A timestamp is a number of nanoseconds, an \<open>int\<close>, since a clock may run backwards. A
  \<open>BTreeMap\<close> from case names is an association list with one entry per name; the code takes
  the least, the greatest and the conjunction of its values, which do not depend on the order.
  Every value is finite, so \<open>filter(is_finite)\<close> keeps it.
\<close>

section \<open>The generator\<close>

text \<open>\<open>f64::to_bits\<close> of a value in the normal range.\<close>

definition f64_to_bits :: "f64 \<Rightarrow> u64" where
  "f64_to_bits x =
     (if x = 0 then 0
      else push_bit 63 (if x < 0 then 1 else 0) OR
           push_bit 52 (of_int (binade x + 1023)) OR
           of_int (\<lfloor>\<bar>x\<bar> / 2 powi (binade x - 52)\<rfloor> - 2 ^ 52))"

definition rotate_left :: "nat \<Rightarrow> u64 \<Rightarrow> u64" where
  "rotate_left n w = push_bit n w OR drop_bit (64 - n) w"

definition rng_from_values :: "f64 list \<Rightarrow> u64" where
  "rng_from_values values =
     (let state = foldl (\<lambda>st v. rotate_left 13 (st XOR (f64_to_bits v * 0xbf58476d1ce4e5b9)))
            (0x9e3779b97f4a7c15 XOR of_nat (length values)) values
      in if state = 0 then 0x94d049bb133111eb else state)"

text \<open>The result and the next state.\<close>

definition next_u64 :: "u64 \<Rightarrow> u64 \<times> u64" where
  "next_u64 state =
     (let state' = state * 6364136223846793005 + 1442695040888963407;
          z1 = (state' XOR drop_bit 30 state') * 0xbf58476d1ce4e5b9;
          z2 = (z1 XOR drop_bit 27 z1) * 0x94d049bb133111eb
      in (z2 XOR drop_bit 31 z2, state'))"

definition next_index :: "nat \<Rightarrow> u64 \<Rightarrow> nat \<times> u64" where
  "next_index upper state =
     (if upper = 0 then (0, state)
      else (case next_u64 state of (z, state') \<Rightarrow> ((unat z * upper) div 2 ^ 64, state')))"

section \<open>The bootstrap\<close>

definition ADAPTIVE_BOOTSTRAP_RESAMPLES :: nat where "ADAPTIVE_BOOTSTRAP_RESAMPLES = 2048"
definition ADAPTIVE_CONFIDENCE_LEVEL :: f64 where "ADAPTIVE_CONFIDENCE_LEVEL = fl (95 / 100)"
definition DEFAULT_AUTO_TARGET_RELATIVE_ERROR :: f64 where "DEFAULT_AUTO_TARGET_RELATIVE_ERROR = fl (5 / 100)"
definition DEFAULT_PILOT_MIN_SAMPLES :: u32 where "DEFAULT_PILOT_MIN_SAMPLES = 6"
definition DEFAULT_PILOT_MAX_SAMPLES :: u32 where "DEFAULT_PILOT_MAX_SAMPLES = 12"
definition DEFAULT_PILOT_MIN_DURATION_MS :: u64 where "DEFAULT_PILOT_MIN_DURATION_MS = 0"
definition F64_EPSILON :: f64 where "F64_EPSILON = 1 / 2 ^ 52"

definition median_from_sorted :: "f64 list \<Rightarrow> f64" where
  "median_from_sorted xs =
     (if xs = [] then 0
      else if even (length xs)
      then let upper = length xs div 2 in f64_div (f64_add (xs ! (upper - 1)) (xs ! upper)) 2
      else xs ! (length xs div 2))"

definition benchmark_percentile :: "f64 list \<Rightarrow> f64 \<Rightarrow> f64" where
  "benchmark_percentile xs p =
     (if xs = [] then 0
      else if length xs = 1 then xs ! 0
      else
        let rank = f64_mul (f64_div p 100) (fl (real (length xs - 1)));
            lo = nat \<lfloor>rank\<rfloor>; hi = nat \<lceil>rank\<rceil>
        in if lo = hi then xs ! lo
           else f64_add (xs ! lo) (f64_mul (f64_sub (xs ! hi) (xs ! lo)) (f64_sub rank (fl (real lo)))))"

text \<open>One resample: \<open>k\<close> draws with replacement.\<close>

fun draw :: "f64 list \<Rightarrow> nat \<Rightarrow> u64 \<Rightarrow> f64 list \<times> u64" where
  "draw values 0 st = ([], st)"
| "draw values (Suc k) st =
     (let (i, st1) = next_index (length values) st; (rest, st2) = draw values k st1
      in (values ! i # rest, st2))"

fun resample_medians :: "f64 list \<Rightarrow> nat \<Rightarrow> u64 \<Rightarrow> f64 list" where
  "resample_medians values 0 st = []"
| "resample_medians values (Suc k) st =
     (let (sample, st1) = draw values (length values) st
      in median_from_sorted (sort sample) # resample_medians values k st1)"

definition bootstrap_median_interval :: "f64 list \<Rightarrow> f64 \<times> f64 \<times> f64" where
  "bootstrap_median_interval values =
     (if values = [] then (0, 0, 0)
      else if length values = 1 then (0, values ! 0, values ! 0)
      else
        let estimates = sort (resample_medians values ADAPTIVE_BOOTSTRAP_RESAMPLES (rng_from_values values));
            n = fl (real (length estimates));
            mean = f64_div (f64_sum estimates) n;
            variance = f64_div (f64_sum (map (\<lambda>v. f64_mul (f64_sub v mean) (f64_sub v mean)) estimates)) (f64_sub n 1);
            tail = f64_mul (f64_sub 1 ADAPTIVE_CONFIDENCE_LEVEL) 50
        in (fl (sqrt variance), benchmark_percentile estimates tail,
            benchmark_percentile estimates (f64_sub 100 tail)))"

record median_error =
  me_median :: f64
  me_absolute_half_width :: f64

definition median_error_bounds :: "f64 list \<Rightarrow> median_error option" where
  "median_error_bounds values =
     (let xs = sort values
      in if length xs < 2 then None
         else (case bootstrap_median_interval xs of
                 (_, lower, upper) \<Rightarrow>
                   Some \<lparr>me_median = benchmark_percentile xs 50,
                         me_absolute_half_width = f64_div (f64_sub upper lower) 2\<rparr>))"

section \<open>When the measured phase stops\<close>

record bench_attempt =
  ba_view :: attempt_view
  ba_success :: bool
  ba_http_stack :: "string option"
  ba_started_at :: int
  ba_finished_at :: "int option"

record adaptive_criteria =
  cr_min_samples :: u32
  cr_max_samples :: u32
  cr_min_duration_ms :: u64
  cr_target_relative_error :: "f64 option"
  cr_target_absolute_error :: "f64 option"

record pilot_criteria =
  pc_min_samples :: u32
  pc_max_samples :: u32
  pc_min_duration_ms :: u64

datatype stop_reason = AccuracyTargetReached | MaxSamplesReached

record adaptive_status =
  as_completed_samples :: u32
  as_elapsed_ms :: f64
  as_stop_reason :: "stop_reason option"

definition adaptive_case_id :: "bench_attempt \<Rightarrow> string" where
  "adaptive_case_id a =
     (let payload = (case attempt_payload_bytes (ba_view a) of Some n \<Rightarrow> decimal n | None \<Rightarrow> ''default'');
          stack = map (\<lambda>c. if c = CHR '':'' then CHR ''_'' else c)
            (case ba_http_stack a of Some s \<Rightarrow> s | None \<Rightarrow> ''default'')
      in protocol_name (av_protocol (ba_view a)) @ '':'' @ payload @ '':'' @ stack)"

text \<open>\<open>TimeDelta::num_microseconds\<close> truncates towards zero and fails outside \<open>i64\<close>.\<close>

definition num_microseconds :: "int \<Rightarrow> int option" where
  "num_microseconds ns =
     (let us = (if 0 \<le> ns then ns div 1000 else - ((- ns) div 1000))
      in if - (2 ^ 63) \<le> us \<and> us < 2 ^ 63 then Some us else None)"

definition benchmark_attempt_wall_time_ms :: "bench_attempt list \<Rightarrow> f64" where
  "benchmark_attempt_wall_time_ms attempts =
     (if attempts = [] then 0
      else
        let start = Min (set (map ba_started_at attempts));
            finish = Max (set (map (\<lambda>a. case ba_finished_at a of Some t \<Rightarrow> t | None \<Rightarrow> ba_started_at a) attempts))
        in (case num_microseconds (finish - start) of
              Some us \<Rightarrow> f64_div (fl (of_int us)) 1000
            | None \<Rightarrow> 0))"

definition count_up :: "string \<Rightarrow> (string \<times> nat) list \<Rightarrow> (string \<times> nat) list" where
  "count_up k m = AList.update k (Suc (case map_of m k of Some n \<Rightarrow> n | None \<Rightarrow> 0)) m"

definition push_value :: "string \<Rightarrow> f64 \<Rightarrow> (string \<times> f64 list) list \<Rightarrow> (string \<times> f64 list) list" where
  "push_value k v m = AList.update k ((case map_of m k of Some vs \<Rightarrow> vs | None \<Rightarrow> []) @ [v]) m"

definition samples_by_case :: "bench_attempt list \<Rightarrow> (string \<times> nat) list" where
  "samples_by_case attempts = foldl (\<lambda>m a. count_up (adaptive_case_id a) m) [] attempts"

definition values_by_case :: "bench_attempt list \<Rightarrow> (string \<times> f64 list) list" where
  "values_by_case attempts =
     foldl (\<lambda>m a. if ba_success a
        then (case primary_metric_value (ba_view a) of
                Some v \<Rightarrow> push_value (adaptive_case_id a) v m | None \<Rightarrow> m)
        else m) [] attempts"

definition usize_to_u32 :: "nat \<Rightarrow> u32" where
  "usize_to_u32 n = (if n < 2 ^ 32 then of_nat n else - 1)"

definition completed_samples_of :: "(string \<times> nat) list \<Rightarrow> u32" where
  "completed_samples_of m = usize_to_u32 (if m = [] then 0 else Min (snd ` set m))"

definition meets_targets :: "adaptive_criteria \<Rightarrow> f64 list \<Rightarrow> bool" where
  "meets_targets c values =
     (case median_error_bounds values of
        None \<Rightarrow> False
      | Some e \<Rightarrow>
          (case cr_target_relative_error c of None \<Rightarrow> True
           | Some target \<Rightarrow> F64_EPSILON < \<bar>me_median e\<bar> \<and>
               f64_div (me_absolute_half_width e) \<bar>me_median e\<bar> \<le> target) \<and>
          (case cr_target_absolute_error c of None \<Rightarrow> True
           | Some target \<Rightarrow> me_absolute_half_width e \<le> target))"

definition accuracy_satisfied :: "adaptive_criteria \<Rightarrow> bench_attempt list \<Rightarrow> bool" where
  "accuracy_satisfied c attempts =
     (let samples = samples_by_case attempts; vals = values_by_case attempts
      in if cr_target_relative_error c \<noteq> None \<or> cr_target_absolute_error c \<noteq> None
         then samples \<noteq> [] \<and> list_all (\<lambda>(k, _). case map_of vals k of
                Some vs \<Rightarrow> meets_targets c vs | None \<Rightarrow> False) samples
         else True)"

definition benchmark_adaptive_status :: "adaptive_criteria \<Rightarrow> bench_attempt list \<Rightarrow> adaptive_status" where
  "benchmark_adaptive_status c attempts =
     (let elapsed_ms = benchmark_attempt_wall_time_ms attempts;
          completed = completed_samples_of (samples_by_case attempts);
          reason = (if cr_max_samples c \<le> completed then Some MaxSamplesReached
            else if cr_min_samples c \<le> completed \<and>
                    fl (real (unat (cr_min_duration_ms c))) \<le> elapsed_ms \<and>
                    accuracy_satisfied c attempts
            then Some AccuracyTargetReached else None)
      in \<lparr>as_completed_samples = completed, as_elapsed_ms = elapsed_ms, as_stop_reason = reason\<rparr>)"

section \<open>Criteria and the pilot's plan\<close>

record bench_config =
  bc_benchmark_mode :: bool
  bc_benchmark_phase :: string
  bc_http_stacks_empty :: bool
  bc_runs :: u32
  bc_pilot_min_samples :: "u32 option"
  bc_pilot_max_samples :: "u32 option"
  bc_pilot_min_duration_ms :: "u64 option"
  bc_min_samples :: "u32 option"
  bc_max_samples :: "u32 option"
  bc_min_duration_ms :: "u64 option"
  bc_target_relative_error :: "f64 option"
  bc_target_absolute_error :: "f64 option"

definition unwrap_or :: "'a option \<Rightarrow> 'a \<Rightarrow> 'a" where
  "unwrap_or x d = (case x of Some v \<Rightarrow> v | None \<Rightarrow> d)"

definition no_explicit_controls :: "bench_config \<Rightarrow> bool" where
  "no_explicit_controls cfg \<longleftrightarrow> bc_min_samples cfg = None \<and> bc_max_samples cfg = None \<and>
     bc_min_duration_ms cfg = None \<and> bc_target_relative_error cfg = None \<and>
     bc_target_absolute_error cfg = None"

definition benchmark_pilot_criteria :: "bench_config \<Rightarrow> pilot_criteria option" where
  "benchmark_pilot_criteria cfg =
     (if \<not> bc_benchmark_mode cfg \<or> bc_benchmark_phase cfg \<noteq> ''measured'' \<or> \<not> bc_http_stacks_empty cfg
      then None
      else
        let pilot_requested = bc_pilot_min_samples cfg \<noteq> None \<or> bc_pilot_max_samples cfg \<noteq> None \<or>
              bc_pilot_min_duration_ms cfg \<noteq> None
        in if \<not> pilot_requested \<and> \<not> no_explicit_controls cfg then None
           else
             let pilot_max = min (max (bc_runs cfg) 1) DEFAULT_PILOT_MAX_SAMPLES;
                 pilot_min = min pilot_max DEFAULT_PILOT_MIN_SAMPLES
             in Some \<lparr>pc_min_samples = unwrap_or (bc_pilot_min_samples cfg) pilot_min,
                      pc_max_samples = unwrap_or (bc_pilot_max_samples cfg) pilot_max,
                      pc_min_duration_ms = unwrap_or (bc_pilot_min_duration_ms cfg) DEFAULT_PILOT_MIN_DURATION_MS\<rparr>)"

definition benchmark_adaptive_criteria :: "bench_config \<Rightarrow> adaptive_criteria option" where
  "benchmark_adaptive_criteria cfg =
     (if \<not> bc_benchmark_mode cfg \<or> bc_benchmark_phase cfg \<noteq> ''measured'' \<or> no_explicit_controls cfg
      then None
      else Some \<lparr>cr_min_samples = unwrap_or (bc_min_samples cfg) (bc_runs cfg),
                 cr_max_samples = unwrap_or (bc_max_samples cfg) (bc_runs cfg),
                 cr_min_duration_ms = unwrap_or (bc_min_duration_ms cfg) 0,
                 cr_target_relative_error = bc_target_relative_error cfg,
                 cr_target_absolute_error = bc_target_absolute_error cfg\<rparr>)"

text \<open>\<open>as u32\<close> and \<open>as u64\<close> of a value already between zero and the type's maximum.\<close>

definition f64_to_u32 :: "f64 \<Rightarrow> u32" where
  "f64_to_u32 x = (if 2 ^ 32 \<le> \<lfloor>x\<rfloor> then - 1 else of_int \<lfloor>x\<rfloor>)"

definition f64_to_u64 :: "f64 \<Rightarrow> u64" where
  "f64_to_u64 x = (if 2 ^ 64 \<le> \<lfloor>x\<rfloor> then - 1 else of_int \<lfloor>x\<rfloor>)"

definition square :: "f64 \<Rightarrow> f64" where
  "square x = f64_mul x x"

definition estimated_samples_for_error_targets :: "f64 list \<Rightarrow> f64 option \<Rightarrow> f64 option \<Rightarrow> u32" where
  "estimated_samples_for_error_targets values target_relative target_absolute =
     (let current_n = fl (real (min (max (length values) 1) (2 ^ 32 - 1)))
      in (case median_error_bounds values of
            None \<Rightarrow> f64_to_u32 current_n
          | Some e \<Rightarrow>
              let e1 = (case target_relative of
                    Some target \<Rightarrow>
                      if F64_EPSILON < \<bar>me_median e\<bar>
                      then max current_n (f64_mul current_n
                             (square (f64_div (f64_div (me_absolute_half_width e) \<bar>me_median e\<bar>) target)))
                      else current_n
                  | None \<Rightarrow> current_n);
                  e2 = (case target_absolute of
                    Some target \<Rightarrow> max e1 (f64_mul current_n (square (f64_div (me_absolute_half_width e) target)))
                  | None \<Rightarrow> e1)
              in f64_to_u32 (min (max (of_int \<lceil>e2\<rceil>) 1) (real (2 ^ 32 - 1)))))"

record execution_plan =
  ep_source :: string
  ep_min_samples :: u32
  ep_max_samples :: u32
  ep_min_duration_ms :: u64
  ep_target_relative_error :: "f64 option"
  ep_target_absolute_error :: "f64 option"
  ep_pilot_sample_count :: u32
  ep_pilot_elapsed_ms :: "f64 option"
  ep_stop_reason :: "string option"

definition derive_measured_plan_from_pilot :: "bench_config \<Rightarrow> bench_attempt list \<Rightarrow> execution_plan" where
  "derive_measured_plan_from_pilot cfg pilot_attempts =
     (let status = benchmark_adaptive_status
            \<lparr>cr_min_samples = 1, cr_max_samples = - 1, cr_min_duration_ms = 0,
             cr_target_relative_error = None, cr_target_absolute_error = None\<rparr> pilot_attempts;
          target_relative = (case bc_target_relative_error cfg of
             Some t \<Rightarrow> Some t | None \<Rightarrow> Some DEFAULT_AUTO_TARGET_RELATIVE_ERROR);
          target_absolute = bc_target_absolute_error cfg;
          vals = values_by_case pilot_attempts;
          estimated_max = (if vals = [] then bc_runs cfg
             else min (max (Max (set (map (\<lambda>(k, vs).
                    estimated_samples_for_error_targets vs target_relative target_absolute) vals))) 1)
                  (max (bc_runs cfg) 1));
          min_samples = unwrap_or (bc_min_samples cfg) (max (as_completed_samples status) 1);
          max_samples = unwrap_or (bc_max_samples cfg)
             (min (max estimated_max min_samples) (max (bc_runs cfg) min_samples));
          min_duration_ms = unwrap_or (bc_min_duration_ms cfg)
             (f64_to_u64 (min (max (of_int \<lceil>as_elapsed_ms status\<rceil>) 0) (2 ^ 64)))
      in \<lparr>ep_source = (if no_explicit_controls cfg then ''pilot-derived'' else ''pilot-assisted''),
          ep_min_samples = min_samples, ep_max_samples = max_samples,
          ep_min_duration_ms = min_duration_ms, ep_target_relative_error = target_relative,
          ep_target_absolute_error = target_absolute,
          ep_pilot_sample_count = as_completed_samples status,
          ep_pilot_elapsed_ms = Some (as_elapsed_ms status), ep_stop_reason = None\<rparr>)"

end
