(* ===== verification/Benchmark_Run.thy ===== *)
theory Benchmark_Run
  imports Benchmark
begin

text \<open>
  The phases of a benchmark run, \<open>crates/networker-tester/src/target_runner.rs\<close>: overhead,
  pilot, the plan, the measured loop with its stop rule, and cooldown. One iteration probes
  every mode and returns the attempts it publishes; it is an argument, a function of the
  sequence number it starts from. Logging, the progress reports and the comparison of HTTP
  stacks that follows are left out.
\<close>

definition DEFAULT_OVERHEAD_SAMPLES :: u32 where "DEFAULT_OVERHEAD_SAMPLES = 1"
definition DEFAULT_COOLDOWN_SAMPLES :: u32 where "DEFAULT_COOLDOWN_SAMPLES = 1"

type_synonym iteration = "u32 \<Rightarrow> bench_attempt list \<times> u32"

definition measured_phase :: "bench_config \<Rightarrow> bool" where
  "measured_phase cfg \<longleftrightarrow> bc_benchmark_mode cfg \<and> bc_benchmark_phase cfg = ''measured''"

text \<open>The overhead and cooldown loops: a fixed number of iterations.\<close>

fun repeat_iterations :: "iteration \<Rightarrow> nat \<Rightarrow> u32 \<Rightarrow> bench_attempt list \<times> u32" where
  "repeat_iterations collect 0 sq = ([], sq)"
| "repeat_iterations collect (Suc n) sq =
     (let (attempts, sq1) = collect sq; (rest, sq2) = repeat_iterations collect n sq1
      in (attempts @ rest, sq2))"

text \<open>
  The loop of the pilot and of the measured phase: at most \<open>max_runs\<close> iterations, left early
  when the criteria name a reason. Without criteria it runs to the end.
\<close>

function adaptive_loop ::
  "adaptive_criteria option \<Rightarrow> u32 \<Rightarrow> iteration \<Rightarrow> u32 \<Rightarrow> u32 \<Rightarrow> bench_attempt list \<Rightarrow>
   u32 \<times> bench_attempt list \<times> stop_reason option \<times> u32" where
  "adaptive_loop criteria max_runs collect completed sq attempts =
     (if completed < max_runs
      then
        let (published, sq1) = collect sq;
            attempts1 = attempts @ published;
            completed1 = completed + 1
        in (case criteria of
              None \<Rightarrow> adaptive_loop criteria max_runs collect completed1 sq1 attempts1
            | Some c \<Rightarrow>
                (case as_stop_reason (benchmark_adaptive_status c attempts1) of
                   Some r \<Rightarrow> (completed1, attempts1, Some r, sq1)
                 | None \<Rightarrow> adaptive_loop criteria max_runs collect completed1 sq1 attempts1))
      else (completed, attempts, None, sq))"
  by pat_completeness auto
termination
  by (relation "measure (\<lambda>(_, max_runs, _, completed, _, _). unat max_runs - unat completed)")
    (auto simp: unat_inc word_less_nat_alt)

declare adaptive_loop.simps [simp del]

definition pilot_adaptive_criteria :: "bench_config \<Rightarrow> adaptive_criteria option" where
  "pilot_adaptive_criteria cfg =
     map_option (\<lambda>c. \<lparr>cr_min_samples = pc_min_samples c, cr_max_samples = pc_max_samples c,
       cr_min_duration_ms = pc_min_duration_ms c, cr_target_relative_error = None,
       cr_target_absolute_error = None\<rparr>) (benchmark_pilot_criteria cfg)"

definition plan_of_criteria :: "string \<Rightarrow> adaptive_criteria \<Rightarrow> execution_plan" where
  "plan_of_criteria source c =
     \<lparr>ep_source = source, ep_min_samples = cr_min_samples c, ep_max_samples = cr_max_samples c,
      ep_min_duration_ms = cr_min_duration_ms c,
      ep_target_relative_error = cr_target_relative_error c,
      ep_target_absolute_error = cr_target_absolute_error c, ep_pilot_sample_count = 0,
      ep_pilot_elapsed_ms = None, ep_stop_reason = None\<rparr>"

definition fixed_count_criteria :: "bench_config \<Rightarrow> adaptive_criteria" where
  "fixed_count_criteria cfg =
     \<lparr>cr_min_samples = bc_runs cfg, cr_max_samples = bc_runs cfg, cr_min_duration_ms = 0,
      cr_target_relative_error = None, cr_target_absolute_error = None\<rparr>"

definition execution_plan_of :: "bench_config \<Rightarrow> bench_attempt list \<Rightarrow> execution_plan option" where
  "execution_plan_of cfg pilot_attempts =
     (if pilot_attempts \<noteq> [] then Some (derive_measured_plan_from_pilot cfg pilot_attempts)
      else (case benchmark_adaptive_criteria cfg of
              Some c \<Rightarrow> Some (plan_of_criteria ''explicit'' c)
            | None \<Rightarrow>
                if measured_phase cfg
                then Some (plan_of_criteria ''fixed-count'' (fixed_count_criteria cfg)) else None))"

definition criteria_of_plan :: "bench_config \<Rightarrow> execution_plan option \<Rightarrow> adaptive_criteria option" where
  "criteria_of_plan cfg plan = (case plan of
     Some p \<Rightarrow> if measured_phase cfg
       then Some \<lparr>cr_min_samples = ep_min_samples p, cr_max_samples = ep_max_samples p,
              cr_min_duration_ms = ep_min_duration_ms p,
              cr_target_relative_error = ep_target_relative_error p,
              cr_target_absolute_error = ep_target_absolute_error p\<rparr>
       else None
   | None \<Rightarrow> None)"

definition max_run_count :: "bench_config \<Rightarrow> adaptive_criteria option \<Rightarrow> u32" where
  "max_run_count cfg c = (case c of Some c \<Rightarrow> cr_max_samples c | None \<Rightarrow> bc_runs cfg)"

definition stop_reason_text :: "stop_reason option \<Rightarrow> string" where
  "stop_reason_text r = (case r of
     Some AccuracyTargetReached \<Rightarrow> ''accuracy_target_reached''
   | Some MaxSamplesReached \<Rightarrow> ''max_samples_reached''
   | None \<Rightarrow> ''sample_budget_exhausted'')"

record benchmark_outcome =
  bo_overhead :: "bench_attempt list"
  bo_pilot :: "bench_attempt list"
  bo_plan :: "execution_plan option"
  bo_measured :: "bench_attempt list"
  bo_completed_runs :: u32
  bo_cooldown :: "bench_attempt list"

definition overhead_runs :: "bench_config \<Rightarrow> u32 option \<Rightarrow> u32" where
  "overhead_runs cfg n = (if measured_phase cfg then unwrap_or n DEFAULT_OVERHEAD_SAMPLES else 0)"

definition cooldown_runs :: "bench_config \<Rightarrow> u32 option \<Rightarrow> u32" where
  "cooldown_runs cfg n = (if measured_phase cfg then unwrap_or n DEFAULT_COOLDOWN_SAMPLES else 0)"

definition run_benchmark ::
  "bench_config \<Rightarrow> u32 option \<Rightarrow> u32 option \<Rightarrow> iteration \<Rightarrow> u32 \<Rightarrow> benchmark_outcome" where
  "run_benchmark cfg overhead cooldown collect sq =
     (let (over, sq1) = repeat_iterations collect (unat (overhead_runs cfg overhead)) sq;
          (pilot, sq2) = (case pilot_adaptive_criteria cfg of
             Some c \<Rightarrow> (case adaptive_loop (Some c) (cr_max_samples c) collect 0 sq1 [] of
                (_, attempts, _, sq') \<Rightarrow> (attempts, sq'))
           | None \<Rightarrow> ([], sq1));
          plan = execution_plan_of cfg pilot;
          criteria = criteria_of_plan cfg plan;
          (completed, measured, reason, sq3) =
            adaptive_loop criteria (max_run_count cfg criteria) collect 0 sq2 [];
          plan' = map_option (\<lambda>p. p\<lparr>ep_stop_reason := Some (stop_reason_text reason)\<rparr>) plan;
          (cool, sq4) = repeat_iterations collect (unat (cooldown_runs cfg cooldown)) sq3
      in \<lparr>bo_overhead = over, bo_pilot = pilot, bo_plan = plan', bo_measured = measured,
          bo_completed_runs = completed, bo_cooldown = cool\<rparr>)"

end
