(* ===== verification/Cpu.thy ===== *)
theory Cpu
  imports Text F64
begin

text \<open>
  The tester's CPU counters, \<open>crates/networker-tester/src/metrics.rs\<close>: reading the aggregate
  line of \<open>/proc/stat\<close>, the Windows counters, and the busy and steal percentages of a
  window between two snapshots. Adding the fields wraps, as an optimised build does; the text
  of \<open>/proc/stat\<close> is an input, and the macOS snapshot, one foreign call, is not modelled.
\<close>

definition MIN_CPU_WINDOW_MS :: u64 where "MIN_CPU_WINDOW_MS = 500"
definition MIN_CPU_WINDOW_TICKS :: u64 where "MIN_CPU_WINDOW_TICKS = 20"

record cpu_ticks =
  ct_idle :: u64
  ct_total :: u64
  ct_steal :: "u64 option"

definition checked_sub :: "'a::len word \<Rightarrow> 'a word \<Rightarrow> 'a word option" where
  "checked_sub a b = (if b \<le> a then Some (a - b) else None)"

definition busy_percent_since :: "cpu_ticks \<Rightarrow> cpu_ticks \<Rightarrow> f64 option" where
  "busy_percent_since now earlier =
     (case checked_sub (ct_total now) (ct_total earlier) of None \<Rightarrow> None
      | Some total_delta \<Rightarrow>
          (case checked_sub (ct_idle now) (ct_idle earlier) of None \<Rightarrow> None
           | Some idle_delta \<Rightarrow>
               if total_delta < MIN_CPU_WINDOW_TICKS \<or> total_delta < idle_delta then None
               else Some (f64_mul (f64_sub 1 (f64_div (fl (real (unat idle_delta))) (fl (real (unat total_delta))))) 100)))"

definition steal_percent_since :: "cpu_ticks \<Rightarrow> cpu_ticks \<Rightarrow> f64 option" where
  "steal_percent_since now earlier =
     (case checked_sub (ct_total now) (ct_total earlier) of None \<Rightarrow> None
      | Some total_delta \<Rightarrow>
          (case ct_steal now of None \<Rightarrow> None
           | Some s \<Rightarrow>
               (case ct_steal earlier of None \<Rightarrow> None
                | Some s0 \<Rightarrow>
                    (case checked_sub s s0 of None \<Rightarrow> None
                     | Some steal_delta \<Rightarrow>
                         if total_delta < MIN_CPU_WINDOW_TICKS \<or> total_delta < steal_delta then None
                         else Some (f64_mul (f64_div (fl (real (unat steal_delta))) (fl (real (unat total_delta)))) 100)))))"

record cpu_window =
  cw_busy_percent :: f64
  cw_steal_percent :: "f64 option"

definition cpu_window_sample :: "cpu_ticks \<Rightarrow> cpu_ticks \<Rightarrow> u64 \<Rightarrow> cpu_window option" where
  "cpu_window_sample before after window_ms =
     (if window_ms < MIN_CPU_WINDOW_MS then None
      else (case busy_percent_since after before of None \<Rightarrow> None
            | Some b \<Rightarrow> Some \<lparr>cw_busy_percent = b, cw_steal_percent = steal_percent_since after before\<rparr>))"

text \<open>All tokens parsed, or \<open>None\<close> at the first that is no number.\<close>

fun parse_all :: "string list \<Rightarrow> u64 list option" where
  "parse_all [] = Some []"
| "parse_all (t # ts) =
     (case parse_u64 t of None \<Rightarrow> None
      | Some v \<Rightarrow> (case parse_all ts of None \<Rightarrow> None | Some vs \<Rightarrow> Some (v # vs)))"

definition is_cpu_line :: "string \<Rightarrow> bool" where
  "is_cpu_line l \<longleftrightarrow> starts_with ''cpu'' l \<and>
     (case split_whitespace l of first # _ \<Rightarrow> first = ''cpu'' | [] \<Rightarrow> False)"

definition parse_proc_stat_cpu :: "string \<Rightarrow> cpu_ticks option" where
  "parse_proc_stat_cpu text =
     (case find is_cpu_line (str_lines text) of None \<Rightarrow> None
      | Some line \<Rightarrow>
          (case parse_all (take 8 (drop 1 (split_whitespace line))) of None \<Rightarrow> None
           | Some fs \<Rightarrow>
               if length fs < 4 then None
               else Some \<lparr>ct_idle = fs ! 3 + (if 4 < length fs then fs ! 4 else 0),
                          ct_total = sum_list fs,
                          ct_steal = (if 7 < length fs then Some (fs ! 7) else None)\<rparr>))"

definition cpu_ticks_from_windows_times :: "u64 \<Rightarrow> u64 \<Rightarrow> u64 \<Rightarrow> cpu_ticks option" where
  "cpu_ticks_from_windows_times idle kernel_incl_idle user =
     (if kernel_incl_idle < idle then None
      else if unat kernel_incl_idle + unat user < 2 ^ 64
      then Some \<lparr>ct_idle = idle, ct_total = kernel_incl_idle + user, ct_steal = None\<rparr>
      else None)"

section \<open>Percentages\<close>

lemma ratio_percent_bounds:
  assumes "a \<le> b" "0 < b"
  shows "0 \<le> f64_div (fl (real a)) (fl (real b)) \<and> f64_div (fl (real a)) (fl (real b)) \<le> 1"
proof -
  have pos: "0 < fl (real b)" using assms by (simp add: fl_pos)
  have "fl (real a) / fl (real b) \<le> 1" using pos assms(1) by (simp add: fl_mono)
  then have "f64_div (fl (real a)) (fl (real b)) \<le> fl 1" by (simp add: f64_ops fl_mono)
  then show ?thesis using pos by (simp add: f64_ops fl.rnd_nonneg fl.rnd_one)
qed

lemma percent_of_ratio:
  assumes "0 \<le> r" "r \<le> 1"
  shows "0 \<le> f64_mul r 100 \<and> f64_mul r 100 \<le> 100"
  using assms fl.rnd_le_nat [of "r * 100" 100] by (simp add: f64_ops fl.rnd_nonneg)

lemma busy_percent_bounds:
  assumes "busy_percent_since now earlier = Some b" shows "0 \<le> b \<and> b \<le> 100"
proof -
  obtain i t where t: "i \<le> t" "MIN_CPU_WINDOW_TICKS \<le> t"
    and b: "b = f64_mul (f64_sub 1 (f64_div (fl (real (unat i))) (fl (real (unat t))))) 100"
    using assms by (auto simp: busy_percent_since_def not_less split: option.splits if_splits)
  have "0 < unat t" "unat i \<le> unat t"
    using t by (auto simp: MIN_CPU_WINDOW_TICKS_def word_le_nat_alt)
  from ratio_percent_bounds [OF this(2,1)]
  have "0 \<le> f64_sub 1 (f64_div (fl (real (unat i))) (fl (real (unat t)))) \<and>
      f64_sub 1 (f64_div (fl (real (unat i))) (fl (real (unat t)))) \<le> 1"
    using fl.rnd_le_nat [of "1 - f64_div (fl (real (unat i))) (fl (real (unat t)))" 1]
    by (simp add: f64_sub_def fl.rnd_nonneg)
  then show ?thesis unfolding b by (intro percent_of_ratio) simp_all
qed

lemma steal_percent_bounds:
  assumes "steal_percent_since now earlier = Some b" shows "0 \<le> b \<and> b \<le> 100"
proof -
  obtain i t where t: "i \<le> t" "MIN_CPU_WINDOW_TICKS \<le> t"
    and b: "b = f64_mul (f64_div (fl (real (unat i))) (fl (real (unat t)))) 100"
    using assms by (auto simp: steal_percent_since_def not_less split: option.splits if_splits)
  have "0 < unat t" "unat i \<le> unat t"
    using t by (auto simp: MIN_CPU_WINDOW_TICKS_def word_le_nat_alt)
  from ratio_percent_bounds [OF this(2,1)] show ?thesis
    unfolding b by (intro percent_of_ratio) simp_all
qed

end
