(* ===== verification/Baseline.thy ===== *)
theory Baseline
  imports Stats Cpu
begin

text \<open>
  The network measured before the probes, \<open>crates/networker-tester/src/baseline.rs\<close>: the kind
  of network an address belongs to, the connect times sampled in a row, the interpolated
  percentile, the baseline, and the environment and stability checks of a benchmark.

  Parsing an address, resolving a name and the parts of a URL are inputs. The attempts to
  connect are a function from the attempt's number to the time it took, \<open>None\<close> when it failed
  or ran into the five seconds; the time of the whole sampling is an input too.
\<close>

definition DEFAULT_ENVIRONMENT_CHECK_SAMPLES :: u32 where "DEFAULT_ENVIRONMENT_CHECK_SAMPLES = 5"
definition DEFAULT_ENVIRONMENT_CHECK_INTERVAL_MS :: u64 where "DEFAULT_ENVIRONMENT_CHECK_INTERVAL_MS = 50"
definition DEFAULT_STABILITY_CHECK_SAMPLES :: u32 where "DEFAULT_STABILITY_CHECK_SAMPLES = 12"
definition DEFAULT_STABILITY_CHECK_INTERVAL_MS :: u64 where "DEFAULT_STABILITY_CHECK_INTERVAL_MS = 50"

section \<open>Kinds of network\<close>

datatype network_type = Loopback | LAN | Internet

definition network_type_name :: "network_type \<Rightarrow> string" where
  "network_type_name t = (case t of Loopback \<Rightarrow> ''Loopback'' | LAN \<Rightarrow> ''LAN'' | Internet \<Rightarrow> ''Internet'')"

text \<open>The bytes of an IPv4 address and the 16-bit segments of an IPv6 address, from the left.\<close>

definition octet :: "u32 \<Rightarrow> nat \<Rightarrow> u8" where
  "octet a i = ucast (drop_bit (8 * (3 - i)) a)"

definition segment :: "128 word \<Rightarrow> nat \<Rightarrow> u16" where
  "segment a i = ucast (drop_bit (16 * (7 - i)) a)"

definition v4_is_loopback :: "u32 \<Rightarrow> bool" where
  "v4_is_loopback a \<longleftrightarrow> octet a 0 = 127"

definition v4_is_private :: "u32 \<Rightarrow> bool" where
  "v4_is_private a \<longleftrightarrow> octet a 0 = 10 \<or> (octet a 0 = 172 \<and> 16 \<le> octet a 1 \<and> octet a 1 \<le> 31) \<or>
     (octet a 0 = 192 \<and> octet a 1 = 168)"

definition v4_is_link_local :: "u32 \<Rightarrow> bool" where
  "v4_is_link_local a \<longleftrightarrow> octet a 0 = 169 \<and> octet a 1 = 254"

fun classify_ip :: "ip_addr \<Rightarrow> network_type" where
  "classify_ip (V4 a) =
     (if v4_is_loopback a then Loopback
      else if v4_is_private a \<or> v4_is_link_local a \<or> (octet a 0 = 100 \<and> (octet a 1 AND 0xC0) = 64)
      then LAN else Internet)"
| "classify_ip (V6 a) =
     (if a = 1 then Loopback
      else if segment a 0 = 0xfe80 \<or> (segment a 0 AND 0xfe00) = 0xfc00 then LAN else Internet)"

record name_service =
  ns_parse_ip :: "string \<Rightarrow> ip_addr option"
  ns_resolve :: "string \<Rightarrow> ip_addr list option"

definition classify_target :: "name_service \<Rightarrow> string \<Rightarrow> network_type" where
  "classify_target ns host =
     (if host = ''localhost'' then Loopback
      else (case ns_parse_ip ns host of
              Some ip \<Rightarrow> classify_ip ip
            | None \<Rightarrow>
                (case ns_resolve ns host of
                   Some (ip # _) \<Rightarrow> classify_ip ip
                 | _ \<Rightarrow> Internet)))"

section \<open>Samples\<close>

definition measure_rtt_samples ::
  "(nat \<Rightarrow> duration option) \<Rightarrow> duration \<Rightarrow> u32 \<Rightarrow> f64 list \<times> u32 \<times> f64" where
  "measure_rtt_samples connect whole samples =
     (map as_millis_f64 (List.map_filter connect [0 ..< unat samples]), samples, as_millis_f64 whole)"

definition measure_rtt :: "(nat \<Rightarrow> duration option) \<Rightarrow> duration \<Rightarrow> u32 \<Rightarrow> f64 list" where
  "measure_rtt connect whole samples = fst (measure_rtt_samples connect whole samples)"

definition percentile :: "f64 list \<Rightarrow> f64 \<Rightarrow> f64" where
  "percentile xs p =
     (if xs = [] then 0
      else if length xs = 1 then xs ! 0
      else
        let idx = f64_mul (f64_div p 100) (fl (real (length xs - 1)));
            lo = nat \<lfloor>idx\<rfloor>; hi = nat \<lceil>idx\<rceil>
        in if lo = hi then xs ! lo
           else f64_add (xs ! lo) (f64_mul (f64_sub (xs ! hi) (xs ! lo)) (f64_sub idx (fl (real lo)))))"

fun abs_diffs :: "f64 list \<Rightarrow> f64 list" where
  "abs_diffs (x # y # xs) = \<bar>f64_sub y x\<bar> # abs_diffs (y # xs)"
| "abs_diffs _ = []"

definition average_jitter_ms :: "f64 list \<Rightarrow> f64" where
  "average_jitter_ms samples =
     (if length samples < 2 then 0
      else f64_div (f64_sum (abs_diffs samples)) (fl (real (length samples - 1))))"

section \<open>The baseline\<close>

record network_baseline =
  nb_samples :: u32
  nb_rtt_min_ms :: f64
  nb_rtt_avg_ms :: f64
  nb_rtt_max_ms :: f64
  nb_rtt_p50_ms :: f64
  nb_rtt_p95_ms :: f64
  nb_network_type :: network_type

text \<open>The target's host and port, each absent when the URL has none.\<close>

type_synonym target = "string option \<times> u16 option"

definition measure_baseline ::
  "name_service \<Rightarrow> (nat \<Rightarrow> duration option) \<Rightarrow> duration \<Rightarrow> target \<Rightarrow> network_baseline option" where
  "measure_baseline ns connect whole target =
     (case target of
        (Some host, Some port) \<Rightarrow>
          (let network_type = classify_target ns host;
               rtts = measure_rtt connect whole 5
           in if rtts = [] then
                Some \<lparr>nb_samples = 0, nb_rtt_min_ms = 0, nb_rtt_avg_ms = 0, nb_rtt_max_ms = 0,
                      nb_rtt_p50_ms = 0, nb_rtt_p95_ms = 0, nb_network_type = network_type\<rparr>
              else
                Some \<lparr>nb_samples = of_nat (length rtts), nb_rtt_min_ms = rtts ! 0,
                      nb_rtt_avg_ms = f64_div (f64_sum rtts) (fl (real (length rtts))),
                      nb_rtt_max_ms = rtts ! (length rtts - 1),
                      nb_rtt_p50_ms = percentile rtts 50, nb_rtt_p95_ms = percentile rtts 95,
                      nb_network_type = network_type\<rparr>)
      | _ \<Rightarrow> None)"

section \<open>The environment check\<close>

record environment_check =
  ec_attempted_samples :: u32
  ec_successful_samples :: u32
  ec_failed_samples :: u32
  ec_duration_ms :: f64
  ec_rtt_min_ms :: f64
  ec_rtt_avg_ms :: f64
  ec_rtt_max_ms :: f64
  ec_rtt_p50_ms :: f64
  ec_rtt_p95_ms :: f64
  ec_packet_loss_percent :: f64
  ec_network_type :: network_type
  ec_cpu_busy_percent :: "f64 option"
  ec_cpu_steal_percent :: "f64 option"

definition loss_percent_of :: "u32 \<Rightarrow> u32 \<Rightarrow> f64" where
  "loss_percent_of failed attempted =
     (if 0 < attempted
      then f64_mul (f64_div (fl (real (unat failed))) (fl (real (unat attempted)))) 100 else 0)"

definition cpu_bracket :: "cpu_ticks option \<Rightarrow> cpu_ticks option \<Rightarrow> f64 \<Rightarrow> cpu_window option" where
  "cpu_bracket before after duration_ms =
     (case before of None \<Rightarrow> None
      | Some b \<Rightarrow> (case after of None \<Rightarrow> None | Some a \<Rightarrow> cpu_window_sample b a (f64_as_u64 duration_ms)))"

definition measure_environment_check ::
  "name_service \<Rightarrow> (nat \<Rightarrow> duration option) \<Rightarrow> duration \<Rightarrow> cpu_ticks option \<Rightarrow> cpu_ticks option \<Rightarrow>
   target \<Rightarrow> u32 \<Rightarrow> environment_check option" where
  "measure_environment_check ns connect whole cpu_before cpu_after target samples =
     (case target of
        (Some host, Some port) \<Rightarrow>
          (let network_type = classify_target ns host;
               (ordered_rtts, attempted, duration_ms) = measure_rtt_samples connect whole samples;
               window = cpu_bracket cpu_before cpu_after duration_ms;
               busy = map_option cw_busy_percent window;
               steal = Option.bind window cw_steal_percent;
               successful = of_nat (length ordered_rtts);
               failed = sat_sub attempted successful;
               loss = loss_percent_of failed attempted;
               rtts = sort ordered_rtts
           in if rtts = [] then
                Some \<lparr>ec_attempted_samples = attempted, ec_successful_samples = successful,
                      ec_failed_samples = failed, ec_duration_ms = duration_ms, ec_rtt_min_ms = 0,
                      ec_rtt_avg_ms = 0, ec_rtt_max_ms = 0, ec_rtt_p50_ms = 0, ec_rtt_p95_ms = 0,
                      ec_packet_loss_percent = loss, ec_network_type = network_type,
                      ec_cpu_busy_percent = busy, ec_cpu_steal_percent = steal\<rparr>
              else
                Some \<lparr>ec_attempted_samples = attempted, ec_successful_samples = successful,
                      ec_failed_samples = failed, ec_duration_ms = duration_ms,
                      ec_rtt_min_ms = rtts ! 0,
                      ec_rtt_avg_ms = f64_div (f64_sum rtts) (fl (real (length rtts))),
                      ec_rtt_max_ms = rtts ! (length rtts - 1),
                      ec_rtt_p50_ms = percentile rtts 50, ec_rtt_p95_ms = percentile rtts 95,
                      ec_packet_loss_percent = loss, ec_network_type = network_type,
                      ec_cpu_busy_percent = busy, ec_cpu_steal_percent = steal\<rparr>)
      | _ \<Rightarrow> None)"

section \<open>The stability check\<close>

record stability_check =
  sc_attempted_samples :: u32
  sc_successful_samples :: u32
  sc_failed_samples :: u32
  sc_duration_ms :: f64
  sc_rtt_min_ms :: f64
  sc_rtt_avg_ms :: f64
  sc_rtt_max_ms :: f64
  sc_rtt_p50_ms :: f64
  sc_rtt_p95_ms :: f64
  sc_jitter_ms :: f64
  sc_packet_loss_percent :: f64
  sc_network_type :: network_type

definition measure_stability_check ::
  "name_service \<Rightarrow> (nat \<Rightarrow> duration option) \<Rightarrow> duration \<Rightarrow> target \<Rightarrow> u32 \<Rightarrow> stability_check option" where
  "measure_stability_check ns connect whole target samples =
     (case target of
        (Some host, Some port) \<Rightarrow>
          (let network_type = classify_target ns host;
               (ordered_rtts, attempted, duration_ms) = measure_rtt_samples connect whole samples;
               successful = of_nat (length ordered_rtts);
               failed = sat_sub attempted successful;
               loss = loss_percent_of failed attempted;
               jitter = average_jitter_ms ordered_rtts;
               rtts = sort ordered_rtts
           in if rtts = [] then
                Some \<lparr>sc_attempted_samples = attempted, sc_successful_samples = successful,
                      sc_failed_samples = failed, sc_duration_ms = duration_ms, sc_rtt_min_ms = 0,
                      sc_rtt_avg_ms = 0, sc_rtt_max_ms = 0, sc_rtt_p50_ms = 0, sc_rtt_p95_ms = 0,
                      sc_jitter_ms = jitter, sc_packet_loss_percent = loss, sc_network_type = network_type\<rparr>
              else
                Some \<lparr>sc_attempted_samples = attempted, sc_successful_samples = successful,
                      sc_failed_samples = failed, sc_duration_ms = duration_ms,
                      sc_rtt_min_ms = rtts ! 0,
                      sc_rtt_avg_ms = f64_div (f64_sum rtts) (fl (real (length rtts))),
                      sc_rtt_max_ms = last rtts,
                      sc_rtt_p50_ms = percentile rtts 50, sc_rtt_p95_ms = percentile rtts 95,
                      sc_jitter_ms = jitter, sc_packet_loss_percent = loss, sc_network_type = network_type\<rparr>)
      | _ \<Rightarrow> None)"

definition baseline_from_environment_check :: "environment_check \<Rightarrow> network_baseline" where
  "baseline_from_environment_check c =
     \<lparr>nb_samples = ec_successful_samples c, nb_rtt_min_ms = ec_rtt_min_ms c,
      nb_rtt_avg_ms = ec_rtt_avg_ms c, nb_rtt_max_ms = ec_rtt_max_ms c,
      nb_rtt_p50_ms = ec_rtt_p50_ms c, nb_rtt_p95_ms = ec_rtt_p95_ms c,
      nb_network_type = ec_network_type c\<rparr>"

definition baseline_from_stability_check :: "stability_check \<Rightarrow> network_baseline" where
  "baseline_from_stability_check c =
     \<lparr>nb_samples = sc_successful_samples c, nb_rtt_min_ms = sc_rtt_min_ms c,
      nb_rtt_avg_ms = sc_rtt_avg_ms c, nb_rtt_max_ms = sc_rtt_max_ms c,
      nb_rtt_p50_ms = sc_rtt_p50_ms c, nb_rtt_p95_ms = sc_rtt_p95_ms c,
      nb_network_type = sc_network_type c\<rparr>"

end
