(* ===== verification/Baseline_Properties.thy ===== *)
theory Baseline_Properties
  imports Baseline
begin

text \<open>
  The properties of the baseline and its checks: a check's figures describe the samples it
  took, its loss and CPU percentages are percentages, the line of \<open>/proc/stat\<close> is read back as
  printed, the two percentile routines of the engine agree, and the plain baseline, which does
  not sort, takes the first and the last sample for the extremes.
\<close>

section \<open>Samples\<close>

lemma measured_length: "length (fst (measure_rtt_samples connect whole samples)) \<le> unat samples"
  by (simp add: measure_rtt_samples_def List.map_filter_def)
    (rule order_trans [OF length_filter_le], simp)

lemma sort_Nil_iff [simp]: "sort xs = [] \<longleftrightarrow> xs = []"
  by (metis length_0_conv length_sort)

lemma measured_representable:
  "r \<in> set (fst (measure_rtt_samples connect whole samples)) \<Longrightarrow> 0 \<le> r \<and> fl r = r"
  by (auto simp: measure_rtt_samples_def as_millis_f64_nonneg)
    (simp_all add: as_millis_f64_def f64_ops)

lemma sample_counts:
  fixes n :: u32
  assumes "k \<le> unat n"
  shows "unat (of_nat k :: u32) = k" "unat (sat_sub n (of_nat k)) = unat n - k"
proof -
  have "unat n < 2 ^ LENGTH(32)" by (rule unsigned_less)
  with assms have "k < 2 ^ 32" by simp
  then show k: "unat (of_nat k :: u32) = k" by (simp add: unsigned_of_nat take_bit_nat_eq_self)
  then show "unat (sat_sub n (of_nat k)) = unat n - k" by (simp add: unat_sat_sub)
qed

lemma loss_percent_bounds:
  assumes "unat failed \<le> unat attempted"
  shows "0 \<le> loss_percent_of failed attempted \<and> loss_percent_of failed attempted \<le> 100 \<and>
    (loss_percent_of failed attempted = 0 \<longleftrightarrow> failed = 0)"
proof (cases "0 < attempted")
  case True
  then have a: "0 < unat attempted" by (simp add: word_less_nat_alt)
  note r = ratio_percent_bounds [OF assms a]
  have "0 < loss_percent_of failed attempted" if "failed \<noteq> 0"
  proof -
    have "0 < unat failed" using that by (simp add: unat_gt_0)
    then show ?thesis using True a by (simp add: loss_percent_of_def f64_ops fl_pos)
  qed
  moreover have "loss_percent_of failed attempted = 0" if "failed = 0"
    using that by (simp add: loss_percent_of_def f64_ops)
  moreover have "0 \<le> loss_percent_of failed attempted \<and> loss_percent_of failed attempted \<le> 100"
    using percent_of_ratio [OF conjunct1 [OF r] conjunct2 [OF r]] True by (simp add: loss_percent_of_def)
  ultimately show ?thesis by fastforce
next
  case False
  then have "attempted = 0" by (simp add: word_less_nat_alt unat_eq_zero)
  then show ?thesis using assms by (simp add: loss_percent_of_def unat_eq_zero)
qed

section \<open>The two percentile routines\<close>

lemma percentile_cases:
  assumes "xs \<noteq> []" "\<forall>x \<in> set xs. fl x = x" "0 \<le> p" "p \<le> 100" "length xs \<le> 2 ^ 53"
  shows "percentile xs p = percentile_from_sorted xs p"
proof (cases "length xs = 1")
  case True
  then show ?thesis by (cases xs) (simp_all add: percentile_def percentile_from_sorted_def)
next
  case False
  define rank where "rank = percentile_rank (length xs) p"
  have n: "1 \<le> length xs" using assms(1) by (cases xs) simp_all
  have "nat \<lceil>rank\<rceil> < length xs" "nat \<lfloor>rank\<rfloor> \<le> nat \<lceil>rank\<rceil>"
    using percentile_indices [OF assms(3,4) n assms(5)] by (simp_all add: rank_def)
  then have rep: "fl (xs ! nat \<lfloor>rank\<rfloor>) = xs ! nat \<lfloor>rank\<rfloor>" using assms(2) by simp
  have a: "percentile xs p = (if nat \<lfloor>rank\<rfloor> = nat \<lceil>rank\<rceil> then xs ! nat \<lfloor>rank\<rfloor>
      else f64_add (xs ! nat \<lfloor>rank\<rfloor>)
        (f64_mul (f64_sub (xs ! nat \<lceil>rank\<rceil>) (xs ! nat \<lfloor>rank\<rfloor>)) (f64_sub rank (fl (real (nat \<lfloor>rank\<rfloor>))))))"
    using False assms(1) unfolding percentile_def rank_def percentile_rank_def Let_def by simp
  have b: "percentile_from_sorted xs p = f64_add (xs ! nat \<lfloor>rank\<rfloor>)
        (f64_mul (f64_sub rank (fl (real (nat \<lfloor>rank\<rfloor>)))) (f64_sub (xs ! nat \<lceil>rank\<rceil>) (xs ! nat \<lfloor>rank\<rfloor>)))"
    using False unfolding percentile_from_sorted_def rank_def Let_def by simp
  show ?thesis unfolding a b using rep
    by (cases "nat \<lfloor>rank\<rfloor> = nat \<lceil>rank\<rceil>") (simp_all add: f64_ops mult.commute)
qed

text \<open>On samples a machine can hold, the percentile of the baseline and the percentile of
  the statistics module are the same number at every rank from 0 to 100.\<close>

theorem percentiles_agree:
  assumes "xs \<noteq> []" "\<forall>x \<in> set xs. fl x = x" "0 \<le> p" "p \<le> 100" "length xs \<le> 2 ^ 53"
  shows "percentile xs p = percentile_from_sorted xs p"
  by (rule percentile_cases [OF assms])

theorem percentiles_agree_witness: "percentile [1, 2, 5] 95 = percentile_from_sorted [1, 2, 5] 95"
  by (rule percentiles_agree) (use fl_int [of 1] fl_int [of 2] fl_int [of 5] in simp_all)

section \<open>The checks\<close>

lemma sorted_ends:
  fixes ys :: "f64 list"
  assumes "sorted ys" "ys \<noteq> []"
  shows "ys ! 0 = Min (set ys)" "ys ! (length ys - 1) = Max (set ys)"
proof -
  show "ys ! 0 = Min (set ys)"
    using assms by (cases ys) (auto intro!: Min_eqI [symmetric])
  have "last ys = Max (set ys)"
    using assms by (cases ys rule: rev_cases) (auto simp: sorted_append intro!: Max_eqI [symmetric])
  then show "ys ! (length ys - 1) = Max (set ys)" using assms(2) by (simp add: last_conv_nth)
qed

lemma sorted_samples:
  assumes "xs \<noteq> []" "\<forall>x \<in> set xs. fl x = x" "length xs \<le> 2 ^ 53"
  shows "sort xs ! 0 = Min (set xs)" "sort xs ! (length (sort xs) - 1) = Max (set xs)"
    "last (sort xs) = Max (set xs)"
    "Min (set xs) \<le> percentile (sort xs) 50" "Min (set xs) \<le> percentile (sort xs) 95"
proof -
  have ne: "sort xs \<noteq> []" using assms(1) by (simp only: sort_Nil_iff not_False_eq_True)
  have mn: "sort xs ! 0 = Min (set (sort xs))" by (rule sorted_ends(1) [OF sorted_sort ne])
  have mx: "sort xs ! (length (sort xs) - 1) = Max (set (sort xs))"
    by (rule sorted_ends(2) [OF sorted_sort ne])
  show "sort xs ! 0 = Min (set xs)" using mn by simp
  show m: "sort xs ! (length (sort xs) - 1) = Max (set xs)" using mx by simp
  then show "last (sort xs) = Max (set xs)" using ne by (simp add: last_conv_nth)
  have "sort xs ! 0 \<le> percentile (sort xs) p" if "0 \<le> p" "p \<le> 100" for p
    using percentile_ge_min [OF sorted_sort ne _ that] percentile_cases [OF ne _ that] assms by simp
  then show "Min (set xs) \<le> percentile (sort xs) 50" "Min (set xs) \<le> percentile (sort xs) 95"
    using mn by simp_all
qed

lemma cpu_bracket_bounds:
  assumes "cpu_bracket b a d = Some w"
  shows "0 \<le> cw_busy_percent w \<and> cw_busy_percent w \<le> 100 \<and>
    (\<forall>s. cw_steal_percent w = Some s \<longrightarrow> 0 \<le> s \<and> s \<le> 100)"
  using assms
  by (auto simp: cpu_bracket_def cpu_window_sample_def split: option.splits if_splits
      dest!: busy_percent_bounds steal_percent_bounds)

lemma environment_check_parts:
  assumes "measure_environment_check ns connect whole before after target samples = Some c"
  defines "rtts \<equiv> fst (measure_rtt_samples connect whole samples)"
  shows "ec_attempted_samples c = samples \<and> unat (ec_successful_samples c) = length rtts \<and>
      unat (ec_successful_samples c) + unat (ec_failed_samples c) = unat samples"
    and "0 \<le> ec_packet_loss_percent c \<and> ec_packet_loss_percent c \<le> 100 \<and>
      (ec_packet_loss_percent c = 0 \<longleftrightarrow> length rtts = unat samples)"
    and "rtts \<noteq> [] \<Longrightarrow> ec_rtt_min_ms c = Min (set rtts) \<and> ec_rtt_max_ms c = Max (set rtts) \<and>
      ec_rtt_min_ms c \<le> ec_rtt_p50_ms c \<and> ec_rtt_min_ms c \<le> ec_rtt_p95_ms c"
    and "ec_cpu_busy_percent c = Some b \<Longrightarrow> 0 \<le> b \<and> b \<le> 100"
    and "ec_cpu_steal_percent c = Some s \<Longrightarrow> 0 \<le> s \<and> s \<le> 100"
    and "nb_rtt_min_ms (baseline_from_environment_check c) = ec_rtt_min_ms c \<and>
      nb_rtt_max_ms (baseline_from_environment_check c) = ec_rtt_max_ms c"
proof -
  have len: "length rtts \<le> unat samples" unfolding rtts_def by (rule measured_length)
  note n = sample_counts [OF len]
  obtain host port where t: "target = (Some host, Some port)"
    using assms(1) by (auto simp: measure_environment_check_def split: option.splits prod.splits)
  have m: "measure_rtt_samples connect whole samples = (rtts, samples, as_millis_f64 whole)"
    by (simp add: rtts_def measure_rtt_samples_def)
  let ?failed = "sat_sub samples (of_nat (length rtts))"
  let ?w = "cpu_bracket before after (as_millis_f64 whole)"
  have c: "ec_attempted_samples c = samples" "ec_successful_samples c = of_nat (length rtts)"
    "ec_failed_samples c = ?failed" "ec_packet_loss_percent c = loss_percent_of ?failed samples"
    "ec_cpu_busy_percent c = map_option cw_busy_percent ?w"
    "ec_cpu_steal_percent c = Option.bind ?w cw_steal_percent"
    "rtts \<noteq> [] \<Longrightarrow> ec_rtt_min_ms c = sort rtts ! 0 \<and>
       ec_rtt_max_ms c = sort rtts ! (length (sort rtts) - 1) \<and>
       ec_rtt_p50_ms c = percentile (sort rtts) 50 \<and> ec_rtt_p95_ms c = percentile (sort rtts) 95"
    using assms(1) by (auto simp: measure_environment_check_def t m Let_def split: if_splits)
  show "ec_attempted_samples c = samples \<and> unat (ec_successful_samples c) = length rtts \<and>
      unat (ec_successful_samples c) + unat (ec_failed_samples c) = unat samples"
    using n len by (simp add: c)
  have "?failed = 0 \<longleftrightarrow> length rtts = unat samples"
    using n(2) len by (auto simp: unat_eq_zero [symmetric])
  with loss_percent_bounds [of ?failed samples] n(2)
  show "0 \<le> ec_packet_loss_percent c \<and> ec_packet_loss_percent c \<le> 100 \<and>
      (ec_packet_loss_percent c = 0 \<longleftrightarrow> length rtts = unat samples)"
    by (auto simp: c)
  have "unat samples < 2 ^ LENGTH(32)" by (rule unsigned_less)
  with len have "length rtts \<le> 2 ^ 53" by simp
  moreover have "\<forall>r \<in> set rtts. fl r = r" using measured_representable unfolding rtts_def by blast
  ultimately show "ec_rtt_min_ms c = Min (set rtts) \<and> ec_rtt_max_ms c = Max (set rtts) \<and>
      ec_rtt_min_ms c \<le> ec_rtt_p50_ms c \<and> ec_rtt_min_ms c \<le> ec_rtt_p95_ms c" if "rtts \<noteq> []"
    using sorted_samples [OF that] c(7) [OF that] by simp
  show "0 \<le> b \<and> b \<le> 100" if "ec_cpu_busy_percent c = Some b"
    using that cpu_bracket_bounds by (auto simp: c)
  show "0 \<le> s \<and> s \<le> 100" if "ec_cpu_steal_percent c = Some s"
    using that cpu_bracket_bounds by (auto simp: c bind_eq_Some_conv)
qed (simp_all add: baseline_from_environment_check_def)

text \<open>An environment check describes its samples: the successes and the failures add up to
  the attempts, the loss is a percentage and zero exactly when nothing failed, with a success
  the smallest and the largest round trip are reported as such and no percentile is below the
  smallest, and the CPU figures are percentages. The baseline taken from it is the same
  figures.\<close>

theorem environment_check_sound:
  assumes "measure_environment_check ns connect whole before after target samples = Some c"
  defines "rtts \<equiv> fst (measure_rtt_samples connect whole samples)"
  shows "ec_attempted_samples c = samples \<and> unat (ec_successful_samples c) = length rtts \<and>
    unat (ec_successful_samples c) + unat (ec_failed_samples c) = unat samples \<and>
    0 \<le> ec_packet_loss_percent c \<and> ec_packet_loss_percent c \<le> 100 \<and>
    (ec_packet_loss_percent c = 0 \<longleftrightarrow> length rtts = unat samples) \<and>
    (rtts \<noteq> [] \<longrightarrow> ec_rtt_min_ms c = Min (set rtts) \<and> ec_rtt_max_ms c = Max (set rtts) \<and>
      ec_rtt_min_ms c \<le> ec_rtt_p50_ms c \<and> ec_rtt_min_ms c \<le> ec_rtt_p95_ms c) \<and>
    (\<forall>b. ec_cpu_busy_percent c = Some b \<longrightarrow> 0 \<le> b \<and> b \<le> 100) \<and>
    (\<forall>s. ec_cpu_steal_percent c = Some s \<longrightarrow> 0 \<le> s \<and> s \<le> 100) \<and>
    nb_rtt_min_ms (baseline_from_environment_check c) = ec_rtt_min_ms c \<and>
    nb_rtt_max_ms (baseline_from_environment_check c) = ec_rtt_max_ms c"
  using environment_check_parts [OF assms(1)] unfolding rtts_def by blast

text \<open>A target whose first connection takes two seconds and every other one.\<close>

definition demo_names :: name_service where
  "demo_names = \<lparr>ns_parse_ip = (\<lambda>s. None), ns_resolve = (\<lambda>s. Some [V4 0x0A000001])\<rparr>"

definition demo_connect :: "nat \<Rightarrow> duration option" where
  "demo_connect i = Some (from_secs (if i = 0 then 2 else 1))"

lemma demo_rtts: "measure_rtt demo_connect whole 5 = [2000, 1000, 1000, 1000, 1000]"
proof -
  have ms: "as_millis_f64 (from_secs k) = real (k * 1000)" if "k \<le> 10" for k
    using that fl.rnd_nat [of "k * 1000"] by (simp add: as_millis_f64_def as_secs_f64_whole f64_ops)
  have "[0 ..< unat (5 :: u32)] = [0, 1, 2, 3, 4]" by (simp add: upt_rec)
  then show ?thesis
    using ms [of 1] ms [of 2]
    by (simp add: measure_rtt_def measure_rtt_samples_def demo_connect_def List.map_filter_def)
qed

theorem environment_check_sound_witness:
  "\<exists>c. measure_environment_check demo_names demo_connect 0 None None (Some ''h'', Some 80) 5 = Some c \<and>
     ec_rtt_min_ms c = 1000 \<and> ec_rtt_max_ms c = 2000"
proof -
  obtain c where c: "measure_environment_check demo_names demo_connect 0 None None (Some ''h'', Some 80) 5 = Some c"
    by (cases "measure_environment_check demo_names demo_connect 0 None None (Some ''h'', Some 80) 5")
      (simp_all add: measure_environment_check_def Let_def split: prod.splits if_splits)
  have r: "fst (measure_rtt_samples demo_connect 0 5) = [2000, 1000, 1000, 1000, 1000]"
    using demo_rtts [of 0] by (simp add: measure_rtt_def)
  from environment_check_sound [OF c] c show ?thesis by (simp add: r)
qed

section \<open>The baseline does not sort\<close>

text \<open>The plain baseline reports the first sample as the smallest round trip and the last
  one as the largest: a first connection of two seconds followed by four of one second is
  reported with a smallest round trip of 2000 ms above a largest of 1000 ms.\<close>

theorem baseline_unsorted:
  "\<exists>connect b. measure_baseline ns connect whole (Some host, Some port) = Some b \<and>
     nb_rtt_min_ms b = 2000 \<and> nb_rtt_max_ms b = 1000"
  by (rule exI [of _ demo_connect]) (simp add: measure_baseline_def demo_rtts Let_def)

section \<open>The CPU counters\<close>

lemma decimal_space_free: "space_free (decimal n)"
  using decimal_digits [of _ n]
  by (fastforce simp: space_free_def is_ascii_digit_def is_ascii_space_def)

lemma parse_all_decimals:
  "\<forall>v \<in> set vs. v < 2 ^ 64 \<Longrightarrow> parse_all (map decimal vs) = Some (map of_nat vs)"
  by (induction vs) (simp_all add: parse_u64_decimal)

lemma join_with_free: "\<forall>w \<in> set ws. c \<notin> set w \<Longrightarrow> c \<notin> set sep \<Longrightarrow> c \<notin> set (join_with sep ws)"
  by (induction sep ws rule: join_with.induct) auto

lemma decimal_free: "\<not> is_ascii_digit c \<Longrightarrow> c \<notin> set (decimal n)"
  using decimal_digits by blast

lemma first_line:
  assumes "LF \<notin> set l" "l \<noteq> []" "last l \<noteq> CR"
  shows "\<exists>ls. str_lines (l @ LF # rest) = l # ls"
proof -
  obtain y ys where y: "split_on LF rest = y # ys" by (cases "split_on LF rest") simp_all
  have "strip_cr l = l" using assms by (simp add: strip_cr_def ends_with_single)
  then show ?thesis using assms(1) y by (simp add: str_lines_def split_on_append)
qed

lemma proc_stat_read:
  assumes len: "4 \<le> length vs" and small: "\<forall>v \<in> set vs. v < 2 ^ 64"
  shows "parse_proc_stat_cpu (''cpu  '' @ join_with '' '' (map decimal vs) @ LF # rest) =
      Some \<lparr>ct_idle = of_nat (vs ! 3 + (if 4 < length vs then vs ! 4 else 0)),
        ct_total = of_nat (sum_list (take 8 vs)),
        ct_steal = (if 7 < length vs then Some (of_nat (vs ! 7)) else None)\<rparr>"
proof -
  define l where "l = ''cpu  '' @ join_with '' '' (map decimal vs)"
  have words: "split_whitespace l = ''cpu'' # map decimal vs"
  proof -
    have "space_free ''cpu''" by (simp add: space_free_def is_ascii_space_def code_def)
    then have "split_whitespace l = ''cpu'' # split_whitespace (join_with '' '' (map decimal vs))"
      using split_space_word [of "''cpu''" "[]" "'' '' @ '' '' @ join_with '' '' (map decimal vs)"]
      by (simp add: l_def split_whitespace_def split_space_blank del: split_space.simps(2))
    then show ?thesis
      using split_whitespace_join [of "map decimal vs"] decimal_space_free by simp
  qed
  have digits: "\<not> is_ascii_digit LF" "\<not> is_ascii_digit CR"
    by (simp_all add: is_ascii_digit_def code_def LF_def CR_def)
  have free: "LF \<notin> set l" "CR \<notin> set l"
    using join_with_free [of "map decimal vs" LF "'' ''"] join_with_free [of "map decimal vs" CR "'' ''"]
      decimal_free digits
    by (auto simp: l_def LF_def CR_def)
  have ne: "l \<noteq> []" by (simp add: l_def)
  then have "last l \<noteq> CR" using free last_in_set by metis
  then obtain ls where "str_lines (l @ LF # rest) = l # ls"
    using first_line [OF free(1) ne] by blast
  moreover have "is_cpu_line l" using words by (simp add: is_cpu_line_def l_def starts_with_def)
  moreover have "parse_all (take 8 (map decimal vs)) = Some (map of_nat (take 8 vs))"
    using parse_all_decimals [of "take 8 vs"] small by (auto simp: take_map dest: in_set_takeD)
  moreover have "of_nat (sum_list xs) = sum_list (map of_nat xs :: u64 list)" for xs
    by (induction xs) simp_all
  ultimately show "parse_proc_stat_cpu (''cpu  '' @ join_with '' '' (map decimal vs) @ LF # rest) =
      Some \<lparr>ct_idle = of_nat (vs ! 3 + (if 4 < length vs then vs ! 4 else 0)),
        ct_total = of_nat (sum_list (take 8 vs)),
        ct_steal = (if 7 < length vs then Some (of_nat (vs ! 7)) else None)\<rparr>"
    using len words by (simp add: parse_proc_stat_cpu_def l_def)
qed

lemma cpu_window_facts:
  assumes w: "cpu_window_sample before after ms = Some w"
  shows "500 \<le> ms \<and> ct_total before + 20 \<le> ct_total after \<and> ct_idle before \<le> ct_idle after \<and>
      0 \<le> cw_busy_percent w \<and> cw_busy_percent w \<le> 100 \<and>
      (\<forall>s. cw_steal_percent w = Some s \<longrightarrow> 0 \<le> s \<and> s \<le> 100)"
proof -
  from w obtain b where b: "busy_percent_since after before = Some b"
    and w': "500 \<le> ms" "w = \<lparr>cw_busy_percent = b, cw_steal_percent = steal_percent_since after before\<rparr>"
    by (auto simp: cpu_window_sample_def MIN_CPU_WINDOW_MS_def not_less split: if_splits option.splits)
  have le: "ct_total before \<le> ct_total after" "ct_idle before \<le> ct_idle after"
    and d: "20 \<le> ct_total after - ct_total before"
    using b by (auto simp: busy_percent_since_def checked_sub_def MIN_CPU_WINDOW_TICKS_def not_less
        split: option.splits if_splits)
  have "ct_total before + 20 \<le> ct_total after"
    using le(1) d by (simp add: word_le_nat_alt unat_sub unat_word_ariths)
  then show "500 \<le> ms \<and> ct_total before + 20 \<le> ct_total after \<and> ct_idle before \<le> ct_idle after \<and>
      0 \<le> cw_busy_percent w \<and> cw_busy_percent w \<le> 100 \<and>
      (\<forall>s. cw_steal_percent w = Some s \<longrightarrow> 0 \<le> s \<and> s \<le> 100)"
    using w' le busy_percent_bounds [OF b] steal_percent_bounds by auto
qed

text \<open>The aggregate line of \<open>/proc/stat\<close>, the label, two blanks and at least four decimal
  counters, is read back as printed: idle is the fourth field plus the fifth, the total the sum
  of the first eight, steal the eighth where the kernel has one. The percentages of a window
  are between 0 and 100 and exist only for a window of at least half a second and twenty
  ticks whose counters did not run backwards.\<close>

theorem cpu_counters_honest:
  "(4 \<le> length vs \<longrightarrow> (\<forall>v \<in> set vs. v < 2 ^ 64) \<longrightarrow>
      parse_proc_stat_cpu (''cpu  '' @ join_with '' '' (map decimal vs) @ LF # rest) =
      Some \<lparr>ct_idle = of_nat (vs ! 3 + (if 4 < length vs then vs ! 4 else 0)),
        ct_total = of_nat (sum_list (take 8 vs)),
        ct_steal = (if 7 < length vs then Some (of_nat (vs ! 7)) else None)\<rparr>) \<and>
   (cpu_window_sample before after ms = Some w \<longrightarrow>
      500 \<le> ms \<and> ct_total before + 20 \<le> ct_total after \<and> ct_idle before \<le> ct_idle after \<and>
      0 \<le> cw_busy_percent w \<and> cw_busy_percent w \<le> 100 \<and>
      (\<forall>s. cw_steal_percent w = Some s \<longrightarrow> 0 \<le> s \<and> s \<le> 100))"
  using proc_stat_read [of vs rest] cpu_window_facts [of before after ms w] by blast

theorem cpu_counters_honest_witness:
  "parse_proc_stat_cpu (''cpu  '' @ join_with '' '' (map decimal [10, 0, 5, 100]) @ LF # []) =
     Some \<lparr>ct_idle = 100, ct_total = 115, ct_steal = None\<rparr> \<and>
   (\<exists>w. cpu_window_sample \<lparr>ct_idle = 0, ct_total = 0, ct_steal = None\<rparr>
     \<lparr>ct_idle = 10, ct_total = 40, ct_steal = None\<rparr> 500 = Some w \<and> cw_busy_percent w \<le> 100)"
proof -
  have "\<exists>w. cpu_window_sample \<lparr>ct_idle = 0, ct_total = 0, ct_steal = None\<rparr>
     \<lparr>ct_idle = 10, ct_total = 40, ct_steal = None\<rparr> 500 = Some w"
    by (simp add: cpu_window_sample_def MIN_CPU_WINDOW_MS_def busy_percent_since_def checked_sub_def
        MIN_CPU_WINDOW_TICKS_def)
  then show ?thesis
    using cpu_counters_honest [of "[10, 0, 5, 100]" "[]"] by force
qed

end
