(* ===== verification/Benchmark_Properties.thy ===== *)
theory Benchmark_Properties
  imports Benchmark_Run Baseline_Properties
begin

text \<open>
  The properties of adaptive benchmarking: the bootstrap draws only from the sample and its
  estimates stay within it, the stop rule means what its reasons say, the loop is bounded,
  the plan of a pilot is consistent, and what a fixed number of runs means when each run takes
  several samples.
\<close>

section \<open>The bootstrap\<close>

lemma benchmark_percentile_eq: "benchmark_percentile = percentile"
  by (intro ext) (simp only: benchmark_percentile_def percentile_def)

lemma next_index_less:
  assumes "0 < upper" shows "fst (next_index upper st) < upper"
proof -
  obtain z st' where z: "next_u64 st = (z, st')" by (rule prod.exhaust)
  have "unat z < 2 ^ LENGTH(64)" by (rule unsigned_less)
  then have "unat z * upper < 2 ^ 64 * upper" using assms by simp
  then have "unat z * upper div 2 ^ 64 < upper" by (simp add: less_mult_imp_div_less mult.commute)
  then show ?thesis using assms by (simp add: next_index_def z)
qed

lemma draw_sound:
  assumes "values \<noteq> []" "draw values k st = (sample, st')"
  shows "length sample = k \<and> set sample \<subseteq> set values"
  using assms(2)
proof (induction k arbitrary: st sample)
  case (Suc k)
  obtain i st1 where i: "next_index (length values) st = (i, st1)" by (rule prod.exhaust)
  obtain rest st2 where r: "draw values k st1 = (rest, st2)" by (rule prod.exhaust)
  have "i < length values" using next_index_less [of "length values" st] assms(1) i by simp
  moreover have "sample = values ! i # rest" "st2 = st'" using Suc.prems i r by simp_all
  moreover have "length rest = k \<and> set rest \<subseteq> set values"
    using Suc.IH [of st1 rest] r \<open>st2 = st'\<close> by simp
  ultimately show ?case by simp
qed simp

lemma median_bounds:
  assumes "sorted xs" "xs \<noteq> []" "\<forall>x \<in> set xs. fl x = x \<and> lo \<le> x \<and> x \<le> hi" "fl lo = lo" "fl hi = hi"
    "fl (2 * lo) = 2 * lo" "fl (2 * hi) = 2 * hi"
  shows "lo \<le> median_from_sorted xs \<and> median_from_sorted xs \<le> hi"
proof (cases "even (length xs)")
  case False
  then have "length xs div 2 < length xs" using assms(2) by (cases xs) auto
  with False show ?thesis using assms(2,3) by (simp add: median_from_sorted_def)
next
  case True
  define a b where "a = xs ! (length xs div 2 - 1)" and "b = xs ! (length xs div 2)"
  have "length xs div 2 < length xs" using assms(2) by (cases xs) auto
  then have ab: "lo \<le> a" "a \<le> hi" "lo \<le> b" "b \<le> hi" using assms(3) by (auto simp: a_def b_def)
  have "2 * lo \<le> fl (a + b)" using fl_mono [of "2 * lo" "a + b"] ab assms(6) by simp
  moreover have "fl (a + b) \<le> 2 * hi" using fl_mono [of "a + b" "2 * hi"] ab assms(7) by simp
  ultimately have "lo \<le> fl (a + b) / 2" "fl (a + b) / 2 \<le> hi" by simp_all
  then have "lo \<le> fl (fl (a + b) / 2)" "fl (fl (a + b) / 2) \<le> hi"
    using fl_mono assms(4,5) by metis+
  then show ?thesis
    using True assms(2) by (simp add: median_from_sorted_def a_def b_def f64_ops Let_def)
qed

lemma resample_medians_sound:
  assumes "values \<noteq> []" "\<forall>x \<in> set values. fl x = x"
  shows "length (resample_medians values k st) = k \<and>
    (\<forall>m \<in> set (resample_medians values k st). Min (set values) \<le> m \<and> m \<le> Max (set values) \<and> fl m = m)"
proof (induction k arbitrary: st)
  case (Suc k)
  obtain sample st1 where d: "draw values (length values) st = (sample, st1)" by (rule prod.exhaust)
  have s: "length sample = length values" "set sample \<subseteq> set values"
    using draw_sound [OF assms(1) d] by simp_all
  have ne: "sort sample \<noteq> []" using s(1) assms(1) by (metis length_0_conv length_sort)
  have ends: "Min (set values) \<in> set values" "Max (set values) \<in> set values"
    using assms(1) by simp_all
  have "Min (set values) \<le> median_from_sorted (sort sample) \<and> median_from_sorted (sort sample) \<le> Max (set values)"
    by (rule median_bounds) (use ne s(2) assms ends in \<open>auto intro: fl_double\<close>)
  moreover have "fl (median_from_sorted (sort sample)) = median_from_sorted (sort sample)"
  proof (cases "even (length (sort sample))")
    case True
    then show ?thesis using ne by (simp add: median_from_sorted_def f64_ops Let_def)
  next
    case False
    have "length (sort sample) div 2 < length (sort sample)" using ne by (cases "sort sample") auto
    then have "sort sample ! (length (sort sample) div 2) \<in> set values"
      using s(2) nth_mem by (metis set_sort subsetD)
    with False ne assms(2) show ?thesis by (simp add: median_from_sorted_def)
  qed
  ultimately show ?case using Suc by (simp add: d)
qed simp

lemma bootstrap_constant:
  assumes n: "2 \<le> n" and v: "fl v = v"
  shows "\<exists>se. bootstrap_median_interval (replicate n v) = (se, v, v)"
proof -
  define es where "es = resample_medians (replicate n v) ADAPTIVE_BOOTSTRAP_RESAMPLES (rng_from_values (replicate n v))"
  have set: "set (replicate n v) = {v}" using n by simp
  have es: "length es = 2048 \<and> (\<forall>m \<in> set es. m = v)"
    using resample_medians_sound [of "replicate n v" ADAPTIVE_BOOTSTRAP_RESAMPLES "rng_from_values (replicate n v)"]
      n v unfolding es_def set by (auto simp: ADAPTIVE_BOOTSTRAP_RESAMPLES_def)
  then have rep: "sort es = replicate 2048 v"
    by (intro replicate_eqI) simp_all
  have sm: "0 \<le> fl (1 - fl (95 / 100))" "fl (1 - fl (95 / 100)) \<le> 1"
  proof -
    have "fl (95 / 100) \<le> 1" using fl.rnd_le_nat [of "95 / 100" 1] by simp
    moreover have "0 \<le> fl (95 / 100)" by (simp add: fl.rnd_nonneg)
    ultimately show "0 \<le> fl (1 - fl (95 / 100))" "fl (1 - fl (95 / 100)) \<le> 1"
      using fl.rnd_le_nat [of "1 - fl (95 / 100)" 1] by (simp_all add: fl.rnd_nonneg)
  qed
  define tail where "tail = f64_mul (f64_sub 1 ADAPTIVE_CONFIDENCE_LEVEL) 50"
  have tail: "0 \<le> tail" "tail \<le> 50"
    using sm fl.rnd_le_nat [of "fl (1 - fl (95 / 100)) * 50" 50]
    by (simp_all add: tail_def f64_ops ADAPTIVE_CONFIDENCE_LEVEL_def fl.rnd_nonneg)
  have tail': "0 \<le> f64_sub 100 tail" "f64_sub 100 tail \<le> 100"
    using tail fl.rnd_le_nat [of "100 - tail" 100] by (simp_all add: f64_ops fl.rnd_nonneg)
  have "percentile (replicate 2048 v) p = v" if "0 \<le> p" "p \<le> 100" for p
  proof -
    have "percentile_rank 2048 p = f64_mul (f64_div p 100) (fl (real (2048 - 1)))"
      by (simp only: percentile_rank_def)
    moreover have "nat \<lfloor>percentile_rank 2048 p\<rfloor> \<le> nat \<lceil>percentile_rank 2048 p\<rceil> \<and>
        nat \<lceil>percentile_rank 2048 p\<rceil> < 2048"
      using percentile_indices [OF that] by simp
    ultimately show ?thesis
      unfolding percentile_def Let_def length_replicate
      using v by (simp add: f64_sub_def f64_add_def f64_mul_def [of 0])
  qed
  with tail tail' have "benchmark_percentile (sort es) tail = v"
    "benchmark_percentile (sort es) (f64_sub 100 tail) = v"
    by (simp_all add: rep benchmark_percentile_eq)
  then show ?thesis using n
    by (auto simp: bootstrap_median_interval_def Let_def es_def tail_def)
qed

text \<open>A drawn index is always inside the sample; a resample has the sample's size and only
  its values; every estimate of the median lies between the smallest and the largest value; a
  sample of one value repeated gets an interval of width zero.\<close>

theorem bootstrap_sound:
  "(0 < upper \<longrightarrow> fst (next_index upper st) < upper) \<and>
   (xs \<noteq> [] \<longrightarrow> draw xs k st = (sample, st') \<longrightarrow>
     length sample = k \<and> set sample \<subseteq> set xs) \<and>
   (xs \<noteq> [] \<longrightarrow> (\<forall>x \<in> set xs. fl x = x) \<longrightarrow>
     (\<forall>m \<in> set (resample_medians xs k st). Min (set xs) \<le> m \<and> m \<le> Max (set xs))) \<and>
   (2 \<le> n \<longrightarrow> fl v = v \<longrightarrow> (\<exists>se. bootstrap_median_interval (replicate n v) = (se, v, v)))"
  using next_index_less [of upper st] draw_sound [of xs k st sample st']
    resample_medians_sound [of xs k st] bootstrap_constant [of n v] by blast

theorem bootstrap_sound_witness:
  "fst (next_index 7 12345) < 7 \<and> (\<exists>se. bootstrap_median_interval (replicate 3 5) = (se, 5, 5)) \<and>
   (\<exists>sample st. draw [1, 2] 3 9 = (sample, st) \<and> set sample \<subseteq> {1, 2})"
proof -
  obtain drawn st where d: "draw [1, 2] 3 9 = (drawn, st)" by (rule prod.exhaust)
  have "fl 5 = 5" using fl_int [of 5] by simp
  with bootstrap_sound [where upper = 7 and st = 12345 and n = 3 and v = 5 and xs = "[1, 2]" and k = 3
      and sample = "[1, 2]" and st' = 9]
    bootstrap_sound [where st = 9 and xs = "[1, 2]" and k = 3 and sample = drawn and st' = st]
    d show ?thesis by auto
qed

section \<open>What the rule sees\<close>

definition case_count :: "string \<Rightarrow> bench_attempt list \<Rightarrow> nat" where
  "case_count k xs = length (filter (\<lambda>a. adaptive_case_id a = k) xs)"

definition case_values :: "string \<Rightarrow> bench_attempt list \<Rightarrow> f64 list" where
  "case_values k xs = List.map_filter
     (\<lambda>a. if ba_success a \<and> adaptive_case_id a = k then primary_metric_value (ba_view a) else None) xs"

lemma samples_by_case_facts:
  "distinct (map fst (samples_by_case xs)) \<and>
   map_of (samples_by_case xs) k = (if case_count k xs = 0 then None else Some (case_count k xs))"
proof (induction xs arbitrary: k rule: rev_induct)
  case Nil
  show ?case by (simp add: samples_by_case_def case_count_def)
next
  case (snoc a xs)
  have step: "samples_by_case (xs @ [a]) = count_up (adaptive_case_id a) (samples_by_case xs)"
    by (simp add: samples_by_case_def)
  show ?case
    using snoc [of k] snoc [of "adaptive_case_id a"]
    unfolding step count_up_def
    by (auto simp: update_conv' distinct_update case_count_def)
qed

lemma values_by_case_map:
  "map_of (values_by_case xs) k = (if case_values k xs = [] then None else Some (case_values k xs))"
proof (induction xs arbitrary: k rule: rev_induct)
  case Nil
  show ?case by (simp add: values_by_case_def case_values_def)
next
  case (snoc a xs)
  have step: "values_by_case (xs @ [a]) = (if ba_success a
      then (case primary_metric_value (ba_view a) of
              Some v \<Rightarrow> push_value (adaptive_case_id a) v (values_by_case xs) | None \<Rightarrow> values_by_case xs)
      else values_by_case xs)"
    unfolding values_by_case_def foldl_append by simp
  have vals: "case_values k (xs @ [a]) = case_values k xs @
      (if ba_success a \<and> adaptive_case_id a = k
       then (case primary_metric_value (ba_view a) of Some v \<Rightarrow> [v] | None \<Rightarrow> []) else [])" for k
    by (auto simp: case_values_def List.map_filter_def split: option.split)
  show ?case
    using snoc [of k] snoc [of "adaptive_case_id a"]
    unfolding step vals push_value_def
    by (auto simp: update_conv' split: option.split)
qed

lemma samples_set_iff:
  "(k, n) \<in> set (samples_by_case xs) \<longleftrightarrow> n = case_count k xs \<and> 0 < n"
  using samples_by_case_facts [of xs k] by (auto simp flip: map_of_eq_Some_iff split: if_splits)

lemma case_count_pos: "a \<in> set xs \<Longrightarrow> 0 < case_count (adaptive_case_id a) xs"
  by (auto simp: case_count_def filter_empty_conv)

lemma case_count_witness: "0 < case_count k xs \<Longrightarrow> \<exists>a \<in> set xs. adaptive_case_id a = k"
  by (auto simp: case_count_def filter_empty_conv)

lemma usize_to_u32_le: "unat (usize_to_u32 n) \<le> n"
  by (simp add: usize_to_u32_def unsigned_of_nat take_bit_nat_eq_self unat_max_word)

lemma usize_to_u32_eq: "n < 2 ^ 32 \<Longrightarrow> unat (usize_to_u32 n) = n"
  by (simp add: usize_to_u32_def unsigned_of_nat take_bit_nat_eq_self)

lemma completed_le:
  assumes "a \<in> set xs"
  shows "unat (completed_samples_of (samples_by_case xs)) \<le> case_count (adaptive_case_id a) xs"
proof -
  let ?m = "samples_by_case xs" let ?n = "case_count (adaptive_case_id a) xs"
  have in_m: "(adaptive_case_id a, ?n) \<in> set ?m"
    using case_count_pos [OF assms] by (simp add: samples_set_iff)
  then have "Min (snd ` set ?m) \<le> ?n" by (intro Min_le) (auto intro: rev_image_eqI)
  then show ?thesis
    using usize_to_u32_le [of "Min (snd ` set ?m)"] in_m
    by (auto simp: completed_samples_of_def intro: order_trans)
qed

lemma stop_rule_parts:
  fixes c attempts
  defines "s \<equiv> benchmark_adaptive_status c attempts"
  shows "a \<in> set attempts \<Longrightarrow>
      unat (as_completed_samples s) \<le> case_count (adaptive_case_id a) attempts"
    and "as_stop_reason s = Some MaxSamplesReached \<longleftrightarrow> cr_max_samples c \<le> as_completed_samples s"
    and "as_stop_reason s = Some AccuracyTargetReached \<Longrightarrow>
      as_completed_samples s < cr_max_samples c \<and> cr_min_samples c \<le> as_completed_samples s \<and>
      fl (real (unat (cr_min_duration_ms c))) \<le> as_elapsed_ms s"
    and "as_stop_reason s = Some AccuracyTargetReached \<Longrightarrow>
      cr_target_relative_error c \<noteq> None \<or> cr_target_absolute_error c \<noteq> None \<Longrightarrow> a \<in> set attempts \<Longrightarrow>
      meets_targets c (case_values (adaptive_case_id a) attempts)"
proof -
  have completed: "as_completed_samples s = completed_samples_of (samples_by_case attempts)"
    by (simp add: s_def benchmark_adaptive_status_def Let_def)
  show "unat (as_completed_samples s) \<le> case_count (adaptive_case_id a) attempts" if "a \<in> set attempts"
    unfolding completed by (rule completed_le [OF that])
  show "as_stop_reason s = Some MaxSamplesReached \<longleftrightarrow> cr_max_samples c \<le> as_completed_samples s"
    by (simp add: s_def benchmark_adaptive_status_def Let_def)
  show "as_completed_samples s < cr_max_samples c \<and> cr_min_samples c \<le> as_completed_samples s \<and>
      fl (real (unat (cr_min_duration_ms c))) \<le> as_elapsed_ms s"
    if "as_stop_reason s = Some AccuracyTargetReached"
    using that by (simp add: s_def benchmark_adaptive_status_def Let_def not_le split: if_splits)
  show "meets_targets c (case_values (adaptive_case_id a) attempts)"
    if r: "as_stop_reason s = Some AccuracyTargetReached"
      and t: "cr_target_relative_error c \<noteq> None \<or> cr_target_absolute_error c \<noteq> None"
      and a: "a \<in> set attempts"
  proof -
    have "accuracy_satisfied c attempts"
      using r by (simp add: s_def benchmark_adaptive_status_def Let_def split: if_splits)
    then have all: "list_all (\<lambda>(k, _). case map_of (values_by_case attempts) k of
        Some vs \<Rightarrow> meets_targets c vs | None \<Rightarrow> False) (samples_by_case attempts)"
      using t by (auto simp: accuracy_satisfied_def Let_def)
    have "(adaptive_case_id a, case_count (adaptive_case_id a) attempts) \<in> set (samples_by_case attempts)"
      using case_count_pos [OF a] by (simp add: samples_set_iff)
    with all have "case map_of (values_by_case attempts) (adaptive_case_id a) of
        Some vs \<Rightarrow> meets_targets c vs | None \<Rightarrow> False"
      by (auto simp: list_all_iff)
    then show ?thesis by (simp add: values_by_case_map split: if_splits)
  qed
qed


section \<open>The loop\<close>

lemma take_prefix: "take (length (xs @ ys)) zs = xs @ ys \<Longrightarrow> take (length xs) zs = xs"
  by (metis append_eq_conv_conj append_take_drop_id append.assoc)

lemma adaptive_loop_facts:
  assumes "adaptive_loop criteria max_runs collect completed sq attempts = (n, result, reason, sq')"
    "completed \<le> max_runs"
  shows "completed \<le> n \<and> n \<le> max_runs \<and> take (length attempts) result = attempts \<and>
    (reason = None \<longrightarrow> n = max_runs) \<and>
    (\<forall>r. reason = Some r \<longrightarrow> (\<exists>c. criteria = Some c \<and>
       as_stop_reason (benchmark_adaptive_status c result) = Some r))"
  using assms
proof (induction criteria max_runs collect completed sq attempts rule: adaptive_loop.induct)
  case (1 criteria max_runs collect completed sq attempts)
  show ?case
  proof (cases "completed < max_runs")
    case False
    then show ?thesis using "1.prems" by (auto simp: adaptive_loop.simps)
  next
    case True
    obtain published sq1 where p: "collect sq = (published, sq1)" by (rule prod.exhaust)
    have le: "completed \<le> completed + 1" "completed + 1 \<le> max_runs"
      using True unat_inc [OF True] by (simp_all add: word_le_nat_alt word_less_nat_alt)
    note unf = "1.prems"(1) [unfolded adaptive_loop.simps [of _ _ _ completed]]
    let ?go = "adaptive_loop criteria max_runs collect (completed + 1) sq1 (attempts @ published)"
    consider (stop) c r where "criteria = Some c"
        "as_stop_reason (benchmark_adaptive_status c (attempts @ published)) = Some r"
      | (none) "criteria = None"
      | (cont) c where "criteria = Some c"
        "as_stop_reason (benchmark_adaptive_status c (attempts @ published)) = None"
      by (metis option.exhaust)
    then show ?thesis
    proof cases
      case stop
      then have "reason = Some r" "n = completed + 1" "result = attempts @ published"
        using unf True by (simp_all add: p)
      with stop le show ?thesis by simp
    next
      case none
      then have "?go = (n, result, reason, sq')" using unf True by (simp add: p)
      from "1.IH"(1) [OF True refl p [symmetric] refl refl none this le(2)] le(1) show ?thesis
        by (auto intro: take_prefix)
    next
      case cont
      then have "?go = (n, result, reason, sq')" using unf True by (simp add: p)
      from "1.IH"(2) [OF True refl p [symmetric] refl refl cont this le(2)] le(1) show ?thesis
        by (auto intro: take_prefix)
    qed
  qed
qed

lemma count_replicate:
  "case_count (adaptive_case_id a) (replicate n a) = n"
  by (simp add: case_count_def)

lemma completed_replicate:
  assumes "n < 2 ^ 32"
  shows "unat (completed_samples_of (samples_by_case (replicate n a))) = n"
proof (cases "n = 0")
  case True
  then show ?thesis by (simp add: completed_samples_of_def samples_by_case_def usize_to_u32_def)
next
  case False
  have counts: "case_count k (replicate n a) = (if adaptive_case_id a = k then n else 0)" for k
    by (simp add: case_count_def)
  have "snd ` set (samples_by_case (replicate n a)) = {n}"
  proof -
    have "(k, c) \<in> set (samples_by_case (replicate n a)) \<longleftrightarrow> k = adaptive_case_id a \<and> c = n" for k c
      using False by (auto simp: samples_set_iff counts)
    then show ?thesis by force
  qed
  moreover have "samples_by_case (replicate n a) \<noteq> []"
    using \<open>snd ` set (samples_by_case (replicate n a)) = {n}\<close> by auto
  ultimately show ?thesis using assms by (simp add: completed_samples_of_def usize_to_u32_eq)
qed

lemma wall_time_zero:
  assumes "ba_finished_at a = Some (ba_started_at a)"
  shows "benchmark_attempt_wall_time_ms (replicate n a) = 0"
proof (cases "n = 0")
  case True
  then show ?thesis by (simp add: benchmark_attempt_wall_time_ms_def)
next
  case False
  then show ?thesis using assms
    by (simp add: benchmark_attempt_wall_time_ms_def num_microseconds_def f64_ops)
qed

lemma adaptive_loop_reasons:
  assumes "adaptive_loop criteria max_runs collect 0 sq [] = (n, result, reason, sq')"
  shows "n \<le> max_runs"
    and "stop_reason_text reason = ''sample_budget_exhausted'' \<Longrightarrow> n = max_runs"
    and "stop_reason_text reason = ''max_samples_reached'' \<Longrightarrow>
      \<exists>c. criteria = Some c \<and> cr_max_samples c \<le> as_completed_samples (benchmark_adaptive_status c result)"
    and "stop_reason_text reason = ''accuracy_target_reached'' \<Longrightarrow>
      \<exists>c. criteria = Some c \<and> accuracy_satisfied c result \<and>
        cr_min_samples c \<le> as_completed_samples (benchmark_adaptive_status c result)"
proof -
  note f = adaptive_loop_facts [OF assms, simplified]
  show "n \<le> max_runs" using f by simp
  show "n = max_runs" if "stop_reason_text reason = ''sample_budget_exhausted''"
    using that f by (cases reason) (simp_all add: stop_reason_text_def split: stop_reason.splits)
  show "\<exists>c. criteria = Some c \<and> cr_max_samples c \<le> as_completed_samples (benchmark_adaptive_status c result)"
    if "stop_reason_text reason = ''max_samples_reached''"
  proof -
    have "reason = Some MaxSamplesReached"
      using that by (simp add: stop_reason_text_def split: option.splits stop_reason.splits)
    with f obtain c where "criteria = Some c"
      "as_stop_reason (benchmark_adaptive_status c result) = Some MaxSamplesReached" by blast
    then show ?thesis by (simp add: benchmark_adaptive_status_def Let_def split: if_splits)
  qed
  show "\<exists>c. criteria = Some c \<and> accuracy_satisfied c result \<and>
      cr_min_samples c \<le> as_completed_samples (benchmark_adaptive_status c result)"
    if "stop_reason_text reason = ''accuracy_target_reached''"
  proof -
    have "reason = Some AccuracyTargetReached"
      using that by (simp add: stop_reason_text_def split: option.splits stop_reason.splits)
    with f obtain c where "criteria = Some c"
      "as_stop_reason (benchmark_adaptive_status c result) = Some AccuracyTargetReached" by blast
    then show ?thesis by (simp add: benchmark_adaptive_status_def Let_def split: if_splits)
  qed
qed

text \<open>The loop runs at most its number of iterations and keeps every attempt it has. The
  reason it reports is the rule's verdict on exactly those attempts, and without a reason it
  has run its whole number.\<close>

theorem measured_loop_bounded:
  assumes "adaptive_loop criteria max_runs collect 0 sq [] = (n, result, reason, sq')"
  shows "n \<le> max_runs \<and>
    (stop_reason_text reason = ''sample_budget_exhausted'' \<longrightarrow> n = max_runs) \<and>
    (stop_reason_text reason = ''max_samples_reached'' \<longrightarrow>
      (\<exists>c. criteria = Some c \<and> cr_max_samples c \<le> as_completed_samples (benchmark_adaptive_status c result))) \<and>
    (stop_reason_text reason = ''accuracy_target_reached'' \<longrightarrow>
      (\<exists>c. criteria = Some c \<and> accuracy_satisfied c result \<and>
        cr_min_samples c \<le> as_completed_samples (benchmark_adaptive_status c result)))"
  using adaptive_loop_reasons [OF assms] by blast

section \<open>Fixed-count runs\<close>

lemma fixed_count_loop:
  fixes cfg :: bench_config
  assumes "1 \<le> k" "unat runs * k < 2 ^ 32" "m \<le> j * k" "j * k \<le> m"
    "unat completed = j" "m < unat runs" "j \<le> unat runs"
  defines "c \<equiv> fixed_count_criteria (cfg\<lparr>bc_runs := runs\<rparr>)"
  shows "\<exists>n result sq'. adaptive_loop (Some c) runs (\<lambda>q. (replicate k a, f q)) completed sq (replicate m a) =
      (n, result, Some MaxSamplesReached, sq') \<and> unat n = div_ceil (unat runs) k"
  using assms(3-7)
proof (induction "unat runs - j" arbitrary: j m completed sq rule: less_induct)
  case less
  have m: "m = j * k" using less.prems by simp
  have "j * 1 \<le> j * k" by (rule mult_le_mono2 [OF assms(1)])
  then have lt: "j < unat runs" using less.prems m by linarith
  then have go: "completed < runs" using less.prems by (simp add: word_less_nat_alt)
  have inc: "unat (completed + 1) = Suc j" using unat_inc [OF go] less.prems by simp
  have jk: "Suc j * k \<le> unat runs * k" using lt by (intro mult_right_mono) simp_all
  have mk: "m + k = Suc j * k" by (simp add: m)
  have size: "m + k < 2 ^ 32" using jk assms(2) unfolding mk by (rule le_less_trans)
  have rep: "replicate m a @ replicate k a = replicate (m + k) a" by (simp add: replicate_add)
  have status: "as_stop_reason (benchmark_adaptive_status c (replicate (m + k) a)) =
      (if unat runs \<le> m + k then Some MaxSamplesReached else None)"
    using completed_replicate [OF size, of a]
    by (simp add: benchmark_adaptive_status_def c_def fixed_count_criteria_def Let_def word_le_nat_alt)
  show ?case
  proof (cases "unat runs \<le> m + k")
    case True
    have "div_ceil (unat runs) k = Suc j"
    proof (rule div_ceil_cases [of k "unat runs"])
      fix q assume q: "unat runs = q * k" "div_ceil (unat runs) k = q"
      have "j * k < q * k" "q * k \<le> Suc j * k" using True less.prems q m by (simp_all add: mk)
      moreover have "0 < k" using assms(1) by simp
      ultimately have "j < q" "q \<le> Suc j" by (simp_all only: mult_less_cancel2 mult_le_cancel2 simp_thms)
      then show ?thesis using q by simp
    next
      fix q r assume q: "unat runs = q * k + r" "0 < r" "r < k" "div_ceil (unat runs) k = q + 1"
      have "q * k < Suc j * k" using True q by (simp add: m)
      then have "q < Suc j" using mult_less_cancel2 by blast
      moreover have "j * k < Suc q * k" using less.prems(4) q m by simp
      then have "j < Suc q" using mult_less_cancel2 by blast
      ultimately show ?thesis using q by simp
    qed (use assms(1) in simp)
    then show ?thesis using go inc True
      by (simp add: adaptive_loop.simps [of _ _ _ completed] rep status)
  next
    case False
    have "\<exists>n result sq'. adaptive_loop (Some c) runs (\<lambda>q. (replicate k a, f q)) (completed + 1) (f sq)
        (replicate (m + k) a) = (n, result, Some MaxSamplesReached, sq') \<and> unat n = div_ceil (unat runs) k"
      by (rule less.hyps [of "Suc j"]) (use lt inc False mk in simp_all)
    then show ?thesis using go False
      by (simp add: adaptive_loop.simps [of _ _ _ completed] rep status)
  qed
qed

text \<open>A benchmark with a fixed number of runs whose every run publishes k samples of a mode
  stops after the number of runs divided by k, rounded up, for its sample budget: with ten
  runs of five samples it runs twice.\<close>

theorem fixed_count_counts_samples:
  assumes "1 \<le> k" "0 < unat (bc_runs cfg)" "unat (bc_runs cfg) * k < 2 ^ 32"
  shows "\<exists>n result sq'. adaptive_loop (Some (fixed_count_criteria cfg)) (bc_runs cfg)
      (\<lambda>q. (replicate k a, f q)) 0 sq [] = (n, result, Some MaxSamplesReached, sq') \<and>
    unat n = div_ceil (unat (bc_runs cfg)) k"
proof -
  have "cfg\<lparr>bc_runs := bc_runs cfg\<rparr> = cfg" by simp
  with fixed_count_loop [OF assms(1,3), of 0 0 0 cfg a f sq] assms(2) show ?thesis by simp
qed

text \<open>One successful TCP attempt, and a configuration of ten runs.\<close>

definition demo_view :: attempt_view where
  "demo_view = \<lparr>av_protocol = Tcp, av_http = None, av_tcp_connect_ms = Some 5, av_udp = None,
     av_udp_throughput = None, av_rpm = None, av_rpm_download = None, av_capacity_down_mbps = None,
     av_stamp = None, av_ping = None, av_path_hop_count = None, av_dualstack = None,
     av_websocket = None, av_path_mtu = None, av_dns_ms = None, av_tls_handshake_ms = None,
     av_page_load_ms = None, av_browser_load_ms = None\<rparr>"

definition demo_attempt :: bench_attempt where
  "demo_attempt = \<lparr>ba_view = demo_view, ba_success = True, ba_http_stack = None,
     ba_started_at = 0, ba_finished_at = Some 0\<rparr>"

definition demo_config :: bench_config where
  "demo_config = \<lparr>bc_benchmark_mode = True, bc_benchmark_phase = ''measured'',
     bc_http_stacks_empty = True, bc_runs = 10, bc_pilot_min_samples = None,
     bc_pilot_max_samples = None, bc_pilot_min_duration_ms = None, bc_min_samples = None,
     bc_max_samples = None, bc_min_duration_ms = None, bc_target_relative_error = None,
     bc_target_absolute_error = None\<rparr>"


theorem fixed_count_counts_samples_witness:
  "\<exists>n result sq'. adaptive_loop (Some (fixed_count_criteria demo_config)) 10
      (\<lambda>q. (replicate 5 demo_attempt, q)) 0 0 [] = (n, result, Some MaxSamplesReached, sq') \<and> unat n = 2"
  using fixed_count_counts_samples [of 5 demo_config demo_attempt "\<lambda>q. q" 0]
  by (simp add: demo_config_def div_ceil_def)

theorem measured_loop_bounded_witness:
  "\<exists>n result reason sq'. adaptive_loop None 3 (\<lambda>q. ([demo_attempt], q)) 0 0 [] = (n, result, reason, sq') \<and> n \<le> 3"
proof -
  obtain n result reason sq' where
    "adaptive_loop None 3 (\<lambda>q. ([demo_attempt], q)) 0 0 [] = (n, result, reason, sq')"
    by (metis prod_cases4)
  from measured_loop_bounded [OF this] this show ?thesis by blast
qed

section \<open>The plan\<close>

lemma u32_min_max: "a \<le> (b :: u32) \<Longrightarrow> a \<le> min (max c b) (max d b)"
  by (simp add: le_max_iff_disj)

lemma pilot_plan_parts:
  fixes cfg pilot
  defines "plan \<equiv> derive_measured_plan_from_pilot cfg pilot"
  shows "bc_max_samples cfg = None \<Longrightarrow> ep_min_samples plan \<le> ep_max_samples plan \<and>
      ep_max_samples plan \<le> max (bc_runs cfg) (ep_min_samples plan)"
    and "bc_min_samples cfg = None \<Longrightarrow> 1 \<le> ep_min_samples plan \<and>
      ep_min_samples plan = max (ep_pilot_sample_count plan) 1"
    and "(\<forall>n. bc_min_samples cfg = Some n \<longrightarrow> ep_min_samples plan = n) \<and>
      (\<forall>n. bc_max_samples cfg = Some n \<longrightarrow> ep_max_samples plan = n) \<and>
      (\<forall>n. bc_min_duration_ms cfg = Some n \<longrightarrow> ep_min_duration_ms plan = n) \<and>
      (\<forall>t. bc_target_relative_error cfg = Some t \<longrightarrow> ep_target_relative_error plan = Some t)"
    and "ep_source plan = ''pilot-derived'' \<longleftrightarrow> no_explicit_controls cfg"
proof -
  obtain est n el x where p: "plan =
      \<lparr>ep_source = (if no_explicit_controls cfg then ''pilot-derived'' else ''pilot-assisted''),
       ep_min_samples = unwrap_or (bc_min_samples cfg) (max n 1),
       ep_max_samples = unwrap_or (bc_max_samples cfg)
         (min (max est (unwrap_or (bc_min_samples cfg) (max n 1)))
           (max (bc_runs cfg) (unwrap_or (bc_min_samples cfg) (max n 1)))),
       ep_min_duration_ms = unwrap_or (bc_min_duration_ms cfg) el,
       ep_target_relative_error = (case bc_target_relative_error cfg of
          Some t \<Rightarrow> Some t | None \<Rightarrow> Some DEFAULT_AUTO_TARGET_RELATIVE_ERROR),
       ep_target_absolute_error = bc_target_absolute_error cfg, ep_pilot_sample_count = n,
       ep_pilot_elapsed_ms = Some x, ep_stop_reason = None\<rparr>"
    unfolding plan_def derive_measured_plan_from_pilot_def Let_def by blast
  show "ep_min_samples plan \<le> ep_max_samples plan \<and>
      ep_max_samples plan \<le> max (bc_runs cfg) (ep_min_samples plan)" if "bc_max_samples cfg = None"
    using that by (simp add: p unwrap_or_def u32_min_max)
  show "1 \<le> ep_min_samples plan \<and> ep_min_samples plan = max (ep_pilot_sample_count plan) 1"
    if "bc_min_samples cfg = None"
    using that by (simp add: p unwrap_or_def)
  show "(\<forall>n. bc_min_samples cfg = Some n \<longrightarrow> ep_min_samples plan = n) \<and>
      (\<forall>n. bc_max_samples cfg = Some n \<longrightarrow> ep_max_samples plan = n) \<and>
      (\<forall>n. bc_min_duration_ms cfg = Some n \<longrightarrow> ep_min_duration_ms plan = n) \<and>
      (\<forall>t. bc_target_relative_error cfg = Some t \<longrightarrow> ep_target_relative_error plan = Some t)"
    by (simp add: p unwrap_or_def)
  show "ep_source plan = ''pilot-derived'' \<longleftrightarrow> no_explicit_controls cfg"
    by (simp add: p)
qed

text \<open>The plan derived from a pilot honours every explicit control; without an explicit
  maximum its maximum is at least its minimum and at most the larger of the minimum and the
  configured runs, and without an explicit minimum the minimum is what the pilot completed,
  at least one. A pilot is only run, and its plan only named pilot-derived, without explicit
  controls.\<close>

theorem pilot_plan_consistent:
  fixes cfg pilot
  defines "plan \<equiv> derive_measured_plan_from_pilot cfg pilot"
  shows "(bc_max_samples cfg = None \<longrightarrow> ep_min_samples plan \<le> ep_max_samples plan \<and>
      ep_max_samples plan \<le> max (bc_runs cfg) (ep_min_samples plan)) \<and>
    (bc_min_samples cfg = None \<longrightarrow> 1 \<le> ep_min_samples plan \<and>
      ep_min_samples plan = max (ep_pilot_sample_count plan) 1) \<and>
    (\<forall>n. bc_min_samples cfg = Some n \<longrightarrow> ep_min_samples plan = n) \<and>
    (\<forall>n. bc_max_samples cfg = Some n \<longrightarrow> ep_max_samples plan = n) \<and>
    (\<forall>n. bc_min_duration_ms cfg = Some n \<longrightarrow> ep_min_duration_ms plan = n) \<and>
    (\<forall>t. bc_target_relative_error cfg = Some t \<longrightarrow> ep_target_relative_error plan = Some t) \<and>
    (ep_source plan = ''pilot-derived'' \<longleftrightarrow> no_explicit_controls cfg)"
  using pilot_plan_parts [of cfg pilot] unfolding plan_def by blast

theorem pilot_plan_consistent_witness:
  "ep_min_samples (derive_measured_plan_from_pilot demo_config [demo_attempt]) \<le>
     ep_max_samples (derive_measured_plan_from_pilot demo_config [demo_attempt])"
proof -
  have "bc_max_samples demo_config = None" by (simp add: demo_config_def)
  with pilot_plan_consistent [where cfg = demo_config and pilot = "[demo_attempt]"] show ?thesis by blast
qed

section \<open>The primary metric\<close>

text \<open>An attempt that lost everything contributes no number: no reply means no metric for
  UDP, STAMP, ping and WebSocket, and an unknown hop count or path MTU is not a zero.\<close>

theorem lost_attempt_has_no_metric:
  shows "av_protocol a = Udp \<Longrightarrow> av_udp a = Some u \<Longrightarrow> rv_replies u = 0 \<Longrightarrow> primary_metric_value a = None"
    and "av_protocol a = Stamp \<Longrightarrow> av_stamp a = Some u \<Longrightarrow> rv_replies u = 0 \<Longrightarrow> primary_metric_value a = None"
    and "av_protocol a = Ping \<Longrightarrow> av_ping a = Some u \<Longrightarrow> rv_replies u = 0 \<Longrightarrow> primary_metric_value a = None"
    and "av_protocol a = WebSocket \<Longrightarrow> av_websocket a = Some u \<Longrightarrow> rv_replies u = 0 \<Longrightarrow> primary_metric_value a = None"
    and "av_protocol a = Path \<Longrightarrow> av_path_hop_count a = Some None \<Longrightarrow> primary_metric_value a = None"
    and "av_protocol a = Pmtud \<Longrightarrow> av_path_mtu a = Some None \<Longrightarrow> primary_metric_value a = None"
  by (simp_all add: primary_metric_value_def answered_rtt_def join_option_def)

theorem lost_attempt_has_no_metric_witness:
  "primary_metric_value (demo_view\<lparr>av_protocol := Udp, av_udp := Some \<lparr>rv_replies = 0, rv_rtt_avg_ms = 0\<rparr>\<rparr>) = None"
  by (rule lost_attempt_has_no_metric(1) [where u = "\<lparr>rv_replies = 0, rv_rtt_avg_ms = 0\<rparr>"]) simp_all

end
