(* ===== verification/Shape.thy ===== *)
theory Shape
  imports Stats Text "HOL-Library.While_Combinator"
begin

text \<open>
  The detector of multimodal samples, \<open>crates/networker-tester/src/stats_shape.rs\<close>: the
  histogram anchored to the data (\<open>mvalue_at_width\<close>), the scan over ever coarser widths
  (\<open>mvalue\<close>, whose loop is \<open>while_option\<close>, so that a loop that does not end is \<open>None\<close>), and the
  warnings. Heights are \<open>u32\<close> as in the source. The cube root is a function of the platform's
  mathematical library and a parameter; square roots are rounded correctly, as IEEE 754 asks.
  A sample may hold infinities and NaN, which the source filters out first.
\<close>

definition MVALUE_MIN_SAMPLES :: nat where "MVALUE_MIN_SAMPLES = 15"
definition MVALUE_SEVERAL_MODES :: f64 where "MVALUE_SEVERAL_MODES = fl (28 / 10)"
definition MVALUE_BIMODAL :: f64 where "MVALUE_BIMODAL = fl (32 / 10)"
definition MVALUE_MULTIMODAL :: f64 where "MVALUE_MULTIMODAL = fl (42 / 10)"

text \<open>\<open>x as usize\<close> saturates at both ends.\<close>

definition as_usize :: "f64 \<Rightarrow> nat" where
  "as_usize x = min (2 ^ 64 - 1) (nat \<lfloor>x\<rfloor>)"

section \<open>Outliers\<close>

definition interpolated_quartile :: "f64 list \<Rightarrow> f64 \<Rightarrow> f64" where
  "interpolated_quartile xs q =
     (let n = length xs
      in if n = 1 then xs ! 0
         else let rank = f64_mul q (fl (real (n - 1)));
                  lo = as_usize rank;
                  hi = min (2 ^ 64 - 1) (nat \<lceil>rank\<rceil>);
                  frac = f64_sub rank (fl (real lo))
              in f64_add (xs ! lo) (f64_mul (f64_sub (xs ! hi) (xs ! lo)) frac))"

definition without_tukey_outliers :: "f64 list \<Rightarrow> f64 list" where
  "without_tukey_outliers xs =
     (let q1 = interpolated_quartile xs (1 / 4);
          q3 = interpolated_quartile xs (3 / 4);
          iqr = f64_sub q3 q1;
          lo = f64_sub q1 (f64_mul (3 / 2) iqr);
          hi = f64_add q3 (f64_mul (3 / 2) iqr);
          cleaned = filter (\<lambda>v. lo \<le> v \<and> v \<le> hi) xs
      in if cleaned = [] then xs else cleaned)"

section \<open>One histogram\<close>

text \<open>The values after the first of a cluster, as long as each is within the width of the one
  before it, and the values left.\<close>

fun take_cluster :: "f64 \<Rightarrow> f64 \<Rightarrow> f64 list \<Rightarrow> f64 list \<times> f64 list" where
  "take_cluster width x [] = ([], [])"
| "take_cluster width x (y # ys) =
     (if f64_sub y x \<le> width
      then (let (c, rest) = take_cluster width y ys in (y # c, rest))
      else ([], y # ys))"

lemma take_cluster_append: "take_cluster width x ys = (c, rest) \<Longrightarrow> ys = c @ rest"
  by (induction width x ys arbitrary: c rule: take_cluster.induct) (auto split: if_splits prod.splits)

definition bin_index :: "f64 \<Rightarrow> f64 \<Rightarrow> nat \<Rightarrow> f64 \<Rightarrow> nat" where
  "bin_index width lo bin_count v = min (as_usize (f64_div (f64_sub v lo) width)) (bin_count - 1)"

definition cluster_counts :: "f64 \<Rightarrow> f64 list \<Rightarrow> u32 list" where
  "cluster_counts width cluster =
     (let lo = hd cluster;
          extent = f64_sub (last cluster) lo;
          bin_count = min (as_usize (f64_div extent width) + 1) 4096
      in foldl (\<lambda>counts v. let idx = bin_index width lo bin_count v in counts[idx := counts ! idx + 1])
           (replicate bin_count 0) cluster)"

definition gap_empties :: "f64 \<Rightarrow> f64 \<Rightarrow> u32 list" where
  "gap_empties width gap = replicate (max 1 (min 64 (as_usize (f64_div gap width)))) 0"

function heights_at :: "f64 \<Rightarrow> f64 list \<Rightarrow> u32 list" where
  "heights_at width [] = []"
| "heights_at width (x # xs) =
     (let (c, rest) = take_cluster width x xs
      in cluster_counts width (x # c) @
         (case rest of [] \<Rightarrow> [] | y # _ \<Rightarrow> gap_empties width (f64_sub y (last (x # c)))) @
         heights_at width rest)"
  by pat_completeness auto

termination
  by (relation "measure (length \<circ> snd)")
    (auto dest: take_cluster_append [OF sym])

definition variation :: "u32 list \<Rightarrow> f64" where
  "variation heights =
     (let (sum, prev) = foldl (\<lambda>(sum, prev) h. let h = fl (real (unat h))
            in (f64_add sum \<bar>f64_sub h prev\<bar>, h)) (0, 0) heights
      in f64_add sum prev)"

definition mvalue_at_width :: "f64 list \<Rightarrow> f64 \<Rightarrow> f64" where
  "mvalue_at_width xs width =
     (let heights = heights_at width xs;
          max_height = fl (real (unat (if heights = [] then 1 else Max (set heights))))
      in if max_height \<le> 0 then 2 else f64_div (variation heights) max_height)"

section \<open>The scan\<close>

definition finite_values :: "f64_value list \<Rightarrow> f64 list" where
  "finite_values = List.map_filter (\<lambda>v. case v of Finite x \<Rightarrow> Some x | _ \<Rightarrow> None)"

definition scott_width :: "(f64 \<Rightarrow> f64) \<Rightarrow> f64 list \<Rightarrow> f64 \<Rightarrow> f64" where
  "scott_width cbrt cleaned spread =
     (let n = fl (real (length cleaned));
          mean = f64_div (f64_sum cleaned) n;
          variance = f64_div (f64_sum (map (\<lambda>v. f64_mul (f64_sub v mean) (f64_sub v mean)) cleaned)) n;
          stddev = fl (sqrt variance);
          scott = f64_div (f64_mul (fl (349 / 100)) stddev) (cbrt n)
      in if 0 < scott then f64_mul scott (3 / 4) else spread)"

definition lattice_floor :: "f64 list \<Rightarrow> f64 \<Rightarrow> f64" where
  "lattice_floor cleaned width =
     (let positive_gaps = filter (\<lambda>g. 0 < g) (diffs cleaned)
      in if 4 \<le> length positive_gaps
         then max width (f64_mul 2 (sort positive_gaps ! (length positive_gaps div 2)))
         else width)"

definition width_scan :: "f64 list \<Rightarrow> f64 \<Rightarrow> f64 \<Rightarrow> (f64 \<times> f64) option" where
  "width_scan cleaned spread width =
     while_option (\<lambda>(width, best). width \<le> spread)
       (\<lambda>(width, best). (f64_mul width 2, max best (mvalue_at_width cleaned width))) (width, 0)"

text \<open>\<open>None\<close> where the scan does not end, \<open>Some None\<close> for too small a sample.\<close>

definition mvalue :: "(f64 \<Rightarrow> f64) \<Rightarrow> f64_value list \<Rightarrow> f64 option option" where
  "mvalue cbrt samples =
     (let xs = sort (finite_values samples)
      in if length xs < MVALUE_MIN_SAMPLES then Some None
         else
           let cleaned = without_tukey_outliers xs;
               n = length cleaned
           in if n < 2 then Some (Some 2)
              else
                let spread = f64_sub (cleaned ! (n - 1)) (cleaned ! 0)
                in if spread \<le> 0 then Some (Some 2)
                   else
                     map_option (\<lambda>(_, best). Some (if best = 0 then mvalue_at_width cleaned spread else best))
                       (width_scan cleaned spread (lattice_floor cleaned (scott_width cbrt cleaned spread))))"

section \<open>Warnings\<close>

text \<open>\<open>{:.2}\<close> on a number that is not negative: the exact value, rounded to even.\<close>

definition two_decimals :: "f64 \<Rightarrow> string" where
  "two_decimals x =
     (let n = nat (round_even (x * 100))
      in decimal (n div 100) @ ''.'' @ decimal (n mod 100 div 10) @ decimal (n mod 10))"

definition mvalue_warning :: "f64 \<Rightarrow> string option" where
  "mvalue_warning m =
     (if MVALUE_MULTIMODAL < m then
        Some (''Distribution is multimodal (mvalue = '' @ two_decimals m @ '') '' @ em_dash @
          '' the summary statistics describe a mixture, not a behaviour; investigate the modes'' @
          '' before quoting numbers'')
      else if MVALUE_BIMODAL < m then
        Some (''Distribution is bimodal (mvalue = '' @ two_decimals m @ '') '' @ em_dash @
          '' two distinct behaviours are mixed in this case (e.g. a per-connection stall or'' @
          '' cache split)'')
      else if MVALUE_SEVERAL_MODES < m then
        Some (''Distribution may have several modes (mvalue = '' @ two_decimals m @ '')'')
      else None)"

end
