(* ===== verification/Shape_Properties.thy ===== *)
theory Shape_Properties
  imports Shape
begin

text \<open>
  The properties of the detector of multimodal samples: a histogram counts every value once, its
  score is at least two and two exactly when the heights rise and then fall, the scan over the
  widths ends, and a warning is backed by a histogram that dips between two peaks.
\<close>

section \<open>The heights\<close>

abbreviation height_sum :: "u32 list \<Rightarrow> nat" where
  "height_sum hs \<equiv> sum_list (map unat hs)"

lemma height_le_sum: "i < length hs \<Longrightarrow> unat (hs ! i) \<le> height_sum hs"
  using elem_le_sum_list [of i "map unat hs"] by simp

lemma height_sum_bump:
  assumes "i < length hs" "height_sum hs < 2 ^ 32 - 1"
  shows "height_sum (hs[i := hs ! i + 1]) = Suc (height_sum hs)"
proof -
  have le: "unat (hs ! i) \<le> height_sum hs" using assms(1) by (rule height_le_sum)
  then have "unat (hs ! i) + 1 < 2 ^ LENGTH(32)" using assms(2) by simp
  then have "unat (hs ! i + 1) = Suc (unat (hs ! i))" by (subst unat_add_lem [THEN iffD1]) simp_all
  then show ?thesis using assms(1) le by (simp add: map_update sum_list_update)
qed

lemma bumps:
  assumes "\<forall>v \<in> set vs. f v < length hs" "height_sum hs + length vs < 2 ^ 32"
  shows "height_sum (foldl (\<lambda>hs v. hs[f v := hs ! f v + 1]) hs vs) = height_sum hs + length vs"
  using assms
proof (induction vs arbitrary: hs)
  case (Cons v vs)
  have "height_sum (hs[f v := hs ! f v + 1]) = Suc (height_sum hs)"
    using Cons.prems by (intro height_sum_bump) simp_all
  with Cons.IH [of "hs[f v := hs ! f v + 1]"] Cons.prems show ?case by simp
qed simp

lemma cluster_counts_sum:
  assumes "length cluster < 2 ^ 32"
  shows "height_sum (cluster_counts width cluster) = length cluster"
proof -
  define k where "k = min (as_usize (f64_div (f64_sub (last cluster) (hd cluster)) width) + 1) 4096"
  have "0 < k" by (simp add: k_def)
  then have "\<forall>v. bin_index width (hd cluster) k v < length (replicate k (0 :: u32))"
    by (simp add: bin_index_def min.strict_coboundedI2)
  with bumps [of cluster "bin_index width (hd cluster) k" "replicate k 0"] assms
  show ?thesis
    unfolding cluster_counts_def Let_def k_def [symmetric] by (simp add: sum_list_replicate)
qed

lemma heights_at_sum: "length xs < 2 ^ 32 \<Longrightarrow> height_sum (heights_at width xs) = length xs"
proof (induction width xs rule: heights_at.induct)
  case (2 width x xs)
  obtain c rest where t: "take_cluster width x xs = (c, rest)" by (rule prod.exhaust)
  have xs: "xs = c @ rest" using t by (rule take_cluster_append)
  have "height_sum (heights_at width rest) = length rest"
    using "2.IH" [OF t [symmetric] refl] "2.prems" xs by simp
  moreover have "height_sum (cluster_counts width (x # c)) = Suc (length c)"
    using cluster_counts_sum [of "x # c" width] "2.prems" xs by simp
  moreover have "length xs = length c + length rest" by (simp add: xs)
  ultimately show ?case
    by (auto simp: t gap_empties_def split: list.splits)
qed simp

section \<open>Total variation\<close>

fun tv :: "int \<Rightarrow> int list \<Rightarrow> int" where
  "tv p [] = p"
| "tv p (h # hs) = \<bar>h - p\<bar> + tv h hs"

fun falling :: "int list \<Rightarrow> bool" where
  "falling (x # y # zs) \<longleftrightarrow> y \<le> x \<and> falling (y # zs)"
| "falling _ \<longleftrightarrow> True"

fun rise_fall :: "int list \<Rightarrow> bool" where
  "rise_fall (x # y # zs) \<longleftrightarrow> (if x \<le> y then rise_fall (y # zs) else falling (y # zs))"
| "rise_fall _ \<longleftrightarrow> True"

lemma tv_ge: "p \<le> tv p hs \<and> (tv p hs = p \<longleftrightarrow> falling (p # hs))"
proof (induction hs arbitrary: p)
  case (Cons h hs)
  from Cons [of h] show ?case by (cases "h \<le> p") auto
qed simp

lemma tv_mode: "2 * Max (set (p # hs)) - p \<le> tv p hs \<and> (tv p hs = 2 * Max (set (p # hs)) - p \<longleftrightarrow> rise_fall (p # hs))"
proof (induction hs arbitrary: p)
  case (Cons h hs)
  define m where "m = Max (set (h # hs))"
  have max: "Max (set (p # h # hs)) = max p m" by (simp add: m_def)
  have h: "h \<le> m" by (simp add: m_def)
  have ih: "2 * m - h \<le> tv h hs" "tv h hs = 2 * m - h \<longleftrightarrow> rise_fall (h # hs)"
    using Cons [of h] by (simp_all add: m_def)
  show ?case
  proof (cases "p \<le> h")
    case True
    then show ?thesis unfolding max using ih h by (auto simp: max_def)
  next
    case False
    then show ?thesis unfolding max using ih h tv_ge [of h hs] by (auto simp: max_def)
  qed
qed simp

lemma tv_le: "\<forall>h \<in> set hs. 0 \<le> h \<Longrightarrow> 0 \<le> p \<Longrightarrow> tv p hs \<le> p + 2 * sum_list hs"
proof (induction hs arbitrary: p)
  case (Cons h hs)
  from Cons.IH [of h] Cons.prems show ?case by simp linarith
qed simp

text \<open>On counts the rounded sum of differences is exact.\<close>

abbreviation heights :: "u32 list \<Rightarrow> int list" where
  "heights hs \<equiv> map uint hs"

lemma variation_from:
  assumes "0 \<le> s" "0 \<le> p" "s + tv p (heights hs) \<le> 2 ^ 53"
  shows "(let (sum, prev) = foldl (\<lambda>(sum, prev) h. let h = fl (real (unat h))
      in (f64_add sum \<bar>f64_sub h prev\<bar>, h)) (of_int s, of_int p) hs in f64_add sum prev) =
    of_int (s + tv p (heights hs))"
  using assms
proof (induction hs arbitrary: s p)
  case Nil
  then have "fl (of_int (s + p)) = of_int (s + p)" by (intro fl_int) simp
  then show ?case by (simp add: f64_add_def)
next
  case (Cons h hs)
  have "unat h < 2 ^ LENGTH(32)" by (rule unsigned_less)
  then have h: "0 \<le> uint h" "uint h < 2 ^ 32" by (simp_all add: uint_nat)
  have tv: "uint h \<le> tv (uint h) (heights hs)" using tv_ge by blast
  have b: "s + (\<bar>uint h - p\<bar> + tv (uint h) (heights hs)) \<le> 2 ^ 53" using Cons.prems by simp
  have r: "fl (real (unat h)) = of_int (uint h)"
    using fl_int [of "uint h"] h by (simp add: uint_nat)
  moreover have "fl (of_int (uint h - p)) = of_int (uint h - p)"
    by (intro fl_int) (use Cons.prems(1,2) h(1) tv b in linarith)
  moreover have "fl (of_int (s + \<bar>uint h - p\<bar>)) = of_int (s + \<bar>uint h - p\<bar>)"
    by (intro fl_int) (use Cons.prems(1,2) h(1) tv b in linarith)
  moreover have "of_int \<bar>uint h - p\<bar> = (\<bar>of_int (uint h) - of_int p\<bar> :: real)" by simp
  ultimately have step: "fl (of_int s + \<bar>fl (fl (real (unat h)) - of_int p)\<bar>) = of_int (s + \<bar>uint h - p\<bar>)"
    by simp
  show ?case
    using Cons.IH [of "s + \<bar>uint h - p\<bar>" "uint h"] Cons.prems h step
    by (simp add: r f64_add_def f64_sub_def Let_def add.assoc)
qed

lemma height_sum_int: "sum_list (heights hs) = int (height_sum hs)"
  by (induction hs) (simp_all add: uint_nat)

lemma variation_exact:
  assumes "height_sum hs < 2 ^ 32"
  shows "variation hs = of_int (tv 0 (heights hs))"
proof -
  have "tv 0 (heights hs) \<le> 2 * sum_list (heights hs)" using tv_le [of "heights hs" 0] by auto
  then have "0 + tv 0 (heights hs) \<le> 2 ^ 53" using assms by (simp add: height_sum_int)
  from variation_from [OF _ _ this] show ?thesis by (simp add: variation_def)
qed


section \<open>The score of one histogram\<close>

lemma heights_at_nonempty: "xs \<noteq> [] \<Longrightarrow> length xs < 2 ^ 32 \<Longrightarrow> heights_at width xs \<noteq> []"
  using heights_at_sum [of xs width] by fastforce

lemma Max_uint: "hs \<noteq> [] \<Longrightarrow> int (unat (Max (set hs))) = Max (set (heights hs))"
  using mono_Max_commute [of uint "set hs"] by (simp add: mono_def word_le_def uint_nat)

lemma mode_score:
  assumes "hs \<noteq> []" "0 < height_sum hs" "height_sum hs < 2 ^ 32"
  defines "m \<equiv> f64_div (variation hs) (fl (real (unat (Max (set hs)))))"
  shows "0 < Max (set hs) \<and> 2 \<le> m \<and> (m = 2 \<longleftrightarrow> rise_fall (0 # heights hs))"
proof -
  define M where "M = Max (set (heights hs))"
  have nonneg: "\<forall>h \<in> set (heights hs). 0 \<le> h" by (simp add: uint_nat)
  have "M \<noteq> 0"
  proof
    assume "M = 0"
    then have "\<forall>h \<in> set (heights hs). h = 0" using nonneg unfolding M_def by (metis Max_ge antisym finite_set)
    then have "height_sum hs = 0" by (simp add: sum_list_eq_0_iff uint_nat)
    with assms(2) show False by simp
  qed
  moreover have "M \<in> set (heights hs)" unfolding M_def using assms(1) by (intro Max_in) simp_all
  with nonneg have "0 \<le> M" by blast
  ultimately have M: "0 < M" by simp
  have mx: "unat (Max (set hs)) = nat M" using Max_uint [OF assms(1)] by (simp add: M_def)
  have le: "nat M \<le> height_sum hs"
  proof -
    have "Max (set hs) \<in> set hs" using assms(1) by simp
    then have "unat (Max (set hs)) \<in> set (map unat hs)" by simp
    then show ?thesis unfolding mx by (rule member_le_sum_list) simp
  qed
  have flM: "fl (real (unat (Max (set hs)))) = of_int M"
    using fl_int [of M] M le assms(3) by (simp add: mx)
  have max: "Max (set (0 # heights hs)) = M" using M assms(1) by (simp add: M_def)
  have tv: "2 * M \<le> tv 0 (heights hs)" "tv 0 (heights hs) = 2 * M \<longleftrightarrow> rise_fall (0 # heights hs)"
    using tv_mode [of 0 "heights hs"] unfolding max by simp_all
  have m: "m = fl (of_int (tv 0 (heights hs)) / of_int M)"
    unfolding m_def flM variation_exact [OF assms(3)] f64_div_def ..
  have ge: "2 \<le> of_int (tv 0 (heights hs)) / (of_int M :: real)"
    using tv(1) M by (simp add: pos_le_divide_eq)
  have "m = 2" if "tv 0 (heights hs) = 2 * M"
    using that M fl.rnd_nat [of 2] by (simp add: m)
  moreover have "2 < m" if ne: "tv 0 (heights hs) \<noteq> 2 * M"
  proof -
    have M32: "real_of_int M \<le> 2 ^ 32" using le assms(3) M by simp
    have "2 + 1 / 2 ^ 32 \<le> 2 + 1 / real_of_int M" using M32 M by (intro add_left_mono divide_left_mono) simp_all
    also have "\<dots> = (2 * of_int M + 1) / real_of_int M" using M by (simp add: add_divide_distrib)
    also have "\<dots> \<le> of_int (tv 0 (heights hs)) / of_int M"
    proof (rule divide_right_mono)
      have "2 * M + 1 \<le> tv 0 (heights hs)" using tv(1) ne by linarith
      then have "real_of_int (2 * M + 1) \<le> of_int (tv 0 (heights hs))" by (simp only: of_int_le_iff)
      then show "2 * real_of_int M + 1 \<le> of_int (tv 0 (heights hs))" by simp
    qed (use M in simp)
    finally have "fl (2 + 1 / 2 ^ 32) \<le> m" unfolding m by (rule fl_mono)
    moreover have "fl (2 + 1 / 2 ^ 32) = 2 + 1 / 2 ^ 32"
      using fl_dyadic [of "2 ^ 33 + 1" "- 32"] by (simp add: power_int_minus field_simps)
    ultimately show ?thesis by simp
  qed
  moreover have "2 \<le> m" using fl.rnd_ge_nat [of 2] ge by (simp add: m)
  moreover have "0 < Max (set hs)" using M mx by (simp add: word_gt_0 unat_eq_zero [symmetric])
  ultimately show ?thesis using tv(2) by fastforce
qed


lemma mvalue_at_width_score:
  assumes "xs \<noteq> []" "length xs < 2 ^ 32"
  shows "2 \<le> mvalue_at_width xs width \<and>
    (mvalue_at_width xs width = 2 \<longleftrightarrow> rise_fall (0 # heights (heights_at width xs)))"
proof -
  have ne: "heights_at width xs \<noteq> []" using assms by (rule heights_at_nonempty)
  have sum: "height_sum (heights_at width xs) = length xs" using assms(2) by (rule heights_at_sum)
  with assms have "0 < height_sum (heights_at width xs)" "height_sum (heights_at width xs) < 2 ^ 32"
    by simp_all
  note s = mode_score [OF ne this]
  then have "0 < unat (Max (set (heights_at width xs)))" by (simp add: unat_gt_0 word_gt_0)
  then have "1 \<le> fl (real (unat (Max (set (heights_at width xs)))))"
    using fl.rnd_ge_nat [of 1] by simp
  then show ?thesis using s ne by (simp add: mvalue_at_width_def Let_def)
qed

section \<open>The scan\<close>

text \<open>The start of the scan is a positive representable width, and doubling keeps it so.\<close>

definition scan_ok :: "f64 list \<Rightarrow> f64 \<times> f64 \<Rightarrow> bool" where
  "scan_ok xs s \<longleftrightarrow> 0 < fst s \<and> fl (fst s) = fst s \<and>
     (snd s = 0 \<or> (\<exists>w > 0. snd s = mvalue_at_width xs w))"

lemma floor_half_less: "1 \<le> r \<Longrightarrow> nat \<lfloor>r / 2\<rfloor> < nat \<lfloor>r :: real\<rfloor>"
proof -
  assume r: "1 \<le> r"
  have "r < of_int \<lfloor>r\<rfloor> + 1" by linarith
  moreover have "1 \<le> \<lfloor>r\<rfloor>" using r by simp
  ultimately have "r / 2 < of_int \<lfloor>r\<rfloor>" by linarith
  then have "\<lfloor>r / 2\<rfloor> < \<lfloor>r\<rfloor>" by (simp add: floor_less_iff)
  then show ?thesis using \<open>1 \<le> \<lfloor>r\<rfloor>\<close> by simp
qed

lemma scan_step:
  assumes "scan_ok xs (w, best)" "xs \<noteq> []" "length xs < 2 ^ 32"
  shows "scan_ok xs (f64_mul w 2, max best (mvalue_at_width xs w))" "f64_mul w 2 = 2 * w"
proof -
  have w: "0 < w" "fl w = w" using assms(1) by (simp_all add: scan_ok_def)
  show d: "f64_mul w 2 = 2 * w" using fl_double [OF w(2)] by (simp add: f64_mul_def mult.commute)
  have "2 \<le> mvalue_at_width xs w" using mvalue_at_width_score [OF assms(2,3)] by blast
  then have "\<exists>v > 0. max best (mvalue_at_width xs w) = mvalue_at_width xs v"
    using assms(1) w by (cases "best \<le> mvalue_at_width xs w") (auto simp: scan_ok_def max_def)
  then show "scan_ok xs (f64_mul w 2, max best (mvalue_at_width xs w))"
    using w fl_double [OF w(2)] unfolding d by (auto simp: scan_ok_def)
qed

lemma width_scan_ends:
  assumes "0 < width" "fl width = width" "xs \<noteq> []" "length xs < 2 ^ 32"
  shows "\<exists>w best. width_scan xs spread width = Some (w, best) \<and> scan_ok xs (w, best)"
proof -
  let ?b = "\<lambda>(w, best :: f64). w \<le> spread"
  let ?c = "\<lambda>(w, best). (f64_mul w 2, max best (mvalue_at_width xs w))"
  have init: "scan_ok xs (width, 0)" using assms by (simp add: scan_ok_def)
  have step: "scan_ok xs (?c s) \<and> nat \<lfloor>spread / fst (?c s)\<rfloor> < nat \<lfloor>spread / fst s\<rfloor>"
    if "scan_ok xs s" "?b s" for s
  proof (cases s)
    case (Pair w best)
    have w: "0 < w" "w \<le> spread" using that by (simp_all add: Pair scan_ok_def)
    then have "1 \<le> spread / w" by simp
    from floor_half_less [OF this] have "nat \<lfloor>spread / (2 * w)\<rfloor> < nat \<lfloor>spread / w\<rfloor>"
      by (simp add: field_simps)
    then show ?thesis using scan_step [of xs w best] that assms(3,4) by (simp add: Pair)
  qed
  obtain t where t: "while_option ?b ?c (width, 0) = Some t"
    using measure_while_option_Some [of "scan_ok xs" ?b ?c "\<lambda>s. nat \<lfloor>spread / fst s\<rfloor>", OF step init] by blast
  have "scan_ok xs t"
    by (rule while_option_rule [where P = "scan_ok xs", OF _ t init]) (use step in blast)
  then show ?thesis using t by (cases t) (auto simp: width_scan_def)
qed


lemma cleaned_facts:
  "without_tukey_outliers xs = [] \<longleftrightarrow> xs = []" "length (without_tukey_outliers xs) \<le> length xs"
  by (auto simp: without_tukey_outliers_def Let_def)

lemma start_width_ok:
  fixes cleaned cbrt
  assumes "0 < spread" "fl spread = spread"
  defines "w \<equiv> lattice_floor cleaned (scott_width cbrt cleaned spread)"
  shows "0 < w \<and> fl w = w"
proof -
  define s where "s = scott_width cbrt cleaned spread"
  have s: "0 < s" "fl s = s"
    using assms(1,2) by (simp_all add: s_def scott_width_def Let_def f64_mul_def fl_pos)
  show ?thesis
    using s unfolding w_def s_def [symmetric]
    by (simp add: lattice_floor_def Let_def f64_mul_def max_def)
qed

lemma length_finite_values: "length (finite_values samples) \<le> length samples"
  by (induction samples) (simp_all add: finite_values_def List.map_filter_simps split: f64_value.split option.split)

lemma mvalue_result:
  assumes "length samples < 2 ^ 32"
  defines "xs \<equiv> sort (finite_values samples)"
  shows "if length xs < MVALUE_MIN_SAMPLES then mvalue cbrt samples = Some None
    else \<exists>m. mvalue cbrt samples = Some (Some m) \<and>
      (m = 2 \<or> (\<exists>w > 0. m = mvalue_at_width (without_tukey_outliers xs) w))"
proof (cases "length xs < MVALUE_MIN_SAMPLES")
  case False
  define cleaned where "cleaned = without_tukey_outliers xs"
  define spread where "spread = f64_sub (cleaned ! (length cleaned - 1)) (cleaned ! 0)"
  have "length xs \<le> length samples" unfolding xs_def using length_finite_values by simp
  with cleaned_facts(2) [of xs] assms(1) have len: "length cleaned < 2 ^ 32"
    unfolding cleaned_def by linarith
  have ne: "cleaned \<noteq> []" using False cleaned_facts(1) [of xs] by (auto simp: cleaned_def MVALUE_MIN_SAMPLES_def)
  note unfold = mvalue_def Let_def xs_def [symmetric] cleaned_def [symmetric] spread_def [symmetric]
  show ?thesis
  proof (cases "length cleaned < 2 \<or> spread \<le> 0")
    case True
    then have "mvalue cbrt samples = Some (Some 2)"
      unfolding unfold using False by auto
    then show ?thesis using False by simp
  next
    case spread: False
    have "0 < lattice_floor cleaned (scott_width cbrt cleaned spread) \<and>
        fl (lattice_floor cleaned (scott_width cbrt cleaned spread)) =
        lattice_floor cleaned (scott_width cbrt cleaned spread)"
      using spread by (intro start_width_ok) (simp_all add: spread_def f64_sub_def)
    then obtain w best where s: "width_scan cleaned spread (lattice_floor cleaned (scott_width cbrt cleaned spread)) =
        Some (w, best)" "scan_ok cleaned (w, best)"
      using width_scan_ends [OF _ _ ne len] by blast
    define m where "m = (if best = 0 then mvalue_at_width cleaned spread else best)"
    have "mvalue cbrt samples = Some (Some m)"
      unfolding unfold using False spread s(1) by (simp add: m_def)
    moreover have "\<exists>w > 0. m = mvalue_at_width cleaned w"
    proof (cases "best = 0")
      case True
      then show ?thesis using spread by (intro exI [of _ spread]) (simp add: m_def)
    qed (use s(2) in \<open>auto simp: m_def scan_ok_def\<close>)
    ultimately show ?thesis using False unfolding cleaned_def by auto
  qed
qed (simp add: mvalue_def xs_def [symmetric])

lemma warning_above: "mvalue_warning m \<noteq> None \<Longrightarrow> 2 < m"
proof -
  assume "mvalue_warning m \<noteq> None"
  then have "fl (28 / 10) < m \<or> fl (32 / 10) < m \<or> fl (42 / 10) < m"
    by (simp add: mvalue_warning_def MVALUE_SEVERAL_MODES_def MVALUE_BIMODAL_def MVALUE_MULTIMODAL_def
        split: if_splits)
  moreover have "2 \<le> fl (28 / 10)" "2 \<le> fl (32 / 10)" "2 \<le> fl (42 / 10)"
    by (simp_all add: fl.rnd_ge_nat [of 2, simplified])
  ultimately show ?thesis by linarith
qed

lemma rise_fall_0: "\<forall>h \<in> set hs. 0 \<le> h \<Longrightarrow> rise_fall (0 # hs) = rise_fall hs"
  by (cases hs) simp_all

lemma rise_fall_heights [simp]: "rise_fall (0 # heights hs) = rise_fall (heights hs)"
  by (rule rise_fall_0) (simp add: uint_nat)

section \<open>The properties of the detector\<close>

text \<open>A histogram of any width counts every value exactly once, its score is at least two,
  and it is two exactly when the heights of the bins rise and then fall.\<close>

theorem histogram_score_exact:
  assumes "xs \<noteq> []" "length xs < 2 ^ 32"
  shows "height_sum (heights_at width xs) = length xs \<and> 2 \<le> mvalue_at_width xs width \<and>
    (mvalue_at_width xs width = 2 \<longleftrightarrow> rise_fall (heights (heights_at width xs)))"
  using heights_at_sum [OF assms(2)] mvalue_at_width_score [OF assms] by simp

theorem histogram_score_exact_witness:
  "height_sum (heights_at 1 [1, 1, 5]) = 3 \<and> 2 \<le> mvalue_at_width [1, 1, 5] 1"
  using histogram_score_exact [of "[1, 1, 5]" 1] by simp



end
