(* ===== verification/Clock.thy ===== *)
theory Clock
  imports F64 Text
begin

text \<open>
  The cross-check of the local clock, \<open>crates/networker-tester/src/clock_sync.rs\<close>: one SNTP
  exchange, its packets and the offset and delay computed from the four timestamps. The socket
  is a record of what its calls returned, the environment variables are arguments. A test for
  finite results in the source is always true of \<open>f64\<close> values without infinities.
\<close>

definition NTP_UNIX_EPOCH_DELTA :: f64 where "NTP_UNIX_EPOCH_DELTA = 2208988800"
definition SNTP_PACKET_LEN :: nat where "SNTP_PACKET_LEN = 48"

record sntp_timestamps =
  sn_receive_unix_secs :: f64
  sn_transmit_unix_secs :: f64

record clock_sync =
  cs_ntp_server :: "string option"
  cs_offset_ms :: "f64 option"
  cs_round_trip_ms :: "f64 option"

text \<open>\<open>u32::MAX as f64 + 1.0\<close>.\<close>

definition FRAC_SCALE :: f64 where "FRAC_SCALE = f64_add (fl (2 ^ 32 - 1)) 1"

definition unix_secs_to_ntp_bytes :: "f64 \<Rightarrow> bytes" where
  "unix_secs_to_ntp_bytes unix_secs =
     (let ntp_secs = f64_add unix_secs NTP_UNIX_EPOCH_DELTA;
          secs = of_int \<lfloor>ntp_secs\<rfloor>;
          frac = f64_as_u64 (f64_mul (f64_sub ntp_secs secs) FRAC_SCALE)
      in be32_bytes (f64_as_u32 secs) @ be32_bytes (ucast frac))"

definition ntp_bytes_to_unix_secs :: "bytes \<Rightarrow> f64 option" where
  "ntp_bytes_to_unix_secs bs =
     (let secs = be32_of (slice 0 4 bs);
          frac = be32_of (slice 4 8 bs)
      in if secs = 0 \<and> frac = 0 then None
         else let ntp_secs = f64_add (fl (real (unat secs))) (f64_div (fl (real (unat frac))) FRAC_SCALE)
              in Some (f64_sub ntp_secs NTP_UNIX_EPOCH_DELTA))"

definition build_client_packet :: "f64 \<Rightarrow> bytes" where
  "build_client_packet transmit_unix_secs =
     (let pkt = (replicate SNTP_PACKET_LEN 0)[0 := 0x23]
      in splice 40 (unix_secs_to_ntp_bytes transmit_unix_secs) pkt)"

definition parse_server_packet :: "bytes \<Rightarrow> sntp_timestamps option" where
  "parse_server_packet buf =
     (if length buf < SNTP_PACKET_LEN then None
      else
        let mode = buf ! 0 AND 7
        in if mode \<noteq> 4 \<and> mode \<noteq> 5 then None
           else if buf ! 1 = 0 then None
           else (case ntp_bytes_to_unix_secs (slice 32 40 buf) of
               None \<Rightarrow> None
             | Some t2 \<Rightarrow> (case ntp_bytes_to_unix_secs (slice 40 48 buf) of
                 None \<Rightarrow> None
               | Some t3 \<Rightarrow> Some \<lparr>sn_receive_unix_secs = t2, sn_transmit_unix_secs = t3\<rparr>)))"

definition compute_offset_and_delay :: "f64 \<Rightarrow> f64 \<Rightarrow> f64 \<Rightarrow> f64 \<Rightarrow> f64 \<times> f64" where
  "compute_offset_and_delay t1 t2 t3 t4 =
     (f64_div (f64_add (f64_sub t2 t1) (f64_sub t3 t4)) 2, f64_sub (f64_sub t4 t1) (f64_sub t3 t2))"

text \<open>The time since the Unix epoch; \<open>None\<close> for a clock set before it.\<close>

definition now_unix_secs :: "duration option \<Rightarrow> f64" where
  "now_unix_secs since_epoch = (case since_epoch of Some d \<Rightarrow> as_secs_f64 d | None \<Rightarrow> 0)"

definition ntp_server_addr :: "string option \<Rightarrow> string" where
  "ntp_server_addr env =
     (let configured = (case map_option trim env of
            Some s \<Rightarrow> if s \<noteq> '''' then s else ''pool.ntp.org:123''
          | None \<Rightarrow> ''pool.ntp.org:123'')
      in if CHR '':'' \<in> set configured then configured else configured @ '':123'')"

text \<open>What the calls of one exchange return: whether the socket could be made and connected, the
  clock before, whether the request left, the datagram received and the clock after.\<close>

record sntp_io =
  si_connected :: bool
  si_before :: "duration option"
  si_sent :: bool
  si_reply :: "bytes option"
  si_after :: "duration option"

text \<open>The packet sent, and the result. The buffer of the reply has 128 bytes.\<close>

definition query_sntp_blocking :: "string \<Rightarrow> sntp_io \<Rightarrow> bytes option \<times> clock_sync option" where
  "query_sntp_blocking server io =
     (if \<not> si_connected io then (None, None)
      else
        let t1 = now_unix_secs (si_before io);
            request = build_client_packet t1
        in if \<not> si_sent io then (Some request, None)
           else (Some request, case si_reply io of
               None \<Rightarrow> None
             | Some buf \<Rightarrow>
                 (let t4 = now_unix_secs (si_after io)
                  in case parse_server_packet (take 128 buf) of
                      None \<Rightarrow> None
                    | Some ts \<Rightarrow>
                        (let (offset_secs, delay_secs) =
                           compute_offset_and_delay t1 (sn_receive_unix_secs ts) (sn_transmit_unix_secs ts) t4
                         in if delay_secs < 0 then None
                            else Some \<lparr>cs_ntp_server = Some server,
                                   cs_offset_ms = Some (f64_mul offset_secs 1000),
                                   cs_round_trip_ms = Some (f64_mul delay_secs 1000)\<rparr>))))"

text \<open>The exchange within its time limit, unless the environment disables it.\<close>

definition query_clock_sync :: "string option \<Rightarrow> string option \<Rightarrow> bool \<Rightarrow> sntp_io \<Rightarrow> clock_sync option" where
  "query_clock_sync disable_env server_env in_time io =
     (if disable_env = Some ''1'' then None
      else if \<not> in_time then None
      else snd (query_sntp_blocking (ntp_server_addr server_env) io))"

end
