(* ===== verification/Clock_Properties.thy ===== *)
theory Clock_Properties
  imports Clock
begin

text \<open>
  The properties of the clock cross-check: a time survives its 64-bit NTP form to within two
  microseconds, and the offset reported is that of an honest server up to half the round trip.
\<close>

section \<open>Exact operations\<close>

lemma fl_scale: "fl x = x \<Longrightarrow> fl (x * 2 ^ n) = x * 2 ^ n"
proof (induction n)
  case (Suc n)
  then have "fl (2 * (x * 2 ^ n)) = 2 * (x * 2 ^ n)" by (intro fl_double) simp
  then show ?case by (simp add: mult.assoc mult.left_commute)
qed simp

text \<open>A rounded number is an integer of 53 bits scaled by a power of two.\<close>

lemma fl_dyadic_form:
  assumes "0 < x" "fl x = x"
  obtains n e where "x = of_int n * 2 powi e" "0 \<le> n" "n \<le> 2 ^ 53"
proof -
  define e n where "e = binade x - 52" and "n = round_even (x / 2 powi e)"
  have pos: "(0 :: real) < 2 powi e" by simp
  have x: "x = of_int n * 2 powi e" using assms by (simp add: fl_def e_def n_def)
  have "x \<le> of_int (2 ^ 53) * (2 powi e :: real)"
    using fl_in_binade(2) [OF assms(1)] by (simp add: assms(2) e_def power_int_diff power_int_add)
  then have "of_int n * 2 powi e \<le> of_int (2 ^ 53) * (2 powi e :: real)" by (simp only: x [symmetric])
  then have "(of_int n :: real) \<le> of_int (2 ^ 53)" using pos by (simp only: mult_le_cancel_right_pos)
  then have "n \<le> 2 ^ 53" by (simp only: of_int_le_iff)
  moreover have "0 \<le> n" using assms(1) pos unfolding x by (simp add: zero_less_mult_iff)
  ultimately show ?thesis using that x by blast
qed

lemma fl_frac:
  assumes "0 \<le> x" "fl x = x"
  shows "fl (x - of_int \<lfloor>x\<rfloor>) = x - of_int \<lfloor>x\<rfloor>"
proof (cases "x = 0")
  case False
  with assms have "0 < x" by simp
  with assms(2) obtain n e where n: "x = of_int n * 2 powi e" "0 \<le> n" "n \<le> 2 ^ 53"
    by (metis fl_dyadic_form)
  show ?thesis
  proof (cases "0 \<le> e")
    case True
    then have "x = of_int (n * 2 ^ nat e)" by (simp add: n(1) power_int_def)
    then have "x - of_int \<lfloor>x\<rfloor> = 0" by (metis floor_of_int diff_self)
    then show ?thesis by (simp only: fl_0)
  next
    case False
    define k where "k = nat (- e)"
    have p: "(2 :: real) powi e = 1 / 2 ^ k" using False by (simp add: k_def power_int_def power_one_over)
    have "x = of_int n / of_int (2 ^ k)" by (simp add: n(1) p)
    then have "\<lfloor>x\<rfloor> = n div 2 ^ k" by (simp only: floor_divide_of_int_eq)
    moreover have "n = n div 2 ^ k * 2 ^ k + n mod 2 ^ k" by (rule div_mult_mod_eq [symmetric])
    then have "real_of_int n = of_int (n div 2 ^ k) * 2 ^ k + of_int (n mod 2 ^ k)"
      by (metis of_int_add of_int_mult of_int_numeral of_int_power)
    ultimately have d: "x - of_int \<lfloor>x\<rfloor> = of_int (n mod 2 ^ k) * 2 powi e"
      by (simp add: n(1) p field_simps)
    have "n mod 2 ^ k \<le> n" using n(2) by (intro zmod_le_nonneg_dividend)
    then have "\<bar>n mod 2 ^ k\<bar> \<le> 2 ^ 53" using n(3) by simp
    then show ?thesis unfolding d by (rule fl_dyadic)
  qed
qed simp

lemma FRAC_SCALE_eq: "FRAC_SCALE = 2 ^ 32"
  using fl.rnd_nat [of "2 ^ 32 - 1"] fl.rnd_nat [of "2 ^ 32"] by (simp add: FRAC_SCALE_def f64_add_def)

lemma fl_close: "\<bar>x\<bar> \<le> 2 ^ n \<Longrightarrow> \<bar>fl x - x\<bar> \<le> 2 ^ n / 2 ^ 53"
proof -
  assume "\<bar>x\<bar> \<le> 2 ^ n"
  then have "\<bar>x\<bar> * ulp_rel \<le> 2 ^ n * ulp_rel" by (intro mult_right_mono) (simp_all add: ulp_rel_def)
  then show ?thesis using fl_error [of x] by (simp add: ulp_rel_def)
qed

section \<open>Time stamps\<close>

lemma unat_f64_as_u32: "0 \<le> x \<Longrightarrow> x < 2 ^ 32 \<Longrightarrow> unat (f64_as_u32 x) = nat \<lfloor>x\<rfloor>"
proof -
  assume x: "0 \<le> x" "x < 2 ^ 32"
  then have k: "0 \<le> \<lfloor>x\<rfloor>" "\<lfloor>x\<rfloor> < 2 ^ 32" by (simp_all add: floor_less_iff)
  have "unat (of_int \<lfloor>x\<rfloor> :: u32) = nat \<lfloor>x\<rfloor>"
    using k by (simp add: unsigned_of_int take_bit_int_eq_self)
  then show ?thesis using x k by (auto simp: f64_as_u32_def)
qed

lemma unat_ucast_f64_as_u64: "0 \<le> x \<Longrightarrow> x < 2 ^ 32 \<Longrightarrow> unat (ucast (f64_as_u64 x) :: u32) = nat \<lfloor>x\<rfloor>"
proof -
  assume x: "0 \<le> x" "x < 2 ^ 32"
  then have k: "0 \<le> \<lfloor>x\<rfloor>" "\<lfloor>x\<rfloor> < 2 ^ 32" by (simp_all add: floor_less_iff)
  have "unat (ucast (of_int \<lfloor>x\<rfloor> :: u64) :: u32) = nat \<lfloor>x\<rfloor>"
    using k by (simp add: unsigned_ucast_eq unsigned_of_int take_bit_int_eq_self take_bit_nat_eq_self)
  then show ?thesis using x k by (auto simp: f64_as_u64_def)
qed

lemma decode_bytes:
  "ntp_bytes_to_unix_secs (be32_bytes s @ be32_bytes f) =
     (if s = 0 \<and> f = 0 then None
      else Some (fl (fl (real (unat s) + real (unat f) / 2 ^ 32) - 2208988800)))"
proof -
  have s: "slice 0 4 (be32_bytes s @ be32_bytes f) = be32_bytes s"
    "slice 4 8 (be32_bytes s @ be32_bytes f) = be32_bytes f" by (simp_all add: slice_def)
  have b: "unat w < 2 ^ 32" for w :: u32
  proof -
    have "unat w < 2 ^ LENGTH(32)" by (rule unsigned_less)
    then show ?thesis by simp
  qed
  have r: "fl (real (unat w)) = real (unat w)" for w :: u32
    using b [of w] by (intro fl.rnd_nat) simp
  have p: "(2 :: real) powi (- 32) = 1 / 2 ^ 32" by (simp add: power_int_def power_one_over)
  have e: "of_int (int (unat f)) * 2 powi (- 32) = real (unat f) / 2 ^ 32" unfolding p by simp
  have "fl (of_int (int (unat f)) * 2 powi (- 32)) = of_int (int (unat f)) * 2 powi (- 32)"
    using b [of f] by (intro fl_dyadic) simp
  then have g: "fl (real (unat f) / 2 ^ 32) = real (unat f) / 2 ^ 32" by (simp only: e)
  show ?thesis
    unfolding ntp_bytes_to_unix_secs_def s be32_of_bytes Let_def FRAC_SCALE_eq NTP_UNIX_EPOCH_DELTA_def
      f64_ops r g ..
qed

lemma encode_parts:
  assumes "2208988800 \<le> N" "N \<le> 4294967295" "N = fl (t + 2208988800)"
  shows "\<exists>S. ntp_bytes_to_unix_secs (unix_secs_to_ntp_bytes t) = Some (fl (fl S - 2208988800)) \<and>
    N - 1 / 2 ^ 32 \<le> S \<and> S \<le> N"
proof -
  define s f where "s = \<lfloor>N\<rfloor>" and "f = N - of_int s"
  have fr: "0 \<le> f" "f < 1" unfolding f_def s_def by linarith+
  have flf: "fl f = f" unfolding f_def s_def using assms by (intro fl_frac) simp_all
  then have flF: "fl (f * 2 ^ 32) = f * 2 ^ 32" by (rule fl_scale)
  define g where "g = nat \<lfloor>f * 2 ^ 32\<rfloor>"
  have "real g = of_int \<lfloor>f * 2 ^ 32\<rfloor>" using fr by (simp add: g_def)
  then have gb: "real g \<le> f * 2 ^ 32" "f * 2 ^ 32 < real g + 1" by linarith+
  have s: "2208988800 \<le> s" "s \<le> 4294967295" using assms(1,2) unfolding s_def by linarith+
  have us: "unat (f64_as_u32 (of_int s)) = nat s"
    using unat_f64_as_u32 [of "of_int s"] s by simp
  have uf: "unat (ucast (f64_as_u64 (f * 2 ^ 32)) :: u32) = g"
    unfolding g_def using fr by (intro unat_ucast_f64_as_u64) simp_all
  have enc: "unix_secs_to_ntp_bytes t =
      be32_bytes (f64_as_u32 (of_int s)) @ be32_bytes (ucast (f64_as_u64 (f * 2 ^ 32)))"
    using flf flF
    by (simp add: unix_secs_to_ntp_bytes_def NTP_UNIX_EPOCH_DELTA_def FRAC_SCALE_eq f64_ops
        assms(3) [symmetric] s_def [symmetric] f_def [symmetric] Let_def)
  have "f64_as_u32 (of_int s) \<noteq> 0" using us s by auto
  then have "ntp_bytes_to_unix_secs (unix_secs_to_ntp_bytes t) =
      Some (fl (fl (real_of_int s + real g / 2 ^ 32) - 2208988800))"
    using s unfolding enc decode_bytes us uf by simp
  moreover have "N - 1 / 2 ^ 32 \<le> real_of_int s + real g / 2 ^ 32" "real_of_int s + real g / 2 ^ 32 \<le> N"
    using gb unfolding f_def by (simp_all add: field_simps)
  ultimately show ?thesis by blast
qed

lemma encode_close:
  assumes "0 \<le> t" "t \<le> 2085978495"
  shows "\<exists>t'. ntp_bytes_to_unix_secs (unix_secs_to_ntp_bytes t) = Some t' \<and> \<bar>t' - t\<bar> \<le> 1 / 2 ^ 19"
proof -
  define N where "N = fl (t + 2208988800)"
  have N: "2208988800 \<le> N" "N \<le> 4294967295"
    using fl.rnd_ge_nat [of 2208988800 "t + 2208988800"] fl.rnd_le_nat [of "t + 2208988800" 4294967295] assms
    by (simp_all add: N_def)
  obtain S where dec: "ntp_bytes_to_unix_secs (unix_secs_to_ntp_bytes t) = Some (fl (fl S - 2208988800))"
    and S: "N - 1 / 2 ^ 32 \<le> S" "S \<le> N"
    using encode_parts [OF N N_def] by blast
  have e1: "\<bar>N - (t + 2208988800)\<bar> \<le> 2 ^ 32 / 2 ^ 53"
    unfolding N_def using assms by (intro fl_close) simp
  have e2: "\<bar>fl S - S\<bar> \<le> 2 ^ 32 / 2 ^ 53" using S N by (intro fl_close) simp
  moreover have "2 ^ 32 / 2 ^ 53 \<le> (1 :: real)" by simp
  ultimately have "fl S \<le> S + 1" "S - 1 \<le> fl S" unfolding abs_le_iff by linarith+
  then have "\<bar>fl S - 2208988800\<bar> \<le> 2 ^ 32" using S N by (simp add: abs_le_iff)
  then have e3: "\<bar>fl (fl S - 2208988800) - (fl S - 2208988800)\<bar> \<le> 2 ^ 32 / 2 ^ 53" by (rule fl_close)
  define d :: real where "d = 2 ^ 32 / 2 ^ 53"
  have "3 * d + 1 / 2 ^ 32 \<le> 1 / 2 ^ 19" by (simp add: d_def)
  with e1 e2 e3 S have "\<bar>fl (fl S - 2208988800) - t\<bar> \<le> 1 / 2 ^ 19"
    unfolding d_def [symmetric] abs_le_iff by linarith
  then show ?thesis using dec by simp
qed

section \<open>Offset and delay\<close>

lemma offset_honest:
  assumes "\<bar>t1\<bar> \<le> 2 ^ 33" "\<bar>t2\<bar> \<le> 2 ^ 33" "\<bar>t3\<bar> \<le> 2 ^ 33" "\<bar>t4\<bar> \<le> 2 ^ 33"
    and "t1 + \<theta> \<le> t2" "t3 \<le> t4 + \<theta>" "compute_offset_and_delay t1 t2 t3 t4 = (offset, delay)"
  shows "\<bar>offset - \<theta>\<bar> \<le> delay / 2 + 1 / 2 ^ 15"
proof -
  define d :: real where "d = 2 ^ 34 / 2 ^ 53"
  have d: "0 \<le> d" "d \<le> 1" by (simp_all add: d_def)
  have close: "\<bar>fl (x - y) - (x - y)\<bar> \<le> d" if "\<bar>x\<bar> \<le> 2 ^ 33" "\<bar>y\<bar> \<le> 2 ^ 33" for x y
    unfolding d_def by (rule fl_close) (use that in \<open>simp add: abs_le_iff\<close>)
  have le36: "\<bar>x\<bar> \<le> 2 ^ 36 \<Longrightarrow> \<bar>fl x - x\<bar> \<le> 4 * d" for x
    using fl_close [of x 36] by (simp add: d_def)
  define a b where "a = fl (t2 - t1)" and "b = fl (t3 - t4)"
  define u v where "u = fl (t4 - t1)" and "v = fl (t3 - t2)"
  have a: "\<bar>a - (t2 - t1)\<bar> \<le> d" and b: "\<bar>b - (t3 - t4)\<bar> \<le> d"
    and u: "\<bar>u - (t4 - t1)\<bar> \<le> d" and v: "\<bar>v - (t3 - t2)\<bar> \<le> d"
    unfolding a_def b_def u_def v_def using assms(1-4) by (auto intro!: close)
  have sum: "\<bar>fl (a + b) - (a + b)\<bar> \<le> 4 * d"
    by (rule le36) (use a b d assms(1-4) in \<open>simp add: abs_le_iff\<close>)
  have half: "\<bar>fl (fl (a + b) / 2) - fl (a + b) / 2\<bar> \<le> 4 * d"
    by (rule le36) (use a b sum d assms(1-4) in \<open>simp add: abs_le_iff\<close>)
  have dif: "\<bar>fl (u - v) - (u - v)\<bar> \<le> 4 * d"
    by (rule le36) (use u v d assms(1-4) in \<open>simp add: abs_le_iff\<close>)
  have o: "offset = fl (fl (a + b) / 2)" "delay = fl (u - v)"
    using assms(7) by (simp_all add: compute_offset_and_delay_def f64_ops a_def b_def u_def v_def)
  have "10 * d \<le> 1 / 2 ^ 15" by (simp add: d_def)
  with a b u v sum half dif assms(5,6) show ?thesis
    unfolding o abs_le_iff by linarith
qed

lemma decoded_bound:
  assumes "ntp_bytes_to_unix_secs bs = Some t"
  shows "\<bar>t\<bar> \<le> 2 ^ 33"
proof -
  define s f where "s = be32_of (slice 0 4 bs)" and "f = be32_of (slice 4 8 bs)"
  have b: "real (unat w) \<le> real (2 ^ 32)" for w :: u32
  proof -
    have "unat w < 2 ^ LENGTH(32)" by (rule unsigned_less)
    then have "unat w \<le> 2 ^ 32" by simp
    then show ?thesis by (simp only: of_nat_le_iff)
  qed
  have r: "0 \<le> fl (real (unat w)) \<and> fl (real (unat w)) \<le> 2 ^ 32" for w :: u32
    using fl.rnd_le_nat [OF b [of w]] by (simp add: fl.rnd_nonneg)
  define q where "q = fl (fl (real (unat f)) / 2 ^ 32)"
  have q: "0 \<le> q" "q \<le> 1"
    using r [of f] fl.rnd_le_nat [of "fl (real (unat f)) / 2 ^ 32" 1] by (simp_all add: q_def fl.rnd_nonneg)
  define p where "p = fl (fl (real (unat s)) + q)"
  have p: "0 \<le> p" "p \<le> 4294967297"
    using r [of s] q fl.rnd_le_nat [of "fl (real (unat s)) + q" 4294967297] by (simp_all add: p_def fl.rnd_nonneg)
  have t: "t = fl (p - 2208988800)"
    using assms unfolding ntp_bytes_to_unix_secs_def Let_def s_def [symmetric] f_def [symmetric]
    by (auto simp: p_def q_def FRAC_SCALE_eq NTP_UNIX_EPOCH_DELTA_def f64_ops split: if_splits)
  have "fl (p - 2208988800) \<le> 4294967297" using p by (intro fl.rnd_le_nat [of _ 4294967297, simplified]) simp_all
  moreover have "- 2208988800 \<le> fl (p - 2208988800)"
    using fl_mono [of "- 2208988800" "p - 2208988800"] p fl.rnd_int [of "- 2208988800"] by simp
  ultimately show ?thesis unfolding t by (simp add: abs_le_iff)
qed


lemma parse_server_packet_Some:
  assumes "parse_server_packet buf = Some ts"
  shows "SNTP_PACKET_LEN \<le> length buf \<and> (buf ! 0 AND 7 = 4 \<or> buf ! 0 AND 7 = 5) \<and> buf ! 1 \<noteq> 0 \<and>
    \<bar>sn_receive_unix_secs ts\<bar> \<le> 2 ^ 33 \<and> \<bar>sn_transmit_unix_secs ts\<bar> \<le> 2 ^ 33"
  using assms decoded_bound
  by (auto simp: parse_server_packet_def Let_def split: if_splits option.splits)

section \<open>The properties of the cross-check\<close>

text \<open>The request that is sent is a client request of the right size that carries the local
  time to within two microseconds, for every time before the NTP era ends in 2036.\<close>

theorem sntp_request_carries_time:
  assumes "fst (query_sntp_blocking server io) = Some request"
    and "now_unix_secs (si_before io) \<le> 2085978495"
  shows "length request = SNTP_PACKET_LEN \<and> request ! 0 = 0x23 \<and>
    (\<exists>t. ntp_bytes_to_unix_secs (slice 40 48 request) = Some t \<and>
       \<bar>t - now_unix_secs (si_before io)\<bar> \<le> 1 / 2 ^ 19)"
proof -
  let ?t = "now_unix_secs (si_before io)"
  have r: "request = build_client_packet ?t"
    using assms(1) by (auto simp: query_sntp_blocking_def Let_def split: if_splits)
  have len: "length (unix_secs_to_ntp_bytes ?t) = 8" by (simp add: unix_secs_to_ntp_bytes_def Let_def)
  have "0 \<le> ?t" by (simp add: now_unix_secs_def as_secs_f64_nonneg split: option.split)
  from encode_close [OF this assms(2)] show ?thesis
    unfolding r build_client_packet_def
    by (simp add: SNTP_PACKET_LEN_def slice_splice_same nth_splice len)
qed

text \<open>C39: A reported offset rests on a full reply of a synchronised server, its round trip is not
  negative, and it is the true offset of the clocks up to half the round trip (and thirty
  microseconds of rounding) whenever the two clocks tick alike during the exchange: the request
  reached the server after it was sent, the reply arrived after it left.\<close>

theorem clock_sync_sound:
  assumes "query_clock_sync disable_env server_env in_time io = Some r"
    and "now_unix_secs (si_before io) \<le> 2 ^ 33" "now_unix_secs (si_after io) \<le> 2 ^ 33"
  shows "\<exists>buf ts offset delay. si_reply io = Some buf \<and> parse_server_packet (take 128 buf) = Some ts \<and>
    SNTP_PACKET_LEN \<le> length buf \<and> buf ! 1 \<noteq> 0 \<and> 0 \<le> delay \<and>
    cs_offset_ms r = Some (f64_mul offset 1000) \<and> cs_round_trip_ms r = Some (f64_mul delay 1000) \<and>
    (\<forall>\<theta>. now_unix_secs (si_before io) + \<theta> \<le> sn_receive_unix_secs ts \<longrightarrow>
      sn_transmit_unix_secs ts \<le> now_unix_secs (si_after io) + \<theta> \<longrightarrow>
      \<bar>offset - \<theta>\<bar> \<le> delay / 2 + 1 / 2 ^ 15)"
proof -
  let ?t1 = "now_unix_secs (si_before io)" and ?t4 = "now_unix_secs (si_after io)"
  obtain buf ts where q: "si_reply io = Some buf" "parse_server_packet (take 128 buf) = Some ts"
    and r: "(let (offset, delay) = compute_offset_and_delay ?t1 (sn_receive_unix_secs ts) (sn_transmit_unix_secs ts) ?t4
      in if delay < 0 then None
         else Some \<lparr>cs_ntp_server = Some (ntp_server_addr server_env),
           cs_offset_ms = Some (f64_mul offset 1000), cs_round_trip_ms = Some (f64_mul delay 1000)\<rparr>) = Some r"
    using assms(1)
    by (auto simp: query_clock_sync_def query_sntp_blocking_def Let_def split: if_splits option.splits)
  obtain offset delay where od:
    "compute_offset_and_delay ?t1 (sn_receive_unix_secs ts) (sn_transmit_unix_secs ts) ?t4 = (offset, delay)"
    by (rule prod.exhaust)
  note p = parse_server_packet_Some [OF q(2)]
  have nonneg: "0 \<le> ?t1" "0 \<le> ?t4"
    by (simp_all add: now_unix_secs_def as_secs_f64_nonneg split: option.split)
  have "\<bar>offset - \<theta>\<bar> \<le> delay / 2 + 1 / 2 ^ 15"
    if "?t1 + \<theta> \<le> sn_receive_unix_secs ts" "sn_transmit_unix_secs ts \<le> ?t4 + \<theta>" for \<theta>
    by (rule offset_honest [OF _ _ _ _ that od]) (use p nonneg assms(2,3) in simp_all)
  moreover have "SNTP_PACKET_LEN \<le> length buf \<and> buf ! 1 \<noteq> 0" using p by (simp add: SNTP_PACKET_LEN_def)
  moreover have "0 \<le> delay \<and> cs_offset_ms r = Some (f64_mul offset 1000) \<and>
      cs_round_trip_ms r = Some (f64_mul delay 1000)"
    using r od by (auto split: if_splits)
  ultimately show ?thesis using q by blast
qed

text \<open>An exchange of one second with a server whose clock agrees.\<close>

definition demo_stamp :: bytes where
  "demo_stamp = be32_bytes 2208988810 @ be32_bytes 0"

definition demo_exchange :: sntp_io where
  "demo_exchange = \<lparr>si_connected = True, si_before = Some (from_secs 10), si_sent = True,
     si_reply = Some ([0x24, 2] @ replicate 30 0 @ demo_stamp @ demo_stamp),
     si_after = Some (from_secs 11)\<rparr>"

lemma demo_stamp_value: "ntp_bytes_to_unix_secs demo_stamp = Some 10"
  using fl.rnd_nat [of 2208988810] fl.rnd_nat [of 10]
  by (simp add: demo_stamp_def decode_bytes)

lemma demo_times: "as_secs_f64 (from_secs 10) = 10" "as_secs_f64 (from_secs 11) = 11"
  using as_secs_f64_whole [of 10] as_secs_f64_whole [of 11] by simp_all

theorem sntp_request_carries_time_witness:
  "\<exists>request. fst (query_sntp_blocking ''h'' demo_exchange) = Some request \<and> length request = SNTP_PACKET_LEN"
proof -
  have f: "fst (query_sntp_blocking ''h'' demo_exchange) = Some (build_client_packet 10)"
    by (simp add: query_sntp_blocking_def demo_exchange_def now_unix_secs_def demo_times Let_def)
  have "now_unix_secs (si_before demo_exchange) \<le> 2085978495"
    by (simp add: demo_exchange_def now_unix_secs_def demo_times)
  with sntp_request_carries_time [OF f] f show ?thesis by blast
qed

theorem clock_sync_sound_witness:
  "\<exists>r. query_clock_sync None None True demo_exchange = Some r \<and> cs_offset_ms r \<noteq> None"
proof -
  have slices: "slice 32 40 (take 128 ([0x24, 2] @ replicate 30 0 @ demo_stamp @ demo_stamp)) = demo_stamp"
    "slice 40 48 (take 128 ([0x24, 2] @ replicate 30 0 @ demo_stamp @ demo_stamp)) = demo_stamp"
    by (simp_all add: slice_def demo_stamp_def)
  have "parse_server_packet (take 128 ([0x24, 2] @ replicate 30 0 @ demo_stamp @ demo_stamp)) =
      Some \<lparr>sn_receive_unix_secs = 10, sn_transmit_unix_secs = 10\<rparr>"
    unfolding parse_server_packet_def slices demo_stamp_value
    by (simp add: SNTP_PACKET_LEN_def demo_stamp_def Let_def)
  then obtain r where r: "query_clock_sync None None True demo_exchange = Some r"
    using fl.rnd_nat [of 1]
    by (fastforce simp: query_clock_sync_def query_sntp_blocking_def demo_exchange_def now_unix_secs_def
        demo_times compute_offset_and_delay_def f64_ops Let_def)
  have "now_unix_secs (si_before demo_exchange) \<le> 2 ^ 33" "now_unix_secs (si_after demo_exchange) \<le> 2 ^ 33"
    by (simp_all add: demo_exchange_def now_unix_secs_def demo_times)
  from clock_sync_sound [OF r this] r show ?thesis by auto
qed

end
