(* ===== verification/Formats.thy ===== *)
theory Formats
  imports F64 Text
begin

text \<open>
  Texts of numbers and addresses, and the operations on URLs that the program uses.
\<close>

section \<open>Addresses\<close>

text \<open>
  Addresses as Rust's standard library prints them: an IPv4 address as four decimal octets, an
  IPv6 address as hexadecimal groups with the first of its longest runs of zero groups
  compressed, a socket address with its port. The address families themselves are in \<open>Prelude\<close>.
\<close>

definition octets :: "u32 \<Rightarrow> nat list" where
  "octets a = map unat (be32_bytes a)"

definition show_ipv4 :: "u32 \<Rightarrow> string" where
  "show_ipv4 a = join_with ''.'' (map decimal (octets a))"

text \<open>The eight groups, the highest first.\<close>

definition segments :: "128 word \<Rightarrow> nat list" where
  "segments a = map (\<lambda>i. unat (drop_bit (112 - 16 * i) a) mod 2 ^ 16) [0..<8]"

definition hex_char :: "nat \<Rightarrow> char" where
  "hex_char d = (if d < 10 then char_of (48 + d) else char_of (87 + d))"

fun lower_hex :: "nat \<Rightarrow> string" where
  "lower_hex n = (if n < 16 then [hex_char n] else lower_hex (n div 16) @ [hex_char (n mod 16)])"

declare lower_hex.simps [simp del]

text \<open>The length of the run of zero groups at the head.\<close>

definition zero_run :: "nat list \<Rightarrow> nat" where
  "zero_run xs = length (takeWhile (\<lambda>x. x = 0) xs)"

text \<open>The first longest run: its start and its length.\<close>

definition longest_zeros :: "nat list \<Rightarrow> nat \<times> nat" where
  "longest_zeros xs = foldl (\<lambda>(tm, len) i. let n = zero_run (drop i xs) in if len < n then (i, n) else (tm, len))
     (0, 0) [0..<length xs]"

definition show_ipv6 :: "128 word \<Rightarrow> string" where
  "show_ipv6 a =
     (let xs = segments a
      in if take 6 xs = [0, 0, 0, 0, 0, 0xFFFF]
         then ''::ffff:'' @ show_ipv4 (ucast a)
         else (case longest_zeros xs of (i, n) \<Rightarrow>
            (if 1 < n
             then join_with '':'' (map lower_hex (take i xs)) @ ''::'' @
               join_with '':'' (map lower_hex (drop (i + n) xs))
             else join_with '':'' (map lower_hex xs))))"

fun show_ip :: "ip_addr \<Rightarrow> string" where
  "show_ip (V4 a) = show_ipv4 a"
| "show_ip (V6 a) = show_ipv6 a"

fun show_socket_addr :: "socket_addr \<Rightarrow> string" where
  "show_socket_addr (V4 a, port) = show_ipv4 a @ '':'' @ decimal (unat port)"
| "show_socket_addr (V6 a, port) = ''['' @ show_ipv6 a @ '']:'' @ decimal (unat port)"

section \<open>Numbers of fixed precision\<close>

text \<open>
  Fixed-precision printing, \<open>format!("{:.p}", x)\<close>: the decimal of \<open>p\<close> fractional digits nearest
  to the exact value, ties to even.
\<close>

definition zero_pad :: "nat \<Rightarrow> nat \<Rightarrow> string" where
  "zero_pad p n = replicate (p - length (decimal n)) CHR ''0'' @ decimal n"

definition fixed :: "nat \<Rightarrow> f64 \<Rightarrow> string" where
  "fixed p x =
     (let n = nat (round_even (\<bar>x\<bar> * 10 ^ p))
      in (if x < 0 then ''-'' else []) @ decimal (n div 10 ^ p) @
         (if p = 0 then [] else ''.'' @ zero_pad p (n mod 10 ^ p)))"

section \<open>URLs\<close>

text \<open>
  What the program uses of the \<open>url\<close> crate: a value of the record is an implementation of these
  operations on some type of URLs. A setter that the crate refuses leaves the URL as it was.
\<close>

record 'u url_api =
  url_text :: "'u \<Rightarrow> string"
  url_scheme :: "'u \<Rightarrow> string"
  url_host :: "'u \<Rightarrow> string option"
  url_port :: "'u \<Rightarrow> u16 option"
  url_port_or_default :: "'u \<Rightarrow> u16 option"
  url_path :: "'u \<Rightarrow> string"
  set_scheme :: "string \<Rightarrow> 'u \<Rightarrow> 'u"
  set_port :: "u16 option \<Rightarrow> 'u \<Rightarrow> 'u"
  set_path :: "string \<Rightarrow> 'u \<Rightarrow> 'u"
  set_query :: "string option \<Rightarrow> 'u \<Rightarrow> 'u"

end
