(* ===== verification/Echo.thy ===== *)
theory Echo
  imports Probe Formats
begin

text \<open>
  Echo trains. The UDP echo probe (\<open>crates/networker-tester/src/runner/udp.rs\<close>) and the ping
  probe send one probe after the other and credit every echo to the probe whose number it
  carries. Their common loop is \<open>probe_loop\<close>, over the function that waits for the current
  probe's echo; what such a wait promises, and what a train of them delivers, is the locale
  \<open>echo_train\<close>. The echo server is \<open>crates/networker-endpoint/src/udp_echo.rs\<close> over the socket of
  \<open>pktinfo_socket.rs\<close>, whose replies leave from the address the request arrived on.

  For each probe an \<open>echo_input\<close> says whether the send succeeded and what the wait saw: an event is
  the instant the loop read at its head and what the timed receive returned after it.
\<close>

section \<open>Crediting an echo\<close>

text \<open>The echo that names probe \<open>idx\<close>, handled at \<open>at\<close>.\<close>

definition credit_echo :: "nat \<Rightarrow> instant \<Rightarrow> instant option list \<Rightarrow> f64 option list \<Rightarrow> f64 option list" where
  "credit_echo idx tm send_times rtts =
     (if idx < length rtts
      then case (send_times ! idx, rtts ! idx) of
          (Some sent_at, None) \<Rightarrow> rtts[idx := Some (as_millis_f64 (tm - sent_at))]
        | _ \<Rightarrow> rtts
      else rtts)"

section \<open>The train\<close>

record 'e echo_input =
  ec_send_ok :: bool
  ec_sent_at :: instant
  ec_events :: "(instant \<times> 'e) list"

type_synonym ('e, 's) echo_window =
  "nat \<Rightarrow> instant \<Rightarrow> instant option list \<Rightarrow> (instant \<times> 'e) list \<Rightarrow> 's \<Rightarrow> 's"

definition probe_step :: "('e, 's) echo_window \<Rightarrow> duration \<Rightarrow> (nat \<Rightarrow> 'e echo_input) \<Rightarrow>
   instant option list \<times> 's \<Rightarrow> nat \<Rightarrow> instant option list \<times> 's" where
  "probe_step wait timeout inputs st n =
     (let (send_times, s) = st; i = inputs n
      in if ec_send_ok i
         then (let send_times = send_times[n := Some (ec_sent_at i)]
               in (send_times, wait n (ec_sent_at i + timeout) send_times (ec_events i) s))
         else (send_times, s))"

definition probe_loop :: "('e, 's) echo_window \<Rightarrow> duration \<Rightarrow> nat \<Rightarrow> (nat \<Rightarrow> 'e echo_input) \<Rightarrow> 's \<Rightarrow>
   instant option list \<times> 's" where
  "probe_loop wait timeout count inputs s =
     foldl (probe_step wait timeout inputs) (replicate count None, s) [0..<count]"

section \<open>The UDP echo probe\<close>

datatype echo_event = Echo bytes instant | EchoFailed | EchoTimedOut

fun recv_outstanding_echoes ::
  "nat \<Rightarrow> instant \<Rightarrow> instant option list \<Rightarrow> (instant \<times> echo_event) list \<Rightarrow> f64 option list \<Rightarrow>
   f64 option list" where
  "recv_outstanding_echoes current deadline send_times [] rtts = rtts"
| "recv_outstanding_echoes current deadline send_times ((now, ev) # evs) rtts =
     (if rtts ! current \<noteq> None then rtts
      else if deadline \<le> now then rtts
      else case ev of
        Echo buf tm \<Rightarrow>
          (if 4 \<le> length buf
           then recv_outstanding_echoes current deadline send_times evs
                  (credit_echo (unat (be32_of (slice 0 4 buf))) tm send_times rtts)
           else recv_outstanding_echoes current deadline send_times evs rtts)
      | EchoFailed \<Rightarrow> rtts
      | EchoTimedOut \<Rightarrow> rtts)"

record udp_probe_config =
  up_target_host :: string
  up_target_port :: u16
  up_probe_count :: u32
  up_timeout_ms :: u64
  up_payload_size :: nat

definition udp_probe_config_default :: udp_probe_config where
  "udp_probe_config_default = \<lparr>up_target_host = ''127.0.0.1'', up_target_port = 9999,
     up_probe_count = 10, up_timeout_ms = 5000, up_payload_size = 64\<rparr>"

text \<open>The datagram of probe \<open>n\<close>: its number, the time of day in microseconds and padding.\<close>

definition echo_packet :: "nat \<Rightarrow> nat \<Rightarrow> u64 \<Rightarrow> bytes" where
  "echo_packet payload_size n now_us =
     splice 4 (be64_bytes now_us) (splice 0 (be32_bytes (of_nat n)) (replicate (max payload_size 12) 0))"

definition udp_echo_train :: "udp_probe_config \<Rightarrow> (nat \<Rightarrow> echo_event echo_input) \<Rightarrow> f64 option list" where
  "udp_echo_train cfg inputs =
     (let count = unat (up_probe_count cfg)
      in snd (probe_loop recv_outstanding_echoes (from_millis (unat (up_timeout_ms cfg))) count inputs
           (replicate count None)))"

record udp_result =
  ue_remote_addr :: string
  ue_probe_count :: u32
  ue_success_count :: u32
  ue_loss_percent :: f64
  ue_rtt_min_ms :: f64
  ue_rtt_avg_ms :: f64
  ue_rtt_p95_ms :: f64
  ue_jitter_ms :: f64
  ue_ipdv_p95_ms :: "f64 option"
  ue_ipdv_p99_ms :: "f64 option"
  ue_started_at :: nat
  ue_probe_rtts_ms :: "f64 option list"
  ue_local_drops :: "u64 option"
  ue_so_rcvbuf_bytes :: "u32 option"
  ue_loss_pattern :: "loss_pattern option"

record udp_attempt = attempt +
  at_udp :: "udp_result option"

definition udp_failed :: "attempt_ids \<Rightarrow> string \<Rightarrow> udp_attempt" where
  "udp_failed ids msg =
     attempt.extend (attempt_new ids Udp False (Some (error_of ids UdpError msg))) \<lparr>at_udp = None\<rparr>"

definition no_echo_message :: "socket_addr \<Rightarrow> u32 \<Rightarrow> string" where
  "no_echo_message target count =
     ''No UDP echo replies from '' @ show_socket_addr target @ '' ('' @ decimal (unat count) @
     '' probes): either the path drops UDP or nothing is listening for the echo protocol there '' @
     em_dash @ '' this mode requires a LagHound endpoint's echo server, so 100% loss is expected '' @
     ''against ordinary websites''"

text \<open>What resolving, binding and connecting returned (an error is its message), and the
  diagnostics of the socket after the train.\<close>

record udp_io =
  ui_target :: "string + socket_addr"
  ui_bind :: "string + unit"
  ui_connect :: "string + unit"
  ui_inputs :: "nat \<Rightarrow> echo_event echo_input"
  ui_local_drops :: "u64 option"
  ui_so_rcvbuf :: "u32 option"

definition count_received :: "f64 option list \<Rightarrow> u32" where
  "count_received rtts = of_nat (length (filter (\<lambda>r. r \<noteq> None) rtts))"

definition udp_result_of :: "udp_probe_config \<Rightarrow> socket_addr \<Rightarrow> attempt_ids \<Rightarrow> udp_io \<Rightarrow> f64 option list \<Rightarrow> udp_result" where
  "udp_result_of cfg target ids io rtts =
     (let stats = aggregate_udp_rtts rtts
      in \<lparr>ue_remote_addr = show_socket_addr target, ue_probe_count = up_probe_count cfg,
          ue_success_count = count_received rtts, ue_loss_percent = rtt_loss_percent stats,
          ue_rtt_min_ms = rtt_min stats, ue_rtt_avg_ms = rtt_avg stats, ue_rtt_p95_ms = rtt_p95 stats,
          ue_jitter_ms = rtt_jitter stats, ue_ipdv_p95_ms = rtt_ipdv_p95 stats,
          ue_ipdv_p99_ms = rtt_ipdv_p99 stats, ue_started_at = ai_started_at ids,
          ue_probe_rtts_ms = rtts, ue_local_drops = ui_local_drops io,
          ue_so_rcvbuf_bytes = ui_so_rcvbuf io, ue_loss_pattern = compute_loss_pattern rtts\<rparr>)"

definition run_udp_probe :: "udp_probe_config \<Rightarrow> attempt_ids \<Rightarrow> udp_io \<Rightarrow> udp_attempt" where
  "run_udp_probe cfg ids io = (case ui_target io of
     Inl msg \<Rightarrow> udp_failed ids msg
   | Inr target \<Rightarrow> (case ui_bind io of
       Inl e \<Rightarrow> udp_failed ids (''UDP bind failed: '' @ e)
     | Inr _ \<Rightarrow> (case ui_connect io of
         Inl e \<Rightarrow> udp_failed ids (''UDP connect failed: '' @ e)
       | Inr _ \<Rightarrow>
           (let rtts = udp_echo_train cfg (ui_inputs io);
                success_count = count_received rtts;
                err = (if success_count = 0
                  then Some (error_of ids UdpError (no_echo_message target (up_probe_count cfg))) else None)
            in attempt.extend (attempt_new ids Udp (0 < success_count) err)
                 \<lparr>at_udp = Some (udp_result_of cfg target ids io rtts)\<rparr>))))"

section \<open>The echo server\<close>

text \<open>A received datagram and the address it arrived on, where the platform reports it.\<close>

record received =
  rv_data :: bytes
  rv_from :: socket_addr
  rv_dst_ip :: "ip_addr option"

text \<open>A send through the socket: with the destination tracked it is pinned to the given source, and
  once more unpinned when the kernel refuses that; \<open>try\<close> is what the kernel does with a source.\<close>

definition pktinfo_send_to :: "bool \<Rightarrow> (ip_addr option \<Rightarrow> string + unit) \<Rightarrow> ip_addr option \<Rightarrow>
   (ip_addr option) list \<times> (string + unit)" where
  "pktinfo_send_to tracks try from_ip =
     (if \<not> tracks then ([None], try None)
      else case try from_ip of
          Inl e \<Rightarrow> (if from_ip \<noteq> None then ([from_ip, None], try None) else ([from_ip], Inl e))
        | Inr _ \<Rightarrow> ([from_ip], Inr ()))"

record echoed =
  eo_data :: bytes
  eo_to :: socket_addr
  eo_src_ip :: "ip_addr option"

text \<open>One turn of the server: what it sends, or nothing after a failed receive.\<close>

definition run_udp_echo :: "received option \<Rightarrow> echoed option" where
  "run_udp_echo rx = map_option (\<lambda>r. \<lparr>eo_data = rv_data r, eo_to = rv_from r, eo_src_ip = rv_dst_ip r\<rparr>) rx"

section \<open>What a wait promises\<close>

text \<open>
  A wait works on a state that holds the readings. An event may name a probe and is handled at an
  instant; a reading is only added for a probe that was sent, from an event that names it, and
  a reading once made is kept.
\<close>

locale echo_train =
  fixes wait :: "('e, 's) echo_window"
    and readings :: "'s \<Rightarrow> f64 option list"
    and names :: "'e \<Rightarrow> (nat \<times> instant) option"
  assumes wait_length: "length (readings (wait n d st evs s)) = length (readings s)"
    and wait_keeps: "k < length (readings s) \<Longrightarrow> readings s ! k = Some r \<Longrightarrow>
      readings (wait n d st evs s) ! k = Some r"
    and wait_credits: "k < length (readings s) \<Longrightarrow> readings s ! k = None \<Longrightarrow>
      readings (wait n d st evs s) ! k = Some r \<Longrightarrow>
      \<exists>now ev tm sent. (now, ev) \<in> set evs \<and> names ev = Some (k, tm) \<and> st ! k = Some sent \<and>
        r = as_millis_f64 (tm - sent)"
begin

text \<open>A reading of a train that sent \<open>k\<close> at some instant.\<close>

definition read_from :: "nat \<Rightarrow> (nat \<Rightarrow> 'e echo_input) \<Rightarrow> nat \<Rightarrow> f64 \<Rightarrow> bool" where
  "read_from m inputs k r \<longleftrightarrow> k < m \<and> ec_send_ok (inputs k) \<and>
     (\<exists>j now ev tm. k \<le> j \<and> j < m \<and> (now, ev) \<in> set (ec_events (inputs j)) \<and> names ev = Some (k, tm) \<and>
        r = as_millis_f64 (tm - ec_sent_at (inputs k)))"

definition train_ok :: "nat \<Rightarrow> nat \<Rightarrow> (nat \<Rightarrow> 'e echo_input) \<Rightarrow> instant option list \<times> 's \<Rightarrow> bool" where
  "train_ok count m inputs st \<longleftrightarrow> length (fst st) = count \<and> length (readings (snd st)) = count \<and>
     (\<forall>k < count. fst st ! k = (if k < m \<and> ec_send_ok (inputs k) then Some (ec_sent_at (inputs k)) else None)) \<and>
     (\<forall>k < count. \<forall>r. readings (snd st) ! k = Some r \<longrightarrow> read_from m inputs k r)"

lemma read_from_mono: "read_from m inputs k r \<Longrightarrow> m \<le> m' \<Longrightarrow> read_from m' inputs k r"
  unfolding read_from_def by (metis order_less_le_trans)

lemma probe_step_ok:
  assumes "train_ok count m inputs st" "m < count"
  shows "train_ok count (Suc m) inputs (probe_step wait timeout inputs st m)"
proof (cases st)
  case (Pair send_times s)
  have inv: "length send_times = count" "length (readings s) = count"
      "\<And>k. k < count \<Longrightarrow> send_times ! k =
        (if k < m \<and> ec_send_ok (inputs k) then Some (ec_sent_at (inputs k)) else None)"
      "\<And>k r. k < count \<Longrightarrow> readings s ! k = Some r \<Longrightarrow> read_from m inputs k r"
    using assms(1) by (simp_all add: train_ok_def Pair)
  show ?thesis
  proof (cases "ec_send_ok (inputs m)")
    case False
    then show ?thesis using inv(1-3) read_from_mono [OF inv(4), of _ _ "Suc m"]
      by (auto simp: train_ok_def probe_step_def Pair less_Suc_eq)
  next
    case True
    define sent where "sent = send_times[m := Some (ec_sent_at (inputs m))]"
    define s' where "s' = wait m (ec_sent_at (inputs m) + timeout) sent (ec_events (inputs m)) s"
    have step: "probe_step wait timeout inputs st m = (sent, s')"
      using True by (simp add: probe_step_def Pair sent_def s'_def Let_def)
    have sent: "sent ! k = (if k < Suc m \<and> ec_send_ok (inputs k) then Some (ec_sent_at (inputs k)) else None)"
      if "k < count" for k
      using that inv(1) inv(3) [OF that] True by (cases "k = m") (auto simp: sent_def less_Suc_eq)
    have "read_from (Suc m) inputs k r" if k: "k < count" "readings s' ! k = Some r" for k r
    proof (cases "readings s ! k")
      case (Some r')
      then have "r' = r" using wait_keeps [of k s r'] k inv(2) by (simp add: s'_def)
      then show ?thesis using Some inv(4) [OF k(1)] read_from_mono [of m inputs k r "Suc m"] by simp
    next
      case None
      from wait_credits [of k s, OF _ None] k inv(2)
      obtain now ev tm t where c: "(now, ev) \<in> set (ec_events (inputs m))" "names ev = Some (k, tm)"
        "sent ! k = Some t" "r = as_millis_f64 (tm - t)"
        unfolding s'_def by metis
      from c(3) sent [OF k(1)] have "k < Suc m" "ec_send_ok (inputs k)" "t = ec_sent_at (inputs k)"
        by (simp_all split: if_splits)
      then show ?thesis using c unfolding read_from_def by (metis lessI less_Suc_eq_le)
    qed
    then show ?thesis
      using sent inv(1,2) by (simp add: train_ok_def step sent_def s'_def wait_length)
  qed
qed

lemma probe_loop_ok:
  assumes "readings s = replicate count None"
  shows "train_ok count count inputs (probe_loop wait timeout count inputs s)"
proof -
  have "m \<le> count \<Longrightarrow> train_ok count m inputs
      (foldl (probe_step wait timeout inputs) (replicate count None, s) [0..<m])" for m
  proof (induction m)
    case 0
    show ?case by (simp add: train_ok_def assms)
  next
    case (Suc m)
    then show ?case by (simp add: probe_step_ok)
  qed
  then show ?thesis by (simp add: probe_loop_def)
qed

lemma train_credits:
  assumes "readings s = replicate count None"
  shows "length (readings (snd (probe_loop wait timeout count inputs s))) = count"
    and "k < count \<Longrightarrow> readings (snd (probe_loop wait timeout count inputs s)) ! k = Some r \<Longrightarrow>
      read_from count inputs k r"
  using probe_loop_ok [OF assms, of inputs timeout] by (simp_all add: train_ok_def)

text \<open>A reading made while its own probe was waited for is there at the end.\<close>

lemma foldl_keeps:
  assumes "k < length (readings s)" "readings s ! k = Some r"
  shows "readings (snd (foldl (probe_step wait timeout inputs) (send_times, s) ns)) ! k = Some r"
  using assms
proof (induction ns arbitrary: send_times s)
  case (Cons n ns)
  then show ?case
    by (auto simp: probe_step_def Let_def wait_length wait_keeps)
qed simp

lemma train_delivers:
  assumes "readings s = replicate count None" "n < count" "ec_send_ok (inputs n)"
    and "\<And>st s. length (readings s) = count \<Longrightarrow> length st = count \<Longrightarrow> st ! n = Some (ec_sent_at (inputs n)) \<Longrightarrow>
      readings (wait n (ec_sent_at (inputs n) + timeout) st (ec_events (inputs n)) s) ! n \<noteq> None"
  shows "readings (snd (probe_loop wait timeout count inputs s)) ! n \<noteq> None"
proof -
  define st where "st = foldl (probe_step wait timeout inputs) (replicate count None, s) [0..<n]"
  have "m \<le> count \<Longrightarrow> train_ok count m inputs
      (foldl (probe_step wait timeout inputs) (replicate count None, s) [0..<m])" for m
  proof (induction m)
    case 0
    show ?case by (simp add: train_ok_def assms(1))
  next
    case (Suc m)
    then show ?case by (simp add: probe_step_ok)
  qed
  from this [of n] have inv: "length (fst st) = count" "length (readings (snd st)) = count"
    using assms(2) by (simp_all add: train_ok_def st_def)
  have split: "[0..<count] = [0..<n] @ n # [Suc n..<count]"
    using upt_add_eq_append [of 0 n "count - n"] assms(2) by (simp add: upt_conv_Cons)
  obtain sent s' where step: "probe_step wait timeout inputs st n = (sent, s')" by (rule prod.exhaust)
  have "readings s' ! n \<noteq> None" "length (readings s') = count"
    using assms(2-4) inv step
    by (cases st, auto simp: probe_step_def Let_def wait_length)+
  then show ?thesis
    using foldl_keeps [of n s' _ timeout inputs sent "[Suc n..<count]"] assms(2)
    by (auto simp: probe_loop_def split step st_def [symmetric])
qed

end

section \<open>The UDP probe keeps the promise\<close>

lemma credit_echo_cases:
  "credit_echo k tm st rtts = rtts \<or>
   (\<exists>sent. k < length rtts \<and> st ! k = Some sent \<and> rtts ! k = None \<and>
      credit_echo k tm st rtts = rtts[k := Some (as_millis_f64 (tm - sent))])"
  by (auto simp: credit_echo_def split: option.splits)

lemma length_credit_echo [simp]: "length (credit_echo k tm st rtts) = length rtts"
  using credit_echo_cases [of k tm st rtts] by auto

lemma credit_echo_keeps: "n < length rtts \<Longrightarrow> rtts ! n = Some r \<Longrightarrow> credit_echo k tm st rtts ! n = Some r"
  using credit_echo_cases [of k tm st rtts] by (auto simp: nth_list_update)

lemma credit_echo_new:
  assumes "n < length rtts" "rtts ! n = None" "credit_echo k tm st rtts ! n = Some r"
  shows "k = n \<and> (\<exists>sent. st ! n = Some sent \<and> r = as_millis_f64 (tm - sent))"
  using credit_echo_cases [of k tm st rtts] assms by (auto simp: nth_list_update split: if_splits)

lemma credit_echo_self:
  "k < length rtts \<Longrightarrow> st ! k = Some sent \<Longrightarrow> credit_echo k tm st rtts ! k \<noteq> None"
  by (cases "rtts ! k") (simp_all add: credit_echo_def)

text \<open>The probe an echo names and the instant it was handled.\<close>

definition echo_names :: "echo_event \<Rightarrow> (nat \<times> instant) option" where
  "echo_names ev = (case ev of
     Echo buf tm \<Rightarrow> (if 4 \<le> length buf then Some (unat (be32_of (slice 0 4 buf)), tm) else None)
   | _ \<Rightarrow> None)"

lemma length_recv_echoes [simp]: "length (recv_outstanding_echoes n d st evs rtts) = length rtts"
  by (induction n d st evs rtts rule: recv_outstanding_echoes.induct) (auto split: echo_event.splits)

lemma recv_echoes_keep: "k < length rtts \<Longrightarrow> rtts ! k = Some r \<Longrightarrow>
   recv_outstanding_echoes n d st evs rtts ! k = Some r"
  by (induction n d st evs rtts rule: recv_outstanding_echoes.induct)
    (auto simp: credit_echo_keeps split: echo_event.splits)

interpretation udp_train: echo_train recv_outstanding_echoes id echo_names
proof (unfold_locales, goal_cases)
  case (1 n d st evs s)
  show ?case by simp
next
  case (2 k s r n d st evs)
  then show ?case by (simp add: recv_echoes_keep)
next
  case (3 k s n d st evs r)
  then show ?case unfolding id_apply
  proof (induction n d st evs s rule: recv_outstanding_echoes.induct)
    case (2 n d st now ev evs rtts)
    show ?case
    proof (cases "rtts ! n = None \<and> \<not> d \<le> now \<and> (\<exists>buf tm. ev = Echo buf tm \<and> 4 \<le> length buf)")
      case True
      then obtain buf tm where ev: "ev = Echo buf tm" "4 \<le> length buf" by blast
      let ?rtts = "credit_echo (unat (be32_of (slice 0 4 buf))) tm st rtts"
      show ?thesis
      proof (cases "?rtts ! k")
        case None
        then show ?thesis using 2 True ev by auto
      next
        case (Some r')
        then have "recv_outstanding_echoes n d st evs ?rtts ! k = Some r'"
          using "2.prems"(1) by (intro recv_echoes_keep) simp_all
        then have "r' = r" using "2.prems" True ev by auto
        with credit_echo_new [OF "2.prems"(1,2) Some] obtain sent where
          "unat (be32_of (slice 0 4 buf)) = k" "st ! k = Some sent" "r = as_millis_f64 (tm - sent)" by blast
        then show ?thesis
          by (intro exI [of _ now] exI [of _ ev] exI [of _ tm] exI [of _ sent]) (simp add: ev echo_names_def)
      qed
    qed (use 2 in \<open>auto split: echo_event.splits if_splits\<close>)
  qed simp
qed

end
