(* ===== verification/Ping.thy ===== *)
theory Ping
  imports Echo
begin

text \<open>
  The ICMP echo probe, \<open>crates/networker-tester/src/runner/ping.rs\<close>: the request and its
  checksum, reading a reply, the train over the Unix datagram socket, the Windows helper calls,
  and the fallback to TCP connection times when every echo is lost. System calls are inputs: a
  failed socket is its error number and text, a receive is an event of the wait. The address
  resolver is a parameter.
\<close>

record ping_config =
  pg_target_host :: string
  pg_probe_count :: u32
  pg_timeout_ms :: u64
  pg_payload_size :: nat
  pg_fallback_tcp_port :: "u16 option"

definition ping_config_default :: ping_config where
  "ping_config_default = \<lparr>pg_target_host = ''127.0.0.1'', pg_probe_count = 10, pg_timeout_ms = 5000,
     pg_payload_size = 56, pg_fallback_tcp_port = Some 443\<rparr>"

definition ICMP_ECHO_REQUEST :: u8 where "ICMP_ECHO_REQUEST = 8"
definition ICMP_ECHO_REPLY :: u8 where "ICMP_ECHO_REPLY = 0"
definition ICMPV6_ECHO_REQUEST :: u8 where "ICMPV6_ECHO_REQUEST = 128"
definition ICMPV6_ECHO_REPLY :: u8 where "ICMPV6_ECHO_REPLY = 129"

section \<open>The checksum\<close>

fun checksum_sum :: "u32 \<Rightarrow> bytes \<Rightarrow> u32" where
  "checksum_sum acc (a # b # rest) = checksum_sum (acc + ucast (be16_of [a, b])) rest"
| "checksum_sum acc [a] = acc + ucast (be16_of [a, 0])"
| "checksum_sum acc [] = acc"

text \<open>\<open>while sum >> 16 != 0\<close>.\<close>

lemma carry_split: "unat (s :: u32) = unat (drop_bit 16 s) * 2 ^ 16 + unat (s AND 0xFFFF)"
proof -
  have "s AND 0xFFFF = take_bit 16 s" by (simp add: take_bit_eq_mask mask_eq_exp_minus_1)
  then have "unat (s AND 0xFFFF) = take_bit 16 (unat s)" by (simp only: unsigned_take_bit_eq)
  then have "unat (s AND 0xFFFF) = unat s mod 2 ^ 16" by (simp only: take_bit_eq_mod)
  moreover have "unat (drop_bit 16 s) = unat s div 2 ^ 16"
    by (simp only: unat_drop_bit_eq drop_bit_eq_div [where ?'a = nat])
  ultimately show ?thesis by simp
qed

lemma carry_add: "unat ((s AND 0xFFFF) + drop_bit 16 (s :: u32)) = unat (s AND 0xFFFF) + unat (drop_bit 16 s)"
proof -
  have "unat s < 2 ^ LENGTH(32)" by (rule unsigned_less)
  then have "unat (s AND 0xFFFF) + unat (drop_bit 16 s) < 2 ^ LENGTH(32)" using carry_split [of s] by simp
  then show ?thesis by (simp only: unat_add_lem)
qed

function fold_carries :: "u32 \<Rightarrow> u32" where
  "fold_carries s = (if drop_bit 16 s \<noteq> 0 then fold_carries ((s AND 0xFFFF) + drop_bit 16 s) else s)"
  by pat_completeness auto

termination
proof (relation "measure unat")
  fix s :: u32
  assume "drop_bit 16 s \<noteq> 0"
  then have "0 < unat (drop_bit 16 s)" by (simp add: unat_gt_0)
  then show "((s AND 0xFFFF) + drop_bit 16 s, s) \<in> measure unat"
    using carry_split [of s] by (simp add: carry_add)
qed simp

declare fold_carries.simps [simp del]

definition icmp_checksum :: "bytes \<Rightarrow> u16" where
  "icmp_checksum data = NOT (ucast (fold_carries (checksum_sum 0 data)))"

section \<open>Requests and replies\<close>

definition build_echo_request :: "nat \<Rightarrow> ip_addr \<Rightarrow> u16 \<Rightarrow> u16 \<Rightarrow> u64 \<Rightarrow> bytes" where
  "build_echo_request len addr ident seq now_us =
     (let packet = (replicate len 0)[0 := (if is_ipv6 addr then ICMPV6_ECHO_REQUEST else ICMP_ECHO_REQUEST)];
          packet = splice 4 (be16_bytes ident) packet;
          packet = splice 6 (be16_bytes seq) packet;
          packet = splice 8 (be64_bytes now_us) packet
      in if is_ipv6 addr then packet else splice 2 (be16_bytes (icmp_checksum packet)) packet)"

datatype echo_kind = Reply | OtherKind

text \<open>The ICMP message and the time to live of the IP header, where the datagram has one.\<close>

definition strip_ip_header :: "ip_addr \<Rightarrow> bytes \<Rightarrow> bytes \<times> u32 option" where
  "strip_ip_header addr data =
     (if \<not> is_ipv6 addr \<and> 20 \<le> length data \<and> drop_bit 4 (data ! 0) = 4
      then let ihl = unat (data ! 0 AND 0x0F) * 4
           in if 20 \<le> ihl \<and> ihl < length data then (drop ihl data, Some (ucast (data ! 8))) else (data, None)
      else (data, None))"

definition parse_echo_reply :: "ip_addr \<Rightarrow> bytes \<Rightarrow> (echo_kind \<times> u16 \<times> u16 \<times> u32 option) option" where
  "parse_echo_reply addr data =
     (let (icmp, hdr_ttl) = strip_ip_header addr data
      in if length icmp < 8 then None
         else let expected = (if is_ipv6 addr then ICMPV6_ECHO_REPLY else ICMP_ECHO_REPLY)
              in Some (if icmp ! 0 = expected then Reply else OtherKind,
                   be16_of (slice 4 6 icmp), be16_of (slice 6 8 icmp), hdr_ttl))"

section \<open>The train over a Unix socket\<close>

text \<open>A datagram with the time to live of its control message, a slice of waiting that passed, or a
  hard error.\<close>

datatype ping_event = PingDatagram bytes "u32 option" instant | SliceElapsed | PingFailed

type_synonym ping_state = "f64 option list \<times> u32 option"

definition credit_reply :: "instant option list \<Rightarrow> ip_addr \<Rightarrow> bytes \<Rightarrow> u32 option \<Rightarrow> instant \<Rightarrow>
   ping_state \<Rightarrow> ping_state" where
  "credit_reply send_times addr data ttl tm s =
     (case parse_echo_reply addr data of
        Some (Reply, ident, seq, hdr_ttl) \<Rightarrow>
          (let idx = unat seq; (rtts, reply_ttl) = s
           in if idx < length rtts \<and> send_times ! idx \<noteq> None \<and> rtts ! idx = None
              then (credit_echo idx tm send_times rtts,
                    case (case ttl of Some t \<Rightarrow> Some t | None \<Rightarrow> hdr_ttl) of Some t \<Rightarrow> Some t | None \<Rightarrow> reply_ttl)
              else s)
      | _ \<Rightarrow> s)"

fun recv_until :: "ip_addr \<Rightarrow> nat \<Rightarrow> instant \<Rightarrow> instant option list \<Rightarrow> (instant \<times> ping_event) list \<Rightarrow>
   ping_state \<Rightarrow> ping_state" where
  "recv_until addr current deadline send_times [] s = s"
| "recv_until addr current deadline send_times ((now, ev) # evs) s =
     (if fst s ! current \<noteq> None then s
      else if deadline \<le> now then s
      else case ev of
        PingDatagram data ttl tm \<Rightarrow>
          recv_until addr current deadline send_times evs (credit_reply send_times addr data ttl tm s)
      | SliceElapsed \<Rightarrow> recv_until addr current deadline send_times evs s
      | PingFailed \<Rightarrow> s)"

datatype ping_error = Permission string string | Unsupported string | Io string

datatype errno = EACCES | EPERM | EPROTONOSUPPORT | EAFNOSUPPORT | OtherErrno

definition permission_hint :: "bool \<Rightarrow> string" where
  "permission_hint linux =
     (if linux
      then ''Linux gates ICMP datagram sockets by group: add this process's gid to net.ipv4.ping_group_range, '' @
        ''e.g. `sudo sysctl -w net.ipv4.ping_group_range='0 2147483647'` (persist in /etc/sysctl.d/).''
      else ''This platform denied SOCK_DGRAM ICMP '' @ em_dash @
        '' run with elevated privileges or use the tcp/udp probes.'')"

text \<open>What a refused socket is reported as.\<close>

definition open_icmp_socket :: "bool \<Rightarrow> (errno \<times> string) + unit \<Rightarrow> ping_error + unit" where
  "open_icmp_socket linux r = (case r of
     Inl (no, err) \<Rightarrow> Inl
       (case no of
          EACCES \<Rightarrow> Permission (''OS denied the unprivileged ICMP datagram socket ('' @ err @ '')'') (permission_hint linux)
        | EPERM \<Rightarrow> Permission (''OS denied the unprivileged ICMP datagram socket ('' @ err @ '')'') (permission_hint linux)
        | EPROTONOSUPPORT \<Rightarrow> Unsupported (''unprivileged ICMP datagram sockets are not supported here ('' @ err @ '')'')
        | EAFNOSUPPORT \<Rightarrow> Unsupported (''unprivileged ICMP datagram sockets are not supported here ('' @ err @ '')'')
        | OtherErrno \<Rightarrow> Io (''ICMP socket creation failed: '' @ err))
   | Inr _ \<Rightarrow> Inr ())"

definition unix_ping :: "bool \<Rightarrow> (errno \<times> string) + unit \<Rightarrow> (nat \<Rightarrow> ping_event echo_input) \<Rightarrow>
   ip_addr \<Rightarrow> u32 \<Rightarrow> u64 \<Rightarrow> nat \<Rightarrow> ping_error + ping_state" where
  "unix_ping linux sock inputs addr count timeout_ms payload_size =
     (case open_icmp_socket linux sock of
        Inl e \<Rightarrow> Inl e
      | Inr _ \<Rightarrow> Inr (snd (probe_loop (recv_until addr) (from_millis (unat timeout_ms)) (unat count) inputs
          (replicate (unat count) None, None))))"

text \<open>The request of probe \<open>n\<close>, whose number is cut to sixteen bits.\<close>

definition ping_packet :: "ip_addr \<Rightarrow> nat \<Rightarrow> u16 \<Rightarrow> nat \<Rightarrow> u64 \<Rightarrow> bytes" where
  "ping_packet addr payload_size ident n now_us =
     build_echo_request (8 + max payload_size 8) addr ident (of_nat n) now_us"

section \<open>The Windows helper\<close>

text \<open>One helper call: a reply with its status, its time to live and the instants around the call,
  or no reply and the error code.\<close>

datatype win_outcome = WinReply u32 u8 instant instant | WinNone u32

definition IP_SUCCESS :: u32 where "IP_SUCCESS = 0"
definition ERROR_ACCESS_DENIED :: u32 where "ERROR_ACCESS_DENIED = 5"

definition classify_send_error :: "u32 \<Rightarrow> ping_error + f64 option" where
  "classify_send_error no =
     (if 11000 \<le> no \<and> no \<le> 11999 then Inr None
      else Inl (Io (''IcmpSendEcho failed (error '' @ decimal (unat no) @ '')'')))"

text \<open>The loops over the calls: with IPv4 the reply's time to live is kept, with IPv6 there is none.\<close>

fun win_loop :: "bool \<Rightarrow> win_outcome list \<Rightarrow> ping_state \<Rightarrow> ping_error + ping_state" where
  "win_loop v6 [] s = Inr s"
| "win_loop v6 (WinReply status ttl sent tm # os) (rtts, reply_ttl) =
     (if status = IP_SUCCESS
      then win_loop v6 os (rtts @ [Some (as_millis_f64 (tm - sent))], if v6 then None else Some (ucast ttl))
      else win_loop v6 os (rtts @ [None], reply_ttl))"
| "win_loop v6 (WinNone no # os) (rtts, reply_ttl) = (case classify_send_error no of
     Inl e \<Rightarrow> Inl e
   | Inr r \<Rightarrow> win_loop v6 os (rtts @ [r], reply_ttl))"

definition win_open :: "u32 option \<Rightarrow> ping_error + unit" where
  "win_open err = (case err of
     None \<Rightarrow> Inr ()
   | Some no \<Rightarrow> Inl
       (if no = ERROR_ACCESS_DENIED
        then Permission (''Windows denied the ICMP helper handle (error '' @ decimal (unat no) @ '')'')
          (''IcmpCreateFile normally needs no privileges '' @ em_dash @
           '' check endpoint security policies, or use the tcp/udp probes.'')
        else Io (''IcmpCreateFile failed (error '' @ decimal (unat no) @ '')'')))"

definition win_ping :: "u32 option \<Rightarrow> (nat \<Rightarrow> win_outcome) \<Rightarrow> ip_addr \<Rightarrow> u32 \<Rightarrow> u64 \<Rightarrow> nat \<Rightarrow>
   ping_error + ping_state" where
  "win_ping err outcomes addr count timeout_ms payload_size =
     (case win_open err of
        Inl e \<Rightarrow> Inl e
      | Inr _ \<Rightarrow> win_loop (is_ipv6 addr) (map outcomes [0..<unat count]) ([], None))"

section \<open>The probe\<close>

record ping_result =
  pr_remote_addr :: string
  pr_probe_count :: u32
  pr_success_count :: u32
  pr_loss_percent :: f64
  pr_rtt_min_ms :: f64
  pr_rtt_avg_ms :: f64
  pr_rtt_p95_ms :: f64
  pr_jitter_ms :: f64
  pr_probe_rtts_ms :: "f64 option list"
  pr_reply_ttl :: "u32 option"
  pr_fallback_method :: "string option"
  pr_fallback_port :: "u16 option"
  pr_started_at :: nat

record ping_attempt = attempt +
  at_ping :: "ping_result option"

definition ping_attempt_of :: "attempt_ids \<Rightarrow> ping_result \<Rightarrow> bool \<Rightarrow> ping_attempt" where
  "ping_attempt_of ids r ok = attempt.extend (attempt_new ids Ping ok None) \<lparr>at_ping = Some r\<rparr>"

definition ping_failed :: "attempt_ids \<Rightarrow> error_category \<Rightarrow> string \<Rightarrow> string option \<Rightarrow> ping_attempt" where
  "ping_failed ids category message detail =
     attempt.extend (attempt_new ids Ping False (Some ((error_of ids category message)\<lparr>er_detail := detail\<rparr>)))
       \<lparr>at_ping = None\<rparr>"

record host_resolver =
  hr_parse :: "string \<Rightarrow> ip_addr option"
  hr_lookup :: "string \<Rightarrow> string + ip_addr list"

definition strip_brackets :: "string \<Rightarrow> string" where
  "strip_brackets host = rev (dropWhile (\<lambda>c. c = CHR '']'') (rev (dropWhile (\<lambda>c. c = CHR ''['') host)))"

definition resolve_host :: "host_resolver \<Rightarrow> string \<Rightarrow> string + ip_addr" where
  "resolve_host hr host =
     (let host = strip_brackets host
      in case hr_parse hr host of
          Some ip \<Rightarrow> Inr ip
        | None \<Rightarrow> (case hr_lookup hr host of
            Inr (ip # _) \<Rightarrow> Inr ip
          | Inr [] \<Rightarrow> Inl (''No address resolved for '' @ host)
          | Inl e \<Rightarrow> Inl (''DNS error for '' @ host @ '': '' @ e)))"

text \<open>A connection attempt: the instant before it and, when it was made in time, the one after.\<close>

definition tcp_rtt_probes :: "(nat \<Rightarrow> instant \<times> instant option) \<Rightarrow> u32 \<Rightarrow> f64 option list" where
  "tcp_rtt_probes connects count =
     map (\<lambda>i. map_option (\<lambda>t. as_millis_f64 (t - fst (connects i))) (snd (connects i))) [0..<unat count]"

definition ping_result_of :: "attempt_ids \<Rightarrow> ip_addr \<Rightarrow> u32 \<Rightarrow> f64 option list \<Rightarrow> u32 option \<Rightarrow> u16 option \<Rightarrow> ping_result" where
  "ping_result_of ids addr count rtts ttl fallback =
     (let stats = aggregate_udp_rtts rtts
      in \<lparr>pr_remote_addr = show_ip addr, pr_probe_count = count, pr_success_count = count_received rtts,
          pr_loss_percent = rtt_loss_percent stats, pr_rtt_min_ms = rtt_min stats,
          pr_rtt_avg_ms = rtt_avg stats, pr_rtt_p95_ms = rtt_p95 stats, pr_jitter_ms = rtt_jitter stats,
          pr_probe_rtts_ms = rtts, pr_reply_ttl = ttl,
          pr_fallback_method = map_option (\<lambda>_. ''tcp-rtt'') fallback, pr_fallback_port = fallback,
          pr_started_at = ai_started_at ids\<rparr>)"

text \<open>\<open>backend\<close> is the platform's ping, \<open>task\<close> the failure of the worker it runs on.\<close>

definition run_ping_probe ::
  "host_resolver \<Rightarrow> (ip_addr \<Rightarrow> u32 \<Rightarrow> u64 \<Rightarrow> nat \<Rightarrow> ping_error + ping_state) \<Rightarrow> string option \<Rightarrow>
   (nat \<Rightarrow> instant \<times> instant option) \<Rightarrow> attempt_ids \<Rightarrow> ping_config \<Rightarrow> ping_attempt" where
  "run_ping_probe hr backend task connects ids cfg = (case resolve_host hr (pg_target_host cfg) of
     Inl msg \<Rightarrow> ping_failed ids DnsError msg None
   | Inr addr \<Rightarrow>
       (let count = max (pg_probe_count cfg) 1;
            timeout_ms = max (pg_timeout_ms cfg) 1
        in case task of
          Some e \<Rightarrow> ping_failed ids OtherError (''ping worker task failed: '' @ e) None
        | None \<Rightarrow> (case backend addr count timeout_ms (pg_payload_size cfg) of
            Inl (Permission message hint) \<Rightarrow> ping_failed ids ConfigError message (Some hint)
          | Inl (Unsupported message) \<Rightarrow> ping_failed ids ConfigError message None
          | Inl (Io message) \<Rightarrow> ping_failed ids OtherError message None
          | Inr (rtts, reply_ttl) \<Rightarrow>
              (let success_count = count_received rtts;
                   icmp = ping_attempt_of ids (ping_result_of ids addr count rtts reply_ttl None) (0 < success_count);
                   tcp_rtts = tcp_rtt_probes connects count
               in if success_count = 0 \<and> 0 < count
                  then case pg_fallback_tcp_port cfg of
                      Some port \<Rightarrow>
                        (if 0 < count_received tcp_rtts
                         then ping_attempt_of ids (ping_result_of ids addr count tcp_rtts None (Some port)) True
                         else icmp)
                    | None \<Rightarrow> icmp
                  else icmp))))"

end
