(* ===== verification/Echo_Properties.thy ===== *)
theory Echo_Properties
  imports Ping
begin

text \<open>
  The properties of the echo trains: what a reading of the UDP echo probe or of the ping probe
  rests on and when an echo is credited, the probe composed with the echo server, the checksum of
  an ICMP request, the reading of replies, and the labelled fallback.
\<close>

section \<open>The Internet checksum\<close>

text \<open>
  The Internet checksum of \<open>Ping\<close>: the sum of sixteen-bit pieces as a natural number, what folding
  the carries keeps of it, and the equation a receiver checks.
\<close>

fun pair_sum :: "bytes \<Rightarrow> nat" where
  "pair_sum (a # b # rest) = unat a * 256 + unat b + pair_sum rest"
| "pair_sum [a] = unat a * 256"
| "pair_sum [] = 0"

lemma unat_u8: "unat (a :: u8) < 256"
  using unsigned_less [of a, where ?'a = nat] by simp

lemma unat_be16_of: "unat (be16_of [a, b]) = unat a * 256 + unat b"
proof -
  have "push_bit 8 (ucast a) OR ucast b = push_bit 8 (ucast a) + (ucast b :: u16)"
  proof (rule disjunctive_add [symmetric])
    show "\<not> bit (push_bit 8 (ucast a :: u16)) n \<or> \<not> bit (ucast b :: u16) n" for n
      by (auto simp: bit_simps dest: bit_imp_le_length)
  qed
  moreover have "unat (push_bit 8 (ucast a :: u16)) = unat a * 256"
    using unat_u8 [of a] by (simp add: push_bit_eq_mult unat_word_ariths unsigned_ucast_eq take_bit_nat_eq_self)
  moreover have "unat (ucast b :: u16) = unat b"
    using unat_u8 [of b] by (simp add: unsigned_ucast_eq take_bit_nat_eq_self)
  ultimately show ?thesis
    using unat_u8 [of a] unat_u8 [of b] by (simp add: unat_word_ariths)
qed

lemma pair_sum_le: "pair_sum data \<le> 65535 * length data"
proof (induction data rule: pair_sum.induct)
  case (1 a b rest)
  then show ?case using unat_u8 [of a] unat_u8 [of b] by simp
next
  case (2 a)
  then show ?case using unat_u8 [of a] by simp
qed simp

lemma checksum_sum_eq:
  "unat acc + pair_sum data < 2 ^ 32 \<Longrightarrow> unat (checksum_sum acc data) = unat acc + pair_sum data"
proof (induction acc data rule: checksum_sum.induct)
  case (1 acc a b rest)
  have u: "unat (ucast (be16_of [a, b]) :: u32) = unat a * 256 + unat b"
    using unat_be16_of [of a b] unat_u8 [of a] unat_u8 [of b]
    by (simp add: unsigned_ucast_eq take_bit_nat_eq_self del: be16_of.simps)
  have "unat (acc + ucast (be16_of [a, b])) = unat acc + (unat a * 256 + unat b)"
    using "1.prems" u by (subst unat_add_lem [THEN iffD1]) (simp_all del: be16_of.simps)
  with 1 show ?case by (simp del: be16_of.simps)
next
  case (2 acc a)
  have u: "unat (ucast (be16_of [a, 0]) :: u32) = unat a * 256"
    using unat_be16_of [of a 0] unat_u8 [of a]
    by (simp add: unsigned_ucast_eq take_bit_nat_eq_self del: be16_of.simps)
  have "unat (acc + ucast (be16_of [a, 0])) = unat acc + unat a * 256"
    using 2 u by (subst unat_add_lem [THEN iffD1]) (simp_all del: be16_of.simps)
  then show ?case by (simp del: be16_of.simps)
qed simp

text \<open>Folding keeps the residue modulo 65535 and does not reach zero from elsewhere.\<close>

lemma fold_carries_facts:
  "unat (fold_carries s) < 2 ^ 16 \<and> unat (fold_carries s) mod 65535 = unat s mod 65535 \<and>
   (unat (fold_carries s) = 0 \<longleftrightarrow> unat s = 0)"
proof (induction s rule: fold_carries.induct)
  case (1 s)
  show ?case
  proof (cases "drop_bit 16 s = 0")
    case True
    then have "unat (drop_bit 16 s) = 0" by simp
    then have "unat s = unat s mod 2 ^ 16"
      by (metis carry_split True unat_0 add_0 mult_0 unat_drop_bit_eq drop_bit_eq_div div_mult_mod_eq)
    then have "unat s < 2 ^ 16" by (metis mod_less_divisor zero_less_numeral zero_less_power)
    then show ?thesis using True by (simp add: fold_carries.simps [of s])
  next
    case False
    let ?t = "(s AND 0xFFFF) + drop_bit 16 s"
    have t: "unat s = unat ?t + unat (drop_bit 16 s) * 65535"
      using carry_split [of s] by (simp add: carry_add)
    then have "unat s mod 65535 = unat ?t mod 65535" by simp
    moreover have "0 < unat (drop_bit 16 s)" using False by (simp add: unat_gt_0)
    then have "unat ?t \<noteq> 0" by (simp add: carry_add)
    ultimately show ?thesis
      using 1 [OF False] t False by (simp add: fold_carries.simps [of s])
  qed
qed

lemma checksum_residue:
  assumes "pair_sum data < 2 ^ 32"
  shows "\<exists>r. unat (icmp_checksum data) = 65535 - r \<and> r \<le> 65535 \<and> r mod 65535 = pair_sum data mod 65535 \<and>
    (r = 0 \<longleftrightarrow> pair_sum data = 0)"
proof -
  define r where "r = unat (fold_carries (checksum_sum 0 data))"
  have s: "unat (checksum_sum 0 data) = pair_sum data" using checksum_sum_eq [of 0 data] assms by simp
  have f: "r < 2 ^ 16" "r mod 65535 = pair_sum data mod 65535" "r = 0 \<longleftrightarrow> pair_sum data = 0"
    using fold_carries_facts [of "checksum_sum 0 data"] by (simp_all add: r_def s)
  have "unat (ucast (fold_carries (checksum_sum 0 data)) :: u16) = r"
    using f(1) by (simp add: r_def unsigned_ucast_eq take_bit_nat_eq_self)
  moreover have "unat (NOT w) = 65535 - unat w" for w :: u16
  proof -
    have "NOT w = - 1 - w" by (simp add: not_eq_complement)
    moreover have "unat (- 1 - w) = unat (- 1 :: u16) - unat w" by (rule unat_sub) simp
    moreover have "unat (- 1 :: u16) = 65535" by (simp add: unsigned_minus_1_eq_mask mask_eq_exp_minus_1)
    ultimately show ?thesis by simp
  qed
  ultimately have "unat (icmp_checksum data) = 65535 - r" by (simp add: icmp_checksum_def)
  then show ?thesis using f by (intro exI [of _ r]) simp
qed

text \<open>With the checksum in place of the zeros it was computed over, the sum is all ones.\<close>

lemma checksum_verifies:
  assumes "pair_sum data < 2 ^ 32 - 65536" "0 < pair_sum data" "2 \<le> length data"
    and "pair_sum data' = pair_sum data + unat (icmp_checksum data)"
  shows "icmp_checksum data' = 0"
proof -
  from checksum_residue [of data] assms(1) obtain r where
    r: "unat (icmp_checksum data) = 65535 - r" "r \<le> 65535" "r mod 65535 = pair_sum data mod 65535" by auto
  have "pair_sum data' mod 65535 = (r + (65535 - r)) mod 65535"
    unfolding assms(4) r(1) using r(3) by (metis mod_add_left_eq)
  then have z: "pair_sum data' mod 65535 = 0" using r(2) by simp
  have pos: "0 < pair_sum data'" "pair_sum data' < 2 ^ 32" using assms(1,2,4) r(1) by simp_all
  from checksum_residue [OF pos(2)] obtain r' where
    r': "unat (icmp_checksum data') = 65535 - r'" "r' \<le> 65535" "r' mod 65535 = 0" "r' \<noteq> 0"
    using z pos(1) by auto
  then have "r' = 65535" by (metis dvd_eq_mod_eq_0 dvd_imp_le le_antisym neq0_conv)
  then show ?thesis using r'(1) by (simp add: unat_eq_zero)
qed

lemma pair_sum_splice:
  assumes "4 \<le> length data" "data ! 2 = 0" "data ! 3 = 0"
  shows "pair_sum (splice 2 (be16_bytes w) data) = pair_sum data + unat w"
proof -
  obtain a b c d rest where d: "data = a # b # c # d # rest"
    using assms(1) by (auto simp: Suc_le_length_iff eval_nat_numeral)
  have cd: "c = 0" "d = 0" using assms(2,3) by (simp_all add: d numeral_eq_Suc)
  obtain x y where xy: "be16_bytes w = [x, y]" by (simp add: be16_bytes_def)
  have "unat x * 256 + unat y = unat w"
    using be16_of_bytes [of w] unat_be16_of [of x y] by (simp add: xy del: be16_of.simps)
  then show ?thesis by (simp add: splice_def xy d cd numeral_eq_Suc)
qed

section \<open>The UDP echo train\<close>

text \<open>The echo of probe \<open>n\<close> arrives before the deadline, after any other datagrams.\<close>

definition echo_arrives :: "nat \<Rightarrow> instant \<Rightarrow> (instant \<times> echo_event) list \<Rightarrow> bool" where
  "echo_arrives n deadline evs \<longleftrightarrow> (\<exists>pre now buf tm post. evs = pre @ (now, Echo buf tm) # post \<and>
     now < deadline \<and> (\<forall>(t, e) \<in> set pre. t < deadline \<and> (\<exists>b u. e = Echo b u)) \<and>
     4 \<le> length buf \<and> unat (be32_of (slice 0 4 buf)) = n)"

lemma recv_echoes_deliver:
  assumes "n < length rtts" "st ! n = Some sent" "now < d" "4 \<le> length buf"
    "unat (be32_of (slice 0 4 buf)) = n" "\<forall>(t, e) \<in> set pre. t < d \<and> (\<exists>b u. e = Echo b u)"
  shows "recv_outstanding_echoes n d st (pre @ (now, Echo buf tm) # post) rtts ! n \<noteq> None"
  using assms
proof (induction pre arbitrary: rtts)
  case Nil
  show ?case
  proof (cases "rtts ! n")
    case None
    have "credit_echo n tm st rtts ! n \<noteq> None" using Nil by (intro credit_echo_self) simp_all
    then obtain r where "credit_echo n tm st rtts ! n = Some r" by blast
    then show ?thesis using Nil None recv_echoes_keep [of n "credit_echo n tm st rtts" r n d st post]
      by (simp add: not_le)
  qed (use Nil recv_echoes_keep in simp)
next
  case (Cons p pre)
  obtain t b u where p: "p = (t, Echo b u)" "t < d" using Cons.prems by (cases p) auto
  show ?case
  proof (cases "rtts ! n")
    case None
    then show ?thesis using Cons p by (simp add: not_le)
  qed (use Cons.prems recv_echoes_keep in simp)
qed

text \<open>The UDP echo probe credits every echo to the probe that it names and to no other. There is
  one slot for each probe; a reading of probe \<open>k\<close> is the time from the sending of \<open>k\<close> to the
  handling of a datagram that carries the number \<open>k\<close> and was seen while \<open>k\<close> or a later probe was
  waited for; and a probe whose echo arrives within its window has a reading, whatever else
  arrives before it.\<close>

theorem udp_echo_credits:
  defines "count cfg \<equiv> unat (up_probe_count cfg)"
  shows "length (udp_echo_train cfg inputs) = count cfg \<and>
    (\<forall>k < count cfg. \<forall>r. udp_echo_train cfg inputs ! k = Some r \<longrightarrow> ec_send_ok (inputs k) \<and>
      (\<exists>j now buf tm. k \<le> j \<and> j < count cfg \<and> (now, Echo buf tm) \<in> set (ec_events (inputs j)) \<and>
         unat (be32_of (slice 0 4 buf)) = k \<and> r = as_millis_f64 (tm - ec_sent_at (inputs k)))) \<and>
    (\<forall>n < count cfg. ec_send_ok (inputs n) \<longrightarrow>
      echo_arrives n (ec_sent_at (inputs n) + from_millis (unat (up_timeout_ms cfg))) (ec_events (inputs n)) \<longrightarrow>
      udp_echo_train cfg inputs ! n \<noteq> None)"
proof (intro conjI allI impI)
  let ?t = "from_millis (unat (up_timeout_ms cfg))"
  have train: "udp_echo_train cfg inputs =
      id (snd (probe_loop recv_outstanding_echoes ?t (count cfg) inputs (replicate (count cfg) None)))"
    by (simp add: udp_echo_train_def count_def Let_def)
  have init: "id (replicate (count cfg) None) = replicate (count cfg) (None :: f64 option)" by simp
  show "length (udp_echo_train cfg inputs) = count cfg"
    unfolding train by (rule udp_train.train_credits(1) [OF init])
  fix k r assume k: "k < count cfg" "udp_echo_train cfg inputs ! k = Some r"
  note c = udp_train.train_credits(2) [OF init k(1) k(2) [unfolded train]]
  then show "ec_send_ok (inputs k)" by (simp add: udp_train.read_from_def)
  from c obtain j now ev tm where e: "k \<le> j" "j < count cfg" "(now, ev) \<in> set (ec_events (inputs j))"
    "echo_names ev = Some (k, tm)" "r = as_millis_f64 (tm - ec_sent_at (inputs k))"
    by (auto simp: udp_train.read_from_def)
  then show "\<exists>j now buf tm. k \<le> j \<and> j < count cfg \<and> (now, Echo buf tm) \<in> set (ec_events (inputs j)) \<and>
      unat (be32_of (slice 0 4 buf)) = k \<and> r = as_millis_f64 (tm - ec_sent_at (inputs k))"
    by (auto simp: echo_names_def split: echo_event.splits if_splits)
next
  let ?t = "from_millis (unat (up_timeout_ms cfg))"
  fix n assume n: "n < count cfg" "ec_send_ok (inputs n)"
    "echo_arrives n (ec_sent_at (inputs n) + ?t) (ec_events (inputs n))"
  then show "udp_echo_train cfg inputs ! n \<noteq> None"
    using udp_train.train_delivers [of "replicate (count cfg) None" "count cfg" n inputs ?t] recv_echoes_deliver
    by (fastforce simp: udp_echo_train_def count_def echo_arrives_def Let_def)
qed


theorem udp_echo_credits_witness:
  defines "cfg \<equiv> udp_probe_config_default\<lparr>up_probe_count := 2\<rparr>"
    and "inputs \<equiv> \<lambda>n. \<lparr>ec_send_ok = True, ec_sent_at = 10 ^ 10 * n,
      ec_events = (if n = 1 then [(10 ^ 10 + 1, Echo [0, 0, 0, 0] (10 ^ 10 + 2)),
        (10 ^ 10 + 3, Echo [0, 0, 0, 1] (10 ^ 10 + 4))] else [])\<rparr>"
  shows "udp_echo_train cfg inputs ! 1 \<noteq> None"
proof -
  have c: "unat (up_probe_count cfg) = 2" by (simp add: cfg_def)
  have "echo_arrives 1 (ec_sent_at (inputs 1) + from_millis (unat (up_timeout_ms cfg))) (ec_events (inputs 1))"
    unfolding echo_arrives_def
    by (rule exI [of _ "[(10 ^ 10 + 1, Echo [0, 0, 0, 0] (10 ^ 10 + 2))]"],
      rule exI [of _ "10 ^ 10 + 3"], rule exI [of _ "[0, 0, 0, 1]"])
      (simp add: inputs_def cfg_def udp_probe_config_default_def from_millis_def slice_def)
  then show ?thesis
    using udp_echo_credits [of cfg inputs] by (simp add: c inputs_def)
qed

section \<open>The probe and the server together\<close>

text \<open>A path that loses nothing: probe \<open>n\<close> is sent at \<open>sent n\<close>, the server receives it from the
  client at the address \<open>dst\<close>, and what the server sends is read at \<open>got n\<close>.\<close>

definition clean_echo :: "nat \<Rightarrow> socket_addr \<Rightarrow> ip_addr option \<Rightarrow> (nat \<Rightarrow> u64) \<Rightarrow> (nat \<Rightarrow> instant) \<Rightarrow>
   (nat \<Rightarrow> instant) \<Rightarrow> nat \<Rightarrow> echo_event echo_input" where
  "clean_echo payload client dst stamp sent got n =
     \<lparr>ec_send_ok = True, ec_sent_at = sent n,
      ec_events = map (\<lambda>e. (sent n, Echo (eo_data e) (got n)))
        (case run_udp_echo (Some \<lparr>rv_data = echo_packet payload n (stamp n), rv_from = client, rv_dst_ip = dst\<rparr>) of
           Some e \<Rightarrow> [e] | None \<Rightarrow> [])\<rparr>"

lemma echo_packet_number:
  assumes "n < 2 ^ 32"
  shows "4 \<le> length (echo_packet payload n stamp)"
    and "unat (be32_of (slice 0 4 (echo_packet payload n stamp))) = n"
proof -
  have l: "12 \<le> length (replicate (max payload 12) (0 :: u8))" by simp
  show "4 \<le> length (echo_packet payload n stamp)"
    using l by (simp add: echo_packet_def del: length_replicate)
  have "slice 0 4 (echo_packet payload n stamp) = be32_bytes (of_nat n)"
    unfolding echo_packet_def using l
    by (subst slice_splice_other) (simp_all add: slice_splice_same del: length_replicate)
  then show "unat (be32_of (slice 0 4 (echo_packet payload n stamp))) = n"
    using assms by (simp add: unsigned_of_nat take_bit_nat_eq_self)
qed

lemma clean_echo_sent [simp]:
  "ec_send_ok (clean_echo payload client dst stamp sent got n)"
  "ec_sent_at (clean_echo payload client dst stamp sent got n) = sent n"
  by (simp_all add: clean_echo_def)

lemma clean_step:
  assumes "n < 2 ^ 32" "n < length rtts" "rtts ! n = None" "st ! n = Some (sent n)" "0 < timeout"
  shows "recv_outstanding_echoes n (sent n + timeout) st (ec_events (clean_echo payload client dst stamp sent got n)) rtts =
    rtts[n := Some (as_millis_f64 (got n - sent n))]"
  using assms echo_packet_number [OF assms(1), of payload "stamp n"]
  by (simp add: clean_echo_def run_udp_echo_def credit_echo_def)

lemma clean_train:
  assumes "0 < up_timeout_ms cfg"
  shows "udp_echo_train cfg (clean_echo payload client dst stamp sent got) =
    map (\<lambda>n. Some (as_millis_f64 (got n - sent n))) [0..<unat (up_probe_count cfg)]"
proof -
  define c where "c = unat (up_probe_count cfg)"
  define t where "t = from_millis (unat (up_timeout_ms cfg))"
  have c: "c < 2 ^ 32" unfolding c_def using unsigned_less [of "up_probe_count cfg"] by simp
  have t: "0 < t" using assms by (simp add: t_def from_millis_def unat_gt_0 word_neq_0_conv)
  let ?in = "clean_echo payload client dst stamp sent got"
  let ?st = "\<lambda>m. (map (\<lambda>n. Some (sent n)) [0..<m] @ replicate (c - m) None,
      map (\<lambda>n. Some (as_millis_f64 (got n - sent n))) [0..<m] @ replicate (c - m) None)"
  have "m \<le> c \<Longrightarrow> foldl (probe_step recv_outstanding_echoes t ?in) (replicate c None, replicate c None) [0..<m] = ?st m" for m
  proof (induction m)
    case (Suc m)
    then have "c - m = Suc (c - Suc m)" by simp
    then have upd: "(map f [0..<m] @ replicate (c - m) None)[m := x] = map f [0..<m] @ x # replicate (c - Suc m) None"
      for f :: "nat \<Rightarrow> 'b option" and x by (simp add: list_update_append)
    have "probe_step recv_outstanding_echoes t ?in (?st m) m = ?st (Suc m)"
      using Suc.prems c t
      by (simp add: probe_step_def Let_def clean_step upd nth_append)
    then show ?case using Suc by simp
  qed simp
  from this [of c] show ?thesis
    by (simp add: udp_echo_train_def probe_loop_def c_def [symmetric] t_def [symmetric] Let_def)
qed

lemma all_received: "None \<notin> set rtts \<Longrightarrow> length (filter (\<lambda>r. r \<noteq> None) rtts) = length rtts"
  by (induction rtts) (auto simp: eq_commute [of None])

lemma loss_of_full: "0 < n \<Longrightarrow> loss_of n n = 0"
  using fl_pos [of "real n"] by (simp add: loss_of_def f64_ops Let_def)

lemma all_received_loss:
  assumes "None \<notin> set rtts" "rtts \<noteq> []"
  shows "rtt_loss_percent (aggregate_udp_rtts rtts) = 0"
proof -
  have "length (received_of rtts) = length rtts" using all_received [OF assms(1)] by (simp add: received_of_def)
  then show ?thesis using assms(2) loss_of_full by (auto simp: aggregate_udp_rtts_def Let_def)
qed

lemma no_loss_pattern:
  assumes "None \<notin> set rtts" "compute_loss_pattern rtts = Some p"
  shows "lp_classification p = ''no-loss''"
proof -
  have "loss_runs i xs = []" if "None \<notin> set xs" for i and xs :: "f64 option list"
    using that by (induction i xs rule: loss_runs.induct) simp_all
  from this [OF assms(1)] show ?thesis
    using assms(2) by (auto simp: compute_loss_pattern_def Let_def split: if_splits)
qed

text \<open>The UDP echo probe against the repository's own echo server, over a path that loses
  nothing and is faster than the probe's timeout: the attempt succeeds, every probe is counted
  as answered, the loss is zero, every reading is the time from that probe's sending to the
  reading of its echo, there is no loss pattern and no error.\<close>

theorem udp_echo_end_to_end:
  fixes cfg sent got ids io
  defines "rtts \<equiv> map (\<lambda>n. Some (as_millis_f64 (got n - sent n))) [0..<unat (up_probe_count cfg)]"
  assumes path: "ui_target io = Inr target" "ui_bind io = Inr ()" "ui_connect io = Inr ()"
    "ui_inputs io = clean_echo (up_payload_size cfg) client dst stamp sent got"
    and pos: "0 < up_probe_count cfg" "0 < up_timeout_ms cfg"
  shows "at_success (run_udp_probe cfg ids io) \<and> at_error (run_udp_probe cfg ids io) = None \<and>
    (\<exists>r. at_udp (run_udp_probe cfg ids io) = Some r \<and> ue_probe_rtts_ms r = rtts \<and>
      ue_success_count r = up_probe_count cfg \<and> ue_probe_count r = up_probe_count cfg \<and>
      ue_loss_percent r = 0 \<and> (\<forall>p. ue_loss_pattern r = Some p \<longrightarrow> lp_classification p = ''no-loss''))"
proof -
  let ?rtts = "udp_echo_train cfg (ui_inputs io)"
  have "?rtts = rtts" unfolding rtts_def path(4) by (rule clean_train) (rule pos(2))
  moreover have n: "length rtts = unat (up_probe_count cfg)" "None \<notin> set rtts" by (auto simp: rtts_def)
  moreover have "count_received rtts = up_probe_count cfg"
    unfolding count_received_def all_received [OF n(2)] n(1) by (simp add: of_nat_unat)
  moreover have "rtts \<noteq> []" using pos(1) n(1) by (auto simp: unat_gt_0 [symmetric] word_neq_0_conv [symmetric])
  ultimately show ?thesis
    using pos(1) all_received_loss [of rtts] no_loss_pattern [of rtts]
    by (simp add: run_udp_probe_def path udp_result_of_def Let_def attempt.defs udp_attempt.defs)
qed


theorem udp_echo_end_to_end_witness:
  defines "ids \<equiv> \<lparr>ai_run_id = 1, ai_attempt_id = 2, ai_sequence_num = 0, ai_started_at = 0, ai_finished_at = 0,
      ai_error_at = 0\<rparr>"
    and "cfg \<equiv> udp_probe_config_default\<lparr>up_probe_count := 1\<rparr>"
    and "io \<equiv> \<lparr>ui_target = Inr (V4 1, 9999), ui_bind = Inr (), ui_connect = Inr (),
      ui_inputs = clean_echo 64 (V4 2, 5000) None (\<lambda>_. 7) (\<lambda>_. 100) (\<lambda>_. 300), ui_local_drops = None,
      ui_so_rcvbuf = None\<rparr>"
  shows "at_success (run_udp_probe cfg ids io)"
  using udp_echo_end_to_end [of io "(V4 1, 9999)" cfg "(V4 2, 5000)" None "\<lambda>_. 7" "\<lambda>_. 100" "\<lambda>_. 300" ids]
  by (simp add: cfg_def io_def udp_probe_config_default_def)

section \<open>The ping train\<close>

definition reply_names :: "ip_addr \<Rightarrow> ping_event \<Rightarrow> (nat \<times> instant) option" where
  "reply_names addr ev = (case ev of
     PingDatagram data ttl tm \<Rightarrow> (case parse_echo_reply addr data of
       Some (Reply, ident, seq, hdr_ttl) \<Rightarrow> Some (unat seq, tm)
     | _ \<Rightarrow> None)
   | _ \<Rightarrow> None)"

lemma credit_reply_readings:
  "fst (credit_reply st addr data ttl tm s) = (case reply_names addr (PingDatagram data ttl tm) of
     Some (k, _) \<Rightarrow> credit_echo k tm st (fst s) | None \<Rightarrow> fst s)"
  by (cases s) (auto simp: credit_reply_def reply_names_def credit_echo_def Let_def
      split: option.splits prod.splits echo_kind.splits)

lemma recv_until_length [simp]: "length (fst (recv_until addr n d st evs s)) = length (fst s)"
  by (induction addr n d st evs s rule: recv_until.induct)
    (auto simp: credit_reply_readings split: ping_event.splits option.splits)

lemma recv_until_keeps: "k < length (fst s) \<Longrightarrow> fst s ! k = Some r \<Longrightarrow>
   fst (recv_until addr n d st evs s) ! k = Some r"
  by (induction addr n d st evs s rule: recv_until.induct)
    (auto simp: credit_reply_readings credit_echo_keeps split: ping_event.splits option.splits)

interpretation ping_train: echo_train "recv_until addr" fst "reply_names addr" for addr
proof (unfold_locales, goal_cases)
  case (1 n d st evs s)
  show ?case by simp
next
  case (2 k s r n d st evs)
  then show ?case by (simp add: recv_until_keeps)
next
  case (3 k s n d st evs r)
  then show ?case
  proof (induction addr n d st evs s rule: recv_until.induct)
    case (2 addr n d st now ev evs s)
    show ?case
    proof (cases "fst s ! n = None \<and> \<not> d \<le> now \<and> (\<exists>data ttl tm. ev = PingDatagram data ttl tm)")
      case True
      then obtain data ttl tm where ev: "ev = PingDatagram data ttl tm" by blast
      let ?s = "credit_reply st addr data ttl tm s"
      show ?thesis
      proof (cases "fst ?s ! k")
        case None
        have l: "k < length (fst ?s)"
          using "2.prems"(1) by (simp add: credit_reply_readings split: option.splits)
        have "fst (recv_until addr n d st evs ?s) ! k = Some r" using "2.prems"(3) True ev by simp
        from "2.IH"(1) [OF _ _ ev l None this] True show ?thesis by auto
      next
        case (Some r')
        have l: "length (fst ?s) = length (fst s)" by (simp add: credit_reply_readings split: option.splits)
        then have "fst (recv_until addr n d st evs ?s) ! k = Some r'"
          using "2.prems"(1) Some by (intro recv_until_keeps) simp_all
        then have "r' = r" using "2.prems" True ev by auto
        with Some "2.prems"(2) obtain k' where n: "reply_names addr ev = Some (k', tm)"
            "credit_echo k' tm st (fst s) ! k = Some r"
          by (auto simp: credit_reply_readings reply_names_def ev split: option.splits echo_kind.splits)
        with credit_echo_new [OF "2.prems"(1,2) n(2)] obtain sent where
          "k' = k" "st ! k = Some sent" "r = as_millis_f64 (tm - sent)" by blast
        then show ?thesis using n(1)
          by (intro exI [of _ now] exI [of _ ev] exI [of _ tm] exI [of _ sent]) simp
      qed
    qed (use 2 in \<open>auto split: ping_event.splits if_splits\<close>)
  qed simp
qed

text \<open>A reading of the ping train rests on an echo reply that names its probe: a reading of probe
  \<open>k\<close> is the time from the sending of \<open>k\<close> to the handling of an echo reply whose sequence number
  is \<open>k\<close>. A sequence number has sixteen bits, while the timeline has one slot for each of up to
  \<open>2 ^ 32 - 1\<close> probes, so every probe from number 65536 on is reported lost whatever the path does.\<close>

theorem ping_credits:
  assumes "unix_ping linux sock inputs addr count timeout_ms payload_size = Inr (rtts, ttl)"
  shows "length rtts = unat count \<and>
    (\<forall>k < unat count. \<forall>r. rtts ! k = Some r \<longrightarrow> k < 65536 \<and> ec_send_ok (inputs k) \<and>
      (\<exists>j now data ttl tm ident hdr. k \<le> j \<and> j < unat count \<and>
        (now, PingDatagram data ttl tm) \<in> set (ec_events (inputs j)) \<and>
        parse_echo_reply addr data = Some (Reply, ident, of_nat k, hdr) \<and>
        r = as_millis_f64 (tm - ec_sent_at (inputs k))))"
proof -
  let ?s = "(replicate (unat count) None, None) :: ping_state"
  have init: "fst ?s = replicate (unat count) None" by simp
  have train: "(rtts, ttl) = snd (probe_loop (recv_until addr) (from_millis (unat timeout_ms)) (unat count) inputs ?s)"
    using assms by (auto simp: unix_ping_def split: sum.splits)
  have "k < 65536 \<and> ec_send_ok (inputs k) \<and>
      (\<exists>j now data ttl tm ident hdr. k \<le> j \<and> j < unat count \<and>
        (now, PingDatagram data ttl tm) \<in> set (ec_events (inputs j)) \<and>
        parse_echo_reply addr data = Some (Reply, ident, of_nat k, hdr) \<and>
        r = as_millis_f64 (tm - ec_sent_at (inputs k)))"
    if k: "k < unat count" "rtts ! k = Some r" for k r
  proof -
    have "ping_train.read_from addr (unat count) inputs k r"
      using k by (intro ping_train.train_credits(2) [OF init, where timeout = "from_millis (unat timeout_ms)"]) (simp_all add: train [symmetric])
    then obtain j now ev tm where e: "ec_send_ok (inputs k)" "k \<le> j" "j < unat count"
      "(now, ev) \<in> set (ec_events (inputs j))" "reply_names addr ev = Some (k, tm)"
      "r = as_millis_f64 (tm - ec_sent_at (inputs k))" by (auto simp: ping_train.read_from_def)
    then obtain data t ident seq hdr where "ev = PingDatagram data t tm" "k = unat seq"
      "parse_echo_reply addr data = Some (Reply, ident, seq, hdr)"
      by (auto simp: reply_names_def split: ping_event.splits option.splits prod.splits echo_kind.splits)
    moreover have "unat seq < 65536" "of_nat (unat seq) = seq"
      using unsigned_less [of seq, where ?'a = nat] by (simp_all add: of_nat_unat)
    ultimately show ?thesis using e by metis
  qed
  moreover have "length rtts = unat count"
    using ping_train.train_credits(1) [OF init, of addr] by (metis train fst_conv)
  ultimately show ?thesis by blast
qed


theorem ping_credits_witness:
  defines "inputs \<equiv> \<lambda>n. \<lparr>ec_send_ok = True, ec_sent_at = 10 * n,
      ec_events = [(10 * n + 1, PingDatagram [0, 0, 0, 0, 0, 7, 0, of_nat n] (Some 57) (10 * n + 4))]\<rparr>"
  shows "\<exists>rtts ttl. unix_ping True (Inr ()) inputs (V4 1) 2 1000 56 = Inr (rtts, ttl) \<and> length rtts = 2"
proof -
  obtain rtts ttl where u: "unix_ping True (Inr ()) inputs (V4 1) 2 1000 56 = Inr (rtts, ttl)"
    by (cases "snd (probe_loop (recv_until (V4 1)) (from_millis (unat (1000 :: u64))) (unat (2 :: u32)) inputs
        (replicate (unat (2 :: u32)) None, None))") (simp add: unix_ping_def open_icmp_socket_def)
  from ping_credits [OF this] have "length rtts = 2" by simp
  with u show ?thesis by blast
qed

section \<open>Requests and replies\<close>

text \<open>The reply to a request: the same message with the reply's type and some checksum.\<close>

definition reply_to :: "u16 \<Rightarrow> bytes \<Rightarrow> bytes" where
  "reply_to cs request = splice 2 (be16_bytes cs) (request[0 := ICMP_ECHO_REPLY])"

text \<open>An IPv4 header, of whatever options, that says its length.\<close>

definition ipv4_header :: "bytes \<Rightarrow> bool" where
  "ipv4_header hdr \<longleftrightarrow> 20 \<le> length hdr \<and> drop_bit 4 (hdr ! 0) = 4 \<and> length hdr = unat (hdr ! 0 AND 0x0F) * 4"

definition request_body :: "nat \<Rightarrow> u16 \<Rightarrow> u16 \<Rightarrow> u64 \<Rightarrow> bytes" where
  "request_body len ident seq now_us = splice 8 (be64_bytes now_us) (splice 6 (be16_bytes seq)
     (splice 4 (be16_bytes ident) ((replicate len 0)[0 := ICMP_ECHO_REQUEST])))"

lemma request_body_facts:
  assumes "16 \<le> len"
  shows "length (request_body len ident seq now_us) = len"
    and "request_body len ident seq now_us ! 0 = ICMP_ECHO_REQUEST"
    and "request_body len ident seq now_us ! 2 = 0" "request_body len ident seq now_us ! 3 = 0"
    and "slice 4 6 (request_body len ident seq now_us) = be16_bytes ident"
    and "slice 6 8 (request_body len ident seq now_us) = be16_bytes seq"
  using assms
  by (simp_all add: request_body_def nth_splice slice_splice_other slice_splice_same)

lemma slice_update: "k < i \<Longrightarrow> slice i j (xs[k := v]) = slice i j xs"
  by (simp add: slice_def)

lemma build_echo_request_body:
  "build_echo_request len (V4 a) ident seq now_us =
   splice 2 (be16_bytes (icmp_checksum (request_body len ident seq now_us))) (request_body len ident seq now_us)"
  by (simp add: build_echo_request_def request_body_def Let_def)

text \<open>The ICMP request of the ping probe verifies: the Internet checksum of a whole IPv4 request,
  of any even or odd length, is zero. A reply to it is read back as an echo reply with the
  identifier and the sequence number of the request, both where the socket delivers it bare and
  where it delivers it behind an IPv4 header of any length, whose time to live is then reported.\<close>

theorem icmp_request_verifies:
  fixes a ident seq now_us
  assumes "16 \<le> len" "len \<le> 65535" "ipv4_header hdr"
  defines "req \<equiv> build_echo_request len (V4 a) ident seq now_us"
  shows "icmp_checksum req = 0 \<and>
    parse_echo_reply (V4 a) (reply_to cs req) = Some (Reply, ident, seq, None) \<and>
    parse_echo_reply (V4 a) (hdr @ reply_to cs req) = Some (Reply, ident, seq, Some (ucast (hdr ! 8)))"
proof -
  let ?b = "request_body len ident seq now_us"
  note f = request_body_facts [OF assms(1), of ident seq now_us]
  have len: "2 + length (be16_bytes w) \<le> length ?b" for w using assms(1) f(1) by simp
  have req: "req = splice 2 (be16_bytes (icmp_checksum ?b)) ?b" by (simp add: req_def build_echo_request_body)
  have "?b \<noteq> []" using f(1) assms(1) by auto
  then obtain x xs where "?b = x # xs" by (cases ?b) auto
  moreover from this have "x = 8" using f(2) by (simp add: ICMP_ECHO_REQUEST_def)
  ultimately have "0 < pair_sum ?b" by (cases xs) simp_all
  moreover have "pair_sum ?b < 2 ^ 32 - 65536" using pair_sum_le [of ?b] f(1) assms(2) by simp
  ultimately have verifies: "icmp_checksum req = 0"
    using f assms(1) pair_sum_splice [of ?b] by (intro checksum_verifies [of ?b]) (simp_all add: req)
  define rep where "rep = reply_to cs req"
  have rep: "length rep = len" "rep ! 0 = 0" "slice 4 6 rep = be16_bytes ident" "slice 6 8 rep = be16_bytes seq"
    using f len assms(1)
    by (simp_all add: rep_def reply_to_def req nth_splice slice_splice_other slice_update ICMP_ECHO_REPLY_def)
  have "parse_echo_reply (V4 a) rep = Some (Reply, ident, seq, None)"
    using assms(1) rep by (simp add: parse_echo_reply_def strip_ip_header_def ICMP_ECHO_REPLY_def)
  moreover have "(hdr @ rep) ! 0 = hdr ! 0" "(hdr @ rep) ! 8 = hdr ! 8"
    using assms(3) by (simp_all add: ipv4_header_def nth_append)
  then have "strip_ip_header (V4 a) (hdr @ rep) = (rep, Some (ucast (hdr ! 8)))"
    using assms(1,3) rep(1) by (simp add: strip_ip_header_def ipv4_header_def Let_def)
  then have "parse_echo_reply (V4 a) (hdr @ rep) = Some (Reply, ident, seq, Some (ucast (hdr ! 8)))"
    using assms(1) rep by (simp add: parse_echo_reply_def ICMP_ECHO_REPLY_def)
  ultimately show ?thesis using verifies by (simp add: rep_def)
qed

theorem icmp_request_verifies_witness:
  "icmp_checksum (build_echo_request 16 (V4 1) 7 3 5) = 0 \<and>
   parse_echo_reply (V4 1) ([0x45, 0, 0, 0, 0, 0, 0, 0, 64, 0, 0, 0, 0, 0, 0, 0, 0, 0, 0, 0] @
     reply_to 9 (build_echo_request 16 (V4 1) 7 3 5)) = Some (Reply, 7, 3, Some 64)"
proof -
  have "ipv4_header [0x45, 0, 0, 0, 0, 0, 0, 0, 64, 0, 0, 0, 0, 0, 0, 0, 0, 0, 0, 0]"
    by (simp add: ipv4_header_def)
  from icmp_request_verifies [OF _ _ this, of 16 1 7 3 5 9] show ?thesis by simp
qed


section \<open>The labelled fallback\<close>

text \<open>A ping attempt never passes a TCP connection time off as an echo. When the platform's ping
  runs, a successful attempt holds at least one reading; one without the fallback label holds the
  echoes of the platform's ping, and one with it holds the connection times, names the port of the
  configuration, carries no time to live and is only made when no echo at all came back.\<close>

theorem ping_fallback_labelled:
  fixes connects ids
  assumes "resolve_host hr (pg_target_host cfg) = Inr addr"
    and "backend addr (max (pg_probe_count cfg) 1) (max (pg_timeout_ms cfg) 1) (pg_payload_size cfg) = Inr (rtts, ttl)"
  defines "a \<equiv> run_ping_probe hr backend None connects ids cfg"
  shows "\<exists>r. at_ping a = Some r \<and> at_success a = (0 < pr_success_count r) \<and>
    pr_success_count r = count_received (pr_probe_rtts_ms r) \<and>
    (case pr_fallback_method r of
       None \<Rightarrow> pr_probe_rtts_ms r = rtts \<and> pr_reply_ttl r = ttl \<and> pr_fallback_port r = None
     | Some m \<Rightarrow> m = ''tcp-rtt'' \<and> count_received rtts = 0 \<and> pr_reply_ttl r = None \<and>
         pr_fallback_port r = pg_fallback_tcp_port cfg \<and> pr_fallback_port r \<noteq> None \<and>
         pr_probe_rtts_ms r = tcp_rtt_probes connects (pr_probe_count r))"
  using assms(1,2)
  by (auto simp: a_def run_ping_probe_def ping_attempt_of_def ping_result_of_def Let_def
      attempt.defs ping_attempt.defs split: option.splits)

theorem ping_fallback_labelled_witness:
  defines "hr \<equiv> \<lparr>hr_parse = \<lambda>s. Some (V4 1), hr_lookup = \<lambda>s. Inl ''''\<rparr>"
    and "backend \<equiv> \<lambda>a n t p. Inr ([None, None], None)"
    and "connects \<equiv> \<lambda>n. (10 * n, if n = 1 then Some (10 * n + 3) else None)"
  shows "\<exists>r. at_ping (run_ping_probe hr backend None connects ids (ping_config_default\<lparr>pg_probe_count := 2\<rparr>)) = Some r \<and>
    pr_success_count r = count_received (pr_probe_rtts_ms r)"
  using ping_fallback_labelled [of hr "ping_config_default\<lparr>pg_probe_count := 2\<rparr>" "V4 1" backend "[None, None]" None connects ids]
  by (auto simp: hr_def backend_def resolve_host_def Let_def ping_config_default_def)

end
