(* ===== verification/Path.thy ===== *)
theory Path
  imports Ping Pmtud
begin

text \<open>
  Hop discovery, \<open>crates/networker-tester/src/runner/path.rs\<close>: probes with rising time to live
  over one socket, the Linux error queue with the offender of each entry, the scan on the other
  systems, which sees no hop, the budget, and the classification of a trace that saw nothing.
  What the socket and the clock did for one time to live is a record; name resolution is the
  parameter of \<open>Ping\<close>. The constants of the libc crate are those of \<open>Pmtud\<close>.
\<close>

definition DEFAULT_PATH_MAX_TTL :: u32 where "DEFAULT_PATH_MAX_TTL = 30"
definition DEFAULT_PATH_HOP_TIMEOUT_MS :: u64 where "DEFAULT_PATH_HOP_TIMEOUT_MS = 1000"
definition DEFAULT_PATH_BASE_PORT :: u16 where "DEFAULT_PATH_BASE_PORT = 33434"

record path_config =
  pa_target_host :: string
  pa_max_ttl :: u32
  pa_per_hop_timeout_ms :: u64
  pa_base_port :: u16
  pa_verify_tcp_port :: "u16 option"
  pa_total_budget_ms :: u64

definition path_config_default :: path_config where
  "path_config_default = \<lparr>pa_target_host = ''127.0.0.1'', pa_max_ttl = DEFAULT_PATH_MAX_TTL,
     pa_per_hop_timeout_ms = DEFAULT_PATH_HOP_TIMEOUT_MS, pa_base_port = DEFAULT_PATH_BASE_PORT,
     pa_verify_tcp_port = Some 443, pa_total_budget_ms = 0\<rparr>"

record path_hop =
  ph_index :: nat
  ph_addr :: "string option"
  ph_rtt_ms :: "f64 option"

record path_trace =
  pt_hops :: "path_hop list"
  pt_hop_count :: "nat option"
  pt_destination_reached :: bool
  pt_destination_rtt_ms :: "f64 option"
  pt_method :: string
  pt_probed_ttls :: nat
  pt_budget_truncated :: bool

definition no_trace :: "string \<Rightarrow> path_trace" where
  "no_trace m = \<lparr>pt_hops = [], pt_hop_count = None, pt_destination_reached = False,
     pt_destination_rtt_ms = None, pt_method = m, pt_probed_ttls = 0, pt_budget_truncated = False\<rparr>"

definition budget_deadline :: "instant \<Rightarrow> u64 \<Rightarrow> instant option" where
  "budget_deadline started total_budget_ms =
     (if 0 < total_budget_ms then Some (started + from_millis (unat total_budget_ms)) else None)"

definition budget_spent :: "instant option \<Rightarrow> instant \<Rightarrow> bool" where
  "budget_spent budget now = (case budget of Some d \<Rightarrow> d \<le> now | None \<Rightarrow> False)"

section \<open>Linux\<close>

definition LINUX_METHOD :: string where "LINUX_METHOD = ''udp-ttl/ip-recverr''"

datatype icmp_event = TimeExceeded "ip_addr option" | DestinationReached | Unreachable "ip_addr option"

definition ICMP_TIME_EXCEEDED :: u8 where "ICMP_TIME_EXCEEDED = 11"
definition ICMPV6_TIME_EXCEEDED :: u8 where "ICMPV6_TIME_EXCEEDED = 3"

definition path_classify :: "libc \<Rightarrow> sock_extended_err \<Rightarrow> ip_addr option \<Rightarrow> icmp_event" where
  "path_classify lc ee offender =
     (let origin = uint (ee_origin ee)
      in if origin = SO_EE_ORIGIN_ICMP lc then
           (if ee_type ee = ICMP_TIME_EXCEEDED then TimeExceeded offender
            else if ee_type ee = ICMP_DEST_UNREACH \<and> ee_code ee = ICMP_PORT_UNREACH_CODE then DestinationReached
            else Unreachable offender)
         else if origin = SO_EE_ORIGIN_ICMP6 lc then
           (if ee_type ee = ICMPV6_TIME_EXCEEDED then TimeExceeded offender
            else if ee_type ee = ICMPV6_DEST_UNREACH \<and> ee_code ee = ICMPV6_PORT_UNREACH_CODE then DestinationReached
            else Unreachable offender)
         else if uint (ee_errno ee) = ECONNREFUSED lc then DestinationReached
         else Unreachable None)"

text \<open>One call of \<open>recvmsg\<close>: nothing, or its control messages, an error with its offender.\<close>

type_synonym path_errqueue = "(int \<times> int \<times> sock_extended_err \<times> ip_addr option) list option"

definition drain_errqueue :: "libc \<Rightarrow> path_errqueue \<Rightarrow> icmp_event option" where
  "drain_errqueue lc q = (case q of
     None \<Rightarrow> None
   | Some cmsgs \<Rightarrow> (case find (\<lambda>(level, ty, ee, _). is_recverr lc (level, ty, ee)) cmsgs of
       Some (_, _, ee, offender) \<Rightarrow> Some (path_classify lc ee offender)
     | None \<Rightarrow> None))"

datatype path_round = PathPollFailed | PathPolled path_errqueue

fun wait_icmp_event :: "libc \<Rightarrow> instant \<Rightarrow> (instant \<times> path_round) list \<Rightarrow> icmp_event option" where
  "wait_icmp_event lc deadline [] = None"
| "wait_icmp_event lc deadline ((now, r) # rs) =
     (if deadline \<le> now then None
      else case r of
        PathPollFailed \<Rightarrow> None
      | PathPolled q \<Rightarrow> (case drain_errqueue lc q of
          Some ev \<Rightarrow> Some ev
        | None \<Rightarrow> wait_icmp_event lc deadline rs))"

text \<open>One time to live: the clock at the check of the budget, the result of setting it, the clock
  at the send, the rounds of the wait, and the clock at the event.\<close>

record linux_hop_io =
  lh_checked_at :: instant
  lh_set_ttl :: "string + unit"
  lh_sent_at :: instant
  lh_rounds :: "(instant \<times> path_round) list"
  lh_event_at :: instant

definition hop_deadline :: "instant option \<Rightarrow> instant \<Rightarrow> u64 \<Rightarrow> instant" where
  "hop_deadline budget sent_at per_hop_timeout_ms =
     (let deadline = sent_at + from_millis (unat per_hop_timeout_ms)
      in case budget of Some d \<Rightarrow> min deadline d | None \<Rightarrow> deadline)"

definition push_hop :: "nat \<Rightarrow> string option \<Rightarrow> f64 option \<Rightarrow> path_trace \<Rightarrow> path_trace" where
  "push_hop ttl addr rtt t = t\<lparr>pt_hops := pt_hops t @ [\<lparr>ph_index = ttl, ph_addr = addr, ph_rtt_ms = rtt\<rparr>]\<rparr>"

fun linux_scan :: "libc \<Rightarrow> ip_addr \<Rightarrow> u64 \<Rightarrow> instant option \<Rightarrow> (nat \<Rightarrow> linux_hop_io) \<Rightarrow> nat list \<Rightarrow>
   path_trace \<Rightarrow> string + path_trace" where
  "linux_scan lc addr per_hop budget env [] t = Inr t"
| "linux_scan lc addr per_hop budget env (ttl # ttls) t =
     (let io = env ttl
      in if budget_spent budget (lh_checked_at io) then Inr (t\<lparr>pt_budget_truncated := True\<rparr>)
         else case lh_set_ttl io of
           Inl e \<Rightarrow> Inl (''set TTL='' @ decimal ttl @ '' failed: '' @ e)
         | Inr _ \<Rightarrow>
             (let t = t\<lparr>pt_probed_ttls := ttl\<rparr>;
                  rtt = as_millis_f64 (lh_event_at io - lh_sent_at io)
              in case wait_icmp_event lc (hop_deadline budget (lh_sent_at io) per_hop) (lh_rounds io) of
                  Some (TimeExceeded offender) \<Rightarrow>
                    linux_scan lc addr per_hop budget env ttls (push_hop ttl (map_option show_ip offender) (Some rtt) t)
                | Some DestinationReached \<Rightarrow>
                    Inr ((push_hop ttl (Some (show_ip addr)) (Some rtt) t)
                      \<lparr>pt_destination_reached := True, pt_destination_rtt_ms := Some rtt, pt_hop_count := Some ttl\<rparr>)
                | Some (Unreachable offender) \<Rightarrow>
                    Inr (push_hop ttl (map_option show_ip offender) (Some rtt) t)
                | None \<Rightarrow> linux_scan lc addr per_hop budget env ttls (push_hop ttl None None t)))"

definition drop_silent :: "path_trace \<Rightarrow> path_trace" where
  "drop_silent t = (if \<not> pt_destination_reached t \<and> list_all (\<lambda>h. ph_addr h = None) (pt_hops t)
     then t\<lparr>pt_hops := []\<rparr> else t)"

definition linux_trace_blocking ::
  "libc \<Rightarrow> instant \<Rightarrow> string + unit \<Rightarrow> string + unit \<Rightarrow> (nat \<Rightarrow> linux_hop_io) \<Rightarrow>
   ip_addr \<Rightarrow> nat \<Rightarrow> u64 \<Rightarrow> u16 \<Rightarrow> u64 \<Rightarrow> string + path_trace" where
  "linux_trace_blocking lc started bind recverr env addr max_ttl per_hop base_port total_budget_ms =
     (case bind of Inl e \<Rightarrow> Inl (''UDP bind failed: '' @ e) | Inr _ \<Rightarrow>
       (case recverr of Inl e \<Rightarrow> Inl (''IP_RECVERR setsockopt failed: '' @ e) | Inr _ \<Rightarrow>
         map_sum id drop_silent
           (linux_scan lc addr per_hop (budget_deadline started total_budget_ms) env [1..<Suc max_ttl]
             (no_trace LINUX_METHOD))))"

section \<open>The other systems\<close>

definition PORTABLE_METHOD :: string where "PORTABLE_METHOD = ''udp-ttl-estimate''"

text \<open>A receive: a datagram, a refusal or a reset, a timeout at an instant, or another error.\<close>

datatype path_recv = PathData | PathRefused | PathWouldBlock instant | PathRecvError

fun recv_reached :: "instant \<Rightarrow> path_recv list \<Rightarrow> bool" where
  "recv_reached deadline [] = False"
| "recv_reached deadline (PathData # rs) = True"
| "recv_reached deadline (PathRefused # rs) = True"
| "recv_reached deadline (PathWouldBlock now # rs) = (if now < deadline then recv_reached deadline rs else False)"
| "recv_reached deadline (PathRecvError # rs) = False"

definition set_hop_limit :: "bool \<Rightarrow> ip_addr \<Rightarrow> string + unit \<Rightarrow> string + unit" where
  "set_hop_limit unix addr r = (case addr of
     V4 _ \<Rightarrow> map_sum (\<lambda>e. ''set TTL failed: '' @ e) id r
   | V6 _ \<Rightarrow> (if unix then map_sum (\<lambda>e. ''IPV6_UNICAST_HOPS failed: '' @ e) id r
       else Inl (''path mode cannot set the IPv6 hop limit unprivileged on Windows '' @ em_dash @
         '' use an IPv4 target'')))"

record portable_hop_io =
  oh_checked_at :: instant
  oh_bind :: "string + unit"
  oh_set_ttl :: "string + unit"
  oh_connect :: "string + unit"
  oh_read_timeout :: "string + unit"
  oh_sent_at :: instant
  oh_send_ok :: bool
  oh_recvs :: "path_recv list"
  oh_event_at :: instant

fun portable_scan :: "bool \<Rightarrow> ip_addr \<Rightarrow> u64 \<Rightarrow> instant option \<Rightarrow> (nat \<Rightarrow> portable_hop_io) \<Rightarrow> nat list \<Rightarrow>
   path_trace \<Rightarrow> string + path_trace" where
  "portable_scan unix addr per_hop budget env [] t = Inr t"
| "portable_scan unix addr per_hop budget env (ttl # ttls) t =
     (let io = env ttl
      in if budget_spent budget (oh_checked_at io) then Inr (t\<lparr>pt_budget_truncated := True\<rparr>)
         else case oh_bind io of Inl e \<Rightarrow> Inl (''UDP bind failed: '' @ e) | Inr _ \<Rightarrow>
           (case set_hop_limit unix addr (oh_set_ttl io) of Inl e \<Rightarrow> Inl e | Inr _ \<Rightarrow>
             (case oh_connect io of Inl e \<Rightarrow> Inl (''UDP connect failed: '' @ e) | Inr _ \<Rightarrow>
               (case oh_read_timeout io of Inl e \<Rightarrow> Inl (''set_read_timeout failed: '' @ e) | Inr _ \<Rightarrow>
                 (let t = t\<lparr>pt_probed_ttls := ttl\<rparr>
                  in if \<not> oh_send_ok io then portable_scan unix addr per_hop budget env ttls t
                     else if recv_reached (oh_sent_at io + from_millis (unat per_hop)) (oh_recvs io)
                     then Inr (t\<lparr>pt_destination_reached := True, pt_hop_count := Some ttl,
                        pt_destination_rtt_ms := Some (as_millis_f64 (oh_event_at io - oh_sent_at io))\<rparr>)
                     else portable_scan unix addr per_hop budget env ttls t)))))"

definition portable_trace_blocking ::
  "bool \<Rightarrow> instant \<Rightarrow> (nat \<Rightarrow> portable_hop_io) \<Rightarrow> ip_addr \<Rightarrow> nat \<Rightarrow> u64 \<Rightarrow> u16 \<Rightarrow> u64 \<Rightarrow> string + path_trace" where
  "portable_trace_blocking unix started env addr max_ttl per_hop base_port total_budget_ms =
     portable_scan unix addr per_hop (budget_deadline started total_budget_ms) env [1..<Suc max_ttl]
       (no_trace PORTABLE_METHOD)"

section \<open>The probe\<close>

record path_result =
  ps_remote_addr :: string
  ps_hops :: "path_hop list"
  ps_hop_count :: "nat option"
  ps_destination_reached :: bool
  ps_destination_rtt_ms :: "f64 option"
  ps_method :: string
  ps_max_ttl :: nat
  ps_started_at :: nat

record path_attempt = attempt +
  at_path :: "path_result option"

text \<open>This file's own copy of \<open>resolve_host\<close>.\<close>

definition path_resolve_host :: "host_resolver \<Rightarrow> string \<Rightarrow> string + ip_addr" where
  "path_resolve_host hr host = resolve_host hr host"

definition tcp_reachability_ms :: "instant \<times> instant option \<Rightarrow> f64 option" where
  "tcp_reachability_ms c = map_option (\<lambda>t. as_millis_f64 (t - fst c)) (snd c)"

definition path_failed :: "attempt_ids \<Rightarrow> error_category \<Rightarrow> string \<Rightarrow> path_attempt" where
  "path_failed ids category message =
     attempt.extend (attempt_new ids Path False (Some (error_of ids category message))) \<lparr>at_path = None\<rparr>"

definition clamp_ttl :: "u32 \<Rightarrow> nat" where
  "clamp_ttl n = unat (min (max n 1) 64)"

definition scanned_text :: "path_config \<Rightarrow> path_trace \<Rightarrow> string" where
  "scanned_text cfg t =
     (if pt_budget_truncated t
      then ''1..='' @ decimal (pt_probed_ttls t) @ '' (scan stopped at the '' @
        decimal (unat (pa_total_budget_ms cfg)) @ ''ms budget, before TTL '' @ decimal (clamp_ttl (pa_max_ttl cfg)) @ '')''
      else ''1..='' @ decimal (clamp_ttl (pa_max_ttl cfg)))"

definition silent_verdict :: "path_config \<Rightarrow> (u16 \<Rightarrow> instant \<times> instant option) \<Rightarrow> path_trace \<Rightarrow> error_category \<times> string" where
  "silent_verdict cfg connect t =
     (let scanned = scanned_text cfg t; meth = pt_method t
      in case pa_verify_tcp_port cfg of
          Some port \<Rightarrow> (case tcp_reachability_ms (connect port) of
            Some rtt_ms \<Rightarrow> (ConfigError,
              ''Hop discovery blocked by this runner's environment, not the path: no ICMP responses for any TTL '' @
              scanned @ '' ('' @ meth @ ''), but the destination IS reachable '' @ em_dash @
              '' TCP connect to port '' @ decimal (unat port) @ '' in '' @ fixed 1 rtt_ms @
              ''ms. Cloud SNAT layers (e.g. Azure SLB) drop ICMP; run path from a runner with a direct public IP to see hops.'')
          | None \<Rightarrow> (UdpError,
              ''No ICMP responses for any TTL '' @ scanned @ '' and the destination never answered (also unreachable on TCP port '' @
              decimal (unat port) @ '') '' @ em_dash @ '' path blocked or target down ('' @ meth @ '')''))
        | None \<Rightarrow> (UdpError,
            ''No ICMP responses for any TTL '' @ scanned @ '' and the destination never answered '' @ em_dash @
            '' path blocked or ICMP filtered ('' @ meth @ '')''))"

definition run_path_probe ::
  "host_resolver \<Rightarrow> (ip_addr \<Rightarrow> nat \<Rightarrow> u64 \<Rightarrow> u16 \<Rightarrow> u64 \<Rightarrow> string + path_trace) \<Rightarrow> string option \<Rightarrow>
   (u16 \<Rightarrow> instant \<times> instant option) \<Rightarrow> attempt_ids \<Rightarrow> path_config \<Rightarrow> path_attempt" where
  "run_path_probe hr backend task connect ids cfg = (case path_resolve_host hr (pa_target_host cfg) of
     Inl msg \<Rightarrow> path_failed ids DnsError msg
   | Inr addr \<Rightarrow>
       (let max_ttl = clamp_ttl (pa_max_ttl cfg); per_hop = max (pa_per_hop_timeout_ms cfg) 1
        in case task of
          Some e \<Rightarrow> path_failed ids OtherError (''path worker task failed: '' @ e)
        | None \<Rightarrow> (case backend addr max_ttl per_hop (pa_base_port cfg) (pa_total_budget_ms cfg) of
            Inl msg \<Rightarrow> path_failed ids OtherError msg
          | Inr t \<Rightarrow>
              (let has_info = pt_destination_reached t \<or> pt_hops t \<noteq> [];
                   err = (if has_info then None
                     else (case silent_verdict cfg connect t of (c, m) \<Rightarrow> Some (error_of ids c m)))
               in attempt.extend (attempt_new ids Path has_info err)
                    \<lparr>at_path = Some \<lparr>ps_remote_addr = show_ip addr, ps_hops = pt_hops t,
                       ps_hop_count = pt_hop_count t, ps_destination_reached = pt_destination_reached t,
                       ps_destination_rtt_ms = pt_destination_rtt_ms t, ps_method = pt_method t,
                       ps_max_ttl = max_ttl, ps_started_at = ai_started_at ids\<rparr>\<rparr>))))"

end
