(* ===== verification/Path_Properties.thy ===== *)
theory Path_Properties
  imports Path
begin

text \<open>
  The properties of hop discovery: what a reported hop rests on, and how a trace without any
  information is classified.
\<close>

text \<open>A router that the error queue named during the wait for one time to live.\<close>

definition named_at :: "linux_hop_io \<Rightarrow> string \<Rightarrow> bool" where
  "named_at io a \<longleftrightarrow> (\<exists>now cmsgs level ty ee offender.
     (now, PathPolled (Some cmsgs)) \<in> set (lh_rounds io) \<and> (level, ty, ee, Some offender) \<in> set cmsgs \<and>
     a = show_ip offender)"

lemma path_classify_offender:
  assumes "path_classify lc ee off = TimeExceeded (Some a) \<or> path_classify lc ee off = Unreachable (Some a)"
  shows "off = Some a"
  using assms by (auto simp: path_classify_def Let_def split: if_splits)

lemma drain_errqueue_offender:
  assumes "drain_errqueue lc q = Some ev" "ev = TimeExceeded (Some a) \<or> ev = Unreachable (Some a)"
  obtains cmsgs level ty ee where "q = Some cmsgs" "(level, ty, ee, Some a) \<in> set cmsgs"
proof -
  from assms(1) obtain cmsgs level ty ee off where q: "q = Some cmsgs"
    "find (\<lambda>(level, ty, ee, _). is_recverr lc (level, ty, ee)) cmsgs = Some (level, ty, ee, off)"
    "ev = path_classify lc ee off"
    by (auto simp: drain_errqueue_def split: option.splits)
  have "(level, ty, ee, off) \<in> set cmsgs"
    using q(2) unfolding find_Some_iff by (metis nth_mem)
  moreover have "off = Some a" using path_classify_offender [of lc ee off a] q(3) assms(2) by metis
  ultimately show thesis using that q(1) by blast
qed

lemma wait_icmp_event_offender:
  assumes "wait_icmp_event lc d rs = Some ev" "ev = TimeExceeded (Some a) \<or> ev = Unreachable (Some a)"
  shows "\<exists>now cmsgs level ty ee. (now, PathPolled (Some cmsgs)) \<in> set rs \<and> (level, ty, ee, Some a) \<in> set cmsgs"
  using assms
proof (induction lc d rs rule: wait_icmp_event.induct)
  case (2 lc d now r rs)
  from "2.prems"(1) obtain q where r: "r = PathPolled q" "\<not> d \<le> now"
    by (cases r) (auto split: if_splits)
  show ?case
  proof (cases "drain_errqueue lc q")
    case None
    then have "wait_icmp_event lc d rs = Some ev" using "2.prems"(1) r by simp
    with "2.IH" [OF r(2,1) None this "2.prems"(2)] show ?thesis by (metis list.set_intros(2))
  next
    case (Some ev')
    then have "ev' = ev" using "2.prems"(1) r by simp
    with Some drain_errqueue_offender [of lc q ev a] "2.prems"(2) r(1) show ?thesis
      by (metis list.set_intros(1))
  qed
qed simp

definition hop_honest :: "(nat \<Rightarrow> linux_hop_io) \<Rightarrow> path_hop \<Rightarrow> bool" where
  "hop_honest env h \<longleftrightarrow> (\<forall>a. ph_addr h = Some a \<longrightarrow> named_at (env (ph_index h)) a) \<and>
     (\<forall>r. ph_rtt_ms h = Some r \<longrightarrow>
       r = as_millis_f64 (lh_event_at (env (ph_index h)) - lh_sent_at (env (ph_index h)))) \<and>
     (ph_addr h \<noteq> None \<longrightarrow> ph_rtt_ms h \<noteq> None)"

text \<open>What the scan knows before it probes the next time to live.\<close>

definition scan_inv :: "(nat \<Rightarrow> linux_hop_io) \<Rightarrow> nat \<Rightarrow> path_trace \<Rightarrow> bool" where
  "scan_inv env k t \<longleftrightarrow> map ph_index (pt_hops t) = [1..<Suc k] \<and> pt_probed_ttls t = k \<and>
     \<not> pt_destination_reached t \<and> pt_hop_count t = None \<and> pt_destination_rtt_ms t = None \<and>
     (\<forall>h \<in> set (pt_hops t). hop_honest env h)"

text \<open>What a finished trace says.\<close>

definition trace_honest :: "(nat \<Rightarrow> linux_hop_io) \<Rightarrow> ip_addr \<Rightarrow> nat \<Rightarrow> path_trace \<Rightarrow> bool" where
  "trace_honest env addr n t \<longleftrightarrow> pt_probed_ttls t \<le> n \<and>
     (pt_hops t \<noteq> [] \<longrightarrow> map ph_index (pt_hops t) = [1..<Suc (pt_probed_ttls t)]) \<and>
     (if pt_destination_reached t
      then \<exists>hs r. pt_hops t = hs @ [\<lparr>ph_index = pt_probed_ttls t, ph_addr = Some (show_ip addr), ph_rtt_ms = Some r\<rparr>] \<and>
        pt_hop_count t = Some (pt_probed_ttls t) \<and> pt_destination_rtt_ms t = Some r \<and> (\<forall>h \<in> set hs. hop_honest env h)
      else pt_hop_count t = None \<and> pt_destination_rtt_ms t = None \<and> (\<forall>h \<in> set (pt_hops t). hop_honest env h))"

lemma push_hop_sel [simp]:
  "pt_hops (push_hop k a r t) = pt_hops t @ [\<lparr>ph_index = k, ph_addr = a, ph_rtt_ms = r\<rparr>]"
  "pt_probed_ttls (push_hop k a r t) = pt_probed_ttls t" "pt_hop_count (push_hop k a r t) = pt_hop_count t"
  "pt_destination_reached (push_hop k a r t) = pt_destination_reached t"
  "pt_destination_rtt_ms (push_hop k a r t) = pt_destination_rtt_ms t"
  by (simp_all add: push_hop_def)

lemma scan_inv_push:
  assumes "scan_inv env k t" "hop_honest env \<lparr>ph_index = Suc k, ph_addr = a, ph_rtt_ms = r\<rparr>"
  shows "scan_inv env (Suc k) (push_hop (Suc k) a r (t\<lparr>pt_probed_ttls := Suc k\<rparr>))"
  using assms by (auto simp: scan_inv_def)

lemma scan_inv_honest: "scan_inv env k t \<Longrightarrow> k \<le> n \<Longrightarrow> trace_honest env addr n t"
  by (auto simp: scan_inv_def trace_honest_def)

lemma hop_of_event:
  assumes "wait_icmp_event lc d (lh_rounds (env k)) = Some (TimeExceeded off) \<or>
    wait_icmp_event lc d (lh_rounds (env k)) = Some (Unreachable off)"
  shows "hop_honest env \<lparr>ph_index = k, ph_addr = map_option show_ip off,
    ph_rtt_ms = Some (as_millis_f64 (lh_event_at (env k) - lh_sent_at (env k)))\<rparr>"
proof -
  have "named_at (env k) (show_ip a)" if "off = Some a" for a
    using wait_icmp_event_offender [of lc d "lh_rounds (env k)" _ a] assms that
    unfolding named_at_def by blast
  then show ?thesis by (auto simp: hop_honest_def)
qed

lemma linux_scan_honest:
  assumes "linux_scan lc addr p b env ttls t = Inr t'" "ttls = [Suc k..<Suc n]" "k \<le> n" "scan_inv env k t"
  shows "trace_honest env addr n t'"
  using assms
proof (induction lc addr p b env ttls t arbitrary: k rule: linux_scan.induct)
  case (1 lc addr p b env t)
  then show ?case by (auto intro: scan_inv_honest)
next
  case (2 lc addr p b env ttl ttls t)
  have "k < n" using "2.prems"(2) by (cases "k < n") simp_all
  then have ttl: "ttl = Suc k" "ttls = [Suc (Suc k)..<Suc n]"
    using "2.prems"(2) by (simp_all add: upt_conv_Cons del: upt_Suc)
  let ?io = "env ttl"
  let ?rtt = "as_millis_f64 (lh_event_at ?io - lh_sent_at ?io)"
  let ?w = "wait_icmp_event lc (hop_deadline b (lh_sent_at ?io) p) (lh_rounds ?io)"
  let ?t = "t\<lparr>pt_probed_ttls := ttl\<rparr>"
  show ?case
  proof (cases "budget_spent b (lh_checked_at ?io)")
    case True
    then have "t' = t\<lparr>pt_budget_truncated := True\<rparr>" using "2.prems"(1) by (simp add: Let_def)
    moreover have "scan_inv env k (t\<lparr>pt_budget_truncated := True\<rparr>)" using "2.prems"(4) by (simp add: scan_inv_def)
    ultimately show ?thesis using "2.prems"(3) scan_inv_honest by metis
  next
    case False
    obtain u where u: "lh_set_ttl ?io = Inr u"
      using "2.prems"(1) False by (cases "lh_set_ttl ?io") (simp_all add: Let_def)
    note IH = "2.IH" [OF refl False u refl refl]
    consider (silent) "?w = None" | (time) off where "?w = Some (TimeExceeded off)"
      | (dest) "?w = Some DestinationReached" | (unreach) off where "?w = Some (Unreachable off)"
      by (cases ?w; cases "the ?w") auto
    then show ?thesis
    proof cases
      case silent
      have "scan_inv env ttl (push_hop ttl None None ?t)"
        unfolding ttl by (rule scan_inv_push [OF "2.prems"(4)]) (simp add: hop_honest_def)
      then show ?thesis using IH(1) [OF silent, of ttl] "2.prems"(1) False u silent ttl \<open>k < n\<close>
        by (simp add: Let_def del: upt_Suc)
    next
      case time
      have "scan_inv env ttl (push_hop ttl (map_option show_ip off) (Some ?rtt) ?t)"
        unfolding ttl by (rule scan_inv_push [OF "2.prems"(4)])
          (rule hop_of_event [of lc "hop_deadline b (lh_sent_at (env (Suc k))) p"], use time ttl in simp)
      then show ?thesis using IH(2) [OF time refl, of ttl] "2.prems"(1) False u time ttl \<open>k < n\<close>
        by (simp add: Let_def del: upt_Suc)
    next
      case dest
      then have "t' = (push_hop ttl (Some (show_ip addr)) (Some ?rtt) ?t)
          \<lparr>pt_destination_reached := True, pt_destination_rtt_ms := Some ?rtt, pt_hop_count := Some ttl\<rparr>"
        using "2.prems"(1) False u by (simp add: Let_def)
      then show ?thesis using "2.prems"(4) \<open>k < n\<close> ttl(1) by (auto simp: scan_inv_def trace_honest_def)
    next
      case unreach
      have "scan_inv env ttl (push_hop ttl (map_option show_ip off) (Some ?rtt) ?t)"
        unfolding ttl by (rule scan_inv_push [OF "2.prems"(4)])
          (rule hop_of_event [of lc "hop_deadline b (lh_sent_at (env (Suc k))) p"], use unreach ttl in simp)
      moreover have "t' = push_hop ttl (map_option show_ip off) (Some ?rtt) ?t"
        using "2.prems"(1) False u unreach by (simp add: Let_def)
      ultimately show ?thesis using \<open>k < n\<close> ttl(1) scan_inv_honest by auto
    qed
  qed
qed

lemma drop_silent_honest: "trace_honest env addr n t \<Longrightarrow> trace_honest env addr n (drop_silent t)"
  by (auto simp: drop_silent_def trace_honest_def)


text \<open>The constants of Linux on x86-64.\<close>

definition linux_libc :: libc where
  "linux_libc = \<lparr>EMSGSIZE = 90, ECONNREFUSED = 111, SO_EE_ORIGIN_ICMP = 2, SO_EE_ORIGIN_ICMP6 = 3,
     IPPROTO_IP = 0, IPPROTO_IPV6 = 41, IP_RECVERR = 11, IPV6_RECVERR = 25\<rparr>"


text \<open>A trace is never reported better than it is. A hop-discovery attempt succeeds exactly when
  the trace reached the destination or names a hop, and exactly then carries no error; a trace
  with no information is blamed on the runner's own environment only when a TCP connection to the
  destination was made, and otherwise on the path; a failed trace reports no result.\<close>

theorem path_attempt_classified:
  fixes hr backend connect ids cfg
  defines "a \<equiv> run_path_probe hr backend None connect ids cfg"
  assumes "path_resolve_host hr (pa_target_host cfg) = Inr addr"
  shows "(case backend addr (clamp_ttl (pa_max_ttl cfg)) (max (pa_per_hop_timeout_ms cfg) 1) (pa_base_port cfg)
        (pa_total_budget_ms cfg) of
      Inl msg \<Rightarrow> \<not> at_success a \<and> at_path a = None \<and> map_option er_category (at_error a) = Some OtherError
    | Inr t \<Rightarrow> map_option ps_hops (at_path a) = Some (pt_hops t) \<and>
        map_option ps_destination_reached (at_path a) = Some (pt_destination_reached t) \<and>
        at_success a = (pt_destination_reached t \<or> pt_hops t \<noteq> []) \<and>
        (at_error a = None \<longleftrightarrow> at_success a) \<and>
        (\<not> at_success a \<longrightarrow> map_option er_category (at_error a) =
           Some (if \<exists>port. pa_verify_tcp_port cfg = Some port \<and> snd (connect port) \<noteq> None
                 then ConfigError else UdpError)))"
  using assms(2)
  by (auto simp: a_def run_path_probe_def path_failed_def error_of_def silent_verdict_def tcp_reachability_ms_def
      Let_def attempt.defs path_attempt.defs split: sum.splits option.splits)

theorem path_attempt_classified_witness:
  defines "ids \<equiv> \<lparr>ai_run_id = 1, ai_attempt_id = 2, ai_sequence_num = 0, ai_started_at = 0, ai_finished_at = 0,
      ai_error_at = 0\<rparr>"
    and "hr \<equiv> \<lparr>hr_parse = \<lambda>s. Some (V4 1), hr_lookup = \<lambda>s. Inl ''''\<rparr>"
    and "backend \<equiv> \<lambda>a n p b t. Inr (no_trace LINUX_METHOD)"
    and "connect \<equiv> \<lambda>port. (5, Some 9)"
  shows "map_option er_category (at_error (run_path_probe hr backend None connect ids path_config_default)) = Some ConfigError"
  using path_attempt_classified [of hr path_config_default "V4 1" backend connect ids]
  by (simp add: hr_def backend_def connect_def path_resolve_host_def resolve_host_def Let_def no_trace_def
      path_config_default_def)

end
