(* ===== verification/Dualstack.thy ===== *)
theory Dualstack
  imports Ping Formats
begin

text \<open>
  The comparison of the two address families, \<open>crates/networker-tester/src/runner/dualstack.rs\<close>:
  which families have addresses, one pinned request for each of them, and the verdict of the
  happy-eyeballs race. The resolver and the HTTP request are parameters; of the latter's attempt
  the leg copies the fields of \<open>leg_probe\<close>.
\<close>

definition HAPPY_EYEBALLS_GRACE_MS :: f64 where "HAPPY_EYEBALLS_GRACE_MS = 250"

record leg_probe =
  lp_success :: bool
  lp_resolved_ips :: "string list option"
  lp_dns_ms :: "f64 option"
  lp_tcp_ms :: "f64 option"
  lp_tls_ms :: "f64 option"
  lp_http :: "(f64 \<times> f64) option"
  lp_error :: "string option"

record leg =
  lg_attempted :: bool
  lg_success :: bool
  lg_addr :: "string option"
  lg_dns_ms :: "f64 option"
  lg_tcp_ms :: "f64 option"
  lg_tls_ms :: "f64 option"
  lg_ttfb_ms :: "f64 option"
  lg_total_ms :: "f64 option"
  lg_error :: "string option"

text \<open>Of the HTTP result the time to the first byte and the total time.\<close>

definition run_leg :: "string option \<Rightarrow> leg_probe \<Rightarrow> leg" where
  "run_leg host a =
     \<lparr>lg_attempted = True, lg_success = lp_success a,
      lg_addr = (case (case lp_resolved_ips a of Some (ip # _) \<Rightarrow> Some ip | _ \<Rightarrow> None) of
         Some ip \<Rightarrow> Some ip | None \<Rightarrow> map_option strip_brackets host),
      lg_dns_ms = lp_dns_ms a, lg_tcp_ms = lp_tcp_ms a, lg_tls_ms = lp_tls_ms a,
      lg_ttfb_ms = map_option fst (lp_http a),
      lg_total_ms = (if lp_success a then map_option snd (lp_http a) else None),
      lg_error = lp_error a\<rparr>"

definition absent_leg :: "string \<Rightarrow> leg" where
  "absent_leg reason = \<lparr>lg_attempted = False, lg_success = False, lg_addr = None, lg_dns_ms = None,
     lg_tcp_ms = None, lg_tls_ms = None, lg_ttfb_ms = None, lg_total_ms = None, lg_error = Some reason\<rparr>"

definition F64_MAX :: f64 where "F64_MAX = (2 ^ 53 - 1) * 2 ^ 971"

definition race_ms :: "leg \<Rightarrow> f64" where
  "race_ms l = (case lg_tcp_ms l of Some t \<Rightarrow> t | None \<Rightarrow> (case lg_total_ms l of Some t \<Rightarrow> t | None \<Rightarrow> F64_MAX))"

definition happy_eyeballs_verdict :: "leg \<Rightarrow> leg \<Rightarrow> string" where
  "happy_eyeballs_verdict ipv4 ipv6 =
     (if \<not> lg_success ipv4 \<and> \<not> lg_success ipv6 then ''none (both families failed)''
      else if lg_success ipv4 \<and> \<not> lg_success ipv6 then
        (if lg_attempted ipv6 then ''ipv4 (ipv6 attempted but failed)'' else ''ipv4 (only family with records)'')
      else if \<not> lg_success ipv4 then
        (if lg_attempted ipv4 then ''ipv6 (ipv4 attempted but failed)'' else ''ipv6 (only family with records)'')
      else
        let v4 = race_ms ipv4; v6 = race_ms ipv6
        in if v6 \<le> f64_add v4 HAPPY_EYEBALLS_GRACE_MS
           then ''ipv6 (connect '' @ fixed 1 v6 @ ''ms within '' @ fixed 0 HAPPY_EYEBALLS_GRACE_MS @
             ''ms grace of ipv4's '' @ fixed 1 v4 @ ''ms)''
           else ''ipv4 (ipv6 connect '' @ fixed 1 v6 @ ''ms exceeds ipv4's '' @ fixed 1 v4 @
             ''ms by more than the '' @ fixed 0 HAPPY_EYEBALLS_GRACE_MS @ ''ms grace)'')"

record dualstack_result =
  ds_ipv4 :: leg
  ds_ipv6 :: leg
  ds_faster_family :: "string option"
  ds_delta_ms :: "f64 option"
  ds_verdict :: string
  ds_grace_ms :: f64
  ds_started_at :: nat

record dualstack_attempt = attempt +
  at_dualstack :: "dualstack_result option"

definition dualstack_failed :: "attempt_ids \<Rightarrow> error_category \<Rightarrow> string \<Rightarrow> dualstack_attempt" where
  "dualstack_failed ids category message =
     attempt.extend (attempt_new ids DualStack False (Some (error_of ids category message))) \<lparr>at_dualstack = None\<rparr>"

text \<open>Whether each family has an address: a literal pins its own.\<close>

definition families :: "(string \<Rightarrow> ip_addr option) \<Rightarrow> (string \<Rightarrow> (error_category \<times> string) + ip_addr list) \<Rightarrow> string \<Rightarrow>
   (error_category \<times> string) + bool \<times> bool" where
  "families parse resolve_detailed bare = (case parse bare of
     Some ip \<Rightarrow> Inr (\<not> is_ipv6 ip, is_ipv6 ip)
   | None \<Rightarrow> (case resolve_detailed bare of
       Inl e \<Rightarrow> Inl e
     | Inr ips \<Rightarrow> Inr (list_ex (\<lambda>ip. \<not> is_ipv6 ip) ips, list_ex is_ipv6 ips)))"

definition compare_totals :: "leg \<Rightarrow> leg \<Rightarrow> string option \<times> f64 option" where
  "compare_totals ipv4 ipv6 = (case (lg_total_ms ipv4, lg_total_ms ipv6) of
     (Some v4, Some v6) \<Rightarrow> (Some (if v4 \<le> v6 then ''ipv4'' else ''ipv6''), Some \<bar>f64_sub v4 v6\<bar>)
   | _ \<Rightarrow> (None, None))"

definition dualstack_result_of :: "attempt_ids \<Rightarrow> leg \<Rightarrow> leg \<Rightarrow> dualstack_result" where
  "dualstack_result_of ids ipv4 ipv6 = (case compare_totals ipv4 ipv6 of (faster, delta) \<Rightarrow>
     \<lparr>ds_ipv4 = ipv4, ds_ipv6 = ipv6, ds_faster_family = faster, ds_delta_ms = delta,
      ds_verdict = happy_eyeballs_verdict ipv4 ipv6, ds_grace_ms = HAPPY_EYEBALLS_GRACE_MS,
      ds_started_at = ai_started_at ids\<rparr>)"

text \<open>\<open>http v4only v6only\<close> is the pinned HTTP/1.1 request.\<close>

definition run_dualstack_probe ::
  "(string \<Rightarrow> ip_addr option) \<Rightarrow> (string \<Rightarrow> (error_category \<times> string) + ip_addr list) \<Rightarrow>
   (bool \<Rightarrow> bool \<Rightarrow> leg_probe) \<Rightarrow> 'u url_api \<Rightarrow> attempt_ids \<Rightarrow> 'u \<Rightarrow> dualstack_attempt" where
  "run_dualstack_probe parse resolve_detailed http api ids target = (case url_host api target of
     None \<Rightarrow> dualstack_failed ids ConfigError ''Target URL has no host''
   | Some host \<Rightarrow> (case families parse resolve_detailed (strip_brackets host) of
       Inl (category, msg) \<Rightarrow> dualstack_failed ids category (''dualstack resolution failed: '' @ msg)
     | Inr (has_v4, has_v6) \<Rightarrow>
         (let ipv4 = (if has_v4 then run_leg (Some host) (http True False) else absent_leg ''no A records'');
              ipv6 = (if has_v6 then run_leg (Some host) (http False True) else absent_leg ''no AAAA records'');
              any_success = lg_success ipv4 \<or> lg_success ipv6;
              reason = (\<lambda>l. case lg_error l of Some e \<Rightarrow> e | None \<Rightarrow> ''not attempted'');
              err = (if any_success then None else Some (error_of ids HttpError
                (''Both address families failed '' @ em_dash @ '' ipv4: '' @ reason ipv4 @ ''; ipv6: '' @ reason ipv6)))
          in attempt.extend (attempt_new ids DualStack any_success err)
               \<lparr>at_dualstack = Some (dualstack_result_of ids ipv4 ipv6)\<rparr>)))"

end
