(* ===== verification/Websocket.thy ===== *)
theory Websocket
  imports Echo Dualstack
begin

text \<open>
  The WebSocket probe, \<open>crates/networker-tester/src/runner/websocket.rs\<close>: the address it connects
  to, the phases before the upgrade with their errors, the upgrade, and the echo messages, which are
  another echo train. The resolver, the TCP and TLS connections and the upgrade are inputs, each
  the value or the error the source matches on; the results of the phases are only passed on.
\<close>

record ws_config =
  wc_message_count :: u32
  wc_payload_size :: nat
  wc_msg_timeout_ms :: u64

definition ws_config_default :: ws_config where
  "ws_config_default = \<lparr>wc_message_count = 10, wc_payload_size = 64, wc_msg_timeout_ms = 5000\<rparr>"

section \<open>The echo messages\<close>

text \<open>A received message with the instant it was handled; the chatter is pings, pongs and frames.\<close>

datatype ws_event = WsBinary bytes instant | WsText bytes instant | WsClose | WsChatter
  | WsRecvError | WsClosed | WsTimeout

definition ws_data :: "ws_event \<Rightarrow> (bytes \<times> instant) option" where
  "ws_data ev = (case ev of WsBinary b tm \<Rightarrow> Some (b, tm) | WsText b tm \<Rightarrow> Some (b, tm) | _ \<Rightarrow> None)"

definition ws_credit :: "nat \<Rightarrow> instant \<Rightarrow> instant option list \<Rightarrow> f64 option list \<Rightarrow> f64 option list" where
  "ws_credit echo_seq tm send_times rtts =
     (case (if echo_seq < length send_times then send_times ! echo_seq else None) of
        Some t0 \<Rightarrow> (if rtts ! echo_seq = None then rtts[echo_seq := Some (as_millis_f64 (tm - t0))] else rtts)
      | None \<Rightarrow> rtts)"

fun ws_wait :: "nat \<Rightarrow> instant \<Rightarrow> instant option list \<Rightarrow> (instant \<times> ws_event) list \<Rightarrow> f64 option list \<Rightarrow>
   f64 option list" where
  "ws_wait current deadline send_times [] rtts = rtts"
| "ws_wait current deadline send_times ((now, ev) # evs) rtts =
     (if deadline \<le> now then rtts
      else case ws_data ev of
        Some (data, tm) \<Rightarrow>
          (if length data < 4 then ws_wait current deadline send_times evs rtts
           else let rtts = ws_credit (unat (be32_of (slice 0 4 data))) tm send_times rtts
                in if rtts ! current \<noteq> None then rtts
                   else ws_wait current deadline send_times evs rtts)
      | None \<Rightarrow> (if ev = WsChatter then ws_wait current deadline send_times evs rtts else rtts))"

text \<open>The loop over the messages ends at the first send that fails.\<close>

fun ws_loop :: "duration \<Rightarrow> (nat \<Rightarrow> ws_event echo_input) \<Rightarrow> nat list \<Rightarrow> instant option list \<Rightarrow> f64 option list \<Rightarrow>
   f64 option list" where
  "ws_loop timeout inputs [] send_times rtts = rtts"
| "ws_loop timeout inputs (n # ns) send_times rtts =
     (let i = inputs n; send_times = send_times[n := Some (ec_sent_at i)]
      in if \<not> ec_send_ok i then rtts
         else ws_loop timeout inputs ns send_times
           (ws_wait n (ec_sent_at i + timeout) send_times (ec_events i) rtts))"

record ws_outcome =
  wo_upgrade_ms :: f64
  wo_upgrade_status :: "u16 option"
  wo_msg_rtts :: "f64 option list"

datatype 'a timed = TimedValue 'a | TimedFailed string | TimedElapsed

text \<open>The upgrade: the response's status and the instants around it.\<close>

definition ws_session :: "(u16 \<times> instant \<times> instant) timed \<Rightarrow> (nat \<Rightarrow> ws_event echo_input) \<Rightarrow> u64 \<Rightarrow> ws_config \<Rightarrow>
   (error_category \<times> string) + ws_outcome" where
  "ws_session upgrade inputs upgrade_timeout_ms cfg = (case upgrade of
     TimedFailed e \<Rightarrow> Inl (HttpError, ''WebSocket upgrade failed: '' @ e)
   | TimedElapsed \<Rightarrow> Inl (TimeoutError, ''WebSocket upgrade timed out after '' @ decimal (unat upgrade_timeout_ms) @ ''ms'')
   | TimedValue (status, t0, t1) \<Rightarrow>
       (let count = unat (max (wc_message_count cfg) 1)
        in Inr \<lparr>wo_upgrade_ms = as_millis_f64 (t1 - t0), wo_upgrade_status = Some status,
             wo_msg_rtts = ws_loop (from_millis (unat (max (wc_msg_timeout_ms cfg) 1))) inputs [0..<count]
               (replicate count None) (replicate count None)\<rparr>))"

section \<open>The probe\<close>

record ws_result =
  wr_url :: string
  wr_upgrade_ms :: f64
  wr_upgrade_status :: "u16 option"
  wr_message_count :: u32
  wr_echo_count :: u32
  wr_loss_percent :: f64
  wr_msg_rtt_min_ms :: f64
  wr_msg_rtt_avg_ms :: f64
  wr_msg_rtt_p95_ms :: f64
  wr_jitter_ms :: f64
  wr_msg_rtts_ms :: "f64 option list"
  wr_payload_size :: nat
  wr_started_at :: nat

record ('d, 't, 'l) ws_attempt = attempt +
  at_dns :: "'d option"
  at_tcp :: "'t option"
  at_tls :: "'l option"
  at_websocket :: "ws_result option"

definition ws_failed :: "attempt_ids \<Rightarrow> error_category \<Rightarrow> string \<Rightarrow> string option \<Rightarrow> 'd option \<Rightarrow> 't option \<Rightarrow>
   'l option \<Rightarrow> ('d, 't, 'l) ws_attempt" where
  "ws_failed ids category message detail dns tcp tls =
     attempt.extend (attempt_new ids WebSocket False (Some ((error_of ids category message)\<lparr>er_detail := detail\<rparr>)))
       \<lparr>at_dns = dns, at_tcp = tcp, at_tls = tls, at_websocket = None\<rparr>"

text \<open>What the phases before the upgrade returned.\<close>

record ('d, 't, 'l) ws_io =
  wi_resolve :: "(error_category \<times> string \<times> string option) + ip_addr list \<times> 'd"
  wi_connect :: "socket_addr \<Rightarrow> 't timed"
  wi_tls_config :: "string + unit"
  wi_server_name :: "string \<Rightarrow> string + unit"
  wi_handshake :: "'l timed"
  wi_upgrade :: "(u16 \<times> instant \<times> instant) timed"
  wi_inputs :: "nat \<Rightarrow> ws_event echo_input"

record ws_run_config =
  rc_timeout_ms :: u64
  rc_dns_enabled :: bool
  rc_ipv4_only :: bool

definition ws_secure :: "'u url_api \<Rightarrow> 'u \<Rightarrow> bool" where
  "ws_secure api u \<longleftrightarrow> url_scheme api u = ''https'' \<or> url_scheme api u = ''wss''"

definition ws_port :: "'u url_api \<Rightarrow> 'u \<Rightarrow> u16" where
  "ws_port api u = (case url_port api u of Some p \<Rightarrow> p | None \<Rightarrow> (if ws_secure api u then 443 else 80))"

definition ws_url_of :: "'u url_api \<Rightarrow> 'u \<Rightarrow> string \<Rightarrow> string" where
  "ws_url_of api u host = (if ws_secure api u then ''wss'' else ''ws'') @ ''://'' @ host @ '':'' @
     decimal (unat (ws_port api u)) @ ''/ws''"

text \<open>The address; \<open>ips[0]\<close> when no address of the wanted family is listed.\<close>

definition ws_address :: "(string \<Rightarrow> ip_addr option) \<Rightarrow> ('d, 't, 'l) ws_io \<Rightarrow> ws_run_config \<Rightarrow> string \<Rightarrow>
   (error_category \<times> string \<times> string option) + ip_addr \<times> 'd option" where
  "ws_address parse io rc host =
     (if rc_dns_enabled rc
      then case wi_resolve io of
          Inl e \<Rightarrow> Inl e
        | Inr (ips, r) \<Rightarrow>
            (case find (\<lambda>ip. if rc_ipv4_only rc then \<not> is_ipv6 ip else True) ips of
               Some ip \<Rightarrow> Inr (ip, Some r)
             | None \<Rightarrow> Inr (hd ips, Some r))
      else case parse (strip_brackets host) of
          Some ip \<Rightarrow> Inr (ip, None)
        | None \<Rightarrow> Inl (ConfigError, ''dns_enabled=false but '' @ CHR 0x27 # host @ CHR 0x27 # '' is not a valid IP'', None))"

definition ws_tls :: "('d, 't, 'l) ws_io \<Rightarrow> ws_run_config \<Rightarrow> string \<Rightarrow>
   (error_category \<times> string \<times> string option) + 'l" where
  "ws_tls io rc host = (case wi_tls_config io of
     Inl e \<Rightarrow> Inl (TlsError, e, None)
   | Inr _ \<Rightarrow> (case wi_server_name io (strip_brackets host) of
       Inl e \<Rightarrow> Inl (TlsError, ''Invalid SNI: '' @ e, None)
     | Inr _ \<Rightarrow> (case wi_handshake io of
         TimedValue l \<Rightarrow> Inr l
       | TimedFailed e \<Rightarrow> Inl (TlsError, e, Some ''TLS handshake'')
       | TimedElapsed \<Rightarrow> Inl (TimeoutError, ''TLS handshake timed out after '' @
           decimal (unat (rc_timeout_ms rc)) @ ''ms'', None))))"

definition ws_result_of :: "attempt_ids \<Rightarrow> ws_config \<Rightarrow> string \<Rightarrow> ws_outcome \<Rightarrow> ws_result" where
  "ws_result_of ids cfg url s =
     (let stats = aggregate_udp_rtts (wo_msg_rtts s)
      in \<lparr>wr_url = url, wr_upgrade_ms = wo_upgrade_ms s, wr_upgrade_status = wo_upgrade_status s,
          wr_message_count = of_nat (length (wo_msg_rtts s)), wr_echo_count = count_received (wo_msg_rtts s),
          wr_loss_percent = rtt_loss_percent stats, wr_msg_rtt_min_ms = rtt_min stats,
          wr_msg_rtt_avg_ms = rtt_avg stats, wr_msg_rtt_p95_ms = rtt_p95 stats, wr_jitter_ms = rtt_jitter stats,
          wr_msg_rtts_ms = wo_msg_rtts s, wr_payload_size = max (wc_payload_size cfg) 12,
          wr_started_at = ai_started_at ids\<rparr>)"

definition run_websocket_probe :: "(string \<Rightarrow> ip_addr option) \<Rightarrow> 'u url_api \<Rightarrow> ('d, 't, 'l) ws_io \<Rightarrow> attempt_ids \<Rightarrow>
   'u \<Rightarrow> ws_run_config \<Rightarrow> ws_config \<Rightarrow> ('d, 't, 'l) ws_attempt" where
  "run_websocket_probe parse api io ids target rc cfg = (case url_host api target of
     None \<Rightarrow> ws_failed ids ConfigError ''Target URL has no host'' None None None None
   | Some host \<Rightarrow> (case ws_address parse io rc host of
       Inl (category, msg, detail) \<Rightarrow> ws_failed ids category msg detail None None None
     | Inr (ip, dns) \<Rightarrow>
         (let addr = (ip, ws_port api target)
          in case wi_connect io addr of
            TimedFailed e \<Rightarrow> ws_failed ids TcpError e (Some (''connect to '' @ show_socket_addr addr)) dns None None
          | TimedElapsed \<Rightarrow> ws_failed ids TimeoutError (''TCP connect to '' @ show_socket_addr addr @
              '' timed out after '' @ decimal (unat (rc_timeout_ms rc)) @ ''ms'') None dns None None
          | TimedValue tcp \<Rightarrow>
              (case (if ws_secure api target then map_sum id Some (ws_tls io rc host) else Inr None) of
                 Inl (category, msg, detail) \<Rightarrow> ws_failed ids category msg detail dns (Some tcp) None
               | Inr tls \<Rightarrow> (case ws_session (wi_upgrade io) (wi_inputs io) (rc_timeout_ms rc) cfg of
                   Inl (category, msg) \<Rightarrow> ws_failed ids category msg None dns (Some tcp) tls
                 | Inr s \<Rightarrow>
                     (let r = ws_result_of ids cfg (ws_url_of api target host) s;
                          success = 0 < wr_echo_count r;
                          err = (if success then None else Some (error_of ids HttpError
                            (''WebSocket upgrade succeeded but all '' @ decimal (unat (wr_message_count r)) @
                             '' echo messages timed out after '' @ decimal (unat (wc_msg_timeout_ms cfg)) @
                             ''ms each '' @ em_dash @ '' is the target's /ws route an echo server?'')))
                      in attempt.extend (attempt_new ids WebSocket success err)
                           \<lparr>at_dns = dns, at_tcp = Some tcp, at_tls = tls, at_websocket = Some r\<rparr>))))))"

end
