(* ===== verification/Connect_Properties.thy ===== *)
theory Connect_Properties
  imports Websocket
begin

text \<open>
  The properties of the two probes that compare or hold a connection: the verdict of the
  address-family comparison, and the echo train of the WebSocket probe, which is the train of
  \<open>Echo\<close> whose sends all fail after the first failure.
\<close>

section \<open>The comparison of the address families\<close>

lemma absent_leg_sel [simp]:
  "\<not> lg_attempted (absent_leg m)" "\<not> lg_success (absent_leg m)" "lg_tcp_ms (absent_leg m) = None"
  "lg_total_ms (absent_leg m) = None"
  by (simp_all add: absent_leg_def)

lemma dualstack_result_sel [simp]:
  "ds_ipv4 (dualstack_result_of ids v4 v6) = v4" "ds_ipv6 (dualstack_result_of ids v4 v6) = v6"
  "ds_verdict (dualstack_result_of ids v4 v6) = happy_eyeballs_verdict v4 v6"
  "ds_delta_ms (dualstack_result_of ids v4 v6) = snd (compare_totals v4 v6)"
  "ds_faster_family (dualstack_result_of ids v4 v6) = fst (compare_totals v4 v6)"
  by (simp_all add: dualstack_result_of_def split: prod.splits)

lemma verdict_family:
  "starts_with ''ipv6'' (happy_eyeballs_verdict v4 v6) \<longleftrightarrow> lg_success v6 \<and>
     (lg_success v4 \<longrightarrow> race_ms v6 \<le> f64_add (race_ms v4) HAPPY_EYEBALLS_GRACE_MS)"
  "starts_with ''ipv4'' (happy_eyeballs_verdict v4 v6) \<longleftrightarrow> lg_success v4 \<and>
     (lg_success v6 \<longrightarrow> f64_add (race_ms v4) HAPPY_EYEBALLS_GRACE_MS < race_ms v6)"
  "starts_with ''none'' (happy_eyeballs_verdict v4 v6) \<longleftrightarrow> \<not> lg_success v4 \<and> \<not> lg_success v6"
  by (auto simp: happy_eyeballs_verdict_def starts_with_def Let_def)

text \<open>A dual-stack attempt reports what its legs did. A family without addresses is not probed and
  has no times; the attempt succeeds exactly when a leg does and exactly then has no error; the
  faster family and the difference are reported exactly when both requests completed, the faster
  one is the family of the smaller total; and the verdict names IPv6 exactly when its request
  succeeded and, if IPv4's did too, its connection took at most the grace longer.\<close>

theorem dualstack_honest:
  fixes parse resolve_detailed http api ids target
  defines "a \<equiv> run_dualstack_probe parse resolve_detailed http api ids target"
  assumes "url_host api target = Some host" "families parse resolve_detailed (strip_brackets host) = Inr (has_v4, has_v6)"
  shows "\<exists>r. at_dualstack a = Some r \<and>
    (\<not> has_v4 \<longrightarrow> \<not> lg_attempted (ds_ipv4 r) \<and> lg_tcp_ms (ds_ipv4 r) = None \<and> lg_total_ms (ds_ipv4 r) = None) \<and>
    (\<not> has_v6 \<longrightarrow> \<not> lg_attempted (ds_ipv6 r) \<and> lg_tcp_ms (ds_ipv6 r) = None \<and> lg_total_ms (ds_ipv6 r) = None) \<and>
    at_success a = (lg_success (ds_ipv4 r) \<or> lg_success (ds_ipv6 r)) \<and> (at_error a = None \<longleftrightarrow> at_success a) \<and>
    (case (lg_total_ms (ds_ipv4 r), lg_total_ms (ds_ipv6 r)) of
       (Some t4, Some t6) \<Rightarrow> ds_delta_ms r = Some \<bar>f64_sub t4 t6\<bar> \<and>
         ds_faster_family r = Some (if t4 \<le> t6 then ''ipv4'' else ''ipv6'')
     | _ \<Rightarrow> ds_delta_ms r = None \<and> ds_faster_family r = None) \<and>
    (starts_with ''ipv6'' (ds_verdict r) \<longleftrightarrow> lg_success (ds_ipv6 r) \<and>
       (lg_success (ds_ipv4 r) \<longrightarrow> race_ms (ds_ipv6 r) \<le> f64_add (race_ms (ds_ipv4 r)) HAPPY_EYEBALLS_GRACE_MS)) \<and>
    (starts_with ''ipv4'' (ds_verdict r) \<longleftrightarrow> lg_success (ds_ipv4 r) \<and>
       (lg_success (ds_ipv6 r) \<longrightarrow> f64_add (race_ms (ds_ipv4 r)) HAPPY_EYEBALLS_GRACE_MS < race_ms (ds_ipv6 r)))"
proof -
  define v4 where "v4 = (if has_v4 then run_leg (Some host) (http True False) else absent_leg ''no A records'')"
  define v6 where "v6 = (if has_v6 then run_leg (Some host) (http False True) else absent_leg ''no AAAA records'')"
  have a: "at_dualstack a = Some (dualstack_result_of ids v4 v6)" "at_success a = (lg_success v4 \<or> lg_success v6)"
    "at_error a = None \<longleftrightarrow> at_success a"
    using assms(2,3)
    by (simp_all add: a_def run_dualstack_probe_def v4_def [symmetric] v6_def [symmetric] Let_def
        attempt.defs dualstack_attempt.defs)
  have absent: "\<not> has_v4 \<Longrightarrow> v4 = absent_leg ''no A records''" "\<not> has_v6 \<Longrightarrow> v6 = absent_leg ''no AAAA records''"
    by (simp_all add: v4_def v6_def)
  show ?thesis
    by (rule exI [of _ "dualstack_result_of ids v4 v6"])
      (use absent in \<open>auto simp: a verdict_family compare_totals_def split: option.splits\<close>)
qed

section \<open>The WebSocket echo train\<close>

definition ws_names :: "ws_event \<Rightarrow> (nat \<times> instant) option" where
  "ws_names ev = (case ws_data ev of
     Some (data, tm) \<Rightarrow> (if 4 \<le> length data then Some (unat (be32_of (slice 0 4 data)), tm) else None)
   | None \<Rightarrow> None)"

lemma ws_credit_cases:
  "ws_credit k tm st rtts = rtts \<or>
   (\<exists>sent. k < length st \<and> st ! k = Some sent \<and> rtts ! k = None \<and>
      ws_credit k tm st rtts = rtts[k := Some (as_millis_f64 (tm - sent))])"
  by (auto simp: ws_credit_def split: option.splits)

lemma length_ws_credit [simp]: "length (ws_credit k tm st rtts) = length rtts"
  using ws_credit_cases [of k tm st rtts] by auto

lemma ws_credit_keeps: "n < length rtts \<Longrightarrow> rtts ! n = Some r \<Longrightarrow> ws_credit k tm st rtts ! n = Some r"
  using ws_credit_cases [of k tm st rtts] by (cases "k = n") auto

lemma ws_credit_new:
  assumes "n < length rtts" "rtts ! n = None" "ws_credit k tm st rtts ! n = Some r"
  shows "k = n \<and> (\<exists>sent. st ! n = Some sent \<and> r = as_millis_f64 (tm - sent))"
  using ws_credit_cases [of k tm st rtts] assms by (cases "k = n") auto

lemma ws_credit_self:
  "k < length rtts \<Longrightarrow> k < length st \<Longrightarrow> st ! k = Some sent \<Longrightarrow> ws_credit k tm st rtts ! k \<noteq> None"
  by (cases "rtts ! k") (simp_all add: ws_credit_def)

lemma length_ws_wait [simp]: "length (ws_wait n d st evs rtts) = length rtts"
  by (induction n d st evs rtts rule: ws_wait.induct) (auto simp: Let_def split: option.splits)

lemma ws_wait_keeps: "k < length rtts \<Longrightarrow> rtts ! k = Some r \<Longrightarrow> ws_wait n d st evs rtts ! k = Some r"
  by (induction n d st evs rtts rule: ws_wait.induct)
    (auto simp: Let_def ws_credit_keeps split: option.splits)

interpretation ws_train: echo_train ws_wait id ws_names
proof (unfold_locales, goal_cases)
  case (1 n d st evs s)
  show ?case by simp
next
  case (2 k s r n d st evs)
  then show ?case by (simp add: ws_wait_keeps)
next
  case (3 k s n d st evs r)
  then show ?case unfolding id_apply
  proof (induction n d st evs s rule: ws_wait.induct)
    case (2 n d st now ev evs rtts)
    show ?case
    proof (cases "\<not> d \<le> now \<and> (\<exists>data tm. ws_data ev = Some (data, tm) \<and> 4 \<le> length data)")
      case True
      then obtain data tm where ev: "ws_data ev = Some (data, tm)" "4 \<le> length data" "\<not> d \<le> now" by blast
      let ?rtts = "ws_credit (unat (be32_of (slice 0 4 data))) tm st rtts"
      show ?thesis
      proof (cases "?rtts ! k")
        case None
        have "\<exists>now' ev' tm' sent. (now', ev') \<in> set evs \<and> ws_names ev' = Some (k, tm') \<and> st ! k = Some sent \<and>
            r = as_millis_f64 (tm' - sent)"
        proof (cases "?rtts ! n")
          case None': None
          then show ?thesis
            using "2.IH"(3) [OF ev(3) ev(1) refl _ refl] "2.prems" ev None by (simp add: Let_def)
        next
          case Some
          then show ?thesis using "2.prems" ev None by (simp add: Let_def)
        qed
        then show ?thesis by auto
      next
        case (Some r')
        have "ws_wait n d st ((now, ev) # evs) rtts ! k = Some r'"
          using Some ev "2.prems"(1) by (auto simp: Let_def intro: ws_wait_keeps)
        then have "r' = r" using "2.prems"(3) by simp
        with ws_credit_new [OF "2.prems"(1,2) Some] obtain sent where
          "unat (be32_of (slice 0 4 data)) = k" "st ! k = Some sent" "r = as_millis_f64 (tm - sent)" by blast
        then show ?thesis
          by (intro exI [of _ now] exI [of _ ev] exI [of _ tm] exI [of _ sent]) (simp add: ev ws_names_def)
      qed
    qed (use 2 in \<open>fastforce simp: Let_def not_le split: option.splits if_splits\<close>)
  qed simp
qed

text \<open>The inputs of a train whose sends all fail from the first failure on.\<close>

definition cut_inputs :: "(nat \<Rightarrow> ws_event echo_input) \<Rightarrow> nat \<Rightarrow> ws_event echo_input" where
  "cut_inputs inputs n = (inputs n)\<lparr>ec_send_ok := (\<forall>j \<le> n. ec_send_ok (inputs j))\<rparr>"

lemma probe_step_unsent:
  "\<forall>j \<in> set ns. \<not> ec_send_ok (inputs j) \<Longrightarrow> foldl (probe_step wait timeout inputs) st ns = st"
  by (induction ns arbitrary: st) (auto simp: probe_step_def split: prod.splits)

lemma ws_loop_is_train:
  assumes "m \<le> count" "\<forall>j < m. ec_send_ok (inputs j)"
  shows "ws_loop timeout inputs [m..<count] st rtts =
    snd (foldl (probe_step ws_wait timeout (cut_inputs inputs)) (st, rtts) [m..<count])"
  using assms
proof (induction "count - m" arbitrary: m st rtts)
  case (Suc d)
  then have split: "[m..<count] = m # [Suc m..<count]" by (simp add: upt_conv_Cons)
  have sel: "ec_sent_at (cut_inputs inputs m) = ec_sent_at (inputs m)"
    "ec_events (cut_inputs inputs m) = ec_events (inputs m)" by (simp_all add: cut_inputs_def)
  show ?case
  proof (cases "ec_send_ok (inputs m)")
    case True
    then have "\<forall>j < Suc m. ec_send_ok (inputs j)" using Suc.prems(2) less_Suc_eq by auto
    moreover from this have "ec_send_ok (cut_inputs inputs m)" by (simp add: cut_inputs_def)
    ultimately show ?thesis
      using Suc.hyps(1) [of "Suc m"] Suc.hyps(2) Suc.prems(1) True
      by (simp add: split probe_step_def sel Let_def)
  next
    case False
    then have "\<forall>j \<in> set [m..<count]. \<not> ec_send_ok (cut_inputs inputs j)" by (auto simp: cut_inputs_def)
    from probe_step_unsent [OF this, of ws_wait timeout "(st, rtts)"] False show ?thesis by (simp add: split)
  qed
qed simp

lemma ws_train_of:
  "ws_loop timeout inputs [0..<count] (replicate count None) (replicate count None) =
   id (snd (probe_loop ws_wait timeout count (cut_inputs inputs) (replicate count None)))"
  using ws_loop_is_train [of 0 count inputs timeout] by (simp add: probe_loop_def)

text \<open>The WebSocket probe credits every echo to the message that it names and to no other. A session
  has one slot for each message, of which there is at least one; a reading of message \<open>k\<close> is the
  time from its sending to the handling of a binary or text message that carries the number \<open>k\<close>,
  seen while \<open>k\<close> or a later message was waited for; and after the first send that fails no
  message has a reading.\<close>

theorem websocket_credits:
  assumes "ws_session upgrade inputs upgrade_timeout cfg = Inr s"
  shows "length (wo_msg_rtts s) = unat (max (wc_message_count cfg) 1) \<and> 0 < length (wo_msg_rtts s) \<and>
    (\<forall>k < length (wo_msg_rtts s). \<forall>r. wo_msg_rtts s ! k = Some r \<longrightarrow> (\<forall>j \<le> k. ec_send_ok (inputs j)) \<and>
      (\<exists>j now ev data tm. k \<le> j \<and> (now, ev) \<in> set (ec_events (inputs j)) \<and> ws_data ev = Some (data, tm) \<and>
         unat (be32_of (slice 0 4 data)) = k \<and> r = as_millis_f64 (tm - ec_sent_at (inputs k))))"
proof -
  define count where "count = unat (max (wc_message_count cfg) 1)"
  define timeout where "timeout = from_millis (unat (max (wc_msg_timeout_ms cfg) 1))"
  have s: "wo_msg_rtts s = id (snd (probe_loop ws_wait timeout count (cut_inputs inputs) (replicate count None)))"
    using assms ws_train_of [of timeout inputs count]
    by (auto simp: ws_session_def count_def timeout_def Let_def split: timed.splits)
  have init: "id (replicate count None) = replicate count (None :: f64 option)" by simp
  have len: "length (wo_msg_rtts s) = count" unfolding s by (rule ws_train.train_credits(1) [OF init])
  have "(1 :: u32) \<le> max (wc_message_count cfg) 1" by simp
  then have "0 < count" by (simp add: count_def word_le_nat_alt)
  moreover have "(\<forall>j \<le> k. ec_send_ok (inputs j)) \<and>
      (\<exists>j now ev data tm. k \<le> j \<and> (now, ev) \<in> set (ec_events (inputs j)) \<and> ws_data ev = Some (data, tm) \<and>
         unat (be32_of (slice 0 4 data)) = k \<and> r = as_millis_f64 (tm - ec_sent_at (inputs k)))"
    if k: "k < count" "wo_msg_rtts s ! k = Some r" for k r
  proof -
    have "ws_train.read_from count (cut_inputs inputs) k r"
      using k by (intro ws_train.train_credits(2) [OF init, where timeout = timeout]) (simp_all add: s)
    then obtain j now ev tm where e: "\<forall>j \<le> k. ec_send_ok (inputs j)" "k \<le> j"
      "(now, ev) \<in> set (ec_events (inputs j))" "ws_names ev = Some (k, tm)"
      "r = as_millis_f64 (tm - ec_sent_at (inputs k))"
      by (auto simp: ws_train.read_from_def cut_inputs_def)
    moreover from e(4) obtain data where "ws_data ev = Some (data, tm)" "unat (be32_of (slice 0 4 data)) = k"
      by (auto simp: ws_names_def split: option.splits if_splits)
    ultimately show ?thesis by blast
  qed
  ultimately show ?thesis by (simp add: len count_def)
qed

theorem websocket_credits_witness:
  defines "inputs \<equiv> \<lambda>n. \<lparr>ec_send_ok = (n < 1), ec_sent_at = 10, ec_events = [(11, WsBinary [0, 0, 0, 0] 14)]\<rparr>"
    and "cfg \<equiv> ws_config_default\<lparr>wc_message_count := 2\<rparr>"
  shows "\<exists>s. ws_session (TimedValue (101, 1, 5)) inputs 1000 cfg = Inr s \<and> length (wo_msg_rtts s) = 2"
proof -
  obtain s where s: "ws_session (TimedValue (101, 1, 5)) inputs 1000 cfg = Inr s"
    by (simp add: ws_session_def Let_def)
  have "max (2 :: u32) 1 = 2" by (simp add: max_def word_le_nat_alt)
  with websocket_credits [OF s] s show ?thesis by (auto simp: cfg_def)
qed

theorem dualstack_honest_witness:
  defines "ids \<equiv> \<lparr>ai_run_id = 1, ai_attempt_id = 2, ai_sequence_num = 0, ai_started_at = 0, ai_finished_at = 0,
      ai_error_at = 0\<rparr>"
    and "api \<equiv> \<lparr>url_text = \<lambda>u. u, url_scheme = \<lambda>u. ''https'', url_host = Some, url_port = \<lambda>u. None,
      url_port_or_default = \<lambda>u. Some 443, url_path = \<lambda>u. ''/'', set_scheme = \<lambda>s u. u, set_port = \<lambda>p u. u,
      set_path = \<lambda>p u. u, set_query = \<lambda>q u. u\<rparr>"
    and "http \<equiv> \<lambda>v4 v6. \<lparr>lp_success = True, lp_resolved_ips = None, lp_dns_ms = None, lp_tcp_ms = Some 5,
      lp_tls_ms = None, lp_http = Some (7, 9), lp_error = None\<rparr>"
  shows "at_success (run_dualstack_probe (\<lambda>_. None) (\<lambda>_. Inr [V4 1, V6 2]) http api ids ''example.org'')"
proof -
  have "families (\<lambda>_. None) (\<lambda>_. Inr [V4 1, V6 2]) (strip_brackets ''example.org'') = Inr (True, True)"
    by (simp add: families_def)
  from dualstack_honest [OF _ this, of api "''example.org''" http ids] show ?thesis
    by (auto simp: api_def run_dualstack_probe_def families_def http_def run_leg_def Let_def
        attempt.defs dualstack_attempt.defs)
qed

end
