(* ===== verification/H3_Offer.thy ===== *)
theory H3_Offer
  imports Formats
begin

text \<open>
  The HTTP/3 pre-flight, \<open>crates/networker-tester/src/runner/h3_offer.rs\<close>: reading \<open>Alt-Svc\<close>, the
  memo per origin and the verdict on one response, which fails open; and the modes that need HTTP/3
  (\<open>crates/networker-tester/src/http_stacks.rs\<close> over \<open>shared/http-stacks.json\<close>), with the ports of
  the known stacks.
\<close>

section \<open>The advertisement\<close>

datatype h3_offer = Advertised string | NotOffered | OfferUnknown

definition trim_quotes :: "string \<Rightarrow> string" where
  "trim_quotes s = rev (dropWhile (\<lambda>c. c = CHR 0x22) (rev (dropWhile (\<lambda>c. c = CHR 0x22) s)))"

definition protocol_id :: "string \<Rightarrow> string option" where
  "protocol_id entry = (case split_once (CHR ''='') entry of
     (_, None) \<Rightarrow> None
   | (pid, Some _) \<Rightarrow> Some (to_ascii_lowercase (trim_quotes (trim pid))))"

fun advertised_in :: "string list \<Rightarrow> bool" where
  "advertised_in [] = False"
| "advertised_in (e # es) = (case protocol_id e of
     None \<Rightarrow> advertised_in es
   | Some pid \<Rightarrow> (if pid = ''clear'' then advertised_in es
       else if pid = ''h3'' \<or> starts_with ''h3-'' pid then True
       else advertised_in es))"

definition advertises_h3 :: "string \<Rightarrow> bool" where
  "advertises_h3 alt_svc = advertised_in (split_on (CHR '','') alt_svc)"

definition alt_svc_of :: "(string \<times> string) list \<Rightarrow> string option" where
  "alt_svc_of headers = map_option snd (find (\<lambda>(k, _). eq_ignore_ascii_case k ''alt-svc'') headers)"

definition origin_of :: "'u url_api \<Rightarrow> 'u \<Rightarrow> string" where
  "origin_of api u = (case (url_host api u, url_port_or_default api u) of
     (Some h, Some p) \<Rightarrow> url_scheme api u @ ''://'' @ h @ '':'' @ decimal (unat p)
   | (Some h, None) \<Rightarrow> url_scheme api u @ ''://'' @ h
   | (None, _) \<Rightarrow> url_text api u)"

text \<open>Of the HTTP/1.1 attempt its success and, where it has an HTTP result, the response headers.\<close>

definition offer_of :: "bool \<Rightarrow> (string \<times> string) list option \<Rightarrow> h3_offer" where
  "offer_of success http = (case http of
     None \<Rightarrow> OfferUnknown
   | Some headers \<Rightarrow>
       (if \<not> success then OfferUnknown
        else case alt_svc_of headers of
          Some v \<Rightarrow> (if advertises_h3 v then Advertised v else NotOffered)
        | None \<Rightarrow> NotOffered))"

type_synonym offer_memo = "string \<rightharpoonup> h3_offer"

text \<open>\<open>probe\<close> is the request, sent only when the origin is not in the memo.\<close>

definition discover_offer :: "'u url_api \<Rightarrow> ('u \<Rightarrow> bool \<times> (string \<times> string) list option) \<Rightarrow> 'u \<Rightarrow> offer_memo \<Rightarrow>
   h3_offer \<times> offer_memo" where
  "discover_offer api probe target memo =
     (let key = origin_of api target
      in case memo key of
          Some hit \<Rightarrow> (hit, memo)
        | None \<Rightarrow> (case probe target of (success, http) \<Rightarrow>
            (let offer = offer_of success http in (offer, memo(key \<mapsto> offer)))))"

section \<open>The known stacks\<close>

record stack_ports =
  sp_id :: string
  sp_http_port :: u16
  sp_https_port :: u16
  sp_h3 :: bool

definition stacks_manifest :: "stack_ports list" where
  "stacks_manifest =
     [\<lparr>sp_id = ''endpoint'', sp_http_port = 8080, sp_https_port = 8443, sp_h3 = True\<rparr>,
      \<lparr>sp_id = ''nginx'', sp_http_port = 8081, sp_https_port = 8444, sp_h3 = True\<rparr>,
      \<lparr>sp_id = ''iis'', sp_http_port = 8082, sp_https_port = 8445, sp_h3 = True\<rparr>,
      \<lparr>sp_id = ''caddy'', sp_http_port = 8091, sp_https_port = 8454, sp_h3 = True\<rparr>,
      \<lparr>sp_id = ''traefik'', sp_http_port = 8092, sp_https_port = 8455, sp_h3 = False\<rparr>,
      \<lparr>sp_id = ''haproxy'', sp_http_port = 8093, sp_https_port = 8456, sp_h3 = False\<rparr>,
      \<lparr>sp_id = ''apache'', sp_http_port = 8094, sp_https_port = 8457, sp_h3 = False\<rparr>]"

definition h3_modes :: "string list" where
  "h3_modes = [''http3'', ''pageload3'', ''browser3'', ''download3'', ''upload3'']"

definition is_h3_mode :: "string \<Rightarrow> bool" where
  "is_h3_mode m \<longleftrightarrow> to_ascii_lowercase (trim m) \<in> set h3_modes"

definition stack_by_name :: "string \<Rightarrow> stack_ports option" where
  "stack_by_name name = (let n = to_ascii_lowercase (trim name) in find (\<lambda>s. sp_id s = n) stacks_manifest)"

definition http_port_for_https :: "u16 \<Rightarrow> u16 option" where
  "http_port_for_https p = map_option sp_http_port (find (\<lambda>s. sp_https_port s = p) stacks_manifest)"

definition rewrite_to_http :: "'u url_api \<Rightarrow> 'u \<Rightarrow> 'u" where
  "rewrite_to_http api base =
     (if url_scheme api base \<noteq> ''https'' then base
      else let http_port = (case url_port_or_default api base of
             None \<Rightarrow> None
           | Some p \<Rightarrow> (if p = 443 then None
               else Some (case http_port_for_https p of Some q \<Rightarrow> q | None \<Rightarrow> p)))
        in set_port api http_port (set_scheme api ''http'' base))"

definition proxy_stack_names :: string where
  "proxy_stack_names = join_with '', '' (map sp_id (filter (\<lambda>s. sp_id s \<noteq> ''endpoint'') stacks_manifest))"

end
