(* ===== verification/Dispatch.thy ===== *)
theory Dispatch
  imports H3_Offer Path Stamp_Sender Udp_Client Websocket
begin

text \<open>
  Dispatching one attempt, \<open>crates/networker-tester/src/dispatch.rs\<close>: the HTTP/3 pre-flight, the
  cap on the short diagnostic modes, the choice of the runner and of its configuration, and the
  target stamped on what comes back. A runner is a parameter: for a call it returns an attempt
  after some time, or never.
\<close>

record dispatch_config =
  dc_delay_ms :: u64
  dc_stamp_port :: u16
  dc_timeout_ms :: u64
  dc_ipv4_only :: bool
  dc_ipv6_only :: bool

definition rewrite_url_for_stack :: "'u url_api \<Rightarrow> 'u \<Rightarrow> u16 \<Rightarrow> bool \<Rightarrow> 'u" where
  "rewrite_url_for_stack api base port https =
     set_port api (Some port) (set_scheme api (if https then ''https'' else ''http'') base)"

definition impairment_supported :: "protocol \<Rightarrow> bool" where
  "impairment_supported p \<longleftrightarrow> p \<in> {Http1, Http2, Http3, Tcp, Tls, TlsResume, Native, Curl}"

definition apply_impairment_target :: "'u url_api \<Rightarrow> protocol \<Rightarrow> 'u \<Rightarrow> dispatch_config \<Rightarrow> 'u" where
  "apply_impairment_target api proto target cfg =
     (if dc_delay_ms cfg = 0 then target
      else if \<not> impairment_supported proto then target
      else set_query api (Some (''ms='' @ decimal (unat (dc_delay_ms cfg)))) (set_path api ''/delay'' target))"

definition short_mode :: "protocol \<Rightarrow> bool" where
  "short_mode p \<longleftrightarrow> p \<in> {Tcp, Dns, Tls, TlsResume, Http1, Http2, Http3, Curl, Native, Ping, Path, Pmtud,
     DualStack, Udp, Stamp, WebSocket, SdkProbe}"

definition attempt_cap :: "protocol \<Rightarrow> u64 \<Rightarrow> duration option" where
  "attempt_cap p timeout_ms =
     (if \<not> short_mode p then None
      else Some (from_millis (max (min (unat timeout_ms * 10) (2 ^ 64 - 1)) 120000)))"

section \<open>The runner and its configuration\<close>

text \<open>A call of a runner with the arguments dispatch makes up; \<open>unreachable!\<close> is no call.\<close>

datatype 'u probe_call =
    CallThroughput protocol nat
  | CallUdpThroughput protocol nat udp_throughput_config
  | CallHttp protocol 'u
  | CallHttp3 'u
  | CallUdp udp_probe_config
  | CallRpm udp_probe_config
  | CallResponsiveness
  | CallMthroughput
  | CallStamp stamp_config
  | CallPing ping_config
  | CallPath path_config
  | CallDualStack 'u
  | CallWebSocket 'u ws_config
  | CallPmtud pmtud_probe_config
  | CallDns string bool bool
  | CallTls 'u
  | CallTlsResume 'u
  | CallNative 'u
  | CallCurl 'u
  | CallPageLoad protocol
  | CallBrowser protocol 'u

definition host_or_empty :: "'u url_api \<Rightarrow> 'u \<Rightarrow> string" where
  "host_or_empty api u = (case url_host api u of Some h \<Rightarrow> h | None \<Rightarrow> [])"

definition port_or_443 :: "'u url_api \<Rightarrow> 'u \<Rightarrow> u16" where
  "port_or_443 api u = (case url_port_or_default api u of Some p \<Rightarrow> p | None \<Rightarrow> 443)"

definition sized_http :: "protocol set" where
  "sized_http = {Download, Download1, Download2, Download3, Upload, Upload1, Upload2, Upload3, WebDownload, WebUpload}"

definition sized_udp :: "protocol set" where
  "sized_udp = {UdpDownload, UdpUpload}"

text \<open>The arms that match whatever the payload.\<close>

definition dispatch_unsized :: "'u url_api \<Rightarrow> dispatch_config \<Rightarrow> udp_probe_config \<Rightarrow> protocol \<Rightarrow> 'u \<Rightarrow> 'u \<Rightarrow>
   'u probe_call option" where
  "dispatch_unsized api cfg udp proto target impaired = (case proto of
     Http1 \<Rightarrow> Some (CallHttp proto impaired)
   | Http2 \<Rightarrow> Some (CallHttp proto impaired)
   | Tcp \<Rightarrow> Some (CallHttp proto impaired)
   | SdkProbe \<Rightarrow> Some (CallHttp proto impaired)
   | Http3 \<Rightarrow> Some (CallHttp3 impaired)
   | Udp \<Rightarrow> Some (CallUdp udp)
   | Rpm \<Rightarrow> Some (CallRpm udp)
   | Responsiveness \<Rightarrow> Some CallResponsiveness
   | Mthroughput \<Rightarrow> Some CallMthroughput
   | Stamp \<Rightarrow> Some (CallStamp (stamp_config_default
       \<lparr>sc_target_host := up_target_host udp, sc_target_port := dc_stamp_port cfg,
        sc_timeout_ms := up_timeout_ms udp\<rparr>))
   | Ping \<Rightarrow> Some (CallPing
       \<lparr>pg_target_host = host_or_empty api target, pg_probe_count = up_probe_count udp,
        pg_timeout_ms = up_timeout_ms udp, pg_payload_size = up_payload_size udp,
        pg_fallback_tcp_port = Some (port_or_443 api target)\<rparr>)
   | Path \<Rightarrow> Some (CallPath (path_config_default
       \<lparr>pa_target_host := host_or_empty api target, pa_verify_tcp_port := Some (port_or_443 api target),
        pa_total_budget_ms := dc_timeout_ms cfg\<rparr>))
   | DualStack \<Rightarrow> Some (CallDualStack target)
   | WebSocket \<Rightarrow> Some (CallWebSocket target
       \<lparr>wc_message_count = up_probe_count udp, wc_payload_size = up_payload_size udp,
        wc_msg_timeout_ms = up_timeout_ms udp\<rparr>)
   | Pmtud \<Rightarrow> Some (CallPmtud (pmtud_probe_config_default
       \<lparr>pc_target_host := up_target_host udp, pc_target_port := up_target_port udp\<rparr>))
   | Dns \<Rightarrow> Some (CallDns (host_or_empty api target) (dc_ipv4_only cfg) (dc_ipv6_only cfg))
   | Tls \<Rightarrow> Some (CallTls impaired)
   | TlsResume \<Rightarrow> Some (CallTlsResume impaired)
   | Native \<Rightarrow> Some (CallNative impaired)
   | Curl \<Rightarrow> Some (CallCurl impaired)
   | PageLoad \<Rightarrow> Some (CallPageLoad proto)
   | PageLoad2 \<Rightarrow> Some (CallPageLoad proto)
   | PageLoad3 \<Rightarrow> Some (CallPageLoad proto)
   | Browser \<Rightarrow> Some (CallBrowser proto target)
   | Browser1 \<Rightarrow> Some (CallBrowser proto target)
   | Browser2 \<Rightarrow> Some (CallBrowser proto target)
   | Browser3 \<Rightarrow> Some (CallBrowser proto target)
   | _ \<Rightarrow> None)"

definition dispatch_call :: "'u url_api \<Rightarrow> dispatch_config \<Rightarrow> udp_probe_config \<Rightarrow> udp_throughput_config \<Rightarrow>
   protocol \<Rightarrow> nat option \<Rightarrow> 'u \<Rightarrow> 'u probe_call option" where
  "dispatch_call api cfg udp udpt proto payload target =
     (let impaired = apply_impairment_target api proto target cfg
      in case payload of
          Some sz \<Rightarrow>
            (if proto \<in> sized_http then Some (CallThroughput proto sz)
             else if proto \<in> sized_udp then Some (CallUdpThroughput proto sz udpt)
             else dispatch_unsized api cfg udp proto target impaired)
        | None \<Rightarrow> dispatch_unsized api cfg udp proto target impaired)"

section \<open>One attempt\<close>

record run_attempt = attempt +
  ra_target_url :: "string option"

text \<open>\<open>error_attempt_proto\<close> of the page-load runner.\<close>

definition error_attempt_proto :: "attempt_ids \<Rightarrow> protocol \<Rightarrow> error_category \<Rightarrow> string \<Rightarrow> attempt" where
  "error_attempt_proto ids proto category message =
     attempt_new ids proto False (Some (error_of ids category message))"

definition not_offered_attempt :: "attempt_ids \<Rightarrow> protocol \<Rightarrow> attempt" where
  "not_offered_attempt ids proto = error_attempt_proto ids proto UnsupportedError
     (protocol_name proto @ '' not run: the target advertises no HTTP/3 (no `Alt-Svc: h3='' @
      CHR 0x22 # ''...'' @ CHR 0x22 # ''` on its response), so it offers no HTTP/3 for a client to discover'')"

definition stalled_attempt :: "attempt_ids \<Rightarrow> protocol \<Rightarrow> duration \<Rightarrow> attempt" where
  "stalled_attempt ids proto cap = error_attempt_proto ids proto TimeoutError
     (protocol_name proto @ '' probe made no progress within '' @ decimal (cap div 10 ^ 9) @
      ''s (per-attempt cap) '' @ em_dash @ '' the probe was abandoned so the rest of the run could continue'')"

text \<open>A runner's attempt and the time it takes, or \<open>None\<close> when it never returns.\<close>

type_synonym 'u runner = "'u probe_call \<Rightarrow> (duration \<times> attempt) option"

text \<open>A dispatch hangs when the runner never returns and the mode has no cap.\<close>

datatype dispatched = Done run_attempt | Hangs | Panics

definition capped :: "attempt_ids \<Rightarrow> protocol \<Rightarrow> u64 \<Rightarrow> (duration \<times> attempt) option \<Rightarrow> attempt option" where
  "capped ids proto timeout_ms r = (case attempt_cap proto timeout_ms of
     Some cap \<Rightarrow> (case r of
         Some (took, a) \<Rightarrow> (if took \<le> cap then Some a else Some (stalled_attempt ids proto cap))
       | None \<Rightarrow> Some (stalled_attempt ids proto cap))
   | None \<Rightarrow> map_option snd r)"

definition stamp_target :: "'u url_api \<Rightarrow> 'u \<Rightarrow> attempt \<Rightarrow> run_attempt" where
  "stamp_target api target a = attempt.extend a \<lparr>ra_target_url = Some (url_text api target)\<rparr>"

definition dispatch_once :: "'u url_api \<Rightarrow> ('u \<Rightarrow> bool \<times> (string \<times> string) list option) \<Rightarrow> 'u runner \<Rightarrow>
   dispatch_config \<Rightarrow> udp_probe_config \<Rightarrow> udp_throughput_config \<Rightarrow> attempt_ids \<Rightarrow> protocol \<Rightarrow> nat option \<Rightarrow> 'u \<Rightarrow>
   offer_memo \<Rightarrow> dispatched \<times> offer_memo" where
  "dispatch_once api preflight runner cfg udp udpt ids proto payload target memo =
     (let (offer, memo) = (if is_h3_mode (protocol_name proto) then discover_offer api preflight target memo
            else (OfferUnknown, memo))
      in if offer = NotOffered
         then (Done (attempt.extend (not_offered_attempt ids proto) \<lparr>ra_target_url = None\<rparr>), memo)
         else (case dispatch_call api cfg udp udpt proto payload target of
             None \<Rightarrow> (Panics, memo)
           | Some call \<Rightarrow> (case capped ids proto (dc_timeout_ms cfg) (runner call) of
               Some a \<Rightarrow> (Done (stamp_target api target a), memo)
             | None \<Rightarrow> (Hangs, memo))))"

end
