(* ===== verification/Campaign.thy ===== *)
theory Campaign
  imports Benchmark_Run Dispatch
begin

text \<open>
  A run against one target, \<open>crates/networker-tester/src/target_runner.rs\<close> with the publishing rule
  of \<open>dispatch.rs\<close>: the tasks of an iteration, the burst of samples of one task with the retry
  ladder of each sample, the attempts published, the groups of one mode that never overlap
  another, the phases with their tags, and the comparison of HTTP stacks. One dispatch is a
  parameter: \<open>outcome\<close> gives the attempt of a task, a sequence number and a try. What the
  attempts mean to the stop rule is their \<open>bench_attempt\<close> part, so the phases refine the ones of
  \<open>Benchmark_Run\<close>.
\<close>

record campaign_attempt = bench_attempt +
  ca_sequence_num :: u32
  ca_retry_count :: u32
  ca_sample_index :: u32
  ca_phase :: "string option"

section \<open>The tasks\<close>

type_synonym task = "protocol \<times> nat option"

definition mode_tasks :: "protocol list \<Rightarrow> nat list \<Rightarrow> task list" where
  "mode_tasks modes payload_sizes =
     concat (map (\<lambda>p. if p \<in> sized_http \<union> sized_udp then map (\<lambda>sz. (p, Some sz)) payload_sizes
       else [(p, None)]) modes)"

section \<open>One logical attempt\<close>

text \<open>The retries \<open>ns\<close> of the sample \<open>idx\<close>: each only while the last attempt has failed.\<close>

fun retry_loop :: "(nat \<Rightarrow> campaign_attempt) \<Rightarrow> u32 \<Rightarrow> nat list \<Rightarrow> campaign_attempt list \<Rightarrow> campaign_attempt list" where
  "retry_loop tries idx [] attempts = attempts"
| "retry_loop tries idx (n # ns) attempts =
     (if attempts \<noteq> [] \<and> ba_success (last attempts) then attempts
      else retry_loop tries idx ns
        (attempts @ [(tries n)\<lparr>ca_retry_count := of_nat n, ca_sample_index := idx\<rparr>]))"

definition sample_step :: "(u32 \<Rightarrow> nat \<Rightarrow> campaign_attempt) \<Rightarrow> u32 \<Rightarrow> nat \<Rightarrow> campaign_attempt list \<Rightarrow> nat \<Rightarrow>
   campaign_attempt list" where
  "sample_step dispatch base_seq retries attempts i =
     (let current_seq = base_seq + of_nat i
      in retry_loop (dispatch current_seq) (of_nat i) [1..<Suc retries]
           (attempts @ [(dispatch current_seq 0)\<lparr>ca_sample_index := of_nat i\<rparr>]))"

definition burst :: "(u32 \<Rightarrow> nat \<Rightarrow> campaign_attempt) \<Rightarrow> u32 \<Rightarrow> nat \<Rightarrow> nat \<Rightarrow> campaign_attempt list" where
  "burst dispatch base_seq samples retries = foldl (sample_step dispatch base_seq retries) [] [0..<samples]"

text \<open>A retry replaces what it retried; a sample is kept.\<close>

definition publish_step :: "campaign_attempt list \<Rightarrow> campaign_attempt \<Rightarrow> campaign_attempt list" where
  "publish_step published a =
     (if published \<noteq> [] \<and> ca_sample_index (last published) = ca_sample_index a
      then butlast published @ [a] else published @ [a])"

definition published_logical_attempts :: "campaign_attempt list \<Rightarrow> campaign_attempt list" where
  "published_logical_attempts attempts = foldl publish_step [] attempts"

section \<open>One iteration\<close>

type_synonym outcome = "task \<Rightarrow> u32 \<Rightarrow> nat \<Rightarrow> campaign_attempt"

text \<open>Every task gets one sequence number for each of its samples.\<close>

fun assign_seqs :: "u32 \<Rightarrow> task list \<Rightarrow> u32 \<Rightarrow> (task \<times> u32) list \<times> u32" where
  "assign_seqs samples [] sq = ([], sq)"
| "assign_seqs samples (t # ts) sq =
     (let (rest, sq') = assign_seqs samples ts (sq + samples) in ((t, sq) # rest, sq'))"

text \<open>Consecutive tasks of one protocol.\<close>

definition group_step :: "(task \<times> u32) list list \<times> protocol option \<Rightarrow> task \<times> u32 \<Rightarrow>
   (task \<times> u32) list list \<times> protocol option" where
  "group_step st x = (case st of (groups, last_proto) \<Rightarrow>
     (let (groups, last_proto) = (if last_proto \<noteq> Some (fst (fst x)) then (groups @ [[]], Some (fst (fst x)))
            else (groups, last_proto))
      in (butlast groups @ [last groups @ [x]], last_proto)))"

definition group_tasks :: "(task \<times> u32) list \<Rightarrow> (task \<times> u32) list list" where
  "group_tasks xs = fst (foldl group_step ([], None) xs)"

text \<open>The tasks of a group run concurrently: \<open>order\<close> is the order they complete in.\<close>

definition run_task :: "outcome \<Rightarrow> nat \<Rightarrow> nat \<Rightarrow> task \<times> u32 \<Rightarrow> campaign_attempt list" where
  "run_task outcome samples retries x =
     published_logical_attempts (burst (outcome (fst x)) (snd x) samples retries)"

definition collect_iteration :: "outcome \<Rightarrow> ((task \<times> u32) list \<Rightarrow> (task \<times> u32) list) \<Rightarrow> task list \<Rightarrow> u32 \<Rightarrow> nat \<Rightarrow>
   u32 \<Rightarrow> campaign_attempt list \<times> u32" where
  "collect_iteration outcome order tasks samples retries sq =
     (let (assigned, sq') = assign_seqs samples tasks sq
      in (concat (map (\<lambda>g. concat (map (run_task outcome (unat samples) retries) (order g))) (group_tasks assigned)), sq'))"

section \<open>The phases\<close>

definition special_phase :: "string \<Rightarrow> bool" where
  "special_phase ph \<longleftrightarrow> ph \<in> {''warmup'', ''overhead'', ''pilot'', ''cooldown''}"

definition phase_tag :: "bench_config \<Rightarrow> string \<Rightarrow> string option" where
  "phase_tag cfg loop_phase =
     (if \<not> bc_benchmark_mode cfg then None
      else if special_phase (bc_benchmark_phase cfg) then Some (bc_benchmark_phase cfg)
      else Some loop_phase)"

type_synonym campaign_iteration = "u32 \<Rightarrow> campaign_attempt list \<times> u32"

definition tagged :: "string option \<Rightarrow> campaign_iteration \<Rightarrow> campaign_iteration" where
  "tagged tag collect sq = (case collect sq of (as, sq') \<Rightarrow> (map (\<lambda>a. a\<lparr>ca_phase := tag\<rparr>) as, sq'))"

fun repeat_phase :: "campaign_iteration \<Rightarrow> nat \<Rightarrow> u32 \<Rightarrow> campaign_attempt list \<times> u32" where
  "repeat_phase collect 0 sq = ([], sq)"
| "repeat_phase collect (Suc n) sq =
     (let (attempts, sq1) = collect sq; (rest, sq2) = repeat_phase collect n sq1
      in (attempts @ rest, sq2))"

abbreviation as_bench :: "campaign_attempt list \<Rightarrow> bench_attempt list" where
  "as_bench \<equiv> map bench_attempt.truncate"

function adaptive_phase ::
  "adaptive_criteria option \<Rightarrow> u32 \<Rightarrow> campaign_iteration \<Rightarrow> u32 \<Rightarrow> u32 \<Rightarrow> campaign_attempt list \<Rightarrow>
   u32 \<times> campaign_attempt list \<times> stop_reason option \<times> u32" where
  "adaptive_phase criteria max_runs collect completed sq attempts =
     (if completed < max_runs
      then
        let (published, sq1) = collect sq;
            attempts1 = attempts @ published;
            completed1 = completed + 1
        in (case criteria of
              None \<Rightarrow> adaptive_phase criteria max_runs collect completed1 sq1 attempts1
            | Some c \<Rightarrow>
                (case as_stop_reason (benchmark_adaptive_status c (as_bench attempts1)) of
                   Some r \<Rightarrow> (completed1, attempts1, Some r, sq1)
                 | None \<Rightarrow> adaptive_phase criteria max_runs collect completed1 sq1 attempts1))
      else (completed, attempts, None, sq))"
  by pat_completeness auto
termination
  by (relation "measure (\<lambda>(_, max_runs, _, completed, _, _). unat max_runs - unat completed)")
    (auto simp: unat_inc word_less_nat_alt)

declare adaptive_phase.simps [simp del]

section \<open>The comparison of HTTP stacks\<close>

definition stack_modes :: "protocol list \<Rightarrow> protocol list" where
  "stack_modes modes = filter (\<lambda>m. m \<in> {PageLoad, PageLoad2, PageLoad3, Browser, Browser1, Browser2, Browser3}) modes"

text \<open>Here every try takes a sequence number of its own.\<close>

fun stack_retry_loop :: "(u32 \<Rightarrow> nat \<Rightarrow> campaign_attempt) \<Rightarrow> string \<Rightarrow> u32 \<Rightarrow> nat list \<Rightarrow>
   campaign_attempt list \<times> u32 \<Rightarrow> campaign_attempt list \<times> u32" where
  "stack_retry_loop dispatch name idx [] st = st"
| "stack_retry_loop dispatch name idx (n # ns) (attempts, sq) =
     (if attempts \<noteq> [] \<and> ba_success (last attempts) then (attempts, sq)
      else stack_retry_loop dispatch name idx ns
        (attempts @ [(dispatch sq n)\<lparr>ca_retry_count := of_nat n, ca_sample_index := idx, ba_http_stack := Some name\<rparr>], sq + 1))"

definition stack_sample_step :: "(u32 \<Rightarrow> nat \<Rightarrow> campaign_attempt) \<Rightarrow> string \<Rightarrow> nat \<Rightarrow> campaign_attempt list \<times> u32 \<Rightarrow> nat \<Rightarrow>
   campaign_attempt list \<times> u32" where
  "stack_sample_step dispatch name retries st i = (case st of (attempts, sq) \<Rightarrow>
     stack_retry_loop dispatch name (of_nat i) [1..<Suc retries]
       (attempts @ [(dispatch sq 0)\<lparr>ba_http_stack := Some name, ca_sample_index := of_nat i\<rparr>], sq + 1))"

definition stack_task :: "bench_config \<Rightarrow> (u32 \<Rightarrow> nat \<Rightarrow> campaign_attempt) \<Rightarrow> string \<Rightarrow> u32 \<Rightarrow> nat \<Rightarrow> u32 \<Rightarrow>
   campaign_attempt list \<times> u32" where
  "stack_task cfg dispatch name samples retries sq =
     (case foldl (stack_sample_step dispatch name retries) ([], sq) [0..<unat samples] of (attempts, sq') \<Rightarrow>
        (map (\<lambda>a. a\<lparr>ca_phase := phase_tag cfg (bc_benchmark_phase cfg)\<rparr>) (published_logical_attempts attempts), sq'))"

text \<open>The tasks one after the other, threading the sequence number.\<close>

fun in_sequence :: "(u32 \<Rightarrow> campaign_attempt list \<times> u32) list \<Rightarrow> u32 \<Rightarrow> campaign_attempt list \<times> u32" where
  "in_sequence [] sq = ([], sq)"
| "in_sequence (f # fs) sq =
     (let (attempts, sq1) = f sq; (rest, sq2) = in_sequence fs sq1 in (attempts @ rest, sq2))"

text \<open>\<open>stacks\<close> are the stacks whose health route answered.\<close>

definition compare_stacks :: "bench_config \<Rightarrow> (string \<Rightarrow> protocol \<Rightarrow> u32 \<Rightarrow> nat \<Rightarrow> campaign_attempt) \<Rightarrow> string list \<Rightarrow>
   protocol list \<Rightarrow> u32 \<Rightarrow> nat \<Rightarrow> u32 \<Rightarrow> campaign_attempt list \<times> u32" where
  "compare_stacks cfg dispatch stacks modes samples retries sq =
     in_sequence (concat (map (\<lambda>name. concat (replicate (unat (bc_runs cfg))
       (map (\<lambda>proto. stack_task cfg (dispatch name proto) name samples retries) (stack_modes modes)))) stacks)) sq"

section \<open>The whole run\<close>

record campaign_config =
  cc_bench :: bench_config
  cc_overhead :: "u32 option"
  cc_cooldown :: "u32 option"
  cc_samples :: u32
  cc_retries :: nat
  cc_connection_reuse :: bool

record campaign_run =
  cr_attempts :: "campaign_attempt list"
  cr_total_runs :: u32
  cr_warmup_count :: u32
  cr_pilot_count :: u32
  cr_overhead_count :: u32
  cr_cooldown_count :: u32
  cr_plan :: "execution_plan option"

text \<open>What the run asks of the outside: the warm-up of a reused connection, a dispatch of a task and
  of a task against a stack, the completion order, and the stacks that answer.\<close>

record campaign_world =
  cw_warmup :: "protocol \<Rightarrow> u32 \<Rightarrow> campaign_attempt"
  cw_outcome :: outcome
  cw_order :: "(task \<times> u32) list \<Rightarrow> (task \<times> u32) list"
  cw_stack_outcome :: "string \<Rightarrow> protocol \<Rightarrow> u32 \<Rightarrow> nat \<Rightarrow> campaign_attempt"
  cw_stacks :: "string list"

definition warm_up :: "campaign_config \<Rightarrow> campaign_world \<Rightarrow> protocol list \<Rightarrow> protocol \<Rightarrow> u32 \<Rightarrow> campaign_attempt list \<times> u32" where
  "warm_up cc w modes p sq =
     (if cc_connection_reuse cc \<and> p \<in> set modes
      then ([(cw_warmup w p sq)\<lparr>ca_phase := phase_tag (cc_bench cc) ''warmup''\<rparr>], sq + 1) else ([], sq))"

definition pilot_phase :: "bench_config \<Rightarrow> campaign_iteration \<Rightarrow> u32 \<Rightarrow> campaign_attempt list \<times> u32" where
  "pilot_phase cfg collect sq = (case pilot_adaptive_criteria cfg of
     Some c \<Rightarrow> (case adaptive_phase (Some c) (cr_max_samples c) collect 0 sq [] of
        (_, attempts, _, sq') \<Rightarrow> (attempts, sq'))
   | None \<Rightarrow> ([], sq))"

definition count_when :: "bool \<Rightarrow> campaign_attempt list \<Rightarrow> u32" where
  "count_when b xs = (if b then usize_to_u32 (length xs) else 0)"

definition run_for_target :: "campaign_config \<Rightarrow> campaign_world \<Rightarrow> protocol list \<Rightarrow> nat list \<Rightarrow> campaign_run" where
  "run_for_target cc w modes payload_sizes =
     (let cfg = cc_bench cc; samples = max (cc_samples cc) 1;
          collect = collect_iteration (cw_outcome w) (cw_order w) (mode_tasks modes payload_sizes) samples (cc_retries cc);
          phase = (\<lambda>ph. tagged (phase_tag cfg ph) collect);
          (warm2, sq1) = warm_up cc w modes PageLoad2 0;
          (warm3, sq2) = warm_up cc w modes PageLoad3 sq1;
          (over, sq3) = repeat_phase (phase ''overhead'') (unat (overhead_runs cfg (cc_overhead cc))) sq2;
          (pilot, sq4) = pilot_phase cfg (phase ''pilot'') sq3;
          plan = execution_plan_of cfg (as_bench pilot);
          criteria = criteria_of_plan cfg plan;
          (completed, measured, reason, sq5) =
            adaptive_phase criteria (max_run_count cfg criteria) (phase (bc_benchmark_phase cfg)) 0 sq4 [];
          plan' = map_option (\<lambda>p. p\<lparr>ep_stop_reason := Some (stop_reason_text reason)\<rparr>) plan;
          (cool, sq6) = repeat_phase (phase ''cooldown'') (unat (cooldown_runs cfg (cc_cooldown cc))) sq5;
          (stack, sq7) = compare_stacks cfg (cw_stack_outcome w) (cw_stacks w) modes samples (cc_retries cc) sq6
      in \<lparr>cr_attempts = warm2 @ warm3 @ over @ pilot @ measured @ cool @ stack, cr_total_runs = completed,
          cr_warmup_count = count_when (bc_benchmark_mode cfg) (warm2 @ warm3),
          cr_pilot_count = count_when (bc_benchmark_mode cfg) pilot,
          cr_overhead_count = count_when (bc_benchmark_mode cfg) over,
          cr_cooldown_count = count_when (bc_benchmark_mode cfg) cool,
          cr_plan = (if bc_benchmark_mode cfg then plan' else None)\<rparr>)"

end
