(* ===== verification/Campaign_Properties.thy ===== *)
theory Campaign_Properties
  imports Campaign "HOL-Library.Multiset"
begin

text \<open>
  The properties of a run: the attempts published for a burst, what an iteration publishes whatever
  order its tasks complete in, the phases of a whole run and their refinement of \<open>Benchmark_Run\<close>.
\<close>

section \<open>The retry ladder\<close>

text \<open>The reference: the first try that succeeds, or the last one allowed.\<close>

definition final_try :: "(nat \<Rightarrow> campaign_attempt) \<Rightarrow> nat \<Rightarrow> nat" where
  "final_try tries retries = (case find (\<lambda>n. ba_success (tries n)) [0..<Suc retries] of
     Some n \<Rightarrow> n | None \<Rightarrow> retries)"

definition numbered_try :: "(nat \<Rightarrow> campaign_attempt) \<Rightarrow> nat \<Rightarrow> u32 \<Rightarrow> campaign_attempt" where
  "numbered_try tries n idx =
     (if n = 0 then tries 0 else (tries n)\<lparr>ca_retry_count := of_nat n\<rparr>)\<lparr>ca_sample_index := idx\<rparr>"

lemma numbered_try_sel [simp]:
  "ca_sample_index (numbered_try tries n idx) = idx" "ba_success (numbered_try tries n idx) = ba_success (tries n)"
  "ca_sequence_num (numbered_try tries n idx) = ca_sequence_num (tries n)"
  "ba_view (numbered_try tries n idx) = ba_view (tries n)"
  by (simp_all add: numbered_try_def)

lemma numbered_try_Suc: "(tries (Suc n))\<lparr>ca_retry_count := of_nat (Suc n), ca_sample_index := idx\<rparr> =
   numbered_try tries (Suc n) idx"
  by (simp add: numbered_try_def)

text \<open>From the try \<open>k\<close> on.\<close>

definition try_from :: "(nat \<Rightarrow> campaign_attempt) \<Rightarrow> nat \<Rightarrow> nat \<Rightarrow> nat" where
  "try_from tries k retries = (case find (\<lambda>n. ba_success (tries n)) [k..<Suc retries] of
     Some n \<Rightarrow> n | None \<Rightarrow> retries)"

lemma try_from_step:
  assumes "k \<le> retries"
  shows "try_from tries k retries = (if ba_success (tries k) then k
    else if k = retries then retries else try_from tries (Suc k) retries)"
  using assms by (auto simp: try_from_def upt_conv_Cons)

lemma try_from_ge: "k \<le> retries \<Longrightarrow> k \<le> try_from tries k retries"
proof -
  assume k: "k \<le> retries"
  show ?thesis
  proof (cases "find (\<lambda>n. ba_success (tries n)) [k..<Suc retries]")
    case (Some n)
    then have "n \<in> set [k..<Suc retries]" unfolding find_Some_iff by (metis nth_mem)
    then show ?thesis using Some by (simp add: try_from_def del: upt_Suc)
  qed (simp add: try_from_def k del: upt_Suc)
qed

lemma retry_loop_eq:
  assumes "k \<le> retries"
  shows "retry_loop tries idx [Suc k..<Suc retries] (acc @ [numbered_try tries k idx]) =
    acc @ map (\<lambda>n. numbered_try tries n idx) [k..<Suc (try_from tries k retries)]"
  using assms
proof (induction "retries - k" arbitrary: k acc)
  case 0
  then show ?case by (simp add: try_from_step)
next
  case (Suc d)
  then have split: "[Suc k..<Suc retries] = Suc k # [Suc (Suc k)..<Suc retries]"
    by (simp add: upt_conv_Cons del: upt_Suc)
  show ?case
  proof (cases "ba_success (tries k)")
    case True
    then show ?thesis using Suc.prems by (simp add: split try_from_step del: upt_Suc) simp
  next
    case False
    have "Suc k \<le> retries" using Suc.hyps(2) by simp
    then have fr: "try_from tries k retries = try_from tries (Suc k) retries" "Suc k \<le> try_from tries (Suc k) retries"
      using False Suc.prems try_from_ge [OF \<open>Suc k \<le> retries\<close>] try_from_step [of k retries tries] by auto
    have "retry_loop tries idx [Suc k..<Suc retries] (acc @ [numbered_try tries k idx]) =
        retry_loop tries idx [Suc (Suc k)..<Suc retries] ((acc @ [numbered_try tries k idx]) @ [numbered_try tries (Suc k) idx])"
      using False by (simp add: split numbered_try_Suc [symmetric] del: upt_Suc)
    also have "\<dots> = (acc @ [numbered_try tries k idx]) @ map (\<lambda>n. numbered_try tries n idx) [Suc k..<Suc (try_from tries (Suc k) retries)]"
      using Suc.hyps \<open>Suc k \<le> retries\<close> by (intro Suc.hyps(1)) simp_all
    finally show ?thesis using fr by (simp add: upt_conv_Cons del: upt_Suc)
  qed
qed

lemma try_from_0: "try_from tries 0 retries = final_try tries retries"
  by (simp add: try_from_def final_try_def)

text \<open>The tries of one sample.\<close>

definition sample_tries :: "(u32 \<Rightarrow> nat \<Rightarrow> campaign_attempt) \<Rightarrow> u32 \<Rightarrow> nat \<Rightarrow> nat \<Rightarrow> campaign_attempt list" where
  "sample_tries dispatch base_seq retries i =
     (let tries = dispatch (base_seq + of_nat i)
      in map (\<lambda>n. numbered_try tries n (of_nat i)) [0..<Suc (final_try tries retries)])"

lemma burst_eq: "burst dispatch base_seq samples retries = concat (map (sample_tries dispatch base_seq retries) [0..<samples])"
proof -
  have "sample_step dispatch base_seq retries acc i = acc @ sample_tries dispatch base_seq retries i" for acc i
    using retry_loop_eq [of 0 retries "dispatch (base_seq + of_nat i)" "of_nat i" acc]
    by (simp add: sample_step_def sample_tries_def try_from_0 numbered_try_def Let_def del: upt_Suc)
  then have "foldl (sample_step dispatch base_seq retries) acc ks = acc @ concat (map (sample_tries dispatch base_seq retries) ks)"
    for acc ks by (induction ks arbitrary: acc) simp_all
  then show ?thesis by (simp add: burst_def)
qed

section \<open>What is published\<close>

lemma publish_same:
  "\<forall>a \<in> set xs. ca_sample_index a = i \<Longrightarrow> xs \<noteq> [] \<Longrightarrow> ps = [] \<or> ca_sample_index (last ps) \<noteq> i \<Longrightarrow>
   foldl publish_step ps xs = ps @ [last xs]"
proof (induction xs rule: rev_induct)
  case (snoc x xs)
  show ?case
  proof (cases "xs = []")
    case True
    then show ?thesis using snoc.prems by (auto simp: publish_step_def)
  next
    case False
    then have "foldl publish_step ps xs = ps @ [last xs]" using snoc by simp
    moreover have "ca_sample_index (last xs) = i" using snoc.prems(1) False by simp
    then have "publish_step (ps @ [last xs]) x = ps @ [x]"
      using snoc.prems(1) by (simp add: publish_step_def)
    ultimately show ?thesis by simp
  qed
qed simp

lemma index_moves: "(of_nat (Suc n) :: u32) \<noteq> of_nat n"
  by simp

lemma published_eq:
  "published_logical_attempts (burst dispatch base_seq samples retries) =
   map (\<lambda>i. let tries = dispatch (base_seq + of_nat i)
            in numbered_try tries (final_try tries retries) (of_nat i)) [0..<samples]"
proof (induction samples)
  case 0
  show ?case by (simp add: burst_eq published_logical_attempts_def)
next
  case (Suc m)
  let ?p = "\<lambda>i. let tries = dispatch (base_seq + of_nat i) in numbered_try tries (final_try tries retries) (of_nat i)"
  let ?xs = "sample_tries dispatch base_seq retries m"
  have "map ?p [0..<m] = [] \<or> ca_sample_index (last (map ?p [0..<m])) \<noteq> of_nat m"
  proof (cases m)
    case (Suc n)
    then show ?thesis using index_moves [of n] by (simp add: Let_def)
  qed simp
  moreover have "\<forall>a \<in> set ?xs. ca_sample_index a = of_nat m" "?xs \<noteq> []"
    by (auto simp: sample_tries_def Let_def)
  ultimately have "foldl publish_step (map ?p [0..<m]) ?xs = map ?p [0..<m] @ [last ?xs]"
    by (intro publish_same) simp_all
  moreover have "last ?xs = ?p m" by (simp add: sample_tries_def Let_def)
  ultimately show ?case
    using Suc.IH by (simp add: burst_eq published_logical_attempts_def)
qed

text \<open>A burst publishes one attempt for each of its samples, in order: of every sample the first try
  that succeeds, or else the last one the retries allow, with the number of failed tries before it
  as its retry count. So a sample that ever succeeded counts as a success and one that never did
  stays in the output as a failure.\<close>

theorem published_exact:
  "published_logical_attempts (burst dispatch base_seq samples retries) =
   map (\<lambda>i. let tries = dispatch (base_seq + of_nat i)
            in numbered_try tries (final_try tries retries) (of_nat i)) [0..<samples]"
  by (rule published_eq)

section \<open>One iteration\<close>

lemma assign_seqs_eq:
  "assign_seqs samples ts sq = (zip ts (map (\<lambda>i. sq + of_nat i * samples) [0..<length ts]),
     sq + of_nat (length ts) * samples)"
proof (induction ts arbitrary: sq)
  case (Cons t ts)
  have "map (\<lambda>i. sq + of_nat i * samples) [0..<length (t # ts)] =
      sq # map (\<lambda>i. sq + samples + of_nat i * samples) [0..<length ts]"
    by (simp add: upt_conv_Cons map_Suc_upt [symmetric] algebra_simps del: upt_Suc map_Suc_upt)
  with Cons show ?case by (simp add: algebra_simps del: upt_Suc)
qed simp

text \<open>The groups so far: none is empty, each holds one protocol, and the last one's is remembered.\<close>

definition groups_ok :: "(task \<times> u32) list \<Rightarrow> (task \<times> u32) list list \<times> protocol option \<Rightarrow> bool" where
  "groups_ok xs st \<longleftrightarrow> concat (fst st) = xs \<and>
     (\<forall>g \<in> set (fst st). g \<noteq> [] \<and> (\<exists>p. \<forall>x \<in> set g. fst (fst x) = p)) \<and>
     (case snd st of None \<Rightarrow> fst st = [] | Some p \<Rightarrow> fst st \<noteq> [] \<and> (\<forall>x \<in> set (last (fst st)). fst (fst x) = p))"

lemma group_step_ok:
  assumes "groups_ok xs st" shows "groups_ok (xs @ [x]) (group_step st x)"
proof -
  obtain groups p where st: "st = (groups, p)" by (rule prod.exhaust)
  show ?thesis
  proof (cases "p = Some (fst (fst x))")
    case True
    then have "groups \<noteq> []" using assms by (simp add: groups_ok_def st)
    then obtain gs g where g: "groups = gs @ [g]" by (metis append_butlast_last_id)
    then show ?thesis using assms True by (auto simp: groups_ok_def group_step_def st)
  next
    case False
    then show ?thesis using assms by (auto simp: groups_ok_def group_step_def st split: option.splits)
  qed
qed

lemma group_tasks_ok:
  "concat (group_tasks xs) = xs \<and> (\<forall>g \<in> set (group_tasks xs). \<exists>p. \<forall>x \<in> set g. fst (fst x) = p)"
proof -
  have "groups_ok xs (foldl group_step ([], None) xs)"
  proof (induction xs rule: rev_induct)
    case (snoc x xs)
    then show ?case using group_step_ok by simp
  qed (simp add: groups_ok_def)
  then show ?thesis by (auto simp: groups_ok_def group_tasks_def)
qed

lemma concat_blocks: "concat (map (\<lambda>i. map (\<lambda>j. f (i * s + j)) [0..<s]) [0..<t]) = map f [0..<t * s]"
proof (induction t)
  case (Suc t)
  have "[0..<Suc t * s] = [0..<t * s] @ [t * s..<t * s + s]"
    using upt_add_eq_append [of 0 "t * s" s] by (simp add: add.commute)
  moreover have "map f [t * s..<t * s + s] = map (\<lambda>j. f (t * s + j)) [0..<s]"
    by (simp add: map_add_upt [symmetric] comp_def add.commute)
  ultimately show ?case using Suc by simp
qed simp

lemma run_task_eq:
  "run_task outcome samples retries x = map (\<lambda>i. let tries = outcome (fst x) (snd x + of_nat i)
     in numbered_try tries (final_try tries retries) (of_nat i)) [0..<samples]"
  unfolding run_task_def by (rule published_eq)

lemma mset_concat_map_cong: "mset xs = mset ys \<Longrightarrow> mset (concat (map f xs)) = mset (concat (map f ys))"
  by (simp add: mset_concat sum_mset_sum_list [symmetric] del: sum_mset_sum_list)

lemma mset_concat_order:
  assumes "\<And>xs. mset (order xs) = mset xs"
  shows "mset (concat (map (\<lambda>g. concat (map f (order g))) gs)) = mset (concat (map f (concat gs)))"
proof (induction gs)
  case (Cons g gs)
  have "mset (concat (map f (order g))) = mset (concat (map f g))"
    using assms [of g] by (metis mset_concat_map_cong)
  with Cons show ?case by simp
qed simp

lemma same_protocols:
  assumes "\<And>xs. mset (order xs) = mset xs" "\<forall>g \<in> set gs. \<exists>p. \<forall>x \<in> set g. h x = p"
  shows "concat (map (\<lambda>g. concat (map (\<lambda>x. replicate s (h x)) (order g))) gs) =
    concat (map (\<lambda>x. replicate s (h x)) (concat gs))"
  using assms(2)
proof (induction gs)
  case (Cons g gs)
  then obtain p where p: "\<forall>x \<in> set g. h x = p" by auto
  have const: "concat (map (\<lambda>x. replicate s (h x)) ys) = concat (replicate (length ys) (replicate s p))"
    if "\<forall>x \<in> set ys. h x = p" for ys using that by (induction ys) simp_all
  have "length (order g) = length g" "set (order g) = set g"
    using assms(1) [of g] by (metis size_mset, metis set_mset_mset)
  then show ?case using const [of g] const [of "order g"] p Cons by simp
qed simp

lemma distinct_seqs: "n \<le> 2 ^ 32 \<Longrightarrow> distinct (map (\<lambda>i. sq + of_nat i :: u32) [0..<n])"
proof -
  assume "n \<le> 2 ^ 32"
  then have "inj_on (of_nat :: nat \<Rightarrow> u32) (set [0..<n])"
    by (intro inj_on_inverseI [where g = unat]) (simp add: unsigned_of_nat take_bit_nat_eq_self)
  then show ?thesis by (auto simp: distinct_map inj_on_def)
qed

lemma run_task_seqs:
  assumes "\<And>t q n. ca_sequence_num (outcome t q n) = q"
  shows "map ca_sequence_num (run_task outcome samples retries x) = map (\<lambda>i. snd x + of_nat i) [0..<samples]"
  by (simp add: run_task_eq Let_def assms)

lemma run_task_protocols:
  assumes "\<And>t q n. av_protocol (ba_view (outcome t q n)) = fst t"
  shows "map (\<lambda>a. av_protocol (ba_view a)) (run_task outcome samples retries x) = replicate samples (fst (fst x))"
  by (simp add: run_task_eq Let_def assms comp_def map_replicate_const)

text \<open>C23: An iteration publishes every sample of every task once, whatever order the tasks of a group
  complete in: the sequence numbers of its attempts are the next ones, each used once, one for
  each sample of each task, and the next iteration starts behind them. Modes do not overlap: the
  attempts of one mode come before those of the next, in the order of the tasks.\<close>

theorem iteration_publishes:
  assumes order: "\<And>xs. mset (order xs) = mset xs"
    and outcome: "\<And>t q n. ca_sequence_num (outcome t q n) = q" "\<And>t q n. av_protocol (ba_view (outcome t q n)) = fst t"
    and bound: "length tasks * unat samples \<le> 2 ^ 32"
    and run: "collect_iteration outcome order tasks samples retries sq = (attempts, sq')"
  shows "mset (map ca_sequence_num attempts) = mset (map (\<lambda>i. sq + of_nat i) [0..<length tasks * unat samples]) \<and>
    distinct (map ca_sequence_num attempts) \<and> sq' = sq + of_nat (length tasks * unat samples) \<and>
    map (\<lambda>a. av_protocol (ba_view a)) attempts = concat (map (\<lambda>t. replicate (unat samples) (fst t)) tasks)"
proof -
  define s where "s = unat samples"
  define xs where "xs = zip tasks (map (\<lambda>i. sq + of_nat i * samples) [0..<length tasks])"
  define task_run where "task_run = run_task outcome s retries"
  have samples: "samples = of_nat s" by (simp add: s_def of_nat_unat)
  have att: "attempts = concat (map (\<lambda>g. concat (map task_run (order g))) (group_tasks xs))"
    and sq': "sq' = sq + of_nat (length tasks) * samples"
    using run by (auto simp: collect_iteration_def assign_seqs_eq xs_def task_run_def s_def Let_def)
  note groups = group_tasks_ok [of xs]
  have "mset (map ca_sequence_num attempts) = mset (map ca_sequence_num (concat (map task_run xs)))"
    using mset_concat_order [OF order, of task_run "group_tasks xs"] groups by (simp add: att mset_map)
  also have "map ca_sequence_num (concat (map task_run xs)) = concat (map (\<lambda>x. map (\<lambda>i. snd x + of_nat i) [0..<s]) xs)"
    by (simp add: map_concat comp_def task_run_def run_task_seqs outcome(1))
  also have "\<dots> = concat (map (\<lambda>i. map (\<lambda>j. sq + of_nat (i * s + j)) [0..<s]) [0..<length tasks])"
  proof -
    have "map snd xs = map (\<lambda>i. sq + of_nat i * samples) [0..<length tasks]" by (simp add: xs_def)
    then have "map (\<lambda>x. map (\<lambda>i. snd x + of_nat i) [0..<s]) xs =
        map (\<lambda>q. map (\<lambda>i. q + of_nat i) [0..<s]) (map (\<lambda>i. sq + of_nat i * samples) [0..<length tasks])"
      by (metis (no_types, lifting) map_map comp_apply map_cong)
    then show ?thesis by (simp add: comp_def samples algebra_simps)
  qed
  also have "\<dots> = map (\<lambda>i. sq + of_nat i) [0..<length tasks * s]" by (rule concat_blocks)
  finally have seqs: "mset (map ca_sequence_num attempts) = mset (map (\<lambda>i. sq + of_nat i) [0..<length tasks * s])" .
  have "distinct (map (\<lambda>i. sq + of_nat i) [0..<length tasks * s])"
    using bound by (intro distinct_seqs) (simp add: s_def)
  then have "distinct (map ca_sequence_num attempts)" using seqs by (metis mset_eq_imp_distinct_iff)
  moreover have "map (\<lambda>a. av_protocol (ba_view a)) attempts = concat (map (\<lambda>t. replicate s (fst t)) tasks)"
  proof -
    have "map (\<lambda>a. av_protocol (ba_view a)) attempts =
        concat (map (\<lambda>g. concat (map (\<lambda>x. replicate s (fst (fst x))) (order g))) (group_tasks xs))"
      by (simp add: att map_concat comp_def task_run_def run_task_protocols outcome(2))
    also have "\<dots> = concat (map (\<lambda>x. replicate s (fst (fst x))) xs)"
      using same_protocols [OF order, of "group_tasks xs" "\<lambda>x. fst (fst x)" s] groups by simp
    also have "\<dots> = concat (map (\<lambda>t. replicate s (fst t)) (map fst xs))" by (simp add: comp_def)
    finally show ?thesis by (simp add: xs_def)
  qed
  moreover have "sq' = sq + of_nat (length tasks * s)" by (simp add: sq' samples)
  ultimately show ?thesis using seqs unfolding s_def by simp
qed

text \<open>One attempt of a task: the first try of an http probe fails.\<close>

definition demo_outcome :: outcome where
  "demo_outcome t q n = \<lparr>ba_view = \<lparr>av_protocol = fst t, av_http = None, av_tcp_connect_ms = Some 5, av_udp = None,
     av_udp_throughput = None, av_rpm = None, av_rpm_download = None, av_capacity_down_mbps = None,
     av_stamp = None, av_ping = None, av_path_hop_count = None, av_dualstack = None,
     av_websocket = None, av_path_mtu = None, av_dns_ms = None, av_tls_handshake_ms = None,
     av_page_load_ms = None, av_browser_load_ms = None\<rparr>,
     ba_success = (n \<noteq> 0 \<or> fst t \<noteq> Http1), ba_http_stack = None, ba_started_at = int (unat q),
     ba_finished_at = Some (int (unat q) + 1), ca_sequence_num = q, ca_retry_count = 0, ca_sample_index = 0,
     ca_phase = None\<rparr>"

theorem iteration_publishes_witness:
  "\<exists>attempts sq'. collect_iteration demo_outcome rev (mode_tasks [Download, Http1] [10, 20]) 2 1 7 = (attempts, sq') \<and>
    distinct (map ca_sequence_num attempts) \<and>
    map (\<lambda>a. av_protocol (ba_view a)) attempts = [Download, Download, Download, Download, Http1, Http1]"
proof -
  obtain attempts sq' where
    r: "collect_iteration demo_outcome rev (mode_tasks [Download, Http1] [10, 20]) 2 1 7 = (attempts, sq')"
    by (rule prod.exhaust)
  have t: "mode_tasks [Download, Http1] [10, 20] = [(Download, Some 10), (Download, Some 20), (Http1, None)]"
    by (simp add: mode_tasks_def sized_http_def sized_udp_def)
  have u: "unat (2 :: u32) = 2" by simp
  have "distinct (map ca_sequence_num attempts) \<and>
      map (\<lambda>a. av_protocol (ba_view a)) attempts =
      concat (map (\<lambda>t. replicate (unat (2 :: u32)) (fst t)) (mode_tasks [Download, Http1] [10, 20]))"
    using iteration_publishes [OF _ _ _ _ r] by (simp add: demo_outcome_def t)
  with r show ?thesis unfolding t u by (simp add: numeral_2_eq_2)
qed

section \<open>The phases of a run\<close>

text \<open>The iteration as \<open>Benchmark_Run\<close> sees it.\<close>

definition bench_iteration :: "campaign_iteration \<Rightarrow> iteration" where
  "bench_iteration collect sq = (case collect sq of (as, sq') \<Rightarrow> (as_bench as, sq'))"

lemma bench_iteration_tagged [simp]: "bench_iteration (tagged tag collect) = bench_iteration collect"
proof
  fix sq
  have "bench_attempt.truncate (a\<lparr>ca_phase := tag\<rparr>) = bench_attempt.truncate a" for a :: campaign_attempt
    by (cases a) (simp add: bench_attempt.defs)
  then show "bench_iteration (tagged tag collect) sq = bench_iteration collect sq"
    by (simp add: bench_iteration_def tagged_def split: prod.splits)
qed

lemma repeat_phase_bench:
  "repeat_phase collect n sq = (as, sq') \<Longrightarrow>
   repeat_iterations (bench_iteration collect) n sq = (as_bench as, sq')"
  by (induction n arbitrary: sq as sq') (auto simp: bench_iteration_def split: prod.splits)

lemma adaptive_phase_bench:
  "adaptive_phase criteria m collect n sq xs = (k, ys, r, sq') \<Longrightarrow>
   adaptive_loop criteria m (bench_iteration collect) n sq (as_bench xs) = (k, as_bench ys, r, sq')"
proof (induction criteria m collect n sq xs rule: adaptive_phase.induct)
  case (1 criteria m collect n sq xs)
  show ?case
  proof (cases "n < m")
    case False
    then show ?thesis using "1.prems" by (auto simp: adaptive_phase.simps [of criteria m collect n] adaptive_loop.simps [of criteria m _ k])
  next
    case True
    obtain as sq1 where c: "collect sq = (as, sq1)" by (rule prod.exhaust)
    then have b: "bench_iteration collect sq = (as_bench as, sq1)" by (simp add: bench_iteration_def)
    have p: "adaptive_phase criteria m collect n sq xs = (case criteria of
        None \<Rightarrow> adaptive_phase criteria m collect (n + 1) sq1 (xs @ as)
      | Some c \<Rightarrow> (case as_stop_reason (benchmark_adaptive_status c (as_bench (xs @ as))) of
          Some r \<Rightarrow> (n + 1, xs @ as, Some r, sq1)
        | None \<Rightarrow> adaptive_phase criteria m collect (n + 1) sq1 (xs @ as)))"
      using True by (simp add: adaptive_phase.simps [of criteria m collect n sq xs] c Let_def cong: option.case_cong)
    have l: "adaptive_loop criteria m (bench_iteration collect) n sq (as_bench xs) = (case criteria of
        None \<Rightarrow> adaptive_loop criteria m (bench_iteration collect) (n + 1) sq1 (as_bench (xs @ as))
      | Some c \<Rightarrow> (case as_stop_reason (benchmark_adaptive_status c (as_bench (xs @ as))) of
          Some r \<Rightarrow> (n + 1, as_bench (xs @ as), Some r, sq1)
        | None \<Rightarrow> adaptive_loop criteria m (bench_iteration collect) (n + 1) sq1 (as_bench (xs @ as))))"
      using True by (simp add: adaptive_loop.simps [of criteria m _ n sq "as_bench xs"] b Let_def cong: option.case_cong)
    show ?thesis
      using "1.prems" "1.IH" [OF True c [symmetric] refl refl] unfolding p l by (auto split: option.splits)
  qed
qed

lemma tagged_phase: "tagged tag collect sq = (xs, sq') \<Longrightarrow> a \<in> set xs \<Longrightarrow> ca_phase a = tag"
  by (auto simp: tagged_def split: prod.splits)

lemma repeat_phase_tag:
  "repeat_phase (tagged tag collect) n sq = (xs, sq') \<Longrightarrow> a \<in> set xs \<Longrightarrow> ca_phase a = tag"
  by (induction n arbitrary: sq xs sq') (auto dest: tagged_phase split: prod.splits)

lemma adaptive_phase_tag:
  "adaptive_phase criteria m (tagged tag collect) n sq xs = (k, ys, r, sq') \<Longrightarrow> \<forall>a \<in> set xs. ca_phase a = tag \<Longrightarrow>
   a \<in> set ys \<Longrightarrow> ca_phase a = tag"
proof (induction criteria m "tagged tag collect" n sq xs rule: adaptive_phase.induct)
  case (1 criteria m n sq xs)
  obtain ps sq1 where c: "tagged tag collect sq = (ps, sq1)" by (rule prod.exhaust)
  have all: "\<forall>a \<in> set (xs @ ps). ca_phase a = tag" using "1.prems"(2) tagged_phase [OF c] by auto
  show ?case
  proof (cases "n < m")
    case False
    then show ?thesis using "1.prems" by (auto simp: adaptive_phase.simps [of criteria m _ n])
  next
    case True
    have p: "adaptive_phase criteria m (tagged tag collect) n sq xs = (case criteria of
        None \<Rightarrow> adaptive_phase criteria m (tagged tag collect) (n + 1) sq1 (xs @ ps)
      | Some c \<Rightarrow> (case as_stop_reason (benchmark_adaptive_status c (as_bench (xs @ ps))) of
          Some r \<Rightarrow> (n + 1, xs @ ps, Some r, sq1)
        | None \<Rightarrow> adaptive_phase criteria m (tagged tag collect) (n + 1) sq1 (xs @ ps)))"
      using True by (simp add: adaptive_phase.simps [of criteria m _ n sq xs] c Let_def cong: option.case_cong)
    show ?thesis
      using "1.prems"(1,3) "1.hyps" [OF True c [symmetric] refl refl] all unfolding p
      by (auto split: option.splits)
  qed
qed

lemma in_sequence_all:
  assumes "\<And>f q xs q'. f \<in> set fs \<Longrightarrow> f q = (xs, q') \<Longrightarrow> \<forall>a \<in> set xs. P a" "in_sequence fs sq = (ys, sq')"
  shows "\<forall>a \<in> set ys. P a"
  using assms by (induction fs arbitrary: sq ys sq') (force split: prod.splits)+

lemma compare_stacks_tag:
  "compare_stacks cfg d stacks modes samples retries sq = (xs, sq') \<Longrightarrow>
   \<forall>a \<in> set xs. ca_phase a = phase_tag cfg (bc_benchmark_phase cfg)"
  unfolding compare_stacks_def
  by (erule in_sequence_all [rotated]) (auto simp: stack_task_def split: prod.splits)

text \<open>The parts of a run.\<close>

record campaign_parts =
  pt_warm :: "campaign_attempt list"
  pt_over :: "campaign_attempt list"
  pt_pilot :: "campaign_attempt list"
  pt_measured :: "campaign_attempt list"
  pt_cool :: "campaign_attempt list"
  pt_stack :: "campaign_attempt list"

definition parts_of :: "bench_config \<Rightarrow> campaign_parts \<Rightarrow> campaign_run \<Rightarrow> bool" where
  "parts_of cfg p r \<longleftrightarrow>
     cr_attempts r = pt_warm p @ pt_over p @ pt_pilot p @ pt_measured p @ pt_cool p @ pt_stack p \<and>
     cr_warmup_count r = count_when (bc_benchmark_mode cfg) (pt_warm p) \<and>
     cr_overhead_count r = count_when (bc_benchmark_mode cfg) (pt_over p) \<and>
     cr_pilot_count r = count_when (bc_benchmark_mode cfg) (pt_pilot p) \<and>
     cr_cooldown_count r = count_when (bc_benchmark_mode cfg) (pt_cool p) \<and>
     (\<forall>a \<in> set (pt_warm p). ca_phase a = phase_tag cfg ''warmup'') \<and>
     (\<forall>a \<in> set (pt_over p). ca_phase a = phase_tag cfg ''overhead'') \<and>
     (\<forall>a \<in> set (pt_pilot p). ca_phase a = phase_tag cfg ''pilot'') \<and>
     (\<forall>a \<in> set (pt_measured p) \<union> set (pt_stack p). ca_phase a = phase_tag cfg (bc_benchmark_phase cfg)) \<and>
     (\<forall>a \<in> set (pt_cool p). ca_phase a = phase_tag cfg ''cooldown'')"

definition refines_benchmark :: "campaign_parts \<Rightarrow> campaign_run \<Rightarrow> bench_config \<Rightarrow> benchmark_outcome \<Rightarrow> bool" where
  "refines_benchmark p r cfg b \<longleftrightarrow>
     bo_overhead b = as_bench (pt_over p) \<and> bo_pilot b = as_bench (pt_pilot p) \<and>
     bo_measured b = as_bench (pt_measured p) \<and> bo_cooldown b = as_bench (pt_cool p) \<and>
     bo_completed_runs b = cr_total_runs r \<and> cr_plan r = (if bc_benchmark_mode cfg then bo_plan b else None)"

lemma pilot_phase_bench:
  assumes "pilot_phase cfg (tagged tag collect) sq = (xs, sq')"
  shows "(case pilot_adaptive_criteria cfg of
      Some c \<Rightarrow> (case adaptive_loop (Some c) (cr_max_samples c) (bench_iteration collect) 0 sq [] of
        (_, attempts, _, sq') \<Rightarrow> (attempts, sq'))
    | None \<Rightarrow> ([], sq)) = (as_bench xs, sq') \<and> (\<forall>a \<in> set xs. ca_phase a = tag)"
proof (cases "pilot_adaptive_criteria cfg")
  case None
  then show ?thesis using assms by (simp add: pilot_phase_def)
next
  case (Some c)
  obtain k ys r q where a: "adaptive_phase (Some c) (cr_max_samples c) (tagged tag collect) 0 sq [] = (k, ys, r, q)"
    by (metis prod_cases4)
  with Some assms have "ys = xs" "q = sq'" by (simp_all add: pilot_phase_def)
  then show ?thesis using adaptive_phase_bench [OF a] adaptive_phase_tag [OF a] Some by simp
qed

lemma run_parts:
  fixes cc w modes sizes
  defines "r \<equiv> run_for_target cc w modes sizes" and "cfg \<equiv> cc_bench cc"
    and "collect \<equiv> collect_iteration (cw_outcome w) (cw_order w) (mode_tasks modes sizes) (max (cc_samples cc) 1) (cc_retries cc)"
  shows "\<exists>p. parts_of cfg p r \<and> refines_benchmark p r cfg
    (run_benchmark cfg (cc_overhead cc) (cc_cooldown cc) (bench_iteration collect) (of_nat (length (pt_warm p))))"
proof -
  let ?ph = "\<lambda>ph. tagged (phase_tag cfg ph) collect"
  obtain warm2 sq1 where w2: "warm_up cc w modes PageLoad2 0 = (warm2, sq1)" by (rule prod.exhaust)
  obtain warm3 sq2 where w3: "warm_up cc w modes PageLoad3 sq1 = (warm3, sq2)" by (rule prod.exhaust)
  have sq2: "sq2 = of_nat (length (warm2 @ warm3))"
    and warm: "\<forall>a \<in> set (warm2 @ warm3). ca_phase a = phase_tag cfg ''warmup''"
    using w2 w3 by (auto simp: warm_up_def cfg_def split: if_splits)
  obtain over sq3 where o: "repeat_phase (?ph ''overhead'') (unat (overhead_runs cfg (cc_overhead cc))) sq2 = (over, sq3)"
    by (rule prod.exhaust)
  obtain pilot sq4 where pl: "pilot_phase cfg (?ph ''pilot'') sq3 = (pilot, sq4)" by (rule prod.exhaust)
  define criteria where "criteria = criteria_of_plan cfg (execution_plan_of cfg (as_bench pilot))"
  obtain k measured reason sq5 where m: "adaptive_phase criteria (max_run_count cfg criteria)
      (?ph (bc_benchmark_phase cfg)) 0 sq4 [] = (k, measured, reason, sq5)" by (metis prod_cases4)
  obtain cool sq6 where c: "repeat_phase (?ph ''cooldown'') (unat (cooldown_runs cfg (cc_cooldown cc))) sq5 = (cool, sq6)"
    by (rule prod.exhaust)
  obtain stack sq7 where s: "compare_stacks cfg (cw_stack_outcome w) (cw_stacks w) modes (max (cc_samples cc) 1)
      (cc_retries cc) sq6 = (stack, sq7)" by (rule prod.exhaust)
  define p where "p = \<lparr>pt_warm = warm2 @ warm3, pt_over = over, pt_pilot = pilot, pt_measured = measured,
    pt_cool = cool, pt_stack = stack\<rparr>"
  note folded = cfg_def [symmetric] collect_def [symmetric]
  have r: "r = \<lparr>cr_attempts = warm2 @ warm3 @ over @ pilot @ measured @ cool @ stack, cr_total_runs = k,
      cr_warmup_count = count_when (bc_benchmark_mode cfg) (warm2 @ warm3),
      cr_pilot_count = count_when (bc_benchmark_mode cfg) pilot,
      cr_overhead_count = count_when (bc_benchmark_mode cfg) over,
      cr_cooldown_count = count_when (bc_benchmark_mode cfg) cool,
      cr_plan = (if bc_benchmark_mode cfg then map_option (\<lambda>p. p\<lparr>ep_stop_reason := Some (stop_reason_text reason)\<rparr>)
        (execution_plan_of cfg (as_bench pilot)) else None)\<rparr>"
    by (simp add: r_def run_for_target_def folded Let_def w2 w3 o pl m [unfolded criteria_def] c s)
  have "parts_of cfg p r"
    using warm repeat_phase_tag [OF o] repeat_phase_tag [OF c] adaptive_phase_tag [OF m] compare_stacks_tag [OF s]
      pilot_phase_bench [OF pl]
    by (auto simp: parts_of_def p_def r)
  moreover have "refines_benchmark p r cfg
      (run_benchmark cfg (cc_overhead cc) (cc_cooldown cc) (bench_iteration collect) (of_nat (length (pt_warm p))))"
    using repeat_phase_bench [OF o] repeat_phase_bench [OF c] adaptive_phase_bench [OF m] pilot_phase_bench [OF pl]
    by (simp add: refines_benchmark_def run_benchmark_def p_def r sq2 [symmetric] criteria_def Let_def
        del: length_append of_nat_add)
  ultimately show ?thesis by blast
qed


lemma filter_tag_all: "\<forall>a \<in> set xs. f a = Some t \<Longrightarrow> filter (\<lambda>a. f a = Some t) xs = xs"
  by (induction xs) auto

lemma filter_tag_none: "\<forall>a \<in> set xs. f a \<noteq> Some t \<Longrightarrow> filter (\<lambda>a. f a = Some t) xs = []"
  by (induction xs) auto

lemma count_when_length: "length xs < 2 ^ 32 \<Longrightarrow> unat (count_when True xs) = length xs"
  by (simp add: count_when_def usize_to_u32_def unsigned_of_nat take_bit_nat_eq_self)

text \<open>The phase tags and the phase counts of a run agree. A run outside benchmark mode tags nothing;
  a run that is itself a warm-up, an overhead, a pilot or a cooldown tags every attempt with that;
  and in a measured benchmark the attempts tagged warmup, overhead, pilot and cooldown are as many
  as the run reports for that phase, all the others being tagged measured.\<close>

theorem phase_counts_exact:
  fixes cc w modes sizes
  defines "r \<equiv> run_for_target cc w modes sizes" and "cfg \<equiv> cc_bench cc"
  defines "tagged_as t \<equiv> length (filter (\<lambda>a. ca_phase a = Some t) (cr_attempts r))"
  shows "(\<not> bc_benchmark_mode cfg \<longrightarrow> (\<forall>a \<in> set (cr_attempts r). ca_phase a = None)) \<and>
    (bc_benchmark_mode cfg \<and> special_phase (bc_benchmark_phase cfg) \<longrightarrow>
      (\<forall>a \<in> set (cr_attempts r). ca_phase a = Some (bc_benchmark_phase cfg))) \<and>
    (measured_phase cfg \<and> length (cr_attempts r) < 2 ^ 32 \<longrightarrow>
      tagged_as ''warmup'' = unat (cr_warmup_count r) \<and> tagged_as ''overhead'' = unat (cr_overhead_count r) \<and>
      tagged_as ''pilot'' = unat (cr_pilot_count r) \<and> tagged_as ''cooldown'' = unat (cr_cooldown_count r) \<and>
      tagged_as ''measured'' + unat (cr_warmup_count r) + unat (cr_overhead_count r) + unat (cr_pilot_count r) +
        unat (cr_cooldown_count r) = length (cr_attempts r))"
proof -
  obtain p where p: "parts_of cfg p r" using run_parts [of cc w modes sizes] by (auto simp: r_def cfg_def)
  have tags: "phase_tag cfg t = None" if "\<not> bc_benchmark_mode cfg" for t using that by (simp add: phase_tag_def)
  have special: "phase_tag cfg t = Some (bc_benchmark_phase cfg)"
    if "bc_benchmark_mode cfg" "special_phase (bc_benchmark_phase cfg)" for t using that by (simp add: phase_tag_def)
  have counts: "tagged_as ''warmup'' = unat (cr_warmup_count r) \<and> tagged_as ''overhead'' = unat (cr_overhead_count r) \<and>
      tagged_as ''pilot'' = unat (cr_pilot_count r) \<and> tagged_as ''cooldown'' = unat (cr_cooldown_count r) \<and>
      tagged_as ''measured'' + unat (cr_warmup_count r) + unat (cr_overhead_count r) + unat (cr_pilot_count r) +
        unat (cr_cooldown_count r) = length (cr_attempts r)"
    if m: "measured_phase cfg" "length (cr_attempts r) < 2 ^ 32"
  proof -
    have mode: "bc_benchmark_mode cfg" and phase: "phase_tag cfg t = Some t" "bc_benchmark_phase cfg = ''measured''" for t
      using m(1) by (simp_all add: measured_phase_def phase_tag_def special_phase_def)
    have split: "filter (\<lambda>a. ca_phase a = Some t) (cr_attempts r) =
        (if t = ''warmup'' then pt_warm p else []) @ (if t = ''overhead'' then pt_over p else []) @
        (if t = ''pilot'' then pt_pilot p else []) @ (if t = ''measured'' then pt_measured p else []) @
        (if t = ''cooldown'' then pt_cool p else []) @ (if t = ''measured'' then pt_stack p else [])" for t
      using p by (simp add: parts_of_def phase filter_tag_all filter_tag_none)
    have lens: "unat (cr_warmup_count r) = length (pt_warm p)" "unat (cr_overhead_count r) = length (pt_over p)"
      "unat (cr_pilot_count r) = length (pt_pilot p)" "unat (cr_cooldown_count r) = length (pt_cool p)"
      using p m(2) mode by (simp_all add: parts_of_def count_when_length)
    show ?thesis using p by (simp add: tagged_as_def split lens) (simp add: parts_of_def)
  qed
  show ?thesis
    using p tags special counts by (auto simp: parts_of_def)
qed

theorem phase_counts_exact_witness:
  defines "cfg \<equiv> \<lparr>bc_benchmark_mode = True, bc_benchmark_phase = ''measured'',
     bc_http_stacks_empty = False, bc_runs = 0, bc_pilot_min_samples = None,
     bc_pilot_max_samples = None, bc_pilot_min_duration_ms = None, bc_min_samples = None,
     bc_max_samples = None, bc_min_duration_ms = None, bc_target_relative_error = None,
     bc_target_absolute_error = None\<rparr>"
    and "w \<equiv> \<lparr>cw_warmup = \<lambda>p q. demo_outcome (p, None) q 0, cw_outcome = demo_outcome, cw_order = id,
     cw_stack_outcome = \<lambda>n p q k. demo_outcome (p, None) q k, cw_stacks = []\<rparr>"
  defines "r \<equiv> run_for_target \<lparr>cc_bench = cfg, cc_overhead = Some 1, cc_cooldown = Some 0, cc_samples = 1,
     cc_retries = 0, cc_connection_reuse = False\<rparr> w [Tcp] []"
  shows "length (filter (\<lambda>a. ca_phase a = Some ''overhead'') (cr_attempts r)) = unat (cr_overhead_count r) \<and>
    length (cr_attempts r) = 1"
proof -
  have b: "benchmark_pilot_criteria cfg = None" "benchmark_adaptive_criteria cfg = None"
    by (simp_all add: cfg_def benchmark_pilot_criteria_def benchmark_adaptive_criteria_def no_explicit_controls_def)
  have mx: "max (1 :: u32) 1 = 1" by simp
  have one: "unat (1 :: u32) = 1" by simp
  have m: "measured_phase cfg" "max_run_count cfg (criteria_of_plan cfg (execution_plan_of cfg [])) = 0"
    by (simp_all add: measured_phase_def execution_plan_of_def b criteria_of_plan_def max_run_count_def
        plan_of_criteria_def fixed_count_criteria_def) (simp_all add: cfg_def)
  have loop: "adaptive_phase c 0 collect 0 sq xs = (0, xs, None, sq)" for c collect sq xs
    by (simp add: adaptive_phase.simps [of c 0])
  have "length (cr_attempts r) = 1"
    by (simp add: r_def run_for_target_def w_def Let_def warm_up_def overhead_runs_def cooldown_runs_def m loop
        unwrap_or_def pilot_phase_def pilot_adaptive_criteria_def b
        compare_stacks_def tagged_def collect_iteration_def mode_tasks_def sized_http_def sized_udp_def group_tasks_def
        group_step_def run_task_eq one mx)
  then show ?thesis
    using phase_counts_exact [of "\<lparr>cc_bench = cfg, cc_overhead = Some 1, cc_cooldown = Some 0, cc_samples = 1,
     cc_retries = 0, cc_connection_reuse = False\<rparr>" w "[Tcp]" "[]"]
    by (simp add: r_def measured_phase_def) (simp add: cfg_def)
qed


end
