(* ===== verification/Dispatch_Properties.thy ===== *)
theory Dispatch_Properties
  imports Campaign
begin

text \<open>
  The properties of dispatching: that every task reaches a runner and that a short mode always
  returns, and that the HTTP/3 pre-flight refuses only on evidence.
\<close>

section \<open>Every task is dispatched\<close>

lemma dispatch_call_task:
  assumes "(p, sz) \<in> set (mode_tasks modes sizes)"
  shows "dispatch_call api cfg udp udpt p sz target \<noteq> None"
proof (cases "p \<in> sized_http \<union> sized_udp")
  case True
  then have "sz \<noteq> None" using assms by (auto simp: mode_tasks_def split: if_splits)
  then show ?thesis using True by (auto simp: dispatch_call_def Let_def)
next
  case False
  then have "dispatch_unsized api cfg udp p target (apply_impairment_target api p target cfg) \<noteq> None"
    by (cases p) (simp_all add: dispatch_unsized_def sized_http_def sized_udp_def)
  then show ?thesis using False by (auto simp: dispatch_call_def Let_def split: option.splits)
qed

lemma short_mode_cap:
  "short_mode p \<Longrightarrow> \<exists>cap. attempt_cap p timeout_ms = Some cap \<and> from_secs 120 \<le> cap"
  by (simp add: attempt_cap_def from_millis_def from_secs_def)

definition refusal :: "attempt_ids \<Rightarrow> protocol \<Rightarrow> run_attempt" where
  "refusal ids p = attempt.extend (not_offered_attempt ids p) \<lparr>ra_target_url = None\<rparr>"



section \<open>The HTTP/3 pre-flight\<close>

text \<open>A clean response from this origin that advertised no HTTP/3.\<close>

definition read_no_h3 :: "'u url_api \<Rightarrow> ('u \<Rightarrow> bool \<times> (string \<times> string) list option) \<Rightarrow> string \<Rightarrow> bool" where
  "read_no_h3 api probe key \<longleftrightarrow> (\<exists>u headers. origin_of api u = key \<and> probe u = (True, Some headers) \<and>
     (\<forall>v. alt_svc_of headers = Some v \<longrightarrow> \<not> advertises_h3 v))"

definition memo_sound :: "'u url_api \<Rightarrow> ('u \<Rightarrow> bool \<times> (string \<times> string) list option) \<Rightarrow> offer_memo \<Rightarrow> bool" where
  "memo_sound api probe memo \<longleftrightarrow> (\<forall>key. memo key = Some NotOffered \<longrightarrow> read_no_h3 api probe key)"

lemma offer_of_NotOffered:
  "offer_of ok http = NotOffered \<Longrightarrow> ok \<and> (\<exists>headers. http = Some headers \<and>
     (\<forall>v. alt_svc_of headers = Some v \<longrightarrow> \<not> advertises_h3 v))"
  by (auto simp: offer_of_def split: option.splits if_splits)

lemma discover_sound:
  assumes "memo_sound api probe memo" "discover_offer api probe u memo = (offer, memo')"
  shows "memo_sound api probe memo' \<and> (offer = NotOffered \<longrightarrow> read_no_h3 api probe (origin_of api u)) \<and>
    memo' (origin_of api u) = Some offer \<and> (memo (origin_of api u) \<noteq> None \<longrightarrow> memo' = memo)"
proof (cases "memo (origin_of api u)")
  case (Some hit)
  then show ?thesis using assms by (auto simp: discover_offer_def memo_sound_def Let_def)
next
  case None
  obtain ok http where p: "probe u = (ok, http)" by (rule prod.exhaust)
  then have r: "offer = offer_of ok http" "memo' = memo(origin_of api u \<mapsto> offer)"
    using assms(2) None by (auto simp: discover_offer_def Let_def)
  have "read_no_h3 api probe (origin_of api u)" if "offer = NotOffered"
  proof -
    from that r(1) obtain headers where "ok" "http = Some headers"
      "\<forall>v. alt_svc_of headers = Some v \<longrightarrow> \<not> advertises_h3 v"
      using offer_of_NotOffered [of ok http] by auto
    with p show ?thesis unfolding read_no_h3_def by (intro exI [of _ u] exI [of _ headers]) simp
  qed
  then show ?thesis using assms(1) None r(2) by (auto simp: memo_sound_def)
qed

text \<open>The HTTP/3 pre-flight fails open. A mode is refused only if it needs HTTP/3 and a clean response
  from the target's origin was read, now or earlier in the run, that advertised none; an error, a
  missing response or a failed attempt refuses nothing. The memo stays sound, and an origin already
  in it is not asked again.\<close>

theorem h3_gate_fails_open:
  assumes "memo_sound api preflight memo"
    and "dispatch_once api preflight runner cfg udp udpt ids p sz target memo = (d, memo')"
    and "\<And>call took a. runner call = Some (took, a) \<Longrightarrow> map_option er_category (at_error a) \<noteq> Some UnsupportedError"
  shows "memo_sound api preflight memo' \<and>
    (\<forall>a. d = Done a \<longrightarrow> map_option er_category (at_error a) = Some UnsupportedError \<longrightarrow>
      is_h3_mode (protocol_name p) \<and> read_no_h3 api preflight (origin_of api target)) \<and>
    (memo (origin_of api target) \<noteq> None \<longrightarrow> memo' = memo)"
proof -
  obtain offer m where o: "(if is_h3_mode (protocol_name p) then discover_offer api preflight target memo
      else (OfferUnknown, memo)) = (offer, m)" by (rule prod.exhaust)
  then have d: "memo' = m" "d = (if offer = NotOffered then Done (refusal ids p)
      else case dispatch_call api cfg udp udpt p sz target of
        None \<Rightarrow> Panics
      | Some call \<Rightarrow> (case capped ids p (dc_timeout_ms cfg) (runner call) of
          Some a \<Rightarrow> Done (stamp_target api target a) | None \<Rightarrow> Hangs))"
    using assms(2) by (auto simp: dispatch_once_def refusal_def split: option.splits if_splits)
  have err: "map_option er_category (at_error (stamp_target api target a)) \<noteq> Some UnsupportedError"
    if "capped ids p (dc_timeout_ms cfg) (runner call) = Some a" for a call
    using that assms(3) [of call]
    by (auto simp: stamp_target_def capped_def stalled_attempt_def error_attempt_proto_def error_of_def attempt.defs
        split: option.splits if_splits)
  have "offer = NotOffered" if "d = Done a" "map_option er_category (at_error a) = Some UnsupportedError" for a
    using that err by (auto simp: d(2) split: option.splits if_splits)
  moreover have "is_h3_mode (protocol_name p)" if "offer = NotOffered" using o that by (simp split: if_splits)
  ultimately show ?thesis
    using discover_sound [OF assms(1), of target offer m] o assms(1) by (auto simp: d(1) split: if_splits)
qed

theorem h3_gate_fails_open_witness:
  defines "ids \<equiv> \<lparr>ai_run_id = 1, ai_attempt_id = 2, ai_sequence_num = 0, ai_started_at = 0, ai_finished_at = 0,
      ai_error_at = 0\<rparr>"
    and "api \<equiv> \<lparr>url_text = \<lambda>u. u, url_scheme = \<lambda>u. ''https'', url_host = Some, url_port = \<lambda>u. None,
      url_port_or_default = \<lambda>u. Some 443, url_path = \<lambda>u. ''/'', set_scheme = \<lambda>s u. u, set_port = \<lambda>p u. u,
      set_path = \<lambda>p u. u, set_query = \<lambda>q u. u\<rparr>"
    and "cfg \<equiv> \<lparr>dc_delay_ms = 0, dc_stamp_port = 9997, dc_timeout_ms = 30000, dc_ipv4_only = False, dc_ipv6_only = False\<rparr>"
  shows "memo_sound api (\<lambda>u. (True, Some [(''Server'', ''x'')]))
    (snd (dispatch_once api (\<lambda>u. (True, Some [(''Server'', ''x'')])) (\<lambda>c. None) cfg udp_probe_config_default
      udp_throughput_config_default ids Http3 None ''a.example'' Map.empty))"
proof -
  have "memo_sound api (\<lambda>u. (True, Some [(''Server'', ''x'')])) Map.empty" by (simp add: memo_sound_def)
  from h3_gate_fails_open [OF this surjective_pairing, of "\<lambda>c. None"] show ?thesis by simp
qed

end
