(* ===== verification/Load_Gen.thy ===== *)
theory Load_Gen
  imports Stats Websocket
begin

text \<open>
  Load generation, \<open>crates/networker-tester/src/runner/load_gen.rs\<close>: what the modes that load a link
  share. A connection with its measured handshakes, one counted transfer in each direction, the
  upload body that counts the bytes the transport takes, and the statistics of the stability rule.
  Connections, handshakes and frames are inputs.
\<close>

datatype load_direction = LoadDownload | LoadUpload

record 'u h2_target =
  ht_base_url :: 'u
  ht_insecure :: bool
  ht_ca_bundle :: "string option"
  ht_timeout_ms :: u64

section \<open>A connection\<close>

text \<open>What the socket, the TLS library and the HTTP library returned; a handshake is its two instants.\<close>

record 'p h2_io =
  hi_connect :: "string \<Rightarrow> u16 \<Rightarrow> (instant \<times> instant) timed"
  hi_socket_probe :: "'p option"
  hi_tls_config :: "string + unit"
  hi_server_name :: "string \<Rightarrow> string + unit"
  hi_tls :: "(instant \<times> instant) timed"
  hi_h2_handshake :: "string + unit"

record 'p h2_connection =
  hc_tcp_ms :: f64
  hc_tls_ms :: "f64 option"
  hc_socket_probe :: "'p option"

definition ms_between :: "instant \<times> instant \<Rightarrow> f64" where
  "ms_between p = as_millis_f64 (snd p - fst p)"

definition connect_h2 :: "'u url_api \<Rightarrow> 'p h2_io \<Rightarrow> 'u h2_target \<Rightarrow> string + 'p h2_connection" where
  "connect_h2 api io target = (case url_host api (ht_base_url target) of
     None \<Rightarrow> Inl ''target URL has no host''
   | Some host \<Rightarrow>
       (let url = ht_base_url target; is_https = (url_scheme api url = ''https'');
            port = (case url_port api url of Some p \<Rightarrow> p | None \<Rightarrow> (if is_https then 443 else 80));
            ms = decimal (unat (ht_timeout_ms target)) @ ''ms''
        in case hi_connect io host port of
          TimedElapsed \<Rightarrow> Inl (''TCP connect timed out after '' @ ms)
        | TimedFailed e \<Rightarrow> Inl (''TCP connect failed: '' @ e)
        | TimedValue tcp \<Rightarrow>
            (if is_https
             then case hi_tls_config io of Inl e \<Rightarrow> Inl e | Inr _ \<Rightarrow>
               (case hi_server_name io host of Inl e \<Rightarrow> Inl (''Invalid SNI: '' @ e) | Inr _ \<Rightarrow>
                 (case hi_tls io of
                    TimedElapsed \<Rightarrow> Inl (''TLS handshake timed out after '' @ ms)
                  | TimedFailed e \<Rightarrow> Inl (''TLS handshake failed: '' @ e)
                  | TimedValue tls \<Rightarrow> (case hi_h2_handshake io of
                      Inl e \<Rightarrow> Inl (''H2 handshake failed: '' @ e)
                    | Inr _ \<Rightarrow> Inr \<lparr>hc_tcp_ms = ms_between tcp, hc_tls_ms = Some (ms_between tls),
                        hc_socket_probe = hi_socket_probe io\<rparr>)))
             else case hi_h2_handshake io of
                 Inl e \<Rightarrow> Inl (''h2c handshake failed: '' @ e)
               | Inr _ \<Rightarrow> Inr \<lparr>hc_tcp_ms = ms_between tcp, hc_tls_ms = None,
                   hc_socket_probe = hi_socket_probe io\<rparr>)))"

definition h2_absolute_uri :: "string \<Rightarrow> string \<Rightarrow> u16 \<Rightarrow> string \<Rightarrow> string" where
  "h2_absolute_uri scheme host port path_and_query =
     scheme @ ''://'' @ host @ '':'' @ decimal (unat port) @ path_and_query"

definition absolute_uri :: "'u url_api \<Rightarrow> 'u \<Rightarrow> string \<Rightarrow> string" where
  "absolute_uri api base path_and_query =
     (let scheme = url_scheme api base;
          host = (case url_host api base of Some h \<Rightarrow> h | None \<Rightarrow> ''localhost'');
          port = (case url_port api base of Some p \<Rightarrow> p | None \<Rightarrow> (if scheme = ''https'' then 443 else 80))
      in h2_absolute_uri scheme host port path_and_query)"

definition host_header :: "'u url_api \<Rightarrow> 'u \<Rightarrow> string" where
  "host_header api url =
     (let host = (case url_host api url of Some h \<Rightarrow> h | None \<Rightarrow> ''localhost'')
      in case url_port api url of Some p \<Rightarrow> host @ '':'' @ decimal (unat p) | None \<Rightarrow> host)"

section \<open>Counted transfers\<close>

text \<open>A frame of a body: an error, a data frame of that many bytes, or one without data.\<close>

type_synonym body_frame = "string + nat option"

fun count_frames :: "body_frame list \<Rightarrow> u64 \<Rightarrow> (string + unit) \<times> u64" where
  "count_frames [] bytes = (Inr (), bytes)"
| "count_frames (Inl e # fs) bytes = (Inl e, bytes)"
| "count_frames (Inr (Some n) # fs) bytes = count_frames fs (bytes + of_nat n)"
| "count_frames (Inr None # fs) bytes = count_frames fs bytes"

fun drain_frames :: "body_frame list \<Rightarrow> string + unit" where
  "drain_frames [] = Inr ()"
| "drain_frames (Inl e # fs) = Inl e"
| "drain_frames (Inr _ # fs) = drain_frames fs"

text \<open>The response to the request: an error, or its status and its frames. The status is not looked at.\<close>

type_synonym h2_response = "string + u16 \<times> body_frame list"

definition load_download_once :: "string + unit \<Rightarrow> h2_response \<Rightarrow> u64 \<Rightarrow> (string + unit) \<times> u64" where
  "load_download_once built resp bytes = (case built of
     Inl e \<Rightarrow> (Inl e, bytes)
   | Inr _ \<Rightarrow> (case resp of Inl e \<Rightarrow> (Inl e, bytes) | Inr (status, frames) \<Rightarrow> count_frames frames bytes))"

text \<open>The upload body: what is left to send, and the shared counter.\<close>

record upload_body =
  ub_remaining :: nat
  ub_counter :: u64

definition UPLOAD_CHUNK :: nat where "UPLOAD_CHUNK = 64 * 1024"

definition counted_upload_body :: "nat \<Rightarrow> u64 \<Rightarrow> upload_body" where
  "counted_upload_body total_bytes counter = \<lparr>ub_remaining = total_bytes, ub_counter = counter\<rparr>"

definition poll_frame :: "upload_body \<Rightarrow> nat option \<times> upload_body" where
  "poll_frame b =
     (if ub_remaining b = 0 then (None, b)
      else let n = min (ub_remaining b) UPLOAD_CHUNK
           in (Some n, \<lparr>ub_remaining = ub_remaining b - n, ub_counter = ub_counter b + of_nat n\<rparr>))"

definition size_hint :: "upload_body \<Rightarrow> nat" where
  "size_hint b = ub_remaining b"

text \<open>The transport polls the body as often as its window allows, \<open>n\<close> times.\<close>

fun polled :: "nat \<Rightarrow> upload_body \<Rightarrow> nat list \<times> upload_body" where
  "polled 0 b = ([], b)"
| "polled (Suc n) b = (case poll_frame b of
     (None, b') \<Rightarrow> ([], b')
   | (Some k, b') \<Rightarrow> (case polled n b' of (ks, b'') \<Rightarrow> (k # ks, b'')))"

definition load_upload_once :: "string + unit \<Rightarrow> nat \<Rightarrow> h2_response \<Rightarrow> nat \<Rightarrow> u64 \<Rightarrow> (string + unit) \<times> u64" where
  "load_upload_once built polls resp request_bytes bytes = (case built of
     Inl e \<Rightarrow> (Inl e, bytes)
   | Inr _ \<Rightarrow>
       (let body = snd (polled polls (counted_upload_body request_bytes bytes))
        in (case resp of Inl e \<Rightarrow> Inl e | Inr (status, frames) \<Rightarrow> drain_frames frames, ub_counter body)))"

section \<open>The stability rule\<close>

definition mean :: "f64 list \<Rightarrow> f64" where
  "mean v = (if v = [] then 0 else f64_div (f64_sum v) (fl (real (length v))))"

definition stddev :: "f64 list \<Rightarrow> f64" where
  "stddev v =
     (if length v < 2 then 0
      else let m = mean v
           in fl (sqrt (f64_div (f64_sum (map (\<lambda>x. f64_mul (f64_sub x m) (f64_sub x m)) v)) (fl (real (length v))))))"

definition last_n :: "nat \<Rightarrow> 'a list \<Rightarrow> 'a list" where
  "last_n n xs = drop (length xs - n) xs"

text \<open>The last \<open>mad\<close> values are within \<open>sdt\<close> of the current one.\<close>

definition settled :: "nat \<Rightarrow> f64 \<Rightarrow> f64 list \<Rightarrow> f64 \<Rightarrow> bool" where
  "settled mad sdt xs current \<longleftrightarrow> mad \<le> length xs \<and> 0 < current \<and> stddev (last_n mad xs) < f64_mul sdt current"

section \<open>The upload body counts what it hands over\<close>

lemma polled_counts:
  "polled n b = (ks, b') \<Longrightarrow> sum_list ks + ub_remaining b' = ub_remaining b \<and>
     ub_counter b' = ub_counter b + of_nat (sum_list ks) \<and> length ks \<le> n \<and>
     (\<forall>k \<in> set ks. 0 < k \<and> k \<le> UPLOAD_CHUNK)"
proof (induction n arbitrary: b ks b')
  case (Suc n)
  show ?case
  proof (cases "ub_remaining b = 0")
    case True
    then show ?thesis using Suc.prems by (auto simp: poll_frame_def)
  next
    case False
    obtain rest c where p: "polled n \<lparr>ub_remaining = ub_remaining b - min (ub_remaining b) UPLOAD_CHUNK,
        ub_counter = ub_counter b + of_nat (min (ub_remaining b) UPLOAD_CHUNK)\<rparr> = (rest, c)"
      by (rule prod.exhaust)
    have "0 < UPLOAD_CHUNK" by (simp add: UPLOAD_CHUNK_def)
    then show ?thesis using Suc.prems False Suc.IH [OF p] p
      by (auto simp: poll_frame_def Let_def)
  qed
qed auto

lemma div_ceil_le_iff: "0 < b \<Longrightarrow> div_ceil a b \<le> n \<longleftrightarrow> a \<le> n * b"
proof
  assume "0 < b" "div_ceil a b \<le> n"
  then show "a \<le> n * b" using div_ceil_mult_ge [of b a] mult_le_mono1 [of "div_ceil a b" n b] by linarith
next
  assume b: "0 < b" and a: "a \<le> n * b"
  show "div_ceil a b \<le> n"
  proof (cases "a = 0")
    case False
    then have "(div_ceil a b - 1) * b < n * b"
      using less_le_trans [OF div_ceil_pred_mult_less [OF b, of a] a] by simp
    then have "div_ceil a b - 1 < n" by simp
    then show ?thesis by linarith
  qed simp
qed

lemma polled_all:
  "ub_remaining b \<le> n * UPLOAD_CHUNK \<Longrightarrow> ub_remaining (snd (polled n b)) = 0"
proof (induction n arbitrary: b)
  case (Suc n)
  show ?case
  proof (cases "ub_remaining b = 0")
    case True
    then show ?thesis by (simp add: poll_frame_def)
  next
    case False
    let ?k = "min (ub_remaining b) UPLOAD_CHUNK"
    let ?b = "\<lparr>ub_remaining = ub_remaining b - ?k, ub_counter = ub_counter b + of_nat ?k\<rparr>"
    have "ub_remaining ?b \<le> n * UPLOAD_CHUNK" using Suc.prems by simp
    from Suc.IH [OF this] show ?thesis using False
      by (cases "polled n ?b") (simp add: poll_frame_def Let_def)
  qed
qed simp

end
