(* ===== verification/Rpm.thy ===== *)
theory Rpm
  imports Load_Gen
begin

text \<open>
  Latency under load, \<open>crates/networker-tester/src/runner/rpm.rs\<close>: an echo train on the idle link,
  a second one paced through a window of downloads with a drain of its tail, and what the two give.
  The downloads, the socket and the clocks are inputs.
\<close>

record 't rpm_config =
  rm_udp :: udp_probe_config
  rm_throughput :: 't
  rm_download_bytes :: nat
  rm_load_duration_ms :: u64
  rm_probe_interval_ms :: u64

definition DEFAULT_RPM_DOWNLOAD_BYTES :: nat where "DEFAULT_RPM_DOWNLOAD_BYTES = 32 * 1024 * 1024"
definition DEFAULT_RPM_LOAD_DURATION_MS :: u64 where "DEFAULT_RPM_LOAD_DURATION_MS = 5000"
definition DEFAULT_RPM_PROBE_INTERVAL_MS :: u64 where "DEFAULT_RPM_PROBE_INTERVAL_MS = 100"

definition rpm_from_parts :: "udp_probe_config \<Rightarrow> 't \<Rightarrow> 't rpm_config" where
  "rpm_from_parts udp throughput = \<lparr>rm_udp = udp, rm_throughput = throughput,
     rm_download_bytes = DEFAULT_RPM_DOWNLOAD_BYTES, rm_load_duration_ms = DEFAULT_RPM_LOAD_DURATION_MS,
     rm_probe_interval_ms = DEFAULT_RPM_PROBE_INTERVAL_MS\<rparr>"

section \<open>The load generator\<close>

record load_stats =
  ls_started :: u32
  ls_completed :: u32
  ls_failed :: u32
  ls_bytes :: u64
  ls_throughput_sum_micro :: u64
  ls_throughput_samples :: u32

definition load_stats_default :: load_stats where
  "load_stats_default = \<lparr>ls_started = 0, ls_completed = 0, ls_failed = 0, ls_bytes = 0,
     ls_throughput_sum_micro = 0, ls_throughput_samples = 0\<rparr>"

text \<open>A download of the window: it succeeded with the size and the throughput of its HTTP result, it
  failed, or it was in flight when the window was closed.\<close>

datatype load_download = LoadSucceeded "(nat \<times> f64 option) option" | LoadFailed | LoadInFlight

definition download_succeeded :: "(nat \<times> f64 option) option \<Rightarrow> load_stats \<Rightarrow> load_stats" where
  "download_succeeded http s =
     (let delivered = (case http of Some (n, _) \<Rightarrow> of_nat n | None \<Rightarrow> 0);
          s = s\<lparr>ls_completed := ls_completed s + 1, ls_bytes := ls_bytes s + delivered\<rparr>
      in case http of
          Some (_, Some mbps) \<Rightarrow> s\<lparr>ls_throughput_sum_micro := ls_throughput_sum_micro s + f64_as_u64 (f64_mul mbps 1000000),
            ls_throughput_samples := ls_throughput_samples s + 1\<rparr>
        | _ \<Rightarrow> s)"

fun load_loop :: "duration \<Rightarrow> (duration \<times> load_download) list \<Rightarrow> load_stats \<Rightarrow> load_stats" where
  "load_loop window [] s = s"
| "load_loop window ((elapsed, d) # ds) s =
     (if window \<le> elapsed then s
      else let s = s\<lparr>ls_started := ls_started s + 1\<rparr>
           in case d of
               LoadSucceeded http \<Rightarrow> load_loop window ds (download_succeeded http s)
             | LoadFailed \<Rightarrow> load_loop window ds (s\<lparr>ls_failed := ls_failed s + 1\<rparr>)
             | LoadInFlight \<Rightarrow> s)"

section \<open>The echo trains\<close>

datatype pacing = BackToBack u64 | Paced u64 u64

record rpm_train =
  et_rtts :: "f64 option list"
  et_censored :: u32
  et_local_drops :: "u64 option"

text \<open>A wait ends when its probe, or with no probe given every probe, is answered.\<close>

definition answered :: "nat option \<Rightarrow> f64 option list \<Rightarrow> bool" where
  "answered until rtts = (case until of
     Some n \<Rightarrow> rtts ! n \<noteq> None
   | None \<Rightarrow> list_all (\<lambda>r. r \<noteq> None) rtts)"

fun recv_echoes :: "nat option \<Rightarrow> instant \<Rightarrow> instant option list \<Rightarrow> (instant \<times> echo_event) list \<Rightarrow>
   f64 option list \<Rightarrow> f64 option list" where
  "recv_echoes until deadline send_times [] rtts = rtts"
| "recv_echoes until deadline send_times ((now, ev) # evs) rtts =
     (if answered until rtts then rtts
      else if deadline \<le> now then rtts
      else case ev of
        Echo buf tm \<Rightarrow>
          (if 4 \<le> length buf
           then recv_echoes until deadline send_times evs
                  (credit_echo (unat (be32_of (slice 0 4 buf))) tm send_times rtts)
           else recv_echoes until deadline send_times evs rtts)
      | EchoFailed \<Rightarrow> rtts
      | EchoTimedOut \<Rightarrow> rtts)"

text \<open>The wait after the send of a probe; unlike the plain probe's it also follows a failed send.\<close>

definition paced_wait :: "pacing \<Rightarrow> (echo_event, f64 option list) echo_window" where
  "paced_wait p n = (case p of BackToBack _ \<Rightarrow> recv_echoes (Some n) | Paced _ _ \<Rightarrow> recv_echoes None)"

definition pacing_wait :: "pacing \<Rightarrow> duration" where
  "pacing_wait p = (case p of BackToBack t \<Rightarrow> from_millis (unat t) | Paced i _ \<Rightarrow> from_millis (unat i))"

definition train_step :: "('e, 's) echo_window \<Rightarrow> duration \<Rightarrow> (nat \<Rightarrow> 'e echo_input) \<Rightarrow>
   instant option list \<times> 's \<Rightarrow> nat \<Rightarrow> instant option list \<times> 's" where
  "train_step wait timeout inputs st n =
     (let (send_times, s) = st; i = inputs n;
          send_times = (if ec_send_ok i then send_times[n := Some (ec_sent_at i)] else send_times)
      in (send_times, wait n (ec_sent_at i + timeout) send_times (ec_events i) s))"

text \<open>Beside the train: the events of the drain and the clock of the check of each probe after it.\<close>

record train_io =
  tn_bind :: "string + unit"
  tn_connect :: "string + unit"
  tn_inputs :: "nat \<Rightarrow> echo_event echo_input"
  tn_tail :: "(instant \<times> echo_event) list"
  tn_checked_at :: "nat \<Rightarrow> instant"
  tn_local_drops :: "u64 option"

definition drain_tail :: "duration \<Rightarrow> (instant \<times> echo_event) list \<Rightarrow> instant option list \<Rightarrow> f64 option list \<Rightarrow> f64 option list" where
  "drain_tail tmax evs send_times rtts =
     (if list_ex (\<lambda>r. r = None) rtts
      then case received_of send_times of
          [] \<Rightarrow> rtts
        | ts \<Rightarrow> recv_echoes None (Max (set ts) + tmax) send_times evs rtts
      else rtts)"

definition is_censored :: "duration \<Rightarrow> (nat \<Rightarrow> instant) \<Rightarrow> instant option list \<Rightarrow> f64 option list \<Rightarrow> nat \<Rightarrow> bool" where
  "is_censored tmax clk send_times rtts k \<longleftrightarrow> rtts ! k = None \<and>
     (case send_times ! k of Some sent \<Rightarrow> clk k - sent < tmax | None \<Rightarrow> False)"

definition train_finish :: "pacing \<Rightarrow> train_io \<Rightarrow> instant option list \<times> f64 option list \<Rightarrow> f64 option list \<times> u32" where
  "train_finish p io st = (case p of
     BackToBack _ \<Rightarrow> (snd st, 0)
   | Paced _ tmax_ms \<Rightarrow>
       (let tmax = from_millis (unat tmax_ms); rtts = drain_tail tmax (tn_tail io) (fst st) (snd st)
        in (rtts, of_nat (length (filter (is_censored tmax (tn_checked_at io) (fst st) rtts) [0..<length rtts])))))"

definition echo_rtts :: "train_io \<Rightarrow> u32 \<Rightarrow> pacing \<Rightarrow> string + rpm_train" where
  "echo_rtts io count p = (case tn_bind io of
     Inl e \<Rightarrow> Inl (''UDP bind failed: '' @ e)
   | Inr _ \<Rightarrow> (case tn_connect io of
       Inl e \<Rightarrow> Inl (''UDP connect failed: '' @ e)
     | Inr _ \<Rightarrow>
         (let n = unat count;
              st = foldl (train_step (paced_wait p) (pacing_wait p) (tn_inputs io))
                (replicate n None, replicate n None) [0..<n];
              (rtts, censored) = train_finish p io st
          in Inr \<lparr>et_rtts = rtts, et_censored = censored, et_local_drops = tn_local_drops io\<rparr>)))"

section \<open>The probe\<close>

record rpm_result =
  rr_remote_addr :: string
  rr_unloaded_probe_count :: u32
  rr_unloaded_success_count :: u32
  rr_unloaded_loss_percent :: f64
  rr_unloaded_rtt_min_ms :: f64
  rr_unloaded_rtt_avg_ms :: f64
  rr_unloaded_rtt_p95_ms :: f64
  rr_unloaded_jitter_ms :: f64
  rr_loaded_probe_count :: u32
  rr_loaded_success_count :: u32
  rr_loaded_loss_percent :: f64
  rr_loaded_rtt_min_ms :: f64
  rr_loaded_rtt_avg_ms :: f64
  rr_loaded_rtt_p95_ms :: f64
  rr_loaded_jitter_ms :: f64
  rr_loaded_probes_censored :: "u32 option"
  rr_loaded_local_drops :: "u64 option"
  rr_rpm :: "f64 option"
  rr_bufferbloat_factor :: "f64 option"
  rr_load_duration_ms :: f64
  rr_load_bytes_transferred :: u64
  rr_load_downloads_completed :: u32
  rr_load_throughput_mbps :: "f64 option"
  rr_started_at :: nat

record rpm_attempt = attempt +
  at_rpm :: "rpm_result option"

definition rpm_failed :: "attempt_ids \<Rightarrow> string \<Rightarrow> rpm_attempt" where
  "rpm_failed ids message =
     attempt.extend (attempt_new ids Rpm False (Some (error_of ids UdpError message))) \<lparr>at_rpm = None\<rparr>"

record rpm_io =
  ro_target :: "string + socket_addr"
  ro_unloaded :: train_io
  ro_loaded :: train_io
  ro_downloads :: "(duration \<times> load_download) list"
  ro_load_elapsed :: duration

definition loaded_probe_count :: "'t rpm_config \<Rightarrow> u32" where
  "loaded_probe_count cfg =
     of_nat (min (max (unat (rm_load_duration_ms cfg) div unat (max (rm_probe_interval_ms cfg) 1)) 1) 10000)"

definition load_ok :: "load_stats \<Rightarrow> bool" where
  "load_ok s \<longleftrightarrow> 0 < ls_completed s \<or> ls_failed s < ls_started s"

definition load_throughput :: "load_stats \<Rightarrow> f64 option" where
  "load_throughput s =
     (if 0 < ls_throughput_samples s
      then Some (f64_div (f64_div (fl (real (unat (ls_throughput_sum_micro s)))) 1000000)
        (fl (real (unat (ls_throughput_samples s))))) else None)"

definition rpm_result_of :: "'t rpm_config \<Rightarrow> socket_addr \<Rightarrow> attempt_ids \<Rightarrow> rpm_io \<Rightarrow> load_stats \<Rightarrow> f64 option list \<Rightarrow>
   rpm_train \<Rightarrow> rpm_result" where
  "rpm_result_of cfg target ids io load unloaded loaded =
     (let us = aggregate_udp_rtts unloaded; ls = aggregate_udp_rtts (et_rtts loaded);
          us_ok = count_received unloaded; ls_ok = count_received (et_rtts loaded)
      in \<lparr>rr_remote_addr = show_socket_addr target, rr_unloaded_probe_count = up_probe_count (rm_udp cfg),
          rr_unloaded_success_count = us_ok, rr_unloaded_loss_percent = rtt_loss_percent us,
          rr_unloaded_rtt_min_ms = rtt_min us, rr_unloaded_rtt_avg_ms = rtt_avg us,
          rr_unloaded_rtt_p95_ms = rtt_p95 us, rr_unloaded_jitter_ms = rtt_jitter us,
          rr_loaded_probe_count = loaded_probe_count cfg, rr_loaded_success_count = ls_ok,
          rr_loaded_loss_percent = rtt_loss_percent ls, rr_loaded_rtt_min_ms = rtt_min ls,
          rr_loaded_rtt_avg_ms = rtt_avg ls, rr_loaded_rtt_p95_ms = rtt_p95 ls, rr_loaded_jitter_ms = rtt_jitter ls,
          rr_loaded_probes_censored = Some (et_censored loaded), rr_loaded_local_drops = et_local_drops loaded,
          rr_rpm = (if 0 < ls_ok \<and> 0 < rtt_avg ls then Some (f64_div 60000 (rtt_avg ls)) else None),
          rr_bufferbloat_factor = (if 0 < ls_ok \<and> 0 < us_ok \<and> 0 < rtt_avg us
            then Some (f64_div (rtt_avg ls) (rtt_avg us)) else None),
          rr_load_duration_ms = as_millis_f64 (ro_load_elapsed io), rr_load_bytes_transferred = ls_bytes load,
          rr_load_downloads_completed = ls_completed load, rr_load_throughput_mbps = load_throughput load,
          rr_started_at = ai_started_at ids\<rparr>)"

definition rpm_error :: "attempt_ids \<Rightarrow> load_stats \<Rightarrow> u32 \<Rightarrow> f64 option list \<Rightarrow> error_record option" where
  "rpm_error ids load count loaded =
     (if \<not> load_ok load then Some (error_of ids HttpError
        (''Load generator failed: 0/'' @ decimal (unat (ls_started load)) @ '' downloads completed '' @ em_dash @
         '' loaded RTTs were measured on an idle link and are not reported as under-load''))
      else if count_received loaded = 0 then Some (error_of ids UdpError
        (''Loaded phase: all '' @ decimal (unat count) @ '' UDP echo probes lost''))
      else None)"

definition run_rpm_probe :: "attempt_ids \<Rightarrow> rpm_io \<Rightarrow> 't rpm_config \<Rightarrow> rpm_attempt" where
  "run_rpm_probe ids io cfg =
     (let udp = rm_udp cfg;
          target_text = up_target_host udp @ '':'' @ decimal (unat (up_target_port udp))
      in case ro_target io of Inl msg \<Rightarrow> rpm_failed ids msg | Inr target \<Rightarrow>
         (case echo_rtts (ro_unloaded io) (up_probe_count udp) (BackToBack (up_timeout_ms udp)) of
            Inl msg \<Rightarrow> rpm_failed ids msg
          | Inr train \<Rightarrow>
              (if count_received (et_rtts train) = 0
               then rpm_failed ids (''Unloaded phase: all '' @ decimal (unat (up_probe_count udp)) @
                 '' UDP echo probes lost (is the endpoint's UDP echo server on '' @ target_text @ '' reachable?)'')
               else let load = load_loop (from_millis (unat (rm_load_duration_ms cfg))) (ro_downloads io) load_stats_default
                 in case echo_rtts (ro_loaded io) (loaded_probe_count cfg)
                      (Paced (max (rm_probe_interval_ms cfg) 1) (up_timeout_ms udp)) of
                      Inl msg \<Rightarrow> rpm_failed ids msg
                    | Inr loaded \<Rightarrow>
                        (let err = rpm_error ids load (loaded_probe_count cfg) (et_rtts loaded)
                         in attempt.extend (attempt_new ids Rpm (err = None) err)
                              \<lparr>at_rpm = Some (rpm_result_of cfg target ids io load (et_rtts train) loaded)\<rparr>))))"

end
