(* ===== verification/Rpm_Properties.thy ===== *)
theory Rpm_Properties
  imports Rpm
begin

text \<open>
  The properties of the probe of latency under load. Its echo trains keep the contract of
  \<open>echo_train\<close>: the locale's lemmas about the plain train are carried over to a train that also
  waits after a failed send, and the tail drain credits under the same law.
\<close>

section \<open>A train that always waits\<close>

context echo_train
begin

lemma train_step_ok:
  assumes "train_ok count m inputs st" "m < count"
  shows "train_ok count (Suc m) inputs (train_step wait timeout inputs st m)"
proof (cases st)
  case (Pair send_times s)
  have inv: "length send_times = count" "length (readings s) = count"
      "\<And>k. k < count \<Longrightarrow> send_times ! k =
        (if k < m \<and> ec_send_ok (inputs k) then Some (ec_sent_at (inputs k)) else None)"
      "\<And>k r. k < count \<Longrightarrow> readings s ! k = Some r \<Longrightarrow> read_from m inputs k r"
    using assms(1) by (simp_all add: train_ok_def Pair)
  define sent where "sent = (if ec_send_ok (inputs m) then send_times[m := Some (ec_sent_at (inputs m))] else send_times)"
  define s' where "s' = wait m (ec_sent_at (inputs m) + timeout) sent (ec_events (inputs m)) s"
  have step: "train_step wait timeout inputs st m = (sent, s')"
    by (simp add: train_step_def Pair sent_def s'_def Let_def)
  have sent: "sent ! k = (if k < Suc m \<and> ec_send_ok (inputs k) then Some (ec_sent_at (inputs k)) else None)"
    if "k < count" for k
    using that inv(1) inv(3) [OF that] by (cases "k = m") (auto simp: sent_def less_Suc_eq)
  have "read_from (Suc m) inputs k r" if k: "k < count" "readings s' ! k = Some r" for k r
  proof (cases "readings s ! k")
    case (Some r')
    then have "r' = r" using wait_keeps [of k s r'] k inv(2) by (simp add: s'_def)
    then show ?thesis using Some inv(4) [OF k(1)] read_from_mono [of m inputs k r "Suc m"] by simp
  next
    case None
    from wait_credits [of k s, OF _ None] k inv(2)
    obtain now ev tm t where c: "(now, ev) \<in> set (ec_events (inputs m))" "names ev = Some (k, tm)"
      "sent ! k = Some t" "r = as_millis_f64 (tm - t)"
      unfolding s'_def by metis
    from c(3) sent [OF k(1)] have "k < Suc m" "ec_send_ok (inputs k)" "t = ec_sent_at (inputs k)"
      by (simp_all split: if_splits)
    then show ?thesis using c unfolding read_from_def by (metis lessI less_Suc_eq_le)
  qed
  then show ?thesis using sent inv(1,2) by (simp add: train_ok_def step sent_def s'_def wait_length)
qed

end

section \<open>The waits of the probe keep the contract\<close>

lemma length_recv [simp]: "length (recv_echoes u d st evs rtts) = length rtts"
  by (induction u d st evs rtts rule: recv_echoes.induct) (auto split: echo_event.splits)

lemma recv_keeps: "k < length rtts \<Longrightarrow> rtts ! k = Some r \<Longrightarrow> recv_echoes u d st evs rtts ! k = Some r"
  by (induction u d st evs rtts rule: recv_echoes.induct)
    (auto simp: credit_echo_keeps split: echo_event.splits)

lemma recv_credits:
  assumes "k < length rtts" "rtts ! k = None" "recv_echoes u d st evs rtts ! k = Some r"
  shows "\<exists>now ev tm sent. (now, ev) \<in> set evs \<and> echo_names ev = Some (k, tm) \<and> st ! k = Some sent \<and>
    r = as_millis_f64 (tm - sent)"
  using assms
proof (induction u d st evs rtts rule: recv_echoes.induct)
  case (2 u d st now ev evs rtts)
  show ?case
  proof (cases "\<not> answered u rtts \<and> \<not> d \<le> now \<and> (\<exists>buf tm. ev = Echo buf tm \<and> 4 \<le> length buf)")
    case True
    then obtain buf tm where ev: "ev = Echo buf tm" "4 \<le> length buf" by blast
    let ?rtts = "credit_echo (unat (be32_of (slice 0 4 buf))) tm st rtts"
    show ?thesis
    proof (cases "?rtts ! k")
      case None
      then show ?thesis using 2 True ev by auto
    next
      case (Some r')
      then have "recv_echoes u d st evs ?rtts ! k = Some r'"
        using "2.prems"(1) by (intro recv_keeps) simp_all
      then have "r' = r" using "2.prems" True ev by auto
      with credit_echo_new [OF "2.prems"(1,2) Some] obtain sent where
        "unat (be32_of (slice 0 4 buf)) = k" "st ! k = Some sent" "r = as_millis_f64 (tm - sent)" by blast
      then show ?thesis
        by (intro exI [of _ now] exI [of _ ev] exI [of _ tm] exI [of _ sent]) (simp add: ev echo_names_def)
    qed
  qed (use 2 in \<open>auto split: echo_event.splits if_splits\<close>)
qed simp

lemma paced_wait_cases: "\<exists>u. paced_wait p n = recv_echoes u"
  by (auto simp: paced_wait_def split: pacing.splits)

interpretation paced: echo_train "paced_wait p" "\<lambda>s. s" echo_names for p
proof (unfold_locales, goal_cases)
  case (1 n d st evs s)
  show ?case using paced_wait_cases [of p n] by auto
next
  case (2 k s r n d st evs)
  then show ?case using paced_wait_cases [of p n] recv_keeps [of k s r] by auto
next
  case (3 k s n d st evs r)
  then show ?case using paced_wait_cases [of p n] recv_credits [of k s _ d st evs r] by auto
qed

lemma train_state:
  "m \<le> count \<Longrightarrow> paced.train_ok count m inputs
     (foldl (train_step (paced_wait p) timeout inputs) (replicate count None, replicate count None) [0..<m])"
proof (induction m)
  case 0
  show ?case unfolding paced.train_ok_def by simp
next
  case (Suc m)
  then show ?case using paced.train_step_ok [of count m inputs _ p timeout] by simp
qed

text \<open>A reading of the whole train: an echo that names the probe, seen in a wait or in the drain.\<close>

definition echo_reading :: "train_io \<Rightarrow> nat \<Rightarrow> nat \<Rightarrow> f64 \<Rightarrow> bool" where
  "echo_reading io count k r \<longleftrightarrow> k < count \<and> ec_send_ok (tn_inputs io k) \<and>
     (\<exists>now ev tm. ((\<exists>j. k \<le> j \<and> j < count \<and> (now, ev) \<in> set (ec_events (tn_inputs io j))) \<or> (now, ev) \<in> set (tn_tail io)) \<and>
        echo_names ev = Some (k, tm) \<and> r = as_millis_f64 (tm - ec_sent_at (tn_inputs io k)))"

lemma drain_tail_cases:
  "drain_tail tmax evs st rtts = rtts \<or> (\<exists>d. drain_tail tmax evs st rtts = recv_echoes None d st evs rtts)"
  by (auto simp: drain_tail_def split: list.splits)

lemma length_drain_tail [simp]: "length (drain_tail tmax evs st rtts) = length rtts"
  using drain_tail_cases [of tmax evs st rtts] by auto

lemma drain_tail_reading:
  assumes "drain_tail tmax evs st rtts ! k = Some r" "k < length rtts"
  shows "rtts ! k = Some r \<or> (\<exists>now ev tm sent. (now, ev) \<in> set evs \<and> echo_names ev = Some (k, tm) \<and>
    st ! k = Some sent \<and> r = as_millis_f64 (tm - sent))"
proof (cases "rtts ! k")
  case (Some r')
  then show ?thesis using drain_tail_cases [of tmax evs st rtts] recv_keeps [of k rtts r' None] assms by auto
next
  case None
  then show ?thesis using drain_tail_cases [of tmax evs st rtts] recv_credits [OF assms(2) None] assms(1) by auto
qed

lemma echo_rtts_sound:
  assumes "echo_rtts io count p = Inr t"
  shows "length (et_rtts t) = unat count \<and>
    (\<forall>k < unat count. \<forall>r. et_rtts t ! k = Some r \<longrightarrow> echo_reading io (unat count) k r)"
proof -
  define n where "n = unat count"
  define st where "st = foldl (train_step (paced_wait p) (pacing_wait p) (tn_inputs io))
    (replicate n None, replicate n None) [0..<n]"
  have inv: "paced.train_ok n n (tn_inputs io) st" unfolding st_def by (rule train_state) simp
  have t: "et_rtts t = fst (train_finish p io st)"
    using assms by (auto simp: echo_rtts_def st_def n_def Let_def split: sum.splits prod.splits)
  have len: "length (fst (train_finish p io st)) = n"
    using inv unfolding paced.train_ok_def by (auto simp: train_finish_def Let_def split: pacing.splits)
  have "echo_reading io n k r" if k: "k < n" and r: "fst (train_finish p io st) ! k = Some r" for k r
  proof -
    have old: "echo_reading io n k r" if "snd st ! k = Some r"
      using inv that k unfolding paced.train_ok_def paced.read_from_def echo_reading_def by metis
    show ?thesis
    proof (cases p)
      case BackToBack
      then show ?thesis using r old by (simp add: train_finish_def)
    next
      case (Paced i tmax)
      then have "drain_tail (from_millis (unat tmax)) (tn_tail io) (fst st) (snd st) ! k = Some r"
        using r by (simp add: train_finish_def Let_def)
      from drain_tail_reading [OF this] consider "snd st ! k = Some r" |
        (tail) now ev tm sent where "(now, ev) \<in> set (tn_tail io)" "echo_names ev = Some (k, tm)"
          "fst st ! k = Some sent" "r = as_millis_f64 (tm - sent)"
        using inv k unfolding paced.train_ok_def by auto
      then show ?thesis
      proof cases
        case tail
        then have "ec_send_ok (tn_inputs io k)" "sent = ec_sent_at (tn_inputs io k)"
          using inv k unfolding paced.train_ok_def by (auto split: if_splits)
        then show ?thesis using tail k unfolding echo_reading_def by blast
      qed (rule old)
    qed
  qed
  then show ?thesis using t len n_def by simp
qed

section \<open>The accounting of the tail\<close>

text \<open>C26: The trains of the latency-under-load probe credit and account for every probe. A reading comes
  from an echo that names its probe, which was sent, seen in a wait from its own on or in the
  drain. A train that waits for each probe censors none; in a paced one the censored probes are
  exactly those that were sent, stayed unanswered and had not yet had their whole time when the
  drain was over, so every other unanswered one was never sent or had its time.\<close>

theorem rpm_train_accounts:
  assumes "echo_rtts io count p = Inr t"
  shows "length (et_rtts t) = unat count \<and>
    (\<forall>k < unat count. \<forall>r. et_rtts t ! k = Some r \<longrightarrow> echo_reading io (unat count) k r) \<and>
    unat (et_censored t) = (case p of BackToBack _ \<Rightarrow> 0
      | Paced _ tmax \<Rightarrow> card {k. k < unat count \<and> et_rtts t ! k = None \<and> ec_send_ok (tn_inputs io k) \<and>
          tn_checked_at io k - ec_sent_at (tn_inputs io k) < from_millis (unat tmax)})"
proof -
  define n where "n = unat count"
  define st where "st = foldl (train_step (paced_wait p) (pacing_wait p) (tn_inputs io))
    (replicate n None, replicate n None) [0..<n]"
  have inv: "paced.train_ok n n (tn_inputs io) st" unfolding st_def by (rule train_state) simp
  have t: "(et_rtts t, et_censored t) = train_finish p io st"
    using assms by (auto simp: echo_rtts_def st_def n_def Let_def split: sum.splits prod.splits)
  have sent: "fst st ! k = (if ec_send_ok (tn_inputs io k) then Some (ec_sent_at (tn_inputs io k)) else None)"
    if "k < n" for k using inv that unfolding paced.train_ok_def by simp
  have "unat (et_censored t) = (case p of BackToBack _ \<Rightarrow> 0
      | Paced _ tmax \<Rightarrow> card {k. k < n \<and> et_rtts t ! k = None \<and> ec_send_ok (tn_inputs io k) \<and>
          tn_checked_at io k - ec_sent_at (tn_inputs io k) < from_millis (unat tmax)})"
  proof (cases p)
    case (Paced i tmax)
    let ?tm = "from_millis (unat tmax)" let ?rtts = "drain_tail ?tm (tn_tail io) (fst st) (snd st)"
    let ?xs = "filter (is_censored ?tm (tn_checked_at io) (fst st) ?rtts) [0..<n]"
    have len: "length ?rtts = n" using inv unfolding paced.train_ok_def by simp
    have c: "et_rtts t = ?rtts" "et_censored t = of_nat (length ?xs)"
      using t Paced len by (simp_all add: train_finish_def Let_def)
    have "length ?xs \<le> n" using length_filter_le [of _ "[0..<n]"] by simp
    moreover have "n < 2 ^ 32" using unsigned_less [of count] by (simp add: n_def)
    ultimately have "unat (et_censored t) = length ?xs"
      by (simp add: c unsigned_of_nat take_bit_nat_eq_self)
    also have "\<dots> = card (set ?xs)" by (rule distinct_card [symmetric]) simp
    also have "set ?xs = {k. k < n \<and> et_rtts t ! k = None \<and> ec_send_ok (tn_inputs io k) \<and>
        tn_checked_at io k - ec_sent_at (tn_inputs io k) < ?tm}"
      by (auto simp: is_censored_def c(1) sent split: option.splits if_splits)
    finally show ?thesis by (simp add: Paced)
  qed (use t in \<open>simp add: train_finish_def\<close>)
  with echo_rtts_sound [OF assms] show ?thesis unfolding n_def by blast
qed

section \<open>The verdict\<close>

text \<open>The downloads that the window began.\<close>

fun issued :: "duration \<Rightarrow> (duration \<times> load_download) list \<Rightarrow> load_download list" where
  "issued window [] = []"
| "issued window ((elapsed, d) # ds) =
     (if window \<le> elapsed then [] else d # (if d = LoadInFlight then [] else issued window ds))"

abbreviation succeeded_in :: "load_download list \<Rightarrow> load_download list" where
  "succeeded_in ds \<equiv> filter (\<lambda>d. d \<noteq> LoadFailed \<and> d \<noteq> LoadInFlight) ds"

lemma length_issued: "length (issued w ds) \<le> length ds"
  by (induction w ds rule: issued.induct) auto

lemma download_succeeded_sel [simp]:
  "ls_started (download_succeeded http s) = ls_started s" "ls_failed (download_succeeded http s) = ls_failed s"
  "ls_completed (download_succeeded http s) = ls_completed s + 1"
  by (auto simp: download_succeeded_def Let_def split: option.splits prod.splits)

lemma load_loop_counts:
  "ls_started (load_loop w ds s) = ls_started s + of_nat (length (issued w ds)) \<and>
   ls_failed (load_loop w ds s) = ls_failed s + of_nat (length (filter (\<lambda>d. d = LoadFailed) (issued w ds))) \<and>
   ls_completed (load_loop w ds s) = ls_completed s + of_nat (length (succeeded_in (issued w ds)))"
  by (induction w ds s rule: load_loop.induct) (auto simp: Let_def split: load_download.splits)

lemma load_loop_idle:
  "succeeded_in (issued w ds) = [] \<Longrightarrow> ls_bytes (load_loop w ds s) = ls_bytes s \<and>
     ls_throughput_samples (load_loop w ds s) = ls_throughput_samples s"
  by (induction w ds s rule: load_loop.induct) (auto simp: Let_def split: load_download.splits if_splits)

lemma filter_lengths:
  "length (filter (\<lambda>d. d = LoadFailed) xs) < length xs \<longleftrightarrow> (\<exists>d \<in> set xs. d \<noteq> LoadFailed)"
  by (induction xs) (auto intro: le_imp_less_Suc)

lemma load_ok_iff:
  assumes "length ds < 2 ^ 32"
  shows "load_ok (load_loop w ds load_stats_default) \<longleftrightarrow> (\<exists>d \<in> set (issued w ds). d \<noteq> LoadFailed)"
proof -
  let ?xs = "issued w ds"
  have all: "length ?xs < 2 ^ 32" using assms length_issued [of w ds] by linarith
  then have "length (filter P ?xs) < 2 ^ 32" for P using length_filter_le [of P ?xs] by linarith
  with all have u: "unat (of_nat (length ?xs) :: u32) = length ?xs"
    "\<And>P. unat (of_nat (length (filter P ?xs)) :: u32) = length (filter P ?xs)"
    by (simp_all add: unsigned_of_nat take_bit_nat_eq_self)
  have "load_ok (load_loop w ds load_stats_default) \<longleftrightarrow>
      succeeded_in ?xs \<noteq> [] \<or> length (filter (\<lambda>d. d = LoadFailed) ?xs) < length ?xs"
    using load_loop_counts [of w ds load_stats_default]
    by (simp add: load_ok_def load_stats_default_def word_less_nat_alt u)
  then show ?thesis by (auto simp: filter_lengths filter_empty_conv)
qed

lemma rpm_result_sel:
  "rr_unloaded_success_count (rpm_result_of cfg tgt ids io load u l) = count_received u"
  "rr_loaded_success_count (rpm_result_of cfg tgt ids io load u l) = count_received (et_rtts l)"
  "rr_load_bytes_transferred (rpm_result_of cfg tgt ids io load u l) = ls_bytes load"
  "rr_load_throughput_mbps (rpm_result_of cfg tgt ids io load u l) = load_throughput load"
  "rr_rpm (rpm_result_of cfg tgt ids io load u l) =
     (let ls = aggregate_udp_rtts (et_rtts l)
      in if 0 < count_received (et_rtts l) \<and> 0 < rtt_avg ls then Some (f64_div 60000 (rtt_avg ls)) else None)"
  by (simp_all add: rpm_result_of_def Let_def)

text \<open>What there is to report, when both trains ran and the idle one had an answer.\<close>

lemma run_rpm_cases:
  fixes io :: rpm_io and cfg :: "'t rpm_config"
  defines "load \<equiv> load_loop (from_millis (unat (rm_load_duration_ms cfg))) (ro_downloads io) load_stats_default"
  shows "(\<exists>msg. run_rpm_probe ids io cfg = rpm_failed ids msg) \<or>
    (\<exists>tgt (train :: rpm_train) (loaded :: rpm_train). 0 < count_received (et_rtts train) \<and>
       run_rpm_probe ids io cfg = (let err = rpm_error ids load (loaded_probe_count cfg) (et_rtts loaded)
         in attempt.extend (attempt_new ids Rpm (err = None) err)
              \<lparr>at_rpm = Some (rpm_result_of cfg tgt ids io load (et_rtts train) loaded)\<rparr>))"
proof (cases "ro_target io")
  case tgt: (Inr tgt)
  show ?thesis
  proof (cases "echo_rtts (ro_unloaded io) (up_probe_count (rm_udp cfg)) (BackToBack (up_timeout_ms (rm_udp cfg)))")
    case u: (Inr train)
    show ?thesis
    proof (cases "count_received (et_rtts train) = 0")
      case False
      then have pos: "0 < count_received (et_rtts train)" by (simp add: word_neq_0_conv)
      show ?thesis
      proof (cases "echo_rtts (ro_loaded io) (loaded_probe_count cfg)
          (Paced (max (rm_probe_interval_ms cfg) 1) (up_timeout_ms (rm_udp cfg)))")
        case (Inr loaded)
        have "run_rpm_probe ids io cfg = (let err = rpm_error ids load (loaded_probe_count cfg) (et_rtts loaded)
            in attempt.extend (attempt_new ids Rpm (err = None) err)
                 \<lparr>at_rpm = Some (rpm_result_of cfg tgt ids io load (et_rtts train) loaded)\<rparr>)"
          using False by (simp add: run_rpm_probe_def load_def Let_def tgt u Inr)
        then show ?thesis by (intro disjI2 exI conjI) (rule pos)
      qed (auto simp: run_rpm_probe_def Let_def tgt u False)
    qed (auto simp: run_rpm_probe_def Let_def tgt u)
  qed (auto simp: run_rpm_probe_def Let_def tgt)
qed (auto simp: run_rpm_probe_def Let_def)

text \<open>The latency-under-load probe succeeds exactly when the idle and the loaded train both had an
  answer and some download of the window did not fail. Without an answer under load there is no
  headline figure, and when no download succeeded no byte, download or throughput is reported.
  A download that hangs from the beginning of the window to its end does not fail, so an attempt
  whose load moved no byte can succeed.\<close>

theorem rpm_honest:
  fixes ids io cfg
  defines "a \<equiv> run_rpm_probe ids io cfg"
    and "ds \<equiv> issued (from_millis (unat (rm_load_duration_ms cfg))) (ro_downloads io)"
  assumes "length (ro_downloads io) < 2 ^ 32"
  shows "(at_success a \<longleftrightarrow> (\<exists>r. at_rpm a = Some r \<and> 0 < rr_loaded_success_count r) \<and> (\<exists>d \<in> set ds. d \<noteq> LoadFailed)) \<and>
    (at_error a = None \<longleftrightarrow> at_success a) \<and>
    (\<forall>r. at_rpm a = Some r \<longrightarrow> 0 < rr_unloaded_success_count r \<and>
      (rr_rpm r \<noteq> None \<longrightarrow> 0 < rr_loaded_success_count r) \<and>
      (succeeded_in ds = [] \<longrightarrow> rr_load_bytes_transferred r = 0 \<and> rr_load_throughput_mbps r = None))"
proof -
  define load where "load = load_loop (from_millis (unat (rm_load_duration_ms cfg))) (ro_downloads io) load_stats_default"
  have ok: "load_ok load \<longleftrightarrow> (\<exists>d \<in> set ds. d \<noteq> LoadFailed)"
    unfolding load_def ds_def by (rule load_ok_iff [OF assms(3)])
  have idle: "ls_bytes load = 0 \<and> load_throughput load = None" if "succeeded_in ds = []"
    using load_loop_idle [OF that [unfolded ds_def], of load_stats_default]
    by (simp add: load_def load_stats_default_def load_throughput_def)
  from run_rpm_cases [of ids io cfg] show ?thesis
  proof (elim disjE exE conjE)
    fix msg assume "run_rpm_probe ids io cfg = rpm_failed ids msg"
    then show ?thesis by (simp add: a_def rpm_failed_def attempt.defs)
  next
    fix tgt and train loaded :: rpm_train
    assume u: "0 < count_received (et_rtts train)"
    assume "run_rpm_probe ids io cfg =
      (let err = rpm_error ids (load_loop (from_millis (unat (rm_load_duration_ms cfg))) (ro_downloads io) load_stats_default)
            (loaded_probe_count cfg) (et_rtts loaded)
       in attempt.extend (attempt_new ids Rpm (err = None) err) \<lparr>at_rpm = Some (rpm_result_of cfg tgt ids io
            (load_loop (from_millis (unat (rm_load_duration_ms cfg))) (ro_downloads io) load_stats_default)
            (et_rtts train) loaded)\<rparr>)"
    then have a: "at_success a \<longleftrightarrow> at_error a = None"
      "at_error a = rpm_error ids load (loaded_probe_count cfg) (et_rtts loaded)"
      "at_rpm a = Some (rpm_result_of cfg tgt ids io load (et_rtts train) loaded)"
      by (simp_all add: a_def load_def Let_def attempt.defs)
    have "at_error a = None \<longleftrightarrow> load_ok load \<and> 0 < count_received (et_rtts loaded)"
      by (auto simp: a(2) rpm_error_def word_neq_0_conv)
    then show ?thesis
      using u ok idle by (auto simp: a(1,3) rpm_result_sel Let_def split: if_splits)
  qed
qed

theorem rpm_honest_witness:
  defines "ids \<equiv> \<lparr>ai_run_id = 1, ai_attempt_id = 2, ai_sequence_num = 0, ai_started_at = 0, ai_finished_at = 0,
      ai_error_at = 0\<rparr>"
    and "echo \<equiv> \<lparr>ec_send_ok = True, ec_sent_at = 0, ec_events = [(1, Echo [0, 0, 0, 0] 1000000)]\<rparr>"
  defines "io \<equiv> \<lparr>tn_bind = Inr (), tn_connect = Inr (), tn_inputs = \<lambda>k. echo, tn_tail = [],
      tn_checked_at = \<lambda>k. 0, tn_local_drops = None\<rparr>"
    and "cfg \<equiv> \<lparr>rm_udp = \<lparr>up_target_host = ''h'', up_target_port = 9999, up_probe_count = 1, up_timeout_ms = 5000,
      up_payload_size = 64\<rparr>, rm_throughput = (), rm_download_bytes = 1, rm_load_duration_ms = 100,
      rm_probe_interval_ms = 100\<rparr>"
  defines "a \<equiv> run_rpm_probe ids \<lparr>ro_target = Inr (V4 0, 9999), ro_unloaded = io, ro_loaded = io,
      ro_downloads = [(0, LoadInFlight)], ro_load_elapsed = 100000000\<rparr> cfg"
  shows "at_success a \<and> (\<exists>r. at_rpm a = Some r \<and> rr_load_bytes_transferred r = 0)"
proof -
  have n: "loaded_probe_count cfg = 1" by (simp add: loaded_probe_count_def cfg_def)
  have st: "train_step (paced_wait p) T (\<lambda>k. echo) ([None], [None]) 0 = ([Some 0], [Some (as_millis_f64 1000000)])"
    if "1 < T" for p T
    using that by (cases p) (simp_all add: echo_def train_step_def paced_wait_def answered_def credit_echo_def
      slice_def Let_def)
  have t: "\<exists>t. echo_rtts io 1 p = Inr t \<and> count_received (et_rtts t) = 1" if "1 < pacing_wait p" for p
    using st [OF that, of p]
    by (cases p) (simp_all add: echo_rtts_def io_def train_finish_def drain_tail_def count_received_def Let_def)
  have "\<exists>r. at_rpm a = Some r \<and> 0 < rr_loaded_success_count r"
    using t [of "BackToBack 5000"] t [of "Paced 100 5000"] n
    by (auto simp: pacing_wait_def from_millis_def a_def run_rpm_probe_def Let_def attempt.defs rpm_result_sel cfg_def)
  then show ?thesis
    using rpm_honest [of "\<lparr>ro_target = Inr (V4 0, 9999), ro_unloaded = io, ro_loaded = io,
      ro_downloads = [(0, LoadInFlight)], ro_load_elapsed = 100000000\<rparr>" ids cfg]
    by (auto simp: a_def cfg_def from_millis_def)
qed

theorem rpm_train_accounts_witness:
  defines "io \<equiv> \<lparr>tn_bind = Inr (), tn_connect = Inr (), tn_inputs = \<lambda>k. \<lparr>ec_send_ok = True, ec_sent_at = 0, ec_events = []\<rparr>,
      tn_tail = [], tn_checked_at = \<lambda>k. 1, tn_local_drops = None\<rparr>"
  shows "\<exists>t. echo_rtts io 1 (Paced 100 5000) = Inr t \<and> unat (et_censored t) = 1"
proof -
  obtain t where t: "echo_rtts io 1 (Paced 100 5000) = Inr t" "et_rtts t = [None]"
    by (simp add: echo_rtts_def io_def train_step_def train_finish_def paced_wait_def drain_tail_def
      received_of_def Let_def)
  have "{k. k = (0::nat) \<and> [None] ! k = (None :: f64 option)} = {0}" by auto
  then show ?thesis using rpm_train_accounts [OF t(1)] t by (simp add: io_def from_millis_def)
qed

end
