(* ===== verification/Responsiveness.thy ===== *)
theory Responsiveness
  imports Load_Gen
begin

text \<open>
  Responsiveness under working conditions, \<open>crates/networker-tester/src/runner/responsiveness.rs\<close>:
  the ramp of load connections until the goodput settles, the probes on new and on loaded
  connections, and the headline figure made of trimmed means over the last intervals. Every tick of
  the controller is an input: what it read of the byte counter, the clock and the shared samples,
  and which of its connections could be opened.
\<close>

definition DEFAULT_INTERVAL_MS :: u64 where "DEFAULT_INTERVAL_MS = 1000"
definition DEFAULT_INITIAL_CONNECTIONS :: u32 where "DEFAULT_INITIAL_CONNECTIONS = 1"
definition DEFAULT_ADD_PER_INTERVAL :: u32 where "DEFAULT_ADD_PER_INTERVAL = 1"
definition DEFAULT_MAX_CONNECTIONS :: u32 where "DEFAULT_MAX_CONNECTIONS = 16"
definition DEFAULT_MAD :: nat where "DEFAULT_MAD = 4"
definition DEFAULT_SDT :: f64 where "DEFAULT_SDT = fl (5 / 100)"
definition DEFAULT_TMP :: f64 where "DEFAULT_TMP = fl (95 / 100)"
definition DEFAULT_MAX_DURATION_MS :: u64 where "DEFAULT_MAX_DURATION_MS = 20000"
definition DEFAULT_PROBE_INTERVAL_MS :: u64 where "DEFAULT_PROBE_INTERVAL_MS = 100"
definition DEFAULT_LOAD_REQUEST_BYTES :: nat where "DEFAULT_LOAD_REQUEST_BYTES = 32 * 1024 * 1024"

text \<open>What the load modes read of the throughput configuration.\<close>

record 'u throughput_config =
  tc_base_url :: 'u
  tc_insecure :: bool
  tc_ca_bundle :: "string option"
  tc_timeout_ms :: u64

record 'u responsiveness_config =
  rs_base_url :: 'u
  rs_insecure :: bool
  rs_ca_bundle :: "string option"
  rs_timeout_ms :: u64
  rs_interval_ms :: u64
  rs_initial_connections :: u32
  rs_add_per_interval :: u32
  rs_max_connections :: u32
  rs_mad :: nat
  rs_sdt :: f64
  rs_tmp :: f64
  rs_max_duration_ms :: u64
  rs_probe_interval_ms :: u64
  rs_load_request_bytes :: nat

definition responsiveness_from_parts :: "'u throughput_config \<Rightarrow> 'u responsiveness_config" where
  "responsiveness_from_parts t = \<lparr>rs_base_url = tc_base_url t, rs_insecure = tc_insecure t,
     rs_ca_bundle = tc_ca_bundle t, rs_timeout_ms = tc_timeout_ms t, rs_interval_ms = DEFAULT_INTERVAL_MS,
     rs_initial_connections = DEFAULT_INITIAL_CONNECTIONS, rs_add_per_interval = DEFAULT_ADD_PER_INTERVAL,
     rs_max_connections = DEFAULT_MAX_CONNECTIONS, rs_mad = DEFAULT_MAD, rs_sdt = DEFAULT_SDT,
     rs_tmp = DEFAULT_TMP, rs_max_duration_ms = DEFAULT_MAX_DURATION_MS,
     rs_probe_interval_ms = DEFAULT_PROBE_INTERVAL_MS, rs_load_request_bytes = DEFAULT_LOAD_REQUEST_BYTES\<rparr>"

definition responsiveness_target :: "'u responsiveness_config \<Rightarrow> 'u h2_target" where
  "responsiveness_target cfg = \<lparr>ht_base_url = rs_base_url cfg, ht_insecure = rs_insecure cfg,
     ht_ca_bundle = rs_ca_bundle cfg, ht_timeout_ms = rs_timeout_ms cfg\<rparr>"

section \<open>Probes\<close>

record probe_sample =
  sm_sent_at :: instant
  sm_foreign :: bool
  sm_tcp_ms :: "f64 option"
  sm_tls_ms :: "f64 option"
  sm_http_ms :: "f64 option"
  sm_ok :: bool

text \<open>The request for one byte; \<open>phrase\<close> is how the HTTP library prints a status.\<close>

definition one_byte_get :: "(u16 \<Rightarrow> string) \<Rightarrow> string + unit \<Rightarrow> h2_response \<Rightarrow> string + unit" where
  "one_byte_get phrase built resp = (case built of
     Inl e \<Rightarrow> Inl e
   | Inr _ \<Rightarrow> (case resp of
       Inl e \<Rightarrow> Inl e
     | Inr (status, frames) \<Rightarrow>
         (if 200 \<le> status \<and> status < 300 then drain_frames frames
          else Inl (''probe GET returned '' @ phrase status))))"

text \<open>The request under its time limit, and the instants before it and after it.\<close>

definition timed_get :: "(string + unit) timed \<Rightarrow> instant \<times> instant \<Rightarrow> bool \<times> f64 option" where
  "timed_get r clk =
     (let ok = (case r of TimedValue (Inr _) \<Rightarrow> True | _ \<Rightarrow> False)
      in (ok, if ok then Some (ms_between clk) else None))"

definition foreign_probe :: "instant \<Rightarrow> string + 'p h2_connection \<Rightarrow> (string + unit) timed \<Rightarrow> instant \<times> instant \<Rightarrow>
   probe_sample option" where
  "foreign_probe sent_at reached r clk = (case reached of
     Inr conn \<Rightarrow> (let (ok, http_ms) = timed_get r clk
       in Some \<lparr>sm_sent_at = sent_at, sm_foreign = True, sm_tcp_ms = Some (hc_tcp_ms conn),
            sm_tls_ms = hc_tls_ms conn, sm_http_ms = http_ms, sm_ok = ok\<rparr>)
   | Inl e \<Rightarrow> Some \<lparr>sm_sent_at = sent_at, sm_foreign = True, sm_tcp_ms = None, sm_tls_ms = None,
       sm_http_ms = None, sm_ok = False\<rparr>)"

text \<open>The load connection a probe goes out on, by the number of bytes moved so far.\<close>

definition self_probe_conn :: "nat \<Rightarrow> u64 \<Rightarrow> nat option" where
  "self_probe_conn senders bytes = (if senders = 0 then None else Some (unat bytes mod senders))"

definition self_probe :: "nat \<Rightarrow> u64 \<Rightarrow> instant \<Rightarrow> (nat \<Rightarrow> (string + unit) timed) \<Rightarrow> instant \<times> instant \<Rightarrow> probe_sample option" where
  "self_probe senders bytes sent_at send clk = (case self_probe_conn senders bytes of
     None \<Rightarrow> None
   | Some idx \<Rightarrow> (let (ok, http_ms) = timed_get (send idx) clk
       in Some \<lparr>sm_sent_at = sent_at, sm_foreign = False, sm_tcp_ms = None, sm_tls_ms = None,
            sm_http_ms = http_ms, sm_ok = ok\<rparr>))"

text \<open>The scheduler: each tick finds a free slot or not; the kinds of the probes it starts.\<close>

fun schedule :: "bool \<Rightarrow> bool list \<Rightarrow> bool list" where
  "schedule foreign [] = []"
| "schedule foreign (free # ts) = (if free then foreign # schedule (\<not> foreign) ts else schedule foreign ts)"

section \<open>The figures\<close>

definition trimmed_mean :: "f64 list \<Rightarrow> f64 \<Rightarrow> f64 option" where
  "trimmed_mean samples tmp =
     (if samples = [] then None
      else let xs = sort samples;
               keep = nat \<lfloor>f64_mul (fl (real (length xs))) (min (max tmp 0) 1)\<rfloor>
           in Some (mean (take (min (max keep 1) (length xs)) xs)))"

definition foreign_responsiveness :: "f64 option \<Rightarrow> f64 option \<Rightarrow> f64 option \<Rightarrow> f64 option" where
  "foreign_responsiveness tcp_tm tls_tm http_tm = (case (tcp_tm, http_tm) of
     (Some tcp, Some http) \<Rightarrow>
       (let denom = (case tls_tm of
              Some tls \<Rightarrow> f64_div (f64_add (f64_add tcp tls) http) 3
            | None \<Rightarrow> f64_div (f64_add tcp http) 2)
        in if 0 < denom then Some (f64_div 60000 denom) else None)
   | _ \<Rightarrow> None)"

text \<open>The trimmed mean of one field over the successful samples of one kind that \<open>pred\<close> selects.\<close>

definition tm_of :: "probe_sample list \<Rightarrow> f64 \<Rightarrow> (probe_sample \<Rightarrow> bool) \<Rightarrow> bool \<Rightarrow> (probe_sample \<Rightarrow> f64 option) \<Rightarrow> f64 option" where
  "tm_of samples tmp pred foreign f =
     trimmed_mean (received_of (map (\<lambda>s. if sm_foreign s = foreign then f s else None)
       (filter (\<lambda>s. sm_ok s \<and> pred s) samples))) tmp"

definition responsiveness_from_samples :: "probe_sample list \<Rightarrow> f64 \<Rightarrow> (probe_sample \<Rightarrow> bool) \<Rightarrow> f64 option" where
  "responsiveness_from_samples samples tmp pred =
     (case foreign_responsiveness (tm_of samples tmp pred True sm_tcp_ms) (tm_of samples tmp pred True sm_tls_ms)
        (tm_of samples tmp pred True sm_http_ms) of
        None \<Rightarrow> None
      | Some foreign \<Rightarrow> (case tm_of samples tmp pred False sm_http_ms of
          None \<Rightarrow> None
        | Some self_tm \<Rightarrow>
            (if self_tm \<le> 0 then None else Some (f64_div (f64_add foreign (f64_div 60000 self_tm)) 2))))"

section \<open>The controller of a direction\<close>

record ramp_tick =
  tk_total :: u64
  tk_spawns :: "nat \<Rightarrow> bool"
  tk_window_at :: duration
  tk_samples :: "probe_sample list"
  tk_elapsed :: duration

record ramp_state =
  rp_goodputs :: "f64 list"
  rp_moving_avgs :: "f64 list"
  rp_resp_values :: "f64 list"
  rp_last_total :: u64
  rp_saturated :: bool
  rp_stable :: bool
  rp_saturated_conns :: u32
  rp_conns :: u32

definition ramp_start :: "u32 \<Rightarrow> ramp_state" where
  "ramp_start conns = \<lparr>rp_goodputs = [], rp_moving_avgs = [], rp_resp_values = [], rp_last_total = 0,
     rp_saturated = False, rp_stable = False, rp_saturated_conns = conns, rp_conns = conns\<rparr>"

text \<open>Connections are added up to the maximum, until one cannot be opened.\<close>

fun ramp_up :: "u32 \<Rightarrow> (nat \<Rightarrow> bool) \<Rightarrow> nat list \<Rightarrow> u32 \<Rightarrow> u32" where
  "ramp_up max_conns ok [] c = c"
| "ramp_up max_conns ok (j # js) c =
     (if max_conns \<le> c then c else if ok j then ramp_up max_conns ok js (c + 1) else c)"

definition interval_of :: "u64 \<Rightarrow> duration" where
  "interval_of interval_ms = from_millis (unat (max interval_ms 50))"

definition cap_of :: "u64 \<Rightarrow> u64 \<Rightarrow> duration" where
  "cap_of max_duration_ms interval_ms = from_millis (unat (max max_duration_ms interval_ms))"

text \<open>The goodput of the interval and the moving average over the last \<open>mad\<close> of them.\<close>

definition measure_interval :: "duration \<Rightarrow> nat \<Rightarrow> u64 \<Rightarrow> ramp_state \<Rightarrow> ramp_state" where
  "measure_interval interval mad tot s =
     (let goodputs = rp_goodputs s @ [f64_div (fl (real (unat (sat_sub tot (rp_last_total s))))) (as_secs_f64 interval)]
      in s\<lparr>rp_goodputs := goodputs, rp_moving_avgs := rp_moving_avgs s @ [mean (last_n mad goodputs)],
           rp_last_total := tot\<rparr>)"

definition grow :: "'u responsiveness_config \<Rightarrow> nat \<Rightarrow> (nat \<Rightarrow> bool) \<Rightarrow> ramp_state \<Rightarrow> ramp_state" where
  "grow cfg mad spawns s =
     (if settled mad (rs_sdt cfg) (rp_moving_avgs s) (last (rp_moving_avgs s))
      then s\<lparr>rp_saturated := True, rp_saturated_conns := rp_conns s\<rparr>
      else if rp_conns s < rs_max_connections cfg
      then let c = ramp_up (rs_max_connections cfg) spawns [0..<unat (rs_add_per_interval cfg)] (rp_conns s)
           in s\<lparr>rp_conns := c, rp_saturated_conns := c\<rparr>
      else s)"

definition sample_responsiveness :: "'u responsiveness_config \<Rightarrow> duration \<Rightarrow> nat \<Rightarrow> instant \<Rightarrow> ramp_tick \<Rightarrow> ramp_state \<Rightarrow> ramp_state" where
  "sample_responsiveness cfg interval mad started t s =
     (let window_start = tk_window_at t - interval * mad;
          resp = (case responsiveness_from_samples (tk_samples t) (rs_tmp cfg)
              (\<lambda>p. window_start \<le> sm_sent_at p - started) of
            Some r \<Rightarrow> rp_resp_values s @ [r]
          | None \<Rightarrow> rp_resp_values s)
      in s\<lparr>rp_resp_values := resp, rp_stable := resp \<noteq> [] \<and> settled mad (rs_sdt cfg) resp (last resp)\<rparr>)"

definition ramp_step :: "'u responsiveness_config \<Rightarrow> instant \<Rightarrow> ramp_tick \<Rightarrow> ramp_state \<Rightarrow> ramp_state" where
  "ramp_step cfg started t s =
     (let mad = max (rs_mad cfg) 2; interval = interval_of (rs_interval_ms cfg);
          s1 = measure_interval interval mad (tk_total t) s
      in if \<not> rp_saturated s then grow cfg mad (tk_spawns t) s1
         else sample_responsiveness cfg interval mad started t s1)"

fun ramp :: "'u responsiveness_config \<Rightarrow> instant \<Rightarrow> ramp_tick list \<Rightarrow> ramp_state \<Rightarrow> ramp_state" where
  "ramp cfg started [] s = s"
| "ramp cfg started (t # ts) s =
     (let s' = ramp_step cfg started t s
      in if rp_stable s' then s'
         else if cap_of (rs_max_duration_ms cfg) (rs_interval_ms cfg) \<le> tk_elapsed t then s'
         else ramp cfg started ts s')"

section \<open>A direction\<close>

record direction_result =
  dr_saturation_reached :: bool
  dr_responsiveness_stable :: bool
  dr_saturated_connections :: u32
  dr_intervals :: u32
  dr_load_duration_ms :: f64
  dr_bytes_transferred :: u64
  dr_capacity_mbps :: "f64 option"
  dr_rpm :: "f64 option"
  dr_foreign_rpm :: "f64 option"
  dr_self_rpm :: "f64 option"
  dr_foreign_tcp_tm_ms :: "f64 option"
  dr_foreign_tls_tm_ms :: "f64 option"
  dr_foreign_http_tm_ms :: "f64 option"
  dr_self_http_tm_ms :: "f64 option"
  dr_foreign_probes_sent :: u32
  dr_foreign_probes_ok :: u32
  dr_self_probes_sent :: u32
  dr_self_probes_ok :: u32

record direction_io =
  di_initial :: "nat \<Rightarrow> string + unit"
  di_started :: instant
  di_ticks :: "ramp_tick list"
  di_load_duration :: duration
  di_bytes :: u64
  di_samples :: "probe_sample list"

fun open_initial :: "(nat \<Rightarrow> string + unit) \<Rightarrow> nat list \<Rightarrow> u32 \<Rightarrow> string + u32" where
  "open_initial spawn [] c = Inr c"
| "open_initial spawn (j # js) c = (case spawn j of
     Inr _ \<Rightarrow> open_initial spawn js (c + 1)
   | Inl e \<Rightarrow> Inl (''initial load connection failed: '' @ e))"

definition count_samples :: "(probe_sample \<Rightarrow> bool) \<Rightarrow> probe_sample list \<Rightarrow> u32" where
  "count_samples P samples = of_nat (length (filter P samples))"

definition in_final :: "'u responsiveness_config \<Rightarrow> direction_io \<Rightarrow> probe_sample \<Rightarrow> bool" where
  "in_final cfg io p \<longleftrightarrow>
     di_load_duration io - interval_of (rs_interval_ms cfg) * max (rs_mad cfg) 2 \<le> sm_sent_at p - di_started io"

definition direction_result_of :: "'u responsiveness_config \<Rightarrow> direction_io \<Rightarrow> ramp_state \<Rightarrow> direction_result" where
  "direction_result_of cfg io s =
     (let samples = di_samples io; tm = tm_of samples (rs_tmp cfg) (in_final cfg io);
          tcp = tm True sm_tcp_ms; tls = tm True sm_tls_ms; http = tm True sm_http_ms; own = tm False sm_http_ms;
          foreign_rpm = foreign_responsiveness tcp tls http;
          self_rpm = (case own of Some v \<Rightarrow> (if 0 < v then Some (f64_div 60000 v) else None) | None \<Rightarrow> None)
      in \<lparr>dr_saturation_reached = rp_saturated s, dr_responsiveness_stable = rp_stable s,
          dr_saturated_connections = rp_saturated_conns s, dr_intervals = of_nat (length (rp_goodputs s)),
          dr_load_duration_ms = as_millis_f64 (di_load_duration io), dr_bytes_transferred = di_bytes io,
          dr_capacity_mbps = (if rp_moving_avgs s \<noteq> [] \<and> 0 < last (rp_moving_avgs s)
            then Some (f64_div (last (rp_moving_avgs s)) 1000000) else None),
          dr_rpm = (case (foreign_rpm, self_rpm) of
             (Some f, Some v) \<Rightarrow> Some (f64_div (f64_add f v) 2) | _ \<Rightarrow> None),
          dr_foreign_rpm = foreign_rpm, dr_self_rpm = self_rpm, dr_foreign_tcp_tm_ms = tcp,
          dr_foreign_tls_tm_ms = tls, dr_foreign_http_tm_ms = http, dr_self_http_tm_ms = own,
          dr_foreign_probes_sent = count_samples sm_foreign samples,
          dr_foreign_probes_ok = count_samples (\<lambda>p. sm_foreign p \<and> sm_ok p) samples,
          dr_self_probes_sent = count_samples (\<lambda>p. \<not> sm_foreign p) samples,
          dr_self_probes_ok = count_samples (\<lambda>p. \<not> sm_foreign p \<and> sm_ok p) samples\<rparr>)"

definition run_direction :: "'u responsiveness_config \<Rightarrow> direction_io \<Rightarrow> string + direction_result" where
  "run_direction cfg io =
     (case open_initial (di_initial io) [0..<unat (max (rs_initial_connections cfg) 1)] 0 of
        Inl e \<Rightarrow> Inl e
      | Inr c \<Rightarrow>
          (let s = ramp cfg (di_started io) (di_ticks io) (ramp_start c)
           in if di_bytes io = 0
              then Inl (''load generator moved 0 bytes over '' @ decimal (unat (rp_conns s)) @ '' connection(s) '' @
                em_dash @ '' refusing to report responsiveness for an unloaded link'')
              else Inr (direction_result_of cfg io s)))"

section \<open>The probe\<close>

record responsiveness_result =
  rv_remote_addr :: string
  rv_rpm_download :: "f64 option"
  rv_rpm_upload :: "f64 option"
  rv_capacity_down_mbps :: "f64 option"
  rv_capacity_up_mbps :: "f64 option"
  rv_download :: direction_result
  rv_upload :: "direction_result option"
  rv_upload_error :: "string option"
  rv_started_at :: nat

record responsiveness_attempt = attempt +
  at_responsiveness :: "responsiveness_result option"

definition responsiveness_failed :: "attempt_ids \<Rightarrow> string \<Rightarrow> responsiveness_attempt" where
  "responsiveness_failed ids message =
     attempt.extend (attempt_new ids Responsiveness False (Some (error_of ids HttpError message)))
       \<lparr>at_responsiveness = None\<rparr>"

definition run_responsiveness_probe :: "'u url_api \<Rightarrow> attempt_ids \<Rightarrow> (load_direction \<Rightarrow> direction_io) \<Rightarrow>
   'u responsiveness_config \<Rightarrow> responsiveness_attempt" where
  "run_responsiveness_probe api ids io cfg = (case run_direction cfg (io LoadDownload) of
     Inl msg \<Rightarrow> responsiveness_failed ids (''Download stage: '' @ msg)
   | Inr download \<Rightarrow>
       (let (upload, upload_error) = (case run_direction cfg (io LoadUpload) of
              Inr u \<Rightarrow> (Some u, None) | Inl msg \<Rightarrow> (None, Some (''Upload stage: '' @ msg)))
        in attempt.extend (attempt_new ids Responsiveness True None)
             \<lparr>at_responsiveness = Some \<lparr>rv_remote_addr = url_text api (rs_base_url cfg), rv_rpm_download = dr_rpm download,
                rv_rpm_upload = Option.bind upload dr_rpm, rv_capacity_down_mbps = dr_capacity_mbps download,
                rv_capacity_up_mbps = Option.bind upload dr_capacity_mbps, rv_download = download, rv_upload = upload,
                rv_upload_error = upload_error, rv_started_at = ai_started_at ids\<rparr>\<rparr>))"

end
