(* ===== verification/Responsiveness_Properties.thy ===== *)
theory Responsiveness_Properties
  imports Responsiveness
begin

text \<open>
  The properties of the responsiveness probe: its controller follows the stability rule on the
  goodputs it measured, within the time box and the connection limit, and its figure rests on
  probes of both kinds in the last intervals.
\<close>

section \<open>What the controller should have seen\<close>

fun goodputs_from :: "duration \<Rightarrow> u64 \<Rightarrow> u64 list \<Rightarrow> f64 list" where
  "goodputs_from interval prev [] = []"
| "goodputs_from interval prev (tot # ts) =
     f64_div (fl (real (unat (sat_sub tot prev)))) (as_secs_f64 interval) # goodputs_from interval tot ts"

definition moving_avgs :: "nat \<Rightarrow> f64 list \<Rightarrow> f64 list" where
  "moving_avgs mad gs = map (\<lambda>k. mean (last_n mad (take (Suc k) gs))) [0..<length gs]"

lemma length_goodputs [simp]: "length (goodputs_from i p ts) = length ts"
  by (induction i p ts rule: goodputs_from.induct) auto

lemma goodputs_snoc: "goodputs_from i p (ts @ [t]) =
    goodputs_from i p ts @ [f64_div (fl (real (unat (sat_sub t (if ts = [] then p else last ts))))) (as_secs_f64 i)]"
  by (induction i p ts rule: goodputs_from.induct) auto

lemma goodputs_take: "take n (goodputs_from i p ts) = goodputs_from i p (take n ts)"
proof (induction i p ts arbitrary: n rule: goodputs_from.induct)
  case (2 i p tot ts)
  then show ?case by (cases n) auto
qed simp

lemma length_moving_avgs [simp]: "length (moving_avgs mad gs) = length gs"
  by (simp add: moving_avgs_def)

lemma moving_avgs_snoc: "moving_avgs mad (gs @ [g]) = moving_avgs mad gs @ [mean (last_n mad (gs @ [g]))]"
  by (auto simp: moving_avgs_def)

lemma moving_avgs_take: "take n (moving_avgs mad gs) = moving_avgs mad (take n gs)"
proof (cases "n \<le> length gs")
  case True
  then show ?thesis by (simp add: moving_avgs_def take_map take_upt min_def)
qed simp

text \<open>The stability rule holds after tick \<open>k\<close>.\<close>

definition rule_holds :: "nat \<Rightarrow> f64 \<Rightarrow> duration \<Rightarrow> u64 list \<Rightarrow> nat \<Rightarrow> bool" where
  "rule_holds mad sdt interval totals k \<longleftrightarrow>
     (let mas = take (Suc k) (moving_avgs mad (goodputs_from interval 0 totals)) in settled mad sdt mas (last mas))"

lemma rule_holds_take:
  "k < n \<Longrightarrow> rule_holds mad sdt i (take n totals) k = rule_holds mad sdt i totals k"
  by (simp add: rule_holds_def moving_avgs_take goodputs_take min_def)

lemma rule_holds_append: "k < length xs \<Longrightarrow> rule_holds mad sdt i (xs @ ys) k = rule_holds mad sdt i xs k"
  using rule_holds_take [of k "length xs" mad sdt i "xs @ ys"] by simp

lemma rule_holds_len: "rule_holds mad sdt i totals k \<Longrightarrow> mad \<le> Suc k"
  by (auto simp: rule_holds_def settled_def Let_def)

section \<open>The controller\<close>

lemma ramp_up_bounds: "c \<le> ramp_up m ok js c \<and> ramp_up m ok js c \<le> max c m"
proof (induction m ok js c rule: ramp_up.induct)
  case (2 m ok j js c)
  show ?case
  proof (cases "m \<le> c \<or> \<not> ok j")
    case False
    then have "c < c + 1" "c + 1 \<le> m"
      using unat_inc [of c m] by (simp_all add: word_less_nat_alt word_le_nat_alt)
    then show ?thesis using 2 False by (auto simp: max_def split: if_splits)
  qed (auto simp: le_max_iff_disj)
qed simp

definition ramp_inv :: "'u responsiveness_config \<Rightarrow> u32 \<Rightarrow> u64 list \<Rightarrow> ramp_state \<Rightarrow> bool" where
  "ramp_inv cfg c0 totals s \<longleftrightarrow>
     (let mad = max (rs_mad cfg) 2; i = interval_of (rs_interval_ms cfg); n = length totals;
          holds = rule_holds mad (rs_sdt cfg) i totals
      in rp_goodputs s = goodputs_from i 0 totals \<and> rp_moving_avgs s = moving_avgs mad (rp_goodputs s) \<and>
         rp_last_total s = (if totals = [] then 0 else last totals) \<and>
         (rp_saturated s \<longleftrightarrow> (\<exists>k < n. holds k)) \<and>
         (\<not> rp_saturated s \<longrightarrow> rp_resp_values s = [] \<and> \<not> rp_stable s) \<and>
         (rp_saturated s \<longrightarrow> (\<exists>k. holds k \<and> length (rp_resp_values s) + Suc k \<le> n)) \<and>
         (rp_stable s \<longrightarrow> mad \<le> length (rp_resp_values s)) \<and>
         rp_saturated_conns s = rp_conns s \<and> c0 \<le> rp_conns s \<and> rp_conns s \<le> max c0 (rs_max_connections cfg))"

lemma ramp_inv_start: "ramp_inv cfg c0 [] (ramp_start c0)"
  by (simp add: ramp_inv_def ramp_start_def moving_avgs_def)

lemma measure_interval_facts:
  fixes t
  assumes "ramp_inv cfg c0 totals s"
  defines "mad \<equiv> max (rs_mad cfg) 2" and "i \<equiv> interval_of (rs_interval_ms cfg)"
  defines "s1 \<equiv> measure_interval i mad t s"
  shows "rp_goodputs s1 = goodputs_from i 0 (totals @ [t])" "rp_moving_avgs s1 = moving_avgs mad (rp_goodputs s1)"
    "rp_last_total s1 = t" "rp_saturated s1 = rp_saturated s" "rp_resp_values s1 = rp_resp_values s"
    "rp_stable s1 = rp_stable s" "rp_conns s1 = rp_conns s" "rp_saturated_conns s1 = rp_saturated_conns s"
    "settled mad sdt (rp_moving_avgs s1) (last (rp_moving_avgs s1)) = rule_holds mad sdt i (totals @ [t]) (length totals)"
  using assms(1)
  by (simp_all add: ramp_inv_def s1_def measure_interval_def Let_def goodputs_snoc moving_avgs_snoc
      rule_holds_def flip: mad_def i_def)

lemma ramp_step_inv:
  assumes inv: "ramp_inv cfg c0 totals s"
  shows "ramp_inv cfg c0 (totals @ [tk_total t]) (ramp_step cfg started t s)"
proof -
  define mad where "mad = max (rs_mad cfg) 2"
  define i where "i = interval_of (rs_interval_ms cfg)"
  define s1 where "s1 = measure_interval i mad (tk_total t) s"
  note m = measure_interval_facts [OF inv, where t = "tk_total t", folded mad_def i_def, folded s1_def]
  let ?tot = "totals @ [tk_total t]" let ?holds = "rule_holds mad (rs_sdt cfg) i"
  have old: "?holds ?tot k = ?holds totals k" if "k < length totals" for k
    using that by (rule rule_holds_append)
  have step: "ramp_step cfg started t s = (if \<not> rp_saturated s then grow cfg mad (tk_spawns t) s1
      else sample_responsiveness cfg i mad started t s1)"
    by (simp add: ramp_step_def mad_def i_def s1_def Let_def)
  have conns: "rp_saturated_conns s = rp_conns s" "c0 \<le> rp_conns s" "rp_conns s \<le> max c0 (rs_max_connections cfg)"
    using inv by (simp_all add: ramp_inv_def Let_def)
  show ?thesis
  proof (cases "rp_saturated s")
    case False
    then have no: "\<not> ?holds totals k" if "k < length totals" for k
      using inv that by (auto simp: ramp_inv_def Let_def mad_def i_def)
    have none: "rp_resp_values s = []" "\<not> rp_stable s" using inv False by (simp_all add: ramp_inv_def Let_def)
    show ?thesis
    proof (cases "?holds ?tot (length totals)")
      case True
      then show ?thesis using False m none conns
        by (auto simp: step ramp_inv_def Let_def grow_def simp flip: mad_def i_def)
    next
      case no_now: False
      then have never: "\<not> (\<exists>k < length ?tot. ?holds ?tot k)" using no old by (auto simp: less_Suc_eq)
      let ?c = "ramp_up (rs_max_connections cfg) (tk_spawns t) [0..<unat (rs_add_per_interval cfg)] (rp_conns s)"
      have "c0 \<le> ?c \<and> ?c \<le> max c0 (rs_max_connections cfg)"
        using ramp_up_bounds [of "rp_conns s" "rs_max_connections cfg" "tk_spawns t"
          "[0..<unat (rs_add_per_interval cfg)]"] conns(2,3) by (auto simp: max_def split: if_splits)
      then show ?thesis using False m none conns no_now never
        by (auto simp: step ramp_inv_def Let_def grow_def simp flip: mad_def i_def)
    qed
  next
    case True
    obtain k where k: "?holds totals k" "length (rp_resp_values s) + Suc k \<le> length totals"
      using inv True by (auto simp: ramp_inv_def Let_def mad_def i_def)
    then have k': "?holds ?tot k" "k < length ?tot" using old [of k] by simp_all
    let ?s = "sample_responsiveness cfg i mad started t s1"
    have "length (rp_resp_values ?s) \<le> Suc (length (rp_resp_values s))"
      "rp_stable ?s \<Longrightarrow> mad \<le> length (rp_resp_values ?s)"
      "rp_goodputs ?s = rp_goodputs s1" "rp_moving_avgs ?s = rp_moving_avgs s1" "rp_last_total ?s = rp_last_total s1"
      "rp_saturated ?s = rp_saturated s1" "rp_conns ?s = rp_conns s1" "rp_saturated_conns ?s = rp_saturated_conns s1"
      using m by (auto simp: sample_responsiveness_def Let_def settled_def split: option.splits)
    then show ?thesis using True m conns k k'
      by (auto simp: step ramp_inv_def Let_def simp flip: mad_def i_def intro!: exI [of _ k])
  qed
qed

lemma ramp_sound:
  assumes "ramp_inv cfg c0 seen s"
  shows "\<exists>n \<le> length ts. ramp_inv cfg c0 (seen @ map tk_total (take n ts)) (ramp cfg started ts s) \<and>
    (\<forall>k. Suc k < n \<longrightarrow> tk_elapsed (ts ! k) < cap_of (rs_max_duration_ms cfg) (rs_interval_ms cfg))"
  using assms
proof (induction cfg started ts s arbitrary: seen rule: ramp.induct)
  case (2 cfg started t ts s)
  let ?s = "ramp_step cfg started t s"
  note inv = ramp_step_inv [OF "2.prems", of t started]
  show ?case
  proof (cases "rp_stable ?s \<or> cap_of (rs_max_duration_ms cfg) (rs_interval_ms cfg) \<le> tk_elapsed t")
    case True
    then show ?thesis using inv by (intro exI [of _ 1]) (auto simp: Let_def)
  next
    case False
    then obtain n where n: "n \<le> length ts"
      "ramp_inv cfg c0 (seen @ tk_total t # map tk_total (take n ts)) (ramp cfg started ts ?s)"
      "\<forall>k. Suc k < n \<longrightarrow> tk_elapsed (ts ! k) < cap_of (rs_max_duration_ms cfg) (rs_interval_ms cfg)"
      using "2.IH" [OF refl _ _ inv] by auto
    then show ?thesis using False
      by (intro exI [of _ "Suc n"]) (auto simp: Let_def nth_Cons split: nat.splits)
  qed
qed auto

lemma open_initial_count: "open_initial spawn js c = Inr c' \<Longrightarrow> c' = c + of_nat (length js)"
  by (induction spawn js c rule: open_initial.induct) (auto split: sum.splits)

lemma open_initial_all:
  assumes "open_initial spawn [0..<unat w] 0 = Inr c" shows "c = w"
  using open_initial_count [OF assms] by (simp add: of_nat_unat)

section \<open>The figures\<close>

lemma tm_of_some:
  assumes "tm_of samples tmp pred foreign f = Some v"
  shows "\<exists>p \<in> set samples. sm_ok p \<and> pred p \<and> sm_foreign p = foreign \<and> f p \<noteq> None"
proof -
  have "received_of (map (\<lambda>s. if sm_foreign s = foreign then f s else None)
       (filter (\<lambda>s. sm_ok s \<and> pred s) samples)) \<noteq> []"
    using assms by (auto simp: tm_of_def trimmed_mean_def)
  then obtain x where "x \<in> set (received_of (map (\<lambda>s. if sm_foreign s = foreign then f s else None)
       (filter (\<lambda>s. sm_ok s \<and> pred s) samples)))" by (meson list.set_sel(1))
  then show ?thesis by (auto simp: received_of_def split: if_splits) metis+
qed

lemma foreign_responsiveness_some:
  "foreign_responsiveness tcp tls http = Some v \<Longrightarrow> tcp \<noteq> None \<and> http \<noteq> None"
  by (auto simp: foreign_responsiveness_def split: option.splits)

text \<open>A sample the figure may rest on: answered, of that kind, and sent in the last intervals.\<close>

definition counted_probe :: "'u responsiveness_config \<Rightarrow> direction_io \<Rightarrow> bool \<Rightarrow> probe_sample \<Rightarrow> bool" where
  "counted_probe cfg io foreign p \<longleftrightarrow> p \<in> set (di_samples io) \<and> sm_ok p \<and> sm_foreign p = foreign \<and>
     di_load_duration io - interval_of (rs_interval_ms cfg) * max (rs_mad cfg) 2 \<le> sm_sent_at p - di_started io"

lemma rpm_rests_on_probes:
  assumes "dr_rpm (direction_result_of cfg io s) = Some v"
  shows "(\<exists>p. counted_probe cfg io True p \<and> sm_tcp_ms p \<noteq> None) \<and> (\<exists>p. counted_probe cfg io True p \<and> sm_http_ms p \<noteq> None) \<and>
    (\<exists>p. counted_probe cfg io False p \<and> sm_http_ms p \<noteq> None)"
proof -
  let ?tm = "tm_of (di_samples io) (rs_tmp cfg) (in_final cfg io)"
  have "foreign_responsiveness (?tm True sm_tcp_ms) (?tm True sm_tls_ms) (?tm True sm_http_ms) \<noteq> None"
    "?tm False sm_http_ms \<noteq> None"
    using assms by (auto simp: direction_result_of_def Let_def split: option.splits)
  then have "?tm True sm_tcp_ms \<noteq> None" "?tm True sm_http_ms \<noteq> None" "?tm False sm_http_ms \<noteq> None"
    using foreign_responsiveness_some by blast+
  then obtain a b c where v: "?tm True sm_tcp_ms = Some a" "?tm True sm_http_ms = Some b" "?tm False sm_http_ms = Some c"
    by blast
  show ?thesis
    using tm_of_some [OF v(1)] tm_of_some [OF v(2)] tm_of_some [OF v(3)]
    unfolding counted_probe_def in_final_def by blast
qed

section \<open>A direction\<close>

text \<open>C27: The working-conditions probe measures what it says. A direction is only reported when bytes
  moved. It is reported as saturated exactly when the stability rule held after some interval, so
  never before the moving average has its full length, and as stable only after saturation and
  twice that many intervals. The connections stay within the limit, no interval starts after the
  time box, and a headline figure rests on answered probes of both kinds from the last intervals.\<close>

theorem responsiveness_sound:
  fixes cfg io
  defines "mad \<equiv> max (rs_mad cfg) 2" and "c0 \<equiv> max (rs_initial_connections cfg) 1"
  assumes "run_direction cfg io = Inr d" "length (di_ticks io) < 2 ^ 32"
  shows "0 < dr_bytes_transferred d \<and> (\<exists>n \<le> length (di_ticks io). unat (dr_intervals d) = n \<and>
      (dr_saturation_reached d \<longleftrightarrow> (\<exists>k < n. rule_holds mad (rs_sdt cfg) (interval_of (rs_interval_ms cfg))
         (map tk_total (di_ticks io)) k)) \<and>
      (dr_saturation_reached d \<longrightarrow> mad \<le> n) \<and> (dr_responsiveness_stable d \<longrightarrow> dr_saturation_reached d \<and> 2 * mad \<le> n) \<and>
      (\<forall>k. Suc k < n \<longrightarrow> tk_elapsed (di_ticks io ! k) < cap_of (rs_max_duration_ms cfg) (rs_interval_ms cfg))) \<and>
    c0 \<le> dr_saturated_connections d \<and> dr_saturated_connections d \<le> max c0 (rs_max_connections cfg) \<and>
    (dr_rpm d \<noteq> None \<longrightarrow> (\<exists>p. counted_probe cfg io True p) \<and> (\<exists>p. counted_probe cfg io False p))"
proof -
  obtain c where c: "open_initial (di_initial io) [0..<unat (max (rs_initial_connections cfg) 1)] 0 = Inr c"
    using assms(3) by (auto simp: run_direction_def split: sum.splits)
  have c0: "c = c0" using open_initial_all [OF c] by (simp add: c0_def)
  define s where "s = ramp cfg (di_started io) (di_ticks io) (ramp_start c0)"
  have d: "d = direction_result_of cfg io s" "di_bytes io \<noteq> 0"
    using assms(3) c c0 by (auto simp: run_direction_def s_def Let_def split: if_splits)
  obtain n where n: "n \<le> length (di_ticks io)"
      "ramp_inv cfg c0 (map tk_total (take n (di_ticks io))) s"
      "\<forall>k. Suc k < n \<longrightarrow> tk_elapsed (di_ticks io ! k) < cap_of (rs_max_duration_ms cfg) (rs_interval_ms cfg)"
    using ramp_sound [OF ramp_inv_start [of cfg c0], where ts = "di_ticks io" and started = "di_started io"] by (auto simp: s_def)
  let ?holds = "rule_holds mad (rs_sdt cfg) (interval_of (rs_interval_ms cfg)) (map tk_total (di_ticks io))"
  have same: "rule_holds mad (rs_sdt cfg) (interval_of (rs_interval_ms cfg)) (map tk_total (take n (di_ticks io))) k = ?holds k"
    if "k < n" for k using rule_holds_take [OF that, of _ _ _ "map tk_total (di_ticks io)"] by (simp add: take_map)
  have inv: "length (rp_goodputs s) = n" "rp_saturated s \<longleftrightarrow> (\<exists>k < n. ?holds k)"
    "rp_saturated s \<Longrightarrow> mad + length (rp_resp_values s) \<le> n" "rp_stable s \<Longrightarrow> rp_saturated s \<and> mad \<le> length (rp_resp_values s)"
    "rp_saturated_conns s = rp_conns s" "c0 \<le> rp_conns s" "rp_conns s \<le> max c0 (rs_max_connections cfg)"
    using n(1,2) same rule_holds_len
    by (fastforce simp: ramp_inv_def Let_def simp flip: mad_def)+
  have "unat (dr_intervals d) = n"
    using n(1) inv(1) assms(4) by (simp add: d(1) direction_result_of_def Let_def unsigned_of_nat take_bit_nat_eq_self)
  moreover have sel: "dr_saturation_reached d = rp_saturated s" "dr_responsiveness_stable d = rp_stable s"
    "dr_saturated_connections d = rp_saturated_conns s" "dr_bytes_transferred d = di_bytes io"
    by (simp_all add: d(1) direction_result_of_def Let_def)
  moreover have "dr_rpm d \<noteq> None \<longrightarrow> (\<exists>p. counted_probe cfg io True p) \<and> (\<exists>p. counted_probe cfg io False p)"
    using rpm_rests_on_probes [of cfg io s] by (auto simp: d(1))
  moreover have "rp_saturated s \<longrightarrow> mad \<le> n" "rp_stable s \<longrightarrow> rp_saturated s \<and> 2 * mad \<le> n"
    using inv(3,4) by linarith+
  ultimately show ?thesis using n(1,3) inv(2,5-7) d(2) by (simp add: word_neq_0_conv)
qed

theorem responsiveness_sound_witness:
  defines "cfg \<equiv> responsiveness_from_parts \<lparr>tc_base_url = ''u'', tc_insecure = False, tc_ca_bundle = None, tc_timeout_ms = 1000\<rparr>"
    and "io \<equiv> \<lparr>di_initial = \<lambda>k. Inr (), di_started = 0,
      di_ticks = [\<lparr>tk_total = 50, tk_spawns = \<lambda>k. True, tk_window_at = from_secs 1, tk_samples = [], tk_elapsed = from_secs 1\<rparr>],
      di_load_duration = from_secs 1, di_bytes = 50, di_samples = []\<rparr>"
  shows "\<exists>d. run_direction cfg io = Inr d \<and> \<not> dr_saturation_reached d \<and> dr_saturated_connections d \<le> 16"
proof -
  have m: "rs_mad cfg = 4" "rs_initial_connections cfg = 1" "rs_max_connections cfg = 16"
    by (simp_all add: cfg_def responsiveness_from_parts_def DEFAULT_MAD_def DEFAULT_INITIAL_CONNECTIONS_def
      DEFAULT_MAX_CONNECTIONS_def)
  obtain d where d: "run_direction cfg io = Inr d"
    by (simp add: run_direction_def io_def m max_def Let_def)
  show ?thesis using responsiveness_sound [OF d] d by (auto simp: io_def m max_def)
qed

end
