(* ===== verification/Mthroughput.thy ===== *)
theory Mthroughput
  imports Responsiveness
begin

text \<open>
  Capacity over several connections, \<open>crates/networker-tester/src/runner/mthroughput.rs\<close>: the ramp
  until the aggregate goodput settles, the measure window at the connections reached, the share of
  each connection in it, and why each was limited. Every tick is an input: the counter of each
  connection, the clock, and which of its connections could be opened. The constants that this file
  shares with the responsiveness mode are those of \<open>Responsiveness\<close>.
\<close>

definition MT_MAX_CONNECTIONS :: u32 where "MT_MAX_CONNECTIONS = 8"
definition MT_MAX_DURATION_MS :: u64 where "MT_MAX_DURATION_MS = 15000"

record 'u mthroughput_config =
  mc_base_url :: 'u
  mc_insecure :: bool
  mc_ca_bundle :: "string option"
  mc_timeout_ms :: u64
  mc_interval_ms :: u64
  mc_initial_connections :: u32
  mc_add_per_interval :: u32
  mc_max_connections :: u32
  mc_mad :: nat
  mc_sdt :: f64
  mc_max_duration_ms :: u64
  mc_load_request_bytes :: nat

definition mthroughput_from_parts :: "'u throughput_config \<Rightarrow> 'u mthroughput_config" where
  "mthroughput_from_parts t = \<lparr>mc_base_url = tc_base_url t, mc_insecure = tc_insecure t,
     mc_ca_bundle = tc_ca_bundle t, mc_timeout_ms = tc_timeout_ms t, mc_interval_ms = DEFAULT_INTERVAL_MS,
     mc_initial_connections = DEFAULT_INITIAL_CONNECTIONS, mc_add_per_interval = DEFAULT_ADD_PER_INTERVAL,
     mc_max_connections = MT_MAX_CONNECTIONS, mc_mad = DEFAULT_MAD, mc_sdt = DEFAULT_SDT,
     mc_max_duration_ms = MT_MAX_DURATION_MS, mc_load_request_bytes = DEFAULT_LOAD_REQUEST_BYTES\<rparr>"

definition mthroughput_target :: "'u mthroughput_config \<Rightarrow> 'u h2_target" where
  "mthroughput_target cfg = \<lparr>ht_base_url = mc_base_url cfg, ht_insecure = mc_insecure cfg,
     ht_ca_bundle = mc_ca_bundle cfg, ht_timeout_ms = mc_timeout_ms cfg\<rparr>"

section \<open>Why a connection was limited\<close>

text \<open>The fields of the kernel's socket statistics that are read here.\<close>

record socket_stats =
  sk_total_retrans :: "u32 option"
  sk_busy_time_us :: "u64 option"
  sk_rwnd_limited_us :: "u64 option"
  sk_sndbuf_limited_us :: "u64 option"

datatype verdict = is_rwnd: RwndLimited u8 | is_sndbuf: SndbufLimited u8 | is_path: PathLimited | is_unobserved: Unobserved

fun show_verdict :: "verdict \<Rightarrow> string" where
  "show_verdict (RwndLimited pct) = ''rwnd-limited '' @ decimal (unat pct) @ ''%''"
| "show_verdict (SndbufLimited pct) = ''sndbuf-limited '' @ decimal (unat pct) @ ''%''"
| "show_verdict PathLimited = ''path-limited''"
| "show_verdict Unobserved = ''unobserved''"

definition NOTEWORTHY_PCT :: f64 where "NOTEWORTHY_PCT = 5"

definition share_pct :: "u64 option \<Rightarrow> u64 \<Rightarrow> f64" where
  "share_pct us busy = f64_mul (f64_div (fl (real (unat (case us of Some n \<Rightarrow> n | None \<Rightarrow> 0)))) (fl (real (unat busy)))) 100"

text \<open>\<open>.round().min(100.0) as u8\<close> of a number that is not negative.\<close>

definition whole_pct :: "f64 \<Rightarrow> u8" where
  "whole_pct x = of_nat (min (nat \<lfloor>x + 1 / 2\<rfloor>) 100)"

definition limited_verdict :: "socket_stats option \<Rightarrow> verdict" where
  "limited_verdict stats = (case stats of
     None \<Rightarrow> Unobserved
   | Some s \<Rightarrow> (case sk_busy_time_us s of
       None \<Rightarrow> Unobserved
     | Some busy \<Rightarrow>
         (if busy = 0 then Unobserved
          else let rwnd_pct = share_pct (sk_rwnd_limited_us s) busy;
                   sndbuf_pct = share_pct (sk_sndbuf_limited_us s) busy
               in if NOTEWORTHY_PCT \<le> rwnd_pct \<and> sndbuf_pct \<le> rwnd_pct then RwndLimited (whole_pct rwnd_pct)
                  else if NOTEWORTHY_PCT \<le> sndbuf_pct then SndbufLimited (whole_pct sndbuf_pct)
                  else PathLimited)))"

section \<open>The controller of a stage\<close>

record stage_tick =
  sg_totals :: "nat \<Rightarrow> u64"
  sg_spawns :: "nat \<Rightarrow> bool"
  sg_ramp_at :: duration
  sg_elapsed :: duration

record stage_state =
  ms_goodputs :: "f64 list"
  ms_moving_avgs :: "f64 list"
  ms_snapshots :: "u64 list list"
  ms_last_total :: u64
  ms_saturated :: bool
  ms_ramp_duration :: duration
  ms_ticks_left :: "nat option"
  ms_conns :: nat

definition stage_start :: "nat \<Rightarrow> stage_state" where
  "stage_start conns = \<lparr>ms_goodputs = [], ms_moving_avgs = [], ms_snapshots = [], ms_last_total = 0,
     ms_saturated = False, ms_ramp_duration = 0, ms_ticks_left = None, ms_conns = conns\<rparr>"

fun add_conns :: "u32 \<Rightarrow> (nat \<Rightarrow> bool) \<Rightarrow> nat list \<Rightarrow> nat \<Rightarrow> nat" where
  "add_conns max_conns ok [] c = c"
| "add_conns max_conns ok (j # js) c =
     (if max_conns \<le> of_nat c then c else if ok j then add_conns max_conns ok js (Suc c) else c)"

definition stage_measure :: "duration \<Rightarrow> nat \<Rightarrow> stage_tick \<Rightarrow> stage_state \<Rightarrow> stage_state" where
  "stage_measure interval mad t s =
     (let per_conn = map (sg_totals t) [0..<ms_conns s]; tot = sum_list per_conn;
          goodputs = ms_goodputs s @ [f64_div (fl (real (unat (sat_sub tot (ms_last_total s))))) (as_secs_f64 interval)]
      in s\<lparr>ms_goodputs := goodputs, ms_moving_avgs := ms_moving_avgs s @ [mean (last_n mad goodputs)],
           ms_snapshots := ms_snapshots s @ [per_conn], ms_last_total := tot\<rparr>)"

text \<open>The step and whether it ends the measure window.\<close>

definition stage_step :: "'u mthroughput_config \<Rightarrow> stage_tick \<Rightarrow> stage_state \<Rightarrow> stage_state \<times> bool" where
  "stage_step cfg t s =
     (let mad = max (mc_mad cfg) 2; s1 = stage_measure (interval_of (mc_interval_ms cfg)) mad t s
      in case ms_ticks_left s of
          Some left \<Rightarrow> (if left \<le> 1 then (s1, True) else (s1\<lparr>ms_ticks_left := Some (left - 1)\<rparr>, False))
        | None \<Rightarrow>
            (if settled mad (mc_sdt cfg) (ms_moving_avgs s1) (last (ms_moving_avgs s1))
             then (s1\<lparr>ms_saturated := True, ms_ramp_duration := sg_ramp_at t, ms_ticks_left := Some mad\<rparr>, False)
             else if of_nat (ms_conns s) < mc_max_connections cfg
             then (s1\<lparr>ms_conns := add_conns (mc_max_connections cfg) (sg_spawns t) [0..<unat (mc_add_per_interval cfg)] (ms_conns s)\<rparr>, False)
             else (s1, False)))"

fun stage :: "'u mthroughput_config \<Rightarrow> stage_tick list \<Rightarrow> stage_state \<Rightarrow> stage_state" where
  "stage cfg [] s = s"
| "stage cfg (t # ts) s = (case stage_step cfg t s of (s', over) \<Rightarrow>
     (if over then s'
      else if cap_of (mc_max_duration_ms cfg) (mc_interval_ms cfg) \<le> sg_elapsed t then s'
      else stage cfg ts s'))"

section \<open>The result of a stage\<close>

record mt_conn =
  mn_conn :: u32
  mn_mbps :: f64
  mn_verdict :: string
  mn_retrans :: "u32 option"

record mt_direction =
  md_saturation_reached :: bool
  md_connections :: u32
  md_intervals :: u32
  md_ramp_duration_ms :: f64
  md_measure_duration_ms :: f64
  md_load_duration_ms :: f64
  md_bytes_transferred :: u64
  md_capacity_mbps :: "f64 option"
  md_per_conn_min_mbps :: "f64 option"
  md_per_conn_max_mbps :: "f64 option"
  md_per_conn_mean_mbps :: "f64 option"
  md_fair_share_spread_pct :: "f64 option"
  md_rwnd_limited_conns :: u32
  md_sndbuf_limited_conns :: u32
  md_path_limited_conns :: u32
  md_unobserved_conns :: u32
  md_per_conn :: "mt_conn list"

record stage_io =
  si_initial :: "nat \<Rightarrow> string + unit"
  si_ticks :: "stage_tick list"
  si_load_duration :: duration
  si_bytes :: "nat \<Rightarrow> u64"
  si_stats :: "nat \<Rightarrow> socket_stats option"

definition column :: "u64 list \<Rightarrow> nat \<Rightarrow> u64" where
  "column row i = (if i < length row then row ! i else 0)"

definition window_ticks :: "nat \<Rightarrow> stage_state \<Rightarrow> nat" where
  "window_ticks mad s = min mad (length (ms_snapshots s) - 1)"

definition window_secs :: "duration \<Rightarrow> nat \<Rightarrow> stage_state \<Rightarrow> f64" where
  "window_secs interval mad s = f64_mul (fl (real (window_ticks mad s))) (as_secs_f64 interval)"

text \<open>The goodput of each connection from the snapshot before the window to the last one.\<close>

definition per_conn_goodput :: "duration \<Rightarrow> nat \<Rightarrow> stage_state \<Rightarrow> f64 list" where
  "per_conn_goodput interval mad s =
     (if window_ticks mad s = 0 \<or> window_secs interval mad s \<le> 0 then []
      else let n = length (ms_snapshots s); final = ms_snapshots s ! (n - 1);
               start = ms_snapshots s ! (n - 1 - window_ticks mad s)
           in map (\<lambda>i. f64_div (f64_div (fl (real (unat (sat_sub (column final i) (column start i)))))
                (window_secs interval mad s)) 1000000) [0..<ms_conns s])"

definition capacity_of :: "f64 list \<Rightarrow> f64 option" where
  "capacity_of per_conn = (let aggregate = f64_sum per_conn
     in if per_conn \<noteq> [] \<and> 0 < aggregate then Some aggregate else None)"

definition fold_min :: "f64 list \<Rightarrow> f64" where "fold_min xs = foldl min (hd xs) (tl xs)"
definition fold_max :: "f64 list \<Rightarrow> f64" where "fold_max xs = foldl max (hd xs) (tl xs)"

definition spread_of :: "f64 list \<Rightarrow> f64 option" where
  "spread_of xs = (if xs \<noteq> [] \<and> 0 < mean xs
     then Some (f64_mul (f64_div (f64_sub (fold_max xs) (fold_min xs)) (mean xs)) 100) else None)"

definition nonempty :: "(f64 list \<Rightarrow> f64) \<Rightarrow> f64 list \<Rightarrow> f64 option" where
  "nonempty f xs = (if xs = [] then None else Some (f xs))"

definition count_verdicts :: "(verdict \<Rightarrow> bool) \<Rightarrow> stage_io \<Rightarrow> nat \<Rightarrow> u32" where
  "count_verdicts P io conns = of_nat (length (filter (\<lambda>i. P (limited_verdict (si_stats io i))) [0..<conns]))"

definition mt_conn_of :: "stage_io \<Rightarrow> f64 list \<Rightarrow> nat \<Rightarrow> mt_conn" where
  "mt_conn_of io per_conn i = \<lparr>mn_conn = of_nat i, mn_mbps = (if i < length per_conn then per_conn ! i else 0),
     mn_verdict = show_verdict (limited_verdict (si_stats io i)), mn_retrans = Option.bind (si_stats io i) sk_total_retrans\<rparr>"

definition mt_direction_of :: "'u mthroughput_config \<Rightarrow> stage_io \<Rightarrow> stage_state \<Rightarrow> mt_direction" where
  "mt_direction_of cfg io s =
     (let mad = max (mc_mad cfg) 2; interval = interval_of (mc_interval_ms cfg); conns = ms_conns s;
          per_conn = per_conn_goodput interval mad s
      in \<lparr>md_saturation_reached = ms_saturated s, md_connections = of_nat conns,
          md_intervals = of_nat (length (ms_goodputs s)),
          md_ramp_duration_ms = as_millis_f64 (if ms_saturated s then ms_ramp_duration s else si_load_duration io),
          md_measure_duration_ms = f64_mul (window_secs interval mad s) 1000,
          md_load_duration_ms = as_millis_f64 (si_load_duration io),
          md_bytes_transferred = sum_list (map (si_bytes io) [0..<conns]),
          md_capacity_mbps = capacity_of per_conn, md_per_conn_min_mbps = nonempty fold_min per_conn,
          md_per_conn_max_mbps = nonempty fold_max per_conn, md_per_conn_mean_mbps = nonempty mean per_conn,
          md_fair_share_spread_pct = spread_of per_conn,
          md_rwnd_limited_conns = count_verdicts is_rwnd io conns,
          md_sndbuf_limited_conns = count_verdicts is_sndbuf io conns,
          md_path_limited_conns = count_verdicts is_path io conns,
          md_unobserved_conns = count_verdicts is_unobserved io conns,
          md_per_conn = map (mt_conn_of io per_conn) [0..<conns]\<rparr>)"

definition run_stage :: "'u mthroughput_config \<Rightarrow> stage_io \<Rightarrow> string + mt_direction" where
  "run_stage cfg io =
     (case open_initial (si_initial io) [0..<unat (max (mc_initial_connections cfg) 1)] 0 of
        Inl e \<Rightarrow> Inl e
      | Inr c \<Rightarrow>
          (let s = stage cfg (si_ticks io) (stage_start (unat c))
           in if sum_list (map (si_bytes io) [0..<ms_conns s]) = 0
              then Inl (''load moved 0 bytes over '' @ decimal (ms_conns s) @ '' connection(s) '' @ em_dash @
                '' refusing to report a 0-capacity link as a measurement'')
              else Inr (mt_direction_of cfg io s)))"

section \<open>The probe\<close>

record mthroughput_result =
  mr_remote_addr :: string
  mr_capacity_down_mbps :: "f64 option"
  mr_capacity_up_mbps :: "f64 option"
  mr_conns_down :: u32
  mr_conns_up :: "u32 option"
  mr_fair_share_spread_down_pct :: "f64 option"
  mr_fair_share_spread_up_pct :: "f64 option"
  mr_download :: mt_direction
  mr_upload :: "mt_direction option"
  mr_upload_error :: "string option"
  mr_started_at :: nat

record mthroughput_attempt = attempt +
  at_mthroughput :: "mthroughput_result option"

definition mthroughput_failed :: "attempt_ids \<Rightarrow> string \<Rightarrow> mthroughput_attempt" where
  "mthroughput_failed ids message =
     attempt.extend (attempt_new ids Mthroughput False (Some (error_of ids HttpError message)))
       \<lparr>at_mthroughput = None\<rparr>"

definition run_mthroughput_probe :: "'u url_api \<Rightarrow> attempt_ids \<Rightarrow> (load_direction \<Rightarrow> stage_io) \<Rightarrow>
   'u mthroughput_config \<Rightarrow> mthroughput_attempt" where
  "run_mthroughput_probe api ids io cfg = (case run_stage cfg (io LoadDownload) of
     Inl msg \<Rightarrow> mthroughput_failed ids (''Download stage: '' @ msg)
   | Inr download \<Rightarrow>
       (let (upload, upload_error) = (case run_stage cfg (io LoadUpload) of
              Inr u \<Rightarrow> (Some u, None) | Inl msg \<Rightarrow> (None, Some (''Upload stage: '' @ msg)))
        in attempt.extend (attempt_new ids Mthroughput True None)
             \<lparr>at_mthroughput = Some \<lparr>mr_remote_addr = url_text api (mc_base_url cfg),
                mr_capacity_down_mbps = md_capacity_mbps download, mr_capacity_up_mbps = Option.bind upload md_capacity_mbps,
                mr_conns_down = md_connections download, mr_conns_up = map_option md_connections upload,
                mr_fair_share_spread_down_pct = md_fair_share_spread_pct download,
                mr_fair_share_spread_up_pct = Option.bind upload md_fair_share_spread_pct,
                mr_download = download, mr_upload = upload, mr_upload_error = upload_error,
                mr_started_at = ai_started_at ids\<rparr>\<rparr>))"

end
