(* ===== verification/Mthroughput_Properties.thy ===== *)
theory Mthroughput_Properties
  imports Mthroughput Responsiveness_Properties
begin

text \<open>
  The properties of the capacity probe: when its measure window is the steady one, and that its
  report adds up. The stability rule is the one of \<open>Responsiveness_Properties\<close>, on the sums of the
  snapshots.
\<close>

section \<open>The controller\<close>

text \<open>The rule first holds after tick \<open>k\<close>.\<close>

definition first_at :: "(nat \<Rightarrow> bool) \<Rightarrow> nat \<Rightarrow> bool" where
  "first_at P k \<longleftrightarrow> P k \<and> (\<forall>j < k. \<not> P j)"

abbreviation stage_holds :: "'u mthroughput_config \<Rightarrow> u64 list list \<Rightarrow> nat \<Rightarrow> bool" where
  "stage_holds cfg rows \<equiv>
     rule_holds (max (mc_mad cfg) 2) (mc_sdt cfg) (interval_of (mc_interval_ms cfg)) (map sum_list rows)"

text \<open>\<open>fin\<close>: the measure window came to its end.\<close>

definition stage_inv :: "'u mthroughput_config \<Rightarrow> bool \<Rightarrow> stage_state \<Rightarrow> bool" where
  "stage_inv cfg fin s \<longleftrightarrow>
     (let mad = max (mc_mad cfg) 2; rows = ms_snapshots s; n = length rows; holds = stage_holds cfg rows
      in ms_goodputs s = goodputs_from (interval_of (mc_interval_ms cfg)) 0 (map sum_list rows) \<and>
         ms_moving_avgs s = moving_avgs mad (ms_goodputs s) \<and>
         ms_last_total s = (if rows = [] then 0 else sum_list (last rows)) \<and>
         (case ms_ticks_left s of
            None \<Rightarrow> \<not> ms_saturated s \<and> \<not> fin \<and> (\<forall>k < n. \<not> holds k)
          | Some l \<Rightarrow> ms_saturated s \<and> 1 \<le> l \<and> (fin \<longrightarrow> l = 1) \<and> (\<exists>k < n. first_at holds k \<and>
              n + l = Suc k + mad + (if fin then 1 else 0) \<and>
              (\<forall>j. k \<le> j \<and> j < n \<longrightarrow> length (rows ! j) = ms_conns s))))"

lemma stage_inv_start: "stage_inv cfg False (stage_start c)"
  by (simp add: stage_inv_def stage_start_def moving_avgs_def)

lemma stage_measure_facts:
  fixes t
  assumes "stage_inv cfg False s"
  defines "mad \<equiv> max (mc_mad cfg) 2" and "i \<equiv> interval_of (mc_interval_ms cfg)"
  defines "s1 \<equiv> stage_measure i mad t s" and "row \<equiv> map (sg_totals t) [0..<ms_conns s]"
  shows "ms_snapshots s1 = ms_snapshots s @ [row]" "ms_goodputs s1 = goodputs_from i 0 (map sum_list (ms_snapshots s1))"
    "ms_moving_avgs s1 = moving_avgs mad (ms_goodputs s1)" "ms_last_total s1 = sum_list row"
    "ms_saturated s1 = ms_saturated s" "ms_ticks_left s1 = ms_ticks_left s" "ms_conns s1 = ms_conns s"
    "settled mad (mc_sdt cfg) (ms_moving_avgs s1) (last (ms_moving_avgs s1)) =
       stage_holds cfg (ms_snapshots s @ [row]) (length (ms_snapshots s))"
  using assms(1)
  by (simp_all add: stage_inv_def s1_def row_def stage_measure_def Let_def goodputs_snoc moving_avgs_snoc last_map
      rule_holds_def flip: mad_def i_def)

lemma stage_holds_append: "k < length rows \<Longrightarrow> stage_holds cfg (rows @ [row]) k = stage_holds cfg rows k"
  by (simp add: rule_holds_append)

lemma first_at_cong: "(\<And>j. j \<le> k \<Longrightarrow> P j = Q j) \<Longrightarrow> first_at P k = first_at Q k"
  by (simp add: first_at_def)

lemma first_at_append:
  assumes "k < length rows"
  shows "first_at (stage_holds cfg (rows @ [row])) k = first_at (stage_holds cfg rows) k"
proof (rule first_at_cong)
  fix j assume "j \<le> k"
  then show "stage_holds cfg (rows @ [row]) j = stage_holds cfg rows j"
    using assms by (intro stage_holds_append) simp
qed

lemma stage_step_inv:
  assumes inv: "stage_inv cfg False s" and step: "stage_step cfg t s = (s', over)"
  shows "stage_inv cfg over s'"
proof -
  define mad where "mad = max (mc_mad cfg) 2"
  define i where "i = interval_of (mc_interval_ms cfg)"
  define s1 where "s1 = stage_measure i mad t s"
  define row where "row = map (sg_totals t) [0..<ms_conns s]"
  note m = stage_measure_facts [OF inv, where t = t, folded mad_def i_def row_def, folded s1_def]
  have mad: "2 \<le> mad" by (simp add: mad_def)
  note st = step [unfolded stage_step_def Let_def, folded mad_def i_def, folded s1_def]
  show ?thesis
  proof (cases "ms_ticks_left s")
    case None
    then have unsat: "\<not> ms_saturated s" using inv by (simp add: stage_inv_def Let_def)
    have no: "\<not> stage_holds cfg (ms_snapshots s @ [row]) k" if "k < length (ms_snapshots s)" for k
      using None inv that stage_holds_append [OF that] by (auto simp: stage_inv_def Let_def)
    show ?thesis
    proof (cases "stage_holds cfg (ms_snapshots s @ [row]) (length (ms_snapshots s))")
      case True
      then have "first_at (stage_holds cfg (ms_snapshots s @ [row])) (length (ms_snapshots s))"
        using no by (simp add: first_at_def)
      then show ?thesis using None True unsat m st mad
        by (auto simp: stage_inv_def Let_def row_def le_less_Suc_eq simp flip: mad_def i_def
          intro!: exI [of _ "length (ms_snapshots s)"])
    next
      case False
      then have never: "\<not> stage_holds cfg (ms_snapshots s @ [row]) k" if "k < Suc (length (ms_snapshots s))" for k
        using no that by (auto simp: less_Suc_eq)
      show ?thesis using None False unsat m st never
        by (auto simp: stage_inv_def Let_def simp flip: mad_def i_def split: if_splits)
    qed
  next
    case (Some l)
    then obtain k where k: "1 \<le> l" "k < length (ms_snapshots s)" "first_at (stage_holds cfg (ms_snapshots s)) k"
      "length (ms_snapshots s) + l = Suc k + mad"
      "\<forall>j. k \<le> j \<and> j < length (ms_snapshots s) \<longrightarrow> length (ms_snapshots s ! j) = ms_conns s"
      using inv by (auto simp: stage_inv_def Let_def mad_def)
    then have k': "first_at (stage_holds cfg (ms_snapshots s @ [row])) k"
      "\<forall>j. k \<le> j \<and> j < Suc (length (ms_snapshots s)) \<longrightarrow> length ((ms_snapshots s @ [row]) ! j) = ms_conns s"
      using first_at_append [of k "ms_snapshots s" cfg row] by (auto simp: nth_append row_def less_Suc_eq)
    have s': "ms_snapshots s' = ms_snapshots s @ [row]" "ms_goodputs s' = ms_goodputs s1" "ms_moving_avgs s' = ms_moving_avgs s1"
      "ms_last_total s' = ms_last_total s1" "ms_saturated s' = ms_saturated s" "ms_conns s' = ms_conns s"
      "ms_ticks_left s' = Some (if over then l else l - 1)" "over \<longleftrightarrow> l \<le> 1"
      using st Some m by (auto split: if_splits)
    have sat: "ms_saturated s" using inv Some by (simp add: stage_inv_def Let_def)
    show ?thesis using k k' s' sat m
      by (auto simp: stage_inv_def Let_def simp flip: mad_def i_def intro!: exI [of _ k])
  qed
qed

lemma stage_sound:
  assumes "stage_inv cfg False s"
  shows "\<exists>fin n. n \<le> length ts \<and> stage_inv cfg fin (stage cfg ts s) \<and>
    length (ms_snapshots (stage cfg ts s)) = length (ms_snapshots s) + n \<and>
    (fin \<or> n = length ts \<or> 0 < n \<and> cap_of (mc_max_duration_ms cfg) (mc_interval_ms cfg) \<le> sg_elapsed (ts ! (n - 1)))"
  using assms
proof (induction cfg ts s rule: stage.induct)
  case (2 cfg t ts s)
  obtain s' over where st: "stage_step cfg t s = (s', over)" by (rule prod.exhaust)
  note inv = stage_step_inv [OF "2.prems" st]
  have len: "length (ms_snapshots s') = Suc (length (ms_snapshots s))"
    using st by (auto simp: stage_step_def stage_measure_def Let_def split: option.splits if_splits)
  show ?case
  proof (cases "over \<or> cap_of (mc_max_duration_ms cfg) (mc_interval_ms cfg) \<le> sg_elapsed t")
    case True
    then show ?thesis using inv st len by (intro exI [of _ over] exI [of _ 1]) auto
  next
    case False
    then have "\<not> over" by simp
    with inv have "stage_inv cfg False s'" by simp
    from "2.IH" [OF st [symmetric] _ _ this] False
    obtain fin n where "n \<le> length ts" "stage_inv cfg fin (stage cfg ts s')"
      "length (ms_snapshots (stage cfg ts s')) = length (ms_snapshots s') + n"
      "fin \<or> n = length ts \<or> 0 < n \<and> cap_of (mc_max_duration_ms cfg) (mc_interval_ms cfg) \<le> sg_elapsed (ts ! (n - 1))"
      by auto
    then show ?thesis using False st len by (intro exI [of _ fin] exI [of _ "Suc n"]) (auto simp: nth_Cons')
  qed
qed (auto intro: exI [of _ False])

section \<open>The measure window\<close>

text \<open>The measure window of a saturated stage is the steady one exactly when the stage ran on for the
  whole window. A stage is saturated exactly when the stability rule held; no connection is added
  from the first time on. The window then starts at that very snapshot if the stage made that many
  more intervals; otherwise, which only the time box or the end of the load can cause, it reaches
  back into the ramp, while the result is reported as saturated all the same.\<close>

theorem mthroughput_window:
  fixes cfg ticks conns
  defines "s \<equiv> stage cfg ticks (stage_start conns)" and "mad \<equiv> max (mc_mad cfg) 2"
  defines "n \<equiv> length (ms_snapshots s)"
  defines "start \<equiv> n - 1 - window_ticks mad s"
  shows "n \<le> length ticks \<and> (ms_saturated s \<longleftrightarrow> (\<exists>k < n. stage_holds cfg (ms_snapshots s) k)) \<and>
    (ms_saturated s \<longrightarrow> (\<exists>k < n. first_at (stage_holds cfg (ms_snapshots s)) k \<and> n \<le> Suc k + mad \<and>
       (\<forall>j. k \<le> j \<and> j < n \<longrightarrow> length (ms_snapshots s ! j) = ms_conns s) \<and>
       (n = Suc k + mad \<longleftrightarrow> start = k) \<and>
       (n < Suc k + mad \<longrightarrow> start < k \<and>
         (n = length ticks \<or> cap_of (mc_max_duration_ms cfg) (mc_interval_ms cfg) \<le> sg_elapsed (ticks ! (n - 1))))))"
proof -
  obtain fin where f: "n \<le> length ticks" "stage_inv cfg fin s"
    "fin \<or> n = length ticks \<or> 0 < n \<and> cap_of (mc_max_duration_ms cfg) (mc_interval_ms cfg) \<le> sg_elapsed (ticks ! (n - 1))"
    using stage_sound [OF stage_inv_start [of cfg conns], of ticks] by (auto simp: s_def n_def stage_start_def)
  show ?thesis
  proof (cases "ms_ticks_left s")
    case None
    then show ?thesis using f(1,2) by (auto simp: stage_inv_def Let_def n_def)
  next
    case (Some l)
    then obtain k where k: "ms_saturated s" "1 \<le> l" "fin \<longrightarrow> l = 1" "k < n"
      "first_at (stage_holds cfg (ms_snapshots s)) k" "n + l = Suc k + mad + (if fin then 1 else 0)"
      "\<forall>j. k \<le> j \<and> j < n \<longrightarrow> length (ms_snapshots s ! j) = ms_conns s"
      using f(2) by (auto simp: stage_inv_def Let_def n_def mad_def)
    have long: "mad \<le> Suc k" "2 \<le> mad"
      using rule_holds_len [of mad "mc_sdt cfg" _ _ k] k(5) by (auto simp: first_at_def mad_def)
    have "start = n - 1 - min mad (n - 1)" by (simp add: start_def window_ticks_def n_def)
    then have "n \<le> Suc k + mad" "n = Suc k + mad \<longleftrightarrow> start = k" "n < Suc k + mad \<Longrightarrow> start < k \<and> \<not> fin"
      using k(2-4,6) long by (auto simp: min_def split: if_splits)
    then show ?thesis using f(1,3) k(1,4,5,7) by (auto simp: first_at_def intro!: exI [of _ k])
  qed
qed

section \<open>The report\<close>

lemma verdict_partition:
  "length (filter (\<lambda>i. is_rwnd (f i)) xs) + length (filter (\<lambda>i. is_sndbuf (f i)) xs) +
   length (filter (\<lambda>i. is_path (f i)) xs) + length (filter (\<lambda>i. is_unobserved (f i)) xs) = length xs"
proof (induction xs)
  case (Cons x xs)
  then show ?case by (cases "f x") auto
qed simp

lemma count_verdicts_unat:
  "conns < 2 ^ 32 \<Longrightarrow> unat (count_verdicts P io conns) = length (filter (\<lambda>i. P (limited_verdict (si_stats io i))) [0..<conns])"
  using length_filter_le [of "\<lambda>i. P (limited_verdict (si_stats io i))" "[0..<conns]"]
  by (simp add: count_verdicts_def unsigned_of_nat take_bit_nat_eq_self)

lemma foldl_min_le: "foldl min a xs \<le> a \<and> (\<forall>x \<in> set xs. foldl min a xs \<le> x)" for a :: f64
proof (induction xs arbitrary: a)
  case (Cons x xs)
  from Cons [of "min a x"] show ?case by auto
qed simp

lemma foldl_max_ge: "a \<le> foldl max a xs \<and> (\<forall>x \<in> set xs. x \<le> foldl max a xs)" for a :: f64
proof (induction xs arbitrary: a)
  case (Cons x xs)
  from Cons [of "max a x"] show ?case by auto
qed simp

lemma fold_bounds: "x \<in> set xs \<Longrightarrow> fold_min xs \<le> x \<and> x \<le> fold_max xs"
  using foldl_min_le [of "hd xs" "tl xs"] foldl_max_ge [of "hd xs" "tl xs"]
  by (cases xs) (auto simp: fold_min_def fold_max_def)

text \<open>The report of a stage adds up: one entry for each connection, one verdict for each entry, the
  shares within the extremes reported, a spread that is not negative, and a capacity only if it is
  positive; and no stage is reported that moved nothing.\<close>

theorem mthroughput_report:
  assumes "run_stage cfg io = Inr d" "length (md_per_conn d) < 2 ^ 32"
  shows "0 < md_bytes_transferred d \<and> length (md_per_conn d) = unat (md_connections d) \<and>
    unat (md_rwnd_limited_conns d) + unat (md_sndbuf_limited_conns d) + unat (md_path_limited_conns d) +
      unat (md_unobserved_conns d) = unat (md_connections d) \<and>
    (\<forall>v. md_capacity_mbps d = Some v \<longrightarrow> 0 < v) \<and>
    (\<forall>lo hi. md_per_conn_min_mbps d = Some lo \<and> md_per_conn_max_mbps d = Some hi \<longrightarrow>
      (\<forall>c \<in> set (md_per_conn d). lo \<le> mn_mbps c \<and> mn_mbps c \<le> hi)) \<and>
    (\<forall>v. md_fair_share_spread_pct d = Some v \<longrightarrow> 0 \<le> v)"
proof -
  obtain s where s: "d = mt_direction_of cfg io s" "sum_list (map (si_bytes io) [0..<ms_conns s]) \<noteq> 0"
    using assms(1) by (auto simp: run_stage_def Let_def split: sum.splits if_splits)
  then have d: "d = mt_direction_of cfg io s" "md_bytes_transferred d \<noteq> 0"
    by (simp_all add: mt_direction_of_def Let_def)
  let ?xs = "per_conn_goodput (interval_of (mc_interval_ms cfg)) (max (mc_mad cfg) 2) s"
  have n: "ms_conns s < 2 ^ 32" using assms(2) by (simp add: d mt_direction_of_def Let_def)
  have len: "?xs = [] \<or> length ?xs = ms_conns s" by (simp add: per_conn_goodput_def Let_def)
  have spread: "0 \<le> v" if "spread_of ?xs = Some v" for v
  proof -
    from that have x: "?xs \<noteq> []" "0 < mean ?xs"
      and v: "v = f64_mul (f64_div (f64_sub (fold_max ?xs) (fold_min ?xs)) (mean ?xs)) 100"
      by (auto simp: spread_of_def split: if_splits)
    have "fold_min ?xs \<le> fold_max ?xs" using fold_bounds [of "hd ?xs" ?xs] x(1) by force
    then show ?thesis using x(2) by (simp add: v f64_ops fl.rnd_nonneg)
  qed
  have "\<forall>c \<in> set (md_per_conn d). fold_min ?xs \<le> mn_mbps c \<and> mn_mbps c \<le> fold_max ?xs" if "?xs \<noteq> []"
    using that len fold_bounds [of _ ?xs] by (auto simp: d(1) mt_direction_of_def Let_def mt_conn_of_def)
  moreover have "unat (md_connections d) = ms_conns s"
    using n by (simp add: d(1) mt_direction_of_def Let_def unsigned_of_nat take_bit_nat_eq_self)
  moreover have "md_capacity_mbps d = capacity_of ?xs" "md_fair_share_spread_pct d = spread_of ?xs"
    "md_per_conn_min_mbps d = nonempty fold_min ?xs" "md_per_conn_max_mbps d = nonempty fold_max ?xs"
    "length (md_per_conn d) = ms_conns s"
    by (simp_all add: d(1) mt_direction_of_def Let_def)
  moreover have "unat (md_rwnd_limited_conns d) + unat (md_sndbuf_limited_conns d) + unat (md_path_limited_conns d) +
      unat (md_unobserved_conns d) = ms_conns s"
    using verdict_partition [of "\<lambda>i. limited_verdict (si_stats io i)" "[0..<ms_conns s]"] n
    by (simp add: d(1) mt_direction_of_def Let_def count_verdicts_unat)
  ultimately show ?thesis using d(2) spread
    by (auto simp: word_neq_0_conv capacity_of_def nonempty_def Let_def split: if_splits)
qed

text \<open>A stage whose second interval settles and meets the time box: saturated, and its window is the
  first interval after a connection was added.\<close>

theorem mthroughput_window_witness:
  defines "tick \<equiv> \<lambda>k. \<lparr>sg_totals = (\<lambda>i. if i = 0 then k else 0), sg_spawns = (\<lambda>j. True), sg_ramp_at = 0, sg_elapsed = 0\<rparr>"
  defines "cfg \<equiv> (mthroughput_from_parts \<lparr>tc_base_url = ''u'', tc_insecure = False, tc_ca_bundle = None, tc_timeout_ms = 1\<rparr>)
      \<lparr>mc_mad := 2, mc_sdt := 1 / 2\<rparr>"
  defines "s \<equiv> stage cfg [tick 1, tick 2] (stage_start 1)"
  shows "ms_saturated s \<and> map length (ms_snapshots s) = [1, 2] \<and> length (ms_snapshots s) - 1 - window_ticks 2 s = 0"
proof -
  have fl12: "fl 1 = 1" "fl 2 = 2" using fl_int [of 1] fl_int [of 2] by simp_all
  have sec: "as_secs_f64 1000000000 = 1" using as_secs_f64_whole [of 1] by (simp add: from_secs_def)
  have c: "max (mc_mad cfg) 2 = 2" "interval_of (mc_interval_ms cfg) = 1000000000" "mc_sdt cfg = 1 / 2"
    "mc_max_connections cfg = 8" "mc_add_per_interval cfg = 1" "0 < cap_of (mc_max_duration_ms cfg) (mc_interval_ms cfg)"
    by (simp_all add: cfg_def mthroughput_from_parts_def interval_of_def from_millis_def DEFAULT_INTERVAL_MS_def
      MT_MAX_CONNECTIONS_def DEFAULT_ADD_PER_INTERVAL_def MT_MAX_DURATION_MS_def cap_of_def max_def)
  have one: "mean [1] = 1" "mean [1, 1] = 1" by (simp_all add: mean_def f64_sum_def f64_ops fl12)
  have calm: "settled 2 (1 / 2) [1, 1] 1" "\<not> settled 2 (1 / 2) [1] 1"
    using fl_pos [of "1 / 2"] by (simp_all add: settled_def last_n_def stddev_def one f64_sum_def f64_ops)
  have rows: "ms_snapshots s = [[1], [2, 0]]" "ms_saturated s"
    using calm by (simp_all add: s_def c tick_def stage_step_def stage_measure_def stage_start_def Let_def sat_sub_def
      f64_ops fl12 sec last_n_def one word_le_nat_alt)
  have start: "stage cfg [tick 1, tick 2] (stage_start 1) = s" by (simp only: s_def)
  obtain k where "k < length (ms_snapshots s)"
    "length (ms_snapshots s) < Suc k + 2 \<longrightarrow> length (ms_snapshots s) - 1 - window_ticks 2 s < k"
    using mthroughput_window [of cfg "[tick 1, tick 2]" 1, unfolded start c] rows(2) by blast
  then show ?thesis using rows by (auto simp: less_2_cases_iff)
qed

end
