(* ===== verification/Throughput.thy ===== *)
theory Throughput
  imports Mthroughput H3_Offer
begin

text \<open>
  Single transfers, \<open>crates/networker-tester/src/runner/throughput.rs\<close>: what each download and upload
  mode requests, the throughput and the goodput it attaches to the result, and the checks that the
  bytes which arrived are the bytes asked for. The HTTP probe is an input, a function from the
  request to the attempt it returns.
\<close>

text \<open>The part of an HTTP result that is read or replaced here.\<close>

record http_result =
  hr_status_code :: u16
  hr_body_size_bytes :: nat
  hr_ttfb_ms :: f64
  hr_total_duration_ms :: f64
  hr_response_headers :: "(string \<times> string) list"
  hr_payload_bytes :: nat
  hr_throughput_mbps :: "f64 option"
  hr_goodput_mbps :: "f64 option"
  hr_http_handshake_ms :: "f64 option"

record http_attempt = attempt +
  ha_dns_ms :: "f64 option"
  ha_tcp_ms :: "f64 option"
  ha_tls_ms :: "f64 option"
  ha_http :: "http_result option"
  ha_recv_body_ms :: "f64 option"

section \<open>Timeout and checks\<close>

definition MIN_UPLOAD_BYTES_PER_MS :: nat where "MIN_UPLOAD_BYTES_PER_MS = 100 * 1024 * 1024 div 1000"

definition upload_timeout_ms :: "nat \<Rightarrow> u64 \<Rightarrow> u64" where
  "upload_timeout_ms payload_bytes base_ms =
     max base_ms (of_nat (unat (of_nat payload_bytes :: u64) div MIN_UPLOAD_BYTES_PER_MS) + 10000)"

definition failed_with :: "attempt_ids \<Rightarrow> string \<Rightarrow> http_attempt \<Rightarrow> http_attempt" where
  "failed_with ids msg a = a\<lparr>at_success := False, at_error := Some (error_of ids HttpError msg)\<rparr>"

definition received_header :: "http_result \<Rightarrow> nat option" where
  "received_header h =
     Option.bind (find (\<lambda>(k, _). eq_ignore_ascii_case k ''x-networker-received-bytes'') (hr_response_headers h))
       (\<lambda>(_, v). map_option unat (parse_u64 v))"

definition verify_upload :: "attempt_ids \<Rightarrow> nat \<Rightarrow> http_attempt \<Rightarrow> http_attempt" where
  "verify_upload ids expected_bytes a =
     (if \<not> at_success a then a
      else case Option.bind (ha_http a) received_header of
          Some n \<Rightarrow> (if n = expected_bytes then a
            else failed_with ids (''Upload size mismatch: sent '' @ decimal expected_bytes @
              '' bytes but server received '' @ decimal n @ '' bytes'') a)
        | None \<Rightarrow> a)"

definition verify_download :: "attempt_ids \<Rightarrow> nat \<Rightarrow> http_attempt \<Rightarrow> http_attempt" where
  "verify_download ids expected_bytes a =
     (if \<not> at_success a then a
      else case ha_http a of
          None \<Rightarrow> a
        | Some h \<Rightarrow> (if hr_body_size_bytes h \<noteq> expected_bytes
            then failed_with ids (''Download size mismatch: requested '' @ decimal expected_bytes @
              '' bytes but received '' @ decimal (hr_body_size_bytes h) @ '' bytes'') a
            else a))"

section \<open>The figures\<close>

definition or_zero :: "f64 option \<Rightarrow> f64" where
  "or_zero x = (case x of Some v \<Rightarrow> v | None \<Rightarrow> 0)"

definition compute_overhead_ms :: "http_attempt \<Rightarrow> f64" where
  "compute_overhead_ms a = f64_add (f64_add (or_zero (ha_dns_ms a)) (or_zero (ha_tcp_ms a))) (or_zero (ha_tls_ms a))"

definition http_mbps :: "nat \<Rightarrow> f64 \<Rightarrow> f64 option" where
  "http_mbps payload_bytes transfer_ms =
     (if 0 < transfer_ms
      then Some (f64_div (f64_mul (f64_div (fl (real payload_bytes)) transfer_ms) 1000) (1024 * 1024)) else None)"

definition patch_throughput :: "http_result \<Rightarrow> nat \<Rightarrow> http_result" where
  "patch_throughput h payload_bytes =
     (let transfer_ms = f64_sub (f64_sub (hr_total_duration_ms h) (hr_ttfb_ms h)) (or_zero (hr_http_handshake_ms h))
      in h\<lparr>hr_payload_bytes := payload_bytes, hr_throughput_mbps := http_mbps (hr_body_size_bytes h) transfer_ms\<rparr>)"

definition patch_upload_throughput :: "http_result \<Rightarrow> nat \<Rightarrow> f64 option \<Rightarrow> http_result" where
  "patch_upload_throughput h payload_bytes server_recv_ms =
     (let transfer_ms = (case server_recv_ms of Some srv \<Rightarrow> max srv (hr_ttfb_ms h) | None \<Rightarrow> hr_ttfb_ms h)
      in h\<lparr>hr_payload_bytes := payload_bytes, hr_throughput_mbps := http_mbps payload_bytes transfer_ms\<rparr>)"

definition MAX_PLAUSIBLE_MBPS :: f64 where "MAX_PLAUSIBLE_MBPS = 100000"

definition patch_webupload_throughput :: "http_result \<Rightarrow> nat \<Rightarrow> f64 option \<Rightarrow> http_result" where
  "patch_webupload_throughput h payload_bytes server_recv_ms =
     (let transfer_ms = (case server_recv_ms of Some srv \<Rightarrow> max srv (hr_ttfb_ms h) | None \<Rightarrow> hr_total_duration_ms h);
          throughput = (case http_mbps payload_bytes transfer_ms of
            Some v \<Rightarrow> (if v \<le> MAX_PLAUSIBLE_MBPS then Some v else None) | None \<Rightarrow> None)
      in h\<lparr>hr_payload_bytes := payload_bytes, hr_throughput_mbps := throughput\<rparr>)"

text \<open>The patched result with the goodput over setup and transfer.\<close>

definition attach :: "(http_result \<Rightarrow> http_result) \<Rightarrow> http_attempt \<Rightarrow> http_attempt" where
  "attach patch a = (case ha_http a of
     None \<Rightarrow> a
   | Some h \<Rightarrow> (let patched = patch h
       in a\<lparr>ha_http := Some (patched\<lparr>hr_goodput_mbps :=
            http_mbps (hr_payload_bytes patched) (f64_add (compute_overhead_ms a) (hr_total_duration_ms patched))\<rparr>)\<rparr>))"

section \<open>The modes\<close>

record 'u transfer_request =
  tq_protocol :: protocol
  tq_target :: 'u
  tq_payload_size :: nat
  tq_timeout_ms :: u64
  tq_http3 :: bool

type_synonym 'u http_probe = "'u transfer_request \<Rightarrow> http_attempt"

datatype transport_style = OverHttp1 | OverHttp2 | OverHttp3

definition transfer_base :: "'u url_api \<Rightarrow> transport_style \<Rightarrow> 'u throughput_config \<Rightarrow> 'u" where
  "transfer_base api style cfg = (case style of
     OverHttp1 \<Rightarrow> rewrite_to_http api (tc_base_url cfg)
   | _ \<Rightarrow> tc_base_url cfg)"

definition download_url :: "'u url_api \<Rightarrow> nat \<Rightarrow> 'u \<Rightarrow> 'u" where
  "download_url api payload_bytes base =
     set_query api (Some (''bytes='' @ decimal payload_bytes)) (set_path api ''/download'' base)"

definition upload_url :: "'u url_api \<Rightarrow> 'u \<Rightarrow> 'u" where
  "upload_url api base = set_query api None (set_path api ''/upload'' base)"

definition http_download_request :: "'u url_api \<Rightarrow> 'u throughput_config \<Rightarrow> protocol \<Rightarrow> bool \<Rightarrow> nat \<Rightarrow> 'u \<Rightarrow> 'u transfer_request" where
  "http_download_request api cfg p h3 payload_bytes base = \<lparr>tq_protocol = p, tq_target = download_url api payload_bytes base,
     tq_payload_size = 0, tq_timeout_ms = tc_timeout_ms cfg, tq_http3 = h3\<rparr>"

definition http_upload_request :: "'u url_api \<Rightarrow> 'u throughput_config \<Rightarrow> protocol \<Rightarrow> bool \<Rightarrow> nat \<Rightarrow> 'u \<Rightarrow> 'u transfer_request" where
  "http_upload_request api cfg p h3 payload_bytes base = \<lparr>tq_protocol = p, tq_target = upload_url api base,
     tq_payload_size = payload_bytes, tq_timeout_ms = upload_timeout_ms payload_bytes (tc_timeout_ms cfg), tq_http3 = h3\<rparr>"

definition run_webdownload_probe :: "'u url_api \<Rightarrow> 'u http_probe \<Rightarrow> attempt_ids \<Rightarrow> nat \<Rightarrow> 'u throughput_config \<Rightarrow> http_attempt" where
  "run_webdownload_probe api probe ids payload_bytes cfg =
     verify_download ids payload_bytes
       (attach (\<lambda>h. patch_throughput h (hr_body_size_bytes h))
         (probe (http_download_request api cfg WebDownload False payload_bytes (tc_base_url cfg))))"

definition run_webupload_probe :: "'u url_api \<Rightarrow> 'u http_probe \<Rightarrow> attempt_ids \<Rightarrow> nat \<Rightarrow> 'u throughput_config \<Rightarrow> http_attempt" where
  "run_webupload_probe api probe ids payload_bytes cfg =
     (let a = probe (http_upload_request api cfg WebUpload False payload_bytes (tc_base_url cfg))
      in verify_upload ids payload_bytes
           (attach (\<lambda>h. patch_webupload_throughput h payload_bytes (ha_recv_body_ms a)) a))"

definition run_labeled_download_probe :: "'u url_api \<Rightarrow> 'u http_probe \<Rightarrow> attempt_ids \<Rightarrow> nat \<Rightarrow> 'u throughput_config \<Rightarrow>
   protocol \<Rightarrow> transport_style \<Rightarrow> http_attempt" where
  "run_labeled_download_probe api probe ids payload_bytes cfg p style =
     verify_download ids payload_bytes
       (attach (\<lambda>h. patch_throughput h payload_bytes)
         (probe (http_download_request api cfg p (style = OverHttp3) payload_bytes (transfer_base api style cfg))))"

definition run_labeled_upload_probe :: "'u url_api \<Rightarrow> 'u http_probe \<Rightarrow> attempt_ids \<Rightarrow> nat \<Rightarrow> 'u throughput_config \<Rightarrow>
   protocol \<Rightarrow> transport_style \<Rightarrow> http_attempt" where
  "run_labeled_upload_probe api probe ids payload_bytes cfg p style =
     (let a = probe (http_upload_request api cfg p (style = OverHttp3) payload_bytes (transfer_base api style cfg))
      in verify_upload ids payload_bytes
           (attach (\<lambda>h. patch_upload_throughput h payload_bytes (ha_recv_body_ms a)) a))"

text \<open>The plain modes use the base URL as it is, as the labelled ones over HTTP/2 do.\<close>

definition run_download_probe :: "'u url_api \<Rightarrow> 'u http_probe \<Rightarrow> attempt_ids \<Rightarrow> nat \<Rightarrow> 'u throughput_config \<Rightarrow> http_attempt" where
  "run_download_probe api probe ids payload_bytes cfg =
     verify_download ids payload_bytes
       (attach (\<lambda>h. patch_throughput h payload_bytes)
         (probe (http_download_request api cfg Download False payload_bytes (tc_base_url cfg))))"

definition run_upload_probe :: "'u url_api \<Rightarrow> 'u http_probe \<Rightarrow> attempt_ids \<Rightarrow> nat \<Rightarrow> 'u throughput_config \<Rightarrow> http_attempt" where
  "run_upload_probe api probe ids payload_bytes cfg =
     (let a = probe (http_upload_request api cfg Upload False payload_bytes (tc_base_url cfg))
      in verify_upload ids payload_bytes
           (attach (\<lambda>h. patch_upload_throughput h payload_bytes (ha_recv_body_ms a)) a))"

definition run_download1_probe :: "'u url_api \<Rightarrow> 'u http_probe \<Rightarrow> attempt_ids \<Rightarrow> nat \<Rightarrow> 'u throughput_config \<Rightarrow> http_attempt" where
  "run_download1_probe api probe ids n cfg = run_labeled_download_probe api probe ids n cfg Download1 OverHttp1"
definition run_download2_probe :: "'u url_api \<Rightarrow> 'u http_probe \<Rightarrow> attempt_ids \<Rightarrow> nat \<Rightarrow> 'u throughput_config \<Rightarrow> http_attempt" where
  "run_download2_probe api probe ids n cfg = run_labeled_download_probe api probe ids n cfg Download2 OverHttp2"
definition run_download3_probe :: "'u url_api \<Rightarrow> 'u http_probe \<Rightarrow> attempt_ids \<Rightarrow> nat \<Rightarrow> 'u throughput_config \<Rightarrow> http_attempt" where
  "run_download3_probe api probe ids n cfg = run_labeled_download_probe api probe ids n cfg Download3 OverHttp3"
definition run_upload1_probe :: "'u url_api \<Rightarrow> 'u http_probe \<Rightarrow> attempt_ids \<Rightarrow> nat \<Rightarrow> 'u throughput_config \<Rightarrow> http_attempt" where
  "run_upload1_probe api probe ids n cfg = run_labeled_upload_probe api probe ids n cfg Upload1 OverHttp1"
definition run_upload2_probe :: "'u url_api \<Rightarrow> 'u http_probe \<Rightarrow> attempt_ids \<Rightarrow> nat \<Rightarrow> 'u throughput_config \<Rightarrow> http_attempt" where
  "run_upload2_probe api probe ids n cfg = run_labeled_upload_probe api probe ids n cfg Upload2 OverHttp2"
definition run_upload3_probe :: "'u url_api \<Rightarrow> 'u http_probe \<Rightarrow> attempt_ids \<Rightarrow> nat \<Rightarrow> 'u throughput_config \<Rightarrow> http_attempt" where
  "run_upload3_probe api probe ids n cfg = run_labeled_upload_probe api probe ids n cfg Upload3 OverHttp3"

text \<open>The probe that a sized HTTP mode runs.\<close>

definition run_transfer :: "'u url_api \<Rightarrow> 'u http_probe \<Rightarrow> attempt_ids \<Rightarrow> protocol \<Rightarrow> nat \<Rightarrow> 'u throughput_config \<Rightarrow> http_attempt option" where
  "run_transfer api probe ids p n cfg = (case p of
     Download \<Rightarrow> Some (run_download_probe api probe ids n cfg)
   | Download1 \<Rightarrow> Some (run_download1_probe api probe ids n cfg)
   | Download2 \<Rightarrow> Some (run_download2_probe api probe ids n cfg)
   | Download3 \<Rightarrow> Some (run_download3_probe api probe ids n cfg)
   | Upload \<Rightarrow> Some (run_upload_probe api probe ids n cfg)
   | Upload1 \<Rightarrow> Some (run_upload1_probe api probe ids n cfg)
   | Upload2 \<Rightarrow> Some (run_upload2_probe api probe ids n cfg)
   | Upload3 \<Rightarrow> Some (run_upload3_probe api probe ids n cfg)
   | WebDownload \<Rightarrow> Some (run_webdownload_probe api probe ids n cfg)
   | WebUpload \<Rightarrow> Some (run_webupload_probe api probe ids n cfg)
   | _ \<Rightarrow> None)"

end
