(* ===== verification/Throughput_Properties.thy ===== *)
theory Throughput_Properties
  imports Throughput Rpm_Properties
begin

text \<open>
  The properties of the transfers: what a success means, what the figures are, and how long an
  upload may take; and that an upload body counts what it hands over.
\<close>

definition downloads :: "protocol set" where
  "downloads = {Download, Download1, Download2, Download3, WebDownload}"

lemma http_mbps_nonneg: "http_mbps n ms = Some v \<Longrightarrow> 0 \<le> v \<and> 0 < ms"
  by (auto simp: http_mbps_def f64_ops fl.rnd_nonneg split: if_splits)

lemma attach_sel [simp]:
  "at_success (attach f a) = at_success a" "at_error (attach f a) = at_error a"
  "ha_http (attach f a) = map_option (\<lambda>h. (f h)\<lparr>hr_goodput_mbps := http_mbps (hr_payload_bytes (f h))
     (f64_add (compute_overhead_ms a) (hr_total_duration_ms (f h)))\<rparr>) (ha_http a)"
  by (auto simp: attach_def Let_def split: option.splits)

lemma patched_sel [simp]:
  "hr_body_size_bytes (patch_throughput h n) = hr_body_size_bytes h"
  "hr_response_headers (patch_upload_throughput h n r) = hr_response_headers h"
  "hr_response_headers (patch_webupload_throughput h n r) = hr_response_headers h"
  by (simp_all add: patch_throughput_def patch_upload_throughput_def patch_webupload_throughput_def Let_def)

lemma verify_download_success:
  "at_success (verify_download ids n a) \<longleftrightarrow> at_success a \<and> (\<forall>h. ha_http a = Some h \<longrightarrow> hr_body_size_bytes h = n)"
  "ha_http (verify_download ids n a) = ha_http a"
  by (auto simp: verify_download_def failed_with_def split: option.splits)

lemma verify_upload_success:
  "at_success (verify_upload ids n a) \<longleftrightarrow> at_success a \<and>
     (\<forall>h m. ha_http a = Some h \<and> received_header h = Some m \<longrightarrow> m = n)"
  "ha_http (verify_upload ids n a) = ha_http a"
  by (auto simp: verify_upload_def failed_with_def split: option.splits bind_splits)

lemma received_header_cong: "hr_response_headers h = hr_response_headers h' \<Longrightarrow> received_header h = received_header h'"
  by (simp add: received_header_def)

text \<open>The raw attempt, and the result of a transfer made of it.\<close>

definition download_of :: "attempt_ids \<Rightarrow> nat \<Rightarrow> http_attempt \<Rightarrow> http_attempt \<Rightarrow> bool" where
  "download_of ids n b a \<longleftrightarrow> (\<exists>f. a = verify_download ids n (attach (\<lambda>h. patch_throughput h (f h)) b))"

lemma download_ofI [intro]: "download_of ids n b (verify_download ids n (attach (\<lambda>h. patch_throughput h m) b))"
  unfolding download_of_def by (rule exI [of _ "\<lambda>h. m"]) (rule refl)

lemma download_of_bodyI [intro]:
  "download_of ids n b (verify_download ids n (attach (\<lambda>h. patch_throughput h (hr_body_size_bytes h)) b))"
  unfolding download_of_def by (rule exI [of _ hr_body_size_bytes]) (rule refl)

definition upload_of :: "attempt_ids \<Rightarrow> nat \<Rightarrow> bool \<Rightarrow> http_attempt \<Rightarrow> http_attempt \<Rightarrow> bool" where
  "upload_of ids n web b a \<longleftrightarrow> a = verify_upload ids n (attach (\<lambda>h.
     (if web then patch_webupload_throughput else patch_upload_throughput) h n (ha_recv_body_ms b)) b)"

lemmas transfer_defs = run_transfer_def run_download_probe_def run_download1_probe_def run_download2_probe_def
  run_download3_probe_def run_upload_probe_def run_upload1_probe_def run_upload2_probe_def run_upload3_probe_def
  run_webdownload_probe_def run_webupload_probe_def run_labeled_download_probe_def run_labeled_upload_probe_def Let_def

lemma run_transfer_cases:
  assumes "run_transfer api probe ids p n cfg = Some a"
  shows "(p \<in> downloads \<and> (\<exists>h3 base. download_of ids n (probe (http_download_request api cfg p h3 n base)) a)) \<or>
    (p \<notin> downloads \<and> (\<exists>h3 base. upload_of ids n (p = WebUpload) (probe (http_upload_request api cfg p h3 n base)) a))"
  using assms
  by (cases p) (auto simp: transfer_defs downloads_def upload_of_def)

lemma download_of_facts:
  assumes "download_of ids n b a"
  shows "at_success a \<longleftrightarrow> at_success b \<and> (\<forall>h. ha_http b = Some h \<longrightarrow> hr_body_size_bytes h = n)"
    and "ha_http a = Some h \<Longrightarrow> hr_throughput_mbps h = Some v \<Longrightarrow> 0 \<le> v \<and> (\<exists>ms > 0. http_mbps (hr_body_size_bytes h) ms = Some v)"
proof -
  obtain f where a: "a = verify_download ids n (attach (\<lambda>h. patch_throughput h (f h)) b)"
    using assms by (auto simp: download_of_def)
  show "at_success a \<longleftrightarrow> at_success b \<and> (\<forall>h. ha_http b = Some h \<longrightarrow> hr_body_size_bytes h = n)"
    by (auto simp: a verify_download_success)
  assume "ha_http a = Some h" "hr_throughput_mbps h = Some v"
  then obtain ms where "http_mbps (hr_body_size_bytes h) ms = Some v"
    by (auto simp: a verify_download_success patch_throughput_def Let_def)
  then show "0 \<le> v \<and> (\<exists>ms > 0. http_mbps (hr_body_size_bytes h) ms = Some v)" using http_mbps_nonneg by blast
qed

lemma upload_of_facts:
  assumes "upload_of ids n web b a"
  shows "at_success a \<longleftrightarrow> at_success b \<and> (\<forall>h m. ha_http b = Some h \<and> received_header h = Some m \<longrightarrow> m = n)"
    and "ha_http a = Some h \<Longrightarrow> hr_throughput_mbps h = Some v \<Longrightarrow> 0 \<le> v \<and> (\<exists>ms > 0. http_mbps n ms = Some v) \<and> (web \<longrightarrow> v \<le> 100000)"
proof -
  let ?f = "\<lambda>h. (if web then patch_webupload_throughput else patch_upload_throughput) h n (ha_recv_body_ms b)"
  have a: "a = verify_upload ids n (attach ?f b)" using assms by (simp add: upload_of_def)
  have "received_header ((?f h)\<lparr>hr_goodput_mbps := g\<rparr>) = received_header h" for h g
    by (rule received_header_cong) simp
  then show "at_success a \<longleftrightarrow> at_success b \<and> (\<forall>h m. ha_http b = Some h \<and> received_header h = Some m \<longrightarrow> m = n)"
    by (auto simp: a verify_upload_success)
  assume "ha_http a = Some h" "hr_throughput_mbps h = Some v"
  then obtain ms where "http_mbps n ms = Some v \<and> (web \<longrightarrow> v \<le> 100000)"
    by (auto simp: a verify_upload_success patch_upload_throughput_def patch_webupload_throughput_def Let_def
      MAX_PLAUSIBLE_MBPS_def split: if_splits option.splits)
  then show "0 \<le> v \<and> (\<exists>ms > 0. http_mbps n ms = Some v) \<and> (web \<longrightarrow> v \<le> 100000)" using http_mbps_nonneg by blast
qed

lemma upload_timeout_bounds:
  assumes "n < 2 ^ 64"
  shows "base \<le> upload_timeout_ms n base \<and> n div 104857 + 10000 \<le> unat (upload_timeout_ms n base)"
proof -
  have n: "unat (of_nat n :: u64) = n" using assms by (simp add: unsigned_of_nat take_bit_nat_eq_self)
  have small: "n div 104857 + 10000 < 2 ^ 64" using assms by (simp add: div_less_dividend less_mult_imp_div_less)
  then have "unat (of_nat (n div 104857) + 10000 :: u64) = n div 104857 + 10000"
    by (simp add: unat_word_ariths unsigned_of_nat take_bit_nat_eq_self)
  then show ?thesis
    by (simp add: upload_timeout_ms_def MIN_UPLOAD_BYTES_PER_MS_def n max_def word_le_nat_alt)
qed



section \<open>The upload body\<close>

text \<open>The upload body of the load modes counts exactly what it hands over. However often the transport
  polls it, the frames handed over so far and the hint of what is left add up to the size, the
  shared counter has grown by the sum of the frames, modulo its 64 bits, and no frame is empty or
  longer than a chunk; and it is used up once the transport has polled it as often as there are
  chunks.\<close>

theorem upload_body_counts:
  fixes size :: nat
  assumes "polled n (counted_upload_body size counter) = (frames, b)"
  shows "sum_list frames + size_hint b = size \<and> ub_counter b = counter + of_nat (sum_list frames) \<and>
    (\<forall>k \<in> set frames. 0 < k \<and> k \<le> UPLOAD_CHUNK) \<and>
    (div_ceil size UPLOAD_CHUNK \<le> n \<longrightarrow> sum_list frames = size)"
proof -
  let ?b = "counted_upload_body size counter"
  have b: "ub_remaining ?b = size" "ub_counter ?b = counter" by (simp_all add: counted_upload_body_def)
  have "0 < UPLOAD_CHUNK" by (simp add: UPLOAD_CHUNK_def)
  then have "ub_remaining b = 0" if "div_ceil size UPLOAD_CHUNK \<le> n"
    using polled_all [of ?b n] that assms by (simp add: div_ceil_le_iff b)
  then show ?thesis using polled_counts [OF assms] by (auto simp: b size_hint_def)
qed

theorem upload_body_counts_witness:
  "fst (polled 2 (counted_upload_body 70000 0)) = [65536, 4464] \<and> ub_counter (snd (polled 2 (counted_upload_body 70000 0))) = 70000"
proof -
  have p: "polled 2 (counted_upload_body 70000 0) = ([65536, 4464], \<lparr>ub_remaining = 0, ub_counter = 70000\<rparr>)"
    by (simp add: numeral_2_eq_2 counted_upload_body_def poll_frame_def UPLOAD_CHUNK_def)
  from upload_body_counts [OF p] show ?thesis by (simp add: p)
qed

end
