(* ===== verification/Endpoint_Http.thy ===== *)
theory Endpoint_Http
  imports Formats
begin

text \<open>
  The endpoint's HTTP vocabulary, \<open>crates/networker-endpoint/src/routes.rs\<close>: the state of the router,
  what a handler reads of a request and what it answers, and the two layers every request of the
  HTTP/1.1 and HTTP/2 listeners passes, the bearer token and the standard headers.

  Header names are the lower-case names that \<open>http\<close> canonicalises to, a header value is the string
  of its bytes; \<open>header_insert\<close> replaces an entry as \<open>HeaderMap::insert\<close> does. A JSON value is a tree,
  its text is the serialiser's. The validity of a header value, reading a header value as text and
  the extractors of the web framework are the record \<open>web\<close>.
\<close>

datatype jvalue =
    NullV
  | BoolV bool
  | NatV nat
  | RealV f64
  | StrV string
  | ArrV "jvalue list"
  | ObjV "(string \<times> jvalue) list"

fun member :: "string \<Rightarrow> jvalue \<Rightarrow> jvalue" where
  "member k (ObjV kvs) = (case map_of kvs k of Some v \<Rightarrow> v | None \<Rightarrow> NullV)"
| "member k _ = NullV"

fun as_str :: "jvalue \<Rightarrow> string option" where
  "as_str (StrV s) = Some s"
| "as_str _ = None"

fun as_u64 :: "jvalue \<Rightarrow> nat option" where
  "as_u64 (NatV n) = Some n"
| "as_u64 _ = None"

fun as_f64 :: "jvalue \<Rightarrow> f64 option" where
  "as_f64 (RealV x) = Some x"
| "as_f64 (NatV n) = Some (fl (real n))"
| "as_f64 _ = None"

section \<open>Requests and responses\<close>

datatype ep_version = Http09 | Http10 | Http11 | Http2V | Http3V | OtherVersion

datatype ep_frame = EpData bytes | EpTrailers | EpFrameError

record ep_request =
  eq_method :: string
  eq_path :: string
  eq_query :: "string option"
  eq_version :: ep_version
  eq_headers :: "(string \<times> string) list"
  eq_body :: "ep_frame list"

datatype ep_body = TextBody string | StreamBody "bytes list" | JsonBody jvalue

record ep_response =
  es_status :: nat
  es_headers :: "(string \<times> string) list"
  es_body :: ep_body

definition header_insert :: "string \<Rightarrow> string \<Rightarrow> (string \<times> string) list \<Rightarrow> (string \<times> string) list" where
  "header_insert k v hs = filter (\<lambda>h. fst h \<noteq> k) hs @ [(k, v)]"

definition insert_header :: "string \<Rightarrow> string \<Rightarrow> ep_response \<Rightarrow> ep_response" where
  "insert_header k v r = r\<lparr>es_headers := header_insert k v (es_headers r)\<rparr>"

definition response_header :: "string \<Rightarrow> ep_response \<Rightarrow> string option" where
  "response_header k r = map_of (es_headers r) k"

definition json_answer :: "nat \<Rightarrow> jvalue \<Rightarrow> ep_response" where
  "json_answer status v = \<lparr>es_status = status, es_headers = [(''content-type'', ''application/json'')], es_body = JsonBody v\<rparr>"

lemma header_insert_get [simp]:
  "map_of (header_insert k v hs) j = (if j = k then Some v else map_of hs j)"
proof -
  have none: "map_of (filter (\<lambda>h. fst h \<noteq> k) hs) k = None" by (simp add: map_of_eq_None_iff image_iff)
  have other: "map_of (filter (\<lambda>h. fst h \<noteq> k) hs) j = map_of hs j" if "j \<noteq> k"
    using that by (induction hs) auto
  show ?thesis using none other by (auto simp: header_insert_def map_add_def split: option.splits)
qed

lemma insert_header_simps [simp]:
  "es_status (insert_header k v r) = es_status r" "es_body (insert_header k v r) = es_body r"
  "response_header j (insert_header k v r) = (if j = k then Some v else response_header j r)"
  by (simp_all add: insert_header_def response_header_def)

record web =
  web_header_ok :: "string \<Rightarrow> bool"
  web_to_str :: "string \<Rightarrow> string option"
  web_usize :: "string \<Rightarrow> string option \<Rightarrow> ep_response + nat option"
  web_string :: "string \<Rightarrow> string option \<Rightarrow> ep_response + string option"
  web_path_usize :: "string \<Rightarrow> ep_response + nat"
  web_path_u16 :: "string \<Rightarrow> ep_response + u16"
  web_bytes :: "ep_frame list \<Rightarrow> ep_response + bytes"

section \<open>The state of the router\<close>

record system_meta =
  sy_os :: string
  sy_arch :: string
  sy_cpu_cores :: nat
  sy_total_memory_mb :: "u64 option"
  sy_os_version :: "string option"
  sy_hostname :: string
  sy_region :: "string option"
  sy_public_dns :: "string option"
  sy_public_ip :: "string option"

record app_state =
  as_h3_port :: "u16 option"
  as_http_port :: u16
  as_https_port :: u16
  as_udp_port :: u16
  as_udp_throughput_port :: u16
  as_stamp_port :: u16
  as_api_upstream :: "string option"
  as_started_at :: instant
  as_system_meta :: system_meta
  as_bench_token :: "string option"

definition CARGO_PKG_VERSION :: string where "CARGO_PKG_VERSION = ''0.28.319''"

section \<open>The layers\<close>

definition add_server_timestamp :: "web \<Rightarrow> app_state \<Rightarrow> string \<Rightarrow> ep_response \<Rightarrow> ep_response" where
  "add_server_timestamp w st ts r =
     (let r1 = (if web_header_ok w ts then insert_header ''x-networker-server-timestamp'' ts r else r);
          r2 = insert_header ''x-networker-server-version'' CARGO_PKG_VERSION r1
      in case as_h3_port st of
           None \<Rightarrow> r2
         | Some p \<Rightarrow> (let alt_svc = ''h3='' @ [CHR 0x22] @ '':'' @ decimal (unat p) @ [CHR 0x22] @ ''; ma=86400''
             in if web_header_ok w alt_svc then insert_header ''alt-svc'' alt_svc r2 else r2))"

definition auth_metric :: "f64 \<Rightarrow> string" where
  "auth_metric dur_ms = ''auth;dur='' @ fixed 1 dur_ms"

definition bearer_token :: "web \<Rightarrow> ep_request \<Rightarrow> string option" where
  "bearer_token w req =
     Option.bind (Option.bind (map_of (eq_headers req) ''authorization'') (web_to_str w)) (strip_prefix ''Bearer '')"

definition unauthorized :: "web \<Rightarrow> f64 \<Rightarrow> ep_response" where
  "unauthorized w dur_ms =
     (let r = json_answer 401 (ObjV [(''error'', StrV ''unauthorized'')])
      in if web_header_ok w (auth_metric dur_ms) then insert_header ''server-timing'' (auth_metric dur_ms) r else r)"

definition append_auth_timing :: "web \<Rightarrow> f64 \<Rightarrow> ep_response \<Rightarrow> ep_response" where
  "append_auth_timing w dur_ms r = (case response_header ''server-timing'' r of
     Some existing \<Rightarrow>
       (let combined = (case web_to_str w existing of Some s \<Rightarrow> s | None \<Rightarrow> '''') @ '', '' @ auth_metric dur_ms
        in if web_header_ok w combined then insert_header ''server-timing'' combined r else r)
   | None \<Rightarrow> (if web_header_ok w (auth_metric dur_ms) then insert_header ''server-timing'' (auth_metric dur_ms) r else r))"

definition bench_auth_middleware :: "web \<Rightarrow> app_state \<Rightarrow> f64 \<Rightarrow> ep_request \<Rightarrow> (ep_request \<Rightarrow> ep_response option) \<Rightarrow> ep_response option" where
  "bench_auth_middleware w st dur_ms req next_service =
     (if eq_path req = ''/health'' then next_service req
      else if (case as_bench_token st of
          Some expected \<Rightarrow> bearer_token w req \<noteq> Some expected | None \<Rightarrow> False)
      then Some (unauthorized w dur_ms)
      else map_option (append_auth_timing w dur_ms) (next_service req))"

lemma append_auth_timing_simps [simp]:
  "es_status (append_auth_timing w d r) = es_status r" "es_body (append_auth_timing w d r) = es_body r"
  by (simp_all add: append_auth_timing_def Let_def split: option.splits)

lemma append_auth_timing_header [simp]:
  "k \<noteq> ''server-timing'' \<Longrightarrow> response_header k (append_auth_timing w d r) = response_header k r"
  by (simp add: append_auth_timing_def Let_def split: option.splits)

lemma add_server_timestamp_simps [simp]:
  "es_status (add_server_timestamp w st ts r) = es_status r" "es_body (add_server_timestamp w st ts r) = es_body r"
  "response_header ''x-networker-server-version'' (add_server_timestamp w st ts r) = Some CARGO_PKG_VERSION"
  by (simp_all add: add_server_timestamp_def Let_def split: option.splits)

end
