(* ===== verification/Endpoint_Routes.thy ===== *)
theory Endpoint_Routes
  imports Endpoint_Http
begin

text \<open>
  The diagnostic handlers of the endpoint, \<open>crates/networker-endpoint/src/routes.rs\<close>, and the readings
  of the host they report. A handler takes the parameters its extractors produced and what it read
  of the clock and of the operating system; the answers of the cloud metadata services are a
  function from the address, host, path and headers to the text received.
\<close>

section \<open>Readings of the host\<close>

fun find_prefixed :: "string \<Rightarrow> string list \<Rightarrow> string option" where
  "find_prefixed key [] = None"
| "find_prefixed key (l # ls) = (case strip_prefix key l of Some r \<Rightarrow> Some r | None \<Rightarrow> find_prefixed key ls)"

definition parse_meminfo_mb :: "string \<Rightarrow> string \<Rightarrow> u64 option" where
  "parse_meminfo_mb meminfo key =
     (case find_prefixed key (str_lines meminfo) of
        None \<Rightarrow> None
      | Some r \<Rightarrow> (case split_whitespace r of
            [] \<Rightarrow> None
          | tok # _ \<Rightarrow> map_option (\<lambda>kb. kb div 1024) (parse_u64 tok)))"

text \<open>\<open>parse_f64\<close> is \<open>str::parse::<f64>\<close>; \<open>None\<close> also stands for a value that is not finite, which the filter drops.\<close>

definition parse_load_avg_1m :: "(string \<Rightarrow> f64 option) \<Rightarrow> string \<Rightarrow> f64 option" where
  "parse_load_avg_1m parse_f64 txt =
     (case find (\<lambda>tok. \<not> starts_with ''{'' tok) (split_whitespace txt) of
        None \<Rightarrow> None
      | Some tok \<Rightarrow> (case parse_f64 tok of Some v \<Rightarrow> (if 0 \<le> v then Some v else None) | None \<Rightarrow> None))"

definition trim_char :: "char \<Rightarrow> string \<Rightarrow> string" where
  "trim_char c s = rev (dropWhile (\<lambda>x. x = c) (rev (dropWhile (\<lambda>x. x = c) s)))"

definition detect_os_version :: "string option \<Rightarrow> string option" where
  "detect_os_version os_release = (case os_release of
     None \<Rightarrow> None
   | Some release \<Rightarrow> map_option (trim_char (CHR 0x22)) (find_prefixed ''PRETTY_NAME='' (str_lines release)))"

definition nonempty_text :: "string option \<Rightarrow> string option" where
  "nonempty_text s = (case s of Some t \<Rightarrow> (if t \<noteq> [] then Some t else None) | None \<Rightarrow> None)"

text \<open>The first that is there and not empty: two environment variables, the kernel's file, a command.\<close>

definition get_hostname :: "string option \<Rightarrow> string option \<Rightarrow> string option \<Rightarrow> string option \<Rightarrow> string" where
  "get_hostname env_hostname env_computername proc_hostname command =
     (case nonempty_text env_hostname of Some h \<Rightarrow> h | None \<Rightarrow>
      (case nonempty_text env_computername of Some h \<Rightarrow> h | None \<Rightarrow>
       (case nonempty_text (map_option trim proc_hostname) of Some h \<Rightarrow> h | None \<Rightarrow>
        (case nonempty_text (map_option trim command) of Some h \<Rightarrow> h | None \<Rightarrow> ''unknown''))))"

definition format_uptime :: "u64 \<Rightarrow> string" where
  "format_uptime secs =
     (let n = unat secs; d = n div 86400; h = n mod 86400 div 3600; m = n mod 3600 div 60; s = n mod 60
      in if 0 < d then decimal d @ ''d '' @ decimal h @ ''h '' @ decimal m @ ''m''
         else if 0 < h then decimal h @ ''h '' @ decimal m @ ''m '' @ decimal s @ ''s''
         else if 0 < m then decimal m @ ''m '' @ decimal s @ ''s''
         else decimal s @ ''s'')"

section \<open>The cloud the host runs in\<close>

record metadata_query =
  mq_host_port :: string
  mq_host_header :: string
  mq_path_query :: string
  mq_headers :: "(string \<times> string) list"

definition CRLF :: string where "CRLF = [CR, LF]"

definition metadata_request :: "metadata_query \<Rightarrow> string" where
  "metadata_request q = ''GET '' @ mq_path_query q @ '' HTTP/1.1'' @ CRLF @ ''Host: '' @ mq_host_header q @ CRLF @
     ''Connection: close'' @ CRLF @ concat (map (\<lambda>(k, v). k @ '': '' @ v @ CRLF) (mq_headers q)) @ CRLF"

fun contains_text :: "string \<Rightarrow> string \<Rightarrow> bool" where
  "contains_text pat [] \<longleftrightarrow> pat = []"
| "contains_text pat (c # cs) \<longleftrightarrow> starts_with pat (c # cs) \<or> contains_text pat cs"

text \<open>What follows the first blank line, up to the next one.\<close>

function text_before :: "string \<Rightarrow> string \<Rightarrow> string" where
  "text_before pat s = (case s of [] \<Rightarrow> [] | c # cs \<Rightarrow> if starts_with pat s then [] else c # text_before pat cs)"
  by pat_completeness auto
termination by (relation "measure (length \<circ> snd)") auto

declare text_before.simps [simp del]

fun text_after :: "string \<Rightarrow> string \<Rightarrow> string option" where
  "text_after pat [] = None"
| "text_after pat (c # cs) = (case strip_prefix pat (c # cs) of Some r \<Rightarrow> Some r | None \<Rightarrow> text_after pat cs)"

definition metadata_body :: "string \<Rightarrow> string option" where
  "metadata_body resp = (case str_lines resp of
     [] \<Rightarrow> None
   | l # _ \<Rightarrow> (if \<not> contains_text ''200'' l then None
       else (case text_after (CRLF @ CRLF) resp of
           None \<Rightarrow> None
         | Some r \<Rightarrow> nonempty_text (Some (trim (text_before (CRLF @ CRLF) r))))))"

text \<open>\<open>ask\<close> sends a request and returns what was received, if anything could be sent.\<close>

definition cloud_metadata_get_raw :: "(string \<Rightarrow> string \<Rightarrow> string option) \<Rightarrow> metadata_query \<Rightarrow> string option" where
  "cloud_metadata_get_raw ask q = Option.bind (ask (mq_host_port q) (metadata_request q)) metadata_body"

definition METADATA_IP :: string where "METADATA_IP = ''169.254.169.254''"

definition metadata_query_of :: "string \<Rightarrow> string \<Rightarrow> (string \<times> string) list \<Rightarrow> metadata_query" where
  "metadata_query_of host path hs =
     \<lparr>mq_host_port = METADATA_IP @ '':80'', mq_host_header = host, mq_path_query = path, mq_headers = hs\<rparr>"

definition azure_query :: "string \<Rightarrow> metadata_query" where
  "azure_query path = metadata_query_of METADATA_IP path [(''Metadata'', ''true'')]"

definition aws_query :: "string \<Rightarrow> metadata_query" where
  "aws_query path = metadata_query_of METADATA_IP path []"

definition gcp_query :: "string \<Rightarrow> metadata_query" where
  "gcp_query path = metadata_query_of ''metadata.google.internal'' path [(''Metadata-Flavor'', ''Google'')]"

definition last_part :: "char \<Rightarrow> string \<Rightarrow> string" where
  "last_part c s = last (split_on c s)"

text \<open>The zone without its last hyphen and what follows it; a zone without a hyphen as it is.\<close>

definition zone_region :: "string \<Rightarrow> string" where
  "zone_region z = (let ps = split_on CHR ''-'' z
     in if length ps = 1 then z else join_with ''-'' (butlast ps))"

definition detect_cloud_region :: "(string \<Rightarrow> string \<Rightarrow> string option) \<Rightarrow> string option" where
  "detect_cloud_region ask =
     (case cloud_metadata_get_raw ask (azure_query ''/metadata/instance/compute/location?api-version=2021-02-01&format=text'') of
        Some r \<Rightarrow> Some (''azure/'' @ r)
      | None \<Rightarrow> (case cloud_metadata_get_raw ask (aws_query ''/latest/meta-data/placement/region'') of
          Some r \<Rightarrow> Some (''aws/'' @ r)
        | None \<Rightarrow> (case cloud_metadata_get_raw ask (gcp_query ''/computeMetadata/v1/instance/zone'') of
            Some zone \<Rightarrow> (let z = last_part CHR ''/'' zone in Some (''gcp/'' @ zone_region z @ '' ('' @ z @ '')''))
          | None \<Rightarrow> None)))"

definition region_text :: "string option \<Rightarrow> string" where
  "region_text region = (case region of Some r \<Rightarrow> r | None \<Rightarrow> [])"

definition ec2_name :: "(string \<Rightarrow> string \<Rightarrow> string option) \<Rightarrow> string \<Rightarrow> string option" where
  "ec2_name ask r = (case cloud_metadata_get_raw ask (aws_query ''/latest/meta-data/public-ipv4'') of
     Some ip \<Rightarrow>
       (let aws_region = (case strip_prefix ''aws/'' r of Some a \<Rightarrow> a | None \<Rightarrow> ''us-east-1'');
            ip_dashed = map (\<lambda>c. if c = CHR ''.'' then CHR ''-'' else c) ip
        in if aws_region = ''us-east-1'' then Some (''ec2-'' @ ip_dashed @ ''.compute-1.amazonaws.com'')
           else Some (''ec2-'' @ ip_dashed @ ''.'' @ aws_region @ ''.compute.amazonaws.com''))
   | None \<Rightarrow> None)"

definition detect_public_dns :: "(string \<Rightarrow> string \<Rightarrow> string option) \<Rightarrow> string \<Rightarrow> string option \<Rightarrow> string option" where
  "detect_public_dns ask hostname region =
     (let r = region_text region
      in if starts_with ''azure/'' r then
           (case nonempty_text (cloud_metadata_get_raw ask (azure_query ''/metadata/instance/compute/fqdnName?api-version=2021-02-01&format=text'')) of
              Some fqdn \<Rightarrow> Some fqdn
            | None \<Rightarrow> Some (hostname @ ''.'' @ (case strip_prefix ''azure/'' r of Some a \<Rightarrow> a | None \<Rightarrow> ''eastus'') @ ''.cloudapp.azure.com''))
         else if starts_with ''aws/'' r then
           (case cloud_metadata_get_raw ask (aws_query ''/latest/meta-data/public-hostname'') of
              Some dns \<Rightarrow> (if dns \<noteq> [] \<and> \<not> contains_text ''.internal'' dns then Some dns else ec2_name ask r)
            | None \<Rightarrow> ec2_name ask r)
         else if starts_with ''gcp/'' r then Some hostname
         else None)"

definition detect_public_ip :: "(string \<Rightarrow> string \<Rightarrow> string option) \<Rightarrow> string option \<Rightarrow> string option" where
  "detect_public_ip ask region =
     (let r = region_text region
      in if starts_with ''aws/'' r then cloud_metadata_get_raw ask (aws_query ''/latest/meta-data/public-ipv4'')
         else if starts_with ''azure/'' r then cloud_metadata_get_raw ask
           (azure_query ''/metadata/instance/network/interface/0/ipv4/ipAddress/0/publicIpAddress?api-version=2021-02-01&format=text'')
         else if starts_with ''gcp/'' r then cloud_metadata_get_raw ask
           (gcp_query ''/computeMetadata/v1/instance/network-interfaces/0/access-configs/0/external-ip'')
         else None)"

record host_readings =
  ho_os :: string
  ho_arch :: string
  ho_parallelism :: "nat option"
  ho_meminfo :: "string option"
  ho_os_release :: "string option"
  ho_hostname :: string
  ho_ask :: "string \<Rightarrow> string \<Rightarrow> string option"

definition system_meta_collect :: "host_readings \<Rightarrow> system_meta" where
  "system_meta_collect h =
     (let region = detect_cloud_region (ho_ask h)
      in \<lparr>sy_os = ho_os h, sy_arch = ho_arch h, sy_cpu_cores = (case ho_parallelism h of Some n \<Rightarrow> n | None \<Rightarrow> 1),
          sy_total_memory_mb = Option.bind (ho_meminfo h) (\<lambda>m. parse_meminfo_mb m ''MemTotal:''),
          sy_os_version = detect_os_version (ho_os_release h), sy_hostname = ho_hostname h, sy_region = region,
          sy_public_dns = detect_public_dns (ho_ask h) (ho_hostname h) region,
          sy_public_ip = detect_public_ip (ho_ask h) region\<rparr>)"

section \<open>Diagnostic handlers\<close>

definition opt_or :: "'a \<Rightarrow> 'a option \<Rightarrow> 'a" where
  "opt_or d x = (case x of Some v \<Rightarrow> v | None \<Rightarrow> d)"

definition port_or_null :: "u16 \<Rightarrow> jvalue" where
  "port_or_null p = (if p = 0 then NullV else NatV (unat p))"

definition ep_health :: "app_state \<Rightarrow> ep_response" where
  "ep_health st = json_answer 200 (ObjV
     [(''status'', StrV ''ok''), (''runtime'', StrV ''rust''), (''service'', StrV ''networker-endpoint''),
      (''version'', StrV CARGO_PKG_VERSION),
      (''services'', ObjV
        [(''download'', BoolV True), (''upload'', BoolV True), (''ws_echo'', BoolV True), (''page_assets'', BoolV True),
         (''udp_echo'', port_or_null (as_udp_port st)), (''udp_throughput'', port_or_null (as_udp_throughput_port st)),
         (''stamp'', port_or_null (as_stamp_port st)),
         (''h3'', (case as_h3_port st of Some p \<Rightarrow> NatV (unat p) | None \<Rightarrow> NullV)),
         (''api_upstream'', (case as_api_upstream st of Some u \<Rightarrow> StrV u | None \<Rightarrow> NullV))])])"

text \<open>The headers as a map from names to texts: of two headers with one name the last one collected stays.\<close>

definition header_texts :: "web \<Rightarrow> (string \<times> string) list \<Rightarrow> (string \<times> string) list" where
  "header_texts w hs = foldl (\<lambda>m (k, v). header_insert k (opt_or [] (web_to_str w v)) m) [] hs"

definition header_object :: "(string \<times> string) list \<Rightarrow> jvalue" where
  "header_object hs = ObjV (map (\<lambda>(k, v). (k, StrV v)) hs)"

definition echo_get :: "web \<Rightarrow> (string \<times> string) list \<Rightarrow> ep_response" where
  "echo_get w hs = json_answer 200 (ObjV [(''method'', StrV ''GET''), (''headers'', header_object (header_texts w hs)),
     (''body_bytes'', NatV 0)])"

definition ep_echo :: "web \<Rightarrow> (string \<times> string) list \<Rightarrow> bytes \<Rightarrow> ep_response" where
  "ep_echo w hs body =
     (let body_len = length body; hdrs = header_texts w hs
      in if body_len \<le> 1048576
         then \<lparr>es_status = 200, es_headers = [(''content-type'', ''application/octet-stream''),
             (''x-echo-body-bytes'', decimal body_len), (''x-echo-received-headers'', decimal (length hdrs))],
             es_body = StreamBody [body]\<rparr>
         else \<lparr>es_status = 413, es_headers = [], es_body = TextBody ''Payload too large (> 1 MiB)''\<rparr>)"

section \<open>Transfers\<close>

record switch_counts =
  sw_voluntary :: int
  sw_involuntary :: int

definition decimal_int :: "int \<Rightarrow> string" where
  "decimal_int i = (if i < 0 then ''-'' @ decimal (nat (- i)) else decimal (nat i))"

definition csw_part :: "switch_counts \<Rightarrow> switch_counts \<Rightarrow> string" where
  "csw_part c0 c1 = '', csw-v;dur='' @ decimal_int (sw_voluntary c1 - sw_voluntary c0) @
     '', csw-i;dur='' @ decimal_int (sw_involuntary c1 - sw_involuntary c0)"

definition EP_DOWNLOAD_FILL :: u8 where "EP_DOWNLOAD_FILL = 0x42"
definition EP_DOWNLOAD_CHUNK :: nat where "EP_DOWNLOAD_CHUNK = 8 * 1024"
definition EP_DOWNLOAD_CAP :: nat where "EP_DOWNLOAD_CAP = 2 * 1024 * 1024 * 1024"

definition chunked :: "u8 \<Rightarrow> nat \<Rightarrow> bytes list" where
  "chunked fill n =
     (let full_chunks = n div EP_DOWNLOAD_CHUNK; remainder = n mod EP_DOWNLOAD_CHUNK
      in replicate full_chunks (replicate EP_DOWNLOAD_CHUNK fill) @
         (if 0 < remainder then [replicate remainder fill] else []))"

record transfer_readings =
  tr_elapsed_ms :: f64
  tr_csw0 :: switch_counts
  tr_csw1 :: switch_counts
  tr_cpu_ms :: f64
  tr_timestamp :: string

definition ep_download_response :: "transfer_readings \<Rightarrow> nat \<Rightarrow> ep_response" where
  "ep_download_response rd requested =
     (let n = min requested EP_DOWNLOAD_CAP
      in \<lparr>es_status = 200,
          es_headers = [(''content-type'', ''application/octet-stream''), (''content-length'', decimal n),
            (''x-download-bytes'', decimal n),
            (''server-timing'', ''proc;dur='' @ fixed 3 (tr_elapsed_ms rd) @ csw_part (tr_csw0 rd) (tr_csw1 rd))],
          es_body = StreamBody (chunked EP_DOWNLOAD_FILL n)\<rparr>)"

definition ep_download :: "transfer_readings \<Rightarrow> nat option \<Rightarrow> ep_response" where
  "ep_download rd p = ep_download_response rd (opt_or 1024 p)"

definition download_path :: "transfer_readings \<Rightarrow> nat \<Rightarrow> ep_response" where
  "download_path rd requested = ep_download_response rd requested"

text \<open>The bytes of the data frames up to the end of the body or the first error.\<close>

fun count_body :: "ep_frame list \<Rightarrow> nat" where
  "count_body [] = 0"
| "count_body (EpData d # fs) = length d + count_body fs"
| "count_body (EpTrailers # fs) = count_body fs"
| "count_body (EpFrameError # fs) = 0"

definition ep_upload :: "web \<Rightarrow> transfer_readings \<Rightarrow> ep_request \<Rightarrow> ep_response" where
  "ep_upload w rd req =
     (let request_id = Option.bind (map_of (eq_headers req) ''x-networker-request-id'') (web_to_str w);
          received_bytes = count_body (eq_body req);
          r = json_answer 200 (ObjV [(''received_bytes'', NatV received_bytes), (''timestamp'', StrV (tr_timestamp rd))]);
          timing = ''recv;dur='' @ fixed 3 (tr_elapsed_ms rd) @ csw_part (tr_csw0 rd) (tr_csw1 rd) @
            '', cpu;dur='' @ fixed 3 (tr_cpu_ms rd);
          r1 = (if web_header_ok w timing then insert_header ''server-timing'' timing r else r);
          r2 = insert_header ''x-networker-received-bytes'' (decimal received_bytes) r1
      in case request_id of
           Some rid \<Rightarrow> (if web_header_ok w rid then insert_header ''x-networker-request-id'' rid r2 else r2)
         | None \<Rightarrow> r2)"

section \<open>The other handlers\<close>

text \<open>A handler that sleeps gives the milliseconds it sleeps with its answer.\<close>

definition ep_delay :: "string \<Rightarrow> nat option \<Rightarrow> nat \<times> ep_response" where
  "ep_delay ts p =
     (let ms = min (opt_or 0 p) 30000
      in (ms, json_answer 200 (ObjV [(''delayed_ms'', NatV ms), (''timestamp'', StrV ts)])))"

definition headers_echo :: "web \<Rightarrow> (string \<times> string) list \<Rightarrow> ep_response" where
  "headers_echo w hs = json_answer 200 (header_object (header_texts w hs))"

text \<open>\<open>StatusCode::from_u16\<close> accepts 100 to 999; \<open>reason\<close> is its table of canonical reasons.\<close>

definition ep_status_code :: "(nat \<Rightarrow> string option) \<Rightarrow> u16 \<Rightarrow> ep_response" where
  "ep_status_code reason sc =
     (let status = (if 100 \<le> sc \<and> sc < 1000 then unat sc else 400)
      in json_answer status (ObjV [(''status'', NatV (unat sc)), (''description'', StrV (opt_or ''Unknown'' (reason status)))]))"

definition version_name :: "ep_version \<Rightarrow> string" where
  "version_name v = (case v of Http09 \<Rightarrow> ''HTTP/0.9'' | Http10 \<Rightarrow> ''HTTP/1.0'' | Http11 \<Rightarrow> ''HTTP/1.1'' | Http2V \<Rightarrow> ''HTTP/2''
     | Http3V \<Rightarrow> ''HTTP/3'' | OtherVersion \<Rightarrow> ''Unknown'')"

definition ep_http_version :: "string \<Rightarrow> ep_request \<Rightarrow> ep_response" where
  "ep_http_version ts req = json_answer 200 (ObjV [(''version'', StrV (version_name (eq_version req))), (''timestamp'', StrV ts)])"

definition asset_urls :: "nat \<Rightarrow> nat \<Rightarrow> string list" where
  "asset_urls n b = map (\<lambda>i. ''/asset?id='' @ decimal i @ ''&bytes='' @ decimal b) [0..<n]"

definition page_manifest :: "nat option \<Rightarrow> nat option \<Rightarrow> ep_response" where
  "page_manifest assets byt =
     (let n = min (opt_or 20 assets) 500; b = opt_or 10240 byt
      in json_answer 200 (ObjV [(''asset_count'', NatV n), (''asset_bytes'', NatV b), (''assets'', ArrV (map StrV (asset_urls n b)))]))"

definition quoted :: "string \<Rightarrow> string" where
  "quoted s = CHR 0x22 # s @ [CHR 0x22]"

definition browser_html :: "nat \<Rightarrow> nat \<Rightarrow> string" where
  "browser_html n b = ''<!DOCTYPE html>'' @ [LF] @ ''<html><head><title>Networker Page Load Test</title><link rel='' @
     quoted ''icon'' @ '' href='' @ quoted ''data:,'' @ ''></head>'' @ [LF] @ ''<body>'' @ [LF] @
     concat (map (\<lambda>u. ''<img src='' @ quoted u @ '' width='' @ quoted ''1'' @ '' height='' @ quoted ''1'' @ '' alt='' @ quoted [] @ ''>'' @ [LF])
       (asset_urls n b)) @ ''</body></html>'' @ [LF]"

definition browser_page :: "nat option \<Rightarrow> nat option \<Rightarrow> ep_response" where
  "browser_page assets byt =
     \<lparr>es_status = 200, es_headers = [(''content-type'', ''text/html; charset=utf-8'')],
      es_body = TextBody (browser_html (min (opt_or 20 assets) 500) (opt_or 10240 byt))\<rparr>"

definition ASSET_CAP :: nat where "ASSET_CAP = 100 * 1024 * 1024"

definition asset_handler :: "nat option \<Rightarrow> ep_response" where
  "asset_handler byt =
     (let n = min (opt_or 10240 byt) ASSET_CAP
      in \<lparr>es_status = 200, es_headers = [(''content-type'', ''application/octet-stream''), (''content-length'', decimal n)],
          es_body = StreamBody (chunked 0 n)\<rparr>)"

record info_readings =
  if_uptime_secs :: u64
  if_timestamp :: string
  if_load_avg :: "f64 option"
  if_mem_available :: "u64 option"
  if_http3 :: bool

definition optional_text :: "string \<Rightarrow> string option \<Rightarrow> (string \<times> jvalue) list" where
  "optional_text k v = (case v of Some s \<Rightarrow> [(k, StrV s)] | None \<Rightarrow> [])"

text \<open>The optional readings are left out when they are missing; the region of the host is \<open>null\<close> instead.\<close>

definition system_meta_json :: "system_meta \<Rightarrow> jvalue" where
  "system_meta_json m = ObjV ([(''os'', StrV (sy_os m)), (''arch'', StrV (sy_arch m)), (''cpu_cores'', NatV (sy_cpu_cores m))] @
     (case sy_total_memory_mb m of Some n \<Rightarrow> [(''total_memory_mb'', NatV (unat n))] | None \<Rightarrow> []) @
     optional_text ''os_version'' (sy_os_version m) @ [(''hostname'', StrV (sy_hostname m))] @
     optional_text ''region'' (sy_region m) @ optional_text ''public_dns'' (sy_public_dns m) @ optional_text ''public_ip'' (sy_public_ip m))"

definition server_info :: "info_readings \<Rightarrow> app_state \<Rightarrow> ep_response" where
  "server_info rd st = json_answer 200 (ObjV
     ([(''service'', StrV ''networker-endpoint''), (''version'', StrV CARGO_PKG_VERSION),
       (''protocols'', ArrV (map StrV ([''HTTP/1.1'', ''HTTP/2''] @ (if if_http3 rd then [''HTTP/3''] else [])))),
       (''http3'', BoolV (if_http3 rd)),
       (''endpoints'', ArrV (map StrV [''/health'', ''/echo'', ''/download'', ''/upload'', ''/delay'', ''/headers'', ''/status/:code'',
          ''/http-version'', ''/info'', ''/api/users'', ''/api/transform'', ''/api/aggregate'', ''/api/search'',
          ''/api/upload/process'', ''/api/delayed'', ''/api/validate''])),
       (''system'', system_meta_json (as_system_meta st)),
       (''region'', (case sy_region (as_system_meta st) of Some r \<Rightarrow> StrV r | None \<Rightarrow> NullV)),
       (''uptime_secs'', NatV (unat (if_uptime_secs rd))), (''timestamp'', StrV (if_timestamp rd))] @
      (case if_load_avg rd of Some l \<Rightarrow> [(''load_avg_1m'', RealV l)] | None \<Rightarrow> []) @
      (case if_mem_available rd of Some m \<Rightarrow> [(''mem_available_mb'', NatV (unat m))] | None \<Rightarrow> [])))"

text \<open>The WebSocket echo: the messages sent for those received; \<open>send_ok\<close> says whether a send succeeds.\<close>

datatype ws_message = WsText string | WsBinary bytes | WsPing | WsPong | WsClose | WsError

fun handle_ws_echo :: "(nat \<Rightarrow> bool) \<Rightarrow> nat \<Rightarrow> ws_message list \<Rightarrow> ws_message list" where
  "handle_ws_echo send_ok k [] = []"
| "handle_ws_echo send_ok k (m # ms) = (case m of
     WsText _ \<Rightarrow> (if send_ok k then m # handle_ws_echo send_ok (Suc k) ms else [])
   | WsBinary _ \<Rightarrow> (if send_ok k then m # handle_ws_echo send_ok (Suc k) ms else [])
   | WsPing \<Rightarrow> handle_ws_echo send_ok k ms
   | WsPong \<Rightarrow> handle_ws_echo send_ok k ms
   | WsClose \<Rightarrow> []
   | WsError \<Rightarrow> [])"

end
