(* ===== verification/Endpoint_Api.thy ===== *)
theory Endpoint_Api
  imports Endpoint_Routes Stats Sdk_Timing "HOL-Library.List_Lexorder" "HOL-Library.Product_Lexorder"
begin

text \<open>
  The benchmark API of the endpoint, \<open>/api/*\<close> in \<open>crates/networker-endpoint/src/routes.rs\<close>. The shared
  data set is an input, as are the generator of random numbers, the hashes, the compressor, the
  regular expressions and the upstream of the proxy, each a function of what the code passes to
  it. Arithmetic on 64-bit numbers wraps as it does in the release build; a handler that panics
  is \<open>None\<close>. Texts are compared by their bytes.
\<close>

record bench_data =
  bd_users :: "jvalue list"
  bd_search_corpus :: "string list"
  bd_timeseries :: "jvalue list"
  bd_expected_checksums :: "(string \<times> jvalue) list"

text \<open>\<open>rg_range lo hi\<close> draws from \<open>lo..hi\<close> and \<open>rg_unit\<close> from the unit interval.\<close>

record 'r rng =
  rg_seed :: "u64 \<Rightarrow> 'r"
  rg_range :: "nat \<Rightarrow> nat \<Rightarrow> 'r \<Rightarrow> nat \<times> 'r"
  rg_unit :: "'r \<Rightarrow> f64 \<times> 'r"

section \<open>The data set\<close>

datatype loaded_data = Loaded bench_data | Fallback | Exits string

definition KNOWN_DATA_PATHS :: "string list" where
  "KNOWN_DATA_PATHS = [''/opt/bench/bench-data.json'', ''benchmarks/reference-apis/shared/bench-data.json'']"

text \<open>\<open>parse\<close> reads and parses a file; \<open>exists\<close> tells whether it is there.\<close>

definition load_bench_data :: "string option \<Rightarrow> (string \<Rightarrow> bool) \<Rightarrow> (string \<Rightarrow> string + bench_data) \<Rightarrow> loaded_data" where
  "load_bench_data env there parse =
     (case nonempty_text env of
        Some p \<Rightarrow> (case parse p of Inr d \<Rightarrow> Loaded d | Inl e \<Rightarrow> Exits p)
      | None \<Rightarrow> (case find there KNOWN_DATA_PATHS of
          Some p \<Rightarrow> (case parse p of Inr d \<Rightarrow> Loaded d | Inl e \<Rightarrow> Exits p)
        | None \<Rightarrow> Fallback))"

section \<open>Generated users\<close>

definition FIRST_NAMES :: "string list" where
  "FIRST_NAMES = [''Alice'', ''Bob'', ''Charlie'', ''Diana'', ''Eve'', ''Frank'', ''Grace'', ''Hector'', ''Iris'', ''Jack'',
     ''Karen'', ''Leo'', ''Mona'', ''Nick'', ''Olivia'', ''Paul'', ''Quinn'', ''Rosa'', ''Steve'', ''Tina'', ''Uma'',
     ''Victor'', ''Wendy'', ''Xander'', ''Yuki'', ''Zane'']"

definition LAST_NAMES :: "string list" where
  "LAST_NAMES = [''Smith'', ''Johnson'', ''Williams'', ''Brown'', ''Jones'', ''Garcia'', ''Miller'', ''Davis'', ''Rodriguez'',
     ''Martinez'', ''Hernandez'', ''Lopez'', ''Gonzalez'', ''Wilson'', ''Anderson'', ''Thomas'', ''Taylor'', ''Moore'',
     ''Jackson'', ''Martin'', ''Lee'', ''Perez'', ''Thompson'', ''White'', ''Harris'', ''Sanchez'']"

definition DOMAINS :: "string list" where
  "DOMAINS = [''example.com'', ''test.org'', ''mail.net'', ''corp.io'', ''bench.dev'']"

definition padded :: "nat \<Rightarrow> nat \<Rightarrow> string" where
  "padded w n = replicate (w - length (decimal n)) CHR ''0'' @ decimal n"

definition hundredths :: "f64 \<Rightarrow> f64" where
  "hundredths x = f64_div (f64_round (f64_mul x 100)) 100"

definition gen_user :: "'r rng \<Rightarrow> u64 \<Rightarrow> 'r \<Rightarrow> jvalue \<times> 'r" where
  "gen_user g uid r0 =
     (let (fi, r1) = rg_range g 0 (length FIRST_NAMES) r0;
          (la, r2) = rg_range g 0 (length LAST_NAMES) r1;
          (dm, r3) = rg_range g 0 (length DOMAINS) r2;
          (u, r4) = rg_unit g r3;
          (day, r5) = rg_range g 1 29 r4;
          (month, r6) = rg_range g 1 13 r5;
          (year, r7) = rg_range g 2018 2026 r6;
          fname = FIRST_NAMES ! fi; lname = LAST_NAMES ! la
      in (ObjV [(''id'', NatV (unat uid)), (''name'', StrV (fname @ '' '' @ lname)),
            (''email'', StrV (to_ascii_lowercase fname @ ''.'' @ to_ascii_lowercase lname @ ''@'' @ DOMAINS ! dm)),
            (''score'', RealV (f64_div (f64_round (f64_mul u 10000)) 100)),
            (''created_at'', StrV (padded 4 year @ ''-'' @ padded 2 month @ ''-'' @ padded 2 day @ ''T00:00:00Z''))], r7))"

fun gen_users :: "'r rng \<Rightarrow> u64 \<Rightarrow> nat list \<Rightarrow> 'r \<Rightarrow> jvalue list" where
  "gen_users g base [] r = []"
| "gen_users g base (i # is) r = (case gen_user g (base + of_nat i + 1) r of (u, r') \<Rightarrow> u # gen_users g base is r')"

definition fallback_users :: "'r rng \<Rightarrow> u64 \<Rightarrow> jvalue list" where
  "fallback_users g page = gen_users g ((page - 1) * 100) [0..<100] (rg_seed g page)"

section \<open>Users\<close>

definition bench_headers :: "f64 \<Rightarrow> (string \<times> string) list" where
  "bench_headers dur_ms =
     [(''server-timing'', ''app;dur='' @ fixed 1 dur_ms), (''cache-control'', ''no-store, no-cache, must-revalidate''),
      (''timing-allow-origin'', ''*''), (''access-control-allow-origin'', ''*'')]"

definition api_answer :: "f64 \<Rightarrow> jvalue \<Rightarrow> ep_response" where
  "api_answer dur_ms v = \<lparr>es_status = 200, es_headers = (''content-type'', ''application/json'') # bench_headers dur_ms,
     es_body = JsonBody v\<rparr>"

text \<open>\<open>slice::sort_by\<close> is stable, upwards and downwards.\<close>

definition sorted_by :: "bool \<Rightarrow> ('a \<Rightarrow> 'k::linorder) \<Rightarrow> 'a list \<Rightarrow> 'a list" where
  "sorted_by ascending f xs = (if ascending then sort_key f xs else rev (sort_key f (rev xs)))"

definition text_key :: "string \<Rightarrow> nat list" where
  "text_key s = map code s"

definition text_of :: "string \<Rightarrow> jvalue \<Rightarrow> nat list" where
  "text_of k u = text_key (opt_or [] (as_str (member k u)))"

definition sort_users :: "string \<Rightarrow> bool \<Rightarrow> jvalue list \<Rightarrow> jvalue list" where
  "sort_users sort_field ascending users =
     (if sort_field \<in> {''name'', ''email'', ''created_at''} then sorted_by ascending (text_of sort_field) users
      else if sort_field = ''score'' then sorted_by ascending (\<lambda>u. opt_or 0 (as_f64 (member ''score'' u))) users
      else sorted_by ascending (\<lambda>u. opt_or 0 (as_u64 (member ''id'' u))) users)"

definition user_page :: "'r rng \<Rightarrow> bench_data option \<Rightarrow> u64 \<Rightarrow> jvalue list" where
  "user_page g data page = (case data of
     Some d \<Rightarrow>
       (let start = (page - 1) * 100; len = length (bd_users d); fin = min (unat (start + 100)) len
        in if unat start < len then slice (unat start) fin (bd_users d) else [])
   | None \<Rightarrow> fallback_users g page)"

definition api_users :: "'r rng \<Rightarrow> bench_data option \<Rightarrow> f64 \<Rightarrow> u64 option \<Rightarrow> string option \<Rightarrow> string option \<Rightarrow> ep_response" where
  "api_users g data dur_ms page_param sort_param order_param =
     (let page = max (opt_or 1 page_param) 1; sort_field = opt_or ''id'' sort_param;
          ascending = opt_or ''asc'' order_param \<noteq> ''desc''
      in api_answer dur_ms (ArrV (take 20 (sort_users sort_field ascending (user_page g data page)))))"

section \<open>Transform, aggregate, search\<close>

definition api_transform :: "(string \<Rightarrow> string) \<Rightarrow> f64 \<Rightarrow> u64 option \<Rightarrow> string list option \<Rightarrow> jvalue list option \<Rightarrow> ep_response" where
  "api_transform sha256_hex dur_ms seed fields_param values_param = api_answer dur_ms (ObjV
     [(''seed'', NatV (unat (opt_or 0 seed))), (''hashed_fields'', ArrV (map (\<lambda>f. StrV (sha256_hex f)) (opt_or [] fields_param))),
      (''reversed_values'', ArrV (rev (opt_or [] values_param)))])"

definition range_start :: "string option \<Rightarrow> u64" where
  "range_start range_param = (case range_param of
     Some r \<Rightarrow> (case parse_u64 (hd (split_on CHR '','' r)) of Some s \<Rightarrow> s | None \<Rightarrow> 1)
   | None \<Rightarrow> 1)"

fun draw_units :: "'r rng \<Rightarrow> nat \<Rightarrow> 'r \<Rightarrow> f64 list" where
  "draw_units g 0 r = []"
| "draw_units g (Suc n) r = (case rg_unit g r of (u, r') \<Rightarrow> f64_mul u 1000 # draw_units g n r')"

definition series :: "'r rng \<Rightarrow> bench_data option \<Rightarrow> u64 \<Rightarrow> f64 list" where
  "series g data start = sort (case data of
     Some d \<Rightarrow> received_of (map (\<lambda>v. as_f64 (member ''value'' v)) (bd_timeseries d))
   | None \<Rightarrow> draw_units g 10000 (rg_seed g start))"

definition index_at :: "f64 \<Rightarrow> nat \<Rightarrow> nat" where
  "index_at p n = nat \<lfloor>f64_mul (fl (real n)) p\<rfloor>"

definition category_of :: "f64 list \<Rightarrow> nat \<Rightarrow> nat \<Rightarrow> jvalue" where
  "category_of xs chunk_size i =
     (let chunk = slice (i * chunk_size) ((i + 1) * chunk_size) xs
      in ObjV [(''category'', StrV (''q'' @ decimal (i + 1))), (''count'', NatV (length chunk)),
           (''mean'', RealV (hundredths (f64_div (f64_sum chunk) (fl (real (length chunk)))))),
           (''min'', RealV (hundredths (hd chunk))), (''max'', RealV (hundredths (last chunk)))])"

text \<open>An index out of range panics, and so does the first value of an empty chunk.\<close>

definition aggregate_of :: "f64 list \<Rightarrow> jvalue option" where
  "aggregate_of xs =
     (let n = length xs; i50 = index_at (fl (1 / 2)) n; i95 = index_at (fl (95 / 100)) n; chunk_size = n div 5
      in if n \<le> i50 \<or> n \<le> i95 \<or> chunk_size = 0 then None
         else Some (ObjV [(''total_points'', NatV 10000), (''mean'', RealV (hundredths (f64_div (f64_sum xs) (fl (real n))))),
           (''p50'', RealV (hundredths (xs ! i50))), (''p95'', RealV (hundredths (xs ! i95))), (''max'', RealV (hundredths (last xs))),
           (''categories'', ArrV (map (category_of xs chunk_size) [0..<5]))]))"

definition api_aggregate :: "'r rng \<Rightarrow> bench_data option \<Rightarrow> f64 \<Rightarrow> string option \<Rightarrow> ep_response option" where
  "api_aggregate g data dur_ms range_param =
     map_option (api_answer dur_ms) (aggregate_of (series g data (range_start range_param)))"

definition SEARCH_WORDS :: "string list" where
  "SEARCH_WORDS = [''network'', ''latency'', ''throughput'', ''bandwidth'', ''packet'', ''server'', ''client'', ''request'',
     ''response'', ''timeout'', ''connection'', ''socket'', ''protocol'', ''testing'', ''benchmark'', ''performance'', ''endpoint'',
     ''proxy'', ''firewall'', ''router'', ''switch'', ''gateway'', ''dns'', ''tls'', ''quic'']"

fun gen_items :: "'r rng \<Rightarrow> nat \<Rightarrow> 'r \<Rightarrow> string list" where
  "gen_items g 0 r0 = []"
| "gen_items g (Suc k) r0 =
     (let (w1, r1) = rg_range g 0 (length SEARCH_WORDS) r0;
          (w2, r2) = rg_range g 0 (length SEARCH_WORDS) r1;
          (n, r3) = rg_range g 1 1000 r2
      in (SEARCH_WORDS ! w1 @ ''-'' @ SEARCH_WORDS ! w2 @ ''-'' @ decimal n) # gen_items g k r3)"

text \<open>\<open>str::find\<close>: where a text occurs first.\<close>

fun find_text :: "string \<Rightarrow> string \<Rightarrow> nat option" where
  "find_text pat [] = (if pat = [] then Some 0 else None)"
| "find_text pat (c # cs) = (if starts_with pat (c # cs) then Some 0 else map_option Suc (find_text pat cs))"

definition matched_at :: "(string \<Rightarrow> (string \<Rightarrow> nat option) option) \<Rightarrow> string \<Rightarrow> string \<Rightarrow> nat option" where
  "matched_at regex_new query item = (case regex_new query of
     Some find_in \<Rightarrow> find_in item
   | None \<Rightarrow> find_text query item)"

definition scored_items :: "(string \<Rightarrow> (string \<Rightarrow> nat option) option) \<Rightarrow> string \<Rightarrow> string list \<Rightarrow> (nat \<times> string) list" where
  "scored_items regex_new query items =
     sort_key (\<lambda>(pos, item). (pos, text_key item))
       (received_of (map (\<lambda>item. map_option (\<lambda>pos. (pos, item)) (matched_at regex_new query item)) items))"

definition ranked :: "nat \<Rightarrow> nat \<times> string \<Rightarrow> jvalue" where
  "ranked k = (\<lambda>(pos, item). ObjV [(''rank'', NatV (k + 1)), (''item'', StrV item), (''match_position'', NatV pos)])"

definition search_result :: "(string \<Rightarrow> (string \<Rightarrow> nat option) option) \<Rightarrow> string \<Rightarrow> nat \<Rightarrow> string list \<Rightarrow> jvalue" where
  "search_result regex_new query limit_count items =
     (let scored = scored_items regex_new query items;
          results = map (\<lambda>(k, x). ranked k x) (enumerate 0 (take limit_count scored))
      in ObjV [(''query'', StrV query), (''total_matches'', NatV (length scored)), (''returned'', NatV (length results)),
           (''results'', ArrV results)])"

definition api_search :: "'r rng \<Rightarrow> (string \<Rightarrow> (string \<Rightarrow> nat option) option) \<Rightarrow> bench_data option \<Rightarrow> f64 \<Rightarrow> string option \<Rightarrow> nat option \<Rightarrow> ep_response" where
  "api_search g regex_new data dur_ms q limit_param =
     (let items = (case data of Some d \<Rightarrow> bd_search_corpus d | None \<Rightarrow> gen_items g 1000 (rg_seed g 42))
      in api_answer dur_ms (search_result regex_new (opt_or ''test'' q) (min (opt_or 20 limit_param) 100) items))"

section \<open>Upload processing, delays, checksums, the proxy\<close>

fun body_data :: "ep_frame list \<Rightarrow> bytes" where
  "body_data [] = []"
| "body_data (EpData d # fs) = d @ body_data fs"
| "body_data (EpTrailers # fs) = body_data fs"
| "body_data (EpFrameError # fs) = []"

record digests =
  dg_crc32_hex :: "bytes \<Rightarrow> string"
  dg_sha256_hex :: "bytes \<Rightarrow> string"
  dg_zlib :: "bytes \<Rightarrow> bytes"

definition api_upload_process :: "digests \<Rightarrow> f64 \<Rightarrow> ep_request \<Rightarrow> ep_response" where
  "api_upload_process dg dur_ms req =
     (let data = body_data (eq_body req)
      in api_answer dur_ms (ObjV [(''original_size'', NatV (length data)), (''compressed_size'', NatV (length (dg_zlib dg data))),
           (''crc32'', StrV (dg_crc32_hex dg data)), (''sha256'', StrV (dg_sha256_hex dg data))]))"

definition api_delayed :: "f64 \<Rightarrow> f64 \<Rightarrow> nat option \<Rightarrow> nat \<times> ep_response" where
  "api_delayed actual_ms dur_ms p =
     (let ms = min (max (opt_or 10 p) 1) 100
      in (ms, api_answer dur_ms (ObjV [(''requested_ms'', NatV ms), (''actual_ms'', RealV (hundredths actual_ms))])))"

definition fallback_validate_checksums :: "'r rng \<Rightarrow> (string \<Rightarrow> string) \<Rightarrow> (jvalue \<Rightarrow> string) \<Rightarrow> u64 \<Rightarrow> jvalue" where
  "fallback_validate_checksums g sha256_hex to_text seed =
     (let users = gen_users g ((seed - 1) * 100) [0..<100] (rg_seed g seed);
          xs = sort (draw_units g 10000 (rg_seed g seed));
          items = gen_items g 1000 (rg_seed g 42)
      in ObjV [(''seed'', NatV (unat seed)), (''checksums'', ObjV
           [(''users'', StrV (sha256_hex (to_text (ArrV users)))),
            (''aggregate'', StrV (sha256_hex (fixed 6 (f64_div (f64_sum xs) (fl (real (length xs))))))),
            (''transform'', StrV (sha256_hex (sha256_hex ''test''))),
            (''search'', StrV (sha256_hex (to_text (ArrV (map StrV items)))))])])"

definition api_validate :: "'r rng \<Rightarrow> (string \<Rightarrow> string) \<Rightarrow> (jvalue \<Rightarrow> string) \<Rightarrow> bench_data option \<Rightarrow> f64 \<Rightarrow> u64 option \<Rightarrow> ep_response" where
  "api_validate g sha256_hex to_text data dur_ms seed_param =
     (let seed = opt_or 42 seed_param
      in api_answer dur_ms (case data of
           Some d \<Rightarrow> ObjV [(''seed'', NatV (unat seed)), (''checksums'', ObjV (bd_expected_checksums d))]
         | None \<Rightarrow> fallback_validate_checksums g sha256_hex to_text seed))"

record upstream =
  us_parse_uri :: "string \<Rightarrow> string + unit"
  us_request :: "string \<Rightarrow> ep_request \<Rightarrow> string + ep_response"
  us_quote :: "string \<Rightarrow> string"

definition status_response :: "(string \<Rightarrow> string) \<Rightarrow> nat \<Rightarrow> string \<Rightarrow> ep_response" where
  "status_response quote sc msg =
     \<lparr>es_status = sc, es_headers = [(''content-type'', ''application/json'')],
      es_body = TextBody (''{'' @ quoted ''error'' @ '':'' @ quote msg @ ''}'')\<rparr>"

definition path_and_query :: "ep_request \<Rightarrow> string" where
  "path_and_query req = eq_path req @ (case eq_query req of Some q \<Rightarrow> ''?'' @ q | None \<Rightarrow> [])"

definition outbound :: "ep_request \<Rightarrow> ep_request" where
  "outbound req = req\<lparr>eq_version := Http11, eq_headers := filter (\<lambda>h. fst h \<noteq> ''host'') (eq_headers req)\<rparr>"

definition api_proxy :: "upstream \<Rightarrow> app_state \<Rightarrow> ep_request \<Rightarrow> ep_response" where
  "api_proxy us st req = (case as_api_upstream st of
     None \<Rightarrow> status_response (us_quote us) 500 ''api_upstream not configured''
   | Some up \<Rightarrow> (let uri = ''http://'' @ up @ path_and_query req
       in case us_parse_uri us uri of
            Inl e \<Rightarrow> status_response (us_quote us) 502 (''bad api_upstream uri: '' @ e)
          | Inr _ \<Rightarrow> (case us_request us uri (outbound req) of
              Inr resp \<Rightarrow> resp
            | Inl e \<Rightarrow> status_response (us_quote us) 502 (''api_upstream '' @ up @ '' unreachable: '' @ e))))"

end
