(* ===== verification/Endpoint_Router.thy ===== *)
theory Endpoint_Router
  imports Endpoint_Api
begin

text \<open>
  The router of \<open>crates/networker-endpoint/src/routes.rs\<close>: which handler a path and a method reach, and
  the service made of the routes and the two layers. The rules of the framework are those it
  documents: a route of \<open>get\<close> also answers \<open>HEAD\<close>, \<open>any\<close> every method, a parameter matches one
  segment that is not empty and a wildcard what is left of the path if that is not empty; a path
  without a route is 404 and a method without one is 405. An extractor that rejects answers
  instead of the handler. A handler that panics is \<open>None\<close>.
\<close>

datatype route_handler =
    Landing | Health | EchoPost | EchoGet | WsEcho | GetDownload | DownloadPath string | PostUpload | Delay | Headers
  | StatusOf string | HttpVersion | Info | PageManifest | BrowserPage | Asset
  | Users | Transform | Aggregate | Search | UploadProcess | Delayed | Validate | ApiProxy

datatype methods = GetOnly | PostOnly | AnyMethod

definition allows :: "methods \<Rightarrow> string \<Rightarrow> bool" where
  "allows ms m = (case ms of GetOnly \<Rightarrow> m \<in> {''GET'', ''HEAD''} | PostOnly \<Rightarrow> m = ''POST'' | AnyMethod \<Rightarrow> True)"

definition fixed_routes :: "(string \<times> (methods \<times> route_handler) list) list" where
  "fixed_routes =
     [(''/'', [(GetOnly, Landing)]), (''/health'', [(GetOnly, Health)]), (''/echo'', [(PostOnly, EchoPost), (GetOnly, EchoGet)]),
      (''/ws'', [(GetOnly, WsEcho)]), (''/download'', [(GetOnly, GetDownload)]), (''/upload'', [(PostOnly, PostUpload)]),
      (''/delay'', [(GetOnly, Delay)]), (''/headers'', [(GetOnly, Headers)]), (''/http-version'', [(GetOnly, HttpVersion)]),
      (''/info'', [(GetOnly, Info)]), (''/page'', [(GetOnly, PageManifest)]), (''/browser-page'', [(GetOnly, BrowserPage)]),
      (''/asset'', [(GetOnly, Asset)])]"

definition builtin_api_routes :: "(string \<times> (methods \<times> route_handler) list) list" where
  "builtin_api_routes =
     [(''/api/users'', [(GetOnly, Users)]), (''/api/transform'', [(PostOnly, Transform)]), (''/api/aggregate'', [(GetOnly, Aggregate)]),
      (''/api/search'', [(GetOnly, Search)]), (''/api/upload/process'', [(PostOnly, UploadProcess)]),
      (''/api/delayed'', [(GetOnly, Delayed)]), (''/api/validate'', [(GetOnly, Validate)])]"

text \<open>The one segment that follows a prefix.\<close>

definition segment_after :: "string \<Rightarrow> string \<Rightarrow> string option" where
  "segment_after pre path = (case strip_prefix pre path of
     Some r \<Rightarrow> (if r \<noteq> [] \<and> CHR ''/'' \<notin> set r then Some r else None)
   | None \<Rightarrow> None)"

definition parameter_routes :: "string \<Rightarrow> (methods \<times> route_handler) list option" where
  "parameter_routes path = (case segment_after ''/download/'' path of
     Some s \<Rightarrow> Some [(GetOnly, DownloadPath s)]
   | None \<Rightarrow> (case segment_after ''/status/'' path of Some s \<Rightarrow> Some [(GetOnly, StatusOf s)] | None \<Rightarrow> None))"

definition api_routes :: "app_state \<Rightarrow> string \<Rightarrow> (methods \<times> route_handler) list option" where
  "api_routes st path =
     (if as_api_upstream st \<noteq> None
      then (if path = ''/api'' \<or> (case strip_prefix ''/api/'' path of Some r \<Rightarrow> r \<noteq> [] | None \<Rightarrow> False)
            then Some [(AnyMethod, ApiProxy)] else None)
      else map_of builtin_api_routes path)"

definition routes_of :: "app_state \<Rightarrow> string \<Rightarrow> (methods \<times> route_handler) list option" where
  "routes_of st path = (case map_of fixed_routes path of
     Some rs \<Rightarrow> Some rs
   | None \<Rightarrow> (case parameter_routes path of Some rs \<Rightarrow> Some rs | None \<Rightarrow> api_routes st path))"

datatype routed = Routed route_handler | PathUnknown | MethodUnknown

definition find_route :: "app_state \<Rightarrow> string \<Rightarrow> string \<Rightarrow> routed" where
  "find_route st meth path = (case routes_of st path of
     None \<Rightarrow> PathUnknown
   | Some rs \<Rightarrow> (case find (\<lambda>r. allows (fst r) meth) rs of Some r \<Rightarrow> Routed (snd r) | None \<Rightarrow> MethodUnknown))"

section \<open>Running a handler\<close>

text \<open>Everything a handler reads beside the request; the two extractors of \<open>/api/transform\<close> and of
  WebSocket upgrades answer themselves.\<close>

record 'r ep_env =
  en_web :: web
  en_transfer :: transfer_readings
  en_timestamp :: string
  en_info :: info_readings
  en_landing :: "app_state \<Rightarrow> ep_response"
  en_upgrade :: "ep_request \<Rightarrow> ep_response"
  en_reason :: "nat \<Rightarrow> string option"
  en_rng :: "'r rng"
  en_data :: "bench_data option"
  en_regex :: "string \<Rightarrow> (string \<Rightarrow> nat option) option"
  en_digests :: digests
  en_sha256_text :: "string \<Rightarrow> string"
  en_to_text :: "jvalue \<Rightarrow> string"
  en_transform_body :: "ep_request \<Rightarrow> ep_response + u64 option \<times> string list option \<times> jvalue list option"
  en_upstream :: upstream
  en_dur_ms :: f64
  en_actual_ms :: f64
  en_auth_ms :: f64

definition with_param :: "ep_response + 'a \<Rightarrow> ('a \<Rightarrow> ep_response option) \<Rightarrow> ep_response option" where
  "with_param x f = (case x of Inl rejection \<Rightarrow> Some rejection | Inr v \<Rightarrow> f v)"

definition run_handler :: "'r ep_env \<Rightarrow> app_state \<Rightarrow> route_handler \<Rightarrow> ep_request \<Rightarrow> ep_response option" where
  "run_handler en st h req =
     (let w = en_web en; q = eq_query req; num = (\<lambda>k. web_usize w k q); txt = (\<lambda>k. web_string w k q)
      in case h of
           Landing \<Rightarrow> Some (en_landing en st)
         | Health \<Rightarrow> Some (ep_health st)
         | EchoPost \<Rightarrow> with_param (web_bytes w (eq_body req)) (\<lambda>b. Some (ep_echo w (eq_headers req) b))
         | EchoGet \<Rightarrow> Some (echo_get w (eq_headers req))
         | WsEcho \<Rightarrow> Some (en_upgrade en req)
         | GetDownload \<Rightarrow> with_param (num ''bytes'') (\<lambda>n. Some (ep_download (en_transfer en) n))
         | DownloadPath s \<Rightarrow> with_param (web_path_usize w s) (\<lambda>n. Some (download_path (en_transfer en) n))
         | PostUpload \<Rightarrow> Some (ep_upload w (en_transfer en) req)
         | Delay \<Rightarrow> with_param (num ''ms'') (\<lambda>n. Some (snd (ep_delay (en_timestamp en) n)))
         | Headers \<Rightarrow> Some (headers_echo w (eq_headers req))
         | StatusOf s \<Rightarrow> with_param (web_path_u16 w s) (\<lambda>c. Some (ep_status_code (en_reason en) c))
         | HttpVersion \<Rightarrow> Some (ep_http_version (en_timestamp en) req)
         | Info \<Rightarrow> Some (server_info (en_info en) st)
         | PageManifest \<Rightarrow> with_param (num ''assets'') (\<lambda>n. with_param (num ''bytes'') (\<lambda>b. Some (page_manifest n b)))
         | BrowserPage \<Rightarrow> with_param (num ''assets'') (\<lambda>n. with_param (num ''bytes'') (\<lambda>b. Some (browser_page n b)))
         | Asset \<Rightarrow> with_param (num ''id'') (\<lambda>_. with_param (num ''bytes'') (\<lambda>b. Some (asset_handler b)))
         | Users \<Rightarrow> with_param (num ''page'') (\<lambda>p. with_param (txt ''sort'') (\<lambda>s. with_param (txt ''order'') (\<lambda>r.
             Some (api_users (en_rng en) (en_data en) (en_dur_ms en) (map_option of_nat p) s r))))
         | Transform \<Rightarrow> with_param (en_transform_body en req) (\<lambda>(seed, fs, vs).
             Some (api_transform (en_sha256_text en) (en_dur_ms en) seed fs vs))
         | Aggregate \<Rightarrow> with_param (txt ''range'') (\<lambda>r. api_aggregate (en_rng en) (en_data en) (en_dur_ms en) r)
         | Search \<Rightarrow> with_param (txt ''q'') (\<lambda>s. with_param (num ''limit'') (\<lambda>n.
             Some (api_search (en_rng en) (en_regex en) (en_data en) (en_dur_ms en) s n)))
         | UploadProcess \<Rightarrow> Some (api_upload_process (en_digests en) (en_dur_ms en) req)
         | Delayed \<Rightarrow> with_param (num ''ms'') (\<lambda>n. with_param (txt ''work'') (\<lambda>_. Some (snd (api_delayed (en_actual_ms en) (en_dur_ms en) n))))
         | Validate \<Rightarrow> with_param (num ''seed'') (\<lambda>s. Some (api_validate (en_rng en) (en_sha256_text en) (en_to_text en) (en_data en)
             (en_dur_ms en) (map_option of_nat s)))
         | ApiProxy \<Rightarrow> Some (api_proxy (en_upstream en) st req))"

definition plain_status :: "nat \<Rightarrow> ep_response" where
  "plain_status sc = \<lparr>es_status = sc, es_headers = [], es_body = TextBody []\<rparr>"

definition run_routes :: "'r ep_env \<Rightarrow> app_state \<Rightarrow> ep_request \<Rightarrow> ep_response option" where
  "run_routes en st req = (case find_route st (eq_method req) (eq_path req) of
     Routed h \<Rightarrow> run_handler en st h req
   | PathUnknown \<Rightarrow> Some (plain_status 404)
   | MethodUnknown \<Rightarrow> Some (plain_status 405))"

definition ep_service :: "'r ep_env \<Rightarrow> app_state \<Rightarrow> ep_request \<Rightarrow> ep_response option" where
  "ep_service en st req =
     map_option (add_server_timestamp (en_web en) st (en_timestamp en))
       (bench_auth_middleware (en_web en) st (en_auth_ms en) req (run_routes en st))"

end
