(* ===== verification/Endpoint_H3.thy ===== *)
theory Endpoint_H3
  imports Endpoint_Router
begin

text \<open>
  The HTTP/3 listener, \<open>crates/networker-endpoint/src/http3_server.rs\<close>: its own handlers and its own
  reading of the query, and the bounds on connections and streams. A request is answered by the
  headers and the frames of the body; a send that fails ends the answer there, which \<open>sends_ok\<close>,
  the outcome of each send in order, decides.
\<close>

definition MAX_CONNECTIONS :: nat where "MAX_CONNECTIONS = 1024"
definition MAX_STREAMS_PER_CONN :: nat where "MAX_STREAMS_PER_CONN = 256"

text \<open>The accept loops: \<open>try_acquire_owned\<close> on the semaphore or a refusal; a task gives its permit back when it ends.\<close>

datatype accept_event = Incoming | TaskEnds

fun accept_loop :: "nat \<Rightarrow> accept_event list \<Rightarrow> nat \<Rightarrow> bool list \<times> nat" where
  "accept_loop bound [] running = ([], running)"
| "accept_loop bound (Incoming # es) running =
     (if running < bound then (case accept_loop bound es (Suc running) of (rs, k) \<Rightarrow> (True # rs, k))
      else (case accept_loop bound es running of (rs, k) \<Rightarrow> (False # rs, k)))"
| "accept_loop bound (TaskEnds # es) running = accept_loop bound es (running - 1)"

fun find_param :: "string \<Rightarrow> string list \<Rightarrow> nat option" where
  "find_param key [] = None"
| "find_param key (part # parts) = (case split_once CHR ''='' part of
     (k, v) \<Rightarrow> (if k = key then Option.bind v (\<lambda>t. map_option unat (parse_u64 t)) else find_param key parts))"

definition parse_query_usize :: "string \<Rightarrow> string \<Rightarrow> nat option" where
  "parse_query_usize query key = find_param key (split_on CHR ''&'' query)"

text \<open>Zero bytes in chunks of 64 KiB.\<close>

definition H3_CHUNK :: nat where "H3_CHUNK = 64 * 1024"

function h3_chunks :: "nat \<Rightarrow> nat list" where
  "h3_chunks remaining = (if remaining = 0 then [] else min remaining H3_CHUNK # h3_chunks (remaining - min remaining H3_CHUNK))"
  by pat_completeness auto
termination by (relation "measure id") (auto simp: H3_CHUNK_def)

declare h3_chunks.simps [simp del]

definition zero_stream :: "nat \<Rightarrow> ep_body" where
  "zero_stream n = StreamBody (map (\<lambda>k. replicate k 0) (h3_chunks n))"

definition standard_headers :: "string \<Rightarrow> (string \<times> string) list" where
  "standard_headers ts = [(''x-networker-server-timestamp'', ts), (''x-networker-server-version'', CARGO_PKG_VERSION)]"

definition send_json :: "string \<Rightarrow> nat \<Rightarrow> string \<Rightarrow> ep_response" where
  "send_json ts status body =
     \<lparr>es_status = status, es_headers = (''content-type'', ''application/json'') # standard_headers ts, es_body = TextBody body\<rparr>"

definition h3_health :: "(jvalue \<Rightarrow> string) \<Rightarrow> string \<Rightarrow> ep_response" where
  "h3_health to_text ts = send_json ts 200 (to_text (ObjV [(''status'', StrV ''ok''), (''timestamp'', StrV ts),
     (''service'', StrV ''networker-endpoint''), (''version'', StrV CARGO_PKG_VERSION)]))"

definition h3_download :: "transfer_readings \<Rightarrow> string \<Rightarrow> ep_response" where
  "h3_download rd query =
     (let n = min (opt_or 1024 (parse_query_usize query ''bytes'')) (2 * 1024 * 1024 * 1024)
      in \<lparr>es_status = 200,
          es_headers = [(''content-type'', ''application/octet-stream''), (''content-length'', decimal n), (''x-download-bytes'', decimal n),
            (''server-timing'', ''proc;dur='' @ fixed 3 (tr_elapsed_ms rd) @ csw_part (tr_csw0 rd) (tr_csw1 rd))] @
            standard_headers (tr_timestamp rd),
          es_body = zero_stream n\<rparr>)"

definition h3_upload :: "web \<Rightarrow> (jvalue \<Rightarrow> string) \<Rightarrow> transfer_readings \<Rightarrow> ep_request \<Rightarrow> ep_response" where
  "h3_upload w to_text rd req =
     (let request_id = Option.bind (map_of (eq_headers req) ''x-networker-request-id'') (web_to_str w);
          received_bytes = count_body (eq_body req)
      in \<lparr>es_status = 200,
          es_headers = [(''content-type'', ''application/json''),
            (''server-timing'', ''recv;dur='' @ fixed 3 (tr_elapsed_ms rd) @ csw_part (tr_csw0 rd) (tr_csw1 rd))] @
            standard_headers (tr_timestamp rd) @
            (case request_id of Some rid \<Rightarrow> [(''x-networker-request-id'', rid)] | None \<Rightarrow> []),
          es_body = TextBody (to_text (ObjV [(''received_bytes'', NatV received_bytes), (''timestamp'', StrV (tr_timestamp rd))]))\<rparr>)"

definition h3_page :: "(jvalue \<Rightarrow> string) \<Rightarrow> string \<Rightarrow> string \<Rightarrow> ep_response" where
  "h3_page to_text ts query =
     (let n = min (opt_or 20 (parse_query_usize query ''assets'')) 500; b = opt_or 10240 (parse_query_usize query ''bytes'')
      in send_json ts 200 (to_text (ObjV [(''asset_count'', NatV n), (''asset_bytes'', NatV b),
           (''assets'', ArrV (map StrV (asset_urls n b)))])))"

definition h3_browser_page :: "string \<Rightarrow> ep_response" where
  "h3_browser_page query =
     (let n = min (opt_or 20 (parse_query_usize query ''assets'')) 500; b = opt_or 10240 (parse_query_usize query ''bytes'');
          html = browser_html n b
      in \<lparr>es_status = 200, es_headers = [(''content-type'', ''text/html; charset=utf-8''), (''content-length'', decimal (length html))],
          es_body = TextBody html\<rparr>)"

definition h3_asset :: "string \<Rightarrow> string \<Rightarrow> ep_response" where
  "h3_asset ts query =
     (let n = min (opt_or 10240 (parse_query_usize query ''bytes'')) (100 * 1024 * 1024)
      in \<lparr>es_status = 200, es_headers = [(''content-type'', ''application/octet-stream''), (''content-length'', decimal n)] @ standard_headers ts,
          es_body = zero_stream n\<rparr>)"

definition h3_not_found :: "string \<Rightarrow> ep_response" where
  "h3_not_found ts = send_json ts 404 (''{'' @ quoted ''error'' @ '':'' @ quoted ''not found'' @ ''}'')"

definition h3_handle_request :: "'r ep_env \<Rightarrow> ep_request \<Rightarrow> ep_response" where
  "h3_handle_request en req =
     (let tt = en_to_text en; ts = en_timestamp en; query = opt_or [] (eq_query req); r = (eq_method req, eq_path req)
      in if r = (''GET'', ''/health'') then h3_health tt ts
         else if r = (''GET'', ''/download'') then h3_download (en_transfer en) query
         else if r = (''POST'', ''/upload'') then h3_upload (en_web en) tt (en_transfer en) req
         else if r = (''GET'', ''/page'') then h3_page tt ts query
         else if r = (''GET'', ''/browser-page'') then h3_browser_page query
         else if r = (''GET'', ''/asset'') then h3_asset ts query
         else h3_not_found ts)"

text \<open>What is sent of an answer: the headers, then one frame after the other until a send fails.\<close>

definition body_frames :: "(jvalue \<Rightarrow> string) \<Rightarrow> ep_body \<Rightarrow> bytes list" where
  "body_frames to_text b = (case b of
     TextBody s \<Rightarrow> [map of_char s] | StreamBody fs \<Rightarrow> fs | JsonBody v \<Rightarrow> [map of_char (to_text v)])"

definition h3_sent :: "(jvalue \<Rightarrow> string) \<Rightarrow> bool list \<Rightarrow> ep_response \<Rightarrow> bytes list option" where
  "h3_sent to_text sends_ok r = (case sends_ok of
     [] \<Rightarrow> None
   | headers_ok # frames_ok \<Rightarrow>
       (if headers_ok then Some (map snd (takeWhile fst (zip frames_ok (body_frames to_text (es_body r))))) else None))"

end
