(* ===== verification/Endpoint_Properties.thy ===== *)
theory Endpoint_Properties
  imports Endpoint_H3 Throughput "HOL-Library.Multiset"
begin

text \<open>
  Properties of the endpoint's HTTP side: what the token guards on which listener, how the HTTP/3
  listener compares with the router, transfers from the tester's request to its check of the
  answer, and the benchmark API.
\<close>

section \<open>The token\<close>

definition authorized :: "web \<Rightarrow> app_state \<Rightarrow> ep_request \<Rightarrow> bool" where
  "authorized w st req \<longleftrightarrow> eq_path req = ''/health'' \<or>
     (case as_bench_token st of None \<Rightarrow> True | Some t \<Rightarrow> bearer_token w req = Some t)"

lemma service_authorized:
  assumes "authorized (en_web en) st req"
  shows "map_option (\<lambda>r. (es_status r, es_body r)) (ep_service en st req) = map_option (\<lambda>r. (es_status r, es_body r)) (run_routes en st req)"
  using assms
  by (auto simp: ep_service_def bench_auth_middleware_def authorized_def option.map_comp comp_def split: option.splits)

lemma service_unauthorized:
  assumes "\<not> authorized (en_web en) st req"
  shows "ep_service en st req = Some (add_server_timestamp (en_web en) st (en_timestamp en) (unauthorized (en_web en) (en_auth_ms en)))"
  using assms by (auto simp: ep_service_def bench_auth_middleware_def authorized_def split: option.splits)

lemma unauthorized_sel [simp]:
  "es_status (unauthorized w d) = 401" "es_body (unauthorized w d) = JsonBody (ObjV [(''error'', StrV ''unauthorized'')])"
  by (simp_all add: unauthorized_def json_answer_def Let_def)

text \<open>C17: The HTTP/1.1 and HTTP/2 listeners are guarded by the bearer token, the check of health excepted.
  A request without the configured token is answered 401 with a body that depends on nothing, and
  neither its method nor its body nor the state of the endpoint behind the guard has any influence
  on the answer; any other request gets the status and the body of its handler. Every answer names
  the version.\<close>

theorem endpoint_guarded:
  fixes en :: "'r ep_env" and st req
  defines "w \<equiv> en_web en"
  shows "(if authorized w st req
      then map_option (\<lambda>r. (es_status r, es_body r)) (ep_service en st req) = map_option (\<lambda>r. (es_status r, es_body r)) (run_routes en st req)
      else ep_service en st req = ep_service en st
          (req\<lparr>eq_method := ''GET'', eq_path := ''/'', eq_query := None, eq_headers := [], eq_body := []\<rparr>) \<and>
        map_option (\<lambda>r. (es_status r, es_body r)) (ep_service en st req) = Some (401, JsonBody (ObjV [(''error'', StrV ''unauthorized'')]))) \<and>
    pred_option (\<lambda>r. response_header ''x-networker-server-version'' r = Some CARGO_PKG_VERSION ) (ep_service en st req)"
proof -
  have "pred_option (\<lambda>r. response_header ''x-networker-server-version'' r = Some CARGO_PKG_VERSION) (ep_service en st req)"
    by (auto simp: ep_service_def option.pred_map comp_def option.pred_True pred_option_def elim!: option.set_cases)
  moreover have "\<not> authorized (en_web en) st (req\<lparr>eq_method := ''GET'', eq_path := ''/'', eq_query := None, eq_headers := [], eq_body := []\<rparr>)"
    if "\<not> authorized (en_web en) st req"
    using that by (auto simp: authorized_def bearer_token_def split: option.splits)
  ultimately show ?thesis
    using service_authorized [of en st req] by (auto simp: w_def service_unauthorized)
qed

section \<open>Bodies\<close>

fun body_length :: "(jvalue \<Rightarrow> string) \<Rightarrow> ep_body \<Rightarrow> nat" where
  "body_length to_text (TextBody s) = length s"
| "body_length to_text (StreamBody fs) = sum_list (map length fs)"
| "body_length to_text (JsonBody v) = length (to_text v)"

lemma download_chunk_pos: "0 < EP_DOWNLOAD_CHUNK" by (simp add: EP_DOWNLOAD_CHUNK_def)

lemma concat_replicate_same: "concat (replicate k (replicate m x)) = replicate (k * m) x"
  by (induction k) (simp_all add: replicate_add)

lemma concat_chunked [simp]: "concat (chunked fill n) = replicate n fill"
proof -
  have "n div EP_DOWNLOAD_CHUNK * EP_DOWNLOAD_CHUNK + n mod EP_DOWNLOAD_CHUNK = n" by simp
  then have "replicate (n div EP_DOWNLOAD_CHUNK * EP_DOWNLOAD_CHUNK) fill @ replicate (n mod EP_DOWNLOAD_CHUNK) fill = replicate n fill"
    by (metis replicate_add)
  then show ?thesis by (auto simp: chunked_def Let_def concat_replicate_same)
qed

lemma chunked_length [simp]: "sum_list (map length (chunked fill n)) = n"
  using concat_chunked [of fill n] by (metis length_concat length_replicate)

lemma h3_chunks_sum [simp]: "sum_list (h3_chunks n) = n"
proof (induction n rule: h3_chunks.induct)
  case (1 n)
  then show ?case by (subst h3_chunks.simps) (simp add: min_def)
qed

lemma zero_stream_length [simp]: "body_length tt (zero_stream n) = n"
  by (simp add: zero_stream_def comp_def)

section \<open>The HTTP/3 listener and the router\<close>

definition core_routes :: "(string \<times> string) list" where
  "core_routes = [(''GET'', ''/health''), (''GET'', ''/download''), (''POST'', ''/upload''), (''GET'', ''/page''),
     (''GET'', ''/browser-page''), (''GET'', ''/asset'')]"

lemma find_core:
  "find_route st ''GET'' ''/health'' = Routed Health" "find_route st ''GET'' ''/download'' = Routed GetDownload"
  "find_route st ''POST'' ''/upload'' = Routed PostUpload" "find_route st ''GET'' ''/page'' = Routed PageManifest"
  "find_route st ''GET'' ''/browser-page'' = Routed BrowserPage" "find_route st ''GET'' ''/asset'' = Routed Asset"
  by (simp_all add: find_route_def routes_of_def fixed_routes_def allows_def)

lemma h3_core_status: "(eq_method req, eq_path req) \<in> set core_routes \<Longrightarrow> es_status (h3_handle_request en req) = 200"
  by (auto simp: core_routes_def h3_handle_request_def h3_health_def send_json_def h3_download_def h3_upload_def
      h3_page_def h3_browser_page_def h3_asset_def Let_def)


section \<open>Transfers between the tester and the endpoint\<close>

text \<open>C20: A download of the endpoint is exactly the fill byte as often as asked, up to the cap of two gibibytes,
  in frames that are neither empty nor longer than a chunk, and its length header says so. The
  tester's check of a successful attempt that received this body passes exactly when no more than
  the cap was asked for: a larger transfer always fails.\<close>

theorem download_round:
  assumes "at_success a" "ha_http a = Some h"
    and "hr_body_size_bytes h = body_length tt (es_body (ep_download rd (Some n)))"
  shows "(\<exists>fs. es_body (ep_download rd (Some n)) = StreamBody fs \<and> concat fs = replicate (min n EP_DOWNLOAD_CAP) EP_DOWNLOAD_FILL \<and>
      (\<forall>f \<in> set fs. f \<noteq> [] \<and> length f \<le> EP_DOWNLOAD_CHUNK)) \<and>
    response_header ''content-length'' (ep_download rd (Some n)) = Some (decimal (min n EP_DOWNLOAD_CAP)) \<and>
    (at_success (verify_download ids n a) \<longleftrightarrow> n \<le> EP_DOWNLOAD_CAP)"
proof -
  have b: "es_body (ep_download rd (Some n)) = StreamBody (chunked EP_DOWNLOAD_FILL (min n EP_DOWNLOAD_CAP))"
    "response_header ''content-length'' (ep_download rd (Some n)) = Some (decimal (min n EP_DOWNLOAD_CAP))"
    by (simp_all add: ep_download_def opt_or_def ep_download_response_def Let_def response_header_def)
  have "\<forall>f \<in> set (chunked fill m). f \<noteq> [] \<and> length f \<le> EP_DOWNLOAD_CHUNK" for fill m
    using download_chunk_pos by (auto simp: chunked_def Let_def less_imp_le)
  moreover have "hr_body_size_bytes h = min n EP_DOWNLOAD_CAP" by (simp add: assms(3) b(1))
  ultimately show ?thesis
    using b by (auto simp: verify_download_def failed_with_def assms(1,2) min_def)
qed

section \<open>Uploads\<close>

definition RECEIVED :: string where "RECEIVED = ''x-networker-received-bytes''"

lemma find_header:
  assumes "\<forall>h \<in> set hs. eq_ignore_ascii_case (fst h) k \<longrightarrow> fst h = k" "eq_ignore_ascii_case k k"
  shows "find (\<lambda>(j, _). eq_ignore_ascii_case j k) hs = map_option (\<lambda>v. (k, v)) (map_of hs k)"
  using assms by (induction hs) auto

definition own_names :: "string list" where
  "own_names = [''content-type'', ''server-timing'', RECEIVED, ''x-networker-request-id'', ''x-networker-server-timestamp'',
     ''x-networker-server-version'', ''alt-svc'']"

definition own_headers :: "ep_response \<Rightarrow> bool" where
  "own_headers r \<longleftrightarrow> fst ` set (es_headers r) \<subseteq> set own_names"

lemma own_headers_insert: "own_headers r \<Longrightarrow> k \<in> set own_names \<Longrightarrow> own_headers (insert_header k v r)"
  by (auto simp: own_headers_def insert_header_def header_insert_def)

lemma own_headers_layers:
  "own_headers r \<Longrightarrow> own_headers (append_auth_timing w d r)" "own_headers r \<Longrightarrow> own_headers (add_server_timestamp w st ts r)"
  by (auto simp: append_auth_timing_def add_server_timestamp_def Let_def own_names_def intro!: own_headers_insert split: option.splits)

lemma own_headers_upload: "own_headers (ep_upload w rd req)" "own_headers (h3_upload w tt rd req)"
proof -
  have j: "own_headers (json_answer c v)" for c v by (simp add: own_headers_def json_answer_def own_names_def)
  show "own_headers (ep_upload w rd req)"
    by (auto simp: ep_upload_def Let_def own_names_def RECEIVED_def intro!: own_headers_insert j split: option.splits)
  show "own_headers (h3_upload w tt rd req)"
    by (auto simp: h3_upload_def Let_def own_headers_def own_names_def standard_headers_def split: option.splits)
qed

lemma own_names_received: "\<forall>k \<in> set own_names. eq_ignore_ascii_case k RECEIVED \<longrightarrow> k = RECEIVED"
  by (simp add: own_names_def RECEIVED_def eq_ignore_ascii_case_def to_ascii_lowercase_def lower_char_def is_ascii_upper_def code_def)

lemma received_own:
  assumes "own_headers r" "hr_response_headers h = es_headers r"
  shows "received_header h = Option.bind (response_header RECEIVED r) (\<lambda>v. map_option unat (parse_u64 v))"
proof -
  have "\<forall>x \<in> set (es_headers r). eq_ignore_ascii_case (fst x) RECEIVED \<longrightarrow> fst x = RECEIVED"
    using assms(1) own_names_received by (auto simp: own_headers_def)
  from find_header [OF this] show ?thesis
    by (cases "map_of (es_headers r) RECEIVED")
      (simp_all add: received_header_def assms(2) response_header_def RECEIVED_def eq_ignore_ascii_case_def)
qed

definition data_length :: "ep_frame \<Rightarrow> nat" where
  "data_length f = (case f of EpData d \<Rightarrow> length d | _ \<Rightarrow> 0)"

lemma count_body_sum: "count_body fs = sum_list (map data_length (takeWhile (\<lambda>f. f \<noteq> EpFrameError) fs))"
  by (induction fs rule: count_body.induct) (simp_all add: data_length_def)


section \<open>The benchmark API\<close>

lemma index_at_less:
  assumes "0 < n" "n \<le> 2 ^ 53" "0 \<le> p" "p \<le> 96 / 100"
  shows "index_at p n < n"
proof -
  have "fl (real n * p) \<le> real n * p * (1 + ulp_rel)" using assms(3) by (intro fl_le) simp
  also have "real n * p * (1 + ulp_rel) \<le> real n * (96 / 100) * (1 + 1 / 100)"
    using assms(3,4) by (intro mult_mono) (auto simp: ulp_rel_def)
  also have "\<dots> < real n" using assms(1) by simp
  finally have "f64_mul (fl (real n)) p < real n" using assms(2) fl_int [of "int n"] by (simp add: f64_mul_def)
  then show ?thesis using assms(1) by (simp add: index_at_def) linarith
qed

lemma index_at_mono: "p \<le> q \<Longrightarrow> index_at p n \<le> index_at q n"
  unfolding index_at_def f64_mul_def
  by (intro nat_mono floor_mono fl_mono mult_left_mono) (simp_all add: fl.rnd_nonneg)

lemma quantiles: "0 \<le> fl (1 / 2)" "fl (1 / 2) \<le> fl (95 / 100)" "fl (95 / 100) \<le> 96 / 100"
proof -
  show "0 \<le> fl (1 / 2)" by (rule fl.rnd_nonneg) simp
  show "fl (1 / 2) \<le> fl (95 / 100)" by (rule fl_mono) simp
  have "fl (95 / 100) \<le> 95 / 100 * (1 + ulp_rel)" by (rule fl_le) simp
  also have "\<dots> \<le> 96 / 100" by (simp add: ulp_rel_def)
  finally show "fl (95 / 100) \<le> 96 / 100" .
qed

lemma aggregate_of_None_iff:
  assumes "length xs \<le> 2 ^ 53"
  shows "aggregate_of xs = None \<longleftrightarrow> length xs < 5"
proof (cases "length xs = 0")
  case False
  then have "index_at (fl (1 / 2)) (length xs) < length xs" "index_at (fl (95 / 100)) (length xs) < length xs"
    using assms quantiles by (auto intro!: index_at_less)
  then show ?thesis by (auto simp: aggregate_of_def Let_def div_eq_0_iff)
qed (simp add: aggregate_of_def Let_def)

lemma f64_round_mono: "x \<le> y \<Longrightarrow> f64_round x \<le> f64_round y"
proof (cases "0 \<le> x \<or> y < 0")
  case True
  moreover assume "x \<le> y"
  ultimately show ?thesis by (auto simp: f64_round_def intro!: floor_mono)
next
  case False
  moreover assume "x \<le> y"
  ultimately have "x < 0" "0 \<le> y" by auto
  then have "0 \<le> \<lfloor>- x + 1 / 2\<rfloor>" "0 \<le> \<lfloor>y + 1 / 2\<rfloor>" by (auto simp: le_floor_iff)
  then have "f64_round x \<le> 0" "0 \<le> f64_round y"
    using \<open>x < 0\<close> \<open>0 \<le> y\<close> unfolding f64_round_def by (simp_all only: if_False if_True not_le [symmetric] neg_le_0_iff_le of_int_0_le_iff not_less simp_thms)
  then show ?thesis by (rule order_trans)
qed

lemma hundredths_mono: "x \<le> y \<Longrightarrow> hundredths x \<le> hundredths y"
  unfolding hundredths_def f64_div_def f64_mul_def
  by (intro fl_mono divide_right_mono f64_round_mono mult_right_mono) simp_all

definition figure :: "string \<Rightarrow> jvalue \<Rightarrow> f64" where
  "figure k v = opt_or 0 (as_f64 (member k v))"

text \<open>C21: The aggregate of the benchmark API returns exactly for five values or more: for fewer an index is out of
  range and the handler panics. What it returns is in order, the median no larger than the 95th
  percentile and that no larger than the maximum.\<close>

theorem aggregate_returns:
  assumes "length (series g data (range_start r)) \<le> 2 ^ 53"
  shows "(api_aggregate g data dur r = None \<longleftrightarrow> length (series g data (range_start r)) < 5) \<and>
    (\<forall>v. aggregate_of (series g data (range_start r)) = Some v \<longrightarrow> figure ''p50'' v \<le> figure ''p95'' v \<and> figure ''p95'' v \<le> figure ''max'' v)"
proof (intro conjI allI impI)
  let ?xs = "series g data (range_start r)"
  show "api_aggregate g data dur r = None \<longleftrightarrow> length ?xs < 5"
    using aggregate_of_None_iff [OF assms] by (simp add: api_aggregate_def)
  fix v assume v: "aggregate_of ?xs = Some v"
  have s: "sorted ?xs" by (simp add: series_def)
  have i: "index_at (fl (1 / 2)) (length ?xs) < length ?xs" "index_at (fl (95 / 100)) (length ?xs) < length ?xs" "?xs \<noteq> []"
    using v by (auto simp: aggregate_of_def Let_def split: if_splits)
  have f: "figure ''p50'' v = hundredths (?xs ! index_at (fl (1 / 2)) (length ?xs))"
    "figure ''p95'' v = hundredths (?xs ! index_at (fl (95 / 100)) (length ?xs))" "figure ''max'' v = hundredths (last ?xs)"
    using v by (auto simp: aggregate_of_def Let_def figure_def opt_or_def split: if_splits)
  show "figure ''p50'' v \<le> figure ''p95'' v"
    unfolding f by (intro hundredths_mono sorted_nth_mono [OF s] index_at_mono quantiles i)
  show "figure ''p95'' v \<le> figure ''max'' v"
    unfolding f last_conv_nth [OF i(3)] using i by (intro hundredths_mono sorted_nth_mono [OF s]) auto
qed

text \<open>A search returns the first matches in the order of their position and then of their bytes: the list
  behind it holds every item of the corpus that matches, as often as it occurs, at the position of
  the match, and is sorted; what is returned is its beginning, ranked from one, up to the limit, which
  is never more than a hundred.\<close>

theorem search_ranks_matches:
  fixes data dur q limit_param g regex_new
  defines "items \<equiv> (case data of Some d \<Rightarrow> bd_search_corpus d | None \<Rightarrow> gen_items g 1000 (rg_seed g 42))"
    and "query \<equiv> opt_or ''test'' q" and "limit_count \<equiv> min (opt_or 20 limit_param) 100"
  shows "\<exists>scored. sorted (map (\<lambda>(pos, item). (pos, text_key item)) scored) \<and>
    mset scored = image_mset (\<lambda>i. (the (matched_at regex_new query i), i)) (filter_mset (\<lambda>i. matched_at regex_new query i \<noteq> None) (mset items)) \<and>
    es_body (api_search g regex_new data dur q limit_param) = JsonBody (ObjV [(''query'', StrV query), (''total_matches'', NatV (length scored)),
      (''returned'', NatV (min limit_count (length scored))),
      (''results'', ArrV (map (\<lambda>k. ranked k (scored ! k)) [0..<min limit_count (length scored)]))])"
proof -
  define scored where "scored = scored_items regex_new query items"
  have "mset (received_of (map (\<lambda>i. map_option (\<lambda>pos. (pos, i)) (matched_at regex_new query i)) is)) =
      image_mset (\<lambda>i. (the (matched_at regex_new query i), i)) (filter_mset (\<lambda>i. matched_at regex_new query i \<noteq> None) (mset is))" for "is"
    by (induction "is") (auto simp: received_of_def)
  then have m: "mset scored = image_mset (\<lambda>i. (the (matched_at regex_new query i), i)) (filter_mset (\<lambda>i. matched_at regex_new query i \<noteq> None) (mset items))"
    by (simp add: scored_def scored_items_def)
  have "map (\<lambda>(k, x). ranked k x) (enumerate 0 (take limit_count scored)) = map (\<lambda>k. ranked k (scored ! k)) [0..<min limit_count (length scored)]"
    by (rule nth_equalityI) (simp_all add: nth_enumerate_eq min.commute)
  then have "es_body (api_search g regex_new data dur q limit_param) = JsonBody (ObjV [(''query'', StrV query), (''total_matches'', NatV (length scored)),
      (''returned'', NatV (min limit_count (length scored))),
      (''results'', ArrV (map (\<lambda>k. ranked k (scored ! k)) [0..<min limit_count (length scored)]))])"
    by (simp add: api_search_def api_answer_def search_result_def Let_def scored_def query_def items_def limit_count_def min.commute)
  with m show ?thesis by (intro exI [of _ scored]) (simp add: scored_def scored_items_def)
qed

text \<open>Sorting by a field keeps the order of equals both upwards and downwards.\<close>

lemma sorted_by_sound:
  "mset (sorted_by asc f xs) = mset xs" "sorted (map f (if asc then sorted_by asc f xs else rev (sorted_by asc f xs)))"
  by (simp_all add: sorted_by_def)

lemma sorted_by_stable: "filter (\<lambda>x. f x = k) (sorted_by asc f xs) = filter (\<lambda>x. f x = k) xs"
  using filter_sort [where f = f and P = "\<lambda>x. f x = k"]
  by (simp add: sorted_by_def sort_key_stable flip: rev_filter)

text \<open>The offset of a page wraps, so the pages of the data set come again after \<open>2 ^ 62\<close> of them.\<close>

lemma user_page_repeats: "user_page g (Some d) (page + 2 ^ 62) = user_page g (Some d) page"
proof -
  have "(2 :: u64) ^ 62 * 100 = 0" by simp
  then have "(page + 2 ^ 62 - 1) * 100 = (page - 1) * 100" by (simp only: left_diff_distrib distrib_right add_0_right)
  then show ?thesis by (simp only: user_page_def option.case)
qed

lemma user_page_slice:
  assumes "1 \<le> unat page" "unat page * 100 < 2 ^ 64"
  shows "user_page g (Some d) page = take 100 (drop ((unat page - 1) * 100) (bd_users d))"
proof -
  have one: "unat (page - 1) = unat page - 1" using assms(1) by (simp add: unat_sub word_le_nat_alt)
  have h: "unat (100 :: u64) = 100" by simp
  have start: "unat ((page - 1) * 100) = (unat page - 1) * 100"
    using assms by (subst unat_word_ariths(2)) (simp add: one h)
  moreover have "unat ((page - 1) * 100 + 100) = (unat page - 1) * 100 + 100"
    using assms by (simp only: unat_word_ariths(1) start h) simp
  ultimately show ?thesis by (auto simp: user_page_def Let_def slice_def min_def)
qed

section \<open>Concrete inputs\<close>

definition demo_web :: web where
  "demo_web = \<lparr>web_header_ok = \<lambda>_. True, web_to_str = Some, web_usize = \<lambda>k q. Inr (parse_query_usize (opt_or [] q) k),
     web_string = \<lambda>k q. Inr None, web_path_usize = \<lambda>_. Inr 0, web_path_u16 = \<lambda>_. Inr 200, web_bytes = \<lambda>_. Inr []\<rparr>"

definition demo_transfer :: transfer_readings where
  "demo_transfer = \<lparr>tr_elapsed_ms = 0, tr_csw0 = \<lparr>sw_voluntary = 0, sw_involuntary = 0\<rparr>,
     tr_csw1 = \<lparr>sw_voluntary = 0, sw_involuntary = 0\<rparr>, tr_cpu_ms = 0, tr_timestamp = ''now''\<rparr>"

definition demo_rng :: "unit rng" where
  "demo_rng = \<lparr>rg_seed = \<lambda>_. (), rg_range = \<lambda>lo hi r. (lo, r), rg_unit = \<lambda>r. (0, r)\<rparr>"

definition demo_ep_env :: "unit ep_env" where
  "demo_ep_env = \<lparr>en_web = demo_web, en_transfer = demo_transfer, en_timestamp = ''now'',
     en_info = \<lparr>if_uptime_secs = 0, if_timestamp = ''now'', if_load_avg = None, if_mem_available = None, if_http3 = True\<rparr>,
     en_landing = \<lambda>_. plain_status 200, en_upgrade = \<lambda>_. plain_status 101, en_reason = \<lambda>_. None, en_rng = demo_rng,
     en_data = None, en_regex = \<lambda>_. None, en_digests = \<lparr>dg_crc32_hex = \<lambda>_. [], dg_sha256_hex = \<lambda>_. [], dg_zlib = \<lambda>b. b\<rparr>,
     en_sha256_text = \<lambda>s. s, en_to_text = \<lambda>_. ''{}'', en_transform_body = \<lambda>_. Inr (None, None, None),
     en_upstream = \<lparr>us_parse_uri = \<lambda>_. Inr (), us_request = \<lambda>_ _. Inl [], us_quote = quoted\<rparr>,
     en_dur_ms = 0, en_actual_ms = 0, en_auth_ms = 0\<rparr>"

definition demo_app :: app_state where
  "demo_app = \<lparr>as_h3_port = Some 8443, as_http_port = 8080, as_https_port = 8443, as_udp_port = 9999,
     as_udp_throughput_port = 9998, as_stamp_port = 9997, as_api_upstream = None, as_started_at = 0,
     as_system_meta = \<lparr>sy_os = [], sy_arch = [], sy_cpu_cores = 1, sy_total_memory_mb = None, sy_os_version = None,
       sy_hostname = [], sy_region = None, sy_public_dns = None, sy_public_ip = None\<rparr>, as_bench_token = Some ''t''\<rparr>"

definition demo_ep_request :: "string \<Rightarrow> string \<Rightarrow> string list \<Rightarrow> ep_frame list \<Rightarrow> ep_request" where
  "demo_ep_request m p tokens body = \<lparr>eq_method = m, eq_path = p, eq_query = None, eq_version = Http11,
     eq_headers = map (\<lambda>t. (''authorization'', ''Bearer '' @ t)) tokens, eq_body = body\<rparr>"

definition demo_http_attempt :: "nat \<Rightarrow> (string \<times> string) list \<Rightarrow> http_attempt" where
  "demo_http_attempt n hs = attempt.extend (attempt_new \<lparr>ai_run_id = 1, ai_attempt_id = 2, ai_sequence_num = 0,
       ai_started_at = 0, ai_finished_at = 0, ai_error_at = 0\<rparr> Upload True None)
     \<lparr>ha_dns_ms = None, ha_tcp_ms = None, ha_tls_ms = None, ha_http = Some \<lparr>hr_status_code = 200, hr_body_size_bytes = n,
       hr_ttfb_ms = 1, hr_total_duration_ms = 2, hr_response_headers = hs, hr_payload_bytes = 0, hr_throughput_mbps = None,
       hr_goodput_mbps = None, hr_http_handshake_ms = None\<rparr>, ha_recv_body_ms = None\<rparr>"

lemma demo_http_attempt_sel:
  "at_success (demo_http_attempt n hs)" "hr_body_size_bytes (the (ha_http (demo_http_attempt n hs))) = n"
  "hr_response_headers (the (ha_http (demo_http_attempt n hs))) = hs" "ha_http (demo_http_attempt n hs) \<noteq> None"
  by (simp_all add: demo_http_attempt_def attempt.defs)

lemma demo_http: "\<exists>h. ha_http (demo_http_attempt n hs) = Some h \<and> hr_body_size_bytes h = n \<and> hr_response_headers h = hs"
  by (simp add: demo_http_attempt_def attempt.defs)


theorem download_round_witness:
  "\<not> at_success (verify_download \<lparr>ai_run_id = 1, ai_attempt_id = 2, ai_sequence_num = 0, ai_started_at = 0, ai_finished_at = 0,
      ai_error_at = 0\<rparr> 3000000000 (demo_http_attempt 2147483648 []))"
proof -
  obtain h where h: "ha_http (demo_http_attempt 2147483648 []) = Some h" "hr_body_size_bytes h = 2147483648"
    using demo_http by blast
  have "body_length (\<lambda>_. []) (es_body (ep_download demo_transfer (Some 3000000000))) = 2147483648"
    by (simp add: ep_download_def opt_or_def ep_download_response_def Let_def EP_DOWNLOAD_CAP_def)
  with h download_round [OF demo_http_attempt_sel(1) h(1), of "\<lambda>_. []" demo_transfer 3000000000] show ?thesis
    by (simp add: EP_DOWNLOAD_CAP_def)
qed


theorem aggregate_returns_witness:
  "api_aggregate demo_rng (Some \<lparr>bd_users = [], bd_search_corpus = [], bd_timeseries = [ObjV [(''value'', NatV 3)]],
     bd_expected_checksums = []\<rparr>) 0 None = None"
proof -
  let ?d = "Some \<lparr>bd_users = [], bd_search_corpus = [], bd_timeseries = [ObjV [(''value'', NatV 3)]], bd_expected_checksums = []\<rparr>"
  have "length (series demo_rng ?d (range_start None)) = 1"
    by (simp add: series_def received_of_def)
  then show ?thesis using aggregate_returns [of demo_rng ?d None] by simp
qed

section \<open>The bound of the accept loops\<close>

text \<open>The accept loops of the HTTP/3 listener never run more tasks than their bound, and refuse only when
  that many are running.\<close>

lemma accept_loop_bounded:
  assumes "running \<le> bound"
  shows "snd (accept_loop bound es running) \<le> bound"
  using assms by (induction bound es running rule: accept_loop.induct) (auto split: prod.splits)

lemma accept_loop_refuses:
  "fst (accept_loop bound (Incoming # es) running) = (running < bound) # fst (accept_loop bound es (if running < bound then Suc running else running))"
  by (simp split: prod.splits)

end
