(* ===== verification/Orch_Config.thy ===== *)
theory Orch_Config
  imports Formats "HOL-Library.Multiset"
begin

text \<open>
  The orchestrator's two configurations, \<open>benchmarks/orchestrator/src/config.rs\<close>: the sweep the
  dashboard asks for, with what an absent field means and what is refused, and the suite of
  the command line with its matrix of cases and its shuffle.

  The JSON texts are read by a library: what it makes of the text is a record whose fields are
  optional where the type has a default. A refusal is a constructor that carries what its
  message prints.
\<close>

section \<open>The dashboard's configuration\<close>

record testbed_config =
  tb_testbed_id :: string
  tb_cloud :: string
  tb_region :: string
  tb_topology :: string
  tb_vm_size :: string
  tb_existing_vm_ip :: "string option"
  tb_os :: string
  tb_languages :: "string list"
  tb_proxies :: "string list"
  tb_tester_os :: string

record methodology_config =
  mt_warmup_runs :: u32
  mt_min_measured :: u32
  mt_max_measured :: u32
  mt_target_relative_error :: f64
  mt_confidence_level :: f64
  mt_modes :: "string list"
  mt_timeout_secs :: u32

record dashboard_config =
  dc_config_id :: string
  dc_testbeds :: "testbed_config list"
  dc_methodology :: methodology_config
  dc_auto_teardown :: bool
  dc_callback_url :: "string option"
  dc_callback_token :: "string option"
  dc_logs_db_url :: "string option"
  dc_benchmark_type :: string
  dc_created_by_email :: "string option"
  dc_project_id :: "string option"

definition default_topology :: string where "default_topology = ''loopback''"
definition default_os :: string where "default_os = ''linux''"
definition default_benchmark_type :: string where "default_benchmark_type = ''fullstack''"
definition default_tester_os :: string where "default_tester_os = ''server''"
definition default_warmup :: u32 where "default_warmup = 10"
definition default_min_measured :: u32 where "default_min_measured = 50"
definition default_max_measured :: u32 where "default_max_measured = 200"
definition default_target_relative_error :: f64 where "default_target_relative_error = fl (5 / 100)"
definition default_confidence_level :: f64 where "default_confidence_level = fl (95 / 100)"
definition default_modes :: "string list" where "default_modes = [''http1'', ''http2'']"
definition default_timeout_secs :: u32 where "default_timeout_secs = 30"

definition or_default :: "'a \<Rightarrow> 'a option \<Rightarrow> 'a" where
  "or_default d x = (case x of Some v \<Rightarrow> v | None \<Rightarrow> d)"

text \<open>What the JSON holds: a field the type has a default for may be absent.\<close>

record methodology_json =
  mj_warmup_runs :: "u32 option"
  mj_min_measured :: "u32 option"
  mj_max_measured :: "u32 option"
  mj_target_relative_error :: "f64 option"
  mj_confidence_level :: "f64 option"
  mj_modes :: "string list option"
  mj_timeout_secs :: "u32 option"

definition methodology_of :: "methodology_json \<Rightarrow> methodology_config" where
  "methodology_of j =
     \<lparr>mt_warmup_runs = or_default default_warmup (mj_warmup_runs j),
      mt_min_measured = or_default default_min_measured (mj_min_measured j),
      mt_max_measured = or_default default_max_measured (mj_max_measured j),
      mt_target_relative_error = or_default default_target_relative_error (mj_target_relative_error j),
      mt_confidence_level = or_default default_confidence_level (mj_confidence_level j),
      mt_modes = or_default default_modes (mj_modes j),
      mt_timeout_secs = or_default default_timeout_secs (mj_timeout_secs j)\<rparr>"

record testbed_json =
  tj_testbed_id :: string
  tj_cloud :: string
  tj_region :: string
  tj_topology :: "string option"
  tj_vm_size :: string
  tj_existing_vm_ip :: "string option"
  tj_os :: "string option"
  tj_languages :: "string list"
  tj_proxies :: "string list option"
  tj_tester_os :: "string option"

definition testbed_of :: "testbed_json \<Rightarrow> testbed_config" where
  "testbed_of j =
     \<lparr>tb_testbed_id = tj_testbed_id j, tb_cloud = tj_cloud j, tb_region = tj_region j,
      tb_topology = or_default default_topology (tj_topology j), tb_vm_size = tj_vm_size j,
      tb_existing_vm_ip = tj_existing_vm_ip j, tb_os = or_default default_os (tj_os j),
      tb_languages = tj_languages j, tb_proxies = or_default [] (tj_proxies j),
      tb_tester_os = or_default default_tester_os (tj_tester_os j)\<rparr>"

record dashboard_json =
  dj_config_id :: string
  dj_testbeds :: "testbed_json list"
  dj_methodology :: methodology_json
  dj_auto_teardown :: "bool option"
  dj_callback_url :: "string option"
  dj_callback_token :: "string option"
  dj_logs_db_url :: "string option"
  dj_benchmark_type :: "string option"
  dj_created_by_email :: "string option"
  dj_project_id :: "string option"

definition dashboard_of :: "dashboard_json \<Rightarrow> dashboard_config" where
  "dashboard_of j =
     \<lparr>dc_config_id = dj_config_id j, dc_testbeds = map testbed_of (dj_testbeds j),
      dc_methodology = methodology_of (dj_methodology j), dc_auto_teardown = or_default False (dj_auto_teardown j),
      dc_callback_url = dj_callback_url j, dc_callback_token = dj_callback_token j,
      dc_logs_db_url = dj_logs_db_url j,
      dc_benchmark_type = or_default default_benchmark_type (dj_benchmark_type j),
      dc_created_by_email = dj_created_by_email j, dc_project_id = dj_project_id j\<rparr>"

datatype dashboard_error =
    Unreadable string
  | Unparsable string
  | EmptyConfigId
  | NoTestbeds
  | EmptyTestbedId
  | NoLanguages string
  | InvalidLanguage string string
  | InvalidBenchmarkType string
  | NoProxy string
  | InvalidProxy string string
  | ZeroMinMeasured
  | ZeroTimeout

text \<open>The first failing \<open>ensure!\<close> decides.\<close>

fun first_error :: "'e option list \<Rightarrow> 'e + unit" where
  "first_error [] = Inr ()"
| "first_error (None # es) = first_error es"
| "first_error (Some e # es) = Inl e"

definition ensure_or :: "bool \<Rightarrow> 'e \<Rightarrow> 'e option" where
  "ensure_or ok e = (if ok then None else Some e)"

definition shell_safe_char :: "char \<Rightarrow> bool" where
  "shell_safe_char c \<longleftrightarrow> is_ascii_alphanumeric c \<or> c = CHR ''-'' \<or> c = CHR ''_'' \<or> c = CHR ''.''"

definition shell_safe_name :: "string \<Rightarrow> bool" where
  "shell_safe_name s \<longleftrightarrow> s \<noteq> [] \<and> list_all shell_safe_char s"

definition VALID_PROXIES :: "string list" where
  "VALID_PROXIES = [''nginx'', ''iis'', ''caddy'', ''traefik'', ''haproxy'', ''apache'']"

definition testbed_checks :: "testbed_config \<Rightarrow> dashboard_error option list" where
  "testbed_checks tb =
     [ensure_or (tb_testbed_id tb \<noteq> []) EmptyTestbedId, ensure_or (tb_languages tb \<noteq> []) (NoLanguages (tb_testbed_id tb))] @
     map (\<lambda>lang. ensure_or (shell_safe_name lang) (InvalidLanguage lang (tb_testbed_id tb))) (tb_languages tb)"

definition proxy_checks :: "testbed_config \<Rightarrow> dashboard_error option list" where
  "proxy_checks tb = ensure_or (tb_proxies tb \<noteq> []) (NoProxy (tb_testbed_id tb)) #
     map (\<lambda>p. ensure_or (p \<in> set VALID_PROXIES) (InvalidProxy p (tb_testbed_id tb))) (tb_proxies tb)"

definition dashboard_validate :: "dashboard_config \<Rightarrow> dashboard_error + unit" where
  "dashboard_validate cfg = first_error
     ([ensure_or (dc_config_id cfg \<noteq> []) EmptyConfigId, ensure_or (dc_testbeds cfg \<noteq> []) NoTestbeds] @
      concat (map testbed_checks (dc_testbeds cfg)) @
      [ensure_or (dc_benchmark_type cfg \<in> {''fullstack'', ''application''}) (InvalidBenchmarkType (dc_benchmark_type cfg))] @
      (if dc_benchmark_type cfg = ''application'' then concat (map proxy_checks (dc_testbeds cfg)) else []) @
      [ensure_or (0 < mt_min_measured (dc_methodology cfg)) ZeroMinMeasured,
       ensure_or (0 < mt_timeout_secs (dc_methodology cfg)) ZeroTimeout])"

definition dashboard_load :: "string + string \<Rightarrow> (string \<Rightarrow> string + dashboard_json) \<Rightarrow> dashboard_error + dashboard_config" where
  "dashboard_load content parse = (case content of
     Inl e \<Rightarrow> Inl (Unreadable e)
   | Inr s \<Rightarrow> (case parse s of
       Inl e \<Rightarrow> Inl (Unparsable e)
     | Inr j \<Rightarrow> (case dashboard_validate (dashboard_of j) of
         Inl e \<Rightarrow> Inl e
       | Inr _ \<Rightarrow> Inr (dashboard_of j))))"

section \<open>The suite of the command line\<close>

record language_entry =
  le_name :: string
  le_runtime :: string
  le_path :: string
  le_build_cmd :: string
  le_run_cmd :: string
  le_port :: u16
  le_docker_image :: "string option"

record suite_config =
  sc_name :: string
  sc_version :: string
  sc_baseline_language :: "string option"
  sc_baseline_runtime :: "string option"
  sc_total_requests :: u64
  sc_concurrency_levels :: "u32 list"
  sc_repeat :: u32
  sc_warmup_requests :: u64
  sc_timeout_secs :: u64
  sc_endpoint :: string
  sc_method :: string
  sc_body :: "string option"
  sc_languages :: "language_entry list"

record test_case =
  tc_language :: language_entry
  tc_concurrency :: u32
  tc_repeat_index :: u32

datatype suite_error =
    SuiteUnreadable string
  | SuiteUnparsable string
  | EmptyLanguages
  | EmptyConcurrency
  | ZeroRequests
  | ZeroRepeat
  | EmptyLanguageName
  | ZeroPort string
  | UnknownBaseline string
  | BaselineRuntimeMismatch string string string
  | BaselineRuntimeAlone

definition language_checks :: "language_entry \<Rightarrow> suite_error option list" where
  "language_checks l = [ensure_or (le_name l \<noteq> []) EmptyLanguageName, ensure_or (0 < le_port l) (ZeroPort (le_name l))]"

definition baseline_check :: "suite_config \<Rightarrow> suite_error option" where
  "baseline_check cfg = (case sc_baseline_language cfg of
     Some bl \<Rightarrow> (case find (\<lambda>l. eq_ignore_ascii_case (le_name l) bl) (sc_languages cfg) of
         None \<Rightarrow> Some (UnknownBaseline bl)
       | Some l \<Rightarrow> (case sc_baseline_runtime cfg of
           None \<Rightarrow> None
         | Some rt \<Rightarrow> ensure_or (eq_ignore_ascii_case (le_runtime l) rt) (BaselineRuntimeMismatch rt (le_runtime l) bl)))
   | None \<Rightarrow> ensure_or (sc_baseline_runtime cfg = None) BaselineRuntimeAlone)"

definition suite_validate :: "suite_config \<Rightarrow> suite_error + unit" where
  "suite_validate cfg = first_error
     ([ensure_or (sc_languages cfg \<noteq> []) EmptyLanguages, ensure_or (sc_concurrency_levels cfg \<noteq> []) EmptyConcurrency,
       ensure_or (0 < sc_total_requests cfg) ZeroRequests, ensure_or (0 < sc_repeat cfg) ZeroRepeat] @
      concat (map language_checks (sc_languages cfg)) @ [baseline_check cfg])"

definition suite_load :: "string + string \<Rightarrow> (string \<Rightarrow> string + suite_config) \<Rightarrow> suite_error + suite_config" where
  "suite_load content parse = (case content of
     Inl e \<Rightarrow> Inl (SuiteUnreadable e)
   | Inr s \<Rightarrow> (case parse s of
       Inl e \<Rightarrow> Inl (SuiteUnparsable e)
     | Inr cfg \<Rightarrow> (case suite_validate cfg of Inl e \<Rightarrow> Inl e | Inr _ \<Rightarrow> Inr cfg)))"

section \<open>The matrix and its shuffle\<close>

definition matrix_rng_new :: "u64 \<Rightarrow> u64" where
  "matrix_rng_new seed = (if seed = 0 then 0x9e3779b97f4a7c15 else seed)"

definition matrix_next :: "u64 \<Rightarrow> u64" where
  "matrix_next state = state * 6364136223846793005 + 1442695040888963407"

definition swap_at :: "nat \<Rightarrow> nat \<Rightarrow> 'a list \<Rightarrow> 'a list" where
  "swap_at i j xs = xs[i := xs ! j, j := xs ! i]"

text \<open>\<open>idx\<close> runs from the last index down to one.\<close>

fun shuffle_from :: "nat \<Rightarrow> u64 \<Rightarrow> 'a list \<Rightarrow> 'a list" where
  "shuffle_from 0 state xs = xs"
| "shuffle_from (Suc i) state xs =
     (let state' = matrix_next state; j = unat state' mod (Suc i + 1)
      in shuffle_from i state' (swap_at (Suc i) j xs))"

definition shuffle_cases :: "u64 \<Rightarrow> 'a list \<Rightarrow> 'a list" where
  "shuffle_cases seed cases =
     (if length cases < 2 then cases
      else shuffle_from (length cases - 1) (matrix_rng_new (seed XOR of_nat (length cases))) cases)"

definition test_matrix_with_seed :: "u64 option \<Rightarrow> suite_config \<Rightarrow> test_case list" where
  "test_matrix_with_seed seed cfg =
     (let cases = concat (map (\<lambda>lang. concat (map (\<lambda>conc. map (\<lambda>rep.
            \<lparr>tc_language = lang, tc_concurrency = conc, tc_repeat_index = of_nat rep\<rparr>)
            [0..<unat (sc_repeat cfg)]) (sc_concurrency_levels cfg))) (sc_languages cfg))
      in case seed of Some s \<Rightarrow> shuffle_cases s cases | None \<Rightarrow> cases)"

definition test_matrix :: "suite_config \<Rightarrow> test_case list" where
  "test_matrix cfg = test_matrix_with_seed None cfg"

definition apply_quick :: "suite_config \<Rightarrow> suite_config" where
  "apply_quick cfg = cfg\<lparr>sc_total_requests := 1000, sc_concurrency_levels := [1, 10], sc_repeat := 1, sc_warmup_requests := 50\<rparr>"

definition filter_languages :: "string list \<Rightarrow> suite_config \<Rightarrow> suite_config" where
  "filter_languages names cfg =
     cfg\<lparr>sc_languages := filter (\<lambda>l. list_ex (\<lambda>n. eq_ignore_ascii_case n (le_name l)) names) (sc_languages cfg)\<rparr>"

section \<open>What validation establishes\<close>

lemma first_error_Inr_iff: "first_error es = Inr () \<longleftrightarrow> (\<forall>e \<in> set es. e = None)"
  by (induction es rule: first_error.induct) auto

lemma first_error_Inl: "first_error es = Inl e \<Longrightarrow> Some e \<in> set es"
  by (induction es rule: first_error.induct) auto

lemma ensure_or_None_iff [simp]: "ensure_or ok e = None \<longleftrightarrow> ok"
  by (simp add: ensure_or_def)

definition testbed_ok :: "testbed_config \<Rightarrow> bool" where
  "testbed_ok tb \<longleftrightarrow> tb_testbed_id tb \<noteq> [] \<and> tb_languages tb \<noteq> [] \<and> (\<forall>l \<in> set (tb_languages tb). shell_safe_name l)"

definition proxies_ok :: "testbed_config \<Rightarrow> bool" where
  "proxies_ok tb \<longleftrightarrow> tb_proxies tb \<noteq> [] \<and> set (tb_proxies tb) \<subseteq> set VALID_PROXIES"

lemma testbed_checks_None: "(\<forall>e \<in> set (testbed_checks tb). e = None) \<longleftrightarrow> testbed_ok tb"
  by (auto simp: testbed_checks_def testbed_ok_def)

lemma proxy_checks_None: "(\<forall>e \<in> set (proxy_checks tb). e = None) \<longleftrightarrow> proxies_ok tb"
  by (auto simp: proxy_checks_def proxies_ok_def)

lemma dashboard_validate_iff:
  "dashboard_validate cfg = Inr () \<longleftrightarrow>
     dc_config_id cfg \<noteq> [] \<and> dc_testbeds cfg \<noteq> [] \<and> (\<forall>tb \<in> set (dc_testbeds cfg). testbed_ok tb) \<and>
     (dc_benchmark_type cfg = ''fullstack'' \<or>
      dc_benchmark_type cfg = ''application'' \<and> (\<forall>tb \<in> set (dc_testbeds cfg). proxies_ok tb)) \<and>
     0 < mt_min_measured (dc_methodology cfg) \<and> 0 < mt_timeout_secs (dc_methodology cfg)"
  unfolding dashboard_validate_def first_error_Inr_iff
  by (auto simp: testbed_checks_None [symmetric] proxy_checks_None [symmetric])

lemma dashboard_load_Inr_iff:
  "dashboard_load content parse = Inr cfg \<longleftrightarrow>
     (\<exists>s j. content = Inr s \<and> parse s = Inr j \<and> cfg = dashboard_of j \<and> dashboard_validate cfg = Inr ())"
  by (auto simp: dashboard_load_def split: sum.splits)

section \<open>The shuffle permutes\<close>

lemma mset_swap_at [simp]: "i < length xs \<Longrightarrow> j < length xs \<Longrightarrow> mset (swap_at i j xs) = mset xs"
  unfolding swap_at_def by (rule mset_swap) simp_all

lemma length_swap_at [simp]: "length (swap_at i j xs) = length xs"
  by (simp add: swap_at_def)

lemma mset_shuffle_from: "i < length xs \<Longrightarrow> mset (shuffle_from i st xs) = mset xs"
proof (induction i st xs rule: shuffle_from.induct)
  case (2 i state xs)
  have "unat (matrix_next state) mod (Suc i + 1) < length xs"
    using 2(2) less_le_trans [of "unat (matrix_next state) mod (Suc i + 1)" "Suc i + 1" "length xs"] by simp
  then show ?case using 2 by (simp add: Let_def)
qed simp

lemma mset_shuffle_cases: "mset (shuffle_cases seed xs) = mset xs"
  by (simp add: shuffle_cases_def mset_shuffle_from)

lemma mset_test_matrix: "mset (test_matrix_with_seed (Some s) cfg) = mset (test_matrix cfg)"
  by (simp add: test_matrix_def test_matrix_with_seed_def mset_shuffle_cases)

lemma word_of_nat_unat: "(of_nat (unat r) :: u32) = r" for r :: u32
  by transfer simp

lemma below_repeat: "r < n \<longleftrightarrow> (\<exists>k \<in> {0..<unat n}. r = of_nat k)" for r n :: u32
proof
  assume "r < n"
  then show "\<exists>k \<in> {0..<unat n}. r = of_nat k"
    by (intro bexI [of _ "unat r"]) (simp_all add: word_less_nat_alt word_of_nat_unat)
next
  assume "\<exists>k \<in> {0..<unat n}. r = of_nat k"
  then obtain k where k: "k < unat n" "r = of_nat k" by auto
  have "unat n < 2 ^ LENGTH(32)" by (rule unsigned_less)
  then have "k < 2 ^ 32" using k(1) by simp
  then have "unat (of_nat k :: u32) = k" by (simp add: unat_of_nat)
  then show "r < n" using k by (simp add: word_less_nat_alt)
qed

lemma set_test_matrix:
  "set (test_matrix cfg) = {c. tc_language c \<in> set (sc_languages cfg) \<and>
     tc_concurrency c \<in> set (sc_concurrency_levels cfg) \<and> tc_repeat_index c < sc_repeat cfg}"
proof -
  have rec: "c = \<lparr>tc_language = l, tc_concurrency = k, tc_repeat_index = r\<rparr> \<longleftrightarrow>
      tc_language c = l \<and> tc_concurrency c = k \<and> tc_repeat_index c = r" for c :: test_case and l k r
    by (cases c) auto
  have mem: "c \<in> set (test_matrix cfg) \<longleftrightarrow> (\<exists>l \<in> set (sc_languages cfg). \<exists>k \<in> set (sc_concurrency_levels cfg).
      \<exists>r \<in> {0..<unat (sc_repeat cfg)}. c = \<lparr>tc_language = l, tc_concurrency = k, tc_repeat_index = of_nat r\<rparr>)" for c
    by (simp add: test_matrix_def test_matrix_with_seed_def image_iff)
  show ?thesis by (rule set_eqI) (unfold mem rec mem_Collect_eq below_repeat, auto)
qed

lemma length_test_matrix:
  "length (test_matrix cfg) = length (sc_languages cfg) * length (sc_concurrency_levels cfg) * unat (sc_repeat cfg)"
  by (simp add: test_matrix_def test_matrix_with_seed_def length_concat comp_def sum_list_triv)

lemma filter_languages_keeps: "set (sc_languages (filter_languages names cfg)) \<subseteq> set (sc_languages cfg)"
  by (auto simp: filter_languages_def)

end
