(* ===== verification/Orch_World.thy ===== *)
theory Orch_World
  imports Endpoint_Http "HOL-Library.State_Monad"
begin

text \<open>
  How the orchestrator acts on the world: it runs programs, logs in to machines, writes to its
  database, calls the dashboard back, and looks at the clock and at its cancel flag. Such a
  computation is a state transformer over the list of all actions so far; what an action
  gives back is decided by the environment, \<open>world\<close>, from that list. Every answer may depend
  on all that happened before, so a theorem about every \<open>world\<close> is one about every course of events.

  A JSON text is read by a library, \<open>wd_json\<close>.
\<close>

section \<open>Actions and answers\<close>

type_synonym uuid = "128 word"

datatype action =
    Cli string "string list"
  | Ssh string string
  | Scp string string string
  | Tester "string list" nat
  | SetPhase uuid string
  | SetStatus uuid string
  | AcquireUpdate uuid uuid
  | AcquireSelect uuid
  | ReleaseLock uuid uuid
  | PowerNudge uuid string string
  | LookupTester uuid
  | LoadConnection uuid
  | ConnectDb
  | Notify uuid
  | CbStatus string string string u32 u32
  | CbLog string
  | CbResult string string jvalue
  | CbComplete string "string option"
  | CbCheckCancelled
  | ReadCancel
  | ReadClock
  | Sleep duration
  | FileExists string
  | EnvVar string
  | LoadWorkloads
  | RandomToken

record project_tester =
  pt_tester_id :: uuid
  pt_name :: string
  pt_public_ip :: "string option"
  pt_vm_resource_id :: "string option"
  pt_power_state :: string
  pt_allocation :: string
  pt_cloud_connection_id :: "uuid option"

datatype exit_outcome = TimedOut | NotStarted string | Exited string string | Succeeded string

text \<open>An API workload and the set of them, \<open>workloads.rs\<close>.\<close>

record api_workload =
  aw_name :: string
  aw_method :: string
  aw_path :: string
  aw_body :: "string option"
  aw_content_type :: "string option"

record world =
  wd_uuid :: "string \<Rightarrow> uuid option"
  wd_ip :: "string \<Rightarrow> ip_addr option"
  wd_temp_dir :: string
  wd_bench_dir :: string
  wd_json :: "string \<Rightarrow> string + jvalue"
  wd_cli :: "action list \<Rightarrow> string + string"
  wd_tester :: "action list \<Rightarrow> exit_outcome"
  wd_write :: "action list \<Rightarrow> string + unit"
  wd_updated :: "action list \<Rightarrow> string + bool"
  wd_row :: "action list \<Rightarrow> string + (string \<times> string \<times> uuid option) option"
  wd_tester_row :: "action list \<Rightarrow> string + project_tester"
  wd_connection :: "action list \<Rightarrow> string + string \<times> jvalue"
  wd_callback :: "action list \<Rightarrow> string + unit"
  wd_cancelled :: "action list \<Rightarrow> string + bool"
  wd_flag :: "action list \<Rightarrow> bool"
  wd_clock :: "action list \<Rightarrow> instant"
  wd_exists :: "action list \<Rightarrow> bool"
  wd_env :: "action list \<Rightarrow> string option"
  wd_workloads :: "action list \<Rightarrow> string + api_workload list"
  wd_token :: "action list \<Rightarrow> string"
  wd_expiry :: "action list \<Rightarrow> string"
  wd_panics :: "action list \<Rightarrow> (nat \<times> string) option"
  wd_late :: "action list \<Rightarrow> nat option"

type_synonym 'a script = "(action list, 'a) state"

definition act :: "(action list \<Rightarrow> 'a) \<Rightarrow> action \<Rightarrow> 'a script" where
  "act answer a = State (\<lambda>past. (answer (past @ [a]), past @ [a]))"

definition no_answer :: "action list \<Rightarrow> unit" where
  "no_answer past = ()"

definition done_with :: "'a \<Rightarrow> 'a script" where
  "done_with x = State_Monad.return x"

text \<open>The operator \<open>?\<close>: an error ends the computation with it.\<close>

definition try_bind :: "('e + 'a) script \<Rightarrow> ('a \<Rightarrow> ('e + 'b) script) \<Rightarrow> ('e + 'b) script" where
  "try_bind m f = do { r \<leftarrow> m; case r of Inl e \<Rightarrow> done_with (Inl e) | Inr x \<Rightarrow> f x }"

definition with_context :: "string \<Rightarrow> string + 'a \<Rightarrow> string + 'a" where
  "with_context ctx r = (case r of Inl e \<Rightarrow> Inl (ctx @ '': '' @ e) | Inr x \<Rightarrow> Inr x)"

definition with_context_of :: "string \<Rightarrow> (string + 'a) script \<Rightarrow> (string + 'a) script" where
  "with_context_of ctx m = do { r \<leftarrow> m; done_with (with_context ctx r) }"

fun each :: "('a \<Rightarrow> unit script) \<Rightarrow> 'a list \<Rightarrow> unit script" where
  "each f [] = done_with ()"
| "each f (x # xs) = do { _ \<leftarrow> f x; each f xs }"

text \<open>Indexing a JSON value with \<open>[]\<close> gives \<open>Null\<close> where there is nothing.\<close>

fun item :: "nat \<Rightarrow> jvalue \<Rightarrow> jvalue" where
  "item i (ArrV xs) = (if i < length xs then xs ! i else NullV)"
| "item i _ = NullV"

section \<open>Reasoning about scripts\<close>

text \<open>
  \<open>runs past m Q\<close>: after \<open>past\<close> the script adds actions that satisfy \<open>Q\<close> together with its result.
  \<open>only P m\<close>: whatever happened before, all the actions it adds satisfy \<open>P\<close>. The rules of \<open>scripts\<close> take a
  script apart.
\<close>

definition runs :: "action list \<Rightarrow> 'a script \<Rightarrow> ('a \<Rightarrow> action list \<Rightarrow> bool) \<Rightarrow> bool" where
  "runs past m Q \<longleftrightarrow> (\<exists>as. snd (run_state m past) = past @ as \<and> Q (fst (run_state m past)) as)"

definition only :: "(action \<Rightarrow> bool) \<Rightarrow> 'a script \<Rightarrow> bool" where
  "only P m \<longleftrightarrow> (\<forall>past. runs past m (\<lambda>_ as. list_all P as))"

named_theorems scripts

declare run_state_bind [simp del]

lemma run_bind [simp]:
  "run_state (State_Monad.bind m f) past = run_state (f (fst (run_state m past))) (snd (run_state m past))"
  by (simp add: State_Monad.bind_def split: prod.splits)

lemma run_act [simp]: "run_state (act answer a) past = (answer (past @ [a]), past @ [a])"
  by (simp add: act_def)

lemma run_done [simp]: "run_state (done_with x) past = (x, past)"
  by (simp add: done_with_def)

lemma runs_bind:
  assumes "runs past m Q" "\<And>x as. Q x as \<Longrightarrow> runs (past @ as) (f x) (\<lambda>y bs. R y (as @ bs))"
  shows "runs past (State_Monad.bind m f) R"
proof -
  obtain as where as: "snd (run_state m past) = past @ as" "Q (fst (run_state m past)) as"
    using assms(1) by (auto simp: runs_def)
  obtain bs where "snd (run_state (f (fst (run_state m past))) (past @ as)) = (past @ as) @ bs"
      "R (fst (run_state (f (fst (run_state m past))) (past @ as))) (as @ bs)"
    using assms(2) [OF as(2)] by (auto simp: runs_def)
  then show ?thesis using as(1) unfolding runs_def by (intro exI [of _ "as @ bs"]) simp
qed

lemma runs_act: "Q (answer (past @ [a])) [a] \<Longrightarrow> runs past (act answer a) Q"
  by (auto simp: runs_def)

lemma runs_done: "Q x [] \<Longrightarrow> runs past (done_with x) Q"
  by (auto simp: runs_def)

lemma runs_mono: "runs past m Q \<Longrightarrow> (\<And>x as. Q x as \<Longrightarrow> R x as) \<Longrightarrow> runs past m R"
  by (auto simp: runs_def)

lemma runs_act_bind:
  "runs (past @ [a]) (f (answer (past @ [a]))) (\<lambda>y bs. R y (a # bs)) \<Longrightarrow> runs past (State_Monad.bind (act answer a) f) R"
  by (rule runs_bind [where Q = "\<lambda>x as. x = answer (past @ [a]) \<and> as = [a]"]) (auto intro: runs_act)

lemma onlyD: "only P m \<Longrightarrow> runs past m (\<lambda>_ as. list_all P as)"
  by (simp add: only_def)

lemma only_act [scripts]: "P a \<Longrightarrow> only P (act answer a)"
  by (simp add: only_def runs_act)

lemma only_done [scripts]: "only P (done_with x)"
  by (simp add: only_def runs_done)

lemma only_bind [scripts]: "only P m \<Longrightarrow> (\<And>x. only P (f x)) \<Longrightarrow> only P (State_Monad.bind m f)"
  unfolding only_def
proof
  fix past
  assume m: "\<forall>past. runs past m (\<lambda>_ as. list_all P as)" and f: "\<And>x. \<forall>past. runs past (f x) (\<lambda>_ as. list_all P as)"
  show "runs past (State_Monad.bind m f) (\<lambda>_ as. list_all P as)"
    by (rule runs_bind [OF m [rule_format]], rule runs_mono [OF f [rule_format]]) simp
qed

lemma only_try [scripts]: "only P m \<Longrightarrow> (\<And>x. only P (f x)) \<Longrightarrow> only P (try_bind m f)"
  unfolding try_bind_def by (rule only_bind) (auto intro: only_done split: sum.splits)

lemma only_context [scripts]: "only P m \<Longrightarrow> only P (with_context_of ctx m)"
  unfolding with_context_of_def by (rule only_bind) (auto intro: only_done)

lemma only_each [scripts]: "(\<And>x. x \<in> set xs \<Longrightarrow> only P (f x)) \<Longrightarrow> only P (each f xs)"
  by (induction xs) (auto intro!: only_done only_bind)

lemma only_if [scripts]: "(b \<Longrightarrow> only P m) \<Longrightarrow> (\<not> b \<Longrightarrow> only P n) \<Longrightarrow> only P (if b then m else n)"
  by simp

lemma only_option [scripts]:
  "(x = None \<Longrightarrow> only P m) \<Longrightarrow> (\<And>y. x = Some y \<Longrightarrow> only P (f y)) \<Longrightarrow> only P (case x of None \<Rightarrow> m | Some y \<Rightarrow> f y)"
  by (cases x) simp_all

lemma only_sum [scripts]:
  "(\<And>e. x = Inl e \<Longrightarrow> only P (f e)) \<Longrightarrow> (\<And>y. x = Inr y \<Longrightarrow> only P (g y)) \<Longrightarrow>
   only P (case x of Inl e \<Rightarrow> f e | Inr y \<Rightarrow> g y)"
  by (cases x) simp_all

lemma only_pair [scripts]: "(\<And>a b. x = (a, b) \<Longrightarrow> only P (f a b)) \<Longrightarrow> only P (case x of (a, b) \<Rightarrow> f a b)"
  by (cases x) simp

lemma only_let [scripts]: "(\<And>y. y = x \<Longrightarrow> only P (f y)) \<Longrightarrow> only P (let y = x in f y)"
  by simp

lemma only_mono: "only P m \<Longrightarrow> (\<And>a. P a \<Longrightarrow> Q a) \<Longrightarrow> only Q m"
  unfolding only_def by (blast intro: runs_mono list.pred_mono_strong)

lemma runs_only: "only P m \<Longrightarrow> runs past m Q \<Longrightarrow> runs past m (\<lambda>x as. Q x as \<and> list_all P as)"
  by (auto simp: only_def runs_def) (metis same_append_eq)

lemma each_adds: "(\<And>x past. snd (run_state (f x) past) = past @ g x) \<Longrightarrow>
    snd (run_state (each f xs) past) = past @ concat (map g xs)"
  by (induction xs arbitrary: past) simp_all

end
