(* ===== verification/Orch_Provision.thy ===== *)
theory Orch_Provision
  imports Orch_Config Orch_World
begin

text \<open>
  Machines, \<open>benchmarks/orchestrator/src\<close>: \<open>provisioner.rs\<close> (create, start, stop, destroy and
  look up a machine of three clouds), \<open>reaper.rs\<close>, \<open>vm_tiers.rs\<close>, \<open>token_manager.rs\<close> and what
  \<open>executor/vm.rs\<close> does around them. A cloud's command line program is an action whose answer is
  what it printed, or why it gave nothing; its time limit is one such reason.

  Names of clouds and systems are compared in lower case; since the names they are compared with
  are ASCII, so is \<open>to_lowercase\<close> here. The identifiers of testbeds are ASCII: where the source
  cuts one at a byte, the cut is at a character.
\<close>

record vm_info =
  vi_name :: string
  vi_ip :: string
  vi_cloud :: string
  vi_region :: string
  vi_os :: string
  vi_vm_size :: string
  vi_resource_group :: string
  vi_ssh_user :: string

definition RESOURCE_GROUP :: string where "RESOURCE_GROUP = ''alethabench-rg''"
definition PROVISION_TIMEOUT :: duration where "PROVISION_TIMEOUT = from_secs 300"

definition default_user :: "string \<Rightarrow> string" where
  "default_user cloud =
     (if cloud = ''azure'' then ''azureuser'' else if cloud = ''aws'' then ''ubuntu''
      else if cloud = ''gcp'' then ''alethabench'' else ''ubuntu'')"

section \<open>Command line programs\<close>

definition cli_cmd :: "world \<Rightarrow> string \<Rightarrow> string list \<Rightarrow> (string + string) script" where
  "cli_cmd w program args = act (wd_cli w) (Cli program args)"

definition az_cmd :: "world \<Rightarrow> string list \<Rightarrow> (string + string) script" where
  "az_cmd w args = cli_cmd w ''az'' args"

definition aws_cmd :: "world \<Rightarrow> string list \<Rightarrow> (string + string) script" where
  "aws_cmd w args = cli_cmd w ''aws'' args"

definition gcloud_cmd :: "world \<Rightarrow> string list \<Rightarrow> (string + string) script" where
  "gcloud_cmd w args = cli_cmd w ''gcloud'' args"

definition ssh_exec :: "world \<Rightarrow> string \<Rightarrow> string \<Rightarrow> (string + string) script" where
  "ssh_exec w ip cmd = act (wd_cli w) (Ssh ip cmd)"

definition scp_to :: "world \<Rightarrow> string \<Rightarrow> string \<Rightarrow> string \<Rightarrow> (string + string) script" where
  "scp_to w ip file remote = act (wd_cli w) (Scp ip file remote)"

definition sleep :: "duration \<Rightarrow> unit script" where
  "sleep d = act no_answer (Sleep d)"

definition log_callback :: "world \<Rightarrow> string \<Rightarrow> unit script" where
  "log_callback w testbed = do { _ \<leftarrow> act (wd_callback w) (CbLog testbed); done_with () }"

section \<open>Images and sizes\<close>

definition azure_image_for_os :: "string \<Rightarrow> string + string" where
  "azure_image_for_os os =
     (let l = to_ascii_lowercase os
      in if l = ''ubuntu'' \<or> l = ''linux'' then Inr ''Canonical:ubuntu-24_04-lts:server:latest''
         else if l = ''windows'' then Inr ''MicrosoftWindowsServer:WindowsServer:2022-datacenter:latest''
         else Inl (''unsupported OS for Azure: '' @ l @ '' (expected ubuntu or windows)''))"

definition aws_ami_for_region :: "string \<Rightarrow> string" where
  "aws_ami_for_region region = or_default ''ami-0e1bed4f06a3b463d'' (map_of
     [(''us-east-1'', ''ami-0e1bed4f06a3b463d''), (''us-east-2'', ''ami-0ea3405d2d2522162''),
      (''us-west-1'', ''ami-014d05e6b24240371''), (''us-west-2'', ''ami-05d38da78ce859165''),
      (''eu-west-1'', ''ami-0e9085e60087ce171''), (''eu-central-1'', ''ami-0faab6bdbac9486fb''),
      (''ap-southeast-1'', ''ami-01811d4912b4ccb26''), (''ap-northeast-1'', ''ami-0d52744d6551d851e'')] region)"

definition resolve_vm_size :: "string \<Rightarrow> string \<Rightarrow> string" where
  "resolve_vm_size cloud tier = or_default tier (map_of
     [((''azure'', ''small''), ''Standard_B2s''), ((''azure'', ''medium''), ''Standard_D2s_v3''),
      ((''azure'', ''large''), ''Standard_D4s_v3''),
      ((''aws'', ''small''), ''t3.small''), ((''aws'', ''medium''), ''t3.medium''), ((''aws'', ''large''), ''m5.xlarge''),
      ((''gcp'', ''small''), ''e2-small''), ((''gcp'', ''medium''), ''n2-standard-2''),
      ((''gcp'', ''large''), ''n2-standard-4'')] (cloud, tier))"

section \<open>The reaper of orphans\<close>

definition OWNED_PREFIX :: string where "OWNED_PREFIX = ''ab-''"

definition filter_owned :: "(string \<times> string) list \<Rightarrow> (string \<times> string) list" where
  "filter_owned xs = filter (\<lambda>(i, name). starts_with OWNED_PREFIX (to_ascii_lowercase name)) xs"

definition listed :: "jvalue \<Rightarrow> (string \<times> string) list" where
  "listed v = (case v of
     ArrV vs \<Rightarrow> List.map_filter (\<lambda>r. case (as_str (member ''id'' r), as_str (member ''name'' r)) of
         (Some i, Some n) \<Rightarrow> Some (i, n) | _ \<Rightarrow> None) vs
   | _ \<Rightarrow> [])"

definition az_list_ids :: "world \<Rightarrow> string list \<Rightarrow> (string \<times> string) list script" where
  "az_list_ids w args = do {
     out \<leftarrow> az_cmd w (args @ [''--query'', ''[].{id:id,name:name}'', ''--output'', ''json'']);
     done_with (case out of Inl e \<Rightarrow> [] | Inr s \<Rightarrow> (case wd_json w s of Inl e \<Rightarrow> [] | Inr v \<Rightarrow> listed v))
   }"

definition az_delete :: "world \<Rightarrow> string list \<Rightarrow> string list \<Rightarrow> string \<times> string \<Rightarrow> unit script" where
  "az_delete w kind opts r = do { _ \<leftarrow> az_cmd w (kind @ [''delete'', ''--ids'', fst r] @ opts); done_with () }"

text \<open>The budget of 45 seconds can cut the loop off anywhere; this is the run that is not cut off. The
  four listings run at the same time.\<close>

text \<open>
  A computation with a budget of time is given up after some of its actions when the time is over. The
  four listings run side by side; here they start in the order they are written.
\<close>

definition within_budget :: "world \<Rightarrow> unit script \<Rightarrow> unit script" where
  "within_budget w m = State (\<lambda>past.
     (let past' = snd (run_state m past)
      in ((), case wd_late w past of None \<Rightarrow> past' | Some k \<Rightarrow> take (length past + k) past')))"

definition reap_orphans_best_effort :: "world \<Rightarrow> string \<Rightarrow> unit script" where
  "reap_orphans_best_effort w rg = within_budget w (do {
     vms \<leftarrow> az_list_ids w [''vm'', ''list'', ''--resource-group'', rg];
     nics \<leftarrow> az_list_ids w [''network'', ''nic'', ''list'', ''--resource-group'', rg];
     ips \<leftarrow> az_list_ids w [''network'', ''public-ip'', ''list'', ''--resource-group'', rg];
     disks \<leftarrow> az_list_ids w [''disk'', ''list'', ''--resource-group'', rg];
     _ \<leftarrow> each (az_delete w [''vm''] [''--yes'']) (filter_owned vms);
     _ \<leftarrow> each (az_delete w [''network'', ''nic''] []) (filter_owned nics);
     _ \<leftarrow> each (az_delete w [''disk''] [''--yes'']) (filter_owned disks);
     each (az_delete w [''network'', ''public-ip''] []) (filter_owned ips)
   })"

section \<open>Looking a machine up\<close>

definition text_at :: "string \<Rightarrow> jvalue \<Rightarrow> string" where
  "text_at d v = or_default d (as_str v)"

definition find_existing_vm_azure :: "world \<Rightarrow> string \<Rightarrow> (string + vm_info option) script" where
  "find_existing_vm_azure w name = do {
     out \<leftarrow> az_cmd w [''vm'', ''show'', ''--resource-group'', RESOURCE_GROUP, ''--name'', name,
        ''--show-details'', ''--output'', ''json''];
     done_with (case out of
       Inl e \<Rightarrow> Inr None
     | Inr s \<Rightarrow> (case wd_json w s of
         Inl e \<Rightarrow> Inl (''parsing az vm show JSON: '' @ e)
       | Inr v \<Rightarrow> Inr (Some
           \<lparr>vi_name = name, vi_ip = text_at [] (member ''publicIps'' v), vi_cloud = ''azure'',
            vi_region = text_at ''eastus'' (member ''location'' v),
            vi_os = (if eq_ignore_ascii_case
                 (text_at [] (member ''osType'' (member ''osDisk'' (member ''storageProfile'' v)))) ''windows''
               then ''windows'' else ''ubuntu''),
            vi_vm_size = text_at ''unknown'' (member ''vmSize'' (member ''hardwareProfile'' v)),
            vi_resource_group = RESOURCE_GROUP, vi_ssh_user = default_user ''azure''\<rparr>)))
   }"

definition find_existing_vm :: "world \<Rightarrow> string \<Rightarrow> (string + vm_info option) script" where
  "find_existing_vm w name = find_existing_vm_azure w name"

section \<open>Creating a machine\<close>

definition file_exists :: "world \<Rightarrow> string \<Rightarrow> bool script" where
  "file_exists w p = act (wd_exists w) (FileExists p)"

definition azure_login_args :: "world \<Rightarrow> string \<Rightarrow> string list script" where
  "azure_login_args w os =
     (if \<not> eq_ignore_ascii_case os ''windows''
      then do {
        key \<leftarrow> file_exists w ''/root/.ssh/id_ed25519.pub'';
        done_with (if key
          then [''--ssh-key-values'', ''/root/.ssh/id_ed25519.pub'', ''--admin-username'', ''azureuser'']
          else [''--generate-ssh-keys'', ''--admin-username'', ''azureuser''])
      }
      else done_with [''--admin-username'', ''azureuser'', ''--admin-password'', ''AletheBench!2026''])"

definition azure_created_ip :: "world \<Rightarrow> string + string \<Rightarrow> string + string" where
  "azure_created_ip w out = (case out of
     Inr s \<Rightarrow> (case wd_json w s of
         Inl e \<Rightarrow> Inl (''parsing az vm create JSON output: '' @ e)
       | Inr v \<Rightarrow> Inr (text_at [] (member ''publicIpAddress'' v)))
   | Inl e \<Rightarrow> Inr [])"

definition azure_ip_of_existing :: "world \<Rightarrow> string \<Rightarrow> (string + string) script" where
  "azure_ip_of_existing w name = try_bind (find_existing_vm_azure w name) (\<lambda>found. done_with (
     case found of
       Some vm \<Rightarrow> (if vi_ip vm \<noteq> [] then Inr (vi_ip vm)
                  else Inl (''Azure VM '' @ name @ '' was not created and does not exist''))
     | None \<Rightarrow> Inl (''Azure VM '' @ name @ '' was not created and does not exist'')))"

definition azure_open_port :: "world \<Rightarrow> string \<Rightarrow> string \<Rightarrow> unit script" where
  "azure_open_port w name port = do {
     _ \<leftarrow> az_cmd w [''vm'', ''open-port'', ''--resource-group'', RESOURCE_GROUP, ''--name'', name, ''--port'', port,
        ''--priority'', if port = ''8443'' then ''1001'' else ''1002'', ''--output'', ''none''];
     done_with ()
   }"

definition provision_azure :: "world \<Rightarrow> string \<Rightarrow> string \<Rightarrow> string \<Rightarrow> string \<Rightarrow> (string + vm_info) script" where
  "provision_azure w region os vm_size name =
     try_bind (done_with (azure_image_for_os os)) (\<lambda>image. do {
       _ \<leftarrow> az_cmd w [''group'', ''create'', ''--name'', RESOURCE_GROUP, ''--location'', region, ''--output'', ''none''];
       login \<leftarrow> azure_login_args w os;
       created \<leftarrow> az_cmd w ([''vm'', ''create'', ''--resource-group'', RESOURCE_GROUP, ''--name'', name,
          ''--image'', image, ''--size'', vm_size, ''--location'', region, ''--tags'', ''alethabench=true'',
          ''--output'', ''json''] @ login);
       try_bind (done_with (azure_created_ip w created)) (\<lambda>ip0.
         try_bind (if ip0 = [] then azure_ip_of_existing w name else done_with (Inr ip0)) (\<lambda>ip. do {
           _ \<leftarrow> each (azure_open_port w name) [''8443'', ''9100''];
           _ \<leftarrow> az_cmd w [''network'', ''nsg'', ''rule'', ''create'', ''--resource-group'', RESOURCE_GROUP,
              ''--nsg-name'', name @ ''NSG'', ''--name'', ''AllowUDP8443'', ''--priority'', ''1003'', ''--protocol'', ''Udp'',
              ''--destination-port-ranges'', ''8443'', ''--access'', ''Allow'', ''--direction'', ''Inbound'',
              ''--output'', ''none''];
           done_with (Inr \<lparr>vi_name = name, vi_ip = ip, vi_cloud = ''azure'', vi_region = region, vi_os = os,
              vi_vm_size = vm_size, vi_resource_group = RESOURCE_GROUP, vi_ssh_user = default_user ''azure''\<rparr>)
         }))
     })"

text \<open>
  The poll for an address reads the clock before each try and sleeps after it, \<open>n\<close> tries at most.
  Since five seconds pass between two tries and the deadline is 300 seconds away, the sixty-second
  try finds it gone: sixty-two tries are all, and the first equation is not reached.
\<close>

fun poll_aws_until :: "world \<Rightarrow> instant \<Rightarrow> string \<Rightarrow> string \<Rightarrow> nat \<Rightarrow> (string + string) script" where
  "poll_aws_until w deadline instance_id region 0 =
     done_with (Inl (''timed out waiting for public IP on AWS instance '' @ instance_id))"
| "poll_aws_until w deadline instance_id region (Suc n) = do {
     now \<leftarrow> act (wd_clock w) ReadClock;
     if deadline < now
     then done_with (Inl (''timed out waiting for public IP on AWS instance '' @ instance_id))
     else do {
       out \<leftarrow> aws_cmd w [''ec2'', ''describe-instances'', ''--instance-ids'', instance_id, ''--region'', region,
          ''--query'', ''Reservations[0].Instances[0].PublicIpAddress'', ''--output'', ''text''];
       if (case out of Inr s \<Rightarrow> trim s \<noteq> [] \<and> trim s \<noteq> ''None'' | Inl e \<Rightarrow> False)
       then done_with (map_sum id trim out)
       else do { _ \<leftarrow> sleep (from_secs 5); poll_aws_until w deadline instance_id region n }
     }
   }"

definition POLLS :: nat where "POLLS = 62"

definition poll_aws_public_ip :: "world \<Rightarrow> string \<Rightarrow> string \<Rightarrow> (string + string) script" where
  "poll_aws_public_ip w instance_id region = do {
     start \<leftarrow> act (wd_clock w) ReadClock;
     poll_aws_until w (start + PROVISION_TIMEOUT) instance_id region POLLS
   }"

definition aws_ingress :: "world \<Rightarrow> string \<Rightarrow> string \<times> string \<Rightarrow> unit script" where
  "aws_ingress w region rule = do {
     _ \<leftarrow> aws_cmd w [''ec2'', ''authorize-security-group-ingress'', ''--group-name'', ''alethabench-sg'',
        ''--protocol'', fst rule, ''--port'', snd rule, ''--cidr'', ''0.0.0.0/0'', ''--region'', region];
     done_with ()
   }"

definition aws_instance_id :: "world \<Rightarrow> string \<Rightarrow> string + string" where
  "aws_instance_id w out = (case wd_json w out of
     Inl e \<Rightarrow> Inl (''parsing run-instances JSON: '' @ e)
   | Inr v \<Rightarrow> (case as_str (member ''InstanceId'' (item 0 (member ''Instances'' v))) of
       None \<Rightarrow> Inl ''no InstanceId in run-instances output'' | Some i \<Rightarrow> Inr i))"

definition provision_aws :: "world \<Rightarrow> string \<Rightarrow> string \<Rightarrow> string \<Rightarrow> string \<Rightarrow> (string + vm_info) script" where
  "provision_aws w region os vm_size name = do {
     _ \<leftarrow> aws_cmd w [''ec2'', ''create-security-group'', ''--group-name'', ''alethabench-sg'', ''--description'',
        ''Networker Bench benchmark VMs'', ''--region'', region, ''--output'', ''json''];
     _ \<leftarrow> each (aws_ingress w region) [(''tcp'', ''22''), (''tcp'', ''8443''), (''tcp'', ''9100''), (''udp'', ''8443'')];
     out \<leftarrow> aws_cmd w [''ec2'', ''run-instances'', ''--image-id'', aws_ami_for_region region, ''--instance-type'', vm_size,
        ''--region'', region, ''--key-name'', ''alethabench-key'', ''--security-groups'', ''alethabench-sg'',
        ''--tag-specifications'',
        ''ResourceType=instance,Tags=[{Key=Name,Value='' @ name @ ''},{Key=alethabench,Value=true}]'',
        ''--count'', ''1'', ''--output'', ''json''];
     case (case with_context ''aws ec2 run-instances failed'' out of Inl e \<Rightarrow> Inl e | Inr s \<Rightarrow> aws_instance_id w s) of
       Inl e \<Rightarrow> done_with (Inl e)
     | Inr instance_id \<Rightarrow> do {
         ip \<leftarrow> poll_aws_public_ip w instance_id region;
         done_with (map_sum id (\<lambda>ip.
           \<lparr>vi_name = name, vi_ip = ip, vi_cloud = ''aws'', vi_region = region, vi_os = ''ubuntu'', vi_vm_size = vm_size,
            vi_resource_group = instance_id, vi_ssh_user = default_user ''aws''\<rparr>) ip)
       }
   }"

definition gcp_nat_ip :: "jvalue \<Rightarrow> string" where
  "gcp_nat_ip inst = text_at [] (member ''natIP'' (item 0 (member ''accessConfigs'' (item 0 (member ''networkInterfaces'' inst)))))"

definition provision_gcp :: "world \<Rightarrow> string \<Rightarrow> string \<Rightarrow> string \<Rightarrow> string \<Rightarrow> (string + vm_info) script" where
  "provision_gcp w zone os vm_size name = do {
     out \<leftarrow> gcloud_cmd w [''compute'', ''instances'', ''create'', name, ''--zone'', zone, ''--machine-type'', vm_size,
        ''--image-family'', ''ubuntu-2404-lts'', ''--image-project'', ''ubuntu-os-cloud'', ''--tags'', ''alethabench'',
        ''--metadata'', ''alethabench=true'', ''--format'', ''json''];
     case (case with_context ''gcloud compute instances create failed'' out of
             Inl e \<Rightarrow> Inl e | Inr s \<Rightarrow> with_context ''parsing gcloud create JSON'' (wd_json w s)) of
       Inl e \<Rightarrow> done_with (Inl e)
     | Inr v \<Rightarrow>
         if gcp_nat_ip (item 0 v) = []
         then done_with (Inl (''GCP instance '' @ name @ '' was created but has no external IP''))
         else do {
           _ \<leftarrow> gcloud_cmd w [''compute'', ''firewall-rules'', ''create'', ''alethabench-allow-'' @ name, ''--allow'',
              ''tcp:8443,udp:8443,tcp:9100,tcp:22'', ''--target-tags'', ''alethabench'', ''--source-ranges'', ''0.0.0.0/0'',
              ''--quiet''];
           done_with (Inr \<lparr>vi_name = name, vi_ip = gcp_nat_ip (item 0 v), vi_cloud = ''gcp'', vi_region = zone,
              vi_os = ''ubuntu'', vi_vm_size = vm_size, vi_resource_group = [], vi_ssh_user = default_user ''gcp''\<rparr>)
         }
   }"

definition provision_vm :: "world \<Rightarrow> string \<Rightarrow> string \<Rightarrow> string \<Rightarrow> string \<Rightarrow> string \<Rightarrow> (string + vm_info) script" where
  "provision_vm w cloud region os vm_size name = do {
     _ \<leftarrow> (if eq_ignore_ascii_case cloud ''azure'' then reap_orphans_best_effort w RESOURCE_GROUP else done_with ());
     let c = to_ascii_lowercase cloud
     in if c = ''azure'' then provision_azure w region os vm_size name
        else if c = ''aws'' then provision_aws w region os vm_size name
        else if c = ''gcp'' then provision_gcp w region os vm_size name
        else done_with (Inl (''unsupported cloud provider: '' @ CHR 0x27 # c @ CHR 0x27 # '' (expected azure, aws, or gcp)''))
   }"

section \<open>Start, stop, destroy, refresh\<close>

definition unit_of :: "string + string \<Rightarrow> string + unit" where
  "unit_of r = map_sum id (\<lambda>_. ()) r"

definition vm_command :: "world \<Rightarrow> string \<Rightarrow> string list \<Rightarrow> string list \<Rightarrow> string \<Rightarrow> string \<Rightarrow> vm_info \<Rightarrow> (string + unit) script" where
  "vm_command w azure_verb azure_opts aws_opts gcp_verb what vm =
     (if vi_cloud vm = ''azure''
      then do { r \<leftarrow> az_cmd w ([''vm'', azure_verb, ''--resource-group'', vi_resource_group vm, ''--name'', vi_name vm] @
                azure_opts @ [''--output'', ''none'']); done_with (unit_of r) }
      else if vi_cloud vm = ''aws''
      then do { r \<leftarrow> aws_cmd w ([''ec2''] @ aws_opts @ [''--instance-ids'', vi_resource_group vm, ''--region'', vi_region vm]);
                done_with (unit_of r) }
      else if vi_cloud vm = ''gcp''
      then do { r \<leftarrow> gcloud_cmd w [''compute'', ''instances'', gcp_verb, vi_name vm, ''--zone'', vi_region vm, ''--quiet''];
                done_with (unit_of r) }
      else done_with (Inl (what @ '': unsupported cloud '' @ CHR 0x27 # vi_cloud vm @ [CHR 0x27])))"

definition start_vm :: "world \<Rightarrow> vm_info \<Rightarrow> (string + unit) script" where
  "start_vm w vm = vm_command w ''start'' [] [''start-instances''] ''start'' ''start_vm'' vm"

definition stop_vm :: "world \<Rightarrow> vm_info \<Rightarrow> (string + unit) script" where
  "stop_vm w vm = vm_command w ''deallocate'' [] [''stop-instances''] ''stop'' ''stop_vm'' vm"

definition destroy_vm :: "world \<Rightarrow> vm_info \<Rightarrow> (string + unit) script" where
  "destroy_vm w vm = vm_command w ''delete'' [''--yes'', ''--force-deletion'', ''true''] [''terminate-instances''] ''delete'' ''destroy_vm'' vm"

definition refresh_ip :: "world \<Rightarrow> vm_info \<Rightarrow> (string + vm_info) script" where
  "refresh_ip w vm =
     (if vi_cloud vm = ''azure''
      then do {
        out \<leftarrow> az_cmd w [''vm'', ''show'', ''--resource-group'', vi_resource_group vm, ''--name'', vi_name vm,
           ''--show-details'', ''--output'', ''json''];
        done_with (case out of Inl e \<Rightarrow> Inl e | Inr s \<Rightarrow> map_sum id (\<lambda>v.
           case as_str (member ''publicIps'' v) of Some ip \<Rightarrow> vm\<lparr>vi_ip := ip\<rparr> | None \<Rightarrow> vm) (wd_json w s))
      }
      else if vi_cloud vm = ''aws''
      then do {
        out \<leftarrow> aws_cmd w [''ec2'', ''describe-instances'', ''--instance-ids'', vi_resource_group vm, ''--region'',
           vi_region vm, ''--query'', ''Reservations[0].Instances[0].PublicIpAddress'', ''--output'', ''text''];
        done_with (map_sum id (\<lambda>s. if trim s \<noteq> [] \<and> trim s \<noteq> ''None'' then vm\<lparr>vi_ip := trim s\<rparr> else vm) out)
      }
      else if vi_cloud vm = ''gcp''
      then do {
        out \<leftarrow> gcloud_cmd w [''compute'', ''instances'', ''describe'', vi_name vm, ''--zone'', vi_region vm,
           ''--format'', ''json''];
        done_with (case out of Inl e \<Rightarrow> Inl e | Inr s \<Rightarrow> map_sum id (\<lambda>v.
           if gcp_nat_ip v \<noteq> [] then vm\<lparr>vi_ip := gcp_nat_ip v\<rparr> else vm) (wd_json w s))
      }
      else done_with (Inr vm))"

end
