(* ===== verification/Orch_Remote.thy ===== *)
theory Orch_Remote
  imports Orch_Provision Endpoint_Api
begin

text \<open>
  What the orchestrator does on and around the machine of a testbed: \<open>executor/ssh_exec.rs\<close>
  (quoting and the commands it sends), \<open>token_manager.rs\<close>, \<open>executor/vm.rs\<close> (addresses, the machine
  of a testbed, its teardown, the tester's machine) and \<open>workloads.rs\<close>.
\<close>

section \<open>Shell words\<close>

definition shell_quote :: "string \<Rightarrow> string" where
  "shell_quote s = CHR 0x27 # concat (map (\<lambda>c. if c = CHR 0x27 then [CHR 0x27, CHR 0x5C, CHR 0x27, CHR 0x27] else [c]) s) @ [CHR 0x27]"

definition validate_shell_safe :: "string \<Rightarrow> string \<Rightarrow> string + unit" where
  "validate_shell_safe name label =
     (if shell_safe_name name then Inr ()
      else Inl (label @ '' name contains unsafe characters for shell interpolation''))"

section \<open>Commands\<close>

definition KILL_8443 :: string where "KILL_8443 = ''sudo lsof -ti :8443 | xargs sudo kill -9 2>/dev/null || true''"
definition KILL_8080 :: string where "KILL_8080 = ''sudo lsof -ti :8080 | xargs sudo kill -9 2>/dev/null || true''"

definition ssh_ignored :: "world \<Rightarrow> string \<Rightarrow> string \<Rightarrow> unit script" where
  "ssh_ignored w ip cmd = do { _ \<leftarrow> ssh_exec w ip cmd; done_with () }"

definition start_commands :: "(string \<times> string) list" where
  "start_commands =
     [(''rust'', ''nohup /opt/bench/rust-server --https-port 8443 > /dev/null 2>&1 &''),
      (''go'', ''BENCH_CERT_DIR=/opt/bench nohup /opt/bench/go-server > /dev/null 2>&1 &''),
      (''cpp'', ''BENCH_CERT_DIR=/opt/bench nohup /opt/bench/cpp-build/server > /dev/null 2>&1 &''),
      (''nodejs'', ''BENCH_CERT_DIR=/opt/bench BENCH_PORT=8443 nohup node /opt/bench/nodejs-server.js > /dev/null 2>&1 &''),
      (''python'', ''cd /opt/bench && BENCH_CERT_DIR=/opt/bench nohup uvicorn server:app --host 0.0.0.0 --port 8443 --ssl-keyfile /opt/bench/key.pem --ssl-certfile /opt/bench/cert.pem --log-level error > /dev/null 2>&1 &''),
      (''java'', ''cd /opt/bench && BENCH_CERT_DIR=/opt/bench nohup java Server > /dev/null 2>&1 &''),
      (''ruby'', ''cd /opt/bench/ruby && BENCH_CERT_DIR=/opt/bench BENCH_PORT=8443 nohup bundle exec puma -C puma.rb > /dev/null 2>&1 &''),
      (''php'', ''BENCH_CERT_DIR=/opt/bench nohup php /opt/bench/php/server.php > /dev/null 2>&1 &''),
      (''nginx'', ''sudo systemctl restart nginx'')]"

definition csharp_command :: "string \<Rightarrow> string" where
  "csharp_command language = (let q = shell_quote language; path = ''/opt/bench/'' @ q @ ''/'' @ q
     in ''chmod +x '' @ path @ '' 2>/dev/null; BENCH_CERT_DIR=/opt/bench BENCH_PORT=8443 nohup '' @ path @ '' > /dev/null 2>&1 &'')"

definition start_command :: "string \<Rightarrow> string + string" where
  "start_command language = (case map_of start_commands language of
     Some c \<Rightarrow> Inr c
   | None \<Rightarrow> (if starts_with ''csharp-'' language then Inr (csharp_command language)
             else Inl (''Unknown language: '' @ language)))"

definition healthy :: "string + string \<Rightarrow> bool" where
  "healthy out = (case out of Inr s \<Rightarrow> find_text ''ok'' s \<noteq> None \<or> find_text ''status'' s \<noteq> None | Inl e \<Rightarrow> False)"

fun await_health :: "world \<Rightarrow> string \<Rightarrow> string \<Rightarrow> nat \<Rightarrow> (string + unit) script" where
  "await_health w ip language 0 = done_with (Inl (language @ '' server failed health check after 15s''))"
| "await_health w ip language (Suc n) = do {
     out \<leftarrow> ssh_exec w ip ''curl -sk --max-time 2 https://localhost:8443/health 2>/dev/null'';
     if healthy out then done_with (Inr ())
     else do { _ \<leftarrow> (if 0 < n then sleep (from_secs 1) else done_with ()); await_health w ip language n }
   }"

definition start_existing_server :: "world \<Rightarrow> vm_info \<Rightarrow> string \<Rightarrow> (string + unit) script" where
  "start_existing_server w vm language =
     try_bind (done_with (validate_shell_safe language ''language'')) (\<lambda>_. do {
       _ \<leftarrow> ssh_ignored w (vi_ip vm) KILL_8443;
       _ \<leftarrow> sleep (from_secs 1);
       try_bind (done_with (start_command language)) (\<lambda>cmd.
         try_bind (ssh_exec w (vi_ip vm) cmd) (\<lambda>_. do {
           _ \<leftarrow> sleep (from_secs 2);
           await_health w (vi_ip vm) language 15
         }))
     })"

definition stop_existing_server :: "world \<Rightarrow> vm_info \<Rightarrow> unit script" where
  "stop_existing_server w vm = ssh_ignored w (vi_ip vm) KILL_8443"

definition proxy_command :: "string \<Rightarrow> string" where
  "proxy_command proxy =
     ''export DEBIAN_FRONTEND=noninteractive; (curl -fsSL https://raw.githubusercontent.com/irlm/networker-tester/main/install.sh | sudo -E bash -s -- --benchmark-proxy-swap ''
     @ shell_quote proxy @ '' 2>&1; true) && sudo nginx -t 2>&1''"

definition deploy_proxy :: "world \<Rightarrow> vm_info \<Rightarrow> string \<Rightarrow> (string + unit) script" where
  "deploy_proxy w vm proxy =
     try_bind (done_with (validate_shell_safe proxy ''proxy'')) (\<lambda>_.
       try_bind (with_context_of (''Failed to deploy proxy '' @ proxy @ '' on '' @ vi_ip vm)
           (ssh_exec w (vi_ip vm) (proxy_command proxy))) (\<lambda>_. done_with (Inr ())))"

definition stop_proxy :: "world \<Rightarrow> vm_info \<Rightarrow> unit script" where
  "stop_proxy w vm = ssh_ignored w (vi_ip vm)
     ''sudo systemctl stop nginx caddy traefik haproxy apache2 httpd 2>/dev/null; sudo fuser -k 8443/tcp 2>/dev/null; sleep 2''"

definition app_command :: "string \<Rightarrow> string \<Rightarrow> string" where
  "app_command language proxy =
     ''export DEBIAN_FRONTEND=noninteractive LOG_FORMAT=json LOG_SERVICE='' @ shell_quote language @
     '' BENCH_API_TOKEN=$(cat /opt/bench/.api-token 2>/dev/null) && curl -fsSL https://raw.githubusercontent.com/irlm/networker-tester/main/install.sh | sudo -E bash -s -- --benchmark-server ''
     @ shell_quote language @ '' --benchmark-proxy '' @ shell_quote proxy @ '' 2>&1''"

definition deploy_app_language :: "world \<Rightarrow> vm_info \<Rightarrow> string \<Rightarrow> string \<Rightarrow> (string + unit) script" where
  "deploy_app_language w vm language proxy =
     try_bind (done_with (validate_shell_safe language ''language'')) (\<lambda>_.
     try_bind (done_with (validate_shell_safe proxy ''proxy'')) (\<lambda>_.
     try_bind (with_context_of (''Failed to deploy '' @ language @ '' in application mode on '' @ vi_ip vm)
         (ssh_exec w (vi_ip vm) (app_command language proxy))) (\<lambda>_. done_with (Inr ()))))"

definition stop_app_language :: "world \<Rightarrow> vm_info \<Rightarrow> unit script" where
  "stop_app_language w vm = do { _ \<leftarrow> ssh_ignored w (vi_ip vm) KILL_8080; sleep (from_secs 1) }"

definition LOGS_COMMAND :: string where
  "LOGS_COMMAND = ''journalctl -u bench-server --no-pager -n 100 --output=cat 2>/dev/null || tail -100 /opt/bench/server.log 2>/dev/null || echo '' @
     CHR 0x27 # ''(no server logs found)'' @ [CHR 0x27]"

definition collect_server_logs :: "world \<Rightarrow> vm_info \<Rightarrow> string \<Rightarrow> string \<Rightarrow> unit script" where
  "collect_server_logs w vm language testbed_id = do {
     out \<leftarrow> ssh_exec w (vi_ip vm) LOGS_COMMAND;
     case out of
       Inl e \<Rightarrow> done_with ()
     | Inr s \<Rightarrow> if filter (\<lambda>l. trim l \<noteq> []) (str_lines s) = [] then done_with () else log_callback w testbed_id
   }"

section \<open>Tokens\<close>

text \<open>The secret is named by the first twelve bytes of the configuration and of the testbed.\<close>

definition secret_name :: "string \<Rightarrow> string \<Rightarrow> string" where
  "secret_name config_id testbed_id = ''bench-'' @ take 12 config_id @ ''-vm-'' @ take 12 testbed_id"

definition keyvault_name :: "world \<Rightarrow> string option script" where
  "keyvault_name w = do {
     v \<leftarrow> act (wd_env w) (EnvVar ''BENCH_KEYVAULT_NAME'');
     done_with (case v of Some n \<Rightarrow> (if n = [] then None else Some n) | None \<Rightarrow> None)
   }"

text \<open>\<open>wd_expiry\<close> is the time four hours from now as text. A program that cannot be started is an error, one that
  fails is not; the environment's \<open>Inl\<close> stands for both, and the caller ignores which.\<close>

definition store_in_keyvault :: "world \<Rightarrow> string \<Rightarrow> string \<Rightarrow> string \<Rightarrow> string \<Rightarrow> string \<Rightarrow> (string + unit) script" where
  "store_in_keyvault w config_id testbed_id token user_email project_id = do {
     vault \<leftarrow> keyvault_name w;
     case vault of
       None \<Rightarrow> done_with (Inr ())
     | Some v \<Rightarrow> do {
         expiry \<leftarrow> act (wd_expiry w) ReadClock;
         out \<leftarrow> az_cmd w [''keyvault'', ''secret'', ''set'', ''--vault-name'', v, ''--name'', secret_name config_id testbed_id,
            ''--value'', token, ''--expires'', expiry, ''--tags'', ''user='' @ user_email @ '' project='' @ project_id,
            ''--output'', ''none''];
         done_with (unit_of out)
       }
   }"

text \<open>Writing the token into a local file is part of the copy.\<close>

definition TOKEN_COMMAND :: string where
  "TOKEN_COMMAND = ''sudo mkdir -p /opt/bench && sudo mv /tmp/.bench-api-token /opt/bench/.api-token && sudo chmod 600 /opt/bench/.api-token && sudo chown root:root /opt/bench/.api-token''"

definition deploy_to_vm :: "world \<Rightarrow> string \<Rightarrow> string \<Rightarrow> (string + unit) script" where
  "deploy_to_vm w ip token =
     try_bind (with_context_of ''SCP token to VM failed'' (scp_to w ip (wd_temp_dir w @ ''/bench-token-'' @ take 8 token @ ''.tmp'') ''/tmp/.bench-api-token'')) (\<lambda>_.
     try_bind (with_context_of ''Failed to set token file permissions'' (ssh_exec w ip TOKEN_COMMAND)) (\<lambda>_.
       done_with (Inr ())))"

definition cleanup_keyvault_vm :: "world \<Rightarrow> string \<Rightarrow> string \<Rightarrow> (string + unit) script" where
  "cleanup_keyvault_vm w config_id testbed_id = do {
     vault \<leftarrow> keyvault_name w;
     case vault of
       None \<Rightarrow> done_with (Inr ())
     | Some v \<Rightarrow> do {
         out \<leftarrow> az_cmd w [''keyvault'', ''secret'', ''delete'', ''--vault-name'', v, ''--name'',
            secret_name config_id testbed_id, ''--output'', ''none''];
         done_with (unit_of out)
       }
   }"

definition cleanup_vm :: "world \<Rightarrow> string \<Rightarrow> unit script" where
  "cleanup_vm w ip = ssh_ignored w ip ''sudo rm -f /opt/bench/.api-token''"

section \<open>The machine of a testbed\<close>

text \<open>\<open>str::parse\<close> into an unsigned type of \<open>m\<close> values.\<close>

definition parse_below :: "nat \<Rightarrow> string \<Rightarrow> nat option" where
  "parse_below m s =
     (let ds = (case s of c # cs \<Rightarrow> if c = CHR ''+'' then cs else s | [] \<Rightarrow> [])
      in if ds = [] then None
         else (case digits_value 0 ds of None \<Rightarrow> None | Some n \<Rightarrow> if n < m then Some n else None))"

datatype ip_error =
    InvalidCharacters | NotFourOctets | InvalidOctet | OctetOutOfRange
  | LocalhostNotAllowed | LinkLocalNotAllowed | PrivateNotAllowed | ZeroNotAllowed

definition octet_error :: "string \<Rightarrow> ip_error option" where
  "octet_error octet = (case parse_below (2 ^ 16) octet of
     None \<Rightarrow> Some InvalidOctet | Some v \<Rightarrow> ensure_or (v \<le> 255) OctetOutOfRange)"

text \<open>The parses of the first two parts are unwrapped: \<open>None\<close> is the panic.\<close>

definition cloud_checks :: "string list \<Rightarrow> ip_error option list option" where
  "cloud_checks parts = (case (parse_below 256 (parts ! 0), parse_below 256 (parts ! 1)) of
     (Some a, Some b) \<Rightarrow> Some
       [ensure_or (a \<noteq> 127) LocalhostNotAllowed, ensure_or (\<not> (a = 169 \<and> b = 254)) LinkLocalNotAllowed,
        ensure_or (a \<noteq> 10) PrivateNotAllowed, ensure_or (\<not> (a = 172 \<and> 16 \<le> b \<and> b \<le> 31)) PrivateNotAllowed,
        ensure_or (\<not> (a = 192 \<and> b = 168)) PrivateNotAllowed, ensure_or (a \<noteq> 0) ZeroNotAllowed]
   | _ \<Rightarrow> None)"

definition validate_ip :: "string \<Rightarrow> bool \<Rightarrow> (ip_error + unit) option" where
  "validate_ip ip is_cloud =
     (if list_ex (\<lambda>c. \<not> is_ascii_digit c \<and> c \<noteq> CHR ''.'') ip then Some (Inl InvalidCharacters)
      else let parts = split_on CHR ''.'' ip
        in if length parts \<noteq> 4 then Some (Inl NotFourOctets)
           else (case first_error (map octet_error parts) of
               Inl e \<Rightarrow> Some (Inl e)
             | Inr _ \<Rightarrow> (if is_cloud then map_option first_error (cloud_checks parts) else Some (Inr ()))))"

definition vm_name_of :: "testbed_config \<Rightarrow> string" where
  "vm_name_of tb = ''ab-'' @ take 8 (tb_testbed_id tb) @ ''-'' @ tb_region tb"

definition existing_user :: "string \<Rightarrow> string" where
  "existing_user cloud = (if to_ascii_lowercase cloud = ''azure'' then ''azureuser'' else ''ubuntu'')"

definition existing_vm :: "testbed_config \<Rightarrow> string \<Rightarrow> vm_info" where
  "existing_vm tb ip =
     \<lparr>vi_name = ''existing-'' @ take 8 (tb_testbed_id tb), vi_ip = ip, vi_cloud = tb_cloud tb, vi_region = tb_region tb,
      vi_os = ''ubuntu'', vi_vm_size = tb_vm_size tb, vi_resource_group = [], vi_ssh_user = existing_user (tb_cloud tb)\<rparr>"

definition provision_for :: "world \<Rightarrow> testbed_config \<Rightarrow> (string + vm_info \<times> bool) script" where
  "provision_for w tb = do {
     r \<leftarrow> provision_vm w (tb_cloud tb) (tb_region tb) ''ubuntu''
       (resolve_vm_size (to_ascii_lowercase (tb_cloud tb)) (to_ascii_lowercase (tb_vm_size tb))) (vm_name_of tb);
     done_with (map_sum id (\<lambda>vm. (vm, True)) r)
   }"

text \<open>A panic of the check of the address, which does not happen, would count as a refusal.\<close>

definition resolve_vm :: "world \<Rightarrow> testbed_config \<Rightarrow> (string + vm_info \<times> bool) script" where
  "resolve_vm w tb = (case tb_existing_vm_ip tb of
     Some ip \<Rightarrow> done_with
       (if validate_ip ip (to_ascii_lowercase (tb_cloud tb) \<in> {''azure'', ''aws'', ''gcp''}) = Some (Inr ())
        then Inr (existing_vm tb ip, False) else Inl (''Invalid existing_vm_ip for testbed '' @ tb_testbed_id tb))
   | None \<Rightarrow> do {
       found \<leftarrow> find_existing_vm w (vm_name_of tb);
       case found of
         Inl e \<Rightarrow> done_with (Inl e)
       | Inr (Some vm) \<Rightarrow> if vi_ip vm \<noteq> [] then done_with (Inr (vm, False)) else provision_for w tb
       | Inr None \<Rightarrow> provision_for w tb
     })"

definition teardown_testbed :: "world \<Rightarrow> testbed_config \<Rightarrow> unit script" where
  "teardown_testbed w tb = do {
     _ \<leftarrow> log_callback w (tb_testbed_id tb);
     found \<leftarrow> find_existing_vm w (vm_name_of tb);
     case found of
       Inr (Some vm) \<Rightarrow> do { _ \<leftarrow> destroy_vm w vm; log_callback w (tb_testbed_id tb) }
     | Inr None \<Rightarrow> done_with ()
     | Inl e \<Rightarrow> done_with ()
   }"

section \<open>The tester's machine\<close>

record cloud_provider =
  cp_subscription_id :: string
  cp_resource_group :: string

definition provider_from_config :: "jvalue \<Rightarrow> string + cloud_provider" where
  "provider_from_config v = (case as_str (member ''subscription_id'' v) of
     None \<Rightarrow> Inl ''azure config: missing subscription_id''
   | Some sub \<Rightarrow> (case as_str (member ''resource_group'' v) of
       None \<Rightarrow> Inl ''azure config: missing resource_group''
     | Some rg \<Rightarrow> Inr \<lparr>cp_subscription_id = sub, cp_resource_group = rg\<rparr>))"

definition env_var :: "world \<Rightarrow> string \<Rightarrow> string option script" where
  "env_var w n = act (wd_env w) (EnvVar n)"

definition legacy_fallback :: "world \<Rightarrow> cloud_provider script" where
  "legacy_fallback w = do {
     a \<leftarrow> env_var w ''AZURE_SUBSCRIPTION_ID'';
     sub \<leftarrow> (case a of Some s \<Rightarrow> done_with (Some s) | None \<Rightarrow> env_var w ''DASHBOARD_AZURE_SUBSCRIPTION'');
     rg \<leftarrow> env_var w ''DASHBOARD_AZURE_RG'';
     done_with \<lparr>cp_subscription_id = or_default [] sub, cp_resource_group = or_default ''networker-testers'' rg\<rparr>
   }"

definition load_cloud_provider :: "world \<Rightarrow> uuid option \<Rightarrow> (string + cloud_provider) script" where
  "load_cloud_provider w conn = (case conn of
     None \<Rightarrow> do { p \<leftarrow> legacy_fallback w; done_with (Inr p) }
   | Some c \<Rightarrow> do {
       row \<leftarrow> act (wd_connection w) (LoadConnection c);
       done_with (case row of
         Inl e \<Rightarrow> Inl (''loading cloud_connection: '' @ e)
       | Inr (provider, config) \<Rightarrow>
           (if provider \<noteq> ''azure'' then Inl (''orchestrator only supports azure provider, got: '' @ provider)
            else provider_from_config config))
     })"

definition provider_start :: "world \<Rightarrow> cloud_provider \<Rightarrow> string \<Rightarrow> (string + unit) script" where
  "provider_start w p resource_id = do {
     out \<leftarrow> az_cmd w [''vm'', ''start'', ''--subscription'', cp_subscription_id p, ''--resource-group'', cp_resource_group p,
        ''--ids'', resource_id];
     done_with (unit_of out)
   }"

text \<open>Ssh is tried every ten seconds.\<close>

fun await_ssh :: "world \<Rightarrow> string \<Rightarrow> nat \<Rightarrow> bool script" where
  "await_ssh w ip 0 = done_with False"
| "await_ssh w ip (Suc n) = do {
     out \<leftarrow> ssh_exec w ip ''echo ok'';
     case out of Inr _ \<Rightarrow> done_with True | Inl e \<Rightarrow> do { _ \<leftarrow> sleep (from_secs 10); await_ssh w ip n }
   }"

definition ensure_running_via_azure :: "world \<Rightarrow> project_tester \<Rightarrow> (string + unit) script" where
  "ensure_running_via_azure w t = (case pt_vm_resource_id t of
     None \<Rightarrow> done_with (Inl ''tester has no vm_resource_id'')
   | Some rid \<Rightarrow> (case pt_public_ip t of
       None \<Rightarrow> done_with (Inl ''tester has no public_ip'')
     | Some ip \<Rightarrow>
         try_bind (load_cloud_provider w (pt_cloud_connection_id t)) (\<lambda>p.
         try_bind (provider_start w p rid) (\<lambda>_. do {
           ready \<leftarrow> await_ssh w ip 30;
           done_with (if ready then Inr () else Inl (''SSH not available on '' @ ip @ '' within 5 minutes after VM start''))
         }))))"

section \<open>API workloads\<close>

definition MEASURED_API_PREFIXES :: "string list" where
  "MEASURED_API_PREFIXES = [''/api/users'', ''/api/transform'', ''/api/aggregate'', ''/api/search'', ''/api/upload/process'']"

definition APIBENCH_MODE :: string where "APIBENCH_MODE = ''apibench''"

definition language_supports_apibench :: "string \<Rightarrow> bool" where
  "language_supports_apibench language \<longleftrightarrow> language \<noteq> ''nginx''"

datatype workload_error =
    NoWorkloads | NotASlug string | DuplicateWorkload string | MethodNotAllowed string string
  | NotMeasured string string | PostWithoutBody string | GetWithBody string

definition slug_char :: "char \<Rightarrow> bool" where
  "slug_char c \<longleftrightarrow> is_ascii_alphanumeric c \<or> c = CHR ''-'' \<or> c = CHR ''_''"

definition measured_path :: "string \<Rightarrow> bool" where
  "measured_path path \<longleftrightarrow>
     list_ex (\<lambda>p. path = p \<or> starts_with (p @ ''?'') path \<or> starts_with (p @ ''/'') path) MEASURED_API_PREFIXES"

definition workload_checks :: "string set \<Rightarrow> api_workload \<Rightarrow> workload_error option list" where
  "workload_checks seen a =
     [ensure_or (aw_name a \<noteq> [] \<and> list_all slug_char (aw_name a)) (NotASlug (aw_name a)),
      ensure_or (aw_name a \<notin> seen) (DuplicateWorkload (aw_name a)),
      ensure_or (aw_method a \<in> {''GET'', ''POST''}) (MethodNotAllowed (aw_name a) (aw_method a)),
      ensure_or (measured_path (aw_path a)) (NotMeasured (aw_name a) (aw_path a)),
      (if aw_method a = ''POST''
       then ensure_or (case aw_body a of Some b \<Rightarrow> b \<noteq> [] | None \<Rightarrow> False) (PostWithoutBody (aw_name a))
       else ensure_or (aw_body a = None) (GetWithBody (aw_name a)))]"

fun all_workload_checks :: "string set \<Rightarrow> api_workload list \<Rightarrow> workload_error option list" where
  "all_workload_checks seen [] = []"
| "all_workload_checks seen (a # as) = workload_checks seen a @ all_workload_checks (insert (aw_name a) seen) as"

definition workloads_validate :: "api_workload list \<Rightarrow> workload_error + unit" where
  "workloads_validate ws = first_error (ensure_or (ws \<noteq> []) NoWorkloads # all_workload_checks {} ws)"

text \<open>\<open>trim_end_matches('/')\<close>\<close>

definition trim_slashes :: "string \<Rightarrow> string" where
  "trim_slashes s = rev (dropWhile (\<lambda>c. c = CHR ''/'') (rev s))"

definition tester_args_for_workload :: "string \<Rightarrow> api_workload \<Rightarrow> u64 \<Rightarrow> u64 \<Rightarrow> string option \<Rightarrow> string list" where
  "tester_args_for_workload base_url a n_runs timeout_secs token =
     [''--target'', trim_slashes base_url @ aw_path a, ''--modes'', ''http1'', ''--runs'', decimal (unat n_runs),
      ''--timeout'', decimal (unat timeout_secs), ''--insecure'', ''--json-stdout'', ''--benchmark-mode''] @
     (if aw_method a = ''POST'' then (case aw_body a of
        Some b \<Rightarrow> [''--request-body'', b, ''--request-content-type'', or_default ''application/json'' (aw_content_type a)]
      | None \<Rightarrow> []) else []) @
     (case token of Some t \<Rightarrow> (if t \<noteq> [] then [''--bearer-token'', t] else []) | None \<Rightarrow> [])"

section \<open>Deploying a language on a new machine\<close>

text \<open>\<open>deployer.rs\<close>. A machine that the orchestrator deploys to without its own copy of the reference
  servers downloads the installer; with a copy, \<open>deploy_local\<close> stands for the developer's way, file by file.\<close>

definition INSTALLER_URL :: string where
  "INSTALLER_URL = ''https://raw.githubusercontent.com/irlm/networker-tester/main/install.sh''"

definition HEALTH_POLL_INTERVAL :: duration where "HEALTH_POLL_INTERVAL = from_secs 2"
definition HEALTH_POLL_MAX_WAIT :: duration where "HEALTH_POLL_MAX_WAIT = from_secs 60"

definition health_error :: "vm_info \<Rightarrow> string" where
  "health_error vm = ''Timed out waiting for /health on '' @ vi_ip vm @ '':8443 after 60s''"

text \<open>Two seconds pass between two tries and the deadline is sixty seconds away: thirty-two tries are all.\<close>

fun wait_until_healthy :: "world \<Rightarrow> instant \<Rightarrow> vm_info \<Rightarrow> nat \<Rightarrow> (string + unit) script" where
  "wait_until_healthy w deadline vm 0 = done_with (Inl (health_error vm))"
| "wait_until_healthy w deadline vm (Suc n) = do {
     now \<leftarrow> act (wd_clock w) ReadClock;
     if deadline < now then done_with (Inl (health_error vm))
     else do {
       out \<leftarrow> cli_cmd w ''curl'' [''-sk'', ''--connect-timeout'', ''5'', ''--max-time'', ''10'', ''https://'' @ vi_ip vm @ '':8443/health''];
       if (case out of Inr s \<Rightarrow> find_text ''ok'' s \<noteq> None \<or> find_text ''healthy'' s \<noteq> None | Inl e \<Rightarrow> False)
       then done_with (Inr ())
       else do { _ \<leftarrow> sleep HEALTH_POLL_INTERVAL; wait_until_healthy w deadline vm n }
     }
   }"

definition HEALTH_POLLS :: nat where "HEALTH_POLLS = 32"

definition wait_for_health :: "world \<Rightarrow> vm_info \<Rightarrow> (string + unit) script" where
  "wait_for_health w vm = do {
     start \<leftarrow> act (wd_clock w) ReadClock;
     wait_until_healthy w (start + HEALTH_POLL_MAX_WAIT) vm HEALTH_POLLS
   }"

text \<open>The argument counts the attempts that are left of five.\<close>

fun deploy_attempts :: "world \<Rightarrow> vm_info \<Rightarrow> string \<Rightarrow> nat \<Rightarrow> (string + unit) script" where
  "deploy_attempts w vm language 0 = done_with (Inl (''remote deploy of '' @ language @ '' failed after 5 attempts''))"
| "deploy_attempts w vm language (Suc n) = do {
     out \<leftarrow> ssh_exec w (vi_ip vm) (''curl -fsSL '' @ INSTALLER_URL @ '' | bash -s -- --benchmark-server '' @ language);
     case out of
       Inr _ \<Rightarrow> wait_for_health w vm
     | Inl e \<Rightarrow> if n = 0 then done_with (Inl (''remote deploy of '' @ language @ '' failed after 5 attempts: '' @ e))
               else do { _ \<leftarrow> sleep (from_secs 10); deploy_attempts w vm language n }
   }"

definition deploy_remote :: "world \<Rightarrow> vm_info \<Rightarrow> string \<Rightarrow> (string + unit) script" where
  "deploy_remote w vm language = deploy_attempts w vm language 5"

definition deploy_api :: "world \<Rightarrow> (vm_info \<Rightarrow> string \<Rightarrow> (string + unit) script) \<Rightarrow> vm_info \<Rightarrow> string \<Rightarrow> (string + unit) script" where
  "deploy_api w deploy_local vm language =
     (if \<not> shell_safe_name language then done_with (Inl ''invalid language name'')
      else if wd_ip w (vi_ip vm) = None then done_with (Inl ''vm.ip is not a valid IP address'')
      else do {
        here \<leftarrow> file_exists w (wd_bench_dir w @ ''/reference-apis/'' @ language);
        any \<leftarrow> (if here then done_with True else file_exists w (wd_bench_dir w @ ''/reference-apis''));
        if \<not> here \<and> \<not> any then deploy_remote w vm language else deploy_local vm language
      })"

definition STOP_COMMAND :: string where
  "STOP_COMMAND =
     ''pkill -f '' @ CHR 0x27 # ''/opt/bench/.*server'' @ CHR 0x27 # '' || true; '' @
     ''pkill -f '' @ CHR 0x27 # ''networker-endpoint'' @ CHR 0x27 # '' || true; '' @
     ''pkill -f '' @ CHR 0x27 # ''/opt/bench/metrics-agent'' @ CHR 0x27 # '' || true; '' @
     ''pkill -f '' @ CHR 0x27 # ''node.*server'' @ CHR 0x5C # ''.js'' @ CHR 0x27 # '' || true; '' @
     ''pkill -f '' @ CHR 0x27 # ''uvicorn'' @ CHR 0x27 # '' || true; '' @
     ''pkill -f '' @ CHR 0x27 # ''java.*server.jar'' @ CHR 0x27 # '' || true; '' @
     ''pkill -f '' @ CHR 0x27 # ''dotnet'' @ CHR 0x27 # '' || true; '' @
     ''pkill -f '' @ CHR 0x27 # ''puma'' @ CHR 0x27 # '' || true; '' @
     ''pkill -f '' @ CHR 0x27 # ''ruby'' @ CHR 0x27 # '' || true; '' @
     ''pkill -f '' @ CHR 0x27 # ''php.*server.php'' @ CHR 0x27 # '' || true; '' @
     ''sudo systemctl stop nginx 2>/dev/null || true''"

definition stop_api :: "world \<Rightarrow> vm_info \<Rightarrow> (string + unit) script" where
  "stop_api w vm = do {
     out \<leftarrow> with_context_of ''stopping server processes'' (ssh_exec w (vi_ip vm) STOP_COMMAND);
     done_with (unit_of out)
   }"

section \<open>Checking a deployed API\<close>

definition curl_args :: "vm_info \<Rightarrow> string list \<Rightarrow> string \<Rightarrow> string list" where
  "curl_args vm opts path =
     [''-sk'', ''--connect-timeout'', ''10'', ''--max-time'', ''30''] @ opts @ [''https://'' @ vi_ip vm @ '':8443'' @ path]"

definition health_check :: "world \<Rightarrow> string \<Rightarrow> string + unit" where
  "health_check w body = (case with_context ''parsing /health response as JSON'' (wd_json w body) of
     Inl e \<Rightarrow> Inl e
   | Inr v \<Rightarrow> (if as_str (member ''status'' v) = Some ''ok'' then Inr ()
       else Inl (''/health did not return status:ok, got: '' @ trim body)))"

definition download_check :: "string \<Rightarrow> string + unit" where
  "download_check out = (case parse_u64 (trim out) of
     None \<Rightarrow> Inl (''parsing download size: '' @ trim out)
   | Some n \<Rightarrow> (if n = 1024 then Inr () else Inl (''/download/1024 returned '' @ decimal (unat n) @ '' bytes, expected 1024'')))"

definition upload_check :: "world \<Rightarrow> string \<Rightarrow> string + unit" where
  "upload_check w out = (case with_context (''parsing /upload response: '' @ trim out) (wd_json w out) of
     Inl e \<Rightarrow> Inl e
   | Inr v \<Rightarrow> (let received = or_default 0 (as_u64 (member ''bytes_received'' v))
       in if received = 1024 then Inr ()
          else Inl (''/upload reported '' @ decimal received @ '' bytes_received, expected 1024'')))"

definition validate_api :: "world \<Rightarrow> vm_info \<Rightarrow> (string + unit) script" where
  "validate_api w vm =
     try_bind (with_context_of ''GET /health'' (cli_cmd w ''curl'' (curl_args vm [] ''/health''))) (\<lambda>health.
     try_bind (done_with (health_check w health)) (\<lambda>_.
     try_bind (with_context_of ''curl /download/1024''
         (cli_cmd w ''curl'' (curl_args vm [''-o'', ''/dev/null'', ''-w'', ''%{size_download}''] ''/download/1024''))) (\<lambda>size.
     try_bind (done_with (download_check size)) (\<lambda>_.
     try_bind (with_context_of ''curl POST /upload''
         (cli_cmd w ''curl'' (curl_args vm [''-X'', ''POST'', ''-H'', ''Content-Type: application/octet-stream'', ''--data-binary'',
            replicate 1024 CHR ''X''] ''/upload''))) (\<lambda>answer.
       done_with (upload_check w answer))))))"

end
