(* ===== verification/Orch_Cycle.thy ===== *)
theory Orch_Cycle
  imports Orch_Remote
begin

text \<open>
  A sweep of the dashboard, \<open>benchmarks/orchestrator/src/executor\<close>: \<open>status.rs\<close>, the lock of a
  persistent tester (\<open>tester_state.rs\<close>), one language or workload (\<open>benchmark.rs\<close>), the matrix of an
  application testbed, a testbed, and the sweep over all of them (\<open>cycle.rs\<close>).

  The texts of log lines and status messages are left out, and the tracing output; every
  callback itself is an action. The tester is a program that is given arguments and a time limit.
\<close>

section \<open>Status writes and callbacks\<close>

text \<open>A failed write is logged and otherwise ignored.\<close>

definition write_terminal_status :: "world \<Rightarrow> uuid \<Rightarrow> string \<Rightarrow> unit script" where
  "write_terminal_status w config_id status = do { _ \<leftarrow> act (wd_write w) (SetStatus config_id status); done_with () }"

definition write_phase :: "world \<Rightarrow> uuid \<Rightarrow> string \<Rightarrow> unit script" where
  "write_phase w config_id phase = do { _ \<leftarrow> act (wd_write w) (SetPhase config_id phase); done_with () }"

definition notify_queue_dispatcher :: "uuid \<Rightarrow> unit script" where
  "notify_queue_dispatcher tester_id = act no_answer (Notify tester_id)"

definition status_callback :: "world \<Rightarrow> string \<Rightarrow> string \<Rightarrow> string \<Rightarrow> u32 \<Rightarrow> u32 \<Rightarrow> unit script" where
  "status_callback w testbed_id status language index combos = do {
     _ \<leftarrow> act (wd_callback w) (CbStatus testbed_id status language index combos); done_with ()
   }"

definition result_callback :: "world \<Rightarrow> string \<Rightarrow> string \<Rightarrow> jvalue \<Rightarrow> (string + unit) script" where
  "result_callback w testbed_id language artifact = act (wd_callback w) (CbResult testbed_id language artifact)"

definition read_cancel :: "world \<Rightarrow> bool script" where
  "read_cancel w = act (wd_flag w) ReadCancel"

definition read_clock :: "world \<Rightarrow> instant script" where
  "read_clock w = act (wd_clock w) ReadClock"

text \<open>The URL is that of the environment; what the database answers to the connection is the environment's.\<close>

definition connect_orchestrator_db :: "world \<Rightarrow> (string + unit) script" where
  "connect_orchestrator_db w = do {
     a \<leftarrow> env_var w ''ORCHESTRATOR_DB_URL'';
     url \<leftarrow> (case a of Some u \<Rightarrow> done_with (Some u) | None \<Rightarrow> env_var w ''DASHBOARD_DB_URL'');
     case url of
       None \<Rightarrow> done_with (Inl ''ORCHESTRATOR_DB_URL (or DASHBOARD_DB_URL) must be set for tester-lock flow'')
     | Some u \<Rightarrow> with_context_of ''connecting to Postgres for tester-lock flow'' (act (wd_write w) ConnectDb)
   }"

section \<open>The lock of a tester\<close>

datatype acquire_outcome =
    Acquired | NeedsStart | Transient string | Upgrading | AlreadyLockedBy uuid | Errored | NotIdle string | Gone

definition classify :: "(string \<times> string \<times> uuid option) option \<Rightarrow> acquire_outcome" where
  "classify row = (case row of
     None \<Rightarrow> Gone
   | Some (pst, alloc, locker) \<Rightarrow>
       (if pst = ''stopped'' then NeedsStart
        else if pst \<in> {''starting'', ''stopping'', ''provisioning''} then Transient pst
        else if pst = ''running'' \<and> alloc = ''locked'' then AlreadyLockedBy (or_default 0 locker)
        else if pst = ''running'' \<and> alloc = ''upgrading'' then Upgrading
        else if pst = ''error'' then Errored
        else NotIdle (pst @ ''/'' @ alloc)))"

definition try_acquire :: "world \<Rightarrow> uuid \<Rightarrow> uuid \<Rightarrow> (string + acquire_outcome) script" where
  "try_acquire w tester_id config_id =
     try_bind (act (wd_updated w) (AcquireUpdate tester_id config_id)) (\<lambda>updated.
       if updated then done_with (Inr Acquired)
       else try_bind (act (wd_row w) (AcquireSelect tester_id)) (\<lambda>row. done_with (Inr (classify row))))"

definition release_lock :: "world \<Rightarrow> uuid \<Rightarrow> uuid \<Rightarrow> (string + unit) script" where
  "release_lock w tester_id config_id = act (wd_write w) (ReleaseLock tester_id config_id)"

definition try_power_transition :: "world \<Rightarrow> uuid \<Rightarrow> string \<Rightarrow> string \<Rightarrow> (string + bool) script" where
  "try_power_transition w tester_id expected nxt = act (wd_updated w) (PowerNudge tester_id expected nxt)"

definition release_now :: "world \<Rightarrow> uuid \<Rightarrow> uuid \<Rightarrow> unit script" where
  "release_now w tester_id config_id = do { _ \<leftarrow> release_lock w tester_id config_id; done_with () }"

text \<open>What the statements mean, on the table of the testers.\<close>

record tester_row =
  tr_power :: string
  tr_alloc :: string
  tr_locker :: "uuid option"

datatype lock_statement = Lock uuid uuid | Unlock uuid uuid | Power uuid string string

definition lock_matches :: "uuid \<Rightarrow> (uuid \<Rightarrow> tester_row option) \<Rightarrow> bool" where
  "lock_matches t db = (case db t of
     Some r \<Rightarrow> tr_power r = ''running'' \<and> tr_alloc r = ''idle'' \<and> tr_locker r = None | None \<Rightarrow> False)"

fun execute_lock :: "lock_statement \<Rightarrow> (uuid \<Rightarrow> tester_row option) \<Rightarrow> (uuid \<Rightarrow> tester_row option)" where
  "execute_lock (Lock t c) db =
     (if lock_matches t db
      then db(t := map_option (\<lambda>r. r\<lparr>tr_alloc := ''locked'', tr_locker := Some c\<rparr>) (db t)) else db)"
| "execute_lock (Unlock t c) db =
     db(t := map_option (\<lambda>r. if tr_locker r = Some c then r\<lparr>tr_alloc := ''idle'', tr_locker := None\<rparr> else r) (db t))"
| "execute_lock (Power t expected nxt) db =
     db(t := map_option (\<lambda>r. if tr_power r = expected then r\<lparr>tr_power := nxt\<rparr> else r) (db t))"

section \<open>One language\<close>

definition supports_http3 :: "string \<Rightarrow> bool" where
  "supports_http3 language \<longleftrightarrow> language \<in>
     {''rust'', ''nginx'', ''go'', ''python'', ''csharp-net7'', ''csharp-net8'', ''csharp-net8-aot'', ''csharp-net9'',
      ''csharp-net9-aot'', ''csharp-net10'', ''csharp-net10-aot'', ''php''}"

record test_params =
  tp_warmup_requests :: u64
  tp_benchmark_requests :: u64
  tp_timeout_secs :: u64

definition test_params_of :: "methodology_config \<Rightarrow> test_params" where
  "test_params_of m = \<lparr>tp_warmup_requests = ucast (mt_warmup_runs m), tp_benchmark_requests = ucast (mt_min_measured m),
     tp_timeout_secs = ucast (mt_timeout_secs m)\<rparr>"

definition effective_modes :: "string \<Rightarrow> string \<Rightarrow> string" where
  "effective_modes language modes =
     (if supports_http3 language then modes
      else join_with '','' (filter (\<lambda>m. trim m \<noteq> ''http3'') (split_on CHR '','' modes)))"

definition needs_payload :: "string \<Rightarrow> bool" where
  "needs_payload modes \<longleftrightarrow> list_ex (\<lambda>m. starts_with ''download'' (trim m) \<or> starts_with ''upload'' (trim m) \<or>
     starts_with ''udp'' (trim m)) (split_on CHR '','' modes)"

definition language_args :: "string \<Rightarrow> test_params \<Rightarrow> string \<Rightarrow> string \<Rightarrow> string option \<Rightarrow> string option \<Rightarrow> string \<Rightarrow> string \<Rightarrow> string list" where
  "language_args target p language modes callback_url callback_token config_id testbed_id =
     [''--target'', target, ''--modes'', modes, ''--runs'', decimal (unat (tp_benchmark_requests p)), ''--timeout'',
      decimal (unat (tp_timeout_secs p)), ''--insecure'', ''--json-stdout'', ''--benchmark-mode''] @
     (if needs_payload modes then [''--payload-sizes'', ''4k,64k,1m''] else []) @
     (case callback_url of None \<Rightarrow> []
      | Some url \<Rightarrow> [''--progress-url'', url] @
          (case callback_token of Some t \<Rightarrow> [''--progress-token'', t] | None \<Rightarrow> []) @
          [''--progress-config-id'', config_id, ''--progress-testbed-id'', testbed_id, ''--benchmark-language'', language])"

definition language_timeout :: "test_params \<Rightarrow> string \<Rightarrow> u64" where
  "language_timeout p modes =
     tp_timeout_secs p * (of_nat (length (split_on CHR '','' modes)) * (if needs_payload modes then 3 else 1) * tp_benchmark_requests p) + 120"

definition tester_output :: "world \<Rightarrow> string \<Rightarrow> string \<Rightarrow> string \<Rightarrow> exit_outcome \<Rightarrow> string + jvalue" where
  "tester_output w timed_out what parsing out = (case out of
     TimedOut \<Rightarrow> Inl timed_out
   | NotStarted e \<Rightarrow> Inl (''failed to execute networker-tester: '' @ e)
   | Exited status stderr \<Rightarrow> Inl (''networker-tester failed for '' @ what @ '' (exit='' @ status @ ''): '' @ trim stderr)
   | Succeeded stdout \<Rightarrow> with_context parsing (wd_json w stdout))"

definition run_language_benchmark :: "world \<Rightarrow> vm_info \<Rightarrow> test_params \<Rightarrow> string \<Rightarrow> string \<Rightarrow> string option \<Rightarrow> string option \<Rightarrow>
   string \<Rightarrow> string \<Rightarrow> (string + jvalue) script" where
  "run_language_benchmark w vm p language modes callback_url callback_token config_id testbed_id =
     (let effective = effective_modes language modes
      in do {
        out \<leftarrow> act (wd_tester w) (Tester
          (language_args (''https://'' @ vi_ip vm @ '':8443/health'') p language effective callback_url callback_token config_id testbed_id)
          (from_secs (unat (language_timeout p effective))));
        done_with (tester_output w ''benchmark timed out'' language ''parsing tester JSON output'' out)
      })"

definition run_apibench_workload :: "world \<Rightarrow> vm_info \<Rightarrow> test_params \<Rightarrow> api_workload \<Rightarrow> string option \<Rightarrow> (string + jvalue) script" where
  "run_apibench_workload w vm p a token = do {
     out \<leftarrow> act (wd_tester w) (Tester
       (tester_args_for_workload (''https://'' @ vi_ip vm @ '':8443'') a (tp_benchmark_requests p) (tp_timeout_secs p) token)
       (from_secs (unat (tp_timeout_secs p * tp_benchmark_requests p + 120))));
     done_with (tester_output w (''apibench workload '' @ aw_name a @ '' timed out'') (''apibench workload '' @ aw_name a)
       (''parsing tester JSON output for workload '' @ aw_name a) out)
   }"

definition workload_artifact :: "api_workload \<Rightarrow> jvalue \<Rightarrow> string option \<Rightarrow> jvalue" where
  "workload_artifact a tester proxy = ObjV ([(''mode'', StrV ''apibench''), (''workload'', StrV (aw_name a)),
     (''endpoint'', StrV (aw_path a)), (''method'', StrV (aw_method a)), (''tester'', tester)] @
     (case proxy of Some p \<Rightarrow> [(''proxy'', StrV p)] | None \<Rightarrow> []))"

fun run_workloads :: "world \<Rightarrow> vm_info \<Rightarrow> test_params \<Rightarrow> string \<Rightarrow> string option \<Rightarrow> string option \<Rightarrow> string \<Rightarrow> bool \<Rightarrow>
   api_workload list \<Rightarrow> bool script" where
  "run_workloads w vm p language proxy token testbed_id all_ok [] = done_with all_ok"
| "run_workloads w vm p language proxy token testbed_id all_ok (a # as) = do {
     _ \<leftarrow> log_callback w testbed_id;
     r \<leftarrow> run_apibench_workload w vm p a token;
     ok \<leftarrow> (case r of
         Inr v \<Rightarrow> do {
           sent \<leftarrow> result_callback w testbed_id language (workload_artifact a v proxy);
           case sent of Inr _ \<Rightarrow> done_with True | Inl e \<Rightarrow> do { _ \<leftarrow> log_callback w testbed_id; done_with False }
         }
       | Inl e \<Rightarrow> do { _ \<leftarrow> log_callback w testbed_id; done_with False });
     run_workloads w vm p language proxy token testbed_id (all_ok \<and> ok) as
   }"

definition run_apibench_suite :: "world \<Rightarrow> vm_info \<Rightarrow> test_params \<Rightarrow> string \<Rightarrow> string option \<Rightarrow> string option \<Rightarrow> string \<Rightarrow> bool script" where
  "run_apibench_suite w vm p language proxy token testbed_id =
     (if \<not> language_supports_apibench language
      then do { _ \<leftarrow> log_callback w testbed_id; done_with True }
      else do {
        loaded \<leftarrow> act (wd_workloads w) LoadWorkloads;
        case loaded of
          Inl e \<Rightarrow> do { _ \<leftarrow> log_callback w testbed_id; done_with False }
        | Inr as \<Rightarrow> (case workloads_validate as of
            Inl e \<Rightarrow> do { _ \<leftarrow> log_callback w testbed_id; done_with False }
          | Inr _ \<Rightarrow> run_workloads w vm p language proxy token testbed_id True as)
      })"

section \<open>The matrix of an application testbed\<close>

definition proxy_supports_http3 :: "string \<Rightarrow> bool" where
  "proxy_supports_http3 proxy \<longleftrightarrow> proxy \<in> {''nginx'', ''caddy'', ''traefik'', ''iis''}"

definition effective_http_versions_for_proxy :: "string \<Rightarrow> string list \<Rightarrow> string list" where
  "effective_http_versions_for_proxy proxy modes = List.map_filter (\<lambda>m.
     if m = ''http1'' then Some ''h1'' else if m = ''http2'' then Some ''h2''
     else if m = ''http3'' \<and> proxy_supports_http3 proxy then Some ''h3'' else None) modes"

definition chrome_command :: "string \<Rightarrow> string \<Rightarrow> methodology_config \<Rightarrow> string \<Rightarrow> string" where
  "chrome_command http_version connection_mode m token =
     ''export PATH=/usr/bin:/usr/local/bin:$PATH && cd /opt/bench/chrome-harness && node runner.js --target https://localhost:8443 --warmup ''
     @ decimal (unat (mt_warmup_runs m)) @ '' --measured '' @ decimal (unat (mt_min_measured m)) @
     '' --concurrency 10 --http-version '' @ shell_quote http_version @ '' --connection-mode '' @ shell_quote connection_mode @
     '' --timeout '' @ decimal (unat (mt_timeout_secs m)) @ (if token = [] then [] else '' --token '' @ shell_quote token) @
     '' > /tmp/bench-chrome-result.json 2>/dev/null''"

fun has_key :: "string \<Rightarrow> jvalue \<Rightarrow> bool" where
  "has_key k (ObjV kvs) = (map_of kvs k \<noteq> None)"
| "has_key k _ = False"

definition run_chrome_benchmark :: "world \<Rightarrow> vm_info \<Rightarrow> string \<Rightarrow> string \<Rightarrow> string \<Rightarrow> string \<Rightarrow> methodology_config \<Rightarrow> string \<Rightarrow>
   (string + jvalue) script" where
  "run_chrome_benchmark w vm proxy language http_version connection_mode m token =
     try_bind (with_context_of (''Chrome benchmark failed for '' @ language @ '' behind '' @ proxy @ '' (http='' @ http_version @
          '', conn='' @ connection_mode @ '')'')
         (ssh_exec w (vi_ip vm) (chrome_command http_version connection_mode m token))) (\<lambda>_.
     try_bind (with_context_of (''Failed to read Chrome benchmark output from '' @ vi_ip vm)
         (ssh_exec w (vi_ip vm) ''cat /tmp/bench-chrome-result.json'')) (\<lambda>output.
       done_with (case with_context (''Failed to parse Chrome benchmark output for '' @ language @ '' behind '' @ proxy @ '': '' @
             take 200 output) (wd_json w output) of
           Inl e \<Rightarrow> Inl e
         | Inr v \<Rightarrow> (if has_key ''error'' v
             then Inl (''Chrome benchmark returned error: '' @ text_at ''unknown'' (member ''error'' v)) else Inr v))))"

definition chrome_artifact :: "string \<Rightarrow> string \<Rightarrow> jvalue \<Rightarrow> jvalue" where
  "chrome_artifact proxy http_ver v = ObjV [(''proxy'', StrV proxy), (''http_version'', StrV http_ver),
     (''connection_mode'', StrV ''warm''), (''chrome_results'', v)]"

fun run_versions :: "world \<Rightarrow> vm_info \<Rightarrow> methodology_config \<Rightarrow> string \<Rightarrow> string \<Rightarrow> string \<Rightarrow> string \<Rightarrow> bool \<Rightarrow> string list \<Rightarrow> bool script" where
  "run_versions w vm m token testbed_id proxy language lang_ok [] = done_with lang_ok"
| "run_versions w vm m token testbed_id proxy language lang_ok (v # vs) = do {
     r \<leftarrow> run_chrome_benchmark w vm proxy language v ''warm'' m token;
     ok \<leftarrow> (case r of
         Inr res \<Rightarrow> do {
           sent \<leftarrow> result_callback w testbed_id language (chrome_artifact proxy v res);
           case sent of Inr _ \<Rightarrow> done_with True | Inl e \<Rightarrow> do { _ \<leftarrow> log_callback w testbed_id; done_with False }
         }
       | Inl e \<Rightarrow> do { _ \<leftarrow> log_callback w testbed_id; done_with False });
     run_versions w vm m token testbed_id proxy language (lang_ok \<and> ok) vs
   }"

record tally =
  ty_completed :: u32
  ty_failed :: u32
  ty_index :: u32

definition count_result :: "bool \<Rightarrow> tally \<Rightarrow> tally" where
  "count_result ok t = (if ok then t\<lparr>ty_completed := ty_completed t + 1\<rparr> else t\<lparr>ty_failed := ty_failed t + 1\<rparr>)"

definition run_combination :: "world \<Rightarrow> testbed_config \<Rightarrow> methodology_config \<Rightarrow> vm_info \<Rightarrow> string \<Rightarrow> u32 \<Rightarrow> string \<Rightarrow> string \<Rightarrow> tally \<Rightarrow> tally script" where
  "run_combination w tb m vm token combos proxy language t = do {
     _ \<leftarrow> status_callback w (tb_testbed_id tb) ''running'' language (ty_index t) combos;
     _ \<leftarrow> log_callback w (tb_testbed_id tb);
     deployed \<leftarrow> deploy_app_language w vm language proxy;
     case deployed of
       Inl e \<Rightarrow> do { _ \<leftarrow> log_callback w (tb_testbed_id tb); done_with (count_result False t) }
     | Inr _ \<Rightarrow> do {
         _ \<leftarrow> log_callback w (tb_testbed_id tb);
         ok1 \<leftarrow> run_versions w vm m token (tb_testbed_id tb) proxy language True
           (effective_http_versions_for_proxy proxy (mt_modes m));
         ok2 \<leftarrow> (if APIBENCH_MODE \<in> set (mt_modes m)
                then run_apibench_suite w vm (test_params_of m) language (Some proxy) (Some token) (tb_testbed_id tb)
                else done_with True);
         _ \<leftarrow> collect_server_logs w vm language (tb_testbed_id tb);
         _ \<leftarrow> stop_app_language w vm;
         done_with (count_result (ok1 \<and> ok2) t)
       }
   }"

fun run_combinations :: "world \<Rightarrow> testbed_config \<Rightarrow> methodology_config \<Rightarrow> vm_info \<Rightarrow> string \<Rightarrow> u32 \<Rightarrow> string \<Rightarrow> string list \<Rightarrow> tally \<Rightarrow> tally script" where
  "run_combinations w tb m vm token combos proxy [] t = done_with t"
| "run_combinations w tb m vm token combos proxy (l # ls) t = do {
     cancelled \<leftarrow> read_cancel w;
     let t1 = t\<lparr>ty_index := ty_index t + 1\<rparr>
     in if cancelled then done_with t1
        else do { t2 \<leftarrow> run_combination w tb m vm token combos proxy l t1; run_combinations w tb m vm token combos proxy ls t2 }
   }"

fun run_proxies :: "world \<Rightarrow> testbed_config \<Rightarrow> methodology_config \<Rightarrow> vm_info \<Rightarrow> string \<Rightarrow> u32 \<Rightarrow> instant \<Rightarrow> string list \<Rightarrow>
   string list \<Rightarrow> tally \<Rightarrow> tally script" where
  "run_proxies w tb m vm token combos deadline languages [] t = done_with t"
| "run_proxies w tb m vm token combos deadline languages (p # ps) t = do {
     cancelled \<leftarrow> read_cancel w;
     if cancelled then done_with t
     else do {
       now \<leftarrow> read_clock w;
       if deadline < now then do { _ \<leftarrow> log_callback w (tb_testbed_id tb); done_with t }
       else do {
         _ \<leftarrow> log_callback w (tb_testbed_id tb);
         deployed \<leftarrow> deploy_proxy w vm p;
         case deployed of
           Inl e \<Rightarrow> do {
             _ \<leftarrow> log_callback w (tb_testbed_id tb);
             run_proxies w tb m vm token combos deadline languages ps
               (t\<lparr>ty_failed := ty_failed t + of_nat (length (tb_languages tb))\<rparr>)
           }
         | Inr _ \<Rightarrow> do {
             t1 \<leftarrow> run_combinations w tb m vm token combos p languages t;
             _ \<leftarrow> stop_proxy w vm;
             run_proxies w tb m vm token combos deadline languages ps t1
           }
       }
     }
   }"

record testbed_outcome =
  to_testbed_id :: string
  to_languages_completed :: u32
  to_languages_failed :: u32
  to_provisioned_vm :: bool

definition compatible_languages :: "testbed_config \<Rightarrow> string list" where
  "compatible_languages tb = filter (\<lambda>l. \<not> (l = ''csharp-net48'' \<and> tb_os tb \<noteq> ''windows'')) (tb_languages tb)"

definition testbed_status :: "u32 \<Rightarrow> u32 \<Rightarrow> bool \<Rightarrow> string" where
  "testbed_status completed failed cancelled =
     (if 0 < completed \<and> failed = 0 \<and> \<not> cancelled then ''completed''
      else if cancelled then ''cancelled'' else ''completed_with_errors'')"

definition outcome_of :: "testbed_config \<Rightarrow> tally \<Rightarrow> bool \<Rightarrow> testbed_outcome" where
  "outcome_of tb t provisioned = \<lparr>to_testbed_id = tb_testbed_id tb, to_languages_completed = ty_completed t,
     to_languages_failed = ty_failed t, to_provisioned_vm = provisioned\<rparr>"

definition no_tally :: tally where
  "no_tally = \<lparr>ty_completed = 0, ty_failed = 0, ty_index = 0\<rparr>"

definition run_application_matrix :: "world \<Rightarrow> testbed_config \<Rightarrow> dashboard_config \<Rightarrow> vm_info \<Rightarrow> bool \<Rightarrow> uuid \<Rightarrow> (string + testbed_outcome) script" where
  "run_application_matrix w tb cfg vm provisioned config_uuid =
     (let m = dc_methodology cfg; languages = compatible_languages tb;
          combos = of_nat (length (tb_proxies tb) * length languages) :: u32
      in do {
        token \<leftarrow> act (wd_token w) RandomToken;
        _ \<leftarrow> store_in_keyvault w (dc_config_id cfg) (tb_testbed_id tb) token
          (or_default ''unknown'' (dc_created_by_email cfg)) (or_default ''unknown'' (dc_project_id cfg));
        sent \<leftarrow> deploy_to_vm w (vi_ip vm) token;
        case sent of
          Inl e \<Rightarrow> do {
            _ \<leftarrow> log_callback w (tb_testbed_id tb);
            done_with (Inr (outcome_of tb (no_tally\<lparr>ty_failed := combos\<rparr>) provisioned))
          }
        | Inr _ \<Rightarrow> do {
            _ \<leftarrow> log_callback w (tb_testbed_id tb);
            start \<leftarrow> read_clock w;
            _ \<leftarrow> write_phase w config_uuid ''running'';
            t \<leftarrow> run_proxies w tb m vm token combos
              (start + from_secs (unat (ucast (mt_timeout_secs m) * ucast (max combos 1) :: u64))) languages (tb_proxies tb) no_tally;
            _ \<leftarrow> (if ty_completed t = 0 \<and> ty_failed t = 0 then log_callback w (tb_testbed_id tb) else done_with ());
            _ \<leftarrow> write_phase w config_uuid ''collect'';
            cancelled \<leftarrow> read_cancel w;
            _ \<leftarrow> status_callback w (tb_testbed_id tb) (testbed_status (ty_completed t) (ty_failed t) cancelled) [] combos combos;
            _ \<leftarrow> cleanup_vm w (vi_ip vm);
            _ \<leftarrow> cleanup_keyvault_vm w (dc_config_id cfg) (tb_testbed_id tb);
            done_with (Inr (outcome_of tb t provisioned))
          }
      })"

section \<open>A testbed in application mode\<close>

definition lookup_tester :: "world \<Rightarrow> uuid \<Rightarrow> (string + project_tester) script" where
  "lookup_tester w config_id = act (wd_tester_row w) (LookupTester config_id)"

datatype lock_result = Locked | Queued | Refused string

definition ends_with_status :: "world \<Rightarrow> uuid \<Rightarrow> string \<Rightarrow> lock_result \<Rightarrow> lock_result script" where
  "ends_with_status w config_id status r = do { _ \<leftarrow> write_terminal_status w config_id status; done_with r }"

text \<open>The argument counts the attempts that are left of twenty.\<close>

fun acquire_loop :: "world \<Rightarrow> project_tester \<Rightarrow> uuid \<Rightarrow> nat \<Rightarrow> lock_result script" where
  "acquire_loop w t config_id 0 = ends_with_status w config_id ''failed'' (Refused ''could not acquire tester after 20 attempts'')"
| "acquire_loop w t config_id (Suc n) = do {
     outcome \<leftarrow> try_acquire w (pt_tester_id t) config_id;
     case outcome of
       Inl e \<Rightarrow> ends_with_status w config_id ''failed'' (Refused e)
     | Inr Acquired \<Rightarrow> done_with Locked
     | Inr NeedsStart \<Rightarrow> do {
         started \<leftarrow> ensure_running_via_azure w t;
         case started of
           Inl e \<Rightarrow> ends_with_status w config_id ''failed'' (Refused (''failed to start tester: '' @ e))
         | Inr _ \<Rightarrow> do {
             _ \<leftarrow> try_power_transition w (pt_tester_id t) ''stopped'' ''running'';
             _ \<leftarrow> sleep (from_secs 2);
             acquire_loop w t config_id n
           }
       }
     | Inr (Transient s) \<Rightarrow> ends_with_status w config_id ''queued'' Queued
     | Inr Upgrading \<Rightarrow> ends_with_status w config_id ''queued'' Queued
     | Inr (AlreadyLockedBy c) \<Rightarrow> ends_with_status w config_id ''queued'' Queued
     | Inr Errored \<Rightarrow> ends_with_status w config_id ''failed'' (Refused ''tester is in error state - cannot run benchmark'')
     | Inr Gone \<Rightarrow> ends_with_status w config_id ''failed'' (Refused ''tester deleted during acquire'')
     | Inr (NotIdle s) \<Rightarrow> ends_with_status w config_id ''queued'' Queued
   }"

definition max_attempts :: nat where "max_attempts = 20"

text \<open>A panic ends the computation after some of its actions; the actions taken stay taken.\<close>

definition catch_unwind :: "world \<Rightarrow> 'a script \<Rightarrow> (string + 'a) script" where
  "catch_unwind w m = State (\<lambda>past.
     (let (x, past') = run_state m past
      in case wd_panics w past of
           None \<Rightarrow> (Inr x, past')
         | Some (k, payload) \<Rightarrow> (Inl payload, take (length past + k) past')))"

definition final_status :: "testbed_outcome \<Rightarrow> string" where
  "final_status o1 =
     (if 0 < to_languages_completed o1 \<and> to_languages_failed o1 = 0 then ''completed''
      else if to_languages_completed o1 = 0 \<and> to_languages_failed o1 = 0 then ''completed''
      else if to_languages_completed o1 = 0 then ''failed'' else ''completed_with_errors'')"

definition conclude :: "world \<Rightarrow> uuid \<Rightarrow> string \<Rightarrow> string + testbed_outcome \<Rightarrow> (string + testbed_outcome) script" where
  "conclude w config_id status r = do {
     _ \<leftarrow> write_terminal_status w config_id status;
     _ \<leftarrow> write_phase w config_id ''done'';
     done_with r
   }"

definition run_locked :: "world \<Rightarrow> testbed_config \<Rightarrow> dashboard_config \<Rightarrow> vm_info \<Rightarrow> bool \<Rightarrow> uuid \<Rightarrow> uuid \<Rightarrow> (string + testbed_outcome) script" where
  "run_locked w tb cfg vm provisioned config_id tester_id = do {
     _ \<leftarrow> write_phase w config_id ''deploy'';
     r \<leftarrow> catch_unwind w (run_application_matrix w tb cfg vm provisioned config_id);
     _ \<leftarrow> release_now w tester_id config_id;
     _ \<leftarrow> notify_queue_dispatcher tester_id;
     case r of
       Inr (Inr o1) \<Rightarrow> conclude w config_id (final_status o1) (Inr o1)
     | Inr (Inl e) \<Rightarrow> conclude w config_id ''failed'' (Inl e)
     | Inl payload \<Rightarrow> conclude w config_id ''failed'' (Inl (''application matrix panicked: '' @ payload))
   }"

definition execute_testbed_application :: "world \<Rightarrow> testbed_config \<Rightarrow> dashboard_config \<Rightarrow> vm_info \<Rightarrow> bool \<Rightarrow> (string + testbed_outcome) script" where
  "execute_testbed_application w tb cfg vm provisioned = (case wd_uuid w (dc_config_id cfg) of
     None \<Rightarrow> done_with (Inl ''config_id is not a valid UUID'')
   | Some config_id \<Rightarrow>
       try_bind (connect_orchestrator_db w) (\<lambda>_.
       try_bind (lookup_tester w config_id) (\<lambda>t. do {
         _ \<leftarrow> write_phase w config_id ''starting'';
         r \<leftarrow> acquire_loop w t config_id max_attempts;
         case r of
           Refused e \<Rightarrow> done_with (Inl e)
         | Queued \<Rightarrow> done_with (Inr (outcome_of tb no_tally provisioned))
         | Locked \<Rightarrow> run_locked w tb cfg vm provisioned config_id (pt_tester_id t)
       })))"

section \<open>A testbed\<close>

definition tester_modes :: "methodology_config \<Rightarrow> string" where
  "tester_modes m = join_with '','' (filter (\<lambda>x. x \<noteq> APIBENCH_MODE) (mt_modes m))"

definition deploy_language :: "world \<Rightarrow> testbed_config \<Rightarrow> vm_info \<Rightarrow> (vm_info \<Rightarrow> string \<Rightarrow> (string + unit) script) \<Rightarrow> string \<Rightarrow> (string + unit) script" where
  "deploy_language w tb vm deploy_local language = do {
     _ \<leftarrow> log_callback w (tb_testbed_id tb);
     if tb_existing_vm_ip tb \<noteq> None then start_existing_server w vm language else deploy_api w deploy_local vm language
   }"

definition run_modes :: "world \<Rightarrow> testbed_config \<Rightarrow> dashboard_config \<Rightarrow> vm_info \<Rightarrow> string \<Rightarrow> bool script" where
  "run_modes w tb cfg vm language =
     (let m = dc_methodology cfg
      in if tester_modes m = [] then done_with True
         else do {
           _ \<leftarrow> log_callback w (tb_testbed_id tb);
           r \<leftarrow> run_language_benchmark w vm (test_params_of m) language (tester_modes m) (dc_callback_url cfg)
             (dc_callback_token cfg) (dc_config_id cfg) (tb_testbed_id tb);
           case r of
             Inr artifact \<Rightarrow> do {
               _ \<leftarrow> log_callback w (tb_testbed_id tb);
               sent \<leftarrow> result_callback w (tb_testbed_id tb) language artifact;
               case sent of Inr _ \<Rightarrow> done_with True
               | Inl e \<Rightarrow> do { _ \<leftarrow> log_callback w (tb_testbed_id tb); done_with False }
             }
           | Inl e \<Rightarrow> do { _ \<leftarrow> log_callback w (tb_testbed_id tb); done_with False }
         })"

text \<open>What ends the loop before a language: the flag, or the dashboard's word.\<close>

definition stop_requested :: "world \<Rightarrow> string \<Rightarrow> bool script" where
  "stop_requested w testbed_id = do {
     cancelled \<leftarrow> read_cancel w;
     if cancelled then do { _ \<leftarrow> log_callback w testbed_id; done_with True }
     else do {
       r \<leftarrow> act (wd_cancelled w) CbCheckCancelled;
       done_with (r = Inr True)
     }
   }"

fun run_languages :: "world \<Rightarrow> testbed_config \<Rightarrow> dashboard_config \<Rightarrow> vm_info \<Rightarrow> (vm_info \<Rightarrow> string \<Rightarrow> (string + unit) script) \<Rightarrow> string list \<Rightarrow> tally \<Rightarrow> tally script" where
  "run_languages w tb cfg vm deploy_local [] t = done_with t"
| "run_languages w tb cfg vm deploy_local (l # ls) t = do {
     stop \<leftarrow> stop_requested w (tb_testbed_id tb);
     if stop then done_with t
     else do {
       _ \<leftarrow> status_callback w (tb_testbed_id tb) ''running'' l (ty_index t + 1) (of_nat (length (tb_languages tb)));
       deployed \<leftarrow> deploy_language w tb vm deploy_local l;
       case deployed of
         Inl e \<Rightarrow> do {
           _ \<leftarrow> log_callback w (tb_testbed_id tb);
           run_languages w tb cfg vm deploy_local ls ((count_result False t)\<lparr>ty_index := ty_index t + 1\<rparr>)
         }
       | Inr _ \<Rightarrow> do {
           _ \<leftarrow> log_callback w (tb_testbed_id tb);
           ok1 \<leftarrow> run_modes w tb cfg vm l;
           ok2 \<leftarrow> (if APIBENCH_MODE \<in> set (mt_modes (dc_methodology cfg))
                  then run_apibench_suite w vm (test_params_of (dc_methodology cfg)) l None None (tb_testbed_id tb)
                  else done_with True);
           _ \<leftarrow> (if tb_existing_vm_ip tb \<noteq> None then stop_existing_server w vm else do { _ \<leftarrow> stop_api w vm; done_with () });
           run_languages w tb cfg vm deploy_local ls ((count_result (ok1 \<and> ok2) t)\<lparr>ty_index := ty_index t + 1\<rparr>)
         }
     }
   }"

definition await_new_vm :: "world \<Rightarrow> testbed_config \<Rightarrow> vm_info \<Rightarrow> (string + unit) script" where
  "await_new_vm w tb vm = do {
     _ \<leftarrow> log_callback w (tb_testbed_id tb);
     ready \<leftarrow> await_ssh w (vi_ip vm) 30;
     done_with (if ready then Inr () else Inl (''SSH not available on '' @ vi_ip vm @ '' after 5 minutes''))
   }"

definition run_fullstack :: "world \<Rightarrow> testbed_config \<Rightarrow> dashboard_config \<Rightarrow> vm_info \<Rightarrow> bool \<Rightarrow>
   (vm_info \<Rightarrow> string \<Rightarrow> (string + unit) script) \<Rightarrow> (string + testbed_outcome) script" where
  "run_fullstack w tb cfg vm provisioned deploy_local = do {
     t \<leftarrow> run_languages w tb cfg vm deploy_local (tb_languages tb) no_tally;
     cancelled \<leftarrow> read_cancel w;
     _ \<leftarrow> status_callback w (tb_testbed_id tb) (testbed_status (ty_completed t) (ty_failed t) cancelled) []
       (of_nat (length (tb_languages tb))) (of_nat (length (tb_languages tb)));
     done_with (Inr (outcome_of tb t provisioned))
   }"

definition execute_testbed :: "world \<Rightarrow> (vm_info \<Rightarrow> string \<Rightarrow> (string + unit) script) \<Rightarrow>
   testbed_config \<Rightarrow> dashboard_config \<Rightarrow> (string + testbed_outcome) script" where
  "execute_testbed w deploy_local tb cfg = do {
     _ \<leftarrow> status_callback w (tb_testbed_id tb) ''provisioning'' [] 0 (of_nat (length (tb_languages tb)));
     try_bind (with_context_of (''resolving VM for testbed '' @ tb_testbed_id tb) (resolve_vm w tb)) (\<lambda>(vm, provisioned).
     try_bind (if provisioned then await_new_vm w tb vm else done_with (Inr ())) (\<lambda>_. do {
       _ \<leftarrow> log_callback w (tb_testbed_id tb);
       if dc_benchmark_type cfg = ''application''
       then execute_testbed_application w tb cfg vm provisioned
       else run_fullstack w tb cfg vm provisioned deploy_local
     }))
   }"

section \<open>The sweep\<close>

fun run_testbeds :: "world \<Rightarrow> (vm_info \<Rightarrow> string \<Rightarrow> (string + unit) script) \<Rightarrow> dashboard_config \<Rightarrow>
   testbed_config list \<Rightarrow> bool \<Rightarrow> bool script" where
  "run_testbeds w deploy_local cfg [] any_failure = done_with any_failure"
| "run_testbeds w deploy_local cfg (tb # tbs) any_failure = do {
     cancelled \<leftarrow> read_cancel w;
     if cancelled then do { _ \<leftarrow> log_callback w (tb_testbed_id tb); done_with any_failure }
     else do {
       r \<leftarrow> execute_testbed w deploy_local tb cfg;
       case r of
         Inr o1 \<Rightarrow> do {
           _ \<leftarrow> (if dc_auto_teardown cfg \<and> to_provisioned_vm o1 then teardown_testbed w tb else done_with ());
           run_testbeds w deploy_local cfg tbs (any_failure \<or> 0 < to_languages_failed o1)
         }
       | Inl e \<Rightarrow> do {
           _ \<leftarrow> log_callback w (tb_testbed_id tb);
           run_testbeds w deploy_local cfg tbs True
         }
     }
   }"

definition sweep_status :: "bool \<Rightarrow> bool \<Rightarrow> string" where
  "sweep_status cancelled any_failure =
     (if cancelled then ''cancelled'' else if any_failure then ''completed_with_errors'' else ''completed'')"

definition execute_dashboard_benchmark :: "world \<Rightarrow> (vm_info \<Rightarrow> string \<Rightarrow> (string + unit) script) \<Rightarrow>
   dashboard_config \<Rightarrow> unit script" where
  "execute_dashboard_benchmark w deploy_local cfg = do {
     any_failure \<leftarrow> run_testbeds w deploy_local cfg (dc_testbeds cfg) False;
     cancelled \<leftarrow> read_cancel w;
     _ \<leftarrow> act (wd_callback w) (CbComplete (sweep_status cancelled any_failure)
       (if any_failure then Some ''One or more testbeds had errors'' else None));
     done_with ()
   }"

end
