(* ===== verification/Orch_Properties.thy ===== *)
theory Orch_Properties
  imports Orch_Cycle Endpoint_Properties
begin

text \<open>
  The orchestrator: what a sweep leaves behind in every course of events. The lock of a tester, the
  machines, the status it reports, what reaches a shell, and the order of a suite.
\<close>

section \<open>The lock of a tester\<close>

text \<open>Which actions of a run granted the lock, gave it back, asked for it, or wrote a status.\<close>

fun is_attempt :: "action \<Rightarrow> bool" where
  "is_attempt (AcquireUpdate t c) = True"
| "is_attempt _ = False"

fun is_release :: "action \<Rightarrow> bool" where
  "is_release (ReleaseLock t c) = True"
| "is_release _ = False"

fun status_of_action :: "action \<Rightarrow> string option" where
  "status_of_action (SetStatus c s) = Some s"
| "status_of_action _ = None"

fun grants :: "world \<Rightarrow> action list \<Rightarrow> action list \<Rightarrow> nat" where
  "grants w past [] = 0"
| "grants w past (a # as) =
     (if is_attempt a \<and> wd_updated w (past @ [a]) = Inr True then 1 else 0) + grants w (past @ [a]) as"

definition attempts :: "action list \<Rightarrow> nat" where
  "attempts as = length (filter is_attempt as)"

definition releases :: "action list \<Rightarrow> nat" where
  "releases as = length (filter is_release as)"

definition statuses :: "action list \<Rightarrow> string list" where
  "statuses as = List.map_filter status_of_action as"

definition quiet :: "action \<Rightarrow> bool" where
  "quiet a \<longleftrightarrow> \<not> is_attempt a \<and> \<not> is_release a \<and> status_of_action a = None"

lemma grants_append: "grants w past (as @ bs) = grants w past as + grants w (past @ as) bs"
  by (induction as arbitrary: past) simp_all

lemma tally_counts_append [simp]:
  "attempts (as @ bs) = attempts as + attempts bs" "releases (as @ bs) = releases as + releases bs"
  "statuses (as @ bs) = statuses as @ statuses bs"
  by (simp_all add: attempts_def releases_def statuses_def List.map_filter_def)

lemma counts_Cons [simp]:
  "attempts (a # as) = (if is_attempt a then 1 else 0) + attempts as"
  "releases (a # as) = (if is_release a then 1 else 0) + releases as"
  "statuses (a # as) = (case status_of_action a of Some s \<Rightarrow> [s] | None \<Rightarrow> []) @ statuses as"
  by (simp_all add: attempts_def releases_def statuses_def List.map_filter_def split: option.splits)

lemma counts_Nil [simp]: "attempts [] = 0" "releases [] = 0" "statuses [] = []"
  by (simp_all add: attempts_def releases_def statuses_def List.map_filter_def)

lemma quiet_counts:
  assumes "list_all quiet as"
  shows "attempts as = 0" "releases as = 0" "statuses as = []" "grants w past as = 0"
proof -
  show "attempts as = 0" "releases as = 0" using assms by (auto simp: attempts_def releases_def list_all_iff quiet_def filter_empty_conv)
  show "statuses as = []" using assms by (induction as) (auto simp: quiet_def)
  show "grants w past as = 0" using assms by (induction as arbitrary: past) (auto simp: quiet_def)
qed

lemma runs_try:
  assumes "runs past m Q" "\<And>e as. Q (Inl e) as \<Longrightarrow> R (Inl e) as"
    and "\<And>x as. Q (Inr x) as \<Longrightarrow> runs (past @ as) (f x) (\<lambda>y bs. R y (as @ bs))"
  shows "runs past (try_bind m f) R"
  unfolding try_bind_def
proof (rule runs_bind [OF assms(1)])
  fix x as assume "Q x as"
  then show "runs (past @ as) (case x of Inl e \<Rightarrow> done_with (Inl e) | Inr x \<Rightarrow> f x) (\<lambda>y bs. R y (as @ bs))"
    using assms(2,3) by (cases x) (auto intro: runs_done)
qed

lemmas command_defs = az_cmd_def aws_cmd_def gcloud_cmd_def cli_cmd_def ssh_exec_def scp_to_def sleep_def log_callback_def
  ssh_ignored_def file_exists_def env_var_def status_callback_def result_callback_def read_cancel_def read_clock_def
  write_phase_def

lemma quiet_await_ssh [scripts]: "only quiet (await_ssh w ip n)"
  by (induction n) (auto intro!: scripts simp: command_defs quiet_def)

lemma quiet_ensure_running [scripts]: "only quiet (ensure_running_via_azure w t)"
  unfolding ensure_running_via_azure_def load_cloud_provider_def legacy_fallback_def provider_start_def command_defs
  by (intro scripts) (simp_all add: quiet_def)

lemma quiet_phase [scripts]: "only quiet (write_phase w c p)"
  unfolding write_phase_def by (intro scripts) (simp add: quiet_def)

lemma quiet_connect [scripts]: "only quiet (connect_orchestrator_db w)"
  unfolding connect_orchestrator_db_def command_defs by (intro scripts) (simp_all add: quiet_def)

lemma quiet_lookup [scripts]: "only quiet (lookup_tester w c)"
  unfolding lookup_tester_def by (intro scripts) (simp add: quiet_def)

lemma quiet_workloads [scripts]: "only quiet (run_workloads w vm p language proxy token testbed_id ok as)"
proof (induction as arbitrary: ok)
  case Nil show ?case by (auto intro!: scripts)
next
  case (Cons a as)
  show ?case unfolding run_workloads.simps run_apibench_workload_def command_defs
    by (intro scripts Cons) (simp_all add: quiet_def)
qed

lemma quiet_suite [scripts]: "only quiet (run_apibench_suite w vm p language proxy token testbed_id)"
  unfolding run_apibench_suite_def log_callback_def by (intro scripts) (simp_all add: quiet_def)

lemma quiet_chrome [scripts]: "only quiet (run_chrome_benchmark w vm p l v c m t)"
  unfolding run_chrome_benchmark_def ssh_exec_def by (intro scripts) (simp_all add: quiet_def)

lemma quiet_versions [scripts]: "only quiet (run_versions w vm m token testbed_id proxy language ok vs)"
proof (induction vs arbitrary: ok)
  case Nil show ?case by (auto intro!: scripts)
next
  case (Cons v vs)
  show ?case unfolding run_versions.simps command_defs by (intro scripts Cons) (simp_all add: quiet_def)
qed

lemma quiet_combination [scripts]: "only quiet (run_combination w tb m vm token n proxy l t)"
  unfolding run_combination_def deploy_app_language_def collect_server_logs_def stop_app_language_def command_defs
  by (intro scripts) (simp_all add: quiet_def)

lemma quiet_combinations [scripts]: "only quiet (run_combinations w tb m vm token n proxy ls t)"
proof (induction ls arbitrary: t)
  case Nil show ?case by (auto intro!: scripts)
next
  case (Cons l ls)
  show ?case unfolding run_combinations.simps read_cancel_def by (intro scripts Cons) (simp_all add: quiet_def)
qed

lemma quiet_proxies [scripts]: "only quiet (run_proxies w tb m vm token n deadline languages ps t)"
proof (induction ps arbitrary: t)
  case Nil show ?case by (auto intro!: scripts)
next
  case (Cons p ps)
  show ?case unfolding run_proxies.simps deploy_proxy_def stop_proxy_def command_defs
    by (intro scripts Cons) (simp_all add: quiet_def)
qed

lemma quiet_matrix: "only quiet (run_application_matrix w tb cfg vm prov c)"
  unfolding run_application_matrix_def store_in_keyvault_def cleanup_keyvault_vm_def keyvault_name_def deploy_to_vm_def
    cleanup_vm_def command_defs
  by (intro scripts) (simp_all add: quiet_def)

lemma quiet_catch: assumes "only quiet m" shows "only quiet (catch_unwind w m)"
  unfolding only_def
proof
  fix past
  obtain as where as: "snd (run_state m past) = past @ as" "list_all quiet as"
    using assms by (auto simp: only_def runs_def)
  have "list_all quiet (take k as)" for k using as(2) by (auto simp: list_all_iff dest: in_set_takeD)
  then show "runs past (catch_unwind w m) (\<lambda>_ as. list_all quiet as)"
    using as by (auto simp: runs_def catch_unwind_def Let_def split: prod.splits option.splits)
qed

lemma runs_quiet:
  "only quiet m \<Longrightarrow> runs past m (\<lambda>x as. attempts as = 0 \<and> releases as = 0 \<and> statuses as = [] \<and> grants w past as = 0)"
  by (rule runs_mono [OF onlyD]) (auto simp: quiet_counts)

text \<open>What the loop leaves: the lock exactly when it says so, and otherwise one status.\<close>

definition lock_left :: "world \<Rightarrow> action list \<Rightarrow> nat \<Rightarrow> lock_result \<Rightarrow> action list \<Rightarrow> bool" where
  "lock_left w past n r as \<longleftrightarrow> attempts as \<le> n \<and> (n = 0 \<or> attempts as \<noteq> 0) \<and> releases as = 0 \<and> grants w past as = (if r = Locked then 1 else 0) \<and>
     statuses as = (case r of Locked \<Rightarrow> [] | Queued \<Rightarrow> [''queued''] | Refused e \<Rightarrow> [''failed''])"

lemma ends_with_status_left:
  "r \<noteq> Locked \<Longrightarrow> status = (case r of Queued \<Rightarrow> ''queued'' | _ \<Rightarrow> ''failed'') \<Longrightarrow>
   runs past (ends_with_status w c status r) (lock_left w past 0)"
  unfolding ends_with_status_def write_terminal_status_def
  by (cases r) (simp_all add: runs_def lock_left_def)

lemma acquire_loop_left: "runs past (acquire_loop w t c n) (lock_left w past n)"
proof (induction n arbitrary: past)
  case 0 show ?case by (simp add: ends_with_status_left)
next
  case (Suc n)
  have left: "runs (past @ as) (ends_with_status w c status r) (\<lambda>y bs. lock_left w past (Suc n) y (as @ bs))"
    if "r \<noteq> Locked" "status = (case r of Queued \<Rightarrow> ''queued'' | _ \<Rightarrow> ''failed'')"
      "attempts as = 1" "releases as = 0" "grants w past as = 0" "statuses as = []" for status r as
    by (rule runs_mono [OF ends_with_status_left [OF that(1,2), of "past @ as" w c]])
      (use that(3-) in \<open>auto simp: lock_left_def grants_append\<close>)
  have acq: "runs past (try_acquire w (pt_tester_id t) c) (\<lambda>x as. attempts as = 1 \<and> releases as = 0 \<and> statuses as = [] \<and>
      grants w past as = (if x = Inr Acquired then 1 else 0))"
  proof -
    have "classify r \<noteq> Acquired" for r by (simp add: classify_def split: option.splits)
    then show ?thesis unfolding try_acquire_def try_bind_def by (auto simp: runs_def split: sum.splits)
  qed
  show ?case unfolding acquire_loop.simps
  proof (rule runs_bind [OF acq], goal_cases)
    case (1 x as)
    show ?case
    proof (cases "x = Inr NeedsStart")
      case True
      have again: "runs (past @ as @ bs) (do { _ \<leftarrow> try_power_transition w (pt_tester_id t) ''stopped'' ''running'';
             _ \<leftarrow> sleep (from_secs 2); acquire_loop w t c n }) (\<lambda>y cs. lock_left w past (Suc n) y (as @ bs @ cs))"
        if "attempts bs = 0" "releases bs = 0" "statuses bs = []" "grants w (past @ as) bs = 0" for bs
        unfolding try_power_transition_def sleep_def
        by (intro runs_act_bind runs_mono [OF Suc]) (use 1 True that in \<open>auto simp: lock_left_def grants_append\<close>)
      show ?thesis unfolding True sum.case acquire_outcome.case
      proof (rule runs_bind [OF runs_quiet [OF quiet_ensure_running, where w = w]], goal_cases)
        case (1 y bs)
        show ?case
        proof (cases y)
          case (Inl e)
          have "grants w past (as @ bs) = 0" using 1 \<open>_ \<and> _ \<and> _ \<and> grants w past as = _\<close> True by (simp add: grants_append)
          then show ?thesis using left [of "Refused (''failed to start tester: '' @ e)" "''failed''" "as @ bs"] Inl 1
            \<open>attempts as = 1 \<and> _\<close> by simp
        next
          case (Inr u)
          then show ?thesis using again [of bs] 1 by simp
        qed
      qed
    next
      case False
      then show ?thesis
      proof (cases "x = Inr Acquired")
        case True
        then show ?thesis using 1 by (simp add: runs_def lock_left_def)
      next
        case acquired: False
        then show ?thesis using 1 False by (auto intro!: left split: sum.splits acquire_outcome.splits)
      qed
    qed
  qed
qed

lemma run_locked_left:
  "runs past (run_locked w tb cfg vm prov c t) (\<lambda>r as. attempts as = 0 \<and> grants w past as = 0 \<and> (\<exists>bs s.
     as = bs @ [ReleaseLock t c, Notify t, SetStatus c s, SetPhase c ''done''] \<and> releases bs = 0 \<and> statuses bs = []))"
proof -
  let ?m = "run_application_matrix w tb cfg vm prov c"
  have fin: "runs past (conclude w c s r) (\<lambda>x as. as = [SetStatus c s, SetPhase c ''done''])" for past s r
    by (simp add: runs_def conclude_def write_terminal_status_def write_phase_def)
  let ?fin = "\<lambda>x. case x of Inr (Inr o1) \<Rightarrow> conclude w c (final_status o1) (Inr o1) | Inr (Inl e) \<Rightarrow> conclude w c ''failed'' (Inl e)
     | Inl payload \<Rightarrow> conclude w c ''failed'' (Inl (''application matrix panicked: '' @ payload))"
  have tail: "runs past (do { _ \<leftarrow> release_now w t c; _ \<leftarrow> notify_queue_dispatcher t; ?fin x })
      (\<lambda>y as. \<exists>s. as = [ReleaseLock t c, Notify t, SetStatus c s, SetPhase c ''done''])" for past x
  proof -
    have "\<exists>s r. ?fin x = conclude w c s r" by (auto split: sum.splits)
    then obtain s r where "?fin x = conclude w c s r" by blast
    then show ?thesis using fin [of "past @ [ReleaseLock t c, Notify t]" s r]
      by (auto simp: runs_def release_now_def release_lock_def notify_queue_dispatcher_def)
  qed
  show ?thesis unfolding run_locked_def
  proof (rule runs_bind [OF runs_quiet [OF quiet_phase, where w = w]], rule runs_bind [OF runs_quiet [OF quiet_catch [OF quiet_matrix], where w = w]], goal_cases)
    case (1 x as y bs)
    show ?case
    proof (rule runs_mono [OF tail], goal_cases)
      case (1 z cs)
      then obtain s where "cs = [ReleaseLock t c, Notify t, SetStatus c s, SetPhase c ''done'']" by blast
      then show ?case using \<open>attempts as = 0 \<and> _\<close> \<open>attempts bs = 0 \<and> _\<close>
        by (auto simp: grants_append intro!: exI [of _ "as @ bs"])
    qed
  qed
qed

definition lock_returned :: "world \<Rightarrow> action list \<Rightarrow> action list \<Rightarrow> bool" where
  "lock_returned w past as \<longleftrightarrow> attempts as \<le> 20 \<and> grants w past as \<le> 1 \<and> releases as = grants w past as \<and>
     length (statuses as) = (if attempts as = 0 then 0 else 1) \<and>
     (grants w past as = 0 \<or> (\<exists>bs t c s. as = bs @ [ReleaseLock t c, Notify t, SetStatus c s, SetPhase c ''done''] \<and>
        grants w past bs = 1 \<and> releases bs = 0 \<and> statuses bs = []))"

lemma acquired_then:
  "runs past (do { r \<leftarrow> acquire_loop w t c max_attempts;
        case r of Refused e \<Rightarrow> done_with (Inl e) | Queued \<Rightarrow> done_with (Inr (outcome_of tb no_tally prov))
        | Locked \<Rightarrow> run_locked w tb cfg vm prov c (pt_tester_id t) }) (\<lambda>y as. lock_returned w past as)"
proof (rule runs_bind [OF acquire_loop_left], goal_cases)
  case (1 r as)
  note left = 1 [unfolded lock_left_def max_attempts_def]
  show ?case
  proof (cases r)
    case Locked
    show ?thesis unfolding Locked lock_result.case
    proof (rule runs_mono [OF run_locked_left], goal_cases)
      case (1 y bs)
      then obtain ds s where ds: "bs = ds @ [ReleaseLock (pt_tester_id t) c, Notify (pt_tester_id t), SetStatus c s, SetPhase c ''done'']"
        "releases ds = 0" "statuses ds = []" by blast
      have none: "attempts ds = 0" "grants w (past @ as) ds = 0" using 1 ds(1) by (simp_all add: grants_append)
      then have "as @ bs = (as @ ds) @ [ReleaseLock (pt_tester_id t) c, Notify (pt_tester_id t), SetStatus c s, SetPhase c ''done''] \<and>
          grants w past (as @ ds) = 1 \<and> releases (as @ ds) = 0 \<and> statuses (as @ ds) = []"
        using left ds Locked by (simp add: grants_append)
      moreover have "attempts bs = 0" "grants w (past @ as) bs = 0" using 1 by simp_all
      ultimately show ?case using left ds Locked unfolding lock_returned_def
        by (intro conjI disjI2 exI [of _ "as @ ds"] exI [of _ "pt_tester_id t"] exI [of _ c] exI [of _ s])
          (auto simp: grants_append)
    qed
  qed (use left in \<open>auto simp: lock_returned_def intro: runs_done\<close>)
qed


section \<open>A tester that is busy\<close>

text \<open>C9: A sweep of one application testbed whose tester another configuration holds is put into the queue
  in the database, and at once reported to the dashboard as completed without an error.\<close>

theorem queued_sweep_completes:
  assumes "dc_testbeds cfg = [tb]" "dc_benchmark_type cfg = ''application''" "tb_existing_vm_ip tb = Some ip"
    and "validate_ip ip (to_ascii_lowercase (tb_cloud tb) \<in> {''azure'', ''aws'', ''gcp''}) = Some (Inr ())"
    and "wd_uuid w (dc_config_id cfg) = Some c" "\<forall>p. \<not> wd_flag w p" "\<forall>p. wd_env w p = Some url"
    and "\<forall>p. wd_write w p = Inr ()" "\<forall>p. wd_tester_row w p = Inr t" "\<forall>p. wd_updated w p = Inr False"
    and "\<forall>p. wd_row w p = Inr (Some (''running'', ''locked'', Some other))"
  shows "\<exists>as. snd (run_state (execute_dashboard_benchmark w deploy_local cfg) past) = past @ as @ [CbComplete ''completed'' None] \<and>
     SetStatus c ''queued'' \<in> set as \<and> grants w past as = 0"
proof -
  have "snd (run_state (execute_dashboard_benchmark w deploy_local cfg) past) = past @
      [ReadCancel, CbStatus (tb_testbed_id tb) ''provisioning'' [] 0 (of_nat (length (tb_languages tb))), CbLog (tb_testbed_id tb),
       EnvVar ''ORCHESTRATOR_DB_URL'', ConnectDb, LookupTester c, SetPhase c ''starting'', AcquireUpdate (pt_tester_id t) c,
       AcquireSelect (pt_tester_id t), SetStatus c ''queued'', ReadCancel] @ [CbComplete ''completed'' None]"
    using assms
    by (simp add: execute_dashboard_benchmark_def execute_testbed_def execute_testbed_application_def resolve_vm_def
      connect_orchestrator_db_def lookup_tester_def max_attempts_def numeral_eq_Suc try_acquire_def classify_def
      ends_with_status_def write_terminal_status_def command_defs try_bind_def with_context_of_def with_context_def
      sweep_status_def outcome_of_def no_tally_def del: of_nat_Suc)
  then show ?thesis using assms by (intro exI conjI) (assumption | simp)+
qed

section \<open>Machines\<close>

lemma listed_found_azure: "fst (run_state (find_existing_vm w n) past) = Inr (Some vm) \<Longrightarrow> vi_cloud vm = ''azure''"
  by (auto simp: find_existing_vm_def find_existing_vm_azure_def az_cmd_def cli_cmd_def split: sum.splits)

definition of_other_cloud :: "action \<Rightarrow> bool" where
  "of_other_cloud a \<longleftrightarrow> (\<exists>args. a = Cli ''aws'' args \<or> a = Cli ''gcloud'' args)"

lemma teardown_azure_only: "only (\<lambda>a. \<not> of_other_cloud a) (teardown_testbed w tb)"
proof -
  have d: "only (\<lambda>a. \<not> of_other_cloud a) (destroy_vm w vm)" if "vi_cloud vm = ''azure''" for vm
    unfolding destroy_vm_def vm_command_def that command_defs by (intro scripts) (simp_all add: of_other_cloud_def that)
  have f: "runs past (find_existing_vm w n) (\<lambda>r as. list_all (\<lambda>a. \<not> of_other_cloud a) as \<and>
      (\<forall>vm. r = Inr (Some vm) \<longrightarrow> vi_cloud vm = ''azure''))" for past n
    using listed_found_azure [of w n past]
    by (simp add: runs_def find_existing_vm_def find_existing_vm_azure_def command_defs of_other_cloud_def)
  have l: "only (\<lambda>a. \<not> of_other_cloud a) (log_callback w i)" for i
    unfolding log_callback_def by (intro scripts) (simp_all add: of_other_cloud_def)
  have rest: "only (\<lambda>a. \<not> of_other_cloud a) (case r of Inr (Some vm) \<Rightarrow> do { _ \<leftarrow> destroy_vm w vm; log_callback w i }
      | Inr None \<Rightarrow> done_with () | Inl e \<Rightarrow> done_with ())" if "\<forall>vm. r = Inr (Some vm) \<longrightarrow> vi_cloud vm = ''azure''" for r i
    using that by (auto intro!: scripts d l split: sum.splits option.splits)
  show ?thesis unfolding teardown_testbed_def
  proof (rule only_bind [OF l], unfold only_def, rule allI, rule runs_bind [OF f], goal_cases)
    case (1 x past r as)
    then show ?case by (intro runs_mono [OF onlyD [OF rest]]) auto
  qed
qed

lemma map_sum_Inr: "map_sum f g x = Inr y \<longleftrightarrow> (\<exists>z. x = Inr z \<and> y = g z)"
  by (cases x) auto

lemma provisioned_cloud:
  assumes "fst (run_state (resolve_vm w tb) past) = Inr (vm, True)"
  shows "vi_cloud vm = to_ascii_lowercase (tb_cloud tb)"
proof -
  have p: "vi_cloud v = to_ascii_lowercase (tb_cloud tb)"
    if "fst (run_state (provision_for w tb) q) = Inr (v, True)" for q v
    using that
    by (auto simp: provision_for_def provision_vm_def provision_azure_def provision_aws_def provision_gcp_def
      try_bind_def Let_def map_sum_Inr split: sum.splits if_splits)
  show ?thesis using assms p by (auto simp: resolve_vm_def split: option.splits sum.splits if_splits)
qed

text \<open>C10: The teardown of a testbed never reaches a machine of Amazon's or Google's cloud. Whenever such a
  testbed made a machine of its own, destroying that machine takes exactly one command of that cloud, and
  the teardown, whatever it finds, issues none.\<close>

theorem teardown_misses:
  assumes "to_ascii_lowercase (tb_cloud tb) \<in> {''aws'', ''gcp''}" "fst (run_state (resolve_vm w tb) past) = Inr (vm, True)"
  shows "(\<exists>a. of_other_cloud a \<and> (\<forall>later. snd (run_state (destroy_vm w vm) later) = later @ [a])) \<and>
     (\<exists>as. snd (run_state (teardown_testbed w tb) later) = later @ as \<and> (\<forall>a \<in> set as. \<not> of_other_cloud a))"
proof
  show "\<exists>a. of_other_cloud a \<and> (\<forall>later. snd (run_state (destroy_vm w vm) later) = later @ [a])"
    using assms(1) provisioned_cloud [OF assms(2)]
    by (auto simp: destroy_vm_def vm_command_def command_defs of_other_cloud_def)
  show "\<exists>as. snd (run_state (teardown_testbed w tb) later) = later @ as \<and> (\<forall>a \<in> set as. \<not> of_other_cloud a)"
    using teardown_azure_only [of w tb] by (auto simp: only_def runs_def list_all_iff)
qed

lemma lower_owned: "starts_with OWNED_PREFIX (to_ascii_lowercase (vm_name_of tb))"
  by (simp add: OWNED_PREFIX_def vm_name_of_def to_ascii_lowercase_def starts_with_def lower_char_def is_ascii_upper_def code_def)

text \<open>The commands that delete, by kind, in the order of the reaper.\<close>

definition deletions :: "string list \<Rightarrow> string list \<Rightarrow> (string \<times> string) list \<Rightarrow> action list" where
  "deletions kind opts rs = map (\<lambda>r. Cli ''az'' (kind @ [''delete'', ''--ids'', fst r] @ opts)) (filter_owned rs)"

lemma deletes: "snd (run_state (each (az_delete w kind opts) (filter_owned rs)) past) = past @ deletions kind opts rs"
  by (subst each_adds [where g = "\<lambda>r. [Cli ''az'' (kind @ [''delete'', ''--ids'', fst r] @ opts)]"])
    (simp_all add: az_delete_def command_defs deletions_def concat_map_singleton)

lemma list_runs: "run_state (az_list_ids w args) past =
    (case wd_cli w (past @ [Cli ''az'' (args @ [''--query'', ''[].{id:id,name:name}'', ''--output'', ''json''])]) of
       Inl e \<Rightarrow> [] | Inr s \<Rightarrow> (case wd_json w s of Inl e \<Rightarrow> [] | Inr v \<Rightarrow> listed v),
     past @ [Cli ''az'' (args @ [''--query'', ''[].{id:id,name:name}'', ''--output'', ''json''])])"
  by (simp add: az_list_ids_def command_defs)

definition no_creation :: "action \<Rightarrow> bool" where
  "no_creation a \<longleftrightarrow> (\<forall>n. a \<noteq> Cli ''az'' ([''vm'', ''create''] @ n))"

lemma no_creation_deletions:
  "kind \<in> {[''vm''], [''network'', ''nic''], [''disk''], [''network'', ''public-ip'']} \<Longrightarrow> list_all no_creation (deletions kind opts rs)"
  by (auto simp: deletions_def list_all_iff no_creation_def)

lemma reaper_runs:
  "wd_late w past = None \<Longrightarrow> \<exists>as. snd (run_state (reap_orphans_best_effort w rg) past) = past @ as \<and> list_all no_creation as \<and>
     set (deletions [''vm''] [''--yes''] (fst (run_state (az_list_ids w [''vm'', ''list'', ''--resource-group'', rg]) past))) \<subseteq> set as"
  unfolding reap_orphans_best_effort_def within_budget_def Let_def
  by (simp add: list_runs deletes no_creation_deletions) (auto simp: no_creation_def)

text \<open>C11: What the reaper takes for orphans are the machines of the orchestrator itself. Before a testbed
  makes its machine in Azure, every machine listed by a name the orchestrator gives, of this sweep or of
  another that is running, is deleted, when the time allowed is enough.\<close>

theorem reaper_deletes_machines_in_use:
  assumes "to_ascii_lowercase (tb_cloud tb) = ''azure''" "tb_existing_vm_ip tb = None"
    and "fst (run_state (find_existing_vm w (vm_name_of tb)) past) = Inr None"
    and "fst (run_state (az_list_ids w [''vm'', ''list'', ''--resource-group'', RESOURCE_GROUP])
           (snd (run_state (find_existing_vm w (vm_name_of tb)) past))) = listing"
    and "(i, vm_name_of other) \<in> set listing"
    and "wd_late w (snd (run_state (find_existing_vm w (vm_name_of tb)) past)) = None"
  shows "\<exists>as bs. snd (run_state (resolve_vm w tb) past) = past @ as @ bs \<and>
     Cli ''az'' [''vm'', ''delete'', ''--ids'', i, ''--yes''] \<in> set as \<and>
     (\<forall>a \<in> set as. \<forall>n. a \<noteq> Cli ''az'' ([''vm'', ''create''] @ n))"
proof -
  let ?p1 = "snd (run_state (find_existing_vm w (vm_name_of tb)) past)"
  obtain c where p1: "?p1 = past @ [Cli ''az'' ([''vm'', ''show''] @ c)]"
    by (simp add: find_existing_vm_def find_existing_vm_azure_def command_defs)
  obtain as where as: "snd (run_state (reap_orphans_best_effort w RESOURCE_GROUP) ?p1) = ?p1 @ as" "list_all no_creation as"
      "set (deletions [''vm''] [''--yes''] listing) \<subseteq> set as"
    using reaper_runs [OF assms(6), of RESOURCE_GROUP] assms(4) by auto
  have azure: "to_ascii_lowercase ''azure'' = ''azure''" by code_simp
  have here: "Cli ''az'' [''vm'', ''delete'', ''--ids'', i, ''--yes''] \<in> set as"
    using as(3) assms(5) lower_owned [of other]
    by (force simp: deletions_def filter_owned_def)
  let ?rest = "provision_azure w (tb_region tb) ''ubuntu'' (resolve_vm_size ''azure'' (to_ascii_lowercase (tb_vm_size tb))) (vm_name_of tb)"
  have "only (\<lambda>_. True) ?rest"
    unfolding provision_azure_def azure_login_args_def azure_ip_of_existing_def find_existing_vm_azure_def azure_open_port_def command_defs
    by (intro scripts) simp_all
  then obtain bs where "snd (run_state ?rest (?p1 @ as)) = (?p1 @ as) @ bs" unfolding only_def runs_def by blast
  then have "snd (run_state (resolve_vm w tb) past) = past @ (Cli ''az'' ([''vm'', ''show''] @ c) # as) @ bs"
    using assms(1,2,3) as(1) p1
    by (simp add: resolve_vm_def provision_for_def provision_vm_def eq_ignore_ascii_case_def azure Let_def)
  then show ?thesis using here as(2) by (intro exI conjI) (assumption | auto simp: no_creation_def list_all_iff)+
qed

section \<open>The lock between configurations\<close>


section \<open>What reaches a shell\<close>

text \<open>
  How a POSIX shell reads the next word: blanks end it, a single-quoted part and a character after a
  backslash stand for themselves, and an unquoted character that means something to the shell, or
  an open quote, is no plain word (\<open>None\<close>).
\<close>

definition sh_blank :: "char \<Rightarrow> bool" where
  "sh_blank c \<longleftrightarrow> c = CHR '' '' \<or> c = CHR 0x09 \<or> c = CHR 0x0A"

definition sh_active :: "char \<Rightarrow> bool" where
  "sh_active c \<longleftrightarrow> c \<in> set ''$`;&|<>()*?[]#~!{}'' \<or> c = CHR 0x22"

fun sh_word :: "bool \<Rightarrow> string \<Rightarrow> string \<Rightarrow> (string \<times> string) option" where
  "sh_word True acc [] = None"
| "sh_word False acc [] = Some (acc, [])"
| "sh_word True acc (c # cs) = (if c = CHR 0x27 then sh_word False acc cs else sh_word True (acc @ [c]) cs)"
| "sh_word False acc (c # cs) =
     (if c = CHR 0x27 then sh_word True acc cs
      else if c = CHR 0x5C then (case cs of [] \<Rightarrow> None | d # ds \<Rightarrow> sh_word False (acc @ [d]) ds)
      else if sh_blank c then Some (acc, c # cs)
      else if sh_active c then None
      else sh_word False (acc @ [c]) cs)"

lemma sh_quoted:
  "sh_word True acc (concat (map (\<lambda>c. if c = CHR 0x27 then [CHR 0x27, CHR 0x5C, CHR 0x27, CHR 0x27] else [c]) s) @ CHR 0x27 # rest) =
   sh_word False (acc @ s) rest"
  by (induction s arbitrary: acc) auto

lemma sh_safe: "list_all shell_safe_char s \<Longrightarrow> sh_word False acc (s @ rest) = sh_word False (acc @ s) rest"
proof (induction s arbitrary: acc)
  case (Cons c s)
  have "c \<noteq> CHR 0x27 \<and> c \<noteq> CHR 0x5C \<and> \<not> sh_blank c \<and> \<not> sh_active c"
    using Cons.prems
    by (auto simp: shell_safe_char_def is_ascii_alphanumeric_def is_ascii_lower_def is_ascii_upper_def is_ascii_digit_def code_def
      sh_blank_def sh_active_def)
  then show ?case using Cons by simp
qed simp

text \<open>C5: No value the orchestrator puts into a command is anything but data. A shell reads a quoted text, whatever
  it holds, as that very text, at the place in a word where it stands; and a name that passed
  validation is read as itself without quotes.\<close>

theorem arguments_inert:
  assumes "rest = [] \<or> sh_blank (hd rest)"
  shows "sh_word False pre (shell_quote s @ rest) = Some (pre @ s, rest) \<and>
    (validate_shell_safe name label = Inr () \<longrightarrow> sh_word False pre (name @ rest) = Some (pre @ name, rest))"
proof -
  have stop: "sh_word False acc rest = Some (acc, rest)" for acc
    using assms by (cases rest) (auto simp: sh_blank_def)
  have "sh_word False pre (shell_quote s @ rest) = Some (pre @ s, rest)"
    using sh_quoted [of pre s rest] by (simp add: shell_quote_def stop)
  moreover have "validate_shell_safe name label = Inr () \<longrightarrow> sh_word False pre (name @ rest) = Some (pre @ name, rest)"
    by (auto simp: validate_shell_safe_def shell_safe_name_def sh_safe stop split: if_splits)
  ultimately show ?thesis by blast
qed

section \<open>Well-formed configurations\<close>

lemma valid_proxies_safe: "p \<in> set VALID_PROXIES \<Longrightarrow> validate_shell_safe p label = Inr ()"
proof -
  have "list_all shell_safe_name VALID_PROXIES" by code_simp
  then show "p \<in> set VALID_PROXIES \<Longrightarrow> validate_shell_safe p label = Inr ()"
    by (auto simp: validate_shell_safe_def list_all_iff)
qed

lemma one_login:
  "validate_shell_safe p ''proxy'' = Inr () \<Longrightarrow> snd (run_state (deploy_proxy w vm p) past) = past @ [Ssh (vi_ip vm) (proxy_command p)]"
  "validate_shell_safe l ''language'' = Inr () \<Longrightarrow> validate_shell_safe p ''proxy'' = Inr () \<Longrightarrow>
     snd (run_state (deploy_app_language w vm l p) past) = past @ [Ssh (vi_ip vm) (app_command l p)]"
  by (auto simp: deploy_proxy_def deploy_app_language_def try_bind_def with_context_of_def with_context_def ssh_exec_def
    split: sum.splits)


section \<open>Addresses of existing machines\<close>

definition private_address :: "nat \<Rightarrow> nat \<Rightarrow> bool" where
  "private_address a b \<longleftrightarrow> a = 0 \<or> a = 10 \<or> a = 127 \<or> a = 169 \<and> b = 254 \<or> a = 172 \<and> 16 \<le> b \<and> b \<le> 31 \<or> a = 192 \<and> b = 168"

definition four_octets :: "string \<Rightarrow> nat list \<Rightarrow> bool" where
  "four_octets ip ns \<longleftrightarrow> (\<forall>c \<in> set ip. is_ascii_digit c \<or> c = CHR ''.'') \<and> length ns = 4 \<and>
     list_all2 (\<lambda>part n. part \<noteq> [] \<and> digits_value 0 part = Some n \<and> n \<le> 255) (split_on CHR ''.'' ip) ns"

lemma split_on_subset: "p \<in> set (split_on c s) \<Longrightarrow> set p \<subseteq> set s"
proof (induction s arbitrary: p)
  case (Cons x s)
  obtain y ys where y: "split_on c s = y # ys" by (cases "split_on c s") auto
  have y_sub: "set y \<subseteq> set s" and ys_sub: "q \<in> set ys \<Longrightarrow> set q \<subseteq> set s" for q using Cons.IH y by auto
  show ?case using Cons.prems y y_sub ys_sub by (auto split: if_splits)
qed simp

lemma part_digits:
  assumes "\<forall>c \<in> set ip. is_ascii_digit c \<or> c = CHR ''.''" "part \<in> set (split_on CHR ''.'' ip)"
  shows "\<forall>c \<in> set part. is_ascii_digit c"
proof -
  have "set part \<subseteq> set ip" by (rule split_on_subset [OF assms(2)])
  moreover have "CHR ''.'' \<notin> set part" using split_on_no_sep [OF assms(2)] .
  ultimately show ?thesis using assms(1) by auto
qed

lemma octet_error_None:
  assumes "\<forall>c \<in> set part. is_ascii_digit c"
  shows "octet_error part = None \<longleftrightarrow> (\<exists>n \<le> 255. part \<noteq> [] \<and> digits_value 0 part = Some n)"
    and "octet_error part = None \<Longrightarrow> parse_below 256 part = digits_value 0 part"
proof -
  have ds: "(case part of c # cs \<Rightarrow> if c = CHR ''+'' then cs else part | [] \<Rightarrow> []) = part"
    using assms by (cases part) (auto simp: is_ascii_digit_def code_def)
  show "octet_error part = None \<longleftrightarrow> (\<exists>n \<le> 255. part \<noteq> [] \<and> digits_value 0 part = Some n)"
    unfolding octet_error_def parse_below_def ds by (auto simp: Let_def ensure_or_def split: option.splits if_splits)
  then show "octet_error part = None \<Longrightarrow> parse_below 256 part = digits_value 0 part"
    unfolding parse_below_def ds by (auto simp: Let_def)
qed

lemma first_error_cases: "first_error es = Inr () \<or> (\<exists>e. first_error es = Inl e)"
  by (induction es rule: first_error.induct) auto

text \<open>C6: The check of an existing machine's address neither panics nor lets through anything else than four decimal
  octets; of a machine in a cloud it accepts none of the loopback, link-local and private ranges,
  and every other address.\<close>

theorem address_checked:
  "validate_ip ip is_cloud \<noteq> None \<and>
   (validate_ip ip is_cloud = Some (Inr ()) \<longleftrightarrow>
      (\<exists>ns. four_octets ip ns \<and> \<not> (is_cloud \<and> private_address (ns ! 0) (ns ! 1))))"
proof (cases "(\<forall>c \<in> set ip. is_ascii_digit c \<or> c = CHR ''.'') \<and> length (split_on CHR ''.'' ip) = 4 \<and>
    (\<forall>part \<in> set (split_on CHR ''.'' ip). octet_error part = None)")
  case True
  let ?parts = "split_on CHR ''.'' ip"
  have digits: "\<forall>part \<in> set ?parts. \<forall>c \<in> set part. is_ascii_digit c" using True part_digits by blast
  obtain p q r s where parts: "?parts = [p, q, r, s]"
    using True by (auto simp: numeral_eq_Suc length_Suc_conv)
  have v: "\<exists>n \<le> 255. x \<noteq> [] \<and> digits_value 0 x = Some n" "parse_below 256 x = digits_value 0 x" if "x \<in> set ?parts" for x
    using True digits that octet_error_None [of x] by auto
  obtain a b c d where n: "digits_value 0 p = Some a" "digits_value 0 q = Some b" "digits_value 0 r = Some c" "digits_value 0 s = Some d"
      "a \<le> 255" "b \<le> 255" "c \<le> 255" "d \<le> 255" "p \<noteq> []" "q \<noteq> []" "r \<noteq> []" "s \<noteq> []"
    using v(1) [of p] v(1) [of q] v(1) [of r] v(1) [of s] parts by auto
  have four: "four_octets ip ns \<longleftrightarrow> ns = [a, b, c, d]" for ns
    using True n parts by (auto simp: four_octets_def list_all2_Cons1)
  have ok: "first_error (map octet_error ?parts) = Inr ()" using True by (auto simp: first_error_Inr_iff)
  have cloud: "cloud_checks ?parts = Some [ensure_or (a \<noteq> 127) LocalhostNotAllowed, ensure_or (\<not> (a = 169 \<and> b = 254)) LinkLocalNotAllowed,
        ensure_or (a \<noteq> 10) PrivateNotAllowed, ensure_or (\<not> (a = 172 \<and> 16 \<le> b \<and> b \<le> 31)) PrivateNotAllowed,
        ensure_or (\<not> (a = 192 \<and> b = 168)) PrivateNotAllowed, ensure_or (a \<noteq> 0) ZeroNotAllowed]"
    using v(2) [of p] v(2) [of q] parts n by (simp add: cloud_checks_def)
  have chars: "\<not> list_ex (\<lambda>c. \<not> is_ascii_digit c \<and> c \<noteq> CHR ''.'') ip" using True by (auto simp: list_ex_iff)
  have "validate_ip ip is_cloud = (if is_cloud then map_option first_error (cloud_checks ?parts) else Some (Inr ()))"
    using True chars ok by (simp add: validate_ip_def Let_def)
  then show ?thesis unfolding cloud by (auto simp: four first_error_Inr_iff private_address_def)
next
  case False
  have "validate_ip ip is_cloud \<noteq> None \<and> validate_ip ip is_cloud \<noteq> Some (Inr ())"
  proof (cases "(\<forall>c \<in> set ip. is_ascii_digit c \<or> c = CHR ''.'') \<and> length (split_on CHR ''.'' ip) = 4")
    case True
    then obtain e where "first_error (map octet_error (split_on CHR ''.'' ip)) = Inl e"
      using False first_error_cases [of "map octet_error (split_on CHR ''.'' ip)"] by (auto simp: first_error_Inr_iff)
    then show ?thesis using True by (auto simp: validate_ip_def Let_def list_ex_iff)
  next
    case no: False
    then show ?thesis by (auto simp: validate_ip_def Let_def list_ex_iff)
  qed
  moreover have "\<not> four_octets ip ns" for ns
  proof
    assume f: "four_octets ip ns"
    have "octet_error part = None" if part: "part \<in> set (split_on CHR ''.'' ip)" for part
    proof -
      obtain i where i: "i < length (split_on CHR ''.'' ip)" "part = split_on CHR ''.'' ip ! i"
        using part by (auto simp: in_set_conv_nth)
      have "part \<noteq> [] \<and> digits_value 0 part = Some (ns ! i) \<and> ns ! i \<le> 255"
        using f list_all2_nthD [OF _ i(1)] unfolding four_octets_def i(2) by blast
      moreover have "\<forall>c \<in> set part. is_ascii_digit c" using f part_digits [OF _ part] by (auto simp: four_octets_def)
      ultimately show ?thesis using octet_error_None(1) by blast
    qed
    then show False using False f by (auto simp: four_octets_def dest: list_all2_lengthD)
  qed
  ultimately show ?thesis by blast
qed

section \<open>A deployed server that is refused\<close>

lemma try_Inr:
  assumes "fst (run_state (try_bind m f) p) = Inr y"
  obtains x where "fst (run_state m p) = Inr x" "fst (run_state (f x) (snd (run_state m p))) = Inr y"
  using assms by (auto simp: try_bind_def split: sum.splits)

text \<open>C12: The validation of a deployed server can never accept the endpoint of this repository. It passes nothing
  whose answer to the upload is the body the endpoint gives, whatever arrived there.\<close>

theorem validator_refuses_endpoint:
  assumes "\<forall>p out. wd_cli w p = Inr out \<longrightarrow> last p = Cli ''curl'' (curl_args vm [''-X'', ''POST'', ''-H'',
        ''Content-Type: application/octet-stream'', ''--data-binary'', replicate 1024 CHR ''X''] ''/upload'') \<longrightarrow>
      (\<exists>wb rd req v. es_body (ep_upload wb rd req) = JsonBody v \<and> wd_json w out = Inr v)"
  shows "fst (run_state (validate_api w vm) past) \<noteq> Inr ()"
proof -
  have body: "as_u64 (member ''bytes_received'' v) = None" if "es_body (ep_upload wb rd req) = JsonBody v" for wb rd req v
    using that by (auto simp: ep_upload_def Let_def json_answer_def split: if_splits option.splits)
  have "upload_check w out \<noteq> Inr ()" if "wd_json w out = Inr v" "as_u64 (member ''bytes_received'' v) = None" for out v
    using that by (simp add: upload_check_def with_context_def or_default_def Let_def)
  then have no: "upload_check w out \<noteq> Inr ()" if "wd_cli w (p @ [a, b, Cli ''curl'' (curl_args vm [''-X'', ''POST'', ''-H'',
        ''Content-Type: application/octet-stream'', ''--data-binary'', replicate 1024 CHR ''X''] ''/upload'')]) = Inr out" for p a b out
    using assms [rule_format, OF that] body by auto
  show ?thesis
  proof
    assume "fst (run_state (validate_api w vm) past) = Inr ()"
    then show False unfolding validate_api_def
      by (elim try_Inr) (auto simp: with_context_of_def with_context_def cli_cmd_def dest: no split: sum.splits)
  qed
qed

section \<open>The matrix\<close>

definition counted :: "tally \<Rightarrow> nat" where
  "counted t = unat (ty_completed t) + unat (ty_failed t)"

lemma unat_plus: "unat (a :: u32) + n < 2 ^ 32 \<Longrightarrow> unat (a + of_nat n) = unat a + n"
  by (simp add: unat_word_ariths unat_of_nat)

lemma counted_result: "counted t + 1 < 2 ^ 32 \<Longrightarrow> counted (count_result ok t) = counted t + 1"
  using unat_plus [of "ty_completed t" 1] unat_plus [of "ty_failed t" 1]
  by (simp add: counted_def count_result_def)

lemma count_result_index [simp]: "ty_index (count_result ok t) = ty_index t"
  by (simp add: count_result_def)

lemma counted_index [simp]: "counted (t\<lparr>ty_index := i\<rparr>) = counted t"
  by (simp add: counted_def)

lemma counted_combination:
  assumes "counted t + 1 < 2 ^ 32"
  shows "counted (fst (run_state (run_combination w tb m vm token n proxy l t) past)) = counted t + 1"
  using counted_result [OF assms] by (simp add: run_combination_def split: sum.splits)

lemma counted_combinations:
  assumes "\<forall>p. \<not> wd_flag w p" "counted t + length ls < 2 ^ 32"
  shows "counted (fst (run_state (run_combinations w tb m vm token n proxy ls t) past)) = counted t + length ls"
  using assms(2)
proof (induction ls arbitrary: t past)
  case (Cons l ls)
  have step: "counted (fst (run_state (run_combination w tb m vm token n proxy l (t\<lparr>ty_index := ty_index t + 1\<rparr>)) q)) = counted t + 1" for q
    using counted_combination [of "t\<lparr>ty_index := ty_index t + 1\<rparr>"] Cons.prems by simp
  show ?case using Cons.prems assms(1)
    by (simp add: read_cancel_def Let_def Cons.IH step)
qed simp

lemma counted_proxies:
  assumes "\<forall>p. \<not> wd_flag w p" "\<forall>p. wd_clock w p \<le> deadline" "length languages \<le> length (tb_languages tb)"
    and "counted t + length ps * length (tb_languages tb) < 2 ^ 32"
  shows "counted t + length ps * length languages \<le> counted (fst (run_state (run_proxies w tb m vm token n deadline languages ps t) past)) \<and>
     counted (fst (run_state (run_proxies w tb m vm token n deadline languages ps t) past)) \<le> counted t + length ps * length (tb_languages tb)"
  using assms(4)
proof (induction ps arbitrary: t past)
  case (Cons p ps)
  let ?all = "length (tb_languages tb)" and ?ls = "length languages"
  let ?failed = "t\<lparr>ty_failed := ty_failed t + of_nat ?all\<rparr>"
  have bound: "counted t + (?all + length ps * ?all) < 2 ^ 32" using Cons.prems by simp
  have failed: "counted ?failed = counted t + ?all"
    using unat_plus [of "ty_failed t" ?all] bound by (simp add: counted_def)
  have ran: "counted (fst (run_state (run_combinations w tb m vm token n p languages t) q)) = counted t + ?ls" for q
    using counted_combinations [OF assms(1), of t languages] bound assms(3) by simp
  have "counted ?failed + length ps * ?all < 2 ^ 32" using bound failed by simp
  note f = Cons.IH [OF this]
  have "counted (fst (run_state (run_combinations w tb m vm token n p languages t) q)) + length ps * ?all < 2 ^ 32" for q
    using bound ran [of q] assms(3) by simp
  note r = Cons.IH [OF this]
  have now: "\<not> deadline < wd_clock w q" for q using assms(2) by (simp add: not_less)
  have "\<exists>q q'. run_state (run_proxies w tb m vm token n deadline languages (p # ps) t) past =
        run_state (run_proxies w tb m vm token n deadline languages ps ?failed) q \<or>
      run_state (run_proxies w tb m vm token n deadline languages (p # ps) t) past =
        run_state (run_proxies w tb m vm token n deadline languages ps
          (fst (run_state (run_combinations w tb m vm token n p languages t) q'))) q"
    using assms(1) now by (simp add: read_cancel_def read_clock_def split: sum.splits) blast
  then show ?case
  proof (elim exE disjE)
    fix q assume "run_state (run_proxies w tb m vm token n deadline languages (p # ps) t) past =
        run_state (run_proxies w tb m vm token n deadline languages ps ?failed) q"
    then show ?thesis using f [of q] failed assms(3) by simp
  next
    fix q q' assume "run_state (run_proxies w tb m vm token n deadline languages (p # ps) t) past =
        run_state (run_proxies w tb m vm token n deadline languages ps
          (fst (run_state (run_combinations w tb m vm token n p languages t) q'))) q"
    then show ?thesis using r [of q' q] ran [of q'] assms(3) by simp
  qed
qed simp

definition combinations :: "testbed_config \<Rightarrow> nat" where
  "combinations tb = length (tb_proxies tb) * length (compatible_languages tb)"

text \<open>C8: A matrix that is neither cancelled nor late accounts for every combination. The languages it counts as
  completed or failed are at least one for each proxy and each language the testbed's system can run,
  and at most one for each proxy and each language configured; so where all can run, every
  combination is counted exactly once, whatever fails.\<close>

theorem matrix_accounts:
  assumes "\<forall>p. \<not> wd_flag w p" "length (tb_proxies tb) * length (tb_languages tb) < 2 ^ 32"
    and "\<forall>p q. wd_clock w p \<le> wd_clock w q + from_secs (unat (ucast (mt_timeout_secs (dc_methodology cfg)) *
           ucast (max (of_nat (combinations tb) :: u32) 1) :: u64))"
  shows "\<exists>o1. fst (run_state (run_application_matrix w tb cfg vm prov c) past) = Inr o1 \<and>
     combinations tb \<le> unat (to_languages_completed o1) + unat (to_languages_failed o1) \<and>
     unat (to_languages_completed o1) + unat (to_languages_failed o1) \<le> length (tb_proxies tb) * length (tb_languages tb)"
proof -
  have fewer: "length (compatible_languages tb) \<le> length (tb_languages tb)" by (simp add: compatible_languages_def)
  then have comb: "combinations tb \<le> length (tb_proxies tb) * length (tb_languages tb)" by (simp add: combinations_def)
  have no: "counted no_tally = 0" by (simp add: counted_def no_tally_def)
  have bounds: "combinations tb \<le> counted t \<and> counted t \<le> length (tb_proxies tb) * length (tb_languages tb)"
    if "t = fst (run_state (run_proxies w tb (dc_methodology cfg) vm token n deadline (compatible_languages tb) (tb_proxies tb) no_tally) q)"
      "\<forall>p. wd_clock w p \<le> deadline" for t token n deadline q
    using counted_proxies [OF assms(1) that(2) fewer, of no_tally "tb_proxies tb"] assms(2) no
    by (simp add: that(1) combinations_def)
  show ?thesis
  proof (cases "\<exists>e. fst (run_state (run_application_matrix w tb cfg vm prov c) past) =
      Inr (outcome_of tb (no_tally\<lparr>ty_failed := of_nat (combinations tb)\<rparr>) prov)")
    case True
    then show ?thesis using comb assms(2) by (auto simp: outcome_of_def no_tally_def unat_of_nat)
  next
    case False
    then obtain t token n q0 q where "fst (run_state (run_application_matrix w tb cfg vm prov c) past) = Inr (outcome_of tb t prov)"
        "t = fst (run_state (run_proxies w tb (dc_methodology cfg) vm token n
          (wd_clock w q0 + from_secs (unat (ucast (mt_timeout_secs (dc_methodology cfg)) *
             ucast (max (of_nat (combinations tb) :: u32) 1) :: u64))) (compatible_languages tb) (tb_proxies tb) no_tally) q)"
      by (auto simp add: run_application_matrix_def Let_def read_clock_def combinations_def split: sum.splits)
    then show ?thesis using bounds assms(3) by (force simp: outcome_of_def counted_def)
  qed
qed

section \<open>The order of a suite\<close>

text \<open>The matrix of a suite names every case once. With any seed and with none, its cases are exactly the
  combinations of a language, a level of concurrency and a repeat, each of them once when no
  language or level is configured twice; a seed only permutes them.\<close>

theorem suite_order:
  assumes "distinct (sc_languages cfg)" "distinct (sc_concurrency_levels cfg)"
  shows "distinct (test_matrix_with_seed seed cfg) \<and> mset (test_matrix_with_seed seed cfg) = mset (test_matrix cfg) \<and>
     (\<forall>l k r. \<lparr>tc_language = l, tc_concurrency = k, tc_repeat_index = r\<rparr> \<in> set (test_matrix_with_seed seed cfg) \<longleftrightarrow>
        l \<in> set (sc_languages cfg) \<and> k \<in> set (sc_concurrency_levels cfg) \<and> r < sc_repeat cfg)"
proof -
  have m: "mset (test_matrix_with_seed seed cfg) = mset (test_matrix cfg)"
    by (cases seed) (simp_all add: mset_test_matrix test_matrix_def)
  then have s: "set (test_matrix_with_seed seed cfg) = set (test_matrix cfg)" by (metis set_mset_mset)
  let ?f = "\<lambda>(l, k, r). \<lparr>tc_language = l, tc_concurrency = k, tc_repeat_index = r\<rparr>"
  have inj: "inj_on ?f A" for A by (auto simp: inj_on_def)
  have reps: "card {r. r < sc_repeat cfg} = unat (sc_repeat cfg)"
  proof -
    have "{r. r < sc_repeat cfg} = of_nat ` {0..<unat (sc_repeat cfg)}"
    proof (rule set_eqI)
      fix r :: u32
      show "r \<in> {r. r < sc_repeat cfg} \<longleftrightarrow> r \<in> of_nat ` {0..<unat (sc_repeat cfg)}"
        using below_repeat [of r "sc_repeat cfg"] by auto
    qed
    moreover have "inj_on (of_nat :: nat \<Rightarrow> u32) {0..<unat (sc_repeat cfg)}"
    proof (rule inj_onI)
      fix i j assume ij: "i \<in> {0..<unat (sc_repeat cfg)}" "j \<in> {0..<unat (sc_repeat cfg)}" "(of_nat i :: u32) = of_nat j"
      have "unat (sc_repeat cfg) < 2 ^ LENGTH(32)" by (rule unsigned_less)
      then have "i < 2 ^ LENGTH(32)" "j < 2 ^ LENGTH(32)" using ij by (auto intro: less_trans)
      then show "i = j" using ij(3) by (simp add: word_of_nat_eq_iff take_bit_nat_eq_self)
    qed
    ultimately show ?thesis by (simp add: card_image)
  qed
  have "set (test_matrix cfg) = ?f ` (set (sc_languages cfg) \<times> set (sc_concurrency_levels cfg) \<times> {r. r < sc_repeat cfg})"
    unfolding set_test_matrix
  proof (rule set_eqI)
    fix c :: test_case
    show "c \<in> {c. tc_language c \<in> set (sc_languages cfg) \<and> tc_concurrency c \<in> set (sc_concurrency_levels cfg) \<and>
        tc_repeat_index c < sc_repeat cfg} \<longleftrightarrow> c \<in> ?f ` (set (sc_languages cfg) \<times> set (sc_concurrency_levels cfg) \<times> {r. r < sc_repeat cfg})"
      by (cases c) (auto simp: image_iff)
  qed
  then have "card (set (test_matrix cfg)) = length (test_matrix cfg)"
    using assms by (simp add: card_image inj card_cartesian_product reps length_test_matrix distinct_card)
  then have "distinct (test_matrix cfg)" by (rule card_distinct)
  then have "distinct (test_matrix_with_seed seed cfg)" using m by (metis distinct_count_atmost_1 set_mset_mset)
  then show ?thesis using m s set_test_matrix [of cfg] by auto
qed

section \<open>Witnesses\<close>

text \<open>A world in which every call succeeds, the tester is held by another configuration, no machine of
  the name is known to Azure, and Google's cloud makes one; and small configurations.\<close>

definition demo_instance :: jvalue where
  "demo_instance = ArrV [ObjV [(''networkInterfaces'', ArrV [ObjV [(''accessConfigs'', ArrV [ObjV [(''natIP'', StrV ''192.0.2.1'')]])]])]]"

definition demo_world :: world where
  "demo_world = \<lparr>wd_uuid = \<lambda>s. Some 7, wd_ip = \<lambda>s. Some (V4 0), wd_temp_dir = ''/tmp'', wd_bench_dir = ''/bench'',
     wd_json = \<lambda>s. Inr demo_instance, wd_cli = \<lambda>p. case last p of Cli c args \<Rightarrow> (if c = ''az'' then Inl ''no'' else Inr []) | _ \<Rightarrow> Inr [],
     wd_tester = \<lambda>p. Succeeded [], wd_write = \<lambda>p. Inr (), wd_updated = \<lambda>p. Inr False,
     wd_row = \<lambda>p. Inr (Some (''running'', ''locked'', Some 9)),
     wd_tester_row = \<lambda>p. Inr \<lparr>pt_tester_id = 3, pt_name = ''t'', pt_public_ip = None, pt_vm_resource_id = None,
       pt_power_state = ''running'', pt_allocation = ''locked'', pt_cloud_connection_id = None\<rparr>,
     wd_connection = \<lambda>p. Inl [], wd_callback = \<lambda>p. Inr (), wd_cancelled = \<lambda>p. Inr False, wd_flag = \<lambda>p. False,
     wd_clock = \<lambda>p. 0, wd_exists = \<lambda>p. False, wd_env = \<lambda>p. Some ''db'', wd_workloads = \<lambda>p. Inl [],
     wd_token = \<lambda>p. ''token'', wd_expiry = \<lambda>p. [], wd_panics = \<lambda>p. None, wd_late = \<lambda>p. None\<rparr>"

definition demo_testbed :: "string \<Rightarrow> string option \<Rightarrow> testbed_config" where
  "demo_testbed cloud ip = testbed_of \<lparr>tj_testbed_id = ''bed'', tj_cloud = cloud, tj_region = ''r'', tj_topology = None,
     tj_vm_size = ''small'', tj_existing_vm_ip = ip, tj_os = None, tj_languages = [''rust''], tj_proxies = Some [''nginx''],
     tj_tester_os = None\<rparr>"

definition demo_sweep :: "testbed_config \<Rightarrow> dashboard_config" where
  "demo_sweep tb = \<lparr>dc_config_id = ''c'', dc_testbeds = [tb], dc_methodology = methodology_of
       \<lparr>mj_warmup_runs = None, mj_min_measured = None, mj_max_measured = None, mj_target_relative_error = None,
        mj_confidence_level = None, mj_modes = None, mj_timeout_secs = None\<rparr>,
     dc_auto_teardown = True, dc_callback_url = None, dc_callback_token = None, dc_logs_db_url = None,
     dc_benchmark_type = ''application'', dc_created_by_email = None, dc_project_id = None\<rparr>"

definition demo_dashboard :: dashboard_json where
  "demo_dashboard = \<lparr>dj_config_id = ''c'', dj_testbeds = [\<lparr>tj_testbed_id = ''bed'', tj_cloud = ''aws'', tj_region = ''r'', tj_topology = None,
       tj_vm_size = ''small'', tj_existing_vm_ip = None, tj_os = None, tj_languages = [''rust'', ''csharp-net8''],
       tj_proxies = Some [''nginx''], tj_tester_os = None\<rparr>],
     dj_methodology = \<lparr>mj_warmup_runs = None, mj_min_measured = None, mj_max_measured = None, mj_target_relative_error = None,
        mj_confidence_level = None, mj_modes = None, mj_timeout_secs = None\<rparr>,
     dj_auto_teardown = None, dj_callback_url = None, dj_callback_token = None, dj_logs_db_url = None,
     dj_benchmark_type = Some ''application'', dj_created_by_email = None, dj_project_id = None\<rparr>"

lemmas demo_defs = demo_world_def demo_testbed_def demo_sweep_def testbed_of_def methodology_of_def or_default_def

theorem queued_sweep_completes_witness:
  "\<exists>as. snd (run_state (execute_dashboard_benchmark demo_world (\<lambda>vm l. done_with (Inr ())) (demo_sweep (demo_testbed ''lan'' (Some ''10.0.0.7'')))) [])
       = as @ [CbComplete ''completed'' None] \<and> SetStatus 7 ''queued'' \<in> set as \<and> grants demo_world [] as = 0"
proof -
  have ip: "validate_ip ''10.0.0.7'' (to_ascii_lowercase ''lan'' \<in> {''azure'', ''aws'', ''gcp''}) = Some (Inr ())"
    by (simp add: validate_ip_def octet_error_def parse_below_def digit_value_def is_ascii_digit_def code_def Let_def ensure_or_def
      to_ascii_lowercase_def lower_char_def is_ascii_upper_def)
  show ?thesis
    using queued_sweep_completes [of "demo_sweep (demo_testbed ''lan'' (Some ''10.0.0.7''))" "demo_testbed ''lan'' (Some ''10.0.0.7'')"
        "''10.0.0.7''" demo_world 7 "''db''" _ 9 "\<lambda>vm l. done_with (Inr ())" "[]"] ip
    by (simp add: demo_defs)
qed

theorem teardown_misses_witness:
  "\<exists>vm as. fst (run_state (resolve_vm demo_world (demo_testbed ''gcp'' None)) []) = Inr (vm, True) \<and>
     (\<exists>a. of_other_cloud a \<and> (\<forall>later. snd (run_state (destroy_vm demo_world vm) later) = later @ [a])) \<and>
     snd (run_state (teardown_testbed demo_world (demo_testbed ''gcp'' None)) []) = as \<and> (\<forall>a \<in> set as. \<not> of_other_cloud a)"
proof -
  have l: "to_ascii_lowercase ''gcp'' = ''gcp''" "to_ascii_lowercase ''azure'' = ''azure''" by code_simp+
  let ?vm = "\<lparr>vi_name = vm_name_of (demo_testbed ''gcp'' None), vi_ip = ''192.0.2.1'', vi_cloud = ''gcp'', vi_region = ''r'', vi_os = ''ubuntu'',
     vi_vm_size = resolve_vm_size ''gcp'' (to_ascii_lowercase ''small''), vi_resource_group = [], vi_ssh_user = default_user ''gcp''\<rparr>"
  have sel: "tb_existing_vm_ip (demo_testbed ''gcp'' None) = None" "tb_cloud (demo_testbed ''gcp'' None) = ''gcp''"
    "tb_region (demo_testbed ''gcp'' None) = ''r''" "tb_vm_size (demo_testbed ''gcp'' None) = ''small''"
    by (simp_all add: demo_testbed_def testbed_of_def)
  have nat_ip: "gcp_nat_ip (item 0 demo_instance) = ''192.0.2.1''"
    by (simp add: gcp_nat_ip_def demo_instance_def text_at_def or_default_def)
  have cli: "wd_cli demo_world (past @ [Cli ''az'' args]) = Inl ''no''" "wd_cli demo_world (past @ [Cli ''gcloud'' args]) = Inr []"
    "wd_json demo_world out = Inr demo_instance" for past args out
    by (simp_all add: demo_world_def)
  have found: "run_state (find_existing_vm demo_world n) past = (Inr None, past @ [Cli ''az'' [''vm'', ''show'', ''--resource-group'', RESOURCE_GROUP, ''--name'', n,
        ''--show-details'', ''--output'', ''json'']])" for n past
    by (simp add: find_existing_vm_def find_existing_vm_azure_def az_cmd_def cli_cmd_def cli)
  have made: "fst (run_state (provision_gcp demo_world z os sz n) past) = Inr \<lparr>vi_name = n, vi_ip = ''192.0.2.1'', vi_cloud = ''gcp'', vi_region = z,
      vi_os = ''ubuntu'', vi_vm_size = sz, vi_resource_group = [], vi_ssh_user = default_user ''gcp''\<rparr>" for z os sz n past
    by (simp add: provision_gcp_def gcloud_cmd_def cli_cmd_def cli with_context_def nat_ip)
  have vm: "fst (run_state (resolve_vm demo_world (demo_testbed ''gcp'' None)) []) = Inr (?vm, True)"
    by (simp add: resolve_vm_def sel found provision_for_def provision_vm_def eq_ignore_ascii_case_def l Let_def made)
  have "to_ascii_lowercase (tb_cloud (demo_testbed ''gcp'' None)) \<in> {''aws'', ''gcp''}" by (simp add: demo_defs l)
  from teardown_misses [OF this vm, of "[]"] vm show ?thesis by auto
qed

definition demo_azure :: world where
  "demo_azure = demo_world\<lparr>wd_cli := \<lambda>p. (case last p of Cli c args \<Rightarrow> (if args ! 1 = ''show'' then Inl ''no'' else Inr []) | _ \<Rightarrow> Inr []),
     wd_json := \<lambda>s. Inr (ArrV [ObjV [(''id'', StrV ''/r/1''), (''name'', StrV (vm_name_of (demo_testbed ''azure'' (Some ''x''))))]])\<rparr>"

theorem reaper_deletes_machines_in_use_witness:
  "\<exists>as bs. snd (run_state (resolve_vm demo_azure (demo_testbed ''azure'' None)) []) = as @ bs \<and>
     Cli ''az'' [''vm'', ''delete'', ''--ids'', ''/r/1'', ''--yes''] \<in> set as \<and>
     (\<forall>a \<in> set as. \<forall>n. a \<noteq> Cli ''az'' ([''vm'', ''create''] @ n))"
proof -
  let ?tb = "demo_testbed ''azure'' None" and ?other = "demo_testbed ''azure'' (Some ''x'')"
  let ?p = "snd (run_state (find_existing_vm demo_azure (vm_name_of ?tb)) [])"
  have sel: "tb_existing_vm_ip ?tb = None" "tb_cloud ?tb = ''azure''" by (simp_all add: demo_testbed_def testbed_of_def)
  have azure: "to_ascii_lowercase (tb_cloud ?tb) = ''azure''" unfolding sel by code_simp
  have cli: "wd_cli demo_azure (past @ [Cli ''az'' (''vm'' # ''show'' # args)]) = Inl ''no''"
    "wd_cli demo_azure (past @ [Cli ''az'' (''vm'' # ''list'' # args)]) = Inr []" for past args
    by (simp_all add: demo_azure_def)
  have none: "fst (run_state (find_existing_vm demo_azure (vm_name_of ?tb)) []) = Inr None"
    using cli(1) [of "[]"] by (simp add: find_existing_vm_def find_existing_vm_azure_def az_cmd_def cli_cmd_def)
  have "fst (run_state (az_list_ids demo_azure [''vm'', ''list'', ''--resource-group'', RESOURCE_GROUP]) ?p) = [(''/r/1'', vm_name_of ?other)]"
    by (simp add: list_runs cli(2)) (simp add: demo_azure_def listed_def List.map_filter_def)
  from reaper_deletes_machines_in_use [OF azure sel(1) none this, of "''/r/1''" ?other] show ?thesis
    by (simp add: demo_azure_def demo_world_def)
qed

definition demo_server :: world where
  "demo_server = demo_world\<lparr>wd_cli := \<lambda>p. Inr [],
     wd_json := \<lambda>s. Inr (ObjV [(''received_bytes'', NatV 2), (''timestamp'', StrV (tr_timestamp demo_transfer))])\<rparr>"

theorem validator_refuses_endpoint_witness:
  "fst (run_state (validate_api demo_server (existing_vm (demo_testbed ''lan'' None) ''10.0.0.7'')) []) \<noteq> Inr ()"
proof (rule validator_refuses_endpoint, intro allI impI)
  fix p out
  let ?req = "demo_ep_request ''POST'' ''/upload'' [''t''] [EpData [1, 2]]"
  have "es_body (ep_upload demo_web demo_transfer ?req) = JsonBody (ObjV [(''received_bytes'', NatV 2), (''timestamp'', StrV (tr_timestamp demo_transfer))])"
    by (simp add: ep_upload_def Let_def json_answer_def demo_ep_request_def split: option.splits)
  moreover have "wd_json demo_server out = Inr (ObjV [(''received_bytes'', NatV 2), (''timestamp'', StrV (tr_timestamp demo_transfer))])"
    by (simp add: demo_server_def)
  ultimately show "\<exists>wb rd req v. es_body (ep_upload wb rd req) = JsonBody v \<and> wd_json demo_server out = Inr v" by blast
qed

theorem matrix_accounts_witness:
  "\<exists>o1. fst (run_state (run_application_matrix demo_server (demo_testbed ''lan'' None) (demo_sweep (demo_testbed ''lan'' None))
       (existing_vm (demo_testbed ''lan'' None) ''10.0.0.7'') False 7) []) = Inr o1 \<and>
     unat (to_languages_completed o1) + unat (to_languages_failed o1) = 1"
proof -
  have sel: "tb_proxies (demo_testbed ''lan'' None) = [''nginx'']" "tb_languages (demo_testbed ''lan'' None) = [''rust'']"
    by (simp_all add: demo_testbed_def testbed_of_def or_default_def)
  have "compatible_languages (demo_testbed ''lan'' None) = [''rust'']" by (simp add: compatible_languages_def sel)
  then show ?thesis
    using matrix_accounts [of demo_server "demo_testbed ''lan'' None" "demo_sweep (demo_testbed ''lan'' None)"
        "existing_vm (demo_testbed ''lan'' None) ''10.0.0.7''" False 7 "[]"]
    by (auto simp: sel combinations_def demo_server_def demo_world_def)
qed

theorem suite_order_witness:
  "\<exists>cfg. sc_languages cfg = [\<lparr>le_name = ''go'', le_runtime = ''gin'', le_path = [], le_build_cmd = [], le_run_cmd = [],
        le_port = 80, le_docker_image = None\<rparr>] \<and> sc_concurrency_levels cfg = [1, 10] \<and> sc_repeat cfg = 3 \<and>
     distinct (test_matrix_with_seed (Some 42) cfg) \<and> length (test_matrix_with_seed (Some 42) cfg) = 6"
proof -
  let ?l = "\<lparr>le_name = ''go'', le_runtime = ''gin'', le_path = [], le_build_cmd = [], le_run_cmd = [], le_port = 80, le_docker_image = None\<rparr>"
  let ?cfg = "\<lparr>sc_name = [], sc_version = [], sc_baseline_language = None, sc_baseline_runtime = None, sc_total_requests = 1,
     sc_concurrency_levels = [1, 10], sc_repeat = 3, sc_warmup_requests = 0, sc_timeout_secs = 1, sc_endpoint = [], sc_method = [],
     sc_body = None, sc_languages = [?l]\<rparr>"
  have o1: "distinct (test_matrix_with_seed (Some 42) ?cfg)" "mset (test_matrix_with_seed (Some 42) ?cfg) = mset (test_matrix ?cfg)"
    using suite_order [of ?cfg "Some 42"] by simp_all
  have "length (test_matrix_with_seed (Some 42) ?cfg) = 6"
    by (subst mset_eq_length [OF o1(2)]) (simp add: length_test_matrix)
  then show ?thesis using o1(1) by (intro exI [of _ ?cfg]) simp
qed


theorem arguments_inert_witness:
  "sh_word False ''LOG_SERVICE='' (shell_quote ''$(id); a b'' @ '' BENCH'') = Some (''LOG_SERVICE=$(id); a b'', '' BENCH'')"
  using arguments_inert [of "'' BENCH''" "''LOG_SERVICE=''" "''$(id); a b''"] by (simp add: sh_blank_def)


end
