(* ===== verification/Orch_Report.thy ===== *)
theory Orch_Report
  imports Benchmark Orch_Config "HOL-Library.Char_ord" "HOL-Library.List_Lexorder" "HOL-Library.Product_Lexorder"
begin

text \<open>
  The reports of the orchestrator, \<open>benchmarks/orchestrator/src\<close>: the records of \<open>types.rs\<close>, the
  statistics of \<open>reporter/stats.rs\<close>, the summaries and recommendations of \<open>reporter/assembly.rs\<close> and the
  comparisons of \<open>reporter/comparison.rs\<close>.

  \<open>stats.rs\<close> says of itself that it is a copy of code of the tester; it is translated here once more,
  with its own names. Every value is finite, so \<open>filter(is_finite)\<close> keeps it. \<open>powi\<close> multiplies by
  repeated squaring. A \<open>BTreeMap\<close> is the list of its entries in the order of the keys; the derived
  order of \<open>CaseKey\<close> is that of triples. The id and the times of a run are left out.
\<close>

section \<open>Records\<close>

record network_metrics =
  nm_rps :: f64
  nm_latency_mean_ms :: f64
  nm_latency_p50_ms :: f64
  nm_latency_p99_ms :: f64
  nm_latency_p999_ms :: f64
  nm_latency_max_ms :: f64
  nm_bytes_transferred :: u64
  nm_error_count :: u64
  nm_total_requests :: u64
  nm_phase_model :: string
  nm_phases_present :: "string list"

record resource_metrics =
  rm_peak_rss_bytes :: u64
  rm_avg_cpu_fraction :: f64
  rm_peak_cpu_fraction :: f64
  rm_peak_open_fds :: u64

record startup_metrics =
  sm_time_to_first_response_ms :: f64
  sm_time_to_ready_ms :: f64

record binary_metrics =
  bm_size_bytes :: u64
  bm_compressed_size_bytes :: u64
  bm_docker_image_bytes :: "u64 option"

record environment_fingerprint =
  ef_client_os :: "string option"
  ef_client_arch :: "string option"
  ef_client_cpu_cores :: "u32 option"
  ef_client_region :: "string option"
  ef_server_os :: "string option"
  ef_server_arch :: "string option"
  ef_server_cpu_cores :: "u32 option"
  ef_server_region :: "string option"
  ef_network_type :: "string option"
  ef_baseline_rtt_p50_ms :: "f64 option"
  ef_baseline_rtt_p95_ms :: "f64 option"

definition fingerprint_is_empty :: "environment_fingerprint \<Rightarrow> bool" where
  "fingerprint_is_empty e \<longleftrightarrow> ef_client_os e = None \<and> ef_client_arch e = None \<and> ef_client_cpu_cores e = None \<and>
     ef_client_region e = None \<and> ef_server_os e = None \<and> ef_server_arch e = None \<and> ef_server_cpu_cores e = None \<and>
     ef_server_region e = None \<and> ef_network_type e = None \<and> ef_baseline_rtt_p50_ms e = None \<and> ef_baseline_rtt_p95_ms e = None"

record suite_result =
  sr_language :: string
  sr_runtime :: string
  sr_concurrency :: u32
  sr_repeat_index :: u32
  sr_scenario :: string
  sr_environment :: environment_fingerprint
  sr_network :: network_metrics
  sr_resources :: resource_metrics
  sr_startup :: startup_metrics
  sr_binary :: binary_metrics

record suite_baseline =
  sb_language :: string
  sb_runtime :: "string option"

record metric_summary =
  ms_sample_count :: u32
  ms_min :: f64
  ms_mean :: f64
  ms_median :: f64
  ms_max :: f64
  ms_stddev :: f64
  ms_cv :: f64
  ms_standard_error :: f64
  ms_variance :: f64
  ms_iqr :: f64
  ms_lower_fence :: f64
  ms_upper_fence :: f64
  ms_low_outlier_count :: u32
  ms_high_outlier_count :: u32
  ms_outlier_count :: u32
  ms_skewness :: f64
  ms_kurtosis :: f64
  ms_mad :: f64
  ms_ci95_lower :: f64
  ms_ci95_upper :: f64
  ms_relative_margin_of_error :: f64
  ms_quality_tier :: string

text \<open>The derived \<open>Default\<close>: every number zero, the text empty.\<close>

definition metric_summary_default :: metric_summary where
  "metric_summary_default =
     \<lparr>ms_sample_count = 0, ms_min = 0, ms_mean = 0, ms_median = 0, ms_max = 0, ms_stddev = 0, ms_cv = 0, ms_standard_error = 0,
      ms_variance = 0, ms_iqr = 0, ms_lower_fence = 0, ms_upper_fence = 0, ms_low_outlier_count = 0, ms_high_outlier_count = 0,
      ms_outlier_count = 0, ms_skewness = 0, ms_kurtosis = 0, ms_mad = 0, ms_ci95_lower = 0, ms_ci95_upper = 0,
      ms_relative_margin_of_error = 0, ms_quality_tier = []\<rparr>"

record scenario_summary =
  ss_scenario :: string
  ss_repeat_count :: u32
  ss_repeat_indices :: "u32 list"
  ss_rps :: metric_summary
  ss_latency_mean_ms :: metric_summary
  ss_latency_p50_ms :: metric_summary
  ss_latency_p99_ms :: metric_summary
  ss_latency_p999_ms :: metric_summary
  ss_latency_max_ms :: metric_summary
  ss_error_rate_pct :: metric_summary
  ss_avg_cpu_fraction :: metric_summary
  ss_peak_rss_bytes :: metric_summary
  ss_time_to_first_response_ms :: metric_summary
  ss_binary_size_bytes :: metric_summary

record case_summary =
  cs_case_label :: string
  cs_language :: string
  cs_runtime :: string
  cs_concurrency :: u32
  cs_warm :: "scenario_summary option"
  cs_cold :: "scenario_summary option"

record comparison_metric =
  cm_higher_is_better :: bool
  cm_candidate_summary :: metric_summary
  cm_baseline_summary :: metric_summary
  cm_absolute_delta :: f64
  cm_percent_delta :: f64
  cm_ratio :: f64
  cm_ratio_summary :: metric_summary
  cm_effect_size :: f64
  cm_verdict :: string

record scenario_comparison =
  sp_scenario :: string
  sp_shared_repeat_count :: u32
  sp_throughput :: comparison_metric
  sp_latency_p99 :: comparison_metric

record case_comparison =
  cp_case_label :: string
  cp_language :: string
  cp_runtime :: string
  cp_concurrency :: u32
  cp_baseline_case_label :: string
  cp_comparable :: bool
  cp_comparability_notes :: "string list"
  cp_warm :: "scenario_comparison option"
  cp_cold :: "scenario_comparison option"

section \<open>Statistics\<close>

definition REPORT_CONFIDENCE_LEVEL :: f64 where "REPORT_CONFIDENCE_LEVEL = fl (95 / 100)"
definition TUKEY_FENCE_MULTIPLIER :: f64 where "TUKEY_FENCE_MULTIPLIER = 3 / 2"
definition REPORT_BOOTSTRAP_RESAMPLES :: nat where "REPORT_BOOTSTRAP_RESAMPLES = 2048"

definition report_rng_from_values :: "f64 list \<Rightarrow> u64" where
  "report_rng_from_values values =
     (let state = foldl (\<lambda>st v. rotate_left 13 (st XOR (f64_to_bits v * 0xbf58476d1ce4e5b9)))
            (0x9e3779b97f4a7c15 XOR of_nat (length values)) values
      in if state = 0 then 0x94d049bb133111eb else state)"

text \<open>The result and the next state of the generator.\<close>

definition report_next_u64 :: "u64 \<Rightarrow> u64 \<times> u64" where
  "report_next_u64 state =
     (let state' = state * 6364136223846793005 + 1442695040888963407;
          z1 = (state' XOR drop_bit 30 state') * 0xbf58476d1ce4e5b9;
          z2 = (z1 XOR drop_bit 27 z1) * 0x94d049bb133111eb
      in (z2 XOR drop_bit 31 z2, state'))"

definition report_next_index :: "nat \<Rightarrow> u64 \<Rightarrow> nat \<times> u64" where
  "report_next_index upper state =
     (if upper = 0 then (0, state)
      else (case report_next_u64 state of (z, state') \<Rightarrow> ((unat z * upper) div 2 ^ 64, state')))"

definition report_percentile :: "f64 list \<Rightarrow> f64 \<Rightarrow> f64" where
  "report_percentile xs p =
     (if xs = [] then 0
      else if length xs = 1 then xs ! 0
      else
        let rank = f64_mul (f64_div p 100) (fl (real (length xs - 1)));
            lo = nat \<lfloor>rank\<rfloor>; hi = nat \<lceil>rank\<rceil>
        in if lo = hi then xs ! lo
           else f64_add (xs ! lo) (f64_mul (f64_sub (xs ! hi) (xs ! lo)) (f64_sub rank (fl (real lo)))))"

definition report_median :: "f64 list \<Rightarrow> f64" where
  "report_median xs =
     (if xs = [] then 0
      else if even (length xs)
      then let upper = length xs div 2 in f64_div (f64_add (xs ! (upper - 1)) (xs ! upper)) 2
      else xs ! (length xs div 2))"

definition quality_tier_for_cv :: "f64 \<Rightarrow> string" where
  "quality_tier_for_cv cv =
     (if cv \<le> fl (3 / 100) then ''excellent'' else if cv \<le> fl (8 / 100) then ''good''
      else if cv \<le> fl (15 / 100) then ''fair'' else ''unreliable'')"

fun report_draw :: "f64 list \<Rightarrow> nat \<Rightarrow> u64 \<Rightarrow> f64 list \<times> u64" where
  "report_draw values 0 st = ([], st)"
| "report_draw values (Suc k) st =
     (let (i, st1) = report_next_index (length values) st; (rest, st2) = report_draw values k st1
      in (values ! i # rest, st2))"

fun report_resamples :: "f64 list \<Rightarrow> nat \<Rightarrow> u64 \<Rightarrow> f64 list" where
  "report_resamples values 0 st = []"
| "report_resamples values (Suc k) st =
     (let (sample, st1) = report_draw values (length values) st
      in report_median (sort sample) # report_resamples values k st1)"

definition report_square :: "f64 \<Rightarrow> f64" where "report_square x = f64_mul x x"

text \<open>The sum of squares around a mean over one less than the count.\<close>

definition report_variance :: "f64 \<Rightarrow> f64 list \<Rightarrow> f64" where
  "report_variance mean xs =
     f64_div (f64_sum (map (\<lambda>v. report_square (f64_sub v mean)) xs)) (f64_sub (fl (real (length xs))) 1)"

definition report_mean :: "f64 list \<Rightarrow> f64" where
  "report_mean xs = f64_div (f64_sum xs) (fl (real (length xs)))"

definition report_interval :: "f64 list \<Rightarrow> f64 \<times> f64 \<times> f64" where
  "report_interval values =
     (if values = [] then (0, 0, 0)
      else if length values = 1 then (0, values ! 0, values ! 0)
      else
        let estimates = sort (report_resamples values REPORT_BOOTSTRAP_RESAMPLES (report_rng_from_values values));
            variance = report_variance (report_mean estimates) estimates;
            tail = f64_mul (f64_sub 1 REPORT_CONFIDENCE_LEVEL) 50
        in (fl (sqrt variance), report_percentile estimates tail, report_percentile estimates (f64_sub 100 tail)))"

definition third_moment :: "f64 \<Rightarrow> f64 list \<Rightarrow> f64" where
  "third_moment mean xs =
     f64_div (f64_sum (map (\<lambda>v. let d = f64_sub v mean in f64_mul d (f64_mul d d)) xs)) (fl (real (length xs)))"

definition fourth_moment :: "f64 \<Rightarrow> f64 list \<Rightarrow> f64" where
  "fourth_moment mean xs =
     f64_div (f64_sum (map (\<lambda>v. let d = f64_sub v mean; s = f64_mul d d in f64_mul s s) xs)) (fl (real (length xs)))"

definition count_u32 :: "'a list \<Rightarrow> u32" where "count_u32 xs = of_nat (length xs)"

definition summarise_metric :: "f64 list \<Rightarrow> metric_summary" where
  "summarise_metric vs =
     (if vs = [] then metric_summary_default
      else
        let xs = sort vs; n = length xs;
            mean = report_mean xs; median = report_median xs;
            variance = (if 1 < n then report_variance mean xs else 0);
            stddev = fl (sqrt variance);
            cv = (if F64_EPSILON < \<bar>mean\<bar> then f64_div stddev \<bar>mean\<bar> else 0);
            p25 = report_percentile xs 25; p75 = report_percentile xs 75;
            iqr = f64_sub p75 p25;
            lower_fence = f64_sub p25 (f64_mul iqr TUKEY_FENCE_MULTIPLIER);
            upper_fence = f64_add p75 (f64_mul iqr TUKEY_FENCE_MULTIPLIER);
            low = count_u32 (filter (\<lambda>v. v < lower_fence) xs);
            high = count_u32 (filter (\<lambda>v. upper_fence < v) xs);
            skew = (if 2 < n \<and> F64_EPSILON < stddev
              then f64_div (third_moment mean xs) (f64_mul stddev (f64_mul stddev stddev)) else 0);
            kurt = (if 3 < n \<and> F64_EPSILON < stddev
              then f64_sub (f64_div (fourth_moment mean xs)
                (f64_mul (f64_mul stddev stddev) (f64_mul stddev stddev))) 3 else 0);
            (se, ci_lower, ci_upper) = report_interval xs
        in \<lparr>ms_sample_count = of_nat n, ms_min = xs ! 0, ms_mean = mean, ms_median = median, ms_max = last xs,
            ms_stddev = stddev, ms_cv = cv, ms_standard_error = se, ms_variance = variance, ms_iqr = iqr,
            ms_lower_fence = lower_fence, ms_upper_fence = upper_fence, ms_low_outlier_count = low,
            ms_high_outlier_count = high, ms_outlier_count = low + high, ms_skewness = skew, ms_kurtosis = kurt,
            ms_mad = report_median (sort (map (\<lambda>v. \<bar>f64_sub v median\<bar>) xs)),
            ms_ci95_lower = ci_lower, ms_ci95_upper = ci_upper,
            ms_relative_margin_of_error = (if F64_EPSILON < \<bar>median\<bar>
              then f64_div (f64_div (f64_sub ci_upper ci_lower) 2) \<bar>median\<bar> else 0),
            ms_quality_tier = quality_tier_for_cv cv\<rparr>)"

definition confidence_intervals_overlap :: "metric_summary \<Rightarrow> metric_summary \<Rightarrow> bool" where
  "confidence_intervals_overlap a b \<longleftrightarrow> ms_ci95_lower a \<le> ms_ci95_upper b \<and> ms_ci95_lower b \<le> ms_ci95_upper a"

definition cohens_d :: "f64 list \<Rightarrow> f64 list \<Rightarrow> f64" where
  "cohens_d candidate baseline =
     (if length candidate < 2 \<or> length baseline < 2 then 0
      else
        let c_mean = report_mean candidate; b_mean = report_mean baseline;
            c_var = report_variance c_mean candidate; b_var = report_variance b_mean baseline;
            pooled = f64_div (f64_add (f64_mul (fl (real (length candidate - 1))) c_var)
                (f64_mul (fl (real (length baseline - 1))) b_var))
              (fl (real (length candidate + length baseline - 2)))
        in if pooled \<le> F64_EPSILON then 0 else f64_div (f64_sub c_mean b_mean) (fl (sqrt pooled)))"

section \<open>Summaries\<close>

type_synonym case_key = "string \<times> string \<times> u32"
type_synonym grouped_results = "(case_key \<times> suite_result list) list"

definition result_key :: "suite_result \<Rightarrow> case_key" where
  "result_key r = (sr_language r, sr_runtime r, sr_concurrency r)"

definition group_case_results :: "suite_result list \<Rightarrow> grouped_results" where
  "group_case_results rs = map (\<lambda>k. (k, filter (\<lambda>r. result_key r = k) rs)) (sort (remdups (map result_key rs)))"

definition result_scenario :: "suite_result \<Rightarrow> string" where
  "result_scenario r =
     (if sr_scenario r = [] \<or> sr_scenario r = ''unknown''
      then if nm_total_requests (sr_network r) \<le> 100 then ''cold'' else ''warm''
      else sr_scenario r)"

definition scenario_results :: "suite_result list \<Rightarrow> string \<Rightarrow> suite_result list" where
  "scenario_results rs scenario = filter (\<lambda>r. result_scenario r = scenario) rs"

definition result_error_rate :: "suite_result \<Rightarrow> f64" where
  "result_error_rate r =
     (if nm_total_requests (sr_network r) = 0 then 0
      else f64_mul (f64_div (fl (real (unat (nm_error_count (sr_network r)))))
        (fl (real (unat (nm_total_requests (sr_network r)))))) 100)"

definition summarise_scenario :: "suite_result list \<Rightarrow> string \<Rightarrow> scenario_summary option" where
  "summarise_scenario rs scenario =
     (if rs = [] then None
      else let indices = remdups_adj (sort (map sr_repeat_index rs));
               over = (\<lambda>f. summarise_metric (map f rs))
        in Some \<lparr>ss_scenario = scenario, ss_repeat_count = count_u32 indices, ss_repeat_indices = indices,
            ss_rps = over (\<lambda>r. nm_rps (sr_network r)),
            ss_latency_mean_ms = over (\<lambda>r. nm_latency_mean_ms (sr_network r)),
            ss_latency_p50_ms = over (\<lambda>r. nm_latency_p50_ms (sr_network r)),
            ss_latency_p99_ms = over (\<lambda>r. nm_latency_p99_ms (sr_network r)),
            ss_latency_p999_ms = over (\<lambda>r. nm_latency_p999_ms (sr_network r)),
            ss_latency_max_ms = over (\<lambda>r. nm_latency_max_ms (sr_network r)),
            ss_error_rate_pct = over result_error_rate,
            ss_avg_cpu_fraction = over (\<lambda>r. rm_avg_cpu_fraction (sr_resources r)),
            ss_peak_rss_bytes = over (\<lambda>r. fl (real (unat (rm_peak_rss_bytes (sr_resources r))))),
            ss_time_to_first_response_ms = over (\<lambda>r. sm_time_to_first_response_ms (sr_startup r)),
            ss_binary_size_bytes = over (\<lambda>r. fl (real (unat (bm_size_bytes (sr_binary r)))))\<rparr>)"

definition primary_rps :: "case_summary \<Rightarrow> f64" where
  "primary_rps c = (case cs_warm c of Some s \<Rightarrow> ms_median (ss_rps s)
     | None \<Rightarrow> (case cs_cold c of Some s \<Rightarrow> ms_median (ss_rps s) | None \<Rightarrow> 0))"

definition case_label_of :: "string \<Rightarrow> u32 \<Rightarrow> string" where
  "case_label_of language concurrency = language @ '' c='' @ decimal (unat concurrency)"

definition case_summary_of :: "case_key \<times> suite_result list \<Rightarrow> case_summary" where
  "case_summary_of g = (case g of ((language, runtime, concurrency), rs) \<Rightarrow>
     \<lparr>cs_case_label = case_label_of language concurrency, cs_language = language, cs_runtime = runtime,
      cs_concurrency = concurrency, cs_warm = summarise_scenario (scenario_results rs ''warm'') ''warm'',
      cs_cold = summarise_scenario (scenario_results rs ''cold'') ''cold''\<rparr>)"

text \<open>Sorted by descending rate; the sort is stable.\<close>

definition summarise_case_groups :: "grouped_results \<Rightarrow> case_summary list" where
  "summarise_case_groups grouped = sort_key (\<lambda>c. - primary_rps c) (map case_summary_of grouped)"

definition summarise_results :: "suite_result list \<Rightarrow> case_summary list" where
  "summarise_results rs = summarise_case_groups (group_case_results rs)"

section \<open>Comparisons\<close>

definition MAX_COMPARABLE_RTT_RATIO :: f64 where "MAX_COMPARABLE_RTT_RATIO = 3 / 2"

definition key_matches_baseline :: "string \<Rightarrow> string \<Rightarrow> suite_baseline \<Rightarrow> bool" where
  "key_matches_baseline language runtime b \<longleftrightarrow> eq_ignore_ascii_case language (sb_language b) \<and>
     (case sb_runtime b of Some r \<Rightarrow> eq_ignore_ascii_case runtime r | None \<Rightarrow> True)"

definition text_mismatch :: "string \<Rightarrow> string option \<Rightarrow> string option \<Rightarrow> string list" where
  "text_mismatch label c b = (case (c, b) of
     (Some x, Some y) \<Rightarrow> (if eq_ignore_ascii_case x y then [] else [label @ '' differs ('' @ x @ '' vs '' @ y @ '')''])
   | _ \<Rightarrow> [])"

definition number_mismatch :: "string \<Rightarrow> u32 option \<Rightarrow> u32 option \<Rightarrow> string list" where
  "number_mismatch label c b = (case (c, b) of
     (Some x, Some y) \<Rightarrow> (if x = y then []
        else [label @ '' differs ('' @ decimal (unat x) @ '' vs '' @ decimal (unat y) @ '')''])
   | _ \<Rightarrow> [])"

definition materially_different_ratio :: "f64 option \<Rightarrow> f64 option \<Rightarrow> f64 option" where
  "materially_different_ratio c b = (case (c, b) of
     (Some x, Some y) \<Rightarrow> (if x \<le> F64_EPSILON \<or> y \<le> F64_EPSILON then None else Some (f64_div (max x y) (min x y)))
   | _ \<Rightarrow> None)"

definition rtt_differs :: "string \<Rightarrow> f64 option \<Rightarrow> f64 option \<Rightarrow> string" where
  "rtt_differs p c b = ''baseline RTT '' @ p @ '' differs materially ('' @ fixed 2 (or_default 0 c) @ '' ms vs '' @
     fixed 2 (or_default 0 b) @ '' ms)''"

definition environment_notes :: "environment_fingerprint \<Rightarrow> environment_fingerprint \<Rightarrow> string list" where
  "environment_notes c b =
     text_mismatch ''client OS'' (ef_client_os c) (ef_client_os b) @
     text_mismatch ''client architecture'' (ef_client_arch c) (ef_client_arch b) @
     number_mismatch ''client CPU cores'' (ef_client_cpu_cores c) (ef_client_cpu_cores b) @
     text_mismatch ''client region'' (ef_client_region c) (ef_client_region b) @
     text_mismatch ''server OS'' (ef_server_os c) (ef_server_os b) @
     text_mismatch ''server architecture'' (ef_server_arch c) (ef_server_arch b) @
     number_mismatch ''server CPU cores'' (ef_server_cpu_cores c) (ef_server_cpu_cores b) @
     text_mismatch ''server region'' (ef_server_region c) (ef_server_region b) @
     (case (ef_network_type c, ef_network_type b) of
        (Some x, Some y) \<Rightarrow> text_mismatch ''network type'' (Some x) (Some y)
      | _ \<Rightarrow> [''network type is missing from the benchmark environment fingerprint'']) @
     (case materially_different_ratio (ef_baseline_rtt_p50_ms c) (ef_baseline_rtt_p50_ms b) of
        Some ratio \<Rightarrow> (if MAX_COMPARABLE_RTT_RATIO < ratio
          then [rtt_differs ''p50'' (ef_baseline_rtt_p50_ms c) (ef_baseline_rtt_p50_ms b)] else [])
      | None \<Rightarrow> [''baseline RTT p50 is missing from the benchmark environment fingerprint'']) @
     (case materially_different_ratio (ef_baseline_rtt_p95_ms c) (ef_baseline_rtt_p95_ms b) of
        Some ratio \<Rightarrow> (if MAX_COMPARABLE_RTT_RATIO < ratio
          then [rtt_differs ''p95'' (ef_baseline_rtt_p95_ms c) (ef_baseline_rtt_p95_ms b)] else [])
      | None \<Rightarrow> [])"

definition environment_comparability_notes :: "environment_fingerprint \<Rightarrow> environment_fingerprint \<Rightarrow> string list" where
  "environment_comparability_notes c b =
     (let missing = (if fingerprint_is_empty c then [''candidate benchmark environment fingerprint is missing''] else []) @
            (if fingerprint_is_empty b then [''baseline benchmark environment fingerprint is missing''] else [])
      in if missing \<noteq> [] then missing else remdups_adj (sort (environment_notes c b)))"

text \<open>A map from repeats to results holds the last result of each repeat.\<close>

definition by_repeat :: "suite_result list \<Rightarrow> (u32 \<times> suite_result) list" where
  "by_repeat rs = map (\<lambda>k. (k, last (filter (\<lambda>r. sr_repeat_index r = k) rs))) (sort (remdups (map sr_repeat_index rs)))"

definition paired_ratio_values :: "suite_result list \<Rightarrow> suite_result list \<Rightarrow> (suite_result \<Rightarrow> f64) \<Rightarrow> f64 list" where
  "paired_ratio_values candidates baselines metric =
     List.map_filter (\<lambda>(k, c). case map_of (by_repeat baselines) k of
         None \<Rightarrow> None
       | Some b \<Rightarrow> (if \<bar>metric b\<bar> \<le> F64_EPSILON then None else Some (f64_div (metric c) (metric b)))) (by_repeat candidates)"

definition comparison_verdict :: "bool \<Rightarrow> f64 \<Rightarrow> metric_summary \<Rightarrow> metric_summary \<Rightarrow> string \<Rightarrow> string \<Rightarrow> string" where
  "comparison_verdict higher percent c b lower_verdict higher_verdict =
     (if \<bar>percent\<bar> \<le> 5 \<and> confidence_intervals_overlap c b then ''same within 5%''
      else if higher then (if 0 \<le> percent then higher_verdict else lower_verdict)
      else if percent \<le> 0 then lower_verdict else higher_verdict)"

definition build_comparison_metric ::
  "suite_result list \<Rightarrow> suite_result list \<Rightarrow> bool \<Rightarrow> (suite_result \<Rightarrow> f64) \<Rightarrow> string \<Rightarrow> string \<Rightarrow> comparison_metric" where
  "build_comparison_metric candidates baselines higher metric lower_verdict higher_verdict =
     (let cv = map metric candidates; bv = map metric baselines;
          c = summarise_metric cv; b = summarise_metric bv;
          delta = f64_sub (ms_median c) (ms_median b);
          percent = (if F64_EPSILON < \<bar>ms_median b\<bar> then f64_mul (f64_div delta (ms_median b)) 100 else 0)
      in \<lparr>cm_higher_is_better = higher, cm_candidate_summary = c, cm_baseline_summary = b, cm_absolute_delta = delta,
          cm_percent_delta = percent,
          cm_ratio = (if F64_EPSILON < \<bar>ms_median b\<bar> then f64_div (ms_median c) (ms_median b) else 0),
          cm_ratio_summary = summarise_metric (paired_ratio_values candidates baselines metric),
          cm_effect_size = cohens_d cv bv,
          cm_verdict = (if cv = [] \<or> bv = [] then ''insufficient data''
            else comparison_verdict higher percent c b lower_verdict higher_verdict)\<rparr>)"

definition build_scenario_comparison :: "suite_result list \<Rightarrow> suite_result list \<Rightarrow> string \<Rightarrow> scenario_comparison option" where
  "build_scenario_comparison candidates baselines scenario =
     (if candidates = [] \<or> baselines = [] then None
      else Some \<lparr>sp_scenario = scenario,
        sp_shared_repeat_count = count_u32 (paired_ratio_values candidates baselines (\<lambda>r. nm_rps (sr_network r))),
        sp_throughput = build_comparison_metric candidates baselines True (\<lambda>r. nm_rps (sr_network r)) ''slower'' ''faster'',
        sp_latency_p99 = build_comparison_metric candidates baselines False (\<lambda>r. nm_latency_p99_ms (sr_network r))
          ''lower latency'' ''higher latency''\<rparr>)"

definition summary_key :: "case_summary \<Rightarrow> case_key" where
  "summary_key c = (cs_language c, cs_runtime c, cs_concurrency c)"

definition matches_baseline :: "suite_baseline \<Rightarrow> case_summary \<Rightarrow> bool" where
  "matches_baseline b c = key_matches_baseline (cs_language c) (cs_runtime c) b"

definition compare_with :: "grouped_results \<Rightarrow> case_summary \<Rightarrow> case_summary \<Rightarrow> case_comparison option" where
  "compare_with grouped summary base = (case (map_of grouped (summary_key summary), map_of grouped (summary_key base)) of
     (Some cr, Some br) \<Rightarrow>
       (let notes = (if cr = [] \<or> br = [] then [''candidate or baseline benchmark result is missing'']
              else environment_comparability_notes (sr_environment (hd cr)) (sr_environment (hd br)));
            scen = (\<lambda>s. if notes = [] then build_scenario_comparison (scenario_results cr s) (scenario_results br s) s else None)
        in Some \<lparr>cp_case_label = cs_case_label summary, cp_language = cs_language summary, cp_runtime = cs_runtime summary,
            cp_concurrency = cs_concurrency summary, cp_baseline_case_label = cs_case_label base, cp_comparable = (notes = []),
            cp_comparability_notes = notes, cp_warm = scen ''warm'', cp_cold = scen ''cold''\<rparr>)
   | _ \<Rightarrow> None)"

definition compare_case :: "grouped_results \<Rightarrow> case_summary list \<Rightarrow> suite_baseline \<Rightarrow> case_summary \<Rightarrow> case_comparison option" where
  "compare_case grouped summaries b summary =
     (if matches_baseline b summary then None
      else (case find (\<lambda>c. cs_concurrency c = cs_concurrency summary \<and> matches_baseline b c) summaries of
          None \<Rightarrow> None | Some base \<Rightarrow> compare_with grouped summary base))"

definition warm_ratio :: "case_comparison \<Rightarrow> f64" where
  "warm_ratio c = (case cp_warm c of Some w \<Rightarrow> cm_ratio (sp_throughput w) | None \<Rightarrow> 0)"

text \<open>Comparable ones first, then by descending ratio, then by label.\<close>

definition build_comparisons :: "grouped_results \<Rightarrow> case_summary list \<Rightarrow> suite_baseline \<Rightarrow> case_comparison list" where
  "build_comparisons grouped summaries b =
     sort_key (\<lambda>c. (\<not> cp_comparable c, - warm_ratio c, cp_case_label c))
       (List.map_filter (compare_case grouped summaries b) summaries)"

section \<open>Recommendations and the report\<close>

definition collect_observed_phases :: "suite_result list \<Rightarrow> string list" where
  "collect_observed_phases rs =
     foldl (\<lambda>seen p. if p \<in> set seen then seen else seen @ [p]) [] (concat (map (\<lambda>r. nm_phases_present (sr_network r)) rs))"

definition scenario_label :: "case_summary \<Rightarrow> string \<Rightarrow> string" where
  "scenario_label c scenario = cs_language c @ '' '' @ scenario @ '' c='' @ decimal (unat (cs_concurrency c))"

definition scenarios_of :: "case_summary \<Rightarrow> scenario_summary list" where
  "scenarios_of c = (case cs_warm c of Some s \<Rightarrow> [s] | None \<Rightarrow> []) @ (case cs_cold c of Some s \<Rightarrow> [s] | None \<Rightarrow> [])"

definition unreliable :: "scenario_summary \<Rightarrow> bool" where
  "unreliable s \<longleftrightarrow> ms_quality_tier (ss_rps s) = ''unreliable'' \<or> ms_quality_tier (ss_latency_p99_ms s) = ''unreliable''"

definition margin_above :: "f64 \<Rightarrow> scenario_summary \<Rightarrow> bool" where
  "margin_above m s \<longleftrightarrow> m < ms_relative_margin_of_error (ss_rps s) \<or> m < ms_relative_margin_of_error (ss_latency_p99_ms s)"

definition labels_where :: "(scenario_summary \<Rightarrow> bool) \<Rightarrow> case_summary list \<Rightarrow> string list" where
  "labels_where P cs = concat (map (\<lambda>c. map (\<lambda>s. scenario_label c (ss_scenario s)) (filter P (scenarios_of c))) cs)"

definition recommend_for :: "string \<Rightarrow> string list \<Rightarrow> string list" where
  "recommend_for text labels = (if labels = [] then [] else [text @ join_with '', '' labels @ ''.''])"

definition missing_phase :: "string \<Rightarrow> string" where
  "missing_phase phase = ''Observed benchmark lifecycle is missing `'' @ phase @
     ''`; rerun with the full benchmark preset before publication.''"

definition build_recommendations :: "suite_result list \<Rightarrow> case_summary list \<Rightarrow> case_comparison list \<Rightarrow> string list" where
  "build_recommendations rs summaries comparisons =
     (let seen = collect_observed_phases rs
      in map missing_phase (filter (\<lambda>p. p \<notin> set seen) [''environment-check'', ''stability-check'', ''pilot'', ''measured'']) @
         (if ''cooldown'' \<in> set seen then []
          else [''Cooldown phase is missing from the observed lifecycle; collect post-measured cooldown samples for publication-grade runs.'']) @
         recommend_for ''Repeat count is below the default publication target (3) for: ''
           (labels_where (\<lambda>s. ss_repeat_count s < 3) summaries) @
         recommend_for ''Repeat variance remains unreliable for: '' (labels_where unreliable summaries) @
         recommend_for ''Confidence intervals remain wider than the default 5% publication target for: ''
           (labels_where (margin_above (fl (5 / 100))) summaries) @
         recommend_for ''Baseline comparisons are not publication-grade because benchmark environments do not match closely enough for: ''
           (map (\<lambda>c. cp_case_label c @ '' vs '' @ cp_baseline_case_label c) (filter (\<lambda>c. \<not> cp_comparable c) comparisons)))"

record report_aggregation =
  ra_grouped_by :: "string list"
  ra_ranking_metric :: string
  ra_primary_estimator :: string
  ra_confidence_level :: f64
  ra_outlier_policy :: string
  ra_uncertainty_method :: string
  ra_anti_cherry_picking_policy :: string
  ra_publication_ready :: bool
  ra_rerun_recommended :: bool
  ra_recommendations :: "string list"
  ra_case_summaries :: "case_summary list"
  ra_comparisons :: "case_comparison list"

definition build_report :: "suite_baseline option \<Rightarrow> suite_result list \<Rightarrow> report_aggregation" where
  "build_report baseline rs =
     (let grouped = group_case_results rs;
          summaries = summarise_case_groups grouped;
          comparisons = (case baseline of Some b \<Rightarrow> build_comparisons grouped summaries b | None \<Rightarrow> []);
          recommendations = build_recommendations rs summaries comparisons
      in \<lparr>ra_grouped_by = [''language'', ''runtime'', ''concurrency'', ''scenario''], ra_ranking_metric = ''warm req/s'',
          ra_primary_estimator = ''median'', ra_confidence_level = REPORT_CONFIDENCE_LEVEL,
          ra_outlier_policy = ''Tukey 1.5xIQR fences flag outliers for audit while repeated-launch summaries keep all launches and avoid cherry-picking.'',
          ra_uncertainty_method = ''Percentile bootstrap confidence intervals around the median with deterministic resampling.'',
          ra_anti_cherry_picking_policy = ''Case summaries aggregate repeated launches by scenario; raw results are retained and no single best run is used for ranking.'',
          ra_publication_ready = (recommendations = []), ra_rerun_recommended = (recommendations \<noteq> []),
          ra_recommendations = recommendations, ra_case_summaries = summaries, ra_comparisons = comparisons\<rparr>)"

end
