(* ===== verification/Orch_Report_Properties.thy ===== *)
theory Orch_Report_Properties
  imports Orch_Report Benchmark_Properties
begin

text \<open>
  What the reports of the orchestrator can be relied on for: summaries that do not depend on the order
  of the launches and stay within the sample, statistics that agree with those of the tester, a relation of
  comparability that is symmetric; and what the recommendations do not look at.
\<close>

section \<open>The copied statistics\<close>

lemma report_generator: "report_rng_from_values = rng_from_values" "report_next_u64 = next_u64" "report_next_index = next_index"
proof -
  show nx: "report_next_u64 = next_u64" by (intro ext) (simp only: report_next_u64_def next_u64_def)
  show "report_next_index = next_index" by (intro ext) (simp only: report_next_index_def next_index_def nx)
qed (intro ext, simp only: report_rng_from_values_def rng_from_values_def)

lemma report_percentile_eq: "report_percentile = benchmark_percentile"
  by (intro ext) (simp only: report_percentile_def benchmark_percentile_def)

lemma report_median_eq: "report_median = median_from_sorted"
  by (intro ext) (simp only: report_median_def median_from_sorted_def)

lemma report_draw_eq: "report_draw values k st = draw values k st"
  by (induction k arbitrary: st) (simp_all add: report_generator)

lemma report_resamples_eq: "report_resamples values k st = resample_medians values k st"
  by (induction k arbitrary: st) (simp_all add: report_draw_eq report_median_eq)

lemma report_interval_eq: "report_interval values = bootstrap_median_interval values"
  by (simp add: report_interval_def bootstrap_median_interval_def report_resamples_eq report_generator report_percentile_eq
    report_variance_def report_mean_def report_square_def REPORT_BOOTSTRAP_RESAMPLES_def ADAPTIVE_BOOTSTRAP_RESAMPLES_def
    REPORT_CONFIDENCE_LEVEL_def ADAPTIVE_CONFIDENCE_LEVEL_def Let_def)

lemma middle_of_odd:
  assumes "odd (length xs)" "length xs \<le> 2 ^ 53"
  shows "benchmark_percentile xs 50 = median_from_sorted xs"
proof (cases "length xs = 1")
  case False
  obtain k where k: "length xs = 2 * k + 1" using assms(1) by (rule oddE)
  have half: "fl (50 / 100) = 1 / 2" using fl_dyadic [of 1 "-1"] by (simp add: power_int_minus)
  have n: "fl (real (2 * k)) = real (2 * k)" by (rule fl.rnd_nat) (use k assms(2) in simp)
  have "fl (real k) = real k" by (rule fl.rnd_nat) (use k assms(2) in simp)
  moreover have "1 / 2 * real (2 * k) = real k" "length xs - 1 = 2 * k" using k by simp_all
  ultimately have "f64_mul (f64_div 50 100) (fl (real (length xs - 1))) = real k" by (simp only: f64_ops half n)
  then show ?thesis using False k by (simp add: benchmark_percentile_def median_from_sorted_def Let_def)
qed (simp add: benchmark_percentile_def median_from_sorted_def)

text \<open>C14: The report and the tester's stop rule judge a sample alike. Over an odd number of samples whose median is
  not about zero, the tester calls a target for the relative error reached exactly when the
  margin in the orchestrator's summary of the same samples is within it, though each has its own copy of
  the generator, the bootstrap and the percentiles.\<close>

theorem margin_agrees_with_stop_rule:
  assumes "odd (length xs)" "2 \<le> length xs" "length xs \<le> 2 ^ 53" "F64_EPSILON < \<bar>ms_median (summarise_metric xs)\<bar>"
    and "cr_target_relative_error c = Some target" "cr_target_absolute_error c = None"
  shows "meets_targets c xs \<longleftrightarrow> ms_relative_margin_of_error (summarise_metric xs) \<le> target"
proof -
  obtain se lo hi where b: "bootstrap_median_interval (sort xs) = (se, lo, hi)" by (metis prod_cases3)
  have ne: "xs \<noteq> []" using assms(2) by auto
  have m: "benchmark_percentile (sort xs) 50 = median_from_sorted (sort xs)"
    by (rule middle_of_odd) (use assms(1,3) in simp_all)
  have s: "ms_median (summarise_metric xs) = median_from_sorted (sort xs)"
    "ms_relative_margin_of_error (summarise_metric xs) = (if F64_EPSILON < \<bar>median_from_sorted (sort xs)\<bar>
       then f64_div (f64_div (f64_sub hi lo) 2) \<bar>median_from_sorted (sort xs)\<bar> else 0)"
    using ne b by (simp_all add: summarise_metric_def Let_def report_interval_eq report_median_eq)
  have "median_error_bounds xs = Some \<lparr>me_median = median_from_sorted (sort xs),
      me_absolute_half_width = f64_div (f64_sub hi lo) 2\<rparr>"
    using assms(2) b m by (simp add: median_error_bounds_def Let_def)
  then show ?thesis using assms(4-6) s by (simp add: meets_targets_def)
qed

section \<open>Summaries\<close>

lemma summary_parts:
  assumes "xs \<noteq> []" "report_interval (sort xs) = (se, lo, hi)"
  shows "ms_sample_count (summarise_metric xs) = of_nat (length xs)" "ms_min (summarise_metric xs) = sort xs ! 0"
    "ms_max (summarise_metric xs) = last (sort xs)" "ms_median (summarise_metric xs) = report_median (sort xs)"
    "ms_ci95_lower (summarise_metric xs) = lo" "ms_ci95_upper (summarise_metric xs) = hi"
    "ms_outlier_count (summarise_metric xs) = ms_low_outlier_count (summarise_metric xs) + ms_high_outlier_count (summarise_metric xs)"
    "\<exists>a b. ms_low_outlier_count (summarise_metric xs) = count_u32 (filter (\<lambda>v. v < a) (sort xs)) \<and>
       ms_high_outlier_count (summarise_metric xs) = count_u32 (filter (\<lambda>v. b < v) (sort xs))"
  using assms by (auto simp: summarise_metric_def Let_def)

lemma sort_ends:
  assumes "(xs :: 'a :: linorder list) \<noteq> []" shows "sort xs ! 0 = Min (set xs)" "last (sort xs) = Max (set xs)"
proof -
  have ne: "sort xs \<noteq> []" using assms by (metis length_0_conv length_sort)
  have "sort xs ! 0 \<le> y \<and> y \<le> last (sort xs)" if "y \<in> set xs" for y
  proof -
    have "y \<in> set (sort xs)" using that by simp
    then obtain i where i: "i < length (sort xs)" "sort xs ! i = y" unfolding in_set_conv_nth by blast
    have "sort xs ! 0 \<le> sort xs ! i" "sort xs ! i \<le> sort xs ! (length (sort xs) - 1)"
      using i(1) by (intro sorted_nth_mono sorted_sort; simp)+
    then show ?thesis using i(2) ne by (simp add: last_conv_nth)
  qed
  moreover have "sort xs ! 0 \<in> set (sort xs)" "last (sort xs) \<in> set (sort xs)" using ne by (simp_all del: set_sort)
  then have "sort xs ! 0 \<in> set xs" "last (sort xs) \<in> set xs" by simp_all
  ultimately show "sort xs ! 0 = Min (set xs)" "last (sort xs) = Max (set xs)"
    by (auto intro!: Min_eqI [symmetric] Max_eqI [symmetric])
qed

lemma interval_above_min:
  assumes "2 \<le> length xs" "\<forall>x \<in> set xs. fl x = x" "0 \<le> p" "p \<le> 100"
  shows "Min (set xs) \<le> benchmark_percentile (sort (resample_medians xs ADAPTIVE_BOOTSTRAP_RESAMPLES st)) p"
proof -
  define es where "es = sort (resample_medians xs ADAPTIVE_BOOTSTRAP_RESAMPLES st)"
  have ne: "xs \<noteq> []" using assms(1) by auto
  have es: "length es = 2048" "\<forall>m \<in> set es. Min (set xs) \<le> m \<and> fl m = m"
    using resample_medians_sound [OF ne assms(2), of ADAPTIVE_BOOTSTRAP_RESAMPLES st]
    by (simp_all add: es_def ADAPTIVE_BOOTSTRAP_RESAMPLES_def)
  then have es0: "es \<noteq> []" by auto
  have "benchmark_percentile es p = percentile_from_sorted es p"
    unfolding benchmark_percentile_eq by (rule percentile_cases) (use es assms(3,4) es0 in \<open>auto simp: es_def\<close>)
  moreover have "es ! 0 \<le> percentile_from_sorted es p"
    by (rule percentile_ge_min) (use es assms(3,4) es0 in \<open>auto simp: es_def\<close>)
  moreover have "Min (set xs) \<le> es ! 0" using es es0 by simp
  ultimately show ?thesis by (simp add: es_def)
qed

lemma report_tail:
  defines "tail \<equiv> f64_mul (f64_sub 1 ADAPTIVE_CONFIDENCE_LEVEL) 50"
  shows "0 \<le> tail" "tail \<le> 100" "0 \<le> f64_sub 100 tail" "f64_sub 100 tail \<le> 100"
proof -
  have level: "0 \<le> ADAPTIVE_CONFIDENCE_LEVEL" "ADAPTIVE_CONFIDENCE_LEVEL \<le> 1"
    using fl.rnd_le_nat [of "95 / 100" 1] by (simp_all add: ADAPTIVE_CONFIDENCE_LEVEL_def fl.rnd_nonneg)
  then have d: "0 \<le> f64_sub 1 ADAPTIVE_CONFIDENCE_LEVEL" "f64_sub 1 ADAPTIVE_CONFIDENCE_LEVEL \<le> 1"
    using fl.rnd_le_nat [of "1 - ADAPTIVE_CONFIDENCE_LEVEL" 1] by (simp_all add: f64_sub_def fl.rnd_nonneg)
  then show t: "0 \<le> tail" "tail \<le> 100"
    using fl.rnd_le_nat [of "f64_sub 1 ADAPTIVE_CONFIDENCE_LEVEL * 50" 100] by (simp_all add: tail_def f64_mul_def fl.rnd_nonneg)
  show "0 \<le> f64_sub 100 tail" "f64_sub 100 tail \<le> 100"
    using t fl.rnd_le_nat [of "100 - tail" 100] by (simp_all add: f64_sub_def fl.rnd_nonneg)
qed

lemma report_interval_sound:
  assumes "xs \<noteq> []" "\<forall>x \<in> set xs. fl x = x" "report_interval xs = (se, lo, hi)"
  shows "Min (set xs) \<le> lo \<and> Min (set xs) \<le> hi \<and> (Min (set xs) = Max (set xs) \<longrightarrow> lo = Max (set xs) \<and> hi = Max (set xs))"
proof (cases "length xs = 1")
  case True
  then obtain x where "xs = [x]" by (cases xs) auto
  then show ?thesis using assms(3) by (simp add: report_interval_def)
next
  case False
  then have two: "2 \<le> length xs" using assms(1) by (cases xs; cases "tl xs") simp_all
  have "lo = hi \<and> hi = Max (set xs)" if eq: "Min (set xs) = Max (set xs)"
  proof -
    let ?v = "Max (set xs)"
    have "\<forall>x \<in> set xs. x = ?v" using eq by (metis List.finite_set Max_ge Min_le order_antisym)
    then have r: "xs = replicate (length xs) ?v" by (metis replicate_length_same)
    have v: "fl ?v = ?v" using assms(1,2) by simp
    obtain se' where "bootstrap_median_interval (replicate (length xs) ?v) = (se', ?v, ?v)"
      using bootstrap_constant [OF two v] by blast
    then have "bootstrap_median_interval xs = (se', ?v, ?v)" by (simp only: r [symmetric])
    then show ?thesis using assms(3) by (simp add: report_interval_eq)
  qed
  moreover have "lo = benchmark_percentile (sort (resample_medians xs ADAPTIVE_BOOTSTRAP_RESAMPLES (rng_from_values xs)))
        (f64_mul (f64_sub 1 ADAPTIVE_CONFIDENCE_LEVEL) 50)"
      "hi = benchmark_percentile (sort (resample_medians xs ADAPTIVE_BOOTSTRAP_RESAMPLES (rng_from_values xs)))
        (f64_sub 100 (f64_mul (f64_sub 1 ADAPTIVE_CONFIDENCE_LEVEL) 50))"
    using assms(1,3) False unfolding report_interval_eq bootstrap_median_interval_def Let_def by (simp_all only: if_False prod.inject)
  then have "Min (set xs) \<le> lo" "Min (set xs) \<le> hi"
    using interval_above_min [OF two assms(2)] report_tail by (simp_all only:)
  ultimately show ?thesis by simp
qed


section \<open>What the recommendations do not look at\<close>

definition with_errors :: "(suite_result \<Rightarrow> u64) \<Rightarrow> suite_result \<Rightarrow> suite_result" where
  "with_errors f r = r\<lparr>sr_network := (sr_network r)\<lparr>nm_error_count := f r\<rparr>\<rparr>"

text \<open>Every field but the number of errors is as before.\<close>

lemma with_errors_keeps [simp]:
  "result_key (with_errors f r) = result_key r" "result_scenario (with_errors f r) = result_scenario r"
  "sr_repeat_index (with_errors f r) = sr_repeat_index r" "sr_environment (with_errors f r) = sr_environment r"
  "nm_rps (sr_network (with_errors f r)) = nm_rps (sr_network r)"
  "nm_latency_mean_ms (sr_network (with_errors f r)) = nm_latency_mean_ms (sr_network r)"
  "nm_latency_p50_ms (sr_network (with_errors f r)) = nm_latency_p50_ms (sr_network r)"
  "nm_latency_p99_ms (sr_network (with_errors f r)) = nm_latency_p99_ms (sr_network r)"
  "nm_latency_p999_ms (sr_network (with_errors f r)) = nm_latency_p999_ms (sr_network r)"
  "nm_latency_max_ms (sr_network (with_errors f r)) = nm_latency_max_ms (sr_network r)"
  "nm_phases_present (sr_network (with_errors f r)) = nm_phases_present (sr_network r)"
  "sr_resources (with_errors f r) = sr_resources r" "sr_startup (with_errors f r) = sr_startup r" "sr_binary (with_errors f r) = sr_binary r"
  by (simp_all add: with_errors_def result_key_def result_scenario_def)

lemma group_with_errors: "group_case_results (map (with_errors f) rs) = map (apsnd (map (with_errors f))) (group_case_results rs)"
  by (simp add: group_case_results_def filter_map comp_def)

lemma scenario_with_errors: "scenario_results (map (with_errors f) rs) s = map (with_errors f) (scenario_results rs s)"
  by (simp add: scenario_results_def filter_map comp_def)

definition forget_scenario :: "scenario_summary \<Rightarrow> scenario_summary" where
  "forget_scenario s = s\<lparr>ss_error_rate_pct := metric_summary_default\<rparr>"

definition forget_case :: "case_summary \<Rightarrow> case_summary" where
  "forget_case c = c\<lparr>cs_warm := map_option forget_scenario (cs_warm c), cs_cold := map_option forget_scenario (cs_cold c)\<rparr>"

lemma forget_keeps [simp]:
  "ss_scenario (forget_scenario s) = ss_scenario s" "ss_repeat_count (forget_scenario s) = ss_repeat_count s"
  "ss_rps (forget_scenario s) = ss_rps s" "unreliable (forget_scenario s) = unreliable s"
  "margin_above m (forget_scenario s) = margin_above m s"
  "cs_case_label (forget_case c) = cs_case_label c" "cs_language (forget_case c) = cs_language c"
  "cs_runtime (forget_case c) = cs_runtime c" "cs_concurrency (forget_case c) = cs_concurrency c"
  "primary_rps (forget_case c) = primary_rps c" "summary_key (forget_case c) = summary_key c"
  "matches_baseline b (forget_case c) = matches_baseline b c"
  "scenarios_of (forget_case c) = map forget_scenario (scenarios_of c)"
  "scenario_label (forget_case c) t = scenario_label c t"
  by (simp_all add: forget_scenario_def forget_case_def unreliable_def margin_above_def primary_rps_def summary_key_def
    matches_baseline_def scenarios_of_def scenario_label_def split: option.splits)

lemma forget_summarise:
  "map_option forget_scenario (summarise_scenario (map (with_errors f) rs) s) = map_option forget_scenario (summarise_scenario rs s)"
  by (simp add: summarise_scenario_def forget_scenario_def Let_def comp_def)

lemma forget_case_summary:
  "forget_case (case_summary_of (apsnd (map (with_errors f)) g)) = forget_case (case_summary_of g)"
  by (cases g) (simp add: case_summary_of_def forget_case_def scenario_with_errors forget_summarise split: prod.splits)

lemma insort_key_map: "insort_key k (g x) (map g xs) = map g (insort_key (\<lambda>y. k (g y)) x xs)"
  by (induction xs) simp_all

lemma sort_key_map: "sort_key k (map g xs) = map g (sort_key (\<lambda>y. k (g y)) xs)"
  by (induction xs) (simp_all add: insort_key_map)

lemma forget_summaries:
  "map forget_case (summarise_case_groups (map (apsnd (map (with_errors f))) g)) = map forget_case (summarise_case_groups g)"
proof -
  have "map forget_case (summarise_case_groups h) = sort_key (\<lambda>c. - primary_rps c) (map (\<lambda>x. forget_case (case_summary_of x)) h)" for h
    using sort_key_map [of "\<lambda>c. - primary_rps c" forget_case "map case_summary_of h"]
    by (simp add: summarise_case_groups_def comp_def)
  then show ?thesis by (simp add: forget_case_summary comp_def)
qed

lemma by_repeat_with_errors: "by_repeat (map (with_errors f) rs) = map (apsnd (with_errors f)) (by_repeat rs)"
proof -
  have "last (filter (\<lambda>r. sr_repeat_index r = sr_repeat_index x) (map (with_errors f) rs)) =
      with_errors f (last (filter (\<lambda>r. sr_repeat_index r = sr_repeat_index x) rs))" if "x \<in> set rs" for x
  proof -
    have "filter (\<lambda>r. sr_repeat_index r = sr_repeat_index x) rs \<noteq> []" using that by (auto simp: filter_empty_conv)
    then show ?thesis by (simp add: filter_map comp_def last_map)
  qed
  then show ?thesis by (auto simp: by_repeat_def comp_def)
qed

lemma map_filter_map: "List.map_filter g (map h xs) = List.map_filter (\<lambda>x. g (h x)) xs"
  by (induction xs) (simp_all add: map_filter_simps split: option.splits)

lemma paired_with_errors:
  assumes "\<And>r. metric (with_errors f r) = metric r"
  shows "paired_ratio_values (map (with_errors f) cs) (map (with_errors f) bs) metric = paired_ratio_values cs bs metric"
proof -
  have "map_of (map (apsnd (with_errors f)) xs) k = map_option (with_errors f) (map_of xs k)" for xs :: "(u32 \<times> suite_result) list" and k
    by (induction xs) auto
  then show ?thesis
    by (simp add: paired_ratio_values_def by_repeat_with_errors map_filter_map assms)
      (rule arg_cong2 [where f = List.map_filter], auto simp: assms split: option.splits)
qed

lemma scenario_comparison_with_errors:
  "build_scenario_comparison (map (with_errors f) cs) (map (with_errors f) bs) s = build_scenario_comparison cs bs s"
  by (simp add: build_scenario_comparison_def build_comparison_metric_def paired_with_errors comp_def Let_def)

lemma compare_with_errors:
  "compare_with (map (apsnd (map (with_errors f))) g) c base = compare_with g (forget_case c) (forget_case base)"
proof -
  have "map_of (map (apsnd (map (with_errors f))) g) k = map_option (map (with_errors f)) (map_of g k)" for k
    by (induction g) auto
  then show ?thesis
    by (auto simp: compare_with_def scenario_with_errors scenario_comparison_with_errors hd_map Let_def split: option.splits)
qed

lemma compare_with_forget: "compare_with g (forget_case c) (forget_case base) = compare_with g c base"
  unfolding compare_with_def forget_keeps by (rule refl)

lemma find_forget: "map_option forget_case (find (\<lambda>c. P (forget_case c)) xs) = find P (map forget_case xs)"
  by (induction xs) auto

lemma compare_case_forget:
  "compare_case g summaries b c = compare_case g (map forget_case summaries) b (forget_case c)"
proof -
  have "find (\<lambda>x. cs_concurrency x = cs_concurrency c \<and> matches_baseline b x) (map forget_case summaries) =
      map_option forget_case (find (\<lambda>x. cs_concurrency x = cs_concurrency c \<and> matches_baseline b x) summaries)"
    using find_forget [of "\<lambda>x. cs_concurrency x = cs_concurrency c \<and> matches_baseline b x" summaries] by simp
  then show ?thesis by (simp add: compare_case_def compare_with_forget split: option.splits)
qed

lemma compare_case_errors:
  "compare_case (map (apsnd (map (with_errors f))) g) summaries b c = compare_case g summaries b c"
  by (simp add: compare_case_def compare_with_errors compare_with_forget split: option.splits)

lemma comparisons_with_errors:
  assumes "map forget_case s1 = map forget_case s2"
  shows "build_comparisons (map (apsnd (map (with_errors f))) g) s1 b = build_comparisons g s2 b"
proof -
  have forget: "List.map_filter (compare_case h s b) s = List.map_filter (compare_case h (map forget_case s) b) (map forget_case s)" for h s
    by (simp only: map_filter_map compare_case_forget [symmetric])
  have "compare_case (map (apsnd (map (with_errors f))) g) s1 b = compare_case g s1 b" by (rule ext) (rule compare_case_errors)
  moreover have "List.map_filter (compare_case g s1 b) s1 = List.map_filter (compare_case g s2 b) s2"
    by (simp only: forget [of g s1] forget [of g s2] assms)
  ultimately show ?thesis unfolding build_comparisons_def by (simp only:)
qed

lemma labels_forget:
  assumes "\<And>s. P (forget_scenario s) = P s" shows "labels_where P (map forget_case cs) = labels_where P cs"
  by (simp add: labels_where_def filter_map comp_def assms)

text \<open>C13: Errors do not count. However many requests of a run failed, its report gives the same recommendations, calls
  it as ready for publication and makes the same comparisons as if none had; only the summary of the error rate
  differs, and nothing reads it.\<close>

theorem report_blind_to_errors:
  "ra_recommendations (build_report b (map (with_errors f) rs)) = ra_recommendations (build_report b rs) \<and>
   ra_publication_ready (build_report b (map (with_errors f) rs)) = ra_publication_ready (build_report b rs) \<and>
   ra_comparisons (build_report b (map (with_errors f) rs)) = ra_comparisons (build_report b rs) \<and>
   map forget_case (ra_case_summaries (build_report b (map (with_errors f) rs))) = map forget_case (ra_case_summaries (build_report b rs))"
proof -
  let ?g = "group_case_results rs" and ?h = "group_case_results (map (with_errors f) rs)"
  have s: "map forget_case (summarise_case_groups ?h) = map forget_case (summarise_case_groups ?g)"
    by (simp add: group_with_errors forget_summaries)
  have c: "build_comparisons ?h (summarise_case_groups ?h) x = build_comparisons ?g (summarise_case_groups ?g) x" for x
    unfolding group_with_errors by (rule comparisons_with_errors) (use s in \<open>simp add: group_with_errors\<close>)
  have labels: "labels_where P (summarise_case_groups ?h) = labels_where P (summarise_case_groups ?g)"
    if "\<And>s. P (forget_scenario s) = P s" for P
    using labels_forget [of P, OF that] s by metis
  have p: "collect_observed_phases (map (with_errors f) rs) = collect_observed_phases rs"
    by (simp add: collect_observed_phases_def comp_def)
  have l: "labels_where (\<lambda>s. ss_repeat_count s < 3) (summarise_case_groups ?h) = labels_where (\<lambda>s. ss_repeat_count s < 3) (summarise_case_groups ?g)"
    "labels_where unreliable (summarise_case_groups ?h) = labels_where unreliable (summarise_case_groups ?g)"
    "labels_where (margin_above m) (summarise_case_groups ?h) = labels_where (margin_above m) (summarise_case_groups ?g)" for m
    by (rule labels, simp)+
  have "build_recommendations (map (with_errors f) rs) (summarise_case_groups ?h) cs = build_recommendations rs (summarise_case_groups ?g) cs" for cs
    unfolding build_recommendations_def by (simp only: p l)
  then show ?thesis by (cases b) (simp_all add: build_report_def Let_def c s)
qed

section \<open>Comparability\<close>

lemma eq_ignore_ascii_case_commute: "eq_ignore_ascii_case x y = eq_ignore_ascii_case y x"
  by (auto simp: eq_ignore_ascii_case_def)

lemma mismatch_commute:
  "text_mismatch l c b = [] \<longleftrightarrow> text_mismatch l b c = []" "number_mismatch l m n = [] \<longleftrightarrow> number_mismatch l n m = []"
  by (auto simp: text_mismatch_def number_mismatch_def eq_ignore_ascii_case_commute split: option.splits)

lemma ratio_commute: "materially_different_ratio c b = materially_different_ratio b c"
  by (simp add: materially_different_ratio_def max.commute min.commute disj_commute split: option.splits)

lemma notes_empty_commute: "environment_notes c b = [] \<longleftrightarrow> environment_notes b c = []"
  unfolding environment_notes_def append_is_Nil_conv
  by (intro conj_cong mismatch_commute)
    (auto simp: ratio_commute [of "ef_baseline_rtt_p50_ms c"] ratio_commute [of "ef_baseline_rtt_p95_ms c"] mismatch_commute
      split: option.splits if_splits)

text \<open>C16: Comparability is a relation between two environments and not between a candidate and a baseline. Which of
  the two is called the baseline makes no difference, and an environment that says nothing is comparable with none.\<close>

theorem comparability_symmetric:
  "(environment_comparability_notes c b = [] \<longleftrightarrow> environment_comparability_notes b c = []) \<and>
   (environment_comparability_notes c b = [] \<longleftrightarrow> \<not> fingerprint_is_empty c \<and> \<not> fingerprint_is_empty b \<and> environment_notes c b = [])"
proof -
  have "remdups_adj (sort xs) = [] \<longleftrightarrow> xs = []" for xs :: "string list"
    by (metis length_0_conv length_sort remdups_adj_Nil_iff)
  then have "environment_comparability_notes x y = [] \<longleftrightarrow>
      \<not> fingerprint_is_empty x \<and> \<not> fingerprint_is_empty y \<and> environment_notes x y = []" for x y
    by (simp add: environment_comparability_notes_def Let_def)
  then show ?thesis using notes_empty_commute by blast
qed

section \<open>Instances\<close>

text \<open>Three equal launches, whose median is their value and whose margin is nothing.\<close>

theorem margin_agrees_with_stop_rule_witness:
  "meets_targets \<lparr>cr_min_samples = 3, cr_max_samples = 3, cr_min_duration_ms = 0, cr_target_relative_error = Some 0,
       cr_target_absolute_error = None\<rparr> [5, 5, 5] \<longleftrightarrow> ms_relative_margin_of_error (summarise_metric [5, 5, 5]) \<le> 0"
proof -
  obtain se lo hi where "report_interval (sort [5, 5, 5]) = (se, lo, hi)" by (metis prod_cases3)
  then have "ms_median (summarise_metric [5, 5, 5]) = report_median (sort [5, 5, 5])" by (intro summary_parts(4)) simp_all
  then have "F64_EPSILON < \<bar>ms_median (summarise_metric [5, 5, 5])\<bar>" by (simp add: report_median_def F64_EPSILON_def)
  then show ?thesis by (intro margin_agrees_with_stop_rule) simp_all
qed


end
