(* ===== verification/Orch_Suite.thy ===== *)
theory Orch_Suite
  imports Orch_Cycle Orch_Report
begin

text \<open>
  The suite of the orchestrator, \<open>benchmarks/orchestrator/src\<close>: one measurement and the cold and warm cycle
  (\<open>runner.rs\<close>), the readings of the machine (\<open>collector.rs\<close>), the reruns of cases that came out badly and
  the loop over the languages (\<open>main.rs\<close>), from the matrix to the results that the report is made of.

  Where the tester's program lies is left out of its action, and so are the progress lines. The ticks of the
  collector's interval are waits of a second. Sums of 32 bits wrap as they do in a release.
\<close>

section \<open>The tester's output\<close>

text \<open>\<open>Value::get\<close>, which tells a missing entry from a \<open>Null\<close>.\<close>

fun entry :: "string \<Rightarrow> jvalue \<Rightarrow> jvalue option" where
  "entry k (ObjV kvs) = map_of kvs k"
| "entry k _ = None"

fun as_array :: "jvalue \<Rightarrow> jvalue list option" where
  "as_array (ArrV vs) = Some vs"
| "as_array _ = None"

definition first_some :: "'a option list \<Rightarrow> 'a option" where
  "first_some xs = (case dropWhile (\<lambda>x. x = None) xs of [] \<Rightarrow> None | x # _ \<Rightarrow> x)"

definition extract_f64 :: "jvalue \<Rightarrow> string \<Rightarrow> f64 option" where
  "extract_f64 v k = Option.bind (entry k v) as_f64"

definition extract_u64 :: "jvalue \<Rightarrow> string \<Rightarrow> u64 option" where
  "extract_u64 v k = map_option of_nat (Option.bind (entry k v) as_u64)"

definition extract_u32 :: "jvalue \<Rightarrow> string \<Rightarrow> u32 option" where
  "extract_u32 v k = map_option of_nat (Option.bind (entry k v) as_u64)"

definition extract_string :: "jvalue \<Rightarrow> string \<Rightarrow> string option" where
  "extract_string v k = (case Option.bind (entry k v) as_str of
     None \<Rightarrow> None | Some s \<Rightarrow> (if trim s = [] then None else Some (trim s)))"

definition parse_environment_fingerprint :: "jvalue \<Rightarrow> environment_fingerprint" where
  "parse_environment_fingerprint payload =
     (let environment = member ''environment'' payload;
          client = member ''client_info'' environment; server = member ''server_info'' environment;
          sources = [member ''network_baseline'' environment, member ''environment_check'' environment,
            member ''stability_check'' environment]
      in \<lparr>ef_client_os = extract_string client ''os'', ef_client_arch = extract_string client ''arch'',
          ef_client_cpu_cores = extract_u32 client ''cpu_cores'', ef_client_region = extract_string client ''region'',
          ef_server_os = extract_string server ''os'', ef_server_arch = extract_string server ''arch'',
          ef_server_cpu_cores = extract_u32 server ''cpu_cores'', ef_server_region = extract_string server ''region'',
          ef_network_type = first_some (map (\<lambda>s. extract_string s ''network_type'') sources),
          ef_baseline_rtt_p50_ms = first_some (map (\<lambda>s. extract_f64 s ''rtt_p50_ms'') sources),
          ef_baseline_rtt_p95_ms = first_some (map (\<lambda>s. extract_f64 s ''rtt_p95_ms'') sources)\<rparr>)"

definition payload_of :: "jvalue \<Rightarrow> jvalue" where
  "payload_of v = (case v of ArrV (x # xs) \<Rightarrow> last (x # xs) | _ \<Rightarrow> v)"

definition summary_of :: "jvalue \<Rightarrow> jvalue" where
  "summary_of payload = (case entry ''summary'' payload of
     Some s \<Rightarrow> s
   | None \<Rightarrow> (case Option.bind (entry ''summaries'' payload) as_array of
       Some (s # _) \<Rightarrow> s | _ \<Rightarrow> payload))"

definition first_f64 :: "jvalue \<Rightarrow> string list \<Rightarrow> f64" where
  "first_f64 v ks = or_default 0 (first_some (map (extract_f64 v) ks))"

definition first_u64 :: "jvalue \<Rightarrow> string list \<Rightarrow> u64" where
  "first_u64 v ks = or_default 0 (first_some (map (extract_u64 v) ks))"

definition parse_tester_output :: "jvalue \<Rightarrow> network_metrics \<times> environment_fingerprint" where
  "parse_tester_output v =
     (let payload = payload_of v; summary = summary_of payload;
          methodology = member ''methodology'' payload
      in (\<lparr>nm_rps = first_f64 summary [''rps''],
           nm_latency_mean_ms = first_f64 summary [''latency_mean_ms'', ''mean'', ''mean_ms''],
           nm_latency_p50_ms = first_f64 summary [''latency_p50_ms'', ''p50'', ''p50_ms''],
           nm_latency_p99_ms = first_f64 summary [''latency_p99_ms'', ''p99'', ''p99_ms''],
           nm_latency_p999_ms = first_f64 summary [''latency_p999_ms'', ''p999'', ''p999_ms''],
           nm_latency_max_ms = first_f64 summary [''latency_max_ms'', ''max'', ''max_ms''],
           nm_bytes_transferred = first_u64 summary [''bytes_transferred''],
           nm_error_count = first_u64 summary [''error_count'', ''failure_count'', ''errors''],
           nm_total_requests = first_u64 summary [''total_requests'', ''sample_count'', ''requests''],
           nm_phase_model = text_at [] (member ''phase_model'' methodology),
           nm_phases_present = (case as_array (member ''phases_present'' methodology) of
             Some vs \<Rightarrow> List.map_filter as_str vs | None \<Rightarrow> [])\<rparr>,
          parse_environment_fingerprint payload))"

section \<open>A measurement\<close>

definition phase_requests :: "test_params \<Rightarrow> string \<Rightarrow> u64" where
  "phase_requests p phase =
     (if phase = ''cold'' then 100 else if phase = ''warmup'' then tp_warmup_requests p else tp_benchmark_requests p)"

definition runner_args :: "vm_info \<Rightarrow> test_params \<Rightarrow> u32 \<Rightarrow> string \<Rightarrow> u32 \<Rightarrow> string list" where
  "runner_args vm p concurrency phase launch =
     [''--target'', ''https://'' @ vi_ip vm @ '':8443/health'', ''--modes'', ''http1,http2'',
      ''--runs'', decimal (unat (phase_requests p phase)), ''--concurrency'', decimal (unat concurrency),
      ''--timeout'', decimal (unat (tp_timeout_secs p)), ''--insecure'', ''--json-stdout'',
      ''--benchmark-phase'', (if phase = ''warmup'' then ''warmup'' else ''measured''),
      ''--benchmark-scenario'', phase, ''--benchmark-launch-index'', decimal (unat launch)]"

definition BENCHMARK_TIMEOUT :: duration where "BENCHMARK_TIMEOUT = from_secs 600"

definition measured_output :: "world \<Rightarrow> string \<Rightarrow> exit_outcome \<Rightarrow> string + network_metrics \<times> environment_fingerprint" where
  "measured_output w phase out = (case out of
     TimedOut \<Rightarrow> Inl ''benchmark timed out''
   | NotStarted e \<Rightarrow> Inl (''failed to execute networker-tester: '' @ e)
   | Exited status stderr \<Rightarrow> Inl (''networker-tester failed (phase='' @ phase @ '', exit='' @ status @ ''): '' @ trim stderr)
   | Succeeded stdout \<Rightarrow> with_context (''parsing networker-tester JSON output for '' @ phase @ '' phase'')
       (with_context ''invalid JSON from networker-tester'' (map_sum id parse_tester_output (wd_json w stdout))))"

definition run_tester_phase :: "world \<Rightarrow> vm_info \<Rightarrow> test_params \<Rightarrow> u32 \<Rightarrow> string \<Rightarrow> u32 \<Rightarrow>
   (string + network_metrics \<times> environment_fingerprint) script" where
  "run_tester_phase w vm p concurrency phase launch = do {
     out \<leftarrow> act (wd_tester w) (Tester (runner_args vm p concurrency phase launch) BENCHMARK_TIMEOUT);
     done_with (measured_output w phase out)
   }"

definition no_resources :: resource_metrics where
  "no_resources = \<lparr>rm_peak_rss_bytes = 0, rm_avg_cpu_fraction = 0, rm_peak_cpu_fraction = 0, rm_peak_open_fds = 0\<rparr>"

definition no_startup :: startup_metrics where
  "no_startup = \<lparr>sm_time_to_first_response_ms = 0, sm_time_to_ready_ms = 0\<rparr>"

definition no_binary :: binary_metrics where
  "no_binary = \<lparr>bm_size_bytes = 0, bm_compressed_size_bytes = 0, bm_docker_image_bytes = None\<rparr>"

definition measured_result :: "string \<Rightarrow> string \<Rightarrow> u32 \<Rightarrow> u32 \<Rightarrow> string \<Rightarrow> network_metrics \<times> environment_fingerprint \<Rightarrow> suite_result" where
  "measured_result language runtime concurrency repeat scenario m =
     \<lparr>sr_language = language, sr_runtime = runtime, sr_concurrency = concurrency, sr_repeat_index = repeat,
      sr_scenario = scenario, sr_environment = snd m, sr_network = fst m, sr_resources = no_resources,
      sr_startup = no_startup, sr_binary = no_binary\<rparr>"

definition run_cold_warm_cycle :: "world \<Rightarrow> vm_info \<Rightarrow> test_params \<Rightarrow> u32 \<Rightarrow> string \<Rightarrow> string \<Rightarrow> u32 \<Rightarrow>
   (string + suite_result \<times> suite_result) script" where
  "run_cold_warm_cycle w vm p concurrency language runtime repeat =
     try_bind (with_context_of ''cold phase'' (run_tester_phase w vm p concurrency ''cold'' repeat)) (\<lambda>cold. do {
       _ \<leftarrow> (if 0 < tp_warmup_requests p
            then do { _ \<leftarrow> run_tester_phase w vm p concurrency ''warmup'' repeat; done_with () } else done_with ());
       try_bind (with_context_of ''warm phase'' (run_tester_phase w vm p concurrency ''warm'' repeat)) (\<lambda>warm.
         done_with (Inr (measured_result language runtime concurrency repeat ''cold'' cold,
           measured_result language runtime concurrency repeat ''warm'' warm)))
     })"

section \<open>Readings of the machine\<close>

definition http_get :: "world \<Rightarrow> string \<Rightarrow> (string + string) script" where
  "http_get w url = cli_cmd w ''curl'' [''-s'', ''--connect-timeout'', ''5'', ''--max-time'', ''10'', url]"

definition cpu_fraction :: "jvalue \<Rightarrow> f64 option" where
  "cpu_fraction v = map_option (\<lambda>pct. f64_div pct 100) (extract_f64 v ''cpu_percent'')"

definition system_metrics :: "jvalue \<Rightarrow> resource_metrics" where
  "system_metrics v = \<lparr>rm_peak_rss_bytes = or_default 0 (extract_u64 v ''memory_rss_bytes''),
     rm_avg_cpu_fraction = or_default 0 (cpu_fraction v), rm_peak_cpu_fraction = or_default 0 (cpu_fraction v), rm_peak_open_fds = 0\<rparr>"

definition process_metrics :: "jvalue \<Rightarrow> resource_metrics \<Rightarrow> resource_metrics" where
  "process_metrics v m = m
     \<lparr>rm_peak_rss_bytes := or_default (rm_peak_rss_bytes m) (extract_u64 v ''memory_rss_bytes''),
      rm_avg_cpu_fraction := or_default (rm_avg_cpu_fraction m) (cpu_fraction v),
      rm_peak_cpu_fraction := or_default (rm_peak_cpu_fraction m) (cpu_fraction v),
      rm_peak_open_fds := or_default (rm_peak_open_fds m) (extract_u64 v ''open_fds'')\<rparr>"

text \<open>Its result is never an error.\<close>

definition collect_metrics :: "world \<Rightarrow> vm_info \<Rightarrow> u32 option \<Rightarrow> resource_metrics script" where
  "collect_metrics w vm server_pid = do {
     out \<leftarrow> http_get w (''http://'' @ vi_ip vm @ '':9100/metrics'');
     case out of
       Inl e \<Rightarrow> done_with no_resources
     | Inr s \<Rightarrow> (case wd_json w s of
         Inl e \<Rightarrow> done_with no_resources
       | Inr v \<Rightarrow> (case server_pid of
           None \<Rightarrow> done_with (system_metrics v)
         | Some pid \<Rightarrow> do {
             proc \<leftarrow> http_get w (''http://'' @ vi_ip vm @ '':9100/metrics/process/'' @ decimal (unat pid));
             done_with (case proc of
               Inl e \<Rightarrow> system_metrics v
             | Inr t \<Rightarrow> (case wd_json w t of Inl e \<Rightarrow> system_metrics v | Inr u \<Rightarrow> process_metrics u (system_metrics v)))
           }))
   }"

definition binary_paths :: "(string \<times> string) list" where
  "binary_paths =
     [(''rust'', ''/opt/bench/server''), (''go'', ''/opt/bench/go-server''), (''cpp'', ''/opt/bench/cpp-server''),
      (''java'', ''/opt/bench/java-server.jar''), (''csharp-net10'', ''/opt/bench/csharp-server''),
      (''csharp-net10-aot'', ''/opt/bench/csharp-server''), (''nodejs'', ''/opt/bench/server.js''),
      (''python'', ''/opt/bench/server.py''), (''nginx'', ''/usr/sbin/nginx'')]"

definition binary_path_for_language :: "string \<Rightarrow> string" where
  "binary_path_for_language language = or_default ''/opt/bench/server'' (map_of binary_paths language)"

definition size_command :: "string \<Rightarrow> string" where
  "size_command path =
     ''stat -c '' @ CHR 0x27 # ''%s'' @ CHR 0x27 # '' '' @ path @ '' 2>/dev/null || stat -f '' @ CHR 0x27 # ''%z'' @ CHR 0x27 # '' '' @
     path @ '' 2>/dev/null || echo 0''"

definition parsed_size :: "string \<Rightarrow> u64" where
  "parsed_size s = or_default 0 (parse_u64 (trim s))"

definition measure_binary_size :: "world \<Rightarrow> vm_info \<Rightarrow> string \<Rightarrow> (string + binary_metrics) script" where
  "measure_binary_size w vm language = (let path = binary_path_for_language language in
     try_bind (with_context_of ''getting binary size'' (ssh_exec w (vi_ip vm) (size_command path))) (\<lambda>size. do {
       packed \<leftarrow> ssh_exec w (vi_ip vm) (''gzip -c '' @ path @ '' 2>/dev/null | wc -c || echo 0'');
       done_with (Inr \<lparr>bm_size_bytes = parsed_size size,
         bm_compressed_size_bytes = parsed_size (case packed of Inl e \<Rightarrow> ''0'' | Inr s \<Rightarrow> s), bm_docker_image_bytes = None\<rparr>)
     }))"

text \<open>The first tick of an interval is immediate; \<open>first\<close> tells whether it is still to come.\<close>

fun collect_during_test :: "world \<Rightarrow> vm_info \<Rightarrow> u32 option \<Rightarrow> bool \<Rightarrow> nat \<Rightarrow> resource_metrics list script" where
  "collect_during_test w vm server_pid first 0 = done_with []"
| "collect_during_test w vm server_pid first (Suc n) = do {
     _ \<leftarrow> (if first then done_with () else sleep (from_secs 1));
     m \<leftarrow> collect_metrics w vm server_pid;
     ms \<leftarrow> collect_during_test w vm server_pid False n;
     done_with (m # ms)
   }"

definition aggregate_metrics :: "resource_metrics list \<Rightarrow> resource_metrics" where
  "aggregate_metrics samples =
     (if samples = [] then no_resources
      else \<lparr>rm_peak_rss_bytes = foldl (\<lambda>a s. max a (rm_peak_rss_bytes s)) 0 samples,
            rm_avg_cpu_fraction = f64_div (foldl (\<lambda>a s. f64_add a (rm_avg_cpu_fraction s)) 0 samples) (fl (real (length samples))),
            rm_peak_cpu_fraction = foldl (\<lambda>a s. max a (rm_peak_cpu_fraction s)) 0 samples,
            rm_peak_open_fds = foldl (\<lambda>a s. max a (rm_peak_open_fds s)) 0 samples\<rparr>)"

section \<open>A case\<close>

record scheduled_rerun =
  sd_language :: string
  sd_runtime :: string
  sd_concurrency :: u32
  sd_repeat_index :: u32
  sd_reasons :: "string list"

text \<open>What a run changes while it goes on.\<close>

record suite_run =
  sn_results :: "suite_result list"
  sn_reruns :: "scheduled_rerun list"

definition collecting_secs :: "u64 \<Rightarrow> nat" where
  "collecting_secs requests = min (nat \<lfloor>max (f64_div (fl (real (unat requests))) 1000) 5\<rfloor>) 60"

definition run_case_cycle :: "world \<Rightarrow> vm_info \<Rightarrow> test_params \<Rightarrow> binary_metrics \<Rightarrow> u64 \<Rightarrow> string \<Rightarrow> string \<Rightarrow> u32 \<Rightarrow> u32 \<Rightarrow>
   suite_run \<Rightarrow> suite_run script" where
  "run_case_cycle w vm p binary requests language runtime concurrency repeat run = do {
     r \<leftarrow> run_cold_warm_cycle w vm p concurrency language runtime repeat;
     case r of
       Inl e \<Rightarrow> done_with run
     | Inr (cold, warm) \<Rightarrow> do {
         samples \<leftarrow> collect_during_test w vm None True (collecting_secs requests);
         done_with (run\<lparr>sn_results := sn_results run @ [cold\<lparr>sr_binary := binary\<rparr>,
           warm\<lparr>sr_binary := binary, sr_resources := aggregate_metrics samples\<rparr>]\<rparr>)
       }
   }"

section \<open>Reruns\<close>

record rerun_settings =
  rs_target_repeat_count :: u32
  rs_max_additional_repeats :: u32
  rs_max_relative_margin :: f64

definition resolve_auto_rerun_settings :: "bool \<Rightarrow> u32 option \<Rightarrow> u32 option \<Rightarrow> f64 option \<Rightarrow> string + rerun_settings option" where
  "resolve_auto_rerun_settings poor target extra margin =
     (if \<not> poor \<and> target = None \<and> extra = None \<and> margin = None then Inr None
      else
        let s = \<lparr>rs_target_repeat_count = or_default 3 target, rs_max_additional_repeats = or_default 2 extra,
              rs_max_relative_margin = or_default (fl (5 / 100)) margin\<rparr>
        in if rs_target_repeat_count s = 0 then Inl ''auto rerun target repeat count must be > 0''
           else if rs_max_additional_repeats s = 0 then Inl ''auto rerun max additional repeats must be > 0''
           else if rs_max_relative_margin s \<le> 0 then Inl ''auto rerun max relative margin must be a positive finite number''
           else Inr (Some s))"

record rerun_target =
  rt_concurrency :: u32
  rt_repeat_index :: u32
  rt_reasons :: "string list"

definition scenario_reasons :: "rerun_settings \<Rightarrow> scenario_summary \<Rightarrow> string list" where
  "scenario_reasons s c =
     (if ss_repeat_count c < rs_target_repeat_count s
      then [ss_scenario c @ '' repeat count '' @ decimal (unat (ss_repeat_count c)) @ '' below target '' @
        decimal (unat (rs_target_repeat_count s))] else []) @
     (if unreliable c then [ss_scenario c @ '' variance remains unreliable''] else []) @
     (if margin_above (rs_max_relative_margin s) c
      then [ss_scenario c @ '' confidence interval exceeds '' @ fixed 0 (f64_mul (rs_max_relative_margin s) 100) @ ''% target'']
      else [])"

definition rerun_reasons :: "rerun_settings \<Rightarrow> case_summary \<Rightarrow> string list" where
  "rerun_reasons s c = remdups_adj (sort (concat (map (scenario_reasons s) (scenarios_of c))))"

definition known_repeats :: "scheduled_rerun list \<Rightarrow> case_summary \<Rightarrow> u32 list" where
  "known_repeats scheduled c =
     concat (map ss_repeat_indices (scenarios_of c)) @
     map sd_repeat_index (filter (\<lambda>d. sd_language d = cs_language c \<and> sd_runtime d = cs_runtime c \<and>
       sd_concurrency d = cs_concurrency c) scheduled)"

definition next_repeat_index :: "scheduled_rerun list \<Rightarrow> u32 \<Rightarrow> case_summary \<Rightarrow> u32" where
  "next_repeat_index scheduled initial c =
     (let known = known_repeats scheduled c in if known = [] then initial else Max (set known) + 1)"

definition rerun_target_of :: "scheduled_rerun list \<Rightarrow> u32 \<Rightarrow> rerun_settings \<Rightarrow> case_summary \<Rightarrow> rerun_target option" where
  "rerun_target_of scheduled initial s c =
     (let next = next_repeat_index scheduled initial c; used = (if initial \<le> next then next - initial else 0)
      in if rerun_reasons s c = [] \<or> rs_max_additional_repeats s \<le> used then None
         else Some \<lparr>rt_concurrency = cs_concurrency c, rt_repeat_index = next, rt_reasons = rerun_reasons s c\<rparr>)"

definition collect_auto_rerun_targets :: "suite_run \<Rightarrow> string \<Rightarrow> string \<Rightarrow> u32 \<Rightarrow> rerun_settings \<Rightarrow> rerun_target list" where
  "collect_auto_rerun_targets run language runtime initial s =
     sort_key (\<lambda>t. (rt_concurrency t, rt_repeat_index t))
       (List.map_filter (rerun_target_of (sn_reruns run) initial s)
         (summarise_results (filter (\<lambda>r. sr_language r = language \<and> sr_runtime r = runtime) (sn_results run))))"

definition max_auto_rerun_steps :: "test_case list \<Rightarrow> u32 \<Rightarrow> nat" where
  "max_auto_rerun_steps matrix extra =
     card (set (map (\<lambda>c. le_name (tc_language c) @ ''|'' @ le_runtime (tc_language c) @ ''|'' @ decimal (unat (tc_concurrency c))) matrix)) *
       unat extra"

fun run_targets :: "world \<Rightarrow> vm_info \<Rightarrow> test_params \<Rightarrow> binary_metrics \<Rightarrow> u64 \<Rightarrow> string \<Rightarrow> string \<Rightarrow> rerun_target list \<Rightarrow>
   suite_run \<Rightarrow> suite_run script" where
  "run_targets w vm p binary requests language runtime [] run = done_with run"
| "run_targets w vm p binary requests language runtime (t # ts) run = do {
     run' \<leftarrow> run_case_cycle w vm p binary requests language runtime (rt_concurrency t) (rt_repeat_index t)
       (run\<lparr>sn_reruns := sn_reruns run @ [\<lparr>sd_language = language, sd_runtime = runtime, sd_concurrency = rt_concurrency t,
          sd_repeat_index = rt_repeat_index t, sd_reasons = rt_reasons t\<rparr>]\<rparr>);
     run_targets w vm p binary requests language runtime ts run'
   }"

text \<open>The loop goes on until no case asks for a rerun. \<open>None\<close> means that it has not ended after that many rounds.\<close>

fun rerun_rounds :: "nat \<Rightarrow> world \<Rightarrow> vm_info \<Rightarrow> test_params \<Rightarrow> binary_metrics \<Rightarrow> u64 \<Rightarrow> string \<Rightarrow> string \<Rightarrow> u32 \<Rightarrow> rerun_settings \<Rightarrow>
   suite_run \<Rightarrow> suite_run option script" where
  "rerun_rounds 0 w vm p binary requests language runtime initial s run = done_with None"
| "rerun_rounds (Suc n) w vm p binary requests language runtime initial s run =
     (let targets = collect_auto_rerun_targets run language runtime initial s
      in if targets = [] then done_with (Some run)
         else do {
           run' \<leftarrow> run_targets w vm p binary requests language runtime targets run;
           rerun_rounds n w vm p binary requests language runtime initial s run'
         })"

section \<open>The suite\<close>

definition unique_languages :: "test_case list \<Rightarrow> language_entry list" where
  "unique_languages matrix =
     (let key = (\<lambda>l. le_name l @ ''|'' @ le_runtime l)
      in foldl (\<lambda>seen c. if key (tc_language c) \<in> set (map key seen) then seen else seen @ [tc_language c]) [] matrix)"

definition find_or_provision :: "world \<Rightarrow> string \<Rightarrow> string \<Rightarrow> language_entry \<Rightarrow> (string + vm_info) script" where
  "find_or_provision w os vm_size lang =
     try_bind (find_existing_vm w (''ab-'' @ le_name lang)) (\<lambda>found. case found of
       Some vm \<Rightarrow> (if vi_ip vm = [] then try_bind (start_vm w vm) (\<lambda>_. refresh_ip w vm) else done_with (Inr vm))
     | None \<Rightarrow> with_context_of (''provisioning VM for '' @ le_name lang)
         (provision_vm w ''azure'' ''eastus'' os vm_size (''ab-'' @ le_name lang)))"

definition suite_params :: "suite_config \<Rightarrow> test_params" where
  "suite_params cfg = \<lparr>tp_warmup_requests = sc_warmup_requests cfg, tp_benchmark_requests = sc_total_requests cfg,
     tp_timeout_secs = sc_timeout_secs cfg\<rparr>"

fun run_cases :: "world \<Rightarrow> vm_info \<Rightarrow> binary_metrics \<Rightarrow> suite_config \<Rightarrow> language_entry \<Rightarrow> test_case list \<Rightarrow> suite_run \<Rightarrow> suite_run script" where
  "run_cases w vm binary cfg lang [] run = done_with run"
| "run_cases w vm binary cfg lang (c # cs) run = do {
     run' \<leftarrow> run_case_cycle w vm (suite_params cfg) binary (sc_total_requests cfg) (le_name lang) (le_runtime lang)
       (tc_concurrency c) (tc_repeat_index c) run;
     run_cases w vm binary cfg lang cs run'
   }"

definition language_cases :: "test_case list \<Rightarrow> language_entry \<Rightarrow> test_case list" where
  "language_cases matrix lang =
     filter (\<lambda>c. le_name (tc_language c) = le_name lang \<and> le_runtime (tc_language c) = le_runtime lang) matrix"

definition measure_language :: "nat \<Rightarrow> world \<Rightarrow> suite_config \<Rightarrow> rerun_settings option \<Rightarrow> test_case list \<Rightarrow> vm_info \<Rightarrow>
   language_entry \<Rightarrow> suite_run \<Rightarrow> suite_run option script" where
  "measure_language fuel w cfg settings matrix vm lang run = do {
     size \<leftarrow> measure_binary_size w vm (le_name lang);
     let binary = (case size of Inl e \<Rightarrow> no_binary | Inr b \<Rightarrow> b) in do {
       run1 \<leftarrow> run_cases w vm binary cfg lang (language_cases matrix lang) run;
       run2 \<leftarrow> (case settings of
           None \<Rightarrow> done_with (Some run1)
         | Some s \<Rightarrow> rerun_rounds fuel w vm (suite_params cfg) binary (sc_total_requests cfg) (le_name lang) (le_runtime lang)
             (sc_repeat cfg) s run1);
       case run2 of None \<Rightarrow> done_with None
       | Some r \<Rightarrow> do { _ \<leftarrow> stop_api w vm; _ \<leftarrow> stop_vm w vm; done_with (Some r) }
     }
   }"

definition run_language :: "nat \<Rightarrow> world \<Rightarrow> (vm_info \<Rightarrow> string \<Rightarrow> (string + unit) script) \<Rightarrow> suite_config \<Rightarrow> rerun_settings option \<Rightarrow>
   string \<Rightarrow> string \<Rightarrow> test_case list \<Rightarrow> language_entry \<Rightarrow> suite_run \<Rightarrow> (string + suite_run option) script" where
  "run_language fuel w deploy_local cfg settings os vm_size matrix lang run =
     try_bind (find_or_provision w os vm_size lang) (\<lambda>vm. do {
       deployed \<leftarrow> deploy_api w deploy_local vm (le_name lang);
       valid \<leftarrow> (case deployed of Inl e \<Rightarrow> done_with (Inl e) | Inr _ \<Rightarrow> validate_api w vm);
       case valid of
         Inl e \<Rightarrow> done_with (Inr (Some run))
       | Inr _ \<Rightarrow> do { r \<leftarrow> measure_language fuel w cfg settings matrix vm lang run; done_with (Inr r) }
     })"

text \<open>The outer \<open>None\<close> is that of the reruns: the suite has not ended.\<close>

fun run_suite_languages :: "nat \<Rightarrow> world \<Rightarrow> (vm_info \<Rightarrow> string \<Rightarrow> (string + unit) script) \<Rightarrow> suite_config \<Rightarrow> rerun_settings option \<Rightarrow>
   string \<Rightarrow> string \<Rightarrow> test_case list \<Rightarrow> language_entry list \<Rightarrow> suite_run \<Rightarrow> (string + suite_run option) script" where
  "run_suite_languages fuel w deploy_local cfg settings os vm_size matrix [] run = done_with (Inr (Some run))"
| "run_suite_languages fuel w deploy_local cfg settings os vm_size matrix (lang # langs) run = do {
     cancelled \<leftarrow> read_cancel w;
     if cancelled then done_with (Inr (Some run))
     else try_bind (run_language fuel w deploy_local cfg settings os vm_size matrix lang run) (\<lambda>r. case r of
         None \<Rightarrow> done_with (Inr None)
       | Some run' \<Rightarrow> run_suite_languages fuel w deploy_local cfg settings os vm_size matrix langs run')
   }"

definition suite_baseline_of :: "suite_config \<Rightarrow> suite_baseline option" where
  "suite_baseline_of cfg = map_option (\<lambda>l. \<lparr>sb_language = l, sb_runtime = sc_baseline_runtime cfg\<rparr>) (sc_baseline_language cfg)"

definition run_suite :: "nat \<Rightarrow> world \<Rightarrow> (vm_info \<Rightarrow> string \<Rightarrow> (string + unit) script) \<Rightarrow> suite_config \<Rightarrow> rerun_settings option \<Rightarrow>
   u64 option \<Rightarrow> string \<Rightarrow> string \<Rightarrow> (string + suite_run option) script" where
  "run_suite fuel w deploy_local cfg settings seed os vm_size =
     (let matrix = test_matrix_with_seed seed cfg
      in run_suite_languages fuel w deploy_local cfg settings os vm_size matrix (unique_languages matrix)
           \<lparr>sn_results = [], sn_reruns = []\<rparr>)"

end
