(* ===== verification/Orch_Suite_Properties.thy ===== *)
theory Orch_Suite_Properties
  imports Orch_Suite Orch_Properties Orch_Report_Properties
begin

text \<open>
  What a suite of the orchestrator gives: that its reruns end, and what its numbers are made of.
\<close>

section \<open>What a script gives\<close>

text \<open>\<open>gives P m\<close>: whatever happened before and whatever the world answers, the result of \<open>m\<close> satisfies \<open>P\<close>.\<close>

definition gives :: "('a \<Rightarrow> bool) \<Rightarrow> 'a script \<Rightarrow> bool" where
  "gives P m \<longleftrightarrow> (\<forall>past. P (fst (run_state m past)))"

definition unless_error :: "('a \<Rightarrow> bool) \<Rightarrow> 'e + 'a \<Rightarrow> bool" where
  "unless_error P r \<longleftrightarrow> (\<forall>x. r = Inr x \<longrightarrow> P x)"

named_theorems giving

lemma unless_error_simps [simp]: "unless_error P (Inl e)" "unless_error P (Inr x) \<longleftrightarrow> P x"
  by (simp_all add: unless_error_def)

lemma gives_bind: "gives P m \<Longrightarrow> (\<And>x. P x \<Longrightarrow> gives Q (f x)) \<Longrightarrow> gives Q (State_Monad.bind m f)"
  by (simp add: gives_def)

lemma gives_then [giving]: "(\<And>x. gives Q (f x)) \<Longrightarrow> gives Q (State_Monad.bind m f)"
  by (simp add: gives_def)

lemma gives_done [giving]: "P x \<Longrightarrow> gives P (done_with x)"
  by (simp add: gives_def)

lemma gives_mono: "gives P m \<Longrightarrow> (\<And>x. P x \<Longrightarrow> Q x) \<Longrightarrow> gives Q m"
  by (simp add: gives_def)

lemma gives_try: "gives (unless_error P) m \<Longrightarrow> (\<And>x. P x \<Longrightarrow> gives (unless_error Q) (f x)) \<Longrightarrow> gives (unless_error Q) (try_bind m f)"
  unfolding try_bind_def by (rule gives_bind [where P = "unless_error P"]) (auto intro: gives_done split: sum.splits)

lemma gives_try_any [giving]: "(\<And>x. gives (unless_error Q) (f x)) \<Longrightarrow> gives (unless_error Q) (try_bind m f)"
  by (rule gives_try [where P = "\<lambda>_. True"]) (simp_all add: gives_def unless_error_def)

lemma gives_context [giving]: "gives (unless_error P) m \<Longrightarrow> gives (unless_error P) (with_context_of c m)"
  unfolding with_context_of_def
  by (rule gives_bind [where P = "unless_error P"]) (auto intro: gives_done simp: with_context_def split: sum.splits)

section \<open>Cases\<close>

text \<open>What the results of a case are, whatever property \<open>M\<close> every measurement has.\<close>

definition case_result :: "(network_metrics \<times> environment_fingerprint \<Rightarrow> bool) \<Rightarrow> string \<Rightarrow> string \<Rightarrow> u32 \<Rightarrow> u32 \<Rightarrow> suite_result \<Rightarrow> bool" where
  "case_result M language runtime concurrency repeat r \<longleftrightarrow> sr_language r = language \<and> sr_runtime r = runtime \<and>
     sr_concurrency r = concurrency \<and> sr_repeat_index r = repeat \<and> sr_scenario r \<in> {''cold'', ''warm''} \<and> M (sr_network r, sr_environment r)"

definition measures :: "(network_metrics \<times> environment_fingerprint \<Rightarrow> bool) \<Rightarrow> world \<Rightarrow> bool" where
  "measures M w \<longleftrightarrow> (\<forall>vm p c phase l. phase \<in> {''cold'', ''warm'', ''warmup''} \<longrightarrow> gives (unless_error M) (run_tester_phase w vm p c phase l))"

lemma measures_any: "measures (\<lambda>_. True) w"
  by (simp add: measures_def gives_def unless_error_def)

lemma cycle_gives:
  assumes "measures M w"
  shows "gives (unless_error (\<lambda>(cold, warm). case_result M language runtime c i cold \<and> case_result M language runtime c i warm))
     (run_cold_warm_cycle w vm p c language runtime i)"
proof -
  have m: "gives (unless_error M) (with_context_of s (run_tester_phase w vm p c phase i))" if "phase \<in> {''cold'', ''warm'', ''warmup''}" for s phase
    using assms that by (auto simp: measures_def intro: giving)
  show ?thesis unfolding run_cold_warm_cycle_def
    by (rule gives_try [OF m], simp, rule gives_then, rule gives_try [OF m], simp, rule gives_done)
      (simp add: case_result_def measured_result_def)
qed

text \<open>A case adds results of its own and nothing else.\<close>

definition adds_case :: "(network_metrics \<times> environment_fingerprint \<Rightarrow> bool) \<Rightarrow> string \<Rightarrow> string \<Rightarrow> u32 \<Rightarrow> u32 \<Rightarrow> suite_run \<Rightarrow> suite_run \<Rightarrow> bool" where
  "adds_case M language runtime c i run run' \<longleftrightarrow> sn_reruns run' = sn_reruns run \<and>
     (\<exists>new. sn_results run' = sn_results run @ new \<and> (\<forall>r \<in> set new. case_result M language runtime c i r))"

lemma case_gives:
  assumes "measures M w"
  shows "gives (adds_case M language runtime c i run) (run_case_cycle w vm p binary requests language runtime c i run)"
  unfolding run_case_cycle_def
  by (rule gives_bind [OF cycle_gives [OF assms]])
    (auto intro!: giving simp: adds_case_def case_result_def split: sum.splits)

section \<open>Reruns\<close>

text \<open>What holds of a run all along: its repeats are below \<open>B\<close>, its concurrencies among \<open>L\<close>, and no repeat was scheduled twice.\<close>

definition rerun_key :: "scheduled_rerun \<Rightarrow> string \<times> string \<times> u32 \<times> u32" where
  "rerun_key d = (sd_language d, sd_runtime d, sd_concurrency d, sd_repeat_index d)"

definition bounded_run :: "u32 set \<Rightarrow> nat \<Rightarrow> suite_run \<Rightarrow> bool" where
  "bounded_run L B run \<longleftrightarrow> (\<forall>r \<in> set (sn_results run). sr_concurrency r \<in> L \<and> unat (sr_repeat_index r) < B) \<and>
     (\<forall>d \<in> set (sn_reruns run). sd_concurrency d \<in> L \<and> unat (sd_repeat_index d) < B) \<and> distinct (map rerun_key (sn_reruns run))"

lemma summarise_results_cases:
  assumes "c \<in> set (summarise_results rs)"
  obtains k where "c = case_summary_of (k, filter (\<lambda>r. result_key r = k) rs)" "k \<in> result_key ` set rs"
proof -
  have "c \<in> case_summary_of ` set (group_case_results rs)" using assms by (simp add: summarise_results_def summarise_case_groups_def)
  then show ?thesis using that by (auto simp: group_case_results_def)
qed

lemma scenario_indices:
  assumes "s \<in> set (scenarios_of (case_summary_of (k, rs)))" shows "set (ss_repeat_indices s) \<subseteq> sr_repeat_index ` set rs"
proof -
  have *: "set (ss_repeat_indices x) \<subseteq> sr_repeat_index ` set rs"
    if "summarise_scenario (scenario_results rs t) t = Some x" for t x
    using that by (auto simp: summarise_scenario_def scenario_results_def Let_def split: if_splits)
  obtain l rt c where k: "k = (l, rt, c)" by (cases k)
  show ?thesis using assms by (auto simp: k case_summary_of_def scenarios_of_def dest!: * [OF sym] split: option.splits)
qed

lemma summary_facts:
  assumes "c \<in> set (summarise_results rs)"
  shows "summary_key c \<in> result_key ` set rs" "x \<in> set (known_repeats [] c) \<Longrightarrow> x \<in> sr_repeat_index ` set rs"
proof -
  obtain k where c: "c = case_summary_of (k, filter (\<lambda>r. result_key r = k) rs)" "k \<in> result_key ` set rs"
    using assms by (rule summarise_results_cases)
  then show "summary_key c \<in> result_key ` set rs" by (cases k) (simp add: case_summary_of_def summary_key_def)
  show "x \<in> sr_repeat_index ` set rs" if "x \<in> set (known_repeats [] c)"
    using that scenario_indices [of _ k "filter (\<lambda>r. result_key r = k) rs"] by (fastforce simp: known_repeats_def c(1))
qed

lemma known_repeats_split: "set (known_repeats scheduled c) = set (known_repeats [] c) \<union>
   {sd_repeat_index d | d. d \<in> set scheduled \<and> sd_language d = cs_language c \<and> sd_runtime d = cs_runtime c \<and> sd_concurrency d = cs_concurrency c}"
  by (auto simp: known_repeats_def)

text \<open>The arithmetic of the next repeat: it is new, and below the first repeats and the additional ones together.\<close>

lemma next_repeat:
  fixes known :: "u32 list" and initial extra :: u32
  defines "next \<equiv> (if known = [] then initial else Max (set known) + 1)"
  assumes "\<forall>x \<in> set known. unat x < B" "B = unat initial + unat extra" "B < 2 ^ 32"
    and "\<not> extra \<le> (if initial \<le> next then next - initial else 0)"
  shows "unat next < B" "x \<in> set known \<Longrightarrow> x < next"
proof -
  have pos: "0 < unat extra" using assms(5) by (metis unat_gt_0 word_gt_0 word_le_0_iff word_zero_le)
  have up: "unat next = Suc (unat (Max (set known)))" if "known \<noteq> []"
  proof -
    have "unat (Max (set known)) < B" using that assms(2) by simp
    then have "Suc (unat (Max (set known))) < 2 ^ 32" using assms(4) by simp
    then show ?thesis using that by (simp add: next_def unat_word_ariths)
  qed
  show "unat next < B"
  proof (cases "initial \<le> next")
    case True
    then have "next - initial < extra" using assms(5) by simp
    then have "unat next - unat initial < unat extra" using True by (simp add: word_less_nat_alt unat_sub)
    then show ?thesis using assms(3) by simp
  next
    case False
    then show ?thesis using assms(3) pos by (simp add: word_le_nat_alt)
  qed
  show "x < next" if "x \<in> set known"
  proof -
    have "known \<noteq> []" "x \<le> Max (set known)" using that by auto
    then show ?thesis using up by (simp add: word_less_nat_alt word_le_nat_alt)
  qed
qed

definition scheduled_cases :: "string \<Rightarrow> string \<Rightarrow> suite_run \<Rightarrow> (u32 \<times> nat) set" where
  "scheduled_cases language runtime run = (\<lambda>d. (sd_concurrency d, unat (sd_repeat_index d))) `
     {d \<in> set (sn_reruns run). sd_language d = language \<and> sd_runtime d = runtime}"

definition fresh_target :: "string \<Rightarrow> string \<Rightarrow> u32 set \<Rightarrow> nat \<Rightarrow> suite_run \<Rightarrow> rerun_target \<Rightarrow> bool" where
  "fresh_target language runtime L B run t \<longleftrightarrow> rt_concurrency t \<in> L \<and> unat (rt_repeat_index t) < B \<and>
     (rt_concurrency t, unat (rt_repeat_index t)) \<notin> scheduled_cases language runtime run"

lemma targets_fresh:
  assumes "bounded_run L B run" "B = unat initial + unat (rs_max_additional_repeats s)" "B < 2 ^ 32"
    and "t \<in> set (collect_auto_rerun_targets run language runtime initial s)"
  shows "fresh_target language runtime L B run t"
proof -
  define rs where "rs = filter (\<lambda>r. sr_language r = language \<and> sr_runtime r = runtime) (sn_results run)"
  obtain c where c: "c \<in> set (summarise_results rs)" and t: "rerun_target_of (sn_reruns run) initial s c = Some t"
    using assms(4) by (auto simp: collect_auto_rerun_targets_def rs_def List.map_filter_def)
  have key: "cs_language c = language" "cs_runtime c = runtime" "cs_concurrency c \<in> L"
    using summary_facts(1) [OF c] assms(1) by (auto simp: rs_def result_key_def summary_key_def bounded_run_def)
  define known where "known = known_repeats (sn_reruns run) c"
  have "set (known_repeats [] c) \<subseteq> sr_repeat_index ` set rs" using summary_facts(2) [OF c] by blast
  then have below: "\<forall>x \<in> set known. unat x < B"
    using assms(1) unfolding known_def known_repeats_split [of "sn_reruns run"] by (auto simp: rs_def bounded_run_def)
  let ?next = "if known = [] then initial else Max (set known) + 1"
  have t: "rt_concurrency t = cs_concurrency c" "rt_repeat_index t = ?next"
    "\<not> rs_max_additional_repeats s \<le> (if initial \<le> ?next then ?next - initial else 0)"
    using t by (auto simp: rerun_target_of_def next_repeat_index_def Let_def known_def split: if_splits)
  have "unat ?next < B" and new: "\<And>x. x \<in> set known \<Longrightarrow> x < ?next"
    by (rule next_repeat [OF below assms(2,3)], use t(3) in simp)+
  moreover have "(cs_concurrency c, unat ?next) \<notin> scheduled_cases language runtime run"
  proof
    assume "(cs_concurrency c, unat ?next) \<in> scheduled_cases language runtime run"
    then obtain d where d: "d \<in> set (sn_reruns run)" "sd_language d = language" "sd_runtime d = runtime"
      "sd_concurrency d = cs_concurrency c" "unat (sd_repeat_index d) = unat ?next" by (auto simp: scheduled_cases_def simp del: if_split)
    then have "sd_repeat_index d \<in> set known" using key by (auto simp: known_def known_repeats_split [of "sn_reruns run"])
    then have "sd_repeat_index d < ?next" by (rule new)
    then show False using d(5) by (simp only: word_less_nat_alt)
  qed
  ultimately show ?thesis using key(3) t by (simp add: fresh_target_def)
qed

lemma distinct_map_filter: "distinct (map g xs) \<Longrightarrow> (\<And>x y. f x = Some y \<Longrightarrow> h y = g x) \<Longrightarrow> distinct (map h (List.map_filter f xs))"
  by (induction xs) (auto simp: List.map_filter_def image_iff split: option.splits)

lemma distinct_map_sort_key: "distinct (map h (sort_key f xs)) \<longleftrightarrow> distinct (map h xs)"
  by (metis distinct_map distinct_sort set_sort)

lemma summaries_distinct: "distinct (map summary_key (summarise_results rs))"
proof -
  have key: "summary_key (case_summary_of (k, ys)) = k" for k ys by (cases k) (simp add: case_summary_of_def summary_key_def)
  have "map summary_key (map case_summary_of (group_case_results rs)) = sort (remdups (map result_key rs))"
    by (simp add: group_case_results_def comp_def key)
  then show ?thesis unfolding summarise_results_def summarise_case_groups_def distinct_map_sort_key by simp
qed

lemma targets_distinct: "distinct (map rt_concurrency (collect_auto_rerun_targets run language runtime initial s))"
proof -
  define rs where "rs = filter (\<lambda>r. sr_language r = language \<and> sr_runtime r = runtime) (sn_results run)"
  have key: "summary_key c = (language, runtime, cs_concurrency c)" if "c \<in> set (summarise_results rs)" for c
    using summary_facts(1) [OF that] by (auto simp: rs_def result_key_def summary_key_def)
  have "map summary_key (summarise_results rs) = map (\<lambda>x. (language, runtime, x)) (map cs_concurrency (summarise_results rs))"
    by (simp add: key)
  then have "distinct (map cs_concurrency (summarise_results rs))" using summaries_distinct [of rs] by (metis distinct_map)
  then show ?thesis unfolding collect_auto_rerun_targets_def distinct_map_sort_key rs_def [symmetric]
    by (rule distinct_map_filter) (auto simp: rerun_target_of_def Let_def split: if_splits)
qed

text \<open>A case that was asked for keeps the run within its bounds; a scheduled one is recorded before it is run.\<close>

lemma bounded_case:
  assumes "bounded_run L B run" "adds_case M language runtime c i run run'" "c \<in> L" "unat i < B"
  shows "bounded_run L B run'" "scheduled_cases language runtime run' = scheduled_cases language runtime run"
  using assms by (auto simp: bounded_run_def adds_case_def case_result_def scheduled_cases_def)

lemma scheduling:
  assumes "bounded_run L B run" "fresh_target language runtime L B run t"
  defines "d \<equiv> \<lparr>sd_language = language, sd_runtime = runtime, sd_concurrency = rt_concurrency t,
     sd_repeat_index = rt_repeat_index t, sd_reasons = rt_reasons t\<rparr>"
  shows "bounded_run L B (run\<lparr>sn_reruns := sn_reruns run @ [d]\<rparr>)"
    "scheduled_cases language runtime (run\<lparr>sn_reruns := sn_reruns run @ [d]\<rparr>) =
       insert (rt_concurrency t, unat (rt_repeat_index t)) (scheduled_cases language runtime run)"
proof -
  have "rerun_key d \<notin> rerun_key ` set (sn_reruns run)"
  proof
    assume "rerun_key d \<in> rerun_key ` set (sn_reruns run)"
    then obtain e where "e \<in> set (sn_reruns run)" "rerun_key d = rerun_key e" by blast
    then have "(rt_concurrency t, unat (rt_repeat_index t)) \<in> scheduled_cases language runtime run"
      by (auto simp: d_def rerun_key_def scheduled_cases_def image_iff intro!: bexI [of _ e])
    then show False using assms(2) by (simp add: fresh_target_def)
  qed
  then show "bounded_run L B (run\<lparr>sn_reruns := sn_reruns run @ [d]\<rparr>)"
    using assms(1,2) by (auto simp: bounded_run_def fresh_target_def d_def)
  show "scheduled_cases language runtime (run\<lparr>sn_reruns := sn_reruns run @ [d]\<rparr>) =
       insert (rt_concurrency t, unat (rt_repeat_index t)) (scheduled_cases language runtime run)"
  proof -
    have d: "sd_language d = language" "sd_runtime d = runtime" "sd_concurrency d = rt_concurrency t" "sd_repeat_index d = rt_repeat_index t"
      by (simp_all add: d_def)
    then have "{e \<in> set (sn_reruns run @ [d]). sd_language e = language \<and> sd_runtime e = runtime} =
        insert d {e \<in> set (sn_reruns run). sd_language e = language \<and> sd_runtime e = runtime}" by auto
    then show ?thesis unfolding scheduled_cases_def by (simp add: d)
  qed
qed

definition round_done :: "string \<Rightarrow> string \<Rightarrow> u32 set \<Rightarrow> nat \<Rightarrow> rerun_target list \<Rightarrow> suite_run \<Rightarrow> suite_run \<Rightarrow> bool" where
  "round_done language runtime L B ts run run' \<longleftrightarrow> bounded_run L B run' \<and> scheduled_cases language runtime run' =
     (\<lambda>t. (rt_concurrency t, unat (rt_repeat_index t))) ` set ts \<union> scheduled_cases language runtime run"

lemma targets_give:
  assumes "bounded_run L B run" "\<forall>t \<in> set ts. fresh_target language runtime L B run t" "distinct (map rt_concurrency ts)"
  shows "gives (round_done language runtime L B ts run) (run_targets w vm p binary requests language runtime ts run)"
  using assms
proof (induction ts arbitrary: run)
  case Nil
  then show ?case by (simp add: round_done_def gives_def)
next
  case (Cons t ts)
  note sched = scheduling [OF Cons.prems(1), of language runtime t]
  have fresh: "fresh_target language runtime L B run t" using Cons.prems(2) by simp
  show ?case unfolding run_targets.simps
  proof (rule gives_bind [OF case_gives [OF measures_any]], goal_cases)
    case (1 run')
    have ci: "rt_concurrency t \<in> L" "unat (rt_repeat_index t) < B" using fresh by (simp_all add: fresh_target_def)
    note b = bounded_case [OF sched(1) [OF fresh] 1 ci]
    have "rt_concurrency u \<noteq> rt_concurrency t" if "u \<in> set ts" for u using Cons.prems(3) that by (auto simp: image_iff)
    then have "\<forall>u \<in> set ts. fresh_target language runtime L B run' u"
      using Cons.prems(2) by (auto simp: fresh_target_def b(2) sched(2) [OF fresh])
    then have "gives (round_done language runtime L B ts run') (run_targets w vm p binary requests language runtime ts run')"
      by (intro Cons.IH b(1)) (use Cons.prems(3) in simp_all)
    then show ?case by (rule gives_mono) (auto simp: round_done_def b(2) sched(2) [OF fresh])
  qed
qed

lemma scheduled_room:
  assumes "bounded_run L B run" "finite L"
  shows "scheduled_cases language runtime run \<subseteq> L \<times> {0..<B}" "card (scheduled_cases language runtime run) \<le> card L * B"
proof -
  show s: "scheduled_cases language runtime run \<subseteq> L \<times> {0..<B}" using assms(1) by (auto simp: bounded_run_def scheduled_cases_def)
  show "card (scheduled_cases language runtime run) \<le> card L * B"
    using card_mono [OF _ s] assms(2) by (simp add: card_cartesian_product)
qed

lemma rounds_end:
  assumes "finite L" "B = unat initial + unat (rs_max_additional_repeats s)" "B < 2 ^ 32"
    and "bounded_run L B run" "card L * B < n + card (scheduled_cases language runtime run)"
  shows "gives (\<lambda>r. \<exists>run'. r = Some run' \<and> bounded_run L B run') (rerun_rounds n w vm p binary requests language runtime initial s run)"
  using assms(4,5)
proof (induction n arbitrary: run)
  case 0
  then show ?case using scheduled_room(2) [OF 0(1) assms(1), of language runtime] by simp
next
  case (Suc n)
  define ts where "ts = collect_auto_rerun_targets run language runtime initial s"
  show ?case
  proof (cases ts)
    case Nil
    then show ?thesis using Suc.prems(1) by (simp add: ts_def [symmetric] gives_def)
  next
    case (Cons t us)
    have fresh: "\<forall>t \<in> set ts. fresh_target language runtime L B run t"
      using targets_fresh [OF Suc.prems(1) assms(2,3)] by (simp add: ts_def)
    have step: "gives (\<lambda>r. \<exists>run'. r = Some run' \<and> bounded_run L B run') (rerun_rounds n w vm p binary requests language runtime initial s run')"
      if "round_done language runtime L B ts run run'" for run'
    proof (rule Suc.IH)
      show b: "bounded_run L B run'" using that by (simp add: round_done_def)
      have "scheduled_cases language runtime run \<subset> scheduled_cases language runtime run'"
        using that fresh Cons by (auto simp: round_done_def fresh_target_def)
      then have "card (scheduled_cases language runtime run) < card (scheduled_cases language runtime run')"
        by (intro psubset_card_mono) (simp add: scheduled_cases_def)
      then show "card L * B < n + card (scheduled_cases language runtime run')" using Suc.prems(2) by simp
    qed
    have "gives (round_done language runtime L B ts run) (run_targets w vm p binary requests language runtime ts run)"
      by (rule targets_give [OF Suc.prems(1) fresh]) (simp add: ts_def targets_distinct)
    then have "gives (\<lambda>r. \<exists>run'. r = Some run' \<and> bounded_run L B run')
        (State_Monad.bind (run_targets w vm p binary requests language runtime ts run)
          (rerun_rounds n w vm p binary requests language runtime initial s))"
      by (rule gives_bind) (rule step)
    then show ?thesis using Cons by (simp add: ts_def [symmetric])
  qed
qed

section \<open>The suite\<close>

text \<open>Any property of runs that the cases and the reruns of a language keep, the suite keeps.\<close>

definition good_run :: "bool \<Rightarrow> (suite_run \<Rightarrow> bool) \<Rightarrow> suite_run option \<Rightarrow> bool" where
  "good_run endless I r \<longleftrightarrow> (case r of None \<Rightarrow> endless | Some run \<Rightarrow> I run)"

lemma good_run_simps [simp]: "good_run b I None \<longleftrightarrow> b" "good_run b I (Some run) \<longleftrightarrow> I run"
  by (simp_all add: good_run_def)

lemma cases_give:
  assumes "\<And>c run. c \<in> set cs \<Longrightarrow> I run \<Longrightarrow> gives I (run_case_cycle w vm (suite_params cfg) binary (sc_total_requests cfg)
      (le_name lang) (le_runtime lang) (tc_concurrency c) (tc_repeat_index c) run)" "I run"
  shows "gives I (run_cases w vm binary cfg lang cs run)"
  using assms
proof (induction cs arbitrary: run)
  case Nil
  then show ?case by (simp add: gives_def)
next
  case (Cons c cs)
  have "gives I (run_case_cycle w vm (suite_params cfg) binary (sc_total_requests cfg) (le_name lang) (le_runtime lang)
      (tc_concurrency c) (tc_repeat_index c) run)" using Cons.prems by simp
  then show ?case unfolding run_cases.simps by (rule gives_bind) (use Cons in simp)
qed

lemma languages_give:
  assumes "\<And>vm lang run. lang \<in> set langs \<Longrightarrow> I run \<Longrightarrow> gives (good_run b I) (measure_language fuel w cfg settings matrix vm lang run)" "I run"
  shows "gives (unless_error (good_run b I)) (run_suite_languages fuel w deploy_local cfg settings os vm_size matrix langs run)"
  using assms
proof (induction langs arbitrary: run)
  case Nil
  then show ?case by (simp add: gives_def good_run_def)
next
  case (Cons lang langs)
  have run: "gives (unless_error (good_run b I)) (run_language fuel w deploy_local cfg settings os vm_size matrix lang run)"
    unfolding run_language_def
  proof (intro gives_try_any gives_then, goal_cases)
    case (1 vm deployed valid)
    have "gives (unless_error (good_run b I)) (do { r \<leftarrow> measure_language fuel w cfg settings matrix vm lang run; done_with (Inr r) })"
      by (rule gives_bind [OF Cons.prems(1)]) (use Cons.prems(2) in \<open>auto intro: gives_done\<close>)
    then show ?case using Cons.prems(2) by (cases valid) (simp_all add: gives_def good_run_def)
  qed
  have rest: "gives (unless_error (good_run b I)) (run_suite_languages fuel w deploy_local cfg settings os vm_size matrix langs run')" if "I run'" for run'
    by (rule Cons.IH) (use Cons.prems that in auto)
  have more: "gives (unless_error (good_run b I)) (try_bind (run_language fuel w deploy_local cfg settings os vm_size matrix lang run)
      (\<lambda>r. case r of None \<Rightarrow> done_with (Inr None)
         | Some run' \<Rightarrow> run_suite_languages fuel w deploy_local cfg settings os vm_size matrix langs run'))"
    by (rule gives_try [OF run]) (use rest in \<open>auto intro: gives_done split: option.splits\<close>)
  have stop: "gives (unless_error (good_run b I)) (done_with (Inr (Some run)))" using Cons.prems(2) by (simp add: gives_def good_run_def)
  show ?case unfolding run_suite_languages.simps by (rule gives_then) (simp add: more stop)
qed

lemma measure_gives:
  assumes "I run"
    and "\<And>binary c run. c \<in> set (language_cases matrix lang) \<Longrightarrow> I run \<Longrightarrow> gives I (run_case_cycle w vm (suite_params cfg) binary
      (sc_total_requests cfg) (le_name lang) (le_runtime lang) (tc_concurrency c) (tc_repeat_index c) run)"
    and "\<And>s binary run. settings = Some s \<Longrightarrow> I run \<Longrightarrow> gives (good_run b I) (rerun_rounds fuel w vm (suite_params cfg) binary
      (sc_total_requests cfg) (le_name lang) (le_runtime lang) (sc_repeat cfg) s run)"
  shows "gives (good_run b I) (measure_language fuel w cfg settings matrix vm lang run)"
proof -
  have cases: "gives I (run_cases w vm binary cfg lang (language_cases matrix lang) run)" for binary
    by (rule cases_give) (use assms(1,2) in auto)
  show ?thesis unfolding measure_language_def Let_def
  proof (rule gives_then, rule gives_bind [OF cases], goal_cases)
    case (1 size run1)
    have "gives (good_run b I) (case settings of None \<Rightarrow> done_with (Some run1)
        | Some s \<Rightarrow> rerun_rounds fuel w vm (suite_params cfg) (case size of Inl e \<Rightarrow> no_binary | Inr b \<Rightarrow> b) (sc_total_requests cfg)
            (le_name lang) (le_runtime lang) (sc_repeat cfg) s run1)"
      using 1 assms(3) by (cases settings) (simp_all add: gives_def good_run_def)
    then show ?case by (rule gives_bind) (auto intro!: giving split: option.splits)
  qed
qed

lemma matrix_bounds:
  assumes "c \<in> set (test_matrix_with_seed seed cfg)"
  shows "tc_concurrency c \<in> set (sc_concurrency_levels cfg)" "unat (tc_repeat_index c) < unat (sc_repeat cfg)"
proof -
  have "c \<in> set (test_matrix cfg)" using assms mset_test_matrix by (cases seed) (metis test_matrix_def, metis set_mset_mset)
  then show "tc_concurrency c \<in> set (sc_concurrency_levels cfg)" "unat (tc_repeat_index c) < unat (sc_repeat cfg)"
    by (auto simp: set_test_matrix word_less_nat_alt)
qed

text \<open>C2: A suite with reruns ends. However badly its cases come out and whatever fails, its loop stops after at most as many
  rounds as there are concurrencies times the configured and the additional repeats; no repeat of a
  case is scheduled twice, and none beyond the configured repeats and the additional ones together.\<close>

theorem reruns_end:
  assumes "unat (sc_repeat cfg) + unat (rs_max_additional_repeats s) < 2 ^ 32"
    and "card (set (sc_concurrency_levels cfg)) * (unat (sc_repeat cfg) + unat (rs_max_additional_repeats s)) < fuel"
  shows "case fst (run_state (run_suite fuel w deploy_local cfg (Some s) seed os vm_size) past) of
       Inl e \<Rightarrow> True
     | Inr None \<Rightarrow> False
     | Inr (Some run) \<Rightarrow> distinct (map rerun_key (sn_reruns run)) \<and>
         list_all (\<lambda>d. unat (sd_repeat_index d) < unat (sc_repeat cfg) + unat (rs_max_additional_repeats s)) (sn_reruns run)"
proof -
  define L B where "L = set (sc_concurrency_levels cfg)" and "B = unat (sc_repeat cfg) + unat (rs_max_additional_repeats s)"
  let ?m = "test_matrix_with_seed seed cfg"
  have step: "gives (bounded_run L B) (run_case_cycle w vm (suite_params cfg) binary (sc_total_requests cfg) (le_name lang) (le_runtime lang)
      (tc_concurrency c) (tc_repeat_index c) run)" if "c \<in> set (language_cases ?m lang)" "bounded_run L B run" for vm binary lang c run
  proof (rule gives_mono [OF case_gives [OF measures_any]])
    have "tc_concurrency c \<in> L" "unat (tc_repeat_index c) < B"
      using that(1) matrix_bounds [of c seed cfg] by (simp_all add: language_cases_def L_def B_def)
    then show "bounded_run L B run'" if "adds_case (\<lambda>_. True) (le_name lang) (le_runtime lang) (tc_concurrency c) (tc_repeat_index c) run run'" for run'
      using bounded_case(1) [OF \<open>bounded_run L B run\<close> that] by simp
  qed
  have rounds: "gives (good_run False (bounded_run L B)) (rerun_rounds fuel w vm p binary requests language runtime (sc_repeat cfg) s run)"
    if "bounded_run L B run" for vm p binary requests language runtime run
  proof (rule gives_mono)
    show "gives (\<lambda>r. \<exists>run'. r = Some run' \<and> bounded_run L B run') (rerun_rounds fuel w vm p binary requests language runtime (sc_repeat cfg) s run)"
      by (rule rounds_end) (use assms that in \<open>auto simp: L_def B_def\<close>)
  qed auto
  have "gives (unless_error (good_run False (bounded_run L B))) (run_suite fuel w deploy_local cfg (Some s) seed os vm_size)"
    unfolding run_suite_def Let_def
    by (rule languages_give, rule measure_gives) (auto intro: step rounds simp: bounded_run_def)
  then show ?thesis
    by (auto simp: gives_def unless_error_def good_run_def bounded_run_def B_def list_all_iff split: sum.splits option.splits)
qed

section \<open>What is measured\<close>

text \<open>The keys of the tester's run record, which it prints as one object unless it is asked for the benchmark contract; an
  object that tells of an error stands for a record that cannot be printed.\<close>

definition test_run_keys :: "string list" where
  "test_run_keys =
     [''schema_version'', ''run_id'', ''started_at'', ''finished_at'', ''target_url'', ''target_host'', ''modes'', ''total_runs'',
      ''concurrency'', ''timeout_ms'', ''client_os'', ''client_version'', ''server_info'', ''client_info'', ''client_network'',
      ''client_load_before'', ''client_load_after'', ''cpu_usage'', ''clock_sync'', ''baseline'', ''packet_capture_summary'',
      ''benchmark_environment_check'', ''benchmark_stability_check'', ''benchmark_phase'', ''benchmark_scenario'',
      ''benchmark_launch_index'', ''benchmark_warmup_attempt_count'', ''benchmark_pilot_attempt_count'',
      ''benchmark_overhead_attempt_count'', ''benchmark_cooldown_attempt_count'', ''benchmark_execution_plan'',
      ''benchmark_noise_thresholds'', ''client_geo'', ''target_geo'', ''attempts'']"

definition asks_for_contract :: "string list \<Rightarrow> bool" where
  "asks_for_contract args \<longleftrightarrow> ''--benchmark-mode'' \<in> set args \<or> ''--benchmark'' \<in> set args"

definition is_run_record :: "jvalue \<Rightarrow> bool" where
  "is_run_record v \<longleftrightarrow> (\<exists>kvs. v = ObjV kvs \<and> fst ` set kvs \<subseteq> set (''error'' # test_run_keys))"

text \<open>A tester that is not asked for the contract prints a run record.\<close>

definition prints_run_records :: "world \<Rightarrow> bool" where
  "prints_run_records w \<longleftrightarrow> (\<forall>past args d out v. wd_tester w (past @ [Tester args d]) = Succeeded out \<longrightarrow> \<not> asks_for_contract args \<longrightarrow>
     wd_json w out = Inr v \<longrightarrow> is_run_record v)"

definition nothing_measured :: network_metrics where
  "nothing_measured = \<lparr>nm_rps = 0, nm_latency_mean_ms = 0, nm_latency_p50_ms = 0, nm_latency_p99_ms = 0, nm_latency_p999_ms = 0,
     nm_latency_max_ms = 0, nm_bytes_transferred = 0, nm_error_count = 0, nm_total_requests = 0, nm_phase_model = [], nm_phases_present = []\<rparr>"

definition empty_measurement :: "network_metrics \<times> environment_fingerprint \<Rightarrow> bool" where
  "empty_measurement m \<longleftrightarrow> fst m = nothing_measured \<and> fingerprint_is_empty (snd m)"

lemma record_lacks:
  assumes "fst ` set kvs \<subseteq> set (''error'' # test_run_keys)" "k \<notin> set (''error'' # test_run_keys)"
  shows "map_of kvs k = None"
  using assms by (auto simp: map_of_eq_None_iff)

lemma record_measures_nothing:
  assumes "is_run_record v" shows "empty_measurement (parse_tester_output v)"
proof -
  obtain kvs where v: "v = ObjV kvs" "fst ` set kvs \<subseteq> set (''error'' # test_run_keys)"
    using assms by (auto simp: is_run_record_def)
  have none: "map_of kvs k = None" if "k \<notin> set (''error'' # test_run_keys)" for k using record_lacks [OF v(2) that] .
  have keys: "map_of kvs ''summary'' = None" "map_of kvs ''summaries'' = None" "map_of kvs ''methodology'' = None"
    "map_of kvs ''environment'' = None" "map_of kvs ''rps'' = None" "map_of kvs ''latency_mean_ms'' = None" "map_of kvs ''mean'' = None"
    "map_of kvs ''mean_ms'' = None" "map_of kvs ''latency_p50_ms'' = None" "map_of kvs ''p50'' = None" "map_of kvs ''p50_ms'' = None"
    "map_of kvs ''latency_p99_ms'' = None" "map_of kvs ''p99'' = None" "map_of kvs ''p99_ms'' = None" "map_of kvs ''latency_p999_ms'' = None"
    "map_of kvs ''p999'' = None" "map_of kvs ''p999_ms'' = None" "map_of kvs ''latency_max_ms'' = None" "map_of kvs ''max'' = None"
    "map_of kvs ''max_ms'' = None" "map_of kvs ''bytes_transferred'' = None" "map_of kvs ''error_count'' = None"
    "map_of kvs ''failure_count'' = None" "map_of kvs ''errors'' = None" "map_of kvs ''total_requests'' = None"
    "map_of kvs ''sample_count'' = None" "map_of kvs ''requests'' = None"
    by (rule none, simp add: test_run_keys_def)+
  show ?thesis
    by (simp add: empty_measurement_def parse_tester_output_def v(1) payload_of_def summary_of_def keys first_f64_def first_u64_def
      first_some_def extract_f64_def extract_u64_def extract_u32_def extract_string_def or_default_def nothing_measured_def text_at_def
      parse_environment_fingerprint_def fingerprint_is_empty_def Let_def)
qed

lemma digits_are_no_flag: "decimal n \<noteq> CHR ''-'' # xs"
  using decimal_digits [of "CHR ''-''" n] by (auto simp: is_ascii_digit_def code_def)

lemma runner_asks_for_none: "phase \<in> {''cold'', ''warm'', ''warmup''} \<Longrightarrow> \<not> asks_for_contract (runner_args vm p c phase l)"
  by (auto simp: asks_for_contract_def runner_args_def digits_are_no_flag dest: sym [of "CHR ''-'' # _"])

lemma measures_nothing: "prints_run_records w \<Longrightarrow> measures empty_measurement w"
  by (auto simp: measures_def gives_def run_tester_phase_def measured_output_def unless_error_def with_context_def map_sum_Inr
    prints_run_records_def runner_asks_for_none intro!: record_measures_nothing split: exit_outcome.splits sum.splits)

lemma case_result_empty:
  assumes "case_result empty_measurement language runtime c i r"
  shows "sr_network r = nothing_measured" "fingerprint_is_empty (sr_environment r)" "sr_scenario r \<in> {''cold'', ''warm''}"
  using assms by (simp_all add: case_result_def empty_measurement_def)

definition empty_run :: "suite_run \<Rightarrow> bool" where
  "empty_run run \<longleftrightarrow> (\<forall>r \<in> set (sn_results run). sr_network r = nothing_measured \<and> fingerprint_is_empty (sr_environment r))"

lemma empty_case:
  assumes "prints_run_records w" "empty_run run"
  shows "gives empty_run (run_case_cycle w vm p binary requests language runtime c i run)"
  by (rule gives_mono [OF case_gives [OF measures_nothing [OF assms(1)]]])
    (use assms(2) in \<open>auto simp: empty_run_def adds_case_def dest: case_result_empty\<close>)

lemma empty_targets:
  assumes "prints_run_records w" "empty_run run"
  shows "gives empty_run (run_targets w vm p binary requests language runtime ts run)"
  using assms(2)
proof (induction ts arbitrary: run)
  case (Cons t ts)
  have "empty_run (run\<lparr>sn_reruns := ds\<rparr>)" for ds using Cons.prems by (simp add: empty_run_def)
  then show ?case unfolding run_targets.simps by (intro gives_bind [OF empty_case [OF assms(1)]] Cons.IH)
qed (simp add: gives_def)

lemma empty_rounds:
  assumes "prints_run_records w" "empty_run run"
  shows "gives (\<lambda>r. \<forall>run'. r = Some run' \<longrightarrow> empty_run run') (rerun_rounds n w vm p binary requests language runtime initial s run)"
  using assms(2)
proof (induction n arbitrary: run)
  case (Suc n)
  have "gives (\<lambda>r. \<forall>run'. r = Some run' \<longrightarrow> empty_run run')
      (State_Monad.bind (run_targets w vm p binary requests language runtime ts run) (rerun_rounds n w vm p binary requests language runtime initial s))" for ts
    by (rule gives_bind [OF empty_targets [OF assms(1) Suc.prems]]) (rule Suc.IH)
  then show ?case using Suc.prems by (auto simp: Let_def gives_def)
qed (simp add: gives_def)

section \<open>Summaries of nothing\<close>

lemma zero_summary:
  assumes "xs \<noteq> []" "\<forall>x \<in> set xs. x = 0"
  shows "ms_median (summarise_metric xs) = 0" "ms_quality_tier (summarise_metric xs) = ''excellent''"
    "ms_relative_margin_of_error (summarise_metric xs) = 0"
proof -
  have s: "sort xs = replicate (length xs) 0"
    using assms(2) by (metis length_sort replicate_length_same set_sort)
  have f: "fl 0 = 0" using fl_int [of 0] by simp
  have med: "report_median (replicate n 0) = 0" for n by (simp add: report_median_def f64_ops f)
  have sum: "f64_sum (replicate n 0) = 0" for n by (induction n) (simp_all add: f64_sum_def f64_ops f)
  have mean: "report_mean (replicate n 0) = 0" for n by (simp add: report_mean_def sum f64_ops f)
  show "ms_median (summarise_metric xs) = 0" "ms_quality_tier (summarise_metric xs) = ''excellent''"
    "ms_relative_margin_of_error (summarise_metric xs) = 0"
    using assms(1)
    by (simp_all add: summarise_metric_def Let_def s med mean F64_EPSILON_def quality_tier_for_cv_def fl.rnd_nonneg split: prod.splits)
qed

lemma empty_suite:
  assumes "prints_run_records w"
  shows "gives (unless_error (good_run True empty_run)) (run_suite fuel w deploy_local cfg settings seed os vm_size)"
proof -
  have "gives (good_run True empty_run) (rerun_rounds fuel w vm p binary requests language runtime initial s run)"
    if "empty_run run" for vm p binary requests language runtime initial s run
    by (rule gives_mono [OF empty_rounds [OF assms that]]) (simp add: good_run_def split: option.splits)
  then show ?thesis unfolding run_suite_def Let_def
    by (intro languages_give measure_gives) (auto intro: empty_case [OF assms] simp: empty_run_def)
qed

lemma scenario_rates:
  assumes "s \<in> set (scenarios_of c)" "c \<in> set (summarise_results rs)"
  obtains zs where "zs \<noteq> []" "set zs \<subseteq> set rs" "ss_rps s = summarise_metric (map (\<lambda>r. nm_rps (sr_network r)) zs)"
proof -
  obtain k where c: "c = case_summary_of (k, filter (\<lambda>r. result_key r = k) rs)" using assms(2) by (rule summarise_results_cases)
  obtain l rt n where k: "k = (l, rt, n)" by (cases k)
  obtain t where "summarise_scenario (scenario_results (filter (\<lambda>r. result_key r = k) rs) t) t = Some s"
    using assms(1) by (auto simp: c k case_summary_of_def scenarios_of_def dest!: sym [of "Some s"] split: option.splits)
  then show thesis
    by (intro that [of "scenario_results (filter (\<lambda>r. result_key r = k) rs) t"])
      (auto simp: summarise_scenario_def scenario_results_def Let_def split: if_splits)
qed

lemma empty_not_comparable:
  assumes "\<forall>r \<in> set rs. fingerprint_is_empty (sr_environment r)" "c \<in> set (build_comparisons (group_case_results rs) ss b)"
  shows "\<not> cp_comparable c"
proof -
  have noted: "environment_comparability_notes x y \<noteq> []" if "fingerprint_is_empty x" for x y
    using that by (simp add: environment_comparability_notes_def Let_def)
  have mem: "r \<in> set rs" if "map_of (group_case_results rs) k = Some cr" "cr \<noteq> []" "r = hd cr" for k cr r
  proof -
    have "set cr \<subseteq> set rs" using that(1) by (auto simp: group_case_results_def dest!: map_of_SomeD)
    then show ?thesis using that(2,3) hd_in_set [of cr] by blast
  qed
  obtain x where "compare_case (group_case_results rs) ss b x = Some c"
    using assms(2) by (auto simp: build_comparisons_def List.map_filter_def)
  then show ?thesis using assms(1)
    by (auto simp: compare_case_def compare_with_def Let_def noted dest: mem split: if_splits option.splits)
qed

text \<open>C3: A suite measures nothing. It never asks the tester for the benchmark contract, so the tester prints its run record,
  in which the suite looks for figures that it does not have. Every result comes out with a rate, latencies and
  counts of zero and no environment; every case is summarised by a rate of zero of \<open>excellent\<close> quality without
  a margin, no comparison is comparable, and the report is never ready for publication.\<close>

theorem suite_measures_nothing:
  assumes "prints_run_records w"
    and "fst (run_state (run_suite fuel w deploy_local cfg settings seed os vm_size) past) = Inr (Some run)"
  shows "(\<forall>r \<in> set (sn_results run). sr_network r = nothing_measured \<and> fingerprint_is_empty (sr_environment r)) \<and>
     (\<forall>c \<in> set (ra_case_summaries (build_report b (sn_results run))). \<forall>s \<in> set (scenarios_of c).
        ms_median (ss_rps s) = 0 \<and> ms_quality_tier (ss_rps s) = ''excellent'' \<and> ms_relative_margin_of_error (ss_rps s) = 0) \<and>
     (\<forall>c \<in> set (ra_comparisons (build_report b (sn_results run))). \<not> cp_comparable c) \<and>
     \<not> ra_publication_ready (build_report b (sn_results run))"
proof -
  define rs where "rs = sn_results run"
  have empty: "\<forall>r \<in> set rs. sr_network r = nothing_measured \<and> fingerprint_is_empty (sr_environment r)"
    using empty_suite [OF assms(1), of fuel deploy_local cfg settings seed os vm_size, unfolded gives_def, rule_format, of past] assms(2)
    by (simp add: empty_run_def rs_def)
  show ?thesis unfolding rs_def [symmetric]
  proof (intro conjI empty)
    show "\<forall>c \<in> set (ra_case_summaries (build_report b rs)). \<forall>s \<in> set (scenarios_of c).
        ms_median (ss_rps s) = 0 \<and> ms_quality_tier (ss_rps s) = ''excellent'' \<and> ms_relative_margin_of_error (ss_rps s) = 0"
    proof (intro ballI)
      fix c s assume "c \<in> set (ra_case_summaries (build_report b rs))" "s \<in> set (scenarios_of c)"
      moreover have "ra_case_summaries (build_report b rs) = summarise_results rs"
        by (simp add: build_report_def Let_def summarise_results_def)
      ultimately obtain zs where zs: "zs \<noteq> []" "set zs \<subseteq> set rs" "ss_rps s = summarise_metric (map (\<lambda>r. nm_rps (sr_network r)) zs)"
        by (metis scenario_rates)
      have "\<forall>x \<in> set (map (\<lambda>r. nm_rps (sr_network r)) zs). x = 0" using zs(2) empty by (auto simp: nothing_measured_def)
      then show "ms_median (ss_rps s) = 0 \<and> ms_quality_tier (ss_rps s) = ''excellent'' \<and> ms_relative_margin_of_error (ss_rps s) = 0"
        using zs(1,3) zero_summary [of "map (\<lambda>r. nm_rps (sr_network r)) zs"] by simp
    qed
    show "\<forall>c \<in> set (ra_comparisons (build_report b rs)). \<not> cp_comparable c"
      using empty by (auto simp: build_report_def Let_def dest: empty_not_comparable [rotated] split: option.splits)
    show "\<not> ra_publication_ready (build_report b rs)"
    proof -
      have "concat (map (\<lambda>r. nm_phases_present (sr_network r)) rs) = []" using empty by (auto simp: nothing_measured_def)
      then have "collect_observed_phases rs = []" unfolding collect_observed_phases_def by (simp only: foldl.simps)
      then show ?thesis by (simp add: build_report_def Let_def build_recommendations_def)
    qed
  qed
qed

section \<open>Instances\<close>

definition demo_suite :: suite_config where
  "demo_suite = \<lparr>sc_name = ''s'', sc_version = ''1'', sc_baseline_language = None, sc_baseline_runtime = None, sc_total_requests = 1000,
     sc_concurrency_levels = [1], sc_repeat = 1, sc_warmup_requests = 0, sc_timeout_secs = 5, sc_endpoint = ''/health'',
     sc_method = ''GET'', sc_body = None, sc_languages = [\<lparr>le_name = ''rust'', le_runtime = ''r'', le_path = ''p'',
       le_build_cmd = ''b'', le_run_cmd = ''c'', le_port = 8443, le_docker_image = None\<rparr>]\<rparr>"

definition demo_settings :: rerun_settings where
  "demo_settings = \<lparr>rs_target_repeat_count = 3, rs_max_additional_repeats = 2, rs_max_relative_margin = 1\<rparr>"

text \<open>Every command answers \<open>1024\<close>, which reads as whatever the suite looks for; the tester prints an empty record.\<close>

definition suite_world :: world where
  "suite_world = demo_world\<lparr>wd_cli := \<lambda>p. Inr ''1024'', wd_exists := \<lambda>p. True, wd_tester := \<lambda>p. Succeeded ''{}'',
     wd_json := \<lambda>s. Inr (if s = ''1024'' then ObjV [(''status'', StrV ''ok''), (''publicIps'', StrV ''192.0.2.1''),
       (''bytes_received'', NatV 1024)] else ObjV [])\<rparr>"

definition deploys :: "vm_info \<Rightarrow> string \<Rightarrow> (string + unit) script" where
  "deploys vm language = done_with (Inr ())"

lemma demo_case: "length (sn_results (fst (run_state (run_case_cycle suite_world vm p binary requests language runtime c i run) past))) =
     length (sn_results run) + 2"
  by (simp add: run_case_cycle_def run_cold_warm_cycle_def run_tester_phase_def measured_output_def with_context_of_def with_context_def
    try_bind_def suite_world_def)

lemma demo_1024: "trim ''1024'' = ''1024''" "parse_u64 ''1024'' = Some 1024"
  by code_simp (simp add: parse_u64_def digit_value_def text_simps)

lemma demo_found: "\<exists>vm. fst (run_state (find_or_provision suite_world os vm_size lang) past) = Inr vm"
  by (simp add: find_or_provision_def find_existing_vm_def find_existing_vm_azure_def command_defs try_bind_def suite_world_def
    text_at_def or_default_def)

lemma demo_deployed: "le_name lang = ''rust'' \<Longrightarrow> fst (run_state (deploy_api suite_world deploys vm (le_name lang)) past) = Inr ()"
  by (simp add: deploy_api_def file_exists_def suite_world_def demo_world_def deploys_def shell_safe_name_def shell_safe_char_def text_simps)

lemma demo_valid: "fst (run_state (validate_api suite_world vm) past) = Inr ()"
  by (simp add: validate_api_def command_defs try_bind_def with_context_of_def with_context_def suite_world_def health_check_def
    download_check_def upload_check_def or_default_def demo_1024)

lemma demo_matrix: "test_matrix_with_seed None demo_suite =
    [\<lparr>tc_language = hd (sc_languages demo_suite), tc_concurrency = 1, tc_repeat_index = 0\<rparr>]"
  by (simp add: test_matrix_with_seed_def demo_suite_def)

lemma demo_measured: "\<exists>run'. fst (run_state (measure_language 4 suite_world demo_suite None
     (test_matrix_with_seed None demo_suite) vm (hd (sc_languages demo_suite)) run) past) = Some run' \<and>
   length (sn_results run') = length (sn_results run) + 2"
  by (simp add: measure_language_def demo_matrix language_cases_def Let_def demo_case)

lemma one_language:
  assumes "fst (run_state (find_or_provision w os vm_size lang) past) = Inr vm"
    and "\<And>q. fst (run_state (deploy_api w d vm (le_name lang)) q) = Inr ()" "\<And>q. fst (run_state (validate_api w vm) q) = Inr ()"
    and "\<And>q. \<exists>run'. fst (run_state (measure_language fuel w cfg settings m vm lang run) q) = Some run' \<and> P run'"
  shows "\<exists>run'. fst (run_state (run_language fuel w d cfg settings os vm_size m lang run) past) = Inr (Some run') \<and> P run'"
  by (simp add: run_language_def try_bind_def assms)

lemma demo_two: "\<exists>run. fst (run_state (run_suite 4 suite_world deploys demo_suite None None ''linux'' ''small'') []) = Inr (Some run) \<and>
     length (sn_results run) = 2"
proof -
  let ?lang = "hd (sc_languages demo_suite)" and ?m = "test_matrix_with_seed None demo_suite"
  let ?empty = "\<lparr>sn_results = [], sn_reruns = []\<rparr> :: suite_run"
  have rust: "le_name ?lang = ''rust''" by (simp add: demo_suite_def)
  have one: "unique_languages ?m = [?lang]" by (simp add: demo_matrix unique_languages_def)
  have flag: "wd_flag suite_world p = False" for p by (simp add: suite_world_def demo_world_def)
  obtain vm where vm: "fst (run_state (find_or_provision suite_world ''linux'' ''small'' ?lang) [ReadCancel]) = Inr vm"
    using demo_found by blast
  have "\<exists>run'. fst (run_state (run_language 4 suite_world deploys demo_suite None ''linux'' ''small'' ?m ?lang ?empty) [ReadCancel]) =
      Inr (Some run') \<and> length (sn_results run') = 2"
    by (rule one_language [OF vm demo_deployed [OF rust] demo_valid]) (use demo_measured [of _ ?empty] in \<open>simp add: numeral_2_eq_2\<close>)
  then show ?thesis by (auto simp: run_suite_def one try_bind_def read_cancel_def flag Let_def)
qed

theorem reruns_end_witness:
  "fst (run_state (run_suite 4 suite_world deploys demo_suite (Some demo_settings) None ''linux'' ''small'') []) \<noteq> Inr None"
  using reruns_end [of demo_suite demo_settings 4 suite_world deploys None "''linux''" "''small''" "[]"]
  by (auto simp: demo_suite_def demo_settings_def split: sum.splits option.splits)

theorem suite_measures_nothing_witness:
  "\<exists>run. fst (run_state (run_suite 4 suite_world deploys demo_suite None None ''linux'' ''small'') []) = Inr (Some run) \<and>
     length (sn_results run) = 2 \<and> (\<forall>r \<in> set (sn_results run). sr_network r = nothing_measured)"
proof -
  have records: "prints_run_records suite_world"
    by (auto simp: prints_run_records_def suite_world_def is_run_record_def split: if_splits)
  have "\<exists>run. fst (run_state (run_suite 4 suite_world deploys demo_suite None None ''linux'' ''small'') []) = Inr (Some run) \<and>
     length (sn_results run) = 2"
    by (rule demo_two)
  then show ?thesis using suite_measures_nothing [OF records] by blast
qed

end
