(* ===== verification/Spec2Isabelle.thy ===== *)
theory Spec2Isabelle
  imports Sdk_Properties Stamp_Properties Udp_Properties Pmtud_Properties Probe_Properties
    Log_Properties Log_Query_Properties Benchmark_Properties Shape_Properties Clock_Properties
    Echo_Properties Path_Properties Connect_Properties Campaign_Properties Dispatch_Properties
    Rpm_Properties Responsiveness_Properties Mthroughput_Properties Throughput_Properties
    Endpoint_Properties Orch_Properties Orch_Report_Properties Orch_Suite_Properties
begin

text \<open>
  A verification library for a network diagnostics platform written in Rust.

  \<^bold>\<open>The program.\<close> The repository measures networks. A \<open>tester\<close> (\<open>crates/networker-tester\<close>)
  sends probes of many protocols to a target, turns what comes back into attempt records and
  statistics, and repeats its probes under an adaptive stop rule when it benchmarks. An
  \<open>endpoint\<close> (\<open>crates/networker-endpoint\<close>) is the other side of the probes that need one: it
  reflects STAMP packets, serves the UDP throughput protocol and answers HTTP requests. An embeddable endpoint
  (\<open>sdk/rust\<close>) is the same idea as a library that a host service mounts in its own HTTP server,
  so it must be invisible without a token and must never use more than its caps. An \<open>orchestrator\<close>
  (\<open>benchmarks/orchestrator\<close>) makes machines in three clouds, puts servers and proxies on them and
  lets the tester measure them. The crates
  log through a pipeline (\<open>crates/networker-log\<close>) that batches entries into PostgreSQL.

  \<^bold>\<open>Theories and sources.\<close> Every component has a theory of definitions, in the order of the
  code, and its properties are in the theory named \<open>_Properties\<close>; the properties carry the
  identifiers C1, C2, \<dots>.

  \<^item> \<open>Prelude\<close>, \<open>F64\<close>, \<open>Text\<close>: machine integers, buffers in both byte orders, saturating
    arithmetic and time; floating point; Rust's \<open>str\<close>. What the components need of rounding is
    the locale \<open>rounding\<close>, of a fixed-width wire format the locale of codecs in \<open>Prelude\<close>.
  \<^item> \<open>Sdk_Config\<close>, \<open>Sdk_Rate\<close>, \<open>Sdk_Concurrency\<close>, \<open>Sdk_Timing\<close>, \<open>Sdk_Response\<close>, \<open>Sdk_Service\<close>
    model \<open>sdk/rust/src\<close>: \<open>config.rs\<close> (the builder and its validation), \<open>limits.rs\<close> (token buckets,
    the per-address table, permits, the byte budget), \<open>timing.rs\<close> and \<open>body.rs\<close>, \<open>error.rs\<close> and
    \<open>resp.rs\<close>, \<open>state.rs\<close> and \<open>service.rs\<close>. The state is the record \<open>sdk_state\<close>, shared between
    threads in the source; \<open>handle\<close> is one request, and dropping a response gives its permit
    back. \<open>pc_step\<close> splits a permit into its atomic loads and compare-exchanges, so that the
    caps are also shown for every interleaving. \<open>Sdk_Contract\<close> collects what a host may rely on.
  \<^item> \<open>Stamp_Reflector\<close> models \<open>crates/networker-endpoint/src/stamp.rs\<close> and \<open>Stamp_Sender\<close> models
    \<open>runner/stamp.rs\<close>: packets, the sessions of the reflector, the send train and the crediting
    of replies to probes.
  \<^item> \<open>Udp_Server\<close> models \<open>crates/networker-endpoint/src/udp_throughput.rs\<close> and \<open>Udp_Client\<close>
    models \<open>runner/udp_throughput.rs\<close>. The two are composed over a path given by its events.
  \<^item> \<open>Pmtud\<close> and \<open>Pmtud_Search\<close> model \<open>runner/pmtud.rs\<close>: the binary search, written once
    against a classifier of sizes, and the Linux and the portable way to classify. The contracts
    of the search are locales over the classifier, interpreted on both.
  \<^item> \<open>Probe\<close>, \<open>Stats\<close>, \<open>Metric\<close>, \<open>Cpu\<close>, \<open>Baseline\<close>, \<open>Shape\<close>, \<open>Clock\<close> model the tester's
    \<open>metrics.rs\<close> (protocols, attempts, percentiles, aggregates, loss patterns, primary metric,
    CPU counters), \<open>baseline.rs\<close>, \<open>stats_shape.rs\<close> and \<open>clock_sync.rs\<close>.
  \<^item> \<open>Formats\<close>: addresses, formatted numbers and the operations of the URL crate.
    \<open>Echo\<close> models \<open>runner/udp.rs\<close> with the endpoint's \<open>udp_echo.rs\<close> and \<open>pktinfo_socket.rs\<close>,
    \<open>Ping\<close> models \<open>runner/ping.rs\<close>, \<open>Path\<close> models \<open>runner/path.rs\<close>,
    \<open>Dualstack\<close> and \<open>Websocket\<close> model \<open>runner/dualstack.rs\<close> and \<open>runner/websocket.rs\<close>. What UDP,
    ICMP and WebSocket echoes share is the locale \<open>echo_train\<close>, interpreted on all three.
  \<^item> \<open>H3_Offer\<close> models \<open>runner/h3_offer.rs\<close> and \<open>http_stacks.rs\<close>, \<open>Dispatch\<close> models \<open>dispatch.rs\<close>:
    what every mode calls with which settings, the pre-flight, the cap of the short modes.
    \<open>Campaign\<close> models the run of \<open>target_runner.rs\<close> around the loops of \<open>Benchmark_Run\<close>: tasks,
    bursts with retries, groups that complete in any order, phases, tags and counts.
  \<^item> \<open>Load_Gen\<close> models \<open>runner/load_gen.rs\<close>, shared by \<open>Rpm\<close> (\<open>runner/rpm.rs\<close>), \<open>Responsiveness\<close> and
    \<open>Mthroughput\<close> (the files of the same names); \<open>Throughput\<close> models \<open>runner/throughput.rs\<close>. The
    controllers of the ramps are folds over ticks, each with the counters it reads, the outcome
    of the connections it opens and the clock; the echo trains of \<open>Rpm\<close> interpret \<open>echo_train\<close> too.
  \<^item> \<open>Benchmark\<close> and \<open>Benchmark_Run\<close> model \<open>stats_rng.rs\<close>, \<open>benchmark.rs\<close> and the phases of
    \<open>target_runner.rs\<close>: the generator, the bootstrap, the stop rule, the plan made of a pilot,
    and the loops that ask the rule after every iteration.
  \<^item> \<open>Log_Types\<close>, \<open>Log_Batch\<close>, \<open>Log_Pipeline\<close>, \<open>Log_Query\<close> model \<open>crates/networker-log/src\<close>:
    levels, entries and counters, the batch writer, the tracing layer with its bounded channel
    and shutdown as the step relation \<open>pipeline_step\<close>, and the SQL of the queries.
  \<^item> \<open>Endpoint_Http\<close>, \<open>Endpoint_Routes\<close>, \<open>Endpoint_Api\<close>, \<open>Endpoint_Router\<close> model the endpoint's
    \<open>routes.rs\<close>: requests, responses and the two layers, every handler, the benchmark API over
    its data set, and the router that picks a handler or answers 404 and 405.
    \<open>Endpoint_H3\<close> models \<open>http3_server.rs\<close>, which serves the same paths once more by hand.
  \<^item> \<open>Orch_World\<close>, \<open>Orch_Config\<close>, \<open>Orch_Provision\<close>, \<open>Orch_Remote\<close>, \<open>Orch_Cycle\<close> model
    \<open>benchmarks/orchestrator/src\<close>: scripts over a record of everything the environment may answer,
    depending on all actions so far; \<open>config.rs\<close>; \<open>provisioner.rs\<close>, \<open>reaper.rs\<close> and \<open>vm_tiers.rs\<close>;
    \<open>executor/ssh_exec.rs\<close>, \<open>executor/vm.rs\<close>, \<open>token_manager.rs\<close>, \<open>workloads.rs\<close> and the remote half of
    \<open>deployer.rs\<close>; \<open>tester_state.rs\<close>, \<open>executor/status.rs\<close>, \<open>executor/benchmark.rs\<close> and
    \<open>executor/cycle.rs\<close> from one language to the whole sweep. The texts of log lines and messages are left out.
  \<^item> \<open>Orch_Report\<close> and \<open>Orch_Suite\<close> model the orchestrator's other way to run, a suite: \<open>types.rs\<close>,
    \<open>reporter/stats.rs\<close>, \<open>reporter/assembly.rs\<close> and \<open>reporter/comparison.rs\<close> make a report of
    results; \<open>runner.rs\<close>, \<open>collector.rs\<close> and the loops of \<open>main.rs\<close> make the results, reruns included.

  \<^bold>\<open>What is shown.\<close> For the embeddable endpoint: no order of requests and dropped responses
  breaks the caps, the table bound or the budget, and no permit leaks; without a configured
  token every answer is the bare 404; downloads and uploads are exact to the byte; rate and
  budget are bounded over time. For the probes: a reading is credited to the probe that was sent,
  the reflector counts per sender, transfers report what arrived and nothing twice, a path
  MTU is exact on a path that tells the truth and backed by evidence on any other. For the
  statistics: figures lie within the sample they describe, percentages within 0 and 100, the
  stop rule means what its reasons say, and a warning about modes is backed by a histogram.
  For a run: it implements the abstract benchmark, an iteration publishes every sample of every
  task once in any completion order, of every sample the first try that succeeds, the counts
  are those of the tags, and every task comes back from dispatch. For the echo probes: an
  echo is credited to the probe it names, the ICMP checksum verifies, no hop is invented.
  Under load: a direction is called saturated exactly when the stability rule held, figures rest
  on answered probes, and transfers succeed with exactly the bytes asked for.
  For the endpoint: with a token configured nothing but the health page answers without it, a
  download streams exactly the bytes asked for and an upload reports exactly the bytes that
  arrived, the search ranks every match once, and the HTTP/3 server agrees with the router
  where it serves the same thing.
  For the orchestrator: the lock of a tester is given back exactly as often as it was granted, also
  after a panic at any point, and stays exclusive between configurations; what is put into a shell
  command is data; an address is accepted exactly when it is public or the machine is not in a
  cloud; a matrix counts every combination; and the cases of a suite are each there once. The reruns
  of a suite end whatever its cases give; its summaries stay within their samples in any order of the launches, and
  its margins agree with the tester's stop rule.
  For the log: everything accepted is accounted for in order and flushed by shutdown, every
  placeholder of an SQL text names its own parameter, and a search is for the literal text.
  Some properties show a flaw: the plain baseline is not sorted, a fixed-count benchmark counts
  samples instead of runs, the replies of a path-MTU probe are not read, a ping train of
  more than 65536 probes loses all the later ones, a download that hangs counts as load, a
  capacity called saturated may have been measured within the ramp, the HTTP/3 listener asks
  for no token, a sweep that was only queued is reported as completed, machines of Amazon's and
  Google's clouds are never torn down, the reaper deletes machines in use, the validation of a
  deployed server accepts none, a suite does not ask the tester for the figures it reads and reports
  zeros of excellent quality, a report does not look at errors, and the aggregate of a data set of
  fewer than five points panics.

  \<^bold>\<open>Conventions.\<close> A struct is a record whose fields carry a prefix, an enum a datatype, a
  fixed-width integer a word. Results are sums, \<open>Inl\<close> the error where the source has \<open>Err\<close>,
  and options. Clocks, sockets, the resolver, the environment and the database are inputs: a
  step takes what it read, so a run is a list of inputs and a theorem about every list is
  one about every behaviour of the network. A cryptographic comparison, JSON serialisation, header
  validity and a random number are parameters, with what the code relies on as named hypotheses.

  \<^bold>\<open>Bounds and loops.\<close> Loops are structural recursions or functions with a measure. The
  polls of the orchestrator that end by a deadline carry a count: each sleeps before the next, so 62 polls
  of 5 seconds reach past 300 seconds and 32 polls of 2 seconds past 60, and the count ends
  them with the error of the deadline. The rounds of reruns carry a count too, whose end is the value \<open>None\<close>; more
  rounds than concurrencies times all repeats of a case do not happen, which is \<open>reruns_end\<close>. No other loop is cut off. The search for the path MTU halves an interval, the adaptive loop counts up to a
  32-bit number of runs, the drain of the log shortens a queue. Where the source's loop ends
  only because floating-point numbers behave, the scan of \<open>Shape\<close>, it is \<open>while_option\<close> and
  its end is a theorem. A hypothesis such as \<open>length xs < 2 ^ 31\<close> keeps counts within \<open>u32\<close>.

  \<^bold>\<open>Floating point.\<close> \<open>fl\<close> rounds a real to 53 significant bits, ties to even, without a bound
  on the exponent: overflow and subnormal numbers, which the modelled quantities do not reach,
  are left out, and NaN and infinities appear only where the source filters them.

  \<^bold>\<open>Not modelled.\<close> The runners that drive HTTP, TLS, DNS, browsers and the like are
  sequences of calls into third-party protocol stacks. The outputs (JSON, Excel, HTML,
  database schema), the command line, packet capture, the landing pages of the endpoint, its
  set-up of TLS and QUIC listeners, the pages and charts of the orchestrator's reports, its command line and its
  deployment from local files are serialisation, input and output. Thread scheduling
  other than the interleavings of permits, poisoned locks, panics outside the orchestrator's matrix
  and the asynchronous runtime
  are not modelled, nor is the Windows module of path-MTU discovery.
\<close>

end
